(* ===== verification/Prelude.thy ===== *)
theory Prelude
  imports Main "HOL-Library.Char_ord" "HOL-Library.List_Lexorder" "HOL-Library.Product_Lexorder"
    "HOL-Library.Multiset"
begin

text \<open>
  Shared vocabulary of the development: the text functions of Python's \<open>str\<close> the
  program uses, database tables as lists of rows, loops that stop at the first
  exception, and the lemmas about them that every component uses.

  A character is a code point below 256.  Case conversion and white space are modelled on
  the ASCII range, where the identifiers, codes and serial numbers of the program live;
  characters from 128 on are left alone by case conversion.
\<close>

named_theorems table_simps \<open>rewrite rules for tables (lists of rows)\<close>
named_theorems loop_rules \<open>invariant rules for loops that may raise\<close>

section \<open>Characters in evaluation\<close>

text \<open>
  Evaluation of a character's code, or of the character of a code, by its eight bits: the code
  equations of the library go through generic bit operations, which cost seconds per evaluation.
\<close>

definition byte_char :: "nat \<Rightarrow> char" where
  "byte_char n = Char (n mod 2 = 1) (n div 2 mod 2 = 1) (n div 4 mod 2 = 1) (n div 8 mod 2 = 1)
     (n div 16 mod 2 = 1) (n div 32 mod 2 = 1) (n div 64 mod 2 = 1) (n div 128 mod 2 = 1)"

fun char_code :: "char \<Rightarrow> nat" where
  "char_code (Char b0 b1 b2 b3 b4 b5 b6 b7) =
     (if b0 then 1 else 0) + (if b1 then 2 else 0) + (if b2 then 4 else 0) + (if b3 then 8 else 0) +
     (if b4 then 16 else 0) + (if b5 then 32 else 0) + (if b6 then 64 else 0) + (if b7 then 128 else 0)"

lemma char_of_byte [code_unfold]: "char_of = byte_char"
  by (rule ext) (simp add: char_of_def byte_char_def bit_iff_odd odd_iff_mod_2_eq_one)

lemma of_char_code [code_unfold]: "of_char = char_code"
proof
  fix c :: char
  show "of_char c = char_code c" by (cases c) (simp add: of_char_def)
qed

section \<open>Text\<close>

definition py_space :: "char \<Rightarrow> bool" where
  "py_space c = (let n = of_char c :: nat in (9 \<le> n \<and> n \<le> 13) \<or> (28 \<le> n \<and> n \<le> 32) \<or> n = 133 \<or> n = 160)"

definition char_upper :: "char \<Rightarrow> char" where
  "char_upper c = (let n = of_char c :: nat in if 97 \<le> n \<and> n \<le> 122 then char_of (n - 32) else c)"

definition char_lower :: "char \<Rightarrow> char" where
  "char_lower c = (let n = of_char c :: nat in if 65 \<le> n \<and> n \<le> 90 then char_of (n + 32) else c)"

definition is_digit :: "char \<Rightarrow> bool" where
  "is_digit c = (let n = of_char c :: nat in 48 \<le> n \<and> n \<le> 57)"

definition is_upper_letter :: "char \<Rightarrow> bool" where
  "is_upper_letter c = (let n = of_char c :: nat in 65 \<le> n \<and> n \<le> 90)"

definition py_strip_by :: "(char \<Rightarrow> bool) \<Rightarrow> string \<Rightarrow> string" where
  "py_strip_by p s = rev (dropWhile p (rev (dropWhile p s)))"

abbreviation py_strip :: "string \<Rightarrow> string" where
  "py_strip s \<equiv> py_strip_by py_space s"

definition py_upper :: "string \<Rightarrow> string" where
  "py_upper s = map char_upper s"

definition py_lower :: "string \<Rightarrow> string" where
  "py_lower s = map char_lower s"

text \<open>\<open>s.split()\<close>: maximal runs of non-space characters; \<open>" ".join(xs)\<close>.\<close>

fun py_split_acc :: "string \<Rightarrow> string \<Rightarrow> string list" where
  "py_split_acc acc [] = (if acc = [] then [] else [rev acc])"
| "py_split_acc acc (c # cs) =
     (if py_space c then (if acc = [] then py_split_acc [] cs else rev acc # py_split_acc [] cs)
      else py_split_acc (c # acc) cs)"

definition py_split :: "string \<Rightarrow> string list" where
  "py_split s = py_split_acc [] s"

text \<open>\<open>s.split(sep)\<close> for a one-character separator.\<close>

fun py_split_on :: "char \<Rightarrow> string \<Rightarrow> string list" where
  "py_split_on d [] = [[]]"
| "py_split_on d (c # cs) =
     (if c = d then [] # py_split_on d cs
      else (case py_split_on d cs of [] \<Rightarrow> [[c]] | p # ps \<Rightarrow> (c # p) # ps))"

fun py_join :: "string \<Rightarrow> string list \<Rightarrow> string" where
  "py_join sep [] = []"
| "py_join sep [x] = x"
| "py_join sep (x # y # ys) = x @ sep @ py_join sep (y # ys)"

definition starts_with :: "string \<Rightarrow> string \<Rightarrow> bool" where
  "starts_with pre s = (take (length pre) s = pre)"

text \<open>\<open>s.replace(old, new)\<close> for a non-empty \<open>old\<close>; \<open>skip\<close> characters belong to the last hit.\<close>

fun replace_from :: "string \<Rightarrow> string \<Rightarrow> nat \<Rightarrow> string \<Rightarrow> string" where
  "replace_from old new skip [] = []"
| "replace_from old new (Suc k) (c # cs) = replace_from old new k cs"
| "replace_from old new 0 (c # cs) =
     (if starts_with old (c # cs) then new @ replace_from old new (length old - 1) cs
      else c # replace_from old new 0 cs)"

definition py_replace :: "string \<Rightarrow> string \<Rightarrow> string \<Rightarrow> string" where
  "py_replace old new s = replace_from old new 0 s"

text \<open>
  \<open>LIKE\<close> of SQLite: \<open>%\<close> stands for any text, \<open>_\<close> for any character, and the case of
  ASCII letters does not matter.
\<close>

fun sql_like :: "string \<Rightarrow> string \<Rightarrow> bool" where
  "sql_like [] s = (s = [])"
| "sql_like (p # ps) s =
     (if p = CHR ''%'' then list_ex (\<lambda>n. sql_like ps (drop n s)) [0..<Suc (length s)]
      else (case s of [] \<Rightarrow> False
        | c # cs \<Rightarrow> (p = CHR ''_'' \<or> char_lower p = char_lower c) \<and> sql_like ps cs))"

text \<open>\<open>x.strip() if x else None\<close> on an optional text.\<close>

definition strip_or_none :: "string option \<Rightarrow> string option" where
  "strip_or_none x = (case x of None \<Rightarrow> None | Some s \<Rightarrow> if s = [] then None else Some (py_strip s))"

text \<open>Decimal digits: \<open>str(n)\<close> and zero padding \<open>f"{n:0wd}"\<close>.\<close>

definition digit_char :: "nat \<Rightarrow> char" where
  "digit_char d = char_of (48 + d)"

fun nat_str :: "nat \<Rightarrow> string" where
  "nat_str n = (if n < 10 then [digit_char n] else nat_str (n div 10) @ [digit_char (n mod 10)])"

declare nat_str.simps [simp del]

definition zero_pad :: "nat \<Rightarrow> nat \<Rightarrow> string" where
  "zero_pad w n = (let s = nat_str n in replicate (w - length s) (CHR ''0'') @ s)"

definition digit_val :: "char \<Rightarrow> nat" where
  "digit_val c = of_char c - 48"

definition parse_nat :: "string \<Rightarrow> nat" where
  "parse_nat s = foldl (\<lambda>n c. 10 * n + digit_val c) 0 s"

text \<open>Evaluation writes a natural number that comes from an integer by binary arithmetic.\<close>

function int_digits :: "int \<Rightarrow> string" where
  "int_digits z = (if z < 10 then [digit_char (nat z)] else int_digits (z div 10) @ [digit_char (nat (z mod 10))])"
  by pat_completeness auto
termination by (relation "measure nat") auto

declare int_digits.simps [simp del]

lemma nat_str_int: "0 \<le> z \<Longrightarrow> nat_str (nat z) = int_digits z"
proof (induction z rule: int_digits.induct)
  case (1 z)
  then show ?case
    by (subst nat_str.simps, subst int_digits.simps) (auto simp: nat_div_distrib nat_mod_distrib nat_less_iff)
qed

lemma nat_str_nat [code_unfold]: "nat_str (nat z) = int_digits (max 0 z)"
  by (cases "0 \<le> z") (auto simp flip: nat_str_int)

lemma zero_pad_nat [code_unfold]:
  "zero_pad w (nat z) = (let s = int_digits (max 0 z) in replicate (w - length s) (CHR ''0'') @ s)"
  by (simp only: zero_pad_def nat_str_nat)

lemma digit_char_props [simp]:
  assumes "d < 10"
  shows "of_char (digit_char d) = 48 + d" "is_digit (digit_char d)" "digit_val (digit_char d) = d"
  using assms by (simp_all add: digit_char_def is_digit_def digit_val_def Let_def)

lemma nat_str_not_Nil [simp]: "nat_str n \<noteq> []"
  by (subst nat_str.simps) simp

lemma nat_str_digits: "list_all is_digit (nat_str n)"
proof (induction n rule: nat_str.induct)
  case (1 n)
  then show ?case by (subst nat_str.simps) simp
qed

text \<open>\<open>f"{n:,}"\<close>: groups of three digits.\<close>

fun with_commas :: "nat \<Rightarrow> string" where
  "with_commas n = (if n < 1000 then nat_str n else with_commas (n div 1000) @ '','' @ zero_pad 3 (n mod 1000))"

declare with_commas.simps [simp del]

lemma parse_nat_append: "parse_nat (s @ [c]) = 10 * parse_nat s + digit_val c"
  by (simp add: parse_nat_def)

lemma parse_nat_str [simp]: "parse_nat (nat_str n) = n"
proof (induction n rule: nat_str.induct)
  case (1 n)
  show ?case
  proof (cases "n < 10")
    case True
    then show ?thesis by (subst nat_str.simps) (simp add: parse_nat_def)
  next
    case False
    with 1 have "parse_nat (nat_str (n div 10)) = n div 10" by simp
    with False show ?thesis by (subst nat_str.simps) (simp add: parse_nat_append)
  qed
qed

lemma parse_nat_zeros [simp]: "parse_nat (replicate k (CHR ''0'') @ s) = parse_nat s"
  by (induction k) (simp_all add: parse_nat_def digit_val_def)

lemma parse_zero_pad [simp]: "parse_nat (zero_pad w n) = n"
  by (simp add: zero_pad_def Let_def)

lemma zero_pad_inj [simp]: "zero_pad w m = zero_pad w n \<longleftrightarrow> m = n"
  by (metis parse_zero_pad)

lemma zero_pad_digits: "list_all is_digit (zero_pad w n)"
  by (simp add: zero_pad_def Let_def nat_str_digits list_all_iff is_digit_def)
     (use nat_str_digits [of n] in \<open>auto simp: list_all_iff is_digit_def Let_def\<close>)

lemma zero_pad_not_Nil [simp]: "zero_pad w n \<noteq> []"
  by (simp add: zero_pad_def Let_def)

subsection \<open>Normal forms of text\<close>

lemma sql_like_any: "sql_like ''%'' s"
  by (auto simp: list_ex_iff simp del: upt_Suc intro: bexI [of _ "length s"])

lemma sql_like_prefix_self: "sql_like (p @ ''%'') (p @ s)"
proof (induction p)
  case Nil
  show ?case using sql_like_any by simp
next
  case (Cons c p)
  then show ?case
    by (auto simp: list_ex_iff simp del: upt_Suc intro: bexI [of _ "1::nat"])
qed

lemma char_upper_idem [simp]: "char_upper (char_upper c) = char_upper c"
  by (auto simp: char_upper_def Let_def)

lemma py_space_upper [simp]: "py_space (char_upper c) = py_space c"
  by (auto simp: char_upper_def py_space_def Let_def)

lemma py_upper_idem [simp]: "py_upper (py_upper s) = py_upper s"
  by (simp add: py_upper_def)

lemma dropWhile_idem [simp]: "dropWhile p (dropWhile p xs) = dropWhile p xs"
  by (induction xs) auto

lemma dropWhile_eq_self: "xs = [] \<or> \<not> p (hd xs) \<Longrightarrow> dropWhile p xs = xs"
  by (cases xs) auto

lemma dropWhile_hd: "dropWhile p xs \<noteq> [] \<Longrightarrow> \<not> p (hd (dropWhile p xs))"
  by (induction xs) auto

lemma py_strip_by_last: "py_strip_by p s \<noteq> [] \<Longrightarrow> \<not> p (last (py_strip_by p s))"
  unfolding py_strip_by_def by (metis dropWhile_hd last_rev rev_is_Nil_conv rev_rev_ident)

lemma rev_dropWhile_rev_prefix: "\<exists>zs. xs = rev (dropWhile p (rev xs)) @ zs"
  by (metis rev_append rev_rev_ident takeWhile_dropWhile_id)

lemma py_strip_by_hd: "py_strip_by p s \<noteq> [] \<Longrightarrow> \<not> p (hd (py_strip_by p s))"
proof -
  assume ne: "py_strip_by p s \<noteq> []"
  obtain zs where zs: "dropWhile p s = py_strip_by p s @ zs"
    unfolding py_strip_by_def using rev_dropWhile_rev_prefix [of "dropWhile p s" p] by blast
  with ne have "dropWhile p s \<noteq> []" by auto
  then have "\<not> p (hd (dropWhile p s))" by (rule dropWhile_hd)
  with ne zs show ?thesis by simp
qed

lemma py_strip_by_idem [simp]: "py_strip_by p (py_strip_by p s) = py_strip_by p s"
proof (cases "py_strip_by p s = []")
  case True
  then show ?thesis by (metis dropWhile.simps(1) py_strip_by_def rev.simps(1))
next
  case False
  let ?t = "py_strip_by p s"
  have "dropWhile p ?t = ?t"
    using False py_strip_by_hd by (intro dropWhile_eq_self) blast
  moreover have "dropWhile p (rev ?t) = rev ?t"
    using False py_strip_by_last [of p s] by (intro dropWhile_eq_self) (simp add: hd_rev)
  ultimately show ?thesis by (subst py_strip_by_def) simp
qed

lemma py_strip_by_length: "length (py_strip_by p s) \<le> length s"
  unfolding py_strip_by_def using length_dropWhile_le order_trans by (metis length_rev)

lemma dropWhile_map_eq:
  "(\<And>x. p (f x) = p x) \<Longrightarrow> dropWhile p (map f xs) = map f (dropWhile p xs)"
  by (induction xs) auto

lemma py_strip_upper: "py_strip (py_upper s) = py_upper (py_strip s)"
  by (simp add: py_strip_by_def py_upper_def dropWhile_map_eq rev_map)

lemma py_strip_Nil [simp]: "py_strip_by p [] = []"
  by (simp add: py_strip_by_def)

lemma py_upper_Nil_iff [simp]: "py_upper s = [] \<longleftrightarrow> s = []"
  by (simp add: py_upper_def)

lemma py_upper_length [simp]: "length (py_upper s) = length s"
  by (simp add: py_upper_def)

lemma sorted_le_last:
  fixes x :: "'a::linorder"
  shows "sorted xs \<Longrightarrow> x \<in> set xs \<Longrightarrow> x \<le> last xs"
  by (induction xs) auto

section \<open>Tables\<close>

text \<open>
  A table is the list of its rows in the order of their primary keys, which are natural
  numbers.  \<open>db.get\<close> and a unique \<open>select\<close> are \<open>find\<close>; an
  \<open>update ... where\<close> is \<open>upd_rows\<close>, whose \<open>rowcount\<close> is \<open>count_rows\<close>; a new
  row takes the next key as SQLite gives it out (the largest key plus one).
\<close>

definition upd_rows :: "('r \<Rightarrow> bool) \<Rightarrow> ('r \<Rightarrow> 'r) \<Rightarrow> 'r list \<Rightarrow> 'r list" where
  "upd_rows p f rows = map (\<lambda>r. if p r then f r else r) rows"

definition count_rows :: "('r \<Rightarrow> bool) \<Rightarrow> 'r list \<Rightarrow> nat" where
  "count_rows p rows = length (filter p rows)"

definition next_id :: "('r \<Rightarrow> nat) \<Rightarrow> 'r list \<Rightarrow> nat" where
  "next_id key rows = Suc (foldr (\<lambda>r m. max (key r) m) rows 0)"

lemma upd_rows_Nil [table_simps, simp]: "upd_rows p f [] = []"
  by (simp add: upd_rows_def)

lemma upd_rows_Cons [table_simps]: "upd_rows p f (r # rs) = (if p r then f r else r) # upd_rows p f rs"
  by (simp add: upd_rows_def)

lemma upd_rows_length [table_simps, simp]: "length (upd_rows p f rows) = length rows"
  by (simp add: upd_rows_def)

lemma map_upd_rows [table_simps]:
  "(\<And>r. p r \<Longrightarrow> g (f r) = g r) \<Longrightarrow> map g (upd_rows p f rows) = map g rows"
  by (induction rows) (auto simp: upd_rows_def)

lemma set_upd_rows: "set (upd_rows p f rows) = {if p r then f r else r |r. r \<in> set rows}"
  by (auto simp: upd_rows_def)

lemma upd_rows_twice:
  "(\<And>r. p (f r) = p r) \<Longrightarrow> upd_rows p g (upd_rows p f rows) = upd_rows p (\<lambda>r. g (f r)) rows"
  by (induction rows) (auto simp: upd_rows_def)

lemma ball_upd_rows [table_simps, simp]:
  "(\<forall>r \<in> set (upd_rows p f rows). P r) \<longleftrightarrow> (\<forall>r \<in> set rows. P (if p r then f r else r))"
  by (auto simp: upd_rows_def)

lemma find_upd_rows [table_simps]:
  assumes "\<And>r. p r \<Longrightarrow> key (f r) = key r"
  shows "find (\<lambda>r. key r = k) (upd_rows p f rows) =
    map_option (\<lambda>r. if p r then f r else r) (find (\<lambda>r. key r = k) rows)"
  using assms by (induction rows) (auto simp: upd_rows_def)

lemma find_append [table_simps]:
  "find p (xs @ ys) = (case find p xs of None \<Rightarrow> find p ys | Some x \<Rightarrow> Some x)"
  by (induction xs) auto

lemma find_SomeD: "find p xs = Some x \<Longrightarrow> x \<in> set xs \<and> p x"
  by (induction xs) (auto split: if_splits)

lemma find_key_distinct:
  assumes "distinct (map key rows)" "r \<in> set rows"
  shows "find (\<lambda>x. key x = key r) rows = Some r"
  using assms by (induction rows) (auto split: if_splits)

lemma key_le_foldr_max: "r \<in> set rows \<Longrightarrow> key r \<le> foldr (\<lambda>r m. max (key r) m) rows (0::nat)"
  by (induction rows) (auto simp: le_max_iff_disj)

lemma next_id_fresh: "r \<in> set rows \<Longrightarrow> key r < next_id key rows"
  by (simp add: next_id_def key_le_foldr_max less_Suc_eq_le)

lemma next_id_notin: "next_id key rows \<notin> key ` set rows"
  using next_id_fresh by (metis imageE less_irrefl)

lemma next_id_pos [simp]: "0 < next_id key rows"
  by (simp add: next_id_def)

lemma distinct_snoc_next_id:
  "distinct (map key rows) \<Longrightarrow> key r = next_id key rows \<Longrightarrow> distinct (map key (rows @ [r]))"
  using next_id_notin [of key rows] by auto

lemma count_rows_zero_iff: "count_rows p rows = 0 \<longleftrightarrow> (\<forall>r \<in> set rows. \<not> p r)"
  by (simp add: count_rows_def filter_empty_conv)

lemma count_rows_key:
  assumes "distinct (map key rows)"
  shows "count_rows (\<lambda>r. key r = k \<and> p r) rows =
    (case find (\<lambda>r. key r = k) rows of None \<Rightarrow> 0 | Some r \<Rightarrow> if p r then 1 else 0)"
  using assms
proof (induction rows)
  case Nil
  then show ?case by (simp add: count_rows_def)
next
  case (Cons r rs)
  show ?case
  proof (cases "key r = k")
    case True
    then have "filter (\<lambda>x. key x = k \<and> p x) rs = []"
      using Cons.prems by (auto simp: filter_empty_conv image_iff)
    with True show ?thesis by (simp add: count_rows_def)
  next
    case False
    with Cons show ?thesis by (simp add: count_rows_def)
  qed
qed

section \<open>Loops that stop at the first exception\<close>

text \<open>
  \<open>for x in xs: ...\<close> whose body may raise: the state is threaded through, the first
  \<open>Inl\<close> ends the loop.
\<close>

fun fold_res :: "('i \<Rightarrow> 's \<Rightarrow> 'e + 's) \<Rightarrow> 'i list \<Rightarrow> 's \<Rightarrow> 'e + 's" where
  "fold_res f [] s = Inr s"
| "fold_res f (x # xs) s = (case f x s of Inl e \<Rightarrow> Inl e | Inr s' \<Rightarrow> fold_res f xs s')"

lemma fold_res_invariant [loop_rules]:
  assumes "fold_res f xs s = Inr t" "I s"
    and "\<And>x s s'. x \<in> set xs \<Longrightarrow> I s \<Longrightarrow> f x s = Inr s' \<Longrightarrow> I s'"
  shows "I t"
  using assms
proof (induction xs arbitrary: s)
  case Nil
  then show ?case by simp
next
  case (Cons x xs)
  from Cons.prems(1) obtain s' where s': "f x s = Inr s'" "fold_res f xs s' = Inr t"
    by (auto split: sum.splits)
  with Cons.prems(2,3) have "I s'" by auto
  with Cons.IH [OF s'(2)] Cons.prems(3) show ?case by auto
qed

lemma fold_res_append:
  "fold_res f (xs @ ys) s = (case fold_res f xs s of Inl e \<Rightarrow> Inl e | Inr s' \<Rightarrow> fold_res f ys s')"
  by (induction xs arbitrary: s) (auto split: sum.splits)

lemma fold_res_frame:
  assumes "fold_res f xs s = Inr t" and "\<And>x s s'. f x s = Inr s' \<Longrightarrow> g s' = g s"
  shows "g t = g s"
  using fold_res_invariant [of f xs s t "\<lambda>u. g u = g s"] assms by auto

text \<open>Fallible steps in sequence: the next step runs on the value of the last, an exception skips the rest.\<close>

definition bind_res :: "'e + 'a \<Rightarrow> ('a \<Rightarrow> 'e + 'b) \<Rightarrow> 'e + 'b" where
  "bind_res r f = (case r of Inl e \<Rightarrow> Inl e | Inr x \<Rightarrow> f x)"

lemma bind_res_simps [simp]: "bind_res (Inl e) f = Inl e" "bind_res (Inr x) f = f x"
  by (simp_all add: bind_res_def)

lemma bind_res_Inr_iff [simp]: "bind_res r f = Inr y \<longleftrightarrow> (\<exists>x. r = Inr x \<and> f x = Inr y)"
  by (cases r) (simp_all add: bind_res_def)

text \<open>The first failing check of a list of checks: \<open>for x in xs: check(x)\<close>.\<close>

fun check_all :: "('i \<Rightarrow> 'e option) \<Rightarrow> 'i list \<Rightarrow> 'e option" where
  "check_all c [] = None"
| "check_all c (x # xs) = (case c x of Some e \<Rightarrow> Some e | None \<Rightarrow> check_all c xs)"

lemma check_all_None_iff: "check_all c xs = None \<longleftrightarrow> (\<forall>x \<in> set xs. c x = None)"
  by (induction xs) (auto split: option.splits)

lemma check_all_SomeD: "check_all c xs = Some e \<Longrightarrow> \<exists>x \<in> set xs. c x = Some e"
  by (induction xs) (auto split: option.splits)

section \<open>Machines and their invariants\<close>

text \<open>
  Every component that offers several operations on a shared state promises that each of
  them keeps the component's invariant.  What a client gets from the promise, for any
  sequence of operations, is proved once here.
\<close>

fun run_ops :: "('o \<Rightarrow> 's \<Rightarrow> 's) \<Rightarrow> 'o list \<Rightarrow> 's \<Rightarrow> 's" where
  "run_ops step [] s = s"
| "run_ops step (x # xs) s = run_ops step xs (step x s)"

locale machine =
  fixes step :: "'o \<Rightarrow> 's \<Rightarrow> 's"
    and inv :: "'s \<Rightarrow> bool"
  assumes step_inv: "inv s \<Longrightarrow> inv (step x s)"
begin

lemma run_inv: "inv s \<Longrightarrow> inv (run_ops step xs s)"
  by (induction xs arbitrary: s) (simp_all add: step_inv)

end

text \<open>A machine whose observable \<open>obs\<close> only ever grows along a preorder \<open>le\<close>.\<close>

locale monotone_machine = machine +
  fixes le :: "'s \<Rightarrow> 's \<Rightarrow> bool"
  assumes le_refl: "le s s"
    and le_trans: "le s t \<Longrightarrow> le t u \<Longrightarrow> le s u"
    and step_le: "inv s \<Longrightarrow> le s (step x s)"
begin

lemma run_le: "inv s \<Longrightarrow> le s (run_ops step xs s)"
proof (induction xs arbitrary: s)
  case Nil
  show ?case by (simp add: le_refl)
next
  case (Cons x xs)
  then show ?case using step_le step_inv le_trans by (metis run_ops.simps(2))
qed

end

end
