(* ===== verification/Models.thy ===== *)
theory Models
  imports Prelude Complex_Main
begin

text \<open>
  The data model of \<open>app/models.py\<close>: every enum is a datatype whose \<open>..._value\<close>
  function gives the stored text, every mapped class is a record with one field per column
  (the class's abbreviation in front), and the database is the record of its tables.
  Moments are integers (microseconds since the epoch, UTC), calendar dates are day
  numbers, \<open>Float\<close> columns are the rational a double denotes.  Relationship attributes
  are the queries \<open>get_...\<close> and \<open>..._items\<close> by foreign key.
\<close>

type_synonym moment = int
type_synonym day = int

datatype exc =
    InventoryError string
  | TransferError string
  | MasterSyncError string
  | ShelfVerificationError string
  | RelocationError string
  | ReceiptError string
  | ValueError string
  | AttributeError string
  | TypeError string
  | IntegrityError string
  | TallyDataError string
  | QueueFull string
  | HTTPException string

fun exc_text :: "exc \<Rightarrow> string" where
  "exc_text (InventoryError m) = m"
| "exc_text (TransferError m) = m"
| "exc_text (MasterSyncError m) = m"
| "exc_text (ShelfVerificationError m) = m"
| "exc_text (RelocationError m) = m"
| "exc_text (ReceiptError m) = m"
| "exc_text (ValueError m) = m"
| "exc_text (AttributeError m) = m"
| "exc_text (TypeError m) = m"
| "exc_text (IntegrityError m) = m"
| "exc_text (TallyDataError m) = m"
| "exc_text (QueueFull m) = m"
| "exc_text (HTTPException m) = m"

section \<open>Enumerations\<close>

datatype role = SUPER_ADMIN | ADMIN | DIRECTORS | WAREHOUSE_MANAGER | PURCHASE | SALES | AUDITOR

fun role_text :: "role \<Rightarrow> string" where
  "role_text SUPER_ADMIN = ''super_admin''"
| "role_text ADMIN = ''admin''"
| "role_text DIRECTORS = ''directors''"
| "role_text WAREHOUSE_MANAGER = ''warehouse_manager''"
| "role_text PURCHASE = ''purchase''"
| "role_text SALES = ''sales''"
| "role_text AUDITOR = ''auditor''"

fun role_name :: "role \<Rightarrow> string" where
  "role_name SUPER_ADMIN = ''SUPER_ADMIN''"
| "role_name ADMIN = ''ADMIN''"
| "role_name DIRECTORS = ''DIRECTORS''"
| "role_name WAREHOUSE_MANAGER = ''WAREHOUSE_MANAGER''"
| "role_name PURCHASE = ''PURCHASE''"
| "role_name SALES = ''SALES''"
| "role_name AUDITOR = ''AUDITOR''"

definition all_roles :: "role list" where
  "all_roles = [SUPER_ADMIN, ADMIN, DIRECTORS, WAREHOUSE_MANAGER, PURCHASE, SALES, AUDITOR]"

datatype serial_status = S_GENERATED | S_PURCHASED | S_RECEIVED | S_IN_STOCK | S_SOLD | S_RETURNED
  | S_PURCHASE_RETURN | S_ISSUED | S_AUDITED | S_DAMAGED | S_MISSING | S_INVALID | S_REPLACED
  | S_IN_TRANSIT

fun serial_status_value :: "serial_status \<Rightarrow> string" where
  "serial_status_value S_GENERATED = ''GENERATED''"
| "serial_status_value S_PURCHASED = ''PURCHASED''"
| "serial_status_value S_RECEIVED = ''RECEIVED''"
| "serial_status_value S_IN_STOCK = ''IN_STOCK''"
| "serial_status_value S_SOLD = ''SOLD''"
| "serial_status_value S_RETURNED = ''RETURNED''"
| "serial_status_value S_PURCHASE_RETURN = ''PURCHASE_RETURN''"
| "serial_status_value S_ISSUED = ''ISSUED''"
| "serial_status_value S_AUDITED = ''AUDITED''"
| "serial_status_value S_DAMAGED = ''DAMAGED''"
| "serial_status_value S_MISSING = ''MISSING''"
| "serial_status_value S_INVALID = ''INVALID''"
| "serial_status_value S_REPLACED = ''REPLACED''"
| "serial_status_value S_IN_TRANSIT = ''IN_TRANSIT''"

datatype batch_type = B_PURCHASE | B_RECEIVE | B_SALE | B_AUDIT | B_PURCHASE_RETURN | B_SALES_RETURN
  | B_ISSUE | B_QR_ASSIGNMENT

fun batch_type_value :: "batch_type \<Rightarrow> string" where
  "batch_type_value B_PURCHASE = ''PURCHASE''"
| "batch_type_value B_RECEIVE = ''RECEIVE''"
| "batch_type_value B_SALE = ''SALE''"
| "batch_type_value B_AUDIT = ''AUDIT''"
| "batch_type_value B_PURCHASE_RETURN = ''PURCHASE_RETURN''"
| "batch_type_value B_SALES_RETURN = ''SALES_RETURN''"
| "batch_type_value B_ISSUE = ''ISSUE''"
| "batch_type_value B_QR_ASSIGNMENT = ''QR_ASSIGNMENT''"

datatype gst_treatment = INTRA_STATE | INTER_STATE

fun gst_treatment_value :: "gst_treatment \<Rightarrow> string" where
  "gst_treatment_value INTRA_STATE = ''INTRA_STATE''"
| "gst_treatment_value INTER_STATE = ''INTER_STATE''"

datatype gst_registration_type = GR_UNKNOWN | GR_COMPOSITION | GR_REGULAR | GR_UNREGISTERED_CONSUMER

fun gst_registration_value :: "gst_registration_type \<Rightarrow> string" where
  "gst_registration_value GR_UNKNOWN = ''Unknown''"
| "gst_registration_value GR_COMPOSITION = ''Composition''"
| "gst_registration_value GR_REGULAR = ''Regular''"
| "gst_registration_value GR_UNREGISTERED_CONSUMER = ''Unregistered/Consumer''"

datatype transaction_type = T_PURCHASE | T_SALE | T_SALES_RETURN | T_PURCHASE_RETURN | T_ISSUE | T_AUDIT
  | T_QR_ASSIGNMENT | T_QR_REPLACEMENT | T_RELOCATION | T_TRANSFER_OUT | T_TRANSFER_IN

fun transaction_type_value :: "transaction_type \<Rightarrow> string" where
  "transaction_type_value T_PURCHASE = ''PURCHASE''"
| "transaction_type_value T_SALE = ''SALE''"
| "transaction_type_value T_SALES_RETURN = ''SALES_RETURN''"
| "transaction_type_value T_PURCHASE_RETURN = ''PURCHASE_RETURN''"
| "transaction_type_value T_ISSUE = ''ISSUE''"
| "transaction_type_value T_AUDIT = ''AUDIT''"
| "transaction_type_value T_QR_ASSIGNMENT = ''QR_ASSIGNMENT''"
| "transaction_type_value T_QR_REPLACEMENT = ''QR_REPLACEMENT''"
| "transaction_type_value T_RELOCATION = ''RELOCATION''"
| "transaction_type_value T_TRANSFER_OUT = ''TRANSFER_OUT''"
| "transaction_type_value T_TRANSFER_IN = ''TRANSFER_IN''"

datatype warehouse_level = COMPANY_WAREHOUSE | C_AND_F | MASTER_FRANCHISE | TALUK_FRANCHISE | HOME_FRANCHISE

fun warehouse_level_value :: "warehouse_level \<Rightarrow> string" where
  "warehouse_level_value COMPANY_WAREHOUSE = ''Company Warehouse''"
| "warehouse_level_value C_AND_F = ''C&F''"
| "warehouse_level_value MASTER_FRANCHISE = ''Master Franchise''"
| "warehouse_level_value TALUK_FRANCHISE = ''Taluk Franchise''"
| "warehouse_level_value HOME_FRANCHISE = ''Home Franchise''"

text \<open>\<open>WarehouseLevel(text)\<close>: \<open>None\<close> is the \<open>ValueError\<close>.\<close>

definition warehouse_level_of :: "string \<Rightarrow> warehouse_level option" where
  "warehouse_level_of s = find (\<lambda>l. warehouse_level_value l = s)
     [COMPANY_WAREHOUSE, C_AND_F, MASTER_FRANCHISE, TALUK_FRANCHISE, HOME_FRANCHISE]"

datatype batch_status = BS_DRAFT | BS_SUBMITTED | BS_SYNCING | BS_SYNCED | BS_PENDING_SYNC | BS_FAILED
  | BS_CLOSED

datatype outbox_status = O_PENDING | O_SENDING | O_SENT | O_FAILED

datatype inbox_status = I_RECEIVED | I_APPLIED | I_FAILED

datatype receipt_status = R_PENDING | R_APPROVED | R_DENIED

datatype sftp_direction = UPLOAD | DOWNLOAD

datatype sftp_status = X_PENDING | X_UPLOADED | X_IMPORTED | X_ACKNOWLEDGED | X_FAILED

datatype transfer_direction = OUTBOUND | INBOUND

datatype transfer_status = TS_DRAFT | TS_PENDING_MASTER | TS_DISPATCHED | TS_AWAITING_RECEIPT
  | TS_PARTIALLY_RECEIVED | TS_RECEIVED | TS_FAILED

fun transfer_status_value :: "transfer_status \<Rightarrow> string" where
  "transfer_status_value TS_DRAFT = ''DRAFT''"
| "transfer_status_value TS_PENDING_MASTER = ''PENDING_MASTER''"
| "transfer_status_value TS_DISPATCHED = ''DISPATCHED''"
| "transfer_status_value TS_AWAITING_RECEIPT = ''AWAITING_RECEIPT''"
| "transfer_status_value TS_PARTIALLY_RECEIVED = ''PARTIALLY_RECEIVED''"
| "transfer_status_value TS_RECEIVED = ''RECEIVED''"
| "transfer_status_value TS_FAILED = ''FAILED''"

section \<open>Roles\<close>

text \<open>
  The dynamic argument of \<open>normalize_role_values\<close>: nothing, a \<open>Role\<close>, a text, or
  a collection of roles and texts.
\<close>

datatype role_item = RoleItem role | TextItem string

datatype role_arg = NoRole | RoleArg role | TextArg string | ItemsArg "role_item list"

fun role_arg_items :: "role_arg \<Rightarrow> role_item list" where
  "role_arg_items NoRole = []"
| "role_arg_items (RoleArg r) = [RoleItem r]"
| "role_arg_items (TextArg s) = [TextItem s]"
| "role_arg_items (ItemsArg xs) = xs"

fun role_item_parts :: "role_item \<Rightarrow> string list" where
  "role_item_parts (RoleItem r) = [role_text r]"
| "role_item_parts (TextItem s) = py_split_on (CHR '','') s"

definition role_token :: "string \<Rightarrow> string" where
  "role_token part =
    (let t0 = py_strip part;
         t1 = (if starts_with ''Role.'' t0 then drop 5 t0 else t0)
     in case find (\<lambda>r. role_name r = t1) all_roles of Some r \<Rightarrow> role_text r | None \<Rightarrow> t1)"

definition role_values :: "string list" where
  "role_values = map role_text all_roles"

definition select_token :: "string list \<Rightarrow> string \<Rightarrow> string list" where
  "select_token selected t =
    (if t \<in> set role_values \<and> t \<notin> set selected then selected @ [t] else selected)"

definition normalize_role_values :: "role_arg \<Rightarrow> string list" where
  "normalize_role_values v =
    foldl select_token [] (map role_token (concat (map role_item_parts (role_arg_items v))))"

definition serialize_role_values :: "role_arg \<Rightarrow> string" where
  "serialize_role_values v =
    (let selected = normalize_role_values v
     in py_join '','' (filter (\<lambda>t. t \<in> set selected) role_values))"

definition role_label :: "role_arg \<Rightarrow> string" where
  "role_label v = py_join '', '' (normalize_role_values v)"

definition has_role :: "role_arg \<Rightarrow> role_arg \<Rightarrow> bool" where
  "has_role v target =
    (case normalize_role_values target of [] \<Rightarrow> False | t # _ \<Rightarrow> t \<in> set (normalize_role_values v))"

definition has_any_role :: "role_arg \<Rightarrow> role_arg \<Rightarrow> bool" where
  "has_any_role v targets =
    list_ex (\<lambda>t. t \<in> set (normalize_role_values targets)) (normalize_role_values v)"

section \<open>Rows\<close>

record user =
  usr_id :: nat
  usr_username :: string
  usr_password_hash :: string
  usr_role :: string
  usr_active :: bool
  usr_must_change_password :: bool
  usr_session_version :: nat
  usr_created_at :: moment
  usr_last_login_at :: "moment option"
  usr_deleted_at :: "moment option"

record product =
  prd_id :: nat
  prd_code :: string
  prd_name :: string
  prd_nickname :: "string option"
  prd_category :: "string option"
  prd_brand :: "string option"
  prd_hsn :: string
  prd_gst_rate :: rat
  prd_unit :: string
  prd_default_rate :: rat
  prd_sales_discount_rate :: rat
  prd_shelf_interval :: int
  prd_purchase_qr_print_allowed :: bool
  prd_tally_name :: string
  prd_alt_tally_name :: "string option"
  prd_active :: bool
  prd_created_at :: moment

record location =
  loc_id :: nat
  loc_code :: string
  loc_warehouse :: string
  loc_level :: warehouse_level
  loc_zone :: string
  loc_section :: string
  loc_rack :: string
  loc_shelf :: string
  loc_bin :: string
  loc_active :: bool
  loc_created_at :: moment

definition full_path :: "location \<Rightarrow> string" where
  "full_path l = py_join '' / '' [loc_warehouse l, loc_zone l, loc_section l, loc_rack l, loc_shelf l, loc_bin l]"

record serial =
  ser_id :: nat
  ser_number :: string
  ser_product_id :: nat
  ser_status :: serial_status
  ser_active :: bool
  ser_created_at :: moment
  ser_replaced_by_id :: "nat option"
  ser_label_printed_at :: "moment option"
  ser_label_printed_by_id :: "nat option"
  ser_batch_number :: "string option"
  ser_mfg_date :: "day option"
  ser_expiry_date :: "day option"
  ser_warehouse :: "string option"
  ser_level :: warehouse_level
  ser_location_id :: "nat option"

definition display_status :: "serial \<Rightarrow> string" where
  "display_status s =
    (if ser_status s = S_GENERATED then ''UNASSIGNED''
     else if ser_status s = S_IN_TRANSIT \<and> \<not> ser_active s then ''TRANSFERRED''
     else serial_status_value (ser_status s))"

record stock_relocation =
  rel_id :: nat
  rel_reference :: string
  rel_product_id :: nat
  rel_batch_number :: "string option"
  rel_quantity :: nat
  rel_previous_location_id :: "nat option"
  rel_new_location_id :: nat
  rel_previous_snapshot :: string
  rel_new_snapshot :: string
  rel_user_id :: nat
  rel_reason :: "string option"
  rel_device :: string
  rel_created_at :: moment

record relocation_serial =
  rls_id :: nat
  rls_relocation_id :: nat
  rls_serial_id :: nat

record audit_assignment =
  asg_id :: nat
  asg_product_id :: nat
  asg_auditor_id :: nat
  asg_assigned_by_id :: nat
  asg_starts_at :: moment
  asg_ends_at :: moment
  asg_notes :: "string option"
  asg_created_at :: moment

record audit_assignment_item =
  asi_id :: nat
  asi_assignment_id :: nat
  asi_serial_id :: nat
  asi_created_at :: moment

record batch =
  bat_id :: nat
  bat_number :: string
  bat_type :: batch_type
  bat_party_name :: "string option"
  bat_party_state :: "string option"
  bat_gst_registration :: "string option"
  bat_gst_name :: "string option"
  bat_gstin :: "string option"
  bat_gst_treatment :: "string option"
  bat_cgst_rate :: "rat option"
  bat_sgst_rate :: "rat option"
  bat_igst_rate :: "rat option"
  bat_reason_code :: "string option"
  bat_user_id :: nat
  bat_assignment_id :: "nat option"
  bat_status :: batch_status
  bat_voucher_type :: "string option"
  bat_voucher_number :: "string option"
  bat_tally_reference :: "string option"
  bat_notes :: "string option"
  bat_last_error :: "string option"
  bat_retry_count :: nat
  bat_last_retry_at :: "moment option"
  bat_sync_remote_id :: "string option"
  bat_sync_request_xml :: "string option"
  bat_sync_started_at :: "moment option"
  bat_created_at :: moment
  bat_submitted_at :: "moment option"
  bat_synced_at :: "moment option"

record batch_item =
  itm_id :: nat
  itm_batch_id :: nat
  itm_serial_id :: nat
  itm_quantity :: nat
  itm_rate :: "rat option"
  itm_discount_rate :: "rat option"
  itm_remarks :: "string option"
  itm_fefo_picked :: bool
  itm_shelf_location_id :: "nat option"
  itm_shelf_verified_by_id :: "nat option"
  itm_shelf_verified_at :: "moment option"
  itm_created_at :: moment

record scan_log =
  log_id :: nat
  log_serial_id :: "nat option"
  log_serial_number_raw :: string
  log_user_id :: nat
  log_action :: string
  log_batch_id :: "nat option"
  log_status :: string
  log_message :: "string option"
  log_tally_reference :: "string option"
  log_created_at :: moment

record inventory_transaction =
  txn_id :: nat
  txn_type :: transaction_type
  txn_serial_id :: "nat option"
  txn_product_id :: "nat option"
  txn_batch_id :: "nat option"
  txn_user_id :: nat
  txn_serial_number :: "string option"
  txn_status_from :: "serial_status option"
  txn_status_to :: "serial_status option"
  txn_reason_code :: "string option"
  txn_tally_reference :: "string option"
  txn_reference_number :: "string option"
  txn_notes :: "string option"
  txn_created_at :: moment

record sync_attempt =
  att_id :: nat
  att_batch_id :: nat
  att_status :: batch_status
  att_request_xml :: "string option"
  att_response_xml :: "string option"
  att_error :: "string option"
  att_created_at :: moment

record tally_data_job =
  job_id :: nat
  job_request_key :: string
  job_type :: string
  job_company_id :: nat
  job_requested_by_id :: "nat option"
  job_status :: string
  job_payload :: string
  job_result :: "string option"
  job_error :: "string option"
  job_created_at :: moment
  job_started_at :: "moment option"
  job_completed_at :: "moment option"

record outbox_event =
  evt_id :: nat
  evt_event_id :: string
  evt_type :: string
  evt_schema_version :: int
  evt_aggregate_type :: string
  evt_aggregate_id :: string
  evt_batch_id :: "nat option"
  evt_payload_json :: string
  evt_payload_sha256 :: string
  evt_status :: outbox_status
  evt_attempts :: nat
  evt_next_attempt_at :: "moment option"
  evt_last_error :: "string option"
  evt_created_at :: moment
  evt_sending_at :: "moment option"
  evt_sent_at :: "moment option"

record inbox_command =
  cmd_id :: nat
  cmd_command_id :: string
  cmd_type :: string
  cmd_schema_version :: int
  cmd_payload_json :: string
  cmd_payload_sha256 :: string
  cmd_status :: inbox_status
  cmd_attempts :: nat
  cmd_last_error :: "string option"
  cmd_received_at :: moment
  cmd_applied_at :: "moment option"

record receipt =
  rcp_id :: nat
  rcp_uuid :: string
  rcp_date :: day
  rcp_proof_image :: "nat list"
  rcp_content_type :: string
  rcp_utr :: "string option"
  rcp_status :: receipt_status
  rcp_remarks :: "string option"
  rcp_reviewed_by :: "string option"
  rcp_reviewed_at :: "moment option"
  rcp_created_by_id :: "nat option"
  rcp_created_at :: moment
  rcp_synced_at :: "moment option"

record sftp_exchange =
  sfx_id :: nat
  sfx_direction :: sftp_direction
  sfx_filename :: string
  sfx_sha256 :: string
  sfx_status :: sftp_status
  sfx_attempts :: nat
  sfx_tally_reference :: "string option"
  sfx_last_error :: "string option"
  sfx_completed_at :: "moment option"

record local_transfer =
  trf_id :: nat
  trf_uuid :: string
  trf_direction :: transfer_direction
  trf_status :: transfer_status
  trf_local_code :: "string option"
  trf_peer_code :: string
  trf_created_by_id :: "nat option"
  trf_notes :: "string option"
  trf_last_error :: "string option"
  trf_created_at :: moment
  trf_dispatched_at :: "moment option"
  trf_received_at :: "moment option"

record transfer_item =
  tri_id :: nat
  tri_transfer_id :: nat
  tri_serial_id :: "nat option"
  tri_manifest_number :: string
  tri_product_code :: string
  tri_product_name :: string
  tri_scanned :: bool
  tri_received :: bool
  tri_scanned_at :: "moment option"
  tri_received_at :: "moment option"
  tri_created_at :: moment

record setting_row =
  stg_key :: string
  stg_value :: string
  stg_updated_at :: moment

record change_audit =
  chg_id :: nat
  chg_actor_id :: "nat option"
  chg_actor_username :: "string option"
  chg_entity_type :: string
  chg_entity_id :: string
  chg_action :: string
  chg_before_json :: "string option"
  chg_after_json :: "string option"
  chg_created_at :: moment

record company =
  cmp_id :: nat
  cmp_name :: string
  cmp_config :: string
  cmp_is_active :: bool
  cmp_created_at :: moment

record ledger_cache =
  tlc_id :: nat
  tlc_company_id :: nat
  tlc_tally_company :: string
  tlc_tally_company_key :: string
  tlc_ledger_key :: string
  tlc_name :: string
  tlc_parent :: string
  tlc_closing_balance :: string
  tlc_refreshed_at :: moment

record voucher_cache =
  tvc_id :: nat
  tvc_company_id :: nat
  tvc_tally_company :: string
  tvc_tally_company_key :: string
  tvc_remote_id :: string
  tvc_voucher_date :: string
  tvc_voucher_number :: string
  tvc_voucher_type :: string
  tvc_party_ledger :: string
  tvc_amount :: string
  tvc_narration :: string
  tvc_tally_user :: string
  tvc_refreshed_at :: moment

record login_audit =
  lga_id :: nat
  lga_username :: string
  lga_success :: bool
  lga_ip_address :: "string option"
  lga_message :: "string option"
  lga_created_at :: moment

record user_tally_access =
  uta_id :: nat
  uta_user_id :: nat
  uta_company_id :: nat
  uta_resource_type :: string
  uta_resource_key :: string
  uta_resource_label :: string

record audit_finding =
  fnd_id :: nat
  fnd_batch_id :: nat
  fnd_serial_id :: "nat option"
  fnd_serial_number :: string
  fnd_product_code :: "string option"
  fnd_product_name :: "string option"
  fnd_type :: string
  fnd_expected_status :: "serial_status option"
  fnd_scanned_status :: "serial_status option"
  fnd_created_at :: moment

record master_confirmation =
  mcf_id :: nat
  mcf_master_type :: string
  mcf_master_name :: string
  mcf_source :: string
  mcf_notes :: "string option"
  mcf_confirmed_by_id :: nat
  mcf_confirmed_at :: moment

text \<open>
  The database.  \<open>outbox_sequence\<close> is SQLite's \<open>AUTOINCREMENT\<close> counter of the
  outbox table: unlike the other keys it never goes back when rows are deleted.
\<close>

record db =
  users :: "user list"
  products :: "product list"
  locations :: "location list"
  serials :: "serial list"
  relocations :: "stock_relocation list"
  relocation_serials :: "relocation_serial list"
  assignments :: "audit_assignment list"
  assignment_items :: "audit_assignment_item list"
  batches :: "batch list"
  batch_items :: "batch_item list"
  scan_logs :: "scan_log list"
  transactions :: "inventory_transaction list"
  sync_attempts :: "sync_attempt list"
  data_jobs :: "tally_data_job list"
  outbox :: "outbox_event list"
  outbox_sequence :: nat
  inbox :: "inbox_command list"
  receipts :: "receipt list"
  exchanges :: "sftp_exchange list"
  transfers :: "local_transfer list"
  transfer_items :: "transfer_item list"
  tally_access :: "user_tally_access list"
  findings :: "audit_finding list"
  settings_rows :: "setting_row list"
  changes :: "change_audit list"
  companies :: "company list"
  ledger_caches :: "ledger_cache list"
  voucher_caches :: "voucher_cache list"
  login_audits :: "login_audit list"
  confirmations :: "master_confirmation list"

end
