(* ===== verification/Store.thy ===== *)
theory Store
  imports Models
begin

text \<open>
  Access to the tables: lookups by key (\<open>db.get\<close>, relationships), the rows of a
  relationship, the compare-and-swap update of a serial's status that every stock operation
  uses, and the keys and unique constraints of the schema as an invariant.

  The locale \<open>status_store\<close> is the contract of the compare-and-swap, and
  \<open>claim_loop\<close> what a loop of such claims guarantees; both are interpreted on the
  serials table.
\<close>

section \<open>Lookups\<close>

definition get_user :: "db \<Rightarrow> nat \<Rightarrow> user option" where
  "get_user d i = find (\<lambda>r. usr_id r = i) (users d)"

definition get_product :: "db \<Rightarrow> nat \<Rightarrow> product option" where
  "get_product d i = find (\<lambda>r. prd_id r = i) (products d)"

definition get_location :: "db \<Rightarrow> nat \<Rightarrow> location option" where
  "get_location d i = find (\<lambda>r. loc_id r = i) (locations d)"

definition get_serial :: "db \<Rightarrow> nat \<Rightarrow> serial option" where
  "get_serial d i = find (\<lambda>r. ser_id r = i) (serials d)"

definition serial_by_number :: "db \<Rightarrow> string \<Rightarrow> serial option" where
  "serial_by_number d n = find (\<lambda>r. ser_number r = n) (serials d)"

definition get_batch :: "db \<Rightarrow> nat \<Rightarrow> batch option" where
  "get_batch d i = find (\<lambda>r. bat_id r = i) (batches d)"

definition get_item :: "db \<Rightarrow> nat \<Rightarrow> batch_item option" where
  "get_item d i = find (\<lambda>r. itm_id r = i) (batch_items d)"

definition items_of :: "db \<Rightarrow> nat \<Rightarrow> batch_item list" where
  "items_of d b = filter (\<lambda>r. itm_batch_id r = b) (batch_items d)"

definition get_assignment :: "db \<Rightarrow> nat \<Rightarrow> audit_assignment option" where
  "get_assignment d i = find (\<lambda>r. asg_id r = i) (assignments d)"

definition get_transfer :: "db \<Rightarrow> nat \<Rightarrow> local_transfer option" where
  "get_transfer d i = find (\<lambda>r. trf_id r = i) (transfers d)"

definition items_of_transfer :: "db \<Rightarrow> nat \<Rightarrow> transfer_item list" where
  "items_of_transfer d t = filter (\<lambda>r. tri_transfer_id r = t) (transfer_items d)"

text \<open>The product of a serial, \<open>serial.product\<close>.\<close>

definition product_of :: "db \<Rightarrow> serial \<Rightarrow> product option" where
  "product_of d s = get_product d (ser_product_id s)"

text \<open>Membership of a serial in some draft batch: the sub-select of the stock queries.\<close>

definition in_draft :: "db \<Rightarrow> nat \<Rightarrow> bool" where
  "in_draft d s = list_ex (\<lambda>i. itm_serial_id i = s \<and>
     (case get_batch d (itm_batch_id i) of Some b \<Rightarrow> bat_status b = BS_DRAFT | None \<Rightarrow> False)) (batch_items d)"

section \<open>Updates\<close>

definition set_serial :: "nat \<Rightarrow> (serial \<Rightarrow> serial) \<Rightarrow> db \<Rightarrow> db" where
  "set_serial i f d = d\<lparr>serials := upd_rows (\<lambda>r. ser_id r = i) f (serials d)\<rparr>"

definition set_batch :: "nat \<Rightarrow> (batch \<Rightarrow> batch) \<Rightarrow> db \<Rightarrow> db" where
  "set_batch i f d = d\<lparr>batches := upd_rows (\<lambda>r. bat_id r = i) f (batches d)\<rparr>"

definition set_item :: "nat \<Rightarrow> (batch_item \<Rightarrow> batch_item) \<Rightarrow> db \<Rightarrow> db" where
  "set_item i f d = d\<lparr>batch_items := upd_rows (\<lambda>r. itm_id r = i) f (batch_items d)\<rparr>"

definition set_transfer :: "nat \<Rightarrow> (local_transfer \<Rightarrow> local_transfer) \<Rightarrow> db \<Rightarrow> db" where
  "set_transfer i f d = d\<lparr>transfers := upd_rows (\<lambda>r. trf_id r = i) f (transfers d)\<rparr>"

definition set_transfer_item :: "nat \<Rightarrow> (transfer_item \<Rightarrow> transfer_item) \<Rightarrow> db \<Rightarrow> db" where
  "set_transfer_item i f d = d\<lparr>transfer_items := upd_rows (\<lambda>r. tri_id r = i) f (transfer_items d)\<rparr>"

definition add_scan_log ::
  "nat option \<Rightarrow> string \<Rightarrow> nat \<Rightarrow> string \<Rightarrow> nat option \<Rightarrow> string \<Rightarrow> string option \<Rightarrow> string option \<Rightarrow> moment \<Rightarrow> db \<Rightarrow> db"
where
  "add_scan_log sid raw uid action bid status message tally_ref now d =
     d\<lparr>scan_logs := scan_logs d @ [\<lparr>log_id = next_id log_id (scan_logs d), log_serial_id = sid,
        log_serial_number_raw = raw, log_user_id = uid, log_action = action, log_batch_id = bid,
        log_status = status, log_message = message, log_tally_reference = tally_ref,
        log_created_at = now\<rparr>]\<rparr>"

text \<open>
  \<open>UPDATE serials SET status = tgt WHERE id = i AND status = src AND active\<close>; the first
  component is the statement's \<open>rowcount\<close>.
\<close>

definition claim_serial :: "nat \<Rightarrow> serial_status \<Rightarrow> serial_status \<Rightarrow> db \<Rightarrow> nat \<times> db" where
  "claim_serial i src tgt d =
    (let p = (\<lambda>r. ser_id r = i \<and> ser_status r = src \<and> ser_active r)
     in (count_rows p (serials d), d\<lparr>serials := upd_rows p (\<lambda>r. r\<lparr>ser_status := tgt\<rparr>) (serials d)\<rparr>))"

text \<open>The status of a serial that is still active.\<close>

definition stock_status :: "db \<Rightarrow> nat \<Rightarrow> serial_status option" where
  "stock_status d i =
    (case get_serial d i of None \<Rightarrow> None | Some s \<Rightarrow> if ser_active s then Some (ser_status s) else None)"

section \<open>Keys and unique constraints\<close>

definition serials_ok :: "db \<Rightarrow> bool" where
  "serials_ok d \<longleftrightarrow> distinct (map ser_id (serials d)) \<and> distinct (map ser_number (serials d))"

definition batches_ok :: "db \<Rightarrow> bool" where
  "batches_ok d \<longleftrightarrow> distinct (map bat_id (batches d)) \<and> distinct (map bat_number (batches d))"

definition items_ok :: "db \<Rightarrow> bool" where
  "items_ok d \<longleftrightarrow> distinct (map itm_id (batch_items d)) \<and>
     distinct (map (\<lambda>i. (itm_batch_id i, itm_serial_id i)) (batch_items d))"

definition keys_ok :: "db \<Rightarrow> bool" where
  "keys_ok d \<longleftrightarrow> serials_ok d \<and> batches_ok d \<and> items_ok d"

lemma serials_okI: "serials e = serials d \<Longrightarrow> serials_ok d \<Longrightarrow> serials_ok e"
  by (simp add: serials_ok_def)

lemma serials_ok_upd:
  assumes "\<And>r. p r \<Longrightarrow> ser_id (f r) = ser_id r \<and> ser_number (f r) = ser_number r"
  shows "serials_ok (d\<lparr>serials := upd_rows p f (serials d)\<rparr>) = serials_ok d"
  using assms by (simp add: serials_ok_def map_upd_rows)

lemma get_serial_in: "get_serial d i = Some s \<Longrightarrow> s \<in> set (serials d) \<and> ser_id s = i"
  unfolding get_serial_def by (drule find_SomeD) simp

lemma get_serial_mem: "serials_ok d \<Longrightarrow> s \<in> set (serials d) \<Longrightarrow> get_serial d (ser_id s) = Some s"
  by (simp add: serials_ok_def get_serial_def find_key_distinct)

lemma serial_by_number_in: "serial_by_number d n = Some s \<Longrightarrow> s \<in> set (serials d) \<and> ser_number s = n"
  unfolding serial_by_number_def by (drule find_SomeD) simp

lemma get_serial_cong: "serials e = serials d \<Longrightarrow> get_serial e i = get_serial d i"
  by (simp add: get_serial_def)

lemma stock_status_cong: "serials e = serials d \<Longrightarrow> stock_status e = stock_status d"
  by (simp add: stock_status_def get_serial_def fun_eq_iff)

lemma get_serial_upd:
  assumes "\<And>r. p r \<Longrightarrow> ser_id (f r) = ser_id r"
  shows "get_serial (d\<lparr>serials := upd_rows p f (serials d)\<rparr>) i =
    map_option (\<lambda>r. if p r then f r else r) (get_serial d i)"
  using assms by (simp add: get_serial_def find_upd_rows)

lemma get_serial_set [simp]:
  assumes "\<And>r. ser_id (f r) = ser_id r"
  shows "get_serial (set_serial j f d) i = (if i = j then map_option f (get_serial d i) else get_serial d i)"
proof -
  have "get_serial (set_serial j f d) i = map_option (\<lambda>r. if ser_id r = j then f r else r) (get_serial d i)"
    unfolding set_serial_def by (rule get_serial_upd) (rule assms)
  then show ?thesis
    by (cases "get_serial d i") (auto dest: get_serial_in)
qed

lemma get_serial_claim:
  "get_serial (snd (claim_serial j a b d)) i =
     (case get_serial d i of None \<Rightarrow> None
      | Some s \<Rightarrow> Some (if i = j \<and> ser_status s = a \<and> ser_active s then s\<lparr>ser_status := b\<rparr> else s))"
  by (auto simp: claim_serial_def Let_def get_serial_upd split: option.splits dest: get_serial_in)

lemma fst_claim_serial:
  assumes "serials_ok d"
  shows "fst (claim_serial i a b d) = (if stock_status d i = Some a then 1 else 0)"
  using assms count_rows_key [of ser_id "serials d" i "\<lambda>r. ser_status r = a \<and> ser_active r"]
  by (auto simp: claim_serial_def Let_def serials_ok_def stock_status_def get_serial_def split: option.splits)

lemma claim_frame [simp]:
  "snd (claim_serial i a b d) = d\<lparr>serials := serials (snd (claim_serial i a b d))\<rparr>"
  by (simp add: claim_serial_def Let_def)

lemmas claim_frame [simp del]

lemma claim_serials_ok [simp]: "serials_ok (snd (claim_serial i a b d)) = serials_ok d"
  unfolding claim_serial_def Let_def by (simp add: serials_ok_upd)

lemma stock_status_claim:
  "stock_status (snd (claim_serial i a b d)) j =
     (if j = i \<and> stock_status d i = Some a then Some b else stock_status d j)"
  by (auto simp: stock_status_def get_serial_claim split: option.splits)

lemma add_scan_log_frame [simp]:
  "serials (add_scan_log a b c e f g h k m d) = serials d"
  "batches (add_scan_log a b c e f g h k m d) = batches d"
  "batch_items (add_scan_log a b c e f g h k m d) = batch_items d"
  "transfers (add_scan_log a b c e f g h k m d) = transfers d"
  "transfer_items (add_scan_log a b c e f g h k m d) = transfer_items d"
  "outbox (add_scan_log a b c e f g h k m d) = outbox d"
  "outbox_sequence (add_scan_log a b c e f g h k m d) = outbox_sequence d"
  "products (add_scan_log a b c e f g h k m d) = products d"
  "transactions (add_scan_log a b c e f g h k m d) = transactions d"
  by (simp_all add: add_scan_log_def)

section \<open>The contract of a claim\<close>

text \<open>
  \<open>status_of\<close> is the status of an active row.  A claim moves one row from an expected
  status to another, reports whether it did, and touches no other row.
\<close>

locale status_store =
  fixes status_of :: "'db \<Rightarrow> 'k \<Rightarrow> 'st option"
    and claim :: "'k \<Rightarrow> 'st \<Rightarrow> 'st \<Rightarrow> 'db \<Rightarrow> nat \<times> 'db"
    and ok :: "'db \<Rightarrow> bool"
  assumes claim_count: "ok d \<Longrightarrow> fst (claim i a b d) = (if status_of d i = Some a then 1 else 0)"
    and claim_status: "status_of (snd (claim i a b d)) j =
      (if j = i \<and> status_of d i = Some a then Some b else status_of d j)"
    and claim_ok: "ok d \<Longrightarrow> ok (snd (claim i a b d))"
begin

lemma claimed_twice:
  assumes "ok d" "a \<noteq> b" "fst (claim i a b d) = 1"
  shows "fst (claim i a c (snd (claim i a b d))) = 0"
  using assms by (simp add: claim_count claim_status claim_ok split: if_splits)

end

text \<open>
  A loop whose body claims the row of its element (\<open>key x\<close>, from \<open>src x\<close> to
  \<open>tgt x\<close>), raises when the claim fails, and otherwise only adds what does not touch
  the statuses.
\<close>

locale claim_loop = status_store status_of claim ok
  for status_of :: "'db \<Rightarrow> 'k \<Rightarrow> 'st option"
    and claim :: "'k \<Rightarrow> 'st \<Rightarrow> 'st \<Rightarrow> 'db \<Rightarrow> nat \<times> 'db"
    and ok :: "'db \<Rightarrow> bool" +
  fixes body :: "'i \<Rightarrow> 'db \<Rightarrow> 'e + 'db"
    and key :: "'i \<Rightarrow> 'k"
    and src :: "'i \<Rightarrow> 'st"
    and tgt :: "'i \<Rightarrow> 'st"
    and valid :: "'i \<Rightarrow> bool"
  assumes body_claims: "valid x \<Longrightarrow> ok d \<Longrightarrow> fst (claim (key x) (src x) (tgt x) d) = 1 \<Longrightarrow>
      \<exists>d'. body x d = Inr d' \<and> ok d' \<and> status_of d' = status_of (snd (claim (key x) (src x) (tgt x) d))"
    and body_raises: "valid x \<Longrightarrow> ok d \<Longrightarrow> fst (claim (key x) (src x) (tgt x) d) \<noteq> 1 \<Longrightarrow> \<exists>e. body x d = Inl e"
begin

lemma body_step:
  assumes "valid x" "ok d" "body x d = Inr d'"
  shows "ok d' \<and> status_of d (key x) = Some (src x) \<and> status_of d' = (status_of d)(key x := Some (tgt x))"
proof -
  have c: "fst (claim (key x) (src x) (tgt x) d) = 1"
    using assms(3) body_raises [OF assms(1,2)] by auto
  have s: "status_of d (key x) = Some (src x)"
    using c by (simp add: claim_count [OF assms(2)] split: if_splits)
  have "status_of (snd (claim (key x) (src x) (tgt x) d)) = (status_of d)(key x := Some (tgt x))"
    using s by (auto simp: claim_status fun_eq_iff)
  moreover obtain d'' where "body x d = Inr d''" "ok d''"
    "status_of d'' = status_of (snd (claim (key x) (src x) (tgt x) d))"
    using body_claims [OF assms(1,2) c] by blast
  ultimately show ?thesis using s assms(3) by simp
qed

lemma loop_effect:
  assumes "fold_res body xs d = Inr d'" "ok d" "distinct (map key xs)" "\<forall>x \<in> set xs. valid x"
  shows "ok d' \<and> (\<forall>x \<in> set xs. status_of d (key x) = Some (src x) \<and> status_of d' (key x) = Some (tgt x)) \<and>
    (\<forall>i. i \<notin> key ` set xs \<longrightarrow> status_of d' i = status_of d i)"
  using assms
proof (induction xs arbitrary: d)
  case Nil
  then show ?case by simp
next
  case (Cons x xs)
  then obtain e where e: "body x d = Inr e" "fold_res body xs e = Inr d'"
    by (auto split: sum.splits)
  have s: "ok e" "status_of d (key x) = Some (src x)" "status_of e = (status_of d)(key x := Some (tgt x))"
    using body_step [of x d e] e(1) Cons.prems by auto
  have IH: "ok d' \<and> (\<forall>x \<in> set xs. status_of e (key x) = Some (src x) \<and> status_of d' (key x) = Some (tgt x)) \<and>
      (\<forall>i. i \<notin> key ` set xs \<longrightarrow> status_of d' i = status_of e i)"
    using Cons.IH [OF e(2) s(1)] Cons.prems by simp
  have other: "key y \<noteq> key x" if "y \<in> set xs" for y
    using Cons.prems(3) that by (metis distinct.simps(2) image_eqI list.set_map list.simps(9))
  then have "\<forall>y \<in> set xs. status_of d (key y) = Some (src y) \<and> status_of d' (key y) = Some (tgt y)"
    using IH s(3) by simp
  moreover have "status_of d' (key x) = Some (tgt x)"
    using IH s(3) other by (metis fun_upd_same imageE)
  moreover have "\<forall>i. i \<notin> key ` set (x # xs) \<longrightarrow> status_of d' i = status_of d i"
    using IH s(3) by simp
  ultimately show ?case using IH s(2) by simp
qed

lemma loop_succeeds:
  assumes "ok d" "distinct (map key xs)" "\<forall>x \<in> set xs. valid x \<and> status_of d (key x) = Some (src x)"
  shows "\<exists>d'. fold_res body xs d = Inr d'"
  using assms
proof (induction xs arbitrary: d)
  case Nil
  then show ?case by simp
next
  case (Cons x xs)
  have "fst (claim (key x) (src x) (tgt x) d) = 1"
    using Cons.prems by (simp add: claim_count)
  then obtain e where e: "body x d = Inr e" "ok e"
    "status_of e = status_of (snd (claim (key x) (src x) (tgt x) d))"
    using body_claims Cons.prems by (meson list.set_intros(1))
  have "key y \<noteq> key x" if "y \<in> set xs" for y
    using Cons.prems(2) that by (metis distinct.simps(2) image_eqI list.set_map list.simps(9))
  then have "\<forall>y \<in> set xs. valid y \<and> status_of e (key y) = Some (src y)"
    using Cons.prems(3) by (simp add: e(3) claim_status)
  from Cons.IH [OF e(2) _ this] Cons.prems(2) e(1) show ?case by auto
qed

lemma loop_iff:
  assumes "ok d" "distinct (map key xs)" "\<forall>x \<in> set xs. valid x"
  shows "(\<exists>d'. fold_res body xs d = Inr d') \<longleftrightarrow> (\<forall>x \<in> set xs. status_of d (key x) = Some (src x))"
proof
  assume "\<exists>d'. fold_res body xs d = Inr d'"
  then show "\<forall>x \<in> set xs. status_of d (key x) = Some (src x)"
    using loop_effect [OF _ assms] by blast
next
  assume "\<forall>x \<in> set xs. status_of d (key x) = Some (src x)"
  then show "\<exists>d'. fold_res body xs d = Inr d'"
    using loop_succeeds assms by simp
qed

end

interpretation serial_claims: status_store stock_status claim_serial serials_ok
  by unfold_locales (simp_all add: fst_claim_serial stock_status_claim)

end
