(* ===== verification/Calendar.thy ===== *)
theory Calendar
  imports Models
begin

text \<open>
  The part of \<open>datetime\<close> the program prints with: the proleptic Gregorian calendar on
  day numbers (day 0 is 1970-01-01), ISO texts and the \<open>%d %b %Y\<close> and \<open>%Y%m%d\<close>
  formats.
\<close>

definition civil :: "day \<Rightarrow> int \<times> int \<times> int" where
  "civil n =
    (let z = n + 719468; era = z div 146097; doe = z mod 146097;
         yoe = (doe - doe div 1460 + doe div 36524 - doe div 146096) div 365;
         doy = doe - (365 * yoe + yoe div 4 - yoe div 100);
         mp = (5 * doy + 2) div 153;
         dd = doy - (153 * mp + 2) div 5 + 1;
         mm = (if mp < 10 then mp + 3 else mp - 9)
     in (yoe + era * 400 + (if mm \<le> 2 then 1 else 0), mm, dd))"

definition microseconds_per_day :: int where
  "microseconds_per_day = 86400000000"

definition day_of :: "moment \<Rightarrow> day" where
  "day_of t = t div microseconds_per_day"

definition iso_date :: "day \<Rightarrow> string" where
  "iso_date n = (case civil n of (y, m, d) \<Rightarrow>
     zero_pad 4 (nat y) @ ''-'' @ zero_pad 2 (nat m) @ ''-'' @ zero_pad 2 (nat d))"

definition compact_date :: "day \<Rightarrow> string" where
  "compact_date n = (case civil n of (y, m, d) \<Rightarrow>
     zero_pad 4 (nat y) @ zero_pad 2 (nat m) @ zero_pad 2 (nat d))"

definition month_abbreviations :: "string list" where
  "month_abbreviations = [''Jan'', ''Feb'', ''Mar'', ''Apr'', ''May'', ''Jun'', ''Jul'', ''Aug'',
     ''Sep'', ''Oct'', ''Nov'', ''Dec'']"

definition long_date :: "day \<Rightarrow> string" where
  "long_date n = (case civil n of (y, m, d) \<Rightarrow>
     zero_pad 2 (nat d) @ '' '' @ month_abbreviations ! (nat m - 1) @ '' '' @ zero_pad 4 (nat y))"

text \<open>\<open>isoformat()\<close> of an aware UTC datetime: the microseconds only when they are not zero.\<close>

definition iso_moment :: "moment \<Rightarrow> string" where
  "iso_moment t =
    (let us = t mod microseconds_per_day; secs = us div 1000000; frac = us mod 1000000
     in iso_date (day_of t) @ ''T'' @ zero_pad 2 (nat (secs div 3600)) @ '':'' @
        zero_pad 2 (nat (secs div 60 mod 60)) @ '':'' @ zero_pad 2 (nat (secs mod 60)) @
        (if frac = 0 then [] else ''.'' @ zero_pad 6 (nat frac)) @ ''+00:00'')"

text \<open>\<open>date.fromisoformat\<close> on the form \<open>YYYY-MM-DD\<close>: the day number, checked against the calendar.\<close>

definition days_from_civil :: "int \<Rightarrow> int \<Rightarrow> int \<Rightarrow> day" where
  "days_from_civil y m d =
    (let y' = (if m \<le> 2 then y - 1 else y); era = y' div 400; yoe = y' mod 400;
         mp = (if m > 2 then m - 3 else m + 9); doy = (153 * mp + 2) div 5 + d - 1;
         doe = yoe * 365 + yoe div 4 - yoe div 100 + doy
     in era * 146097 + doe - 719468)"

definition parse_iso_date :: "string \<Rightarrow> day option" where
  "parse_iso_date s =
    (let y = take 4 s; m = take 2 (drop 5 s); d = take 2 (drop 8 s);
         n = days_from_civil (int (parse_nat y)) (int (parse_nat m)) (int (parse_nat d))
     in if length s = 10 \<and> s ! 4 = CHR ''-'' \<and> s ! 7 = CHR ''-'' \<and> list_all is_digit (y @ m @ d) \<and> 0 < parse_nat y \<and>
          civil n = (int (parse_nat y), int (parse_nat m), int (parse_nat d))
        then Some n else None)"

text \<open>\<open>date.max\<close>, 9999-12-31.\<close>

definition date_max :: day where
  "date_max = 2932896"

definition minutes :: "int \<Rightarrow> moment" where
  "minutes n = n * 60000000"

definition seconds :: "int \<Rightarrow> moment" where
  "seconds n = n * 1000000"

text \<open>The epoch and a leap day.\<close>

lemma civil_epoch: "civil 0 = (1970, 1, 1)"
  by code_simp

lemma civil_leap_day: "civil 19782 = (2024, 2, 29)"
  by code_simp

lemma parse_iso_sample: "parse_iso_date ''2024-02-29'' = Some 19782" "parse_iso_date ''2023-02-29'' = None"
  by code_simp+

lemma civil_date_max: "civil date_max = (9999, 12, 31)"
  by code_simp

end
