(* ===== verification/Expiry.thy ===== *)
theory Expiry
  imports Store Calendar
begin

text \<open>
  First-expiry-first-out picking, \<open>app/services/expiry.py\<close>: which serials a batch type
  may take, the candidates in picking order, the check of a manual scan against the order,
  and automatic picking.
\<close>

definition stock_statuses :: "serial_status list" where
  "stock_statuses = [S_IN_STOCK, S_RETURNED]"

definition fefo_batch_types :: "batch_type list" where
  "fefo_batch_types = [B_SALE, B_ISSUE, B_PURCHASE_RETURN]"

definition fefo_available_statuses :: "batch_type \<Rightarrow> serial_status list" where
  "fefo_available_statuses t =
    (if t = B_ISSUE then [S_IN_STOCK]
     else if t \<in> set fefo_batch_types then stock_statuses
     else [])"

definition expiring_band :: "int \<Rightarrow> string \<times> string" where
  "expiring_band days_left =
    (if days_left \<le> 30 then (''Expiring within 30 days'', ''failed'')
     else if days_left \<le> 60 then (''Expiring within 60 days'', ''pending_sync'')
     else (''Expiring within 90 days'', ''generated''))"

text \<open>\<open>ORDER BY expiry IS NULL, expiry, created_at, id\<close>.\<close>

definition fefo_order :: "serial \<Rightarrow> bool \<times> day \<times> moment \<times> nat" where
  "fefo_order s = (ser_expiry_date s = None, (case ser_expiry_date s of None \<Rightarrow> 0 | Some e \<Rightarrow> e),
     ser_created_at s, ser_id s)"

definition stock_serials :: "db \<Rightarrow> nat option \<Rightarrow> serial list" where
  "stock_serials d pid =
    sort_key (\<lambda>s. (ser_expiry_date s = None, (case ser_expiry_date s of None \<Rightarrow> 0 | Some e \<Rightarrow> e), ser_created_at s))
      (filter (\<lambda>s. ser_active s \<and> ser_status s \<in> set stock_statuses \<and>
         (case pid of None \<Rightarrow> True | Some p \<Rightarrow> ser_product_id s = p)) (serials d))"

definition fefo_eligible :: "db \<Rightarrow> nat \<Rightarrow> serial_status list \<Rightarrow> serial \<Rightarrow> bool" where
  "fefo_eligible d pid statuses s \<longleftrightarrow> ser_active s \<and> ser_product_id s = pid \<and>
     ser_status s \<in> set (if statuses = [] then stock_statuses else statuses) \<and> \<not> in_draft d (ser_id s)"

definition fefo_candidate_serials :: "db \<Rightarrow> nat \<Rightarrow> int \<Rightarrow> serial_status list \<Rightarrow> serial list" where
  "fefo_candidate_serials d pid quantity statuses =
    (if quantity < 1 then []
     else take (nat quantity) (sort_key fefo_order (filter (fefo_eligible d pid statuses) (serials d))))"

text \<open>\<open>(expiry is None, expiry or date.max)\<close>.\<close>

definition expiry_key :: "serial \<Rightarrow> bool \<times> day" where
  "expiry_key s = (ser_expiry_date s = None, (case ser_expiry_date s of None \<Rightarrow> date_max | Some e \<Rightarrow> e))"

definition validate_fefo_scan :: "db \<Rightarrow> batch \<Rightarrow> serial \<Rightarrow> string option" where
  "validate_fefo_scan d b s =
    (let statuses = fefo_available_statuses (bat_type b)
     in if bat_type b \<notin> set fefo_batch_types \<or> ser_status s \<notin> set statuses then None
        else (case fefo_candidate_serials d (ser_product_id s) 1 statuses of
            [] \<Rightarrow> None
          | earliest # _ \<Rightarrow>
              if ser_id earliest = ser_id s then None
              else if expiry_key earliest < expiry_key s then
                Some (''FEFO requires '' @ ser_number earliest @ '' first; it expires on '' @
                  (case ser_expiry_date earliest of Some e \<Rightarrow> long_date e | None \<Rightarrow> ''no expiry date''))
              else None))"

definition new_item :: "db \<Rightarrow> nat \<Rightarrow> nat \<Rightarrow> bool \<Rightarrow> moment \<Rightarrow> batch_item" where
  "new_item d bid sid picked now =
    \<lparr>itm_id = next_id itm_id (batch_items d), itm_batch_id = bid, itm_serial_id = sid, itm_quantity = 1,
     itm_rate = None, itm_discount_rate = None, itm_remarks = None, itm_fefo_picked = picked,
     itm_shelf_location_id = None, itm_shelf_verified_by_id = None, itm_shelf_verified_at = None,
     itm_created_at = now\<rparr>"

definition pick_serial :: "batch \<Rightarrow> nat \<Rightarrow> moment \<Rightarrow> serial \<Rightarrow> db \<Rightarrow> db" where
  "pick_serial b uid now s d =
    add_scan_log (Some (ser_id s)) (ser_number s) uid (batch_type_value (bat_type b)) (Some (bat_id b))
      ''FEFO_PICKED'' (Some ''Auto-picked by First Expiry First Out'') None now
      (d\<lparr>batch_items := batch_items d @ [new_item d (bat_id b) (ser_id s) True now]\<rparr>)"

definition add_fefo_serials_to_batch ::
  "db \<Rightarrow> batch \<Rightarrow> nat \<Rightarrow> nat \<Rightarrow> int \<Rightarrow> moment \<Rightarrow> exc + db"
where
  "add_fefo_serials_to_batch d b uid pid quantity now =
    (if bat_status b \<noteq> BS_DRAFT then Inl (InventoryError ''This batch is already submitted'')
     else if bat_type b \<notin> set fefo_batch_types then
       Inl (InventoryError ''FEFO picking is available for sale, issue, and purchase return batches'')
     else
       let picked = fefo_candidate_serials d pid quantity (fefo_available_statuses (bat_type b))
       in if int (length picked) < quantity then
            Inl (InventoryError (''Only '' @ nat_str (length picked) @ '' FEFO-ready serials are available''))
          else Inr (foldl (\<lambda>e s. pick_serial b uid now s e) d picked))"

section \<open>The picking order\<close>

lemma fefo_statuses_not_empty: "t \<in> set fefo_batch_types \<Longrightarrow> fefo_available_statuses t \<noteq> []"
  by (simp add: fefo_available_statuses_def stock_statuses_def)

lemma fefo_candidates_eligible:
  "s \<in> set (fefo_candidate_serials d pid q sts) \<Longrightarrow> s \<in> set (serials d) \<and> fefo_eligible d pid sts s"
  by (auto simp: fefo_candidate_serials_def split: if_splits dest: in_set_takeD)

lemma fefo_candidates_sorted: "sorted (map fefo_order (fefo_candidate_serials d pid q sts))"
  unfolding fefo_candidate_serials_def by (simp add: take_map [symmetric] sorted_wrt_take)

lemma sorted_take_le:
  assumes "sorted (map f xs)" "x \<in> set (take n xs)" "y \<in> set xs" "y \<notin> set (take n xs)"
  shows "f x \<le> f y"
proof -
  have "y \<in> set (drop n xs)"
    using assms(3,4) by (metis Un_iff append_take_drop_id set_append)
  moreover have "sorted (map f (take n xs) @ map f (drop n xs))"
    using assms(1) by (simp flip: map_append)
  ultimately show ?thesis using assms(2) by (simp add: sorted_append)
qed

lemma fefo_candidates_least:
  assumes "c \<in> set (fefo_candidate_serials d pid q sts)" "s \<in> set (serials d)" "fefo_eligible d pid sts s"
    and "s \<notin> set (fefo_candidate_serials d pid q sts)"
  shows "fefo_order c \<le> fefo_order s"
proof -
  let ?xs = "sort_key fefo_order (filter (fefo_eligible d pid sts) (serials d))"
  have "s \<in> set ?xs" using assms(2,3) by simp
  moreover have "sorted (map fefo_order ?xs)" by simp
  ultimately show ?thesis
    using assms(1,4) sorted_take_le [of fefo_order ?xs c "nat q" s]
    by (auto simp: fefo_candidate_serials_def split: if_splits)
qed

lemma fefo_order_expiry: "fefo_order a \<le> fefo_order b \<Longrightarrow> expiry_key a \<le> expiry_key b"
  by (auto simp: fefo_order_def expiry_key_def less_eq_prod_def less_prod_def split: option.splits)

lemma fefo_candidates_length:
  "length (fefo_candidate_serials d pid q sts) =
     (if q < 1 then 0 else min (nat q) (length (filter (fefo_eligible d pid sts) (serials d))))"
  by (simp add: fefo_candidate_serials_def min.commute)

lemma fefo_candidates_distinct:
  "serials_ok d \<Longrightarrow> distinct (map ser_id (fefo_candidate_serials d pid q sts))"
proof -
  assume "serials_ok d"
  then have "distinct (map ser_id (filter (fefo_eligible d pid sts) (serials d)))"
    by (simp add: serials_ok_def distinct_map_filter)
  then have "distinct (map ser_id (sort_key fefo_order (filter (fefo_eligible d pid sts) (serials d))))"
    by (simp add: distinct_map)
  then show ?thesis
    by (simp add: fefo_candidate_serials_def take_map [symmetric])
qed

text \<open>The first candidate expires no later than any other eligible serial.\<close>

lemma fefo_first_least:
  assumes "fefo_candidate_serials d pid 1 sts = e # es" "s \<in> set (serials d)" "fefo_eligible d pid sts s"
  shows "fefo_order e \<le> fefo_order s"
proof (cases "s \<in> set (fefo_candidate_serials d pid 1 sts)")
  case True
  have "length (e # es) \<le> 1"
    using fefo_candidates_length [of d pid 1 sts] assms(1) by simp
  with True assms(1) show ?thesis by simp
next
  case False
  then show ?thesis using fefo_candidates_least [of e d pid 1 sts s] assms by simp
qed

lemma fefo_none_eligible:
  "fefo_candidate_serials d pid 1 sts = [] \<Longrightarrow> s \<in> set (serials d) \<Longrightarrow> \<not> fefo_eligible d pid sts s"
  using fefo_candidates_length [of d pid 1 sts] by (auto simp: filter_empty_conv min_def split: if_splits)

lemma pick_serial_frame [simp]:
  "serials (pick_serial b u now s d) = serials d"
  "batches (pick_serial b u now s d) = batches d"
  "batch_items (pick_serial b u now s d) = batch_items d @ [new_item d (bat_id b) (ser_id s) True now]"
  by (simp_all add: pick_serial_def)

lemma new_item_fields [simp]:
  "itm_batch_id (new_item d b s p now) = b" "itm_serial_id (new_item d b s p now) = s"
  "itm_id (new_item d b s p now) = next_id itm_id (batch_items d)"
  "itm_fefo_picked (new_item d b s p now) = p"
  by (simp_all add: new_item_def)

lemma pick_all_frame:
  "serials (foldl (\<lambda>e s. pick_serial b u now s e) d ss) = serials d"
  "batches (foldl (\<lambda>e s. pick_serial b u now s e) d ss) = batches d"
  by (induction ss arbitrary: d) simp_all

lemma pick_all_items:
  "\<exists>new. batch_items (foldl (\<lambda>e s. pick_serial b u now s e) d ss) = batch_items d @ new \<and>
     map itm_serial_id new = map ser_id ss \<and> (\<forall>i \<in> set new. itm_batch_id i = bat_id b \<and> itm_fefo_picked i)"
proof (induction ss arbitrary: d)
  case Nil
  then show ?case by simp
next
  case (Cons s ss)
  from Cons.IH [of "pick_serial b u now s d"] obtain new where new:
    "batch_items (foldl (\<lambda>e s. pick_serial b u now s e) (pick_serial b u now s d) ss) =
       batch_items (pick_serial b u now s d) @ new"
    "map itm_serial_id new = map ser_id ss" "\<forall>i \<in> set new. itm_batch_id i = bat_id b \<and> itm_fefo_picked i"
    by blast
  then show ?case
    by (intro exI [of _ "new_item d (bat_id b) (ser_id s) True now # new"]) simp
qed

end
