(* ===== verification/ShelfVerification.thy ===== *)
theory ShelfVerification
  imports Store Calendar
begin

text \<open>
  Shelf verification, \<open>app/services/shelf_verification.py\<close>: purchases, receipts and
  audits have to place scanned products on a shelf at the interval each product asks for.
\<close>

definition shelf_controlled_batch_types :: "batch_type list" where
  "shelf_controlled_batch_types = [B_PURCHASE, B_RECEIVE, B_AUDIT]"

definition item_serial :: "db \<Rightarrow> batch_item \<Rightarrow> serial option" where
  "item_serial d i = get_serial d (itm_serial_id i)"

definition item_product :: "db \<Rightarrow> batch_item \<Rightarrow> product option" where
  "item_product d i = Option.bind (item_serial d i) (product_of d)"

text \<open>The foreign keys of an item and of its serial are not null, so the product is there.\<close>

definition interval_of :: "db \<Rightarrow> batch_item \<Rightarrow> int" where
  "interval_of d i =
    (case item_product d i of None \<Rightarrow> 1
     | Some p \<Rightarrow> max 1 (if prd_shelf_interval p = 0 then 1 else prd_shelf_interval p))"

definition pending_shelf_items :: "db \<Rightarrow> batch \<Rightarrow> batch_item list" where
  "pending_shelf_items d b =
    (if bat_type b \<notin> set shelf_controlled_batch_types then []
     else filter (\<lambda>i. 0 < interval_of d i \<and> itm_shelf_verified_at i = None) (items_of d (bat_id b)))"

record shelf_state =
  controlled :: bool
  pending_count :: nat
  shelf_required :: bool
  next_required_in :: int
  shelf_complete :: bool

text \<open>
  \<open>counts\<close> and \<open>intervals\<close> are keyed by product; a later item of the same product
  writes the same interval, so both are read off the pending items.
\<close>

definition pending_of_product :: "db \<Rightarrow> batch_item list \<Rightarrow> nat option \<Rightarrow> int" where
  "pending_of_product d pending pid =
    int (length (filter (\<lambda>i. map_option ser_product_id (item_serial d i) = pid) pending))"

definition shelf_verification_state :: "db \<Rightarrow> batch \<Rightarrow> shelf_state" where
  "shelf_verification_state d b =
    (let pending = pending_shelf_items d b;
         slack = map (\<lambda>i. interval_of d i - pending_of_product d pending (map_option ser_product_id (item_serial d i))) pending
     in \<lparr>controlled = (bat_type b \<in> set shelf_controlled_batch_types),
         pending_count = length pending,
         shelf_required = list_ex (\<lambda>r. r \<le> 0) slack,
         next_required_in = max 0 (if slack = [] then 0 else Min (set slack)),
         shelf_complete = (length pending = 0)\<rparr>)"

definition ensure_product_scan_allowed :: "db \<Rightarrow> batch \<Rightarrow> exc option" where
  "ensure_product_scan_allowed d b =
    (if shelf_required (shelf_verification_state d b) then Some (ShelfVerificationError
       ''Shelf verification is required now. Scan the shelf QR before scanning another product.'')
     else None)"

definition place_item :: "location \<Rightarrow> nat \<Rightarrow> moment \<Rightarrow> batch_item \<Rightarrow> db \<Rightarrow> db" where
  "place_item loc uid now i d =
    set_serial (itm_serial_id i)
      (\<lambda>s. s\<lparr>ser_location_id := Some (loc_id loc), ser_warehouse := Some (loc_warehouse loc), ser_level := loc_level loc\<rparr>)
      (set_item (itm_id i)
        (\<lambda>r. r\<lparr>itm_shelf_location_id := Some (loc_id loc), itm_shelf_verified_by_id := Some uid,
               itm_shelf_verified_at := Some now\<rparr>) d)"

definition location_mismatch :: "db \<Rightarrow> batch \<Rightarrow> location \<Rightarrow> batch_item \<Rightarrow> bool" where
  "location_mismatch d b loc i \<longleftrightarrow> bat_type b = B_AUDIT \<and>
    (case item_serial d i of None \<Rightarrow> False
     | Some s \<Rightarrow> ser_location_id s \<noteq> None \<and> ser_location_id s \<noteq> Some (loc_id loc))"

definition verify_pending_items_on_shelf ::
  "db \<Rightarrow> batch \<Rightarrow> location \<Rightarrow> nat \<Rightarrow> moment \<Rightarrow> exc + db \<times> nat"
where
  "verify_pending_items_on_shelf d b loc uid now =
    (if bat_status b \<noteq> BS_DRAFT then Inl (ShelfVerificationError ''This batch is already submitted'')
     else if bat_type b \<notin> set shelf_controlled_batch_types then
       Inl (ShelfVerificationError ''Shelf verification is not used for this batch type'')
     else
       let pending = pending_shelf_items d b;
           mismatches = length (filter (location_mismatch d b loc) pending);
           message = nat_str (length pending) @ '' product(s) verified at '' @ full_path loc @
             (if mismatches = 0 then [] else ''; '' @ nat_str mismatches @ '' audit location mismatch(es) recorded'')
       in if pending = [] then
            Inl (ShelfVerificationError ''Scan at least one shelf-controlled product before the shelf QR'')
          else Inr (add_scan_log None (loc_code loc) uid ''SHELF_VERIFY'' (Some (bat_id b))
                 (if mismatches = 0 then ''VERIFIED'' else ''MISMATCH'') (Some message) None now
                 (foldl (\<lambda>e i. place_item loc uid now i e) d pending), length pending))"

definition validate_shelf_verification_complete :: "db \<Rightarrow> batch \<Rightarrow> exc option" where
  "validate_shelf_verification_complete d b =
    (let pending_count = length (pending_shelf_items d b)
     in if pending_count = 0 then None
        else Some (ShelfVerificationError
          ((if bat_type b \<in> {B_PURCHASE, B_RECEIVE} then ''Purchase'' else ''Audit'') @
           '' is incomplete: verify the shelf QR for '' @ nat_str pending_count @ '' scanned '' @
           (if pending_count = 1 then ''product'' else ''products'') @ '' before submitting.'')))"

text \<open>Draft shelf-controlled batches with pending items, newest first, at most \<open>limit\<close>.\<close>

definition pending_shelf_batches :: "db \<Rightarrow> nat option \<Rightarrow> (batch \<times> shelf_state) list" where
  "pending_shelf_batches d limit =
    (let rows = filter (\<lambda>(b, st). pending_count st \<noteq> 0)
           (map (\<lambda>b. (b, shelf_verification_state d b))
             (rev (sort_key bat_created_at
               (filter (\<lambda>b. bat_status b = BS_DRAFT \<and> bat_type b \<in> set shelf_controlled_batch_types) (batches d)))))
     in case limit of None \<Rightarrow> rows | Some n \<Rightarrow> take (max 1 n) rows)"

section \<open>Placing the pending items\<close>

lemma interval_pos [simp]: "0 < interval_of d i"
  by (auto simp: interval_of_def less_max_iff_disj split: option.splits)

lemma pending_shelf_items_iff:
  "i \<in> set (pending_shelf_items d b) \<longleftrightarrow> bat_type b \<in> set shelf_controlled_batch_types \<and>
     i \<in> set (batch_items d) \<and> itm_batch_id i = bat_id b \<and> itm_shelf_verified_at i = None"
  by (auto simp: pending_shelf_items_def items_of_def)

lemma place_item_items:
  "batch_items (place_item loc uid now i d) = upd_rows (\<lambda>r. itm_id r = itm_id i)
     (\<lambda>r. r\<lparr>itm_shelf_location_id := Some (loc_id loc), itm_shelf_verified_by_id := Some uid,
            itm_shelf_verified_at := Some now\<rparr>) (batch_items d)"
  by (simp add: place_item_def set_serial_def set_item_def)

lemma placed_mono:
  assumes "\<forall>r \<in> set (batch_items d). itm_id r \<in> A \<longrightarrow> itm_shelf_verified_at r = Some now"
  shows "\<forall>r \<in> set (batch_items (foldl (\<lambda>e i. place_item loc uid now i e) d is)).
    itm_id r \<in> A \<union> itm_id ` set is \<longrightarrow> itm_shelf_verified_at r = Some now"
  using assms
proof (induction "is" arbitrary: d A)
  case Nil
  then show ?case by simp
next
  case (Cons i "is")
  have "\<forall>r \<in> set (batch_items (place_item loc uid now i d)). itm_id r \<in> insert (itm_id i) A \<longrightarrow>
      itm_shelf_verified_at r = Some now"
    using Cons.prems by (simp add: place_item_items)
  from Cons.IH [OF this] show ?case by simp
qed

lemma place_fold_keys:
  "map (\<lambda>r. (itm_id r, itm_batch_id r, itm_serial_id r)) (batch_items (foldl (\<lambda>e i. place_item loc uid now i e) d is)) =
     map (\<lambda>r. (itm_id r, itm_batch_id r, itm_serial_id r)) (batch_items d)"
  by (induction "is" arbitrary: d) (simp_all add: place_item_items map_upd_rows)

lemma place_fold_unverified:
  "r \<in> set (batch_items (foldl (\<lambda>e i. place_item loc uid now i e) d is)) \<Longrightarrow> itm_shelf_verified_at r = None \<Longrightarrow>
     r \<in> set (batch_items d)"
proof (induction "is" arbitrary: d)
  case Nil
  then show ?case by simp
next
  case (Cons i "is")
  then have "r \<in> set (batch_items (place_item loc uid now i d))" by simp
  with Cons.prems(2) show ?case by (auto simp: place_item_items set_upd_rows split: if_splits)
qed

lemma set_serial_stock_status:
  assumes "\<And>r. ser_id (f r) = ser_id r \<and> ser_status (f r) = ser_status r \<and> ser_active (f r) = ser_active r"
  shows "stock_status (set_serial j f d) = stock_status d"
  using assms by (auto simp: stock_status_def fun_eq_iff split: option.splits)

lemma place_item_stock_status [simp]: "stock_status (place_item loc uid now i d) = stock_status d"
proof -
  have "stock_status (set_item k f d) = stock_status d" for k f
    by (rule stock_status_cong) (simp add: set_item_def)
  then show ?thesis unfolding place_item_def by (simp add: set_serial_stock_status)
qed

lemma place_fold_stock_status:
  "stock_status (foldl (\<lambda>e i. place_item loc uid now i e) d is) = stock_status d"
  by (induction "is" arbitrary: d) simp_all

end
