(* ===== verification/Inventory.thy ===== *)
theory Inventory
  imports Expiry ShelfVerification
begin

text \<open>
  Batches and scans, \<open>app/services/inventory.py\<close>: numbers and texts are normalised,
  batches are opened, serials are scanned into drafts, and a submitted batch moves its
  serials from one status to the next.  The window check of an assigned audit
  (\<open>validate_assignment_scan\<close> of \<open>app/services/audit.py\<close>) is here because
  scanning uses it.

  \<open>env\<close> stands for what other sessions commit while an operation is between its reads
  and its commit.  \<open>view\<close> is the database as the session loaded it.
\<close>

record settings =
  cfg_app_mode :: string
  cfg_franchise_code :: string
  cfg_master_sync_enabled :: bool
  cfg_master_url :: string
  cfg_master_api_key :: string
  cfg_request_timeout :: int

definition normalize_serial :: "string \<Rightarrow> string" where
  "normalize_serial s = py_upper (py_strip s)"

text \<open>\<open>re.sub("[^...]+", "-", s)\<close> for the characters that satisfy \<open>p\<close>.\<close>

fun dash_runs :: "(char \<Rightarrow> bool) \<Rightarrow> bool \<Rightarrow> string \<Rightarrow> string" where
  "dash_runs p inside [] = []"
| "dash_runs p inside (c # cs) =
     (if p c then (if inside then dash_runs p True cs else CHR ''-'' # dash_runs p True cs)
      else c # dash_runs p False cs)"

definition code_char :: "char \<Rightarrow> bool" where
  "code_char c \<longleftrightarrow> is_upper_letter c \<or> is_digit c \<or> c = CHR ''_'' \<or> c = CHR ''-''"

definition placeholder_codes :: "string list" where
  "placeholder_codes = [''CHANGE-ME'', ''CHANGEME'', ''DEFAULT'', ''FRANCHISE'', ''FRANCHISE-CODE'',
     ''LITE'', ''MASTER'', ''SETUORA'', ''YOUR-FRANCHISE'', ''YOUR-FRANCHISE-CODE'']"

definition franchise_serial_prefix :: "settings \<Rightarrow> string \<Rightarrow> exc + string" where
  "franchise_serial_prefix cfg prefix =
    (let serial_prefix = normalize_serial prefix;
         mode = py_lower (py_strip (if cfg_app_mode cfg = [] then ''legacy'' else cfg_app_mode cfg));
         raw = py_upper (py_strip (cfg_franchise_code cfg));
         code = py_strip_by (\<lambda>c. c = CHR ''-'') (dash_runs (\<lambda>c. \<not> code_char c) False raw)
     in if mode \<noteq> ''lite'' then Inr serial_prefix
        else if code = [] \<or> code \<in> set placeholder_codes then
          Inl (InventoryError ''Configure a permanent unique FRANCHISE_CODE before generating QR labels in Setuora Lite.'')
        else if 20 < length code then Inl (InventoryError ''FRANCHISE_CODE must be 20 characters or fewer.'')
        else if serial_prefix = code \<or> starts_with (code @ ''-'') serial_prefix then Inr serial_prefix
        else Inr (code @ ''-'' @ serial_prefix))"

section \<open>Texts of a batch\<close>

definition gst_registration_requires_gstin :: "string option \<Rightarrow> bool" where
  "gst_registration_requires_gstin v \<longleftrightarrow>
     py_strip (case v of None \<Rightarrow> [] | Some s \<Rightarrow> s) \<in> {gst_registration_value GR_COMPOSITION, gst_registration_value GR_REGULAR}"

definition normalize_gstin :: "string option \<Rightarrow> exc + string option" where
  "normalize_gstin v =
    (let raw = py_upper (filter (\<lambda>c. \<not> py_space c) (case v of None \<Rightarrow> [] | Some s \<Rightarrow> s))
     in if raw = [] then Inr None
        else if length raw = 15 \<and> list_all (\<lambda>c. is_digit c \<or> is_upper_letter c) raw then Inr (Some raw)
        else Inl (InventoryError ''GST number must be a 15-character GSTIN.''))"

definition gst_registration_types :: "string list" where
  "gst_registration_types = map gst_registration_value [GR_UNKNOWN, GR_COMPOSITION, GR_REGULAR, GR_UNREGISTERED_CONSUMER]"

definition normalize_gst_registration_type :: "string option \<Rightarrow> batch_type \<Rightarrow> exc + string option" where
  "normalize_gst_registration_type v t =
    (let raw0 = (case v of None \<Rightarrow> [] | Some s \<Rightarrow> py_strip s);
         raw = (if raw0 = [] \<and> t = B_SALE then gst_registration_value GR_UNREGISTERED_CONSUMER else raw0)
     in if raw \<noteq> [] \<and> raw \<notin> set gst_registration_types then
          Inl (InventoryError ''Choose a valid GST registration type.'')
        else Inr (if raw = [] then None else Some raw))"

fun batch_number_prefix :: "batch_type \<Rightarrow> string" where
  "batch_number_prefix B_PURCHASE = ''PUR''"
| "batch_number_prefix B_RECEIVE = ''RCV''"
| "batch_number_prefix B_SALE = ''SAL''"
| "batch_number_prefix B_AUDIT = ''AUD''"
| "batch_number_prefix B_PURCHASE_RETURN = ''PRT''"
| "batch_number_prefix B_SALES_RETURN = ''SRT''"
| "batch_number_prefix B_ISSUE = ''ISS''"
| "batch_number_prefix B_QR_ASSIGNMENT = ''ASN''"

text \<open>\<open>LIKE 'prefix%'\<close> of SQLite does not look at the case of ASCII letters.\<close>

definition sql_like_prefix :: "string \<Rightarrow> string \<Rightarrow> bool" where
  "sql_like_prefix pre s = starts_with (py_upper pre) (py_upper s)"

definition next_batch_number :: "db \<Rightarrow> batch_type \<Rightarrow> moment \<Rightarrow> string" where
  "next_batch_number d t now =
    (let pre = batch_number_prefix t @ ''-'' @ compact_date (day_of now) @ ''-''
     in pre @ zero_pad 4 (count_rows (\<lambda>b. sql_like_prefix pre (bat_number b)) (batches d) + 1))"

record batch_form =
  frm_party_name :: "string option"
  frm_notes :: "string option"
  frm_reason_code :: "string option"
  frm_party_state :: "string option"
  frm_registration :: "string option"
  frm_gst_name :: "string option"
  frm_gstin :: "string option"
  frm_treatment :: "string option"
  frm_cgst :: "rat option"
  frm_sgst :: "rat option"
  frm_igst :: "rat option"
  frm_assignment_id :: "nat option"

definition upper_or_none :: "string option \<Rightarrow> string option" where
  "upper_or_none v = map_option py_upper (strip_or_none v)"

text \<open>The checks before the first insert: the form with every text in its stored form.\<close>

definition clean_form :: "batch_type \<Rightarrow> batch_form \<Rightarrow> exc + batch_form" where
  "clean_form t f =
    (let treatment = upper_or_none (frm_treatment f)
     in if treatment \<notin> {None, Some [], Some (gst_treatment_value INTRA_STATE), Some (gst_treatment_value INTER_STATE)} then
          Inl (InventoryError ''Choose either CGST + SGST or IGST for this sale'')
        else (case normalize_gst_registration_type (frm_registration f) t of
            Inl e \<Rightarrow> Inl e
          | Inr registration \<Rightarrow>
              let state0 = strip_or_none (frm_party_state f);
                  state = (if t = B_SALE \<and> registration = Some (gst_registration_value GR_UNREGISTERED_CONSUMER) \<and>
                             state0 \<in> {None, Some []} then Some ''Karnataka'' else state0);
                  clean = f\<lparr>frm_party_name := strip_or_none (frm_party_name f), frm_notes := strip_or_none (frm_notes f),
                    frm_reason_code := upper_or_none (frm_reason_code f), frm_party_state := state,
                    frm_registration := registration, frm_gst_name := strip_or_none (frm_gst_name f),
                    frm_treatment := treatment\<rparr>
              in if gst_registration_requires_gstin registration then
                   (case normalize_gstin (frm_gstin f) of
                      Inl e \<Rightarrow> Inl e
                    | Inr gstin \<Rightarrow> Inr (clean\<lparr>frm_gstin := gstin\<rparr>))
                 else Inr (clean\<lparr>frm_gstin := None\<rparr>)))"

definition new_batch :: "nat \<Rightarrow> string \<Rightarrow> batch_type \<Rightarrow> batch_form \<Rightarrow> nat \<Rightarrow> moment \<Rightarrow> batch" where
  "new_batch bid number t f uid now =
    \<lparr>bat_id = bid, bat_number = number, bat_type = t, bat_party_name = frm_party_name f,
     bat_party_state = frm_party_state f, bat_gst_registration = frm_registration f,
     bat_gst_name = frm_gst_name f, bat_gstin = frm_gstin f, bat_gst_treatment = frm_treatment f,
     bat_cgst_rate = frm_cgst f, bat_sgst_rate = frm_sgst f, bat_igst_rate = frm_igst f,
     bat_reason_code = frm_reason_code f, bat_user_id = uid, bat_assignment_id = frm_assignment_id f,
     bat_status = BS_DRAFT, bat_voucher_type = None, bat_voucher_number = None, bat_tally_reference = None,
     bat_notes = frm_notes f, bat_last_error = None, bat_retry_count = 0, bat_last_retry_at = None,
     bat_sync_remote_id = None, bat_sync_request_xml = None, bat_sync_started_at = None,
     bat_created_at = now, bat_submitted_at = None, bat_synced_at = None\<rparr>"

definition allocation_error :: exc where
  "allocation_error = InventoryError ''Could not allocate a unique batch number; try again''"

text \<open>
  The allocation loop: the number is counted in the database the session reads, the insert
  meets the database the other sessions left (\<open>env k\<close> in attempt \<open>k\<close>).
\<close>

fun allocate_batch ::
  "(nat \<Rightarrow> db \<Rightarrow> db) \<Rightarrow> bool \<Rightarrow> batch_type \<Rightarrow> batch_form \<Rightarrow> nat \<Rightarrow> moment \<Rightarrow> nat \<Rightarrow> db \<Rightarrow> (exc + batch) \<times> db"
where
  "allocate_batch env commit t f uid now 0 d = (Inl allocation_error, d)"
| "allocate_batch env commit t f uid now (Suc k) d =
    (let number = next_batch_number d t now; d' = env (4 - k) d;
         row = new_batch (next_id bat_id (batches d')) number t f uid now
     in if number \<in> bat_number ` set (batches d') then
          (if \<not> commit \<or> k = 0 then (Inl allocation_error, d')
           else allocate_batch env commit t f uid now k d')
        else (Inr row, d'\<lparr>batches := batches d' @ [row]\<rparr>))"

definition create_batch ::
  "(nat \<Rightarrow> db \<Rightarrow> db) \<Rightarrow> bool \<Rightarrow> batch_type \<Rightarrow> batch_form \<Rightarrow> nat \<Rightarrow> moment \<Rightarrow> db \<Rightarrow> (exc + batch) \<times> db"
where
  "create_batch env commit t f uid now d =
    (case clean_form t f of Inl e \<Rightarrow> (Inl e, d) | Inr g \<Rightarrow> allocate_batch env commit t g uid now 5 d)"

section \<open>Transactions and admission\<close>

fun transaction_type_for_batch :: "batch_type \<Rightarrow> transaction_type" where
  "transaction_type_for_batch B_PURCHASE = T_PURCHASE"
| "transaction_type_for_batch B_RECEIVE = T_PURCHASE"
| "transaction_type_for_batch B_SALE = T_SALE"
| "transaction_type_for_batch B_SALES_RETURN = T_SALES_RETURN"
| "transaction_type_for_batch B_PURCHASE_RETURN = T_PURCHASE_RETURN"
| "transaction_type_for_batch B_ISSUE = T_ISSUE"
| "transaction_type_for_batch B_AUDIT = T_AUDIT"
| "transaction_type_for_batch B_QR_ASSIGNMENT = T_QR_ASSIGNMENT"

record movement_note =
  nt_type :: transaction_type
  nt_serial :: "serial option"
  nt_product :: "product option"
  nt_batch :: "batch option"
  nt_from :: "serial_status option"
  nt_to :: "serial_status option"
  nt_reason :: "string option"
  nt_tally :: "string option"
  nt_reference :: "string option"
  nt_notes :: "string option"

definition log_inventory_transaction :: "nat \<Rightarrow> movement_note \<Rightarrow> moment \<Rightarrow> db \<Rightarrow> db" where
  "log_inventory_transaction uid n now d =
     d\<lparr>transactions := transactions d @ [\<lparr>txn_id = next_id txn_id (transactions d), txn_type = nt_type n,
        txn_serial_id = map_option ser_id (nt_serial n),
        txn_product_id = (case nt_product n of Some p \<Rightarrow> Some (prd_id p)
          | None \<Rightarrow> map_option ser_product_id (nt_serial n)),
        txn_batch_id = map_option bat_id (nt_batch n), txn_user_id = uid,
        txn_serial_number = map_option ser_number (nt_serial n),
        txn_status_from = nt_from n, txn_status_to = nt_to n,
        txn_reason_code = upper_or_none (nt_reason n), txn_tally_reference = nt_tally n,
        txn_reference_number = (if nt_reference n \<in> {None, Some []} then map_option bat_number (nt_batch n)
          else nt_reference n),
        txn_notes = strip_or_none (nt_notes n), txn_created_at = now\<rparr>]\<rparr>"

definition serial_allowed_for_batch :: "serial \<Rightarrow> batch_type \<Rightarrow> exc option" where
  "serial_allowed_for_batch s t =
    (let n = ser_number s; st = ser_status s; refuse = (\<lambda>text. Some (InventoryError (n @ text)))
     in if \<not> ser_active s \<or> st \<in> {S_REPLACED, S_INVALID} then refuse '' is inactive''
        else if st = S_GENERATED \<and> t \<notin> {B_PURCHASE, B_RECEIVE, B_QR_ASSIGNMENT} then
          refuse '' is unassigned. Complete its purchase before using this QR in a stock transaction.''
        else (case t of
            B_PURCHASE \<Rightarrow>
              (if st = S_IN_STOCK then
                 refuse '' is already in stock. For purchase, scan a QR label that starts as Generated.''
               else if st \<notin> {S_GENERATED, S_PURCHASE_RETURN} then
                 refuse ('' cannot be purchased from '' @ serial_status_value st)
               else None)
          | B_RECEIVE \<Rightarrow>
              (if st = S_IN_STOCK then
                 refuse '' is already in stock. For purchase, scan a QR label that starts as Generated.''
               else if st \<notin> {S_GENERATED, S_PURCHASE_RETURN} then
                 refuse ('' cannot be purchased from '' @ serial_status_value st)
               else None)
          | B_SALE \<Rightarrow> if st \<notin> {S_IN_STOCK, S_RETURNED} then refuse '' is not available for sale'' else None
          | B_AUDIT \<Rightarrow> None
          | B_SALES_RETURN \<Rightarrow> if st \<noteq> S_SOLD then refuse '' is not sold'' else None
          | B_PURCHASE_RETURN \<Rightarrow>
              if st \<notin> {S_IN_STOCK, S_RETURNED} then refuse '' is not available for purchase return'' else None
          | B_ISSUE \<Rightarrow> if st \<noteq> S_IN_STOCK then refuse '' is not available for issue'' else None
          | B_QR_ASSIGNMENT \<Rightarrow> if st \<noteq> S_GENERATED then refuse '' is already assigned'' else None))"

definition validate_assignment_scan :: "db \<Rightarrow> batch \<Rightarrow> nat \<Rightarrow> serial \<Rightarrow> moment \<Rightarrow> exc option" where
  "validate_assignment_scan d b uid s now =
    (case Option.bind (bat_assignment_id b) (get_assignment d) of
       None \<Rightarrow> None
     | Some a \<Rightarrow>
         if uid \<noteq> asg_auditor_id a then Some (InventoryError ''This audit is assigned to another auditor'')
         else if now < asg_starts_at a then Some (InventoryError ''This audit window has not started'')
         else if asg_ends_at a < now then Some (InventoryError ''This audit window has ended'')
         else if ser_product_id s \<noteq> asg_product_id a then
           Some (case get_product d (asg_product_id a) of
              Some p \<Rightarrow> InventoryError (''This assignment is only for '' @ prd_name p)
            | None \<Rightarrow> AttributeError ''product_name'')
         else None)"

section \<open>Scanning into a draft\<close>

definition batch_action :: "batch \<Rightarrow> string" where
  "batch_action b = batch_type_value (bat_type b)"

definition record_rejected_scan :: "batch \<Rightarrow> nat \<Rightarrow> string \<Rightarrow> string \<Rightarrow> serial option \<Rightarrow> moment \<Rightarrow> db \<Rightarrow> db" where
  "record_rejected_scan b uid number message s now d =
     add_scan_log (map_option ser_id s) number uid (batch_action b) (Some (bat_id b)) ''REJECTED''
       (Some message) None now d"

definition item_in_batch :: "db \<Rightarrow> nat \<Rightarrow> nat \<Rightarrow> bool" where
  "item_in_batch d bid sid = list_ex (\<lambda>i. itm_batch_id i = bid \<and> itm_serial_id i = sid) (batch_items d)"

definition in_other_draft :: "db \<Rightarrow> nat \<Rightarrow> nat \<Rightarrow> bool" where
  "in_other_draft d bid sid = list_ex (\<lambda>i. itm_serial_id i = sid \<and> itm_batch_id i \<noteq> bid \<and>
     (case get_batch d (itm_batch_id i) of Some b \<Rightarrow> bat_status b = BS_DRAFT | None \<Rightarrow> False)) (batch_items d)"

text \<open>The checks inside the \<open>try\<close>, in order; the first one that fails is the answer.\<close>

definition scan_refusal :: "db \<Rightarrow> batch \<Rightarrow> nat \<Rightarrow> serial \<Rightarrow> moment \<Rightarrow> exc option" where
  "scan_refusal d b uid s now =
    (case serial_allowed_for_batch s (bat_type b) of Some e \<Rightarrow> Some e
     | None \<Rightarrow>
    (case (if bat_type b = B_AUDIT \<and> bat_assignment_id b \<notin> {None, Some 0}
           then validate_assignment_scan d b uid s now else None) of Some e \<Rightarrow> Some e
     | None \<Rightarrow>
    (case validate_fefo_scan d b s of Some m \<Rightarrow> Some (InventoryError m)
     | None \<Rightarrow>
       if item_in_batch d (bat_id b) (ser_id s) then Some (InventoryError ''Already scanned in this batch'')
       else if in_other_draft d (bat_id b) (ser_id s) then
         Some (InventoryError (ser_number s @ '' is already in another open batch''))
       else None)))"

definition insert_scan :: "batch \<Rightarrow> nat \<Rightarrow> serial \<Rightarrow> moment \<Rightarrow> db \<Rightarrow> db" where
  "insert_scan b uid s now d =
     add_scan_log (Some (ser_id s)) (ser_number s) uid (batch_action b) (Some (bat_id b)) ''SCANNED'' None None now
       (d\<lparr>batch_items := batch_items d @ [new_item d (bat_id b) (ser_id s) False now]\<rparr>)"

definition add_serial_to_batch ::
  "(db \<Rightarrow> db) \<Rightarrow> batch \<Rightarrow> nat \<Rightarrow> string \<Rightarrow> moment \<Rightarrow> db \<Rightarrow> (exc + batch_item) \<times> db"
where
  "add_serial_to_batch env b uid raw now d =
    (if bat_status b \<noteq> BS_DRAFT then (Inl (InventoryError ''This batch is already submitted''), d)
     else
       let number = normalize_serial raw
       in (case serial_by_number d number of
           None \<Rightarrow> (Inl (InventoryError ''Serial number not found''),
             record_rejected_scan b uid number ''Serial number not found'' None now d)
         | Some s \<Rightarrow>
           (case scan_refusal d b uid s now of
              Some (InventoryError m) \<Rightarrow> (Inl (InventoryError m),
                record_rejected_scan b uid (ser_number s) m (Some s) now d)
            | Some e \<Rightarrow> (Inl e, d)
            | None \<Rightarrow>
                let d' = env d
                in if item_in_batch d' (bat_id b) (ser_id s) then
                     (Inl (InventoryError ''Already scanned in this batch''),
                      record_rejected_scan b uid (ser_number s) ''Already scanned in this batch'' (Some s) now d')
                   else (Inr (new_item d' (bat_id b) (ser_id s) False now), insert_scan b uid s now d'))))"

definition remove_batch_item :: "batch \<Rightarrow> nat \<Rightarrow> db \<Rightarrow> exc + db" where
  "remove_batch_item b iid d =
    (if bat_status b \<noteq> BS_DRAFT then Inl (InventoryError ''Submitted batches cannot be edited'')
     else (case get_item d iid of
         None \<Rightarrow> Inl (InventoryError ''Scan not found'')
       | Some i \<Rightarrow> if itm_batch_id i \<noteq> bat_id b then Inl (InventoryError ''Scan not found'')
           else Inr (d\<lparr>batch_items := filter (\<lambda>r. itm_id r \<noteq> iid) (batch_items d)\<rparr>)))"

section \<open>Submitting a batch\<close>

definition damaged_reason :: "batch \<Rightarrow> bool" where
  "damaged_reason b \<longleftrightarrow> bat_reason_code b \<in> {Some ''DAMAGED'', Some ''EXPIRED''}"

fun target_status :: "batch \<Rightarrow> serial_status \<Rightarrow> batch_type \<Rightarrow> serial_status" where
  "target_status b previous B_RECEIVE = S_IN_STOCK"
| "target_status b previous B_PURCHASE = S_IN_STOCK"
| "target_status b previous B_SALE = S_SOLD"
| "target_status b previous B_SALES_RETURN = (if damaged_reason b then S_DAMAGED else S_IN_STOCK)"
| "target_status b previous B_PURCHASE_RETURN = S_PURCHASE_RETURN"
| "target_status b previous B_ISSUE = S_ISSUED"
| "target_status b previous B_AUDIT = previous"
| "target_status b previous B_QR_ASSIGNMENT = previous"

fun scan_status_text :: "batch \<Rightarrow> batch_type \<Rightarrow> string" where
  "scan_status_text b B_RECEIVE = ''PURCHASED''"
| "scan_status_text b B_PURCHASE = ''PURCHASED''"
| "scan_status_text b B_SALE = ''SOLD''"
| "scan_status_text b B_SALES_RETURN = (if damaged_reason b then ''DAMAGED'' else ''RETURNED'')"
| "scan_status_text b B_PURCHASE_RETURN = ''PURCHASE_RETURN''"
| "scan_status_text b B_ISSUE = ''ISSUED''"
| "scan_status_text b B_AUDIT = ''AUDITED''"
| "scan_status_text b B_QR_ASSIGNMENT = ''SUBMITTED''"

definition freeze_rates :: "batch_type \<Rightarrow> product \<Rightarrow> batch_item \<Rightarrow> batch_item" where
  "freeze_rates t p i =
     i\<lparr>itm_rate := (if t \<noteq> B_AUDIT \<and> itm_rate i = None then Some (prd_default_rate p) else itm_rate i),
       itm_discount_rate := (if itm_discount_rate i = None then Some (prd_sales_discount_rate p)
         else itm_discount_rate i)\<rparr>"

definition submit_notes :: "batch \<Rightarrow> serial \<Rightarrow> movement_note" where
  "submit_notes b s =
     \<lparr>nt_type = transaction_type_for_batch (bat_type b), nt_serial = Some s, nt_product = None, nt_batch = Some b,
      nt_from = Some (ser_status s), nt_to = Some (target_status b (ser_status s) (bat_type b)),
      nt_reason = bat_reason_code b, nt_tally = bat_tally_reference b, nt_reference = None, nt_notes = bat_notes b\<rparr>"

definition log_submitted :: "batch \<Rightarrow> nat \<Rightarrow> moment \<Rightarrow> serial \<Rightarrow> db \<Rightarrow> db" where
  "log_submitted b uid now s d =
     log_inventory_transaction uid (submit_notes b s) now
       (add_scan_log (Some (ser_id s)) (ser_number s) uid (batch_action b) (Some (bat_id b))
          (scan_status_text b (bat_type b)) None (bat_tally_reference b) now d)"

text \<open>
  One turn of the loop.  The status the update expects is the one of the serial as the
  session loaded it; the row the update meets is the one in the database.
\<close>

definition apply_item :: "db \<Rightarrow> batch \<Rightarrow> nat \<Rightarrow> moment \<Rightarrow> batch_item \<Rightarrow> db \<Rightarrow> exc + db" where
  "apply_item view b uid now i d =
    (case item_serial view i of
       None \<Rightarrow> Inl (AttributeError ''status'')
     | Some s \<Rightarrow>
      (case product_of view s of
         None \<Rightarrow> Inl (AttributeError ''default_rate'')
       | Some p \<Rightarrow>
           let d1 = set_item (itm_id i) (freeze_rates (bat_type b) p) d
           in if bat_type b = B_AUDIT then Inr (log_submitted b uid now s d1)
              else
                let (claimed, d2) = claim_serial (ser_id s) (ser_status s)
                       (target_status b (ser_status s) (bat_type b)) d1
                in if claimed \<noteq> 1 then
                     Inl (InventoryError (ser_number s @ '' is no longer available; re-scan the batch''))
                   else Inr (log_submitted b uid now s d2)))"

definition admit_item :: "db \<Rightarrow> batch_type \<Rightarrow> batch_item \<Rightarrow> exc option" where
  "admit_item view t i =
    (case item_serial view i of None \<Rightarrow> Some (AttributeError ''status'')
     | Some s \<Rightarrow> serial_allowed_for_batch s t)"

definition apply_batch_statuses :: "db \<Rightarrow> batch \<Rightarrow> nat \<Rightarrow> moment \<Rightarrow> db \<Rightarrow> exc + db" where
  "apply_batch_statuses view b uid now d =
    (let its = items_of view (bat_id b)
     in if its = [] then Inl (InventoryError ''Scan at least one serial before submitting'')
        else (case validate_shelf_verification_complete view b of Some e \<Rightarrow> Inl e
        | None \<Rightarrow>
       (case check_all (admit_item view (bat_type b)) its of Some e \<Rightarrow> Inl e
        | None \<Rightarrow>
       (case fold_res (apply_item view b uid now) its d of Inl e \<Rightarrow> Inl e
        | Inr d' \<Rightarrow> Inr (set_batch (bat_id b)
            (\<lambda>r. r\<lparr>bat_status := BS_SUBMITTED, bat_submitted_at := Some now\<rparr>) d')))))"

definition update_batch_transaction_references :: "batch \<Rightarrow> db \<Rightarrow> db" where
  "update_batch_transaction_references b d =
    (if bat_tally_reference b \<in> {None, Some []} then d
     else d\<lparr>transactions := upd_rows (\<lambda>r. txn_batch_id r = Some (bat_id b))
       (\<lambda>r. r\<lparr>txn_tally_reference := bat_tally_reference b\<rparr>) (transactions d)\<rparr>)"

section \<open>Grouping and rates\<close>

record item_group =
  grp_product :: product
  grp_quantity :: nat
  grp_serials :: "string list"
  grp_rate :: rat
  grp_discount :: rat

text \<open>
  One group per product, rate and discount, in the order of first occurrence.  The foreign
  keys of an item and of its serial are not null, so every item has its group.
\<close>

fun add_to_groups :: "item_group \<Rightarrow> item_group list \<Rightarrow> item_group list" where
  "add_to_groups g [] = [g]"
| "add_to_groups g (h # hs) =
     (if prd_id (grp_product h) = prd_id (grp_product g) \<and> grp_rate h = grp_rate g \<and> grp_discount h = grp_discount g
      then h\<lparr>grp_quantity := grp_quantity h + grp_quantity g, grp_serials := grp_serials h @ grp_serials g\<rparr> # hs
      else h # add_to_groups g hs)"

definition item_group_of :: "db \<Rightarrow> batch_item \<Rightarrow> item_group option" where
  "item_group_of d i =
    (case item_serial d i of None \<Rightarrow> None
     | Some s \<Rightarrow> map_option (\<lambda>p.
         \<lparr>grp_product = p, grp_quantity = itm_quantity i, grp_serials = [ser_number s],
          grp_rate = (case itm_rate i of Some r \<Rightarrow> r | None \<Rightarrow> prd_default_rate p),
          grp_discount = (case itm_discount_rate i of Some r \<Rightarrow> r | None \<Rightarrow> prd_sales_discount_rate p)\<rparr>)
         (product_of d s))"

definition group_batch_items :: "db \<Rightarrow> batch \<Rightarrow> item_group list" where
  "group_batch_items d b =
     fold add_to_groups (List.map_filter (item_group_of d) (items_of d (bat_id b))) []"

definition update_batch_item_rate :: "batch \<Rightarrow> nat \<Rightarrow> rat \<Rightarrow> db \<Rightarrow> exc + db" where
  "update_batch_item_rate b iid rate d =
    (if bat_status b \<noteq> BS_DRAFT then Inl (InventoryError ''Submitted batches cannot be edited'')
     else if rate < 0 then Inl (InventoryError ''Rate cannot be negative'')
     else (case get_item d iid of
         None \<Rightarrow> Inl (InventoryError ''Scan not found'')
       | Some i \<Rightarrow> if itm_batch_id i \<noteq> bat_id b then Inl (InventoryError ''Scan not found'')
           else Inr (set_item iid (\<lambda>r. r\<lparr>itm_rate := Some rate\<rparr>) d)))"

definition update_product_rate_in_batch :: "batch \<Rightarrow> nat \<Rightarrow> rat \<Rightarrow> db \<Rightarrow> exc + db" where
  "update_product_rate_in_batch b pid rate d =
    (if bat_status b \<noteq> BS_DRAFT then Inl (InventoryError ''Submitted batches cannot be edited'')
     else if rate < 0 then Inl (InventoryError ''Rate cannot be negative'')
     else
       let hit = (\<lambda>i. itm_batch_id i = bat_id b \<and> map_option ser_product_id (item_serial d i) = Some pid)
       in if list_ex hit (batch_items d)
          then Inr (d\<lparr>batch_items := upd_rows hit (\<lambda>r. r\<lparr>itm_rate := Some rate\<rparr>) (batch_items d)\<rparr>)
          else Inl (InventoryError ''Product not found in batch''))"

section \<open>Normal forms and admission\<close>

lemma normalize_serial_normal: "normalize_serial (normalize_serial s) = normalize_serial s"
  by (simp add: normalize_serial_def py_strip_upper)

fun admissible_statuses :: "batch_type \<Rightarrow> serial_status list" where
  "admissible_statuses B_PURCHASE = [S_GENERATED, S_PURCHASE_RETURN]"
| "admissible_statuses B_RECEIVE = [S_GENERATED, S_PURCHASE_RETURN]"
| "admissible_statuses B_SALE = [S_IN_STOCK, S_RETURNED]"
| "admissible_statuses B_AUDIT = [S_PURCHASED, S_RECEIVED, S_IN_STOCK, S_SOLD, S_RETURNED, S_PURCHASE_RETURN,
     S_ISSUED, S_AUDITED, S_DAMAGED, S_MISSING, S_IN_TRANSIT]"
| "admissible_statuses B_SALES_RETURN = [S_SOLD]"
| "admissible_statuses B_PURCHASE_RETURN = [S_IN_STOCK, S_RETURNED]"
| "admissible_statuses B_ISSUE = [S_IN_STOCK]"
| "admissible_statuses B_QR_ASSIGNMENT = [S_GENERATED]"

lemma serial_allowed_iff:
  "serial_allowed_for_batch s t = None \<longleftrightarrow> ser_active s \<and> ser_status s \<in> set (admissible_statuses t)"
  by (cases t; cases "ser_status s") (simp_all add: serial_allowed_for_batch_def Let_def)

lemma serial_refusal_is_inventory_error:
  "serial_allowed_for_batch s t = Some e \<Longrightarrow> \<exists>m. e = InventoryError (ser_number s @ m)"
  by (cases t) (auto simp: serial_allowed_for_batch_def Let_def split: if_splits)

lemma target_moves:
  "st \<in> set (admissible_statuses (bat_type b)) \<Longrightarrow> bat_type b \<notin> {B_AUDIT, B_QR_ASSIGNMENT} \<Longrightarrow>
     target_status b st (bat_type b) \<noteq> st"
  by (cases "bat_type b") auto

section \<open>Frames\<close>

lemma log_inventory_transaction_frame [simp]:
  "serials (log_inventory_transaction u n t d) = serials d"
  "batches (log_inventory_transaction u n t d) = batches d"
  "batch_items (log_inventory_transaction u n t d) = batch_items d"
  "scan_logs (log_inventory_transaction u n t d) = scan_logs d"
  "outbox (log_inventory_transaction u n t d) = outbox d"
  "outbox_sequence (log_inventory_transaction u n t d) = outbox_sequence d"
  "products (log_inventory_transaction u n t d) = products d"
  "transfers (log_inventory_transaction u n t d) = transfers d"
  "transfer_items (log_inventory_transaction u n t d) = transfer_items d"
  by (simp_all add: log_inventory_transaction_def)

lemma log_submitted_frame [simp]:
  "serials (log_submitted b u t s d) = serials d"
  "batches (log_submitted b u t s d) = batches d"
  "batch_items (log_submitted b u t s d) = batch_items d"
  "outbox (log_submitted b u t s d) = outbox d"
  "products (log_submitted b u t s d) = products d"
  by (simp_all add: log_submitted_def)

lemma set_item_frame [simp]:
  "serials (set_item i f d) = serials d" "batches (set_item i f d) = batches d"
  "products (set_item i f d) = products d" "outbox (set_item i f d) = outbox d"
  "scan_logs (set_item i f d) = scan_logs d" "transactions (set_item i f d) = transactions d"
  by (simp_all add: set_item_def)

lemma set_batch_frame [simp]:
  "serials (set_batch i f d) = serials d" "batch_items (set_batch i f d) = batch_items d"
  "products (set_batch i f d) = products d" "outbox (set_batch i f d) = outbox d"
  "scan_logs (set_batch i f d) = scan_logs d" "transactions (set_batch i f d) = transactions d"
  by (simp_all add: set_batch_def)

lemma claim_serial_tables [simp]:
  "batches (snd (claim_serial i a b d)) = batches d"
  "batch_items (snd (claim_serial i a b d)) = batch_items d"
  "products (snd (claim_serial i a b d)) = products d"
  "outbox (snd (claim_serial i a b d)) = outbox d"
  "scan_logs (snd (claim_serial i a b d)) = scan_logs d"
  "transactions (snd (claim_serial i a b d)) = transactions d"
  by (simp_all add: claim_serial_def Let_def)

lemma claim_serial_cong:
  assumes "serials e = serials d"
  shows "fst (claim_serial i a b e) = fst (claim_serial i a b d)"
    and "serials (snd (claim_serial i a b e)) = serials (snd (claim_serial i a b d))"
  using assms by (simp_all add: claim_serial_def Let_def)

section \<open>The submission loop\<close>

definition item_source :: "db \<Rightarrow> batch_item \<Rightarrow> serial_status" where
  "item_source view i = (case item_serial view i of None \<Rightarrow> S_INVALID | Some s \<Rightarrow> ser_status s)"

definition submittable :: "db \<Rightarrow> batch \<Rightarrow> batch_item \<Rightarrow> bool" where
  "submittable view b i \<longleftrightarrow> bat_type b \<noteq> B_AUDIT \<and> item_product view i \<noteq> None"

lemma submittable_serial:
  assumes "submittable view b i"
  obtains s p where "item_serial view i = Some s" "product_of view s = Some p" "ser_id s = itm_serial_id i"
    "item_source view i = ser_status s" "bat_type b \<noteq> B_AUDIT"
proof -
  obtain s where s: "item_serial view i = Some s"
    using assms by (cases "item_serial view i") (simp_all add: submittable_def item_product_def)
  then obtain p where "product_of view s = Some p"
    using assms by (auto simp: submittable_def item_product_def)
  with s assms show ?thesis
    by (intro that [of s p]) (auto simp: item_source_def item_serial_def submittable_def dest: get_serial_in)
qed

lemma apply_item_claim:
  assumes "submittable view b i"
  shows "\<exists>s. ser_id s = itm_serial_id i \<and> apply_item view b u now i d =
    (let c = claim_serial (itm_serial_id i) (item_source view i) (target_status b (item_source view i) (bat_type b))
        (set_item (itm_id i) (freeze_rates (bat_type b) (the (item_product view i))) d)
     in if fst c \<noteq> 1 then Inl (InventoryError (ser_number s @ '' is no longer available; re-scan the batch''))
        else Inr (log_submitted b u now s (snd c)))"
proof -
  obtain s p where "item_serial view i = Some s" "product_of view s = Some p" "ser_id s = itm_serial_id i"
    "item_source view i = ser_status s" "bat_type b \<noteq> B_AUDIT"
    using submittable_serial [OF assms] .
  then show ?thesis
    by (intro exI [of _ s]) (simp add: apply_item_def item_product_def Let_def split_beta)
qed

interpretation apply_loop: claim_loop stock_status claim_serial serials_ok "apply_item view b u now"
    itm_serial_id "item_source view" "\<lambda>i. target_status b (item_source view i) (bat_type b)" "submittable view b"
  for view b u now
proof unfold_locales
  fix x d
  let ?t = "target_status b (item_source view x) (bat_type b)"
  let ?d1 = "set_item (itm_id x) (freeze_rates (bat_type b) (the (item_product view x))) d"
  assume x: "submittable view b x" and ok: "serials_ok d"
  have c: "fst (claim_serial i a t ?d1) = fst (claim_serial i a t d)"
    "serials (snd (claim_serial i a t ?d1)) = serials (snd (claim_serial i a t d))" for i a t
    by (rule claim_serial_cong; simp)+
  obtain s where s: "apply_item view b u now x d =
    (let c = claim_serial (itm_serial_id x) (item_source view x) ?t ?d1
     in if fst c \<noteq> 1 then Inl (InventoryError (ser_number s @ '' is no longer available; re-scan the batch''))
        else Inr (log_submitted b u now s (snd c)))"
    using apply_item_claim [OF x] by blast
  let ?e = "log_submitted b u now s (snd (claim_serial (itm_serial_id x) (item_source view x) ?t ?d1))"
  have e: "serials ?e = serials (snd (claim_serial (itm_serial_id x) (item_source view x) ?t d))"
    by (simp add: c(2))
  { assume "fst (claim_serial (itm_serial_id x) (item_source view x) ?t d) = 1"
    then have "apply_item view b u now x d = Inr ?e" using s by (simp add: c(1) Let_def)
    moreover have "serials_ok ?e" using ok serials_okI [OF e] by simp
    moreover have "stock_status ?e = stock_status (snd (claim_serial (itm_serial_id x) (item_source view x) ?t d))"
      by (rule stock_status_cong) (rule e)
    ultimately show "\<exists>d'. apply_item view b u now x d = Inr d' \<and> serials_ok d' \<and>
        stock_status d' = stock_status (snd (claim_serial (itm_serial_id x) (item_source view x) ?t d))"
      by blast }
  { assume "fst (claim_serial (itm_serial_id x) (item_source view x) ?t d) \<noteq> 1"
    then show "\<exists>e. apply_item view b u now x d = Inl e" using s by (simp add: c(1) Let_def) }
qed

lemma items_of_distinct: "items_ok d \<Longrightarrow> distinct (map itm_serial_id (items_of d k))"
proof -
  assume ok: "items_ok d"
  have "distinct (map (\<lambda>i. (itm_batch_id i, itm_serial_id i)) (items_of d k))"
    using ok by (simp add: items_ok_def items_of_def distinct_map_filter)
  moreover have "map (\<lambda>i. (itm_batch_id i, itm_serial_id i)) (items_of d k) = map (Pair k) (map itm_serial_id (items_of d k))"
    by (simp add: items_of_def)
  ultimately show ?thesis by (simp only: distinct_map)
qed

text \<open>What a successful submission has gone through.\<close>

lemma apply_batch_statusesD:
  assumes "apply_batch_statuses view b u now d = Inr d'"
  obtains e where "items_of view (bat_id b) \<noteq> []" "validate_shelf_verification_complete view b = None"
    "\<forall>i \<in> set (items_of view (bat_id b)). admit_item view (bat_type b) i = None"
    "fold_res (apply_item view b u now) (items_of view (bat_id b)) d = Inr e"
    "d' = set_batch (bat_id b) (\<lambda>r. r\<lparr>bat_status := BS_SUBMITTED, bat_submitted_at := Some now\<rparr>) e"
  using assms
  by (auto simp: apply_batch_statuses_def Let_def check_all_None_iff split: if_splits option.splits sum.splits)

lemma apply_item_product: "apply_item view b u now i d = Inr d' \<Longrightarrow> item_product view i \<noteq> None"
  by (auto simp: apply_item_def item_product_def split: option.splits)

lemma loop_products:
  "fold_res (apply_item view b u now) is d = Inr d' \<Longrightarrow> \<forall>i \<in> set is. item_product view i \<noteq> None"
  by (induction "is" arbitrary: d) (auto split: sum.splits dest: apply_item_product)

lemma admit_item_None:
  "admit_item view t i = None \<longleftrightarrow> (\<exists>s. item_serial view i = Some s \<and> ser_active s \<and> ser_status s \<in> set (admissible_statuses t))"
  by (auto simp: admit_item_def serial_allowed_iff split: option.splits)

lemma stock_status_set_batch [simp]: "stock_status (set_batch i f d) = stock_status d"
  by (rule stock_status_cong) simp

lemma submission_effect:
  assumes "apply_batch_statuses view b u now d = Inr d'" "serials_ok d" "items_ok view" "bat_type b \<noteq> B_AUDIT"
  shows "\<forall>i \<in> set (items_of view (bat_id b)).
      item_source view i \<in> set (admissible_statuses (bat_type b)) \<and>
      stock_status d (itm_serial_id i) = Some (item_source view i) \<and>
      stock_status d' (itm_serial_id i) = Some (target_status b (item_source view i) (bat_type b))"
    and "\<forall>k. k \<notin> itm_serial_id ` set (items_of view (bat_id b)) \<longrightarrow> stock_status d' k = stock_status d k"
    and "serials_ok d'"
proof -
  let ?is = "items_of view (bat_id b)"
  obtain e where e: "\<forall>i \<in> set ?is. admit_item view (bat_type b) i = None"
    "fold_res (apply_item view b u now) ?is d = Inr e"
    "d' = set_batch (bat_id b) (\<lambda>r. r\<lparr>bat_status := BS_SUBMITTED, bat_submitted_at := Some now\<rparr>) e"
    using apply_batch_statusesD [OF assms(1)] by blast
  have sub: "\<forall>i \<in> set ?is. submittable view b i"
    using loop_products [OF e(2)] assms(4) by (simp add: submittable_def)
  note eff = apply_loop.loop_effect [OF e(2) assms(2) items_of_distinct [OF assms(3)] sub]
  have "item_source view i \<in> set (admissible_statuses (bat_type b))" if "i \<in> set ?is" for i
    using e(1) that by (force simp: admit_item_None item_source_def)
  then show "\<forall>i \<in> set ?is. item_source view i \<in> set (admissible_statuses (bat_type b)) \<and>
      stock_status d (itm_serial_id i) = Some (item_source view i) \<and>
      stock_status d' (itm_serial_id i) = Some (target_status b (item_source view i) (bat_type b))"
    using eff e(3) by simp
  show "\<forall>k. k \<notin> itm_serial_id ` set ?is \<longrightarrow> stock_status d' k = stock_status d k"
    using eff e(3) by simp
  show "serials_ok d'"
    using eff e(3) by (auto intro: serials_okI)
qed

lemma submission_possible:
  assumes "serials_ok d" "items_ok view" "bat_type b \<noteq> B_AUDIT"
  shows "(\<exists>d'. apply_batch_statuses view b u now d = Inr d') \<longleftrightarrow>
    items_of view (bat_id b) \<noteq> [] \<and> pending_shelf_items view b = [] \<and>
    (\<forall>i \<in> set (items_of view (bat_id b)). admit_item view (bat_type b) i = None \<and> item_product view i \<noteq> None \<and>
       stock_status d (itm_serial_id i) = Some (item_source view i))" (is "?l \<longleftrightarrow> ?r")
proof
  assume ?l
  then obtain d' where d': "apply_batch_statuses view b u now d = Inr d'" by blast
  obtain e where "items_of view (bat_id b) \<noteq> []" "validate_shelf_verification_complete view b = None"
    "\<forall>i \<in> set (items_of view (bat_id b)). admit_item view (bat_type b) i = None"
    "fold_res (apply_item view b u now) (items_of view (bat_id b)) d = Inr e"
    using apply_batch_statusesD [OF d'] by blast
  then show ?r
    using loop_products submission_effect(1) [OF d' assms]
    by (auto simp: validate_shelf_verification_complete_def Let_def split: if_splits)
next
  assume r: ?r
  then have sub: "\<forall>i \<in> set (items_of view (bat_id b)). submittable view b i \<and>
      stock_status d (itm_serial_id i) = Some (item_source view i)"
    using assms(3) by (simp add: submittable_def)
  obtain e where "fold_res (apply_item view b u now) (items_of view (bat_id b)) d = Inr e"
    using apply_loop.loop_succeeds [OF assms(1) items_of_distinct [OF assms(2)] sub] by blast
  then show ?l
    using r check_all_None_iff [of "admit_item view (bat_type b)" "items_of view (bat_id b)"]
    by (simp add: apply_batch_statuses_def validate_shelf_verification_complete_def)
qed

text \<open>An audit is recorded without touching a serial.\<close>

lemma audit_loop_serials:
  assumes "fold_res (apply_item view b u now) is d = Inr e" "bat_type b = B_AUDIT"
  shows "serials e = serials d"
  using assms(1)
  by (rule fold_res_frame) (use assms(2) in \<open>auto simp: apply_item_def split: option.splits\<close>)

lemma audit_submission_serials:
  assumes "apply_batch_statuses view b u now d = Inr d'" "bat_type b = B_AUDIT"
  shows "serials d' = serials d"
proof -
  obtain e where "fold_res (apply_item view b u now) (items_of view (bat_id b)) d = Inr e"
    "d' = set_batch (bat_id b) (\<lambda>r. r\<lparr>bat_status := BS_SUBMITTED, bat_submitted_at := Some now\<rparr>) e"
    using apply_batch_statusesD [OF assms(1)] by blast
  then show ?thesis using audit_loop_serials assms(2) by simp
qed

section \<open>Properties\<close>

text \<open>A serial may enter a batch exactly when it is active and its status is one of those the batch type starts from.\<close>

theorem serial_admission:
  "serial_allowed_for_batch s t = None \<longleftrightarrow> ser_active s \<and> ser_status s \<in> set (admissible_statuses t)"
  by (rule serial_allowed_iff)

text \<open>
  C1. A submitted batch (audits apart) moves every scanned serial from the status the session
  saw, which is admissible for the type, to the type's target status, and no other serial;
  the batch becomes SUBMITTED.
\<close>

theorem submit_moves_stock:
  assumes "apply_batch_statuses view b u now d = Inr d'" "serials_ok d" "items_ok view" "bat_type b \<noteq> B_AUDIT"
  shows "(\<forall>i \<in> set (items_of view (bat_id b)).
      item_source view i \<in> set (admissible_statuses (bat_type b)) \<and>
      stock_status d (itm_serial_id i) = Some (item_source view i) \<and>
      stock_status d' (itm_serial_id i) = Some (target_status b (item_source view i) (bat_type b))) \<and>
    (\<forall>k. k \<notin> itm_serial_id ` set (items_of view (bat_id b)) \<longrightarrow> stock_status d' k = stock_status d k) \<and>
    (\<forall>r \<in> set (batches d'). bat_id r = bat_id b \<longrightarrow> bat_status r = BS_SUBMITTED)"
proof -
  obtain e where "d' = set_batch (bat_id b) (\<lambda>r. r\<lparr>bat_status := BS_SUBMITTED, bat_submitted_at := Some now\<rparr>) e"
    using apply_batch_statusesD [OF assms(1)] by blast
  then have "\<forall>r \<in> set (batches d'). bat_id r = bat_id b \<longrightarrow> bat_status r = BS_SUBMITTED"
    by (simp add: set_batch_def)
  then show ?thesis using submission_effect [OF assms] by blast
qed

text \<open>
  C3. A submission goes through exactly when something is scanned, no shelf verification is
  pending, every scanned serial is admissible, and the database still has every one of them
  active in the status the session saw; otherwise nothing is changed.
\<close>

theorem submit_succeeds_iff:
  assumes "serials_ok d" "items_ok view" "bat_type b \<noteq> B_AUDIT"
  shows "(\<exists>d'. apply_batch_statuses view b u now d = Inr d') \<longleftrightarrow>
    items_of view (bat_id b) \<noteq> [] \<and> pending_shelf_items view b = [] \<and>
    (\<forall>i \<in> set (items_of view (bat_id b)). admit_item view (bat_type b) i = None \<and> item_product view i \<noteq> None \<and>
       stock_status d (itm_serial_id i) = Some (item_source view i))"
  by (rule submission_possible [OF assms])

text \<open>
  C2. Two sessions that loaded the same stock cannot both move a serial: once the first one has
  submitted a batch that moves it (a purchase or receipt, a sale, a return or an issue), and the
  status is still as that left it, the other one's submission of the same serial in any batch that
  claims its serials fails, so two such submissions that both go through share no serial.  The
  batches this does not hold for are those that move nothing: an audit claims no serial, on either
  side, and a first batch that assigns labels leaves its serials in the status it found.
\<close>

theorem no_double_submission:
  assumes "apply_batch_statuses view b u now d = Inr d1" "apply_batch_statuses view c v later e = Inr d2"
    and "serials_ok d" "serials_ok e" "items_ok view"
    and "\<forall>i \<in> set (items_of view (bat_id b)). stock_status e (itm_serial_id i) = stock_status d1 (itm_serial_id i)"
    and "bat_type b \<in> {B_PURCHASE, B_RECEIVE, B_SALE, B_SALES_RETURN, B_PURCHASE_RETURN, B_ISSUE}" "bat_type c \<noteq> B_AUDIT"
  shows "itm_serial_id ` set (items_of view (bat_id b)) \<inter> itm_serial_id ` set (items_of view (bat_id c)) = {}"
proof (rule equals0I)
  fix k assume "k \<in> itm_serial_id ` set (items_of view (bat_id b)) \<inter> itm_serial_id ` set (items_of view (bat_id c))"
  then obtain i j where ij: "i \<in> set (items_of view (bat_id b))" "j \<in> set (items_of view (bat_id c))"
    "itm_serial_id i = itm_serial_id j" by auto
  have t: "bat_type b \<noteq> B_AUDIT" "bat_type b \<notin> {B_AUDIT, B_QR_ASSIGNMENT}" using assms(7) by auto
  have src: "item_source view i = item_source view j"
    using ij(3) by (simp add: item_source_def item_serial_def)
  have b: "item_source view i \<in> set (admissible_statuses (bat_type b))"
    "stock_status d1 (itm_serial_id i) = Some (target_status b (item_source view i) (bat_type b))"
    using submission_effect(1) [OF assms(1,3,5) t(1)] ij(1) by auto
  have "stock_status e (itm_serial_id j) = Some (item_source view j)"
    using submission_effect(1) [OF assms(2,4,5,8)] ij(2) by auto
  moreover have "stock_status e (itm_serial_id i) = stock_status d1 (itm_serial_id i)" using assms(6) ij(1) by blast
  ultimately have "stock_status d1 (itm_serial_id i) = Some (item_source view i)" by (simp only: ij(3) src)
  with b(2) target_moves [OF b(1) t(2)] show False by simp
qed

end
