(* ===== verification/Labels.thy ===== *)
theory Labels
  imports Inventory
begin

text \<open>
  Label generation and the dashboard of \<open>app/services/inventory.py\<close>:
  \<open>generate_serials\<close> numbers new serials after the largest number the prefix has had.
\<close>

text \<open>The regular expression \<open>^prefix-(\d+)$\<close>; \<open>$\<close> also matches before a final newline.\<close>

definition drop_final_newline :: "string \<Rightarrow> string" where
  "drop_final_newline s = (if s \<noteq> [] \<and> last s = CHR 0x0A then butlast s else s)"

definition serial_suffix :: "string \<Rightarrow> string \<Rightarrow> nat option" where
  "serial_suffix pre number =
    (let p = pre @ ''-''; rest = drop_final_newline (drop (length p) number)
     in if starts_with p number \<and> rest \<noteq> [] \<and> list_all is_digit rest then Some (parse_nat rest) else None)"

definition max_suffix :: "string \<Rightarrow> db \<Rightarrow> nat" where
  "max_suffix pre d = foldl (\<lambda>m s. case serial_suffix pre (ser_number s) of None \<Rightarrow> m | Some n \<Rightarrow> max m n) 0 (serials d)"

record label_form =
  lbl_prefix :: "string option"
  lbl_initial_status :: serial_status
  lbl_batch_number :: "string option"
  lbl_mfg_date :: "day option"
  lbl_expiry_date :: "day option"
  lbl_warehouse :: "string option"
  lbl_level :: string

definition new_serial :: "nat \<Rightarrow> string \<Rightarrow> product \<Rightarrow> label_form \<Rightarrow> warehouse_level \<Rightarrow> moment \<Rightarrow> serial" where
  "new_serial sid number p f level now =
    \<lparr>ser_id = sid, ser_number = number, ser_product_id = prd_id p, ser_status = lbl_initial_status f,
     ser_active = True, ser_created_at = now, ser_replaced_by_id = None, ser_label_printed_at = None,
     ser_label_printed_by_id = None, ser_batch_number = upper_or_none (lbl_batch_number f),
     ser_mfg_date = lbl_mfg_date f, ser_expiry_date = lbl_expiry_date f,
     ser_warehouse = upper_or_none (lbl_warehouse f), ser_level = level, ser_location_id = None\<rparr>"

definition label_numbers :: "string \<Rightarrow> nat \<Rightarrow> nat \<Rightarrow> string list" where
  "label_numbers pre highest quantity = map (\<lambda>k. pre @ ''-'' @ zero_pad 6 (highest + k)) [1..<quantity + 1]"

definition serial_allocation_error :: exc where
  "serial_allocation_error = InventoryError ''Could not allocate unique serial numbers; try again''"

fun allocate_serials ::
  "(nat \<Rightarrow> db \<Rightarrow> db) \<Rightarrow> bool \<Rightarrow> product \<Rightarrow> nat \<Rightarrow> string \<Rightarrow> label_form \<Rightarrow> warehouse_level \<Rightarrow> moment \<Rightarrow> nat \<Rightarrow> db \<Rightarrow>
     (exc + serial list) \<times> db"
where
  "allocate_serials env commit p q pre f level now 0 d = (Inl serial_allocation_error, d)"
| "allocate_serials env commit p q pre f level now (Suc k) d =
    (let numbers = label_numbers pre (max_suffix pre d) q; d' = env (4 - k) d; base = next_id ser_id (serials d');
         rows = map (\<lambda>(n, number). new_serial (base + n) number p f level now) (enumerate 0 numbers)
     in if list_ex (\<lambda>n. n \<in> ser_number ` set (serials d')) numbers then
          (if \<not> commit \<or> k = 0 then (Inl serial_allocation_error, d')
           else allocate_serials env commit p q pre f level now k d')
        else (Inr rows, d'\<lparr>serials := serials d' @ rows\<rparr>))"

definition generate_serials ::
  "settings \<Rightarrow> (nat \<Rightarrow> db \<Rightarrow> db) \<Rightarrow> bool \<Rightarrow> product \<Rightarrow> int \<Rightarrow> label_form \<Rightarrow> moment \<Rightarrow> db \<Rightarrow> (exc + serial list) \<times> db"
where
  "generate_serials cfg env commit p quantity f now d =
    (if cfg_app_mode cfg = ''lite'' then
       (Inl (InventoryError ''QR codes are generated in Setuora Master and synced to Lite''), d)
     else if quantity < 1 then (Inl (InventoryError ''Quantity must be at least 1''), d)
     else if 5000 < quantity then (Inl (InventoryError ''Generate 5000 labels or fewer at a time''), d)
     else (case franchise_serial_prefix cfg
             (case lbl_prefix f of None \<Rightarrow> prd_code p | Some x \<Rightarrow> if x = [] then prd_code p else x) of
         Inl e \<Rightarrow> (Inl e, d)
       | Inr pre \<Rightarrow>
           if pre = [] then (Inl (InventoryError ''Serial prefix cannot be empty''), d)
           else if 133 < length pre then (Inl (InventoryError ''Serial prefix must be 133 characters or fewer''), d)
           else (case warehouse_level_of (lbl_level f) of
               None \<Rightarrow> (Inl (ValueError (lbl_level f @ '' is not a valid WarehouseLevel'')), d)
             | Some level \<Rightarrow> allocate_serials env commit p (nat quantity) pre f level now 5 d)))"

section \<open>The dashboard\<close>

record dashboard =
  dsh_products :: nat
  dsh_serials :: nat
  dsh_in_stock :: nat
  dsh_sold :: nat
  dsh_pending_sync :: nat
  dsh_failed :: nat
  dsh_today_scans :: nat
  dsh_shelf_pending :: nat

definition dashboard_counts :: "moment \<Rightarrow> db \<Rightarrow> dashboard" where
  "dashboard_counts now d =
    \<lparr>dsh_products = length (products d), dsh_serials = length (serials d),
     dsh_in_stock = count_rows (\<lambda>s. ser_status s = S_IN_STOCK) (serials d),
     dsh_sold = count_rows (\<lambda>s. ser_status s = S_SOLD) (serials d),
     dsh_pending_sync = count_rows (\<lambda>b. bat_status b \<in> {BS_PENDING_SYNC, BS_SYNCING}) (batches d),
     dsh_failed = count_rows (\<lambda>b. bat_status b = BS_FAILED) (batches d),
     dsh_today_scans = count_rows (\<lambda>l. day_of now * microseconds_per_day \<le> log_created_at l) (scan_logs d),
     dsh_shelf_pending = length (pending_shelf_batches d None)\<rparr>"

definition status_label :: "serial_status \<Rightarrow> string" where
  "status_label st = (if st = S_GENERATED then ''UNASSIGNED'' else serial_status_value st)"

definition status_summary :: "db \<Rightarrow> string \<Rightarrow> nat" where
  "status_summary d label = count_rows (\<lambda>s. status_label (ser_status s) = label) (serials d)"

section \<open>Fresh numbers\<close>

lemma label_numbers_distinct: "distinct (label_numbers pre h q)"
  by (simp add: label_numbers_def distinct_map inj_on_def)

lemma max_suffix_le: "s \<in> set (serials d) \<Longrightarrow> serial_suffix pre (ser_number s) = Some n \<Longrightarrow> n \<le> max_suffix pre d"
proof -
  let ?f = "\<lambda>m s. case serial_suffix pre (ser_number s) of None \<Rightarrow> m | Some n \<Rightarrow> max m n"
  have mono: "m \<le> foldl ?f m ss" for m ss
  proof (induction ss arbitrary: m)
    case (Cons s ss)
    have "m \<le> ?f m s" by (auto split: option.splits)
    with Cons [of "?f m s"] show ?case by simp
  qed simp
  have "serial_suffix pre (ser_number s) = Some n \<Longrightarrow> s \<in> set ss \<Longrightarrow> n \<le> foldl ?f m ss" for m ss
  proof (induction ss arbitrary: m)
    case (Cons a ss)
    show ?case
    proof (cases "a = s")
      case True
      have "n \<le> ?f m a" using Cons.prems(1) True by simp
      with mono [of "?f m a" ss] show ?thesis by simp
    next
      case False
      with Cons show ?thesis by simp
    qed
  qed simp
  then show "s \<in> set (serials d) \<Longrightarrow> serial_suffix pre (ser_number s) = Some n \<Longrightarrow> n \<le> max_suffix pre d"
    by (simp add: max_suffix_def)
qed

lemma digits_no_newline: "list_all is_digit s \<Longrightarrow> drop_final_newline s = s"
  by (cases s rule: rev_cases) (auto simp: drop_final_newline_def is_digit_def)

lemma serial_suffix_label [simp]: "serial_suffix pre (pre @ ''-'' @ zero_pad 6 n) = Some n"
proof -
  have "drop (length (pre @ ''-'')) (pre @ ''-'' @ zero_pad 6 n) = zero_pad 6 n" by simp
  moreover have "starts_with (pre @ ''-'') (pre @ ''-'' @ zero_pad 6 n)" by (simp add: starts_with_def)
  ultimately show ?thesis
    unfolding serial_suffix_def Let_def using digits_no_newline [OF zero_pad_digits [of 6 n]] zero_pad_digits [of 6 n]
    by simp
qed

text \<open>Without interference the numbers after the largest suffix are free, so the first attempt succeeds.\<close>

lemma label_numbers_free:
  assumes "n \<in> set (label_numbers pre (max_suffix pre d) q)"
  shows "n \<notin> ser_number ` set (serials d)"
proof
  assume "n \<in> ser_number ` set (serials d)"
  then obtain s where s: "s \<in> set (serials d)" "n = ser_number s" by blast
  obtain k where k: "n = pre @ ''-'' @ zero_pad 6 (max_suffix pre d + k)" "1 \<le> k"
    using assms by (auto simp: label_numbers_def)
  have "max_suffix pre d + k \<le> max_suffix pre d"
    using max_suffix_le [OF s(1), of pre "max_suffix pre d + k"] s(2) k(1) by (metis serial_suffix_label)
  with k(2) show False by simp
qed

lemma shift_upt: "map ((+) b) [0..<n] = [b..<b + n]"
  by (induction n) simp_all

lemma allocated_rows:
  assumes "allocate_serials env commit p q pre f level now k d = (Inr rows, d')"
  shows "\<exists>e h. d' = e\<lparr>serials := serials e @ rows\<rparr> \<and> map ser_number rows = label_numbers pre h q \<and>
    map ser_id rows = [next_id ser_id (serials e)..<next_id ser_id (serials e) + q] \<and>
    (\<forall>n \<in> set (map ser_number rows). n \<notin> ser_number ` set (serials e)) \<and>
    (\<forall>r \<in> set rows. ser_active r \<and> ser_status r = lbl_initial_status f \<and> ser_product_id r = prd_id p)"
  using assms
proof (induction k arbitrary: d)
  case 0
  then show ?case by simp
next
  case (Suc k)
  let ?ns = "label_numbers pre (max_suffix pre d) q" and ?e = "env (4 - k) d"
  let ?base = "next_id ser_id (serials ?e)"
  let ?rows = "map (\<lambda>(n, number). new_serial (?base + n) number p f level now) (enumerate 0 ?ns)"
  show ?case
  proof (cases "list_ex (\<lambda>n. n \<in> ser_number ` set (serials ?e)) ?ns")
    case True
    with Suc show ?thesis by (auto simp: Let_def split: if_splits)
  next
    case False
    with Suc.prems have r: "rows = ?rows" "d' = ?e\<lparr>serials := serials ?e @ ?rows\<rparr>"
      by (auto simp: Let_def split: if_splits)
    have len: "length ?ns = q" by (simp add: label_numbers_def)
    have "map ser_number ?rows = map snd (enumerate 0 ?ns)"
      by (simp add: new_serial_def split_beta comp_def)
    then have nums: "map ser_number ?rows = ?ns" by simp
    have "map ser_id ?rows = map (\<lambda>n. ?base + n) (map fst (enumerate 0 ?ns))"
      by (simp add: new_serial_def split_beta comp_def del: map_fst_enumerate)
    then have ids: "map ser_id ?rows = [?base..<?base + q]"
      using shift_upt by (simp add: len)
    have fresh: "\<forall>n \<in> set ?ns. n \<notin> ser_number ` set (serials ?e)"
      using False by (auto simp: list_ex_iff)
    show ?thesis
      unfolding r using nums ids fresh
      by (intro exI [of _ ?e] exI [of _ "max_suffix pre d"]) (auto simp: new_serial_def)
  qed
qed

lemma generate_serials_allocated:
  assumes "generate_serials cfg env commit p q f now d = (Inr rows, d')"
  obtains pre level where "1 \<le> q" "q \<le> 5000" "allocate_serials env commit p (nat q) pre f level now 5 d = (Inr rows, d')"
  using assms by (auto simp: generate_serials_def split: if_splits sum.splits option.splits)

text \<open>
  C7. However other sessions interleave, a successful generation adds exactly the requested
  number of active serials of the product, whose numbers and keys are new and distinct.
\<close>

theorem generated_serials_fresh:
  assumes "generate_serials cfg env commit p q f now d = (Inr rows, d')"
  shows "\<exists>e. d' = e\<lparr>serials := serials e @ rows\<rparr> \<and> int (length rows) = q \<and>
    distinct (map ser_number rows) \<and> distinct (map ser_id rows) \<and>
    (\<forall>r \<in> set rows. ser_number r \<notin> ser_number ` set (serials e) \<and> ser_id r \<notin> ser_id ` set (serials e) \<and>
       ser_active r \<and> ser_status r = lbl_initial_status f \<and> ser_product_id r = prd_id p)"
proof -
  obtain pre level where q: "1 \<le> q" and
    a: "allocate_serials env commit p (nat q) pre f level now 5 d = (Inr rows, d')"
    using generate_serials_allocated [OF assms] .
  obtain e h where e: "d' = e\<lparr>serials := serials e @ rows\<rparr>" "map ser_number rows = label_numbers pre h (nat q)"
    "map ser_id rows = [next_id ser_id (serials e)..<next_id ser_id (serials e) + nat q]"
    "\<forall>n \<in> set (map ser_number rows). n \<notin> ser_number ` set (serials e)"
    "\<forall>r \<in> set rows. ser_active r \<and> ser_status r = lbl_initial_status f \<and> ser_product_id r = prd_id p"
    using allocated_rows [OF a] by blast
  have "length rows = nat q"
    using arg_cong [OF e(3), of length] by simp
  moreover have "ser_id r \<notin> ser_id ` set (serials e)" if "r \<in> set rows" for r
  proof -
    have "next_id ser_id (serials e) \<le> ser_id r"
      using e(3) that by (metis atLeastLessThan_iff image_eqI list.set_map set_upt)
    then show ?thesis using next_id_fresh [where rows = "serials e" and key = ser_id] by (metis imageE not_le)
  qed
  moreover have "distinct (map ser_id rows)" unfolding e(3) by simp
  moreover have "distinct (map ser_number rows)" unfolding e(2) by (rule label_numbers_distinct)
  ultimately show ?thesis using e(1,4,5) q by (intro exI [of _ e]) auto
qed

text \<open>With no other session in the way, a valid request for labels is served at the first attempt.\<close>

theorem generate_serials_succeeds:
  assumes "cfg_app_mode cfg = ''legacy''" "1 \<le> q" "q \<le> 5000" "warehouse_level_of (lbl_level f) = Some level"
    and "lbl_prefix f = None" "normalize_serial (prd_code p) \<noteq> []" "length (prd_code p) \<le> 133"
  shows "\<exists>rows. generate_serials cfg (\<lambda>k d. d) commit p q f now d = (Inr rows, d\<lparr>serials := serials d @ rows\<rparr>)"
proof -
  have len: "length (normalize_serial s) \<le> length s" for s
    by (simp add: normalize_serial_def py_strip_by_length)
  let ?pre = "normalize_serial (prd_code p)" and ?n = "nat q"
  have "py_lower (py_strip ''legacy'') \<noteq> ''lite''" by code_simp
  then have pre: "franchise_serial_prefix cfg (prd_code p) = Inr ?pre"
    by (simp add: franchise_serial_prefix_def assms(1))
  have "\<not> list_ex (\<lambda>n. n \<in> ser_number ` set (serials d)) (label_numbers ?pre (max_suffix ?pre d) ?n)"
    using label_numbers_free by (auto simp: list_ex_iff)
  then have "\<exists>rows. allocate_serials (\<lambda>k d. d) commit p ?n ?pre f level now 5 d = (Inr rows, d\<lparr>serials := serials d @ rows\<rparr>)"
    by (simp add: numeral_eq_Suc Let_def)
  then show ?thesis
    using assms len [of "prd_code p"] by (simp add: generate_serials_def pre)
qed

end
