(* ===== verification/Numbers.thy ===== *)
theory Numbers
  imports Prelude Complex_Main
begin

text \<open>
  Python's numbers as the program computes with them: floor and rounding of rationals, the
  rounding of a \<open>float\<close> result to 53 significant bits and of a \<open>Decimal\<close> result to 28
  significant digits, \<open>Decimal.quantize\<close> with \<open>ROUND_HALF_UP\<close>, and \<open>repr\<close> of
  a float.  A float is the rational it denotes; overflow and subnormal results, which
  amounts of money and stock counts never reach, are outside the model.
\<close>

definition round_half_even :: "rat \<Rightarrow> int" where
  "round_half_even x =
    (let f = floor x; r = x - of_int f
     in if r < 1 / 2 then f else if 1 / 2 < r then f + 1 else if even f then f else f + 1)"

definition round_half_up :: "rat \<Rightarrow> int" where
  "round_half_up x = (if 0 \<le> x then floor (x + 1 / 2) else - floor (- x + 1 / 2))"

text \<open>The exponent \<open>e\<close> with \<open>b ^ e \<le> x < b ^ (e + 1)\<close>, by search from \<open>e\<close>.\<close>

fun exponent_from :: "nat \<Rightarrow> rat \<Rightarrow> rat \<Rightarrow> int \<Rightarrow> int" where
  "exponent_from 0 b x e = e"
| "exponent_from (Suc n) b x e =
     (if x < b powi e then exponent_from n b x (e - 1)
      else if b powi (e + 1) \<le> x then exponent_from n b x (e + 1)
      else e)"

definition exponent_of :: "rat \<Rightarrow> rat \<Rightarrow> int" where
  "exponent_of b x = exponent_from 1100 b x 0"

text \<open>Rounding to \<open>n\<close> significant digits in base \<open>b\<close>, ties to even.\<close>

definition significant :: "rat \<Rightarrow> nat \<Rightarrow> rat \<Rightarrow> rat" where
  "significant b n x =
    (if x = 0 then 0
     else let u = b powi (exponent_of b \<bar>x\<bar> - int n + 1)
          in of_int (round_half_even (x / u)) * u)"

definition to_double :: "rat \<Rightarrow> rat" where
  "to_double x = significant 2 53 x"

definition to_decimal :: "rat \<Rightarrow> rat" where
  "to_decimal x = significant 10 28 x"

text \<open>\<open>value.quantize(Decimal("0.01"), rounding=ROUND_HALF_UP)\<close> and \<open>Decimal("1")\<close>.\<close>

definition quantize_cents :: "rat \<Rightarrow> rat" where
  "quantize_cents x = of_int (round_half_up (x * 100)) / 100"

definition quantize_unit :: "rat \<Rightarrow> rat" where
  "quantize_unit x = of_int (round_half_up x)"

lemma round_half_even_int [simp]: "round_half_even (of_int n) = n"
  by (simp add: round_half_even_def Let_def)

lemma round_half_up_int [simp]: "round_half_up (of_int n) = n"
  by (auto simp: round_half_up_def floor_eq_iff)

lemma round_half_up_bounds: "of_int (round_half_up x) \<le> x + 1 / 2" "x - 1 / 2 \<le> of_int (round_half_up x)"
  using of_int_floor_le [of "x + 1 / 2"] floor_correct [of "x + 1 / 2"]
    of_int_floor_le [of "- x + 1 / 2"] floor_correct [of "- x + 1 / 2"]
  unfolding round_half_up_def by (cases "0 \<le> x"; simp only: if_True if_False of_int_minus of_int_add of_int_1; linarith)+

lemma quantize_unit_dist: "\<bar>quantize_unit x - x\<bar> \<le> 1 / 2"
  using round_half_up_bounds [of x] unfolding quantize_unit_def by linarith

lemma quantize_cents_dist: "\<bar>quantize_cents x - x\<bar> \<le> 1 / 200"
  using round_half_up_bounds [of "x * 100"] unfolding quantize_cents_def by linarith

lemma quantize_cents_idem [simp]: "quantize_cents (quantize_cents x) = quantize_cents x"
  by (simp add: quantize_cents_def)

lemma quantize_cents_zero [simp]: "quantize_cents 0 = 0"
  using round_half_up_int [of 0] by (simp add: quantize_cents_def)

lemma significant_zero [simp]: "significant b n 0 = 0"
  by (simp add: significant_def)

section \<open>Printing a float\<close>

text \<open>
  \<open>repr(x)\<close>: the shortest decimal digits that read back as the same double, in positional
  notation for exponents from -4 to 15.
\<close>

definition digits_at :: "rat \<Rightarrow> nat \<Rightarrow> int" where
  "digits_at x p = round_half_even (x / 10 powi (exponent_of 10 x - int p + 1))"

definition shortest_precision :: "rat \<Rightarrow> nat" where
  "shortest_precision x =
    (case find (\<lambda>p. to_double (significant 10 p x) = x) [1..<18] of None \<Rightarrow> 17 | Some p \<Rightarrow> p)"

definition place_point :: "string \<Rightarrow> int \<Rightarrow> string" where
  "place_point ds e =
    (if e < 0 then ''0.'' @ replicate (nat (- e) - 1) (CHR ''0'') @ ds
     else if int (length ds) \<le> e + 1 then ds @ replicate (nat (e + 1) - length ds) (CHR ''0'') @ ''.0''
     else take (nat (e + 1)) ds @ ''.'' @ drop (nat (e + 1)) ds)"

definition strip_trailing_zeros :: "string \<Rightarrow> string" where
  "strip_trailing_zeros ds = (let t = rev (dropWhile (\<lambda>c. c = CHR ''0'') (rev ds)) in if t = [] then ''0'' else t)"

definition exponent_text :: "int \<Rightarrow> string" where
  "exponent_text e = ''e'' @ (if e < 0 then ''-'' else ''+'') @ zero_pad 2 (nat \<bar>e\<bar>)"

definition float_repr :: "rat \<Rightarrow> string" where
  "float_repr x =
    (if x = 0 then ''0.0''
     else let y = \<bar>x\<bar>; p = shortest_precision y; v = significant 10 p y; e = exponent_of 10 v;
              ds = strip_trailing_zeros (nat_str (nat (digits_at v p)));
              body = (if - 4 \<le> e \<and> e < 16 then place_point ds e
                else take 1 ds @ (if length ds = 1 then [] else ''.'' @ drop 1 ds) @ exponent_text e)
          in (if x < 0 then ''-'' else []) @ body)"

definition int_str :: "int \<Rightarrow> string" where
  "int_str n = (if n < 0 then ''-'' @ nat_str (nat (- n)) else nat_str (nat n))"

end
