(* ===== verification/Voucher.thy ===== *)
theory Voucher
  imports Inventory Numbers
begin

text \<open>
  Voucher totals, \<open>app/services/voucher.py\<close>.  A \<open>Decimal\<close> is the rational it
  denotes; every \<open>Decimal\<close> operation rounds its result to the context's 28 digits
  (\<open>to_decimal\<close>), and \<open>Decimal(str(x))\<close> of a float is the number its shortest
  representation shows.
\<close>

definition shown_value :: "rat \<Rightarrow> rat" where
  "shown_value x = (if x = 0 then 0 else sgn x * significant 10 (shortest_precision \<bar>x\<bar>) \<bar>x\<bar>)"

definition money_float :: "rat \<Rightarrow> rat" where
  "money_float x = quantize_cents (shown_value x)"

definition money :: "rat \<Rightarrow> rat" where
  "money x = quantize_cents x"

definition dec_add :: "rat \<Rightarrow> rat \<Rightarrow> rat" where "dec_add x y = to_decimal (x + y)"
definition dec_sub :: "rat \<Rightarrow> rat \<Rightarrow> rat" where "dec_sub x y = to_decimal (x - y)"
definition dec_mul :: "rat \<Rightarrow> rat \<Rightarrow> rat" where "dec_mul x y = to_decimal (x * y)"
definition dec_div :: "rat \<Rightarrow> rat \<Rightarrow> rat" where "dec_div x y = to_decimal (x / y)"

definition sale_taxable_value :: "rat \<Rightarrow> rat \<Rightarrow> rat" where
  "sale_taxable_value total_including_gst gst_rate =
    (if gst_rate \<le> 0 then money total_including_gst
     else money (dec_div (dec_mul total_including_gst 100) (dec_add 100 gst_rate)))"

record voucher_line =
  vln_product :: product
  vln_gst_rate :: rat
  vln_quantity :: nat
  vln_rate :: rat
  vln_discount_rate :: rat
  vln_gross_value :: rat
  vln_discount_amount :: rat
  vln_taxable_value :: rat
  vln_cgst_rate :: rat
  vln_sgst_rate :: rat
  vln_igst_rate :: rat
  vln_cgst_amount :: rat
  vln_sgst_amount :: rat
  vln_igst_amount :: rat
  vln_line_total :: rat

record voucher_summary =
  vsm_lines :: "voucher_line list"
  vsm_taxable_value :: rat
  vsm_cgst_amount :: rat
  vsm_sgst_amount :: rat
  vsm_igst_amount :: rat
  vsm_gst_amount :: rat
  vsm_before_round_off :: rat
  vsm_round_off :: rat
  vsm_final_value :: rat

definition is_sales_side :: "batch \<Rightarrow> bool" where
  "is_sales_side b \<longleftrightarrow> bat_type b \<in> {B_SALE, B_SALES_RETURN}"

definition is_interstate_sale :: "batch \<Rightarrow> bool" where
  "is_interstate_sale b \<longleftrightarrow> is_sales_side b \<and>
     py_upper (case bat_gst_treatment b of None \<Rightarrow> [] | Some s \<Rightarrow> s) = gst_treatment_value INTER_STATE"

definition or_zero :: "rat option \<Rightarrow> rat" where
  "or_zero x = (case x of None \<Rightarrow> 0 | Some r \<Rightarrow> r)"

text \<open>The tax columns of a line: GST rate, taxable value, the three rates and the three amounts.\<close>

record line_tax =
  tax_gst_rate :: rat
  tax_taxable :: rat
  tax_cgst_rate :: rat
  tax_igst_rate :: rat
  tax_cgst_amount :: rat
  tax_igst_amount :: rat

definition line_tax_of :: "batch \<Rightarrow> rat \<Rightarrow> rat \<Rightarrow> line_tax" where
  "line_tax_of b product_gst_rate line_amount =
    (if is_interstate_sale b then
       let igst = (case bat_igst_rate b of Some r \<Rightarrow> money_float r | None \<Rightarrow> money product_gst_rate);
           taxable = sale_taxable_value line_amount igst
       in \<lparr>tax_gst_rate = igst, tax_taxable = taxable, tax_cgst_rate = 0, tax_igst_rate = igst,
           tax_cgst_amount = 0, tax_igst_amount = money (dec_div (dec_mul taxable igst) 100)\<rparr>
     else if is_sales_side b \<and> (bat_cgst_rate b \<noteq> None \<or> bat_sgst_rate b \<noteq> None) then
       let entered = money_float (to_double (or_zero (bat_cgst_rate b) + or_zero (bat_sgst_rate b)));
           taxable = sale_taxable_value line_amount entered;
           half = money (dec_div entered 2)
       in \<lparr>tax_gst_rate = entered, tax_taxable = taxable, tax_cgst_rate = half, tax_igst_rate = 0,
           tax_cgst_amount = money (dec_div (dec_mul taxable half) 100), tax_igst_amount = 0\<rparr>
     else
       let taxable = (if is_sales_side b then sale_taxable_value line_amount product_gst_rate else line_amount);
           half = money (dec_div product_gst_rate 2)
       in \<lparr>tax_gst_rate = product_gst_rate, tax_taxable = taxable, tax_cgst_rate = half, tax_igst_rate = 0,
           tax_cgst_amount = money (dec_div (dec_mul taxable half) 100), tax_igst_amount = 0\<rparr>)"

definition voucher_line_of :: "batch \<Rightarrow> item_group \<Rightarrow> voucher_line" where
  "voucher_line_of b g =
    (let rate = money_float (grp_rate g);
         gross = money (dec_mul rate (of_nat (grp_quantity g)));
         discount_rate = money_float (if is_sales_side b then grp_discount g else 0);
         discount = money (dec_div (dec_mul gross discount_rate) 100);
         amount = money (dec_sub gross discount);
         t = line_tax_of b (money_float (prd_gst_rate (grp_product g))) amount
     in \<lparr>vln_product = grp_product g, vln_gst_rate = tax_gst_rate t, vln_quantity = grp_quantity g, vln_rate = rate,
         vln_discount_rate = discount_rate, vln_gross_value = gross, vln_discount_amount = discount,
         vln_taxable_value = tax_taxable t, vln_cgst_rate = tax_cgst_rate t, vln_sgst_rate = tax_cgst_rate t,
         vln_igst_rate = tax_igst_rate t, vln_cgst_amount = tax_cgst_amount t,
         vln_sgst_amount = tax_cgst_amount t, vln_igst_amount = tax_igst_amount t,
         vln_line_total = money (dec_add (dec_add (dec_add (tax_taxable t) (tax_cgst_amount t)) (tax_cgst_amount t))
           (tax_igst_amount t))\<rparr>)"

definition dec_total :: "(voucher_line \<Rightarrow> rat) \<Rightarrow> voucher_line list \<Rightarrow> rat" where
  "dec_total f ls = foldl (\<lambda>t l. dec_add t (f l)) 0 ls"

definition calculate_voucher_summary :: "db \<Rightarrow> batch \<Rightarrow> voucher_summary" where
  "calculate_voucher_summary d b =
    (let ls = map (voucher_line_of b) (group_batch_items d b);
         taxable = dec_total vln_taxable_value ls;
         cgst = dec_total vln_cgst_amount ls;
         sgst = dec_total vln_sgst_amount ls;
         igst = dec_total vln_igst_amount ls;
         gst = money (dec_add (dec_add cgst sgst) igst);
         before = money (dec_add taxable gst);
         final = quantize_unit before
     in \<lparr>vsm_lines = ls, vsm_taxable_value = money taxable, vsm_cgst_amount = money cgst, vsm_sgst_amount = money sgst,
         vsm_igst_amount = money igst, vsm_gst_amount = gst, vsm_before_round_off = before,
         vsm_round_off = money (dec_sub final before), vsm_final_value = money final\<rparr>)"

definition unpriced_names :: "db \<Rightarrow> batch \<Rightarrow> string list" where
  "unpriced_names d b =
    map (\<lambda>l. prd_name (vln_product l)) (filter (\<lambda>l. vln_rate l \<le> 0) (vsm_lines (calculate_voucher_summary d b)))"

definition validate_priced_batch :: "db \<Rightarrow> batch \<Rightarrow> exc option" where
  "validate_priced_batch d b =
    (if bat_type b = B_AUDIT then None
     else if unpriced_names d b = [] then None
     else Some (ValueError (''Set a positive rate for: '' @ py_join '', '' (sorted_list_of_set (set (unpriced_names d b))))))"

section \<open>Exactness of small amounts\<close>

lemma exponent_from_correct:
  assumes "1 < b" "b powi t \<le> x" "x < b powi (t + 1)" "\<bar>t - e\<bar> \<le> int n"
  shows "exponent_from n b x e = t"
  using assms(4)
proof (induction n arbitrary: e)
  case 0
  then show ?case by simp
next
  case (Suc n)
  have mono: "b powi i \<le> b powi j" if "i \<le> j" for i j
    using assms(1) that by (simp add: power_int_increasing)
  show ?case
  proof (cases "x < b powi e")
    case True
    then have "t < e" using mono [of e t] assms(2) by (meson leI le_less_trans less_irrefl)
    with Suc True show ?thesis by simp
  next
    case False
    show ?thesis
    proof (cases "b powi (e + 1) \<le> x")
      case True
      then have "e < t" using mono [of "t + 1" "e + 1"] assms(3) by (meson add_le_cancel_right leI le_less_trans less_irrefl order_trans)
      with Suc False True show ?thesis by simp
    next
      case F: False
      have "e \<le> t" using mono [of "t + 1" e] assms(3) False by (meson add1_zle_eq leI le_less_trans less_irrefl order_trans not_less)
      moreover have "t \<le> e" using mono [of "e + 1" t] assms(2) F by (meson add1_zle_eq leI order_trans not_less)
      ultimately show ?thesis using False F by simp
    qed
  qed
qed

lemma decimal_exponent_exists:
  fixes x :: rat
  assumes "1 / 100 \<le> x" "x < 10 ^ 26"
  shows "\<exists>t. - 2 \<le> t \<and> t \<le> 25 \<and> 10 powi t \<le> x \<and> x < 10 powi (t + 1)"
proof -
  let ?P = "\<lambda>n. x < (10::rat) powi (int n - 2)"
  define n where "n = (LEAST n. ?P n)"
  have P28: "?P 28" using assms(2) by (simp add: power_int_def)
  have Pn: "?P n" unfolding n_def using P28 by (rule LeastI)
  have "n \<noteq> 0"
  proof
    assume "n = 0"
    with Pn assms(1) show False by (simp add: power_int_def power2_eq_square)
  qed
  then obtain m where m: "n = Suc m" by (cases n) auto
  then have "\<not> ?P m" using not_less_Least [of m ?P] by (simp add: n_def)
  moreover have "n \<le> 28" unfolding n_def using P28 by (rule Least_le)
  ultimately show ?thesis
    using Pn m by (intro exI [of _ "int m - 2"]) (auto simp: algebra_simps)
qed

lemma decimal_exponent:
  assumes "1 / 100 \<le> x" "x < 10 ^ 26"
  shows "- 2 \<le> exponent_of 10 x" "exponent_of 10 x \<le> 25"
proof -
  obtain t where t: "- 2 \<le> t" "t \<le> 25" "10 powi t \<le> x" "x < 10 powi (t + 1)"
    using decimal_exponent_exists [OF assms] by blast
  have "exponent_of 10 x = t"
    unfolding exponent_of_def by (rule exponent_from_correct [OF _ t(3,4)]) (use t(1,2) in auto)
  with t show "- 2 \<le> exponent_of 10 x" "exponent_of 10 x \<le> 25" by simp_all
qed

text \<open>A whole number of cents below \<open>10 ^ 26\<close> fits the 28 digits of the context.\<close>

lemma to_decimal_cents:
  assumes "\<bar>x\<bar> < 10 ^ 26" "x = of_int n / 100"
  shows "to_decimal x = x"
proof (cases "n = 0")
  case True
  with assms(2) show ?thesis by (simp add: to_decimal_def)
next
  case False
  let ?e = "exponent_of 10 \<bar>x\<bar>"
  have "1 \<le> \<bar>n\<bar>" using False by simp
  then have "(1::rat) \<le> of_int \<bar>n\<bar>" by (metis of_int_1_le_iff)
  then have x: "1 / 100 \<le> \<bar>x\<bar>" using assms(2) by simp
  have e: "?e \<le> 25" using decimal_exponent(2) [OF x assms(1)] .
  define u :: rat where "u = 10 powi (?e - int 28 + 1)"
  have u: "u \<noteq> 0" by (simp add: u_def)
  have "u * 10 ^ nat (25 - ?e) = 10 powi (?e - 27) * 10 powi (25 - ?e)"
    using e by (simp add: u_def power_int_def)
  also have "\<dots> = 10 powi (- 2)" by (subst power_int_add [symmetric]) simp_all
  also have "\<dots> = 1 / 100" by (simp add: power_int_def power2_eq_square)
  finally have cent: "x = of_int (n * 10 ^ nat (25 - ?e)) * u" by (simp add: assms(2) algebra_simps)
  then have "x / u = of_int (n * 10 ^ nat (25 - ?e))" using u by (metis nonzero_mult_div_cancel_right)
  then have "round_half_even (x / u) = n * 10 ^ nat (25 - ?e)" by (simp only: round_half_even_int)
  moreover have "x \<noteq> 0" using False assms(2) by simp
  ultimately show ?thesis
    using cent by (simp add: to_decimal_def significant_def Let_def u_def)
qed

lemma to_decimal_code [code]:
  "to_decimal x = (if \<bar>x\<bar> < 100000000000000000000000000 \<and> of_int \<lfloor>x * 100\<rfloor> = x * 100 then x else significant 10 28 x)"
proof (cases "\<bar>x\<bar> < 100000000000000000000000000 \<and> of_int \<lfloor>x * 100\<rfloor> = x * 100")
  case True
  then have "\<bar>x\<bar> < 10 ^ 26" "x = of_int \<lfloor>x * 100\<rfloor> / 100" by (simp, simp only: True)
  then have "to_decimal x = x" by (rule to_decimal_cents)
  with True show ?thesis by (simp only: if_True simp_thms)
qed (simp only: if_False to_decimal_def)

lemma money_cents: "\<exists>n. money x = of_int n / 100"
  by (auto simp: money_def quantize_cents_def)

lemma money_of_cents [simp]: "money (of_int n / 100) = of_int n / 100"
  by (simp add: money_def quantize_cents_def)

lemma money_of_int [simp]: "money (of_int n) = of_int n"
proof -
  have "(of_int n :: rat) = of_int (n * 100) / 100" by simp
  then show ?thesis using money_of_cents by metis
qed

lemma dec_sub_cents:
  assumes "\<bar>of_int m / 100 - of_int n / 100\<bar> < (10::rat) ^ 26"
  shows "dec_sub (of_int m / 100) (of_int n / 100) = of_int m / 100 - of_int n / 100"
  unfolding dec_sub_def by (rule to_decimal_cents [OF assms, of "m - n"]) (simp add: diff_divide_distrib)

lemma summary_totals:
  "vsm_final_value (calculate_voucher_summary d b) = money (quantize_unit (vsm_before_round_off (calculate_voucher_summary d b)))"
  "vsm_round_off (calculate_voucher_summary d b) =
     money (dec_sub (quantize_unit (vsm_before_round_off (calculate_voucher_summary d b)))
       (vsm_before_round_off (calculate_voucher_summary d b)))"
  "\<exists>n. vsm_before_round_off (calculate_voucher_summary d b) = of_int n / 100"
  using money_cents by (simp_all add: calculate_voucher_summary_def Let_def)

lemma summary_round_off:
  "vsm_final_value (calculate_voucher_summary d b) \<in> \<int> \<and>
    \<bar>vsm_round_off (calculate_voucher_summary d b)\<bar> \<le> 1 / 2 \<and>
    vsm_before_round_off (calculate_voucher_summary d b) + vsm_round_off (calculate_voucher_summary d b) =
    vsm_final_value (calculate_voucher_summary d b)"
proof -
  obtain n where n: "vsm_before_round_off (calculate_voucher_summary d b) = of_int n / 100"
    using summary_totals(3) by blast
  let ?before = "of_int n / 100 :: rat" and ?k = "round_half_up (of_int n / 100)"
  have final: "vsm_final_value (calculate_voucher_summary d b) = of_int ?k"
    unfolding n [symmetric] by (simp add: summary_totals(1) quantize_unit_def)
  have dist: "\<bar>of_int ?k - ?before\<bar> \<le> 1 / 2"
    using quantize_unit_dist [of ?before] by (simp add: quantize_unit_def)
  have k: "of_int ?k = (of_int (?k * 100) / 100 :: rat)" by simp
  have "\<bar>of_int ?k - ?before\<bar> < 10 ^ 26" by (rule le_less_trans [OF dist]) simp
  then have "\<bar>of_int (?k * 100) / 100 - ?before\<bar> < 10 ^ 26" unfolding k [symmetric] .
  from dec_sub_cents [OF this] have "dec_sub (of_int ?k) ?before = of_int ?k - ?before" unfolding k [symmetric] .
  also have "\<dots> = of_int (?k * 100 - n) / 100" by (simp add: diff_divide_distrib)
  finally have sub: "dec_sub (of_int ?k) ?before = of_int (?k * 100 - n) / 100" .
  have "vsm_round_off (calculate_voucher_summary d b) = money (dec_sub (of_int ?k) ?before)"
    unfolding n [symmetric] by (simp add: summary_totals(2) quantize_unit_def)
  then have "vsm_round_off (calculate_voucher_summary d b) = of_int ?k - ?before"
    unfolding sub money_of_cents by (simp add: diff_divide_distrib)
  then show ?thesis using final n dist by simp
qed

lemma summary_balance:
  "vsm_before_round_off (calculate_voucher_summary d b) + vsm_round_off (calculate_voucher_summary d b) =
    vsm_final_value (calculate_voucher_summary d b)"
  using summary_round_off by blast

section \<open>Properties\<close>

text \<open>
  The amount payable of a voucher is a whole number, at most half a unit away from the
  exact total, and the round-off line is exactly the difference.
\<close>

theorem voucher_round_off:
  "vsm_final_value (calculate_voucher_summary d b) \<in> \<int> \<and>
    \<bar>vsm_round_off (calculate_voucher_summary d b)\<bar> \<le> 1 / 2 \<and>
    vsm_before_round_off (calculate_voucher_summary d b) + vsm_round_off (calculate_voucher_summary d b) =
    vsm_final_value (calculate_voucher_summary d b)"
  by (rule summary_round_off)

text \<open>
  Every line of a voucher is taxed either between states or within one: the interstate
  tax and the two equal halves of the local tax never stand together.
\<close>

theorem voucher_tax_regimes:
  "\<forall>l \<in> set (vsm_lines (calculate_voucher_summary d b)).
     vln_cgst_amount l = vln_sgst_amount l \<and> vln_cgst_rate l = vln_sgst_rate l \<and>
     (if is_interstate_sale b then vln_cgst_amount l = 0 \<and> vln_cgst_rate l = 0
      else vln_igst_amount l = 0 \<and> vln_igst_rate l = 0)"
  by (auto simp: calculate_voucher_summary_def Let_def voucher_line_of_def line_tax_of_def)

text \<open>A batch that passes the price check has a positive rate on every line, unless it is an audit.\<close>

theorem priced_batch_rates:
  "validate_priced_batch d b = None \<longleftrightarrow>
     bat_type b = B_AUDIT \<or> (\<forall>l \<in> set (vsm_lines (calculate_voucher_summary d b)). 0 < vln_rate l)"
  by (auto simp: validate_priced_batch_def unpriced_names_def filter_empty_conv not_le)

end
