(* ===== verification/SaleReturns.thy ===== *)
theory SaleReturns
  imports Inventory
begin

text \<open>
  Returns inside an open sale, \<open>app/services/sale_returns.py\<close>: a product scanned in
  the sale is taken out again, and the sale has to wait until it is back on a shelf.  The
  pending returns of a sale are its scan-log rows in status \<open>PENDING_SHELF\<close>.
\<close>

definition ensure_draft_sale :: "batch \<Rightarrow> exc option" where
  "ensure_draft_sale b =
    (if bat_type b \<noteq> B_SALE then Some (InventoryError ''Return mode is available only inside a sale.'')
     else if bat_status b \<noteq> BS_DRAFT then Some (InventoryError ''This sale is already submitted.'')
     else None)"

definition is_pending_return :: "nat \<Rightarrow> scan_log \<Rightarrow> bool" where
  "is_pending_return bid l \<longleftrightarrow>
     log_batch_id l = Some bid \<and> log_action l = ''SALE_RETURN'' \<and> log_status l = ''PENDING_SHELF''"

definition pending_sale_return_logs :: "db \<Rightarrow> batch \<Rightarrow> scan_log list" where
  "pending_sale_return_logs d b = sort_key log_created_at (filter (is_pending_return (bat_id b)) (scan_logs d))"

record return_state =
  rst_controlled :: bool
  rst_pending_count :: nat
  rst_shelf_required :: bool
  rst_pending_serials :: "(string \<times> string) list"

definition pending_return_entry :: "db \<Rightarrow> scan_log \<Rightarrow> string \<times> string" where
  "pending_return_entry d l =
    (case Option.bind (log_serial_id l) (get_serial d) of
       None \<Rightarrow> (log_serial_number_raw l, [])
     | Some s \<Rightarrow> (ser_number s, case product_of d s of None \<Rightarrow> [] | Some p \<Rightarrow> prd_name p))"

definition sale_return_state :: "db \<Rightarrow> batch \<Rightarrow> return_state" where
  "sale_return_state d b =
    (if bat_type b \<noteq> B_SALE then
       \<lparr>rst_controlled = False, rst_pending_count = 0, rst_shelf_required = False, rst_pending_serials = []\<rparr>
     else
       let pending = pending_sale_return_logs d b
       in \<lparr>rst_controlled = True, rst_pending_count = length pending, rst_shelf_required = (pending \<noteq> []),
           rst_pending_serials = map (pending_return_entry d) pending\<rparr>)"

definition ensure_sale_scan_allowed :: "db \<Rightarrow> batch \<Rightarrow> exc option" where
  "ensure_sale_scan_allowed d b =
    (if bat_type b = B_SALE \<and> pending_sale_return_logs d b \<noteq> [] then
       Some (InventoryError ''Scan the shelf QR for the returned product before continuing the sale.'')
     else None)"

definition record_rejected_sale_return :: "batch \<Rightarrow> nat \<Rightarrow> string \<Rightarrow> string \<Rightarrow> serial option \<Rightarrow> moment \<Rightarrow> db \<Rightarrow> db" where
  "record_rejected_sale_return b uid number message s now d =
     add_scan_log (map_option ser_id s) number uid ''SALE_RETURN'' (Some (bat_id b)) ''REJECTED''
       (Some message) None now d"

definition scan_sale_return_product :: "batch \<Rightarrow> nat \<Rightarrow> string \<Rightarrow> moment \<Rightarrow> db \<Rightarrow> (exc + serial) \<times> db" where
  "scan_sale_return_product b uid raw now d =
    (case ensure_draft_sale b of Some e \<Rightarrow> (Inl e, d)
     | None \<Rightarrow>
       if pending_sale_return_logs d b \<noteq> [] then
         (Inl (InventoryError ''Scan the shelf QR for the returned product before returning another item.''), d)
       else
         let number = normalize_serial raw;
             reject = (\<lambda>m s. (Inl (InventoryError m), record_rejected_sale_return b uid number m s now d))
         in (case serial_by_number d number of
             None \<Rightarrow> reject ''Serial number not found'' None
           | Some s \<Rightarrow>
             if \<not> ser_active s \<or> ser_status s \<in> {S_INVALID, S_REPLACED} then
               reject (ser_number s @ '' is inactive'') (Some s)
             else (case find (\<lambda>i. itm_batch_id i = bat_id b \<and> itm_serial_id i = ser_id s) (batch_items d) of
                 None \<Rightarrow> reject ''Only products already scanned in this sale can be returned before checkout.'' (Some s)
               | Some i \<Rightarrow>
                   (Inr s, add_scan_log (Some (ser_id s)) (ser_number s) uid ''SALE_RETURN'' (Some (bat_id b))
                      ''PENDING_SHELF'' (Some ''Removed from sale; waiting for shelf QR.'') None now
                      (d\<lparr>batch_items := filter (\<lambda>r. itm_id r \<noteq> itm_id i) (batch_items d)\<rparr>)))))"

text \<open>Placing the serial of a pending return on the shelf, and closing the pending row.\<close>

definition place_serial :: "location \<Rightarrow> serial \<Rightarrow> serial" where
  "place_serial loc s = s\<lparr>ser_location_id := Some (loc_id loc), ser_warehouse := Some (loc_warehouse loc),
     ser_level := loc_level loc\<rparr>"

definition place_return :: "location \<Rightarrow> scan_log \<Rightarrow> db \<Rightarrow> db" where
  "place_return loc l d =
    (let d1 = d\<lparr>scan_logs := upd_rows (\<lambda>r. log_id r = log_id l)
           (\<lambda>r. r\<lparr>log_status := ''SHELF_VERIFIED'', log_message := Some (''Returned product placed at '' @ full_path loc @ ''.'')\<rparr>)
           (scan_logs d)\<rparr>
     in (case log_serial_id l of None \<Rightarrow> d1 | Some sid \<Rightarrow> set_serial sid (place_serial loc) d1))"

definition verify_sale_return_on_shelf :: "batch \<Rightarrow> location \<Rightarrow> nat \<Rightarrow> moment \<Rightarrow> db \<Rightarrow> exc + db \<times> nat" where
  "verify_sale_return_on_shelf b loc uid now d =
    (case ensure_draft_sale b of Some e \<Rightarrow> Inl e
     | None \<Rightarrow>
       let pending = pending_sale_return_logs d b
       in if pending = [] then
            Inl (InventoryError ''Scan a returned sale product before scanning the shelf QR.'')
          else Inr (add_scan_log None (loc_code loc) uid ''SALE_RETURN_SHELF'' (Some (bat_id b)) ''VERIFIED''
                 (Some (nat_str (length pending) @ '' returned product(s) placed at '' @ full_path loc @ ''.'')) None now
                 (fold (place_return loc) pending d), length pending))"

definition validate_sale_returns_complete :: "db \<Rightarrow> batch \<Rightarrow> exc option" where
  "validate_sale_returns_complete d b =
    (if bat_type b \<noteq> B_SALE then None
     else
       let n = length (pending_sale_return_logs d b)
       in if n = 0 then None
          else Some (InventoryError (''Sale return is incomplete: scan the shelf QR for '' @ nat_str n @ '' returned '' @
                 (if n = 1 then ''product'' else ''products'') @ '' before submitting.'')))"

section \<open>Pending returns\<close>

lemma set_pending: "set (pending_sale_return_logs d b) = {l \<in> set (scan_logs d). is_pending_return (bat_id b) l}"
  by (auto simp: pending_sale_return_logs_def)

lemma pending_empty_iff: "pending_sale_return_logs d b = [] \<longleftrightarrow> (\<forall>l \<in> set (scan_logs d). \<not> is_pending_return (bat_id b) l)"
proof -
  have "pending_sale_return_logs d b = [] \<longleftrightarrow> filter (is_pending_return (bat_id b)) (scan_logs d) = []"
    unfolding pending_sale_return_logs_def by (metis length_0_conv length_sort)
  then show ?thesis by (simp add: filter_empty_conv)
qed

lemma place_return_logs:
  "scan_logs (place_return loc l d) = upd_rows (\<lambda>r. log_id r = log_id l)
     (\<lambda>r. r\<lparr>log_status := ''SHELF_VERIFIED'', log_message := Some (''Returned product placed at '' @ full_path loc @ ''.'')\<rparr>)
     (scan_logs d)"
  by (simp add: place_return_def Let_def set_serial_def split: option.splits)

lemma not_pending_verified: "\<not> is_pending_return k (r\<lparr>log_status := ''SHELF_VERIFIED'', log_message := m\<rparr>)"
  by (simp add: is_pending_return_def)

lemma place_return_closes:
  "\<forall>r \<in> set (scan_logs d). is_pending_return k r \<longrightarrow> log_id r \<in> A \<Longrightarrow>
   \<forall>r \<in> set (scan_logs (place_return loc l d)). is_pending_return k r \<longrightarrow> log_id r \<in> A - {log_id l}"
  by (auto simp: place_return_logs not_pending_verified)

lemma place_all_closes:
  "\<forall>r \<in> set (scan_logs d). is_pending_return k r \<longrightarrow> log_id r \<in> A \<Longrightarrow>
   \<forall>r \<in> set (scan_logs (fold (place_return loc) ls d)). is_pending_return k r \<longrightarrow> log_id r \<in> A - log_id ` set ls"
proof (induction ls arbitrary: d A)
  case Nil
  then show ?case by simp
next
  case (Cons l ls)
  have "A - log_id ` set (l # ls) = A - {log_id l} - log_id ` set ls" by auto
  with Cons.IH [OF place_return_closes [OF Cons.prems]]
  show ?case by (simp only: fold_simps)
qed

lemma place_return_stock [simp]: "stock_status (place_return loc l d) = stock_status d"
proof -
  have "stock_status (set_serial k (place_serial loc) e) = stock_status e" for k e
    by (rule set_serial_stock_status) (simp add: place_serial_def)
  moreover have "stock_status (d\<lparr>scan_logs := x\<rparr>) = stock_status d" for x
    by (rule stock_status_cong) simp
  ultimately show ?thesis by (simp add: place_return_def Let_def split: option.splits)
qed

lemma place_all_stock: "stock_status (fold (place_return loc) ls d) = stock_status d"
  by (induction ls arbitrary: d) simp_all

lemma place_return_items [simp]: "batch_items (place_return loc l d) = batch_items d"
  by (simp add: place_return_def Let_def set_serial_def split: option.splits)

lemma place_all_items: "batch_items (fold (place_return loc) ls d) = batch_items d"
  by (induction ls arbitrary: d) simp_all

text \<open>
  Verifying on a shelf settles every pending return of the sale: the completeness check
  of the submission passes afterwards, and no serial's status or scanned item has changed.
\<close>

theorem shelf_settles_returns:
  assumes "verify_sale_return_on_shelf b loc u now d = Inr (d', n)"
  shows "validate_sale_returns_complete d' b = None \<and> n = length (pending_sale_return_logs d b) \<and> 0 < n \<and>
    stock_status d' = stock_status d \<and> batch_items d' = batch_items d"
proof -
  let ?p = "pending_sale_return_logs d b" and ?e = "fold (place_return loc) (pending_sale_return_logs d b) d"
  have r: "?p \<noteq> []" "n = length ?p" "d' = add_scan_log None (loc_code loc) u ''SALE_RETURN_SHELF'' (Some (bat_id b)) ''VERIFIED''
      (Some (nat_str (length ?p) @ '' returned product(s) placed at '' @ full_path loc @ ''.'')) None now ?e"
    using assms by (auto simp: verify_sale_return_on_shelf_def Let_def split: option.splits if_splits)
  have "\<forall>l \<in> set (scan_logs d). is_pending_return (bat_id b) l \<longrightarrow> log_id l \<in> log_id ` set ?p"
    by (auto simp: set_pending)
  from place_all_closes [OF this, of loc ?p]
  have "\<forall>l \<in> set (scan_logs d'). \<not> is_pending_return (bat_id b) l"
    unfolding r(3) by (auto simp: add_scan_log_def is_pending_return_def)
  then have "pending_sale_return_logs d' b = []" by (simp add: pending_empty_iff)
  moreover have "stock_status d' = stock_status ?e" unfolding r(3) by (rule stock_status_cong) simp
  ultimately show ?thesis
    using r place_all_stock place_all_items by (simp add: validate_sale_returns_complete_def)
qed

end
