(* ===== verification/Json.thy ===== *)
theory Json
  imports Models Numbers Calendar
begin

text \<open>
  JSON values and \<open>json.dumps\<close> with sorted keys and the separators \<open>","\<close> and
  \<open>":"\<close>, the canonical form of \<open>app/services/master_sync.py\<close>, and the audit trail of
  \<open>app/services/change_audit.py\<close>.
\<close>

datatype json = JNull | JBool bool | JInt int | JFloat rat | JStr string | JList "json list"
  | JObj "(string \<times> json) list"

definition hex_digit :: "nat \<Rightarrow> char" where
  "hex_digit n = (if n < 10 then digit_char n else char_of (87 + n))"

definition unicode_escape :: "nat \<Rightarrow> string" where
  "unicode_escape n = [CHR 0x5C, CHR ''u'', CHR ''0'', CHR ''0'', hex_digit (n div 16), hex_digit (n mod 16)]"

definition escape_char :: "bool \<Rightarrow> char \<Rightarrow> string" where
  "escape_char ensure_ascii c =
    (let n = of_char c :: nat
     in if n = 34 \<or> n = 92 then [CHR 0x5C, c]
        else if n = 10 then [CHR 0x5C, CHR ''n'']
        else if n = 13 then [CHR 0x5C, CHR ''r'']
        else if n = 9 then [CHR 0x5C, CHR ''t'']
        else if n = 8 then [CHR 0x5C, CHR ''b'']
        else if n = 12 then [CHR 0x5C, CHR ''f'']
        else if n < 32 \<or> (ensure_ascii \<and> 127 < n) then unicode_escape n
        else [c])"

definition json_string :: "bool \<Rightarrow> string \<Rightarrow> string" where
  "json_string ensure_ascii s = [CHR 0x22] @ concat (map (escape_char ensure_ascii) s) @ [CHR 0x22]"

fun dumps :: "bool \<Rightarrow> json \<Rightarrow> string" where
  "dumps a JNull = ''null''"
| "dumps a (JBool b) = (if b then ''true'' else ''false'')"
| "dumps a (JInt n) = int_str n"
| "dumps a (JFloat x) = float_repr x"
| "dumps a (JStr s) = json_string a s"
| "dumps a (JList xs) = ''['' @ py_join '','' (map (dumps a) xs) @ '']''"
| "dumps a (JObj kvs) = ''{'' @ py_join '',''
     (map (\<lambda>(k, t). json_string a k @ '':'' @ t)
       (sort_key fst (map (\<lambda>(k, v). (k, dumps a v)) kvs))) @ ''}''"

text \<open>\<open>json.dumps(_json_ready(value), ensure_ascii=False, ...)\<close>: dates are texts already.\<close>

definition canonical_json :: "json \<Rightarrow> string" where
  "canonical_json v = dumps False v"

text \<open>\<open>len(s.encode("utf-8"))\<close>: code points from 128 to 255 take two bytes.\<close>

definition utf8_size :: "string \<Rightarrow> nat" where
  "utf8_size s = sum_list (map (\<lambda>c. if (of_char c :: nat) < 128 then 1 else 2) s)"

definition jopt :: "('a \<Rightarrow> json) \<Rightarrow> 'a option \<Rightarrow> json" where
  "jopt f x = (case x of None \<Rightarrow> JNull | Some v \<Rightarrow> f v)"

definition jfield :: "string \<Rightarrow> json \<Rightarrow> json option" where
  "jfield k v = (case v of JObj kvs \<Rightarrow> map_of (rev kvs) k | _ \<Rightarrow> None)"

section \<open>The audit trail\<close>

definition json_or_none :: "json option \<Rightarrow> string option" where
  "json_or_none v = map_option (dumps True) v"

definition record_change ::
  "user option \<Rightarrow> string \<Rightarrow> string \<Rightarrow> string \<Rightarrow> json option \<Rightarrow> json option \<Rightarrow> moment \<Rightarrow> db \<Rightarrow> db"
where
  "record_change actor etype eid action before after now d =
     d\<lparr>changes := changes d @ [\<lparr>chg_id = next_id chg_id (changes d), chg_actor_id = map_option usr_id actor,
        chg_actor_username = map_option usr_username actor, chg_entity_type = etype, chg_entity_id = eid,
        chg_action = action, chg_before_json = json_or_none before, chg_after_json = json_or_none after,
        chg_created_at = now\<rparr>]\<rparr>"

lemma utf8_size_append [simp]: "utf8_size (s @ t) = utf8_size s + utf8_size t"
  by (simp add: utf8_size_def)

lemma utf8_size_Nil [simp]: "utf8_size [] = 0"
  by (simp add: utf8_size_def)

lemma py_join_perm_size:
  "utf8_size (py_join sep xs) = sum_list (map utf8_size xs) + (length xs - 1) * utf8_size sep"
  by (induction sep xs rule: py_join.induct) (simp_all add: algebra_simps)

lemma record_change_frame [simp]:
  "serials (record_change a b c e f g h d) = serials d"
  "batches (record_change a b c e f g h d) = batches d"
  "batch_items (record_change a b c e f g h d) = batch_items d"
  "outbox (record_change a b c e f g h d) = outbox d"
  "users (record_change a b c e f g h d) = users d"
  "settings_rows (record_change a b c e f g h d) = settings_rows d"
  by (simp_all add: record_change_def)

end
