(* ===== verification/Outbox.thy ===== *)
theory Outbox
  imports Inventory Json
begin

text \<open>
  The durable outbox to the Master, first half of \<open>app/services/master_sync.py\<close>: the
  franchise identity, the frozen event envelope, \<open>enqueue_outbox_event\<close>, and the
  partition of the initial inventory under the Master's two request limits.

  \<open>sha\<close> is \<open>hashlib.sha256(...).hexdigest()\<close> of a text, and the event identifiers
  \<open>uuid4()\<close> gives are arguments.
\<close>

definition event_max_items :: nat where
  "event_max_items = 5000"

definition event_max_body_bytes :: nat where
  "event_max_body_bytes = 5 * 1024 * 1024"

section \<open>The franchise identity\<close>

definition normalize_franchise_code :: "string \<Rightarrow> string" where
  "normalize_franchise_code v =
     py_strip_by (\<lambda>c. c = CHR ''-'') (dash_runs (\<lambda>c. \<not> code_char c) False (py_upper (py_strip v)))"

definition configured_franchise_code :: "settings \<Rightarrow> bool option \<Rightarrow> exc + string" where
  "configured_franchise_code cfg required =
    (let code = normalize_franchise_code (cfg_franchise_code cfg);
         must_exist = (case required of None \<Rightarrow> cfg_master_sync_enabled cfg | Some r \<Rightarrow> r)
     in if must_exist \<and> (code = [] \<or> code \<in> set placeholder_codes) then
          Inl (MasterSyncError ''Configure a unique FRANCHISE_CODE before enabling Setuora Master sync.'')
        else if code \<noteq> [] \<and> 20 < length code then
          Inl (MasterSyncError ''FRANCHISE_CODE must be 20 characters or fewer.'')
        else Inr code)"

definition initial_inventory_reference_prefix :: "string \<Rightarrow> string" where
  "initial_inventory_reference_prefix code = code @ '':INITIAL-INVENTORY:''"

definition initial_inventory_is_queued :: "string \<Rightarrow> db \<Rightarrow> bool" where
  "initial_inventory_is_queued code d =
     list_ex (\<lambda>e. evt_aggregate_type e = ''INITIAL_INVENTORY'' \<and>
       sql_like (initial_inventory_reference_prefix code @ ''%'') (evt_aggregate_id e)) (outbox d)"

definition require_initial_inventory_queued :: "settings \<Rightarrow> db \<Rightarrow> exc + string" where
  "require_initial_inventory_queued cfg d =
    (case configured_franchise_code cfg (Some True) of
       Inl e \<Rightarrow> Inl e
     | Inr code \<Rightarrow>
         if initial_inventory_is_queued code d then Inr code
         else Inl (MasterSyncError (''Initialize inventory for franchise '' @ code @
           '' from Master Connection before recording Lite stock changes.'')))"

section \<open>The frozen envelope\<close>

definition obj_update :: "(string \<times> json) list \<Rightarrow> (string \<times> json) list \<Rightarrow> (string \<times> json) list" where
  "obj_update kvs new = filter (\<lambda>(k, v). k \<notin> fst ` set new) kvs @ new"

definition obj_default :: "string \<Rightarrow> json \<Rightarrow> (string \<times> json) list \<Rightarrow> (string \<times> json) list" where
  "obj_default k v kvs = (if k \<in> fst ` set kvs then kvs else kvs @ [(k, v)])"

record event_head =
  ehd_event_id :: string
  ehd_sequence :: nat
  ehd_type :: string
  ehd_aggregate_id :: string
  ehd_occurred_at :: moment
  ehd_schema_version :: int

definition frozen_event_json :: "event_head \<Rightarrow> (string \<times> json) list \<Rightarrow> string" where
  "frozen_event_json h payload =
    (let event = obj_update payload
           [(''schema_version'', JInt (ehd_schema_version h)), (''event_id'', JStr (ehd_event_id h)),
            (''sequence'', JInt (int (ehd_sequence h))), (''type'', JStr (ehd_type h)),
            (''occurred_at'', JStr (iso_moment (ehd_occurred_at h)))];
         full = obj_default ''items'' (JList []) (obj_default ''actor'' JNull
           (obj_default ''reference'' (JStr (ehd_aggregate_id h)) event))
     in canonical_json (JObj [(''events'', JList [JObj full])]))"

definition validate_frozen_event_request :: "string \<Rightarrow> nat \<Rightarrow> exc option" where
  "validate_frozen_event_request payload_json item_count =
    (let body_size = utf8_size payload_json
     in if event_max_items < item_count then
          Some (MasterSyncError (''Master accepts at most '' @ with_commas event_max_items @
            '' items in one event. Split this transaction into smaller transactions and retry.''))
        else if event_max_body_bytes < body_size then
          Some (MasterSyncError (''Master event request is '' @ with_commas body_size @ '' UTF-8 bytes; the limit is '' @
            with_commas event_max_body_bytes @ '' bytes. Split this transaction into smaller transactions and retry.''))
        else None)"

text \<open>A serial with its product as the Master's item schema has it.\<close>

definition network_event_item :: "product \<Rightarrow> serial \<Rightarrow> rat option \<Rightarrow> rat option \<Rightarrow> string option \<Rightarrow> json" where
  "network_event_item p s rate discount status =
    JObj [(''serial_number'', JStr (ser_number s)), (''product_code'', JStr (prd_code p)),
      (''product_name'', JStr (prd_name p)), (''tally_stock_item_name'', JStr (prd_tally_name p)),
      (''hsn'', JStr (prd_hsn p)), (''gst_rate'', JFloat (prd_gst_rate p)),
      (''sales_discount_rate'', JFloat (case discount of None \<Rightarrow> prd_sales_discount_rate p | Some r \<Rightarrow> r)),
      (''unit'', JStr (prd_unit p)),
      (''rate'', JFloat (case rate of Some r \<Rightarrow> r | None \<Rightarrow> prd_default_rate p)),
      (''status'', JStr (case status of None \<Rightarrow> serial_status_value (ser_status s)
        | Some t \<Rightarrow> if t = [] then serial_status_value (ser_status s) else t)),
      (''product_batch_number'', jopt JStr (ser_batch_number s)),
      (''mfg_date'', jopt (\<lambda>n. JStr (iso_date n)) (ser_mfg_date s)),
      (''expiry_date'', jopt (\<lambda>n. JStr (iso_date n)) (ser_expiry_date s)),
      (''warehouse'', jopt JStr (ser_warehouse s))]"

section \<open>Queueing an event\<close>

record event_request =
  erq_type :: string
  erq_aggregate_type :: string
  erq_aggregate_id :: string
  erq_payload :: "(string \<times> json) list"
  erq_occurred_at :: moment
  erq_schema_version :: int
  erq_batch_id :: "nat option"
  erq_initial :: bool

fun list_length :: "json option \<Rightarrow> nat" where
  "list_length (Some (JList xs)) = length xs"
| "list_length _ = 0"

definition enqueue_guard :: "settings \<Rightarrow> event_request \<Rightarrow> db \<Rightarrow> exc option" where
  "enqueue_guard cfg r d =
    (case configured_franchise_code cfg (Some True) of
       Inl e \<Rightarrow> Some e
     | Inr code \<Rightarrow>
         if erq_initial r then
           (if py_upper (py_strip (erq_aggregate_type r)) \<noteq> ''INITIAL_INVENTORY'' then
              Some (MasterSyncError ''Only an initial-inventory event may bypass Lite initialization.'')
            else None)
         else (case require_initial_inventory_queued cfg d of Inl e \<Rightarrow> Some e | Inr c \<Rightarrow> None))"

definition enqueue_outbox_event ::
  "(string \<Rightarrow> string) \<Rightarrow> settings \<Rightarrow> string \<Rightarrow> moment \<Rightarrow> event_request \<Rightarrow> db \<Rightarrow> exc + db \<times> outbox_event"
where
  "enqueue_outbox_event sha cfg event_id now r d =
    (case enqueue_guard cfg r d of Some e \<Rightarrow> Inl e
     | None \<Rightarrow>
       let sequence = Suc (outbox_sequence d);
           etype = py_upper (py_strip (erq_type r));
           payload_json = frozen_event_json
             \<lparr>ehd_event_id = event_id, ehd_sequence = sequence, ehd_type = etype,
              ehd_aggregate_id = erq_aggregate_id r, ehd_occurred_at = erq_occurred_at r,
              ehd_schema_version = erq_schema_version r\<rparr> (erq_payload r);
           row = \<lparr>evt_id = sequence, evt_event_id = event_id, evt_type = etype,
             evt_schema_version = erq_schema_version r,
             evt_aggregate_type = py_upper (py_strip (erq_aggregate_type r)),
             evt_aggregate_id = erq_aggregate_id r, evt_batch_id = erq_batch_id r,
             evt_payload_json = payload_json, evt_payload_sha256 = sha payload_json, evt_status = O_PENDING,
             evt_attempts = 0, evt_next_attempt_at = None, evt_last_error = None, evt_created_at = now,
             evt_sending_at = None, evt_sent_at = None\<rparr>
       in (case validate_frozen_event_request payload_json
                  (list_length (map_of (rev (erq_payload r)) ''items'')) of
             Some e \<Rightarrow> Inl e
           | None \<Rightarrow> Inr (d\<lparr>outbox := outbox d @ [row], outbox_sequence := sequence\<rparr>, row)))"

definition item_event :: "db \<Rightarrow> batch_item \<Rightarrow> json option" where
  "item_event d i =
    Option.bind (item_serial d i) (\<lambda>s. map_option (\<lambda>p.
      network_event_item p s (itm_rate i) (itm_discount_rate i) None) (product_of d s))"

definition batch_event_payload :: "db \<Rightarrow> batch \<Rightarrow> string option \<Rightarrow> (string \<times> json) list" where
  "batch_event_payload d b actor =
    [(''reference'', JStr (case bat_tally_reference b of None \<Rightarrow> bat_number b
        | Some r \<Rightarrow> if r = [] then bat_number b else r)),
     (''actor'', jopt JStr actor),
     (''items'', JList (List.map_filter (item_event d) (sort_key itm_id (items_of d (bat_id b))))),
     (''party_name'', jopt JStr (bat_party_name b)), (''party_state'', jopt JStr (bat_party_state b)),
     (''party_gst_registration_type'', jopt JStr (bat_gst_registration b)),
     (''party_gst_name'', jopt JStr (bat_gst_name b)), (''party_gstin'', jopt JStr (bat_gstin b)),
     (''gst_treatment'', jopt JStr (bat_gst_treatment b)), (''gst_cgst_rate'', jopt JFloat (bat_cgst_rate b)),
     (''gst_sgst_rate'', jopt JFloat (bat_sgst_rate b)), (''gst_igst_rate'', jopt JFloat (bat_igst_rate b)),
     (''reason_code'', jopt JStr (bat_reason_code b))]"

definition enqueue_batch_submitted_event ::
  "(string \<Rightarrow> string) \<Rightarrow> settings \<Rightarrow> string \<Rightarrow> moment \<Rightarrow> batch \<Rightarrow> string option \<Rightarrow> db \<Rightarrow> exc + db \<times> outbox_event"
where
  "enqueue_batch_submitted_event sha cfg event_id now b actor d =
    (case configured_franchise_code cfg (Some True) of Inl e \<Rightarrow> Inl e
     | Inr code \<Rightarrow>
         enqueue_outbox_event sha cfg event_id now
           \<lparr>erq_type = (if bat_type b = B_QR_ASSIGNMENT then ''STOCK_SNAPSHOT'' else batch_type_value (bat_type b)),
            erq_aggregate_type = ''BATCH'', erq_aggregate_id = code @ '':'' @ bat_number b,
            erq_payload = batch_event_payload d b actor,
            erq_occurred_at = (case bat_submitted_at b of None \<Rightarrow> now | Some t \<Rightarrow> t), erq_schema_version = 1,
            erq_batch_id = Some (bat_id b), erq_initial = False\<rparr> d)"

section \<open>The initial inventory\<close>

definition initial_inventory_reference :: "string \<Rightarrow> nat \<Rightarrow> string" where
  "initial_inventory_reference code part = code @ '':INITIAL-INVENTORY:PART-'' @ nat_str part"

definition initial_inventory_payload :: "string \<Rightarrow> string option \<Rightarrow> json list \<Rightarrow> (string \<times> json) list" where
  "initial_inventory_payload reference actor items =
    [(''reference'', JStr reference), (''actor'', jopt JStr actor),
     (''reason_code'', JStr ''INITIAL_ENROLLMENT''), (''items'', JList items)]"

text \<open>The size of the request without items, for the widest sequence SQLite can hand out.\<close>

definition envelope_size :: "string \<Rightarrow> string option \<Rightarrow> moment \<Rightarrow> nat \<Rightarrow> nat" where
  "envelope_size code actor occurred_at part =
    (let reference = initial_inventory_reference code part
     in utf8_size (frozen_event_json
          \<lparr>ehd_event_id = ''00000000-0000-0000-0000-000000000000'', ehd_sequence = 2 ^ 63 - 1,
           ehd_type = ''STOCK_SNAPSHOT'', ehd_aggregate_id = reference, ehd_occurred_at = occurred_at,
           ehd_schema_version = 1\<rparr> (initial_inventory_payload reference actor [])))"

record packing =
  pck_chunks :: "json list list"
  pck_current :: "json list"
  pck_content :: nat
  pck_part :: nat

definition item_size :: "json \<Rightarrow> nat" where
  "item_size v = utf8_size (canonical_json v)"

definition close_chunk :: "packing \<Rightarrow> packing" where
  "close_chunk st = \<lparr>pck_chunks = pck_chunks st @ [pck_current st], pck_current = [], pck_content = 0,
     pck_part = pck_part st + 1\<rparr>"

definition pack_item :: "(nat \<Rightarrow> nat) \<Rightarrow> json \<Rightarrow> packing \<Rightarrow> exc + packing" where
  "pack_item env v st =
    (let addition = item_size v + (if pck_current st = [] then 0 else 1);
         fits = length (pck_current st) + 1 \<le> event_max_items \<and>
           env (pck_part st) + pck_content st + addition \<le> event_max_body_bytes;
         full = \<not> fits \<and> pck_current st \<noteq> [];
         st' = (if full then close_chunk st else st);
         addition' = (if full then item_size v else addition)
     in if pck_current st' = [] \<and> event_max_body_bytes < env (pck_part st') + item_size v then
          Inl (MasterSyncError (''One initial-inventory item exceeds Master's UTF-8 request '' @
            ''size limit. Shorten its product or stock text before retrying.''))
        else Inr (st'\<lparr>pck_current := pck_current st' @ [v], pck_content := pck_content st' + addition'\<rparr>))"

definition partition_initial_inventory_items ::
  "string \<Rightarrow> string option \<Rightarrow> moment \<Rightarrow> json list \<Rightarrow> exc + json list list"
where
  "partition_initial_inventory_items code actor occurred_at items =
    (case fold_res (pack_item (envelope_size code actor occurred_at)) items
            \<lparr>pck_chunks = [], pck_current = [], pck_content = 0, pck_part = 1\<rparr> of
       Inl e \<Rightarrow> Inl e
     | Inr st \<Rightarrow> Inr (if pck_current st = [] then pck_chunks st else pck_chunks st @ [pck_current st]))"

definition initial_request :: "string \<Rightarrow> string option \<Rightarrow> moment \<Rightarrow> string \<Rightarrow> json list \<Rightarrow> event_request" where
  "initial_request etype actor occurred_at reference items =
    \<lparr>erq_type = etype, erq_aggregate_type = ''INITIAL_INVENTORY'', erq_aggregate_id = reference,
     erq_payload = initial_inventory_payload reference actor items, erq_occurred_at = occurred_at,
     erq_schema_version = 1, erq_batch_id = None, erq_initial = True\<rparr>"

definition baseline_serials :: "db \<Rightarrow> serial list" where
  "baseline_serials d = sort_key ser_id (filter (\<lambda>s. ser_active s \<and> ser_status s \<in> {S_GENERATED, S_IN_STOCK}) (serials d))"

definition enqueue_part ::
  "(string \<Rightarrow> string) \<Rightarrow> settings \<Rightarrow> (nat \<Rightarrow> string) \<Rightarrow> moment \<Rightarrow> string \<Rightarrow> string option \<Rightarrow> nat \<times> json list \<Rightarrow> db \<Rightarrow> exc + db"
where
  "enqueue_part sha cfg ids now code actor part d =
    (case part of (k, chunk) \<Rightarrow>
      (case enqueue_outbox_event sha cfg (ids k) now
              (initial_request ''STOCK_SNAPSHOT'' actor now (initial_inventory_reference code k) chunk) d of
         Inl e \<Rightarrow> Inl e | Inr (d', row) \<Rightarrow> Inr d'))"

definition enqueue_initial_inventory_snapshot ::
  "(string \<Rightarrow> string) \<Rightarrow> settings \<Rightarrow> (nat \<Rightarrow> string) \<Rightarrow> moment \<Rightarrow> string option \<Rightarrow> db \<Rightarrow> exc + db \<times> nat \<times> nat"
where
  "enqueue_initial_inventory_snapshot sha cfg ids now actor d =
    (if outbox d \<noteq> [] then
       Inl (MasterSyncError ''Initial inventory can only be queued before the first outbox event.'')
     else (case configured_franchise_code cfg (Some True) of Inl e \<Rightarrow> Inl e
     | Inr code \<Rightarrow>
         let rows = baseline_serials d
         in if rows = [] then
              (case enqueue_outbox_event sha cfg (ids 1) now
                 (initial_request ''HEARTBEAT'' actor now (code @ '':INITIAL-INVENTORY:EMPTY'') []) d of
                 Inl e \<Rightarrow> Inl e | Inr (d', row) \<Rightarrow> Inr (d', 1, 0))
            else
              let items = List.map_filter (\<lambda>s. map_option (\<lambda>p. network_event_item p s None None None) (product_of d s)) rows
              in (case partition_initial_inventory_items code actor now items of
                  Inl e \<Rightarrow> Inl e
                | Inr chunks \<Rightarrow>
                    (case fold_res (enqueue_part sha cfg ids now code actor) (enumerate 1 chunks) d of
                       Inl e \<Rightarrow> Inl e
                     | Inr d' \<Rightarrow> Inr (d', length chunks, length rows)))))"

section \<open>Packing\<close>

definition content_size :: "json list \<Rightarrow> nat" where
  "content_size c = sum_list (map item_size c) + (length c - 1)"

definition chunk_ok :: "(nat \<Rightarrow> nat) \<Rightarrow> nat \<Rightarrow> json list \<Rightarrow> bool" where
  "chunk_ok env part c \<longleftrightarrow> c \<noteq> [] \<and> length c \<le> event_max_items \<and>
     env part + content_size c \<le> event_max_body_bytes"

definition chunks_ok :: "(nat \<Rightarrow> nat) \<Rightarrow> json list list \<Rightarrow> bool" where
  "chunks_ok env cs \<longleftrightarrow> (\<forall>k < length cs. chunk_ok env (k + 1) (cs ! k))"

definition packing_ok :: "(nat \<Rightarrow> nat) \<Rightarrow> packing \<Rightarrow> bool" where
  "packing_ok env st \<longleftrightarrow> chunks_ok env (pck_chunks st) \<and> pck_part st = length (pck_chunks st) + 1 \<and>
     pck_content st = content_size (pck_current st) \<and>
     (pck_current st \<noteq> [] \<longrightarrow> chunk_ok env (pck_part st) (pck_current st))"

definition packed :: "packing \<Rightarrow> json list" where
  "packed st = concat (pck_chunks st) @ pck_current st"

lemma chunks_ok_snoc: "chunks_ok env cs \<Longrightarrow> chunk_ok env (length cs + 1) c \<Longrightarrow> chunks_ok env (cs @ [c])"
  by (auto simp: chunks_ok_def nth_append less_Suc_eq)

lemma content_size_snoc:
  "content_size (c @ [v]) = content_size c + item_size v + (if c = [] then 0 else 1)"
  by (cases c) (simp_all add: content_size_def)

lemma close_chunk_ok:
  "packing_ok env st \<Longrightarrow> pck_current st \<noteq> [] \<Longrightarrow> packing_ok env (close_chunk st)"
  by (auto simp: packing_ok_def close_chunk_def content_size_def intro: chunks_ok_snoc)

lemma close_chunk_packed: "packed (close_chunk st) = packed st"
  by (simp add: packed_def close_chunk_def)

lemma pack_item_step:
  assumes "pack_item env v st = Inr st'" "packing_ok env st"
  shows "packing_ok env st' \<and> packed st' = packed st @ [v]"
proof -
  define full where "full \<longleftrightarrow> \<not> (length (pck_current st) + 1 \<le> event_max_items \<and>
      env (pck_part st) + pck_content st + (item_size v + (if pck_current st = [] then 0 else 1)) \<le> event_max_body_bytes) \<and>
      pck_current st \<noteq> []"
  define t where "t = (if full then close_chunk st else st)"
  have t: "packing_ok env t" "packed t = packed st"
    using assms(2) close_chunk_ok close_chunk_packed by (auto simp: t_def full_def)
  have cur: "full \<Longrightarrow> pck_current t = []" by (simp add: t_def close_chunk_def)
  have st': "st' = t\<lparr>pck_current := pck_current t @ [v], pck_content := pck_content t + (if full then item_size v
        else item_size v + (if pck_current st = [] then 0 else 1))\<rparr>"
    and small: "pck_current t = [] \<longrightarrow> env (pck_part t) + item_size v \<le> event_max_body_bytes"
    using assms(1) unfolding pack_item_def Let_def full_def [symmetric] t_def [symmetric]
    by (auto split: if_splits)
  have add: "pck_content st' = content_size (pck_current st')"
    using t(1) cur unfolding st' by (auto simp: packing_ok_def content_size_snoc t_def)
  have "chunk_ok env (pck_part t) (pck_current t @ [v])"
  proof (cases "pck_current t = []")
    case True
    then show ?thesis using small by (simp add: chunk_ok_def content_size_def event_max_items_def)
  next
    case False
    then have "\<not> full" using cur by blast
    then show ?thesis
      using False t(1) by (auto simp: full_def t_def chunk_ok_def packing_ok_def content_size_snoc)
  qed
  then show ?thesis using t add by (simp add: st' packing_ok_def packed_def)
qed

lemma pack_all:
  assumes "fold_res (pack_item env) vs st = Inr st'" "packing_ok env st"
  shows "packing_ok env st' \<and> packed st' = packed st @ vs"
  using assms
proof (induction vs arbitrary: st)
  case Nil
  then show ?case by simp
next
  case (Cons v vs)
  then obtain t where t: "pack_item env v st = Inr t" "fold_res (pack_item env) vs t = Inr st'"
    by (auto split: sum.splits)
  from pack_item_step [OF t(1) Cons.prems(2)] Cons.IH [OF t(2)] show ?case by simp
qed

lemma pack_all_succeeds:
  assumes "\<forall>v \<in> set vs. \<forall>part. env part + item_size v \<le> event_max_body_bytes"
  shows "\<exists>st'. fold_res (pack_item env) vs st = Inr st'"
  using assms
proof (induction vs arbitrary: st)
  case Nil
  then show ?case by simp
next
  case (Cons v vs)
  then have "\<exists>t. pack_item env v st = Inr t"
    by (simp add: pack_item_def Let_def not_less)
  then obtain t where "pack_item env v st = Inr t" ..
  with Cons show ?case by simp
qed

lemma packing_start: "packing_ok env \<lparr>pck_chunks = [], pck_current = [], pck_content = 0, pck_part = 1\<rparr>"
  by (simp add: packing_ok_def chunks_ok_def content_size_def)

lemma partition_ok:
  assumes "partition_initial_inventory_items code actor t items = Inr chunks"
  shows "concat chunks = items \<and> chunks_ok (envelope_size code actor t) chunks"
proof -
  let ?env = "envelope_size code actor t"
  obtain st where st: "fold_res (pack_item ?env) items \<lparr>pck_chunks = [], pck_current = [], pck_content = 0, pck_part = 1\<rparr> = Inr st"
    "chunks = (if pck_current st = [] then pck_chunks st else pck_chunks st @ [pck_current st])"
    using assms by (auto simp: partition_initial_inventory_items_def split: sum.splits)
  from pack_all [OF st(1) packing_start] have "packing_ok ?env st" "packed st = items"
    by (simp_all add: packed_def)
  then show ?thesis
    using st(2) chunks_ok_snoc by (auto simp: packing_ok_def packed_def)
qed

text \<open>A baseline that fits one request is one part.\<close>

lemma content_size_append_le: "content_size c \<le> content_size (c @ vs)"
  by (simp add: content_size_def)

lemma pack_all_one:
  assumes "length (cur @ vs) \<le> event_max_items" "env 1 + content_size (cur @ vs) \<le> event_max_body_bytes"
  shows "fold_res (pack_item env) vs \<lparr>pck_chunks = [], pck_current = cur, pck_content = content_size cur, pck_part = 1\<rparr> =
    Inr \<lparr>pck_chunks = [], pck_current = cur @ vs, pck_content = content_size (cur @ vs), pck_part = 1\<rparr>"
  using assms
proof (induction vs arbitrary: cur)
  case Nil
  then show ?case by simp
next
  case (Cons v vs)
  have le: "env 1 + content_size (cur @ [v]) \<le> event_max_body_bytes" "length (cur @ [v]) \<le> event_max_items"
    using Cons.prems content_size_append_le [of "cur @ [v]" vs] by simp_all
  have "pack_item env v \<lparr>pck_chunks = [], pck_current = cur, pck_content = content_size cur, pck_part = 1\<rparr> =
      Inr \<lparr>pck_chunks = [], pck_current = cur @ [v], pck_content = content_size (cur @ [v]), pck_part = 1\<rparr>"
    using le by (auto simp: pack_item_def Let_def content_size_snoc)
  with Cons.IH [of "cur @ [v]"] Cons.prems show ?case by simp
qed

lemma partition_one_part:
  assumes "items \<noteq> []" "length items \<le> event_max_items"
    "envelope_size code actor t 1 + content_size items \<le> event_max_body_bytes"
  shows "partition_initial_inventory_items code actor t items = Inr [items]"
  using pack_all_one [of "[]" items "envelope_size code actor t"] assms
  by (simp add: partition_initial_inventory_items_def content_size_def [of "[]"])

section \<open>Request sizes\<close>

lemma utf8_size_Cons: "utf8_size (c # s) = (if (of_char c :: nat) < 128 then 1 else 2) + utf8_size s"
  by (simp add: utf8_size_def)

lemma sum_list_sort_key: "sum_list (map g (sort_key f xs)) = sum_list (map g xs)" for g :: "'a \<Rightarrow> nat"
  by (metis mset_map mset_sort sum_mset_sum_list)

lemma size_object:
  "utf8_size (dumps a (JObj kvs)) =
     2 + sum_list (map (\<lambda>(k, v). utf8_size (json_string a k) + 1 + utf8_size (dumps a v)) kvs) + (length kvs - 1)"
proof -
  let ?ts = "sort_key fst (map (\<lambda>(k, v). (k, dumps a v)) kvs)"
  have "utf8_size (dumps a (JObj kvs)) = 1 + (sum_list (map (\<lambda>(k, t). utf8_size (json_string a k @ '':'' @ t)) ?ts) +
      (length kvs - 1)) + 1"
    by (simp add: utf8_size_Cons py_join_perm_size comp_def split_def)
  also have "sum_list (map (\<lambda>(k, t). utf8_size (json_string a k @ '':'' @ t)) ?ts) =
      sum_list (map (\<lambda>(k, v). utf8_size (json_string a k) + 1 + utf8_size (dumps a v)) kvs)"
    by (simp only: sum_list_sort_key) (simp add: utf8_size_Cons comp_def split_def)
  finally show ?thesis by simp
qed

lemma size_list:
  "utf8_size (dumps a (JList xs)) = 2 + sum_list (map (\<lambda>v. utf8_size (dumps a v)) xs) + (length xs - 1)"
  by (simp add: utf8_size_Cons py_join_perm_size comp_def)

lemma nat_str_length_mono: "m \<le> n \<Longrightarrow> length (nat_str m) \<le> length (nat_str n)"
proof (induction n arbitrary: m rule: nat_str.induct)
  case (1 n)
  show ?case
  proof (cases "n < 10")
    case True
    with 1(2) show ?thesis by (simp add: nat_str.simps)
  next
    case False
    have d: "length (nat_str n) = Suc (length (nat_str (n div 10)))"
      using False by (subst nat_str.simps) simp
    show ?thesis
    proof (cases "m < 10")
      case True
      then show ?thesis unfolding d by (subst nat_str.simps) simp
    next
      case m: False
      have "length (nat_str m) = Suc (length (nat_str (m div 10)))"
        using m by (subst nat_str.simps) simp
      with 1(1) [OF False, of "m div 10"] 1(2) show ?thesis
        unfolding d by (simp add: div_le_mono)
    qed
  qed
qed

lemma ascii_size: "list_all (\<lambda>c. (of_char c :: nat) < 128) s \<Longrightarrow> utf8_size s = length s"
  by (induction s) (simp_all add: utf8_size_def)

lemma digits_size: "utf8_size (nat_str n) = length (nat_str n)"
proof (rule ascii_size)
  show "list_all (\<lambda>c. (of_char c :: nat) < 128) (nat_str n)"
    using nat_str_digits [of n] by (auto simp: list_all_iff is_digit_def Let_def)
qed

lemma frozen_initial:
  "frozen_event_json h (initial_inventory_payload reference actor items) = canonical_json (JObj [(''events'', JList [JObj
     [(''reference'', JStr reference), (''actor'', jopt JStr actor),
      (''reason_code'', JStr ''INITIAL_ENROLLMENT''), (''items'', JList items),
      (''schema_version'', JInt (ehd_schema_version h)), (''event_id'', JStr (ehd_event_id h)),
      (''sequence'', JInt (int (ehd_sequence h))), (''type'', JStr (ehd_type h)),
      (''occurred_at'', JStr (iso_moment (ehd_occurred_at h)))]])])"
  by (simp add: frozen_event_json_def initial_inventory_payload_def obj_update_def obj_default_def)

lemma jint_size: "utf8_size (dumps a (JInt (int n))) = length (nat_str n)"
  by (simp add: int_str_def digits_size)

text \<open>Only the event id, the sequence and the items make a difference to the size of a baseline request.\<close>

lemma frozen_initial_size:
  assumes "ehd_type h = ehd_type g" "ehd_occurred_at h = ehd_occurred_at g" "ehd_schema_version h = ehd_schema_version g"
    and "utf8_size (json_string False (ehd_event_id h)) = utf8_size (json_string False (ehd_event_id g))"
  shows "utf8_size (frozen_event_json h (initial_inventory_payload reference actor items)) + length (nat_str (ehd_sequence g)) =
    utf8_size (frozen_event_json g (initial_inventory_payload reference actor [])) + length (nat_str (ehd_sequence h)) +
      content_size items"
  unfolding frozen_initial canonical_json_def
  using assms by (simp add: size_object size_list jint_size content_size_def item_size_def [abs_def] canonical_json_def
      del: dumps.simps(3,6,7))

lemma envelope_size_le:
  "envelope_size code actor t part \<le> length (nat_str (2 ^ 63 - 1)) +
     utf8_size (frozen_event_json \<lparr>ehd_event_id = ''00000000-0000-0000-0000-000000000000'', ehd_sequence = 0,
       ehd_type = ''STOCK_SNAPSHOT'', ehd_aggregate_id = initial_inventory_reference code part, ehd_occurred_at = t,
       ehd_schema_version = 1\<rparr> (initial_inventory_payload (initial_inventory_reference code part) actor []))"
  (is "_ \<le> _ + utf8_size (frozen_event_json ?h ?pay)")
proof -
  let ?g = "?h\<lparr>ehd_sequence := 2 ^ 63 - 1\<rparr>"
  have "utf8_size (frozen_event_json ?h ?pay) + length (nat_str (ehd_sequence ?g)) =
      utf8_size (frozen_event_json ?g ?pay) + length (nat_str (ehd_sequence ?h)) + content_size []"
    by (rule frozen_initial_size) (simp_all only: event_head.simps)
  then show ?thesis by (simp only: envelope_size_def Let_def event_head.simps)
qed

definition uuid_text :: "string \<Rightarrow> bool" where
  "uuid_text s \<longleftrightarrow> length s = 36 \<and> list_all (\<lambda>c. is_digit c \<or> c \<in> set ''abcdef-'') s"

lemma uuid_char_plain: "is_digit c \<or> c \<in> set ''abcdef-'' \<Longrightarrow> escape_char a c = [c] \<and> (of_char c :: nat) < 128"
  by (auto simp: is_digit_def escape_char_def Let_def)

lemma uuid_size:
  assumes "uuid_text s"
  shows "utf8_size (json_string a s) = 38"
proof -
  have "utf8_size (concat (map (escape_char a) t)) = length t" if "list_all (\<lambda>c. is_digit c \<or> c \<in> set ''abcdef-'') t" for t
    using that
  proof (induction t)
    case (Cons c t)
    then show ?case using uuid_char_plain [of c a] by (simp add: utf8_size_Cons)
  qed simp
  with assms show ?thesis by (simp add: json_string_def uuid_text_def utf8_size_Cons)
qed

lemma placeholder_uuid: "uuid_text ''00000000-0000-0000-0000-000000000000''"
  by code_simp

lemma chunk_request_fits:
  assumes "chunk_ok (envelope_size code actor t) part c" "uuid_text i" "seq \<le> 2 ^ 63 - 1"
  shows "utf8_size (frozen_event_json \<lparr>ehd_event_id = i, ehd_sequence = seq, ehd_type = ''STOCK_SNAPSHOT'',
      ehd_aggregate_id = initial_inventory_reference code part, ehd_occurred_at = t, ehd_schema_version = 1\<rparr>
      (initial_inventory_payload (initial_inventory_reference code part) actor c)) \<le> event_max_body_bytes"
    (is "utf8_size (frozen_event_json ?h _) \<le> _")
proof -
  let ?g = "\<lparr>ehd_event_id = ''00000000-0000-0000-0000-000000000000'', ehd_sequence = 2 ^ 63 - 1,
      ehd_type = ''STOCK_SNAPSHOT'', ehd_aggregate_id = initial_inventory_reference code part,
      ehd_occurred_at = t, ehd_schema_version = 1\<rparr>"
  let ?pay = "initial_inventory_payload (initial_inventory_reference code part) actor"
  have "utf8_size (frozen_event_json ?h (?pay c)) + length (nat_str (ehd_sequence ?g)) =
      utf8_size (frozen_event_json ?g (?pay [])) + length (nat_str (ehd_sequence ?h)) + content_size c"
    by (rule frozen_initial_size) (simp_all only: event_head.simps uuid_size [OF assms(2)] uuid_size [OF placeholder_uuid])
  moreover have "length (nat_str (ehd_sequence ?h)) \<le> length (nat_str (ehd_sequence ?g))"
    using assms(3) by (simp only: event_head.simps nat_str_length_mono)
  moreover have "utf8_size (frozen_event_json ?g (?pay [])) = envelope_size code actor t part"
    by (simp only: envelope_size_def Let_def)
  ultimately show ?thesis
    using assms(1) unfolding chunk_ok_def by linarith
qed

section \<open>Queueing\<close>

lemma enqueueD:
  assumes "enqueue_outbox_event sha cfg i now r d = Inr (d', row)"
  shows "d' = d\<lparr>outbox := outbox d @ [row], outbox_sequence := Suc (outbox_sequence d)\<rparr>"
    "evt_id row = Suc (outbox_sequence d)" "evt_event_id row = i"
    "evt_payload_sha256 row = sha (evt_payload_json row)" "evt_status row = O_PENDING"
    "utf8_size (evt_payload_json row) \<le> event_max_body_bytes"
    "evt_aggregate_type row = py_upper (py_strip (erq_aggregate_type r))" "evt_aggregate_id row = erq_aggregate_id r"
    "evt_batch_id row = erq_batch_id r" "enqueue_guard cfg r d = None" "evt_type row = py_upper (py_strip (erq_type r))"
  using assms by (auto simp: enqueue_outbox_event_def validate_frozen_event_request_def Let_def
      split: option.splits if_splits)

definition outbox_ok :: "(string \<Rightarrow> string) \<Rightarrow> db \<Rightarrow> bool" where
  "outbox_ok sha d \<longleftrightarrow> sorted_wrt (<) (map evt_id (outbox d)) \<and>
     (\<forall>e \<in> set (outbox d). evt_id e \<le> outbox_sequence d \<and> evt_payload_sha256 e = sha (evt_payload_json e))"

lemma enqueue_outbox_ok:
  assumes "enqueue_outbox_event sha cfg i now r d = Inr (d', row)" "outbox_ok sha d"
  shows "outbox_ok sha d'"
  using assms(2) unfolding outbox_ok_def enqueueD(1) [OF assms(1)]
  by (auto simp: sorted_wrt_append enqueueD(2,4) [OF assms(1)] le_Suc_eq less_Suc_eq_le)

lemma aggregate_literal: "py_upper (py_strip ''INITIAL_INVENTORY'') = ''INITIAL_INVENTORY''"
  "py_upper (py_strip ''STOCK_SNAPSHOT'') = ''STOCK_SNAPSHOT''"
  by code_simp+

lemma enqueue_payload:
  assumes "enqueue_outbox_event sha cfg i now r d = Inr (d', row)"
  shows "evt_payload_json row = frozen_event_json \<lparr>ehd_event_id = i, ehd_sequence = Suc (outbox_sequence d),
    ehd_type = py_upper (py_strip (erq_type r)), ehd_aggregate_id = erq_aggregate_id r, ehd_occurred_at = erq_occurred_at r,
    ehd_schema_version = erq_schema_version r\<rparr> (erq_payload r)"
  using assms by (auto simp: enqueue_outbox_event_def Let_def split: option.splits)

text \<open>The stored text of one part of the baseline.\<close>

definition part_json :: "(nat \<Rightarrow> string) \<Rightarrow> moment \<Rightarrow> string \<Rightarrow> string option \<Rightarrow> nat \<Rightarrow> nat \<Rightarrow> json list \<Rightarrow> string" where
  "part_json ids now code actor sequence k c = frozen_event_json
     \<lparr>ehd_event_id = ids k, ehd_sequence = sequence, ehd_type = ''STOCK_SNAPSHOT'',
      ehd_aggregate_id = initial_inventory_reference code k, ehd_occurred_at = now, ehd_schema_version = 1\<rparr>
     (initial_inventory_payload (initial_inventory_reference code k) actor c)"

lemma enqueue_part_succeeds:
  assumes "configured_franchise_code cfg (Some True) = Inr code" "chunk_ok (envelope_size code actor now) k c"
    and "uuid_text (ids k)" "outbox_sequence d < 2 ^ 63 - 1"
  shows "\<exists>row. enqueue_part sha cfg ids now code actor (k, c) d =
      Inr (d\<lparr>outbox := outbox d @ [row], outbox_sequence := Suc (outbox_sequence d)\<rparr>) \<and>
    evt_aggregate_type row = ''INITIAL_INVENTORY'' \<and> evt_aggregate_id row = initial_inventory_reference code k \<and>
    evt_payload_json row = part_json ids now code actor (Suc (outbox_sequence d)) k c"
proof -
  let ?r = "initial_request ''STOCK_SNAPSHOT'' actor now (initial_inventory_reference code k) c"
  have fits: "utf8_size (frozen_event_json \<lparr>ehd_event_id = ids k, ehd_sequence = Suc (outbox_sequence d),
      ehd_type = ''STOCK_SNAPSHOT'', ehd_aggregate_id = initial_inventory_reference code k, ehd_occurred_at = now,
      ehd_schema_version = 1\<rparr> (initial_inventory_payload (initial_inventory_reference code k) actor c)) \<le> event_max_body_bytes"
    by (rule chunk_request_fits [OF assms(2,3)]) (use assms(4) in simp)
  have "enqueue_guard cfg ?r d = None"
    using assms(1) by (simp add: enqueue_guard_def initial_request_def aggregate_literal)
  moreover have "list_length (map_of (rev (erq_payload ?r)) ''items'') \<le> event_max_items"
    using assms(2) by (simp add: initial_request_def initial_inventory_payload_def chunk_ok_def)
  ultimately have "\<exists>d' row. enqueue_outbox_event sha cfg (ids k) now ?r d = Inr (d', row)"
    using fits by (simp add: enqueue_outbox_event_def Let_def validate_frozen_event_request_def initial_request_def
        aggregate_literal not_less)
  then obtain d' row where e: "enqueue_outbox_event sha cfg (ids k) now ?r d = Inr (d', row)" by blast
  then show ?thesis
    using enqueueD(1,7,8) [OF e] enqueue_payload [OF e]
    by (auto simp: enqueue_part_def part_json_def initial_request_def aggregate_literal)
qed

lemma enqueue_parts_succeed:
  assumes "configured_franchise_code cfg (Some True) = Inr code" "\<forall>k. uuid_text (ids k)"
    and "\<forall>(k, c) \<in> set parts. chunk_ok (envelope_size code actor now) k c"
    and "outbox_sequence d + length parts < 2 ^ 63"
  shows "\<exists>rows. fold_res (enqueue_part sha cfg ids now code actor) parts d =
      Inr (d\<lparr>outbox := outbox d @ rows, outbox_sequence := outbox_sequence d + length parts\<rparr>) \<and>
    map evt_aggregate_id rows = map (\<lambda>(k, c). initial_inventory_reference code k) parts \<and>
    map evt_payload_json rows =
      map (\<lambda>(q, k, c). part_json ids now code actor q k c) (enumerate (Suc (outbox_sequence d)) parts) \<and>
    (\<forall>row \<in> set rows. evt_aggregate_type row = ''INITIAL_INVENTORY'')"
  using assms(3,4)
proof (induction parts arbitrary: d)
  case Nil
  show ?case by (intro exI [of _ "[]"]) simp
next
  case (Cons part parts)
  obtain k c where part: "part = (k, c)" by fastforce
  obtain row where row: "enqueue_part sha cfg ids now code actor (k, c) d =
      Inr (d\<lparr>outbox := outbox d @ [row], outbox_sequence := Suc (outbox_sequence d)\<rparr>)"
    "evt_aggregate_type row = ''INITIAL_INVENTORY''" "evt_aggregate_id row = initial_inventory_reference code k"
    "evt_payload_json row = part_json ids now code actor (Suc (outbox_sequence d)) k c"
    using enqueue_part_succeeds [OF assms(1), of actor now k c ids d sha] assms(2) Cons.prems part by auto
  let ?d = "d\<lparr>outbox := outbox d @ [row], outbox_sequence := Suc (outbox_sequence d)\<rparr>"
  obtain rows where "fold_res (enqueue_part sha cfg ids now code actor) parts ?d =
      Inr (?d\<lparr>outbox := outbox ?d @ rows, outbox_sequence := outbox_sequence ?d + length parts\<rparr>)"
    "map evt_aggregate_id rows = map (\<lambda>(k, c). initial_inventory_reference code k) parts"
    "map evt_payload_json rows =
      map (\<lambda>(q, k, c). part_json ids now code actor q k c) (enumerate (Suc (outbox_sequence ?d)) parts)"
    "\<forall>row \<in> set rows. evt_aggregate_type row = ''INITIAL_INVENTORY''"
    using Cons.IH [of ?d] Cons.prems by auto
  then show ?case
    using row part by (intro exI [of _ "row # rows"]) simp
qed

lemma map_enumerate_twice:
  "map (\<lambda>(q, k, c). f q k c) (enumerate (s + n) (enumerate n xs)) = map (\<lambda>(k, c). f (s + k) k c) (enumerate n xs)"
proof (induction xs arbitrary: n)
  case (Cons x xs)
  from Cons.IH [of "Suc n"] show ?case by simp
qed simp

lemma chunks_ok_parts: "chunks_ok env chunks \<Longrightarrow> \<forall>(k, c) \<in> set (enumerate 1 chunks). chunk_ok env k c"
proof (clarify)
  fix k c assume ok: "chunks_ok env chunks" and "(k, c) \<in> set (enumerate 1 chunks)"
  then have "k - 1 < length chunks" "c = chunks ! (k - 1)" "k = (k - 1) + 1"
    by (auto simp: in_set_enumerate_eq)
  with ok show "chunk_ok env k c" unfolding chunks_ok_def by metis
qed

lemma queued_marker:
  assumes "e \<in> set (outbox d)" "evt_aggregate_type e = ''INITIAL_INVENTORY''"
    and "evt_aggregate_id e = initial_inventory_reference_prefix code @ s"
  shows "initial_inventory_is_queued code d"
proof -
  have "sql_like (initial_inventory_reference_prefix code @ ''%'') (evt_aggregate_id e)"
    unfolding assms(3) by (rule sql_like_prefix_self)
  with assms(1,2) show ?thesis by (auto simp: initial_inventory_is_queued_def list_ex_iff)
qed

lemma enqueue_accepts:
  assumes "enqueue_guard cfg r d = None" "list_length (map_of (rev (erq_payload r)) ''items'') \<le> event_max_items"
    and "utf8_size (frozen_event_json \<lparr>ehd_event_id = i, ehd_sequence = Suc (outbox_sequence d),
      ehd_type = py_upper (py_strip (erq_type r)), ehd_aggregate_id = erq_aggregate_id r,
      ehd_occurred_at = erq_occurred_at r, ehd_schema_version = erq_schema_version r\<rparr> (erq_payload r)) \<le> event_max_body_bytes"
  shows "\<exists>d' row. enqueue_outbox_event sha cfg i now r d = Inr (d', row)"
  using assms by (simp add: enqueue_outbox_event_def Let_def validate_frozen_event_request_def not_less)

section \<open>Properties\<close>

text \<open>
  Queueing an event appends one frozen row under the next number of the AUTOINCREMENT
  counter, with the digest of its payload and a body within the Master's limit; the rows
  stay in strictly increasing order and everything else in the database is untouched.
\<close>

theorem enqueue_appends_next:
  assumes "enqueue_outbox_event sha cfg i now r d = Inr (d', row)" "outbox_ok sha d"
  shows "d' = d\<lparr>outbox := outbox d @ [row], outbox_sequence := outbox_sequence d + 1\<rparr> \<and>
    evt_id row = outbox_sequence d + 1 \<and> evt_payload_sha256 row = sha (evt_payload_json row) \<and>
    utf8_size (evt_payload_json row) \<le> event_max_body_bytes \<and> evt_status row = O_PENDING \<and> outbox_ok sha d'"
  using enqueueD [OF assms(1)] enqueue_outbox_ok [OF assms] by simp

text \<open>
  C4. The baseline partition loses, repeats and reorders nothing, no part is empty, none has
  more than 5000 items, and every part's request is within the byte limit for any event id
  and any sequence SQLite can give it.
\<close>

theorem baseline_partition:
  assumes "partition_initial_inventory_items code actor t items = Inr chunks"
  shows "concat chunks = items \<and> (\<forall>k < length chunks. chunks ! k \<noteq> [] \<and> length (chunks ! k) \<le> 5000 \<and>
    (\<forall>i seq. uuid_text i \<and> seq \<le> 2 ^ 63 - 1 \<longrightarrow>
      utf8_size (frozen_event_json \<lparr>ehd_event_id = i, ehd_sequence = seq, ehd_type = ''STOCK_SNAPSHOT'',
        ehd_aggregate_id = initial_inventory_reference code (k + 1), ehd_occurred_at = t, ehd_schema_version = 1\<rparr>
        (initial_inventory_payload (initial_inventory_reference code (k + 1)) actor (chunks ! k))) \<le> 5 * 1024 * 1024))"
proof -
  have ok: "chunk_ok (envelope_size code actor t) (k + 1) (chunks ! k)" if "k < length chunks" for k
    using partition_ok [OF assms] that by (simp add: chunks_ok_def)
  have fit: "utf8_size (frozen_event_json \<lparr>ehd_event_id = i, ehd_sequence = seq, ehd_type = ''STOCK_SNAPSHOT'',
        ehd_aggregate_id = initial_inventory_reference code (k + 1), ehd_occurred_at = t, ehd_schema_version = 1\<rparr>
        (initial_inventory_payload (initial_inventory_reference code (k + 1)) actor (chunks ! k))) \<le> 5 * 1024 * 1024"
    if "k < length chunks" "uuid_text i" "seq \<le> 2 ^ 63 - 1" for k i seq
    using chunk_request_fits [OF ok [OF that(1)] that(2,3)] by (simp only: event_max_body_bytes_def)
  show ?thesis
    using partition_ok [OF assms] ok fit by (auto simp: chunk_ok_def event_max_items_def)
qed

text \<open>
  C5. On an empty outbox whose items all fit a request, the baseline is queued completely: one
  event per part, in order and under the next numbers, no size check refuses one, the payload of
  each holds exactly the items of its part, and the parts together are the items of all active
  serials that are generated or in stock, in the order of their keys; from then on the franchise
  may record stock changes.
\<close>

theorem baseline_queued:
  assumes "outbox d = []" "configured_franchise_code cfg (Some True) = Inr code" "\<forall>k. uuid_text (ids k)"
    and "baseline_serials d \<noteq> []"
    and "partition_initial_inventory_items code actor now
      (List.map_filter (\<lambda>s. map_option (\<lambda>p. network_event_item p s None None None) (product_of d s)) (baseline_serials d))
      = Inr chunks" "chunks \<noteq> []"
    and "outbox_sequence d + length chunks < 2 ^ 63"
  shows "\<exists>d'. enqueue_initial_inventory_snapshot sha cfg ids now actor d = Inr (d', length chunks, length (baseline_serials d)) \<and>
    map evt_aggregate_id (outbox d') = map (initial_inventory_reference code) [1..<length chunks + 1] \<and>
    map evt_payload_json (outbox d') = map (\<lambda>(k, c). frozen_event_json
        \<lparr>ehd_event_id = ids k, ehd_sequence = outbox_sequence d + k, ehd_type = ''STOCK_SNAPSHOT'',
         ehd_aggregate_id = initial_inventory_reference code k, ehd_occurred_at = now, ehd_schema_version = 1\<rparr>
        [(''reference'', JStr (initial_inventory_reference code k)), (''actor'', jopt JStr actor),
         (''reason_code'', JStr ''INITIAL_ENROLLMENT''), (''items'', JList c)]) (enumerate 1 chunks) \<and>
    concat chunks = List.map_filter (\<lambda>s. map_option (\<lambda>p. network_event_item p s None None None) (product_of d s))
      (sort_key ser_id (filter (\<lambda>s. ser_active s \<and> ser_status s \<in> {S_GENERATED, S_IN_STOCK}) (serials d))) \<and>
    require_initial_inventory_queued cfg d' = Inr code"
proof -
  let ?parts = "enumerate 1 chunks"
  have ok: "\<forall>(k, c) \<in> set ?parts. chunk_ok (envelope_size code actor now) k c"
    using chunks_ok_parts partition_ok [OF assms(5)] by blast
  obtain rows where rows: "fold_res (enqueue_part sha cfg ids now code actor) ?parts d =
      Inr (d\<lparr>outbox := outbox d @ rows, outbox_sequence := outbox_sequence d + length ?parts\<rparr>)"
    "map evt_aggregate_id rows = map (\<lambda>(k, c). initial_inventory_reference code k) ?parts"
    "map evt_payload_json rows =
      map (\<lambda>(q, k, c). part_json ids now code actor q k c) (enumerate (Suc (outbox_sequence d)) ?parts)"
    "\<forall>row \<in> set rows. evt_aggregate_type row = ''INITIAL_INVENTORY''"
    using enqueue_parts_succeed [OF assms(2,3) ok, of d sha] assms(7) by auto
  let ?d = "d\<lparr>outbox := outbox d @ rows, outbox_sequence := outbox_sequence d + length ?parts\<rparr>"
  have "map (\<lambda>(k, c). initial_inventory_reference code k) ?parts = map (initial_inventory_reference code) (map fst ?parts)"
    by (simp add: split_def comp_def del: map_fst_enumerate)
  then have ids: "map evt_aggregate_id rows = map (initial_inventory_reference code) [1..<length chunks + 1]"
    using rows(2) by simp
  have "map evt_payload_json rows = map (\<lambda>(k, c). part_json ids now code actor (outbox_sequence d + k) k c) ?parts"
    unfolding rows(3) using map_enumerate_twice [of "part_json ids now code actor" "outbox_sequence d" 1 chunks] by simp
  note texts = this [unfolded part_json_def initial_inventory_payload_def]
  have "length rows = length chunks" using arg_cong [OF ids, of length] by (simp del: upt_Suc)
  then have "rows \<noteq> []" using assms(6) by auto
  then obtain e es where e: "rows = e # es" by (cases rows) auto
  have "evt_aggregate_id e = initial_inventory_reference code 1"
    using ids assms(6) unfolding e by (cases chunks) (simp_all add: upt_rec)
  then have "initial_inventory_is_queued code ?d"
    using rows(4) e by (intro queued_marker [of e _ _ "''PART-'' @ nat_str 1"])
      (simp_all add: initial_inventory_reference_def initial_inventory_reference_prefix_def)
  then have req: "require_initial_inventory_queued cfg ?d = Inr code"
    using assms(2) by (simp add: require_initial_inventory_queued_def)
  have snap: "enqueue_initial_inventory_snapshot sha cfg ids now actor d = Inr (?d, length chunks, length (baseline_serials d))"
    using assms(1,2,4,5) rows(1) by (simp add: enqueue_initial_inventory_snapshot_def Let_def)
  have ob: "outbox ?d = rows" using assms(1) by simp
  show ?thesis
    by (intro exI [of _ ?d] conjI snap req; (unfold ob)?;
        (rule ids texts conjunct1 [OF partition_ok [OF assms(5)], unfolded baseline_serials_def])?)
qed

end
