(* ===== verification/Audits.thy ===== *)
theory Audits
  imports Inventory Json
begin

text \<open>
  Audits, \<open>app/services/audit.py\<close>: assignments of a product's stock to an auditor for a
  time window, reconciliation of what was scanned with what was expected into findings, and
  the refresh of expired assignments.
\<close>

record audit_summary =
  sum_verified :: nat
  sum_missing :: nat
  sum_extra :: nat
  sum_pending :: nat
  sum_total :: nat

definition expected_items :: "db \<Rightarrow> nat \<Rightarrow> audit_assignment_item list" where
  "expected_items d a = filter (\<lambda>i. asi_assignment_id i = a) (assignment_items d)"

definition assignment_batches :: "db \<Rightarrow> nat \<Rightarrow> batch list" where
  "assignment_batches d a = filter (\<lambda>b. bat_assignment_id b = Some a) (batches d)"

definition audit_assignment_state :: "db \<Rightarrow> audit_assignment \<Rightarrow> moment \<Rightarrow> nat \<Rightarrow> nat option \<Rightarrow> string" where
  "audit_assignment_state d a now verified expected =
    (let n = (case expected of None \<Rightarrow> length (expected_items d (asg_id a)) | Some k \<Rightarrow> k)
     in if n \<noteq> 0 \<and> n \<le> verified then ''COMPLETE''
        else if now < asg_starts_at a then ''UPCOMING''
        else if now \<le> asg_ends_at a then ''ACTIVE''
        else ''EXPIRED'')"

definition empty_form :: batch_form where
  "empty_form = \<lparr>frm_party_name = None, frm_notes = None, frm_reason_code = None, frm_party_state = None,
     frm_registration = None, frm_gst_name = None, frm_gstin = None, frm_treatment = None, frm_cgst = None,
     frm_sgst = None, frm_igst = None, frm_assignment_id = None\<rparr>"

definition expected_serials :: "db \<Rightarrow> nat \<Rightarrow> serial list" where
  "expected_serials d pid = sort_key ser_number
     (filter (\<lambda>s. ser_product_id s = pid \<and> ser_active s \<and> ser_status s = S_IN_STOCK) (serials d))"

definition expected_rows :: "db \<Rightarrow> nat \<Rightarrow> moment \<Rightarrow> serial list \<Rightarrow> audit_assignment_item list" where
  "expected_rows d aid now ss = map (\<lambda>(k, s).
     \<lparr>asi_id = next_id asi_id (assignment_items d) + k, asi_assignment_id = aid, asi_serial_id = ser_id s,
      asi_created_at = now\<rparr>) (enumerate 0 ss)"

text \<open>
  The assignment, its expected items and the anchor batch are one transaction: nothing is
  kept when the anchor batch gets no number.
\<close>

definition create_audit_assignment ::
  "product \<Rightarrow> user \<Rightarrow> user \<Rightarrow> moment \<Rightarrow> moment \<Rightarrow> string option \<Rightarrow> moment \<Rightarrow> db \<Rightarrow> exc + db \<times> audit_assignment"
where
  "create_audit_assignment p auditor assigned_by starts_at ends_at notes now d =
    (if \<not> usr_active auditor \<or> usr_deleted_at auditor \<noteq> None \<or> \<not> has_role (TextArg (usr_role auditor)) (RoleArg AUDITOR) then
       Inl (InventoryError ''Choose an active user with the auditor role'')
     else if ends_at \<le> starts_at then Inl (InventoryError ''Audit end must be after audit start'')
     else if ends_at \<le> now then Inl (InventoryError ''Audit end must be in the future'')
     else
       let expected = expected_serials d (prd_id p)
       in if expected = [] then Inl (InventoryError ''This product has no in-stock serials to audit'')
          else
            let a = \<lparr>asg_id = next_id asg_id (assignments d), asg_product_id = prd_id p, asg_auditor_id = usr_id auditor,
                   asg_assigned_by_id = usr_id assigned_by, asg_starts_at = starts_at, asg_ends_at = ends_at,
                   asg_notes = strip_or_none notes, asg_created_at = now\<rparr>;
                d1 = d\<lparr>assignments := assignments d @ [a],
                       assignment_items := assignment_items d @ expected_rows d (asg_id a) now expected\<rparr>;
                f = empty_form\<lparr>frm_party_name := Some (prd_name p), frm_notes := notes,
                      frm_assignment_id := Some (asg_id a)\<rparr>
            in (case create_batch (\<lambda>k e. e) False B_AUDIT f (usr_id auditor) now d1 of
                (Inl e, d2) \<Rightarrow> Inl e
              | (Inr b, d2) \<Rightarrow> Inr (d2, a)))"

definition audit_assignment_snapshot :: "audit_assignment \<Rightarrow> json" where
  "audit_assignment_snapshot a =
     JObj [(''id'', JInt (int (asg_id a))), (''product_id'', JInt (int (asg_product_id a))),
       (''auditor_id'', JInt (int (asg_auditor_id a))), (''assigned_by_id'', JInt (int (asg_assigned_by_id a))),
       (''starts_at'', JStr (iso_moment (asg_starts_at a))), (''ends_at'', JStr (iso_moment (asg_ends_at a))),
       (''notes'', jopt JStr (asg_notes a))]"

definition in_window :: "audit_assignment \<Rightarrow> batch_item \<Rightarrow> bool" where
  "in_window a i \<longleftrightarrow> asg_starts_at a \<le> itm_created_at i \<and> itm_created_at i \<le> asg_ends_at a"

text \<open>The items scanned for an assignment inside its window, over all its batches.\<close>

definition assignment_scans :: "db \<Rightarrow> audit_assignment \<Rightarrow> batch_item list" where
  "assignment_scans d a = filter (\<lambda>i. in_window a i \<and>
     (case get_batch d (itm_batch_id i) of Some b \<Rightarrow> bat_assignment_id b = Some (asg_id a) | None \<Rightarrow> False)) (batch_items d)"

record progress =
  prg_expected :: nat
  prg_verified :: nat
  prg_pending :: nat
  prg_extra :: nat
  prg_state :: string

definition assignment_progress :: "db \<Rightarrow> audit_assignment \<Rightarrow> moment \<Rightarrow> progress" where
  "assignment_progress d a now =
    (let expected = remdups (map asi_serial_id (expected_items d (asg_id a)));
         scanned = remdups (map itm_serial_id (assignment_scans d a));
         verified = length (filter (\<lambda>s. s \<in> set scanned) expected)
     in \<lparr>prg_expected = length expected, prg_verified = verified,
         prg_pending = length (filter (\<lambda>s. s \<notin> set scanned) expected),
         prg_extra = length (filter (\<lambda>s. s \<notin> set expected) scanned),
         prg_state = audit_assignment_state d a now verified (Some (length expected))\<rparr>)"

section \<open>Reconciliation\<close>

definition make_finding ::
  "db \<Rightarrow> nat \<Rightarrow> serial \<Rightarrow> string \<Rightarrow> serial_status option \<Rightarrow> serial_status option \<Rightarrow> moment \<Rightarrow> audit_finding"
where
  "make_finding d bid s ftype expected scanned now =
    \<lparr>fnd_id = 0, fnd_batch_id = bid, fnd_serial_id = Some (ser_id s), fnd_serial_number = ser_number s,
     fnd_product_code = map_option prd_code (product_of d s), fnd_product_name = map_option prd_name (product_of d s),
     fnd_type = ftype, fnd_expected_status = expected, fnd_scanned_status = scanned, fnd_created_at = now\<rparr>"

definition summary_of :: "audit_finding list \<Rightarrow> audit_summary" where
  "summary_of fs =
    (let count = (\<lambda>t. count_rows (\<lambda>f. fnd_type f = t) fs)
     in \<lparr>sum_verified = count ''VERIFIED'', sum_missing = count ''MISSING'', sum_extra = count ''EXTRA'',
         sum_pending = count ''PENDING'', sum_total = length fs\<rparr>)"

text \<open>\<open>add_all\<close> and \<open>flush\<close>: the new rows take the next keys in order.\<close>

definition add_findings :: "audit_finding list \<Rightarrow> db \<Rightarrow> db" where
  "add_findings fs d = d\<lparr>findings := findings d @
     map (\<lambda>(k, f). f\<lparr>fnd_id := next_id fnd_id (findings d) + k\<rparr>) (enumerate 0 fs)\<rparr>"

definition delete_findings :: "(audit_finding \<Rightarrow> bool) \<Rightarrow> db \<Rightarrow> db" where
  "delete_findings p d = d\<lparr>findings := filter (\<lambda>f. \<not> p f) (findings d)\<rparr>"

text \<open>The serials of a list of items, each once, in the order of first occurrence.\<close>

definition scanned_serials :: "db \<Rightarrow> batch_item list \<Rightarrow> serial list" where
  "scanned_serials d is = List.map_filter (get_serial d) (remdups (map itm_serial_id is))"

definition batch_findings :: "db \<Rightarrow> batch \<Rightarrow> moment \<Rightarrow> audit_finding list" where
  "batch_findings d b now =
    (let scanned = scanned_serials d (items_of d (bat_id b));
         expected = filter (\<lambda>s. ser_status s = S_IN_STOCK \<and> ser_active s) (serials d);
         hit = (\<lambda>s. ser_id s \<in> ser_id ` set scanned)
     in map (\<lambda>s. if hit s then make_finding d (bat_id b) s ''VERIFIED'' (Some S_IN_STOCK) (Some (ser_status s)) now
                 else make_finding d (bat_id b) s ''MISSING'' (Some S_IN_STOCK) None now) expected @
        map (\<lambda>s. make_finding d (bat_id b) s ''EXTRA'' (Some S_IN_STOCK) (Some (ser_status s)) now)
          (filter (\<lambda>s. ser_id s \<notin> ser_id ` set expected) scanned))"

definition assignment_findings :: "db \<Rightarrow> audit_assignment \<Rightarrow> nat \<Rightarrow> moment \<Rightarrow> audit_finding list" where
  "assignment_findings d a anchor now =
    (let expected = List.map_filter (get_serial d) (remdups (map asi_serial_id (expected_items d (asg_id a))));
         scanned = scanned_serials d (assignment_scans d a);
         hit = (\<lambda>s. ser_id s \<in> ser_id ` set scanned);
         expired = (asg_ends_at a < now)
     in map (\<lambda>s. if hit s then make_finding d anchor s ''VERIFIED'' (Some S_IN_STOCK) (Some (ser_status s)) now
                 else make_finding d anchor s (if expired then ''MISSING'' else ''PENDING'') (Some S_IN_STOCK) None now)
          expected @
        map (\<lambda>s. make_finding d anchor s ''EXTRA'' (Some S_IN_STOCK) (Some (ser_status s)) now)
          (filter (\<lambda>s. ser_id s \<notin> ser_id ` set expected) scanned))"

text \<open>\<open>max(batches, key=(created_at, id))\<close>.\<close>

definition latest_batch :: "batch list \<Rightarrow> batch option" where
  "latest_batch bs = (case sort_key (\<lambda>b. (bat_created_at b, bat_id b)) bs of [] \<Rightarrow> None | x # xs \<Rightarrow> Some (last (x # xs)))"

definition of_assignment :: "db \<Rightarrow> nat \<Rightarrow> audit_finding \<Rightarrow> bool" where
  "of_assignment d a f \<longleftrightarrow> fnd_batch_id f \<in> bat_id ` set (assignment_batches d a)"

definition reconcile_audit_assignment :: "audit_assignment \<Rightarrow> nat \<Rightarrow> moment \<Rightarrow> db \<Rightarrow> db \<times> audit_summary" where
  "reconcile_audit_assignment a anchor now d =
    (let d1 = delete_findings (of_assignment d (asg_id a)) d; fs = assignment_findings d1 a anchor now
     in (add_findings fs d1, summary_of fs))"

definition reconcile_audit_batch :: "batch \<Rightarrow> moment \<Rightarrow> db \<Rightarrow> db \<times> audit_summary" where
  "reconcile_audit_batch b now d =
    (if bat_type b \<noteq> B_AUDIT then
       (d, \<lparr>sum_verified = 0, sum_missing = 0, sum_extra = 0, sum_pending = 0, sum_total = 0\<rparr>)
     else (case (if bat_assignment_id b = Some 0 then None else Option.bind (bat_assignment_id b) (get_assignment d)) of
         Some a \<Rightarrow> reconcile_audit_assignment a (bat_id b) now d
       | None \<Rightarrow>
           let d1 = delete_findings (\<lambda>f. fnd_batch_id f = bat_id b) d; fs = batch_findings d1 b now
           in (add_findings fs d1, summary_of fs)))"

definition set_assignment_end :: "nat \<Rightarrow> moment \<Rightarrow> db \<Rightarrow> db" where
  "set_assignment_end aid t d = d\<lparr>assignments := upd_rows (\<lambda>r. asg_id r = aid) (\<lambda>r. r\<lparr>asg_ends_at := t\<rparr>) (assignments d)\<rparr>"

definition extend_audit_assignment_deadline ::
  "audit_assignment \<Rightarrow> user \<Rightarrow> moment \<Rightarrow> moment \<Rightarrow> db \<Rightarrow> exc + db \<times> audit_assignment"
where
  "extend_audit_assignment_deadline a actor ends_at now d =
    (if ends_at \<le> asg_starts_at a then Inl (InventoryError ''Audit end must be after audit start'')
     else if ends_at \<le> asg_ends_at a then Inl (InventoryError ''Choose a deadline after the current audit end'')
     else if ends_at \<le> now then Inl (InventoryError ''Audit end must be in the future'')
     else
       let a' = a\<lparr>asg_ends_at := ends_at\<rparr>;
           d1 = set_assignment_end (asg_id a) ends_at d;
           d2 = (case latest_batch (assignment_batches d1 (asg_id a)) of None \<Rightarrow> d1
             | Some latest \<Rightarrow> fst (reconcile_audit_assignment a' (bat_id latest) now d1))
       in Inr (record_change (Some actor) ''audit_assignment'' (nat_str (asg_id a)) ''extend_deadline''
            (Some (audit_assignment_snapshot a)) (Some (audit_assignment_snapshot a')) now d2, a'))"

definition needs_refresh :: "db \<Rightarrow> audit_assignment \<Rightarrow> bool" where
  "needs_refresh d a \<longleftrightarrow> list_ex (\<lambda>f. of_assignment d (asg_id a) f \<and> fnd_type f = ''PENDING'') (findings d) \<or>
     \<not> list_ex (of_assignment d (asg_id a)) (findings d)"

text \<open>\<open>None\<close> is the \<open>ValueError\<close> of \<open>max\<close> on an assignment without batches.\<close>

definition refresh_one :: "moment \<Rightarrow> audit_assignment \<Rightarrow> db \<Rightarrow> exc + db" where
  "refresh_one now a d =
    (case latest_batch (assignment_batches d (asg_id a)) of
       None \<Rightarrow> Inl (ValueError ''max() iterable argument is empty'')
     | Some latest \<Rightarrow>
         Inr (if needs_refresh d a then fst (reconcile_audit_assignment a (bat_id latest) now d) else d))"

definition refresh_expired_audit_assignments :: "moment \<Rightarrow> db \<Rightarrow> exc + db" where
  "refresh_expired_audit_assignments now d =
     fold_res (refresh_one now) (filter (\<lambda>a. asg_ends_at a < now) (assignments d)) d"

definition summarize_audit_findings :: "db \<Rightarrow> batch \<Rightarrow> audit_summary" where
  "summarize_audit_findings d b = summary_of (filter (\<lambda>f. fnd_batch_id f = bat_id b) (findings d))"

definition newer_finding :: "audit_finding \<Rightarrow> audit_finding \<Rightarrow> bool" where
  "newer_finding g f \<longleftrightarrow> fnd_serial_id g = fnd_serial_id f \<and>
     (fnd_created_at f < fnd_created_at g \<or> fnd_created_at g = fnd_created_at f \<and> fnd_id f < fnd_id g)"

definition current_missing_stock_findings :: "db \<Rightarrow> audit_finding list" where
  "current_missing_stock_findings d =
     rev (sort_key (\<lambda>f. (fnd_created_at f, fnd_id f))
       (filter (\<lambda>f. fnd_type f = ''MISSING'' \<and>
          (case Option.bind (fnd_serial_id f) (get_serial d) of None \<Rightarrow> False
           | Some s \<Rightarrow> ser_active s \<and> ser_status s \<in> set stock_statuses) \<and>
          \<not> list_ex (\<lambda>g. newer_finding g f) (findings d)) (findings d)))"

section \<open>Findings\<close>

lemma make_finding_fields [simp]:
  "fnd_type (make_finding d b s t e c now) = t" "fnd_serial_id (make_finding d b s t e c now) = Some (ser_id s)"
  "fnd_batch_id (make_finding d b s t e c now) = b"
  by (simp_all add: make_finding_def)

lemma set_numbered:
  assumes "g \<in> set (map (\<lambda>(k, f). f\<lparr>fnd_id := n + k\<rparr>) (enumerate j fs))"
  shows "\<exists>f \<in> set fs. fnd_type g = fnd_type f \<and> fnd_batch_id g = fnd_batch_id f \<and> fnd_serial_id g = fnd_serial_id f"
proof -
  obtain k f where f: "(k, f) \<in> set (enumerate j fs)" "g = f\<lparr>fnd_id := n + k\<rparr>"
    using assms by auto
  have "f \<in> set (map snd (enumerate j fs))" using f(1) by (metis image_eqI list.set_map snd_conv)
  then have "f \<in> set fs" by simp
  with f(2) show ?thesis by (intro bexI [of _ f]) simp_all
qed

lemma add_findings_in:
  assumes "g \<in> set (findings (add_findings fs d))"
  shows "g \<in> set (findings d) \<or>
     (\<exists>f \<in> set fs. fnd_type g = fnd_type f \<and> fnd_batch_id g = fnd_batch_id f \<and> fnd_serial_id g = fnd_serial_id f)"
  using assms set_numbered [of g "next_id fnd_id (findings d)" 0 fs]
  unfolding add_findings_def by (simp del: set_map) blast

lemma findings_frame [simp]:
  "batches (add_findings fs d) = batches d" "batches (delete_findings p d) = batches d"
  "serials (add_findings fs d) = serials d" "serials (delete_findings p d) = serials d"
  "batch_items (add_findings fs d) = batch_items d" "batch_items (delete_findings p d) = batch_items d"
  "assignments (add_findings fs d) = assignments d" "assignments (delete_findings p d) = assignments d"
  "assignment_items (add_findings fs d) = assignment_items d" "assignment_items (delete_findings p d) = assignment_items d"
  "products (add_findings fs d) = products d" "products (delete_findings p d) = products d"
  "outbox (add_findings fs d) = outbox d" "outbox (delete_findings p d) = outbox d"
  "scan_logs (add_findings fs d) = scan_logs d" "scan_logs (delete_findings p d) = scan_logs d"
  "outbox_sequence (add_findings fs d) = outbox_sequence d" "outbox_sequence (delete_findings p d) = outbox_sequence d"
  by (simp_all add: add_findings_def delete_findings_def)

lemma delete_findings_in [simp]:
  "f \<in> set (findings (delete_findings p d)) \<longleftrightarrow> f \<in> set (findings d) \<and> \<not> p f"
  by (simp add: delete_findings_def)

lemma of_assignment_cong: "batches e = batches d \<Longrightarrow> of_assignment e a = of_assignment d a"
  by (simp add: of_assignment_def assignment_batches_def fun_eq_iff)

lemma latest_batch_eq:
  "latest_batch bs = (if bs = [] then None else Some (last (sort_key (\<lambda>b. (bat_created_at b, bat_id b)) bs)))"
proof -
  have "sort_key (\<lambda>b. (bat_created_at b, bat_id b)) bs = [] \<longleftrightarrow> bs = []"
    by (metis length_0_conv length_sort)
  then show ?thesis
    by (cases "sort_key (\<lambda>b. (bat_created_at b, bat_id b)) bs") (simp_all add: latest_batch_def)
qed

lemma latest_batch_in: "latest_batch bs = Some b \<Longrightarrow> b \<in> set bs"
  unfolding latest_batch_eq by (metis last_in_set length_0_conv length_sort option.distinct(1) option.inject set_sort)

lemma latest_batch_max:
  assumes "latest_batch bs = Some b" "c \<in> set bs"
  shows "(bat_created_at c, bat_id c) \<le> (bat_created_at b, bat_id b)"
proof -
  let ?key = "\<lambda>b. (bat_created_at b, bat_id b)"
  have ne: "bs \<noteq> []" and b: "b = last (sort_key ?key bs)"
    using assms(1) by (auto simp: latest_batch_eq split: if_splits)
  have "?key c \<in> set (map ?key (sort_key ?key bs))" using assms(2) by simp
  then have "?key c \<le> last (map ?key (sort_key ?key bs))" by (intro sorted_le_last) simp
  also have "\<dots> = ?key b"
    unfolding b by (rule last_map) (metis ne length_0_conv length_sort)
  finally show ?thesis .
qed

text \<open>Counting findings: each expected serial is verified, missing or pending, the rest is extra.\<close>

lemma summary_append:
  "sum_verified (summary_of (fs @ gs)) = sum_verified (summary_of fs) + sum_verified (summary_of gs)"
  "sum_missing (summary_of (fs @ gs)) = sum_missing (summary_of fs) + sum_missing (summary_of gs)"
  "sum_extra (summary_of (fs @ gs)) = sum_extra (summary_of fs) + sum_extra (summary_of gs)"
  "sum_pending (summary_of (fs @ gs)) = sum_pending (summary_of fs) + sum_pending (summary_of gs)"
  "sum_total (summary_of (fs @ gs)) = sum_total (summary_of fs) + sum_total (summary_of gs)"
  by (simp_all add: summary_of_def count_rows_def)

lemma summary_map:
  "sum_verified (summary_of (map h ss)) = length (filter (\<lambda>s. fnd_type (h s) = ''VERIFIED'') ss)"
  "sum_missing (summary_of (map h ss)) = length (filter (\<lambda>s. fnd_type (h s) = ''MISSING'') ss)"
  "sum_extra (summary_of (map h ss)) = length (filter (\<lambda>s. fnd_type (h s) = ''EXTRA'') ss)"
  "sum_pending (summary_of (map h ss)) = length (filter (\<lambda>s. fnd_type (h s) = ''PENDING'') ss)"
  "sum_total (summary_of (map h ss)) = length ss"
  by (simp_all add: summary_of_def Let_def count_rows_def filter_map comp_def)

lemma summary_expected:
  assumes "\<And>s. fnd_type (h s) = (if hit s then ''VERIFIED'' else t)" "t = ''MISSING'' \<or> t = ''PENDING''"
  shows "sum_verified (summary_of (map h ss)) = length (filter hit ss)"
    "sum_missing (summary_of (map h ss)) = (if t = ''MISSING'' then length (filter (\<lambda>s. \<not> hit s) ss) else 0)"
    "sum_pending (summary_of (map h ss)) = (if t = ''PENDING'' then length (filter (\<lambda>s. \<not> hit s) ss) else 0)"
    "sum_extra (summary_of (map h ss)) = 0"
proof -
  have "(\<lambda>s. fnd_type (h s) = ''VERIFIED'') = hit" "(\<lambda>s. fnd_type (h s) = ''EXTRA'') = (\<lambda>s. False)"
    "(\<lambda>s. fnd_type (h s) = ''MISSING'') = (\<lambda>s. t = ''MISSING'' \<and> \<not> hit s)"
    "(\<lambda>s. fnd_type (h s) = ''PENDING'') = (\<lambda>s. t = ''PENDING'' \<and> \<not> hit s)"
    unfolding assms(1) using assms(2) by (auto simp: fun_eq_iff)
  then show "sum_verified (summary_of (map h ss)) = length (filter hit ss)"
    "sum_missing (summary_of (map h ss)) = (if t = ''MISSING'' then length (filter (\<lambda>s. \<not> hit s) ss) else 0)"
    "sum_pending (summary_of (map h ss)) = (if t = ''PENDING'' then length (filter (\<lambda>s. \<not> hit s) ss) else 0)"
    "sum_extra (summary_of (map h ss)) = 0"
    by (simp_all add: summary_map)
qed

lemma summary_extra:
  "sum_verified (summary_of (map (\<lambda>s. make_finding d b s ''EXTRA'' e (g s) now) ss)) = 0"
  "sum_missing (summary_of (map (\<lambda>s. make_finding d b s ''EXTRA'' e (g s) now) ss)) = 0"
  "sum_pending (summary_of (map (\<lambda>s. make_finding d b s ''EXTRA'' e (g s) now) ss)) = 0"
  "sum_extra (summary_of (map (\<lambda>s. make_finding d b s ''EXTRA'' e (g s) now) ss)) = length ss"
  by (simp_all add: summary_map)

lemma assignment_summary:
  "sum_verified (summary_of (assignment_findings d a k now)) + sum_missing (summary_of (assignment_findings d a k now)) +
     sum_pending (summary_of (assignment_findings d a k now)) =
     length (List.map_filter (get_serial d) (remdups (map asi_serial_id (expected_items d (asg_id a))))) \<and>
   sum_total (summary_of (assignment_findings d a k now)) =
     sum_verified (summary_of (assignment_findings d a k now)) + sum_missing (summary_of (assignment_findings d a k now)) +
     sum_pending (summary_of (assignment_findings d a k now)) + sum_extra (summary_of (assignment_findings d a k now)) \<and>
   (asg_ends_at a < now \<longrightarrow> sum_pending (summary_of (assignment_findings d a k now)) = 0) \<and>
   (\<not> asg_ends_at a < now \<longrightarrow> sum_missing (summary_of (assignment_findings d a k now)) = 0)"
proof -
  let ?ex = "List.map_filter (get_serial d) (remdups (map asi_serial_id (expected_items d (asg_id a))))"
  let ?sc = "scanned_serials d (assignment_scans d a)"
  let ?hit = "\<lambda>s. ser_id s \<in> ser_id ` set ?sc"
  let ?t = "if asg_ends_at a < now then ''MISSING'' else ''PENDING''"
  let ?h = "\<lambda>s. if ?hit s then make_finding d k s ''VERIFIED'' (Some S_IN_STOCK) (Some (ser_status s)) now
      else make_finding d k s ?t (Some S_IN_STOCK) None now"
  let ?g = "map (\<lambda>s. make_finding d k s ''EXTRA'' (Some S_IN_STOCK) (Some (ser_status s)) now)
      (filter (\<lambda>s. ser_id s \<notin> ser_id ` set ?ex) ?sc)"
  have f: "assignment_findings d a k now = map ?h ?ex @ ?g"
    by (simp only: assignment_findings_def Let_def)
  have t: "fnd_type (?h s) = (if ?hit s then ''VERIFIED'' else ?t)" for s by simp
  have "?t = ''MISSING'' \<or> ?t = ''PENDING''" by simp
  note e = summary_expected [of ?h ?hit ?t, OF t this]
  show ?thesis
    unfolding f summary_append summary_extra e summary_map(5) by (simp add: sum_length_filter_compl)
qed

lemma assignment_findings_batch:
  "f \<in> set (assignment_findings d a k now) \<Longrightarrow> fnd_batch_id f = k \<and>
     (asg_ends_at a < now \<longrightarrow> fnd_type f \<noteq> ''PENDING'')"
  by (auto simp: assignment_findings_def Let_def split: if_splits)

lemma filter_numbered:
  assumes "\<forall>f \<in> set fs. p f" "\<And>f n. p (f\<lparr>fnd_id := n\<rparr>) = p f"
  shows "filter p (map (\<lambda>(k, f). f\<lparr>fnd_id := n + k\<rparr>) (enumerate j fs)) = map (\<lambda>(k, f). f\<lparr>fnd_id := n + k\<rparr>) (enumerate j fs)"
proof -
  have "p g" if "g \<in> set (map (\<lambda>(k, f). f\<lparr>fnd_id := n + k\<rparr>) (enumerate j fs))" for g
  proof -
    obtain k f where f: "(k, f) \<in> set (enumerate j fs)" "g = f\<lparr>fnd_id := n + k\<rparr>"
      using \<open>g \<in> _\<close> by auto
    have "f \<in> set (map snd (enumerate j fs))" using f(1) by (metis image_eqI list.set_map snd_conv)
    with assms f(2) show "p g" by simp
  qed
  then show ?thesis by (simp only: filter_id_conv) blast
qed

lemma map_renumbered:
  assumes "\<And>f n. g (f\<lparr>fnd_id := n\<rparr>) = g f"
  shows "map g (map (\<lambda>(k, f). f\<lparr>fnd_id := n + k\<rparr>) (enumerate j fs)) = map g fs"
  by (induction fs arbitrary: j) (simp_all add: assms)

text \<open>Which serials an assignment has findings about, and of which type.\<close>

lemma found_ids: "map ser_id (List.map_filter (get_serial d) is) = filter (\<lambda>i. get_serial d i \<noteq> None) is"
proof (induction "is")
  case (Cons i "is")
  then show ?case using get_serial_in [of d i] by (cases "get_serial d i") (simp_all add: List.map_filter_simps)
qed (simp add: List.map_filter_simps)

lemma found_set: "ser_id ` set (List.map_filter (get_serial d) is) = {i \<in> set is. get_serial d i \<noteq> None}"
  using arg_cong [OF found_ids [of d "is"], of set] by simp

definition finding_verdict :: "bool \<Rightarrow> bool \<Rightarrow> bool \<Rightarrow> string \<Rightarrow> bool" where
  "finding_verdict expected scanned expired t \<longleftrightarrow>
    (if expected then t = (if scanned then ''VERIFIED'' else if expired then ''MISSING'' else ''PENDING'')
     else scanned \<and> t = ''EXTRA'')"

lemma in_two_lists:
  assumes "\<And>s. key (h1 s) = Some (id_of s)" "\<And>s. what (h1 s) = u1" "\<And>s. key (h2 s) = Some (id_of s)" "\<And>s. what (h2 s) = u2"
    and "\<And>s. key (g s) = Some (id_of s)" "\<And>s. what (g s) = u"
  shows "(\<exists>f \<in> set (map (\<lambda>s. if id_of s \<in> hits then h1 s else h2 s) xs @ map g (filter (\<lambda>s. id_of s \<notin> id_of ` set xs) ys)).
      key f = Some i \<and> what f = t) \<longleftrightarrow>
    (i \<in> id_of ` set xs \<and> t = (if i \<in> hits then u1 else u2)) \<or> (i \<in> id_of ` set ys \<and> i \<notin> id_of ` set xs \<and> t = u)"
proof -
  let ?h = "\<lambda>s. if id_of s \<in> hits then h1 s else h2 s"
  have h: "key (?h s) = Some (id_of s)" "what (?h s) = (if id_of s \<in> hits then u1 else u2)" for s
    using assms(1-4) by simp_all
  show ?thesis unfolding set_append set_map set_filter bex_Un bex_simps(7) h assms(5,6) option.inject by auto
qed

lemma finding_classes:
  "(\<exists>f \<in> set (assignment_findings d a k now). fnd_serial_id f = Some i \<and> fnd_type f = t) \<longleftrightarrow>
    get_serial d i \<noteq> None \<and>
    finding_verdict (i \<in> asi_serial_id ` set (expected_items d (asg_id a))) (i \<in> itm_serial_id ` set (assignment_scans d a)) (asg_ends_at a < now) t"
proof -
  let ?ex = "List.map_filter (get_serial d) (remdups (map asi_serial_id (expected_items d (asg_id a))))"
  let ?sc = "scanned_serials d (assignment_scans d a)"
  let ?hit = "\<lambda>i. i \<in> ser_id ` set ?sc"
  let ?t = "\<lambda>i. if ?hit i then ''VERIFIED'' else if asg_ends_at a < now then ''MISSING'' else ''PENDING''"
  let ?h = "\<lambda>s. if ?hit (ser_id s) then make_finding d k s ''VERIFIED'' (Some S_IN_STOCK) (Some (ser_status s)) now
      else make_finding d k s (if asg_ends_at a < now then ''MISSING'' else ''PENDING'') (Some S_IN_STOCK) None now"
  let ?g = "\<lambda>s. make_finding d k s ''EXTRA'' (Some S_IN_STOCK) (Some (ser_status s)) now"
  have f: "assignment_findings d a k now = map ?h ?ex @ map ?g (filter (\<lambda>s. ser_id s \<notin> ser_id ` set ?ex) ?sc)"
    by (simp only: assignment_findings_def Let_def)
  have all: "(\<exists>f \<in> set (assignment_findings d a k now). fnd_serial_id f = Some i \<and> fnd_type f = t) \<longleftrightarrow>
      (i \<in> ser_id ` set ?ex \<and> t = ?t i) \<or> (i \<in> ser_id ` set ?sc \<and> i \<notin> ser_id ` set ?ex \<and> t = ''EXTRA'')"
    unfolding f by (rule in_two_lists) (rule make_finding_fields)+
  have e: "i \<in> ser_id ` set ?ex \<longleftrightarrow> get_serial d i \<noteq> None \<and> i \<in> asi_serial_id ` set (expected_items d (asg_id a))"
    unfolding found_set by auto
  have s: "?hit i \<longleftrightarrow> get_serial d i \<noteq> None \<and> i \<in> itm_serial_id ` set (assignment_scans d a)"
    unfolding scanned_serials_def found_set by auto
  have cases: "((p \<and> q) \<and> t = (if p \<and> r then v else u)) \<or> ((p \<and> r) \<and> \<not> (p \<and> q) \<and> t = x) \<longleftrightarrow>
      p \<and> (if q then t = (if r then v else u) else r \<and> t = x)" for p q r v u x
    by (cases p; cases q; cases r) simp_all
  show ?thesis unfolding all e s finding_verdict_def by (rule cases)
qed

lemma finding_serials_distinct: "distinct (map fnd_serial_id (assignment_findings d a k now))"
proof -
  let ?ex = "List.map_filter (get_serial d) (remdups (map asi_serial_id (expected_items d (asg_id a))))"
  let ?sc = "scanned_serials d (assignment_scans d a)"
  have "map fnd_serial_id (assignment_findings d a k now) =
      map (\<lambda>s. Some (ser_id s)) (?ex @ filter (\<lambda>s. ser_id s \<notin> ser_id ` set ?ex) ?sc)"
    by (simp add: assignment_findings_def Let_def)
  also have "\<dots> = map Some (map ser_id ?ex @ filter (\<lambda>i. i \<notin> ser_id ` set ?ex) (map ser_id ?sc))"
    by (simp add: filter_map comp_def)
  finally have m: "map fnd_serial_id (assignment_findings d a k now) =
      map Some (map ser_id ?ex @ filter (\<lambda>i. i \<notin> ser_id ` set ?ex) (map ser_id ?sc))" .
  have "distinct (map ser_id ?ex)" "distinct (map ser_id ?sc)"
    unfolding scanned_serials_def found_ids by simp_all
  then have "distinct (map ser_id ?ex @ filter (\<lambda>i. i \<notin> ser_id ` set ?ex) (map ser_id ?sc))" by auto
  then show ?thesis unfolding m by (simp only: distinct_map) simp
qed

text \<open>The stored findings of a reconciled assignment are the computed ones, with new keys.\<close>

lemma reconciled_findings:
  assumes "reconcile_audit_assignment a k now d = (d', sm)" "k \<in> bat_id ` set (assignment_batches d (asg_id a))"
  defines "p \<equiv> of_assignment d (asg_id a)"
  defines "fs \<equiv> assignment_findings (delete_findings p d) a k now"
  shows "of_assignment d' (asg_id a) = p" "sm = summary_of fs"
    "map fnd_serial_id (filter p (findings d')) = map fnd_serial_id fs"
    "map fnd_type (filter p (findings d')) = map fnd_type fs"
    "(\<exists>f \<in> set (findings d'). p f \<and> fnd_serial_id f = Some i \<and> fnd_type f = t) \<longleftrightarrow>
       (\<exists>f \<in> set fs. fnd_serial_id f = Some i \<and> fnd_type f = t)"
    "filter (\<lambda>f. \<not> p f) (findings d') = filter (\<lambda>f. \<not> p f) (findings d)"
proof -
  let ?e = "delete_findings p d"
  have r: "d' = add_findings fs ?e" "sm = summary_of fs"
    using assms(1) by (simp_all add: reconcile_audit_assignment_def Let_def fs_def p_def)
  show "of_assignment d' (asg_id a) = p" unfolding r p_def by (rule of_assignment_cong) simp
  let ?new = "map (\<lambda>(k, f). f\<lparr>fnd_id := next_id fnd_id (findings ?e) + k\<rparr>) (enumerate 0 fs)"
  have all: "findings d' = findings ?e @ ?new" by (simp add: r(1) add_findings_def)
  have mine: "filter p ?new = ?new"
    by (rule filter_numbered) (use assms(2) assignment_findings_batch in \<open>auto simp: of_assignment_def p_def fs_def\<close>)
  then have rest: "filter (\<lambda>f. \<not> p f) ?new = []" by (metis (no_types, lifting) filter_False filter_id_conv)
  have stored: "filter p (findings d') = ?new" using mine by (simp add: all delete_findings_def)
  show "sm = summary_of fs" by (rule r(2))
  show "map fnd_serial_id (filter p (findings d')) = map fnd_serial_id fs" "map fnd_type (filter p (findings d')) = map fnd_type fs"
    unfolding stored by (rule map_renumbered, simp)+
  have pairs: "map (\<lambda>f. (fnd_serial_id f, fnd_type f)) ?new = map (\<lambda>f. (fnd_serial_id f, fnd_type f)) fs"
    by (rule map_renumbered) simp
  have img: "(Some i, t) \<in> set (map (\<lambda>f. (fnd_serial_id f, fnd_type f)) xs) \<longleftrightarrow>
      (\<exists>f \<in> set xs. fnd_serial_id f = Some i \<and> fnd_type f = t)" for xs by (induction xs) auto
  have "(\<exists>f \<in> set (filter p (findings d')). fnd_serial_id f = Some i \<and> fnd_type f = t) \<longleftrightarrow>
      (\<exists>f \<in> set fs. fnd_serial_id f = Some i \<and> fnd_type f = t)"
    unfolding img [symmetric] stored pairs ..
  then show "(\<exists>f \<in> set (findings d'). p f \<and> fnd_serial_id f = Some i \<and> fnd_type f = t) \<longleftrightarrow>
       (\<exists>f \<in> set fs. fnd_serial_id f = Some i \<and> fnd_type f = t)"
    by (simp only: set_filter Bex_def mem_Collect_eq conj_assoc)
  show "filter (\<lambda>f. \<not> p f) (findings d') = filter (\<lambda>f. \<not> p f) (findings d)"
    by (simp only: all filter_append rest) (simp add: delete_findings_def)
qed

lemma count_by_type:
  assumes "map fnd_type (filter p xs) = map fnd_type fs"
  shows "length (filter (\<lambda>f. p f \<and> fnd_type f = t) xs) = count_rows (\<lambda>f. fnd_type f = t) fs"
proof -
  have "filter (\<lambda>f. p f \<and> fnd_type f = t) xs = filter (\<lambda>f. fnd_type f = t) (filter p xs)"
    unfolding filter_filter by (rule filter_cong) auto
  moreover have "length (filter (\<lambda>x. x = t) (map fnd_type (filter p xs))) = length (filter (\<lambda>x. x = t) (map fnd_type fs))"
    by (simp only: assms)
  then have "length (filter (\<lambda>f. fnd_type f = t) (filter p xs)) = length (filter (\<lambda>f. fnd_type f = t) fs)"
    by (simp only: length_filter_map comp_def)
  ultimately show ?thesis by (simp only: count_rows_def)
qed

section \<open>Refreshing expired assignments\<close>

definition pending_findings :: "db \<Rightarrow> nat \<Rightarrow> bool" where
  "pending_findings d a \<longleftrightarrow> (\<exists>f \<in> set (findings d). of_assignment d a f \<and> fnd_type f = ''PENDING'')"

lemma reconcile_frame [simp]:
  "batches (fst (reconcile_audit_assignment a k now d)) = batches d"
  "assignments (fst (reconcile_audit_assignment a k now d)) = assignments d"
  "serials (fst (reconcile_audit_assignment a k now d)) = serials d"
  "batch_items (fst (reconcile_audit_assignment a k now d)) = batch_items d"
  by (simp_all add: reconcile_audit_assignment_def Let_def)

lemma reconcile_findings:
  assumes "g \<in> set (findings (fst (reconcile_audit_assignment a k now d)))"
  shows "(g \<in> set (findings d) \<and> \<not> of_assignment d (asg_id a) g) \<or>
    (fnd_batch_id g = k \<and> (asg_ends_at a < now \<longrightarrow> fnd_type g \<noteq> ''PENDING''))"
proof -
  let ?e = "delete_findings (of_assignment d (asg_id a)) d"
  have "g \<in> set (findings (add_findings (assignment_findings ?e a k now) ?e))"
    using assms by (simp add: reconcile_audit_assignment_def Let_def)
  from add_findings_in [OF this] show ?thesis
  proof
    assume "g \<in> set (findings ?e)"
    then show ?thesis by simp
  next
    assume "\<exists>f \<in> set (assignment_findings ?e a k now). fnd_type g = fnd_type f \<and> fnd_batch_id g = fnd_batch_id f \<and>
      fnd_serial_id g = fnd_serial_id f"
    then obtain f where "f \<in> set (assignment_findings ?e a k now)" "fnd_type g = fnd_type f" "fnd_batch_id g = fnd_batch_id f"
      by blast
    with assignment_findings_batch [of f ?e a k now] show ?thesis by simp
  qed
qed

lemma refresh_one_effect:
  assumes "refresh_one now a d = Inr d'" "asg_ends_at a < now"
  shows "batches d' = batches d \<and> (\<forall>c. pending_findings d' c \<longrightarrow> pending_findings d c) \<and>
    \<not> pending_findings d' (asg_id a)"
proof -
  obtain latest where "latest_batch (assignment_batches d (asg_id a)) = Some latest"
    using assms(1) by (auto simp: refresh_one_def split: option.splits)
  then have l: "d' = (if needs_refresh d a then fst (reconcile_audit_assignment a (bat_id latest) now d) else d)"
    using assms(1) by (simp add: refresh_one_def)
  show ?thesis
  proof (cases "needs_refresh d a")
    case False
    then show ?thesis using l by (auto simp: needs_refresh_def pending_findings_def list_ex_iff)
  next
    case True
    have d': "d' = fst (reconcile_audit_assignment a (bat_id latest) now d)" using l True by simp
    have same: "of_assignment d' c = of_assignment d c" for c
      unfolding d' by (rule of_assignment_cong) simp
    have step: "fnd_type g \<noteq> ''PENDING'' \<or> g \<in> set (findings d) \<and> \<not> of_assignment d (asg_id a) g" if "g \<in> set (findings d')" for g
      using reconcile_findings [of g a "bat_id latest" now d] that assms(2) unfolding d' by blast
    have "batches d' = batches d" unfolding d' by simp
    then show ?thesis
      unfolding pending_findings_def same using step by blast
  qed
qed

lemma refresh_all_effect:
  assumes "fold_res (refresh_one now) as d = Inr d'" "\<forall>a \<in> set as. asg_ends_at a < now"
  shows "batches d' = batches d \<and> (\<forall>c. pending_findings d' c \<longrightarrow> pending_findings d c) \<and>
    (\<forall>a \<in> set as. \<not> pending_findings d' (asg_id a))"
  using assms
proof (induction "as" arbitrary: d)
  case Nil
  then show ?case by simp
next
  case (Cons a as)
  then obtain e where e: "refresh_one now a d = Inr e" "fold_res (refresh_one now) as e = Inr d'"
    by (auto split: sum.splits)
  from refresh_one_effect [OF e(1)] Cons.IH [OF e(2)] Cons.prems(2) show ?case by auto
qed

section \<open>Properties\<close>

text \<open>
  C6. Reconciling an assignment stores exactly one finding about each serial it is about, and none
  about others: an expected serial that was scanned in the window is verified, an expected one that
  was not is missing after the deadline and pending before it, and a scanned one that was not
  expected is extra.  The findings of other batches stay as they are, and the summary counts the
  assignment's stored findings by class: each expected serial falls in exactly one of verified,
  missing (only after the deadline) and pending (only before it).
\<close>

theorem audit_reconciliation:
  assumes "reconcile_audit_assignment a k now d = (d', sm)" "k \<in> bat_id ` set (assignment_batches d (asg_id a))"
  shows "(\<forall>i t. (\<exists>f \<in> set (findings d'). of_assignment d' (asg_id a) f \<and> fnd_serial_id f = Some i \<and> fnd_type f = t) \<longleftrightarrow>
      get_serial d i \<noteq> None \<and>
      (if i \<in> asi_serial_id ` set (expected_items d (asg_id a))
       then t = (if i \<in> itm_serial_id ` set (assignment_scans d a) then ''VERIFIED''
                 else if asg_ends_at a < now then ''MISSING'' else ''PENDING'')
       else i \<in> itm_serial_id ` set (assignment_scans d a) \<and> t = ''EXTRA'')) \<and>
    distinct (map fnd_serial_id (filter (of_assignment d' (asg_id a)) (findings d'))) \<and>
    filter (\<lambda>f. \<not> of_assignment d' (asg_id a) f) (findings d') = filter (\<lambda>f. \<not> of_assignment d (asg_id a) f) (findings d) \<and>
    (let count = \<lambda>t. length (filter (\<lambda>f. of_assignment d' (asg_id a) f \<and> fnd_type f = t) (findings d'))
     in sum_verified sm = count ''VERIFIED'' \<and> sum_missing sm = count ''MISSING'' \<and> sum_extra sm = count ''EXTRA'' \<and>
        sum_pending sm = count ''PENDING'') \<and>
    sum_verified sm + sum_missing sm + sum_pending sm =
      length (List.map_filter (get_serial d) (remdups (map asi_serial_id (expected_items d (asg_id a))))) \<and>
    sum_total sm = sum_verified sm + sum_missing sm + sum_pending sm + sum_extra sm \<and>
    (if asg_ends_at a < now then sum_pending sm = 0 else sum_missing sm = 0) \<and>
    length (filter (of_assignment d' (asg_id a)) (findings d')) = sum_total sm"
proof -
  let ?p = "of_assignment d (asg_id a)" and ?e = "delete_findings (of_assignment d (asg_id a)) d"
  let ?fs = "assignment_findings ?e a k now"
  note r = reconciled_findings [OF assms]
  have ex: "expected_items ?e (asg_id a) = expected_items d (asg_id a)" "get_serial ?e = get_serial d"
      "assignment_scans ?e a = assignment_scans d a"
    by (simp_all add: expected_items_def get_serial_def assignment_scans_def get_batch_def fun_eq_iff)
  have sum: "sum_verified sm = count_rows (\<lambda>f. fnd_type f = ''VERIFIED'') ?fs" "sum_missing sm = count_rows (\<lambda>f. fnd_type f = ''MISSING'') ?fs"
    "sum_extra sm = count_rows (\<lambda>f. fnd_type f = ''EXTRA'') ?fs" "sum_pending sm = count_rows (\<lambda>f. fnd_type f = ''PENDING'') ?fs"
    "sum_total sm = length ?fs" by (simp_all add: r(2) summary_of_def Let_def)
  have once: "distinct (map fnd_serial_id (filter ?p (findings d')))" unfolding r(3) by (rule finding_serials_distinct)
  have total: "length (filter ?p (findings d')) = sum_total sm" using arg_cong [OF r(3), of length] sum(5) by simp
  have c: "(\<exists>f \<in> set (findings d'). ?p f \<and> fnd_serial_id f = Some i \<and> fnd_type f = t) \<longleftrightarrow> get_serial d i \<noteq> None \<and>
      (if i \<in> asi_serial_id ` set (expected_items d (asg_id a))
       then t = (if i \<in> itm_serial_id ` set (assignment_scans d a) then ''VERIFIED''
                 else if asg_ends_at a < now then ''MISSING'' else ''PENDING'')
       else i \<in> itm_serial_id ` set (assignment_scans d a) \<and> t = ''EXTRA'')" for i t
    unfolding r(5) finding_classes [of ?e a k now] ex finding_verdict_def ..
  note sums = assignment_summary [of ?e a k now, unfolded ex, folded r(2)]
  show ?thesis
    unfolding r(1) Let_def count_by_type [OF r(4)] sum(1-4) [symmetric]
    by (intro conjI allI c once r(6) total refl; use sums in simp)
qed

text \<open>After a refresh no assignment whose deadline has passed has a finding that is still pending.\<close>

theorem refresh_settles_expired:
  assumes "refresh_expired_audit_assignments now d = Inr d'"
  shows "\<forall>a \<in> set (assignments d). asg_ends_at a < now \<longrightarrow> \<not> pending_findings d' (asg_id a)"
proof -
  have f: "fold_res (refresh_one now) (filter (\<lambda>a. asg_ends_at a < now) (assignments d)) d = Inr d'"
    using assms by (simp only: refresh_expired_audit_assignments_def)
  have "\<forall>a \<in> set (filter (\<lambda>a. asg_ends_at a < now) (assignments d)). asg_ends_at a < now" by simp
  from refresh_all_effect [OF f this] show ?thesis by simp
qed

end
