(* ===== verification/Examples.thy ===== *)
theory Examples
  imports Labels Voucher SaleReturns Outbox Audits
begin

text \<open>
  A small shop on which the properties are run: one product, five serials, a location, two
  users and three batches.  Each \<open>..._witness\<close> applies a property of the components
  where its hypotheses hold.
\<close>

definition empty_db :: db where
  "empty_db = \<lparr>users = [], products = [], locations = [], serials = [], relocations = [], relocation_serials = [],
     assignments = [], assignment_items = [], batches = [], batch_items = [], scan_logs = [], transactions = [],
     sync_attempts = [], data_jobs = [], outbox = [], outbox_sequence = 0, inbox = [], receipts = [],
     exchanges = [], transfers = [], transfer_items = [], tally_access = [], findings = [], settings_rows = [],
     changes = [], companies = [], ledger_caches = [], voucher_caches = [], login_audits = [], confirmations = []\<rparr>"

definition ex_settings :: settings where
  "ex_settings = \<lparr>cfg_app_mode = ''lite'', cfg_franchise_code = ''FR-7'', cfg_master_sync_enabled = True,
     cfg_master_url = ''https://master.example'', cfg_master_api_key = ''key'', cfg_request_timeout = 15\<rparr>"

definition ex_product :: product where
  "ex_product = \<lparr>prd_id = 1, prd_code = ''SOAP'', prd_name = ''Soap'', prd_nickname = None, prd_category = None,
     prd_brand = None, prd_hsn = ''3401'', prd_gst_rate = 18, prd_unit = ''Nos'', prd_default_rate = 100,
     prd_sales_discount_rate = 0, prd_shelf_interval = 2, prd_purchase_qr_print_allowed = True,
     prd_tally_name = ''Soap'', prd_alt_tally_name = None, prd_active = True, prd_created_at = 0\<rparr>"

definition ex_serial :: "nat \<Rightarrow> string \<Rightarrow> serial_status \<Rightarrow> day option \<Rightarrow> serial" where
  "ex_serial i n st e = \<lparr>ser_id = i, ser_number = n, ser_product_id = 1, ser_status = st, ser_active = True,
     ser_created_at = 0, ser_replaced_by_id = None, ser_label_printed_at = None, ser_label_printed_by_id = None,
     ser_batch_number = None, ser_mfg_date = None, ser_expiry_date = e, ser_warehouse = None,
     ser_level = COMPANY_WAREHOUSE, ser_location_id = None\<rparr>"

definition ex_location :: location where
  "ex_location = \<lparr>loc_id = 1, loc_code = ''SHELF-1'', loc_warehouse = ''W1'', loc_level = COMPANY_WAREHOUSE,
     loc_zone = ''Z'', loc_section = ''S'', loc_rack = ''R'', loc_shelf = ''1'', loc_bin = ''B'', loc_active = True,
     loc_created_at = 0\<rparr>"

definition ex_user :: "nat \<Rightarrow> string \<Rightarrow> string \<Rightarrow> user" where
  "ex_user i n r = \<lparr>usr_id = i, usr_username = n, usr_password_hash = [], usr_role = r, usr_active = True,
     usr_must_change_password = False, usr_session_version = 0, usr_created_at = 0, usr_last_login_at = None,
     usr_deleted_at = None\<rparr>"

definition ex_batch :: "nat \<Rightarrow> string \<Rightarrow> batch_type \<Rightarrow> batch" where
  "ex_batch i n t = new_batch i n t empty_form 1 0"

definition ex_item :: "nat \<Rightarrow> nat \<Rightarrow> nat \<Rightarrow> batch_item" where
  "ex_item i b s = \<lparr>itm_id = i, itm_batch_id = b, itm_serial_id = s, itm_quantity = 1, itm_rate = None,
     itm_discount_rate = None, itm_remarks = None, itm_fefo_picked = False, itm_shelf_location_id = None,
     itm_shelf_verified_by_id = None, itm_shelf_verified_at = None, itm_created_at = 5\<rparr>"

definition ex_db :: db where
  "ex_db = empty_db\<lparr>users := [ex_user 1 ''asha'' ''admin'', ex_user 2 ''ravi'' ''auditor''],
     products := [ex_product], locations := [ex_location],
     serials := [ex_serial 1 ''SOAP-000001'' S_IN_STOCK (Some 20000), ex_serial 2 ''SOAP-000002'' S_IN_STOCK (Some 20100),
       ex_serial 3 ''SOAP-000003'' S_GENERATED None, ex_serial 4 ''SOAP-000004'' S_SOLD None,
       ex_serial 5 ''SOAP-000005'' S_IN_STOCK None],
     batches := [ex_batch 1 ''SAL-19700101-0001'' B_SALE, ex_batch 2 ''ISS-19700101-0001'' B_ISSUE,
       (ex_batch 3 ''AUD-19700101-0001'' B_AUDIT)\<lparr>bat_assignment_id := Some 1\<rparr>],
     batch_items := [ex_item 1 1 1, ex_item 2 2 2, ex_item 3 3 1],
     assignments := [\<lparr>asg_id = 1, asg_product_id = 1, asg_auditor_id = 2, asg_assigned_by_id = 1, asg_starts_at = 1,
       asg_ends_at = 50, asg_notes = None, asg_created_at = 0\<rparr>],
     assignment_items := [\<lparr>asi_id = 1, asi_assignment_id = 1, asi_serial_id = 1, asi_created_at = 0\<rparr>,
       \<lparr>asi_id = 2, asi_assignment_id = 1, asi_serial_id = 2, asi_created_at = 0\<rparr>]\<rparr>"

abbreviation ex_sale :: batch where "ex_sale \<equiv> ex_batch 1 ''SAL-19700101-0001'' B_SALE"
abbreviation ex_issue :: batch where "ex_issue \<equiv> ex_batch 2 ''ISS-19700101-0001'' B_ISSUE"

lemma Inr_exists: "\<not> isl r \<Longrightarrow> \<exists>x. r = Inr x"
  by (cases r) simp_all

lemma fst_Inr_exists: "\<not> isl (fst r) \<Longrightarrow> \<exists>x d. r = (Inr x, d)"
  by (cases r; cases "fst r") simp_all

theorem submit_moves_stock_witness:
  "\<exists>d'. apply_batch_statuses ex_db ex_sale 1 9 ex_db = Inr d' \<and> stock_status d' 1 = Some S_SOLD \<and>
     stock_status d' 2 = Some S_IN_STOCK"
proof -
  have "\<not> isl (apply_batch_statuses ex_db ex_sale 1 9 ex_db)" by code_simp
  then obtain d' where d': "apply_batch_statuses ex_db ex_sale 1 9 ex_db = Inr d'" using Inr_exists by blast
  have k: "serials_ok ex_db" "items_ok ex_db" "bat_type ex_sale \<noteq> B_AUDIT" by code_simp+
  have i: "items_of ex_db (bat_id ex_sale) = [ex_item 1 1 1]" "item_source ex_db (ex_item 1 1 1) = S_IN_STOCK"
    "bat_type ex_sale = B_SALE" "stock_status ex_db 2 = Some S_IN_STOCK" by code_simp+
  show ?thesis
    using submit_moves_stock [OF d' k] d' i by (intro exI [of _ d']) (simp add: ex_item_def)
qed

theorem submit_succeeds_iff_witness:
  "\<exists>d'. apply_batch_statuses ex_db ex_sale 1 9 ex_db = Inr d'"
proof -
  have k: "serials_ok ex_db" "items_ok ex_db" "bat_type ex_sale \<noteq> B_AUDIT" by code_simp+
  have "items_of ex_db (bat_id ex_sale) \<noteq> [] \<and> pending_shelf_items ex_db ex_sale = [] \<and>
      list_all (\<lambda>i. admit_item ex_db (bat_type ex_sale) i = None \<and> item_product ex_db i \<noteq> None \<and>
       stock_status ex_db (itm_serial_id i) = Some (item_source ex_db i)) (items_of ex_db (bat_id ex_sale))"
    by code_simp
  then show ?thesis
    using submit_succeeds_iff [OF k, of 1 9] by (simp add: list_all_iff)
qed

theorem no_double_submission_witness:
  "\<exists>d1 d2. apply_batch_statuses ex_db ex_sale 1 9 ex_db = Inr d1 \<and> apply_batch_statuses ex_db ex_issue 1 9 d1 = Inr d2 \<and>
     itm_serial_id ` set (items_of ex_db (bat_id ex_sale)) \<inter> itm_serial_id ` set (items_of ex_db (bat_id ex_issue)) = {}"
proof -
  have two: "case apply_batch_statuses ex_db ex_sale 1 9 ex_db of Inl e \<Rightarrow> False
      | Inr d \<Rightarrow> serials_ok d \<and> \<not> isl (apply_batch_statuses ex_db ex_issue 1 9 d)"
    and k: "serials_ok ex_db" "items_ok ex_db" "bat_type ex_sale = B_SALE" "bat_type ex_issue = B_ISSUE"
    by (atomize (full)) code_simp
  obtain d1 where d1: "apply_batch_statuses ex_db ex_sale 1 9 ex_db = Inr d1" "serials_ok d1"
      "\<not> isl (apply_batch_statuses ex_db ex_issue 1 9 d1)"
    using two by (auto split: sum.splits)
  obtain d2 where d2: "apply_batch_statuses ex_db ex_issue 1 9 d1 = Inr d2" using Inr_exists [OF d1(3)] by blast
  have "itm_serial_id ` set (items_of ex_db (bat_id ex_sale)) \<inter> itm_serial_id ` set (items_of ex_db (bat_id ex_issue)) = {}"
    by (rule no_double_submission [OF d1(1) d2 k(1) d1(2) k(2)]) (simp_all only: k, simp_all)
  then show ?thesis using d1 d2 by blast
qed

definition ex_form :: label_form where
  "ex_form = \<lparr>lbl_prefix = None, lbl_initial_status = S_GENERATED, lbl_batch_number = None, lbl_mfg_date = None,
     lbl_expiry_date = None, lbl_warehouse = None, lbl_level = ''Company Warehouse''\<rparr>"

definition ex_master :: settings where
  "ex_master = ex_settings\<lparr>cfg_app_mode := ''legacy''\<rparr>"

theorem generate_serials_succeeds_witness:
  "\<exists>rows. generate_serials ex_master (\<lambda>k d. d) True ex_product 3 ex_form 0 ex_db =
     (Inr rows, ex_db\<lparr>serials := serials ex_db @ rows\<rparr>)"
proof -
  have "cfg_app_mode ex_master = ''legacy''" "(1::int) \<le> 3" "(3::int) \<le> 5000"
    "warehouse_level_of (lbl_level ex_form) = Some COMPANY_WAREHOUSE" "lbl_prefix ex_form = None"
    "normalize_serial (prd_code ex_product) \<noteq> []" "length (prd_code ex_product) \<le> 133"
    by code_simp+
  then show ?thesis by (rule generate_serials_succeeds)
qed

theorem generated_serials_fresh_witness:
  "\<exists>rows d'. generate_serials ex_master (\<lambda>k d. d) True ex_product 3 ex_form 0 ex_db = (Inr rows, d') \<and>
     length rows = 3 \<and> distinct (map ser_number rows)"
proof -
  have "\<not> isl (fst (generate_serials ex_master (\<lambda>k d. d) True ex_product 3 ex_form 0 ex_db))" by code_simp
  then obtain rows d' where r: "generate_serials ex_master (\<lambda>k d. d) True ex_product 3 ex_form 0 ex_db = (Inr rows, d')"
    using fst_Inr_exists by blast
  from generated_serials_fresh [OF r] r show ?thesis by auto
qed

definition ex_return_db :: db where
  "ex_return_db = add_scan_log (Some 1) ''SOAP-000001'' 1 ''SALE_RETURN'' (Some 1) ''PENDING_SHELF'' None None 3 ex_db"

theorem shelf_settles_returns_witness:
  "\<exists>d' n. verify_sale_return_on_shelf ex_sale ex_location 1 9 ex_return_db = Inr (d', n) \<and>
     validate_sale_returns_complete ex_return_db ex_sale \<noteq> None \<and> validate_sale_returns_complete d' ex_sale = None"
proof -
  have "\<not> isl (verify_sale_return_on_shelf ex_sale ex_location 1 9 ex_return_db)"
    "validate_sale_returns_complete ex_return_db ex_sale \<noteq> None" by code_simp+
  then obtain d' n where "verify_sale_return_on_shelf ex_sale ex_location 1 9 ex_return_db = Inr (d', n)"
    "validate_sale_returns_complete ex_return_db ex_sale \<noteq> None"
    using Inr_exists by (metis surj_pair)
  then show ?thesis using shelf_settles_returns by blast
qed

definition ex_assignment :: audit_assignment where
  "ex_assignment = hd (assignments ex_db)"

theorem audit_reconciliation_witness:
  "\<exists>d' sm. reconcile_audit_assignment ex_assignment 3 99 ex_db = (d', sm) \<and>
     sum_verified sm + sum_missing sm + sum_pending sm = 2 \<and> sum_pending sm = 0 \<and>
     distinct (map fnd_serial_id (filter (of_assignment d' (asg_id ex_assignment)) (findings d')))"
proof -
  obtain d' sm where r: "reconcile_audit_assignment ex_assignment 3 99 ex_db = (d', sm)" by fastforce
  have k: "3 \<in> bat_id ` set (assignment_batches ex_db (asg_id ex_assignment))" "asg_ends_at ex_assignment < 99"
    "length (List.map_filter (get_serial ex_db) (remdups (map asi_serial_id (expected_items ex_db (asg_id ex_assignment))))) = 2"
    by (atomize (full)) code_simp
  from audit_reconciliation [OF r k(1)]
  have "sum_verified sm + sum_missing sm + sum_pending sm = 2" "if asg_ends_at ex_assignment < 99 then sum_pending sm = 0 else sum_missing sm = 0"
    "distinct (map fnd_serial_id (filter (of_assignment d' (asg_id ex_assignment)) (findings d')))"
    unfolding k(3) by blast+
  with r k(2) show ?thesis by auto
qed

theorem refresh_settles_expired_witness:
  "\<exists>d'. refresh_expired_audit_assignments 99 ex_db = Inr d' \<and> \<not> pending_findings d' (asg_id ex_assignment)"
proof -
  have "\<not> isl (refresh_expired_audit_assignments 99 ex_db)" by code_simp
  then obtain d' where d': "refresh_expired_audit_assignments 99 ex_db = Inr d'" using Inr_exists by blast
  have "ex_assignment \<in> set (assignments ex_db)" "asg_ends_at ex_assignment < 99" by code_simp+
  with refresh_settles_expired [OF d'] d' show ?thesis by blast
qed

section \<open>Vouchers\<close>

lemma ex_lines:
  "vsm_lines (calculate_voucher_summary d b) = map (voucher_line_of b) (group_batch_items d b)"
  "vln_rate (voucher_line_of b g) = money_float (grp_rate g)"
  by (simp_all add: calculate_voucher_summary_def voucher_line_of_def Let_def)

theorem voucher_tax_regimes_witness:
  "\<exists>l. l \<in> set (vsm_lines (calculate_voucher_summary ex_db ex_sale)) \<and> vln_cgst_amount l = vln_sgst_amount l \<and>
     vln_igst_amount l = 0"
proof -
  have "group_batch_items ex_db ex_sale \<noteq> []" "\<not> is_interstate_sale ex_sale" by code_simp+
  then obtain l where l: "l \<in> set (vsm_lines (calculate_voucher_summary ex_db ex_sale))" "\<not> is_interstate_sale ex_sale"
    by (metis ex_lines(1) list.map_disc_iff list.set_intros(1) neq_Nil_conv)
  with voucher_tax_regimes [of ex_db ex_sale] show ?thesis by auto
qed

definition ex_unpriced_db :: db where
  "ex_unpriced_db = ex_db\<lparr>products := [ex_product\<lparr>prd_default_rate := 0\<rparr>]\<rparr>"

theorem priced_batch_rates_witness: "validate_priced_batch ex_unpriced_db ex_sale \<noteq> None"
proof -
  have "list_ex (\<lambda>g. grp_rate g = 0) (group_batch_items ex_unpriced_db ex_sale)" "bat_type ex_sale \<noteq> B_AUDIT" by code_simp+
  then have "\<exists>l \<in> set (vsm_lines (calculate_voucher_summary ex_unpriced_db ex_sale)). vln_rate l = 0"
    by (auto simp: list_ex_iff ex_lines money_float_def shown_value_def)
  then show ?thesis
    using priced_batch_rates [of ex_unpriced_db ex_sale] \<open>bat_type ex_sale \<noteq> B_AUDIT\<close> by auto
qed

section \<open>The outbox\<close>

definition ex_uuid :: "nat \<Rightarrow> string" where
  "ex_uuid k = ''00000000-0000-4000-8000-000000000000''"

lemma ex_uuid_ok: "\<forall>k. uuid_text (ex_uuid k)"
proof -
  have "uuid_text ''00000000-0000-4000-8000-000000000000''" by code_simp
  then show ?thesis by (simp add: ex_uuid_def)
qed

definition ex_sha :: "string \<Rightarrow> string" where
  "ex_sha s = nat_str (length s)"

definition ex_request :: event_request where
  "ex_request = initial_request ''HEARTBEAT'' None 0 ''FR-7:INITIAL-INVENTORY:EMPTY'' []"

lemma limits: "1000 \<le> event_max_body_bytes" "100 \<le> event_max_items"
  by (simp_all add: event_max_body_bytes_def event_max_items_def)

theorem enqueue_appends_next_witness:
  "\<exists>d' row. enqueue_outbox_event ex_sha ex_settings (ex_uuid 1) 0 ex_request ex_db = Inr (d', row) \<and> evt_id row = 1"
proof -
  have "enqueue_guard ex_settings ex_request ex_db = None" by code_simp
  moreover have "list_length (map_of (rev (erq_payload ex_request)) ''items'') \<le> event_max_items" by code_simp
  moreover have "utf8_size (frozen_event_json \<lparr>ehd_event_id = ex_uuid 1, ehd_sequence = Suc (outbox_sequence ex_db),
      ehd_type = py_upper (py_strip (erq_type ex_request)), ehd_aggregate_id = erq_aggregate_id ex_request,
      ehd_occurred_at = erq_occurred_at ex_request, ehd_schema_version = erq_schema_version ex_request\<rparr>
      (erq_payload ex_request)) \<le> 1000" by code_simp
  ultimately obtain d' row where e: "enqueue_outbox_event ex_sha ex_settings (ex_uuid 1) 0 ex_request ex_db = Inr (d', row)"
    using enqueue_accepts limits(1) order_trans by blast
  have "outbox_ok ex_sha ex_db" "outbox_sequence ex_db + 1 = 1" by code_simp+
  with enqueue_appends_next [OF e] e show ?thesis by auto
qed

text \<open>A shop with one unpriced serial.\<close>

definition ex_free_db :: db where
  "ex_free_db = ex_db\<lparr>products := [ex_product\<lparr>prd_gst_rate := 0, prd_default_rate := 0\<rparr>],
     serials := [ex_serial 1 ''S-1'' S_IN_STOCK None]\<rparr>"

definition ex_items :: "json list" where
  "ex_items = List.map_filter (\<lambda>s. map_option (\<lambda>p. network_event_item p s None None None) (product_of ex_free_db s))
     (baseline_serials ex_free_db)"

lemma ex_content: "content_size ex_items \<le> 1000" "length ex_items = 1"
  by code_simp+

lemma ex_envelope: "envelope_size ''FR-7'' None 0 1 \<le> 1000"
proof -
  have "utf8_size (frozen_event_json \<lparr>ehd_event_id = ''00000000-0000-0000-0000-000000000000'', ehd_sequence = 0,
       ehd_type = ''STOCK_SNAPSHOT'', ehd_aggregate_id = initial_inventory_reference ''FR-7'' 1, ehd_occurred_at = 0,
       ehd_schema_version = 1\<rparr> (initial_inventory_payload (initial_inventory_reference ''FR-7'' 1) None [])) \<le> 500"
    by code_simp
  moreover have "length (nat_str (2 ^ 63 - 1)) \<le> 100" by (simp add: nat_str.simps)
  ultimately show ?thesis using envelope_size_le [of "''FR-7''" None 0 1] by linarith
qed

lemma ex_partition: "partition_initial_inventory_items ''FR-7'' None 0 ex_items = Inr [ex_items]"
proof (rule partition_one_part)
  show "ex_items \<noteq> []" "length ex_items \<le> event_max_items"
    using ex_content(2) by (auto simp: event_max_items_def)
  show "envelope_size ''FR-7'' None 0 1 + content_size ex_items \<le> event_max_body_bytes"
    using ex_content(1) ex_envelope by (simp add: event_max_body_bytes_def)
qed

theorem baseline_partition_witness:
  "concat [ex_items] = ex_items \<and> length ([ex_items] ! 0) \<le> 5000"
  using baseline_partition [OF ex_partition] by simp

theorem baseline_queued_witness:
  "\<exists>d'. enqueue_initial_inventory_snapshot ex_sha ex_settings ex_uuid 0 None ex_free_db = Inr (d', 1, 1) \<and>
     length (outbox d') = 1 \<and> require_initial_inventory_queued ex_settings d' = Inr ''FR-7''"
proof -
  have k: "outbox ex_free_db = []" "baseline_serials ex_free_db \<noteq> []" "length (baseline_serials ex_free_db) = 1"
    "configured_franchise_code ex_settings (Some True) = Inr ''FR-7''" "outbox_sequence ex_free_db = 0"
    by (atomize (full)) code_simp
  have s: "outbox_sequence ex_free_db + length [ex_items] < 2 ^ 63" by (simp add: k(5))
  have ne: "[ex_items] \<noteq> []" by simp
  obtain d' where d': "enqueue_initial_inventory_snapshot ex_sha ex_settings ex_uuid 0 None ex_free_db =
      Inr (d', length [ex_items], length (baseline_serials ex_free_db))"
    "map evt_aggregate_id (outbox d') = map (initial_inventory_reference ''FR-7'') [1..<length [ex_items] + 1]"
    "require_initial_inventory_queued ex_settings d' = Inr ''FR-7''"
    using baseline_queued [OF k(1,4) ex_uuid_ok k(2) ex_partition [unfolded ex_items_def] ne [unfolded ex_items_def] s [unfolded ex_items_def],
        of ex_sha, folded ex_items_def] by blast
  from arg_cong [OF d'(2), of length] have "length (outbox d') = 1" by simp
  with d' k(3) show ?thesis by simp
qed

end
