(* ===== verification/Delivery.thy ===== *)
theory Delivery
  imports Outbox
begin

text \<open>
  Delivery of the outbox, second half of \<open>app/services/master_sync.py\<close>: error texts
  with the credential redacted, which failures are retried and when, and the push loop that
  sends the events in strict order.

  The network is a parameter: attempt \<open>k\<close> of a push sees \<open>net k\<close>, the time it
  starts, what the opener does with the request, and the time the answer is processed.  A
  body is what \<open>json.loads\<close> makes of it.
\<close>

datatype body = NoBody | BadBody | JsonBody json

datatype failure = HttpFailure int | UrlFailure string | OtherFailure string

datatype http_result =
    Answer int body
  | HttpRaised int body
  | NetworkRaised failure
  | OtherRaised string

definition credential_rejected_message :: string where
  "credential_rejected_message =
     ''Master did not accept this franchise's access key (HTTP 401). Ask the Master administrator for '' @
     ''replacement connection details, then choose Update connection details.''"

definition redact :: "string \<Rightarrow> string \<Rightarrow> string" where
  "redact key s = (if key = [] then s else py_replace key ''[redacted]'' s)"

fun failure_text :: "failure \<Rightarrow> string" where
  "failure_text (HttpFailure c) = (if c = 401 then credential_rejected_message else ''Master returned HTTP '' @ int_str c @ ''.'')"
| "failure_text (UrlFailure r) = ''Master connection failed: '' @ r"
| "failure_text (OtherFailure m) = ''Master connection failed: '' @ m"

definition safe_error :: "string \<Rightarrow> failure \<Rightarrow> string" where
  "safe_error key f = take 1000 (redact key (failure_text f))"

section \<open>Bounded remote texts\<close>

definition bounded_text :: "nat \<Rightarrow> string \<Rightarrow> string \<Rightarrow> string" where
  "bounded_text limit key s = take limit (redact key (py_join '' '' (py_split s)))"

fun bounded_remote_text :: "nat \<Rightarrow> string \<Rightarrow> json option \<Rightarrow> string" where
  "bounded_remote_text limit key (Some (JStr s)) = bounded_text limit key s"
| "bounded_remote_text limit key _ = []"

definition remote_detail_priority :: "string list" where
  "remote_detail_priority = [''expected_sequence'', ''received_sequence'', ''last_sequence'', ''next_sequence'',
     ''serial_number'', ''transfer_id'', ''status_from'', ''status_to'', ''current_status'', ''owner_franchise_code'']"

definition ordered_keys :: "(string \<times> json) list \<Rightarrow> string list" where
  "ordered_keys kvs =
    (let first = filter (\<lambda>k. k \<in> fst ` set kvs) remote_detail_priority
     in first @ sort (filter (\<lambda>k. k \<notin> set first) (remdups (map fst kvs))))"

text \<open>\<open>room\<close> is how many more levels of containers are kept (two at the top).\<close>

fun bounded_remote_value :: "string \<Rightarrow> nat \<Rightarrow> json \<Rightarrow> json option" where
  "bounded_remote_value key room JNull = None"
| "bounded_remote_value key room (JBool b) = Some (JBool b)"
| "bounded_remote_value key room (JInt n) = Some (JInt n)"
| "bounded_remote_value key room (JFloat x) = Some (JFloat x)"
| "bounded_remote_value key room (JStr s) = Some (JStr (bounded_text 240 key s))"
| "bounded_remote_value key 0 (JList xs) = None"
| "bounded_remote_value key 0 (JObj kvs) = None"
| "bounded_remote_value key (Suc r) (JList xs) =
     Some (JList (List.map_filter (bounded_remote_value key r) (take 12 xs)))"
| "bounded_remote_value key (Suc r) (JObj kvs) =
     Some (JObj (foldl (\<lambda>acc k.
       let bk = bounded_text 80 key k
       in if bk = [] then acc
          else (case Option.bind (map_of (rev kvs) k) (bounded_remote_value key r) of
              None \<Rightarrow> acc | Some v \<Rightarrow> obj_update acc [(bk, v)])) [] (take 16 (ordered_keys kvs))))"

definition error_envelope :: "body \<Rightarrow> json option" where
  "error_envelope b =
    (case b of JsonBody v \<Rightarrow> (case jfield ''error'' v of Some (JObj kvs) \<Rightarrow> Some (JObj kvs) | _ \<Rightarrow> None)
     | _ \<Rightarrow> None)"

definition http_error_summary :: "string \<Rightarrow> int \<Rightarrow> body \<Rightarrow> string" where
  "http_error_summary key status b =
    (if status = 401 then credential_rejected_message
     else
       let summary = (case error_envelope b of
             None \<Rightarrow> ''Master returned HTTP '' @ int_str status @ ''.''
           | Some err \<Rightarrow>
               let code = bounded_remote_text 80 key (jfield ''code'' err);
                   message = bounded_remote_text 500 key (jfield ''message'' err);
                   heading = ''Master HTTP '' @ int_str status @ (if code = [] then [] else '' '' @ code);
                   text = (if message = [] then heading @ ''.'' else heading @ '': '' @ message)
               in (case Option.bind (jfield ''details'' err) (bounded_remote_value key 2) of
                   None \<Rightarrow> text
                 | Some details \<Rightarrow>
                     if details = JObj [] \<or> details = JList [] then text
                     else
                       let dj = canonical_json details
                       in text @ '' Details: '' @ (if 700 < length dj then take 700 dj @ ''...'' else dj)))
       in take 1000 (redact key summary))"

definition http_error_code :: "body \<Rightarrow> string" where
  "http_error_code b =
    (case error_envelope b of None \<Rightarrow> [] | Some err \<Rightarrow> py_upper (bounded_remote_text 80 [] (jfield ''code'' err)))"

definition http_status_is_retryable :: "int \<Rightarrow> string \<Rightarrow> bool" where
  "http_status_is_retryable status error_code =
    (if status = 409 \<or> status = 412 then status = 409 \<and> py_upper error_code = ''CONCURRENT_EVENT_CONFLICT''
     else status \<in> {408, 425, 429} \<or> status \<in> {401, 403} \<or> 500 \<le> status)"

definition request_timeout :: "settings \<Rightarrow> int" where
  "request_timeout cfg = max 1 (cfg_request_timeout cfg)"

definition rstrip_slash :: "string \<Rightarrow> string" where
  "rstrip_slash s = rev (dropWhile (\<lambda>c. c = CHR ''/'') (rev s))"

definition master_credentials :: "settings \<Rightarrow> exc + string \<times> string" where
  "master_credentials cfg =
    (case configured_franchise_code cfg (Some True) of Inl e \<Rightarrow> Inl e
     | Inr code \<Rightarrow>
         let url = rstrip_slash (py_strip (cfg_master_url cfg)); key = py_strip (cfg_master_api_key cfg)
         in if url = [] then Inl (MasterSyncError ''Configure MASTER_URL before enabling Setuora Master sync.'')
            else if key = [] then Inl (MasterSyncError ''Configure MASTER_API_KEY before enabling Setuora Master sync.'')
            else Inr (url, key))"

section \<open>Verification of the enrollment\<close>

definition malformed_node :: exc where
  "malformed_node = MasterSyncError ''Master returned a malformed GET /api/v1/node response.''"

definition check_enrollment :: "string \<Rightarrow> int \<Rightarrow> int \<Rightarrow> body \<Rightarrow> exc + json" where
  "check_enrollment expected_code min_last max_last b =
    (case b of JsonBody v \<Rightarrow>
      (case jfield ''data'' v of Some (JObj kvs) \<Rightarrow>
        (case (jfield ''code'' (JObj kvs), jfield ''last_sequence'' (JObj kvs), jfield ''next_sequence'' (JObj kvs)) of
           (Some (JStr code), last_sequence, next_sequence) \<Rightarrow>
             if code \<noteq> expected_code then
               Inl (MasterSyncError (''Master authenticated a different franchise code (expected '' @ expected_code @
                 '', returned '' @ code @ ''). Correct MASTER_API_KEY before initializing inventory.''))
             else (case (last_sequence, next_sequence) of
                 (Some (JInt l), Some (JInt n)) \<Rightarrow>
                   if min_last = 0 \<and> max_last = 0 \<and> (l \<noteq> 0 \<or> n \<noteq> 1) then
                     Inl (MasterSyncError (''Master node '' @ expected_code @ '' is not empty (expected cursor 0/1, returned '' @
                       int_str l @ ''/'' @ int_str n @ ''). Inventory initialization was blocked.''))
                   else if \<not> (min_last \<le> l \<and> l \<le> max_last) \<or> n \<noteq> l + 1 then
                     Inl (MasterSyncError (''Master's inventory history does not match this Lite installation. '' @
                       ''Ask the administrator to check the franchise connection before continuing.''))
                   else Inr (JObj kvs)
               | _ \<Rightarrow> Inl malformed_node)
         | _ \<Rightarrow> Inl malformed_node)
       | _ \<Rightarrow> Inl malformed_node)
     | _ \<Rightarrow> Inl malformed_node)"

definition verify_master_enrollment_identity :: "string \<Rightarrow> string \<Rightarrow> int \<Rightarrow> int \<Rightarrow> http_result \<Rightarrow> exc + json" where
  "verify_master_enrollment_identity key expected_code min_last max_last r =
    (case r of
       HttpRaised status b \<Rightarrow> Inl (MasterSyncError (safe_error key (HttpFailure status)))
     | NetworkRaised f \<Rightarrow> Inl (MasterSyncError (safe_error key f))
     | OtherRaised m \<Rightarrow> Inl (MasterSyncError m)
     | Answer status b \<Rightarrow>
         if \<not> (200 \<le> status \<and> status < 300) then
           Inl (MasterSyncError (''Master returned HTTP '' @ int_str status @ '' while verifying franchise enrollment.''))
         else check_enrollment expected_code min_last max_last b)"

section \<open>The push loop\<close>

definition retry_delay :: "nat \<Rightarrow> moment" where
  "retry_delay attempts = seconds (min 3600 (2 ^ (min (max attempts 1) 11)))"

definition set_event :: "nat \<Rightarrow> (outbox_event \<Rightarrow> outbox_event) \<Rightarrow> db \<Rightarrow> db" where
  "set_event i f d = d\<lparr>outbox := upd_rows (\<lambda>e. evt_id e = i) f (outbox d)\<rparr>"

definition event_batch :: "outbox_event \<Rightarrow> nat option" where
  "event_batch e = (if evt_aggregate_type e = ''BATCH'' then evt_batch_id e else None)"

definition set_event_batch :: "outbox_event \<Rightarrow> (batch \<Rightarrow> batch) \<Rightarrow> db \<Rightarrow> db" where
  "set_event_batch e f d = (case event_batch e of None \<Rightarrow> d | Some b \<Rightarrow> set_batch b f d)"

definition fail_outbox_event :: "outbox_event \<Rightarrow> string \<Rightarrow> bool \<Rightarrow> moment \<Rightarrow> db \<Rightarrow> db" where
  "fail_outbox_event e message retryable now d =
     set_event_batch e (\<lambda>b. b\<lparr>bat_status := BS_FAILED, bat_last_error := Some message\<rparr>)
      (set_event (evt_id e) (\<lambda>r. r\<lparr>evt_status := O_FAILED, evt_last_error := Some message, evt_sending_at := None,
         evt_next_attempt_at := (if retryable then Some (now + retry_delay (evt_attempts r)) else None)\<rparr>) d)"

definition oldest_unsent_event :: "db \<Rightarrow> outbox_event option" where
  "oldest_unsent_event d =
    (case sort_key evt_id (filter (\<lambda>e. evt_status e \<noteq> O_SENT) (outbox d)) of [] \<Rightarrow> None | e # _ \<Rightarrow> Some e)"

text \<open>Python's \<open>v == n\<close> and \<open>isinstance(v, int)\<close>: \<open>bool\<close> is an \<open>int\<close>.\<close>

fun equals_int :: "json option \<Rightarrow> int \<Rightarrow> bool" where
  "equals_int (Some (JInt i)) n = (i = n)"
| "equals_int (Some (JFloat x)) n = (x = of_int n)"
| "equals_int (Some (JBool b)) n = ((if b then 1 else 0) = n)"
| "equals_int _ n = False"

fun as_int :: "json option \<Rightarrow> int option" where
  "as_int (Some (JInt i)) = Some i"
| "as_int (Some (JBool b)) = Some (if b then 1 else 0)"
| "as_int _ = None"

definition acknowledges :: "outbox_event \<Rightarrow> json \<Rightarrow> bool" where
  "acknowledges e a \<longleftrightarrow>
     jfield ''event_id'' a = Some (JStr (evt_event_id e)) \<and> equals_int (jfield ''sequence'' a) (int (evt_id e))"

definition validate_event_acknowledgement :: "body \<Rightarrow> outbox_event \<Rightarrow> string option" where
  "validate_event_acknowledgement b e =
    (let malformed = Some ''Master returned a malformed event acknowledgement.'' in
     case b of BadBody \<Rightarrow> Some ''Master returned an invalid JSON response.''
     | NoBody \<Rightarrow> malformed
     | JsonBody v \<Rightarrow>
        (case jfield ''data'' v of Some (JObj kvs) \<Rightarrow>
          (case (jfield ''acknowledgements'' (JObj kvs), as_int (jfield ''last_sequence'' (JObj kvs))) of
             (Some (JList acks), Some n) \<Rightarrow>
               if n < int (evt_id e) then Some ''Master acknowledgement did not advance to the submitted sequence.''
               else if \<not> list_ex (acknowledges e) acks then
                 Some ''Master acknowledgement does not match the submitted event.''
               else None
           | _ \<Rightarrow> Some ''Master returned an incomplete event acknowledgement.'')
         | _ \<Rightarrow> malformed))"

text \<open>
  What the worker makes of the answer: \<open>None\<close> the event is accepted, otherwise the error
  message and whether the delivery is tried again.
\<close>

definition judge :: "string \<Rightarrow> outbox_event \<Rightarrow> http_result \<Rightarrow> (string \<times> bool) option" where
  "judge key e r =
    (case r of
       HttpRaised status b \<Rightarrow>
         Some (take 1000 (http_error_summary key status b), http_status_is_retryable status (http_error_code b))
     | NetworkRaised f \<Rightarrow> Some (safe_error key f, True)
     | OtherRaised m \<Rightarrow> Some (safe_error key (OtherFailure m), False)
     | Answer status b \<Rightarrow>
         if \<not> (200 \<le> status \<and> status < 300) then
           Some (take 1000 (http_error_summary key status b), http_status_is_retryable status (http_error_code b))
         else (case validate_event_acknowledgement b e of
             None \<Rightarrow> None
           | Some m \<Rightarrow> Some (safe_error key (OtherFailure m), True)))"

definition mark_sending :: "outbox_event \<Rightarrow> moment \<Rightarrow> db \<Rightarrow> db" where
  "mark_sending e now d =
     set_event_batch e (\<lambda>b. b\<lparr>bat_status := BS_SYNCING, bat_last_error := None\<rparr>)
      (set_event (evt_id e) (\<lambda>r. r\<lparr>evt_status := O_SENDING, evt_attempts := evt_attempts r + 1,
         evt_sending_at := Some now, evt_next_attempt_at := None, evt_last_error := None\<rparr>) d)"

definition mark_sent :: "outbox_event \<Rightarrow> moment \<Rightarrow> db \<Rightarrow> db" where
  "mark_sent e done d =
    (let d1 = set_event (evt_id e) (\<lambda>r. r\<lparr>evt_status := O_SENT, evt_sent_at := Some done, evt_sending_at := None,
           evt_next_attempt_at := None, evt_last_error := None\<rparr>) d
     in if evt_aggregate_type e = ''BATCH'' \<and> evt_batch_id e \<noteq> None then
          set_event_batch e (\<lambda>b. b\<lparr>bat_status := BS_SYNCED, bat_synced_at := Some done, bat_last_error := None\<rparr>) d1
        else if evt_aggregate_type e = ''RECEIPT'' then
          d1\<lparr>receipts := upd_rows (\<lambda>r. rcp_uuid r = evt_aggregate_id e) (\<lambda>r. r\<lparr>rcp_synced_at := Some done\<rparr>) (receipts d1)\<rparr>
        else d1)"

definition recover_stale :: "outbox_event \<Rightarrow> moment \<Rightarrow> outbox_event" where
  "recover_stale e now = e\<lparr>evt_status := O_FAILED, evt_last_error := Some ''Recovered an interrupted Master delivery.'',
     evt_next_attempt_at := Some now, evt_sending_at := None\<rparr>"

definition still_sending :: "settings \<Rightarrow> outbox_event \<Rightarrow> moment \<Rightarrow> bool" where
  "still_sending cfg e now \<longleftrightarrow> evt_status e = O_SENDING \<and>
     (case evt_sending_at e of None \<Rightarrow> False | Some t \<Rightarrow> now < t + seconds (max 60 (request_timeout cfg * 2)))"

definition not_due :: "outbox_event \<Rightarrow> moment \<Rightarrow> bool" where
  "not_due e now \<longleftrightarrow> evt_status e = O_FAILED \<and>
     (case evt_next_attempt_at e of None \<Rightarrow> True | Some t \<Rightarrow> now < t)"

type_synonym delivery = "moment \<times> http_result \<times> moment"

text \<open>One turn: the database afterwards, and whether the event was delivered (and the loop goes on).\<close>

definition push_one :: "(string \<Rightarrow> string) \<Rightarrow> settings \<Rightarrow> string \<Rightarrow> delivery \<Rightarrow> db \<Rightarrow> db \<times> bool" where
  "push_one sha cfg key delivery d =
    (case oldest_unsent_event d of None \<Rightarrow> (d, False)
     | Some e0 \<Rightarrow>
       (case delivery of (now, answer, done) \<Rightarrow>
         if still_sending cfg e0 now then (d, False)
         else
           let e = (if evt_status e0 = O_SENDING then recover_stale e0 now else e0);
               d1 = (if evt_status e0 = O_SENDING then set_event (evt_id e0) (\<lambda>r. recover_stale r now) d else d)
           in if not_due e now then (d1, False)
              else if sha (evt_payload_json e) \<noteq> evt_payload_sha256 e then
                (fail_outbox_event e (safe_error key (OtherFailure ''Master outbox payload integrity check failed.'')) False now d1,
                 False)
              else
                let d2 = mark_sending e now d1
                in (case judge key e answer of
                    Some (message, retryable) \<Rightarrow> (fail_outbox_event e message retryable done d2, False)
                  | None \<Rightarrow> (mark_sent e done d2, True))))"

fun push_loop :: "(string \<Rightarrow> string) \<Rightarrow> settings \<Rightarrow> string \<Rightarrow> (nat \<Rightarrow> delivery) \<Rightarrow> nat \<Rightarrow> nat \<Rightarrow> db \<Rightarrow> db \<times> nat" where
  "push_loop sha cfg key net k 0 d = (d, k)"
| "push_loop sha cfg key net k (Suc n) d =
    (case push_one sha cfg key (net k) d of
       (d', False) \<Rightarrow> (d', k)
     | (d', True) \<Rightarrow> push_loop sha cfg key net (Suc k) n d')"

definition push_pending_events ::
  "(string \<Rightarrow> string) \<Rightarrow> settings \<Rightarrow> (nat \<Rightarrow> delivery) \<Rightarrow> int \<Rightarrow> db \<Rightarrow> exc + db \<times> nat"
where
  "push_pending_events sha cfg net limit d =
    (if \<not> cfg_master_sync_enabled cfg \<or> limit < 1 then Inr (d, 0)
     else (case require_initial_inventory_queued cfg d of Inl e \<Rightarrow> Inl e
     | Inr code \<Rightarrow>
    (case master_credentials cfg of Inl e \<Rightarrow> Inl e
     | Inr (url, key) \<Rightarrow> Inr (push_loop sha cfg key net 0 (nat limit) d))))"

section \<open>What a push keeps\<close>

definition frozen :: "outbox_event \<Rightarrow> nat \<times> string \<times> string \<times> string" where
  "frozen e = (evt_id e, evt_event_id e, evt_payload_json e, evt_payload_sha256 e)"

definition sent_downwards :: "db \<Rightarrow> bool" where
  "sent_downwards d \<longleftrightarrow> (\<forall>e \<in> set (outbox d). \<forall>f \<in> set (outbox d).
     evt_id e < evt_id f \<and> evt_status f = O_SENT \<longrightarrow> evt_status e = O_SENT)"

definition sent_count :: "db \<Rightarrow> nat" where
  "sent_count d = length (filter (\<lambda>e. evt_status e = O_SENT) (outbox d))"

lemma set_event_frozen:
  "(\<And>e. frozen (f e) = frozen e) \<Longrightarrow> map frozen (outbox (set_event i f d)) = map frozen (outbox d)"
  by (simp add: set_event_def map_upd_rows)

lemma set_event_batch_outbox [simp]: "outbox (set_event_batch e f d) = outbox d"
  by (simp add: set_event_batch_def split: option.splits)

lemma set_event_batch_frame [simp]:
  "serials (set_event_batch e f d) = serials d" "outbox_sequence (set_event_batch e f d) = outbox_sequence d"
  "batch_items (set_event_batch e f d) = batch_items d"
  by (simp_all add: set_event_batch_def set_batch_def split: option.splits)

lemma outbox_of_marks:
  "outbox (fail_outbox_event e m r now d) = upd_rows (\<lambda>x. evt_id x = evt_id e)
     (\<lambda>x. x\<lparr>evt_status := O_FAILED, evt_last_error := Some m, evt_sending_at := None,
        evt_next_attempt_at := (if r then Some (now + retry_delay (evt_attempts x)) else None)\<rparr>) (outbox d)"
  "outbox (mark_sending e now d) = upd_rows (\<lambda>x. evt_id x = evt_id e)
     (\<lambda>x. x\<lparr>evt_status := O_SENDING, evt_attempts := evt_attempts x + 1, evt_sending_at := Some now,
        evt_next_attempt_at := None, evt_last_error := None\<rparr>) (outbox d)"
  "outbox (mark_sent e now d) = upd_rows (\<lambda>x. evt_id x = evt_id e)
     (\<lambda>x. x\<lparr>evt_status := O_SENT, evt_sent_at := Some now, evt_sending_at := None, evt_next_attempt_at := None,
        evt_last_error := None\<rparr>) (outbox d)"
  by (simp_all add: fail_outbox_event_def mark_sending_def mark_sent_def set_event_def Let_def)

lemma marks_frozen:
  "map frozen (outbox (fail_outbox_event e m r now d)) = map frozen (outbox d)"
  "map frozen (outbox (mark_sending e now d)) = map frozen (outbox d)"
  "map frozen (outbox (mark_sent e now d)) = map frozen (outbox d)"
  "map frozen (outbox (set_event i (\<lambda>r. recover_stale r now) d)) = map frozen (outbox d)"
  unfolding outbox_of_marks set_event_def
  by (simp_all add: map_upd_rows frozen_def recover_stale_def)

lemma marks_sequence [simp]:
  "outbox_sequence (fail_outbox_event e m r now d) = outbox_sequence d"
  "outbox_sequence (mark_sending e now d) = outbox_sequence d"
  "outbox_sequence (mark_sent e now d) = outbox_sequence d"
  "outbox_sequence (set_event i f d) = outbox_sequence d"
  by (simp_all add: fail_outbox_event_def mark_sending_def mark_sent_def set_event_def Let_def)

text \<open>
  A change of the row with key \<open>i\<close> that keeps the frozen columns and delivers the row
  exactly if \<open>sent\<close>.
\<close>

definition touches :: "nat \<Rightarrow> bool \<Rightarrow> db \<Rightarrow> db \<Rightarrow> bool" where
  "touches i sent d d' \<longleftrightarrow> outbox_sequence d' = outbox_sequence d \<and>
     (\<exists>f. outbox d' = upd_rows (\<lambda>x. evt_id x = i) f (outbox d) \<and> (\<forall>x. frozen (f x) = frozen x) \<and>
        (\<forall>x. evt_status x \<noteq> O_SENT \<longrightarrow> (evt_status (f x) = O_SENT) = sent))"

lemma frozen_id: "frozen x = frozen y \<Longrightarrow> evt_id x = evt_id y"
  by (simp add: frozen_def)

lemma touches_refl: "touches i False d d"
  by (auto simp: touches_def upd_rows_def intro: exI [of _ "\<lambda>x. x"])

lemma touches_trans:
  assumes "touches i False d e" "touches i s e f"
  shows "touches i s d f"
proof -
  obtain g where g: "outbox e = upd_rows (\<lambda>x. evt_id x = i) g (outbox d)" "\<forall>x. frozen (g x) = frozen x"
    "\<forall>x. evt_status x \<noteq> O_SENT \<longrightarrow> evt_status (g x) \<noteq> O_SENT" "outbox_sequence e = outbox_sequence d"
    using assms(1) by (auto simp: touches_def)
  obtain h where h: "outbox f = upd_rows (\<lambda>x. evt_id x = i) h (outbox e)" "\<forall>x. frozen (h x) = frozen x"
    "\<forall>x. evt_status x \<noteq> O_SENT \<longrightarrow> (evt_status (h x) = O_SENT) = s" "outbox_sequence f = outbox_sequence e"
    using assms(2) by (auto simp: touches_def)
  have "evt_id (g x) = evt_id x" for x by (rule frozen_id) (use g(2) in simp)
  then have "outbox f = upd_rows (\<lambda>x. evt_id x = i) (\<lambda>x. h (g x)) (outbox d)"
    unfolding h(1) g(1) by (intro upd_rows_twice) simp
  then show ?thesis
    unfolding touches_def using g h by (intro conjI exI [of _ "\<lambda>x. h (g x)"]) simp_all
qed

lemma touches_marks:
  "touches (evt_id e) False d (fail_outbox_event e m r now d)"
  "touches (evt_id e) False d (mark_sending e now d)"
  "touches (evt_id e) True d (mark_sent e now d)"
  "touches (evt_id e) False d (set_event (evt_id e) (\<lambda>r. recover_stale r now) d)"
  unfolding touches_def outbox_of_marks marks_sequence
  by (auto simp: set_event_def frozen_def recover_stale_def intro!: exI)

lemma push_one_touches:
  assumes "push_one sha cfg key del d = (d', sent)"
  shows "case oldest_unsent_event d of None \<Rightarrow> d' = d \<and> \<not> sent | Some e \<Rightarrow> touches (evt_id e) sent d d'"
proof (cases "oldest_unsent_event d")
  case None
  with assms show ?thesis by (simp add: push_one_def)
next
  case (Some e0)
  obtain now answer fin where del: "del = (now, answer, fin)" by (cases del)
  define e where "e = (if evt_status e0 = O_SENDING then recover_stale e0 now else e0)"
  define d1 where "d1 = (if evt_status e0 = O_SENDING then set_event (evt_id e0) (\<lambda>r. recover_stale r now) d else d)"
  have e: "evt_id e = evt_id e0" by (simp add: e_def recover_stale_def)
  have t1: "touches (evt_id e0) False d d1" by (simp add: d1_def touches_marks touches_refl)
  note marks = touches_marks [where e = e, unfolded e]
  have t2: "touches (evt_id e0) False d (mark_sending e now d1)"
    using t1 marks(2) by (rule touches_trans)
  consider "d' = d \<and> \<not> sent" | "d' = d1 \<and> \<not> sent"
    | m where "d' = fail_outbox_event e m False now d1 \<and> \<not> sent"
    | m r where "d' = fail_outbox_event e m r fin (mark_sending e now d1) \<and> \<not> sent"
    | "d' = mark_sent e fin (mark_sending e now d1) \<and> sent"
    using assms Some unfolding push_one_def del
    by (auto simp: Let_def e_def [symmetric] d1_def [symmetric] split: if_splits option.splits)
  then have "touches (evt_id e0) sent d d'"
  proof cases
    case 1 then show ?thesis by (simp add: touches_refl)
  next
    case 2 with t1 show ?thesis by simp
  next
    case 3 with touches_trans [OF t1 marks(1)] show ?thesis by simp
  next
    case 4 with touches_trans [OF t2 marks(1)] show ?thesis by simp
  next
    case 5 with touches_trans [OF t2 marks(3)] show ?thesis by simp
  qed
  with Some show ?thesis by simp
qed

lemma push_loop_induct:
  assumes "push_loop sha cfg key net k n d = (d', m)" "I d"
    and "\<And>d e j d'. I d \<Longrightarrow> oldest_unsent_event d = Some e \<Longrightarrow> touches (evt_id e) j d d' \<Longrightarrow> I d'"
  shows "I d'"
  using assms(1,2)
proof (induction n arbitrary: k d)
  case 0
  then show ?case by simp
next
  case (Suc n)
  obtain e j where p: "push_one sha cfg key (net k) d = (e, j)" by fastforce
  have "I e" using push_one_touches [OF p] assms(3) Suc.prems(2) by (auto split: option.splits)
  with Suc p show ?case by (cases j) auto
qed

lemma touches_frozen: "touches i s d d' \<Longrightarrow> map frozen (outbox d') = map frozen (outbox d)"
  by (auto simp: touches_def map_upd_rows)

lemma oldest_unsent:
  assumes "oldest_unsent_event d = Some e"
  shows "e \<in> set (outbox d)" "evt_status e \<noteq> O_SENT"
    "\<And>f. f \<in> set (outbox d) \<Longrightarrow> evt_status f \<noteq> O_SENT \<Longrightarrow> evt_id e \<le> evt_id f"
proof -
  let ?xs = "filter (\<lambda>e. evt_status e \<noteq> O_SENT) (outbox d)"
  obtain es where es: "sort_key evt_id ?xs = e # es"
    using assms by (auto simp: oldest_unsent_event_def split: list.splits)
  have "e \<in> set (sort_key evt_id ?xs)" unfolding es by simp
  then show "e \<in> set (outbox d)" "evt_status e \<noteq> O_SENT" by simp_all
  show "evt_id e \<le> evt_id f" if "f \<in> set (outbox d)" "evt_status f \<noteq> O_SENT" for f
  proof -
    have "f \<in> set (sort_key evt_id ?xs)" using that by simp
    moreover have "sorted (map evt_id (sort_key evt_id ?xs))" by simp
    ultimately show ?thesis unfolding es by auto
  qed
qed

lemma touches_keeps_order:
  assumes "sent_downwards d" "oldest_unsent_event d = Some e" "touches (evt_id e) j d d'"
  shows "sent_downwards d'"
proof -
  obtain f where f: "outbox d' = upd_rows (\<lambda>x. evt_id x = evt_id e) f (outbox d)" "\<forall>x. frozen (f x) = frozen x"
    "\<forall>x. evt_status x \<noteq> O_SENT \<longrightarrow> (evt_status (f x) = O_SENT) = j"
    using assms(3) by (auto simp: touches_def)
  have id: "evt_id (f x) = evt_id x" for x using f(2) frozen_id by blast
  note o = oldest_unsent [OF assms(2)]
  have "evt_status (if evt_id x = evt_id e then f x else x) = O_SENT"
    if "x \<in> set (outbox d)" "y \<in> set (outbox d)" "evt_id x < evt_id y"
      "evt_status (if evt_id y = evt_id e then f y else y) = O_SENT" for x y
  proof (cases "evt_id y = evt_id e")
    case True
    then show ?thesis using o(3) [of x] that(1,3) by fastforce
  next
    case False
    then have "evt_status y = O_SENT" using that(4) by simp
    then have "evt_status x = O_SENT" "\<not> evt_id e < evt_id y"
      using assms(1) o(1,2) that(1-3) by (auto simp: sent_downwards_def)
    then show ?thesis using that(3) by auto
  qed
  then show ?thesis
    unfolding sent_downwards_def f(1) ball_upd_rows by (simp only: if_distrib [of evt_id] id if_cancel) blast
qed

lemma touches_outbox_ok:
  assumes "outbox_ok sha d" "touches i j d d'"
  shows "outbox_ok sha d'"
proof -
  have m: "map frozen (outbox d') = map frozen (outbox d)" "outbox_sequence d' = outbox_sequence d"
    using touches_frozen [OF assms(2)] assms(2) by (simp_all add: touches_def)
  have "map evt_id es = map fst (map frozen es)" for es by (simp add: frozen_def comp_def)
  then have ids: "map evt_id (outbox d') = map evt_id (outbox d)" by (metis m(1))
  have "(\<forall>e \<in> set es. evt_id e \<le> n \<and> evt_payload_sha256 e = sha (evt_payload_json e)) \<longleftrightarrow>
      (\<forall>x \<in> set (map frozen es). fst x \<le> n \<and> snd (snd (snd x)) = sha (fst (snd (snd x))))" for es n
    by (simp add: frozen_def)
  then show ?thesis using assms(1) by (simp only: outbox_ok_def ids m) blast
qed

lemma filter_upd_one:
  assumes "sorted_wrt (<) (map key rows)" "e \<in> set rows" "\<not> p e" "\<And>r. \<not> p r \<Longrightarrow> p (f r) = j"
  shows "length (filter p (upd_rows (\<lambda>x. key x = (key e :: nat)) f rows)) = length (filter p rows) + (if j then 1 else 0)"
  using assms(1,2)
proof (induction rows)
  case Nil
  then show ?case by simp
next
  case (Cons r rs)
  show ?case
  proof (cases "key r = key e")
    case True
    then have "e = r" using Cons.prems by auto
    have "upd_rows (\<lambda>x. key x = key e) f rs = rs"
      using Cons.prems(1) True by (auto simp: upd_rows_def intro!: map_idI)
    with True \<open>e = r\<close> assms(3,4) show ?thesis by (simp add: upd_rows_Cons)
  next
    case False
    then have "e \<in> set rs" using Cons.prems(2) by auto
    with Cons False show ?thesis by (simp add: upd_rows_Cons)
  qed
qed

lemma touches_count:
  assumes "outbox_ok sha d" "oldest_unsent_event d = Some e" "touches (evt_id e) j d d'"
  shows "sent_count d' = sent_count d + (if j then 1 else 0)"
proof -
  obtain f where f: "outbox d' = upd_rows (\<lambda>x. evt_id x = evt_id e) f (outbox d)"
    "\<forall>x. evt_status x \<noteq> O_SENT \<longrightarrow> (evt_status (f x) = O_SENT) = j"
    using assms(3) by (auto simp: touches_def)
  show ?thesis
    unfolding sent_count_def f(1)
    by (rule filter_upd_one) (use assms(1) oldest_unsent [OF assms(2)] f(2) in \<open>auto simp: outbox_ok_def\<close>)
qed

lemma push_loop_effect:
  assumes "push_loop sha cfg key net k n d = (d', m)" "outbox_ok sha d" "sent_downwards d"
  shows "outbox_ok sha d' \<and> sent_downwards d' \<and> map frozen (outbox d') = map frozen (outbox d) \<and>
    k \<le> m \<and> m \<le> k + n \<and> sent_count d' + k = sent_count d + m"
  using assms
proof (induction n arbitrary: k d)
  case 0
  then show ?case by simp
next
  case (Suc n)
  obtain e j where p: "push_one sha cfg key (net k) d = (e, j)" by fastforce
  note t = push_one_touches [OF p]
  have e: "outbox_ok sha e" "sent_downwards e" "map frozen (outbox e) = map frozen (outbox d)"
    "sent_count e = sent_count d + (if j then 1 else 0)"
    using t Suc.prems(2,3) touches_outbox_ok touches_keeps_order touches_frozen touches_count
    by (auto split: option.splits)
  show ?case
  proof (cases j)
    case True
    with Suc.prems(1) p have "push_loop sha cfg key net (Suc k) n e = (d', m)" by simp
    from Suc.IH [OF this e(1,2)] e(3,4) True show ?thesis by simp
  next
    case False
    with Suc.prems(1) p e show ?thesis by auto
  qed
qed

section \<open>The outbox as a machine\<close>

datatype outbox_op = Queue string moment event_request | Push "nat \<Rightarrow> delivery" int

fun outbox_step :: "(string \<Rightarrow> string) \<Rightarrow> settings \<Rightarrow> outbox_op \<Rightarrow> db \<Rightarrow> db" where
  "outbox_step sha cfg (Queue i now r) d =
     (case enqueue_outbox_event sha cfg i now r d of Inl e \<Rightarrow> d | Inr (d', row) \<Rightarrow> d')"
| "outbox_step sha cfg (Push net limit) d =
     (case push_pending_events sha cfg net limit d of Inl e \<Rightarrow> d | Inr (d', n) \<Rightarrow> d')"

definition outbox_inv :: "(string \<Rightarrow> string) \<Rightarrow> db \<Rightarrow> bool" where
  "outbox_inv sha d \<longleftrightarrow> outbox_ok sha d \<and> sent_downwards d"

definition outbox_extends :: "db \<Rightarrow> db \<Rightarrow> bool" where
  "outbox_extends d e \<longleftrightarrow> (\<exists>new. map frozen (outbox e) = map frozen (outbox d) @ new)"

lemma enqueue_inv:
  assumes "enqueue_outbox_event sha cfg i now r d = Inr (d', row)" "outbox_inv sha d"
  shows "outbox_inv sha d' \<and> outbox_extends d d'"
proof -
  note q = enqueueD [OF assms(1)]
  have "evt_id e < evt_id row" if "e \<in> set (outbox d)" for e
    using assms(2) that q(2) by (auto simp: outbox_inv_def outbox_ok_def less_Suc_eq_le)
  then have "sent_downwards d'"
    using assms(2) q(5) unfolding q(1) outbox_inv_def sent_downwards_def by (auto dest: less_asym)
  then show ?thesis
    using enqueue_outbox_ok [OF assms(1)] assms(2) unfolding outbox_inv_def outbox_extends_def q(1) by simp
qed

lemma push_inv:
  assumes "push_pending_events sha cfg net limit d = Inr (d', n)" "outbox_inv sha d"
  shows "outbox_inv sha d' \<and> map frozen (outbox d') = map frozen (outbox d) \<and>
    int n \<le> max 0 limit \<and> sent_count d' = sent_count d + n"
proof (cases "\<not> cfg_master_sync_enabled cfg \<or> limit < 1")
  case True
  with assms show ?thesis by (auto simp: push_pending_events_def)
next
  case False
  then obtain key where "push_loop sha cfg key net 0 (nat limit) d = (d', n)"
    using assms(1) by (auto simp: push_pending_events_def split: sum.splits)
  from push_loop_effect [OF this] assms(2) False show ?thesis by (auto simp: outbox_inv_def)
qed

interpretation outbox_machine: monotone_machine "outbox_step sha cfg" "outbox_inv sha" outbox_extends for sha cfg
proof unfold_locales
  fix d x assume inv: "outbox_inv sha d"
  have "outbox_inv sha (outbox_step sha cfg x d) \<and> outbox_extends d (outbox_step sha cfg x d)"
  proof (cases x)
    case (Queue i now r)
    then show ?thesis
      using inv enqueue_inv [of sha cfg i now r d] by (auto simp: outbox_extends_def split: sum.splits)
  next
    case (Push net limit)
    then show ?thesis
      using inv push_inv [of sha cfg net limit d] by (auto simp: outbox_extends_def split: sum.splits)
  qed
  then show "outbox_inv sha (outbox_step sha cfg x d)" "outbox_extends d (outbox_step sha cfg x d)" by simp_all
next
  show "outbox_extends s s" for s by (simp add: outbox_extends_def)
  show "outbox_extends s u" if "outbox_extends s t" "outbox_extends t u" for s t u
    using that by (auto simp: outbox_extends_def)
qed

section \<open>Properties\<close>

text \<open>
  C8. A push sends strictly in sequence order (whatever is sent, everything before it is
  sent), never more than the limit, counts what it sent, and never changes the identifier,
  body or digest of a queued event.
\<close>

theorem push_in_sequence:
  assumes "push_pending_events sha cfg net limit d = Inr (d', n)" "outbox_ok sha d" "sent_downwards d"
  shows "sent_downwards d' \<and> map frozen (outbox d') = map frozen (outbox d) \<and> int n \<le> max 0 limit \<and>
    sent_count d' = sent_count d + n"
  using push_inv [OF assms(1)] assms(2,3) by (simp add: outbox_inv_def)

text \<open>
  C9. Through any sequence of queueing and pushing, whatever the network does, the outbox
  only ever grows at its end: no event is lost, reordered, renumbered or rewritten.
\<close>

theorem outbox_history:
  assumes "outbox_inv sha d"
  shows "outbox_inv sha (run_ops (outbox_step sha cfg) ops d) \<and>
    (\<exists>new. map frozen (outbox (run_ops (outbox_step sha cfg) ops d)) = map frozen (outbox d) @ new)"
  using outbox_machine.run_inv [OF assms] outbox_machine.run_le [OF assms] by (simp add: outbox_extends_def)

text \<open>The wait before a retry is at least two seconds, at most 2048, and never shrinks with the attempts.\<close>

theorem retry_delay_bounds:
  "seconds 2 \<le> retry_delay k \<and> retry_delay k \<le> seconds 2048 \<and> retry_delay k \<le> retry_delay (k + 1)"
proof -
  have mono: "(2::int) ^ m \<le> 2 ^ n" if "m \<le> n" for m n using that by (simp add: power_increasing)
  have "(2::int) ^ 1 \<le> 2 ^ min (max k 1) 11" by (rule mono) simp
  moreover have "(2::int) ^ min (max k 1) 11 \<le> 2 ^ 11" by (rule mono) simp
  moreover have "(2::int) ^ min (max k 1) 11 \<le> 2 ^ min (max (k + 1) 1) 11" by (rule mono) (simp add: min_def max_def)
  ultimately show ?thesis by (simp add: retry_delay_def seconds_def)
qed

end
