(* ===== verification/PyJson.thy ===== *)
theory PyJson
  imports Json
begin

text \<open>
  Decoded JSON as Python sees it: which values count as true, \<open>dict.get\<close>, \<open>a or b\<close>,
  \<open>str(value)\<close>, \<open>float(value)\<close>, and what a text column stores.  Infinite floats and
  floats that are not numbers are outside the model.
\<close>

definition text_of :: "string option \<Rightarrow> string" where
  "text_of x = (case x of None \<Rightarrow> [] | Some s \<Rightarrow> s)"

section \<open>Numbers in texts\<close>

text \<open>\<open>Decimal(text)\<close> for \<open>[sign] digits [. digits] [e [sign] digits]\<close>; \<open>None\<close> is \<open>InvalidOperation\<close>.\<close>

definition split_first :: "(char \<Rightarrow> bool) \<Rightarrow> string \<Rightarrow> string \<times> string option" where
  "split_first p s = (let rest = dropWhile (\<lambda>c. \<not> p c) s
     in (takeWhile (\<lambda>c. \<not> p c) s, if rest = [] then None else Some (tl rest)))"

fun strip_sign :: "string \<Rightarrow> int \<times> string" where
  "strip_sign [] = (1, [])"
| "strip_sign (c # cs) = (if c = CHR ''-'' then (- 1, cs) else if c = CHR ''+'' then (1, cs) else (1, c # cs))"

definition parse_decimal :: "string \<Rightarrow> rat option" where
  "parse_decimal text =
    (let (sg, body) = strip_sign (filter (\<lambda>c. c \<noteq> CHR ''_'') (py_strip text));
         (mantissa, ex) = split_first (\<lambda>c. c = CHR ''e'' \<or> c = CHR ''E'') body;
         (whole, frac) = split_first (\<lambda>c. c = CHR ''.'') mantissa;
         f = text_of frac; (esg, eds) = strip_sign (text_of ex)
     in if whole @ f = [] \<or> \<not> list_all is_digit (whole @ f) then None
        else if ex \<noteq> None \<and> (eds = [] \<or> \<not> list_all is_digit eds) then None
        else Some (of_int sg * of_nat (parse_nat (whole @ f)) * 10 powi (esg * int (parse_nat eds) - int (length f))))"

text \<open>The texts \<open>Decimal\<close> reads as an infinity or as not a number.\<close>

definition not_finite :: "string \<Rightarrow> bool" where
  "not_finite text =
    (let body = py_lower (snd (strip_sign (filter (\<lambda>c. c \<noteq> CHR ''_'') (py_strip text))))
     in body \<in> {''inf'', ''infinity''} \<or> (starts_with ''nan'' body \<and> list_all is_digit (drop 3 body)) \<or>
        (starts_with ''snan'' body \<and> list_all is_digit (drop 4 body)))"

section \<open>Values\<close>

fun jtrue :: "json \<Rightarrow> bool" where
  "jtrue JNull = False"
| "jtrue (JBool b) = b"
| "jtrue (JInt n) = (n \<noteq> 0)"
| "jtrue (JFloat x) = (x \<noteq> 0)"
| "jtrue (JStr s) = (s \<noteq> [])"
| "jtrue (JList xs) = (xs \<noteq> [])"
| "jtrue (JObj kvs) = (kvs \<noteq> [])"

definition is_obj :: "json \<Rightarrow> bool" where
  "is_obj v = (case v of JObj kvs \<Rightarrow> True | _ \<Rightarrow> False)"

text \<open>\<open>v.get(k)\<close>, \<open>v.get(k, dflt)\<close> and \<open>a or b or ...\<close>.\<close>

definition jget_or :: "string \<Rightarrow> json \<Rightarrow> json \<Rightarrow> json" where
  "jget_or k v dflt = (case jfield k v of None \<Rightarrow> dflt | Some x \<Rightarrow> x)"

definition jget :: "string \<Rightarrow> json \<Rightarrow> json" where
  "jget k v = jget_or k v JNull"

fun jor :: "json list \<Rightarrow> json" where
  "jor [] = JNull"
| "jor [x] = x"
| "jor (x # y # ys) = (if jtrue x then x else jor (y # ys))"

section \<open>Texts of values\<close>

definition hex_escape :: "nat \<Rightarrow> string" where
  "hex_escape n = [CHR 0x5C, CHR ''x'', hex_digit (n div 16), hex_digit (n mod 16)]"

definition repr_char :: "char \<Rightarrow> char \<Rightarrow> string" where
  "repr_char q c =
    (let n = of_char c :: nat
     in if c = q \<or> n = 92 then [CHR 0x5C, c]
        else if n = 10 then [CHR 0x5C, CHR ''n'']
        else if n = 13 then [CHR 0x5C, CHR ''r'']
        else if n = 9 then [CHR 0x5C, CHR ''t'']
        else if n < 32 \<or> (126 < n \<and> n < 161) \<or> n = 173 then hex_escape n
        else [c])"

definition repr_string :: "string \<Rightarrow> string" where
  "repr_string s = (let q = (if CHR 0x27 \<in> set s \<and> CHR 0x22 \<notin> set s then CHR 0x22 else CHR 0x27)
     in [q] @ concat (map (repr_char q) s) @ [q])"

fun py_repr :: "json \<Rightarrow> string" where
  "py_repr JNull = ''None''"
| "py_repr (JBool b) = (if b then ''True'' else ''False'')"
| "py_repr (JInt n) = int_str n"
| "py_repr (JFloat x) = float_repr x"
| "py_repr (JStr s) = repr_string s"
| "py_repr (JList xs) = ''['' @ py_join '', '' (map py_repr xs) @ '']''"
| "py_repr (JObj kvs) = ''{'' @ py_join '', '' (map (\<lambda>(k, t). repr_string k @ '': '' @ t) (map (\<lambda>(k, v). (k, py_repr v)) kvs)) @ ''}''"

fun py_str :: "json \<Rightarrow> string" where
  "py_str (JStr s) = s"
| "py_str v = py_repr v"

text \<open>\<open>str(a or b or "")\<close>.\<close>

definition str_or :: "json list \<Rightarrow> string" where
  "str_or vs = py_str (jor (vs @ [JStr []]))"

fun to_float :: "json \<Rightarrow> exc + rat" where
  "to_float (JBool b) = Inr (if b then 1 else 0)"
| "to_float (JInt n) = Inr (to_double (of_int n))"
| "to_float (JFloat x) = Inr x"
| "to_float (JStr s) = (case parse_decimal s of
     None \<Rightarrow> Inl (ValueError (''could not convert string to float: '' @ repr_string s))
   | Some r \<Rightarrow> Inr (to_double r))"
| "to_float v = Inl (TypeError ''float() argument must be a string or a real number'')"

text \<open>What a nullable text column stores.\<close>

fun column_text :: "json \<Rightarrow> exc + string option" where
  "column_text JNull = Inr None"
| "column_text (JStr s) = Inr (Some s)"
| "column_text (JBool b) = Inr (Some (if b then ''1'' else ''0''))"
| "column_text (JInt n) = Inr (Some (int_str n))"
| "column_text (JFloat x) = Inr (Some (float_repr x))"
| "column_text v = Inl (TypeError ''Error binding parameter: type is not supported'')"

lemma jget_JNull [simp]: "jget k JNull = JNull"
  by (simp add: jget_def jget_or_def jfield_def)

end
