(* ===== verification/Configuration.thy ===== *)
theory Configuration
  imports PyJson
begin

text \<open>
  Settings, companies and the GST ledger mappings, \<open>app/services/settings.py\<close>.  The
  settings table is read through the defaults; a change of the settings is a dictionary of
  texts, an association list in which every key occurs once.  \<open>loads\<close> stands for
  \<open>json.loads\<close> on a stored company configuration (\<open>None\<close> when it raises).
\<close>

type_synonym settings_map = "string \<Rightarrow> string option"

definition company_setting_keys :: "string list" where
  "company_setting_keys = [''company_name'', ''tally_host'', ''tally_port'', ''tally_stock_location'',
     ''sales_voucher_type'', ''purchase_voucher_type'', ''sales_ledger_name'', ''purchase_ledger_name'',
     ''cgst_ledger_name'', ''sgst_ledger_name'', ''sales_gst_ledger_mappings'', ''round_off_ledger_name'']"

definition purchase_flag :: string where "purchase_flag = ''tally_purchase_enabled''"
definition sales_flag :: string where "sales_flag = ''tally_sales_enabled''"
definition combined_flag :: string where "combined_flag = ''tally_enabled''"

lemma flags_distinct [simp]:
  "purchase_flag \<noteq> sales_flag" "sales_flag \<noteq> purchase_flag" "purchase_flag \<noteq> combined_flag"
  "combined_flag \<noteq> purchase_flag" "sales_flag \<noteq> combined_flag" "combined_flag \<noteq> sales_flag"
  by (simp_all add: purchase_flag_def sales_flag_def combined_flag_def)

definition default_settings :: "(string \<times> string) list" where
  "default_settings = [(''company_name'', ''''), (combined_flag, ''false''), (purchase_flag, ''false''),
     (sales_flag, ''false''), (''tally_host'', ''127.0.0.1''), (''tally_port'', ''9000''),
     (''tally_stock_location'', ''Main Location''), (''sales_voucher_type'', ''''), (''purchase_voucher_type'', ''''),
     (''sales_ledger_name'', ''''), (''purchase_ledger_name'', ''''), (''cgst_ledger_name'', ''''),
     (''sgst_ledger_name'', ''''), (''sales_gst_ledger_mappings'', ''''), (''round_off_ledger_name'', ''''),
     (''retry_interval_seconds'', ''180''), (''movement_analysis_days'', ''90''), (''movement_dead_below_pct'', ''10''),
     (''movement_slow_below_pct'', ''40''), (''movement_medium_up_to_pct'', ''80''),
     (''_tally_gateway_check_state'', ''{}'')]"

definition legacy_placeholder_settings :: "(string \<times> string) list" where
  "legacy_placeholder_settings = [(''company_name'', ''SWARNAGOWRI''), (''tally_host'', ''127.0.0.1''),
     (''tally_port'', ''9000''), (''tally_stock_location'', ''Main Location''), (''sales_voucher_type'', ''Sales''),
     (''purchase_voucher_type'', ''Purchase''), (''sales_ledger_name'', ''Sales @ 5%''),
     (''purchase_ledger_name'', ''Purchase @ 5%''), (''cgst_ledger_name'', ''Input CGST @  2.5 %''),
     (''sgst_ledger_name'', ''Input SGST@2.5%''), (''sales_gst_ledger_mappings'', ''''),
     (''round_off_ledger_name'', ''ROUND OFF'')]"

section \<open>GST rates and ledger mappings\<close>

text \<open>\<open>format(d.normalize(), "f")\<close>: positional notation without trailing zeros, after rounding to 28 digits.\<close>

fun fraction_digits :: "nat \<Rightarrow> rat \<Rightarrow> string" where
  "fraction_digits 0 x = []"
| "fraction_digits (Suc n) x =
     (if x = 0 then [] else digit_char (nat (floor (x * 10))) # fraction_digits n (x * 10 - of_int (floor (x * 10))))"

definition plain_decimal :: "rat \<Rightarrow> string" where
  "plain_decimal x =
    (let y = to_decimal \<bar>x\<bar>; w = floor y; ds = fraction_digits 400 (y - of_int w)
     in (if x < 0 then ''-'' else []) @ nat_str (nat w) @ (if ds = [] then [] else ''.'' @ ds))"

definition rate_out_of_range :: "string \<Rightarrow> exc" where
  "rate_out_of_range shown = ValueError (''GST rate '' @ [CHR 0x27] @ shown @ [CHR 0x27] @ '' must be between 0 and 100.'')"

definition gst_rate_key :: "rat \<Rightarrow> string \<Rightarrow> exc + string" where
  "gst_rate_key rate shown =
    (if rate < 0 \<or> 100 < rate then Inl (rate_out_of_range shown) else Inr (plain_decimal rate))"

definition gst_rate_key_text :: "string \<Rightarrow> exc + string" where
  "gst_rate_key_text text =
    (if not_finite text then Inl (rate_out_of_range text)
     else (case parse_decimal text of
       None \<Rightarrow> Inl (ValueError (''Invalid GST rate '' @ [CHR 0x27] @ text @ [CHR 0x27] @ ''.''))
     | Some r \<Rightarrow> gst_rate_key r text))"

definition line_break :: "char \<Rightarrow> bool" where
  "line_break c = (let n = of_char c :: nat in (10 \<le> n \<and> n \<le> 13) \<or> (28 \<le> n \<and> n \<le> 30) \<or> n = 133)"

text \<open>\<open>splitlines()\<close>: a carriage return and the newline after it are one break; no empty last line.\<close>

fun split_lines :: "string \<Rightarrow> string \<Rightarrow> string list" where
  "split_lines acc [] = (if acc = [] then [] else [rev acc])"
| "split_lines acc (c # cs) =
     (if line_break c then
        (if c = CHR 0x0D \<and> cs \<noteq> [] \<and> hd cs = CHR 0x0A then split_lines acc cs
         else rev acc # split_lines [] cs)
      else split_lines (c # acc) cs)"

record gst_ledgers =
  gl_sales :: string
  gl_cgst :: string
  gl_sgst :: string
  gl_igst :: string

type_synonym gst_mappings = "(string \<times> gst_ledgers) list"

definition mapping_line :: "nat \<times> string \<Rightarrow> gst_mappings \<Rightarrow> exc + gst_mappings" where
  "mapping_line numbered m =
    (case numbered of (n, raw) \<Rightarrow>
      let line = py_strip raw; parts = map py_strip (py_split_on (CHR ''|'') line);
          igst = (if length parts = 5 then parts ! 4 else [])
      in if line = [] \<or> hd line = CHR ''#'' then Inr m
         else if length parts \<notin> {4, 5} then
           Inl (ValueError (''Sales GST ledger mapping line '' @ nat_str n @ '' must contain: '' @
             ''GST rate | Sales ledger | CGST ledger | SGST ledger | IGST ledger.''))
         else (case gst_rate_key_text (parts ! 0) of Inl e \<Rightarrow> Inl e
         | Inr key \<Rightarrow>
             if parts ! 1 = [] \<or> parts ! 2 = [] \<or> parts ! 3 = [] \<or> (length parts = 5 \<and> igst = []) then
               Inl (ValueError (''Sales GST ledger mapping line '' @ nat_str n @ '' has an empty ledger name.''))
             else if key \<in> fst ` set m then Inl (ValueError (''GST rate '' @ key @ ''% is listed more than once.''))
             else Inr (m @ [(key, \<lparr>gl_sales = parts ! 1, gl_cgst = parts ! 2, gl_sgst = parts ! 3, gl_igst = igst\<rparr>)])))"

definition parse_sales_gst_ledger_mappings :: "string option \<Rightarrow> exc + gst_mappings" where
  "parse_sales_gst_ledger_mappings raw = fold_res mapping_line (enumerate 1 (split_lines [] (text_of raw))) []"

section \<open>Reading and writing settings\<close>

definition stored_setting :: "db \<Rightarrow> settings_map" where
  "stored_setting d k = map_option stg_value (find (\<lambda>r. stg_key r = k) (settings_rows d))"

definition get_setting :: "db \<Rightarrow> string \<Rightarrow> string \<Rightarrow> string" where
  "get_setting d k fallback =
    (case stored_setting d k of Some v \<Rightarrow> v
     | None \<Rightarrow> (case map_of default_settings k of Some v \<Rightarrow> v | None \<Rightarrow> fallback))"

definition get_all_settings :: "db \<Rightarrow> settings_map" where
  "get_all_settings d k = (case stored_setting d k of Some v \<Rightarrow> Some v | None \<Rightarrow> map_of default_settings k)"

definition put_setting :: "moment \<Rightarrow> string \<times> string \<Rightarrow> db \<Rightarrow> db" where
  "put_setting now kv d =
    (case kv of (k, v) \<Rightarrow>
      if stored_setting d k = None
      then d\<lparr>settings_rows := settings_rows d @ [\<lparr>stg_key = k, stg_value = v, stg_updated_at = now\<rparr>]\<rparr>
      else d\<lparr>settings_rows := upd_rows (\<lambda>r. stg_key r = k) (\<lambda>r. r\<lparr>stg_value := v, stg_updated_at := now\<rparr>) (settings_rows d)\<rparr>)"

definition dict_put :: "'a \<Rightarrow> 'b \<Rightarrow> ('a \<times> 'b) list \<Rightarrow> ('a \<times> 'b) list" where
  "dict_put k v kvs = (if k \<in> fst ` set kvs then map (\<lambda>(x, y). (x, if x = k then v else y)) kvs else kvs @ [(k, v)])"

definition ensure_default_setting :: "moment \<Rightarrow> settings_map \<Rightarrow> string \<times> string \<Rightarrow> db \<Rightarrow> db" where
  "ensure_default_setting now before kv d =
    (case kv of (k, v) \<Rightarrow>
      if stored_setting d k \<noteq> None then d
      else put_setting now (k, if k \<in> {purchase_flag, sales_flag} \<and> before combined_flag \<noteq> None
        then text_of (before combined_flag) else v) d)"

definition ensure_default_settings :: "moment \<Rightarrow> db \<Rightarrow> db" where
  "ensure_default_settings now d = fold (ensure_default_setting now (stored_setting d)) default_settings d"

text \<open>The former combined flag stands for both options, and is kept as their disjunction.\<close>

definition granular :: "(string \<times> string) list \<Rightarrow> bool" where
  "granular kvs \<longleftrightarrow> purchase_flag \<in> fst ` set kvs \<or> sales_flag \<in> fst ` set kvs"

definition spread_flag :: "(string \<times> string) list \<Rightarrow> (string \<times> string) list" where
  "spread_flag values =
    (case map_of values combined_flag of
       Some e \<Rightarrow> if granular values then values else dict_put sales_flag e (dict_put purchase_flag e values)
     | None \<Rightarrow> values)"

definition normalize_flags :: "db \<Rightarrow> (string \<times> string) list \<Rightarrow> (string \<times> string) list" where
  "normalize_flags d values =
    (let v1 = spread_flag values;
         flag = (\<lambda>k. case map_of v1 k of Some x \<Rightarrow> x | None \<Rightarrow> get_setting d k ''false'')
     in if granular v1 then
          dict_put combined_flag (if py_lower (flag purchase_flag) = ''true'' \<or> py_lower (flag sales_flag) = ''true''
            then ''true'' else ''false'') v1
        else v1)"

definition update_settings :: "moment \<Rightarrow> (string \<times> string) list \<Rightarrow> db \<Rightarrow> db" where
  "update_settings now values d = fold (put_setting now) (normalize_flags d values) d"

definition tally_sync_option_enabled :: "db \<Rightarrow> string \<Rightarrow> bool" where
  "tally_sync_option_enabled d k =
    (case stored_setting d k of Some v \<Rightarrow> py_lower v = ''true''
     | None \<Rightarrow> py_lower (get_setting d combined_flag ''false'') = ''true'')"

definition enabled_tally_sync_batch_types :: "db \<Rightarrow> batch_type list" where
  "enabled_tally_sync_batch_types d =
    (if tally_sync_option_enabled d purchase_flag then [B_PURCHASE, B_RECEIVE] else []) @
    (if tally_sync_option_enabled d sales_flag then [B_SALE, B_SALES_RETURN] else [])"

definition is_tally_enabled :: "db \<Rightarrow> bool" where
  "is_tally_enabled d \<longleftrightarrow> enabled_tally_sync_batch_types d \<noteq> []"

definition is_tally_sync_enabled_for_batch :: "db \<Rightarrow> batch_type \<Rightarrow> bool" where
  "is_tally_sync_enabled_for_batch d t \<longleftrightarrow> t \<in> set (enabled_tally_sync_batch_types d)"

section \<open>Companies\<close>

definition current_company_config :: "db \<Rightarrow> (string \<times> string) list" where
  "current_company_config d = map (\<lambda>k. (k, get_setting d k [])) company_setting_keys"

definition list_companies :: "db \<Rightarrow> company list" where
  "list_companies d = sort_key cmp_name (companies d)"

definition get_active_company :: "db \<Rightarrow> company option" where
  "get_active_company d = find cmp_is_active (companies d)"

definition get_company :: "db \<Rightarrow> nat \<Rightarrow> company option" where
  "get_company d i = find (\<lambda>c. cmp_id c = i) (companies d)"

text \<open>\<open>str(value or "")\<close> of a decoded JSON value as configurations hold them.\<close>

fun config_text :: "json \<Rightarrow> string" where
  "config_text (JStr s) = s"
| "config_text (JBool b) = (if b then ''True'' else [])"
| "config_text (JInt n) = (if n = 0 then [] else int_str n)"
| "config_text (JFloat x) = (if x = 0 then [] else float_repr x)"
| "config_text _ = []"

definition company_config :: "(string \<Rightarrow> json option) \<Rightarrow> company \<Rightarrow> (string \<times> string) list" where
  "company_config loads c =
    (let stored = (case loads (cmp_config c) of Some (JObj kvs) \<Rightarrow> JObj kvs | _ \<Rightarrow> JObj []);
         value = (\<lambda>k. case jfield k stored of Some v \<Rightarrow> config_text v | None \<Rightarrow> text_of (map_of default_settings k));
         config = map (\<lambda>k. (k, value k)) company_setting_keys
     in map (\<lambda>(k, v). (k, if k = ''tally_stock_location'' \<and> v = [] then ''Main Location'' else v)) config)"

definition clean_company_config :: "(string \<times> string) list \<Rightarrow> (string \<times> string) list" where
  "clean_company_config config =
     map (\<lambda>k. let v = py_strip (text_of (map_of config k))
       in (k, if k = ''tally_stock_location'' \<and> v = [] then ''Main Location'' else v)) company_setting_keys"

definition config_json :: "(string \<times> string) list \<Rightarrow> string" where
  "config_json kvs = ''{'' @ py_join '', '' (map (\<lambda>(k, v). json_string True k @ '': '' @ json_string True v) kvs) @ ''}''"

definition new_company :: "string \<Rightarrow> (string \<times> string) list \<Rightarrow> bool \<Rightarrow> moment \<Rightarrow> db \<Rightarrow> company" where
  "new_company name config active now d = \<lparr>cmp_id = next_id cmp_id (companies d), cmp_name = name,
     cmp_config = config_json config, cmp_is_active = active, cmp_created_at = now\<rparr>"

definition ensure_company_records :: "moment \<Rightarrow> db \<Rightarrow> db" where
  "ensure_company_records now d =
    (case sort_key cmp_id (companies d) of
       first # rest \<Rightarrow>
         if get_active_company d = None
         then d\<lparr>companies := upd_rows (\<lambda>c. cmp_id c = cmp_id first) (\<lambda>c. c\<lparr>cmp_is_active := True\<rparr>) (companies d)\<rparr>
         else d
     | [] \<Rightarrow>
         let config = current_company_config d; name = py_strip (text_of (map_of config ''company_name''))
         in if name = [] then d else d\<lparr>companies := [new_company name config True now d]\<rparr>)"

definition validate_company_fields :: "(string \<times> string) list \<Rightarrow> string option" where
  "validate_company_fields config =
    (let field = (\<lambda>k. py_strip (text_of (map_of config k))); port = field ''tally_port''
     in if field ''company_name'' = [] then Some ''Company name is required.''
        else if field ''tally_host'' = [] then Some ''Tally host is required.''
        else if port = [] \<or> \<not> list_all is_digit port \<or> \<not> (1 \<le> parse_nat port \<and> parse_nat port \<le> 65535) then
          Some ''Tally port must be a whole number between 1 and 65535.''
        else (case parse_sales_gst_ledger_mappings (map_of config ''sales_gst_ledger_mappings'') of
            Inl e \<Rightarrow> Some (exc_text e) | Inr m \<Rightarrow> None))"

definition company_label :: "string \<Rightarrow> (string \<times> string) list \<Rightarrow> string" where
  "company_label name clean = py_strip (if name = [] then text_of (map_of clean ''company_name'') else name)"

definition add_company :: "string \<Rightarrow> (string \<times> string) list \<Rightarrow> moment \<Rightarrow> db \<Rightarrow> exc + db \<times> company" where
  "add_company name config now d =
    (let clean = clean_company_config config; label = company_label name clean
     in if label = [] then Inl (ValueError ''A company label is required.'')
        else if label \<in> cmp_name ` set (companies d) then
          Inl (ValueError (''A company named '' @ [CHR 0x27] @ label @ [CHR 0x27] @ '' already exists.''))
        else (case validate_company_fields clean of Some m \<Rightarrow> Inl (ValueError m)
        | None \<Rightarrow>
            let first = (companies d = []); row = new_company label clean first now d;
                d1 = d\<lparr>companies := companies d @ [row]\<rparr>
            in Inr (if first then update_settings now clean d1 else d1, row)))"

definition update_company :: "nat \<Rightarrow> string \<Rightarrow> (string \<times> string) list \<Rightarrow> moment \<Rightarrow> db \<Rightarrow> exc + db" where
  "update_company cid name config now d =
    (case get_company d cid of None \<Rightarrow> Inl (ValueError ''Company not found.'')
     | Some c \<Rightarrow>
       let clean = clean_company_config config; label = company_label name clean
       in if label = [] then Inl (ValueError ''A company label is required.'')
          else if list_ex (\<lambda>x. cmp_name x = label \<and> cmp_id x \<noteq> cid) (companies d) then
            Inl (ValueError (''A company named '' @ [CHR 0x27] @ label @ [CHR 0x27] @ '' already exists.''))
          else (case validate_company_fields clean of Some m \<Rightarrow> Inl (ValueError m)
          | None \<Rightarrow>
              let d1 = d\<lparr>companies := upd_rows (\<lambda>x. cmp_id x = cid)
                    (\<lambda>x. x\<lparr>cmp_name := label, cmp_config := config_json clean\<rparr>) (companies d)\<rparr>
              in Inr (if cmp_is_active c then update_settings now clean d1 else d1)))"

definition activate_company :: "(string \<Rightarrow> json option) \<Rightarrow> nat \<Rightarrow> moment \<Rightarrow> db \<Rightarrow> exc + db" where
  "activate_company loads cid now d =
    (case get_company d cid of None \<Rightarrow> Inl (ValueError ''Company not found.'')
     | Some c \<Rightarrow> Inr (update_settings now (dict_put combined_flag ''false'' (company_config loads c))
         (d\<lparr>companies := map (\<lambda>x. x\<lparr>cmp_is_active := (cmp_id x = cid)\<rparr>) (companies d)\<rparr>)))"

definition delete_company :: "nat \<Rightarrow> db \<Rightarrow> exc + db" where
  "delete_company cid d =
    (case get_company d cid of None \<Rightarrow> Inl (ValueError ''Company not found.'')
     | Some c \<Rightarrow>
         if length (companies d) \<le> 1 then Inl (ValueError ''At least one company is required.'')
         else if cmp_is_active c then Inl (ValueError ''Activate another company before deleting this one.'')
         else Inr (d\<lparr>companies := filter (\<lambda>x. cmp_id x \<noteq> cid) (companies d)\<rparr>))"

definition save_active_company_config :: "(string \<times> string) list \<Rightarrow> db \<Rightarrow> db" where
  "save_active_company_config config d =
    (case get_active_company d of None \<Rightarrow> d
     | Some c \<Rightarrow> d\<lparr>companies := upd_rows (\<lambda>x. cmp_id x = cmp_id c)
         (\<lambda>x. x\<lparr>cmp_config := config_json (clean_company_config config)\<rparr>) (companies d)\<rparr>)"

definition persist_settings_and_active_company :: "moment \<Rightarrow> (string \<times> string) list \<Rightarrow> db \<Rightarrow> db" where
  "persist_settings_and_active_company now values d = save_active_company_config values (update_settings now values d)"

definition is_legacy_config :: "(string \<Rightarrow> json option) \<Rightarrow> company \<Rightarrow> bool" where
  "is_legacy_config loads c \<longleftrightarrow>
    (let stored = (case loads (cmp_config c) of Some v \<Rightarrow> v | None \<Rightarrow> JObj [])
     in list_all (\<lambda>k. jfield k stored = Some (JStr (text_of (map_of legacy_placeholder_settings k))) \<or>
          (jfield k stored = None \<and> map_of default_settings k = map_of legacy_placeholder_settings k)) company_setting_keys)"

definition clear_legacy_placeholder_settings :: "(string \<Rightarrow> json option) \<Rightarrow> moment \<Rightarrow> db \<Rightarrow> db" where
  "clear_legacy_placeholder_settings loads now d =
    (if is_tally_enabled d \<or> list_ex (\<lambda>(k, v). get_setting d k [] \<noteq> v) legacy_placeholder_settings then d
     else
       let reset = (\<lambda>k e. if stored_setting e k = None then e else put_setting now (k, text_of (map_of default_settings k)) e);
           d1 = fold reset company_setting_keys d
       in d1\<lparr>companies := filter (\<lambda>c. \<not> (cmp_name c = ''SWARNAGOWRI'' \<and> is_legacy_config loads c)) (companies d1)\<rparr>)"

section \<open>What a change of the settings leaves\<close>

lemma put_setting_frame [simp]:
  "companies (put_setting now kv d) = companies d" "serials (put_setting now kv d) = serials d"
  "outbox (put_setting now kv d) = outbox d"
  by (simp_all add: put_setting_def split: prod.splits)

lemma put_settings_frame [simp]: "companies (fold (put_setting now) kvs d) = companies d"
  by (induction kvs arbitrary: d) simp_all

lemma update_settings_companies [simp]: "companies (update_settings now kvs d) = companies d"
  by (simp add: update_settings_def)

lemma stored_put:
  "stored_setting (put_setting now (k, v) d) x = (if x = k then Some v else stored_setting d x)"
proof (cases "find (\<lambda>r. stg_key r = k) (settings_rows d)")
  case None
  then show ?thesis by (simp add: put_setting_def stored_setting_def find_append split: option.splits)
next
  case (Some r)
  have "find (\<lambda>r. stg_key r = x) (upd_rows (\<lambda>r. stg_key r = k) (\<lambda>r. r\<lparr>stg_value := v, stg_updated_at := now\<rparr>) (settings_rows d))
    = map_option (\<lambda>r. if stg_key r = k then r\<lparr>stg_value := v, stg_updated_at := now\<rparr> else r)
        (find (\<lambda>r. stg_key r = x) (settings_rows d))"
    by (rule find_upd_rows) simp
  with Some show ?thesis
    by (auto simp: put_setting_def stored_setting_def map_option_case split: option.splits dest: find_SomeD)
qed

lemma stored_put_all:
  "distinct (map fst kvs) \<Longrightarrow> stored_setting (fold (put_setting now) kvs d) k =
     (case map_of kvs k of Some v \<Rightarrow> Some v | None \<Rightarrow> stored_setting d k)"
proof (induction kvs arbitrary: d)
  case Nil
  then show ?case by simp
next
  case (Cons kv kvs)
  obtain a v where kv: "kv = (a, v)" by (cases kv)
  with Cons.prems have "map_of kvs a = None" by (simp add: map_of_eq_None_iff)
  with kv Cons.IH [of "put_setting now (a, v) d"] Cons.prems show ?case
    by (cases "k = a") (simp_all add: stored_put cong: option.case_cong)
qed

lemma map_of_replace:
  "map_of (map (\<lambda>(a, b). (a, if a = k then v else b)) kvs) x =
     (if x = k \<and> k \<in> fst ` set kvs then Some v else map_of kvs x)"
  by (induction kvs) force+

lemma map_of_dict_put [simp]: "map_of (dict_put k v kvs) x = (if x = k then Some v else map_of kvs x)"
proof (cases "k \<in> fst ` set kvs")
  case True
  then show ?thesis by (simp add: dict_put_def map_of_replace)
next
  case False
  then have "map_of kvs k = None" by (simp add: map_of_eq_None_iff)
  with False show ?thesis by (simp add: dict_put_def map_add_def split: option.splits)
qed

lemma dict_put_keys: "fst ` set (dict_put k v kvs) = insert k (fst ` set kvs)"
  by (force simp: dict_put_def)

lemma dict_put_distinct: "distinct (map fst kvs) \<Longrightarrow> distinct (map fst (dict_put k v kvs))"
  by (auto simp: dict_put_def comp_def case_prod_beta')

lemma normalize_flags_distinct:
  "distinct (map fst kvs) \<Longrightarrow> distinct (map fst (normalize_flags d kvs))"
  by (auto simp: normalize_flags_def spread_flag_def Let_def dict_put_distinct split: option.splits)

lemma update_settings_stored:
  "distinct (map fst kvs) \<Longrightarrow> stored_setting (update_settings now kvs d) k =
     (case map_of (normalize_flags d kvs) k of Some v \<Rightarrow> Some v | None \<Rightarrow> stored_setting d k)"
  unfolding update_settings_def by (rule stored_put_all) (rule normalize_flags_distinct)

text \<open>The combined flag and the two options agree.\<close>

definition option_on :: "db \<Rightarrow> string \<Rightarrow> bool" where
  "option_on d k \<longleftrightarrow> map_option py_lower (stored_setting d k) = Some ''true''"

definition flags_agree :: "db \<Rightarrow> bool" where
  "flags_agree d \<longleftrightarrow> option_on d combined_flag =
     (option_on d purchase_flag \<or> option_on d sales_flag)"

definition flags_stored :: "db \<Rightarrow> bool" where
  "flags_stored d \<longleftrightarrow> (\<forall>k \<in> {combined_flag, purchase_flag, sales_flag}. stored_setting d k \<noteq> None)"

lemma tally_options_on:
  "flags_stored d \<Longrightarrow> is_tally_enabled d \<longleftrightarrow>
     option_on d purchase_flag \<or> option_on d sales_flag"
  by (auto simp: is_tally_enabled_def enabled_tally_sync_batch_types_def tally_sync_option_enabled_def flags_stored_def
    option_on_def)

lemma true_lower: "py_lower ''true'' = ''true''" "py_lower ''false'' = ''false''"
  by code_simp+

lemma key_in_map_of: "k \<in> fst ` set kvs \<longleftrightarrow> map_of kvs k \<noteq> None"
  by (simp add: map_of_eq_None_iff)

abbreviation flag_or :: "db \<Rightarrow> string \<Rightarrow> string option \<Rightarrow> string" where
  "flag_or d k x \<equiv> (case x of Some v \<Rightarrow> v | None \<Rightarrow> get_setting d k ''false'')"

abbreviation combined :: "db \<Rightarrow> string option \<Rightarrow> string option \<Rightarrow> string" where
  "combined d p s \<equiv> (if py_lower (flag_or d purchase_flag p) = ''true'' \<or>
     py_lower (flag_or d sales_flag s) = ''true'' then ''true'' else ''false'')"

lemma normalize_flags_cases:
  fixes kvs :: "(string \<times> string) list" and d :: db
  defines "p \<equiv> map_of kvs purchase_flag" and "s \<equiv> map_of kvs sales_flag"
    and "e \<equiv> map_of kvs combined_flag" and "m \<equiv> map_of (normalize_flags d kvs)"
  shows "p = None \<Longrightarrow> s = None \<Longrightarrow> e = None \<Longrightarrow> m = map_of kvs"
    and "p = None \<Longrightarrow> s = None \<Longrightarrow> e = Some v \<Longrightarrow>
      m = (map_of kvs)(purchase_flag \<mapsto> v, sales_flag \<mapsto> v, combined_flag \<mapsto> combined d (Some v) (Some v))"
    and "p \<noteq> None \<or> s \<noteq> None \<Longrightarrow> m = (map_of kvs)(combined_flag \<mapsto> combined d p s)"
proof -
  have g: "granular v \<longleftrightarrow> map_of v purchase_flag \<noteq> None \<or> map_of v sales_flag \<noteq> None" for v
    by (simp add: granular_def key_in_map_of)
  show "m = map_of kvs" if "p = None" "s = None" "e = None"
    using that unfolding assms by (simp add: normalize_flags_def spread_flag_def g)
  show "m = (map_of kvs)(purchase_flag \<mapsto> v, sales_flag \<mapsto> v, combined_flag \<mapsto> combined d (Some v) (Some v))"
    if "p = None" "s = None" "e = Some v"
  proof -
    have "spread_flag kvs = dict_put sales_flag v (dict_put purchase_flag v kvs)"
      using that by (simp add: spread_flag_def g assms)
    then show ?thesis by (simp add: normalize_flags_def g assms fun_eq_iff)
  qed
  show "m = (map_of kvs)(combined_flag \<mapsto> combined d p s)" if n: "p \<noteq> None \<or> s \<noteq> None"
  proof -
    from n have "granular kvs" unfolding g assms .
    then have "spread_flag kvs = kvs" by (simp add: spread_flag_def split: option.split)
    with \<open>granular kvs\<close> show ?thesis by (simp add: normalize_flags_def assms fun_eq_iff)
  qed
qed

lemma normalize_flags_agree:
  assumes "distinct (map fst kvs)" "flags_stored d" "flags_agree d"
  shows "flags_stored (update_settings now kvs d) \<and> flags_agree (update_settings now kvs d)"
proof -
  note st = update_settings_stored [OF assms(1), of now d]
  note defs = flags_stored_def flags_agree_def option_on_def get_setting_def true_lower
  consider "map_of kvs purchase_flag = None" "map_of kvs sales_flag = None" "map_of kvs combined_flag = None"
    | v where "map_of kvs purchase_flag = None" "map_of kvs sales_flag = None" "map_of kvs combined_flag = Some v"
    | "map_of kvs purchase_flag \<noteq> None \<or> map_of kvs sales_flag \<noteq> None"
    by blast
  then show ?thesis
  proof cases
    case 1
    with assms(2,3) show ?thesis by (simp add: st normalize_flags_cases(1) defs)
  next
    case 2
    with assms(2,3) show ?thesis by (simp add: st normalize_flags_cases(2) defs)
  next
    case 3
    obtain x y z where "stored_setting d purchase_flag = Some x" "stored_setting d sales_flag = Some y"
      "stored_setting d combined_flag = Some z" using assms(2) by (auto simp: flags_stored_def)
    then show ?thesis
      unfolding defs st normalize_flags_cases(3) [OF 3]
      by (cases "map_of kvs purchase_flag"; cases "map_of kvs sales_flag") (simp_all add: true_lower get_setting_def)
  qed
qed

section \<open>The companies as a machine\<close>

definition active_count :: "db \<Rightarrow> nat" where
  "active_count d = length (filter cmp_is_active (companies d))"

definition companies_ok :: "db \<Rightarrow> bool" where
  "companies_ok d \<longleftrightarrow> distinct (map cmp_id (companies d)) \<and> distinct (map cmp_name (companies d)) \<and>
     (companies d \<noteq> [] \<longrightarrow> active_count d = 1)"

datatype company_op =
    AddCompany string "(string \<times> string) list" moment
  | UpdateCompany nat string "(string \<times> string) list" moment
  | ActivateCompany nat moment
  | DeleteCompany nat
  | SaveSettings "(string \<times> string) list" moment

text \<open>One request of the settings page; a refused one leaves the database as it was.\<close>

fun company_step :: "(string \<Rightarrow> json option) \<Rightarrow> company_op \<Rightarrow> db \<Rightarrow> db" where
  "company_step loads (AddCompany n c now) d = (case add_company n c now d of Inl e \<Rightarrow> d | Inr (d', row) \<Rightarrow> d')"
| "company_step loads (UpdateCompany i n c now) d = (case update_company i n c now d of Inl e \<Rightarrow> d | Inr d' \<Rightarrow> d')"
| "company_step loads (ActivateCompany i now) d = (case activate_company loads i now d of Inl e \<Rightarrow> d | Inr d' \<Rightarrow> d')"
| "company_step loads (DeleteCompany i) d = (case delete_company i d of Inl e \<Rightarrow> d | Inr d' \<Rightarrow> d')"
| "company_step loads (SaveSettings v now) d = persist_settings_and_active_company now v d"

lemma companies_okI: "companies e = companies d \<Longrightarrow> companies_ok d \<Longrightarrow> companies_ok e"
  by (simp add: companies_ok_def active_count_def)

lemma add_company_ok:
  assumes "add_company n c now d = Inr (d', row)" "companies_ok d"
  shows "companies_ok d' \<and> companies d' = companies d @ [row] \<and> cmp_name row \<notin> cmp_name ` set (companies d) \<and>
    (cmp_is_active row \<longleftrightarrow> companies d = [])"
proof -
  have d': "companies d' = companies d @ [row]" "cmp_name row \<notin> cmp_name ` set (companies d)"
    "cmp_id row = next_id cmp_id (companies d)" "cmp_is_active row \<longleftrightarrow> companies d = []"
    using assms(1) by (auto simp: add_company_def Let_def new_company_def split: if_splits option.splits)
  have "distinct (map cmp_id (companies d'))"
    unfolding d'(1) by (rule distinct_snoc_next_id) (use assms(2) d'(3) in \<open>simp_all add: companies_ok_def\<close>)
  then show ?thesis using assms(2) d' by (auto simp: companies_ok_def active_count_def)
qed

lemma distinct_upd_name:
  assumes "distinct (map cmp_id cs)" "distinct (map cmp_name cs)" "\<forall>x \<in> set cs. cmp_name x = n \<longrightarrow> cmp_id x = i"
    and "\<And>x. cmp_name (f x) = n" "\<And>x. cmp_id (f x) = cmp_id x"
  shows "distinct (map cmp_name (upd_rows (\<lambda>x. cmp_id x = i) f cs))"
  using assms(1-3)
proof (induction cs)
  case Nil
  then show ?case by simp
next
  case (Cons c cs)
  let ?g = "\<lambda>x. if cmp_id x = i then f x else x"
  have "cmp_name (?g c) \<noteq> cmp_name (?g x)" if x: "x \<in> set cs" for x
  proof -
    have "cmp_id c \<noteq> cmp_id x" "cmp_name c \<noteq> cmp_name x" using Cons.prems(1,2) x by auto
    then show ?thesis using Cons.prems(3) x assms(4) by auto
  qed
  then have "cmp_name (?g c) \<notin> cmp_name ` set (upd_rows (\<lambda>x. cmp_id x = i) f cs)"
    unfolding upd_rows_def set_map image_image by blast
  with Cons show ?case by (simp add: upd_rows_Cons)
qed

lemma filter_active_upd:
  "(\<And>x. cmp_is_active (f x) = cmp_is_active x) \<Longrightarrow>
     length (filter cmp_is_active (upd_rows p f cs)) = length (filter cmp_is_active cs)"
  by (induction cs) (auto simp: upd_rows_Cons)

lemma update_company_ok:
  assumes "update_company i n c now d = Inr d'" "companies_ok d"
  shows "companies_ok d'"
proof -
  obtain label conf where d': "companies d' = upd_rows (\<lambda>x. cmp_id x = i) (\<lambda>x. x\<lparr>cmp_name := label, cmp_config := conf\<rparr>) (companies d)"
    and free: "\<forall>x \<in> set (companies d). cmp_name x = label \<longrightarrow> cmp_id x = i"
    using assms(1) by (auto simp: update_company_def Let_def list_ex_iff split: if_splits option.splits)
  have "distinct (map cmp_name (companies d'))"
    unfolding d' by (rule distinct_upd_name [OF _ _ free]) (use assms(2) in \<open>simp_all add: companies_ok_def\<close>)
  moreover have "map cmp_id (companies d') = map cmp_id (companies d)" unfolding d' by (rule map_upd_rows) simp
  moreover have "active_count d' = active_count d" unfolding active_count_def d' by (rule filter_active_upd) simp
  moreover have "companies d' = [] \<longleftrightarrow> companies d = []" unfolding d' by (simp add: upd_rows_def)
  ultimately show ?thesis using assms(2) by (simp add: companies_ok_def)
qed

lemma single_key:
  assumes "distinct (map key rows)" "r \<in> set rows"
  shows "length (filter (\<lambda>x. key x = key r) rows) = 1"
  using count_rows_key [OF assms(1), of "key r" "\<lambda>x. True"] find_key_distinct [OF assms] by (simp add: count_rows_def)

lemma activate_company_ok:
  assumes "activate_company loads i now d = Inr d'" "companies_ok d"
  shows "companies_ok d' \<and> map_option cmp_id (get_active_company d') = Some i"
proof -
  obtain c where c: "get_company d i = Some c"
    and d': "companies d' = map (\<lambda>x. x\<lparr>cmp_is_active := (cmp_id x = i)\<rparr>) (companies d)"
    using assms(1) by (auto simp: activate_company_def split: option.splits)
  have ci: "c \<in> set (companies d)" "cmp_id c = i" using find_SomeD [OF c [unfolded get_company_def]] by simp_all
  have "filter cmp_is_active (companies d') = map (\<lambda>x. x\<lparr>cmp_is_active := True\<rparr>) (filter (\<lambda>x. cmp_id x = i) (companies d))"
    unfolding d' filter_map comp_def by (auto intro!: map_cong)
  then have n: "active_count d' = 1"
    using single_key [of cmp_id "companies d" c] ci assms(2) by (simp add: active_count_def companies_ok_def)
  have "\<exists>x \<in> set (companies d'). cmp_is_active x" unfolding d' using ci by auto
  then obtain a where a: "get_active_company d' = Some a"
    by (metis find_None_iff get_active_company_def not_None_eq)
  then have "a \<in> set (companies d') \<and> cmp_is_active a" by (simp add: get_active_company_def find_SomeD)
  then have "cmp_id a = i" by (auto simp: d')
  with a n assms(2) show ?thesis by (simp add: companies_ok_def d' comp_def)
qed

lemma delete_company_ok:
  assumes "delete_company i d = Inr d'" "companies_ok d"
  shows "companies_ok d' \<and> get_active_company d' = get_active_company d \<and> companies d' \<noteq> []"
proof -
  obtain c where c: "get_company d i = Some c" "\<not> cmp_is_active c" "1 < length (companies d)"
    and d': "companies d' = filter (\<lambda>x. cmp_id x \<noteq> i) (companies d)"
    using assms(1) by (auto simp: delete_company_def split: option.splits if_splits)
  have idle: "cmp_id x \<noteq> i" if "x \<in> set (companies d)" "cmp_is_active x" for x
    using that c assms(2) find_key_distinct [of cmp_id "companies d" x]
    by (auto simp: get_company_def companies_ok_def)
  have "filter (\<lambda>x. cmp_id x \<noteq> i \<and> cmp_is_active x) (companies d) = filter cmp_is_active (companies d)"
    by (rule filter_cong) (use idle in auto)
  then have n: "active_count d' = active_count d" by (simp add: active_count_def d')
  moreover have "active_count d = 1" using assms(2) c(3) by (auto simp: companies_ok_def)
  ultimately have ne: "companies d' \<noteq> []" by (auto simp: active_count_def)
  have "find cmp_is_active (filter (\<lambda>x. cmp_id x \<noteq> i) cs) = find cmp_is_active cs"
    if "\<forall>x \<in> set cs. cmp_is_active x \<longrightarrow> cmp_id x \<noteq> i" for cs
    using that by (induction cs) auto
  then have "get_active_company d' = get_active_company d"
    unfolding get_active_company_def d' using idle by blast
  with ne n \<open>active_count d = 1\<close> assms(2) show ?thesis by (simp add: companies_ok_def d' distinct_map_filter)
qed

lemma company_step_ok: "companies_ok d \<Longrightarrow> companies_ok (company_step loads x d)"
proof (induction x)
  case (AddCompany n c now)
  then show ?case using add_company_ok by (fastforce split: sum.splits)
next
  case (UpdateCompany i n c now)
  then show ?case using update_company_ok by (fastforce split: sum.splits)
next
  case (ActivateCompany i now)
  then show ?case using activate_company_ok by (fastforce split: sum.splits)
next
  case (DeleteCompany i)
  then show ?case using delete_company_ok by (fastforce split: sum.splits)
next
  case (SaveSettings v now)
  let ?d = "update_settings now v d"
  have "companies_ok (save_active_company_config v ?d)"
  proof (cases "get_active_company ?d")
    case None
    with SaveSettings show ?thesis by (simp add: save_active_company_config_def companies_okI [of ?d d])
  next
    case (Some c)
    let ?f = "\<lambda>x. x\<lparr>cmp_config := config_json (clean_company_config v)\<rparr>"
    have cs: "companies (save_active_company_config v ?d) = upd_rows (\<lambda>x. cmp_id x = cmp_id c) ?f (companies d)"
      using Some by (simp add: save_active_company_config_def)
    have "map cmp_id (upd_rows p ?f cs) = map cmp_id cs" "map cmp_name (upd_rows p ?f cs) = map cmp_name cs"
      "length (filter cmp_is_active (upd_rows p ?f cs)) = length (filter cmp_is_active cs)"
      "upd_rows p ?f cs = [] \<longleftrightarrow> cs = []" for p and cs :: "company list"
      by (simp_all add: map_upd_rows filter_active_upd) (simp add: upd_rows_def)
    with SaveSettings show ?thesis by (simp add: companies_ok_def active_count_def cs)
  qed
  then show ?case by (simp add: persist_settings_and_active_company_def)
qed

interpretation company_machine: machine "company_step loads" companies_ok for loads
  by unfold_locales (rule company_step_ok)

lemma company_config_keys [simp]: "map fst (company_config loads c) = company_setting_keys"
  by (simp add: company_config_def Let_def comp_def case_prod_beta')

lemma company_keys: "distinct company_setting_keys" "combined_flag \<notin> set company_setting_keys"
  "purchase_flag \<notin> set company_setting_keys" "sales_flag \<notin> set company_setting_keys"
  by code_simp+

section \<open>Properties\<close>

text \<open>
  C10. Through any sequence of additions, edits, activations, deletions and saved settings the
  identifiers and names of the companies stay distinct, and exactly one company is active
  as soon as there is one.
\<close>

theorem one_active_company:
  assumes "companies_ok d"
  shows "companies_ok (run_ops (company_step loads) ops d)"
  using assms by (rule company_machine.run_inv)

text \<open>
  Activating a company makes it the active one, stores its configuration and switches
  the transfer to Tally off in both directions, so that nothing is posted to the books of
  another company by mistake.
\<close>

theorem activation_stops_sync:
  assumes "activate_company loads i now d = Inr d'" "companies_ok d"
  shows "map_option cmp_id (get_active_company d') = Some i \<and> \<not> is_tally_enabled d' \<and>
    (\<forall>c k. get_company d i = Some c \<longrightarrow> k \<in> set company_setting_keys \<longrightarrow>
       stored_setting d' k = map_of (company_config loads c) k)"
proof -
  obtain c where c: "get_company d i = Some c"
    and d': "d' = update_settings now (dict_put combined_flag ''false'' (company_config loads c))
      (d\<lparr>companies := map (\<lambda>x. x\<lparr>cmp_is_active := (cmp_id x = i)\<rparr>) (companies d)\<rparr>)" (is "_ = update_settings now ?v ?d")
    using assms(1) by (auto simp: activate_company_def split: option.splits)
  have cfg: "fst ` set (company_config loads c) = set company_setting_keys"
    by (metis company_config_keys set_map)
  have none: "map_of (company_config loads c) k = None" if "k \<notin> set company_setting_keys" for k
    using that by (simp add: map_of_eq_None_iff cfg)
  have "distinct (map fst ?v)" by (rule dict_put_distinct) (simp add: company_keys)
  note st = update_settings_stored [OF this, of now ?d]
  have "map_of ?v purchase_flag = None" "map_of ?v sales_flag = None" "map_of ?v combined_flag = Some ''false''"
    by (simp_all add: none company_keys)
  note m = normalize_flags_cases(2) [OF this, of ?d]
  have off: "stored_setting d' purchase_flag = Some ''false''" "stored_setting d' sales_flag = Some ''false''"
    unfolding d' st m by simp_all
  then have "\<not> is_tally_enabled d'"
    by (simp add: is_tally_enabled_def enabled_tally_sync_batch_types_def tally_sync_option_enabled_def true_lower)
  moreover have "stored_setting d' k = map_of (company_config loads c) k" if "k \<in> set company_setting_keys" for k
  proof -
    have "k \<noteq> purchase_flag" "k \<noteq> sales_flag" "k \<noteq> combined_flag" using that company_keys by auto
    moreover obtain v where "map_of (company_config loads c) k = Some v"
      using \<open>k \<in> set company_setting_keys\<close> cfg by (metis map_of_eq_None_iff not_None_eq)
    ultimately show ?thesis unfolding d' st m by simp
  qed
  ultimately show ?thesis using activate_company_ok [OF assms] c by simp
qed

text \<open>
  However the settings are changed, the combined Tally flag stays the disjunction of the
  two options.
\<close>

theorem flags_stay_in_step:
  assumes "distinct (map fst values)" "flags_stored d" "flags_agree d"
  shows "flags_agree (update_settings now values d) \<and>
    (is_tally_enabled (update_settings now values d) = option_on (update_settings now values d) combined_flag)"
  using normalize_flags_agree [OF assms, of now] tally_options_on [of "update_settings now values d"]
  by (simp add: flags_agree_def)

end
