(* ===== verification/Scenarios.thy ===== *)
theory Scenarios
  imports Examples Delivery Configuration
begin

text \<open>
  The sample shop of \<open>Examples\<close> run through the Master connection, the Tally
  connection and the routes: the witnesses of their properties.
\<close>

section \<open>Delivery\<close>

definition ex_event :: outbox_event where
  "ex_event = \<lparr>evt_id = 1, evt_event_id = ex_uuid 1, evt_type = ''STOCK_SNAPSHOT'', evt_schema_version = 1,
     evt_aggregate_type = ''INITIAL_INVENTORY'', evt_aggregate_id = ''FR-7:INITIAL-INVENTORY:000001'', evt_batch_id = None,
     evt_payload_json = ''{}'', evt_payload_sha256 = ''2'', evt_status = O_PENDING, evt_attempts = 0,
     evt_next_attempt_at = None, evt_last_error = None, evt_created_at = 0, evt_sending_at = None, evt_sent_at = None\<rparr>"

definition ex_queued_db :: db where
  "ex_queued_db = ex_db\<lparr>outbox := [ex_event], outbox_sequence := 1\<rparr>"

definition ex_net :: "nat \<Rightarrow> delivery" where
  "ex_net k = (10, Answer 200 (JsonBody (JObj [(''data'', JObj [(''acknowledgements'', JList [JObj [
     (''event_id'', JStr (ex_uuid 1)), (''sequence'', JInt 1)]]), (''last_sequence'', JInt 1)])])), 20)"

lemma ex_outbox_ok: "outbox_ok ex_sha ex_queued_db" "sent_downwards ex_queued_db"
  by code_simp+

theorem push_in_sequence_witness:
  "\<exists>d'. push_pending_events ex_sha ex_settings ex_net 25 ex_queued_db = Inr (d', 1) \<and>
     sent_count d' = sent_count ex_queued_db + 1 \<and> sent_downwards d'"
proof -
  have "case push_pending_events ex_sha ex_settings ex_net 25 ex_queued_db of Inl e \<Rightarrow> False | Inr (d', n) \<Rightarrow> n = 1"
    by code_simp
  then obtain d' where p: "push_pending_events ex_sha ex_settings ex_net 25 ex_queued_db = Inr (d', 1)"
    by (auto split: sum.splits prod.splits)
  from push_in_sequence [OF p ex_outbox_ok] p show ?thesis by simp
qed

theorem outbox_history_witness:
  "\<exists>new. map frozen (outbox (run_ops (outbox_step ex_sha ex_settings)
     [Queue (ex_uuid 2) 5 ex_request, Push ex_net 25] ex_queued_db)) = frozen ex_event # new"
proof -
  have "outbox_inv ex_sha ex_queued_db" by (simp add: outbox_inv_def ex_outbox_ok)
  moreover have "map frozen (outbox ex_queued_db) = [frozen ex_event]" by (simp add: ex_queued_db_def)
  ultimately show ?thesis
    using outbox_history [of ex_sha ex_queued_db ex_settings "[Queue (ex_uuid 2) 5 ex_request, Push ex_net 25]"]
    by (simp only: append.simps)
qed

section \<open>Companies\<close>

definition ex_company :: "nat \<Rightarrow> string \<Rightarrow> bool \<Rightarrow> company" where
  "ex_company i n a = \<lparr>cmp_id = i, cmp_name = n, cmp_config = ''{}'', cmp_is_active = a, cmp_created_at = 0\<rparr>"

definition ex_flag :: "string \<Rightarrow> string \<Rightarrow> setting_row" where
  "ex_flag k v = \<lparr>stg_key = k, stg_value = v, stg_updated_at = 0\<rparr>"

definition ex_company_db :: db where
  "ex_company_db = ex_db\<lparr>companies := [ex_company 1 ''North'' True, ex_company 2 ''South'' False],
     settings_rows := [ex_flag combined_flag ''true'', ex_flag purchase_flag ''false'', ex_flag sales_flag ''true'']\<rparr>"

definition ex_loads :: "string \<Rightarrow> json option" where
  "ex_loads s = (if s = ''{}'' then Some (JObj []) else None)"

lemma ex_companies_ok: "companies_ok ex_company_db" by code_simp

theorem one_active_company_witness:
  "companies_ok (run_ops (company_step ex_loads) [ActivateCompany 2 5, DeleteCompany 1] ex_company_db)"
  by (rule one_active_company) (rule ex_companies_ok)

theorem activation_stops_sync_witness:
  "\<exists>d'. activate_company ex_loads 2 5 ex_company_db = Inr d' \<and> is_tally_enabled ex_company_db \<and> \<not> is_tally_enabled d'"
proof -
  have "\<not> isl (activate_company ex_loads 2 5 ex_company_db)" "is_tally_enabled ex_company_db" by code_simp+
  then obtain d' where d': "activate_company ex_loads 2 5 ex_company_db = Inr d'" "is_tally_enabled ex_company_db"
    using Inr_exists by blast
  with activation_stops_sync [OF d'(1) ex_companies_ok] show ?thesis by blast
qed

theorem flags_stay_in_step_witness:
  "flags_agree (update_settings 7 [(purchase_flag, ''true''), (sales_flag, ''false'')] ex_company_db)"
proof -
  have "distinct (map fst [(purchase_flag, ''true''), (sales_flag, ''false'')])" "flags_stored ex_company_db"
    "flags_agree ex_company_db" by code_simp+
  then show ?thesis using flags_stay_in_step by blast
qed

end
