(* ===== verification/Transfers.thy ===== *)
theory Transfers
  imports Outbox PyJson
begin

text \<open>
  Transfers between franchises, \<open>app/services/transfer.py\<close>: the outbound side (draft,
  dispatch, receipt reported by the Master) and the inbound side (manifest received as a
  command, scanning, receipt).  A nested transaction that raises leaves the database as it
  was, so an operation is a function to an exception or the new database.
\<close>

section \<open>Finding a transfer\<close>

datatype transfer_ref = RowRef local_transfer | UuidRef string | IdRef nat

fun transfer_direction_value :: "transfer_direction \<Rightarrow> string" where
  "transfer_direction_value OUTBOUND = ''OUTBOUND''"
| "transfer_direction_value INBOUND = ''INBOUND''"

definition transfer_by_uuid :: "db \<Rightarrow> string \<Rightarrow> local_transfer option" where
  "transfer_by_uuid d u = find (\<lambda>t. trf_uuid t = u) (transfers d)"

fun find_transfer :: "db \<Rightarrow> transfer_ref \<Rightarrow> local_transfer option" where
  "find_transfer d (RowRef t) = Some t"
| "find_transfer d (UuidRef u) = transfer_by_uuid d u"
| "find_transfer d (IdRef i) = get_transfer d i"

definition resolve_transfer :: "db \<Rightarrow> transfer_ref \<Rightarrow> transfer_direction \<Rightarrow> exc + local_transfer" where
  "resolve_transfer d ref dir =
    (case find_transfer d ref of None \<Rightarrow> Inl (TransferError ''Transfer not found.'')
     | Some t \<Rightarrow> if trf_direction t \<noteq> dir
         then Inl (TransferError (''Transfer is not '' @ py_lower (transfer_direction_value dir) @ ''.''))
         else Inr t)"

definition open_outbound :: "transfer_status list" where
  "open_outbound = [TS_DRAFT, TS_PENDING_MASTER, TS_DISPATCHED, TS_PARTIALLY_RECEIVED]"

definition receivable :: "transfer_status list" where
  "receivable = [TS_AWAITING_RECEIPT, TS_PARTIALLY_RECEIVED]"

section \<open>The outbound side\<close>

definition create_outbound_transfer ::
  "settings \<Rightarrow> string \<Rightarrow> nat \<Rightarrow> string \<Rightarrow> string option \<Rightarrow> moment \<Rightarrow> db \<Rightarrow> exc + db \<times> local_transfer"
where
  "create_outbound_transfer cfg uuid uid peer notes now d =
    (let destination = normalize_franchise_code peer in
     if destination = [] then Inl (TransferError ''Choose a destination franchise.'')
     else if 40 < length destination then Inl (TransferError ''Destination franchise code must be 40 characters or fewer.'')
     else (case configured_franchise_code cfg None of Inl e \<Rightarrow> Inl e
     | Inr local \<Rightarrow>
         if local \<noteq> [] \<and> destination = local then
           Inl (TransferError ''Source and destination franchise must be different.'')
         else
           let row = \<lparr>trf_id = next_id trf_id (transfers d), trf_uuid = uuid, trf_direction = OUTBOUND, trf_status = TS_DRAFT,
                 trf_local_code = (if local = [] then None else Some local), trf_peer_code = destination,
                 trf_created_by_id = Some uid, trf_notes = strip_or_none notes, trf_last_error = None, trf_created_at = now,
                 trf_dispatched_at = None, trf_received_at = None\<rparr>
           in Inr (d\<lparr>transfers := transfers d @ [row]\<rparr>, row)))"

definition new_transfer_item :: "db \<Rightarrow> nat \<Rightarrow> serial \<Rightarrow> product \<Rightarrow> moment \<Rightarrow> transfer_item" where
  "new_transfer_item d tid s p now = \<lparr>tri_id = next_id tri_id (transfer_items d), tri_transfer_id = tid,
     tri_serial_id = Some (ser_id s), tri_manifest_number = ser_number s, tri_product_code = prd_code p,
     tri_product_name = prd_name p, tri_scanned = False, tri_received = False, tri_scanned_at = None,
     tri_received_at = None, tri_created_at = now\<rparr>"

definition reservation :: "db \<Rightarrow> nat \<Rightarrow> transfer_item option" where
  "reservation d sid =
     find (\<lambda>i. tri_serial_id i = Some sid \<and> (case get_transfer d (tri_transfer_id i) of None \<Rightarrow> False
       | Some t \<Rightarrow> trf_direction t = OUTBOUND \<and> trf_status t \<in> set open_outbound)) (transfer_items d)"

definition add_outbound_serial :: "transfer_ref \<Rightarrow> string \<Rightarrow> moment \<Rightarrow> db \<Rightarrow> exc + db \<times> transfer_item" where
  "add_outbound_serial ref number now d =
    (case resolve_transfer d ref OUTBOUND of Inl e \<Rightarrow> Inl e
     | Inr t \<Rightarrow>
       let n = normalize_serial number in
       if trf_status t \<noteq> TS_DRAFT then Inl (TransferError ''Only draft transfers can be edited.'')
       else (case serial_by_number d n of None \<Rightarrow> Inl (TransferError (n @ '' is not registered at this franchise.''))
       | Some s \<Rightarrow>
         if \<not> ser_active s \<or> ser_status s \<noteq> S_IN_STOCK then Inl (TransferError (n @ '' is not currently in local stock.''))
         else (case reservation d (ser_id s) of
             Some i \<Rightarrow> Inl (TransferError (if tri_transfer_id i = trf_id t then n @ '' is already in this transfer.''
               else n @ '' is already reserved by another transfer.''))
           | None \<Rightarrow> (case product_of d s of None \<Rightarrow> Inl (AttributeError ''product'')
             | Some p \<Rightarrow>
                 let row = new_transfer_item d (trf_id t) s p now
                 in Inr (d\<lparr>transfer_items := transfer_items d @ [row]\<rparr>, row)))))"

definition remove_outbound_serial :: "transfer_ref \<Rightarrow> nat \<Rightarrow> db \<Rightarrow> exc + db" where
  "remove_outbound_serial ref iid d =
    (case resolve_transfer d ref OUTBOUND of Inl e \<Rightarrow> Inl e
     | Inr t \<Rightarrow>
       if trf_status t \<noteq> TS_DRAFT then Inl (TransferError ''Only draft transfers can be edited.'')
       else (case find (\<lambda>i. tri_id i = iid) (transfer_items d) of None \<Rightarrow> Inl (TransferError ''Transfer item not found.'')
       | Some i \<Rightarrow>
           if tri_transfer_id i \<noteq> trf_id t then Inl (TransferError ''Transfer item not found.'')
           else Inr (d\<lparr>transfer_items := filter (\<lambda>i. tri_id i \<noteq> iid) (transfer_items d)\<rparr>)))"

text \<open>The serial of an item and its event.\<close>

definition tri_serial :: "db \<Rightarrow> transfer_item \<Rightarrow> serial option" where
  "tri_serial d i = Option.bind (tri_serial_id i) (get_serial d)"

definition transfer_event :: "db \<Rightarrow> transfer_item \<Rightarrow> json option" where
  "transfer_event d i = Option.bind (tri_serial d i) (\<lambda>s. map_option (\<lambda>p.
     network_event_item p s None None (Some (serial_status_value S_IN_STOCK))) (product_of d s))"

definition dispatch_payload :: "db \<Rightarrow> local_transfer \<Rightarrow> string \<Rightarrow> (string \<times> json) list" where
  "dispatch_payload d t actor =
    [(''reference'', JStr (trf_uuid t)), (''actor'', JStr actor), (''destination_franchise_code'', JStr (trf_peer_code t)),
     (''transfer_id'', JStr (trf_uuid t)),
     (''items'', JList (List.map_filter (transfer_event d) (sort_key tri_manifest_number (items_of_transfer d (trf_id t)))))]"

definition transfer_note :: "transaction_type \<Rightarrow> serial \<Rightarrow> serial_status \<Rightarrow> serial_status \<Rightarrow> string \<Rightarrow> string \<Rightarrow> movement_note" where
  "transfer_note ty s src tgt reference notes = \<lparr>nt_type = ty, nt_serial = Some s, nt_product = None, nt_batch = None,
     nt_from = Some src, nt_to = Some tgt, nt_reason = None, nt_tally = None, nt_reference = Some reference, nt_notes = Some notes\<rparr>"

text \<open>One serial leaves: the loop of \<open>dispatch_outbound_transfer\<close>; \<open>view\<close> is the session's copy.\<close>

definition dispatch_item :: "db \<Rightarrow> local_transfer \<Rightarrow> nat \<Rightarrow> moment \<Rightarrow> transfer_item \<Rightarrow> db \<Rightarrow> exc + db" where
  "dispatch_item view t uid now i d =
    (case tri_serial view i of None \<Rightarrow> Inl (TransferError (tri_manifest_number i @ '' is missing from local inventory.''))
     | Some s \<Rightarrow>
       (case claim_serial (ser_id s) S_IN_STOCK S_IN_TRANSIT d of (n, d1) \<Rightarrow>
         if n \<noteq> 1 then Inl (TransferError (ser_number s @ '' is no longer available; review the transfer.''))
         else Inr (log_inventory_transaction uid
           (transfer_note T_TRANSFER_OUT s S_IN_STOCK S_IN_TRANSIT (trf_uuid t)
             (''Dispatched to franchise '' @ trf_peer_code t @ ''.'')) now d1)))"

definition transfer_request :: "string \<Rightarrow> string \<Rightarrow> (string \<times> json) list \<Rightarrow> moment \<Rightarrow> event_request" where
  "transfer_request ty uuid payload occurred = \<lparr>erq_type = ty, erq_aggregate_type = ''TRANSFER'', erq_aggregate_id = uuid,
     erq_payload = payload, erq_occurred_at = occurred, erq_schema_version = 1, erq_batch_id = None, erq_initial = False\<rparr>"

definition as_transfer_error :: "exc \<Rightarrow> exc" where
  "as_transfer_error e = (case e of MasterSyncError m \<Rightarrow> TransferError m | _ \<Rightarrow> e)"

definition dispatch_outbound_transfer ::
  "(string \<Rightarrow> string) \<Rightarrow> settings \<Rightarrow> string \<Rightarrow> transfer_ref \<Rightarrow> user \<Rightarrow> moment \<Rightarrow> db \<Rightarrow> exc + db"
where
  "dispatch_outbound_transfer sha cfg event_id ref u now d =
    (case resolve_transfer d ref OUTBOUND of Inl e \<Rightarrow> Inl e
     | Inr t \<Rightarrow>
       let its = items_of_transfer d (trf_id t) in
       if trf_status t \<noteq> TS_DRAFT then Inl (TransferError ''Only a draft transfer can be dispatched.'')
       else if its = [] then Inl (TransferError ''Add at least one serial before dispatching.'')
       else if 5000 < length its then Inl (TransferError ''A transfer can contain at most 5000 serials.'')
       else (case fold_res (dispatch_item d t (usr_id u) now) its d of Inl e \<Rightarrow> Inl e
       | Inr d1 \<Rightarrow>
           let d2 = set_transfer (trf_id t) (\<lambda>r. r\<lparr>trf_status := TS_DISPATCHED, trf_dispatched_at := Some now\<rparr>) d1
           in (case enqueue_outbox_event sha cfg event_id now
                  (transfer_request ''TRANSFER_DISPATCHED'' (trf_uuid t) (dispatch_payload d2 t (usr_username u)) now) d2 of
                Inl e \<Rightarrow> Inl (as_transfer_error e)
              | Inr (d3, row) \<Rightarrow> Inr d3)))"

section \<open>The manifest of an inbound transfer\<close>

definition unwrap_transfer_payload :: "json \<Rightarrow> exc + json \<times> json list" where
  "unwrap_transfer_payload payload =
    (let current = (if is_obj (jget ''payload'' payload) \<and> jfield ''transfer'' payload = None \<and>
           jfield ''transfer_uuid'' payload = None then jget ''payload'' payload else payload);
         data = jget_or ''transfer'' current current
     in if \<not> is_obj data then Inl (TransferError ''Transfer command is missing transfer details.'')
        else (case jget_or ''items'' current (jget_or ''items'' data (JList [])) of
            JList items \<Rightarrow> Inr (data, items)
          | _ \<Rightarrow> Inl (TransferError ''Transfer manifest must be a list.'')))"

definition transfer_uuid_of :: "json \<Rightarrow> json \<Rightarrow> string" where
  "transfer_uuid_of data payload = py_strip (str_or [jget ''transfer_uuid'' data, jget ''transfer_id'' data, jget ''id'' data,
     jget ''transfer_id'' payload, jget ''transfer_uuid'' payload])"

text \<open>\<open>date.fromisoformat\<close> on extended and basic calendar dates; week dates are not modelled.\<close>

definition from_iso :: "string \<Rightarrow> day option" where
  "from_iso s = (if length s = 8 \<and> list_all is_digit s
     then parse_iso_date (take 4 s @ ''-'' @ take 2 (drop 4 s) @ ''-'' @ drop 6 s) else parse_iso_date s)"

definition parse_date :: "json \<Rightarrow> exc + day option" where
  "parse_date v =
    (if \<not> jtrue v then Inr None
     else (case from_iso (take 10 (py_str v)) of
         None \<Rightarrow> Inl (TransferError (''Invalid transfer item date: '' @ py_str v @ ''.''))
       | Some n \<Rightarrow> Inr (Some n)))"

definition identity_text :: "string \<Rightarrow> string" where
  "identity_text s = py_lower (py_join '' '' (py_split s))"

definition same_gst :: "rat \<Rightarrow> rat \<Rightarrow> bool" where
  "same_gst a b \<longleftrightarrow> \<bar>to_double (a - b)\<bar> \<le> to_double (1 / 10000)"

definition snapshot_mismatches :: "product \<Rightarrow> json \<Rightarrow> string list" where
  "snapshot_mismatches p snap =
    (let name = jor [jget ''product_name'' snap, jget ''name'' snap];
         tally = jor [jget ''tally_stock_item_name'' snap, name];
         differs = (\<lambda>cur v. identity_text cur \<noteq> identity_text (str_or [v]))
     in (if differs (prd_name p) name then [''name''] else []) @
        (if differs (prd_hsn p) (jget ''hsn'' snap) then [''HSN''] else []) @
        (if differs (prd_unit p) (jget ''unit'' snap) then [''unit''] else []) @
        (if differs (prd_tally_name p) tally then [''Tally stock item''] else []) @
        (case to_float (jget ''gst_rate'' snap) of Inl e \<Rightarrow> [''GST rate'']
         | Inr g \<Rightarrow> if same_gst (prd_gst_rate p) g then [] else [''GST rate'']))"

definition validate_product_snapshot :: "product \<Rightarrow> json \<Rightarrow> exc option" where
  "validate_product_snapshot p snap =
    (if snapshot_mismatches p snap = [] then None
     else Some (TransferError (''Product code '' @ prd_code p @ '' conflicts with local product identity ('' @
       py_join '', '' (snapshot_mismatches p snap) @ ''). Resolve the product mapping before receiving.'')))"

definition float_or :: "json list \<Rightarrow> exc + rat" where
  "float_or vs = to_float (jor (vs @ [JInt 0]))"

definition product_from_snapshot :: "string \<Rightarrow> json \<Rightarrow> moment \<Rightarrow> db \<Rightarrow> exc + product" where
  "product_from_snapshot code snap now d =
    (let name = py_strip (str_or [jget ''product_name'' snap, jget ''name'' snap, JStr code]) in
     bind_res (float_or [jget ''gst_rate'' snap]) (\<lambda>gst.
     bind_res (float_or [jget ''default_rate'' snap, jget ''rate'' snap]) (\<lambda>rate.
     bind_res (float_or [jget ''sales_discount_rate'' snap]) (\<lambda>discount.
     bind_res (column_text (jget ''nickname'' snap)) (\<lambda>nickname.
     bind_res (column_text (jget ''category'' snap)) (\<lambda>category.
     bind_res (column_text (jget ''brand'' snap)) (\<lambda>brand.
     bind_res (column_text (jget ''alternate_tally_stock_item_name'' snap)) (\<lambda>alt. Inr
       \<lparr>prd_id = next_id prd_id (products d), prd_code = code, prd_name = name, prd_nickname = nickname,
        prd_category = category, prd_brand = brand, prd_hsn = str_or [jget ''hsn'' snap, JStr ''UNSPECIFIED''],
        prd_gst_rate = gst, prd_unit = str_or [jget ''unit'' snap, JStr ''Pcs''], prd_default_rate = rate,
        prd_sales_discount_rate = discount, prd_shelf_interval = 1, prd_purchase_qr_print_allowed = False,
        prd_tally_name = str_or [jget ''tally_stock_item_name'' snap, JStr name], prd_alt_tally_name = alt,
        prd_active = jtrue (jget_or ''active'' snap (JBool True)), prd_created_at = now\<rparr>))))))))"

definition product_by_code :: "db \<Rightarrow> string \<Rightarrow> product option" where
  "product_by_code d c = find (\<lambda>p. prd_code p = c) (products d)"

definition materialize_product :: "json \<Rightarrow> moment \<Rightarrow> db \<Rightarrow> exc + db \<times> product" where
  "materialize_product snap now d =
    (let code = normalize_serial (str_or [jget ''product_code'' snap, jget ''code'' snap]) in
     if code = [] then Inl (TransferError ''Transfer item is missing product_code.'')
     else (case product_by_code d code of
         Some p \<Rightarrow> (case validate_product_snapshot p snap of Some e \<Rightarrow> Inl e | None \<Rightarrow> Inr (d, p))
       | None \<Rightarrow> bind_res (product_from_snapshot code snap now d)
           (\<lambda>p. Inr (d\<lparr>products := products d @ [p]\<rparr>, p))))"

definition snapshot_level :: "json \<Rightarrow> warehouse_level" where
  "snapshot_level snap =
    (case warehouse_level_of (str_or [jget ''warehouse_level'' snap, JStr (warehouse_level_value COMPANY_WAREHOUSE)]) of
       Some l \<Rightarrow> l | None \<Rightarrow> COMPANY_WAREHOUSE)"

definition snapshot_columns :: "json \<Rightarrow> exc + (serial \<Rightarrow> serial)" where
  "snapshot_columns snap =
     bind_res (parse_date (jget ''mfg_date'' snap)) (\<lambda>mfg.
     bind_res (parse_date (jget ''expiry_date'' snap)) (\<lambda>expiry.
     bind_res (column_text (jget ''product_batch_number'' snap)) (\<lambda>lot.
     bind_res (column_text (jget ''warehouse'' snap)) (\<lambda>warehouse.
       Inr (\<lambda>s. s\<lparr>ser_batch_number := lot, ser_mfg_date := mfg, ser_expiry_date := expiry, ser_warehouse := warehouse,
         ser_level := snapshot_level snap, ser_location_id := None\<rparr>)))))"

definition left_before :: "db \<Rightarrow> nat \<Rightarrow> bool" where
  "left_before d sid \<longleftrightarrow> list_ex (\<lambda>i. tri_serial_id i = Some sid \<and> tri_received i \<and>
     (case get_transfer d (tri_transfer_id i) of None \<Rightarrow> False | Some t \<Rightarrow> trf_direction t = OUTBOUND)) (transfer_items d)"

definition reactivate_returning_serial :: "serial \<Rightarrow> product \<Rightarrow> json \<Rightarrow> db \<Rightarrow> exc + db \<times> serial" where
  "reactivate_returning_serial s p snap d =
    (if ser_active s \<or> ser_status s \<noteq> S_IN_TRANSIT \<or> \<not> left_before d (ser_id s) then
       Inl (TransferError (ser_number s @ '' already exists at the destination franchise.''))
     else if ser_product_id s \<noteq> prd_id p then
       Inl (TransferError (ser_number s @ '' conflicts with its historical local product.''))
     else bind_res (snapshot_columns snap) (\<lambda>f.
       let g = (\<lambda>r. f (r\<lparr>ser_active := True, ser_status := S_IN_TRANSIT\<rparr>))
       in Inr (set_serial (ser_id s) g d, g s)))"

definition incoming_serial :: "nat \<Rightarrow> string \<Rightarrow> nat \<Rightarrow> moment \<Rightarrow> serial" where
  "incoming_serial i number pid now = \<lparr>ser_id = i, ser_number = number, ser_product_id = pid, ser_status = S_IN_TRANSIT,
     ser_active = True, ser_created_at = now, ser_replaced_by_id = None, ser_label_printed_at = None,
     ser_label_printed_by_id = None, ser_batch_number = None, ser_mfg_date = None, ser_expiry_date = None,
     ser_warehouse = None, ser_level = COMPANY_WAREHOUSE, ser_location_id = None\<rparr>"

definition place_incoming :: "string \<Rightarrow> product \<Rightarrow> json \<Rightarrow> moment \<Rightarrow> db \<Rightarrow> exc + db \<times> serial" where
  "place_incoming number p snap now d =
    (case serial_by_number d number of
       Some s \<Rightarrow> reactivate_returning_serial s p snap d
     | None \<Rightarrow> bind_res (snapshot_columns snap) (\<lambda>f.
         let s = f (incoming_serial (next_id ser_id (serials d)) number (prd_id p) now)
         in Inr (d\<lparr>serials := serials d @ [s]\<rparr>, s)))"

definition manifest_number :: "json \<Rightarrow> json \<Rightarrow> string" where
  "manifest_number item snap = normalize_serial (str_or [jget ''manifest_serial_number'' item, jget ''serial_number'' snap,
     jget ''serial_number'' item])"

definition receive_manifest_item :: "nat \<Rightarrow> moment \<Rightarrow> json \<Rightarrow> db \<times> string list \<Rightarrow> exc + db \<times> string list" where
  "receive_manifest_item tid now item st =
    (case st of (d, seen) \<Rightarrow>
      let psnap = jor [jget ''product'' item, item]; ssnap = jor [jget ''serial'' item, item];
          number = manifest_number item ssnap
      in if \<not> is_obj item then Inl (TransferError ''Transfer manifest contains a malformed item.'')
         else if \<not> is_obj psnap \<or> \<not> is_obj ssnap then Inl (TransferError ''Transfer item snapshots must be objects.'')
         else if number = [] then Inl (TransferError ''Transfer item is missing a serial number.'')
         else if number \<in> set seen then Inl (TransferError (''Transfer manifest repeats '' @ number @ ''.''))
         else bind_res (materialize_product psnap now d) (\<lambda>(d1, p).
              bind_res (place_incoming number p ssnap now d1) (\<lambda>(d2, s).
              Inr (d2\<lparr>transfer_items := transfer_items d2 @ [new_transfer_item d2 tid s p now]\<rparr>, number # seen))))"

definition source_code_of :: "json \<Rightarrow> string" where
  "source_code_of data =
    (let source = jget ''source_franchise'' data
     in normalize_franchise_code (str_or [jget ''source_franchise_code'' data, jget ''source_code'' data, jget ''peer_code'' data,
          if is_obj source then jget ''code'' source else source]))"

definition apply_transfer_available_command :: "settings \<Rightarrow> json \<Rightarrow> moment \<Rightarrow> db \<Rightarrow> exc + db" where
  "apply_transfer_available_command cfg payload now d =
     bind_res (unwrap_transfer_payload payload) (\<lambda>(data, manifest).
      let uuid = transfer_uuid_of data payload in
      if uuid = [] then Inl (TransferError ''Transfer command is missing transfer_uuid.'')
      else (case transfer_by_uuid d uuid of
          Some t \<Rightarrow> if trf_direction t \<noteq> INBOUND then Inl (TransferError (''Transfer UUID collision: '' @ uuid @ ''.'')) else Inr d
        | None \<Rightarrow>
          let source = source_code_of data;
              destination = normalize_franchise_code (str_or [jget ''destination_franchise_code'' data, jget ''destination_code'' data])
          in bind_res (configured_franchise_code cfg None) (\<lambda>local.
             if source = [] then Inl (TransferError ''Transfer command is missing its source franchise.'')
             else if destination \<noteq> [] \<and> local \<noteq> [] \<and> destination \<noteq> local then
               Inl (TransferError (''Transfer '' @ uuid @ '' is addressed to another franchise.''))
             else if manifest = [] then Inl (TransferError ''Transfer manifest is empty.'')
             else bind_res (column_text (jor [jget ''notes'' data, jget ''reference'' data])) (\<lambda>notes.
               let code = (if local = [] then destination else local);
                   row = \<lparr>trf_id = next_id trf_id (transfers d), trf_uuid = uuid, trf_direction = INBOUND,
                     trf_status = TS_AWAITING_RECEIPT, trf_local_code = (if code = [] then None else Some code),
                     trf_peer_code = source, trf_created_by_id = None, trf_notes = notes, trf_last_error = None,
                     trf_created_at = now, trf_dispatched_at = None, trf_received_at = None\<rparr>
               in bind_res (fold_res (receive_manifest_item (trf_id row) now) manifest (d\<lparr>transfers := transfers d @ [row]\<rparr>, []))
                    (\<lambda>(d', seen). Inr d')))))"

section \<open>Receiving\<close>

definition claim_scan :: "nat \<Rightarrow> moment \<Rightarrow> db \<Rightarrow> nat \<times> db" where
  "claim_scan iid now d =
    (let p = (\<lambda>i. tri_id i = iid \<and> \<not> tri_scanned i \<and> \<not> tri_received i)
     in (count_rows p (transfer_items d),
         d\<lparr>transfer_items := upd_rows p (\<lambda>i. i\<lparr>tri_scanned := True, tri_scanned_at := Some now\<rparr>) (transfer_items d)\<rparr>))"

definition scan_inbound_transfer_item :: "transfer_ref \<Rightarrow> string \<Rightarrow> moment \<Rightarrow> db \<Rightarrow> exc + db" where
  "scan_inbound_transfer_item ref number now d =
     bind_res (resolve_transfer d ref INBOUND) (\<lambda>t.
      let n = normalize_serial number in
      if trf_status t \<notin> set receivable then Inl (TransferError ''This transfer is not awaiting receipt.'')
      else (case find (\<lambda>i. tri_transfer_id i = trf_id t \<and> tri_manifest_number i = n) (transfer_items d) of
          None \<Rightarrow> Inl (TransferError (n @ '' is not part of this transfer manifest.''))
        | Some i \<Rightarrow>
            if tri_received i then Inl (TransferError (n @ '' has already been received.''))
            else if tri_scanned i then Inl (TransferError (n @ '' has already been scanned for receipt.''))
            else (case claim_scan (tri_id i) now d of (k, d1) \<Rightarrow>
              if k \<noteq> 1 then Inl (TransferError (n @ '' has already been scanned for receipt.'')) else Inr d1)))"

definition receive_item :: "db \<Rightarrow> local_transfer \<Rightarrow> nat \<Rightarrow> moment \<Rightarrow> transfer_item \<Rightarrow> db \<Rightarrow> exc + db" where
  "receive_item view t uid now i d =
    (case tri_serial view i of None \<Rightarrow> Inl (TransferError (tri_manifest_number i @ '' is missing from inbound inventory.''))
     | Some s \<Rightarrow>
       (case claim_serial (ser_id s) S_IN_TRANSIT S_IN_STOCK d of (n, d1) \<Rightarrow>
         if n \<noteq> 1 then
           Inl (TransferError (ser_number s @ '' cannot be received from '' @ serial_status_value (ser_status s) @ ''.''))
         else Inr (log_inventory_transaction uid
           (transfer_note T_TRANSFER_IN s S_IN_TRANSIT S_IN_STOCK (trf_uuid t)
             (''Received from franchise '' @ trf_peer_code t @ ''.'')) now
           (set_transfer_item (tri_id i) (\<lambda>r. r\<lparr>tri_received := True, tri_received_at := Some now\<rparr>) d1))))"

definition receipt_payload :: "db \<Rightarrow> local_transfer \<Rightarrow> transfer_item list \<Rightarrow> string \<Rightarrow> (string \<times> json) list" where
  "receipt_payload d t its actor =
    [(''reference'', JStr (trf_uuid t)), (''actor'', JStr actor), (''transfer_id'', JStr (trf_uuid t)),
     (''items'', JList (List.map_filter (transfer_event d) its))]"

definition receipt_items :: "db \<Rightarrow> local_transfer \<Rightarrow> transfer_item list" where
  "receipt_items d t = filter (\<lambda>i. tri_scanned i \<and> \<not> tri_received i) (items_of_transfer d (trf_id t))"

definition close_if_complete :: "nat \<Rightarrow> moment \<Rightarrow> db \<Rightarrow> db" where
  "close_if_complete tid now d =
    (if list_all tri_received (items_of_transfer d tid)
     then set_transfer tid (\<lambda>r. r\<lparr>trf_status := TS_RECEIVED, trf_received_at := Some now\<rparr>) d
     else set_transfer tid (\<lambda>r. r\<lparr>trf_status := TS_PARTIALLY_RECEIVED\<rparr>) d)"

definition finalize_inbound_receipt ::
  "(string \<Rightarrow> string) \<Rightarrow> settings \<Rightarrow> string \<Rightarrow> transfer_ref \<Rightarrow> user \<Rightarrow> moment \<Rightarrow> db \<Rightarrow> exc + db"
where
  "finalize_inbound_receipt sha cfg event_id ref u now d =
     bind_res (resolve_transfer d ref INBOUND) (\<lambda>t.
      let its = receipt_items d t in
      if trf_status t \<notin> set receivable then Inl (TransferError ''This transfer is not awaiting receipt.'')
      else if its = [] then Inl (TransferError ''Scan at least one unreceived manifest item first.'')
      else bind_res (fold_res (receive_item d t (usr_id u) now) its d) (\<lambda>d1.
        let d2 = close_if_complete (trf_id t) now d1
        in (case enqueue_outbox_event sha cfg event_id now
              (transfer_request ''TRANSFER_RECEIVED'' (trf_uuid t) (receipt_payload d2 t its (usr_username u)) now) d2 of
             Inl e \<Rightarrow> Inl (as_transfer_error e)
           | Inr (d3, row) \<Rightarrow> Inr d3)))"

section \<open>The receipt the Master reports to the source\<close>

definition default_received :: "json list \<Rightarrow> json list" where
  "default_received manifest = map (\<lambda>i. jor [jget ''manifest_serial_number'' i, jget ''serial_number'' i])
     (filter (\<lambda>i. is_obj i \<and> jtrue (jget_or ''received'' i (JBool True))) manifest)"

definition received_serials_from_payload :: "json \<Rightarrow> json \<Rightarrow> json list \<Rightarrow> exc + string list \<times> bool" where
  "received_serials_from_payload data payload manifest =
    (let raw = (if jget ''received_serial_numbers'' payload \<noteq> JNull then jget ''received_serial_numbers'' payload
           else if jget ''received_serial_numbers'' data \<noteq> JNull then jget ''received_serial_numbers'' data
           else JList (default_received manifest));
         complete = (jtrue (jget ''complete'' data) \<or> jtrue (jget ''complete'' payload) \<or>
           jget ''status'' data = JStr (transfer_status_value TS_RECEIVED))
     in (case raw of
          JList vs \<Rightarrow> Inr (remdups (map (\<lambda>v. normalize_serial (py_str v)) (filter (\<lambda>v. py_strip (str_or [v]) \<noteq> []) vs)), complete)
        | _ \<Rightarrow> Inl (TransferError ''Transfer receipt serials must be a list.'')))"

definition settle_item :: "string list \<Rightarrow> moment \<Rightarrow> transfer_item \<Rightarrow> db \<Rightarrow> db" where
  "settle_item received now i d =
    (if tri_manifest_number i \<notin> set received \<or> tri_received i then d
     else
       let d1 = set_transfer_item (tri_id i) (\<lambda>r. r\<lparr>tri_scanned := True,
             tri_scanned_at := Some (case tri_scanned_at r of None \<Rightarrow> now | Some t \<Rightarrow> t),
             tri_received := True, tri_received_at := Some now\<rparr>) d
       in (case tri_serial d i of None \<Rightarrow> d1 | Some s \<Rightarrow> set_serial (ser_id s) (\<lambda>r. r\<lparr>ser_active := False\<rparr>) d1))"

definition settle_transfer :: "nat \<Rightarrow> moment \<Rightarrow> db \<Rightarrow> db" where
  "settle_transfer tid now d =
    (let its = items_of_transfer d tid in
     if list_all tri_received its then set_transfer tid (\<lambda>r. r\<lparr>trf_status := TS_RECEIVED, trf_received_at := Some now\<rparr>) d
     else if list_ex tri_received its then set_transfer tid (\<lambda>r. r\<lparr>trf_status := TS_PARTIALLY_RECEIVED\<rparr>) d
     else d)"

definition apply_transfer_receipt_command :: "json \<Rightarrow> moment \<Rightarrow> db \<Rightarrow> exc + db" where
  "apply_transfer_receipt_command payload now d =
     bind_res (unwrap_transfer_payload payload) (\<lambda>(data, manifest).
      let uuid = transfer_uuid_of data payload;
          missing = TransferError (''Outbound transfer '' @ uuid @ '' was not found.'')
      in if uuid = [] then Inl (TransferError ''Transfer receipt is missing transfer_uuid.'')
         else (case transfer_by_uuid d uuid of None \<Rightarrow> Inl missing
         | Some t \<Rightarrow>
             if trf_direction t \<noteq> OUTBOUND then Inl missing
             else if trf_status t = TS_DRAFT then Inl (TransferError ''A draft transfer cannot receive a receipt.'')
             else bind_res (received_serials_from_payload data payload manifest) (\<lambda>(named, complete).
               let its = items_of_transfer d (trf_id t); all_numbers = map tri_manifest_number its;
                   received = (if complete \<and> named = [] then all_numbers else named);
                   unknown = filter (\<lambda>n. n \<notin> set all_numbers) received
               in if unknown \<noteq> [] then
                    Inl (TransferError (''Receipt contains serials outside the manifest: '' @ py_join '', '' (sort (remdups unknown)) @ ''.''))
                  else Inr (settle_transfer (trf_id t) now (fold (settle_item received now) its d)))))"

end
