(* ===== verification/MasterQr.thy ===== *)
theory MasterQr
  imports Transfers
begin

text \<open>
  QR labels and products the Master sends, \<open>app/services/master_qr.py\<close>: an allocation of
  new serials, the replacement of one label, and a product that is created or brought up to
  date.  The payload is the decoded JSON object of the command.
\<close>

definition qr_text :: "json \<Rightarrow> string \<Rightarrow> nat \<Rightarrow> bool \<Rightarrow> exc + string" where
  "qr_text v name limit allow_empty =
    (case v of JStr s \<Rightarrow>
       if (s = [] \<and> \<not> allow_empty) \<or> limit < length s \<or> s \<noteq> py_strip s then
         Inl (MasterSyncError (''Master QR '' @ name @ '' is missing, too long, or has surrounding spaces.''))
       else Inr s
     | _ \<Rightarrow> Inl (MasterSyncError (''Master QR '' @ name @ '' must be text.'')))"

definition qr_optional_text :: "json \<Rightarrow> string \<Rightarrow> nat \<Rightarrow> exc + string option" where
  "qr_optional_text v name limit =
    (if v = JNull \<or> v = JStr [] then Inr None else bind_res (qr_text v name limit False) (\<lambda>s. Inr (Some s)))"

definition qr_rate :: "json \<Rightarrow> string \<Rightarrow> rat option \<Rightarrow> exc + rat" where
  "qr_rate v name maximum =
    (let check = (\<lambda>x. if x < 0 \<or> (case maximum of None \<Rightarrow> False | Some m \<Rightarrow> m < x)
           then Inl (MasterSyncError (''Master QR '' @ name @ '' is out of range.'')) else Inr x)
     in case v of JInt n \<Rightarrow> check (to_double (of_int n)) | JFloat x \<Rightarrow> check x
        | _ \<Rightarrow> Inl (MasterSyncError (''Master QR '' @ name @ '' must be a number.'')))"

definition qr_date :: "json \<Rightarrow> string \<Rightarrow> exc + day option" where
  "qr_date v name =
    (let bad = Inl (MasterSyncError (''Master QR '' @ name @ '' must be an ISO date.'')) in
     if v = JNull \<or> v = JStr [] then Inr None
     else (case v of JStr s \<Rightarrow> (case parse_iso_date s of None \<Rightarrow> bad | Some n \<Rightarrow> Inr (Some n)) | _ \<Rightarrow> bad))"

definition master_serial_number :: "string \<Rightarrow> bool" where
  "master_serial_number s \<longleftrightarrow> length s = 36 \<and> starts_with ''SQR-'' s \<and>
     list_all (\<lambda>c. is_digit c \<or> c \<in> set ''ABCDEF'') (drop 4 s)"

definition check_address :: "settings \<Rightarrow> json \<Rightarrow> string \<Rightarrow> string \<Rightarrow> exc + unit" where
  "check_address cfg payload version_error address_error =
    (if jfield ''version'' payload \<noteq> Some (JInt 1) then Inl (MasterSyncError version_error)
     else bind_res (configured_franchise_code cfg (Some True)) (\<lambda>code.
       if jget ''franchise_code'' payload \<noteq> JStr code then Inl (MasterSyncError address_error) else Inr ()))"

record product_identity =
  pid_code :: string
  pid_name :: string
  pid_tally_name :: string
  pid_alt_tally_name :: "string option"
  pid_hsn :: string
  pid_gst_rate :: rat
  pid_unit :: string
  pid_default_rate :: rat
  pid_sales_discount_rate :: rat

definition parse_identity :: "json \<Rightarrow> exc + product_identity" where
  "parse_identity v =
     bind_res (qr_text (jget ''product_code'' v) ''product code'' 80 False) (\<lambda>code.
     bind_res (qr_text (jget ''product_name'' v) ''product name'' 180 False) (\<lambda>name.
     bind_res (qr_text (jget ''hsn'' v) ''HSN'' 40 True) (\<lambda>hsn.
     bind_res (qr_text (jget ''tally_stock_item_name'' v) ''Tally stock item'' 180 False) (\<lambda>tally.
     bind_res (qr_text (jget_or ''unit'' v (JStr ''Pcs'')) ''unit'' 40 False) (\<lambda>unit.
     bind_res (qr_optional_text (jget ''alternate_tally_stock_item_name'' v) ''alternate Tally stock item'' 180) (\<lambda>alt.
     bind_res (qr_rate (jget ''gst_rate'' v) ''GST rate'' (Some 100)) (\<lambda>gst.
     bind_res (qr_rate (jget_or ''default_rate'' v (JInt 0)) ''default rate'' None) (\<lambda>rate.
     bind_res (qr_rate (jget_or ''sales_discount_rate'' v (JInt 0)) ''sales discount rate'' (Some 100)) (\<lambda>discount.
       Inr \<lparr>pid_code = code, pid_name = name, pid_tally_name = tally, pid_alt_tally_name = alt, pid_hsn = hsn,
         pid_gst_rate = gst, pid_unit = unit, pid_default_rate = rate, pid_sales_discount_rate = discount\<rparr>)))))))))"

definition identity_product :: "product_identity \<Rightarrow> bool \<Rightarrow> moment \<Rightarrow> db \<Rightarrow> product" where
  "identity_product x active now d = \<lparr>prd_id = next_id prd_id (products d), prd_code = pid_code x, prd_name = pid_name x,
     prd_nickname = None, prd_category = None, prd_brand = None, prd_hsn = pid_hsn x, prd_gst_rate = pid_gst_rate x,
     prd_unit = pid_unit x, prd_default_rate = pid_default_rate x, prd_sales_discount_rate = pid_sales_discount_rate x,
     prd_shelf_interval = 1, prd_purchase_qr_print_allowed = False, prd_tally_name = pid_tally_name x,
     prd_alt_tally_name = pid_alt_tally_name x, prd_active = active, prd_created_at = now\<rparr>"

section \<open>An allocation of serials\<close>

record label_row =
  lbr_number :: string
  lbr_batch_number :: "string option"
  lbr_mfg_date :: "day option"
  lbr_expiry_date :: "day option"
  lbr_warehouse :: "string option"
  lbr_level :: warehouse_level

definition level_of_json :: "json \<Rightarrow> warehouse_level option" where
  "level_of_json v = (case v of JStr s \<Rightarrow> warehouse_level_of s | _ \<Rightarrow> None)"

definition parse_label :: "json \<Rightarrow> label_row list \<Rightarrow> exc + label_row list" where
  "parse_label v rows =
    (if \<not> is_obj v then Inl (MasterSyncError ''Master QR allocation contains an invalid serial.'')
     else bind_res (qr_text (jget ''serial_number'' v) ''serial number'' 140 False) (\<lambda>number.
       if \<not> master_serial_number number then Inl (MasterSyncError ''Master QR allocation contains an invalid serial number.'')
       else if number \<in> lbr_number ` set rows then Inl (MasterSyncError (''Master QR allocation repeats serial '' @ number @ ''.''))
       else if jget ''status'' v \<noteq> JStr (serial_status_value S_GENERATED) then
         Inl (MasterSyncError ''New Master QRs must start as GENERATED.'')
       else bind_res (qr_date (jget ''mfg_date'' v) ''mfg date'') (\<lambda>mfg.
            bind_res (qr_date (jget ''expiry_date'' v) ''expiry date'') (\<lambda>expiry.
            if (case (mfg, expiry) of (Some m, Some e) \<Rightarrow> e \<le> m | _ \<Rightarrow> False) then
              Inl (MasterSyncError ''Master QR expiry date must be after mfg date.'')
            else (case level_of_json (jget_or ''warehouse_level'' v (JStr (warehouse_level_value COMPANY_WAREHOUSE))) of
                None \<Rightarrow> Inl (MasterSyncError ''Master QR warehouse level is invalid.'')
              | Some l \<Rightarrow>
                  bind_res (qr_optional_text (jget ''product_batch_number'' v) ''batch number'' 80) (\<lambda>lot.
                  bind_res (qr_optional_text (jget ''warehouse'' v) ''warehouse'' 80) (\<lambda>wh.
                    Inr (rows @ [\<lparr>lbr_number = number, lbr_batch_number = lot, lbr_mfg_date = mfg,
                      lbr_expiry_date = expiry, lbr_warehouse = wh, lbr_level = l\<rparr>]))))))))"

definition identity_conflict :: "product \<Rightarrow> product_identity \<Rightarrow> string option" where
  "identity_conflict p x =
    (if identity_text (prd_name p) \<noteq> identity_text (pid_name x) then Some ''product_name''
     else if prd_tally_name p \<noteq> [] \<and> identity_text (prd_tally_name p) \<noteq> identity_text (pid_tally_name x) then
       Some ''tally_stock_item_name''
     else if identity_text (prd_hsn p) \<noteq> identity_text (pid_hsn x) then Some ''hsn''
     else if identity_text (prd_unit p) \<noteq> identity_text (pid_unit x) then Some ''unit''
     else None)"

definition matching_products :: "db \<Rightarrow> string \<Rightarrow> product list" where
  "matching_products d code = filter (\<lambda>p. py_upper (prd_code p) = py_upper code) (products d)"

definition set_product :: "nat \<Rightarrow> (product \<Rightarrow> product) \<Rightarrow> db \<Rightarrow> db" where
  "set_product i f d = d\<lparr>products := upd_rows (\<lambda>p. prd_id p = i) f (products d)\<rparr>"

definition allocation_product :: "product_identity \<Rightarrow> moment \<Rightarrow> db \<Rightarrow> exc + db \<times> nat" where
  "allocation_product x now d =
    (case matching_products d (pid_code x) of
       [] \<Rightarrow> (let p = identity_product x True now d in Inr (d\<lparr>products := products d @ [p]\<rparr>, prd_id p))
     | [p] \<Rightarrow>
         if \<not> prd_active p then Inl (MasterSyncError (''Product '' @ pid_code x @ '' is inactive on Lite.''))
         else (case identity_conflict p x of
             Some field \<Rightarrow> Inl (MasterSyncError (''Product '' @ pid_code x @ '' has a different '' @ field @ '' on Lite.''))
           | None \<Rightarrow>
               if \<not> same_gst (prd_gst_rate p) (pid_gst_rate x) then
                 Inl (MasterSyncError (''Product '' @ pid_code x @ '' has a different GST rate on Lite.''))
               else Inr (if prd_tally_name p = [] then set_product (prd_id p) (\<lambda>r. r\<lparr>prd_tally_name := pid_tally_name x\<rparr>) d
                 else d, prd_id p))
     | _ \<Rightarrow> Inl (MasterSyncError (''Multiple Lite products match Master code '' @ pid_code x @ ''.'')))"

definition label_serial :: "nat \<Rightarrow> moment \<Rightarrow> label_row \<Rightarrow> nat \<Rightarrow> serial" where
  "label_serial pid now r i = \<lparr>ser_id = i, ser_number = lbr_number r, ser_product_id = pid, ser_status = S_GENERATED,
     ser_active = True, ser_created_at = now, ser_replaced_by_id = None, ser_label_printed_at = None,
     ser_label_printed_by_id = None, ser_batch_number = lbr_batch_number r, ser_mfg_date = lbr_mfg_date r,
     ser_expiry_date = lbr_expiry_date r, ser_warehouse = lbr_warehouse r, ser_level = lbr_level r, ser_location_id = None\<rparr>"

definition add_label :: "nat \<Rightarrow> moment \<Rightarrow> label_row \<Rightarrow> db \<Rightarrow> db" where
  "add_label pid now r d = d\<lparr>serials := serials d @ [label_serial pid now r (next_id ser_id (serials d))]\<rparr>"

definition existing_label :: "db \<Rightarrow> label_row list \<Rightarrow> string option" where
  "existing_label d rows = map_option ser_number (find (\<lambda>s. ser_number s \<in> lbr_number ` set rows) (serials d))"

definition apply_qr_allocated_command :: "settings \<Rightarrow> json \<Rightarrow> moment \<Rightarrow> db \<Rightarrow> exc + db" where
  "apply_qr_allocated_command cfg payload now d =
     bind_res (check_address cfg payload ''Unsupported Master QR allocation version.''
       ''Master QR allocation is addressed to a different franchise.'') (\<lambda>u.
     let data = jget ''product'' payload in
     if \<not> is_obj data then Inl (MasterSyncError ''Master QR allocation is missing product details.'')
     else bind_res (parse_identity data) (\<lambda>x.
       if jget_or ''active'' data (JBool True) \<noteq> JBool True then
         Inl (MasterSyncError ''Master cannot allocate QRs to an inactive product.'')
       else (case jget ''serials'' payload of
           JList items \<Rightarrow>
             if length items < 1 \<or> 500 < length items then
               Inl (MasterSyncError ''Master QR allocation must contain 1 to 500 serials.'')
             else bind_res (fold_res parse_label items []) (\<lambda>rows.
               case existing_label d rows of
                 Some n \<Rightarrow> Inl (MasterSyncError (''Master QR serial '' @ n @ '' already exists on Lite.''))
               | None \<Rightarrow> bind_res (allocation_product x now d) (\<lambda>(d1, pid). Inr (fold (add_label pid now) rows d1)))
         | _ \<Rightarrow> Inl (MasterSyncError ''Master QR allocation must contain 1 to 500 serials.''))))"

section \<open>The replacement of a label\<close>

definition replaceable_values :: "string list" where
  "replaceable_values = map serial_status_value [S_GENERATED, S_IN_STOCK, S_RETURNED, S_DAMAGED]"

definition replacement_serial :: "nat \<Rightarrow> string \<Rightarrow> serial_status \<Rightarrow> serial \<Rightarrow> moment \<Rightarrow> serial" where
  "replacement_serial i number status old now = \<lparr>ser_id = i, ser_number = number, ser_product_id = ser_product_id old,
     ser_status = status, ser_active = True, ser_created_at = now, ser_replaced_by_id = None, ser_label_printed_at = None,
     ser_label_printed_by_id = None, ser_batch_number = ser_batch_number old, ser_mfg_date = ser_mfg_date old,
     ser_expiry_date = ser_expiry_date old, ser_warehouse = ser_warehouse old, ser_level = ser_level old,
     ser_location_id = ser_location_id old\<rparr>"

definition retire :: "nat \<Rightarrow> serial \<Rightarrow> serial" where
  "retire new_id s = s\<lparr>ser_status := S_INVALID, ser_active := False, ser_replaced_by_id := Some new_id\<rparr>"

definition serial_events :: "db \<Rightarrow> nat list \<Rightarrow> json list" where
  "serial_events d ids = List.map_filter (\<lambda>i. Option.bind (get_serial d i)
     (\<lambda>s. map_option (\<lambda>p. network_event_item p s None None None) (product_of d s))) ids"

definition replacement_request :: "db \<Rightarrow> string \<Rightarrow> nat list \<Rightarrow> moment \<Rightarrow> event_request" where
  "replacement_request d command_id ids now = \<lparr>erq_type = ''STOCK_SNAPSHOT'', erq_aggregate_type = ''QR_REPLACEMENT'',
     erq_aggregate_id = command_id, erq_payload = [(''reference'', JStr command_id), (''actor'', JNull),
       (''reason_code'', JStr ''QR_REPLACEMENT''), (''items'', JList (serial_events d ids))],
     erq_occurred_at = now, erq_schema_version = 1, erq_batch_id = None, erq_initial = False\<rparr>"

definition swap_label :: "serial \<Rightarrow> string \<Rightarrow> moment \<Rightarrow> db \<Rightarrow> db" where
  "swap_label old number now d =
    (let new_id = next_id ser_id (serials d);
         status = (if ser_status old = S_GENERATED then S_GENERATED else S_IN_STOCK)
     in set_serial (ser_id old) (retire new_id) (d\<lparr>serials := serials d @ [replacement_serial new_id number status old now]\<rparr>))"

definition parse_replacement :: "settings \<Rightarrow> json \<Rightarrow> exc + string \<times> string \<times> string" where
  "parse_replacement cfg payload =
     bind_res (check_address cfg payload ''Unsupported Master QR replacement version.''
       ''Master QR replacement is addressed to a different franchise.'') (\<lambda>u.
     bind_res (qr_text (jget ''old_serial_number'' payload) ''old serial number'' 140 False) (\<lambda>old.
     bind_res (qr_text (jget ''new_serial_number'' payload) ''new serial number'' 140 False) (\<lambda>new.
       if \<not> master_serial_number new \<or> new = old then
         Inl (MasterSyncError ''Master QR replacement has an invalid new serial number.'')
       else (case jget ''expected_status'' payload of
           JStr st \<Rightarrow>
             if st \<notin> set replaceable_values then Inl (MasterSyncError ''Master QR replacement has an invalid expected status.'')
             else bind_res (qr_optional_text (jget ''reason'' payload) ''replacement reason'' 500) (\<lambda>r. Inr (old, new, st))
         | _ \<Rightarrow> Inl (MasterSyncError ''Master QR replacement has an invalid expected status.'')))))"

definition apply_qr_replace_command ::
  "(string \<Rightarrow> string) \<Rightarrow> settings \<Rightarrow> string \<Rightarrow> json \<Rightarrow> string \<Rightarrow> moment \<Rightarrow> db \<Rightarrow> exc + db"
where
  "apply_qr_replace_command sha cfg event_id payload command_id now d =
     bind_res (parse_replacement cfg payload) (\<lambda>(old_number, new_number, st).
      let mismatch = MasterSyncError ''Master QR replacement does not match the current Lite serial state.'' in
      case serial_by_number d old_number of None \<Rightarrow> Inl mismatch
      | Some old \<Rightarrow>
          if \<not> ser_active old \<or> serial_status_value (ser_status old) \<noteq> st then Inl mismatch
          else if serial_by_number d new_number \<noteq> None then
            Inl (MasterSyncError ''Master QR replacement serial already exists on Lite.'')
          else
            let d1 = swap_label old new_number now d
            in bind_res (enqueue_outbox_event sha cfg event_id now
                 (replacement_request d1 command_id [ser_id old, next_id ser_id (serials d)] now) d1) (\<lambda>(d2, row). Inr d2))"

section \<open>A product from the Master\<close>

definition take_identity :: "product_identity \<Rightarrow> product \<Rightarrow> product" where
  "take_identity x p = p\<lparr>prd_name := pid_name x, prd_tally_name := pid_tally_name x, prd_alt_tally_name := pid_alt_tally_name x,
     prd_hsn := pid_hsn x, prd_gst_rate := pid_gst_rate x, prd_unit := pid_unit x\<rparr>"

definition parse_upsert :: "json \<Rightarrow> exc + product_identity" where
  "parse_upsert v =
     bind_res (qr_text (jget ''product_code'' v) ''product code'' 80 False) (\<lambda>code.
     bind_res (qr_text (jget ''product_name'' v) ''product name'' 180 False) (\<lambda>name.
     bind_res (qr_text (jget ''tally_stock_item_name'' v) ''Tally stock item'' 180 False) (\<lambda>tally.
     bind_res (qr_optional_text (jget ''alternate_tally_stock_item_name'' v) ''alternate Tally stock item'' 180) (\<lambda>alt.
     bind_res (qr_text (jget ''hsn'' v) ''HSN'' 40 True) (\<lambda>hsn.
     bind_res (qr_rate (jget ''gst_rate'' v) ''GST rate'' (Some 100)) (\<lambda>gst.
     bind_res (qr_text (jget_or ''unit'' v (JStr ''Pcs'')) ''unit'' 40 False) (\<lambda>unit.
     bind_res (qr_rate (jget_or ''default_rate'' v (JInt 0)) ''default rate'' None) (\<lambda>rate.
     bind_res (qr_rate (jget_or ''sales_discount_rate'' v (JInt 0)) ''sales discount rate'' (Some 100)) (\<lambda>discount.
       Inr \<lparr>pid_code = code, pid_name = name, pid_tally_name = tally, pid_alt_tally_name = alt, pid_hsn = hsn,
         pid_gst_rate = gst, pid_unit = unit, pid_default_rate = rate, pid_sales_discount_rate = discount\<rparr>)))))))))"

definition apply_product_upsert_command :: "settings \<Rightarrow> json \<Rightarrow> moment \<Rightarrow> db \<Rightarrow> exc + db" where
  "apply_product_upsert_command cfg payload now d =
     bind_res (check_address cfg payload ''Unsupported Master product version.''
       ''Master product is addressed to a different franchise.'') (\<lambda>u.
     let data = jget ''product'' payload in
     if \<not> is_obj data then Inl (MasterSyncError ''Master product command is missing product details.'')
     else bind_res (parse_upsert data) (\<lambda>x.
       case matching_products d (pid_code x) of
         [] \<Rightarrow> Inr (d\<lparr>products := products d @
             [identity_product x (jget_or ''active'' data (JBool True) = JBool True) now d]\<rparr>)
       | [p] \<Rightarrow> Inr (set_product (prd_id p) (take_identity x) d)
       | _ \<Rightarrow> Inl (MasterSyncError (''Multiple Lite products match Master code '' @ pid_code x @ ''.''))))"

end
