(* ===== verification/Receipts.thy ===== *)
theory Receipts
  imports MasterQr
begin

text \<open>
  Payment receipts, \<open>app/services/receipts.py\<close>: the proof image is checked by its first
  bytes (a list of numbers below 256), the receipt is stored with its event, and the Master's
  decision is applied.
\<close>

definition bytes_of :: "string \<Rightarrow> nat list" where
  "bytes_of s = map of_char s"

definition max_proof_image_bytes :: nat where
  "max_proof_image_bytes = 3 * 1024 * 1024"

definition allowed_image_types :: "string list" where
  "allowed_image_types = [''image/jpeg'', ''image/png'', ''image/webp'']"

definition has_prefix :: "nat list \<Rightarrow> nat list \<Rightarrow> bool" where
  "has_prefix pre bs \<longleftrightarrow> take (length pre) bs = pre"

definition detected_image_type :: "nat list \<Rightarrow> string option" where
  "detected_image_type bs =
    (if has_prefix [255, 216, 255] bs then Some ''image/jpeg''
     else if has_prefix [137, 80, 78, 71, 13, 10, 26, 10] bs then Some ''image/png''
     else if 12 \<le> length bs \<and> take 4 bs = bytes_of ''RIFF'' \<and> take 4 (drop 8 bs) = bytes_of ''WEBP'' then Some ''image/webp''
     else None)"

definition bad_image :: exc where
  "bad_image = ReceiptError ''Proof must be a JPEG, PNG, or WebP image.''"

definition validate_proof_image :: "nat list \<Rightarrow> string option \<Rightarrow> exc + string" where
  "validate_proof_image bs supplied_type =
    (let supplied = py_lower (py_strip (hd (py_split_on (CHR '';'') (case supplied_type of None \<Rightarrow> [] | Some s \<Rightarrow> s))))
     in if bs = [] then Inl (ReceiptError ''Proof image is required.'')
        else if max_proof_image_bytes < length bs then Inl (ReceiptError ''Proof image must be 3 MB or smaller.'')
        else (case detected_image_type bs of None \<Rightarrow> Inl bad_image
        | Some t \<Rightarrow> if supplied \<noteq> [] \<and> supplied \<notin> set allowed_image_types then Inl bad_image else Inr t))"

section \<open>Base 64\<close>

definition base64_char :: "nat \<Rightarrow> char" where
  "base64_char n = (if n < 26 then char_of (65 + n) else if n < 52 then char_of (71 + n)
     else if n < 62 then char_of (n - 4) else if n = 62 then CHR ''+'' else CHR ''/'')"

fun base64 :: "nat list \<Rightarrow> string" where
  "base64 [] = []"
| "base64 [a] = [base64_char (a div 4), base64_char (a mod 4 * 16), CHR ''='', CHR ''='']"
| "base64 [a, b] = [base64_char (a div 4), base64_char (a mod 4 * 16 + b div 16), base64_char (b mod 16 * 4), CHR ''='']"
| "base64 (a # b # c # bs) = base64_char (a div 4) # base64_char (a mod 4 * 16 + b div 16) #
     base64_char (b mod 16 * 4 + c div 64) # base64_char (c mod 64) # base64 bs"

section \<open>Creating and reviewing\<close>

definition receipt_request :: "receipt \<Rightarrow> string \<Rightarrow> moment \<Rightarrow> event_request" where
  "receipt_request r actor now = \<lparr>erq_type = ''RECEIPT_SUBMITTED'', erq_aggregate_type = ''RECEIPT'', erq_aggregate_id = rcp_uuid r,
     erq_payload = [(''receipt_id'', JStr (rcp_uuid r)), (''receipt_date'', JStr (iso_date (rcp_date r))),
       (''proof_content_type'', JStr (rcp_content_type r)), (''proof_image_base64'', JStr (base64 (rcp_proof_image r))),
       (''utr_number'', jopt JStr (rcp_utr r)), (''actor'', JStr actor), (''items'', JList [])],
     erq_occurred_at = now, erq_schema_version = 1, erq_batch_id = None, erq_initial = False\<rparr>"

definition create_receipt ::
  "(string \<Rightarrow> string) \<Rightarrow> settings \<Rightarrow> string \<Rightarrow> string \<Rightarrow> user \<Rightarrow> day \<Rightarrow> nat list \<Rightarrow> string option \<Rightarrow> string \<Rightarrow> moment \<Rightarrow> db \<Rightarrow>
   exc + db \<times> receipt"
where
  "create_receipt sha cfg event_id uuid u date img content_type utr now d =
     bind_res (validate_proof_image img content_type) (\<lambda>ty.
      let n = py_upper (concat (py_split utr)) in
      if 80 < length n then Inl (ReceiptError ''UTR number must be 80 characters or fewer.'')
      else
        let row = \<lparr>rcp_id = next_id rcp_id (receipts d), rcp_uuid = uuid, rcp_date = date, rcp_proof_image = img,
              rcp_content_type = ty, rcp_utr = (if n = [] then None else Some n), rcp_status = R_PENDING, rcp_remarks = None,
              rcp_reviewed_by = None, rcp_reviewed_at = None, rcp_created_by_id = Some (usr_id u), rcp_created_at = now,
              rcp_synced_at = None\<rparr>
        in (case enqueue_outbox_event sha cfg event_id now (receipt_request row (usr_username u) now)
               (d\<lparr>receipts := receipts d @ [row]\<rparr>) of
             Inl (MasterSyncError m) \<Rightarrow> Inl (ReceiptError m)
           | Inl e \<Rightarrow> Inl e
           | Inr (d', ev) \<Rightarrow> Inr (d', row)))"

fun receipt_status_value :: "receipt_status \<Rightarrow> string" where
  "receipt_status_value R_PENDING = ''PENDING''"
| "receipt_status_value R_APPROVED = ''APPROVED''"
| "receipt_status_value R_DENIED = ''DENIED''"

definition decision_of :: "string \<Rightarrow> receipt_status option" where
  "decision_of s = find (\<lambda>r. receipt_status_value r = s) [R_APPROVED, R_DENIED]"

text \<open>
  \<open>datetime.fromisoformat\<close> on \<open>YYYY-MM-DD\<close>, optionally followed by any separator,
  \<open>HH[:MM[:SS[.fff[fff]]]]\<close> and \<open>Z\<close> or \<open>+HH:MM\<close>.
\<close>

definition two_digits :: "string \<Rightarrow> nat option" where
  "two_digits s = (if length s = 2 \<and> list_all is_digit s then Some (parse_nat s) else None)"

fun clock_fields :: "int list \<Rightarrow> string list \<Rightarrow> int option" where
  "clock_fields us [] = Some 0"
| "clock_fields (u # us) (f # fs) =
     (case (two_digits f, clock_fields us fs) of (Some n, Some r) \<Rightarrow> Some (int n * u + r) | _ \<Rightarrow> None)"
| "clock_fields [] (f # fs) = None"

definition parse_fraction :: "string \<Rightarrow> int option" where
  "parse_fraction s =
    (if s \<noteq> [] \<and> list_all is_digit s \<and> length s \<in> {3, 6} then Some (int (parse_nat s) * (if length s = 3 then 1000 else 1)) else None)"

definition parse_clock :: "string \<Rightarrow> moment option" where
  "parse_clock s =
    (let whole = takeWhile (\<lambda>c. c \<noteq> CHR ''.'') s; rest = dropWhile (\<lambda>c. c \<noteq> CHR ''.'') s; fs = py_split_on (CHR '':'') whole
     in case (clock_fields [3600000000, 60000000, 1000000] fs, if rest = [] then Some 0 else parse_fraction (tl rest)) of
          (Some t, Some f) \<Rightarrow> (if rest \<noteq> [] \<and> length fs \<noteq> 3 \<or> microseconds_per_day \<le> t then None else Some (t + f))
        | _ \<Rightarrow> None)"

definition parse_offset :: "string \<Rightarrow> moment option" where
  "parse_offset s =
    (case s of [] \<Rightarrow> Some 0
     | c # cs \<Rightarrow> if s = ''Z'' then Some 0
         else if c \<in> {CHR ''+'', CHR ''-''} then
           map_option (\<lambda>t. if c = CHR ''-'' then - t else t) (clock_fields [3600000000, 60000000] (py_split_on (CHR '':'') cs))
         else None)"

definition zone_mark :: "char \<Rightarrow> bool" where
  "zone_mark c \<longleftrightarrow> c \<in> {CHR ''+'', CHR ''-'', CHR ''Z''}"

definition parse_iso_moment :: "string \<Rightarrow> moment option" where
  "parse_iso_moment s =
    (case parse_iso_date (take 10 s) of None \<Rightarrow> None
     | Some n \<Rightarrow>
         if length s = 10 then Some (n * microseconds_per_day)
         else let t = drop 11 s; clock = takeWhile (\<lambda>c. \<not> zone_mark c) t; zone = dropWhile (\<lambda>c. \<not> zone_mark c) t
              in (case (parse_clock clock, parse_offset zone) of
                    (Some c, Some z) \<Rightarrow> Some (n * microseconds_per_day + c - z) | _ \<Rightarrow> None))"

definition none_if_empty :: "string \<Rightarrow> string option" where
  "none_if_empty s = (if s = [] then None else Some s)"

definition apply_receipt_review_command :: "json \<Rightarrow> db \<Rightarrow> exc + db" where
  "apply_receipt_review_command payload d =
    (let rid = py_strip (str_or [jget ''receipt_id'' payload]);
         status = py_upper (py_strip (str_or [jget ''status'' payload]));
         remarks = py_join '' '' (py_split (str_or [jget ''rejection_remarks'' payload]))
     in if rid = [] then Inl (MasterSyncError ''Receipt review command is missing receipt_id.'')
        else (case decision_of status of None \<Rightarrow> Inl (MasterSyncError ''Receipt review command has an invalid status.'')
        | Some st \<Rightarrow>
            if st = R_DENIED \<and> remarks = [] then Inl (MasterSyncError ''A denied receipt requires rejection remarks.'')
            else if 1000 < length remarks then Inl (MasterSyncError ''Rejection remarks must be 1,000 characters or fewer.'')
            else (case find (\<lambda>r. rcp_uuid r = rid) (receipts d) of
                None \<Rightarrow> Inl (MasterSyncError (''Receipt '' @ rid @ '' was not found on this Lite node.''))
              | Some r \<Rightarrow>
                  if rcp_status r \<noteq> R_PENDING \<and> rcp_status r \<noteq> st then
                    Inl (MasterSyncError ''Receipt has already received a different review decision.'')
                  else (case parse_iso_moment (py_str (jget ''reviewed_at'' payload)) of
                      None \<Rightarrow> Inl (MasterSyncError ''Receipt review command has an invalid reviewed_at value.'')
                    | Some t \<Rightarrow> Inr (d\<lparr>receipts := upd_rows (\<lambda>x. rcp_uuid x = rid) (\<lambda>x. x\<lparr>rcp_status := st,
                        rcp_remarks := (if st = R_DENIED then Some remarks else None),
                        rcp_reviewed_by := none_if_empty (take 120 (py_strip (str_or [jget ''reviewed_by'' payload]))),
                        rcp_reviewed_at := Some t\<rparr>) (receipts d)\<rparr>)))))"

end
