(* ===== verification/Commands.thy ===== *)
theory Commands
  imports Receipts Delivery
begin

text \<open>
  Commands from the Master, last part of \<open>app/services/master_sync.py\<close>: one command is
  applied in one transaction and remembered by its identifier and digest; polling applies the
  commands in order, commits each, acknowledges it, and stops at the first that fails.
\<close>

record command_parts =
  cmp_command :: string
  cmp_type :: string
  cmp_schema :: int
  cmp_payload :: json

text \<open>\<open>int(value)\<close> of a decoded value.\<close>

definition parse_int_text :: "string \<Rightarrow> int option" where
  "parse_int_text s =
    (let (sg, body) = strip_sign (py_strip s); parts = py_split_on (CHR ''_'') body
     in if list_all (\<lambda>p. p \<noteq> [] \<and> list_all is_digit p) parts then Some (sg * int (parse_nat (concat parts))) else None)"

fun py_int :: "json \<Rightarrow> int option" where
  "py_int (JInt n) = Some n"
| "py_int (JBool b) = Some (if b then 1 else 0)"
| "py_int (JFloat x) = Some (if x < 0 then - floor (- x) else floor x)"
| "py_int (JStr s) = parse_int_text s"
| "py_int _ = None"

definition command_parts_of :: "json \<Rightarrow> exc + command_parts" where
  "command_parts_of c =
    (let cid = py_strip (str_or [jget ''command_id'' c, jget ''id'' c]);
         ty = py_upper (py_strip (str_or [jget ''command_type'' c, jget ''type'' c]));
         payload = jget_or ''payload'' c (jget_or ''data'' c (JObj []))
     in if cid = [] then Inl (MasterSyncError ''Master command is missing command_id.'')
        else if ty = [] then Inl (MasterSyncError (''Master command '' @ cid @ '' is missing command_type.''))
        else (case py_int (jget_or ''schema_version'' c (JInt 1)) of
            None \<Rightarrow> Inl (MasterSyncError (''Master command '' @ cid @ '' has an invalid schema version.''))
          | Some v \<Rightarrow>
              if \<not> is_obj payload then Inl (MasterSyncError (''Master command '' @ cid @ '' payload must be an object.''))
              else Inr \<lparr>cmp_command = cid, cmp_type = ty, cmp_schema = v, cmp_payload = payload\<rparr>))"

text \<open>What a command does, by its type.\<close>

definition run_command ::
  "(string \<Rightarrow> string) \<Rightarrow> settings \<Rightarrow> string \<Rightarrow> moment \<Rightarrow> command_parts \<Rightarrow> db \<Rightarrow> exc + db"
where
  "run_command sha cfg event_id now c d =
    (let ty = cmp_type c; payload = cmp_payload c in
     if ty \<in> {''TRANSFER_AVAILABLE'', ''TRANSFER_INCOMING''} then apply_transfer_available_command cfg payload now d
     else if ty \<in> {''TRANSFER_RECEIPT'', ''TRANSFER_RECEIPT_STATUS''} then apply_transfer_receipt_command payload now d
     else if ty = ''RECEIPT_REVIEWED'' then apply_receipt_review_command payload d
     else if ty = ''QR_ALLOCATED'' then apply_qr_allocated_command cfg payload now d
     else if ty = ''QR_REPLACE'' then apply_qr_replace_command sha cfg event_id payload (cmp_command c) now d
     else if ty = ''PRODUCT_UPSERT'' then apply_product_upsert_command cfg payload now d
     else Inl (MasterSyncError (''Unsupported Master command type: '' @ ty @ ''.'')))"

definition inbox_row :: "db \<Rightarrow> string \<Rightarrow> inbox_command option" where
  "inbox_row d cid = find (\<lambda>r. cmd_command_id r = cid) (inbox d)"

definition new_inbox_row :: "(string \<Rightarrow> string) \<Rightarrow> command_parts \<Rightarrow> inbox_status \<Rightarrow> moment \<Rightarrow> db \<Rightarrow> inbox_command" where
  "new_inbox_row sha c status now d = \<lparr>cmd_id = next_id cmd_id (inbox d), cmd_command_id = cmp_command c, cmd_type = cmp_type c,
     cmd_schema_version = cmp_schema c, cmd_payload_json = canonical_json (cmp_payload c),
     cmd_payload_sha256 = sha (canonical_json (cmp_payload c)), cmd_status = status, cmd_attempts = 0,
     cmd_last_error = None, cmd_received_at = now, cmd_applied_at = None\<rparr>"

definition set_inbox :: "string \<Rightarrow> (inbox_command \<Rightarrow> inbox_command) \<Rightarrow> db \<Rightarrow> db" where
  "set_inbox cid f d = d\<lparr>inbox := upd_rows (\<lambda>r. cmd_command_id r = cid) f (inbox d)\<rparr>"

definition same_command :: "(string \<Rightarrow> string) \<Rightarrow> command_parts \<Rightarrow> inbox_command \<Rightarrow> bool" where
  "same_command sha c r \<longleftrightarrow> cmd_payload_sha256 r = sha (canonical_json (cmp_payload c)) \<and> cmd_type r = cmp_type c \<and>
     cmd_schema_version r = cmp_schema c"

definition start_command :: "(string \<Rightarrow> string) \<Rightarrow> command_parts \<Rightarrow> moment \<Rightarrow> db \<Rightarrow> db" where
  "start_command sha c now d =
     set_inbox (cmp_command c) (\<lambda>r. r\<lparr>cmd_attempts := cmd_attempts r + 1, cmd_status := I_RECEIVED, cmd_last_error := None\<rparr>)
      (if inbox_row d (cmp_command c) = None then d\<lparr>inbox := inbox d @ [new_inbox_row sha c I_RECEIVED now d]\<rparr> else d)"

text \<open>
  The row of an applied command answers a replay; otherwise the command runs and the row
  becomes \<open>APPLIED\<close>.  An exception leaves the transaction to the caller's rollback.
\<close>

definition execute_command ::
  "(string \<Rightarrow> string) \<Rightarrow> settings \<Rightarrow> string \<Rightarrow> moment \<Rightarrow> command_parts \<Rightarrow> db \<Rightarrow> exc + db"
where
  "execute_command sha cfg event_id now c d =
     bind_res (run_command sha cfg event_id now c (start_command sha c now d)) (\<lambda>d'.
       Inr (set_inbox (cmp_command c) (\<lambda>r. r\<lparr>cmd_status := I_APPLIED, cmd_applied_at := Some now\<rparr>) d'))"

definition apply_master_command ::
  "(string \<Rightarrow> string) \<Rightarrow> settings \<Rightarrow> string \<Rightarrow> moment \<Rightarrow> json \<Rightarrow> db \<Rightarrow> exc + db"
where
  "apply_master_command sha cfg event_id now command d =
     bind_res (command_parts_of command) (\<lambda>c.
       if cmp_schema c \<noteq> 1 then
         Inl (MasterSyncError (''Unsupported Master command schema version: '' @ int_str (cmp_schema c) @ ''.''))
       else (case inbox_row d (cmp_command c) of
           None \<Rightarrow> execute_command sha cfg event_id now c d
         | Some r \<Rightarrow>
             if \<not> same_command sha c r then
               Inl (MasterSyncError (''Master command '' @ cmp_command c @ '' conflicts with an existing command.''))
             else if cmd_status r = I_APPLIED then Inr d
             else execute_command sha cfg event_id now c d))"

definition persist_failed_command :: "(string \<Rightarrow> string) \<Rightarrow> moment \<Rightarrow> json \<Rightarrow> exc \<Rightarrow> db \<Rightarrow> exc + db" where
  "persist_failed_command sha now command e d =
     bind_res (command_parts_of command) (\<lambda>c.
      let fail = (\<lambda>d. set_inbox (cmp_command c) (\<lambda>r. r\<lparr>cmd_status := I_FAILED, cmd_attempts := cmd_attempts r + 1,
            cmd_last_error := Some (safe_error [] (OtherFailure (exc_text e)))\<rparr>) d)
      in (case inbox_row d (cmp_command c) of
           None \<Rightarrow> Inr (fail (d\<lparr>inbox := inbox d @ [new_inbox_row sha c I_RECEIVED now d]\<rparr>))
         | Some r \<Rightarrow> if cmd_status r = I_APPLIED then Inr d else Inr (fail d)))"

section \<open>Polling\<close>

definition commands_of :: "body \<Rightarrow> exc + json list" where
  "commands_of b =
    (let bad = Inl (MasterSyncError ''Master command response must contain a commands list.'') in
     case b of BadBody \<Rightarrow> Inl (MasterSyncError ''Master returned an invalid JSON response.'')
     | NoBody \<Rightarrow> Inr []
     | JsonBody JNull \<Rightarrow> Inr []
     | JsonBody (JList cs) \<Rightarrow> Inr cs
     | JsonBody v \<Rightarrow> (case (jget ''commands'' v, jget ''commands'' (jget ''data'' v)) of
          (JList cs, _) \<Rightarrow> Inr cs | (_, JList cs) \<Rightarrow> Inr cs | _ \<Rightarrow> bad))"

text \<open>An HTTP exchange the caller turns into a \<open>MasterSyncError\<close>.\<close>

definition http_body :: "string \<Rightarrow> http_result \<Rightarrow> exc + body" where
  "http_body key r =
    (case r of
       Answer status b \<Rightarrow> if 200 \<le> status \<and> status < 300 then Inr b else Inl (MasterSyncError (safe_error key (HttpFailure status)))
     | HttpRaised status b \<Rightarrow> Inl (MasterSyncError (safe_error key (HttpFailure status)))
     | NetworkRaised f \<Rightarrow> Inl (MasterSyncError (safe_error key f))
     | OtherRaised m \<Rightarrow> Inl (MasterSyncError (safe_error key (OtherFailure m))))"

text \<open>
  The polling of one answer: \<open>world k\<close> is the event identifier, the time and the
  acknowledgement of the \<open>k\<close>-th command.  The result is the database, the number of
  acknowledged commands and the exception that ended the poll, if one did.
\<close>

type_synonym poll_world = "nat \<Rightarrow> string \<times> moment \<times> http_result"

fun apply_commands ::
  "(string \<Rightarrow> string) \<Rightarrow> settings \<Rightarrow> string \<Rightarrow> poll_world \<Rightarrow> nat \<Rightarrow> json list \<Rightarrow> db \<Rightarrow> db \<times> nat \<times> exc option"
where
  "apply_commands sha cfg key world k [] d = (d, k, None)"
| "apply_commands sha cfg key world k (c # cs) d =
    (case world k of (event_id, now, ack) \<Rightarrow>
      if \<not> is_obj c then (d, k, Some (MasterSyncError ''Master returned a malformed command.''))
      else (case apply_master_command sha cfg event_id now c d of
          Inl e \<Rightarrow> (case persist_failed_command sha now c e d of Inl e' \<Rightarrow> (d, k, Some e') | Inr d' \<Rightarrow> (d', k, None))
        | Inr d' \<Rightarrow> (case http_body key ack of Inl e \<Rightarrow> (d', k, Some e)
            | Inr b \<Rightarrow> apply_commands sha cfg key world (Suc k) cs d')))"

definition poll_master_commands ::
  "(string \<Rightarrow> string) \<Rightarrow> settings \<Rightarrow> http_result \<Rightarrow> poll_world \<Rightarrow> int \<Rightarrow> db \<Rightarrow> db \<times> nat \<times> exc option"
where
  "poll_master_commands sha cfg answer world limit d =
    (if \<not> cfg_master_sync_enabled cfg \<or> limit < 1 then (d, 0, None)
     else (case require_initial_inventory_queued cfg d of Inl e \<Rightarrow> (d, 0, Some e)
     | Inr code \<Rightarrow> (case master_credentials cfg of Inl e \<Rightarrow> (d, 0, Some e)
     | Inr (url, key) \<Rightarrow> (case bind_res (http_body key answer) commands_of of Inl e \<Rightarrow> (d, 0, Some e)
     | Inr cs \<Rightarrow> apply_commands sha cfg key world 0 (take (nat limit) cs) d))))"

end
