(* ===== verification/CalendarFacts.thy ===== *)
theory CalendarFacts
  imports Calendar
begin

text \<open>Reading a printed date back: the civil calendar and its ISO text are inverse to each other.\<close>

lemma div_is: "0 < b \<Longrightarrow> b * q \<le> a \<Longrightarrow> a < b * q + b \<Longrightarrow> a div b = (q::int)"
  by (rule int_div_pos_eq [of a b q "a - b * q"]) auto

lemma year_within_century:
  fixes a b s :: int
  assumes "0 \<le> a" "a \<le> 3" "0 \<le> b" "b \<le> 24" "0 \<le> s" "s \<le> 1460" "b = 24 \<longrightarrow> s \<le> 1459"
  defines "doe \<equiv> 36524 * a + 1461 * b + s"
  defines "yoe \<equiv> (doe - doe div 1460 + doe div 36524 - doe div 146096) div 365"
  shows "0 \<le> yoe \<and> yoe < 400 \<and> 0 \<le> doe - (365 * yoe + yoe div 4 - yoe div 100) \<and>
    doe - (365 * yoe + yoe div 4 - yoe div 100) \<le> 365"
proof -
  define e where "e = (if 24 * a + b + s < 1460 then 0 else 1 :: int)"
  have e: "0 \<le> e" "e \<le> 1" "e \<le> s" "s - e \<le> 1459" "e = 1 \<longrightarrow> 1363 \<le> s - e"
    using assms(1-6) by (auto simp: e_def)
  have "doe div 1460 = 25 * a + b + e"
    using assms(1-6) by (intro div_is) (auto simp: doe_def e_def)
  moreover have "doe div 36524 = a"
    using assms(1-7) by (intro div_is) (auto simp: doe_def)
  moreover have "doe div 146096 = 0"
    using assms(1-7) by (intro div_is) (auto simp: doe_def)
  ultimately have q: "doe - doe div 1460 + doe div 36524 - doe div 146096 = 365 * (100 * a + 4 * b) + (s - e)"
    by (simp add: doe_def)
  define c where "c = (s - e) div 365"
  have c: "0 \<le> c" "c \<le> 3" "365 * c \<le> s - e" "s - e < 365 * c + 365"
  proof -
    have m: "365 * c + (s - e) mod 365 = s - e" unfolding c_def by simp
    have "0 \<le> (s - e) mod 365" "(s - e) mod 365 < 365" by simp_all
    with m show "365 * c \<le> s - e" "s - e < 365 * c + 365" by linarith+
    with e show "0 \<le> c" "c \<le> 3" by linarith+
  qed
  have y: "yoe = 100 * a + 4 * b + c"
    unfolding yoe_def q using c by (intro div_is) auto
  have "yoe div 4 = 25 * a + b" "yoe div 100 = a"
    using c assms(1-4) by (intro div_is; simp add: y)+
  then have "doe - (365 * yoe + yoe div 4 - yoe div 100) = s - 365 * c"
    by (simp add: y doe_def)
  then show ?thesis using c e y assms(1-4) by simp
qed

lemma year_of_era:
  fixes doe yoe :: int
  assumes "0 \<le> doe" "doe < 146097"
  defines "yoe \<equiv> (doe - doe div 1460 + doe div 36524 - doe div 146096) div 365"
  shows "0 \<le> yoe \<and> yoe < 400 \<and> 0 \<le> doe - (365 * yoe + yoe div 4 - yoe div 100) \<and>
    doe - (365 * yoe + yoe div 4 - yoe div 100) \<le> 365"
proof (cases "doe = 146096")
  case True
  show ?thesis unfolding yoe_def True by simp
next
  case False
  let ?a = "doe div 36524" and ?r = "doe mod 36524"
  have "36524 * ?a + 1461 * (?r div 1461) + ?r mod 1461 = doe" by simp
  moreover have "0 \<le> ?a" "?a \<le> 3" using assms(1,2) False by linarith+
  moreover have "0 \<le> ?r div 1461" "?r div 1461 \<le> 24"
  proof -
    have "0 \<le> ?r" "?r < 36524" by simp_all
    then show "0 \<le> ?r div 1461" "?r div 1461 \<le> 24" by linarith+
  qed
  moreover have "0 \<le> ?r mod 1461" "?r mod 1461 \<le> 1460" by (simp, use pos_mod_bound [of 1461 ?r] in linarith)
  moreover have "?r div 1461 = 24 \<longrightarrow> ?r mod 1461 \<le> 1459"
  proof -
    have "?r < 36524" "1461 * (?r div 1461) + ?r mod 1461 = ?r" by simp_all
    then show ?thesis by linarith
  qed
  ultimately show ?thesis
    using year_within_century [of ?a "?r div 1461" "?r mod 1461"] unfolding yoe_def by metis
qed


text \<open>The intermediate values of \<open>civil\<close>.\<close>

lemma civil_parts:
  assumes "civil n = (y, m, d)"
  obtains era doe yoe doy mp where
    "146097 * era + doe = n + 719468" "0 \<le> doe" "doe < 146097"
    "doe = 365 * yoe + yoe div 4 - yoe div 100 + doy" "0 \<le> yoe" "yoe < 400" "0 \<le> doy" "doy \<le> 365"
    "mp = (5 * doy + 2) div 153" "0 \<le> mp" "mp \<le> 11"
    "d = doy - (153 * mp + 2) div 5 + 1" "m = (if mp < 10 then mp + 3 else mp - 9)"
    "y = yoe + era * 400 + (if m \<le> 2 then 1 else 0)"
proof -
  define doe where "doe = (n + 719468) mod 146097"
  define era where "era = (n + 719468) div 146097"
  define yoe where "yoe = (doe - doe div 1460 + doe div 36524 - doe div 146096) div 365"
  define doy where "doy = doe - (365 * yoe + yoe div 4 - yoe div 100)"
  define mp where "mp = (5 * doy + 2) div 153"
  have doe: "146097 * era + doe = n + 719468" "0 \<le> doe" "doe < 146097" by (simp_all add: era_def doe_def)
  have range: "0 \<le> yoe" "yoe < 400" "0 \<le> doy" "doy \<le> 365"
    using year_of_era [OF doe(2,3), folded yoe_def, folded doy_def] by simp_all
  note doe
  moreover have "doe = 365 * yoe + yoe div 4 - yoe div 100 + doy" by (simp add: doy_def)
  moreover have "mp = (5 * doy + 2) div 153" by (rule mp_def)
  moreover have "0 \<le> mp" "mp \<le> 11" using range unfolding mp_def by linarith+
  moreover have eq: "(yoe + era * 400 + (if (if mp < 10 then mp + 3 else mp - 9) \<le> 2 then 1 else 0),
      if mp < 10 then mp + 3 else mp - 9, doy - (153 * mp + 2) div 5 + 1) = (y, m, d)"
    using assms unfolding civil_def Let_def
    by (simp only: era_def [symmetric] doe_def [symmetric] yoe_def [symmetric] doy_def [symmetric] mp_def [symmetric])
  have m: "m = (if mp < 10 then mp + 3 else mp - 9)" using eq by simp
  moreover have "d = doy - (153 * mp + 2) div 5 + 1" using eq by simp
  moreover have "y = yoe + era * 400 + (if m \<le> 2 then 1 else 0)" 
    using arg_cong [OF eq, of fst] unfolding m by (simp only: fst_conv)
  ultimately show thesis using range that by blast
qed

text \<open>The fields of a date: a month, a day of it, and what gives the day number back.\<close>

lemma civil_fields:
  assumes "civil n = (y, m, d)"
  shows "1 \<le> m" "m \<le> 12" "1 \<le> d" "d \<le> 31" "days_from_civil y m d = n"
proof -
  obtain era doe yoe doy mp where p:
    "146097 * era + doe = n + 719468" "0 \<le> doe" "doe < 146097"
    "doe = 365 * yoe + yoe div 4 - yoe div 100 + doy" "0 \<le> yoe" "yoe < 400" "0 \<le> doy" "doy \<le> 365"
    "mp = (5 * doy + 2) div 153" and mp: "0 \<le> mp" "mp \<le> 11" and
    f: "d = doy - (153 * mp + 2) div 5 + 1" "m = (if mp < 10 then mp + 3 else mp - 9)"
    "y = yoe + era * 400 + (if m \<le> 2 then 1 else 0)"
    by (rule civil_parts [OF assms])
  show "1 \<le> m" "m \<le> 12" using f(2) mp by auto
  show "1 \<le> d" "d \<le> 31" using f(1) mp p(9) by linarith+
  have "(if m \<le> 2 then y - 1 else y) = yoe + era * 400" using f(3) by simp
  moreover have "(yoe + era * 400) div 400 = era" "(yoe + era * 400) mod 400 = yoe" using p(5,6) by simp_all
  moreover have "(if m > 2 then m - 3 else m + 9) = mp" using f(2) mp by auto
  moreover have "(153 * mp + 2) div 5 + d - 1 = doy" using f(1) by simp
  moreover have "yoe * 365 + yoe div 4 - yoe div 100 + doy = doe" using p(4) by simp
  moreover have "era * 146097 + doe - 719468 = n" using p(1) by simp
  ultimately show "days_from_civil y m d = n" by (simp only: days_from_civil_def Let_def)
qed

text \<open>\<open>date.min\<close>, 0001-01-01.\<close>

definition date_min :: day where
  "date_min = - 719162"

lemma civil_year_range:
  assumes "date_min \<le> n" "n \<le> date_max" "civil n = (y, m, d)"
  shows "1 \<le> y" "y \<le> 9999"
proof -
  obtain era doe yoe doy mp where n: "146097 * era + doe = n + 719468" "0 \<le> doe" "doe < 146097" and
    doe: "doe = 365 * yoe + yoe div 4 - yoe div 100 + doy" and range: "0 \<le> yoe" "yoe < 400" "0 \<le> doy" "doy \<le> 365" and
    mp: "mp = (5 * doy + 2) div 153" and f: "m = (if mp < 10 then mp + 3 else mp - 9)"
    "y = yoe + era * 400 + (if m \<le> 2 then 1 else 0)"
    by (rule civil_parts [OF assms(3)])
  have era: "0 \<le> era" "era \<le> 24" using n assms(1,2) by (simp_all add: date_min_def date_max_def)
  show "1 \<le> y"
  proof (cases "era = 0 \<and> yoe = 0")
    case True
    then have "306 \<le> doy" using n doe assms(1) by (simp add: date_min_def)
    then have "10 \<le> mp" "mp \<le> 11" using range mp by linarith+
    then show ?thesis using f True by simp
  next
    case False
    then show ?thesis using f(2) era range by auto
  qed
  show "y \<le> 9999"
  proof (cases "era = 24 \<and> yoe = 399")
    case True
    then have "doy \<le> 305" using n doe assms(2) by (simp add: date_max_def)
    then have "mp \<le> 9" "0 \<le> mp" using range mp by linarith+
    then show ?thesis using f True by simp
  next
    case False
    then show ?thesis using f(2) era range by auto
  qed
qed

lemma nat_str_length: "n < 10 ^ Suc k \<Longrightarrow> length (nat_str n) \<le> Suc k"
proof (induction k arbitrary: n)
  case 0
  then show ?case by (subst nat_str.simps) simp
next
  case (Suc k)
  then have "length (nat_str (n div 10)) \<le> Suc k" by (intro Suc.IH) auto
  then show ?case by (subst nat_str.simps) auto
qed

lemma zero_pad_length: "n < 10 ^ Suc k \<Longrightarrow> length (zero_pad (Suc k) n) = Suc k"
  using nat_str_length [of n k] by (simp add: zero_pad_def Let_def)

theorem iso_date_parsed:
  assumes "date_min \<le> n" "n \<le> date_max"
  shows "parse_iso_date (iso_date n) = Some n"
proof -
  obtain y m d where c: "civil n = (y, m, d)" by (cases "civil n") auto
  note r = civil_fields [OF c] civil_year_range [OF assms c]
  have l: "length (zero_pad 4 (nat y)) = 4" "length (zero_pad 2 (nat m)) = 2" "length (zero_pad 2 (nat d)) = 2"
    using r zero_pad_length [of "nat y" 3] zero_pad_length [of "nat m" 1] zero_pad_length [of "nat d" 1]
    by (simp_all add: numeral_2_eq_2)
  have s: "iso_date n = zero_pad 4 (nat y) @ ''-'' @ zero_pad 2 (nat m) @ ''-'' @ zero_pad 2 (nat d)"
    by (simp add: iso_date_def c)
  have "take 4 (iso_date n) = zero_pad 4 (nat y)" "take 2 (drop 5 (iso_date n)) = zero_pad 2 (nat m)"
    "take 2 (drop 8 (iso_date n)) = zero_pad 2 (nat d)" "length (iso_date n) = 10"
    "iso_date n ! 4 = CHR ''-''" "iso_date n ! 7 = CHR ''-''"
    using l by (simp_all add: s nth_append)
  then show ?thesis
    using r zero_pad_digits [of 4 "nat y"] zero_pad_digits [of 2 "nat m"] zero_pad_digits [of 2 "nat d"]
    by (simp only: parse_iso_date_def Let_def parse_zero_pad list_all_append) (simp add: c)
qed

end
