(* ===== verification/TransferFacts.thy ===== *)
theory TransferFacts
  imports Commands CalendarFacts
begin

text \<open>
  What dispatch and receipt of a transfer do to the stock, and what an item of a dispatch
  event becomes at the franchise that receives it.
\<close>

section \<open>The claim loops of dispatch and receipt\<close>

lemma tri_serial_id: "tri_serial d i = Some s \<Longrightarrow> tri_serial_id i = Some (ser_id s)"
  by (auto simp: tri_serial_def bind_eq_Some_conv dest: get_serial_in)

lemma set_transfer_item_frame [simp]:
  "serials (set_transfer_item i f d) = serials d" "inbox (set_transfer_item i f d) = inbox d"
  "products (set_transfer_item i f d) = products d" "transfers (set_transfer_item i f d) = transfers d"
  "outbox (set_transfer_item i f d) = outbox d" "outbox_sequence (set_transfer_item i f d) = outbox_sequence d"
  by (simp_all add: set_transfer_item_def)

lemma set_transfer_frame [simp]:
  "serials (set_transfer i f d) = serials d" "inbox (set_transfer i f d) = inbox d"
  "products (set_transfer i f d) = products d" "transfer_items (set_transfer i f d) = transfer_items d"
  "outbox (set_transfer i f d) = outbox d" "outbox_sequence (set_transfer i f d) = outbox_sequence d"
  by (simp_all add: set_transfer_def)

definition the_serial_id :: "transfer_item \<Rightarrow> nat" where
  "the_serial_id i = (case tri_serial_id i of None \<Rightarrow> 0 | Some k \<Rightarrow> k)"

lemma tri_serial_cases:
  assumes "tri_serial d i \<noteq> None"
  obtains s where "tri_serial d i = Some s" "the_serial_id i = ser_id s"
proof -
  obtain s where s: "tri_serial d i = Some s" using assms by blast
  have "the_serial_id i = ser_id s" using tri_serial_id [OF s] by (simp add: the_serial_id_def)
  with s show thesis by (rule that)
qed

text \<open>
  A claim loop in which no element leaves a row in a status another element starts from: a
  row that occurs twice stops it, so a loop that ends has claimed every row once.
\<close>

locale one_way_loop = claim_loop status_of claim ok body key src tgt valid
  for status_of :: "'db \<Rightarrow> 'k \<Rightarrow> 'st option"
    and claim :: "'k \<Rightarrow> 'st \<Rightarrow> 'st \<Rightarrow> 'db \<Rightarrow> nat \<times> 'db"
    and ok :: "'db \<Rightarrow> bool"
    and body :: "'i \<Rightarrow> 'db \<Rightarrow> 'e + 'db"
    and key :: "'i \<Rightarrow> 'k"
    and src :: "'i \<Rightarrow> 'st"
    and tgt :: "'i \<Rightarrow> 'st"
    and valid :: "'i \<Rightarrow> bool" +
  assumes one_way: "src x \<noteq> tgt y"
    and body_valid: "body x d = Inr d' \<Longrightarrow> valid x"
begin

lemma loop_valid: "fold_res body xs d = Inr d' \<Longrightarrow> \<forall>x \<in> set xs. valid x"
  by (induction xs arbitrary: d) (auto split: sum.splits dest: body_valid)

lemma loop_distinct:
  assumes "fold_res body xs d = Inr d'" "ok d"
  shows "distinct (map key xs)"
  using assms
proof (induction xs arbitrary: d)
  case Nil
  then show ?case by simp
next
  case (Cons x xs)
  then obtain e where e: "body x d = Inr e" "fold_res body xs e = Inr d'"
    by (auto split: sum.splits)
  have s: "ok e" "status_of e = (status_of d)(key x := Some (tgt x))"
    using body_step [OF body_valid [OF e(1)] Cons.prems(2) e(1)] by auto
  have d: "distinct (map key xs)" by (rule Cons.IH [OF e(2) s(1)])
  have "\<forall>y \<in> set xs. status_of e (key y) = Some (src y)"
    using loop_effect [OF e(2) s(1) d loop_valid [OF e(2)]] by blast
  then have "key x \<notin> key ` set xs" using s(2) one_way by (metis fun_upd_same imageE option.inject)
  then show ?case using d by simp
qed

lemma loop_result:
  assumes "fold_res body xs d = Inr d'" "ok d"
  shows "ok d' \<and> distinct (map key xs) \<and>
    (\<forall>x \<in> set xs. status_of d (key x) = Some (src x) \<and> status_of d' (key x) = Some (tgt x)) \<and>
    (\<forall>i. i \<notin> key ` set xs \<longrightarrow> status_of d' i = status_of d i)"
  using loop_effect [OF assms loop_distinct [OF assms] loop_valid [OF assms(1)]] loop_distinct [OF assms] by blast

end

interpretation dispatch_loop: one_way_loop stock_status claim_serial serials_ok "dispatch_item view t uid now"
    the_serial_id "\<lambda>i. S_IN_STOCK" "\<lambda>i. S_IN_TRANSIT" "\<lambda>i. tri_serial view i \<noteq> None"
  for view t uid now
proof unfold_locales
  fix i d
  assume i: "tri_serial view i \<noteq> None" and ok: "serials_ok d"
  obtain s where s: "tri_serial view i = Some s" "the_serial_id i = ser_id s"
    using i by (rule tri_serial_cases)
  obtain n d1 where c: "claim_serial (ser_id s) S_IN_STOCK S_IN_TRANSIT d = (n, d1)" by fastforce
  have "serials_ok d1" using ok c claim_serials_ok [of "ser_id s" S_IN_STOCK S_IN_TRANSIT d] by simp
  then show "\<exists>d'. dispatch_item view t uid now i d = Inr d' \<and> serials_ok d' \<and>
      stock_status d' = stock_status (snd (claim_serial (the_serial_id i) S_IN_STOCK S_IN_TRANSIT d))"
    if "fst (claim_serial (the_serial_id i) S_IN_STOCK S_IN_TRANSIT d) = 1"
    using that s c by (auto simp: dispatch_item_def intro: serials_okI stock_status_cong)
  show "\<exists>e. dispatch_item view t uid now i d = Inl e"
    if "fst (claim_serial (the_serial_id i) S_IN_STOCK S_IN_TRANSIT d) \<noteq> 1"
    using that s c by (simp add: dispatch_item_def)
next
  show "tri_serial view i \<noteq> None" if "dispatch_item view t uid now i d = Inr d'" for i d d'
    using that by (cases "tri_serial view i") (simp_all add: dispatch_item_def)
qed simp

interpretation receive_loop: one_way_loop stock_status claim_serial serials_ok "receive_item view t uid now"
    the_serial_id "\<lambda>i. S_IN_TRANSIT" "\<lambda>i. S_IN_STOCK" "\<lambda>i. tri_serial view i \<noteq> None"
  for view t uid now
proof unfold_locales
  fix i d
  assume i: "tri_serial view i \<noteq> None" and ok: "serials_ok d"
  obtain s where s: "tri_serial view i = Some s" "the_serial_id i = ser_id s"
    using i by (rule tri_serial_cases)
  obtain n d1 where c: "claim_serial (ser_id s) S_IN_TRANSIT S_IN_STOCK d = (n, d1)" by fastforce
  have "serials_ok d1" using ok c claim_serials_ok [of "ser_id s" S_IN_TRANSIT S_IN_STOCK d] by simp
  then show "\<exists>d'. receive_item view t uid now i d = Inr d' \<and> serials_ok d' \<and>
      stock_status d' = stock_status (snd (claim_serial (the_serial_id i) S_IN_TRANSIT S_IN_STOCK d))"
    if "fst (claim_serial (the_serial_id i) S_IN_TRANSIT S_IN_STOCK d) = 1"
    using that s c by (auto simp: receive_item_def intro: serials_okI stock_status_cong)
  show "\<exists>e. receive_item view t uid now i d = Inl e"
    if "fst (claim_serial (the_serial_id i) S_IN_TRANSIT S_IN_STOCK d) \<noteq> 1"
    using that s c by (simp add: receive_item_def)
next
  show "tri_serial view i \<noteq> None" if "receive_item view t uid now i d = Inr d'" for i d d'
    using that by (cases "tri_serial view i") (simp_all add: receive_item_def)
qed simp


section \<open>What a received manifest item is\<close>

lemma jget_event [simp]:
  "jget ''product'' (network_event_item p s r dc st) = JNull"
  "jget ''serial'' (network_event_item p s r dc st) = JNull"
  "jget ''manifest_serial_number'' (network_event_item p s r dc st) = JNull"
  "jget ''serial_number'' (network_event_item p s r dc st) = JStr (ser_number s)"
  "jget ''product_code'' (network_event_item p s r dc st) = JStr (prd_code p)"
  "jget ''code'' (network_event_item p s r dc st) = JNull"
  "jget ''product_name'' (network_event_item p s r dc st) = JStr (prd_name p)"
  "jget ''name'' (network_event_item p s r dc st) = JNull"
  "jget ''nickname'' (network_event_item p s r dc st) = JNull"
  "jget ''category'' (network_event_item p s r dc st) = JNull"
  "jget ''brand'' (network_event_item p s r dc st) = JNull"
  "jget ''hsn'' (network_event_item p s r dc st) = JStr (prd_hsn p)"
  "jget ''unit'' (network_event_item p s r dc st) = JStr (prd_unit p)"
  "jget ''tally_stock_item_name'' (network_event_item p s r dc st) = JStr (prd_tally_name p)"
  "jget ''alternate_tally_stock_item_name'' (network_event_item p s r dc st) = JNull"
  "jget ''gst_rate'' (network_event_item p s r dc st) = JFloat (prd_gst_rate p)"
  "jget ''default_rate'' (network_event_item p s r dc st) = JNull"
  "jget ''rate'' (network_event_item p s None dc st) = JFloat (prd_default_rate p)"
  "jget ''sales_discount_rate'' (network_event_item p s r None st) = JFloat (prd_sales_discount_rate p)"
  "jget ''warehouse_level'' (network_event_item p s r dc st) = JNull"
  "jget_or ''active'' (network_event_item p s r dc st) (JBool True) = JBool True"
  "jget ''product_batch_number'' (network_event_item p s r dc st) = jopt JStr (ser_batch_number s)"
  "jget ''mfg_date'' (network_event_item p s r dc st) = jopt (\<lambda>n. JStr (iso_date n)) (ser_mfg_date s)"
  "jget ''expiry_date'' (network_event_item p s r dc st) = jopt (\<lambda>n. JStr (iso_date n)) (ser_expiry_date s)"
  "jget ''warehouse'' (network_event_item p s r dc st) = jopt JStr (ser_warehouse s)"
  "is_obj (network_event_item p s r dc st)" "jtrue (network_event_item p s r dc st)"
  by (simp_all add: network_event_item_def jget_def jget_or_def jfield_def is_obj_def)


lemma str_or_one [simp]: "str_or [JStr a] = a" "str_or [JNull, JStr a] = a" "str_or [JStr a, JNull] = a"
  by (cases "a = []"; simp add: str_or_def)+

lemma str_or_dflt [simp]: "a \<noteq> [] \<Longrightarrow> str_or (JStr a # vs) = a" "str_or [JNull, JNull, JStr a] = a"
  by (cases "vs @ [JStr []]"; simp add: str_or_def) (simp_all add: str_or_def)

lemma str_or_JNull [simp]: "str_or (JNull # v # vs) = str_or (v # vs)"
  by (simp add: str_or_def)

lemma float_or_JFloat [simp]: "float_or [JFloat x] = Inr x" "float_or [JNull, JFloat x] = Inr x"
  by (simp_all add: float_or_def to_double_def)

lemma column_text_jopt [simp]: "column_text (jopt JStr x) = Inr x"
  by (cases x) (simp_all add: jopt_def)

lemma iso_date_length: "date_min \<le> n \<Longrightarrow> n \<le> date_max \<Longrightarrow> length (iso_date n) = 10"
  using iso_date_parsed [of n] by (auto simp: parse_iso_date_def Let_def split: if_splits)

lemma parse_date_iso:
  assumes "\<forall>n. x = Some n \<longrightarrow> date_min \<le> n \<and> n \<le> date_max"
  shows "parse_date (jopt (\<lambda>n. JStr (iso_date n)) x) = Inr x"
proof (cases x)
  case None
  then show ?thesis by (simp add: parse_date_def jopt_def)
next
  case (Some n)
  then have r: "date_min \<le> n" "n \<le> date_max" using assms by auto
  have "iso_date n \<noteq> []" using iso_date_length [OF r] by auto
  then show ?thesis
    using Some iso_date_parsed [OF r] iso_date_length [OF r]
    by (simp add: parse_date_def jopt_def from_iso_def)
qed

text \<open>A serial and a product another franchise can receive without loss.\<close>

definition shippable :: "product \<Rightarrow> serial \<Rightarrow> bool" where
  "shippable p s \<longleftrightarrow> ser_number s \<noteq> [] \<and> normalize_serial (ser_number s) = ser_number s \<and>
     prd_code p \<noteq> [] \<and> normalize_serial (prd_code p) = prd_code p \<and> prd_name p \<noteq> [] \<and> py_strip (prd_name p) = prd_name p \<and>
     prd_hsn p \<noteq> [] \<and> prd_unit p \<noteq> [] \<and> prd_tally_name p \<noteq> [] \<and>
     (\<forall>n. ser_mfg_date s = Some n \<or> ser_expiry_date s = Some n \<longrightarrow> date_min \<le> n \<and> n \<le> date_max)"

definition received_product :: "product \<Rightarrow> moment \<Rightarrow> nat \<Rightarrow> product" where
  "received_product p now i = p\<lparr>prd_id := i, prd_nickname := None, prd_category := None, prd_brand := None,
     prd_shelf_interval := 1, prd_purchase_qr_print_allowed := False, prd_alt_tally_name := None, prd_active := True,
     prd_created_at := now\<rparr>"

lemma received_product_eq:
  "received_product p now i = \<lparr>prd_id = i, prd_code = prd_code p, prd_name = prd_name p, prd_nickname = None,
     prd_category = None, prd_brand = None, prd_hsn = prd_hsn p, prd_gst_rate = prd_gst_rate p, prd_unit = prd_unit p,
     prd_default_rate = prd_default_rate p, prd_sales_discount_rate = prd_sales_discount_rate p, prd_shelf_interval = 1,
     prd_purchase_qr_print_allowed = False, prd_tally_name = prd_tally_name p, prd_alt_tally_name = None,
     prd_active = True, prd_created_at = now\<rparr>"
  by (cases p) (simp add: received_product_def)

definition received_serial :: "serial \<Rightarrow> moment \<Rightarrow> nat \<Rightarrow> nat \<Rightarrow> serial" where
  "received_serial s now i pid = (incoming_serial i (ser_number s) pid now)\<lparr>ser_batch_number := ser_batch_number s,
     ser_mfg_date := ser_mfg_date s, ser_expiry_date := ser_expiry_date s, ser_warehouse := ser_warehouse s\<rparr>"

text \<open>
  C17. A parcel loses nothing on the way: the item another franchise receives from the
  dispatch event recreates the serial (number, lot, dates, warehouse) and the product
  (identity, rates) of the sender, in a shop that knew neither.
\<close>

theorem manifest_item_round_trip:
  assumes "shippable p s" "serial_by_number d (ser_number s) = None" "product_by_code d (prd_code p) = None"
    and "ser_number s \<notin> set seen"
  shows "\<exists>d'. receive_manifest_item tid now (network_event_item p s None None st) (d, seen) = Inr (d', ser_number s # seen) \<and>
    products d' = products d @ [received_product p now (next_id prd_id (products d))] \<and>
    serials d' = serials d @ [received_serial s now (next_id ser_id (serials d)) (next_id prd_id (products d))]"
proof -
  note s = assms(1)[unfolded shippable_def]
  let ?snap = "network_event_item p s None None st"
  have p: "materialize_product ?snap now d =
      Inr (d\<lparr>products := products d @ [received_product p now (next_id prd_id (products d))]\<rparr>,
        received_product p now (next_id prd_id (products d)))"
    using s assms(3) by (simp add: materialize_product_def product_from_snapshot_def received_product_eq Let_def)
  let ?p' = "received_product p now (next_id prd_id (products d))"
  let ?d1 = "d\<lparr>products := products d @ [?p']\<rparr>" and ?s' = "received_serial s now (next_id ser_id (serials d)) (next_id prd_id (products d))"
  have level: "snapshot_level ?snap = COMPANY_WAREHOUSE" by (simp add: snapshot_level_def) code_simp
  have "place_incoming (ser_number s) ?p' ?snap now ?d1 = Inr (?d1\<lparr>serials := serials d @ [?s']\<rparr>, ?s')"
    using s assms(2) level
    by (simp add: place_incoming_def serial_by_number_def snapshot_columns_def parse_date_iso received_serial_def
        incoming_serial_def received_product_def Let_def)
  moreover have "manifest_number ?snap ?snap = ser_number s" using s by (simp add: manifest_number_def)
  ultimately show ?thesis
    using s assms(4) p by (simp add: receive_manifest_item_def Let_def)
qed



section \<open>What a dispatch and a receipt leave alone\<close>

lemma claim_tables [simp]:
  "claim_serial i a b d = (n, d1) \<Longrightarrow> transfers d1 = transfers d \<and> transfer_items d1 = transfer_items d \<and>
     outbox d1 = outbox d \<and> outbox_sequence d1 = outbox_sequence d \<and> products d1 = products d \<and> inbox d1 = inbox d"
  by (auto simp: claim_serial_def Let_def)

lemma dispatch_item_frame:
  assumes "dispatch_item view t uid now i d = Inr d'"
  shows "transfers d' = transfers d \<and> transfer_items d' = transfer_items d \<and> outbox d' = outbox d \<and>
    outbox_sequence d' = outbox_sequence d"
proof (cases "tri_serial view i")
  case None
  with assms show ?thesis by (simp add: dispatch_item_def)
next
  case (Some s)
  obtain n d1 where c: "claim_serial (ser_id s) S_IN_STOCK S_IN_TRANSIT d = (n, d1)" by fastforce
  with Some assms show ?thesis using claim_tables [OF c] by (auto simp: dispatch_item_def split: if_splits)
qed

lemma receive_item_frame:
  assumes "receive_item view t uid now i d = Inr d'"
  shows "transfers d' = transfers d \<and> outbox d' = outbox d \<and> outbox_sequence d' = outbox_sequence d \<and>
    transfer_items d' = upd_rows (\<lambda>r. tri_id r = tri_id i) (\<lambda>r. r\<lparr>tri_received := True, tri_received_at := Some now\<rparr>) (transfer_items d)"
proof (cases "tri_serial view i")
  case None
  with assms show ?thesis by (simp add: receive_item_def)
next
  case (Some s)
  obtain n d1 where c: "claim_serial (ser_id s) S_IN_TRANSIT S_IN_STOCK d = (n, d1)" by fastforce
  with Some assms show ?thesis using claim_tables [OF c]
    by (auto simp: receive_item_def set_transfer_item_def split: if_splits)
qed

lemma dispatch_all_frame:
  assumes "fold_res (dispatch_item view t uid now) its d = Inr d'"
  shows "transfers d' = transfers d" "transfer_items d' = transfer_items d" "outbox d' = outbox d"
    "outbox_sequence d' = outbox_sequence d"
  using fold_res_invariant [OF assms, of "\<lambda>e. transfers e = transfers d \<and> transfer_items e = transfer_items d \<and>
      outbox e = outbox d \<and> outbox_sequence e = outbox_sequence d"] dispatch_item_frame by auto

lemma receive_all_frame:
  assumes "fold_res (receive_item view t uid now) its d = Inr d'"
  shows "transfers d' = transfers d" "outbox d' = outbox d" "outbox_sequence d' = outbox_sequence d"
  using fold_res_invariant [OF assms, of "\<lambda>e. transfers e = transfers d \<and> outbox e = outbox d \<and>
      outbox_sequence e = outbox_sequence d"] receive_item_frame by auto

lemma get_transfer_set:
  assumes "\<And>r. trf_id (f r) = trf_id r"
  shows "get_transfer (set_transfer i f d) j = (if j = i then map_option f (get_transfer d j) else get_transfer d j)"
proof -
  have "get_transfer (set_transfer i f d) j = map_option (\<lambda>r. if trf_id r = i then f r else r) (get_transfer d j)"
    using assms by (simp add: get_transfer_def set_transfer_def find_upd_rows)
  then show ?thesis by (cases "get_transfer d j") (auto simp: get_transfer_def dest: find_SomeD)
qed

lemma get_transfer_cong: "transfers e = transfers d \<Longrightarrow> get_transfer e i = get_transfer d i"
  by (simp add: get_transfer_def)

lemma resolved:
  "resolve_transfer d (IdRef i) dir = Inr t \<longleftrightarrow> get_transfer d i = Some t \<and> trf_direction t = dir"
  by (auto simp: resolve_transfer_def split: option.splits if_splits)

lemma get_transfer_id: "get_transfer d i = Some t \<Longrightarrow> trf_id t = i"
  unfolding get_transfer_def by (drule find_SomeD) simp

lemma dispatchD:
  assumes "dispatch_outbound_transfer sha cfg event_id ref u now d = Inr d'"
  obtains t d1 d3 row where "resolve_transfer d ref OUTBOUND = Inr t" "trf_status t = TS_DRAFT"
    "items_of_transfer d (trf_id t) \<noteq> []" "length (items_of_transfer d (trf_id t)) \<le> 5000"
    "fold_res (dispatch_item d t (usr_id u) now) (items_of_transfer d (trf_id t)) d = Inr d1"
    "enqueue_outbox_event sha cfg event_id now
       (transfer_request ''TRANSFER_DISPATCHED'' (trf_uuid t)
         (dispatch_payload (set_transfer (trf_id t) (\<lambda>r. r\<lparr>trf_status := TS_DISPATCHED, trf_dispatched_at := Some now\<rparr>) d1)
           t (usr_username u)) now)
       (set_transfer (trf_id t) (\<lambda>r. r\<lparr>trf_status := TS_DISPATCHED, trf_dispatched_at := Some now\<rparr>) d1) = Inr (d', row)"
proof (cases "resolve_transfer d ref OUTBOUND")
  case (Inl e)
  with assms show thesis by (simp add: dispatch_outbound_transfer_def)
next
  case (Inr t)
  let ?its = "items_of_transfer d (trf_id t)"
  have g: "trf_status t = TS_DRAFT" "?its \<noteq> []" "length ?its \<le> 5000"
    using assms Inr by (auto simp: dispatch_outbound_transfer_def Let_def split: if_splits)
  show thesis
  proof (cases "fold_res (dispatch_item d t (usr_id u) now) ?its d")
    case (Inl e)
    with assms Inr g show thesis by (simp add: dispatch_outbound_transfer_def Let_def)
  next
    case (Inr d1)
    let ?d2 = "set_transfer (trf_id t) (\<lambda>r. r\<lparr>trf_status := TS_DISPATCHED, trf_dispatched_at := Some now\<rparr>) d1"
    let ?req = "transfer_request ''TRANSFER_DISPATCHED'' (trf_uuid t) (dispatch_payload ?d2 t (usr_username u)) now"
    obtain row where "enqueue_outbox_event sha cfg event_id now ?req ?d2 = Inr (d', row)"
      using assms Inr g \<open>resolve_transfer d ref OUTBOUND = Inr t\<close>
      by (cases "enqueue_outbox_event sha cfg event_id now ?req ?d2")
        (auto simp: dispatch_outbound_transfer_def Let_def)
    then show thesis using that \<open>resolve_transfer d ref OUTBOUND = Inr t\<close> g Inr by blast
  qed
qed

lemma item_serial_key: "tri_serial d i = Some s \<Longrightarrow> tri_serial_id i = Some (the_serial_id i)"
  using tri_serial_id by (fastforce simp: the_serial_id_def)

text \<open>
  C15. A dispatch that succeeds took a draft with at least one item, moved exactly the serials
  of its items -- each of them once -- out of stock and into transit, touched no other serial,
  left the items as they were, and queued exactly one event for the transfer.
\<close>

theorem dispatch_moves_stock:
  assumes "dispatch_outbound_transfer sha cfg event_id (IdRef tid) u now d = Inr d'" "serials_ok d"
  shows "\<exists>t ids. get_transfer d tid = Some t \<and> trf_direction t = OUTBOUND \<and> trf_status t = TS_DRAFT \<and>
    map tri_serial_id (items_of_transfer d tid) = map Some ids \<and> ids \<noteq> [] \<and> length ids \<le> 5000 \<and> distinct ids \<and>
    (\<forall>k \<in> set ids. stock_status d k = Some S_IN_STOCK \<and> stock_status d' k = Some S_IN_TRANSIT) \<and>
    (\<forall>k. k \<notin> set ids \<longrightarrow> stock_status d' k = stock_status d k) \<and>
    get_transfer d' tid = Some (t\<lparr>trf_status := TS_DISPATCHED, trf_dispatched_at := Some now\<rparr>) \<and>
    transfer_items d' = transfer_items d \<and>
    (\<exists>row. outbox d' = outbox d @ [row] \<and> evt_type row = ''TRANSFER_DISPATCHED'' \<and> evt_aggregate_id row = trf_uuid t)"
proof -
  obtain t d1 d3 row where t: "get_transfer d tid = Some t" "trf_direction t = OUTBOUND" "trf_status t = TS_DRAFT"
    and its: "items_of_transfer d (trf_id t) \<noteq> []" "length (items_of_transfer d (trf_id t)) \<le> 5000"
    and loop: "fold_res (dispatch_item d t (usr_id u) now) (items_of_transfer d (trf_id t)) d = Inr d1"
    and q: "enqueue_outbox_event sha cfg event_id now
       (transfer_request ''TRANSFER_DISPATCHED'' (trf_uuid t)
         (dispatch_payload (set_transfer (trf_id t) (\<lambda>r. r\<lparr>trf_status := TS_DISPATCHED, trf_dispatched_at := Some now\<rparr>) d1)
           t (usr_username u)) now)
       (set_transfer (trf_id t) (\<lambda>r. r\<lparr>trf_status := TS_DISPATCHED, trf_dispatched_at := Some now\<rparr>) d1) = Inr (d', row)"
    by (rule dispatchD [OF assms(1)]) (auto simp: resolved)
  have tid: "trf_id t = tid" by (rule get_transfer_id [OF t(1)])
  let ?its = "items_of_transfer d tid"
  have r: "serials_ok d1" "distinct (map the_serial_id ?its)"
    "\<forall>i \<in> set ?its. stock_status d (the_serial_id i) = Some S_IN_STOCK \<and> stock_status d1 (the_serial_id i) = Some S_IN_TRANSIT"
    "\<forall>k. k \<notin> the_serial_id ` set ?its \<longrightarrow> stock_status d1 k = stock_status d k"
    using dispatch_loop.loop_result [OF loop assms(2)] unfolding tid by blast+
  have "map tri_serial_id ?its = map Some (map the_serial_id ?its)"
    using dispatch_loop.loop_valid [OF loop] item_serial_key unfolding tid by fastforce
  moreover have "serials d' = serials d1" "transfers d' = transfers (set_transfer tid (\<lambda>r. r\<lparr>trf_status := TS_DISPATCHED, trf_dispatched_at := Some now\<rparr>) d1)"
    "transfer_items d' = transfer_items d" "outbox d' = outbox d @ [row]"
    using enqueueD(1) [OF q] dispatch_all_frame [OF loop] by (simp_all add: tid)
  moreover have "evt_type row = ''TRANSFER_DISPATCHED''" "evt_aggregate_id row = trf_uuid t"
    using enqueueD(8,11) [OF q] by (simp_all add: transfer_request_def) code_simp+
  ultimately show ?thesis
    using t its r tid get_transfer_cong [OF dispatch_all_frame(1) [OF loop]]
    by (intro exI [of _ t] exI [of _ "map the_serial_id ?its"])
      (simp add: get_transfer_set get_transfer_def [of d'] get_transfer_def [symmetric] stock_status_cong [of d' d1])
qed


text \<open>The rows of a receipt.\<close>

definition mark_received :: "moment \<Rightarrow> transfer_item \<Rightarrow> transfer_item" where
  "mark_received now r = r\<lparr>tri_received := True, tri_received_at := Some now\<rparr>"

lemma mark_received_fields [simp]:
  "tri_id (mark_received now r) = tri_id r" "tri_transfer_id (mark_received now r) = tri_transfer_id r"
  "tri_serial_id (mark_received now r) = tri_serial_id r" "tri_received (mark_received now r)"
  "mark_received now (mark_received now r) = mark_received now r"
  by (simp_all add: mark_received_def)

lemma receive_all_items:
  assumes "fold_res (receive_item view t uid now) its d = Inr d'"
  shows "transfer_items d' = map (\<lambda>r. if tri_id r \<in> tri_id ` set its then mark_received now r else r) (transfer_items d)"
  using assms
proof (induction its arbitrary: d)
  case Nil
  then show ?case by simp
next
  case (Cons i its)
  then obtain e where e: "receive_item view t uid now i d = Inr e" "fold_res (receive_item view t uid now) its e = Inr d'"
    by (auto split: sum.splits)
  have "transfer_items e = map (\<lambda>r. if tri_id r = tri_id i then mark_received now r else r) (transfer_items d)"
    using receive_item_frame [OF e(1)] by (simp add: upd_rows_def mark_received_def)
  then show ?case using Cons.IH [OF e(2)] by (simp cong: if_cong)
qed

lemma received_items_of:
  assumes "fold_res (receive_item view t uid now) (receipt_items d t) d = Inr d'" "distinct (map tri_id (transfer_items d))"
  shows "items_of_transfer d' (trf_id t) =
    map (\<lambda>i. if tri_scanned i \<and> \<not> tri_received i then mark_received now i else i) (items_of_transfer d (trf_id t))"
proof -
  let ?its = "receipt_items d t"
  have "tri_id r \<in> tri_id ` set ?its \<longleftrightarrow> r \<in> set ?its" if "r \<in> set (transfer_items d)" for r
  proof -
    have "inj_on tri_id (set (transfer_items d))" using assms(2) by (simp add: distinct_map)
    moreover have "set ?its \<subseteq> set (transfer_items d)" by (auto simp: receipt_items_def items_of_transfer_def)
    ultimately show ?thesis using that by (meson inj_on_image_mem_iff)
  qed
  then have "transfer_items d' = map (\<lambda>r. if r \<in> set ?its then mark_received now r else r) (transfer_items d)"
    unfolding receive_all_items [OF assms(1)] by (intro map_cong) simp_all
  then have "items_of_transfer d' (trf_id t) =
      map (\<lambda>r. if r \<in> set ?its then mark_received now r else r) (items_of_transfer d (trf_id t))"
    by (simp add: items_of_transfer_def filter_map o_def if_distrib [of tri_transfer_id] cong: if_cong)
  then show ?thesis by (simp add: receipt_items_def)
qed

lemma finalizeD:
  assumes "finalize_inbound_receipt sha cfg event_id ref u now d = Inr d'"
  obtains t d1 row where "resolve_transfer d ref INBOUND = Inr t" "trf_status t \<in> set receivable" "receipt_items d t \<noteq> []"
    "fold_res (receive_item d t (usr_id u) now) (receipt_items d t) d = Inr d1"
    "enqueue_outbox_event sha cfg event_id now
       (transfer_request ''TRANSFER_RECEIVED'' (trf_uuid t)
         (receipt_payload (close_if_complete (trf_id t) now d1) t (receipt_items d t) (usr_username u)) now)
       (close_if_complete (trf_id t) now d1) = Inr (d', row)"
proof -
  obtain t where t: "resolve_transfer d ref INBOUND = Inr t" "trf_status t \<in> set receivable" "receipt_items d t \<noteq> []"
    using assms by (auto simp: finalize_inbound_receipt_def Let_def split: if_splits)
  obtain d1 where d1: "fold_res (receive_item d t (usr_id u) now) (receipt_items d t) d = Inr d1"
    using assms t by (auto simp: finalize_inbound_receipt_def Let_def)
  let ?d2 = "close_if_complete (trf_id t) now d1"
  let ?req = "transfer_request ''TRANSFER_RECEIVED'' (trf_uuid t) (receipt_payload ?d2 t (receipt_items d t) (usr_username u)) now"
  obtain row where "enqueue_outbox_event sha cfg event_id now ?req ?d2 = Inr (d', row)"
    using assms t d1
    by (cases "enqueue_outbox_event sha cfg event_id now ?req ?d2") (auto simp: finalize_inbound_receipt_def Let_def)
  then show thesis using that t d1 by blast
qed

lemma close_frame [simp]:
  "serials (close_if_complete i now d) = serials d" "transfer_items (close_if_complete i now d) = transfer_items d"
  "outbox (close_if_complete i now d) = outbox d" "outbox_sequence (close_if_complete i now d) = outbox_sequence d"
  "items_of_transfer (close_if_complete i now d) j = items_of_transfer d j"
  by (simp_all add: close_if_complete_def items_of_transfer_def)

lemma close_status:
  assumes "get_transfer d i = Some t"
  shows "\<exists>t'. get_transfer (close_if_complete i now d) i = Some t' \<and> trf_direction t' = trf_direction t \<and>
    trf_uuid t' = trf_uuid t \<and>
    trf_status t' = (if \<forall>r \<in> set (items_of_transfer d i). tri_received r then TS_RECEIVED else TS_PARTIALLY_RECEIVED)"
  using assms by (simp add: close_if_complete_def get_transfer_set list_all_iff)

text \<open>
  C16. A receipt that succeeds brought exactly the scanned, not yet received items of the
  transfer from transit into stock, each serial once; it marked exactly those items received,
  closed the transfer exactly when nothing is left to receive, and queued exactly one event.
\<close>

theorem receipt_moves_stock:
  assumes "finalize_inbound_receipt sha cfg event_id (IdRef tid) u now d = Inr d'" "serials_ok d"
    and "distinct (map tri_id (transfer_items d))"
  shows "\<exists>t t' ids. get_transfer d tid = Some t \<and> trf_direction t = INBOUND \<and> trf_status t \<in> {TS_AWAITING_RECEIPT, TS_PARTIALLY_RECEIVED} \<and>
    map tri_serial_id (filter (\<lambda>i. tri_scanned i \<and> \<not> tri_received i) (items_of_transfer d tid)) = map Some ids \<and>
    ids \<noteq> [] \<and> distinct ids \<and>
    (\<forall>k \<in> set ids. stock_status d k = Some S_IN_TRANSIT \<and> stock_status d' k = Some S_IN_STOCK) \<and>
    (\<forall>k. k \<notin> set ids \<longrightarrow> stock_status d' k = stock_status d k) \<and>
    items_of_transfer d' tid =
      map (\<lambda>i. if tri_scanned i \<and> \<not> tri_received i then i\<lparr>tri_received := True, tri_received_at := Some now\<rparr> else i)
        (items_of_transfer d tid) \<and>
    get_transfer d' tid = Some t' \<and>
    (trf_status t' = TS_RECEIVED \<longleftrightarrow> (\<forall>i \<in> set (items_of_transfer d tid). tri_scanned i \<or> tri_received i)) \<and>
    (\<exists>row. outbox d' = outbox d @ [row] \<and> evt_type row = ''TRANSFER_RECEIVED'' \<and> evt_aggregate_id row = trf_uuid t)"
proof -
  obtain t d1 row where t: "get_transfer d tid = Some t" "trf_direction t = INBOUND" "trf_status t \<in> set receivable"
    and its: "receipt_items d t \<noteq> []"
    and loop: "fold_res (receive_item d t (usr_id u) now) (receipt_items d t) d = Inr d1"
    and q: "enqueue_outbox_event sha cfg event_id now
       (transfer_request ''TRANSFER_RECEIVED'' (trf_uuid t)
         (receipt_payload (close_if_complete (trf_id t) now d1) t (receipt_items d t) (usr_username u)) now)
       (close_if_complete (trf_id t) now d1) = Inr (d', row)"
    by (rule finalizeD [OF assms(1)]) (auto simp: resolved)
  have tid: "trf_id t = tid" by (rule get_transfer_id [OF t(1)])
  let ?its = "receipt_items d t"
  have its_def: "?its = filter (\<lambda>i. tri_scanned i \<and> \<not> tri_received i) (items_of_transfer d tid)"
    by (simp add: receipt_items_def tid)
  have r: "distinct (map the_serial_id ?its)"
    "\<forall>i \<in> set ?its. stock_status d (the_serial_id i) = Some S_IN_TRANSIT \<and> stock_status d1 (the_serial_id i) = Some S_IN_STOCK"
    "\<forall>k. k \<notin> the_serial_id ` set ?its \<longrightarrow> stock_status d1 k = stock_status d k"
    using receive_loop.loop_result [OF loop assms(2)] by blast+
  have ids: "map tri_serial_id ?its = map Some (map the_serial_id ?its)"
    using receive_loop.loop_valid [OF loop] item_serial_key by fastforce
  have d': "serials d' = serials d1" "transfers d' = transfers (close_if_complete tid now d1)"
    "transfer_items d' = transfer_items d1" "outbox d' = outbox d @ [row]"
    using enqueueD(1) [OF q] receive_all_frame [OF loop] by (simp_all add: tid)
  have st: "stock_status d' = stock_status d1" by (rule stock_status_cong [OF d'(1)])
  have ev: "evt_type row = ''TRANSFER_RECEIVED''" "evt_aggregate_id row = trf_uuid t"
    using enqueueD(8,11) [OF q] by (simp_all add: transfer_request_def) code_simp+
  have items: "items_of_transfer d' tid =
      map (\<lambda>i. if tri_scanned i \<and> \<not> tri_received i then mark_received now i else i) (items_of_transfer d tid)"
    using received_items_of [OF loop assms(3)] d'(3) by (simp add: tid items_of_transfer_def)
  have "get_transfer d1 tid = Some t" using t(1) receive_all_frame(1) [OF loop] by (simp add: get_transfer_def)
  then obtain t' where t': "get_transfer d' tid = Some t'"
    "trf_status t' = (if \<forall>r \<in> set (items_of_transfer d1 tid). tri_received r then TS_RECEIVED else TS_PARTIALLY_RECEIVED)"
    using close_status [of d1 tid t now] get_transfer_cong [OF d'(2)] by auto
  have "(\<forall>r \<in> set (items_of_transfer d1 tid). tri_received r) \<longleftrightarrow>
      (\<forall>i \<in> set (items_of_transfer d tid). tri_scanned i \<or> tri_received i)"
    using items d'(3) by (auto simp: items_of_transfer_def [of d1] items_of_transfer_def [of d'] image_iff)
  then have "trf_status t' = TS_RECEIVED \<longleftrightarrow> (\<forall>i \<in> set (items_of_transfer d tid). tri_scanned i \<or> tri_received i)"
    using t'(2) by simp
  then show ?thesis
    using t its ids r ev items t'(1) d'(4)
    unfolding its_def mark_received_def receivable_def list.set st
    by (intro exI [of _ t] exI [of _ t'] exI [of _ "map the_serial_id (filter (\<lambda>i. tri_scanned i \<and> \<not> tri_received i) (items_of_transfer d tid))"])
      auto
qed

end
