(* ===== verification/Reservations.thy ===== *)
theory Reservations
  imports TransferFacts
begin

text \<open>
  Transfers as a machine: through any sequence of transfer operations no serial is promised
  to two open outbound transfers.  The items of the tables are seen as pairs of transfer and
  serial; an operation other than adding an item keeps or drops pairs.
\<close>

definition open_transfer :: "db \<Rightarrow> nat \<Rightarrow> bool" where
  "open_transfer d i = (case get_transfer d i of None \<Rightarrow> False
     | Some t \<Rightarrow> trf_direction t = OUTBOUND \<and> trf_status t \<in> set open_outbound)"

definition reserved_serials :: "db \<Rightarrow> nat option list" where
  "reserved_serials d = map tri_serial_id (filter (\<lambda>i. open_transfer d (tri_transfer_id i)) (transfer_items d))"

text \<open>An outbound transfer is open or received, and a received transfer has received every item.\<close>

definition transfer_closed :: "db \<Rightarrow> local_transfer \<Rightarrow> bool" where
  "transfer_closed d t \<longleftrightarrow> (trf_direction t = OUTBOUND \<longrightarrow> trf_status t \<in> set (TS_RECEIVED # open_outbound)) \<and>
     (trf_status t = TS_RECEIVED \<longrightarrow> list_all tri_received (items_of_transfer d (trf_id t)))"

definition closed_ok :: "db \<Rightarrow> bool" where
  "closed_ok d \<longleftrightarrow> distinct (map trf_id (transfers d)) \<and> list_all (transfer_closed d) (transfers d)"

definition transfers_ok :: "db \<Rightarrow> bool" where
  "transfers_ok d \<longleftrightarrow> closed_ok d \<and> distinct (map tri_id (transfer_items d)) \<and>
     tri_transfer_id ` set (transfer_items d) \<subseteq> trf_id ` set (transfers d) \<and> distinct (reserved_serials d)"

datatype transfer_op =
    CreateTransfer string nat string "string option" moment
  | AddSerial nat string moment
  | RemoveItem nat nat
  | DispatchTransfer string nat user moment
  | TransferAvailable json moment
  | ScanItem nat string moment
  | FinalizeReceipt string nat user moment
  | TransferReceipt json moment

text \<open>One request or command; a refused one is rolled back.\<close>

fun transfer_step :: "(string \<Rightarrow> string) \<Rightarrow> settings \<Rightarrow> transfer_op \<Rightarrow> db \<Rightarrow> db" where
  "transfer_step sha cfg (CreateTransfer u i peer notes now) d =
     (case create_outbound_transfer cfg u i peer notes now d of Inl e \<Rightarrow> d | Inr (d', row) \<Rightarrow> d')"
| "transfer_step sha cfg (AddSerial i n now) d = (case add_outbound_serial (IdRef i) n now d of Inl e \<Rightarrow> d | Inr (d', row) \<Rightarrow> d')"
| "transfer_step sha cfg (RemoveItem i k) d = (case remove_outbound_serial (IdRef i) k d of Inl e \<Rightarrow> d | Inr d' \<Rightarrow> d')"
| "transfer_step sha cfg (DispatchTransfer ev i u now) d =
     (case dispatch_outbound_transfer sha cfg ev (IdRef i) u now d of Inl e \<Rightarrow> d | Inr d' \<Rightarrow> d')"
| "transfer_step sha cfg (TransferAvailable p now) d = (case apply_transfer_available_command cfg p now d of Inl e \<Rightarrow> d | Inr d' \<Rightarrow> d')"
| "transfer_step sha cfg (ScanItem i n now) d = (case scan_inbound_transfer_item (IdRef i) n now d of Inl e \<Rightarrow> d | Inr d' \<Rightarrow> d')"
| "transfer_step sha cfg (FinalizeReceipt ev i u now) d =
     (case finalize_inbound_receipt sha cfg ev (IdRef i) u now d of Inl e \<Rightarrow> d | Inr d' \<Rightarrow> d')"
| "transfer_step sha cfg (TransferReceipt p now) d = (case apply_transfer_receipt_command p now d of Inl e \<Rightarrow> d | Inr d' \<Rightarrow> d')"

section \<open>Operations that promise nothing new\<close>

definition item_keys :: "db \<Rightarrow> (nat \<times> nat \<times> nat option) list" where
  "item_keys d = map (\<lambda>i. (tri_id i, tri_transfer_id i, tri_serial_id i)) (transfer_items d)"

text \<open>
  \<open>calmer d e\<close>: the same transfers and items, no transfer is open in \<open>e\<close> that was not in
  \<open>d\<close>, and closed transfers stay so.
\<close>

definition calmer :: "db \<Rightarrow> db \<Rightarrow> bool" where
  "calmer d e \<longleftrightarrow> (closed_ok d \<longrightarrow> closed_ok e \<and> item_keys e = item_keys d \<and>
     map trf_id (transfers e) = map trf_id (transfers d) \<and> (\<forall>i. open_transfer e i \<longrightarrow> open_transfer d i))"

lemma transfers_ok_keys:
  "transfers_ok d \<longleftrightarrow> closed_ok d \<and> distinct (map fst (item_keys d)) \<and>
     (\<forall>k \<in> set (item_keys d). fst (snd k) \<in> set (map trf_id (transfers d))) \<and>
     distinct (map (snd \<circ> snd) (filter (\<lambda>k. open_transfer d (fst (snd k))) (item_keys d)))"
  by (auto simp: transfers_ok_def item_keys_def reserved_serials_def filter_map comp_def)

lemma distinct_map_filter_mono:
  "distinct (map f (filter p xs)) \<Longrightarrow> (\<And>x. q x \<Longrightarrow> p x) \<Longrightarrow> distinct (map f (filter q xs))"
  by (induction xs) (auto split: if_splits)

lemma calmer_ok: "calmer d e \<Longrightarrow> transfers_ok d \<Longrightarrow> transfers_ok e"
  unfolding transfers_ok_keys calmer_def by (auto intro: distinct_map_filter_mono)

lemma calmer_refl [simp]: "calmer d d"
  by (simp add: calmer_def)

lemma calmer_trans [trans]: "calmer d e \<Longrightarrow> calmer e f \<Longrightarrow> calmer d f"
  by (auto simp: calmer_def)

lemma open_transfer_cong: "transfers e = transfers d \<Longrightarrow> open_transfer e i = open_transfer d i"
  by (simp add: open_transfer_def get_transfer_def)

lemma closed_cong: "transfers e = transfers d \<Longrightarrow> transfer_items e = transfer_items d \<Longrightarrow> closed_ok e = closed_ok d"
  by (simp add: closed_ok_def transfer_closed_def [abs_def] items_of_transfer_def)

lemma calmer_cong: "transfers e = transfers d \<Longrightarrow> transfer_items e = transfer_items d \<Longrightarrow> calmer d e"
  unfolding calmer_def item_keys_def by (metis open_transfer_cong closed_cong)

text \<open>An update of items that keeps their keys and takes no receipt back.\<close>

lemma calmer_items:
  assumes "transfers e = transfers d" "transfer_items e = upd_rows p f (transfer_items d)"
    and "\<And>r. tri_id (f r) = tri_id r \<and> tri_transfer_id (f r) = tri_transfer_id r \<and> tri_serial_id (f r) = tri_serial_id r \<and>
      (tri_received r \<longrightarrow> tri_received (f r))"
  shows "calmer d e"
proof -
  have "item_keys e = item_keys d" unfolding item_keys_def assms(2) by (rule map_upd_rows) (simp add: assms(3))
  moreover have "closed_ok e" if "closed_ok d"
    using that assms(1,3)
    by (auto simp: closed_ok_def transfer_closed_def list_all_iff items_of_transfer_def assms(2) set_upd_rows)
  ultimately show ?thesis unfolding calmer_def using open_transfer_cong [OF assms(1)] assms(1) by simp
qed

lemma items_of_set_transfer [simp]: "items_of_transfer (set_transfer i f d) k = items_of_transfer d k"
  by (simp add: items_of_transfer_def)

text \<open>An update of the status of a transfer that does not open it again and closes it only when it is complete.\<close>

lemma calmer_transfer:
  assumes f: "\<And>r. trf_id (f r) = trf_id r \<and> trf_direction (f r) = trf_direction r"
    and s: "\<And>t. get_transfer d i = Some t \<Longrightarrow> transfer_closed d t \<Longrightarrow> transfer_closed d (f t) \<and>
      (trf_direction t = OUTBOUND \<and> trf_status (f t) \<in> set open_outbound \<longrightarrow> trf_status t \<in> set open_outbound)"
  shows "calmer d (set_transfer i f d)"
proof -
  have "map trf_id (transfers (set_transfer i f d)) = map trf_id (transfers d)"
    using f by (simp add: set_transfer_def map_upd_rows)
  moreover have "closed_ok (set_transfer i f d) \<and> (\<forall>j. open_transfer (set_transfer i f d) j \<longrightarrow> open_transfer d j)"
    if c: "closed_ok d"
  proof -
    have mem: "get_transfer d (trf_id t) = Some t" if "t \<in> set (transfers d)" for t
      using c that by (simp add: closed_ok_def get_transfer_def find_key_distinct)
    have all: "transfer_closed d t" if "t \<in> set (transfers d)" for t
      using c that by (simp add: closed_ok_def list_all_iff)
    have in_d: "t \<in> set (transfers d) \<and> trf_id t = j" if "get_transfer d j = Some t" for j t
      using that unfolding get_transfer_def by (drule_tac find_SomeD) simp
    have "transfer_closed d (if trf_id t = i then f t else t)" if "t \<in> set (transfers d)" for t
      using s mem [OF that] all [OF that] by auto
    then have "closed_ok (set_transfer i f d)"
      using c \<open>map trf_id (transfers (set_transfer i f d)) = _\<close>
      by (simp add: closed_ok_def list_all_iff transfer_closed_def) (simp add: set_transfer_def)
    moreover have "open_transfer d j" if o: "open_transfer (set_transfer i f d) j" for j
    proof (cases "get_transfer d j")
      case None
      have "get_transfer (set_transfer i f d) j = None" using f None by (auto simp: get_transfer_set)
      with o show ?thesis by (simp add: open_transfer_def)
    next
      case (Some t)
      then have "transfer_closed d t" using in_d all by blast
      then show ?thesis using Some o f s [of t] by (auto simp: open_transfer_def get_transfer_set split: if_splits)
    qed
    ultimately show ?thesis by blast
  qed
  ultimately show ?thesis by (simp add: calmer_def item_keys_def)
qed

lemma calmer_set_serial [simp]: "calmer d (set_serial i f d)"
  by (rule calmer_cong) (simp_all add: set_serial_def)

lemma fold_res_calmer:
  assumes "fold_res f xs d = Inr e" "\<And>x s t. f x s = Inr t \<Longrightarrow> calmer s t"
  shows "calmer d e"
  by (rule fold_res_invariant [where I = "calmer d", OF assms(1)]) (auto intro: calmer_trans assms(2))

lemma fold_calmer:
  assumes "\<And>x s. calmer s (f x s)"
  shows "calmer d (fold f xs d)"
  using assms by (induction xs arbitrary: d) (auto intro: calmer_trans)

lemma dispatch_calmer:
  assumes "dispatch_outbound_transfer sha cfg ev (IdRef i) u now d = Inr d'"
  shows "calmer d d'"
proof -
  obtain t d1 row where t: "get_transfer d i = Some t" "trf_status t = TS_DRAFT"
    and loop: "fold_res (dispatch_item d t (usr_id u) now) (items_of_transfer d (trf_id t)) d = Inr d1"
    and q: "enqueue_outbox_event sha cfg ev now
       (transfer_request ''TRANSFER_DISPATCHED'' (trf_uuid t)
         (dispatch_payload (set_transfer (trf_id t) (\<lambda>r. r\<lparr>trf_status := TS_DISPATCHED, trf_dispatched_at := Some now\<rparr>) d1)
           t (usr_username u)) now)
       (set_transfer (trf_id t) (\<lambda>r. r\<lparr>trf_status := TS_DISPATCHED, trf_dispatched_at := Some now\<rparr>) d1) = Inr (d', row)"
    by (rule dispatchD [OF assms(1)]) (auto simp: resolved)
  have tid: "trf_id t = i" by (rule get_transfer_id [OF t(1)])
  let ?d2 = "set_transfer i (\<lambda>r. r\<lparr>trf_status := TS_DISPATCHED, trf_dispatched_at := Some now\<rparr>) d1"
  have "get_transfer d1 i = Some t" using t(1) dispatch_all_frame(1) [OF loop] by (simp add: get_transfer_def)
  have "calmer d d1" using dispatch_all_frame [OF loop] by (intro calmer_cong)
  also have "calmer d1 ?d2"
    using t(2) \<open>get_transfer d1 i = Some t\<close> by (intro calmer_transfer) (auto simp: open_outbound_def transfer_closed_def)
  also have "calmer ?d2 d'" using enqueueD(1) [OF q] by (intro calmer_cong) (simp_all add: tid)
  finally show ?thesis .
qed


lemma not_open: "TS_RECEIVED \<notin> set open_outbound" "TS_PARTIALLY_RECEIVED \<in> set open_outbound"
  by (simp_all add: open_outbound_def)

lemma receive_item_calmer:
  assumes "receive_item view t uid now i d = Inr d'"
  shows "calmer d d'"
  using receive_item_frame [OF assms]
  by (intro calmer_items [where f = "\<lambda>r. r\<lparr>tri_received := True, tri_received_at := Some now\<rparr>"]) auto

text \<open>What closes a transfer, here and at the source.\<close>

lemma close_calmer:
  assumes "\<And>t. get_transfer d i = Some t \<Longrightarrow> trf_status t \<noteq> TS_DRAFT"
  shows "list_all tri_received (items_of_transfer d i) \<Longrightarrow>
      calmer d (set_transfer i (\<lambda>r. r\<lparr>trf_status := TS_RECEIVED, trf_received_at := Some now\<rparr>) d)"
    "\<not> list_all tri_received (items_of_transfer d i) \<Longrightarrow>
      calmer d (set_transfer i (\<lambda>r. r\<lparr>trf_status := TS_PARTIALLY_RECEIVED\<rparr>) d)"
  by (rule calmer_transfer; use get_transfer_id in \<open>fastforce simp: transfer_closed_def open_outbound_def\<close>)+

lemma close_if_complete_calmer:
  assumes "\<And>t. get_transfer d i = Some t \<Longrightarrow> trf_status t \<noteq> TS_DRAFT"
  shows "calmer d (close_if_complete i now d)"
  using close_calmer [OF assms] by (simp add: close_if_complete_def)

lemma finalize_calmer:
  assumes "finalize_inbound_receipt sha cfg ev (IdRef i) u now d = Inr d'"
  shows "calmer d d'"
proof -
  obtain t d1 row where t: "get_transfer d i = Some t" "trf_status t \<in> set receivable"
    and loop: "fold_res (receive_item d t (usr_id u) now) (receipt_items d t) d = Inr d1"
    and q: "enqueue_outbox_event sha cfg ev now
       (transfer_request ''TRANSFER_RECEIVED'' (trf_uuid t)
         (receipt_payload (close_if_complete (trf_id t) now d1) t (receipt_items d t) (usr_username u)) now)
       (close_if_complete (trf_id t) now d1) = Inr (d', row)"
    by (rule finalizeD [OF assms(1)]) (auto simp: resolved)
  have tid: "trf_id t = i" by (rule get_transfer_id [OF t(1)])
  have g: "get_transfer d1 i = Some t" using t(1) receive_all_frame(1) [OF loop] by (simp add: get_transfer_def)
  have "calmer d d1" by (rule fold_res_calmer [OF loop receive_item_calmer])
  also have "calmer d1 (close_if_complete i now d1)"
    by (rule close_if_complete_calmer) (use g t(2) in \<open>auto simp: receivable_def\<close>)
  also have "calmer (close_if_complete i now d1) d'"
    using enqueueD(1) [OF q] by (intro calmer_cong) (simp_all add: tid)
  finally show ?thesis .
qed

lemma scan_calmer:
  assumes "scan_inbound_transfer_item (IdRef i) n now d = Inr d'"
  shows "calmer d d'"
proof -
  obtain iid k where "claim_scan iid now d = (k, d')"
    using assms by (auto simp: scan_inbound_transfer_item_def Let_def split: if_splits option.splits prod.splits)
  then have "d' = d\<lparr>transfer_items := upd_rows (\<lambda>i. tri_id i = iid \<and> \<not> tri_scanned i \<and> \<not> tri_received i)
      (\<lambda>i. i\<lparr>tri_scanned := True, tri_scanned_at := Some now\<rparr>) (transfer_items d)\<rparr>"
    by (simp add: claim_scan_def Let_def)
  then show ?thesis by (intro calmer_items [where f = "\<lambda>i. i\<lparr>tri_scanned := True, tri_scanned_at := Some now\<rparr>"]) auto
qed

definition settled_row :: "moment \<Rightarrow> transfer_item \<Rightarrow> transfer_item" where
  "settled_row now r = r\<lparr>tri_scanned := True, tri_scanned_at := Some (case tri_scanned_at r of None \<Rightarrow> now | Some t \<Rightarrow> t),
     tri_received := True, tri_received_at := Some now\<rparr>"

lemma settle_item_eq:
  "settle_item received now i d =
    (if tri_manifest_number i \<notin> set received \<or> tri_received i then d
     else case tri_serial d i of None \<Rightarrow> set_transfer_item (tri_id i) (settled_row now) d
       | Some s \<Rightarrow> set_serial (ser_id s) (\<lambda>r. r\<lparr>ser_active := False\<rparr>) (set_transfer_item (tri_id i) (settled_row now) d))"
proof -
  have "settled_row now = (\<lambda>r. r\<lparr>tri_scanned := True,
      tri_scanned_at := Some (case tri_scanned_at r of None \<Rightarrow> now | Some t \<Rightarrow> t), tri_received := True, tri_received_at := Some now\<rparr>)"
    by (rule ext) (simp add: settled_row_def)
  then show ?thesis by (simp add: settle_item_def Let_def split: option.split)
qed

lemma settle_item_calmer: "calmer d (settle_item received now i d)"
proof -
  have "calmer d (set_transfer_item (tri_id i) (settled_row now) d)"
    by (rule calmer_items [where f = "settled_row now"]) (simp_all add: set_transfer_item_def settled_row_def)
  then show ?thesis unfolding settle_item_eq by (auto split: option.split intro: calmer_trans)
qed

lemma settle_transfer_calmer:
  assumes "\<And>t. get_transfer d i = Some t \<Longrightarrow> trf_status t \<noteq> TS_DRAFT"
  shows "calmer d (settle_transfer i now d)"
  using close_calmer [OF assms] by (simp add: settle_transfer_def Let_def)

lemma settle_item_transfers: "transfers (settle_item received now i d) = transfers d"
  by (simp add: settle_item_eq set_serial_def split: option.split)

lemma settle_all_transfers: "transfers (fold (settle_item received now) its d) = transfers d"
  by (induction its arbitrary: d) (simp_all add: settle_item_transfers)

lemma transfer_receiptD:
  assumes "apply_transfer_receipt_command payload now d = Inr d'"
  obtains t received where "t \<in> set (transfers d)" "trf_direction t = OUTBOUND" "trf_status t \<noteq> TS_DRAFT"
    "d' = settle_transfer (trf_id t) now (fold (settle_item received now) (items_of_transfer d (trf_id t)) d)"
proof -
  obtain data manifest where u: "unwrap_transfer_payload payload = Inr (data, manifest)"
    using assms by (auto simp: apply_transfer_receipt_command_def)
  obtain t where t: "transfer_by_uuid d (transfer_uuid_of data payload) = Some t" "trf_direction t = OUTBOUND"
    "trf_status t \<noteq> TS_DRAFT"
    using assms u by (auto simp: apply_transfer_receipt_command_def Let_def split: if_splits option.splits)
  obtain named complete where r: "received_serials_from_payload data payload manifest = Inr (named, complete)"
    using assms u t by (auto simp: apply_transfer_receipt_command_def Let_def split: if_splits)
  have "t \<in> set (transfers d)" using t(1) find_SomeD by (fastforce simp: transfer_by_uuid_def)
  then show thesis
    using assms u t r that [of t "if complete \<and> named = [] then map tri_manifest_number (items_of_transfer d (trf_id t)) else named"]
    by (auto simp: apply_transfer_receipt_command_def Let_def split: if_splits)
qed

lemma receipt_calmer:
  assumes "apply_transfer_receipt_command payload now d = Inr d'"
  shows "calmer d d'"
proof (cases "closed_ok d")
  case False
  then show ?thesis by (simp add: calmer_def)
next
  case True
  obtain t received where t: "t \<in> set (transfers d)" "trf_status t \<noteq> TS_DRAFT"
    "d' = settle_transfer (trf_id t) now (fold (settle_item received now) (items_of_transfer d (trf_id t)) d)"
    by (rule transfer_receiptD [OF assms])
  let ?d1 = "fold (settle_item received now) (items_of_transfer d (trf_id t)) d"
  have "get_transfer ?d1 (trf_id t) = Some t"
    using t(1) True by (simp add: get_transfer_def settle_all_transfers closed_ok_def find_key_distinct)
  then have "calmer ?d1 d'" unfolding t(3) by (intro settle_transfer_calmer) (use t(2) in auto)
  moreover have "calmer d ?d1" by (rule fold_calmer [OF settle_item_calmer])
  ultimately show ?thesis by (rule calmer_trans [rotated])
qed

section \<open>Operations that add or drop transfers and items\<close>

text \<open>A new transfer has no items yet, because every item refers to a transfer of the table.\<close>

lemma new_transfer_ok:
  assumes "transfers_ok d" "trf_id row = next_id trf_id (transfers d)"
    and "trf_status row \<noteq> TS_RECEIVED" "trf_direction row = OUTBOUND \<longrightarrow> trf_status row \<in> set open_outbound"
  shows "transfers_ok (d\<lparr>transfers := transfers d @ [row]\<rparr>)"
proof -
  let ?e = "d\<lparr>transfers := transfers d @ [row]\<rparr>"
  have fresh: "trf_id row \<notin> trf_id ` set (transfers d)" using assms(2) next_id_notin by metis
  have refs: "tri_transfer_id ` set (transfer_items d) \<subseteq> trf_id ` set (transfers d)" using assms(1) by (simp add: transfers_ok_def)
  have "open_transfer ?e (tri_transfer_id i) = open_transfer d (tri_transfer_id i)" if "i \<in> set (transfer_items d)" for i
  proof -
    have "tri_transfer_id i \<noteq> trf_id row" using that refs fresh by (metis image_subset_iff)
    then show ?thesis by (simp add: open_transfer_def get_transfer_def find_append split: option.split)
  qed
  then have "reserved_serials ?e = reserved_serials d" by (simp add: reserved_serials_def cong: filter_cong)
  moreover have "closed_ok ?e"
    using assms fresh
    by (auto simp: transfers_ok_def closed_ok_def transfer_closed_def list_all_iff items_of_transfer_def)
  ultimately show ?thesis using assms(1) by (auto simp: transfers_ok_def)
qed

lemma create_ok:
  assumes "create_outbound_transfer cfg u i peer notes now d = Inr (d', row)" "transfers_ok d"
  shows "transfers_ok d'"
proof -
  have "d' = d\<lparr>transfers := transfers d @ [row]\<rparr>" "trf_id row = next_id trf_id (transfers d)" "trf_status row = TS_DRAFT"
    using assms(1) by (auto simp: create_outbound_transfer_def Let_def split: if_splits sum.splits)
  then show ?thesis using new_transfer_ok [OF assms(2), of row] by (simp add: open_outbound_def)
qed

text \<open>A new item: its transfer must not be closed, and must not be open if the serial is promised elsewhere.\<close>

lemma new_item_ok:
  assumes "transfers_ok d" "get_transfer d tid = Some t" "trf_status t \<noteq> TS_RECEIVED"
    and "open_transfer d tid \<longrightarrow> Some (ser_id s) \<notin> set (reserved_serials d)"
  shows "transfers_ok (d\<lparr>transfer_items := transfer_items d @ [new_transfer_item d tid s p now]\<rparr>)"
proof -
  let ?i = "new_transfer_item d tid s p now" and ?e = "d\<lparr>transfer_items := transfer_items d @ [new_transfer_item d tid s p now]\<rparr>"
  have i: "tri_transfer_id ?i = tid" "tri_serial_id ?i = Some (ser_id s)" "tri_id ?i = next_id tri_id (transfer_items d)"
    by (simp_all add: new_transfer_item_def)
  have t: "t \<in> set (transfers d)" "trf_id t = tid"
    using assms(2) unfolding get_transfer_def by (drule_tac find_SomeD; simp)+
  have o: "open_transfer ?e k = open_transfer d k" for k by (rule open_transfer_cong) simp
  have "reserved_serials ?e = reserved_serials d @ (if open_transfer d tid then [Some (ser_id s)] else [])"
    using i by (simp add: reserved_serials_def o)
  then have "distinct (reserved_serials ?e)" using assms(1,4) by (auto simp: transfers_ok_def)
  moreover have "transfer_closed ?e r" if "r \<in> set (transfers d)" for r
  proof -
    have "distinct (map trf_id (transfers d))" "transfer_closed d r"
      using assms(1) that by (simp_all add: transfers_ok_def closed_ok_def list_all_iff)
    moreover have "trf_id r = tid \<Longrightarrow> r = t" using t that calculation(1) by (metis distinct_map inj_onD)
    ultimately show ?thesis using assms(3) i by (auto simp: transfer_closed_def items_of_transfer_def)
  qed
  moreover have "distinct (map tri_id (transfer_items ?e))"
    using distinct_snoc_next_id [of tri_id "transfer_items d" ?i] assms(1) i by (simp add: transfers_ok_def)
  ultimately show ?thesis
    using assms(1) i t by (auto simp: transfers_ok_def closed_ok_def list_all_iff)
qed

lemma remove_ok:
  assumes "remove_outbound_serial (IdRef i) k d = Inr d'" "transfers_ok d"
  shows "transfers_ok d'"
proof -
  have d': "d' = d\<lparr>transfer_items := filter (\<lambda>i. tri_id i \<noteq> k) (transfer_items d)\<rparr>"
    using assms(1) by (auto simp: remove_outbound_serial_def split: if_splits sum.splits option.splits)
  have o: "open_transfer d' j = open_transfer d j" for j by (rule open_transfer_cong) (simp add: d')
  have "reserved_serials d' = map tri_serial_id (filter (\<lambda>i. tri_id i \<noteq> k \<and> open_transfer d (tri_transfer_id i)) (transfer_items d))"
    by (simp add: reserved_serials_def o) (simp add: d' conj_commute)
  moreover have "distinct (map tri_serial_id (filter (\<lambda>i. tri_id i \<noteq> k \<and> open_transfer d (tri_transfer_id i)) (transfer_items d)))"
    by (rule distinct_map_filter_mono [where p = "\<lambda>i. open_transfer d (tri_transfer_id i)"])
      (use assms(2) in \<open>simp_all add: transfers_ok_def reserved_serials_def\<close>)
  moreover have "closed_ok d'"
    using assms(2) by (auto simp: d' transfers_ok_def closed_ok_def transfer_closed_def list_all_iff items_of_transfer_def)
  ultimately show ?thesis
    using assms(2) by (auto simp: d' transfers_ok_def distinct_map_filter)
qed

lemma reservation_eq:
  "reservation d k = find (\<lambda>i. tri_serial_id i = Some k \<and> open_transfer d (tri_transfer_id i)) (transfer_items d)"
  by (simp add: reservation_def open_transfer_def)

lemma not_reserved: "reservation d k = None \<Longrightarrow> Some k \<notin> set (reserved_serials d)"
  by (auto simp: reservation_eq find_None_iff reserved_serials_def)

lemma add_ok:
  assumes "add_outbound_serial (IdRef i) n now d = Inr (d', row)" "transfers_ok d"
  shows "transfers_ok d'"
proof -
  obtain t where t: "get_transfer d i = Some t" "trf_status t = TS_DRAFT"
    using assms(1) resolved [of d i OUTBOUND]
    by (cases "resolve_transfer d (IdRef i) OUTBOUND") (auto simp: add_outbound_serial_def Let_def split: if_splits)
  obtain s p where s: "reservation d (ser_id s) = None"
    "d' = d\<lparr>transfer_items := transfer_items d @ [new_transfer_item d (trf_id t) s p now]\<rparr>"
    using assms(1) t resolved [of d i OUTBOUND t]
    by (cases "resolve_transfer d (IdRef i) OUTBOUND")
      (auto simp: add_outbound_serial_def Let_def resolved split: if_splits option.splits)
  show ?thesis
    unfolding s(2) get_transfer_id [OF t(1)]
    by (rule new_item_ok [OF assms(2) t(1)]) (use t(2) not_reserved [OF s(1)] in simp_all)
qed

text \<open>What a command brings in touches neither transfers nor items before the item itself.\<close>

lemma transfers_ok_cong: "transfers e = transfers d \<Longrightarrow> transfer_items e = transfer_items d \<Longrightarrow> transfers_ok d \<Longrightarrow> transfers_ok e"
  by (rule calmer_ok [OF calmer_cong])

lemma materialize_frame:
  assumes "materialize_product snap now d = Inr (d', p)"
  shows "transfers d' = transfers d" "transfer_items d' = transfer_items d" "serials d' = serials d" "inbox d' = inbox d"
  using assms by (auto simp: materialize_product_def Let_def split: option.splits if_splits)

lemma place_incoming_frame:
  assumes "place_incoming n p snap now d = Inr (d', s)"
  shows "transfers d' = transfers d" "transfer_items d' = transfer_items d" "inbox d' = inbox d"
proof -
  have "transfers d' = transfers d \<and> transfer_items d' = transfer_items d \<and> inbox d' = inbox d"
  proof (cases "serial_by_number d n")
    case None
    with assms show ?thesis by (auto simp: place_incoming_def Let_def)
  next
    case (Some r)
    with assms show ?thesis
      by (auto simp: place_incoming_def reactivate_returning_serial_def Let_def set_serial_def split: if_splits)
  qed
  then show "transfers d' = transfers d" "transfer_items d' = transfer_items d" "inbox d' = inbox d" by auto
qed

lemma receive_manifest_itemD:
  assumes "receive_manifest_item tid now item (d, seen) = Inr (d', seen')"
  obtains d1 d2 p s n snap where "materialize_product snap now d = Inr (d1, p)"
    "d' = d2\<lparr>transfer_items := transfer_items d2 @ [new_transfer_item d2 tid s p now]\<rparr>"
    "transfers d2 = transfers d" "transfer_items d2 = transfer_items d" "inbox d2 = inbox d"
proof -
  let ?p = "jor [jget ''product'' item, item]" and ?s = "jor [jget ''serial'' item, item]"
  have g: "is_obj item" "is_obj ?p \<and> is_obj ?s" "manifest_number item ?s \<noteq> []" "manifest_number item ?s \<notin> set seen"
    using assms by (auto simp: receive_manifest_item_def Let_def split: if_splits)
  obtain d1 p where p: "materialize_product ?p now d = Inr (d1, p)"
    using assms g by (auto simp: receive_manifest_item_def Let_def)
  obtain d2 s where s: "place_incoming (manifest_number item ?s) p ?s now d1 = Inr (d2, s)"
    using assms g p by (auto simp: receive_manifest_item_def Let_def)
  have "d' = d2\<lparr>transfer_items := transfer_items d2 @ [new_transfer_item d2 tid s p now]\<rparr>"
    using assms g p s by (simp add: receive_manifest_item_def Let_def)
  then show thesis
    using that p place_incoming_frame [OF s] materialize_frame [OF p] by metis
qed

lemma availableD:
  assumes "apply_transfer_available_command cfg p now d = Inr d'"
  obtains "d' = d" | row items seen where "trf_id row = next_id trf_id (transfers d)" "trf_direction row = INBOUND"
    "trf_status row = TS_AWAITING_RECEIPT"
    "fold_res (receive_manifest_item (trf_id row) now) items (d\<lparr>transfers := transfers d @ [row]\<rparr>, []) = Inr (d', seen)"
proof -
  obtain data manifest where u: "unwrap_transfer_payload p = Inr (data, manifest)"
    using assms by (auto simp: apply_transfer_available_command_def)
  let ?uuid = "transfer_uuid_of data p"
  let ?destination = "normalize_franchise_code (str_or [jget ''destination_franchise_code'' data, jget ''destination_code'' data])"
  have id: "?uuid \<noteq> []" using assms u by (auto simp: apply_transfer_available_command_def Let_def)
  show thesis
  proof (cases "transfer_by_uuid d ?uuid")
    case (Some t)
    with assms u id show thesis
      by (intro that(1)) (auto simp: apply_transfer_available_command_def Let_def split: if_splits)
  next
    case None
    obtain local where l: "configured_franchise_code cfg None = Inr local"
      using assms u id None by (auto simp: apply_transfer_available_command_def Let_def)
    have g: "source_code_of data \<noteq> []" "\<not> (?destination \<noteq> [] \<and> local \<noteq> [] \<and> ?destination \<noteq> local)" "manifest \<noteq> []"
      using assms u id None l by (auto simp: apply_transfer_available_command_def Let_def split: if_splits)
    obtain remark where r: "column_text (jor [jget ''notes'' data, jget ''reference'' data]) = Inr remark"
      using assms u id None l g by (auto simp: apply_transfer_available_command_def Let_def)
    let ?code = "if local = [] then ?destination else local"
    let ?row = "\<lparr>trf_id = next_id trf_id (transfers d), trf_uuid = ?uuid, trf_direction = INBOUND,
         trf_status = TS_AWAITING_RECEIPT, trf_local_code = (if ?code = [] then None else Some ?code),
         trf_peer_code = source_code_of data, trf_created_by_id = None, trf_notes = remark, trf_last_error = None,
         trf_created_at = now, trf_dispatched_at = None, trf_received_at = None\<rparr>"
    obtain seen where "fold_res (receive_manifest_item (trf_id ?row) now) manifest (d\<lparr>transfers := transfers d @ [?row]\<rparr>, []) = Inr (d', seen)"
      using assms u id None l g r by (auto simp: apply_transfer_available_command_def Let_def)
    then show thesis by (intro that(2) [of ?row]) simp_all
  qed
qed

lemma available_ok:
  assumes "apply_transfer_available_command cfg p now d = Inr d'" "transfers_ok d"
  shows "transfers_ok d'"
proof (rule availableD [OF assms(1)])
  assume "d' = d"
  with assms(2) show ?thesis by simp
next
  fix row items seen
  assume row: "trf_id row = next_id trf_id (transfers d)" "trf_direction row = INBOUND" "trf_status row = TS_AWAITING_RECEIPT"
    and loop: "fold_res (receive_manifest_item (trf_id row) now) items (d\<lparr>transfers := transfers d @ [row]\<rparr>, []) = Inr (d', seen)"
  let ?e = "d\<lparr>transfers := transfers d @ [row]\<rparr>"
  have "trf_id row \<notin> trf_id ` set (transfers d)" using row(1) next_id_notin by metis
  then have "find (\<lambda>r. trf_id r = trf_id row) (transfers d) = None" unfolding find_None_iff by (metis image_eqI)
  then have g: "get_transfer ?e (trf_id row) = Some row" by (simp add: get_transfer_def find_append)
  define I where "I = (\<lambda>st :: db \<times> string list. transfers_ok (fst st) \<and> get_transfer (fst st) (trf_id row) = Some row)"
  have "I (d', seen)"
  proof (rule fold_res_invariant [OF loop])
    show "I (?e, [])" using new_transfer_ok [OF assms(2) row(1)] row g by (simp add: I_def)
  next
    fix x st st'
    assume st: "I st" "receive_manifest_item (trf_id row) now x st = Inr st'"
    obtain e sn e' sn' where eq: "st = (e, sn)" "st' = (e', sn')" by (cases st; cases st')
    obtain d2 p s where e': "e' = d2\<lparr>transfer_items := transfer_items d2 @ [new_transfer_item d2 (trf_id row) s p now]\<rparr>"
      "transfers d2 = transfers e" "transfer_items d2 = transfer_items e"
      by (rule receive_manifest_itemD [OF st(2) [unfolded eq]]) blast
    have d2: "transfers_ok d2" "get_transfer d2 (trf_id row) = Some row"
      using st(1) transfers_ok_cong [OF e'(2,3)] get_transfer_cong [OF e'(2)] by (simp_all add: I_def eq)
    have "transfers_ok e'"
      unfolding e'(1) by (rule new_item_ok [OF d2]) (use row d2(2) in \<open>simp_all add: open_transfer_def\<close>)
    then show "I st'" using d2(2) by (simp add: I_def eq e'(1) get_transfer_def)
  qed
  then show ?thesis by (simp add: I_def)
qed

lemma transfer_step_ok: "transfers_ok d \<Longrightarrow> transfers_ok (transfer_step sha cfg x d)"
proof (cases x)
  case (CreateTransfer u i peer remark now)
  then show "transfers_ok d \<Longrightarrow> ?thesis" by (auto split: sum.split dest: create_ok)
next
  case (AddSerial i n now)
  then show "transfers_ok d \<Longrightarrow> ?thesis" by (auto split: sum.split dest: add_ok)
next
  case (RemoveItem i k)
  then show "transfers_ok d \<Longrightarrow> ?thesis" by (auto split: sum.split dest: remove_ok)
next
  case (DispatchTransfer ev i u now)
  then show "transfers_ok d \<Longrightarrow> ?thesis" by (auto split: sum.split dest: dispatch_calmer calmer_ok)
next
  case (TransferAvailable p now)
  then show "transfers_ok d \<Longrightarrow> ?thesis" by (auto split: sum.split dest: available_ok)
next
  case (ScanItem i n now)
  then show "transfers_ok d \<Longrightarrow> ?thesis" by (auto split: sum.split dest: scan_calmer calmer_ok)
next
  case (FinalizeReceipt ev i u now)
  then show "transfers_ok d \<Longrightarrow> ?thesis" by (auto split: sum.split dest: finalize_calmer calmer_ok)
next
  case (TransferReceipt p now)
  then show "transfers_ok d \<Longrightarrow> ?thesis" by (auto split: sum.split dest: receipt_calmer calmer_ok)
qed


interpretation transfer_machine: machine "transfer_step sha cfg" transfers_ok for sha cfg
  by unfold_locales (rule transfer_step_ok)

lemma open_transferD:
  assumes "open_transfer d i"
  shows "\<exists>t. get_transfer d i = Some t \<and> trf_direction t = OUTBOUND \<and>
    trf_status t \<in> {TS_DRAFT, TS_PENDING_MASTER, TS_DISPATCHED, TS_PARTIALLY_RECEIVED}"
  using assms by (auto simp: open_transfer_def open_outbound_def split: option.splits)

text \<open>
  C18. However transfers are created, filled, dispatched, brought in, scanned and settled, no
  serial stands in two items of open outbound transfers (drafts included), item and transfer
  keys stay unique, and a transfer marked received has received every one of its items.
\<close>

theorem reserved_once:
  assumes "transfers_ok d" and e: "e = run_ops (transfer_step sha cfg) ops d"
  shows "distinct (map trf_id (transfers e)) \<and> distinct (map tri_id (transfer_items e)) \<and>
    (\<forall>i \<in> set (transfer_items e). \<forall>j \<in> set (transfer_items e).
       tri_serial_id i = tri_serial_id j \<and> open_transfer e (tri_transfer_id i) \<and> open_transfer e (tri_transfer_id j) \<longrightarrow> i = j) \<and>
    (\<forall>t \<in> set (transfers e). trf_status t = TS_RECEIVED \<longrightarrow> (\<forall>i \<in> set (items_of_transfer e (trf_id t)). tri_received i))"
proof -
  have ok: "transfers_ok e" unfolding e by (rule transfer_machine.run_inv [OF assms(1)])
  have "i = j" if "i \<in> set (transfer_items e)" "j \<in> set (transfer_items e)" "tri_serial_id i = tri_serial_id j"
    "open_transfer e (tri_transfer_id i)" "open_transfer e (tri_transfer_id j)" for i j
  proof -
    have "inj_on tri_serial_id {i \<in> set (transfer_items e). open_transfer e (tri_transfer_id i)}"
      using ok by (simp add: transfers_ok_def reserved_serials_def distinct_map)
    then show ?thesis using that by (simp add: inj_on_def)
  qed
  then show ?thesis using ok by (auto simp: transfers_ok_def closed_ok_def transfer_closed_def list_all_iff)
qed

end
