(* ===== verification/CommandFacts.thy ===== *)
theory CommandFacts
  imports Reservations
begin

text \<open>
  Commands of the Master are applied once and in order: a replay changes nothing, a command
  that fails leaves the stock as the commands before it left it.
\<close>

section \<open>No command touches the inbox\<close>

lemma available_inbox:
  assumes "apply_transfer_available_command cfg p now d = Inr d'"
  shows "inbox d' = inbox d"
proof (rule availableD [OF assms])
  fix row items seen
  assume loop: "fold_res (receive_manifest_item (trf_id row) now) items (d\<lparr>transfers := transfers d @ [row]\<rparr>, []) = Inr (d', seen)"
  have "inbox (fst (d', seen)) = inbox (fst (d\<lparr>transfers := transfers d @ [row]\<rparr>, [] :: string list))"
  proof (rule fold_res_frame [OF loop, where g = "\<lambda>st. inbox (fst st)"])
    fix x st st'
    assume step: "receive_manifest_item (trf_id row) now x st = Inr st'"
    obtain e sn e' sn' where eq: "st = (e, sn)" "st' = (e', sn')" by (cases st; cases st')
    show "inbox (fst st') = inbox (fst st)"
      by (rule receive_manifest_itemD [OF step [unfolded eq]]) (simp add: eq)
  qed
  then show ?thesis by simp
qed simp

lemma settle_item_inbox: "inbox (settle_item received now i d) = inbox d"
  by (simp add: settle_item_eq set_serial_def split: option.split)

lemma receipt_inbox:
  assumes "apply_transfer_receipt_command p now d = Inr d'"
  shows "inbox d' = inbox d"
proof (rule transfer_receiptD [OF assms])
  fix t received
  assume "d' = settle_transfer (trf_id t) now (fold (settle_item received now) (items_of_transfer d (trf_id t)) d)"
  moreover have "inbox (fold (settle_item received now) its d) = inbox d" for its d
    by (induction its arbitrary: d) (simp_all add: settle_item_inbox)
  ultimately show ?thesis by (simp add: settle_transfer_def Let_def)
qed

lemma review_inbox: "apply_receipt_review_command p d = Inr d' \<Longrightarrow> inbox d' = inbox d"
  by (auto simp: apply_receipt_review_command_def Let_def split: option.splits if_splits)

lemma allocated_inbox:
  assumes "apply_qr_allocated_command cfg p now d = Inr d'"
  shows "inbox d' = inbox d"
proof -
  obtain rows x d1 pid where "allocation_product x now d = Inr (d1, pid)" "d' = fold (add_label pid now) rows d1"
    using assms by (auto simp: apply_qr_allocated_command_def Let_def split: if_splits json.splits option.splits)
  moreover have "inbox (fold (add_label pid now) rows e) = inbox e" for rows e
    by (induction rows arbitrary: e) (simp_all add: add_label_def)
  ultimately show ?thesis
    by (auto simp: allocation_product_def Let_def set_product_def split: list.splits if_splits option.splits)
qed

lemma replace_inbox:
  assumes "apply_qr_replace_command sha cfg ev p cid now d = Inr d'"
  shows "inbox d' = inbox d"
proof -
  obtain old number r row where "enqueue_outbox_event sha cfg ev now r (swap_label old number now d) = Inr (d', row)"
    using assms by (auto simp: apply_qr_replace_command_def Let_def split: if_splits option.splits)
  then show ?thesis using enqueueD(1) by (fastforce simp: swap_label_def Let_def set_serial_def)
qed

lemma upsert_inbox:
  assumes "apply_product_upsert_command cfg p now d = Inr d'"
  shows "inbox d' = inbox d"
proof -
  obtain u x where u: "check_address cfg p ''Unsupported Master product version.''
       ''Master product is addressed to a different franchise.'' = Inr u" "is_obj (jget ''product'' p)"
    "parse_upsert (jget ''product'' p) = Inr x"
    using assms by (auto simp: apply_product_upsert_command_def Let_def split: if_splits)
  consider "matching_products d (pid_code x) = []" | q where "matching_products d (pid_code x) = [q]"
    | q r qs where "matching_products d (pid_code x) = q # r # qs"
    by (metis list.exhaust)
  then show ?thesis
    using assms u by cases (auto simp: apply_product_upsert_command_def Let_def set_product_def)
qed

lemma run_command_inbox:
  assumes "run_command sha cfg ev now c d = Inr d'"
  shows "inbox d' = inbox d"
  using assms available_inbox receipt_inbox review_inbox allocated_inbox replace_inbox upsert_inbox
  by (auto simp: run_command_def Let_def split: if_splits)


section \<open>The row of a command\<close>

lemma inbox_row_set:
  assumes "\<And>r. cmd_command_id (f r) = cmd_command_id r"
  shows "inbox_row (set_inbox i f d) j = (if j = i then map_option f (inbox_row d j) else inbox_row d j)"
proof -
  have "inbox_row (set_inbox i f d) j = map_option (\<lambda>r. if cmd_command_id r = i then f r else r) (inbox_row d j)"
    using assms by (simp add: inbox_row_def set_inbox_def find_upd_rows)
  then show ?thesis by (cases "inbox_row d j") (auto simp: inbox_row_def dest: find_SomeD)
qed

lemma inbox_row_snoc:
  "inbox_row (d\<lparr>inbox := inbox d @ [r]\<rparr>) j = (case inbox_row d j of None \<Rightarrow> if cmd_command_id r = j then Some r else None | Some x \<Rightarrow> Some x)"
  by (simp add: inbox_row_def find_append split: option.split)

lemma inbox_row_cong: "inbox e = inbox d \<Longrightarrow> inbox_row e i = inbox_row d i"
  by (simp add: inbox_row_def)

lemma new_inbox_row_fields [simp]:
  "cmd_command_id (new_inbox_row sha c st now d) = cmp_command c" "same_command sha c (new_inbox_row sha c st now d)"
  "cmd_status (new_inbox_row sha c st now d) = st"
  by (simp_all add: new_inbox_row_def same_command_def)

lemma same_command_upd [simp]:
  "same_command sha c (r\<lparr>cmd_attempts := a, cmd_status := s, cmd_last_error := e\<rparr>) = same_command sha c r"
  "same_command sha c (r\<lparr>cmd_status := s, cmd_applied_at := t\<rparr>) = same_command sha c r"
  by (simp_all add: same_command_def)

lemma started_row:
  assumes "case inbox_row d (cmp_command c) of None \<Rightarrow> True | Some r \<Rightarrow> same_command sha c r"
  shows "\<exists>r. inbox_row (start_command sha c now d) (cmp_command c) = Some r \<and> same_command sha c r"
  using assms by (auto simp: start_command_def inbox_row_set inbox_row_snoc split: option.splits)

lemma executed_row:
  assumes "execute_command sha cfg ev now c d = Inr d'"
    and "case inbox_row d (cmp_command c) of None \<Rightarrow> True | Some r \<Rightarrow> same_command sha c r"
  shows "\<exists>r. inbox_row d' (cmp_command c) = Some r \<and> same_command sha c r \<and> cmd_status r = I_APPLIED"
proof -
  obtain d1 where d1: "run_command sha cfg ev now c (start_command sha c now d) = Inr d1"
    "d' = set_inbox (cmp_command c) (\<lambda>r. r\<lparr>cmd_status := I_APPLIED, cmd_applied_at := Some now\<rparr>) d1"
    using assms(1) by (auto simp: execute_command_def)
  obtain r where "inbox_row (start_command sha c now d) (cmp_command c) = Some r" "same_command sha c r"
    using started_row [OF assms(2)] by blast
  then have "inbox_row d1 (cmp_command c) = Some r" using inbox_row_cong [OF run_command_inbox [OF d1(1)]] by simp
  with \<open>same_command sha c r\<close> show ?thesis by (simp add: d1(2) inbox_row_set)
qed

text \<open>The row an applied command leaves.\<close>

lemma applied_row:
  assumes "apply_master_command sha cfg ev now command d = Inr d'"
  shows "\<exists>c r. command_parts_of command = Inr c \<and> cmp_schema c = 1 \<and> inbox_row d' (cmp_command c) = Some r \<and>
    same_command sha c r \<and> cmd_status r = I_APPLIED"
proof -
  obtain c where c: "command_parts_of command = Inr c" "cmp_schema c = 1"
    using assms by (auto simp: apply_master_command_def split: if_splits)
  show ?thesis
  proof (cases "inbox_row d (cmp_command c)")
    case None
    then have "execute_command sha cfg ev now c d = Inr d'" using assms c by (simp add: apply_master_command_def)
    from executed_row [OF this] None c show ?thesis by auto
  next
    case (Some r)
    then have s: "same_command sha c r" using assms c by (auto simp: apply_master_command_def split: if_splits)
    show ?thesis
    proof (cases "cmd_status r = I_APPLIED")
      case True
      then have "d' = d" using assms c Some s by (simp add: apply_master_command_def)
      with True Some s c show ?thesis by auto
    next
      case False
      then have "execute_command sha cfg ev now c d = Inr d'" using assms c Some s by (simp add: apply_master_command_def)
      from executed_row [OF this] Some s c show ?thesis by auto
    qed
  qed
qed

text \<open>
  C19. A command is applied once: delivered again to a database that still holds its row --
  under any configuration, at any time, after whatever else has happened -- it changes
  nothing; a different command under its identifier is refused and changes nothing.
\<close>

theorem command_applied_once:
  assumes "apply_master_command sha cfg ev now command d = Inr d'" "command_parts_of command = Inr c"
    and "inbox_row e (cmp_command c) = inbox_row d' (cmp_command c)"
  shows "apply_master_command sha cfg2 ev2 now2 command e = Inr e \<and>
    (\<forall>other c2. command_parts_of other = Inr c2 \<and> cmp_schema c2 = 1 \<and> cmp_command c2 = cmp_command c \<and>
       (cmp_type c2 \<noteq> cmp_type c \<or> sha (canonical_json (cmp_payload c2)) \<noteq> sha (canonical_json (cmp_payload c))) \<longrightarrow>
       apply_master_command sha cfg2 ev2 now2 other e =
         Inl (MasterSyncError (''Master command '' @ cmp_command c @ '' conflicts with an existing command.'')))"
proof -
  obtain r where r: "cmp_schema c = 1" "inbox_row e (cmp_command c) = Some r" "same_command sha c r" "cmd_status r = I_APPLIED"
    using applied_row [OF assms(1)] assms(2,3) by auto
  have "apply_master_command sha cfg2 ev2 now2 command e = Inr e"
    using r assms(2) by (simp add: apply_master_command_def)
  moreover have "\<not> same_command sha c2 r"
    if "cmp_type c2 \<noteq> cmp_type c \<or> sha (canonical_json (cmp_payload c2)) \<noteq> sha (canonical_json (cmp_payload c))" for c2
    using r(3) that by (auto simp: same_command_def)
  ultimately show ?thesis using r(2) by (auto simp: apply_master_command_def)
qed

section \<open>A poll\<close>

definition commands_applied ::
  "(string \<Rightarrow> string) \<Rightarrow> settings \<Rightarrow> poll_world \<Rightarrow> nat \<Rightarrow> json list \<Rightarrow> db \<Rightarrow> exc + db"
where
  "commands_applied sha cfg world k cs d =
     fold_res (\<lambda>(j, c). apply_master_command sha cfg (fst (world j)) (fst (snd (world j))) c) (enumerate k cs) d"

lemma commands_applied_Nil [simp]: "commands_applied sha cfg world k [] d = Inr d"
  by (simp add: commands_applied_def)

lemma commands_applied_Cons:
  "world k = (ev, now, ack) \<Longrightarrow> apply_master_command sha cfg ev now c d = Inr d' \<Longrightarrow>
     commands_applied sha cfg world k (c # cs) d = commands_applied sha cfg world (Suc k) cs d'"
  by (simp add: commands_applied_def)

lemma persist_effect:
  assumes "persist_failed_command sha now command e d = Inr d'"
  shows "\<exists>c. command_parts_of command = Inr c \<and> d' = d\<lparr>inbox := inbox d'\<rparr> \<and>
    (\<forall>j. j \<noteq> cmp_command c \<longrightarrow> inbox_row d' j = inbox_row d j) \<and>
    (\<exists>r. inbox_row d' (cmp_command c) = Some r \<and> (cmd_status r = I_FAILED \<or> d' = d \<and> cmd_status r = I_APPLIED))"
proof -
  obtain c where c: "command_parts_of command = Inr c" using assms by (auto simp: persist_failed_command_def)
  define f where "f = (\<lambda>r :: inbox_command. r\<lparr>cmd_status := I_FAILED, cmd_attempts := cmd_attempts r + 1,
            cmd_last_error := Some (safe_error [] (OtherFailure (exc_text e)))\<rparr>)"
  have f: "cmd_command_id (f r) = cmd_command_id r" "cmd_status (f r) = I_FAILED" for r by (simp_all add: f_def)
  have frame: "set_inbox i f (d\<lparr>inbox := rows\<rparr>) = d\<lparr>inbox := inbox (set_inbox i f (d\<lparr>inbox := rows\<rparr>))\<rparr>"
    "set_inbox i f d = d\<lparr>inbox := inbox (set_inbox i f d)\<rparr>" for i rows
    by (simp_all add: set_inbox_def)
  consider "inbox_row d (cmp_command c) = None"
      "d' = set_inbox (cmp_command c) f (d\<lparr>inbox := inbox d @ [new_inbox_row sha c I_RECEIVED now d]\<rparr>)"
    | r where "inbox_row d (cmp_command c) = Some r" "cmd_status r = I_APPLIED" "d' = d"
    | r where "inbox_row d (cmp_command c) = Some r" "d' = set_inbox (cmp_command c) f d"
    using assms c unfolding f_def
    by (auto simp: persist_failed_command_def Let_def split: option.splits if_splits)
  then show ?thesis
  proof cases
    case 1
    then show ?thesis using c frame f by (auto simp: inbox_row_set inbox_row_snoc split: option.split)
  next
    case 2
    then show ?thesis using c by auto
  next
    case 3
    then show ?thesis using c frame f by (auto simp: inbox_row_set)
  qed
qed

text \<open>
  C20. A poll applies a prefix of the delivered commands, in order, and acknowledges no more
  than it applied; the command that ends it, if it failed, leaves every table but the inbox
  as the prefix left it, and in the inbox only its own row, which is marked failed.
\<close>

theorem failed_command_harmless:
  assumes "apply_commands sha cfg key world k cs d = (d', n, err)"
  shows "\<exists>m d1. m \<le> length cs \<and> n \<le> k + m \<and> k + m \<le> n + 1 \<and> commands_applied sha cfg world k (take m cs) d = Inr d1 \<and>
    d' = d1\<lparr>inbox := inbox d'\<rparr> \<and>
    (d' = d1 \<or> (m < length cs \<and> (\<exists>e. apply_master_command sha cfg (fst (world (k + m))) (fst (snd (world (k + m)))) (cs ! m) d1 = Inl e) \<and>
      (\<exists>c. command_parts_of (cs ! m) = Inr c \<and> (\<forall>j. j \<noteq> cmp_command c \<longrightarrow> inbox_row d' j = inbox_row d1 j) \<and>
        (\<exists>r. inbox_row d' (cmp_command c) = Some r \<and> cmd_status r = I_FAILED))))"
  using assms
proof (induction cs arbitrary: k d)
  case Nil
  then show ?case by (intro exI [of _ 0] exI [of _ d]) simp
next
  case (Cons c cs)
  obtain ev now ack where w: "world k = (ev, now, ack)" by (cases "world k") auto
  have stop: ?case if "d' = d" "n = k" using that by (intro exI [of _ 0] exI [of _ d]) simp
  show ?case
  proof (cases "is_obj c")
    case False
    then show ?thesis using Cons.prems w by (intro stop) auto
  next
    case obj: True
    show ?thesis
    proof (cases "apply_master_command sha cfg ev now c d")
      case (Inl e)
      show ?thesis
      proof (cases "persist_failed_command sha now c e d")
        case (Inl e')
        with \<open>apply_master_command sha cfg ev now c d = Inl e\<close> show ?thesis
          using Cons.prems w obj by (intro stop) auto
      next
        case (Inr d2)
        then have d2: "d' = d2" "n = k"
          using Cons.prems w obj \<open>apply_master_command sha cfg ev now c d = Inl e\<close> by auto
        show ?thesis
          using persist_effect [OF Inr] d2 w \<open>apply_master_command sha cfg ev now c d = Inl e\<close>
          by (intro exI [of _ 0] exI [of _ d]) auto
      qed
    next
      case (Inr d2)
      have step: "commands_applied sha cfg world k (c # xs) d = commands_applied sha cfg world (Suc k) xs d2" for xs
        by (rule commands_applied_Cons, rule w, rule Inr)
      show ?thesis
      proof (cases "http_body key ack")
        case (Inl e)
        then have "d' = d2" "n = k" using Cons.prems w obj Inr by auto
        then show ?thesis using step [of "[]"] by (intro exI [of _ 1] exI [of _ d2]) simp
      next
        case (Inr b)
        then have "apply_commands sha cfg key world (Suc k) cs d2 = (d', n, err)"
          using Cons.prems w obj \<open>apply_master_command sha cfg ev now c d = Inr d2\<close> by simp
        from Cons.IH [OF this] obtain m d1 where "m \<le> length cs \<and> n \<le> Suc k + m \<and> Suc k + m \<le> n + 1 \<and>
          commands_applied sha cfg world (Suc k) (take m cs) d2 = Inr d1 \<and> d' = d1\<lparr>inbox := inbox d'\<rparr> \<and>
          (d' = d1 \<or> (m < length cs \<and> (\<exists>e. apply_master_command sha cfg (fst (world (Suc k + m))) (fst (snd (world (Suc k + m)))) (cs ! m) d1 = Inl e) \<and>
          (\<exists>c. command_parts_of (cs ! m) = Inr c \<and> (\<forall>j. j \<noteq> cmp_command c \<longrightarrow> inbox_row d' j = inbox_row d1 j) \<and>
          (\<exists>r. inbox_row d' (cmp_command c) = Some r \<and> cmd_status r = I_FAILED))))" by blast
        then show ?thesis using step by (intro exI [of _ "Suc m"] exI [of _ d1]) simp
      qed
    qed
  qed
qed

end
