(* ===== verification/TransferScenarios.thy ===== *)
theory TransferScenarios
  imports Scenarios CommandFacts
begin

text \<open>
  A parcel between two shops and commands of the Master on the sample shop: the witnesses of
  the properties of transfers and commands.
\<close>

section \<open>A parcel\<close>

definition ex_transfer :: "transfer_direction \<Rightarrow> transfer_status \<Rightarrow> local_transfer" where
  "ex_transfer dir st = \<lparr>trf_id = 1, trf_uuid = ''T-1'', trf_direction = dir, trf_status = st, trf_local_code = Some ''FR-7'',
     trf_peer_code = ''FR-8'', trf_created_by_id = Some 1, trf_notes = None, trf_last_error = None, trf_created_at = 0,
     trf_dispatched_at = None, trf_received_at = None\<rparr>"

definition ex_parcel_item :: "bool \<Rightarrow> transfer_item" where
  "ex_parcel_item scanned = \<lparr>tri_id = 1, tri_transfer_id = 1, tri_serial_id = Some 1, tri_manifest_number = ''SOAP-000001'',
     tri_product_code = ''SOAP'', tri_product_name = ''Soap'', tri_scanned = scanned, tri_received = False,
     tri_scanned_at = None, tri_received_at = None, tri_created_at = 0\<rparr>"

definition ex_leaving_db :: db where
  "ex_leaving_db = ex_queued_db\<lparr>transfers := [ex_transfer OUTBOUND TS_DRAFT], transfer_items := [ex_parcel_item False]\<rparr>"

definition ex_arriving_db :: db where
  "ex_arriving_db = ex_queued_db\<lparr>serials := [ex_serial 1 ''SOAP-000001'' S_IN_TRANSIT None, ex_serial 2 ''SOAP-000002'' S_IN_STOCK None],
     transfers := [ex_transfer INBOUND TS_AWAITING_RECEIPT], transfer_items := [ex_parcel_item True]\<rparr>"

abbreviation ex_clerk :: user where "ex_clerk \<equiv> ex_user 1 ''asha'' ''admin''"

text \<open>An event whose text is short is accepted.\<close>

definition small_event :: "settings \<Rightarrow> string \<Rightarrow> event_request \<Rightarrow> db \<Rightarrow> bool" where
  "small_event cfg i r d \<longleftrightarrow> enqueue_guard cfg r d = None \<and> list_length (map_of (rev (erq_payload r)) ''items'') \<le> 100 \<and>
     utf8_size (frozen_event_json \<lparr>ehd_event_id = i, ehd_sequence = Suc (outbox_sequence d),
       ehd_type = py_upper (py_strip (erq_type r)), ehd_aggregate_id = erq_aggregate_id r,
       ehd_occurred_at = erq_occurred_at r, ehd_schema_version = erq_schema_version r\<rparr> (erq_payload r)) \<le> 1000"

lemma small_event_accepted: "small_event cfg i r d \<Longrightarrow> \<exists>d' row. enqueue_outbox_event sha cfg i now r d = Inr (d', row)"
  unfolding small_event_def using enqueue_accepts limits order_trans by meson

definition ex_dispatched :: "db \<Rightarrow> db" where
  "ex_dispatched d = set_transfer 1 (\<lambda>r. r\<lparr>trf_status := TS_DISPATCHED, trf_dispatched_at := Some 5\<rparr>) d"

lemma ex_dispatch:
  "\<exists>d'. dispatch_outbound_transfer ex_sha ex_settings (ex_uuid 2) (IdRef 1) ex_clerk 5 ex_leaving_db = Inr d'"
proof -
  let ?t = "ex_transfer OUTBOUND TS_DRAFT" and ?its = "[ex_parcel_item False]"
  have its: "items_of_transfer ex_leaving_db (trf_id ?t) = ?its" "resolve_transfer ex_leaving_db (IdRef 1) OUTBOUND = Inr ?t"
    "trf_id ?t = 1" "trf_status ?t = TS_DRAFT"
    by code_simp+
  have "case fold_res (dispatch_item ex_leaving_db ?t (usr_id ex_clerk) 5) ?its ex_leaving_db of Inl e \<Rightarrow> False
      | Inr d1 \<Rightarrow> small_event ex_settings (ex_uuid 2) (transfer_request ''TRANSFER_DISPATCHED'' (trf_uuid ?t)
          (dispatch_payload (ex_dispatched d1) ?t (usr_username ex_clerk)) 5) (ex_dispatched d1)"
    by code_simp
  then obtain d1 where d1: "fold_res (dispatch_item ex_leaving_db ?t (usr_id ex_clerk) 5) ?its ex_leaving_db = Inr d1"
    "small_event ex_settings (ex_uuid 2) (transfer_request ''TRANSFER_DISPATCHED'' (trf_uuid ?t)
          (dispatch_payload (ex_dispatched d1) ?t (usr_username ex_clerk)) 5) (ex_dispatched d1)"
    by (auto split: sum.splits)
  obtain d' row where "enqueue_outbox_event ex_sha ex_settings (ex_uuid 2) 5
      (transfer_request ''TRANSFER_DISPATCHED'' (trf_uuid ?t) (dispatch_payload (ex_dispatched d1) ?t (usr_username ex_clerk)) 5)
      (ex_dispatched d1) = Inr (d', row)"
    using small_event_accepted [OF d1(2)] by blast
  then show ?thesis
    using its d1(1) unfolding ex_dispatched_def
    by (simp add: dispatch_outbound_transfer_def Let_def del: One_nat_def fold_res.simps)
qed

theorem dispatch_moves_stock_witness:
  "\<exists>d'. dispatch_outbound_transfer ex_sha ex_settings (ex_uuid 2) (IdRef 1) ex_clerk 5 ex_leaving_db = Inr d' \<and>
     stock_status d' 1 = Some S_IN_TRANSIT \<and> stock_status d' 2 = Some S_IN_STOCK"
proof -
  obtain d' where d': "dispatch_outbound_transfer ex_sha ex_settings (ex_uuid 2) (IdRef 1) ex_clerk 5 ex_leaving_db = Inr d'"
    using ex_dispatch by blast
  have ok: "serials_ok ex_leaving_db" "items_of_transfer ex_leaving_db 1 = [ex_parcel_item False]"
    "stock_status ex_leaving_db 2 = Some S_IN_STOCK" by code_simp+
  from dispatch_moves_stock [OF d' ok(1)] obtain ids where ids: "map tri_serial_id [ex_parcel_item False] = map Some ids"
    "\<forall>k \<in> set ids. stock_status d' k = Some S_IN_TRANSIT" "\<forall>k. k \<notin> set ids \<longrightarrow> stock_status d' k = stock_status ex_leaving_db k"
    unfolding ok(2) by blast
  then have "ids = [1]" by (auto simp: ex_parcel_item_def)
  with ids d' ok(3) show ?thesis by simp
qed

lemma ex_receipt:
  "\<exists>d'. finalize_inbound_receipt ex_sha ex_settings (ex_uuid 2) (IdRef 1) ex_clerk 5 ex_arriving_db = Inr d'"
proof -
  let ?t = "ex_transfer INBOUND TS_AWAITING_RECEIPT" and ?its = "[ex_parcel_item True]"
  have its: "receipt_items ex_arriving_db ?t = ?its" "resolve_transfer ex_arriving_db (IdRef 1) INBOUND = Inr ?t"
    "trf_id ?t = 1" "trf_status ?t \<in> set receivable"
    by code_simp+
  have "case fold_res (receive_item ex_arriving_db ?t (usr_id ex_clerk) 5) ?its ex_arriving_db of Inl e \<Rightarrow> False
      | Inr d1 \<Rightarrow> small_event ex_settings (ex_uuid 2) (transfer_request ''TRANSFER_RECEIVED'' (trf_uuid ?t)
          (receipt_payload (close_if_complete 1 5 d1) ?t ?its (usr_username ex_clerk)) 5) (close_if_complete 1 5 d1)"
    by code_simp
  then obtain d1 where d1: "fold_res (receive_item ex_arriving_db ?t (usr_id ex_clerk) 5) ?its ex_arriving_db = Inr d1"
    "small_event ex_settings (ex_uuid 2) (transfer_request ''TRANSFER_RECEIVED'' (trf_uuid ?t)
          (receipt_payload (close_if_complete 1 5 d1) ?t ?its (usr_username ex_clerk)) 5) (close_if_complete 1 5 d1)"
    by (auto split: sum.splits)
  obtain d' row where "enqueue_outbox_event ex_sha ex_settings (ex_uuid 2) 5
      (transfer_request ''TRANSFER_RECEIVED'' (trf_uuid ?t) (receipt_payload (close_if_complete 1 5 d1) ?t ?its (usr_username ex_clerk)) 5)
      (close_if_complete 1 5 d1) = Inr (d', row)"
    using small_event_accepted [OF d1(2)] by blast
  then show ?thesis
    using its d1(1) by (simp add: finalize_inbound_receipt_def Let_def del: One_nat_def fold_res.simps)
qed

theorem receipt_moves_stock_witness:
  "\<exists>d'. finalize_inbound_receipt ex_sha ex_settings (ex_uuid 2) (IdRef 1) ex_clerk 5 ex_arriving_db = Inr d' \<and>
     stock_status d' 2 = Some S_IN_STOCK \<and> (\<exists>t. get_transfer d' 1 = Some t \<and> trf_status t = TS_RECEIVED)"
proof -
  obtain d' where d': "finalize_inbound_receipt ex_sha ex_settings (ex_uuid 2) (IdRef 1) ex_clerk 5 ex_arriving_db = Inr d'"
    using ex_receipt by blast
  have ok: "serials_ok ex_arriving_db" "distinct (map tri_id (transfer_items ex_arriving_db))"
    "items_of_transfer ex_arriving_db 1 = [ex_parcel_item True]" "stock_status ex_arriving_db 2 = Some S_IN_STOCK" by code_simp+
  have "filter (\<lambda>i. tri_scanned i \<and> \<not> tri_received i) [ex_parcel_item True] = [ex_parcel_item True]"
    "\<forall>i \<in> set [ex_parcel_item True]. tri_scanned i \<or> tri_received i" by (simp_all add: ex_parcel_item_def)
  with receipt_moves_stock [OF d' ok(1,2)] obtain ids t' where ids: "map tri_serial_id [ex_parcel_item True] = map Some ids"
    "\<forall>k. k \<notin> set ids \<longrightarrow> stock_status d' k = stock_status ex_arriving_db k"
    "get_transfer d' 1 = Some t'" "trf_status t' = TS_RECEIVED"
    unfolding ok(3) by metis
  then have "ids = [1]" by (auto simp: ex_parcel_item_def)
  with ids d' ok(4) show ?thesis by simp
qed

theorem manifest_item_round_trip_witness:
  "\<exists>d'. receive_manifest_item 1 9 (network_event_item ex_product (ex_serial 1 ''SOAP-000001'' S_IN_STOCK (Some 20000)) None None None)
       (empty_db, []) = Inr (d', [''SOAP-000001'']) \<and> serials d' = [received_serial (ex_serial 1 ''SOAP-000001'' S_IN_STOCK (Some 20000)) 9 1 1]"
proof -
  let ?s = "ex_serial 1 ''SOAP-000001'' S_IN_STOCK (Some 20000)"
  have "normalize_serial ''SOAP-000001'' = ''SOAP-000001''" "normalize_serial ''SOAP'' = ''SOAP''" "py_strip ''Soap'' = ''Soap''"
    by code_simp+
  then have "shippable ex_product ?s"
    by (simp add: shippable_def ex_serial_def ex_product_def date_min_def date_max_def)
  moreover have "serial_by_number empty_db (ser_number ?s) = None" "product_by_code empty_db (prd_code ex_product) = None"
    "ser_number ?s \<notin> set []" "next_id ser_id (serials empty_db) = 1" "next_id prd_id (products empty_db) = 1"
    "serials empty_db = []" "ser_number ?s = ''SOAP-000001''" by code_simp+
  ultimately show ?thesis
    using manifest_item_round_trip [of ex_product ?s empty_db "[]" 1 9 None] by auto
qed

theorem reserved_once_witness:
  "distinct (map tri_id (transfer_items (run_ops (transfer_step ex_sha ex_settings)
     [CreateTransfer ''T-1'' 1 ''FR-8'' None 5, AddSerial 1 ''SOAP-000001'' 6, AddSerial 1 ''SOAP-000001'' 7] ex_queued_db)))"
proof -
  have "transfers_ok ex_queued_db" by code_simp
  from reserved_once [OF this refl] show ?thesis by blast
qed

section \<open>Commands\<close>

definition ex_upsert :: "string \<Rightarrow> string \<Rightarrow> json" where
  "ex_upsert cid code = JObj [(''command_id'', JStr cid), (''command_type'', JStr ''PRODUCT_UPSERT''), (''payload'', JObj [
     (''version'', JInt 1), (''franchise_code'', JStr ''FR-7''), (''product'', JObj [(''product_code'', JStr code),
     (''product_name'', JStr ''Oil''), (''tally_stock_item_name'', JStr ''Oil''), (''hsn'', JStr ''1507''), (''gst_rate'', JInt 5)])])]"

theorem command_applied_once_witness:
  "\<exists>d'. apply_master_command ex_sha ex_settings (ex_uuid 3) 7 (ex_upsert ''C-1'' ''OIL'') ex_queued_db = Inr d' \<and>
     apply_master_command ex_sha ex_settings (ex_uuid 4) 8 (ex_upsert ''C-1'' ''OIL'') d' = Inr d'"
proof -
  have "\<not> isl (apply_master_command ex_sha ex_settings (ex_uuid 3) 7 (ex_upsert ''C-1'' ''OIL'') ex_queued_db)" by code_simp
  then obtain d' where d': "apply_master_command ex_sha ex_settings (ex_uuid 3) 7 (ex_upsert ''C-1'' ''OIL'') ex_queued_db = Inr d'"
    using Inr_exists by blast
  have "\<not> isl (command_parts_of (ex_upsert ''C-1'' ''OIL''))" by code_simp
  then obtain c where "command_parts_of (ex_upsert ''C-1'' ''OIL'') = Inr c" using Inr_exists by blast
  from command_applied_once [OF d' this refl] d' show ?thesis by blast
qed

definition ex_poll :: poll_world where
  "ex_poll k = (ex_uuid k, int k, Answer 200 NoBody)"

theorem failed_command_harmless_witness:
  "\<exists>d' m d1. apply_commands ex_sha ex_settings ''key'' ex_poll 0 [ex_upsert ''C-1'' ''OIL'', ex_upsert ''C-2'' '' ''] ex_queued_db = (d', 1, None) \<and>
     commands_applied ex_sha ex_settings ex_poll 0 (take m [ex_upsert ''C-1'' ''OIL'', ex_upsert ''C-2'' '' '']) ex_queued_db = Inr d1 \<and>
     m \<in> {1, 2} \<and> d' = d1\<lparr>inbox := inbox d'\<rparr>"
proof -
  have "snd (apply_commands ex_sha ex_settings ''key'' ex_poll 0 [ex_upsert ''C-1'' ''OIL'', ex_upsert ''C-2'' '' ''] ex_queued_db) = (1, None)"
    by code_simp
  then obtain d' where a: "apply_commands ex_sha ex_settings ''key'' ex_poll 0 [ex_upsert ''C-1'' ''OIL'', ex_upsert ''C-2'' '' ''] ex_queued_db = (d', 1, None)"
    by (metis prod.collapse)
  from failed_command_harmless [OF a] obtain m d1 where m: "1 \<le> m" "m \<le> 2"
    "commands_applied ex_sha ex_settings ex_poll 0 (take m [ex_upsert ''C-1'' ''OIL'', ex_upsert ''C-2'' '' '']) ex_queued_db = Inr d1"
    "d' = d1\<lparr>inbox := inbox d'\<rparr>" by auto
  then have "m \<in> {1, 2}" by auto
  with a m show ?thesis by blast
qed

end
