(* ===== verification/Relocation.thy ===== *)
theory Relocation
  imports Outbox
begin

text \<open>
  Storage locations and the movement of stock between them, \<open>app/services/relocation.py\<close>.
  A relocation is one transaction: what is returned is the exception, after the rollback, or
  the new database.
\<close>

section \<open>Locations\<close>

definition movable_statuses :: "serial_status list" where
  "movable_statuses = [S_IN_STOCK, S_RETURNED]"

definition clean_text :: "string option \<Rightarrow> string" where
  "clean_text v = py_upper (py_strip (case v of None \<Rightarrow> [] | Some s \<Rightarrow> s))"

text \<open>\<open>^[A-Z0-9][A-Z0-9._:/-]{1,139}$\<close>\<close>

definition code_head :: "char \<Rightarrow> bool" where
  "code_head c \<longleftrightarrow> is_digit c \<or> c \<in> set ''ABCDEFGHIJKLMNOPQRSTUVWXYZ''"

definition location_code_ok :: "string \<Rightarrow> bool" where
  "location_code_ok s \<longleftrightarrow> 2 \<le> length s \<and> length s \<le> 140 \<and> code_head (hd s) \<and>
     list_all (\<lambda>c. code_head c \<or> c \<in> set ''._:/-'') (tl s)"

record location_form =
  lcf_code :: string
  lcf_warehouse :: string
  lcf_zone :: string
  lcf_section :: string
  lcf_rack :: string
  lcf_shelf :: string
  lcf_bin :: string
  lcf_level :: string

definition location_path :: "location \<Rightarrow> string list" where
  "location_path l = [loc_warehouse l, loc_zone l, loc_section l, loc_rack l, loc_shelf l, loc_bin l]"

definition create_location :: "location_form \<Rightarrow> moment \<Rightarrow> db \<Rightarrow> exc + db \<times> location" where
  "create_location f now d =
    (let clean = (\<lambda>s. clean_text (Some s));
         code = clean (lcf_code f);
         fields = [clean (lcf_warehouse f), clean (lcf_zone f), clean (lcf_section f), clean (lcf_rack f),
           clean (lcf_shelf f), clean (lcf_bin f)]
     in if [] \<in> set (code # fields) then
          Inl (RelocationError ''Complete the warehouse, zone, section, rack, shelf, bin, and location code'')
        else if \<not> location_code_ok code then
          Inl (RelocationError ''Location code may use letters, numbers, dots, dashes, underscores, colons, and slashes'')
        else (case warehouse_level_of (lcf_level f) of
            None \<Rightarrow> Inl (RelocationError ''Select a recognized warehouse or franchise level'')
          | Some level \<Rightarrow>
              let row = \<lparr>loc_id = next_id loc_id (locations d), loc_code = code, loc_warehouse = fields ! 0, loc_level = level,
                    loc_zone = fields ! 1, loc_section = fields ! 2, loc_rack = fields ! 3, loc_shelf = fields ! 4,
                    loc_bin = fields ! 5, loc_active = True, loc_created_at = now\<rparr>
              in if list_ex (\<lambda>l. loc_code l = code \<or> location_path l = location_path row) (locations d) then
                   Inl (RelocationError ''That location code or storage path already exists'')
                 else Inr (d\<lparr>locations := locations d @ [row]\<rparr>, row)))"

definition find_location_by_code :: "db \<Rightarrow> string \<Rightarrow> bool \<Rightarrow> location option" where
  "find_location_by_code d code active_only =
     find (\<lambda>l. loc_code l = clean_text (Some code) \<and> (active_only \<longrightarrow> loc_active l)) (locations d)"

text \<open>Where a serial is, as text.\<close>

definition source_text :: "db \<Rightarrow> serial \<Rightarrow> string" where
  "source_text d s =
    (case Option.bind (ser_location_id s) (get_location d) of
       Some l \<Rightarrow> full_path l
     | None \<Rightarrow> (case ser_warehouse s of None \<Rightarrow> ''UNASSIGNED''
         | Some w \<Rightarrow> if w = [] then ''UNASSIGNED'' else py_upper (py_strip w)))"

section \<open>Searching stock\<close>

text \<open>SQLite's \<open>trim\<close> removes spaces only.\<close>

definition sql_trim :: "string \<Rightarrow> string" where
  "sql_trim s = py_strip_by (\<lambda>c. c = CHR '' '') s"

definition movable :: "serial \<Rightarrow> bool" where
  "movable s \<longleftrightarrow> ser_active s \<and> ser_status s \<in> set movable_statuses"

record stock_row =
  stk_product_id :: nat
  stk_product_code :: string
  stk_product_name :: string
  stk_batch_number :: "string option"
  stk_expiry_date :: "string option"
  stk_source_location_id :: "nat option"
  stk_legacy_warehouse :: "string option"
  stk_source_location :: string
  stk_quantity :: nat
  stk_serial_id :: "nat option"
  stk_serial_number :: "string option"

definition exact_stock_row :: "db \<Rightarrow> serial \<Rightarrow> product \<Rightarrow> stock_row" where
  "exact_stock_row d s p = \<lparr>stk_product_id = prd_id p, stk_product_code = prd_code p, stk_product_name = prd_name p,
     stk_batch_number = ser_batch_number s, stk_expiry_date = map_option iso_date (ser_expiry_date s),
     stk_source_location_id = ser_location_id s,
     stk_legacy_warehouse = (if ser_location_id s \<in> {None, Some 0} then Some (clean_text (ser_warehouse s)) else None),
     stk_source_location = source_text d s, stk_quantity = 1, stk_serial_id = Some (ser_id s),
     stk_serial_number = Some (ser_number s)\<rparr>"

text \<open>The grouping columns: product, lot, location, and the old warehouse name of unplaced stock.\<close>

definition legacy_of :: "serial \<Rightarrow> string" where
  "legacy_of s = (if ser_location_id s = None
     then py_upper (sql_trim (case ser_warehouse s of None \<Rightarrow> [] | Some w \<Rightarrow> w)) else [])"

definition stock_group :: "serial \<times> product \<Rightarrow> nat \<times> string option \<times> nat option \<times> string" where
  "stock_group sp = (prd_id (snd sp), ser_batch_number (fst sp), ser_location_id (fst sp), legacy_of (fst sp))"

definition null_first :: "'a option \<Rightarrow> 'a \<Rightarrow> bool \<times> 'a" where
  "null_first x dflt = (case x of None \<Rightarrow> (False, dflt) | Some v \<Rightarrow> (True, v))"

definition stock_order :: "serial \<times> product \<Rightarrow> string \<times> (bool \<times> string) \<times> (bool \<times> nat)" where
  "stock_order sp = (prd_name (snd sp), null_first (ser_batch_number (fst sp)) [], null_first (ser_location_id (fst sp)) 0)"

definition matches_search :: "string \<Rightarrow> serial \<times> product \<Rightarrow> bool" where
  "matches_search q sp =
    (let (s, p) = sp; pat = ''%'' @ q @ ''%'' in
     sql_like pat (ser_number s) \<or> sql_like pat (prd_code p) \<or> sql_like pat (prd_name p) \<or>
     (case ser_batch_number s of None \<Rightarrow> False | Some b \<Rightarrow> sql_like pat b) \<or>
     (q \<noteq> [] \<and> list_all is_digit q \<and> prd_id p = parse_nat q))"

definition earliest :: "day list \<Rightarrow> day option" where
  "earliest ds = (case ds of [] \<Rightarrow> None | x # xs \<Rightarrow> Some (foldl min x xs))"

definition grouped_stock_row :: "db \<Rightarrow> (serial \<times> product) list \<Rightarrow> serial \<times> product \<Rightarrow> stock_row" where
  "grouped_stock_row d rows sp =
    (let (s, p) = sp; members = map fst (filter (\<lambda>x. stock_group x = stock_group sp) rows); old = legacy_of s
     in \<lparr>stk_product_id = prd_id p, stk_product_code = prd_code p, stk_product_name = prd_name p,
         stk_batch_number = ser_batch_number s,
         stk_expiry_date = map_option iso_date (earliest (List.map_filter ser_expiry_date members)),
         stk_source_location_id = ser_location_id s, stk_legacy_warehouse = (if old = [] then None else Some old),
         stk_source_location = (case Option.bind (ser_location_id s) (get_location d) of Some l \<Rightarrow> full_path l
           | None \<Rightarrow> if old = [] then ''UNASSIGNED'' else old),
         stk_quantity = length members, stk_serial_id = None, stk_serial_number = None\<rparr>)"

fun first_of_groups :: "('a \<Rightarrow> 'k) \<Rightarrow> 'k list \<Rightarrow> 'a list \<Rightarrow> 'a list" where
  "first_of_groups key seen [] = []"
| "first_of_groups key seen (x # xs) =
    (if key x \<in> set seen then first_of_groups key seen xs else x # first_of_groups key (key x # seen) xs)"

definition with_products :: "db \<Rightarrow> (serial \<times> product) list" where
  "with_products d = List.map_filter (\<lambda>s. map_option (\<lambda>p. (s, p)) (product_of d s)) (serials d)"

definition search_stock :: "db \<Rightarrow> string \<Rightarrow> nat \<Rightarrow> stock_row list" where
  "search_stock d text limit =
    (let q = py_strip text; rows = filter (\<lambda>sp. movable (fst sp)) (with_products d) in
     if q = [] then []
     else (case find (\<lambda>sp. py_upper (ser_number (fst sp)) = py_upper q) rows of
         Some (s, p) \<Rightarrow> [exact_stock_row d s p]
       | None \<Rightarrow>
           let found = filter (matches_search q) rows
           in map (grouped_stock_row d found)
                (take limit (sort_key stock_order (first_of_groups stock_group [] found)))))"

section \<open>Moving stock\<close>

record move_item =
  mvi_product_id :: nat
  mvi_quantity :: int
  mvi_batch_number :: "string option"
  mvi_source :: "nat option"
  mvi_legacy :: "string option"
  mvi_serial_id :: "nat option"

definition candidate :: "move_item \<Rightarrow> serial \<Rightarrow> bool" where
  "candidate m s \<longleftrightarrow> movable s \<and> ser_product_id s = mvi_product_id m \<and>
     (case mvi_serial_id m of None \<Rightarrow> True | Some i \<Rightarrow> ser_id s = i) \<and>
     ser_batch_number s = (if mvi_batch_number m = Some [] then None else mvi_batch_number m) \<and>
     (case mvi_source m of
        Some l \<Rightarrow> ser_location_id s = Some l
      | None \<Rightarrow> ser_location_id s = None \<and>
          (if mvi_legacy m \<in> {None, Some []} then (case ser_warehouse s of None \<Rightarrow> True | Some w \<Rightarrow> sql_trim w = [])
           else (case ser_warehouse s of None \<Rightarrow> False
             | Some w \<Rightarrow> py_upper (sql_trim w) = clean_text (mvi_legacy m))))"

text \<open>The serials of an item: the candidates in expiry order, without those already taken.\<close>

definition chosen_serials :: "db \<Rightarrow> nat list \<Rightarrow> move_item \<Rightarrow> serial list" where
  "chosen_serials d claimed m =
     take (nat (mvi_quantity m)) (filter (\<lambda>s. ser_id s \<notin> set claimed)
       (take (nat (mvi_quantity m) + length claimed) (sort_key fefo_order (filter (candidate m) (serials d)))))"

definition moving :: "nat list \<Rightarrow> nat option \<Rightarrow> serial \<Rightarrow> bool" where
  "moving ids source s \<longleftrightarrow> ser_id s \<in> set ids \<and> movable s \<and> ser_location_id s = source"

definition put_at :: "location \<Rightarrow> serial \<Rightarrow> serial" where
  "put_at l s = s\<lparr>ser_location_id := Some (loc_id l), ser_warehouse := Some (loc_warehouse l), ser_level := loc_level l\<rparr>"

definition claim_move :: "nat list \<Rightarrow> nat option \<Rightarrow> location \<Rightarrow> db \<Rightarrow> nat \<times> db" where
  "claim_move ids source l d =
     (count_rows (moving ids source) (serials d), d\<lparr>serials := upd_rows (moving ids source) (put_at l) (serials d)\<rparr>)"

text \<open>The rows of one moved serial.\<close>

definition note_move :: "nat \<Rightarrow> string \<Rightarrow> string \<Rightarrow> nat \<Rightarrow> moment \<Rightarrow> serial \<Rightarrow> db \<Rightarrow> db" where
  "note_move rid reference remark uid now s d =
    (let d1 = d\<lparr>relocation_serials := relocation_serials d @
           [\<lparr>rls_id = next_id rls_id (relocation_serials d), rls_relocation_id = rid, rls_serial_id = ser_id s\<rparr>]\<rparr>;
         d2 = add_scan_log (Some (ser_id s)) (ser_number s) uid ''RELOCATION'' None ''MOVED'' (Some remark) None now d1
     in d2\<lparr>transactions := transactions d2 @ [\<lparr>txn_id = next_id txn_id (transactions d2), txn_type = T_RELOCATION,
          txn_serial_id = Some (ser_id s), txn_product_id = Some (ser_product_id s), txn_batch_id = None, txn_user_id = uid,
          txn_serial_number = Some (ser_number s), txn_status_from = Some (ser_status s),
          txn_status_to = Some (ser_status s), txn_reason_code = None, txn_tally_reference = None,
          txn_reference_number = Some reference, txn_notes = Some remark, txn_created_at = now\<rparr>]\<rparr>)"

record move_request =
  mvr_user :: user
  mvr_destination_id :: nat
  mvr_items :: "move_item list"
  mvr_reason :: "string option"
  mvr_device :: string

text \<open>
  What the world contributes: the fresh reference numbers, event identifiers, the clock, and
  what other sessions commit between the search for an item's serials and their update.
\<close>

record move_world =
  mvw_reference :: "nat \<Rightarrow> string"
  mvw_event_id :: "nat \<Rightarrow> string"
  mvw_now :: moment
  mvw_others :: "nat \<Rightarrow> db \<Rightarrow> db"

record move_state =
  mvs_db :: db
  mvs_claimed :: "nat list"
  mvs_moved :: "serial list"
  mvs_relocations :: "stock_relocation list"

definition new_relocation :: "move_request \<Rightarrow> move_world \<Rightarrow> location \<Rightarrow> move_item \<Rightarrow> nat \<Rightarrow> db \<Rightarrow> serial \<Rightarrow> stock_relocation" where
  "new_relocation r w l m k d s = \<lparr>rel_id = next_id rel_id (relocations d), rel_reference = mvw_reference w k,
     rel_product_id = mvi_product_id m, rel_batch_number = ser_batch_number s, rel_quantity = nat (mvi_quantity m),
     rel_previous_location_id = mvi_source m, rel_new_location_id = loc_id l, rel_previous_snapshot = source_text d s,
     rel_new_snapshot = full_path l, rel_user_id = usr_id (mvr_user r),
     rel_reason = (case mvr_reason r of None \<Rightarrow> None | Some t \<Rightarrow> if py_strip t = [] then None else Some (py_strip t)),
     rel_device = take 240 (if py_strip (mvr_device r) = [] then ''Unknown device'' else py_strip (mvr_device r)),
     rel_created_at = mvw_now w\<rparr>"

definition move_one :: "move_request \<Rightarrow> move_world \<Rightarrow> location \<Rightarrow> nat \<times> move_item \<Rightarrow> move_state \<Rightarrow> exc + move_state" where
  "move_one r w l km st =
    (let (k, m) = km; d = mvs_db st; chosen = chosen_serials d (mvs_claimed st) m in
     if mvi_quantity m < 1 then Inl (RelocationError ''Move quantity must be at least 1'')
     else if mvi_serial_id m \<noteq> None \<and> mvi_quantity m \<noteq> 1 then Inl (RelocationError ''A scanned serial can only move one unit'')
     else if mvi_source m = Some (loc_id l) then
       Inl (RelocationError ''The destination must be different from the current location'')
     else if int (length chosen) \<noteq> mvi_quantity m then
       Inl (RelocationError ''Some selected stock is no longer available. Search again and retry'')
     else if list_ex (\<lambda>s. source_text d s \<noteq> source_text d (hd chosen)) chosen then
       Inl (RelocationError ''Selected stock must come from one current location'')
     else
       let row = new_relocation r w l m k d (hd chosen);
           remark = rel_previous_snapshot row @ '' -> '' @ full_path l;
           d1 = mvw_others w k d;
           d2 = d1\<lparr>relocations := relocations d1 @ [row]\<rparr>
       in (case claim_move (map ser_id chosen) (mvi_source m) l d2 of (n, d3) \<Rightarrow>
         if int n \<noteq> mvi_quantity m then
           Inl (RelocationError ''Some selected stock moved at the same time. Search again and retry'')
         else Inr \<lparr>mvs_db = fold (note_move (rel_id row) (rel_reference row) remark (usr_id (mvr_user r)) (mvw_now w)) chosen d3,
                mvs_claimed = map ser_id chosen @ mvs_claimed st,
                mvs_moved = mvs_moved st @ map (put_at l) chosen,
                mvs_relocations = mvs_relocations st @ [row]\<rparr>))"

function chunks_of :: "nat \<Rightarrow> 'a list \<Rightarrow> 'a list list" where
  "chunks_of n xs = (if n = 0 \<or> xs = [] then [] else take n xs # chunks_of n (drop n xs))"
  by pat_completeness auto
termination by (relation "measure (\<lambda>(n, xs). length xs)") (auto simp: neq_Nil_conv)

declare chunks_of.simps [simp del]

definition move_event :: "db \<Rightarrow> serial \<Rightarrow> json option" where
  "move_event d s = map_option (\<lambda>p. network_event_item p s None None None) (product_of d s)"

definition move_event_request :: "db \<Rightarrow> string \<Rightarrow> user \<Rightarrow> moment \<Rightarrow> serial list \<Rightarrow> event_request" where
  "move_event_request d reference u now part = \<lparr>erq_type = ''STOCK_SNAPSHOT'', erq_aggregate_type = ''RELOCATION'',
     erq_aggregate_id = reference, erq_payload = [(''reference'', JStr reference), (''actor'', JStr (usr_username u)),
       (''reason_code'', JStr ''RELOCATION''), (''items'', JList (List.map_filter (move_event d) part))],
     erq_occurred_at = now, erq_schema_version = 1, erq_batch_id = None, erq_initial = False\<rparr>"

definition queue_move :: "(string \<Rightarrow> string) \<Rightarrow> settings \<Rightarrow> move_world \<Rightarrow> string \<Rightarrow> user \<Rightarrow> nat \<times> serial list \<Rightarrow> db \<Rightarrow> exc + db" where
  "queue_move sha cfg w reference u kp d =
    (case enqueue_outbox_event sha cfg (mvw_event_id w (fst kp)) (mvw_now w)
        (move_event_request d (reference @ '':PART-'' @ nat_str (fst kp)) u (mvw_now w) (snd kp)) d of
       Inl e \<Rightarrow> Inl e | Inr (d', row) \<Rightarrow> Inr d')"

text \<open>The handlers at the end of the function: only relocation errors keep their text.\<close>

definition as_relocation_error :: "exc \<Rightarrow> exc" where
  "as_relocation_error e =
    (case e of RelocationError m \<Rightarrow> e | MasterSyncError m \<Rightarrow> RelocationError m
     | _ \<Rightarrow> RelocationError ''The relocation could not be completed. No stock was moved'')"

definition start_move :: "db \<Rightarrow> move_state" where
  "start_move d = \<lparr>mvs_db = d, mvs_claimed = [], mvs_moved = [], mvs_relocations = []\<rparr>"

definition queue_moves :: "(string \<Rightarrow> string) \<Rightarrow> settings \<Rightarrow> move_world \<Rightarrow> user \<Rightarrow> move_state \<Rightarrow> exc + db" where
  "queue_moves sha cfg w u st =
    (if cfg_app_mode cfg = ''lite'' \<and> mvs_moved st \<noteq> [] then
       fold_res (queue_move sha cfg w (rel_reference (hd (mvs_relocations st))) u)
         (enumerate 1 (chunks_of 5000 (mvs_moved st))) (mvs_db st)
     else Inr (mvs_db st))"

definition relocate_stock ::
  "(string \<Rightarrow> string) \<Rightarrow> settings \<Rightarrow> move_request \<Rightarrow> move_world \<Rightarrow> db \<Rightarrow> exc + db \<times> stock_relocation list"
where
  "relocate_stock sha cfg r w d =
    (case get_location d (mvr_destination_id r) of
       None \<Rightarrow> Inl (RelocationError ''The destination location is invalid or inactive'')
     | Some l \<Rightarrow>
         if \<not> loc_active l then Inl (RelocationError ''The destination location is invalid or inactive'')
         else if mvr_items r = [] then Inl (RelocationError ''Add at least one product to the move'')
         else (case bind_res (fold_res (move_one r w l) (enumerate 0 (mvr_items r)) (start_move d)) (\<lambda>st.
                 bind_res (queue_moves sha cfg w (mvr_user r) st) (\<lambda>d'. Inr (d', mvs_relocations st))) of
             Inl e \<Rightarrow> Inl (as_relocation_error e)
           | Inr x \<Rightarrow> Inr x))"

section \<open>The warehouse map\<close>

definition map_order :: "location \<Rightarrow> string \<times> string \<times> string \<times> string \<times> string \<times> string" where
  "map_order l = (loc_warehouse l, loc_zone l, loc_section l, loc_rack l, loc_shelf l, loc_bin l)"

definition warehouse_map_rows :: "db \<Rightarrow> (location \<times> nat) list" where
  "warehouse_map_rows d =
     map (\<lambda>l. (l, length (filter (\<lambda>s. movable s \<and> ser_location_id s = Some (loc_id l)) (serials d))))
       (sort_key map_order (locations d))"


section \<open>What a move does\<close>

lemma put_at_fields [simp]:
  "ser_id (put_at l s) = ser_id s" "ser_number (put_at l s) = ser_number s" "ser_status (put_at l s) = ser_status s"
  "ser_active (put_at l s) = ser_active s" "ser_location_id (put_at l s) = Some (loc_id l)"
  by (simp_all add: put_at_def)

lemma note_move_frame [simp]:
  "serials (note_move rid reference remark uid now s d) = serials d" "outbox (note_move rid reference remark uid now s d) = outbox d"
  by (simp_all add: note_move_def Let_def add_scan_log_def)

lemma note_moves_frame [simp]:
  "serials (fold (note_move rid reference remark uid now) xs d) = serials d"
  by (induction xs arbitrary: d) simp_all

text \<open>As many rows as keys asked for: every key is there.\<close>

lemma count_keys_all:
  assumes "distinct (map key rows)" "distinct ids" "count_rows (\<lambda>r. key r \<in> set ids \<and> p r) rows = length ids" "i \<in> set ids"
  shows "\<exists>r \<in> set rows. key r = i \<and> p r"
proof -
  let ?hit = "filter (\<lambda>r. key r \<in> set ids \<and> p r) rows"
  have "distinct (map key ?hit)" using assms(1) by (rule distinct_map_filter)
  then have "card (key ` set ?hit) = length ids" using assms(3) distinct_card [of "map key ?hit"] by (simp add: count_rows_def)
  moreover have "key ` set ?hit \<subseteq> set ids" by auto
  ultimately have "key ` set ?hit = set ids" using distinct_card [OF assms(2)] by (intro card_subset_eq) simp_all
  then have "i \<in> key ` set ?hit" using assms(4) by simp
  then show ?thesis by auto
qed

lemma chosen_serialsD:
  assumes "s \<in> set (chosen_serials d claimed m)"
  shows "s \<in> set (serials d) \<and> candidate m s \<and> ser_id s \<notin> set claimed"
  using assms by (auto simp: chosen_serials_def dest!: in_set_takeD)

lemma chosen_serials_distinct:
  assumes "serials_ok d"
  shows "distinct (map ser_id (chosen_serials d claimed m))"
proof -
  have "distinct (map ser_id (sort_key fefo_order (filter (candidate m) (serials d))))"
    using assms by (simp add: serials_ok_def distinct_map inj_on_def)
  then show ?thesis
    unfolding chosen_serials_def take_map [symmetric]
    by (intro distinct_take distinct_map_filter) (simp add: take_map [symmetric])
qed

lemma move_oneD:
  assumes "move_one r w l (k, m) st = Inr st'"
  defines "chosen \<equiv> chosen_serials (mvs_db st) (mvs_claimed st) m"
  shows "int (length chosen) = mvi_quantity m" "1 \<le> mvi_quantity m" "mvi_source m \<noteq> Some (loc_id l)"
    "int (count_rows (moving (map ser_id chosen) (mvi_source m)) (serials (mvw_others w k (mvs_db st)))) = mvi_quantity m"
    "serials (mvs_db st') = upd_rows (moving (map ser_id chosen) (mvi_source m)) (put_at l) (serials (mvw_others w k (mvs_db st)))"
    "mvs_claimed st' = map ser_id chosen @ mvs_claimed st" "length (mvs_relocations st') = Suc (length (mvs_relocations st))"
  using assms(1) unfolding chosen_def
  by (auto simp: move_one_def Let_def claim_move_def split: if_splits)

lemma moved_exactly:
  assumes "move_one r w l (k, m) st = Inr st'" "serials_ok (mvs_db st)" "serials_ok (mvw_others w k (mvs_db st))"
  defines ids_def: "ids \<equiv> map ser_id (chosen_serials (mvs_db st) (mvs_claimed st) m)"
  shows "distinct ids \<and> int (length ids) = mvi_quantity m \<and>
    (\<forall>i \<in> set ids. \<exists>s. get_serial (mvw_others w k (mvs_db st)) i = Some s \<and> ser_active s \<and> ser_status s \<in> {S_IN_STOCK, S_RETURNED} \<and>
       ser_location_id s = mvi_source m \<and>
       get_serial (mvs_db st') i = Some (s\<lparr>ser_location_id := Some (loc_id l), ser_warehouse := Some (loc_warehouse l), ser_level := loc_level l\<rparr>)) \<and>
    (\<forall>i. i \<notin> set ids \<longrightarrow> get_serial (mvs_db st') i = get_serial (mvw_others w k (mvs_db st)) i) \<and>
    serials_ok (mvs_db st') \<and> mvs_claimed st' = ids @ mvs_claimed st"
proof -
  let ?chosen = "chosen_serials (mvs_db st) (mvs_claimed st) m" and ?d1 = "mvw_others w k (mvs_db st)"
  let ?ids = "map ser_id ?chosen" and ?p = "moving (map ser_id ?chosen) (mvi_source m)"
  note m = move_oneD [OF assms(1)]
  have dist: "distinct ?ids" by (rule chosen_serials_distinct [OF assms(2)])
  have p: "?p = (\<lambda>r. ser_id r \<in> set ?ids \<and> movable r \<and> ser_location_id r = mvi_source m)" by (simp add: moving_def fun_eq_iff)
  have after: "get_serial (mvs_db st') i = map_option (\<lambda>s. if ?p s then put_at l s else s) (get_serial ?d1 i)" for i
    unfolding get_serial_def m(5) by (rule find_upd_rows) simp
  have "\<exists>s. get_serial ?d1 i = Some s \<and> movable s \<and> ser_location_id s = mvi_source m \<and> get_serial (mvs_db st') i = Some (put_at l s)"
    if i: "i \<in> set ?ids" for i
  proof -
    have "count_rows ?p (serials ?d1) = length ?ids" using m(1,4) by simp
    then obtain s where s: "s \<in> set (serials ?d1)" "ser_id s = i" "movable s" "ser_location_id s = mvi_source m"
      using count_keys_all [OF _ dist _ i, of ser_id "serials ?d1" "\<lambda>r. movable r \<and> ser_location_id r = mvi_source m"] assms(3)
      unfolding p by (auto simp: serials_ok_def)
    then have "get_serial ?d1 i = Some s" using get_serial_mem [OF assms(3) s(1)] by simp
    then show ?thesis using s i after [of i] by (simp add: moving_def)
  qed
  moreover have "get_serial (mvs_db st') i = get_serial ?d1 i" if "i \<notin> set ?ids" for i
    using after [of i] that by (cases "get_serial ?d1 i") (auto simp: moving_def dest: get_serial_in)
  moreover have "serials_ok (mvs_db st')"
    using assms(3) by (simp add: serials_ok_def m(5) map_upd_rows)
  ultimately show ?thesis
    unfolding ids_def using dist m(1,6) by (auto simp: movable_def movable_statuses_def put_at_def)
qed

text \<open>The serials chosen for an item are of the product, the lot, the place and the serial it asks for.\<close>

definition asked_for :: "move_item \<Rightarrow> serial \<Rightarrow> bool" where
  "asked_for m s \<longleftrightarrow> ser_product_id s = mvi_product_id m \<and>
     ser_batch_number s = (if mvi_batch_number m = Some [] then None else mvi_batch_number m) \<and>
     (mvi_serial_id m = None \<or> mvi_serial_id m = Some (ser_id s)) \<and> ser_location_id s = mvi_source m \<and>
     (mvi_source m \<noteq> None \<or>
      (if mvi_legacy m \<in> {None, Some []} then sql_trim (case ser_warehouse s of None \<Rightarrow> [] | Some x \<Rightarrow> x) = []
       else \<exists>x. ser_warehouse s = Some x \<and> py_upper (sql_trim x) = clean_text (mvi_legacy m)))"

lemma chosen_asked_for:
  assumes "serials_ok d" "i \<in> set (map ser_id (chosen_serials d claimed m))"
  shows "i \<notin> set claimed \<and> (\<exists>s. get_serial d i = Some s \<and> asked_for m s)"
proof -
  obtain s where s: "s \<in> set (serials d)" "candidate m s" "ser_id s \<notin> set claimed" "ser_id s = i"
    using assms(2) chosen_serialsD by fastforce
  have "sql_trim [] = []" by (simp add: sql_trim_def py_strip_by_def)
  with s(2) have "asked_for m s" by (auto simp: candidate_def asked_for_def split: option.splits if_splits)
  then show ?thesis using s get_serial_mem [OF assms(1) s(1)] by auto
qed

text \<open>
  C21. Whatever other sessions commit between the search and the update, an item of a
  relocation that succeeds has moved exactly the requested number of serials: each was found as
  one of the product and lot the item names, at its place, and as the very serial if the item names
  one, and no earlier item took it; each was active, movable and still at that place when it was
  moved; and no other serial was moved.
\<close>

theorem move_wins_race:
  assumes "move_one r w l (k, m) st = Inr st'" "serials_ok (mvs_db st)" "serials_ok (mvw_others w k (mvs_db st))"
  shows "\<exists>ids. distinct ids \<and> int (length ids) = mvi_quantity m \<and>
    (\<forall>i \<in> set ids. i \<notin> set (mvs_claimed st) \<and> (\<exists>s. get_serial (mvs_db st) i = Some s \<and>
       ser_product_id s = mvi_product_id m \<and>
       ser_batch_number s = (if mvi_batch_number m = Some [] then None else mvi_batch_number m) \<and>
       (mvi_serial_id m = None \<or> mvi_serial_id m = Some i) \<and> ser_location_id s = mvi_source m \<and>
       (mvi_source m \<noteq> None \<or>
        (if mvi_legacy m \<in> {None, Some []} then sql_trim (case ser_warehouse s of None \<Rightarrow> [] | Some x \<Rightarrow> x) = []
         else \<exists>x. ser_warehouse s = Some x \<and> py_upper (sql_trim x) = clean_text (mvi_legacy m))))) \<and>
    (\<forall>i \<in> set ids. \<exists>s. get_serial (mvw_others w k (mvs_db st)) i = Some s \<and> ser_active s \<and> ser_status s \<in> {S_IN_STOCK, S_RETURNED} \<and>
       ser_location_id s = mvi_source m \<and>
       get_serial (mvs_db st') i = Some (s\<lparr>ser_location_id := Some (loc_id l), ser_warehouse := Some (loc_warehouse l), ser_level := loc_level l\<rparr>)) \<and>
    (\<forall>i. i \<notin> set ids \<longrightarrow> get_serial (mvs_db st') i = get_serial (mvw_others w k (mvs_db st)) i) \<and>
    serials_ok (mvs_db st') \<and> mvs_claimed st' = ids @ mvs_claimed st"
proof -
  let ?ids = "map ser_id (chosen_serials (mvs_db st) (mvs_claimed st) m)"
  have asked: "i \<notin> set (mvs_claimed st) \<and> (\<exists>s. get_serial (mvs_db st) i = Some s \<and>
       ser_product_id s = mvi_product_id m \<and>
       ser_batch_number s = (if mvi_batch_number m = Some [] then None else mvi_batch_number m) \<and>
       (mvi_serial_id m = None \<or> mvi_serial_id m = Some i) \<and> ser_location_id s = mvi_source m \<and>
       (mvi_source m \<noteq> None \<or>
        (if mvi_legacy m \<in> {None, Some []} then sql_trim (case ser_warehouse s of None \<Rightarrow> [] | Some x \<Rightarrow> x) = []
         else \<exists>x. ser_warehouse s = Some x \<and> py_upper (sql_trim x) = clean_text (mvi_legacy m))))"
    if i: "i \<in> set ?ids" for i
  proof -
    obtain s where s: "i \<notin> set (mvs_claimed st)" "get_serial (mvs_db st) i = Some s" "asked_for m s"
      using chosen_asked_for [OF assms(2) i] by blast
    moreover have "ser_id s = i" using s(2) get_serial_in by blast
    ultimately show ?thesis unfolding asked_for_def by blast
  qed
  show ?thesis by (intro exI [of _ ?ids] conjI ballI) (use asked moved_exactly [OF assms] in blast)+
qed

text \<open>All items of a request without other sessions: the claimed serials have moved, the others have not.\<close>

definition moved_so_far :: "db \<Rightarrow> location \<Rightarrow> int \<Rightarrow> move_state \<Rightarrow> bool" where
  "moved_so_far d l n st \<longleftrightarrow> serials_ok (mvs_db st) \<and> distinct (mvs_claimed st) \<and> int (length (mvs_claimed st)) = n \<and>
     (\<forall>i \<in> set (mvs_claimed st). \<exists>s. get_serial d i = Some s \<and> movable s \<and> ser_location_id s \<noteq> Some (loc_id l) \<and>
        get_serial (mvs_db st) i = Some (put_at l s)) \<and>
     (\<forall>i. i \<notin> set (mvs_claimed st) \<longrightarrow> get_serial (mvs_db st) i = get_serial d i)"


lemma moved_step:
  assumes "move_one r w l (k, m) st = Inr st'" "moved_so_far d l n st" "mvw_others w k (mvs_db st) = mvs_db st"
  shows "moved_so_far d l (n + mvi_quantity m) st'"
proof -
  have ok: "serials_ok (mvs_db st)" using assms(2) by (simp add: moved_so_far_def)
  note m = move_oneD [OF assms(1)]
  let ?ids = "map ser_id (chosen_serials (mvs_db st) (mvs_claimed st) m)"
  obtain ids where i: "distinct ids" "int (length ids) = mvi_quantity m"
    "\<forall>i \<in> set ids. \<exists>s. get_serial (mvs_db st) i = Some s \<and> ser_active s \<and> ser_status s \<in> {S_IN_STOCK, S_RETURNED} \<and>
       ser_location_id s = mvi_source m \<and>
       get_serial (mvs_db st') i = Some (s\<lparr>ser_location_id := Some (loc_id l), ser_warehouse := Some (loc_warehouse l), ser_level := loc_level l\<rparr>)"
    "\<forall>i. i \<notin> set ids \<longrightarrow> get_serial (mvs_db st') i = get_serial (mvs_db st) i"
    "serials_ok (mvs_db st')" "mvs_claimed st' = ids @ mvs_claimed st"
    using moved_exactly [OF assms(1) ok] assms(3) ok by auto
  have "ids = ?ids" using i(6) m(6) by simp
  then have new: "set ids \<inter> set (mvs_claimed st) = {}" using chosen_serialsD by fastforce
  have old: "\<forall>i \<in> set ids. get_serial (mvs_db st) i = get_serial d i" using assms(2) new by (auto simp: moved_so_far_def)
  show ?thesis
    unfolding moved_so_far_def
  proof (intro conjI ballI allI impI)
    show "distinct (mvs_claimed st')" "int (length (mvs_claimed st')) = n + mvi_quantity m"
      using i(1,2,6) new assms(2) by (auto simp: moved_so_far_def)
    show "serials_ok (mvs_db st')" by (rule i(5))
    show "get_serial (mvs_db st') j = get_serial d j" if "j \<notin> set (mvs_claimed st')" for j
      using that i(4,6) assms(2) by (auto simp: moved_so_far_def)
    show "\<exists>s. get_serial d j = Some s \<and> movable s \<and> ser_location_id s \<noteq> Some (loc_id l) \<and> get_serial (mvs_db st') j = Some (put_at l s)"
      if "j \<in> set (mvs_claimed st')" for j
    proof (cases "j \<in> set ids")
      case True
      with i(3) old m(3) show ?thesis by (fastforce simp: movable_def movable_statuses_def put_at_def)
    next
      case False
      with that i(4,6) assms(2) show ?thesis by (auto simp: moved_so_far_def)
    qed
  qed
qed

lemma moved_all:
  assumes "fold_res (move_one r w l) (enumerate j ms) st = Inr st'" "moved_so_far d l n st" "\<forall>k e. mvw_others w k e = e"
  shows "moved_so_far d l (n + (\<Sum>m\<leftarrow>ms. mvi_quantity m)) st' \<and>
    length (mvs_relocations st') = length (mvs_relocations st) + length ms"
  using assms(1,2)
proof (induction ms arbitrary: j n st)
  case Nil
  then show ?case by simp
next
  case (Cons m ms)
  then obtain st1 where s: "move_one r w l (j, m) st = Inr st1" "fold_res (move_one r w l) (enumerate (Suc j) ms) st1 = Inr st'"
    by (auto split: sum.splits)
  have "moved_so_far d l (n + mvi_quantity m) st1" using moved_step [OF s(1) Cons.prems(2)] assms(3) by simp
  from Cons.IH [OF s(2) this] show ?case using move_oneD(7) [OF s(1)] by (simp add: add.assoc)
qed

lemma queue_moves_serials:
  assumes "queue_moves sha cfg w u st = Inr d'"
  shows "serials d' = serials (mvs_db st)"
proof -
  have step: "serials e' = serials e" if "queue_move sha cfg w reference u kp e = Inr e'" for reference kp e e'
    using that enqueueD(1) by (fastforce simp: queue_move_def split: sum.splits prod.splits)
  show ?thesis
    using assms fold_res_frame [where g = serials, OF _ step]
    by (auto simp: queue_moves_def split: if_splits)
qed

text \<open>
  A relocation that succeeds moves exactly as many serials as its items ask for: each was
  active, in stock or returned and somewhere else, and now lies at the active destination
  with its warehouse and level; no status changes, no other serial is touched, and one
  relocation row per item is returned.
\<close>

theorem relocation_exact:
  assumes "relocate_stock sha cfg r w d = Inr (d', rels)" "serials_ok d" "\<forall>k e. mvw_others w k e = e"
  shows "\<exists>l ids. get_location d (mvr_destination_id r) = Some l \<and> loc_active l \<and> distinct ids \<and>
    int (length ids) = (\<Sum>m\<leftarrow>mvr_items r. mvi_quantity m) \<and>
    (\<forall>i \<in> set ids. \<exists>s. get_serial d i = Some s \<and> ser_active s \<and> ser_status s \<in> {S_IN_STOCK, S_RETURNED} \<and>
       ser_location_id s \<noteq> Some (loc_id l) \<and>
       get_serial d' i = Some (s\<lparr>ser_location_id := Some (loc_id l), ser_warehouse := Some (loc_warehouse l), ser_level := loc_level l\<rparr>)) \<and>
    (\<forall>i. i \<notin> set ids \<longrightarrow> get_serial d' i = get_serial d i) \<and> stock_status d' = stock_status d \<and>
    length rels = length (mvr_items r)"
proof -
  obtain l where l: "get_location d (mvr_destination_id r) = Some l" "loc_active l"
    using assms(1) by (auto simp: relocate_stock_def split: option.splits if_splits)
  obtain st where st: "fold_res (move_one r w l) (enumerate 0 (mvr_items r)) (start_move d) = Inr st"
    "queue_moves sha cfg w (mvr_user r) st = Inr d'" "rels = mvs_relocations st"
    using assms(1) l by (auto simp: relocate_stock_def split: sum.splits if_splits)
  have "moved_so_far d l 0 (start_move d)" using assms(2) by (simp add: moved_so_far_def start_move_def)
  from moved_all [OF st(1) this assms(3)]
  have m: "moved_so_far d l (\<Sum>m\<leftarrow>mvr_items r. mvi_quantity m) st" "length rels = length (mvr_items r)"
    by (simp_all add: st(3) start_move_def)
  have g: "get_serial d' i = get_serial (mvs_db st) i" for i by (rule get_serial_cong [OF queue_moves_serials [OF st(2)]])
  have "stock_status d' i = stock_status d i" for i
    using m(1) g [of i] by (cases "i \<in> set (mvs_claimed st)") (force simp: moved_so_far_def stock_status_def)+
  then show ?thesis
    using l m g by (intro exI [of _ l] exI [of _ "mvs_claimed st"])
      (auto simp: moved_so_far_def movable_def movable_statuses_def put_at_def fun_eq_iff)
qed

end
