(* ===== verification/Replacement.thy ===== *)
theory Replacement
  imports Labels
begin

text \<open>
  The replacement of a damaged label, \<open>app/services/replacement.py\<close>: the physical unit
  keeps its data under a new number, the old number can never be scanned again.
\<close>

definition replaceable_stock_statuses :: "serial_status list" where
  "replaceable_stock_statuses = [S_IN_STOCK, S_RETURNED, S_DAMAGED]"

definition replacement_status_for :: "serial_status \<Rightarrow> exc + serial_status" where
  "replacement_status_for st =
    (if st = S_GENERATED then Inr S_GENERATED
     else if st \<in> set replaceable_stock_statuses then Inr S_IN_STOCK
     else Inl (InventoryError ''Only unassigned or in-stock QR codes can be replaced''))"

definition blank_serial :: "nat \<Rightarrow> string \<Rightarrow> nat \<Rightarrow> serial_status \<Rightarrow> moment \<Rightarrow> serial" where
  "blank_serial i number pid st now = \<lparr>ser_id = i, ser_number = number, ser_product_id = pid, ser_status = st,
     ser_active = True, ser_created_at = now, ser_replaced_by_id = None, ser_label_printed_at = None,
     ser_label_printed_by_id = None, ser_batch_number = None, ser_mfg_date = None, ser_expiry_date = None,
     ser_warehouse = None, ser_level = COMPANY_WAREHOUSE, ser_location_id = None\<rparr>"

text \<open>The new row: a number given by the user, which must lie in the namespace of the franchise, or a generated one.\<close>

definition named_replacement :: "settings \<Rightarrow> serial \<Rightarrow> serial_status \<Rightarrow> string \<Rightarrow> moment \<Rightarrow> db \<Rightarrow> exc + db \<times> serial" where
  "named_replacement cfg old st number now d =
    (let n = normalize_serial number in
     bind_res (franchise_serial_prefix cfg n) (\<lambda>required.
       if required \<noteq> n then
         Inl (InventoryError (''Replacement serial must use the franchise namespace: '' @ required))
       else if n \<in> ser_number ` set (serials d) then Inl (InventoryError ''Replacement serial already exists'')
       else let s = blank_serial (next_id ser_id (serials d)) n (ser_product_id old) st now
            in Inr (d\<lparr>serials := serials d @ [s]\<rparr>, s)))"

definition replacement_form :: "product \<Rightarrow> serial_status \<Rightarrow> label_form" where
  "replacement_form p st = \<lparr>lbl_prefix = Some (prd_code p), lbl_initial_status = st, lbl_batch_number = None,
     lbl_mfg_date = None, lbl_expiry_date = None, lbl_warehouse = None, lbl_level = warehouse_level_value COMPANY_WAREHOUSE\<rparr>"

definition generated_replacement ::
  "settings \<Rightarrow> (nat \<Rightarrow> db \<Rightarrow> db) \<Rightarrow> serial \<Rightarrow> serial_status \<Rightarrow> moment \<Rightarrow> db \<Rightarrow> exc + db \<times> serial"
where
  "generated_replacement cfg env old st now d =
    (case product_of d old of None \<Rightarrow> Inl (AttributeError ''product_code'')
     | Some p \<Rightarrow> (case generate_serials cfg env False p 1 (replacement_form p st) now d of
         (Inl e, d') \<Rightarrow> Inl e
       | (Inr rows, d') \<Rightarrow> Inr (d', hd rows)))"

definition new_replacement ::
  "settings \<Rightarrow> (nat \<Rightarrow> db \<Rightarrow> db) \<Rightarrow> serial \<Rightarrow> serial_status \<Rightarrow> string option \<Rightarrow> moment \<Rightarrow> db \<Rightarrow> exc + db \<times> serial"
where
  "new_replacement cfg env old st number now d =
    (case number of None \<Rightarrow> generated_replacement cfg env old st now d
     | Some n \<Rightarrow> if py_strip n = [] then generated_replacement cfg env old st now d
         else named_replacement cfg old st n now d)"

text \<open>What the new row takes over from the old one.\<close>

definition inherit :: "serial \<Rightarrow> serial \<Rightarrow> serial" where
  "inherit old s = s\<lparr>ser_batch_number := ser_batch_number old, ser_mfg_date := ser_mfg_date old,
     ser_expiry_date := ser_expiry_date old, ser_warehouse := ser_warehouse old, ser_level := ser_level old,
     ser_location_id := ser_location_id old\<rparr>"

definition retire_old :: "nat \<Rightarrow> serial \<Rightarrow> serial" where
  "retire_old new_id s = s\<lparr>ser_status := S_INVALID, ser_active := False, ser_replaced_by_id := Some new_id\<rparr>"

definition replacement_note :: "serial \<Rightarrow> serial_status option \<Rightarrow> serial_status \<Rightarrow> string \<Rightarrow> movement_note" where
  "replacement_note s from_status to_status remark = \<lparr>nt_type = T_QR_REPLACEMENT, nt_serial = Some s, nt_product = None,
     nt_batch = None, nt_from = from_status, nt_to = Some to_status, nt_reason = None, nt_tally = None,
     nt_reference = None, nt_notes = Some remark\<rparr>"

definition reason_text :: "string option \<Rightarrow> string" where
  "reason_text r = (case r of None \<Rightarrow> [] | Some t \<Rightarrow> t)"

definition exchange_labels :: "nat \<Rightarrow> string option \<Rightarrow> serial \<Rightarrow> serial \<Rightarrow> moment \<Rightarrow> db \<Rightarrow> db" where
  "exchange_labels uid reason old new now d =
    (let to_new = py_strip (''New serial: '' @ ser_number new @ ''. '' @ reason_text reason);
         to_old = py_strip (''Replaces: '' @ ser_number old @ ''. '' @ reason_text reason);
         d1 = set_serial (ser_id old) (retire_old (ser_id new)) (set_serial (ser_id new) (inherit old) d);
         d2 = add_scan_log (Some (ser_id old)) (ser_number old) uid ''QR_REPLACEMENT'' None
                (serial_status_value S_INVALID) (Some to_new) None now d1;
         d3 = add_scan_log (Some (ser_id new)) (ser_number new) uid ''QR_REPLACEMENT'' None
                (serial_status_value (ser_status new)) (Some to_old) None now d2;
         d4 = log_inventory_transaction uid (replacement_note old (Some (ser_status old)) S_INVALID to_new) now d3
     in log_inventory_transaction uid (replacement_note new None (ser_status new) to_old) now d4)"

definition replace_barcode_serial ::
  "settings \<Rightarrow> (nat \<Rightarrow> db \<Rightarrow> db) \<Rightarrow> nat \<Rightarrow> string \<Rightarrow> string option \<Rightarrow> string option \<Rightarrow> moment \<Rightarrow> db \<Rightarrow> exc + db \<times> serial"
where
  "replace_barcode_serial cfg env uid old_number new_number reason now d =
    (if cfg_app_mode cfg = ''lite'' then
       Inl (InventoryError ''QR replacements must be created in Setuora Master and synced to Lite'')
     else (case serial_by_number d (normalize_serial old_number) of
         None \<Rightarrow> Inl (InventoryError ''Serial number not found'')
       | Some old \<Rightarrow>
           if ser_status old \<in> {S_INVALID, S_REPLACED} \<or> \<not> ser_active old then
             Inl (InventoryError ''Serial is already inactive or invalid'')
           else bind_res (replacement_status_for (ser_status old)) (\<lambda>st.
                bind_res (new_replacement cfg env old st new_number now d) (\<lambda>(d1, new).
                  Inr (exchange_labels uid reason old new now d1, inherit old new)))))"

section \<open>What a replacement does\<close>

lemma exchange_serials:
  "serials (exchange_labels uid reason old new now d) =
     serials (set_serial (ser_id old) (retire_old (ser_id new)) (set_serial (ser_id new) (inherit old) d))"
  by (simp add: exchange_labels_def Let_def)

lemma named_replacement_row:
  assumes "named_replacement cfg old st n now d = Inr (d', s)"
  shows "serials d' = serials d @ [s] \<and> ser_number s \<notin> ser_number ` set (serials d) \<and>
    ser_id s = next_id ser_id (serials d) \<and> ser_active s \<and> ser_status s = st \<and> ser_product_id s = ser_product_id old"
  using assms by (auto simp: named_replacement_def Let_def blank_serial_def split: if_splits)

lemma generated_replacement_row:
  assumes "generated_replacement cfg (\<lambda>k d. d) old st now d = Inr (d', s)"
  shows "serials d' = serials d @ [s] \<and> ser_number s \<notin> ser_number ` set (serials d) \<and>
    ser_id s = next_id ser_id (serials d) \<and> ser_active s \<and> ser_status s = st \<and> ser_product_id s = ser_product_id old"
proof -
  obtain p rows where p: "product_of d old = Some p"
    "generate_serials cfg (\<lambda>k d. d) False p 1 (replacement_form p st) now d = (Inr rows, d')" "s = hd rows"
    using assms by (auto simp: generated_replacement_def split: option.splits prod.splits sum.splits)
  obtain pre level where a: "allocate_serials (\<lambda>k d. d) False p (nat 1) pre (replacement_form p st) level now 5 d = (Inr rows, d')"
    using generate_serials_allocated [OF p(2)] .
  obtain e h where e: "d' = e\<lparr>serials := serials e @ rows\<rparr>"
    "map ser_id rows = [next_id ser_id (serials e)..<next_id ser_id (serials e) + nat 1]"
    "\<forall>n \<in> set (map ser_number rows). n \<notin> ser_number ` set (serials e)"
    "\<forall>r \<in> set rows. ser_active r \<and> ser_status r = lbl_initial_status (replacement_form p st) \<and> ser_product_id r = prd_id p"
    using allocated_rows [OF a] by blast
  have "length rows = 1" using arg_cong [OF e(2), of length] by simp
  then have rows: "rows = [s]" using p(3) by (cases rows) auto
  have "prd_id p = ser_product_id old" using p(1) by (auto simp: product_of_def get_product_def dest: find_SomeD)
  moreover have "d' = d\<lparr>serials := serials d @ rows\<rparr>"
    using a by (auto simp: Let_def numeral_eq_Suc split: if_splits)
  moreover have "serials e = serials d" using e(1) calculation(2) by (metis append_same_eq db.select_convs(4) db.surjective db.update_convs(4))
  ultimately show ?thesis using e rows by (simp add: replacement_form_def)
qed


lemma new_replacement_row:
  assumes "new_replacement cfg (\<lambda>k d. d) old st n now d = Inr (d', s)"
  shows "serials d' = serials d @ [s] \<and> ser_number s \<notin> ser_number ` set (serials d) \<and>
    ser_id s = next_id ser_id (serials d) \<and> ser_active s \<and> ser_status s = st \<and> ser_product_id s = ser_product_id old"
  using assms named_replacement_row generated_replacement_row
  by (auto simp: new_replacement_def split: option.splits if_splits)

lemma inherit_fields [simp]:
  "ser_id (inherit old s) = ser_id s" "ser_number (inherit old s) = ser_number s" "ser_active (inherit old s) = ser_active s"
  "ser_status (inherit old s) = ser_status s" "ser_product_id (inherit old s) = ser_product_id s"
  "ser_id (retire_old k s) = ser_id s" "ser_number (retire_old k s) = ser_number s"
  by (simp_all add: inherit_def retire_old_def)

lemma replaceD:
  assumes "replace_barcode_serial cfg env uid number new_number reason now d = Inr (d', s)"
  obtains old st new d1 where "serial_by_number d (normalize_serial number) = Some old"
    "ser_status old \<notin> {S_INVALID, S_REPLACED}" "ser_active old" "replacement_status_for (ser_status old) = Inr st"
    "new_replacement cfg env old st new_number now d = Inr (d1, new)"
    "d' = exchange_labels uid reason old new now d1" "s = inherit old new"
  using assms by (auto simp: replace_barcode_serial_def split: if_splits option.splits)

text \<open>
  C22. A replaced label leaves one usable number for the unit: the new number was free, it
  inherits product, lot, dates and place, starts unassigned or in stock as the old one was,
  the old row is invalid, inactive and points to the new one, every other serial is as it
  was, numbers and keys stay unique -- and the old number cannot be replaced again.
\<close>

theorem replacement_keeps_unit:
  assumes "replace_barcode_serial cfg (\<lambda>k d. d) uid number new_number reason now d = Inr (d', s)" "serials_ok d"
  shows "\<exists>old. serial_by_number d (normalize_serial number) = Some old \<and> ser_active old \<and>
    ser_status old \<in> {S_GENERATED, S_IN_STOCK, S_RETURNED, S_DAMAGED} \<and>
    ser_number s \<notin> ser_number ` set (serials d) \<and> get_serial d' (ser_id s) = Some s \<and> ser_active s \<and>
    ser_status s = (if ser_status old = S_GENERATED then S_GENERATED else S_IN_STOCK) \<and>
    (ser_product_id s, ser_batch_number s, ser_mfg_date s, ser_expiry_date s, ser_warehouse s, ser_level s, ser_location_id s) =
      (ser_product_id old, ser_batch_number old, ser_mfg_date old, ser_expiry_date old, ser_warehouse old, ser_level old, ser_location_id old) \<and>
    get_serial d' (ser_id old) =
      Some (old\<lparr>ser_status := S_INVALID, ser_active := False, ser_replaced_by_id := Some (ser_id s)\<rparr>) \<and>
    (\<forall>k. k \<notin> {ser_id s, ser_id old} \<longrightarrow> get_serial d' k = get_serial d k) \<and> serials_ok d' \<and>
    (\<forall>env uid2 n2 r2 t2. replace_barcode_serial cfg env uid2 number n2 r2 t2 d' =
       Inl (InventoryError ''Serial is already inactive or invalid''))"
proof -
  obtain old st new d1 where o: "serial_by_number d (normalize_serial number) = Some old"
    "ser_status old \<notin> {S_INVALID, S_REPLACED}" "ser_active old" "replacement_status_for (ser_status old) = Inr st"
    and n: "new_replacement cfg (\<lambda>k d. d) old st new_number now d = Inr (d1, new)"
    and d': "d' = exchange_labels uid reason old new now d1" and s: "s = inherit old new"
    using replaceD [OF assms(1)] .
  note row = new_replacement_row [OF n]
  have old: "old \<in> set (serials d)" "ser_number old = normalize_serial number" using serial_by_number_in [OF o(1)] by auto
  have fresh: "ser_id new \<notin> ser_id ` set (serials d)" using row next_id_notin by metis
  then have ids: "ser_id old \<noteq> ser_id new" using old(1) by (metis image_eqI)
  have g1: "get_serial d1 k = (if k = ser_id new then Some new else get_serial d k)" for k
  proof -
    have "get_serial d1 k = (case get_serial d k of None \<Rightarrow> if ser_id new = k then Some new else None | Some x \<Rightarrow> Some x)"
      using row by (simp add: get_serial_def find_append split: option.split)
    moreover have "get_serial d (ser_id new) = None"
      using fresh get_serial_in by (metis image_eqI not_None_eq)
    ultimately show ?thesis by (auto split: option.splits)
  qed
  have eq: "serials d' = serials (set_serial (ser_id old) (retire_old (ser_id new)) (set_serial (ser_id new) (inherit old) d1))"
    by (simp add: d' exchange_serials)
  have g: "get_serial d' k = (if k = ser_id old then Some (retire_old (ser_id new) old)
      else if k = ser_id new then Some s else get_serial d k)" for k
    using g1 ids get_serial_mem [OF assms(2) old(1)] by (simp add: get_serial_cong [OF eq] s)
  have ok1: "serials_ok d1" using assms(2) row fresh by (auto simp: serials_ok_def)
  have ok: "serials_ok d'"
    by (rule serials_okI [OF eq]) (use ok1 in \<open>simp add: set_serial_def serials_ok_def map_upd_rows\<close>)
  have ret: "retire_old (ser_id new) old \<in> set (serials d')"
    using g [of "ser_id old"] get_serial_in by fastforce
  have "serial_by_number d' (ser_number (retire_old (ser_id new) old)) = Some (retire_old (ser_id new) old)"
    unfolding serial_by_number_def using ok ret by (intro find_key_distinct) (simp_all add: serials_ok_def)
  then have again: "serial_by_number d' (normalize_serial number) = Some (retire_old (ser_id new) old)"
    by (simp add: old(2))
  have lite: "cfg_app_mode cfg \<noteq> ''lite''" using assms(1) by (auto simp: replace_barcode_serial_def)
  have "replace_barcode_serial cfg env uid2 number n2 r2 t2 d' = Inl (InventoryError ''Serial is already inactive or invalid'')"
    for env uid2 n2 r2 t2
    using again lite by (simp add: replace_barcode_serial_def retire_old_def)
  then show ?thesis
    using o g ok row s ids
    by (intro exI [of _ old])
      (auto simp: replacement_status_for_def replaceable_stock_statuses_def inherit_def retire_old_def split: if_splits)
qed

end
