(* ===== verification/Access.thy ===== *)
theory Access
  imports Configuration
begin

text \<open>
  The permission matrix of the roles, \<open>app/services/access_control.py\<close>: the table of
  pages, actions and data areas with their defaults, the stored configuration and how it is
  brought into shape, what a form changes, and the decision whether a role may do something.
  A Python dictionary is an association list in its order; \<open>json.loads\<close> is a parameter.
\<close>

type_synonym access_config = "(string \<times> (string \<times> string) list) list"

record access_row_definition =
  ard_key :: string
  ard_item :: string
  ard_context :: string
  ard_defaults :: "(string \<times> string) list"
  ard_options :: "(string \<times> string) list"
  ard_note :: string

record access_section_definition =
  asd_title :: string
  asd_heading :: string
  asd_rows :: "access_row_definition list"

definition setting_key :: string where
  "setting_key = ''role_access_config''"

definition deny_values :: "string list" where
  "deny_values = [''hidden'', ''no'']"

definition super_admin_only_keys :: "string list" where
  "super_admin_only_keys = [''page_role_access'', ''role_access_edit'', ''database_reset'']"

definition admin_only_keys :: "string list" where
  "admin_only_keys = [''tally_excel_export'']"

definition role_columns :: "(string \<times> string) list" where
  "role_columns = [(role_text SUPER_ADMIN, ''Super admin''), (role_text ADMIN, ''Admin''), (role_text DIRECTORS, ''Directors''),
     (role_text WAREHOUSE_MANAGER, ''Warehouse manager''), (role_text PURCHASE, ''Purchase''), (role_text SALES, ''Sales''),
     (role_text AUDITOR, ''Auditor'')]"

definition page_options :: "(string \<times> string) list" where
  "page_options = [(''shown'', ''Shown''), (''hidden'', ''Hidden'')]"

definition action_options :: "(string \<times> string) list" where
  "action_options = [(''edit'', ''Edit''), (''yes'', ''Yes''), (''no'', ''No'')]"

definition data_options :: "(string \<times> string) list" where
  "data_options = [(''edit'', ''Edit''), (''view'', ''View''), (''workflow'', ''Workflow''), (''no'', ''No'')]"

definition cell_meta :: "(string \<times> string \<times> string) list" where
  "cell_meta = [(''shown'', ''Shown'', ''synced''), (''hidden'', ''Hidden'', ''failed''), (''edit'', ''Edit'', ''synced''),
     (''yes'', ''Yes'', ''synced''), (''view'', ''View'', ''generated''), (''workflow'', ''Workflow'', ''pending_sync''),
     (''no'', ''No'', ''failed'')]"

section \<open>The table\<close>

definition denied :: "(string \<times> string) list \<Rightarrow> string" where
  "denied options = (if options = page_options then ''hidden'' else ''no'')"

definition defaults_for :: "(string \<times> string) list \<Rightarrow> string \<Rightarrow> role list \<Rightarrow> (string \<times> string) list" where
  "defaults_for options allowed roles =
    (let values = map (\<lambda>(key, label). (key, denied options)) role_columns
     in fold (\<lambda>r. dict_put (role_text r) allowed) roles (dict_put (role_text SUPER_ADMIN) allowed values))"

definition all_operational :: "(string \<times> string) list \<Rightarrow> string \<Rightarrow> (string \<times> string) list" where
  "all_operational options value = defaults_for options value [ADMIN, WAREHOUSE_MANAGER, PURCHASE, SALES, AUDITOR]"

definition admin_only :: "(string \<times> string) list \<Rightarrow> string \<Rightarrow> (string \<times> string) list" where
  "admin_only options value = defaults_for options value [ADMIN]"

definition access_row ::
  "string \<Rightarrow> string \<Rightarrow> string \<Rightarrow> (string \<times> string) list \<Rightarrow> (string \<times> string) list \<Rightarrow> string \<Rightarrow> access_row_definition"
where
  "access_row key item ctxt defaults options remark = \<lparr>ard_key = key, ard_item = item, ard_context = ctxt,
     ard_defaults = defaults, ard_options = options, ard_note = remark\<rparr>"

definition page_rows :: "access_row_definition list" where
  "page_rows = [
  access_row ''page_dashboard'' ''Dashboard'' ''Top navigation'' (all_operational page_options ''shown'') page_options '''',
  access_row ''page_batches'' ''Batches'' ''Top navigation menu'' (all_operational page_options ''shown'') page_options '''',
  access_row ''page_warehouse'' ''Warehouse'' ''Top navigation menu'' (defaults_for page_options ''shown'' [ADMIN, WAREHOUSE_MANAGER, AUDITOR]) page_options '''',
  access_row ''page_serials'' ''Serials'' ''Top navigation'' (all_operational page_options ''shown'') page_options '''',
  access_row ''page_reports'' ''Reports'' ''Top navigation'' (defaults_for page_options ''shown'' [ADMIN, DIRECTORS]) page_options '''',
  access_row ''page_stock_movement'' ''Stock movement'' ''Top navigation'' (defaults_for page_options ''shown'' [ADMIN, WAREHOUSE_MANAGER]) page_options '''',
  access_row ''page_tally_check'' ''Tally Check'' ''Admin menu'' (admin_only page_options ''shown'') page_options '''',
  access_row ''page_barcodes'' ''Barcodes'' ''Top navigation menu'' (defaults_for page_options ''shown'' [ADMIN, PURCHASE]) page_options '''',
  access_row ''page_admin_menu'' ''Admin menu'' ''Top navigation menu'' (admin_only page_options ''shown'') page_options '''',
  access_row ''page_products'' ''Products'' ''Admin menu'' (admin_only page_options ''shown'') page_options ''Product search can still be opened directly by signed-in users when Product master data is allowed.'',
  access_row ''page_expiry'' ''Expiry'' ''Admin menu'' (admin_only page_options ''shown'') page_options '''',
  access_row ''page_settings'' ''Settings'' ''Admin menu'' (admin_only page_options ''shown'') page_options '''',
  access_row ''page_role_access'' ''Role access'' ''Admin menu'' (defaults_for page_options ''shown'' []) page_options ''Locked to super admin so other roles cannot change their own access.'',
  access_row ''page_maintenance'' ''Maintenance'' ''Admin menu'' (admin_only page_options ''shown'') page_options '''',
  access_row ''page_users'' ''Users'' ''Admin menu'' (admin_only page_options ''shown'') page_options '''']"

definition action_rows :: "access_row_definition list" where
  "action_rows = [
  access_row ''batch_purchase'' ''Purchase batch'' ''Create, scan, edit draft, submit'' (defaults_for action_options ''edit'' [ADMIN, PURCHASE]) action_options '''',
  access_row ''batch_sale'' ''Sale batch'' ''Create, scan, edit draft, submit'' (defaults_for action_options ''edit'' [ADMIN, SALES]) action_options '''',
  access_row ''batch_audit'' ''Audit batch'' ''Create, scan, submit, download audit PDF'' (defaults_for action_options ''edit'' [ADMIN, AUDITOR]) action_options '''',
  access_row ''audit_assignment_manage'' ''Audit assignments'' ''Assign timed product audits, extend deadlines; auditors can view their assigned work'' (dict_put (role_text AUDITOR) ''view'' (defaults_for data_options ''edit'' [ADMIN, DIRECTORS])) data_options '''',
  access_row ''batch_sales_return'' ''Sales return'' ''Create, scan, edit draft, submit'' (defaults_for action_options ''edit'' [ADMIN, SALES]) action_options '''',
  access_row ''batch_purchase_return'' ''Purchase return'' ''Create, scan, edit draft, submit'' (defaults_for action_options ''edit'' [ADMIN, PURCHASE]) action_options '''',
  access_row ''batch_issue'' ''Stock issue'' ''Create, scan, edit draft, submit'' (admin_only action_options ''edit'') action_options '''',
  access_row ''stock_relocation'' ''Move stock'' ''Search, scan, and confirm warehouse relocations'' (defaults_for action_options ''edit'' [ADMIN, WAREHOUSE_MANAGER, AUDITOR]) action_options '''',
  access_row ''location_manage'' ''Storage locations'' ''Create, activate, and deactivate warehouse locations'' (defaults_for action_options ''edit'' [ADMIN, WAREHOUSE_MANAGER]) action_options '''',
  access_row ''manual_serial_entry'' ''Manual serial entry'' ''Type serial numbers into batches'' (admin_only action_options ''edit'') action_options ''Locked to admin and super admin; non-admin users can scan by camera/photo only.'',
  access_row ''fefo_pick'' ''FEFO pick'' ''Auto-pick sale, issue, purchase return'' (defaults_for action_options ''edit'' [ADMIN, PURCHASE, SALES]) action_options '''',
  access_row ''tally_xml'' ''Tally XML'' ''Download purchase/sale/sales-return XML'' (admin_only action_options ''yes'') action_options '''',
  access_row ''tally_excel_export'' ''Tally Excel export'' ''Download purchase/sale Tally workbooks'' (admin_only action_options ''yes'') action_options ''Locked to admin and super admin.'',
  access_row ''tally_sync_retry'' ''Tally sync retry'' ''Retry pending or failed sync'' (admin_only action_options ''yes'') action_options '''',
  access_row ''product_create'' ''Products'' ''Create products and generate serials'' (admin_only action_options ''edit'') action_options '''',
  access_row ''barcode_assignment'' ''Barcode assignment'' ''Assign labels to existing stock'' (defaults_for action_options ''edit'' [ADMIN, PURCHASE]) action_options '''',
  access_row ''barcode_replacement'' ''Barcode replacement'' ''Replace damaged serial labels'' (admin_only action_options ''edit'') action_options '''',
  access_row ''reports_export'' ''Reports'' ''Filter and export scan/transaction reports'' (admin_only action_options ''yes'') action_options '''',
  access_row ''stock_movement_export'' ''Stock movement export'' ''Export Excel and PDF movement reports'' (defaults_for action_options ''yes'' [ADMIN, WAREHOUSE_MANAGER]) action_options '''',
  access_row ''tally_check_edit'' ''Tally Check'' ''Confirm, refresh, and remove master checks'' (admin_only action_options ''edit'') action_options '''',
  access_row ''settings_edit'' ''Settings'' ''Edit company settings and enable sync'' (admin_only action_options ''edit'') action_options '''',
  access_row ''role_access_edit'' ''Role access'' ''Edit role permission matrix'' (defaults_for action_options ''edit'' []) action_options ''Locked to super admin.'',
  access_row ''users_manage'' ''Users'' ''Create users and enable/disable accounts'' (admin_only action_options ''edit'') action_options ''Only super admins can delete user accounts. Accounts with history are hidden and kept for old records.'',
  access_row ''backup_download'' ''Backup'' ''Download SQLite backup'' (admin_only action_options ''yes'') action_options '''',
  access_row ''database_reset'' ''Database reset'' ''Clear database records and application cache'' (defaults_for action_options ''yes'' []) action_options ''Locked to super admin and requires password verification.'']"

definition data_rows :: "access_row_definition list" where
  "data_rows = [
  access_row ''dashboard_data'' ''Dashboard data'' ''Counts, charts, recent scans and batches'' (all_operational data_options ''view'') data_options '''',
  access_row ''product_master'' ''Product master'' ''View product list/search'' (all_operational data_options ''view'') data_options ''Only users with Product action access can create products or generate serials.'',
  access_row ''serial_data'' ''Serial data'' ''View serial list, details, scan history'' (all_operational data_options ''view'') data_options '''',
  access_row ''label_files'' ''Label files'' ''Download serial XLSX or admin label PDF'' (defaults_for data_options ''view'' [ADMIN, PURCHASE, SALES, AUDITOR]) data_options '''',
  access_row ''batch_list'' ''Batch list'' ''View all recent batches'' (all_operational data_options ''view'') data_options ''Batch detail pages still follow batch-type permissions.'',
  access_row ''purchase_data'' ''Purchase data'' ''Purchase and purchase-return batches'' (defaults_for data_options ''workflow'' [ADMIN, PURCHASE]) data_options '''',
  access_row ''sales_data'' ''Sales data'' ''Sale and sales-return batches'' (defaults_for data_options ''workflow'' [ADMIN, SALES]) data_options '''',
  access_row ''audit_data'' ''Audit data'' ''Audit batches and findings'' (defaults_for data_options ''workflow'' [ADMIN, AUDITOR]) data_options '''',
  access_row ''issue_data'' ''Issue data'' ''Stock issue batches'' (admin_only data_options ''edit'') data_options '''',
  access_row ''warehouse_data'' ''Warehouse data'' ''Storage map and permanent relocation history'' (defaults_for data_options ''view'' [ADMIN, WAREHOUSE_MANAGER, AUDITOR]) data_options '''',
  access_row ''reports_data'' ''Reports data'' ''Scan logs, inventory transactions, and Directors reports'' (defaults_for data_options ''view'' [ADMIN, DIRECTORS]) data_options '''',
  access_row ''stock_movement_data'' ''Stock movement data'' ''Movement, stock cover, expiry risk, and suggested actions'' (defaults_for data_options ''view'' [ADMIN, WAREHOUSE_MANAGER]) data_options '''',
  access_row ''expiry_analytics'' ''Expiry analytics'' ''Expiry risk and sleeping stock'' (admin_only data_options ''view'') data_options '''',
  access_row ''tally_settings'' ''Tally settings'' ''Company profiles, ledgers, sync flag'' (admin_only data_options ''edit'') data_options '''',
  access_row ''tally_attempts'' ''Tally sync attempts'' ''Request/response details'' (admin_only data_options ''view'') data_options '''',
  access_row ''user_accounts'' ''User accounts'' ''User list, roles, active status'' (admin_only data_options ''edit'') data_options '''',
  access_row ''backup_data'' ''Backup data'' ''SQLite database download'' (admin_only data_options ''view'') data_options '''']"

definition access_section_definitions :: "access_section_definition list" where
  "access_section_definitions = [\<lparr>asd_title = ''Pages shown in navigation'', asd_heading = ''Where'', asd_rows = page_rows\<rparr>,
    \<lparr>asd_title = ''Actions allowed by role'', asd_heading = ''Action'', asd_rows = action_rows\<rparr>,
    \<lparr>asd_title = ''Data access and modification'', asd_heading = ''Data area'', asd_rows = data_rows\<rparr>]"

definition access_rows :: "access_row_definition list" where
  "access_rows = concat (map asd_rows access_section_definitions)"

definition definition_of :: "string \<Rightarrow> access_row_definition option" where
  "definition_of key = find (\<lambda>r. ard_key r = key) access_rows"

definition default_role_access_config :: access_config where
  "default_role_access_config = map (\<lambda>r. (ard_key r, ard_defaults r)) access_rows"

definition valid_option :: "access_row_definition \<Rightarrow> string \<Rightarrow> bool" where
  "valid_option r v \<longleftrightarrow> v \<in> fst ` set (ard_options r)"

section \<open>The stored configuration\<close>

definition dict_get :: "'k \<Rightarrow> 'v \<Rightarrow> ('k \<times> 'v) list \<Rightarrow> 'v" where
  "dict_get k dflt kvs = (case map_of kvs k of None \<Rightarrow> dflt | Some v \<Rightarrow> v)"

text \<open>\<open>config[row][role] = value\<close> for a row the configuration has.\<close>

definition set_cell :: "string \<Rightarrow> string \<Rightarrow> string \<Rightarrow> access_config \<Rightarrow> access_config" where
  "set_cell row role v c = map (\<lambda>(k, cells). (k, if k = row then dict_put role v cells else cells)) c"

text \<open>The keys of a JSON object, each once; \<open>jget\<close> reads the last value of a repeated key.\<close>

definition object_keys :: "json \<Rightarrow> string list" where
  "object_keys v = (case v of JObj kvs \<Rightarrow> remdups (map fst kvs) | _ \<Rightarrow> [])"

definition read_cell :: "access_row_definition \<Rightarrow> json \<Rightarrow> string \<Rightarrow> access_config \<Rightarrow> access_config" where
  "read_cell row cells role c =
    (let v = py_strip (py_str (jget_or role cells (JStr [])))
     in if role = role_text SUPER_ADMIN \<or> \<not> valid_option row v then c else set_cell (ard_key row) role v c)"

definition read_row :: "json \<Rightarrow> string \<Rightarrow> access_config \<Rightarrow> access_config" where
  "read_row raw key c =
    (case definition_of key of None \<Rightarrow> c
     | Some row \<Rightarrow> if is_obj (jget key raw) then fold (read_cell row (jget key raw)) (map fst role_columns) c else c)"

definition lock_row :: "access_row_definition \<Rightarrow> access_config \<Rightarrow> access_config" where
  "lock_row row c =
    (let key = ard_key row; default_of = (\<lambda>role. dict_get role [] (ard_defaults row));
         c1 = set_cell key (role_text SUPER_ADMIN) (default_of (role_text SUPER_ADMIN)) c;
         c2 = (if key \<in> set super_admin_only_keys
           then fold (\<lambda>role. set_cell key role (denied (ard_options row)))
                  (filter (\<lambda>role. role \<noteq> role_text SUPER_ADMIN) (map fst role_columns)) c1
           else c1)
     in if key \<in> set admin_only_keys then fold (\<lambda>role. set_cell key role (default_of role)) (map fst role_columns) c2 else c2)"

definition normalize_role_access_config :: "json \<Rightarrow> access_config" where
  "normalize_role_access_config raw =
     fold lock_row access_rows (fold (read_row raw) (object_keys raw) default_role_access_config)"

definition get_role_access_config :: "(string \<Rightarrow> json option) \<Rightarrow> db \<Rightarrow> access_config" where
  "get_role_access_config loads d =
    (let raw = get_setting d setting_key [] in
     if raw = [] then default_role_access_config
     else (case loads raw of None \<Rightarrow> default_role_access_config | Some v \<Rightarrow> normalize_role_access_config v))"

definition config_value :: "access_config \<Rightarrow> json" where
  "config_value c = JObj (map (\<lambda>(k, cells). (k, JObj (map (\<lambda>(r, v). (r, JStr v)) cells))) c)"

text \<open>\<open>config.setdefault(row, {}).update(values)\<close>\<close>

definition merge_row :: "string \<times> (string \<times> string) list \<Rightarrow> access_config \<Rightarrow> access_config" where
  "merge_row kv c = dict_put (fst kv) (fold (\<lambda>(r, v). dict_put r v) (snd kv) (dict_get (fst kv) [] c)) c"

text \<open>\<open>json.dumps(config, sort_keys=True)\<close>: the separators are \<open>", "\<close> and \<open>": "\<close>.\<close>

definition spaced_object :: "(string \<times> string) list \<Rightarrow> string" where
  "spaced_object kvs = ''{'' @ py_join '', '' (map (\<lambda>(k, t). json_string True k @ '': '' @ t) (sort_key fst kvs)) @ ''}''"

definition matrix_text :: "access_config \<Rightarrow> string" where
  "matrix_text c = spaced_object (map (\<lambda>(k, cells). (k, spaced_object (map (\<lambda>(r, v). (r, json_string True v)) cells))) c)"

definition save_role_access_config :: "(string \<Rightarrow> json option) \<Rightarrow> moment \<Rightarrow> access_config \<Rightarrow> db \<Rightarrow> db" where
  "save_role_access_config loads now submitted d =
    (let c = normalize_role_access_config (config_value (fold merge_row submitted (get_role_access_config loads d)))
     in update_settings now [(setting_key, matrix_text c)] d)"

section \<open>The form\<close>

text \<open>The parts of \<open>s\<close> before and after the first \<open>sep\<close>.\<close>

fun split_at :: "string \<Rightarrow> string \<Rightarrow> (string \<times> string) option" where
  "split_at sep [] = (if sep = [] then Some ([], []) else None)"
| "split_at sep (c # cs) =
     (if starts_with sep (c # cs) then Some ([], drop (length sep) (c # cs))
      else map_option (\<lambda>(a, b). (c # a, b)) (split_at sep cs))"

definition form_cell :: "string \<times> string \<Rightarrow> access_config \<Rightarrow> access_config" where
  "form_cell kv c =
    (if \<not> starts_with ''access__'' (fst kv) then c
     else (case split_at ''__'' (drop 8 (fst kv)) of None \<Rightarrow> c
       | Some (row_key, role_key) \<Rightarrow>
           (case definition_of row_key of None \<Rightarrow> c
            | Some row \<Rightarrow>
                let v = py_strip (snd kv)
                in if role_key = role_text SUPER_ADMIN \<or> \<not> valid_option row v then c
                   else dict_put row_key (dict_put role_key v (dict_get row_key [] c)) c)))"

definition config_from_form :: "(string \<times> string) list \<Rightarrow> access_config" where
  "config_from_form items = fold form_cell items []"

section \<open>The page\<close>

fun title_from :: "bool \<Rightarrow> string \<Rightarrow> string" where
  "title_from start [] = []"
| "title_from start (c # cs) =
     (let letter = (char_upper c \<noteq> char_lower c)
      in (if start then char_upper c else char_lower c) # title_from (\<not> letter) cs)"

record access_cell =
  acl_value :: string
  acl_label :: string
  acl_tone :: string
  acl_options :: "(string \<times> string) list"

definition cell_of :: "string \<Rightarrow> (string \<times> string) list \<Rightarrow> access_cell" where
  "cell_of v options = (case dict_get v (title_from True v, ''generated'') cell_meta of (label, tone) \<Rightarrow>
     \<lparr>acl_value = v, acl_label = label, acl_tone = tone, acl_options = options\<rparr>)"

definition role_access_sections :: "access_config \<Rightarrow> (string \<times> string \<times> (access_row_definition \<times> access_cell list) list) list" where
  "role_access_sections c = map (\<lambda>s. (asd_title s, asd_heading s, map (\<lambda>r. (r, map (\<lambda>(role, label).
       cell_of (dict_get role (dict_get role [] (ard_defaults r)) (dict_get (ard_key r) (ard_defaults r) c)) (ard_options r))
     role_columns)) (asd_rows s))) access_section_definitions"

section \<open>The decision\<close>

definition configured_access_values :: "access_config \<Rightarrow> role_arg \<Rightarrow> string \<Rightarrow> string list" where
  "configured_access_values c role key =
     map (\<lambda>r. if r = role_text SUPER_ADMIN then ''edit'' else dict_get r ''no'' (dict_get key [] c)) (normalize_role_values role)"

definition configured_role_has_access :: "access_config \<Rightarrow> role_arg \<Rightarrow> string \<Rightarrow> string list option \<Rightarrow> bool" where
  "configured_role_has_access c role key allowed =
     list_ex (\<lambda>v. v \<notin> set deny_values \<and> (case allowed of None \<Rightarrow> True | Some vs \<Rightarrow> v \<in> set vs))
       (configured_access_values c role key)"

definition role_has_access ::
  "(string \<Rightarrow> json option) \<Rightarrow> db \<Rightarrow> role_arg \<Rightarrow> string \<Rightarrow> string list option \<Rightarrow> bool"
where
  "role_has_access loads d role key allowed = configured_role_has_access (get_role_access_config loads d) role key allowed"

definition destinations :: "(string \<times> string \<times> string) list" where
  "destinations = [
     (''page_dashboard'', ''dashboard_data'', ''/''),
     (''page_batches'', ''batch_list'', ''/batches''),
     (''page_batches'', ''batch_purchase'', ''/batches/new?batch_type=PURCHASE''),
     (''page_batches'', ''batch_sale'', ''/batches/new?batch_type=SALE''),
     (''page_batches'', ''batch_audit'', ''/batches/new?batch_type=AUDIT''),
     (''page_warehouse'', ''stock_relocation'', ''/warehouse/move''),
     (''page_warehouse'', ''warehouse_data'', ''/warehouse/history''),
     (''page_serials'', ''serial_data'', ''/serials''),
     (''page_reports'', ''reports_data'', ''/reports''),
     (''page_stock_movement'', ''stock_movement_data'', ''/stock-movement''),
     (''page_tally_check'', ''tally_check_edit'', ''/tally-check''),
     (''page_barcodes'', ''barcode_assignment'', ''/barcode-assignment''),
     (''page_barcodes'', ''barcode_replacement'', ''/barcode-replacement''),
     (''page_products'', ''product_master'', ''/products''),
     (''page_expiry'', ''expiry_analytics'', ''/expiry''),
     (''page_settings'', ''settings_edit'', ''/settings''),
     (''page_maintenance'', ''backup_data'', ''/maintenance''),
     (''page_users'', ''users_manage'', ''/users'')]"

definition landing_path_for :: "access_config \<Rightarrow> role_arg \<Rightarrow> string" where
  "landing_path_for c role =
    (let can = (\<lambda>key. configured_role_has_access c role key None) in
     case find (\<lambda>(page, permission, path). can page \<and> can permission) destinations of
       Some (page, permission, path) \<Rightarrow> path
     | None \<Rightarrow> if has_role role (RoleArg SUPER_ADMIN) then ''/settings/access'' else ''/account/password'')"


section \<open>What normalization guarantees\<close>

abbreviation column_keys :: "string list" where
  "column_keys \<equiv> map fst role_columns"

definition cell :: "access_config \<Rightarrow> string \<Rightarrow> string \<Rightarrow> string option" where
  "cell c key role = Option.bind (map_of c key) (\<lambda>cells. map_of cells role)"

text \<open>Every row of the table, in order, with an option of the row for every role.\<close>

definition shaped :: "access_config \<Rightarrow> bool" where
  "shaped c \<longleftrightarrow> map fst c = map ard_key access_rows \<and>
     (\<forall>row \<in> set access_rows. \<forall>role \<in> set column_keys. \<exists>v. cell c (ard_key row) role = Some v \<and> valid_option row v)"

lemma columns: "distinct column_keys" "role_text SUPER_ADMIN \<in> set column_keys"
  by code_simp+

lemma rows_sound:
  "list_all (\<lambda>r. map fst (ard_defaults r) = column_keys \<and> list_all (\<lambda>(role, v). valid_option r v) (ard_defaults r) \<and>
     valid_option r (denied (ard_options r)) \<and> dict_get (role_text SUPER_ADMIN) [] (ard_defaults r) \<notin> set deny_values) access_rows"
  by code_simp

lemma row_keys: "distinct (map ard_key access_rows)"
  by code_simp

lemma definition_of_row: "row \<in> set access_rows \<Longrightarrow> definition_of (ard_key row) = Some row"
  unfolding definition_of_def using row_keys by (rule find_key_distinct)

lemma definition_ofD: "definition_of k = Some row \<Longrightarrow> row \<in> set access_rows \<and> ard_key row = k"
  unfolding definition_of_def by (drule find_SomeD) simp

lemma row_eq: "r \<in> set access_rows \<Longrightarrow> q \<in> set access_rows \<Longrightarrow> ard_key r = ard_key q \<Longrightarrow> r = q"
  using row_keys by (metis distinct_map inj_onD)

lemma row_sound:
  assumes "r \<in> set access_rows"
  shows "map fst (ard_defaults r) = column_keys" "role \<in> set column_keys \<Longrightarrow> \<exists>v. map_of (ard_defaults r) role = Some v \<and> valid_option r v"
    "valid_option r (denied (ard_options r))" "denied (ard_options r) \<in> set deny_values"
    "dict_get (role_text SUPER_ADMIN) [] (ard_defaults r) \<notin> set deny_values"
proof -
  have f: "map fst (ard_defaults r) = column_keys" "\<forall>(role, v) \<in> set (ard_defaults r). valid_option r v"
    "valid_option r (denied (ard_options r))" "dict_get (role_text SUPER_ADMIN) [] (ard_defaults r) \<notin> set deny_values"
    using rows_sound assms by (auto simp: list_all_iff)
  then show "map fst (ard_defaults r) = column_keys" "valid_option r (denied (ard_options r))"
    "dict_get (role_text SUPER_ADMIN) [] (ard_defaults r) \<notin> set deny_values" by blast+
  show "denied (ard_options r) \<in> set deny_values" by (simp add: denied_def deny_values_def)
  show "\<exists>v. map_of (ard_defaults r) role = Some v \<and> valid_option r v" if "role \<in> set column_keys"
  proof -
    have "role \<in> fst ` set (ard_defaults r)" using that f(1) by (metis list.set_map)
    then obtain v where "map_of (ard_defaults r) role = Some v" by (metis domD dom_map_of_conv_image_fst)
    then show ?thesis using f(2) map_of_SomeD by fastforce
  qed
qed

lemma map_of_map_rows: "distinct (map g xs) \<Longrightarrow> x \<in> set xs \<Longrightarrow> map_of (map (\<lambda>r. (g r, f r)) xs) (g x) = Some (f x)"
proof (induction xs)
  case (Cons a xs)
  then have a: "g a \<notin> g ` set xs" by simp
  have "x = a" if "g x = g a"
  proof (rule ccontr)
    assume "x \<noteq> a"
    then have "x \<in> set xs" using Cons.prems by simp
    then show False using a that by (metis imageI)
  qed
  with Cons show ?case by auto
qed simp

lemma default_shaped: "shaped default_role_access_config"
proof -
  have "map_of default_role_access_config (ard_key row) = Some (ard_defaults row)" if "row \<in> set access_rows" for row
    unfolding default_role_access_config_def using row_keys that by (rule map_of_map_rows)
  then show ?thesis
    using row_sound(2) by (simp add: shaped_def cell_def) (simp add: default_role_access_config_def comp_def)
qed

lemma set_cell_keys [simp]: "map fst (set_cell k r v c) = map fst c"
  by (induction c) (auto simp: set_cell_def)

lemma map_of_set_cell: "map_of (set_cell k r v c) x = map_option (\<lambda>cells. if x = k then dict_put r v cells else cells) (map_of c x)"
  by (induction c) (auto simp: set_cell_def)

lemma cell_set_cell:
  "k \<in> fst ` set c \<Longrightarrow> cell (set_cell k r v c) x y = (if x = k \<and> y = r then Some v else cell c x y)"
  using map_of_eq_None_iff [of c k] by (cases "map_of c x") (auto simp: cell_def map_of_set_cell)

lemma keys_shaped: "shaped c \<Longrightarrow> row \<in> set access_rows \<Longrightarrow> ard_key row \<in> fst ` set c"
  unfolding shaped_def by (metis imageI list.set_map)

lemma shaped_set_cell:
  assumes "shaped c" "row \<in> set access_rows" "valid_option row v"
  shows "shaped (set_cell (ard_key row) r v c)"
proof -
  have "\<exists>w. cell (set_cell (ard_key row) r v c) (ard_key q) role = Some w \<and> valid_option q w"
    if "q \<in> set access_rows" "role \<in> set column_keys" for q role
  proof (cases "ard_key q = ard_key row \<and> role = r")
    case True
    then have "q = row" using row_eq that(1) assms(2) by blast
    then show ?thesis using True assms(3) cell_set_cell [OF keys_shaped [OF assms(1,2)]] by simp
  next
    case False
    then have "cell (set_cell (ard_key row) r v c) (ard_key q) role = cell c (ard_key q) role"
      using cell_set_cell [OF keys_shaped [OF assms(1,2)]] by auto
    moreover have "\<exists>v. cell c (ard_key q) role = Some v \<and> valid_option q v"
      using assms(1) that unfolding shaped_def by blast
    ultimately show ?thesis by metis
  qed
  then show ?thesis using assms(1) unfolding shaped_def by (metis set_cell_keys)
qed

lemma fold_shaped:
  assumes "shaped c" "\<And>x c. x \<in> set xs \<Longrightarrow> shaped c \<Longrightarrow> shaped (f x c)"
  shows "shaped (fold f xs c)"
  using assms by (induction xs arbitrary: c) simp_all

lemma read_row_shaped: "shaped c \<Longrightarrow> shaped (read_row raw key c)"
proof (cases "definition_of key")
  case (Some row)
  then have r: "row \<in> set access_rows" using definition_ofD by blast
  assume "shaped c"
  then show ?thesis
    using Some r by (auto simp: read_row_def read_cell_def Let_def intro!: fold_shaped shaped_set_cell)
qed (simp add: read_row_def)

lemma default_valid: "r \<in> set access_rows \<Longrightarrow> role \<in> set column_keys \<Longrightarrow> valid_option r (dict_get role [] (ard_defaults r))"
  using row_sound(2) by (fastforce simp: dict_get_def)

lemma lock_row_shaped:
  assumes "shaped c" "r \<in> set access_rows"
  shows "shaped (lock_row r c)"
proof -
  have 1: "shaped (set_cell (ard_key r) (role_text SUPER_ADMIN) (dict_get (role_text SUPER_ADMIN) [] (ard_defaults r)) c)"
    by (rule shaped_set_cell [OF assms default_valid [OF assms(2) columns(2)]])
  show ?thesis
    unfolding lock_row_def Let_def
    using assms(2) 1 row_sound(3) default_valid by (auto intro!: fold_shaped shaped_set_cell)
qed

text \<open>The cell of a row after the lock, from the cell before it.\<close>

definition locked :: "access_row_definition \<Rightarrow> string \<Rightarrow> string option \<Rightarrow> string option" where
  "locked row role v =
    (if ard_key row \<in> set admin_only_keys \<or> role = role_text SUPER_ADMIN then Some (dict_get role [] (ard_defaults row))
     else if ard_key row \<in> set super_admin_only_keys then Some (denied (ard_options row)) else v)"

lemma cell_fold_set:
  assumes "k \<in> fst ` set c"
  shows "cell (fold (\<lambda>r. set_cell k r (g r)) rs c) x y = (if x = k \<and> y \<in> set rs then Some (g y) else cell c x y)"
  using assms
proof (induction rs arbitrary: c)
  case Nil
  then show ?case by simp
next
  case (Cons r rs)
  have "k \<in> fst ` set (set_cell k r (g r) c)" using Cons.prems set_cell_keys by (metis list.set_map)
  from Cons.IH [OF this] show ?case by (auto simp: cell_set_cell [OF Cons.prems])
qed

lemma cell_lock_row:
  assumes "shaped c" "row \<in> set access_rows" "role \<in> set column_keys"
  shows "cell (lock_row row c) x role = (if x = ard_key row then locked row role (cell c x role) else cell c x role)"
proof -
  let ?k = "ard_key row" and ?d = "\<lambda>role. dict_get role [] (ard_defaults row)"
  let ?c1 = "set_cell ?k (role_text SUPER_ADMIN) (?d (role_text SUPER_ADMIN)) c"
  have k: "?k \<in> fst ` set c" by (rule keys_shaped [OF assms(1,2)])
  have k1: "?k \<in> fst ` set ?c1" using k set_cell_keys by (metis list.set_map)
  have keys: "map fst (fold (\<lambda>r. set_cell ?k r (g r)) rs e) = map fst e" for g rs e
    by (induction rs arbitrary: e) simp_all
  have k2: "?k \<in> fst ` set (fold (\<lambda>r. set_cell ?k r (g r)) rs ?c1)" for g rs
    using k1 keys by (metis list.set_map)
  show ?thesis
    unfolding lock_row_def Let_def locked_def
    using assms(3) cell_fold_set [OF k1] cell_fold_set [OF k2] cell_set_cell [OF k] cell_fold_set [OF k1, of "\<lambda>r. ?d r"]
    by auto
qed

lemma cell_lock_rows:
  assumes "shaped c" "set rows \<subseteq> set access_rows" "distinct (map ard_key rows)" "row \<in> set access_rows" "role \<in> set column_keys"
  shows "cell (fold lock_row rows c) (ard_key row) role =
    (if row \<in> set rows then locked row role (cell c (ard_key row) role) else cell c (ard_key row) role)"
  using assms
proof (induction rows arbitrary: c)
  case Nil
  then show ?case by simp
next
  case (Cons q rows)
  have q: "q \<in> set access_rows" using Cons.prems(2) by simp
  have "ard_key row = ard_key q \<Longrightarrow> row = q" using row_eq q Cons.prems(4) by blast
  moreover have "q \<notin> set rows" using Cons.prems(3) by auto
  ultimately show ?case
    using Cons.IH [of "lock_row q c"] Cons.prems lock_row_shaped [OF Cons.prems(1) q] cell_lock_row [OF Cons.prems(1) q]
    by auto
qed

text \<open>A configuration is settled when every cell is what the lock leaves of a valid option.\<close>

definition settled :: "access_config \<Rightarrow> bool" where
  "settled c \<longleftrightarrow> (\<forall>row \<in> set access_rows. \<forall>role \<in> set column_keys.
     \<exists>v. cell c (ard_key row) role = locked row role (Some v) \<and> valid_option row v)"

lemma normalized: "settled (normalize_role_access_config raw)" "shaped (normalize_role_access_config raw)"
proof -
  let ?c = "fold (read_row raw) (object_keys raw) default_role_access_config"
  have c: "shaped ?c" by (rule fold_shaped [OF default_shaped]) (rule read_row_shaped)
  then show "shaped (normalize_role_access_config raw)"
    unfolding normalize_role_access_config_def by (rule fold_shaped) (rule lock_row_shaped)
  have "\<exists>v. cell (normalize_role_access_config raw) (ard_key row) role = locked row role (Some v) \<and> valid_option row v"
    if r: "row \<in> set access_rows" "role \<in> set column_keys" for row role
  proof -
    obtain v where "cell ?c (ard_key row) role = Some v" "valid_option row v" using c r unfolding shaped_def by blast
    then show ?thesis
      unfolding normalize_role_access_config_def using cell_lock_rows [OF c _ row_keys r] r(1) by auto
  qed
  then show "settled (normalize_role_access_config raw)" unfolding settled_def by blast
qed

lemma locked_defaults:
  "list_all (\<lambda>row. list_all (\<lambda>role. locked row role (Some (dict_get role [] (ard_defaults row))) =
     Some (dict_get role [] (ard_defaults row))) column_keys) access_rows"
  by code_simp

lemma default_settled: "settled default_role_access_config"
  unfolding settled_def
proof (intro ballI)
  fix row role assume r: "row \<in> set access_rows" "role \<in> set column_keys"
  obtain v where v: "map_of (ard_defaults row) role = Some v" "valid_option row v" using row_sound(2) [OF r] by blast
  have "map_of default_role_access_config (ard_key row) = Some (ard_defaults row)"
    unfolding default_role_access_config_def using row_keys r(1) by (rule map_of_map_rows)
  then have "cell default_role_access_config (ard_key row) role = Some v" by (simp add: cell_def v(1))
  moreover have "locked row role (Some v) = Some v"
    using locked_defaults r v(1) unfolding list_all_iff dict_get_def by fastforce
  ultimately show "\<exists>v. cell default_role_access_config (ard_key row) role = locked row role (Some v) \<and> valid_option row v"
    using v(2) by metis
qed

lemma stored_config: "shaped (get_role_access_config loads d)" "settled (get_role_access_config loads d)"
  using default_shaped default_settled normalized
  by (auto simp: get_role_access_config_def Let_def split: option.split)

lemma dict_get_cell: "cell c key role = Some v \<Longrightarrow> dict_get role dflt (dict_get key [] c) = v"
  by (cases "map_of c key") (simp_all add: cell_def dict_get_def)

lemma role_values_known: "set (normalize_role_values v) \<subseteq> set column_keys"
proof -
  have "set (foldl select_token sel ts) \<subseteq> set sel \<union> set role_values" for sel ts
  proof (induction ts arbitrary: sel)
    case (Cons t ts)
    have "set (select_token sel t) \<subseteq> set sel \<union> set role_values" by (auto simp: select_token_def)
    then show ?case using Cons.IH [of "select_token sel t"] by fastforce
  qed simp
  moreover have "set role_values \<subseteq> set column_keys" by code_simp
  ultimately show ?thesis unfolding normalize_role_values_def by fastforce
qed

lemma locked_keys:
  "list_all (\<lambda>k. k \<in> ard_key ` set access_rows \<and> k \<notin> set admin_only_keys) super_admin_only_keys"
  by code_simp

lemma admin_only_row:
  "\<exists>row \<in> set access_rows. ard_key row = ''tally_excel_export'' \<and>
     (\<forall>role \<in> set column_keys. dict_get role [] (ard_defaults row) \<notin> set deny_values \<longleftrightarrow>
        role \<in> {role_text SUPER_ADMIN, role_text ADMIN})"
  by code_simp

text \<open>
  C23. Whatever text is stored, the permission matrix in force is complete -- every row of the
  table, in order, with one of its own options for every role -- and its locks hold: a super
  admin may do everything, nobody else gets one of the super-admin keys, and the Tally
  workbook export is granted exactly to super admins and admins.
\<close>

theorem access_locks:
  "shaped (get_role_access_config loads d) \<and>
   (role_text SUPER_ADMIN \<in> set (normalize_role_values r) \<longrightarrow> role_has_access loads d r key None) \<and>
   (key \<in> set super_admin_only_keys \<longrightarrow> role_has_access loads d r key allowed \<longrightarrow>
      role_text SUPER_ADMIN \<in> set (normalize_role_values r)) \<and>
   (role_has_access loads d r ''tally_excel_export'' None \<longleftrightarrow>
      list_ex (\<lambda>v. v \<in> {role_text SUPER_ADMIN, role_text ADMIN}) (normalize_role_values r))"
proof (intro conjI impI)
  let ?c = "get_role_access_config loads d"
  have edit: "''edit'' \<notin> set deny_values" by code_simp
  have has: "role_has_access loads d r k a \<longleftrightarrow> (\<exists>v \<in> set (normalize_role_values r).
      (let w = if v = role_text SUPER_ADMIN then ''edit'' else dict_get v ''no'' (dict_get k [] ?c)
       in w \<notin> set deny_values \<and> (case a of None \<Rightarrow> True | Some vs \<Rightarrow> w \<in> set vs)))" for k a
    by (simp only: role_has_access_def configured_role_has_access_def configured_access_values_def list_ex_iff set_map bex_simps Let_def)
  note all = settled_def [THEN iffD1, OF stored_config(2), rule_format]
  show "shaped ?c" by (rule stored_config(1))
  show "role_has_access loads d r key None" if "role_text SUPER_ADMIN \<in> set (normalize_role_values r)"
    using that edit by (auto simp: has Let_def intro!: bexI [OF _ that])
  show "role_text SUPER_ADMIN \<in> set (normalize_role_values r)"
    if "key \<in> set super_admin_only_keys" "role_has_access loads d r key allowed"
  proof (rule ccontr)
    assume n: "role_text SUPER_ADMIN \<notin> set (normalize_role_values r)"
    note key = that(1) and access = that(2)
    obtain row where row: "row \<in> set access_rows" "ard_key row = key" "key \<notin> set admin_only_keys"
      using locked_keys key by (auto simp: list_all_iff)
    obtain v where v: "v \<in> set (normalize_role_values r)" "v \<noteq> role_text SUPER_ADMIN"
      "dict_get v ''no'' (dict_get key [] ?c) \<notin> set deny_values"
      using access n unfolding has Let_def by (auto split: if_splits)
    have "cell ?c key v = Some (denied (ard_options row))"
      using all [OF row(1), of v loads d] v(1,2) role_values_known row(2,3) key unfolding locked_def by auto
    then show False using v(3) row_sound(4) [OF row(1)] by (simp add: dict_get_cell)
  qed
  show "role_has_access loads d r ''tally_excel_export'' None \<longleftrightarrow>
      list_ex (\<lambda>v. v \<in> {role_text SUPER_ADMIN, role_text ADMIN}) (normalize_role_values r)"
  proof -
    obtain row where row: "row \<in> set access_rows" "ard_key row = ''tally_excel_export''"
      "\<forall>role \<in> set column_keys. dict_get role [] (ard_defaults row) \<notin> set deny_values \<longleftrightarrow>
        role \<in> {role_text SUPER_ADMIN, role_text ADMIN}"
      using admin_only_row by blast
    have cells: "cell ?c ''tally_excel_export'' v = Some (dict_get v [] (ard_defaults row))" if "v \<in> set column_keys" for v
      using all [OF row(1) that, of loads d] row(2) unfolding locked_def admin_only_keys_def by auto
    then have "(if v = role_text SUPER_ADMIN then ''edit'' else dict_get v ''no'' (dict_get ''tally_excel_export'' [] ?c)) \<notin> set deny_values \<longleftrightarrow>
        v \<in> {role_text SUPER_ADMIN, role_text ADMIN}" if "v \<in> set (normalize_role_values r)" for v
    proof -
      have "v \<in> set column_keys" using that role_values_known by blast
      then show ?thesis using dict_get_cell [OF cells] row(3) edit by (metis insertCI)
    qed
    then show ?thesis unfolding has Let_def list_ex_iff by auto
  qed
qed

end
