(* ===== verification/WarehouseScenarios.thy ===== *)
theory WarehouseScenarios
  imports Examples Relocation Replacement Access
begin

text \<open>
  Moves between locations, a label exchange and the permission matrix on the sample shop:
  the witnesses of the properties of \<open>Relocation\<close>, \<open>Replacement\<close> and \<open>Access\<close>.
\<close>

section \<open>A move\<close>

definition ex_move_item :: move_item where
  "ex_move_item = \<lparr>mvi_product_id = 1, mvi_quantity = 2, mvi_batch_number = None, mvi_source = None, mvi_legacy = None,
     mvi_serial_id = None\<rparr>"

definition ex_move :: move_request where
  "ex_move = \<lparr>mvr_user = ex_user 1 ''asha'' ''admin'', mvr_destination_id = 1, mvr_items = [ex_move_item],
     mvr_reason = Some ''tidy'', mvr_device = ''phone''\<rparr>"

definition ex_move_world :: "(nat \<Rightarrow> db \<Rightarrow> db) \<Rightarrow> move_world" where
  "ex_move_world others = \<lparr>mvw_reference = (\<lambda>k. ''REL-1''), mvw_event_id = ex_uuid, mvw_now = 7, mvw_others = others\<rparr>"

text \<open>Another session sells a serial the move has not chosen.\<close>

definition ex_rival :: "nat \<Rightarrow> db \<Rightarrow> db" where
  "ex_rival k d = set_serial 5 (\<lambda>s. s\<lparr>ser_status := S_SOLD\<rparr>) d"

theorem move_wins_race_witness:
  "\<exists>st' ids. move_one ex_move (ex_move_world ex_rival) ex_location (0, ex_move_item) (start_move ex_db) = Inr st' \<and>
     length ids = 2 \<and> (\<forall>i \<in> set ids. map_option ser_product_id (get_serial ex_db i) = Some 1 \<and>
       map_option ser_location_id (get_serial (mvs_db st') i) = Some (Some 1))"
proof -
  have "\<not> isl (move_one ex_move (ex_move_world ex_rival) ex_location (0, ex_move_item) (start_move ex_db))" by code_simp
  then obtain st' where r: "move_one ex_move (ex_move_world ex_rival) ex_location (0, ex_move_item) (start_move ex_db) = Inr st'"
    using Inr_exists by blast
  have k: "serials_ok (mvs_db (start_move ex_db))"
    "serials_ok (mvw_others (ex_move_world ex_rival) 0 (mvs_db (start_move ex_db)))"
    "mvi_quantity ex_move_item = 2" "loc_id ex_location = 1" "mvi_product_id ex_move_item = 1" by (atomize (full)) code_simp
  have start: "mvs_db (start_move ex_db) = ex_db" by (simp add: start_move_def)
  obtain ids where ids: "int (length ids) = 2" "\<forall>i \<in> set ids. \<exists>s. get_serial ex_db i = Some s \<and> ser_product_id s = 1"
    "\<forall>i \<in> set ids. \<exists>s. get_serial (mvs_db st') i =
      Some (s\<lparr>ser_location_id := Some 1, ser_warehouse := Some (loc_warehouse ex_location), ser_level := loc_level ex_location\<rparr>)"
    using move_wins_race [OF r k(1,2)] unfolding k(3-5) start by blast
  have "map_option ser_product_id (get_serial ex_db i) = Some 1 \<and> map_option ser_location_id (get_serial (mvs_db st') i) = Some (Some 1)"
    if "i \<in> set ids" for i using ids(2,3) that by fastforce
  then show ?thesis using r ids(1) by (intro exI [of _ st'] exI [of _ ids]) simp
qed

theorem relocation_exact_witness:
  "\<exists>d' rels. relocate_stock ex_sha ex_master ex_move (ex_move_world (\<lambda>k d. d)) ex_db = Inr (d', rels) \<and>
     length rels = 1 \<and> stock_status d' 5 = Some S_IN_STOCK"
proof -
  have "\<not> isl (relocate_stock ex_sha ex_master ex_move (ex_move_world (\<lambda>k d. d)) ex_db)" by code_simp
  then obtain d' rels where r: "relocate_stock ex_sha ex_master ex_move (ex_move_world (\<lambda>k d. d)) ex_db = Inr (d', rels)"
    using Inr_exists by (metis surj_pair)
  have k: "serials_ok ex_db" "stock_status ex_db 5 = Some S_IN_STOCK" by code_simp+
  have "\<forall>k e. mvw_others (ex_move_world (\<lambda>k d. d)) k e = e" by (simp add: ex_move_world_def)
  from relocation_exact [OF r k(1) this] k(2) r show ?thesis by (auto simp: ex_move_def)
qed

section \<open>A label exchange\<close>

theorem replacement_keeps_unit_witness:
  "\<exists>d' s. replace_barcode_serial ex_master (\<lambda>k d. d) 1 ''SOAP-000001'' None (Some ''torn'') 9 ex_db = Inr (d', s) \<and>
     ser_status s = S_IN_STOCK \<and> map_option ser_status (get_serial d' 1) = Some S_INVALID"
proof -
  have "\<not> isl (replace_barcode_serial ex_master (\<lambda>k d. d) 1 ''SOAP-000001'' None (Some ''torn'') 9 ex_db)" by code_simp
  then obtain d' s where r: "replace_barcode_serial ex_master (\<lambda>k d. d) 1 ''SOAP-000001'' None (Some ''torn'') 9 ex_db = Inr (d', s)"
    using Inr_exists by (metis surj_pair)
  have st: "map_option ser_status (get_serial d' 1) = Some S_INVALID" if "get_serial d' 1 = Some (o'\<lparr>ser_status := S_INVALID, ser_active := False, ser_replaced_by_id := x\<rparr>)"
    for o' x using that by simp
  have k: "serials_ok ex_db" "serial_by_number ex_db (normalize_serial ''SOAP-000001'') = Some (ex_serial 1 ''SOAP-000001'' S_IN_STOCK (Some 20000))"
    by code_simp+
  have i: "ser_id (ex_serial 1 ''SOAP-000001'' S_IN_STOCK (Some 20000)) = 1"
    "ser_status (ex_serial 1 ''SOAP-000001'' S_IN_STOCK (Some 20000)) = S_IN_STOCK" by (simp_all add: ex_serial_def)
  obtain old where o: "serial_by_number ex_db (normalize_serial ''SOAP-000001'') = Some old"
    "ser_status s = (if ser_status old = S_GENERATED then S_GENERATED else S_IN_STOCK)"
    "get_serial d' (ser_id old) =
      Some (old\<lparr>ser_status := S_INVALID, ser_active := False, ser_replaced_by_id := Some (ser_id s)\<rparr>)"
    using replacement_keeps_unit [OF r k(1)] by blast
  have "old = ex_serial 1 ''SOAP-000001'' S_IN_STOCK (Some 20000)" using o(1) unfolding k(2) by simp
  then have "ser_id old = 1" "ser_status old = S_IN_STOCK" using i by simp_all
  then show ?thesis using r o st by auto
qed

section \<open>The permission matrix\<close>

text \<open>A stored matrix that tries to hide the role page from the super admin and give it to sales.\<close>

definition ex_matrix :: json where
  "ex_matrix = JObj [(''page_role_access'', JObj [(''super_admin'', JStr ''hidden''), (''sales'', JStr ''shown'')]),
     (''page_reports'', JObj [(''sales'', JStr '' shown ''), (''purchase'', JStr ''maybe'')])]"

definition ex_matrix_db :: db where
  "ex_matrix_db = ex_db\<lparr>settings_rows := [\<lparr>stg_key = ''role_access_config'', stg_value = ''x'', stg_updated_at = 0\<rparr>]\<rparr>"

theorem access_locks_witness:
  "\<not> role_has_access (\<lambda>s. Some ex_matrix) ex_matrix_db (RoleArg SALES) ''page_role_access'' None \<and>
     role_has_access (\<lambda>s. Some ex_matrix) ex_matrix_db (RoleArg SUPER_ADMIN) ''page_role_access'' None"
proof -
  have "role_text SUPER_ADMIN \<notin> set (normalize_role_values (RoleArg SALES))" "''page_role_access'' \<in> set super_admin_only_keys"
    "role_text SUPER_ADMIN \<in> set (normalize_role_values (RoleArg SUPER_ADMIN))"
    by code_simp+
  then show ?thesis using access_locks [of "\<lambda>s. Some ex_matrix" ex_matrix_db] by blast
qed

end
