(* ===== verification/ReportFormat.thy ===== *)
theory ReportFormat
  imports Calendar
begin

text \<open>
  How values are shown, \<open>app/services/report_format.py\<close>: voucher numbers, dates of the
  business time zone (UTC plus five and a half hours) and readable labels.
\<close>

definition ist :: "moment \<Rightarrow> moment" where
  "ist t = t + minutes 330"

definition trailing_digits :: "string \<Rightarrow> string" where
  "trailing_digits s = rev (takeWhile is_digit (rev s))"

text \<open>The first value that is a number or ends in one decides; \<open>fallback\<close> is the batch's key.\<close>

fun numeric_voucher_number :: "string option list \<Rightarrow> nat \<Rightarrow> nat" where
  "numeric_voucher_number [] fallback = fallback"
| "numeric_voucher_number (v # vs) fallback =
    (case v of None \<Rightarrow> numeric_voucher_number vs fallback
     | Some s \<Rightarrow>
         let ds = trailing_digits (py_strip s)
         in if ds = [] then numeric_voucher_number vs fallback else parse_nat ds)"

definition batch_voucher_number :: "batch \<Rightarrow> string option \<Rightarrow> nat" where
  "batch_voucher_number b override =
     numeric_voucher_number [override, bat_voucher_number b, Some (bat_number b)] (bat_id b)"

definition report_day :: "day \<Rightarrow> string" where
  "report_day n = (case civil n of (y, m, d) \<Rightarrow>
     zero_pad 2 (nat d) @ ''-'' @ zero_pad 2 (nat m) @ ''-'' @ zero_pad 4 (nat y))"

text \<open>\<open>report_date\<close> of nothing, a date and a datetime; \<open>report_datetime\<close> of a datetime.\<close>

datatype report_value = NoValue | DateValue day | MomentValue moment

fun report_date :: "report_value \<Rightarrow> string" where
  "report_date NoValue = []"
| "report_date (DateValue n) = report_day n"
| "report_date (MomentValue t) = report_day (day_of (ist t))"

definition clock_text :: "moment \<Rightarrow> string" where
  "clock_text t = (let secs = t mod microseconds_per_day div 1000000
     in zero_pad 2 (nat (secs div 3600)) @ '':'' @ zero_pad 2 (nat (secs div 60 mod 60)))"

definition report_datetime :: "moment \<Rightarrow> string" where
  "report_datetime t = long_date (day_of (ist t)) @ '' '' @ clock_text (ist t)"

definition is_letter :: "char \<Rightarrow> bool" where
  "is_letter c \<longleftrightarrow> is_upper_letter (char_upper c)"

definition label_acronyms :: "(string \<times> string) list" where
  "label_acronyms = [(''qr'', ''QR''), (''gst'', ''GST''), (''sku'', ''SKU''), (''fefo'', ''FEFO''), (''hsn'', ''HSN''),
     (''xml'', ''XML'')]"

definition label_word :: "string \<Rightarrow> string" where
  "label_word w = (case map_of label_acronyms w of Some a \<Rightarrow> a | None \<Rightarrow> w)"

definition readable_label :: "string \<Rightarrow> string" where
  "readable_label text =
    (let enum = (text = py_upper text \<or>
           (text \<noteq> [] \<and> list_all (\<lambda>c. (is_letter c \<and> c = char_lower c) \<or> is_digit c \<or> c = CHR ''_'') text))
     in if text = [] \<or> \<not> enum \<or> \<not> list_ex is_letter text then text
        else let spaced = py_lower (map (\<lambda>c. if c = CHR ''_'' then CHR '' '' else c) text);
                 label = py_join '' '' (map label_word (py_split_on (CHR '' '') spaced))
             in py_upper (take 1 label) @ drop 1 label)"

lemma trailing_digits_zero_pad: "\<not> is_digit c \<Longrightarrow> trailing_digits (pre @ c # zero_pad w n) = zero_pad w n"
proof -
  assume c: "\<not> is_digit c"
  have "takeWhile is_digit (rev (zero_pad w n) @ c # rev pre) = rev (zero_pad w n) @ takeWhile is_digit (c # rev pre)"
    by (rule takeWhile_append2) (use zero_pad_digits [of w n] in \<open>simp add: list_all_iff\<close>)
  then show ?thesis using c by (simp add: trailing_digits_def)
qed

end
