(* ===== verification/Analytics.thy ===== *)
theory Analytics
  imports PyJson ReportFormat Numbers
begin

text \<open>
  What the reports share: arithmetic of Python floats on the rationals they denote, a
  dictionary filled with \<open>setdefault\<close> or a \<open>Counter\<close>, and what such a
  grouping conserves.
\<close>

section \<open>Floats\<close>

definition fadd :: "rat \<Rightarrow> rat \<Rightarrow> rat" where
  "fadd x y = to_double (x + y)"

definition fmul :: "rat \<Rightarrow> rat \<Rightarrow> rat" where
  "fmul x y = to_double (x * y)"

definition fdiv :: "rat \<Rightarrow> rat \<Rightarrow> rat" where
  "fdiv x y = to_double (x / y)"

text \<open>\<open>round(x, n)\<close> and \<open>round(x)\<close>: ties of the exact value to even.\<close>

definition round_to :: "nat \<Rightarrow> rat \<Rightarrow> rat" where
  "round_to n x = to_double (of_int (round_half_even (x * 10 ^ n)) / 10 ^ n)"

definition int_rat :: "nat \<Rightarrow> rat" where
  "int_rat n = of_nat n"

text \<open>\<open>value or fallback\<close> on an optional text.\<close>

definition text_or :: "string option \<Rightarrow> string \<Rightarrow> string" where
  "text_or v fallback = (case v of None \<Rightarrow> fallback | Some s \<Rightarrow> if s = [] then fallback else s)"

definition text_in :: "string \<Rightarrow> string \<Rightarrow> bool" where
  "text_in needle s \<longleftrightarrow> list_ex (\<lambda>k. starts_with needle (drop k s)) [0..<Suc (length s)]"

text \<open>\<open>int(text)\<close>: one sign, digits, single underscores between them.\<close>

definition py_int :: "string \<Rightarrow> int option" where
  "py_int text =
    (let (sg, body) = strip_sign (py_strip text); parts = py_split_on (CHR ''_'') body
     in if list_all (\<lambda>p. p \<noteq> [] \<and> list_all is_digit p) parts then Some (sg * int (parse_nat (concat parts))) else None)"

definition py_float :: "string \<Rightarrow> rat option" where
  "py_float text = map_option to_double (parse_decimal text)"

section \<open>Grouping\<close>

text \<open>\<open>group = groups.setdefault(k, v)\<close>, then the change \<open>f\<close> of that entry.\<close>

fun dict_alter :: "'k \<Rightarrow> 'v \<Rightarrow> ('v \<Rightarrow> 'v) \<Rightarrow> ('k \<times> 'v) list \<Rightarrow> ('k \<times> 'v) list" where
  "dict_alter k v f [] = [(k, f v)]"
| "dict_alter k v f ((x, y) # r) = (if x = k then (x, f y) # r else (x, y) # dict_alter k v f r)"

text \<open>\<open>for x in xs:\<close> enter \<open>x\<close> under its key.\<close>

definition group_all :: "('x \<Rightarrow> 'k) \<Rightarrow> ('x \<Rightarrow> 'v) \<Rightarrow> ('x \<Rightarrow> 'v \<Rightarrow> 'v) \<Rightarrow> 'x list \<Rightarrow> ('k \<times> 'v) list" where
  "group_all key init step xs = fold (\<lambda>x. dict_alter (key x) (init x) (step x)) xs []"

text \<open>\<open>Counter(map(key, xs))\<close>\<close>

definition counter :: "'k list \<Rightarrow> ('k \<times> nat) list" where
  "counter ks = group_all id (\<lambda>k. 0) (\<lambda>k. Suc) ks"

definition count_of :: "'k \<Rightarrow> ('k \<times> nat) list \<Rightarrow> nat" where
  "count_of k c = (case map_of c k of None \<Rightarrow> 0 | Some n \<Rightarrow> n)"

lemma dict_alter_keys: "fst ` set (dict_alter k v f kvs) = insert k (fst ` set kvs)"
  by (induction k v f kvs rule: dict_alter.induct) auto

lemma dict_alter_distinct: "distinct (map fst kvs) \<Longrightarrow> distinct (map fst (dict_alter k v f kvs))"
proof (induction k v f kvs rule: dict_alter.induct)
  case (2 k v f x y r)
  then show ?case using dict_alter_keys [of k v f r] by (auto simp: image_iff)
qed simp

lemma map_of_dict_alter:
  "map_of (dict_alter k v f kvs) x = (if x = k then Some (f (case map_of kvs k of None \<Rightarrow> v | Some y \<Rightarrow> y)) else map_of kvs x)"
  by (induction k v f kvs rule: dict_alter.induct) auto

lemma dict_alter_sum:
  fixes m :: "'v \<Rightarrow> nat"
  assumes "m v = 0" "\<And>w. m (f w) = Suc (m w)"
  shows "(\<Sum>e\<leftarrow>dict_alter k v f kvs. m (snd e)) = Suc (\<Sum>e\<leftarrow>kvs. m (snd e))"
  using assms by (induction k v f kvs rule: dict_alter.induct) simp_all

lemma group_fold:
  "distinct (map fst kvs) \<Longrightarrow> distinct (map fst (fold (\<lambda>x. dict_alter (key x) (init x) (step x)) xs kvs))"
  "fst ` set (fold (\<lambda>x. dict_alter (key x) (init x) (step x)) xs kvs) = key ` set xs \<union> fst ` set kvs"
  by (induction xs arbitrary: kvs) (auto simp: dict_alter_distinct dict_alter_keys)

lemma group_keys: "distinct (map fst (group_all key init step xs))" "fst ` set (group_all key init step xs) = key ` set xs"
  by (simp_all add: group_all_def group_fold)

text \<open>A measure that starts at zero and grows by one with each entry counts the entries.\<close>

lemma group_sum:
  fixes m :: "'v \<Rightarrow> nat"
  assumes "\<And>x. m (init x) = 0" "\<And>x w. m (step x w) = Suc (m w)"
  shows "(\<Sum>e\<leftarrow>group_all key init step xs. m (snd e)) = length xs"
proof -
  have "(\<Sum>e\<leftarrow>fold (\<lambda>x. dict_alter (key x) (init x) (step x)) xs kvs. m (snd e)) = length xs + (\<Sum>e\<leftarrow>kvs. m (snd e))" for kvs
    by (induction xs arbitrary: kvs) (simp_all add: dict_alter_sum assms)
  then show ?thesis by (simp add: group_all_def)
qed

lemma counter_sum: "(\<Sum>e\<leftarrow>counter ks. snd e) = length ks"
  unfolding counter_def by (rule group_sum) simp_all

lemma group_count:
  fixes m :: "'v \<Rightarrow> nat"
  assumes "\<And>x. m (init x) = 0" "\<And>x w. m (step x w) = Suc (m w)"
  shows "(case map_of (group_all key init step xs) k of None \<Rightarrow> 0 | Some v \<Rightarrow> m v) = length (filter (\<lambda>x. key x = k) xs)"
proof -
  let ?n = "\<lambda>kvs. case map_of kvs k of None \<Rightarrow> 0 | Some v \<Rightarrow> m v"
  have "?n (fold (\<lambda>x. dict_alter (key x) (init x) (step x)) xs kvs) = length (filter (\<lambda>x. key x = k) xs) + ?n kvs" for kvs
    by (induction xs arbitrary: kvs) (auto simp: map_of_dict_alter assms split: option.split)
  then show ?thesis by (simp add: group_all_def)
qed

lemma count_of_counter: "count_of k (counter ks) = length (filter (\<lambda>x. x = k) ks)"
  unfolding count_of_def counter_def
  using group_count [of "\<lambda>n. n" "\<lambda>k. 0" "\<lambda>k. Suc" id ks k] by simp

lemma counter_keys: "fst ` set (counter ks) = set ks" "distinct (map fst (counter ks))"
  unfolding counter_def using group_keys [of id "\<lambda>k. 0" "\<lambda>k. Suc" ks] by simp_all

end
