(* ===== verification/ExpiryReport.thy ===== *)
theory ExpiryReport
  imports Expiry Analytics
begin

text \<open>
  The expiry report of \<open>app/services/expiry.py\<close>: stock grouped by product, lot, expiry
  date and warehouse, the expiry risk from the sales of the last months, sleeping stock, the
  value at risk per warehouse and the widgets of the page.  The foreign keys of the database
  give every serial its product; \<open>as_of\<close> is the day of the report.
\<close>

section \<open>Stock by lot\<close>

record expiry_row =
  exr_product :: product
  exr_batch :: string
  exr_warehouse :: string
  exr_date :: day
  exr_qty :: nat
  exr_value :: rat

record dated_row = expiry_row +
  exr_days_left :: int
  exr_band :: string
  exr_class :: string

type_synonym lot_key = "nat \<times> string \<times> day \<times> string"

definition stock_with_products :: "db \<Rightarrow> nat option \<Rightarrow> (serial \<times> product) list" where
  "stock_with_products d pid = List.map_filter (\<lambda>s. map_option (Pair s) (product_of d s)) (stock_serials d pid)"

definition lot_expiry :: "serial \<times> product \<Rightarrow> day" where
  "lot_expiry sp = (case ser_expiry_date (fst sp) of None \<Rightarrow> date_max | Some e \<Rightarrow> e)"

definition lot_key_of :: "serial \<times> product \<Rightarrow> lot_key" where
  "lot_key_of sp = (ser_product_id (fst sp), text_or (ser_batch_number (fst sp)) ''-'', lot_expiry sp,
     text_or (ser_warehouse (fst sp)) ''Main'')"

definition new_lot :: "serial \<times> product \<Rightarrow> expiry_row" where
  "new_lot sp = \<lparr>exr_product = snd sp, exr_batch = text_or (ser_batch_number (fst sp)) ''-'',
     exr_warehouse = text_or (ser_warehouse (fst sp)) ''Main'', exr_date = lot_expiry sp, exr_qty = 0, exr_value = 0\<rparr>"

definition add_unit :: "serial \<times> product \<Rightarrow> expiry_row \<Rightarrow> expiry_row" where
  "add_unit sp r = r\<lparr>exr_qty := Suc (exr_qty r), exr_value := fadd (exr_value r) (prd_default_rate (snd sp))\<rparr>"

definition expires_by :: "day \<Rightarrow> serial \<times> product \<Rightarrow> bool" where
  "expires_by deadline sp = (case ser_expiry_date (fst sp) of None \<Rightarrow> False | Some e \<Rightarrow> e \<le> deadline)"

definition dated :: "day \<Rightarrow> expiry_row \<Rightarrow> dated_row" where
  "dated as_of r =
    (let days = exr_date r - as_of; band = expiring_band days
     in expiry_row.extend r (dated_row.fields days (fst band) (snd band)))"

definition expiry_batch_rows :: "db \<Rightarrow> int \<Rightarrow> day \<Rightarrow> nat option \<Rightarrow> dated_row list" where
  "expiry_batch_rows d horizon as_of pid =
     sort_key (\<lambda>r. (exr_days_left r, prd_name (exr_product r), exr_batch r))
       (map (\<lambda>e. dated as_of (snd e))
         (group_all lot_key_of new_lot add_unit (filter (expires_by (as_of + horizon)) (stock_with_products d pid))))"

section \<open>Expiry risk\<close>

definition is_sale :: "inventory_transaction \<Rightarrow> bool" where
  "is_sale t \<longleftrightarrow> txn_type t = T_SALE \<and> txn_status_to t = Some S_SOLD"

definition sales_velocity_by_product :: "db \<Rightarrow> nat \<Rightarrow> day \<Rightarrow> nat option \<Rightarrow> (nat \<times> rat) list" where
  "sales_velocity_by_product d months as_of pid =
     map (\<lambda>(p, n). (p, fdiv (int_rat n) (int_rat (max months 1))))
       (counter (List.map_filter txn_product_id (filter (\<lambda>t. is_sale t \<and>
          (as_of - int months * 30) * microseconds_per_day \<le> txn_created_at t \<and>
          (case pid of None \<Rightarrow> True | Some p \<Rightarrow> txn_product_id t = Some p)) (transactions d))))"

record risk_row = dated_row +
  rsk_sales_per_month :: rat
  rsk_months_left :: rat
  rsk_expected_sales :: int
  rsk_unsold :: int
  rsk_risk :: string
  rsk_class :: string
  rsk_basis :: string

definition int_text :: "int \<Rightarrow> string" where
  "int_text n = (if n < 0 then ''-'' @ nat_str (nat (- n)) else nat_str (nat n))"

definition risk_of :: "int \<Rightarrow> rat \<Rightarrow> string \<times> string" where
  "risk_of days_left ratio =
    (if days_left \<le> 30 \<or> to_double (65 / 100) \<le> ratio then (''High Expiry Risk'', ''failed'')
     else if days_left \<le> 90 \<or> to_double (35 / 100) \<le> ratio then (''Watch'', ''pending_sync'')
     else (''Monitor'', ''synced''))"

definition assess :: "rat \<Rightarrow> dated_row \<Rightarrow> risk_row" where
  "assess velocity r =
    (let qty = int (exr_qty r); months_left = max (fdiv (of_int (exr_days_left r)) 30) 0;
         expected = floor (fmul velocity months_left); unsold = max (qty - expected) 0;
         ratio = (if qty = 0 then 0 else fdiv (of_int unsold) (of_int qty)); risk = risk_of (exr_days_left r) ratio
     in dated_row.extend (dated_row.truncate r) (risk_row.fields (round_to 1 velocity) (round_to 1 months_left) expected unsold (fst risk) (snd risk)
          (int_text (exr_days_left r) @ '' days left; '' @ int_text unsold @ '' of '' @ int_text qty @ '' projected unsold'')))"

definition expiry_risk_rows :: "db \<Rightarrow> day \<Rightarrow> nat option \<Rightarrow> risk_row list" where
  "expiry_risk_rows d as_of pid =
    (let velocity = sales_velocity_by_product d 3 as_of pid;
         rows = map (\<lambda>r. assess (case map_of velocity (prd_id (exr_product r)) of None \<Rightarrow> 0 | Some v \<Rightarrow> v) r)
           (expiry_batch_rows d 365 as_of pid)
     in sort_key (\<lambda>r. (rsk_class r \<noteq> ''failed'', exr_days_left r, - rsk_unsold r))
          (filter (\<lambda>r. 0 < rsk_unsold r \<or> exr_days_left r \<le> 90) rows))"

section \<open>Sleeping stock\<close>

record sleeping_row =
  slp_product :: product
  slp_stock :: nat
  slp_last_sale :: string
  slp_days :: int
  slp_status :: string
  slp_class :: string
  slp_value :: rat
  slp_basis :: string

definition last_sale_of :: "db \<Rightarrow> nat \<Rightarrow> moment option" where
  "last_sale_of d p =
    (case map txn_created_at (filter (\<lambda>t. is_sale t \<and> txn_product_id t = Some p) (transactions d)) of
       [] \<Rightarrow> None | t # ts \<Rightarrow> Some (fold max ts t))"

definition sleeping_row_of :: "db \<Rightarrow> day \<Rightarrow> nat \<times> nat \<Rightarrow> sleeping_row option" where
  "sleeping_row_of d as_of pq =
    (case get_product d (fst pq) of None \<Rightarrow> None
     | Some p \<Rightarrow>
         let last = last_sale_of d (fst pq);
             days = as_of - day_of (case last of None \<Rightarrow> prd_created_at p | Some t \<Rightarrow> t);
             label = (if last = None then ''No sale yet'' else int_text days @ '' days ago'');
             status = (if 90 \<le> days then (''Dead Stock'', ''failed'') else if 60 \<le> days then (''Slow Moving'', ''pending_sync'')
               else (''Watch'', ''generated''))
         in if days < 30 then None
            else Some \<lparr>slp_product = p, slp_stock = snd pq, slp_last_sale = label, slp_days = days, slp_status = fst status,
              slp_class = snd status, slp_value = fmul (int_rat (snd pq)) (prd_default_rate p),
              slp_basis = nat_str (snd pq) @ '' in stock; '' @ int_text days @ '' days since last sale''\<rparr>)"

definition sleeping_stock_rows :: "db \<Rightarrow> day \<Rightarrow> nat option \<Rightarrow> sleeping_row list" where
  "sleeping_stock_rows d as_of pid =
     sort_key (\<lambda>r. (- slp_days r, prd_name (slp_product r)))
       (List.map_filter (sleeping_row_of d as_of) (counter (map ser_product_id (stock_serials d pid))))"

section \<open>Warehouses and widgets\<close>

record heat_row =
  heat_warehouse :: string
  heat_value :: rat
  heat_qty :: nat
  heat_percent :: rat
  heat_class :: string

definition warehouse_heatmap_rows :: "db \<Rightarrow> day \<Rightarrow> nat option \<Rightarrow> heat_row list" where
  "warehouse_heatmap_rows d as_of pid =
    (let groups = group_all exr_warehouse (\<lambda>r. (0, 0)) (\<lambda>r (v, q). (fadd v (exr_value r), q + exr_qty r)) (expiry_batch_rows d 90 as_of pid);
         top = (case map (\<lambda>g. fst (snd g)) groups of [] \<Rightarrow> 0 | v # vs \<Rightarrow> fold max vs v)
     in sort_key (\<lambda>r. - heat_value r) (map (\<lambda>(w, v, q). \<lparr>heat_warehouse = w, heat_value = v, heat_qty = q,
          heat_percent = (if top \<noteq> 0 then round_to 1 (fmul (fdiv v top) 100) else 0),
          heat_class = (if top \<noteq> 0 \<and> top \<le> v then ''failed'' else ''pending_sync'')\<rparr>) groups))"

definition fefo_compliance_percent :: "db \<Rightarrow> nat option \<Rightarrow> int" where
  "fefo_compliance_percent d pid =
    (let rows = filter (\<lambda>i. (case get_batch d (itm_batch_id i) of None \<Rightarrow> False
           | Some b \<Rightarrow> bat_type b \<in> set fefo_batch_types \<and> bat_status b \<noteq> BS_DRAFT) \<and>
           (case pid of None \<Rightarrow> True | Some p \<Rightarrow> map_option ser_product_id (get_serial d (itm_serial_id i)) = Some p)) (batch_items d);
         total = length rows; picked = count_rows itm_fefo_picked rows
     in if total = 0 then 100 else round_half_even (fmul (fdiv (int_rat picked) (int_rat total)) 100))"

text \<open>\<open>as_of.replace(day=1)\<close>\<close>

definition month_start :: "day \<Rightarrow> day" where
  "month_start n = (case civil n of (y, m, dd) \<Rightarrow> n - dd + 1)"

definition expiry_loss_avoided_this_month :: "db \<Rightarrow> day \<Rightarrow> nat option \<Rightarrow> rat" where
  "expiry_loss_avoided_this_month d as_of pid =
     foldl (\<lambda>v t. case Option.bind (txn_serial_id t) (get_serial d) of None \<Rightarrow> v
       | Some s \<Rightarrow> (case (ser_expiry_date s, product_of d s) of
           (Some e, Some p) \<Rightarrow> if e \<le> as_of + 90 then fadd v (prd_default_rate p) else v
         | _ \<Rightarrow> v)) 0
     (filter (\<lambda>t. is_sale t \<and> month_start as_of * microseconds_per_day \<le> txn_created_at t \<and>
        (case pid of None \<Rightarrow> True | Some p \<Rightarrow> txn_product_id t = Some p)) (transactions d))"

record expiry_widgets =
  wdg_expiring_30 :: nat
  wdg_expiring_60 :: nat
  wdg_high_risk :: nat
  wdg_dead_value :: rat
  wdg_slow_value :: rat
  wdg_batches :: nat
  wdg_compliance :: int
  wdg_loss_avoided :: rat

record expiry_report =
  exp_critical :: "dated_row list"
  exp_risk :: "risk_row list"
  exp_sleeping :: "sleeping_row list"
  exp_heatmap :: "heat_row list"
  exp_widgets :: expiry_widgets

definition expiry_summary :: "db \<Rightarrow> day \<Rightarrow> nat option \<Rightarrow> expiry_report" where
  "expiry_summary d as_of pid =
    (let critical = expiry_batch_rows d 90 as_of pid; risk = expiry_risk_rows d as_of pid;
         sleeping = sleeping_stock_rows d as_of pid;
         value = (\<lambda>ss. foldl (\<lambda>v r. fadd v (slp_value r)) 0 (filter (\<lambda>r. slp_status r \<in> set ss) sleeping))
     in \<lparr>exp_critical = critical, exp_risk = risk, exp_sleeping = sleeping, exp_heatmap = warehouse_heatmap_rows d as_of pid,
          exp_widgets = \<lparr>wdg_expiring_30 = count_rows (\<lambda>r. exr_days_left r \<le> 30) critical,
            wdg_expiring_60 = count_rows (\<lambda>r. exr_days_left r \<le> 60) critical,
            wdg_high_risk = count_rows (\<lambda>r. rsk_risk r = ''High Expiry Risk'') risk,
            wdg_dead_value = value [''Dead Stock''], wdg_slow_value = value [''Slow Moving'', ''Dead Stock''],
            wdg_batches = length (remdups (map (\<lambda>r. (prd_code (exr_product r), exr_batch r, exr_date r, exr_warehouse r))
              (expiry_batch_rows d 365 as_of pid))),
            wdg_compliance = fefo_compliance_percent d pid,
            wdg_loss_avoided = expiry_loss_avoided_this_month d as_of pid\<rparr>\<rparr>)"

section \<open>No unit is lost\<close>

lemma dated_fields [simp]: "exr_qty (dated as_of r) = exr_qty r" "exr_days_left (dated as_of r) = exr_date r - as_of"
  by (simp_all add: dated_def Let_def expiry_row.defs dated_row.defs)

lemma sum_list_sort_key_nat: "(\<Sum>r\<leftarrow>sort_key f rs. (g r :: nat)) = (\<Sum>r\<leftarrow>rs. g r)"
proof -
  have "mset (map g (sort_key f rs)) = mset (map g rs)" by simp
  then show ?thesis by (metis sum_mset_sum_list)
qed

lemma expiry_units: "(\<Sum>r\<leftarrow>expiry_batch_rows d horizon as_of pid. exr_qty r) =
    length (filter (expires_by (as_of + horizon)) (stock_with_products d pid))"
  unfolding expiry_batch_rows_def sum_list_sort_key_nat
  using group_sum [of exr_qty new_lot add_unit] by (simp add: new_lot_def add_unit_def comp_def)

end
