(* ===== verification/Movement.thy ===== *)
theory Movement
  imports ExpiryReport Audits Configuration
begin

text \<open>
  The stock movement report, \<open>app/services/stock_movement.py\<close>: its configuration and
  window, the filters, stock and sales grouped by product, warehouse and level, the movement
  class, inventory signal and expiry projection of a group, the summary, and the restock
  forecast per product.  Numbers of days stay within what \<open>timedelta\<close> can hold.  The
  keys of both dictionaries are joined in a Python set: the order in which it is walked is
  the parameter \<open>walk\<close>.  \<open>as_of\<close> is the day the call settles on: its argument, the end of the
  filters, or today.
\<close>

section \<open>Configuration and window\<close>

record movement_config =
  mvc_days :: int
  mvc_dead :: rat
  mvc_slow :: rat
  mvc_medium :: rat

definition default_movement :: movement_config where
  "default_movement = \<lparr>mvc_days = 90, mvc_dead = 10, mvc_slow = 40, mvc_medium = 80\<rparr>"

definition validate_movement_config :: "movement_config \<Rightarrow> exc option" where
  "validate_movement_config c =
    (if mvc_days c \<notin> {30, 60, 90, 180, 365} then Some (ValueError ''Analysis period must be 30, 60, 90, 180, or 365 days.'')
     else if list_ex (\<lambda>v. v < 0 \<or> 100 < v) [mvc_dead c, mvc_slow c, mvc_medium c] then
       Some (ValueError ''Movement thresholds must be between 0% and 100%.'')
     else if \<not> (mvc_dead c \<le> mvc_slow c \<and> mvc_slow c \<le> mvc_medium c) then
       Some (ValueError ''Thresholds must increase from dead to slow to medium.'')
     else None)"

text \<open>A stored text that is not a number, or not finite, gives the defaults.\<close>

definition movement_config_of :: "db \<Rightarrow> movement_config" where
  "movement_config_of d =
    (case (py_int (get_setting d ''movement_analysis_days'' ''90''), py_float (get_setting d ''movement_dead_below_pct'' ''10.0''),
           py_float (get_setting d ''movement_slow_below_pct'' ''40.0''), py_float (get_setting d ''movement_medium_up_to_pct'' ''80.0'')) of
       (Some days, Some dead, Some slow, Some medium) \<Rightarrow>
         let c = \<lparr>mvc_days = days, mvc_dead = dead, mvc_slow = slow, mvc_medium = medium\<rparr>
         in if validate_movement_config c = None then c else default_movement
     | _ \<Rightarrow> default_movement)"

record movement_filters =
  mvf_product_id :: "nat option"
  mvf_warehouse :: string
  mvf_category :: string
  mvf_brand :: string
  mvf_batch :: string
  mvf_level :: string
  mvf_expiry :: string
  mvf_movement :: string
  mvf_start :: "day option"
  mvf_end :: "day option"

definition analysis_window :: "movement_config \<Rightarrow> movement_filters \<Rightarrow> day \<Rightarrow> exc + day \<times> day \<times> int" where
  "analysis_window c f as_of =
    (let e = (case mvf_end f of None \<Rightarrow> as_of | Some x \<Rightarrow> x);
         s = (case mvf_start f of None \<Rightarrow> e - (mvc_days c - 1) | Some x \<Rightarrow> x)
     in if e < s then Inl (ValueError ''Start date must be on or before end date.'') else Inr (s, e, e - s + 1))"

section \<open>Classes\<close>

definition warehouse_level_name :: "string \<Rightarrow> string" where
  "warehouse_level_name w =
    (let t = map (\<lambda>c. if c = CHR ''-'' then CHR '' '' else c) (py_upper (py_strip w))
     in if text_in ''HOME FRANCHISE'' t then ''Home Franchise''
        else if text_in ''TALUK'' t then ''Taluk Franchise''
        else if text_in ''MASTER FRANCHISE'' t then ''Master Franchise''
        else if text_in ''C&F'' t \<or> text_in ''C AND F'' t \<or> text_in ''CNF'' t then ''C&F''
        else ''Company Warehouse'')"

definition movement_status :: "nat \<Rightarrow> nat \<Rightarrow> rat option \<Rightarrow> movement_config \<Rightarrow> string" where
  "movement_status stock sold ratio c =
    (if stock = 0 \<and> 0 < sold then ''Fast Moving''
     else (case ratio of None \<Rightarrow> ''Dead Stock''
       | Some r \<Rightarrow> if sold = 0 then ''Dead Stock''
           else if r < mvc_dead c then ''Dead Stock''
           else if r < mvc_slow c then ''Slow Moving''
           else if r \<le> mvc_medium c then ''Medium Moving''
           else ''Fast Moving''))"

definition movement_css :: "string \<Rightarrow> string" where
  "movement_css st = (case map_of [(''Fast Moving'', ''synced''), (''Medium Moving'', ''generated''),
     (''Slow Moving'', ''pending_sync''), (''Dead Stock'', ''failed'')] st of None \<Rightarrow> [] | Some x \<Rightarrow> x)"

definition warehouse_of :: "serial \<Rightarrow> string" where
  "warehouse_of s = py_strip (text_or (ser_warehouse s) ''Main Warehouse'')"

definition product_matches :: "movement_filters \<Rightarrow> product \<Rightarrow> bool" where
  "product_matches f p \<longleftrightarrow> (mvf_product_id f \<in> {None, Some 0} \<or> mvf_product_id f = Some (prd_id p)) \<and>
     (mvf_category f = [] \<or> text_or (prd_category p) [] = mvf_category f) \<and>
     (mvf_brand f = [] \<or> text_or (prd_brand p) [] = mvf_brand f)"

definition serial_matches :: "movement_filters \<Rightarrow> serial \<Rightarrow> bool" where
  "serial_matches f s \<longleftrightarrow> (mvf_warehouse f = [] \<or> warehouse_of s = mvf_warehouse f) \<and>
     (mvf_batch f = [] \<or> text_or (ser_batch_number s) [] = mvf_batch f) \<and>
     (mvf_level f = [] \<or> warehouse_level_value (ser_level s) = mvf_level f)"

definition expiry_matches :: "day list \<Rightarrow> string \<Rightarrow> day \<Rightarrow> bool" where
  "expiry_matches dates period as_of =
    (if period = [] then True
     else if period = ''none'' then dates = []
     else if period = ''expired'' then list_ex (\<lambda>e. e < as_of) dates
     else (case py_int period of None \<Rightarrow> True | Some n \<Rightarrow> list_ex (\<lambda>e. as_of \<le> e \<and> e \<le> as_of + n) dates))"

definition expiry_date_matches :: "day option \<Rightarrow> string \<Rightarrow> day \<Rightarrow> bool" where
  "expiry_date_matches expiry period as_of =
    (if period = [] then True
     else if period = ''none'' then expiry = None
     else (case expiry of None \<Rightarrow> False
       | Some e \<Rightarrow> if period = ''expired'' then e < as_of
           else (case py_int period of None \<Rightarrow> True | Some n \<Rightarrow> as_of \<le> e \<and> e \<le> as_of + n)))"

definition inventory_signal :: "nat \<Rightarrow> nat \<Rightarrow> rat \<Rightarrow> rat option \<Rightarrow> int \<Rightarrow> string" where
  "inventory_signal stock sold daily clear days =
    (if stock = 0 \<and> 0 < sold then ''Understocked''
     else if 0 < stock \<and> daily = 0 then ''Overstocked''
     else (case clear of None \<Rightarrow> ''Normal Movement''
       | Some x \<Rightarrow> if x < 14 then ''Understocked'' else if of_int (days * 2) < x then ''Overstocked'' else ''Normal Movement''))"

definition suggested_action :: "string \<Rightarrow> string \<Rightarrow> string \<Rightarrow> int \<Rightarrow> string" where
  "suggested_action status sig risk unsold =
    (if risk = ''High Expiry Risk'' then ''Discount or bundle; '' @ int_text unsold @ '' units at risk''
     else if risk = ''Watch'' then ''Increase promotion and monitor weekly''
     else if sig = ''Understocked'' then ''Review reorder quantity''
     else if status = ''Dead Stock'' then ''Stop purchasing; return or liquidate''
     else if sig = ''Overstocked'' then ''Transfer stock and reduce next purchase''
     else if status = ''Slow Moving'' then ''Promote, bundle, or offer a discount''
     else if status = ''Fast Moving'' then ''Maintain availability''
     else ''Monitor movement'')"

text \<open>
  \<open>_expiry_projection\<close>: first expiring, first sold.  The most units left unsold at any
  expiry date, when sales go on at the daily rate.
\<close>

record expiry_projection =
  epj_risk :: string
  epj_css :: string
  epj_unsold :: int
  epj_nearest :: "day option"
  epj_months :: "rat option"

definition unsold_step :: "rat \<Rightarrow> day \<Rightarrow> day \<times> nat \<Rightarrow> int \<times> int \<Rightarrow> int \<times> int" where
  "unsold_step daily as_of eq acc =
    (let cumulative = fst acc + int (snd eq); projected = floor (fmul daily (of_int (max (fst eq - as_of) 0)))
     in (cumulative, max (snd acc) (cumulative - projected)))"

definition estimated_unsold :: "(day \<times> nat) list \<Rightarrow> rat \<Rightarrow> day \<Rightarrow> int" where
  "estimated_unsold quantities daily as_of = snd (fold (unsold_step daily as_of) (sort_key fst quantities) (0, 0))"

definition expiry_projection_of :: "(day \<times> nat) list \<Rightarrow> rat \<Rightarrow> day \<Rightarrow> expiry_projection" where
  "expiry_projection_of quantities daily as_of =
    (if quantities = [] then \<lparr>epj_risk = ''Not applicable'', epj_css = [], epj_unsold = 0, epj_nearest = None, epj_months = None\<rparr>
     else let nearest = fst (hd (sort_key fst quantities)); days = nearest - as_of; unsold = estimated_unsold quantities daily as_of;
              result = (\<lambda>risk css n. \<lparr>epj_risk = risk, epj_css = css, epj_unsold = n, epj_nearest = Some nearest,
                epj_months = Some (fdiv (of_int days) 30)\<rparr>)
          in if 0 < unsold then result ''High Expiry Risk'' ''failed'' unsold
             else if daily \<noteq> 0 \<and> 0 < days \<and>
               fmul (of_int days) (to_double (8 / 10)) \<le> fdiv (int_rat (\<Sum>q\<leftarrow>quantities. snd q)) daily
               then result ''Watch'' ''pending_sync'' 0
             else result ''Safe'' ''synced'' 0)"

section \<open>Groups\<close>

type_synonym movement_key = "nat \<times> string \<times> string"

record movement_group =
  mvg_product :: product
  mvg_stock :: nat
  mvg_batches :: "string list"
  mvg_expiries :: "(day \<times> nat) list"

definition movement_key_of :: "serial \<times> product \<Rightarrow> movement_key" where
  "movement_key_of sp = (prd_id (snd sp), warehouse_of (fst sp), warehouse_level_value (ser_level (fst sp)))"

definition new_group :: "serial \<times> product \<Rightarrow> movement_group" where
  "new_group sp = \<lparr>mvg_product = snd sp, mvg_stock = 0, mvg_batches = [], mvg_expiries = []\<rparr>"

definition add_to_group :: "serial \<times> product \<Rightarrow> movement_group \<Rightarrow> movement_group" where
  "add_to_group sp g = g\<lparr>mvg_stock := Suc (mvg_stock g),
     mvg_batches := (let b = text_or (ser_batch_number (fst sp)) [] in if b = [] then mvg_batches g else List.insert b (mvg_batches g)),
     mvg_expiries := (case ser_expiry_date (fst sp) of None \<Rightarrow> mvg_expiries g | Some e \<Rightarrow> dict_alter e 0 Suc (mvg_expiries g))\<rparr>"

definition counted_stock :: "db \<Rightarrow> movement_filters \<Rightarrow> day \<Rightarrow> (serial \<times> product) list" where
  "counted_stock d f as_of = filter (\<lambda>(s, p). product_matches f p \<and> serial_matches f s \<and>
       expiry_date_matches (ser_expiry_date s) (mvf_expiry f) as_of)
     (List.map_filter (\<lambda>s. map_option (Pair s) (product_of d s))
       (filter (\<lambda>s. ser_active s \<and> ser_status s \<in> set stock_statuses) (serials d)))"

definition sold_between :: "db \<Rightarrow> day \<Rightarrow> day \<Rightarrow> inventory_transaction list" where
  "sold_between d s e = filter (\<lambda>t. is_sale t \<and> s * microseconds_per_day \<le> txn_created_at t \<and>
     txn_created_at t < (e + 1) * microseconds_per_day) (transactions d)"

definition counted_sales :: "db \<Rightarrow> movement_filters \<Rightarrow> day \<Rightarrow> day \<Rightarrow> (serial \<times> product) list" where
  "counted_sales d f s e = filter (\<lambda>(r, p). product_matches f p \<and> serial_matches f r)
     (List.map_filter (\<lambda>t. case (Option.bind (txn_serial_id t) (get_serial d), Option.bind (txn_product_id t) (get_product d)) of
        (Some r, Some p) \<Rightarrow> Some (r, p) | _ \<Rightarrow> None) (sold_between d s e))"

record movement_row =
  mrw_product :: product
  mrw_warehouse :: string
  mrw_level :: string
  mrw_batch :: string
  mrw_stock :: nat
  mrw_sold :: nat
  mrw_ratio :: "rat option"
  mrw_daily :: rat
  mrw_weekly :: rat
  mrw_monthly :: rat
  mrw_clear_days :: "rat option"
  mrw_clear_months :: "rat option"
  mrw_status :: string
  mrw_css :: string
  mrw_signal :: string
  mrw_nearest :: "day option"
  mrw_months_left :: "rat option"
  mrw_risk :: string
  mrw_risk_css :: string
  mrw_unsold :: int
  mrw_action :: string

definition batch_label :: "string list \<Rightarrow> string" where
  "batch_label bs = (let label = (if length bs \<le> 2 then py_join '', '' (sort bs) else ''Multiple ('' @ nat_str (length bs) @ '')'')
     in if label = [] then ''-'' else label)"

definition movement_row_of ::
  "movement_config \<Rightarrow> movement_filters \<Rightarrow> day \<Rightarrow> int \<Rightarrow> movement_key \<Rightarrow> product \<Rightarrow> movement_group option \<Rightarrow> nat \<Rightarrow> movement_row option"
where
  "movement_row_of c f as_of days key p g sold =
    (let stock = (case g of None \<Rightarrow> 0 | Some x \<Rightarrow> mvg_stock x); expiries = (case g of None \<Rightarrow> [] | Some x \<Rightarrow> mvg_expiries x);
         ratio = (if stock = 0 then None else Some (fmul (fdiv (int_rat sold) (int_rat stock)) 100));
         daily = fdiv (int_rat sold) (of_int days);
         clear = (if daily = 0 then None else Some (fdiv (int_rat stock) daily));
         status = movement_status stock sold ratio c; sig = inventory_signal stock sold daily clear days;
         pj = expiry_projection_of expiries daily as_of
     in if \<not> expiry_matches (map fst expiries) (mvf_expiry f) as_of \<or> (mvf_movement f \<noteq> [] \<and> status \<noteq> mvf_movement f) then None
        else Some \<lparr>mrw_product = p, mrw_warehouse = fst (snd key), mrw_level = snd (snd key),
          mrw_batch = batch_label (case g of None \<Rightarrow> [] | Some x \<Rightarrow> mvg_batches x), mrw_stock = stock, mrw_sold = sold,
          mrw_ratio = map_option (round_to 1) ratio, mrw_daily = round_to 2 daily, mrw_weekly = round_to 2 (fmul daily 7),
          mrw_monthly = round_to 2 (fmul daily 30), mrw_clear_days = map_option (round_to 1) clear,
          mrw_clear_months = map_option (\<lambda>x. round_to 1 (fdiv x 30)) clear, mrw_status = status, mrw_css = movement_css status,
          mrw_signal = sig, mrw_nearest = epj_nearest pj, mrw_months_left = map_option (round_to 1) (epj_months pj),
          mrw_risk = epj_risk pj, mrw_risk_css = epj_css pj, mrw_unsold = epj_unsold pj,
          mrw_action = suggested_action status sig (epj_risk pj) (epj_unsold pj)\<rparr>)"

definition status_rank :: "string \<Rightarrow> nat" where
  "status_rank st = (case map_of [(''Dead Stock'', 0), (''Slow Moving'', 1), (''Medium Moving'', 2), (''Fast Moving'', 3)] st of
     None \<Rightarrow> 9 | Some n \<Rightarrow> n)"

definition movement_order :: "movement_row \<Rightarrow> bool \<times> nat \<times> string \<times> string" where
  "movement_order r = (mrw_risk r \<noteq> ''High Expiry Risk'', status_rank (mrw_status r), prd_name (mrw_product r), mrw_warehouse r)"

record movement_summary =
  msm_start :: day
  msm_end :: day
  msm_days :: int
  msm_products :: nat
  msm_stock :: nat
  msm_sold :: nat
  msm_fast :: nat
  msm_medium :: nat
  msm_slow :: nat
  msm_dead :: nat
  msm_risk :: nat
  msm_overstocked :: nat
  msm_understocked :: nat

definition movement_summary_of :: "day \<Rightarrow> day \<Rightarrow> int \<Rightarrow> movement_row list \<Rightarrow> movement_summary" where
  "movement_summary_of s e days rows =
    (let n = (\<lambda>st. count_rows (\<lambda>r. mrw_status r = st) rows)
     in \<lparr>msm_start = s, msm_end = e, msm_days = days, msm_products = length (remdups (map (\<lambda>r. prd_id (mrw_product r)) rows)),
          msm_stock = (\<Sum>r\<leftarrow>rows. mrw_stock r), msm_sold = (\<Sum>r\<leftarrow>rows. mrw_sold r), msm_fast = n ''Fast Moving'',
          msm_medium = n ''Medium Moving'', msm_slow = n ''Slow Moving'', msm_dead = n ''Dead Stock'',
          msm_risk = count_rows (\<lambda>r. mrw_risk r = ''High Expiry Risk'') rows,
          msm_overstocked = count_rows (\<lambda>r. mrw_signal r = ''Overstocked'') rows,
          msm_understocked = count_rows (\<lambda>r. mrw_signal r = ''Understocked'') rows\<rparr>)"

definition product_of_key :: "(serial \<times> product) list \<Rightarrow> movement_key \<Rightarrow> product option" where
  "product_of_key sales key = map_option snd (find (\<lambda>sp. movement_key_of sp = key) (rev sales))"

definition stock_movement_rows ::
  "(movement_key list \<Rightarrow> movement_key list) \<Rightarrow> movement_config \<Rightarrow> movement_filters \<Rightarrow> day \<Rightarrow> db \<Rightarrow> exc + movement_row list \<times> movement_summary"
where
  "stock_movement_rows walk c f as_of d =
    (case analysis_window c f as_of of Inl x \<Rightarrow> Inl x
     | Inr (s, e, days) \<Rightarrow>
         let groups = group_all movement_key_of new_group add_to_group (counted_stock d f as_of);
             sales = counted_sales d f s e; sold = counter (map movement_key_of sales);
             keys = walk (remdups (map fst groups @ map fst sold));
             rows = sort_key movement_order (List.map_filter (\<lambda>k.
               case (case map_of groups k of Some g \<Rightarrow> Some (mvg_product g) | None \<Rightarrow> product_of_key sales k) of
                 None \<Rightarrow> None
               | Some p \<Rightarrow> movement_row_of c f as_of days k p (map_of groups k) (count_of k sold)) keys)
         in Inr (rows, movement_summary_of s e days rows))"

section \<open>Restocking\<close>

record product_metric =
  pmt_sold :: nat
  pmt_system_stock :: nat
  pmt_available :: nat
  pmt_missing :: nat
  pmt_label :: string
  pmt_detail :: string
  pmt_css :: string

definition restock_forecast :: "int \<Rightarrow> day \<Rightarrow> nat \<Rightarrow> nat \<Rightarrow> string \<times> string \<times> string" where
  "restock_forecast days as_of sold available =
    (if sold = 0 then (''Not forecast'', ''No sales in '' @ int_text days @ '' days'', ''generated'')
     else if available = 0 then (''Restock now'', ''No available stock'', ''failed'')
     else let daily = fdiv (int_rat sold) (of_int days); n = max 1 (ceiling (fdiv (int_rat available) daily))
          in (''In '' @ int_text n @ '' days'', ''By '' @ report_day (as_of + n), if n \<le> 30 then ''pending_sync'' else ''active''))"

definition metric_of :: "db \<Rightarrow> movement_row list \<Rightarrow> int \<Rightarrow> day \<Rightarrow> nat \<Rightarrow> product_metric" where
  "metric_of d rows days as_of p =
    (let own = filter (\<lambda>r. prd_id (mrw_product r) = p) rows; sold = (\<Sum>r\<leftarrow>own. mrw_sold r); stock = (\<Sum>r\<leftarrow>own. mrw_stock r);
         missing = count_rows (\<lambda>x. map_option ser_product_id (Option.bind (fnd_serial_id x) (get_serial d)) = Some p)
           (current_missing_stock_findings d);
         available = stock - missing; forecast = restock_forecast days as_of sold available
     in \<lparr>pmt_sold = sold, pmt_system_stock = stock, pmt_available = available, pmt_missing = missing,
          pmt_label = fst forecast, pmt_detail = fst (snd forecast), pmt_css = snd (snd forecast)\<rparr>)"

definition no_filters :: movement_filters where
  "no_filters = \<lparr>mvf_product_id = None, mvf_warehouse = [], mvf_category = [], mvf_brand = [], mvf_batch = [], mvf_level = [],
     mvf_expiry = [], mvf_movement = [], mvf_start = None, mvf_end = None\<rparr>"

definition product_inventory_metrics ::
  "(movement_key list \<Rightarrow> movement_key list) \<Rightarrow> movement_config \<Rightarrow> day \<Rightarrow> product list \<Rightarrow> db \<Rightarrow> exc + (nat \<times> product_metric) list \<times> int"
where
  "product_inventory_metrics walk c as_of ps d =
    (case stock_movement_rows walk c no_filters as_of d of Inl x \<Rightarrow> Inl x
     | Inr (rows, summary) \<Rightarrow>
         Inr (map (\<lambda>p. (p, metric_of d rows (msm_days summary) as_of p)) (remdups (map prd_id ps)), msm_days summary))"

definition product_sales_transactions :: "db \<Rightarrow> nat set \<Rightarrow> int \<Rightarrow> day \<Rightarrow> inventory_transaction list" where
  "product_sales_transactions d ids days as_of =
    (if ids = {} then []
     else rev (sort_key txn_created_at (rev (filter (\<lambda>t. \<exists>p \<in> ids. txn_product_id t = Some p)
       (sold_between d (as_of - (days - 1)) as_of)))))"

section \<open>Every unit is counted once\<close>

lemma filter_key_partition:
  assumes "distinct ks" "key ` set xs \<subseteq> set ks"
  shows "(\<Sum>k\<leftarrow>ks. length (filter (\<lambda>x. key x = k) xs)) = length xs"
  using assms(2)
proof (induction xs)
  case (Cons x xs)
  have "(\<Sum>k\<leftarrow>ks. length (filter (\<lambda>y. key y = k) (x # xs))) =
      (\<Sum>k\<leftarrow>ks. (if key x = k then 1 else 0) + length (filter (\<lambda>y. key y = k) xs))"
    by (rule arg_cong [where f = sum_list]) simp
  also have "\<dots> = (\<Sum>k\<leftarrow>ks. if key x = k then 1 else 0) + length xs"
    using Cons by (simp add: sum_list_addf)
  also have "(\<Sum>k\<leftarrow>ks. if key x = k then 1 else 0) = (1::nat)"
    using assms(1) Cons.prems by (simp add: sum_list_distinct_conv_sum_set)
  finally show ?case by simp
qed simp

lemma group_stock:
  "(case map_of (group_all movement_key_of new_group add_to_group sps) k of None \<Rightarrow> 0 | Some g \<Rightarrow> mvg_stock g) =
     length (filter (\<lambda>sp. movement_key_of sp = k) sps)"
  by (rule group_count) (simp_all add: new_group_def add_to_group_def)

text \<open>Without a filter on class or expiry every group gives a row, with its counts.\<close>

lemma row_of_group:
  assumes "mvf_movement f = []" "mvf_expiry f = []"
  shows "\<exists>r. movement_row_of c f as_of days k p g sold = Some r \<and> mrw_sold r = sold \<and>
    mrw_stock r = (case g of None \<Rightarrow> 0 | Some x \<Rightarrow> mvg_stock x) \<and>
    mrw_status r \<in> {''Fast Moving'', ''Medium Moving'', ''Slow Moving'', ''Dead Stock''}"
  using assms by (auto simp: movement_row_of_def Let_def expiry_matches_def movement_status_def split: option.split)

lemma product_of_key_exists: "k \<in> movement_key_of ` set sales \<Longrightarrow> \<exists>p. product_of_key sales k = Some p"
proof -
  assume "k \<in> movement_key_of ` set sales"
  then have "find (\<lambda>sp. movement_key_of sp = k) (rev sales) \<noteq> None" by (auto simp: find_None_iff)
  then show ?thesis by (auto simp: product_of_key_def)
qed

lemma map_filter_sum:
  fixes n :: "'b \<Rightarrow> nat"
  assumes "\<And>x. x \<in> set xs \<Longrightarrow> \<exists>y. f x = Some y \<and> n y = m x \<and> y \<in> Q"
  shows "(\<Sum>y\<leftarrow>List.map_filter f xs. n y) = (\<Sum>x\<leftarrow>xs. m x) \<and> set (List.map_filter f xs) \<subseteq> Q"
  using assms
proof (induction xs)
  case (Cons x xs)
  obtain y where "f x = Some y" "n y = m x" "y \<in> Q" using Cons.prems by fastforce
  then show ?case using Cons by (simp add: List.map_filter_simps)
qed (simp add: List.map_filter_simps)

lemma four_classes:
  assumes "\<forall>r \<in> set rows. mrw_status r \<in> {''Fast Moving'', ''Medium Moving'', ''Slow Moving'', ''Dead Stock''}"
  shows "count_rows (\<lambda>r. mrw_status r = ''Fast Moving'') rows + count_rows (\<lambda>r. mrw_status r = ''Medium Moving'') rows +
    count_rows (\<lambda>r. mrw_status r = ''Slow Moving'') rows + count_rows (\<lambda>r. mrw_status r = ''Dead Stock'') rows = length rows"
  using assms by (induction rows) (auto simp: count_rows_def)

text \<open>
  C25. The movement report counts every unit once: without a filter on class or expiry, its
  stock is the number of active stock serials the other filters admit, its sales are the sale
  transactions of the window they admit, whatever way the set of keys is walked, and the four
  classes divide the rows.
\<close>

theorem movement_counts_once:
  assumes "stock_movement_rows walk c f as_of d = Inr (rows, sm)" "\<forall>ks. mset (walk ks) = mset ks"
    "mvf_movement f = []" "mvf_expiry f = []"
  shows "msm_stock sm = length (counted_stock d f as_of) \<and>
    msm_sold sm = length (counted_sales d f (msm_start sm) (msm_end sm)) \<and>
    msm_fast sm + msm_medium sm + msm_slow sm + msm_dead sm = length rows"
proof -
  obtain s e days where w: "analysis_window c f as_of = Inr (s, e, days)"
    using assms(1) by (auto simp: stock_movement_rows_def split: sum.splits)
  define stock sales where "stock = counted_stock d f as_of" and "sales = counted_sales d f s e"
  define groups sold where "groups = group_all movement_key_of new_group add_to_group stock"
    and "sold = counter (map movement_key_of sales)"
  define ks where "ks = walk (remdups (map fst groups @ map fst sold))"
  define row where "row k = (case (case map_of groups k of Some g \<Rightarrow> Some (mvg_product g) | None \<Rightarrow> product_of_key sales k) of
      None \<Rightarrow> None | Some p \<Rightarrow> movement_row_of c f as_of days k p (map_of groups k) (count_of k sold))" for k
  let ?rows = "sort_key movement_order (List.map_filter row ks)"
  have "stock_movement_rows walk c f as_of d = Inr (?rows, movement_summary_of s e days ?rows)"
    using w unfolding row_def ks_def groups_def sold_def stock_def sales_def by (simp add: stock_movement_rows_def Let_def)
  then have rows: "rows = ?rows" and sm: "sm = movement_summary_of s e days rows" using assms(1) by simp_all
  have "mset ks = mset (remdups (map fst groups @ map fst sold))" using assms(2) by (simp add: ks_def)
  then have k: "distinct ks" "set ks = fst ` set groups \<union> fst ` set sold"
    by (metis distinct_remdups mset_eq_imp_distinct_iff, metis list.set_map mset_eq_setD set_append set_remdups)
  have keys: "fst ` set groups = movement_key_of ` set stock" "fst ` set sold = movement_key_of ` set sales"
    by (simp_all add: groups_def sold_def group_keys counter_keys)
  let ?Q = "{r. mrw_status r \<in> {''Fast Moving'', ''Medium Moving'', ''Slow Moving'', ''Dead Stock''}}"
  have one: "\<exists>r. row x = Some r \<and> mrw_sold r = length (filter (\<lambda>sp. movement_key_of sp = x) sales) \<and>
      mrw_stock r = length (filter (\<lambda>sp. movement_key_of sp = x) stock) \<and> r \<in> ?Q" if "x \<in> set ks" for x
  proof -
    have "\<exists>p. (case map_of groups x of Some g \<Rightarrow> Some (mvg_product g) | None \<Rightarrow> product_of_key sales x) = Some p"
    proof (cases "map_of groups x")
      case None
      then have "x \<in> movement_key_of ` set sales" using that k(2) keys(2) by (auto simp: map_of_eq_None_iff)
      then show ?thesis using None product_of_key_exists by simp
    qed simp
    then obtain p where "row x = movement_row_of c f as_of days x p (map_of groups x) (count_of x sold)"
      by (auto simp: row_def)
    then show ?thesis
      using row_of_group [OF assms(3,4), of c as_of days x p "map_of groups x" "count_of x sold"] group_stock [of stock x]
      by (auto simp: sold_def groups_def count_of_counter filter_map comp_def)
  qed
  have "(\<Sum>r\<leftarrow>List.map_filter row ks. mrw_stock r) = (\<Sum>x\<leftarrow>ks. length (filter (\<lambda>sp. movement_key_of sp = x) stock)) \<and>
      set (List.map_filter row ks) \<subseteq> ?Q"
    by (rule map_filter_sum) (use one in blast)
  moreover have "(\<Sum>r\<leftarrow>List.map_filter row ks. mrw_sold r) = (\<Sum>x\<leftarrow>ks. length (filter (\<lambda>sp. movement_key_of sp = x) sales)) \<and>
      set (List.map_filter row ks) \<subseteq> ?Q"
    by (rule map_filter_sum) (use one in blast)
  moreover have "movement_key_of ` set stock \<subseteq> set ks" "movement_key_of ` set sales \<subseteq> set ks" using k(2) keys by auto
  ultimately have "(\<Sum>r\<leftarrow>rows. mrw_stock r) = length stock" "(\<Sum>r\<leftarrow>rows. mrw_sold r) = length sales"
    and q: "set rows \<subseteq> ?Q"
    using filter_key_partition [OF k(1)] by (simp_all add: rows sum_list_sort_key_nat)
  then show ?thesis
    using four_classes [of rows] q by (auto simp: sm movement_summary_of_def Let_def stock_def sales_def)
qed

end
