(* ===== verification/Xml.thy ===== *)
theory Xml
  imports Prelude
begin

text \<open>
  The part of \<open>xml.etree.ElementTree\<close> the Tally exchange builds its requests with:
  elements with attributes, one text and children, and their serialisation
  (\<open>ET.tostring(root, encoding="unicode")\<close>).  \<open>xml_unescape\<close> is how an XML reader
  takes a text back.
\<close>

datatype xml = Elem (elem_tag: string) (elem_attrs: "(string \<times> string) list") (elem_text: string) (elem_children: "xml list")

definition xml_leaf :: "string \<Rightarrow> string \<Rightarrow> xml" where
  "xml_leaf tag t = Elem tag [] t []"

definition xml_node :: "string \<Rightarrow> xml list \<Rightarrow> xml" where
  "xml_node tag xs = Elem tag [] [] xs"

definition escape_text_char :: "char \<Rightarrow> string" where
  "escape_text_char c =
    (if c = CHR ''&'' then ''&amp;'' else if c = CHR ''<'' then ''&lt;'' else if c = CHR ''>'' then ''&gt;'' else [c])"

definition escape_attr_char :: "char \<Rightarrow> string" where
  "escape_attr_char c =
    (if c = CHR 0x22 then ''&quot;'' else if c = CHR 0x0D then ''&#13;'' else if c = CHR 0x0A then ''&#10;''
     else if c = CHR 0x09 then ''&#09;'' else escape_text_char c)"

definition escape_text :: "string \<Rightarrow> string" where
  "escape_text s = concat (map escape_text_char s)"

definition escape_attr :: "string \<Rightarrow> string" where
  "escape_attr s = concat (map escape_attr_char s)"

definition attr_string :: "string \<times> string \<Rightarrow> string" where
  "attr_string kv = '' '' @ fst kv @ ''='' @ [CHR 0x22] @ escape_attr (snd kv) @ [CHR 0x22]"

fun xml_string :: "xml \<Rightarrow> string" where
  "xml_string (Elem tag attrs t cs) =
    ''<'' @ tag @ concat (map attr_string attrs) @
    (if t = [] \<and> cs = [] then '' />''
     else ''>'' @ escape_text t @ concat (map xml_string cs) @ ''</'' @ tag @ ''>'')"

section \<open>Reading a text back\<close>

definition xml_entities :: "(string \<times> char) list" where
  "xml_entities = [(''amp;'', CHR ''&''), (''lt;'', CHR ''<''), (''gt;'', CHR ''>''), (''quot;'', CHR 0x22),
     (''#13;'', CHR 0x0D), (''#10;'', CHR 0x0A), (''#09;'', CHR 0x09)]"

fun xml_unescape_from :: "nat \<Rightarrow> string \<Rightarrow> string" where
  "xml_unescape_from n [] = []"
| "xml_unescape_from (Suc n) (c # cs) = xml_unescape_from n cs"
| "xml_unescape_from 0 (c # cs) =
    (if c = CHR ''&'' then
       (case find (\<lambda>(e, x). starts_with e cs) xml_entities of
          Some (e, x) \<Rightarrow> x # xml_unescape_from (length e) cs
        | None \<Rightarrow> c # xml_unescape_from 0 cs)
     else c # xml_unescape_from 0 cs)"

definition xml_unescape :: "string \<Rightarrow> string" where
  "xml_unescape s = xml_unescape_from 0 s"

lemma xml_unescape_skip: "xml_unescape_from (length s) (s @ t) = xml_unescape_from 0 t"
  by (induction s) (auto intro: xml_unescape_from.cases)

lemma xml_unescape_char:
  "xml_unescape_from 0 (escape_text_char c @ s) = c # xml_unescape_from 0 s"
  "xml_unescape_from 0 (escape_attr_char c @ s) = c # xml_unescape_from 0 s"
  by (simp_all add: escape_text_char_def escape_attr_char_def xml_entities_def starts_with_def numeral_eq_Suc)

lemma xml_unescape_escape [simp]:
  "xml_unescape (escape_text s) = s" "xml_unescape (escape_attr s) = s"
proof -
  have "xml_unescape_from 0 (concat (map escape_text_char s)) = s" for s
    by (induction s) (simp_all add: xml_unescape_char)
  then show "xml_unescape (escape_text s) = s" by (simp add: xml_unescape_def escape_text_def)
  have "xml_unescape_from 0 (concat (map escape_attr_char s)) = s" for s
    by (induction s) (simp_all add: xml_unescape_char)
  then show "xml_unescape (escape_attr s) = s" by (simp add: xml_unescape_def escape_attr_def)
qed

lemma escape_text_no_markup: "CHR ''<'' \<notin> set (escape_text s)" "CHR ''>'' \<notin> set (escape_text s)"
  by (auto simp: escape_text_def escape_text_char_def split: if_splits)

lemma escape_attr_no_markup: "CHR 0x22 \<notin> set (escape_attr s)" "CHR ''<'' \<notin> set (escape_attr s)"
  by (auto simp: escape_attr_def escape_attr_char_def escape_text_char_def split: if_splits)

end
