(* ===== verification/Tally.thy ===== *)
theory Tally
  imports Voucher Configuration ReportFormat Xml
begin

text \<open>
  Posting vouchers to Tally, \<open>app/services/tally.py\<close> and the batch queue of
  \<open>app/services/sync_worker.py\<close>.  \<open>uuid5\<close> stands for \<open>str(uuid5(NAMESPACE_URL, name))\<close>.
  What Tally answers is what the XML reader makes of it: the tags of the document in order,
  with their texts.
\<close>

datatype tally_failure =
    TallySyncError string bool "string option" "string option"
  | Escapes exc

abbreviation refused :: "string \<Rightarrow> tally_failure" where
  "refused m \<equiv> TallySyncError m False None None"

definition tally_xml_supported :: "batch_type list" where
  "tally_xml_supported = [B_PURCHASE, B_RECEIVE, B_SALE, B_SALES_RETURN]"

definition stripped :: "settings_map \<Rightarrow> string \<Rightarrow> string" where
  "stripped st k = py_strip (text_of (st k))"

definition or_else :: "string \<Rightarrow> string \<Rightarrow> string" where
  "or_else s t = (if s = [] then t else s)"

definition missing_tally_settings :: "settings_map \<Rightarrow> string list" where
  "missing_tally_settings st =
     (if stripped st ''company_name'' = [] then [''company name''] else []) @
     (if stripped st ''round_off_ledger_name'' = [] then [''round off ledger''] else [])"

definition sales_mappings :: "settings_map \<Rightarrow> exc + gst_mappings" where
  "sales_mappings st = parse_sales_gst_ledger_mappings (st ''sales_gst_ledger_mappings'')"

definition require_tally_settings :: "settings_map \<Rightarrow> tally_failure + gst_mappings" where
  "require_tally_settings st =
    (if missing_tally_settings st \<noteq> [] then
       Inl (refused (''Complete Tally settings before generating XML: '' @ py_join '', '' (missing_tally_settings st)))
     else (case sales_mappings st of Inl e \<Rightarrow> Inl (refused (exc_text e)) | Inr m \<Rightarrow> Inr m))"

definition tally_voucher_type :: "settings_map \<Rightarrow> batch_type \<Rightarrow> string" where
  "tally_voucher_type st t =
    (if t = B_SALE then or_else (stripped st ''sales_voucher_type'') ''Sales''
     else if t = B_SALES_RETURN then or_else (stripped st ''sales_return_voucher_type'') ''Credit Note''
     else or_else (stripped st ''purchase_voucher_type'') ''Purchase'')"

text \<open>\<open>str(Decimal.quantize(0.01))\<close>.\<close>

definition money_text :: "rat \<Rightarrow> string" where
  "money_text x =
    (let n = round_half_up (x * 100); k = nat \<bar>n\<bar>
     in (if n < 0 then ''-'' else []) @ nat_str (k div 100) @ ''.'' @ zero_pad 2 (k mod 100))"

definition line_key :: "voucher_line \<Rightarrow> exc + string" where
  "line_key l = gst_rate_key (vln_gst_rate l) (money_text (vln_gst_rate l))"

definition add_missing :: "gst_mappings \<Rightarrow> voucher_line \<Rightarrow> string list \<Rightarrow> exc + string list" where
  "add_missing m l missing =
    (case line_key l of Inl e \<Rightarrow> Inl e
     | Inr key \<Rightarrow> Inr (if key \<in> fst ` set m \<or> key \<in> set missing then missing else missing @ [key]))"

definition key_value :: "string \<Rightarrow> rat" where
  "key_value key = (case parse_decimal key of None \<Rightarrow> 0 | Some r \<Rightarrow> r)"

definition require_sales_gst_mappings :: "gst_mappings \<Rightarrow> voucher_line list \<Rightarrow> tally_failure option" where
  "require_sales_gst_mappings m ls =
    (case fold_res (add_missing m) ls [] of Inl e \<Rightarrow> Some (Escapes e)
     | Inr [] \<Rightarrow> None
     | Inr missing \<Rightarrow> Some (refused (''Add product GST ledger mappings for these GST rates before generating XML: '' @
         py_join '', '' (map (\<lambda>k. k @ ''%'') (sort_key key_value missing)) @ ''.'')))"

record purchase_ledgers =
  pul_purchase :: string
  pul_cgst :: string
  pul_sgst :: string

definition purchase_ledgers_of :: "settings_map \<Rightarrow> voucher_summary \<Rightarrow> tally_failure + purchase_ledgers" where
  "purchase_ledgers_of st sm =
    (let p = stripped st ''purchase_ledger_name''; c = stripped st ''cgst_ledger_name''; s = stripped st ''sgst_ledger_name'';
         missing = (if p = [] then [''purchase ledger''] else []) @
           (if 0 < vsm_cgst_amount sm \<and> c = [] then [''CGST ledger''] else []) @
           (if 0 < vsm_sgst_amount sm \<and> s = [] then [''SGST ledger''] else [])
     in if missing = [] then Inr \<lparr>pul_purchase = p, pul_cgst = c, pul_sgst = s\<rparr>
        else Inl (refused (''Complete purchase Tally settings before generating XML: '' @ py_join '', '' missing @ ''.'')))"

definition voucher_date :: "batch \<Rightarrow> string" where
  "voucher_date b = compact_date (day_of (ist (case bat_submitted_at b of Some t \<Rightarrow> t | None \<Rightarrow> bat_created_at b)))"

definition tally_remote_id :: "(string \<Rightarrow> string) \<Rightarrow> batch \<Rightarrow> settings_map \<Rightarrow> string" where
  "tally_remote_id uuid5 b st =
    (if bat_sync_remote_id b \<notin> {None, Some []} then text_of (bat_sync_remote_id b)
     else uuid5 (''setuora:tally:'' @ py_lower (stripped st ''company_name'') @ '':'' @ bat_number b))"

section \<open>The postings of a voucher\<close>

text \<open>
  Every amount goes with its sign as Tally reads it (credits positive, debits negative).  A
  ledger posting has a name; an item posting also carries its voucher line.
\<close>

record ledger_posting =
  lgp_name :: string
  lgp_amount :: rat
  lgp_party :: bool

record item_posting =
  itp_line :: voucher_line
  itp_amount :: rat
  itp_ledger :: string

record postings =
  pst_party :: ledger_posting
  pst_items :: "item_posting list"
  pst_taxes :: "ledger_posting list"
  pst_round :: "ledger_posting list"

definition ledger_line :: "string \<Rightarrow> rat \<Rightarrow> bool \<Rightarrow> ledger_posting" where
  "ledger_line name amount credit = \<lparr>lgp_name = name, lgp_amount = (if credit then amount else - amount), lgp_party = False\<rparr>"

record tax_totals =
  ttl_cgst :: rat
  ttl_sgst :: rat
  ttl_igst :: rat

definition add_tax :: "voucher_line \<Rightarrow> tax_totals \<Rightarrow> tax_totals" where
  "add_tax l t = \<lparr>ttl_cgst = dec_add (ttl_cgst t) (vln_cgst_amount l), ttl_sgst = dec_add (ttl_sgst t) (vln_sgst_amount l),
     ttl_igst = dec_add (ttl_igst t) (vln_igst_amount l)\<rparr>"

definition no_tax :: tax_totals where
  "no_tax = \<lparr>ttl_cgst = 0, ttl_sgst = 0, ttl_igst = 0\<rparr>"

definition add_line_tax :: "voucher_line \<Rightarrow> (string \<times> tax_totals) list \<Rightarrow> exc + (string \<times> tax_totals) list" where
  "add_line_tax l acc =
    (case line_key l of Inl e \<Rightarrow> Inl e
     | Inr key \<Rightarrow> Inr (dict_put key (add_tax l (case map_of acc key of Some t \<Rightarrow> t | None \<Rightarrow> no_tax)) acc))"

definition rate_postings :: "gst_mappings \<Rightarrow> bool \<Rightarrow> string \<times> tax_totals \<Rightarrow> tally_failure + ledger_posting list" where
  "rate_postings m sale kt =
    (case kt of (key, t) \<Rightarrow>
     (case map_of m key of
        None \<Rightarrow> Inl (refused (''Add a product GST ledger mapping for '' @ key @ ''% before generating Tally XML.''))
      | Some g \<Rightarrow>
          if 0 < ttl_igst t \<and> gl_igst g = [] then
            Inl (refused (''Add an IGST ledger for the '' @ key @ ''% product GST mapping.''))
          else Inr (
            (if 0 < ttl_cgst t then [ledger_line (gl_cgst g) (ttl_cgst t) sale] else []) @
            (if 0 < ttl_sgst t then [ledger_line (gl_sgst g) (ttl_sgst t) sale] else []) @
            (if 0 < ttl_igst t then [ledger_line (gl_igst g) (ttl_igst t) sale] else []))))"

definition append_rate :: "gst_mappings \<Rightarrow> bool \<Rightarrow> string \<times> tax_totals \<Rightarrow> ledger_posting list \<Rightarrow> tally_failure + ledger_posting list" where
  "append_rate m sale kt acc = (case rate_postings m sale kt of Inl e \<Rightarrow> Inl e | Inr ps \<Rightarrow> Inr (acc @ ps))"

definition sales_tax_postings :: "gst_mappings \<Rightarrow> bool \<Rightarrow> voucher_line list \<Rightarrow> tally_failure + ledger_posting list" where
  "sales_tax_postings m sale ls =
    (case fold_res add_line_tax ls [] of Inl e \<Rightarrow> Inl (Escapes e)
     | Inr totals \<Rightarrow> fold_res (append_rate m sale) totals [])"

definition purchase_tax_postings :: "purchase_ledgers \<Rightarrow> voucher_summary \<Rightarrow> ledger_posting list" where
  "purchase_tax_postings p sm =
     (if 0 < vsm_cgst_amount sm then [ledger_line (pul_cgst p) (vsm_cgst_amount sm) False] else []) @
     (if 0 < vsm_sgst_amount sm then [ledger_line (pul_sgst p) (vsm_sgst_amount sm) False] else [])"

definition item_posting_of :: "bool \<Rightarrow> string \<Rightarrow> voucher_line \<Rightarrow> item_posting" where
  "item_posting_of sale ledger l =
     \<lparr>itp_line = l, itp_amount = (if sale then vln_taxable_value l else - vln_taxable_value l), itp_ledger = ledger\<rparr>"

definition sales_item :: "gst_mappings \<Rightarrow> bool \<Rightarrow> voucher_line \<Rightarrow> item_posting list \<Rightarrow> tally_failure + item_posting list" where
  "sales_item m sale l acc =
    (case line_key l of Inl e \<Rightarrow> Inl (Escapes e)
     | Inr key \<Rightarrow> (case map_of m key of
         None \<Rightarrow> Inl (refused (''Add a product GST ledger mapping for '' @ key @ ''% before generating Tally XML.''))
       | Some g \<Rightarrow> Inr (acc @ [item_posting_of sale (gl_sales g) l])))"

definition item_and_tax_postings ::
  "settings_map \<Rightarrow> gst_mappings \<Rightarrow> batch_type \<Rightarrow> voucher_summary \<Rightarrow> tally_failure + item_posting list \<times> ledger_posting list"
where
  "item_and_tax_postings st m t sm =
    (let sale = (t = B_SALE); ls = vsm_lines sm in
     if t \<in> {B_SALE, B_SALES_RETURN} then
       (case require_sales_gst_mappings m ls of Some e \<Rightarrow> Inl e
        | None \<Rightarrow>
       (case fold_res (sales_item m sale) ls [] of Inl e \<Rightarrow> Inl e
        | Inr items \<Rightarrow>
       (case sales_tax_postings m sale ls of Inl e \<Rightarrow> Inl e | Inr taxes \<Rightarrow> Inr (items, taxes))))
     else
       (case purchase_ledgers_of st sm of Inl e \<Rightarrow> Inl e
        | Inr p \<Rightarrow> Inr (map (item_posting_of False (pul_purchase p)) ls, purchase_tax_postings p sm)))"

definition voucher_postings :: "settings_map \<Rightarrow> db \<Rightarrow> batch \<Rightarrow> tally_failure + postings" where
  "voucher_postings st d b =
    (case require_tally_settings st of Inl e \<Rightarrow> Inl e
     | Inr m \<Rightarrow>
       let t = bat_type b; sale = (t = B_SALE); party = py_strip (text_of (bat_party_name b))
       in if t \<notin> set tally_xml_supported then
            Inl (refused (''Tally XML is not configured for '' @ batch_type_value t))
          else if party = [] then
            Inl (refused ''Add a customer or supplier to this batch before generating Tally XML.'')
          else
            let sm = calculate_voucher_summary d b;
                final = vsm_final_value sm; round_off = vsm_round_off sm
            in (case item_and_tax_postings st m t sm of Inl e \<Rightarrow> Inl e
               | Inr (items, taxes) \<Rightarrow> Inr
                  \<lparr>pst_party = \<lparr>lgp_name = party, lgp_amount = (if sale then - final else final), lgp_party = True\<rparr>,
                   pst_items = items, pst_taxes = taxes,
                   pst_round = (if round_off = 0 then []
                     else [\<lparr>lgp_name = stripped st ''round_off_ledger_name'',
                        lgp_amount = (if sale then round_off else - round_off), lgp_party = False\<rparr>])\<rparr>))"

section \<open>The request\<close>

definition yes_no :: "bool \<Rightarrow> string" where
  "yes_no x = (if x then ''Yes'' else ''No'')"

definition ledger_xml :: "ledger_posting \<Rightarrow> xml" where
  "ledger_xml p =
    (let debit = (lgp_amount p < 0) in
     xml_node ''LEDGERENTRIES.LIST''
       ([xml_leaf ''LEDGERNAME'' (lgp_name p), xml_leaf ''ISDEEMEDPOSITIVE'' (yes_no debit)] @
        (if lgp_party p then [xml_leaf ''ISPARTYLEDGER'' ''Yes'', xml_leaf ''ISLASTDEEMEDPOSITIVE'' (yes_no debit)] else []) @
        [xml_leaf ''AMOUNT'' (money_text (lgp_amount p))]))"

definition quantity_text :: "voucher_line \<Rightarrow> string" where
  "quantity_text l = nat_str (vln_quantity l) @ '' '' @ prd_unit (vln_product l)"

definition item_xml :: "string \<Rightarrow> bool \<Rightarrow> item_posting \<Rightarrow> xml" where
  "item_xml store sale p =
    (let l = itp_line p; amount = money_text (itp_amount p)
     in xml_node ''ALLINVENTORYENTRIES.LIST''
       ([xml_leaf ''STOCKITEMNAME'' (prd_tally_name (vln_product l)), xml_leaf ''ISDEEMEDPOSITIVE'' (yes_no (\<not> sale)),
         xml_leaf ''RATE'' (money_text (vln_rate l) @ ''/'' @ prd_unit (vln_product l))] @
        (if sale \<and> 0 < vln_discount_rate l then [xml_leaf ''DISCOUNT'' (money_text (vln_discount_rate l))] else []) @
        [xml_leaf ''AMOUNT'' amount, xml_leaf ''ACTUALQTY'' (quantity_text l), xml_leaf ''BILLEDQTY'' (quantity_text l),
         xml_node ''BATCHALLOCATIONS.LIST''
           [xml_leaf ''GODOWNNAME'' store, xml_leaf ''BATCHNAME'' ''Primary Batch'', xml_leaf ''DESTINATIONGODOWNNAME'' store,
            xml_leaf ''AMOUNT'' amount, xml_leaf ''ACTUALQTY'' (quantity_text l), xml_leaf ''BILLEDQTY'' (quantity_text l)],
         xml_node ''ACCOUNTINGALLOCATIONS.LIST''
           [xml_leaf ''LEDGERNAME'' (itp_ledger p), xml_leaf ''ISDEEMEDPOSITIVE'' (yes_no (\<not> sale)), xml_leaf ''AMOUNT'' amount]]))"

definition party_xml :: "batch \<Rightarrow> string \<Rightarrow> xml list" where
  "party_xml b party =
     (if is_sales_side b then
        [xml_leaf ''BASICBASEPARTYNAME'' party,
         xml_leaf ''BASICBUYERNAME'' (py_strip (or_else (text_of (bat_gst_name b)) party)),
         xml_leaf ''GSTREGISTRATIONTYPE''
           (py_strip (or_else (text_of (bat_gst_registration b)) (gst_registration_value GR_UNREGISTERED_CONSUMER)))] @
        (if text_of (bat_gstin b) = [] then [] else [xml_leaf ''PARTYGSTIN'' (text_of (bat_gstin b))])
      else []) @
     (if bat_type b = B_SALE \<and> text_of (bat_party_state b) \<noteq> [] then
        [xml_leaf ''STATENAME'' (text_of (bat_party_state b)), xml_leaf ''PLACEOFSUPPLY'' (text_of (bat_party_state b)),
         xml_leaf ''COUNTRYOFRESIDENCE'' ''India'']
      else [])"

definition voucher_xml :: "(string \<Rightarrow> string) \<Rightarrow> settings_map \<Rightarrow> batch \<Rightarrow> postings \<Rightarrow> xml" where
  "voucher_xml uuid5 st b p =
    (let sale = (bat_type b = B_SALE); vtype = tally_voucher_type st (bat_type b);
         view = (if is_sales_side b then ''Invoice Voucher View'' else ''Accounting Voucher View'');
         party = lgp_name (pst_party p); store = or_else (stripped st ''tally_stock_location'') ''Main Location''
     in Elem ''VOUCHER'' [(''REMOTEID'', tally_remote_id uuid5 b st), (''VCHTYPE'', vtype), (''ACTION'', ''Create''), (''OBJVIEW'', view)] []
       ([xml_leaf ''DATE'' (voucher_date b), xml_leaf ''VOUCHERTYPENAME'' vtype,
         xml_leaf ''VOUCHERNUMBER'' (nat_str (batch_voucher_number b None)), xml_leaf ''PARTYLEDGERNAME'' party] @
        party_xml b party @
        [xml_leaf ''PERSISTEDVIEW'' view, xml_leaf ''ISINVOICE'' (yes_no (is_sales_side b)),
         xml_leaf ''NARRATION'' (''Setuora barcode batch '' @ bat_number b)] @
        [ledger_xml (pst_party p)] @ map (item_xml store sale) (pst_items p) @
        map ledger_xml (pst_taxes p) @ map ledger_xml (pst_round p)))"

definition build_voucher_xml :: "(string \<Rightarrow> string) \<Rightarrow> settings_map \<Rightarrow> db \<Rightarrow> batch \<Rightarrow> tally_failure + string" where
  "build_voucher_xml uuid5 st d b =
    (case voucher_postings st d b of Inl e \<Rightarrow> Inl e
     | Inr p \<Rightarrow> Inr (xml_string (xml_node ''ENVELOPE''
         [xml_node ''HEADER'' [xml_leaf ''TALLYREQUEST'' ''Import Data''],
          xml_node ''BODY'' [xml_node ''IMPORTDATA''
            [xml_node ''REQUESTDESC'' [xml_leaf ''REPORTNAME'' ''Vouchers'',
               xml_node ''STATICVARIABLES'' [xml_leaf ''SVCURRENTCOMPANY'' (text_of (st ''company_name''))]],
             xml_node ''REQUESTDATA'' [Elem ''TALLYMESSAGE'' [(''xmlns:UDF'', ''TallyUDF'')] []
               [voucher_xml uuid5 st b p]]]]])))"

section \<open>The answer\<close>

text \<open>
  What sending a request comes to: a \<open>URLError\<close> or another \<open>OSError\<close>; an exception
  the program does not catch there (an \<open>HTTPException\<close> of a reply that breaks off, say), or the
  end of the process, after which nothing more is stored either; a body that is no XML; a document,
  as the tags and texts of its nodes.
\<close>

datatype tally_answer =
    Unreachable
  | Interrupted exc
  | Unreadable string
  | Document string "(string \<times> string option) list"

definition ends_with :: "string \<Rightarrow> string \<Rightarrow> bool" where
  "ends_with suf s \<longleftrightarrow> starts_with (rev suf) (rev s)"

definition first_node :: "string \<Rightarrow> (string \<times> string option) list \<Rightarrow> string option" where
  "first_node suf nodes = (case find (\<lambda>(t, x). ends_with suf (py_upper t)) nodes of Some (t, x) \<Rightarrow> x | None \<Rightarrow> None)"

definition line_errors :: "(string \<times> string option) list \<Rightarrow> string list" where
  "line_errors nodes = filter (\<lambda>s. s \<noteq> []) (List.map_filter snd (filter (\<lambda>(t, x). ends_with ''LINEERROR'' (py_upper t)) nodes))"

text \<open>\<open>int((value or "0").strip())\<close>, zero when it raises; digits may be grouped by single underscores.\<close>

definition answer_int :: "string option \<Rightarrow> int" where
  "answer_int v =
    (let (sg, body) = strip_sign (py_strip (or_else (text_of v) ''0'')); parts = py_split_on (CHR ''_'') body
     in if list_all (\<lambda>p. p \<noteq> [] \<and> list_all is_digit p) parts then sg * int (parse_nat (concat parts)) else 0)"

definition count_text :: "string option \<Rightarrow> string" where
  "count_text v = or_else (text_of v) ''0''"

definition judge_answer :: "string \<Rightarrow> tally_answer \<Rightarrow> tally_failure + string \<times> string" where
  "judge_answer xml answer =
    (case answer of
       Unreachable \<Rightarrow> Inl (TallySyncError ''Tally connection failed'' True (Some xml) None)
     | Interrupted e \<Rightarrow> Inl (Escapes e)
     | Unreadable body \<Rightarrow> Inl (TallySyncError ''Tally returned unreadable XML'' False (Some xml) (Some body))
     | Document body nodes \<Rightarrow>
         let created = first_node ''CREATED'' nodes; altered = first_node ''ALTERED'' nodes;
             counts = ''CREATED='' @ count_text created
         in if line_errors nodes \<noteq> [] then
              Inl (TallySyncError (py_join ''; '' (line_errors nodes)) False (Some xml) (Some body))
            else if answer_int created + answer_int altered < 1 then
              Inl (TallySyncError (''Tally created/altered nothing ('' @ counts @ '', ALTERED='' @ count_text altered @
                (case first_node ''EXCEPTIONS'' nodes of None \<Rightarrow> '')'' | Some x \<Rightarrow> '', EXCEPTIONS='' @ x @ '')'')) False (Some xml) (Some body))
            else Inr (body, counts @ ''; ALTERED='' @ count_text altered))"

definition post_to_tally :: "string \<Rightarrow> settings_map \<Rightarrow> tally_answer \<Rightarrow> tally_failure + string \<times> string" where
  "post_to_tally xml st answer =
    (if text_of (st ''tally_host'') = [] \<or> text_of (st ''tally_port'') = [] then
       Inl (TallySyncError ''Tally host/port is not configured'' True (Some xml) None)
     else judge_answer xml answer)"

section \<open>Synchronising one batch\<close>

text \<open>
  The world of one synchronisation: the time it starts and the time the answer is stored,
  what Tally answers, and what other sessions commit between the reading of the batch and
  its claim.  The outcome is the database, the request that left for Tally, if one did, and
  the exception that escaped: the database is then what was committed before it, which after
  the claim of the batch is the claim with its request and the new attempt.
\<close>

record sync_world =
  syw_now :: moment
  syw_finished :: moment
  syw_answer :: tally_answer
  syw_others :: "db \<Rightarrow> db"

record sync_outcome =
  sou_db :: db
  sou_posted :: "string option"
  sou_escaped :: "exc option"

abbreviation settled :: "db \<Rightarrow> sync_outcome" where
  "settled d \<equiv> \<lparr>sou_db = d, sou_posted = None, sou_escaped = None\<rparr>"

definition sync_lease :: moment where
  "sync_lease = minutes 10"

definition lease_running :: "batch \<Rightarrow> moment \<Rightarrow> bool" where
  "lease_running b now \<longleftrightarrow> bat_status b = BS_SYNCING \<and>
     (case bat_sync_started_at b of None \<Rightarrow> False | Some t \<Rightarrow> now - sync_lease < t)"

definition add_attempt :: "nat \<Rightarrow> batch_status \<Rightarrow> string option \<Rightarrow> string option \<Rightarrow> string option \<Rightarrow> moment \<Rightarrow> db \<Rightarrow> db" where
  "add_attempt bid status request response error now d = d\<lparr>sync_attempts := sync_attempts d @
     [\<lparr>att_id = next_id att_id (sync_attempts d), att_batch_id = bid, att_status = status, att_request_xml = request,
       att_response_xml = response, att_error = error, att_created_at = now\<rparr>]\<rparr>"

definition count_retry :: "moment \<Rightarrow> batch \<Rightarrow> batch" where
  "count_retry now b =
    (if bat_status b \<in> {BS_PENDING_SYNC, BS_FAILED, BS_SYNCING}
     then b\<lparr>bat_retry_count := bat_retry_count b + 1, bat_last_retry_at := Some now\<rparr> else b)"

text \<open>The batch is written back with the columns the session changed.\<close>

definition store_progress :: "batch \<Rightarrow> (batch \<Rightarrow> batch) \<Rightarrow> db \<Rightarrow> db" where
  "store_progress b f d = set_batch (bat_id b) (\<lambda>r. f (r\<lparr>bat_retry_count := bat_retry_count b,
     bat_last_retry_at := bat_last_retry_at b, bat_sync_remote_id := bat_sync_remote_id b\<rparr>)) d"

definition park :: "batch \<Rightarrow> string option \<Rightarrow> string \<Rightarrow> moment \<Rightarrow> db \<Rightarrow> db" where
  "park b xml message now d =
     add_attempt (bat_id b) BS_PENDING_SYNC xml None (Some message) now
      (store_progress b (\<lambda>r. r\<lparr>bat_status := BS_PENDING_SYNC, bat_last_error := Some message,
         bat_sync_request_xml := (if xml = None then bat_sync_request_xml r else xml), bat_last_retry_at := Some now\<rparr>) d)"

definition claimable :: "batch \<Rightarrow> batch \<Rightarrow> bool" where
  "claimable b r \<longleftrightarrow> bat_id r = bat_id b \<and> bat_status r = bat_status b \<and>
     (bat_status b = BS_SYNCING \<longrightarrow> bat_sync_started_at r = bat_sync_started_at b)"

definition start_sync :: "batch \<Rightarrow> string \<Rightarrow> moment \<Rightarrow> batch \<Rightarrow> batch" where
  "start_sync b xml now r = r\<lparr>bat_status := BS_SYNCING, bat_sync_remote_id := bat_sync_remote_id b,
     bat_sync_request_xml := Some xml, bat_sync_started_at := Some now, bat_retry_count := bat_retry_count b,
     bat_last_retry_at := bat_last_retry_at b, bat_last_error := None\<rparr>"

definition claim_batch :: "batch \<Rightarrow> string \<Rightarrow> moment \<Rightarrow> db \<Rightarrow> nat \<times> db" where
  "claim_batch b xml now d =
     (count_rows (claimable b) (batches d), d\<lparr>batches := upd_rows (claimable b) (start_sync b xml now) (batches d)\<rparr>)"

definition set_attempt :: "nat \<Rightarrow> (sync_attempt \<Rightarrow> sync_attempt) \<Rightarrow> db \<Rightarrow> db" where
  "set_attempt i f d = d\<lparr>sync_attempts := upd_rows (\<lambda>a. att_id a = i) f (sync_attempts d)\<rparr>"

definition store_answer :: "batch \<Rightarrow> nat \<Rightarrow> string \<Rightarrow> sync_world \<Rightarrow> tally_failure + string \<times> string \<Rightarrow> db \<Rightarrow> db" where
  "store_answer b aid xml w r d =
    (case r of
       Inl (TallySyncError m retryable req resp) \<Rightarrow>
         let st = (if retryable then BS_PENDING_SYNC else BS_FAILED)
         in set_attempt aid (\<lambda>a. a\<lparr>att_status := st, att_request_xml := Some (text_of (if req = None then Some xml else req)),
              att_response_xml := resp, att_error := Some m\<rparr>)
             (set_batch (bat_id b) (\<lambda>r. r\<lparr>bat_status := st, bat_last_error := Some m, bat_last_retry_at := Some (syw_now w),
                bat_sync_started_at := None\<rparr>) d)
     | Inl (Escapes e) \<Rightarrow> d
     | Inr (body, reference) \<Rightarrow>
         let b' = b\<lparr>bat_tally_reference := Some reference\<rparr>
         in set_attempt aid (\<lambda>a. a\<lparr>att_status := BS_SYNCED, att_request_xml := Some xml, att_response_xml := Some body\<rparr>)
             (update_batch_transaction_references b'
               (set_batch (bat_id b) (\<lambda>r. r\<lparr>bat_status := BS_SYNCED, bat_tally_reference := Some reference,
                  bat_last_error := None, bat_synced_at := Some (syw_finished w), bat_sync_started_at := None\<rparr>) d)))"

definition request_for :: "(string \<Rightarrow> string) \<Rightarrow> settings_map \<Rightarrow> db \<Rightarrow> batch \<Rightarrow> tally_failure + string" where
  "request_for uuid5 st d b =
    (if bat_status b \<noteq> BS_FAILED \<and> text_of (bat_sync_request_xml b) \<noteq> [] then Inr (text_of (bat_sync_request_xml b))
     else build_voucher_xml uuid5 st d b)"

definition send_batch :: "settings_map \<Rightarrow> batch \<Rightarrow> string \<Rightarrow> sync_world \<Rightarrow> db \<Rightarrow> sync_outcome" where
  "send_batch st b xml w d =
    (let (n, d1) = claim_batch b xml (syw_now w) (syw_others w d) in
     if n \<noteq> 1 then settled (syw_others w d)
     else
       let aid = next_id att_id (sync_attempts d1);
           d2 = add_attempt (bat_id b) BS_SYNCING (Some xml) None None (syw_now w) d1;
           reply = post_to_tally xml st (syw_answer w)
       in \<lparr>sou_db = store_answer b aid xml w reply d2,
           sou_posted = (if text_of (st ''tally_host'') = [] \<or> text_of (st ''tally_port'') = [] then None else Some xml),
           sou_escaped = (case reply of Inl (Escapes e) \<Rightarrow> Some e | _ \<Rightarrow> None)\<rparr>)"

definition close_batch :: "batch \<Rightarrow> moment \<Rightarrow> db \<Rightarrow> db" where
  "close_batch b now d = store_progress b (\<lambda>r. r\<lparr>bat_status := BS_CLOSED, bat_synced_at := Some now\<rparr>) d"

definition park_unsupported :: "batch \<Rightarrow> moment \<Rightarrow> db \<Rightarrow> db" where
  "park_unsupported b now d =
    (let message = ''Tally XML is not configured for '' @ batch_type_value (bat_type b)
     in add_attempt (bat_id b) BS_PENDING_SYNC None None (Some message) now
         (store_progress b (\<lambda>r. r\<lparr>bat_status := BS_PENDING_SYNC, bat_last_error := Some message\<rparr>) d))"

definition sync_voucher :: "(string \<Rightarrow> string) \<Rightarrow> settings_map \<Rightarrow> batch \<Rightarrow> sync_world \<Rightarrow> db \<Rightarrow> sync_outcome" where
  "sync_voucher uuid5 st b w d =
    (case request_for uuid5 st d b of
       Inl (Escapes e) \<Rightarrow> \<lparr>sou_db = d, sou_posted = None, sou_escaped = Some e\<rparr>
     | Inl (TallySyncError m r req resp) \<Rightarrow> settled (park b None m (syw_now w) d)
     | Inr xml \<Rightarrow>
         if \<not> is_tally_sync_enabled_for_batch d (bat_type b) then
           settled (park b (Some xml) ''Tally sync is disabled in settings'' (syw_now w) d)
         else send_batch st b xml w d)"

definition with_remote_id :: "(string \<Rightarrow> string) \<Rightarrow> settings_map \<Rightarrow> batch \<Rightarrow> batch" where
  "with_remote_id uuid5 st b = b\<lparr>bat_sync_remote_id := Some (tally_remote_id uuid5 b st)\<rparr>"

definition sync_batch_locked :: "(string \<Rightarrow> string) \<Rightarrow> batch \<Rightarrow> sync_world \<Rightarrow> db \<Rightarrow> sync_outcome" where
  "sync_batch_locked uuid5 b0 w d =
    (let now = syw_now w; b = count_retry now b0; st = get_all_settings d
     in if lease_running b0 now then settled d
        else if bat_type b \<in> {B_AUDIT, B_QR_ASSIGNMENT} then settled (close_batch b now d)
        else if bat_type b \<notin> set tally_xml_supported then settled (park_unsupported b now d)
        else sync_voucher uuid5 st (with_remote_id uuid5 st b) w d)"

definition sync_batch :: "(string \<Rightarrow> string) \<Rightarrow> batch \<Rightarrow> sync_world \<Rightarrow> db \<Rightarrow> sync_outcome" where
  "sync_batch uuid5 b w d =
    (case get_batch d (bat_id b) of None \<Rightarrow> settled d
     | Some row \<Rightarrow>
         if bat_status row \<in> {BS_SYNCED, BS_CLOSED} then settled d
         else sync_batch_locked uuid5 (if bat_status row = bat_status b then b else row) w d)"

section \<open>The queue of batches\<close>

definition queue_batch_for_sync :: "batch \<Rightarrow> db \<Rightarrow> db \<times> bool" where
  "queue_batch_for_sync b d =
    (if bat_status b \<notin> {BS_SUBMITTED, BS_PENDING_SYNC, BS_FAILED} then (d, False)
     else if bat_status b = BS_FAILED then
       (d\<lparr>batches := upd_rows (\<lambda>r. bat_id r = bat_id b \<and> bat_status r = BS_FAILED)
          (\<lambda>r. r\<lparr>bat_status := BS_PENDING_SYNC, bat_sync_request_xml := None, bat_sync_started_at := None,
             bat_last_retry_at := None\<rparr>) (batches d)\<rparr>, True)
     else if bat_status b = BS_PENDING_SYNC \<and> bat_last_retry_at b \<noteq> None then
       (d\<lparr>batches := upd_rows (\<lambda>r. bat_id r = bat_id b \<and> bat_status r = BS_PENDING_SYNC)
          (\<lambda>r. r\<lparr>bat_last_retry_at := None\<rparr>) (batches d)\<rparr>, True)
     else (d, True))"

text \<open>\<open>int(text)\<close> of the interval setting, at least half a minute; 180 seconds when it raises.\<close>

definition retry_interval :: "settings_map \<Rightarrow> moment" where
  "retry_interval st =
    (let (sg, body) = strip_sign (py_strip (text_of (st ''retry_interval_seconds''))); parts = py_split_on (CHR ''_'') body
     in if list_all (\<lambda>p. p \<noteq> [] \<and> list_all is_digit p) parts
        then seconds (max 30 (sg * int (parse_nat (concat parts)))) else seconds 180)"

definition due :: "moment \<Rightarrow> moment \<Rightarrow> batch \<Rightarrow> bool" where
  "due now interval b \<longleftrightarrow> bat_status b = BS_SUBMITTED \<or>
     (bat_status b = BS_PENDING_SYNC \<and>
       (case bat_last_retry_at b of None \<Rightarrow> True | Some t \<Rightarrow> t \<le> now - interval)) \<or>
     (bat_status b = BS_SYNCING \<and> (case bat_sync_started_at b of None \<Rightarrow> False | Some t \<Rightarrow> t < now - sync_lease))"

definition retry_rank :: "batch \<Rightarrow> bool \<times> moment \<times> moment" where
  "retry_rank b = (case bat_last_retry_at b of None \<Rightarrow> (False, 0, bat_created_at b) | Some t \<Rightarrow> (True, t, bat_created_at b))"

definition due_batches :: "moment \<Rightarrow> nat \<Rightarrow> db \<Rightarrow> batch list" where
  "due_batches now limit d =
     take limit (sort_key retry_rank (filter (\<lambda>b. due now (retry_interval (get_all_settings d)) b \<and>
       bat_type b \<in> set tally_xml_supported \<and> bat_type b \<in> set (enabled_tally_sync_batch_types d)) (batches d)))"

text \<open>The loop over the selected batches; an exception ends it, what was committed stays.\<close>

fun sync_all :: "(string \<Rightarrow> string) \<Rightarrow> (nat \<Rightarrow> sync_world) \<Rightarrow> nat \<Rightarrow> batch list \<Rightarrow> db \<Rightarrow> db \<times> exc option" where
  "sync_all uuid5 ws k [] d = (d, None)"
| "sync_all uuid5 ws k (b # bs) d =
    (let r = sync_batch uuid5 b (ws k) d
     in case sou_escaped r of Some e \<Rightarrow> (sou_db r, Some e) | None \<Rightarrow> sync_all uuid5 ws (Suc k) bs (sou_db r))"

definition retry_pending_batches :: "(string \<Rightarrow> string) \<Rightarrow> moment \<Rightarrow> (nat \<Rightarrow> sync_world) \<Rightarrow> nat \<Rightarrow> db \<Rightarrow> db \<times> exc option \<times> nat" where
  "retry_pending_batches uuid5 now ws limit d =
    (if enabled_tally_sync_batch_types d = [] then (d, None, 0)
     else let bs = due_batches now limit d; (d', e) = sync_all uuid5 ws 0 bs d in (d', e, length bs))"

end
