(* ===== verification/DateTexts.thy ===== *)
theory DateTexts
  imports PyJson CalendarFacts
begin

text \<open>
  Dates in texts and spreadsheet cells: \<open>date.fromisoformat\<close> of Python 3.11 in all its
  forms, the \<open>strptime\<close> formats of \<open>parse_optional_date\<close> in
  \<open>app/services/expiry.py\<close>, and the values a cell of a workbook can hold.
\<close>

section \<open>Cells\<close>

datatype cell = CNone | CText string | CInt int | CFloat rat | CBool bool | CDate day | CMoment moment

fun cell_true :: "cell \<Rightarrow> bool" where
  "cell_true CNone = False"
| "cell_true (CText s) = (s \<noteq> [])"
| "cell_true (CInt n) = (n \<noteq> 0)"
| "cell_true (CFloat x) = (x \<noteq> 0)"
| "cell_true (CBool b) = b"
| "cell_true (CDate n) = True"
| "cell_true (CMoment t) = True"

definition spaced_moment :: "moment \<Rightarrow> string" where
  "spaced_moment t = map (\<lambda>c. if c = CHR ''T'' then CHR '' '' else c) (take (length (iso_moment t) - 6) (iso_moment t))"

fun cell_str :: "cell \<Rightarrow> string" where
  "cell_str CNone = ''None''"
| "cell_str (CText s) = s"
| "cell_str (CInt n) = (if n < 0 then ''-'' @ nat_str (nat (- n)) else nat_str (nat n))"
| "cell_str (CFloat x) = float_repr x"
| "cell_str (CBool b) = (if b then ''True'' else ''False'')"
| "cell_str (CDate n) = iso_date n"
| "cell_str (CMoment t) = spaced_moment t"

text \<open>\<open>str(value or "")\<close>\<close>

definition cell_or_empty :: "cell \<Rightarrow> string" where
  "cell_or_empty v = (if cell_true v then cell_str v else [])"

section \<open>ISO forms\<close>

definition all_digits :: "string \<Rightarrow> bool" where
  "all_digits s \<longleftrightarrow> s \<noteq> [] \<and> list_all is_digit s"

text \<open>\<open>date(y, m, d)\<close>\<close>

definition make_date :: "nat \<Rightarrow> nat \<Rightarrow> nat \<Rightarrow> day option" where
  "make_date y m dd =
    (let n = days_from_civil (int y) (int m) (int dd)
     in if 0 < y \<and> y \<le> 9999 \<and> civil n = (int y, int m, int dd) then Some n else None)"

text \<open>The Monday of the first ISO week of a year, and the day of a week; day 0 was a Thursday.\<close>

definition first_monday :: "nat \<Rightarrow> day" where
  "first_monday y = (let j = days_from_civil (int y) 1 4 in j - (j + 3) mod 7)"

definition make_week_date :: "nat \<Rightarrow> nat \<Rightarrow> nat \<Rightarrow> day option" where
  "make_week_date y w dd =
    (let n = first_monday y + (int w - 1) * 7 + (int dd - 1)
     in if 0 < y \<and> y \<le> 9999 \<and> 1 \<le> w \<and> 1 \<le> dd \<and> dd \<le> 7 \<and>
          (w \<le> 52 \<or> (w = 53 \<and> first_monday y + 52 * 7 + 3 < days_from_civil (int y + 1) 1 1)) \<and> n \<le> date_max
        then Some n else None)"

definition week_parts :: "string \<Rightarrow> string \<Rightarrow> string \<Rightarrow> day option" where
  "week_parts y w dd =
    (if all_digits y \<and> all_digits w \<and> all_digits dd then make_week_date (parse_nat y) (parse_nat w) (parse_nat dd) else None)"

definition from_iso_format :: "string \<Rightarrow> day option" where
  "from_iso_format s =
    (let y = take 4 s; r = drop 4 s in
     if length s = 10 \<and> s ! 4 = CHR ''-'' \<and> s ! 5 \<noteq> CHR ''W'' then parse_iso_date s
     else if length s = 8 \<and> all_digits s then make_date (parse_nat y) (parse_nat (take 2 r)) (parse_nat (drop 2 r))
     else if length s = 10 \<and> take 2 r = ''-W'' \<and> s ! 8 = CHR ''-'' then week_parts y (take 2 (drop 2 r)) (drop 5 r)
     else if length s = 8 \<and> take 2 r = ''-W'' then week_parts y (drop 2 r) ''1''
     else if length s = 8 \<and> take 1 r = ''W'' then week_parts y (take 2 (drop 1 r)) (drop 3 r)
     else if length s = 7 \<and> take 1 r = ''W'' then week_parts y (drop 1 r) ''1''
     else None)"

section \<open>The formats\<close>

text \<open>What \<open>%m\<close>, \<open>%d\<close> and \<open>%b\<close> take: one or two digits, a blank and a digit, a month name.\<close>

definition small_number :: "nat \<Rightarrow> string \<Rightarrow> nat option" where
  "small_number hi s =
    (if all_digits s \<and> length s \<le> 2 \<and> 1 \<le> parse_nat s \<and> parse_nat s \<le> hi then Some (parse_nat s) else None)"

definition day_number :: "string \<Rightarrow> nat option" where
  "day_number s = (if length s = 2 \<and> s ! 0 = CHR '' '' then small_number 9 (drop 1 s) else small_number 31 s)"

definition month_name :: "string \<Rightarrow> nat option" where
  "month_name s = map_option Suc (find (\<lambda>k. py_lower (month_abbreviations ! k) = py_lower s) [0..<12])"

definition year_number :: "string \<Rightarrow> nat option" where
  "year_number s = (if all_digits s \<and> length s = 4 then Some (parse_nat s) else None)"

definition date_parts :: "(string \<Rightarrow> nat option) \<Rightarrow> string \<Rightarrow> string \<Rightarrow> string \<Rightarrow> day option" where
  "date_parts month y m dd =
    (case (year_number y, month m, day_number dd) of (Some a, Some b, Some c) \<Rightarrow> make_date a b c | _ \<Rightarrow> None)"

fun parse_format :: "nat \<Rightarrow> string \<Rightarrow> day option" where
  "parse_format k s =
    (case (k, py_split_on (if k = 2 then CHR ''/'' else CHR ''-'') s) of
       (0, [y, m, dd]) \<Rightarrow> date_parts (small_number 12) y m dd
     | (Suc 0, [dd, m, y]) \<Rightarrow> date_parts month_name y m dd
     | (_, [dd, m, y]) \<Rightarrow> date_parts (small_number 12) y m dd
     | _ \<Rightarrow> None)"

declare parse_format.simps [simp del]

text \<open>\<open>parse_optional_date\<close>: \<open>Inl ()\<close> is the \<open>ValueError\<close> of \<open>fromisoformat\<close>.\<close>

definition parse_date_text :: "string \<Rightarrow> unit + day option" where
  "parse_date_text raw =
    (let s = py_strip raw in
     if s = [] then Inr None
     else (case List.map_filter (\<lambda>k. parse_format k s) [0, 1, 2, 3] of
         n # _ \<Rightarrow> Inr (Some n)
       | [] \<Rightarrow> (case from_iso_format s of None \<Rightarrow> Inl () | Some n \<Rightarrow> Inr (Some n))))"

definition parse_optional_date :: "cell \<Rightarrow> unit + day option" where
  "parse_optional_date v =
    (case v of CNone \<Rightarrow> Inr None | CDate n \<Rightarrow> Inr (Some n) | CMoment t \<Rightarrow> Inr (Some (day_of t))
     | _ \<Rightarrow> parse_date_text (cell_str v))"

lemma date_text_samples:
  "parse_date_text ''2024-02-29'' = Inr (Some 19782)" "parse_date_text ''29-feb-2024'' = Inr (Some 19782)"
  "parse_date_text '' 29/02/2024 '' = Inr (Some 19782)" "parse_date_text ''29-2-2024'' = Inr (Some 19782)"
  "parse_date_text ''20240229'' = Inr (Some 19782)" "parse_date_text ''2024-W09-4'' = Inr (Some 19782)"
  "parse_date_text ''2023-02-29'' = Inl ()" "parse_date_text ''next week'' = Inl ()"
  by code_simp+

end
