(* ===== verification/TallyMasters.thy ===== *)
theory TallyMasters
  imports Tally DateTexts
begin

text \<open>
  Reading master data out of Tally, \<open>app/services/tally_masters.py\<close>: which masters the
  local data needs and which of them a user has confirmed, the export requests, and how the
  answers are read.  The answer of the gateway is a parameter, and so is \<open>parse\<close>, the
  reader \<open>ET.fromstring\<close> of a document (\<open>None\<close> is its \<open>ParseError\<close>); an
  element's missing text is the empty one, which the code treats alike.
\<close>

section \<open>Requirements and confirmations\<close>

record master_requirement =
  mrq_type :: string
  mrq_name :: string
  mrq_source :: string
  mrq_detail :: string
  mrq_status :: string

definition requirement_key :: "master_requirement \<Rightarrow> string" where
  "requirement_key r = mrq_type r @ ''|'' @ mrq_name r"

definition master_status :: "string \<Rightarrow> string" where
  "master_status name = (if py_strip name \<noteq> [] then ''READY'' else ''MISSING'')"

text \<open>One entry per type and name; a second source is appended to the first.\<close>

definition add_requirement ::
  "string \<Rightarrow> string \<Rightarrow> string \<Rightarrow> string \<Rightarrow> master_requirement list \<Rightarrow> master_requirement list"
where
  "add_requirement typ name source detail rs =
    (let clean = py_strip name; same = (\<lambda>r. mrq_type r = typ \<and> mrq_name r = clean)
     in if list_ex same rs then upd_rows same (\<lambda>r. r\<lparr>mrq_source := mrq_source r @ ''; '' @ source\<rparr>) rs
        else rs @ [\<lparr>mrq_type = typ, mrq_name = clean, mrq_source = source, mrq_detail = detail, mrq_status = master_status clean\<rparr>])"

definition add_mapping :: "string \<times> gst_ledgers \<Rightarrow> master_requirement list \<Rightarrow> master_requirement list" where
  "add_mapping m rs =
    (let source = ''Sales GST '' @ fst m @ ''% mapping''; l = snd m;
         rs1 = add_requirement ''Ledger'' (gl_sales l) source ''Sales posting ledger'' rs;
         rs2 = add_requirement ''Ledger'' (gl_cgst l) source ''CGST posting ledger'' rs1;
         rs3 = add_requirement ''Ledger'' (gl_sgst l) source ''SGST posting ledger'' rs2
     in if gl_igst l = [] then rs3 else add_requirement ''Ledger'' (gl_igst l) source ''IGST posting ledger'' rs3)"

definition add_product_masters :: "product \<Rightarrow> master_requirement list \<Rightarrow> master_requirement list" where
  "add_product_masters p rs =
    (let source = ''Product '' @ prd_code p;
         rs1 = add_requirement ''Stock Item'' (prd_tally_name p) source (prd_name p) rs;
         rs2 = add_requirement ''Unit'' (prd_unit p) source ''Product unit of measure'' rs1
     in add_requirement ''HSN'' (prd_hsn p) source (''GST rate '' @ float_repr (prd_gst_rate p) @ ''%'') rs2)"

definition collect_master_requirements :: "db \<Rightarrow> exc + master_requirement list" where
  "collect_master_requirements d =
    (let st = get_all_settings d;
         rs1 = add_requirement ''Company'' (text_of (st ''company_name'')) ''Settings'' ''Must be the open Tally company'' [];
         rs2 = add_requirement ''Godown'' (text_of (st ''tally_stock_location'')) ''Settings'' ''Company stock location / franchise'' rs1;
         rs3 = add_requirement ''Ledger'' (text_of (st ''round_off_ledger_name'')) ''Settings'' ''Round off posting ledger'' rs2
     in bind_res (parse_sales_gst_ledger_mappings (st ''sales_gst_ledger_mappings'')) (\<lambda>ms.
          Inr (sort_key (\<lambda>r. (mrq_type r, mrq_name r))
            (fold add_product_masters (sort_key prd_code (filter prd_active (products d))) (fold add_mapping ms rs3)))))"

definition same_master :: "string \<Rightarrow> string \<Rightarrow> master_confirmation \<Rightarrow> bool" where
  "same_master typ name c \<longleftrightarrow> mcf_master_type c = py_strip typ \<and> mcf_master_name c = py_strip name"

definition confirmation_keys :: "db \<Rightarrow> string list" where
  "confirmation_keys d = map (\<lambda>c. mcf_master_type c @ ''|'' @ mcf_master_name c) (confirmations d)"

definition confirm_master :: "nat \<Rightarrow> string \<Rightarrow> string \<Rightarrow> string \<Rightarrow> string \<Rightarrow> moment \<Rightarrow> db \<Rightarrow> db" where
  "confirm_master uid typ name source remark now d =
    (let stored_notes = (if py_strip remark = [] then None else Some (py_strip remark))
     in case find (same_master typ name) (confirmations d) of
          Some r \<Rightarrow> d\<lparr>confirmations := upd_rows (\<lambda>c. mcf_id c = mcf_id r) (\<lambda>c. c\<lparr>mcf_source := py_strip source, mcf_notes := stored_notes,
            mcf_confirmed_by_id := uid, mcf_confirmed_at := now\<rparr>) (confirmations d)\<rparr>
        | None \<Rightarrow> d\<lparr>confirmations := confirmations d @ [\<lparr>mcf_id = next_id mcf_id (confirmations d), mcf_master_type = py_strip typ,
            mcf_master_name = py_strip name, mcf_source = py_strip source, mcf_notes = stored_notes, mcf_confirmed_by_id = uid,
            mcf_confirmed_at = now\<rparr>]\<rparr>)"

definition remove_confirmation :: "string \<Rightarrow> string \<Rightarrow> db \<Rightarrow> db" where
  "remove_confirmation typ name d =
    (case find (same_master typ name) (confirmations d) of None \<Rightarrow> d
     | Some r \<Rightarrow> d\<lparr>confirmations := filter (\<lambda>c. mcf_id c \<noteq> mcf_id r) (confirmations d)\<rparr>)"

record readiness =
  rdy_total :: nat
  rdy_ready :: nat
  rdy_missing :: nat
  rdy_confirmed :: nat
  rdy_unchecked :: nat

definition readiness_counts :: "master_requirement list \<Rightarrow> string list \<Rightarrow> readiness" where
  "readiness_counts rs keys =
    (let ready = count_rows (\<lambda>r. mrq_status r = ''READY'') rs;
         confirmed = count_rows (\<lambda>r. mrq_status r = ''READY'' \<and> requirement_key r \<in> set keys) rs
     in \<lparr>rdy_total = length rs, rdy_ready = ready, rdy_missing = count_rows (\<lambda>r. mrq_status r = ''MISSING'') rs,
          rdy_confirmed = confirmed, rdy_unchecked = ready - confirmed\<rparr>)"

definition live_sync_readiness :: "db \<Rightarrow> exc + bool \<times> readiness" where
  "live_sync_readiness d =
    bind_res (collect_master_requirements d) (\<lambda>rs.
      let n = readiness_counts rs (confirmation_keys d)
      in Inr (rdy_missing n = 0 \<and> rdy_unchecked n = 0 \<and> 0 < rdy_total n, n))"

section \<open>Requests\<close>

definition export_header :: "string \<Rightarrow> xml" where
  "export_header name = xml_node ''HEADER'' [xml_leaf ''VERSION'' ''1'', xml_leaf ''TALLYREQUEST'' ''Export'',
     xml_leaf ''TYPE'' ''Collection'', xml_leaf ''ID'' name]"

text \<open>
  The envelope of \<open>_build_collection_export\<close>; \<open>vars\<close>, \<open>extra\<close> and \<open>formulas\<close>
  are what the callers append to the static variables, the collection and the message.
\<close>

definition collection_envelope ::
  "string \<Rightarrow> string \<Rightarrow> string list \<Rightarrow> string \<Rightarrow> xml list \<Rightarrow> xml list \<Rightarrow> xml list \<Rightarrow> xml"
where
  "collection_envelope name typ methods company vars extra formulas =
     xml_node ''ENVELOPE'' [export_header name,
       xml_node ''BODY'' [xml_node ''DESC'' [
         xml_node ''STATICVARIABLES'' ([xml_leaf ''SVEXPORTFORMAT'' ''$$SysName:XML''] @
           (if company = [] then [] else [xml_leaf ''SVCURRENTCOMPANY'' company]) @ vars),
         xml_node ''TDL'' [xml_node ''TDLMESSAGE'' ([Elem ''COLLECTION'' [(''NAME'', name)] []
           (xml_leaf ''TYPE'' typ # map (xml_leaf ''NATIVEMETHOD'') methods @ extra)] @ formulas)]]]]"

definition filter_formula :: "string \<Rightarrow> string \<Rightarrow> xml" where
  "filter_formula name text = Elem ''SYSTEM'' [(''TYPE'', ''Formulae''), (''NAME'', name)] text []"

definition build_company_list_xml :: string where
  "build_company_list_xml = xml_string (collection_envelope ''List of Companies'' ''Company'' [''Name''] [] [] [] [])"

definition build_ledger_list_xml :: "string \<Rightarrow> string" where
  "build_ledger_list_xml company =
     xml_string (collection_envelope ''Setuora Ledger List'' ''Ledger'' [''Name'', ''Parent'', ''ClosingBalance''] (py_strip company) [] [] [])"

definition party_methods :: "string list" where
  "party_methods = [''Name'', ''Parent'', ''OpeningBalance'', ''ClosingBalance'', ''MailingName'', ''Address'', ''Pincode'',
     ''CountryName'', ''LedStateName'', ''Email'', ''LedgerPhone'', ''LedgerMobile'', ''PartyGSTIN'']"

definition build_party_export_xml :: "string \<Rightarrow> exc + string" where
  "build_party_export_xml company =
    (let clean = py_strip company
     in if clean = [] then Inl (TallyDataError ''Choose a Tally company before synchronizing parties.'')
        else Inr (xml_string (collection_envelope ''Setuora Debtors and Creditors'' ''Ledger'' party_methods clean []
          [xml_leaf ''FILTER'' ''SetuoraPartyLedgerFilter'']
          [filter_formula ''SetuoraPartyLedgerFilter''
             (''$Parent = '' @ [CHR 0x22] @ ''Sundry Debtors'' @ [CHR 0x22] @ '' OR $Parent = '' @ [CHR 0x22] @ ''Sundry Creditors'' @ [CHR 0x22])])))"

definition build_stock_location_list_xml :: "string \<Rightarrow> string" where
  "build_stock_location_list_xml company =
     xml_string (collection_envelope ''Setuora Stock Location List'' ''Godown'' [''Name'', ''Parent''] (py_strip company) [] [] [])"

definition sales_methods :: "string list" where
  "sales_methods = [''Date'', ''VoucherNumber'', ''VoucherTypeName'', ''PartyLedgerName'', ''Amount'', ''Narration'', ''GUID'',
     ''MasterID'', ''EnteredBy'', ''CreatedBy'', ''AlteredBy'', ''AllLedgerEntries'']"

definition build_sales_book_xml :: "string \<Rightarrow> day \<Rightarrow> day \<Rightarrow> string" where
  "build_sales_book_xml company a b =
     xml_string (collection_envelope ''Setuora Sales Book'' ''Voucher'' sales_methods (py_strip company)
       [Elem ''SVFROMDATE'' [(''TYPE'', ''Date'')] (compact_date a) [], Elem ''SVTODATE'' [(''TYPE'', ''Date'')] (compact_date b) []]
       [xml_leaf ''FILTER'' ''SetuoraSalesVoucherFilter'']
       [filter_formula ''SetuoraSalesVoucherFilter''
         ''$$IsSales:$VoucherTypeName AND $Date >= ##SVFromDate AND $Date <= ##SVToDate''])"

section \<open>Reading a document\<close>

text \<open>\<open>root.iter()\<close>: the element and everything below it, in document order.\<close>

fun xml_iter :: "xml \<Rightarrow> xml list" where
  "xml_iter (Elem t a x cs) = Elem t a x cs # concat (map xml_iter cs)"

fun after_brace :: "string \<Rightarrow> string \<Rightarrow> string" where
  "after_brace acc [] = rev acc"
| "after_brace acc (c # cs) = (if c = CHR ''}'' then after_brace [] cs else after_brace (c # acc) cs)"

definition local_tag :: "xml \<Rightarrow> string" where
  "local_tag n = py_upper (after_brace [] (elem_tag n))"

definition text_among :: "xml list \<Rightarrow> string list \<Rightarrow> string" where
  "text_among ns names =
    (case find (\<lambda>c. local_tag c \<in> set (map py_upper names) \<and> elem_text c \<noteq> []) ns of
       None \<Rightarrow> [] | Some c \<Rightarrow> py_strip (elem_text c))"

definition direct_text :: "xml \<Rightarrow> string list \<Rightarrow> string" where
  "direct_text n names = text_among (elem_children n) names"

definition first_text :: "xml \<Rightarrow> string list \<Rightarrow> string" where
  "first_text n names = text_among (xml_iter n) names"

definition response_errors :: "xml \<Rightarrow> string list" where
  "response_errors doc = map (\<lambda>n. py_strip (elem_text n))
     (filter (\<lambda>n. local_tag n \<in> {''LINEERROR'', ''ERROR''} \<and> py_strip (elem_text n) \<noteq> []) (xml_iter doc))"

definition valid_xml_character :: "nat \<Rightarrow> bool" where
  "valid_xml_character n \<longleftrightarrow> n \<in> {9, 10, 13} \<or> (0x20 \<le> n \<and> n \<le> 0xD7FF) \<or> (0xE000 \<le> n \<and> n \<le> 0xFFFD) \<or>
     (0x10000 \<le> n \<and> n \<le> 0x10FFFF)"

definition is_hex :: "char \<Rightarrow> bool" where
  "is_hex c \<longleftrightarrow> is_digit c \<or> (let n = of_char (char_upper c) :: nat in 65 \<le> n \<and> n \<le> 70)"

definition hex_val :: "char \<Rightarrow> nat" where
  "hex_val c = (if is_digit c then digit_val c else of_char (char_upper c) - 55)"

definition parse_hex :: "string \<Rightarrow> nat" where
  "parse_hex s = foldl (\<lambda>n c. 16 * n + hex_val c) 0 s"

text \<open>A numeric character reference at the start of a text: its length and code point.\<close>

definition reference_at :: "string \<Rightarrow> (nat \<times> nat) option" where
  "reference_at s =
    (let hex = takeWhile is_hex (drop 3 s); dec = takeWhile is_digit (drop 2 s)
     in if starts_with ''&#x'' s \<and> hex \<noteq> [] \<and> take 1 (drop (3 + length hex) s) = '';'' then Some (4 + length hex, parse_hex hex)
        else if starts_with ''&#'' s \<and> dec \<noteq> [] \<and> take 1 (drop (2 + length dec) s) = '';'' then Some (3 + length dec, parse_nat dec)
        else None)"

fun drop_references :: "nat \<Rightarrow> string \<Rightarrow> string" where
  "drop_references skip [] = []"
| "drop_references (Suc k) (c # cs) = drop_references k cs"
| "drop_references 0 (c # cs) =
     (case reference_at (c # cs) of None \<Rightarrow> c # drop_references 0 cs
      | Some (len, n) \<Rightarrow> if valid_xml_character n then c # drop_references 0 cs else drop_references (len - 1) cs)"

definition sanitize_tally_xml :: "string \<Rightarrow> string" where
  "sanitize_tally_xml body = filter (\<lambda>c. valid_xml_character (of_char c)) (drop_references 0 body)"

text \<open>
  What \<open>urlopen\<close> and reading its body give: a \<open>URLError\<close>, whose reason may be a timeout, a
  timeout, another \<open>OSError\<close>, an \<open>HTTPException\<close>, which is none of these, or a body.
\<close>

datatype gateway_reply = NoGateway bool string | GatewayTimeout | GatewayBroken string | GatewayGarbled string | Reply string

definition post_read_request :: "(string \<Rightarrow> xml option) \<Rightarrow> settings_map \<Rightarrow> gateway_reply \<Rightarrow> exc + string \<times> xml" where
  "post_read_request parse st reply =
    (if py_strip (text_of (st ''tally_host'')) = [] \<or> py_strip (text_of (st ''tally_port'')) = [] then
       Inl (TallyDataError ''Tally host and port are not configured.'')
     else (case reply of
         NoGateway timed reason \<Rightarrow> Inl (TallyDataError (''Tally gateway did not respond: '' @ reason))
       | GatewayTimeout \<Rightarrow> Inl (TallyDataError ''Tally gateway timed out.'')
       | GatewayBroken reason \<Rightarrow> Inl (TallyDataError (''Tally gateway did not respond: '' @ reason))
       | GatewayGarbled reason \<Rightarrow> Inl (HTTPException reason)
       | Reply body \<Rightarrow>
           if py_strip body = [] then Inl (TallyDataError ''Tally gateway returned an empty response.'')
           else (case parse (sanitize_tally_xml body) of
               None \<Rightarrow> Inl (TallyDataError ''Tally gateway returned unreadable XML.'')
             | Some doc \<Rightarrow>
                 if response_errors doc \<noteq> [] then
                   Inl (TallyDataError (''Tally rejected the request: '' @ py_join ''; '' (response_errors doc)))
                 else if first_text doc [''STATUS''] = ''0'' then Inl (TallyDataError ''Tally rejected the request.'')
                 else Inr (sanitize_tally_xml body, doc))))"

section \<open>The lists\<close>

record tally_ledger =
  tld_name :: string
  tld_parent :: string
  tld_balance :: string

record tally_location =
  tlo_name :: string
  tlo_parent :: string

record tally_voucher =
  tvo_date :: string
  tvo_number :: string
  tvo_type :: string
  tvo_party :: string
  tvo_amount :: string
  tvo_narration :: string
  tvo_remote_id :: string
  tvo_user :: string

definition node_name :: "xml \<Rightarrow> string" where
  "node_name n = (let t = direct_text n [''NAME''] in if t \<noteq> [] then t else py_strip (text_of (map_of (elem_attrs n) ''NAME'')))"

text \<open>The first element of every name, upper and lower case alike.\<close>

fun first_named :: "string list \<Rightarrow> xml list \<Rightarrow> xml list" where
  "first_named seen [] = []"
| "first_named seen (n # ns) =
     (let key = py_lower (node_name n)
      in if node_name n = [] \<or> key \<in> set seen then first_named seen ns else n # first_named (key # seen) ns)"

definition elements :: "string list \<Rightarrow> xml \<Rightarrow> xml list" where
  "elements tags doc = filter (\<lambda>n. local_tag n \<in> set tags) (xml_iter doc)"

definition fetch_tally_companies :: "(string \<Rightarrow> xml option) \<Rightarrow> settings_map \<Rightarrow> gateway_reply \<Rightarrow> exc + string list" where
  "fetch_tally_companies parse st reply =
    bind_res (post_read_request parse st reply) (\<lambda>(body, doc).
      Inr (sort_key py_lower (map node_name (first_named [] (elements [''COMPANY''] doc)))))"

definition ledger_of_node :: "xml \<Rightarrow> tally_ledger" where
  "ledger_of_node n = \<lparr>tld_name = node_name n, tld_parent = direct_text n [''PARENT''], tld_balance = direct_text n [''CLOSINGBALANCE'']\<rparr>"

definition fetch_tally_ledgers :: "(string \<Rightarrow> xml option) \<Rightarrow> settings_map \<Rightarrow> string \<Rightarrow> gateway_reply \<Rightarrow> exc + tally_ledger list" where
  "fetch_tally_ledgers parse st company reply =
    (if py_strip company = [] then Inl (TallyDataError ''Choose a Tally company before loading ledgers.'')
     else bind_res (post_read_request parse st reply) (\<lambda>(body, doc).
       Inr (sort_key (\<lambda>l. py_lower (tld_name l)) (map ledger_of_node (first_named [] (elements [''LEDGER''] doc))))))"

definition export_tally_parties_xml :: "(string \<Rightarrow> xml option) \<Rightarrow> settings_map \<Rightarrow> string \<Rightarrow> gateway_reply \<Rightarrow> exc + string" where
  "export_tally_parties_xml parse st company reply =
    bind_res (build_party_export_xml company) (\<lambda>request.
      bind_res (post_read_request parse st reply) (\<lambda>(body, doc).
        if list_ex (\<lambda>n. py_lower (direct_text n [''PARENT'']) \<in> {''sundry debtors'', ''sundry creditors''}) (elements [''LEDGER''] doc)
        then Inr body
        else Inl (TallyDataError ''Tally returned no ledgers under Sundry Debtors or Sundry Creditors.'')))"

definition fetch_tally_stock_locations ::
  "(string \<Rightarrow> xml option) \<Rightarrow> settings_map \<Rightarrow> string \<Rightarrow> gateway_reply \<Rightarrow> exc + tally_location list"
where
  "fetch_tally_stock_locations parse st company reply =
    (if py_strip company = [] then Inl (TallyDataError ''Choose a Tally company before loading stock locations.'')
     else bind_res (post_read_request parse st reply) (\<lambda>(body, doc).
       let found = map (\<lambda>n. \<lparr>tlo_name = node_name n, tlo_parent = direct_text n [''PARENT'']\<rparr>)
             (first_named [] (elements [''GODOWN'', ''LOCATION''] doc));
           main = (if ''main location'' \<in> set (map (\<lambda>l. py_lower (tlo_name l)) found) then []
             else [\<lparr>tlo_name = ''Main Location'', tlo_parent = []\<rparr>])
       in Inr (sort_key (\<lambda>l. py_lower (tlo_name l)) (found @ main))))"

definition party_entry :: "xml \<Rightarrow> xml option" where
  "party_entry v = find (\<lambda>e. local_tag e \<in> {''ALLLEDGERENTRIES.LIST'', ''LEDGERENTRIES.LIST''} \<and>
     py_lower (direct_text e [''ISPARTYLEDGER'']) = ''yes'') (elem_children v)"

definition party_ledger :: "xml \<Rightarrow> string" where
  "party_ledger v = (let direct = direct_text v [''PARTYLEDGERNAME'', ''LEDGERNAME''] in
     if direct \<noteq> [] then direct
     else (case party_entry v of None \<Rightarrow> [] | Some e \<Rightarrow> direct_text e [''LEDGERNAME'']))"

definition voucher_amount :: "xml \<Rightarrow> string" where
  "voucher_amount v = (let direct = direct_text v [''AMOUNT''] in
     if direct \<noteq> [] then direct else (case party_entry v of None \<Rightarrow> [] | Some e \<Rightarrow> direct_text e [''AMOUNT'']))"

definition display_tally_date :: "string \<Rightarrow> string" where
  "display_tally_date raw =
    (let s = py_strip raw
     in if length s = 8 \<and> all_digits s
        then (case make_date (parse_nat (take 4 s)) (parse_nat (take 2 (drop 4 s))) (parse_nat (drop 6 s)) of
            None \<Rightarrow> s | Some n \<Rightarrow> iso_date n)
        else s)"

definition voucher_of_node :: "xml \<Rightarrow> tally_voucher" where
  "voucher_of_node n = \<lparr>tvo_date = display_tally_date (direct_text n [''DATE'']), tvo_number = direct_text n [''VOUCHERNUMBER''],
     tvo_type = direct_text n [''VOUCHERTYPENAME''], tvo_party = party_ledger n, tvo_amount = voucher_amount n,
     tvo_narration = direct_text n [''NARRATION''], tvo_remote_id = direct_text n [''GUID'', ''MASTERID''],
     tvo_user = direct_text n [''ENTEREDBY'', ''CREATEDBY'', ''ALTEREDBY'']\<rparr>"

definition fetch_tally_sales_book ::
  "(string \<Rightarrow> xml option) \<Rightarrow> settings_map \<Rightarrow> string \<Rightarrow> day \<Rightarrow> day \<Rightarrow> gateway_reply \<Rightarrow> exc + tally_voucher list"
where
  "fetch_tally_sales_book parse st company a b reply =
    (if py_strip company = [] then Inl (TallyDataError ''Choose a Tally company before loading the sales book.'')
     else if b < a then Inl (TallyDataError ''Sales book start date must be on or before the end date.'')
     else bind_res (post_read_request parse st reply) (\<lambda>(body, doc).
       Inr (rev (sort_key (\<lambda>v. (tvo_date v, tvo_number v))
         (rev (filter (\<lambda>v. tvo_date v \<noteq> []) (map voucher_of_node (elements [''VOUCHER''] doc))))))))"

record gateway_check =
  gwc_ok :: bool
  gwc_message :: string
  gwc_excerpt :: string

definition ends_in :: "string \<Rightarrow> xml \<Rightarrow> bool" where
  "ends_in suf n \<longleftrightarrow> ends_with suf (py_upper (elem_tag n))"

text \<open>\<open>None\<close> is the \<open>OSError\<close> or \<open>HTTPException\<close> this function lets escape.\<close>

definition test_tally_gateway :: "(string \<Rightarrow> xml option) \<Rightarrow> settings_map \<Rightarrow> gateway_reply \<Rightarrow> gateway_check option" where
  "test_tally_gateway parse st reply =
    (let bad = (\<lambda>m x. Some \<lparr>gwc_ok = False, gwc_message = m, gwc_excerpt = x\<rparr>)
     in if py_strip (text_of (st ''tally_host'')) = [] \<or> py_strip (text_of (st ''tally_port'')) = [] then
          bad ''Tally host and port are not configured'' []
        else (case reply of
            NoGateway timed reason \<Rightarrow> bad (if timed then ''Tally gateway timed out after 15 seconds''
              else ''Tally gateway did not respond: '' @ reason) []
          | GatewayTimeout \<Rightarrow> bad ''Tally gateway timed out after 15 seconds'' []
          | GatewayBroken reason \<Rightarrow> None
          | GatewayGarbled reason \<Rightarrow> None
          | Reply body \<Rightarrow>
              let excerpt = take 500 (py_join '' '' (py_split body))
              in if py_strip body = [] then bad ''Tally gateway returned an empty response'' []
                 else (case parse body of None \<Rightarrow> bad ''Tally gateway returned unreadable XML'' excerpt
                   | Some doc \<Rightarrow>
                       let errors = map (\<lambda>n. py_strip (elem_text n))
                             (filter (\<lambda>n. ends_in ''LINEERROR'' n \<and> py_strip (elem_text n) \<noteq> []) (xml_iter doc));
                           state = (case find (\<lambda>n. ends_in ''STATUS'' n \<and> elem_text n \<noteq> []) (xml_iter doc) of
                             None \<Rightarrow> [] | Some n \<Rightarrow> py_strip (elem_text n))
                       in if errors \<noteq> [] then bad (''Tally rejected gateway check: '' @ py_join ''; '' errors) excerpt
                          else if state = ''0'' then bad ''Tally rejected gateway check'' excerpt
                          else Some \<lparr>gwc_ok = True, gwc_message = ''Tally gateway responded'', gwc_excerpt = excerpt\<rparr>)))"

section \<open>What the answers guarantee\<close>

lemma first_named_distinct:
  "distinct (map (\<lambda>n. py_lower (node_name n)) (first_named seen ns)) \<and>
   (\<forall>n \<in> set (first_named seen ns). node_name n \<noteq> [] \<and> py_lower (node_name n) \<notin> set seen)"
proof (induction ns arbitrary: seen)
  case Nil
  then show ?case by simp
next
  case (Cons n ns)
  show ?case
  proof (cases "node_name n = [] \<or> py_lower (node_name n) \<in> set seen")
    case True
    then show ?thesis using Cons.IH [of seen] by (simp only: first_named.simps Let_def if_True) simp
  next
    case False
    then have "first_named seen (n # ns) = n # first_named (py_lower (node_name n) # seen) ns"
      by (simp only: first_named.simps Let_def if_False)
    then show ?thesis using Cons.IH [of "py_lower (node_name n) # seen"] False by (simp only:) force
  qed
qed

lemma sanitized_characters: "list_all (\<lambda>c. valid_xml_character (of_char c)) (sanitize_tally_xml body)"
  by (simp add: sanitize_tally_xml_def list_all_iff)

end
