(* ===== verification/TallyCache.thy ===== *)
theory TallyCache
  imports TallyMasters
begin

text \<open>
  The local copy of Tally's ledgers and sales vouchers, \<open>app/services/tally_cache.py\<close>.
  A refresh keeps the rows Tally still has, adds the new ones and drops the rest.  The session
  writes the changed rows, then the new ones, then the deletions; a new row whose key the table
  already holds breaks its unique constraint, and nothing of the refresh is committed.
\<close>

section \<open>Writing new rows\<close>

text \<open>Insertions in order under a unique key; \<open>idk\<close> and \<open>upd\<close> read and set the primary key.\<close>

definition insert_row :: "('r \<Rightarrow> nat) \<Rightarrow> (nat \<Rightarrow> 'r \<Rightarrow> 'r) \<Rightarrow> ('r \<Rightarrow> 'k) \<Rightarrow> string \<Rightarrow> 'r \<Rightarrow> 'r list \<Rightarrow> exc + 'r list" where
  "insert_row idk upd uniq what r rows =
    (if uniq r \<in> set (map uniq rows) then Inl (IntegrityError (''UNIQUE constraint failed: '' @ what))
     else Inr (rows @ [upd (next_id idk rows) r]))"

definition insert_rows :: "('r \<Rightarrow> nat) \<Rightarrow> (nat \<Rightarrow> 'r \<Rightarrow> 'r) \<Rightarrow> ('r \<Rightarrow> 'k) \<Rightarrow> string \<Rightarrow> 'r list \<Rightarrow> 'r list \<Rightarrow> exc + 'r list" where
  "insert_rows idk upd uniq what = fold_res (insert_row idk upd uniq what)"

definition py_casekey :: "string \<Rightarrow> string" where
  "py_casekey value = py_lower (py_strip value)"

definition voucher_identity :: "tally_voucher \<Rightarrow> string" where
  "voucher_identity v =
    (if py_strip (tvo_remote_id v) \<noteq> [] then py_strip (tvo_remote_id v)
     else ''fallback:'' @ py_join [CHR 0x1F] [py_strip (tvo_date v), py_strip (tvo_type v), py_strip (tvo_number v),
       py_strip (tvo_party v), py_strip (tvo_amount v)])"

section \<open>Ledgers\<close>

definition ledger_in :: "nat \<Rightarrow> string \<Rightarrow> ledger_cache \<Rightarrow> bool" where
  "ledger_in cid key r \<longleftrightarrow> tlc_company_id r = cid \<and> tlc_tally_company_key r = key"

definition ledger_unique :: "ledger_cache \<Rightarrow> nat \<times> string \<times> string" where
  "ledger_unique r = (tlc_company_id r, tlc_tally_company_key r, tlc_ledger_key r)"

definition fill_ledger :: "string \<Rightarrow> tally_ledger \<Rightarrow> moment \<Rightarrow> ledger_cache \<Rightarrow> ledger_cache" where
  "fill_ledger company l now r = r\<lparr>tlc_tally_company := company, tlc_name := py_strip (tld_name l),
     tlc_parent := py_strip (tld_parent l), tlc_closing_balance := py_strip (tld_balance l), tlc_refreshed_at := now\<rparr>"

definition new_ledger :: "nat \<Rightarrow> string \<Rightarrow> tally_ledger \<Rightarrow> moment \<Rightarrow> ledger_cache" where
  "new_ledger cid company l now = \<lparr>tlc_id = 0, tlc_company_id = cid, tlc_tally_company = company,
     tlc_tally_company_key = py_casekey company, tlc_ledger_key = py_casekey (tld_name l), tlc_name = py_strip (tld_name l),
     tlc_parent = py_strip (tld_parent l), tlc_closing_balance = py_strip (tld_balance l), tlc_refreshed_at = now\<rparr>"

text \<open>One turn of the loop: the table with its changed rows, and the rows to insert.\<close>

definition refresh_ledger ::
  "nat \<Rightarrow> string \<Rightarrow> moment \<Rightarrow> string list \<Rightarrow> tally_ledger \<Rightarrow> ledger_cache list \<times> ledger_cache list \<Rightarrow> ledger_cache list \<times> ledger_cache list"
where
  "refresh_ledger cid company now existing l s =
    (let k = py_casekey (tld_name l)
     in if k = [] then s
        else if k \<in> set existing then
          (upd_rows (\<lambda>r. ledger_in cid (py_casekey company) r \<and> tlc_ledger_key r = k) (fill_ledger company l now) (fst s), snd s)
        else (fst s, snd s @ [new_ledger cid company l now]))"

definition replace_cached_ledgers :: "nat \<Rightarrow> string \<Rightarrow> tally_ledger list \<Rightarrow> moment \<Rightarrow> db \<Rightarrow> exc + db" where
  "replace_cached_ledgers cid tally_company ls now d =
    (let company = py_strip tally_company; key = py_casekey company;
         existing = map tlc_ledger_key (filter (ledger_in cid key) (ledger_caches d));
         seen = filter (\<lambda>k. k \<noteq> []) (map (\<lambda>l. py_casekey (tld_name l)) ls);
         s = fold (refresh_ledger cid company now existing) ls (ledger_caches d, [])
     in bind_res (insert_rows tlc_id (\<lambda>i r. r\<lparr>tlc_id := i\<rparr>) ledger_unique ''tally_ledger_cache'' (snd s) (fst s)) (\<lambda>rows.
          Inr (d\<lparr>ledger_caches := filter (\<lambda>r. \<not> (ledger_in cid key r \<and> tlc_ledger_key r \<in> set existing \<and>
            tlc_ledger_key r \<notin> set seen)) rows\<rparr>)))"

definition ledger_view :: "ledger_cache \<Rightarrow> tally_ledger" where
  "ledger_view r = \<lparr>tld_name = tlc_name r, tld_parent = tlc_parent r, tld_balance = tlc_closing_balance r\<rparr>"

definition cached_ledgers :: "db \<Rightarrow> nat \<Rightarrow> string \<Rightarrow> tally_ledger list" where
  "cached_ledgers d cid tally_company =
     map ledger_view (sort_key tlc_name (filter (ledger_in cid (py_casekey tally_company)) (ledger_caches d)))"

section \<open>Sales vouchers\<close>

definition voucher_in :: "nat \<Rightarrow> string \<Rightarrow> voucher_cache \<Rightarrow> bool" where
  "voucher_in cid key r \<longleftrightarrow> tvc_company_id r = cid \<and> tvc_tally_company_key r = key"

definition voucher_between :: "day \<Rightarrow> day \<Rightarrow> voucher_cache \<Rightarrow> bool" where
  "voucher_between a b r \<longleftrightarrow> iso_date a \<le> tvc_voucher_date r \<and> tvc_voucher_date r \<le> iso_date b"

definition voucher_unique :: "voucher_cache \<Rightarrow> nat \<times> string \<times> string" where
  "voucher_unique r = (tvc_company_id r, tvc_tally_company_key r, tvc_remote_id r)"

definition fill_voucher :: "string \<Rightarrow> tally_voucher \<Rightarrow> moment \<Rightarrow> voucher_cache \<Rightarrow> voucher_cache" where
  "fill_voucher company v now r = r\<lparr>tvc_tally_company := company, tvc_voucher_date := py_strip (tvo_date v),
     tvc_voucher_number := py_strip (tvo_number v), tvc_voucher_type := py_strip (tvo_type v), tvc_party_ledger := py_strip (tvo_party v),
     tvc_amount := py_strip (tvo_amount v), tvc_narration := py_strip (tvo_narration v), tvc_tally_user := py_strip (tvo_user v),
     tvc_refreshed_at := now\<rparr>"

definition new_voucher :: "nat \<Rightarrow> string \<Rightarrow> tally_voucher \<Rightarrow> moment \<Rightarrow> voucher_cache" where
  "new_voucher cid company v now = \<lparr>tvc_id = 0, tvc_company_id = cid, tvc_tally_company = company,
     tvc_tally_company_key = py_casekey company, tvc_remote_id = voucher_identity v, tvc_voucher_date = py_strip (tvo_date v),
     tvc_voucher_number = py_strip (tvo_number v), tvc_voucher_type = py_strip (tvo_type v), tvc_party_ledger = py_strip (tvo_party v),
     tvc_amount = py_strip (tvo_amount v), tvc_narration = py_strip (tvo_narration v), tvc_tally_user = py_strip (tvo_user v),
     tvc_refreshed_at = now\<rparr>"

definition refresh_voucher ::
  "nat \<Rightarrow> string \<Rightarrow> day \<Rightarrow> day \<Rightarrow> moment \<Rightarrow> nat list \<Rightarrow> string list \<Rightarrow> tally_voucher \<Rightarrow> voucher_cache list \<times> voucher_cache list \<Rightarrow>
   voucher_cache list \<times> voucher_cache list"
where
  "refresh_voucher cid company a b now ids existing v s =
    (if voucher_identity v \<in> set existing then
       (upd_rows (\<lambda>r. tvc_id r \<in> set ids \<and> tvc_remote_id r = voucher_identity v) (fill_voucher company v now) (fst s), snd s)
     else (fst s, snd s @ [new_voucher cid company v now]))"

definition replace_cached_sales_book ::
  "nat \<Rightarrow> string \<Rightarrow> day \<Rightarrow> day \<Rightarrow> tally_voucher list \<Rightarrow> moment \<Rightarrow> db \<Rightarrow> exc + db"
where
  "replace_cached_sales_book cid tally_company a b vs now d =
    (let company = py_strip tally_company; key = py_casekey company;
         existing_rows = filter (\<lambda>r. voucher_in cid key r \<and> voucher_between a b r) (voucher_caches d);
         invalid = map tvc_id (filter (\<lambda>r. voucher_in cid key r \<and> tvc_voucher_date r = []) (voucher_caches d));
         existing = map tvc_remote_id existing_rows; ids = map tvc_id existing_rows;
         seen = map voucher_identity vs;
         s = fold (refresh_voucher cid company a b now ids existing) vs (voucher_caches d, [])
     in bind_res (insert_rows tvc_id (\<lambda>i r. r\<lparr>tvc_id := i\<rparr>) voucher_unique ''tally_sales_voucher_cache'' (snd s) (fst s)) (\<lambda>rows.
          Inr (d\<lparr>voucher_caches := filter (\<lambda>r. \<not> (tvc_id r \<in> set invalid \<or>
            (tvc_id r \<in> set ids \<and> tvc_remote_id r \<notin> set seen))) rows\<rparr>)))"

definition voucher_view :: "voucher_cache \<Rightarrow> tally_voucher" where
  "voucher_view r = \<lparr>tvo_date = tvc_voucher_date r, tvo_number = tvc_voucher_number r, tvo_type = tvc_voucher_type r,
     tvo_party = tvc_party_ledger r, tvo_amount = tvc_amount r, tvo_narration = tvc_narration r, tvo_remote_id = tvc_remote_id r,
     tvo_user = tvc_tally_user r\<rparr>"

definition cached_sales_book :: "db \<Rightarrow> nat \<Rightarrow> string \<Rightarrow> day \<Rightarrow> day \<Rightarrow> tally_voucher list" where
  "cached_sales_book d cid tally_company a b =
     map voucher_view (rev (sort_key (\<lambda>r. (tvc_voucher_date r, tvc_voucher_number r))
       (rev (filter (\<lambda>r. voucher_in cid (py_casekey tally_company) r \<and> voucher_between a b r) (voucher_caches d)))))"

definition latest_of :: "moment list \<Rightarrow> moment option" where
  "latest_of ts = (case ts of [] \<Rightarrow> None | t # us \<Rightarrow> Some (fold max us t))"

definition latest_cache_refresh :: "db \<Rightarrow> nat \<Rightarrow> string \<Rightarrow> moment option" where
  "latest_cache_refresh d cid tally_company =
    (let key = py_casekey tally_company
     in latest_of (map tlc_refreshed_at (filter (ledger_in cid key) (ledger_caches d)) @
          map tvc_refreshed_at (filter (voucher_in cid key) (voucher_caches d))))"

section \<open>What a refresh leaves\<close>

lemma insert_rows_ok:
  assumes "\<And>i r. uniq (upd i r) = uniq r" "distinct (map uniq new)" "set (map uniq new) \<inter> set (map uniq rows) = {}"
  shows "\<exists>ids. length ids = length new \<and> insert_rows idk upd uniq what new rows = Inr (rows @ map2 upd ids new)"
  using assms(2,3)
proof (induction new arbitrary: rows)
  case Nil
  then show ?case by (simp add: insert_rows_def)
next
  case (Cons r new)
  let ?r = "upd (next_id idk rows) r"
  have "set (map uniq new) \<inter> set (map uniq (rows @ [?r])) = {}" using Cons.prems by (auto simp: assms(1))
  moreover have "distinct (map uniq new)" using Cons.prems(1) by simp
  ultimately obtain ids where ids: "length ids = length new"
      "insert_rows idk upd uniq what new (rows @ [?r]) = Inr ((rows @ [?r]) @ map2 upd ids new)"
    using Cons.IH by blast
  have "insert_row idk upd uniq what r rows = Inr (rows @ [?r])" using Cons.prems by (simp add: insert_row_def)
  then have "insert_rows idk upd uniq what (r # new) rows = Inr (rows @ map2 upd (next_id idk rows # ids) (r # new))"
    using ids(2) by (simp add: insert_rows_def)
  with ids(1) show ?case by (intro exI [of _ "next_id idk rows # ids"]) simp
qed

lemma map_numbered:
  assumes "length ids = length rs" "\<And>i r. f (upd i r) = f r"
  shows "map f (map2 upd ids rs) = map f rs"
  using assms(1) by (induction ids rs rule: list_induct2) (simp_all add: assms(2))

lemma insert_rows_clash:
  assumes "r \<in> set new" "uniq r \<in> set (map uniq rows)"
  shows "insert_rows idk upd uniq what new rows = Inl (IntegrityError (''UNIQUE constraint failed: '' @ what))"
  using assms
proof (induction new arbitrary: rows)
  case (Cons x new)
  show ?case
  proof (cases "uniq x \<in> set (map uniq rows)")
    case True
    then show ?thesis by (simp add: insert_rows_def insert_row_def)
  next
    case False
    with Cons.prems have "r \<in> set new" "uniq r \<in> set (map uniq (rows @ [upd (next_id idk rows) x]))" by auto
    from Cons.IH [OF this] False show ?thesis by (simp add: insert_rows_def insert_row_def)
  qed
qed simp

text \<open>
  The loop of a refresh, over rows with a key: a known key changes its row, a new one is noted.
  \<open>here\<close> says which rows the refresh is about.
\<close>

lemma refresh_fold:
  assumes "distinct (map lkey ls)" "\<And>l r. rkey (fill l r) = rkey r" "\<And>l r. here (fill l r) = here r"
    and "\<And>l s. l \<in> set ls \<Longrightarrow> step l s = (if lkey l \<in> E then (upd_rows (\<lambda>r. here r \<and> rkey r = lkey l) (fill l) (fst s), snd s)
      else (fst s, snd s @ [new l]))"
  shows "fold step ls (rows, ns) =
    (map (\<lambda>r. case find (\<lambda>l. lkey l = rkey r) ls of Some l \<Rightarrow> if here r \<and> rkey r \<in> E then fill l r else r | None \<Rightarrow> r) rows,
     ns @ map new (filter (\<lambda>l. lkey l \<notin> E) ls))"
  using assms(1,4)
proof (induction ls arbitrary: rows ns)
  case (Cons l ls)
  have absent: "find (\<lambda>m. lkey m = lkey l) ls = None" using Cons.prems(1) by (auto simp: find_None_iff image_iff)
  note IH = Cons.IH [OF _ Cons.prems(2)]
  show ?case
  proof (cases "lkey l \<in> E")
    case True
    then have "step l (rows, ns) = (upd_rows (\<lambda>r. here r \<and> rkey r = lkey l) (fill l) rows, ns)"
      using Cons.prems(2) [of l] by simp
    then show ?thesis using IH Cons.prems(1) True absent
      by (auto simp: upd_rows_def assms(2,3) split: option.splits)
  next
    case False
    then have "step l (rows, ns) = (rows, ns @ [new l])" using Cons.prems(2) [of l] by simp
    then show ?thesis using IH Cons.prems(1) False by (auto split: option.splits)
  qed
qed simp

lemma kept_rows:
  assumes rows: "distinct (map rkey (filter here rows))" and ls: "distinct (map lkey ls)"
    and view: "\<And>l r. lkey l = rkey r \<Longrightarrow> view (fill l r) = lview l"
    and known: "\<And>r. here r \<Longrightarrow> r \<in> set rows \<Longrightarrow> rkey r \<in> E" "\<And>k. k \<in> E \<Longrightarrow> \<exists>r \<in> set rows. here r \<and> rkey r = k"
  shows "mset (map (\<lambda>r. view (case find (\<lambda>l. lkey l = rkey r) ls of
      Some l \<Rightarrow> if here r \<and> rkey r \<in> E then fill l r else r | None \<Rightarrow> r))
      (filter (\<lambda>r. here r \<and> rkey r \<in> lkey ` set ls) rows)) = mset (map lview (filter (\<lambda>l. lkey l \<in> E) ls))"
proof -
  let ?kept = "filter (\<lambda>r. here r \<and> rkey r \<in> lkey ` set ls) rows"
  let ?pick = "\<lambda>r. the (find (\<lambda>l. lkey l = rkey r) ls)"
  have found: "find (\<lambda>m. lkey m = lkey l) ls = Some l" if "l \<in> set ls" for l
    by (rule find_key_distinct [OF ls that])
  have picked: "?pick r \<in> set ls \<and> lkey (?pick r) = rkey r \<and> find (\<lambda>l. lkey l = rkey r) ls = Some (?pick r)"
    if "rkey r \<in> lkey ` set ls" for r
    using that found by (metis imageE option.sel)
  have viewed: "map (\<lambda>r. view (case find (\<lambda>l. lkey l = rkey r) ls of
      Some l \<Rightarrow> if here r \<and> rkey r \<in> E then fill l r else r | None \<Rightarrow> r)) ?kept = map lview (map ?pick ?kept)"
    unfolding map_map comp_def
  proof (rule map_cong [OF refl])
    fix r assume r: "r \<in> set ?kept"
    then have E: "here r \<and> rkey r \<in> E" and "rkey r \<in> lkey ` set ls" using known(1) by simp_all
    then have p: "find (\<lambda>l. lkey l = rkey r) ls = Some (?pick r)" and k: "lkey (?pick r) = rkey r"
      using picked by blast+
    show "view (case find (\<lambda>l. lkey l = rkey r) ls of
        Some l \<Rightarrow> if here r \<and> rkey r \<in> E then fill l r else r | None \<Rightarrow> r) = lview (?pick r)"
      by (subst p) (simp only: option.case E if_True simp_thms view [OF k])
  qed
  have "distinct (map ?pick ?kept)"
  proof -
    have "distinct (map rkey ?kept)" using distinct_map_filter [OF rows, of "\<lambda>r. rkey r \<in> lkey ` set ls"]
      by (simp add: conj_commute)
    moreover have "map rkey ?kept = map lkey (map ?pick ?kept)"
      unfolding map_map comp_def by (rule map_cong [OF refl]) (use picked in simp)
    ultimately have "distinct (map lkey (map ?pick ?kept))" by (simp only:)
    then show ?thesis unfolding distinct_map [of lkey] by (rule conjunct1)
  qed
  moreover have "set (map ?pick ?kept) = set (filter (\<lambda>l. lkey l \<in> E) ls)"
  proof (intro equalityI subsetI)
    fix l assume "l \<in> set (map ?pick ?kept)"
    then obtain r where "r \<in> set rows" "here r" "rkey r \<in> lkey ` set ls" "l = ?pick r" by auto
    then show "l \<in> set (filter (\<lambda>l. lkey l \<in> E) ls)" using picked known(1) by simp
  next
    fix l assume l: "l \<in> set (filter (\<lambda>l. lkey l \<in> E) ls)"
    then obtain r where r: "r \<in> set rows" "here r" "rkey r = lkey l" using known(2) by auto
    with l have "r \<in> set ?kept" "l \<in> set ls" by auto
    moreover have "?pick r = l" using found [OF \<open>l \<in> set ls\<close>] r(3) by simp
    ultimately have "r \<in> set ?kept" "?pick r = l" by blast+
    then have "?pick r \<in> set (map ?pick ?kept)" unfolding set_map by (intro imageI)
    with \<open>?pick r = l\<close> show "l \<in> set (map ?pick ?kept)" by (simp only:)
  qed
  moreover have "distinct (filter (\<lambda>l. lkey l \<in> E) ls)" using ls by (simp add: distinct_map)
  ultimately have "mset (map ?pick ?kept) = mset (filter (\<lambda>l. lkey l \<in> E) ls)"
    using set_eq_iff_mset_eq_distinct by blast
  then show ?thesis unfolding viewed by (simp only: mset_map)
qed

lemma filter_refreshed:
  assumes "\<And>r. here (g r) = here r" "\<And>r. rkey (g r) = rkey r" "\<And>r. here r \<Longrightarrow> r \<in> set rows \<Longrightarrow> rkey r \<in> E"
    and "\<And>r. r \<in> set fresh \<Longrightarrow> here r \<and> rkey r \<in> S"
  shows "filter here (filter (\<lambda>r. \<not> (here r \<and> rkey r \<in> E \<and> rkey r \<notin> S)) (map g rows @ fresh)) =
    map g (filter (\<lambda>r. here r \<and> rkey r \<in> S) rows) @ fresh"
proof -
  have "filter here (filter (\<lambda>r. \<not> (here r \<and> rkey r \<in> E \<and> rkey r \<notin> S)) (map g rows)) = map g (filter (\<lambda>r. here r \<and> rkey r \<in> S) rows)"
    unfolding filter_map filter_filter comp_def assms(1,2) by (rule arg_cong [OF filter_cong [OF refl]]) (use assms(3) in blast)
  moreover have "filter here (filter (\<lambda>r. \<not> (here r \<and> rkey r \<in> E \<and> rkey r \<notin> S)) fresh) = fresh"
    unfolding filter_filter filter_id_conv using assms(4) by blast
  ultimately show ?thesis unfolding filter_append by (simp only:)
qed

lemma filter_untouched:
  assumes "\<And>r. other r \<Longrightarrow> \<not> here r" "\<And>r. \<not> here r \<Longrightarrow> g r = r" "\<And>r. other (g r) = other r" "\<And>r. here (g r) = here r"
    and "\<And>r. r \<in> set fresh \<Longrightarrow> here r"
  shows "filter other (filter (\<lambda>r. \<not> (here r \<and> rkey r \<in> E \<and> rkey r \<notin> S)) (map g rows @ fresh)) = filter other rows"
proof -
  have "filter other (filter (\<lambda>r. \<not> (here r \<and> rkey r \<in> E \<and> rkey r \<notin> S)) fresh) = []"
    using assms(1,5) by (auto simp: filter_empty_conv)
  moreover have "filter other (filter (\<lambda>r. \<not> (here r \<and> rkey r \<in> E \<and> rkey r \<notin> S)) (map g rows)) = map g (filter other rows)"
    unfolding filter_map filter_filter comp_def assms(3,4) by (rule arg_cong [OF filter_cong [OF refl]]) (use assms(1) in blast)
  moreover have "map g (filter other rows) = filter other rows"
    by (rule map_idI) (use assms(1,2) in simp)
  ultimately show ?thesis unfolding filter_append by (simp only: append_Nil2)
qed

lemma replace_ledgers_exact:
  assumes rows: "distinct (map ledger_unique (ledger_caches d))"
    and ls: "distinct (map (\<lambda>l. py_casekey (tld_name l)) ls)" "\<forall>l \<in> set ls. py_casekey (tld_name l) \<noteq> []"
  shows "\<exists>rs. replace_cached_ledgers cid company ls now d = Inr (d\<lparr>ledger_caches := rs\<rparr>) \<and>
    mset (map ledger_view (filter (ledger_in cid (py_casekey company)) rs)) =
      mset (map (\<lambda>l. \<lparr>tld_name = py_strip (tld_name l), tld_parent = py_strip (tld_parent l), tld_balance = py_strip (tld_balance l)\<rparr>) ls) \<and>
    (\<forall>c k. (c, k) \<noteq> (cid, py_casekey company) \<longrightarrow> filter (ledger_in c k) rs = filter (ledger_in c k) (ledger_caches d))"
proof -
  define key where "key = py_casekey company"
  define here where "here = ledger_in cid key"
  define lkey where "lkey = (\<lambda>l :: tally_ledger. py_casekey (tld_name l))"
  define E where "E = set (map tlc_ledger_key (filter here (ledger_caches d)))"
  define lview where "lview = (\<lambda>l :: tally_ledger. \<lparr>tld_name = py_strip (tld_name l), tld_parent = py_strip (tld_parent l),
    tld_balance = py_strip (tld_balance l)\<rparr>)"
  define fill where "fill = (\<lambda>l. fill_ledger (py_strip company) l now)"
  define new where "new = map (\<lambda>l. new_ledger cid (py_strip company) l now) (filter (\<lambda>l. lkey l \<notin> E) ls)"
  define g where "g = (\<lambda>r. case find (\<lambda>l. lkey l = tlc_ledger_key r) ls of
     Some l \<Rightarrow> if here r \<and> tlc_ledger_key r \<in> E then fill l r else r | None \<Rightarrow> r)"
  have strip_key [simp]: "py_casekey (py_strip company) = key" by (simp add: key_def py_casekey_def)
  have E_set: "set (map tlc_ledger_key (filter here (ledger_caches d))) = E" by (simp add: E_def)
  have loop: "fold (refresh_ledger cid (py_strip company) now (map tlc_ledger_key (filter here (ledger_caches d)))) ls
      (ledger_caches d, []) = (map g (ledger_caches d), new)"
    using refresh_fold [of lkey ls tlc_ledger_key fill here "refresh_ledger cid (py_strip company) now
        (map tlc_ledger_key (filter here (ledger_caches d)))" E "\<lambda>l. new_ledger cid (py_strip company) l now" "ledger_caches d" "[]"]
      ls by (simp add: g_def new_def fill_def fill_ledger_def lkey_def here_def ledger_in_def refresh_ledger_def E_set [symmetric])
  have g_keys [simp]: "ledger_unique (g r) = ledger_unique r" "ledger_in c k (g r) = ledger_in c k r" "here (g r) = here r"
      "tlc_ledger_key (g r) = tlc_ledger_key r" for r c k
    by (simp_all add: g_def fill_def fill_ledger_def ledger_unique_def ledger_in_def here_def split: option.splits)
  have g_other: "g r = r" if "\<not> here r" for r using that by (simp add: g_def split: option.splits)
  have hereE: "here r \<Longrightarrow> r \<in> set (ledger_caches d) \<Longrightarrow> tlc_ledger_key r \<in> E" for r by (simp add: E_def)
  have uniq_here: "ledger_unique r = (cid, key, tlc_ledger_key r) \<longleftrightarrow> here r" for r
    by (auto simp: ledger_unique_def here_def ledger_in_def)
  have uniq_new: "map ledger_unique new = map (\<lambda>l. (cid, key, lkey l)) (filter (\<lambda>l. lkey l \<notin> E) ls)"
    by (simp add: new_def ledger_unique_def new_ledger_def lkey_def)
  have uniq_id: "ledger_unique (r\<lparr>tlc_id := i\<rparr>) = ledger_unique r" for i :: nat and r by (simp add: ledger_unique_def)
  have "distinct (map ledger_unique new)"
    unfolding uniq_new using ls(1) by (auto simp: distinct_map lkey_def inj_on_def)
  moreover have "set (map ledger_unique new) \<inter> set (map ledger_unique (map g (ledger_caches d))) = {}"
  proof -
    have "(cid, key, lkey l) \<noteq> ledger_unique r" if "lkey l \<notin> E" "r \<in> set (ledger_caches d)" for l r
    proof
      assume eq: "(cid, key, lkey l) = ledger_unique r"
      then have "lkey l = tlc_ledger_key r" by (simp add: ledger_unique_def)
      with eq have "here r" using uniq_here by metis
      with hereE [OF _ that(2)] that(1) \<open>lkey l = tlc_ledger_key r\<close> show False by simp
    qed
    then show ?thesis unfolding uniq_new by auto
  qed
  ultimately obtain ids where ids: "length ids = length new"
      "insert_rows tlc_id (\<lambda>i r. r\<lparr>tlc_id := i\<rparr>) ledger_unique ''tally_ledger_cache'' new (map g (ledger_caches d)) =
        Inr (map g (ledger_caches d) @ map2 (\<lambda>i r. r\<lparr>tlc_id := i\<rparr>) ids new)"
    using insert_rows_ok [of ledger_unique "\<lambda>i r. r\<lparr>tlc_id := i\<rparr>", OF uniq_id] by blast
  define fresh where "fresh = map2 (\<lambda>i r. r\<lparr>tlc_id := i\<rparr>) ids new"
  define rs where "rs = filter (\<lambda>r. \<not> (here r \<and> tlc_ledger_key r \<in> E \<and> tlc_ledger_key r \<notin> lkey ` set ls)) (map g (ledger_caches d) @ fresh)"
  have "filter (\<lambda>k. k \<noteq> []) (map lkey ls) = map lkey ls"
    using ls(2) by (simp add: filter_id_conv lkey_def)
  then have result: "replace_cached_ledgers cid company ls now d = Inr (d\<lparr>ledger_caches := rs\<rparr>)"
    unfolding replace_cached_ledgers_def Let_def strip_key here_def [symmetric] lkey_def [symmetric] loop fst_conv snd_conv
    by (simp add: ids(2) rs_def fresh_def E_set [symmetric] cong: filter_cong)
  have fresh_view: "map ledger_view fresh = map lview (filter (\<lambda>l. lkey l \<notin> E) ls)"
    unfolding fresh_def by (subst map_numbered [OF ids(1)]) (simp_all add: ledger_view_def new_def new_ledger_def lview_def)
  have fresh_unique: "map ledger_unique fresh = map (\<lambda>l. (cid, key, lkey l)) (filter (\<lambda>l. lkey l \<notin> E) ls)"
    unfolding fresh_def uniq_new [symmetric] by (rule map_numbered) (rule ids(1), rule uniq_id)
  have fresh_here: "here r \<and> tlc_ledger_key r \<in> lkey ` set ls" if "r \<in> set fresh" for r
  proof -
    have "ledger_unique r \<in> set (map ledger_unique fresh)" using that by simp
    then obtain l where "l \<in> set ls" "ledger_unique r = (cid, key, lkey l)" unfolding fresh_unique by auto
    then show ?thesis using uniq_here [of r] by (auto simp: ledger_unique_def)
  qed
  have stored: "mset (map ledger_view (filter here rs)) = mset (map lview ls)"
  proof -
    have "filter here rs = map g (filter (\<lambda>r. here r \<and> tlc_ledger_key r \<in> lkey ` set ls) (ledger_caches d)) @ fresh"
      unfolding rs_def by (rule filter_refreshed) (use hereE fresh_here in simp_all)
    moreover have "mset (map (\<lambda>r. ledger_view (g r)) (filter (\<lambda>r. here r \<and> tlc_ledger_key r \<in> lkey ` set ls) (ledger_caches d))) =
        mset (map lview (filter (\<lambda>l. lkey l \<in> E) ls))"
      unfolding g_def
    proof (rule kept_rows)
      show "distinct (map tlc_ledger_key (filter here (ledger_caches d)))"
        using rows uniq_here by (auto simp: distinct_map inj_on_def) metis
    qed (use ls(1) hereE in \<open>auto simp: lkey_def ledger_view_def fill_def fill_ledger_def lview_def E_def\<close>)
    moreover have "mset (map lview ls) = mset (map lview (filter (\<lambda>l. lkey l \<in> E) ls)) + mset (map lview (filter (\<lambda>l. lkey l \<notin> E) ls))"
      by (metis image_mset_union mset_filter mset_map multiset_partition)
    ultimately show ?thesis by (simp add: fresh_view comp_def del: mset_map)
  qed
  have others: "filter (ledger_in c k) rs = filter (ledger_in c k) (ledger_caches d)" if "(c, k) \<noteq> (cid, key)" for c k
    unfolding rs_def
  proof (rule filter_untouched)
    show "\<not> here r" if "ledger_in c k r" for r using that \<open>(c, k) \<noteq> (cid, key)\<close> unfolding here_def ledger_in_def by blast
  qed (rule g_other g_keys fresh_here [THEN conjunct1]; assumption?)+
  show ?thesis
    by (rule exI [of _ rs], intro conjI allI impI)
       (rule result, rule stored [unfolded here_def key_def lview_def], rule others [unfolded key_def])
qed

text \<open>What \<open>fetch_tally_ledgers\<close> hands over is trimmed, named, and free of double names.\<close>

lemma node_name_trimmed [simp]: "py_strip (node_name n) = node_name n"
  by (simp add: node_name_def Let_def direct_text_def text_among_def split: option.splits)

lemma direct_text_trimmed [simp]: "py_strip (direct_text n ts) = direct_text n ts"
  by (simp add: direct_text_def text_among_def split: option.splits)

lemma py_lower_Nil_iff [simp]: "py_lower s = [] \<longleftrightarrow> s = []"
  by (simp add: py_lower_def)

lemma fetched_ledgers:
  assumes "fetch_tally_ledgers parse st company reply = Inr ls"
  shows "distinct (map (\<lambda>l. py_casekey (tld_name l)) ls) \<and>
    (\<forall>l \<in> set ls. py_casekey (tld_name l) \<noteq> [] \<and> py_strip (tld_name l) = tld_name l \<and> py_strip (tld_parent l) = tld_parent l \<and>
      py_strip (tld_balance l) = tld_balance l)"
proof -
  obtain doc where ls: "ls = sort_key (\<lambda>l. py_lower (tld_name l)) (map ledger_of_node (first_named [] (elements [''LEDGER''] doc)))"
    using assms by (auto simp: fetch_tally_ledgers_def split: if_splits)
  have "distinct (map (\<lambda>l. py_casekey (tld_name l)) (map ledger_of_node (first_named [] (elements [''LEDGER''] doc))))"
    using first_named_distinct [of "[]" "elements [''LEDGER''] doc"] by (simp add: comp_def py_casekey_def ledger_of_node_def)
  moreover have "mset (map (\<lambda>l. py_casekey (tld_name l)) ls) =
      mset (map (\<lambda>l. py_casekey (tld_name l)) (map ledger_of_node (first_named [] (elements [''LEDGER''] doc))))"
    unfolding ls mset_map mset_sort by (rule refl)
  ultimately have "distinct (map (\<lambda>l. py_casekey (tld_name l)) ls)"
    using mset_eq_imp_distinct_iff by blast
  moreover have "\<forall>l \<in> set ls. py_casekey (tld_name l) \<noteq> [] \<and> py_strip (tld_name l) = tld_name l \<and> py_strip (tld_parent l) = tld_parent l \<and>
      py_strip (tld_balance l) = tld_balance l"
    using first_named_distinct [of "[]" "elements [''LEDGER''] doc"] by (auto simp: ls ledger_of_node_def py_casekey_def)
  ultimately show ?thesis by blast
qed

text \<open>
  C27. A ledger refresh makes the cache hold exactly what Tally sent: after the answer to the ledger
  request has been stored for a company, the cached list of that company is the fetched list,
  entry for entry, whatever the cache held before, and the lists of all other companies are as
  they were.
\<close>

theorem cache_refresh_exact:
  assumes "fetch_tally_ledgers parse st company reply = Inr ls" "distinct (map ledger_unique (ledger_caches d))"
  shows "\<exists>d'. replace_cached_ledgers cid company ls now d = Inr d' \<and> mset (cached_ledgers d' cid company) = mset ls \<and>
    (\<forall>c other. (c, py_casekey other) \<noteq> (cid, py_casekey company) \<longrightarrow> cached_ledgers d' c other = cached_ledgers d c other)"
proof -
  note fetched = fetched_ledgers [OF assms(1)]
  have same: "map (\<lambda>l. \<lparr>tld_name = py_strip (tld_name l), tld_parent = py_strip (tld_parent l), tld_balance = py_strip (tld_balance l)\<rparr>) ls = ls"
    by (rule map_idI) (use fetched in simp)
  obtain rs where "replace_cached_ledgers cid company ls now d = Inr (d\<lparr>ledger_caches := rs\<rparr>)"
      "mset (map ledger_view (filter (ledger_in cid (py_casekey company)) rs)) = mset ls"
      "\<forall>c k. (c, k) \<noteq> (cid, py_casekey company) \<longrightarrow> filter (ledger_in c k) rs = filter (ledger_in c k) (ledger_caches d)"
    using replace_ledgers_exact [OF assms(2), of ls cid company now] fetched unfolding same by blast
  then show ?thesis
    by (intro exI [of _ "d\<lparr>ledger_caches := rs\<rparr>"]) (simp add: cached_ledgers_def)
qed

lemma refresh_vouchers:
  "map voucher_unique (fst (fold (refresh_voucher cid company a b now ids existing) vs s)) = map voucher_unique (fst s) \<and>
   set (snd s) \<subseteq> set (snd (fold (refresh_voucher cid company a b now ids existing) vs s)) \<and>
   (\<forall>v \<in> set vs. voucher_identity v \<notin> set existing \<longrightarrow>
     new_voucher cid company v now \<in> set (snd (fold (refresh_voucher cid company a b now ids existing) vs s)))"
proof (induction vs arbitrary: s)
  case (Cons v vs)
  have "map voucher_unique (fst (refresh_voucher cid company a b now ids existing v s)) = map voucher_unique (fst s)"
    by (auto simp: refresh_voucher_def map_upd_rows voucher_unique_def fill_voucher_def)
  moreover have "set (snd s) \<subseteq> set (snd (refresh_voucher cid company a b now ids existing v s))"
    by (auto simp: refresh_voucher_def)
  moreover have "voucher_identity v \<notin> set existing \<Longrightarrow>
      new_voucher cid company v now \<in> set (snd (refresh_voucher cid company a b now ids existing v s))"
    by (simp add: refresh_voucher_def)
  ultimately show ?case using Cons.IH [of "refresh_voucher cid company a b now ids existing v s"] by auto
qed simp

text \<open>
  A sales voucher that moves into the requested dates breaks the refresh: when Tally sends a
  voucher whose identity the cache already holds for this company under a date outside the
  window (its date was edited in Tally), the refresh ends in an integrity error, and so does every
  repetition of it, since nothing is stored.
\<close>

theorem redated_voucher_breaks_refresh:
  assumes "v \<in> set vs" "r \<in> set (voucher_caches d)" "voucher_in cid (py_casekey company) r" "tvc_remote_id r = voucher_identity v"
    and "\<not> voucher_between a b r"
    and "distinct (map voucher_unique (voucher_caches d))"
  shows "replace_cached_sales_book cid company a b vs now d =
    Inl (IntegrityError ''UNIQUE constraint failed: tally_sales_voucher_cache'')"
proof -
  define existing_rows where "existing_rows = filter (\<lambda>r. voucher_in cid (py_casekey company) r \<and> voucher_between a b r) (voucher_caches d)"
  have "tvc_remote_id r \<notin> set (map tvc_remote_id existing_rows)"
  proof
    assume "tvc_remote_id r \<in> set (map tvc_remote_id existing_rows)"
    then obtain q where q: "q \<in> set (voucher_caches d)" "voucher_in cid (py_casekey company) q" "voucher_between a b q"
        "tvc_remote_id q = tvc_remote_id r" by (auto simp: existing_rows_def)
    then have "voucher_unique q = voucher_unique r" using assms(3) by (simp add: voucher_in_def voucher_unique_def)
    then have "q = r" using q(1) assms(2,6) by (auto simp: distinct_map inj_on_def)
    with q(3) assms(5) show False by simp
  qed
  then have "new_voucher cid (py_strip company) v now \<in> set (snd (fold (refresh_voucher cid (py_strip company) a b now
      (map tvc_id existing_rows) (map tvc_remote_id existing_rows)) vs (voucher_caches d, [])))"
    using refresh_vouchers assms(1,4) by metis
  moreover have "voucher_unique (new_voucher cid (py_strip company) v now) = voucher_unique r"
    using assms(3,4) by (simp add: voucher_unique_def new_voucher_def voucher_in_def py_casekey_def)
  then have "voucher_unique (new_voucher cid (py_strip company) v now) \<in> set (map voucher_unique (fst (fold (refresh_voucher cid
      (py_strip company) a b now (map tvc_id existing_rows) (map tvc_remote_id existing_rows)) vs (voucher_caches d, []))))"
    using refresh_vouchers [of cid "py_strip company" a b now "map tvc_id existing_rows" "map tvc_remote_id existing_rows" vs
      "(voucher_caches d, [])"] assms(2) by (metis fst_conv image_eqI set_map)
  ultimately show ?thesis
    by (simp add: replace_cached_sales_book_def Let_def py_casekey_def [of "py_strip company"] py_casekey_def [of company, symmetric]
      existing_rows_def [symmetric] insert_rows_clash)
qed

end
