(* ===== verification/TallyJobs.thy ===== *)
theory TallyJobs
  imports TallyCache
begin

text \<open>
  The queue of read requests to Tally, \<open>app/services/tally_jobs.py\<close>: a web request
  enqueues, a worker claims the oldest job under a lease, runs it and stores the outcome.
  \<open>digest\<close> is SHA-256 of a text and \<open>loads\<close> the reader \<open>json.loads\<close>
  (\<open>None\<close> is its error); times are arguments.
\<close>

definition COMPANIES_JOB :: string where "COMPANIES_JOB = ''companies''"
definition LEDGERS_JOB :: string where "LEDGERS_JOB = ''ledgers''"
definition STOCK_LOCATIONS_JOB :: string where "STOCK_LOCATIONS_JOB = ''stock_locations''"
definition SALES_BOOK_JOB :: string where "SALES_BOOK_JOB = ''sales_book''"

definition TALLY_DATA_JOB_TYPES :: "string list" where
  "TALLY_DATA_JOB_TYPES = [COMPANIES_JOB, LEDGERS_JOB, STOCK_LOCATIONS_JOB, SALES_BOOK_JOB]"

definition job_active :: "tally_data_job \<Rightarrow> bool" where
  "job_active j \<longleftrightarrow> job_status j \<in> {''queued'', ''running''}"

definition job_terminal :: "tally_data_job \<Rightarrow> bool" where
  "job_terminal j \<longleftrightarrow> job_status j \<in> {''succeeded'', ''failed''}"

definition MAX_ACTIVE_TALLY_DATA_JOBS :: nat where "MAX_ACTIVE_TALLY_DATA_JOBS = 20"
definition TALLY_DATA_JOB_LEASE :: moment where "TALLY_DATA_JOB_LEASE = seconds 60"
definition TALLY_DATA_JOB_RETENTION :: moment where "TALLY_DATA_JOB_RETENTION = minutes (24 * 60)"

section \<open>Texts\<close>

definition object_or_empty :: "json option \<Rightarrow> json" where
  "object_or_empty v = (case v of Some (JObj kvs) \<Rightarrow> JObj kvs | _ \<Rightarrow> JObj [])"

definition decode_job_payload :: "(string \<Rightarrow> json option) \<Rightarrow> tally_data_job \<Rightarrow> json" where
  "decode_job_payload loads j = object_or_empty (loads (job_payload j))"

definition decode_job_result :: "(string \<Rightarrow> json option) \<Rightarrow> tally_data_job \<Rightarrow> json" where
  "decode_job_result loads j =
     object_or_empty (loads (if text_of (job_result j) = [] then ''{}'' else text_of (job_result j)))"

definition request_key :: "(string \<Rightarrow> string) \<Rightarrow> string \<Rightarrow> nat \<Rightarrow> json \<Rightarrow> string" where
  "request_key digest jt cid payload =
     digest (dumps True (JObj [(''job_type'', JStr jt), (''company_id'', JInt (int cid)), (''payload'', payload)]))"

definition request_payload :: "settings_map \<Rightarrow> string \<Rightarrow> day option \<Rightarrow> day option \<Rightarrow> json" where
  "request_payload st tally_company a b =
     JObj ([(''settings'', JObj [(''tally_host'', JStr (text_of (st ''tally_host''))), (''tally_port'', JStr (text_of (st ''tally_port'')))]),
        (''tally_company'', JStr (py_strip tally_company))] @
       (case a of None \<Rightarrow> [] | Some n \<Rightarrow> [(''from_date'', JStr (iso_date n))]) @
       (case b of None \<Rightarrow> [] | Some n \<Rightarrow> [(''to_date'', JStr (iso_date n))]))"

section \<open>Enqueueing\<close>

definition oldest :: "tally_data_job list \<Rightarrow> tally_data_job option" where
  "oldest js = (case sort_key job_created_at js of [] \<Rightarrow> None | j # _ \<Rightarrow> Some j)"

definition purge_jobs :: "moment \<Rightarrow> tally_data_job list \<Rightarrow> tally_data_job list" where
  "purge_jobs now js = filter (\<lambda>j. \<not> (job_terminal j \<and>
     (case job_completed_at j of None \<Rightarrow> False | Some t \<Rightarrow> t < now - TALLY_DATA_JOB_RETENTION))) js"

definition queue_tally_data_job ::
  "(string \<Rightarrow> string) \<Rightarrow> string \<Rightarrow> nat \<Rightarrow> nat option \<Rightarrow> settings_map \<Rightarrow> string \<Rightarrow> day option \<Rightarrow> day option \<Rightarrow> moment \<Rightarrow> db \<Rightarrow>
   exc + tally_data_job \<times> db"
where
  "queue_tally_data_job digest jt cid uid st tally_company a b now d =
    (let payload = request_payload st tally_company a b; key = request_key digest jt cid payload
     in if jt \<notin> set TALLY_DATA_JOB_TYPES then Inl (ValueError (''Unsupported Tally data job: '' @ jt))
        else (case oldest (filter (\<lambda>j. job_request_key j = key \<and> job_active j) (data_jobs d)) of
            Some j \<Rightarrow> Inr (j, d)
          | None \<Rightarrow>
              if MAX_ACTIVE_TALLY_DATA_JOBS \<le> count_rows job_active (data_jobs d) then
                Inl (QueueFull ''The Tally data queue is full. Wait for the current requests to finish.'')
              else (let js = purge_jobs now (data_jobs d);
                        j = \<lparr>job_id = next_id job_id js, job_request_key = key, job_type = jt, job_company_id = cid,
                          job_requested_by_id = uid, job_status = ''queued'', job_payload = dumps True payload, job_result = None,
                          job_error = None, job_created_at = now, job_started_at = None, job_completed_at = None\<rparr>
                    in Inr (j, d\<lparr>data_jobs := js @ [j]\<rparr>))))"

section \<open>Claiming and finishing\<close>

definition job_available :: "moment \<Rightarrow> tally_data_job \<Rightarrow> bool" where
  "job_available now j \<longleftrightarrow> job_status j = ''queued'' \<or>
     (job_status j = ''running'' \<and> (case job_started_at j of None \<Rightarrow> False | Some t \<Rightarrow> t \<le> now - TALLY_DATA_JOB_LEASE))"

definition start_job :: "moment \<Rightarrow> tally_data_job \<Rightarrow> tally_data_job" where
  "start_job now j = j\<lparr>job_status := ''running'', job_started_at := Some now, job_error := None\<rparr>"

text \<open>The conditional update claims nothing when another worker was faster; \<open>e\<close> is the store it finds.\<close>

definition claim_job :: "moment \<Rightarrow> tally_data_job \<Rightarrow> db \<Rightarrow> tally_data_job option \<times> db" where
  "claim_job now j e =
    (let p = (\<lambda>r. job_id r = job_id j \<and> job_available now r); e' = e\<lparr>data_jobs := upd_rows p (start_job now) (data_jobs e)\<rparr>
     in if count_rows p (data_jobs e) = 0 then (None, e) else (find (\<lambda>r. job_id r = job_id j) (data_jobs e'), e'))"

definition claim_next_job :: "moment \<Rightarrow> db \<Rightarrow> tally_data_job option \<times> db" where
  "claim_next_job now d =
    (case oldest (filter (job_available now) (data_jobs d)) of None \<Rightarrow> (None, d) | Some j \<Rightarrow> claim_job now j d)"

definition finish_job :: "nat \<Rightarrow> json option \<Rightarrow> string option \<Rightarrow> moment \<Rightarrow> db \<Rightarrow> db" where
  "finish_job i result err now d =
    (case find (\<lambda>j. job_id j = i) (data_jobs d) of
       None \<Rightarrow> d
     | Some j \<Rightarrow>
         if job_status j \<noteq> ''running'' then d
         else d\<lparr>data_jobs := upd_rows (\<lambda>r. job_id r = i) (\<lambda>r. r\<lparr>
            job_status := (if text_of err \<noteq> [] then ''failed'' else ''succeeded''),
            job_result := (if err = None then Some (dumps True (case result of None \<Rightarrow> JObj [] | Some v \<Rightarrow> v)) else None),
            job_error := err, job_completed_at := Some now\<rparr>) (data_jobs d)\<rparr>)"

section \<open>Running a job\<close>

definition job_settings :: "json \<Rightarrow> settings_map" where
  "job_settings payload k = (case jget ''settings'' payload of JObj kvs \<Rightarrow> map_option py_str (map_of (rev kvs) k) | _ \<Rightarrow> None)"

text \<open>\<open>date.fromisoformat(str(...))\<close>; the text of its error is that of an unreadable date.\<close>

definition job_date :: "string \<Rightarrow> json \<Rightarrow> exc + day" where
  "job_date k payload =
    (let s = py_str (jget_or k payload (JStr []))
     in case from_iso_format s of None \<Rightarrow> Inl (ValueError (''Invalid isoformat string: '' @ repr_string s)) | Some n \<Rightarrow> Inr n)"

definition location_json :: "tally_location \<Rightarrow> json" where
  "location_json l = JObj [(''name'', JStr (tlo_name l)), (''parent'', JStr (tlo_parent l))]"

definition execute_job ::
  "(string \<Rightarrow> json option) \<Rightarrow> (string \<Rightarrow> xml option) \<Rightarrow> gateway_reply \<Rightarrow> tally_data_job \<Rightarrow> moment \<Rightarrow> db \<Rightarrow> exc + json \<times> db"
where
  "execute_job loads parse reply j now d =
    (let payload = decode_job_payload loads j; st = job_settings payload;
         company = py_strip (py_str (jget_or ''tally_company'' payload (JStr [])))
     in if job_type j = COMPANIES_JOB then
          bind_res (fetch_tally_companies parse st reply) (\<lambda>names. Inr (JObj [(''companies'', JList (map JStr names))], d))
        else if job_type j = LEDGERS_JOB then
          bind_res (fetch_tally_ledgers parse st company reply) (\<lambda>ls.
            bind_res (replace_cached_ledgers (job_company_id j) company ls now d) (\<lambda>e.
              Inr (JObj [(''count'', JInt (int (length ls)))], e)))
        else if job_type j = STOCK_LOCATIONS_JOB then
          bind_res (fetch_tally_stock_locations parse st company reply) (\<lambda>ls. Inr (JObj [(''locations'', JList (map location_json ls))], d))
        else if job_type j = SALES_BOOK_JOB then
          bind_res (job_date ''from_date'' payload) (\<lambda>a.
            bind_res (job_date ''to_date'' payload) (\<lambda>b.
              bind_res (fetch_tally_sales_book parse st company a b reply) (\<lambda>vs.
                bind_res (replace_cached_sales_book (job_company_id j) company a b vs now d) (\<lambda>e.
                  Inr (JObj [(''count'', JInt (int (length vs)))], e)))))
        else Inl (ValueError (''Unsupported Tally data job: '' @ job_type j)))"

definition failure_text :: "exc \<Rightarrow> string" where
  "failure_text e = (case e of TallyDataError m \<Rightarrow> m | _ \<Rightarrow> ''Tally data request failed: '' @ exc_text e)"

text \<open>One turn of the worker; the first component is the number of jobs it took.\<close>

definition process_pending_tally_data_job ::
  "(string \<Rightarrow> json option) \<Rightarrow> (string \<Rightarrow> xml option) \<Rightarrow> gateway_reply \<Rightarrow> moment \<Rightarrow> db \<Rightarrow> nat \<times> db"
where
  "process_pending_tally_data_job loads parse reply now d =
    (case claim_next_job now d of
       (None, e) \<Rightarrow> (0, e)
     | (Some j, e) \<Rightarrow>
         (case execute_job loads parse reply j now e of
            Inl x \<Rightarrow> (1, finish_job (job_id j) None (Some (failure_text x)) now e)
          | Inr (result, f) \<Rightarrow> (1, finish_job (job_id j) (Some result) None now f)))"

section \<open>The life of the queue\<close>

text \<open>
  What happens to the stored jobs: a request enqueues; a worker claims a job it read at some
  earlier moment; a worker finishes a job, whoever holds it by now; everything else leaves the
  jobs alone.
\<close>

inductive job_step :: "(string \<Rightarrow> string) \<Rightarrow> db \<Rightarrow> db \<Rightarrow> bool" for digest where
  enqueued: "queue_tally_data_job digest jt cid uid st company a b now d = Inr (j, d') \<Longrightarrow> job_step digest d d'"
| claimed: "claim_job now j d = (r, d') \<Longrightarrow> job_step digest d d'"
| finished: "job_step digest d (finish_job i result err now d)"
| elsewhere: "data_jobs d' = data_jobs d \<Longrightarrow> job_step digest d d'"

definition jobs_ok :: "db \<Rightarrow> bool" where
  "jobs_ok d \<longleftrightarrow> distinct (map job_id (data_jobs d)) \<and> count_rows job_active (data_jobs d) \<le> MAX_ACTIVE_TALLY_DATA_JOBS \<and>
     distinct (map job_request_key (filter job_active (data_jobs d)))"

lemma oldest_in: "oldest js = Some j \<Longrightarrow> j \<in> set js"
  unfolding oldest_def by (metis (no_types, lifting) list.case_eq_if list.set_sel(1) option.discI option.inject set_sort)

lemma oldest_None_iff: "oldest js = None \<longleftrightarrow> js = []"
  by (metis (no_types, lifting) list.case_eq_if oldest_def option.discI set_empty set_sort)

lemma claim_next_is_claim:
  "claim_next_job now d = (None, d) \<or> (\<exists>j \<in> set (data_jobs d). claim_next_job now d = claim_job now j d)"
proof (cases "oldest (filter (job_available now) (data_jobs d))")
  case (Some j)
  then have "j \<in> set (data_jobs d)" using oldest_in by fastforce
  with Some show ?thesis by (auto simp: claim_next_job_def)
qed (simp add: claim_next_job_def)

lemma active_upd_rows:
  assumes "\<And>r. r \<in> set js \<Longrightarrow> p r \<Longrightarrow> job_active (f r) \<Longrightarrow> job_active r" "\<And>r. job_request_key (f r) = job_request_key r"
  shows "count_rows job_active (upd_rows p f js) \<le> count_rows job_active js \<and>
    set (map job_request_key (filter job_active (upd_rows p f js))) \<subseteq> set (map job_request_key (filter job_active js)) \<and>
    (distinct (map job_request_key (filter job_active js)) \<longrightarrow> distinct (map job_request_key (filter job_active (upd_rows p f js))))"
  using assms(1)
proof (induction js)
  case (Cons j js)
  have "\<And>r. r \<in> set js \<Longrightarrow> p r \<Longrightarrow> job_active (f r) \<Longrightarrow> job_active r" using Cons.prems by simp
  from Cons.IH [OF this] have "count_rows job_active (upd_rows p f js) \<le> count_rows job_active js"
    "set (map job_request_key (filter job_active (upd_rows p f js))) \<subseteq> set (map job_request_key (filter job_active js))"
    "distinct (map job_request_key (filter job_active js)) \<longrightarrow> distinct (map job_request_key (filter job_active (upd_rows p f js)))"
    by blast+
  then show ?case using Cons.prems [of j] assms(2) [of j] by (auto simp: upd_rows_Cons count_rows_def)
qed simp

lemma jobs_ok_upd:
  assumes "jobs_ok d" "\<And>r. r \<in> set (data_jobs d) \<Longrightarrow> p r \<Longrightarrow> job_active r"
    and "\<And>r. job_request_key (f r) = job_request_key r" "\<And>r. job_id (f r) = job_id r"
  shows "jobs_ok (d\<lparr>data_jobs := upd_rows p f (data_jobs d)\<rparr>)"
  using assms(1) active_upd_rows [of "data_jobs d" p f] assms(2-4) by (auto simp: jobs_ok_def map_upd_rows)

lemma jobs_ok_queue:
  assumes "queue_tally_data_job digest jt cid uid st company a b now d = Inr (j, d')" "jobs_ok d"
  shows "jobs_ok d'"
proof -
  define js where "js = purge_jobs now (data_jobs d)"
  define key where "key = request_key digest jt cid (request_payload st company a b)"
  have jt: "jt \<in> set TALLY_DATA_JOB_TYPES" using assms(1) by (auto simp: queue_tally_data_job_def Let_def split: if_splits)
  have active: "filter job_active js = filter job_active (data_jobs d)"
    by (auto simp: js_def purge_jobs_def job_active_def job_terminal_def intro!: filter_cong)
  show ?thesis
  proof (cases "oldest (filter (\<lambda>j. job_request_key j = key \<and> job_active j) (data_jobs d))")
    case (Some k)
    then show ?thesis using assms jt by (simp add: queue_tally_data_job_def Let_def key_def)
  next
    case None
    then have room: "count_rows job_active (data_jobs d) < MAX_ACTIVE_TALLY_DATA_JOBS"
      using assms(1) jt by (auto simp: queue_tally_data_job_def Let_def key_def split: if_splits)
    then have d': "d' = d\<lparr>data_jobs := js @ [j]\<rparr>" and j: "job_id j = next_id job_id js" "job_request_key j = key"
      using assms(1) jt None by (auto simp: queue_tally_data_job_def Let_def key_def js_def)
    have "key \<notin> set (map job_request_key (filter job_active (data_jobs d)))"
      using None by (auto simp: oldest_None_iff filter_empty_conv)
    moreover have "distinct (map job_id js)"
      using assms(2) by (simp add: js_def purge_jobs_def jobs_ok_def distinct_map_filter)
    ultimately show ?thesis
      using assms(2) room j next_id_notin [of job_id js] active by (auto simp: d' jobs_ok_def count_rows_def)
  qed
qed

lemma jobs_ok_step:
  assumes "job_step digest d d'" "jobs_ok d"
  shows "jobs_ok d'"
  using assms(1)
proof (cases rule: job_step.cases)
  case enqueued
  then show ?thesis using jobs_ok_queue assms(2) by blast
next
  case (claimed now j r)
  let ?p = "\<lambda>r. job_id r = job_id j \<and> job_available now r"
  have "jobs_ok (d\<lparr>data_jobs := upd_rows ?p (start_job now) (data_jobs d)\<rparr>)"
    by (rule jobs_ok_upd [OF assms(2)]) (auto simp: job_available_def job_active_def start_job_def)
  with claimed assms(2) show ?thesis by (auto simp: claim_job_def Let_def split: if_splits)
next
  case (finished i result err now)
  show ?thesis
  proof (cases "find (\<lambda>j. job_id j = i) (data_jobs d)")
    case (Some k)
    have k: "r = k" if "r \<in> set (data_jobs d)" "job_id r = i" for r
      using that find_SomeD [OF Some] assms(2) by (auto simp: jobs_ok_def distinct_map inj_on_def)
    show ?thesis
    proof (cases "job_status k = ''running''")
      case True
      have active: "job_active r" if "r \<in> set (data_jobs d)" "job_id r = i" for r
        using k [OF that] True by (simp add: job_active_def)
      show ?thesis unfolding finished finish_job_def Some option.case True
        by (simp only: simp_thms if_False) (rule jobs_ok_upd [OF assms(2)]; simp add: active)
    qed (simp add: finished finish_job_def Some assms(2))
  qed (simp add: finished finish_job_def assms(2))
next
  case elsewhere
  then show ?thesis using assms(2) by (simp add: jobs_ok_def)
qed

text \<open>
  C28. The queue of read requests is bounded and free of repetitions: however requests, claims,
  late finishes and other work interleave, there are never more than twenty unfinished jobs, no
  two unfinished jobs answer the same request, and no two jobs share an id.
\<close>

theorem job_queue_bounded:
  assumes "(job_step digest)\<^sup>*\<^sup>* d d'" "data_jobs d = []"
  shows "count_rows job_active (data_jobs d') \<le> 20 \<and> distinct (map job_request_key (filter job_active (data_jobs d'))) \<and>
    distinct (map job_id (data_jobs d'))"
proof -
  have "jobs_ok d" using assms(2) by (simp add: jobs_ok_def count_rows_def)
  with assms(1) have "jobs_ok d'" by (induction rule: rtranclp_induct) (auto intro: jobs_ok_step)
  then show ?thesis by (simp add: jobs_ok_def MAX_ACTIVE_TALLY_DATA_JOBS_def)
qed

text \<open>A claimed job cannot be claimed again before its lease has run out.\<close>

lemma claimed_once:
  assumes "claim_job now j d = (Some x, e)" "now' < now + TALLY_DATA_JOB_LEASE" "distinct (map job_id (data_jobs d))"
  shows "claim_job now' j e = (None, e)"
proof -
  let ?p = "\<lambda>r. job_id r = job_id j \<and> job_available now r"
  have e: "data_jobs e = upd_rows ?p (start_job now) (data_jobs d)" and "\<exists>r \<in> set (data_jobs d). ?p r"
    using assms(1) by (auto simp: claim_job_def Let_def count_rows_zero_iff split: if_splits)
  then obtain r where r: "r \<in> set (data_jobs d)" "?p r" by blast
  have "\<not> (job_id q = job_id j \<and> job_available now' q)" if "q \<in> set (data_jobs e)" for q
  proof
    assume q: "job_id q = job_id j \<and> job_available now' q"
    obtain o' where o: "o' \<in> set (data_jobs d)" "q = (if ?p o' then start_job now o' else o')"
      using \<open>q \<in> set (data_jobs e)\<close> unfolding e set_upd_rows by blast
    then have "job_id o' = job_id j" using q by (auto simp: start_job_def split: if_splits)
    then have "o' = r" using o(1) r assms(3) by (auto simp: distinct_map inj_on_def)
    then show False using o(2) q r(2) assms(2) by (simp add: start_job_def job_available_def)
  qed
  then have "count_rows (\<lambda>r. job_id r = job_id j \<and> job_available now' r) (data_jobs e) = 0"
    by (simp add: count_rows_zero_iff)
  then show ?thesis by (simp add: claim_job_def Let_def)
qed

end
