(* ===== verification/Security.thy ===== *)
theory Security
  imports Store Access Analytics
begin

text \<open>
  Who is asking: passwords and session cookies, \<open>app/security.py\<close>, and the checks every
  page makes, \<open>app/auth.py\<close>.  A byte is a character.  \<open>pbkdf2\<close> (password, salt,
  iterations) and \<open>mac\<close> (the keyed digest of a text) stand for the standard library's
  \<open>hashlib\<close> and \<open>hmac\<close>, \<open>loads\<close> for \<open>json.loads\<close>; salts and times are
  arguments.
\<close>

section \<open>Base 64\<close>

definition b64_char :: "nat \<Rightarrow> char" where
  "b64_char n = (if n < 26 then char_of (65 + n) else if n < 52 then char_of (71 + n)
     else if n < 62 then char_of (n - 4) else if n = 62 then CHR ''-'' else CHR ''_'')"

text \<open>The decoder's table; it takes the two letters of both alphabets and skips every other character.\<close>

definition b64_val :: "char \<Rightarrow> nat option" where
  "b64_val c =
    (let n = of_char c :: nat
     in if 65 \<le> n \<and> n \<le> 90 then Some (n - 65) else if 97 \<le> n \<and> n \<le> 122 then Some (n - 71)
        else if 48 \<le> n \<and> n \<le> 57 then Some (n + 4) else if n = 45 \<or> n = 43 then Some 62
        else if n = 95 \<or> n = 47 then Some 63 else None)"

fun b64 :: "string \<Rightarrow> string" where
  "b64 [] = []"
| "b64 [a] = (let x = of_char a in [b64_char (x div 4), b64_char (x mod 4 * 16)])"
| "b64 [a, b] = (let x = of_char a; y = of_char b in
     [b64_char (x div 4), b64_char (x mod 4 * 16 + y div 16), b64_char (y mod 16 * 4)])"
| "b64 (a # b # c # r) = (let x = of_char a; y = of_char b; z = of_char c in
     [b64_char (x div 4), b64_char (x mod 4 * 16 + y div 16), b64_char (y mod 16 * 4 + z div 64), b64_char (z mod 64)] @ b64 r)"

text \<open>
  \<open>binascii.a2b_base64\<close>: \<open>k\<close> characters of the current group of four are read,
  \<open>left\<close> holds the bits still to be written and \<open>pads\<close> counts padding; padding that
  completes a group ends the input.
\<close>

fun a2b :: "nat \<Rightarrow> nat \<Rightarrow> nat \<Rightarrow> string \<Rightarrow> string \<Rightarrow> string option" where
  "a2b k left pads acc [] = (if k = 0 then Some (rev acc) else None)"
| "a2b k left pads acc (c # cs) =
     (if c = CHR ''='' then
        (if 2 \<le> k then (if 4 \<le> k + Suc pads then Some (rev acc) else a2b k left (Suc pads) acc cs) else a2b k left pads acc cs)
      else (case b64_val c of
          None \<Rightarrow> a2b k left pads acc cs
        | Some v \<Rightarrow>
            if k = 0 then a2b 1 v 0 acc cs
            else if k = 1 then a2b 2 (v mod 16) 0 (char_of (left * 4 + v div 16) # acc) cs
            else if k = 2 then a2b 3 (v mod 4) 0 (char_of (left * 16 + v div 4) # acc) cs
            else a2b 0 0 0 (char_of (left * 64 + v) # acc) cs))"

definition unb64 :: "string \<Rightarrow> string option" where
  "unb64 s = a2b 0 0 0 [] (s @ replicate ((4 - length s mod 4) mod 4) (CHR ''=''))"

section \<open>Passwords\<close>

definition MIN_PASSWORD_LENGTH :: nat where "MIN_PASSWORD_LENGTH = 12"
definition MAX_PASSWORD_LENGTH :: nat where "MAX_PASSWORD_LENGTH = 1024"
definition PASSWORD_HASH_ITERATIONS :: int where "PASSWORD_HASH_ITERATIONS = 600000"
definition LEGACY_PASSWORD_HASH_ITERATIONS :: int where "LEGACY_PASSWORD_HASH_ITERATIONS = 260000"

definition utf8 :: "string \<Rightarrow> string" where
  "utf8 s = concat (map (\<lambda>c. let n = of_char c :: nat in
     if n < 128 then [c] else [char_of (192 + n div 64), char_of (128 + n mod 64)]) s)"

definition hash_password :: "(string \<Rightarrow> string \<Rightarrow> int \<Rightarrow> string) \<Rightarrow> string \<Rightarrow> string \<Rightarrow> string" where
  "hash_password pbkdf2 salt password =
     ''pbkdf2_sha256$'' @ int_str PASSWORD_HASH_ITERATIONS @ ''$'' @ b64 salt @ ''$'' @
     b64 (pbkdf2 (utf8 password) salt PASSWORD_HASH_ITERATIONS)"

definition password_hash_parts :: "string \<Rightarrow> (int \<times> string \<times> string) option" where
  "password_hash_parts h =
    (let checked = (\<lambda>algorithm iterations salt digest.
           if algorithm \<noteq> ''pbkdf2_sha256'' \<or> iterations < LEGACY_PASSWORD_HASH_ITERATIONS \<or> 10000000 < iterations then None
           else Some (iterations, salt, digest))
     in case py_split_on (CHR ''$'') h of
          [algorithm, salt, digest] \<Rightarrow> checked algorithm LEGACY_PASSWORD_HASH_ITERATIONS salt digest
        | [algorithm, raw, salt, digest] \<Rightarrow> (case py_int raw of None \<Rightarrow> None | Some n \<Rightarrow> checked algorithm n salt digest)
        | _ \<Rightarrow> None)"

definition verify_password :: "(string \<Rightarrow> string \<Rightarrow> int \<Rightarrow> string) \<Rightarrow> string \<Rightarrow> string \<Rightarrow> bool" where
  "verify_password pbkdf2 password h =
    (case password_hash_parts h of None \<Rightarrow> False
     | Some (iterations, salt_text, digest_text) \<Rightarrow>
         (case (unb64 salt_text, unb64 digest_text) of
            (Some salt, Some expected) \<Rightarrow>
              16 \<le> length salt \<and> length expected = 32 \<and> pbkdf2 (utf8 password) salt iterations = expected
          | _ \<Rightarrow> False))"

definition password_hash_needs_upgrade :: "string \<Rightarrow> bool" where
  "password_hash_needs_upgrade h =
    (case password_hash_parts h of None \<Rightarrow> True | Some (n, _, _) \<Rightarrow> n \<noteq> PASSWORD_HASH_ITERATIONS)"

definition password_policy_error :: "string \<Rightarrow> string option" where
  "password_policy_error password =
    (if length password < MIN_PASSWORD_LENGTH then Some (''Password must be at least '' @ nat_str MIN_PASSWORD_LENGTH @ '' characters.'')
     else if MAX_PASSWORD_LENGTH < length password then Some (''Password must be at most '' @ nat_str MAX_PASSWORD_LENGTH @ '' characters.'')
     else None)"

section \<open>Session cookies\<close>

definition unix_seconds :: "moment \<Rightarrow> int" where
  "unix_seconds t = t div 1000000"

definition session_text :: "nat \<Rightarrow> int \<Rightarrow> nat \<Rightarrow> string" where
  "session_text uid expires version =
     ''{'' @ json_string True ''sub'' @ '':'' @ nat_str uid @ '','' @ json_string True ''exp'' @ '':'' @ int_str expires @ '','' @
     json_string True ''ver'' @ '':'' @ nat_str version @ ''}''"

definition create_session_token :: "(string \<Rightarrow> string) \<Rightarrow> int \<Rightarrow> nat \<Rightarrow> nat \<Rightarrow> moment \<Rightarrow> string" where
  "create_session_token mac timeout_minutes uid version now =
    (let body = b64 (session_text uid (unix_seconds (now + minutes timeout_minutes)) version)
     in body @ ''.'' @ b64 (mac body))"

text \<open>\<open>token.rsplit(".", 1)\<close>\<close>

definition rsplit_dot :: "string \<Rightarrow> (string \<times> string) option" where
  "rsplit_dot token =
    (let r = rev token; tail = takeWhile (\<lambda>c. c \<noteq> CHR ''.'') r
     in if CHR ''.'' \<in> set token then Some (rev (drop (Suc (length tail)) r), rev tail) else None)"

text \<open>\<open>int(value)\<close> of a value of the payload.\<close>

fun claim_int :: "json \<Rightarrow> int option" where
  "claim_int (JInt n) = Some n"
| "claim_int (JBool b) = Some (if b then 1 else 0)"
| "claim_int (JFloat x) = Some (if 0 \<le> x then \<lfloor>x\<rfloor> else \<lceil>x\<rceil>)"
| "claim_int (JStr s) = py_int s"
| "claim_int v = None"

definition session_claims :: "moment \<Rightarrow> json \<Rightarrow> (int \<times> int) option" where
  "session_claims now payload =
    (case (claim_int (jget_or ''exp'' payload (JInt 0)), Option.bind (jfield ''sub'' payload) claim_int,
           claim_int (jget_or ''ver'' payload (JInt 0))) of
       (Some expires, Some uid, Some version) \<Rightarrow>
         if uid < 1 \<or> version < 0 \<or> expires \<le> unix_seconds now then None else Some (uid, version)
     | _ \<Rightarrow> None)"

text \<open>\<open>compare_digest\<close> takes texts of ASCII characters only, and raises on any other.\<close>

definition read_session_claims ::
  "(string \<Rightarrow> string) \<Rightarrow> (string \<Rightarrow> json option) \<Rightarrow> moment \<Rightarrow> string option \<Rightarrow> exc + (int \<times> int) option"
where
  "read_session_claims mac loads now token =
    (case rsplit_dot (text_of token) of
       None \<Rightarrow> Inr None
     | Some (body, signature) \<Rightarrow>
         if \<not> list_all (\<lambda>c. (of_char c :: nat) < 128) signature then
           Inl (TypeError ''comparing strings with non-ASCII characters is not supported'')
         else if signature \<noteq> b64 (mac body) then Inr None
         else (case Option.bind (unb64 body) loads of
             Some (JObj kvs) \<Rightarrow> Inr (session_claims now (JObj kvs))
           | _ \<Rightarrow> Inr None))"

definition read_session_token ::
  "(string \<Rightarrow> string) \<Rightarrow> (string \<Rightarrow> json option) \<Rightarrow> moment \<Rightarrow> string option \<Rightarrow> exc + int option"
where
  "read_session_token mac loads now token =
     bind_res (read_session_claims mac loads now token) (\<lambda>c. Inr (map_option fst c))"

section \<open>The checks of a page\<close>

datatype http_error = RedirectTo string | Forbidden string | Broken exc

definition current_user ::
  "(string \<Rightarrow> string) \<Rightarrow> (string \<Rightarrow> json option) \<Rightarrow> moment \<Rightarrow> string option \<Rightarrow> db \<Rightarrow> exc + user option"
where
  "current_user mac loads now cookie d =
     bind_res (read_session_claims mac loads now cookie) (\<lambda>claims.
       Inr (case claims of None \<Rightarrow> None
         | Some (uid, version) \<Rightarrow>
             (case get_user d (nat uid) of None \<Rightarrow> None
              | Some u \<Rightarrow> if \<not> usr_active u \<or> usr_deleted_at u \<noteq> None \<or> int (usr_session_version u) \<noteq> version then None else Some u)))"

definition password_change_path :: string where "password_change_path = ''/account/password''"

definition require_user ::
  "(string \<Rightarrow> string) \<Rightarrow> (string \<Rightarrow> json option) \<Rightarrow> moment \<Rightarrow> string option \<Rightarrow> string \<Rightarrow> role_arg option \<Rightarrow> db \<Rightarrow> http_error + user"
where
  "require_user mac loads now cookie path roles d =
    (case current_user mac loads now cookie d of
       Inl e \<Rightarrow> Inl (Broken e)
     | Inr None \<Rightarrow> Inl (RedirectTo ''/login'')
     | Inr (Some u) \<Rightarrow>
         if usr_must_change_password u \<and> path \<notin> {password_change_path, ''/logout''} then Inl (RedirectTo password_change_path)
         else if normalize_role_values (TextArg (usr_role u)) = [] then Inl (Forbidden ''Not allowed'')
         else (case roles of
             Some rs \<Rightarrow> if has_any_role (TextArg (usr_role u)) rs then Inr u else Inl (Forbidden ''Not allowed'')
           | None \<Rightarrow> Inr u))"

definition require_permission ::
  "(string \<Rightarrow> string) \<Rightarrow> (string \<Rightarrow> json option) \<Rightarrow> moment \<Rightarrow> string option \<Rightarrow> string \<Rightarrow> string \<Rightarrow> string list option \<Rightarrow> db \<Rightarrow>
   http_error + user"
where
  "require_permission mac loads now cookie path key allowed d =
     bind_res (require_user mac loads now cookie path None d) (\<lambda>u.
       if role_has_access loads d (TextArg (usr_role u)) key allowed then Inr u else Inl (Forbidden ''Not allowed''))"

definition get_user_by_username :: "db \<Rightarrow> string \<Rightarrow> user option" where
  "get_user_by_username d name = find (\<lambda>u. usr_username u = py_lower (py_strip name)) (users d)"

section \<open>What a cookie proves\<close>

lemma of_b64_char:
  assumes "n < 64"
  shows "of_char (b64_char n) =
    (if n < 26 then 65 + n else if n < 52 then 71 + n else if n < 62 then n - 4 else if n = 62 then 45 else (95 :: nat))"
  using assms by (simp add: b64_char_def)

lemma b64_char_is: "n < 64 \<Longrightarrow> of_char c = m \<Longrightarrow> m \<in> {36, 46, 61 :: nat} \<Longrightarrow> b64_char n \<noteq> c"
  using of_b64_char [of n] by (auto split: if_splits)

lemma b64_char_props [simp]:
  assumes "n < 64"
  shows "b64_val (b64_char n) = Some n" "b64_char n \<noteq> CHR ''=''" "b64_char n \<noteq> CHR ''.''" "b64_char n \<noteq> CHR ''$''"
    "(of_char (b64_char n) :: nat) < 128"
proof -
  show "b64_val (b64_char n) = Some n" unfolding b64_val_def Let_def of_b64_char [OF assms] using assms by (simp split: if_split) linarith?
  show "b64_char n \<noteq> CHR ''=''" "b64_char n \<noteq> CHR ''.''" "b64_char n \<noteq> CHR ''$''"
    by (rule b64_char_is [OF assms refl]; simp)+
  show "(of_char (b64_char n) :: nat) < 128" unfolding of_b64_char [OF assms] using assms by (simp split: if_split) linarith?
qed

lemma byte_split:
  fixes x y :: nat
  assumes "y < m"
  shows "(x * m + y) div m = x" "(x * m + y) mod m = y"
  using assms by simp_all

text \<open>The four groups of six bits of three bytes, and the bytes put together again.\<close>

lemma six_bits:
  fixes x y z :: nat
  assumes "x < 256" "y < 256" "z < 256"
  shows "x div 4 < 64" "x mod 4 * 16 < 64" "x mod 4 * 16 + y div 16 < 64" "y mod 16 * 4 < 64" "y mod 16 * 4 + z div 64 < 64" "z mod 64 < 64"
proof -
  have "x mod 4 < 4" "y mod 16 < 16" "y div 16 < 16" "z div 64 < 4" using assms by simp_all
  then show "x mod 4 * 16 < 64" "x mod 4 * 16 + y div 16 < 64" "y mod 16 * 4 < 64" "y mod 16 * 4 + z div 64 < 64" by linarith+
qed (use assms in simp_all)

lemma bytes_again:
  fixes x y z :: nat
  assumes "x < 256" "y < 256" "z < 256"
  shows "x div 4 * 4 + (x mod 4 * 16) div 16 = x" "x div 4 * 4 + (x mod 4 * 16 + y div 16) div 16 = x"
    "(x mod 4 * 16 + y div 16) mod 16 * 16 + (y mod 16 * 4) div 4 = y"
    "(x mod 4 * 16 + y div 16) mod 16 * 16 + (y mod 16 * 4 + z div 64) div 4 = y"
    "(y mod 16 * 4 + z div 64) mod 4 * 64 + z mod 64 = z"
proof -
  have "y div 16 < 16" "z div 64 < 4" using assms by simp_all
  then have s: "(x mod 4 * 16 + y div 16) div 16 = x mod 4" "(x mod 4 * 16 + y div 16) mod 16 = y div 16"
      "(y mod 16 * 4 + z div 64) div 4 = y mod 16" "(y mod 16 * 4 + z div 64) mod 4 = z div 64"
    by (simp_all only: byte_split)
  show "x div 4 * 4 + (x mod 4 * 16) div 16 = x" "x div 4 * 4 + (x mod 4 * 16 + y div 16) div 16 = x"
    "(x mod 4 * 16 + y div 16) mod 16 * 16 + (y mod 16 * 4) div 4 = y"
    "(x mod 4 * 16 + y div 16) mod 16 * 16 + (y mod 16 * 4 + z div 64) div 4 = y"
    "(y mod 16 * 4 + z div 64) mod 4 * 64 + z mod 64 = z"
    unfolding s by simp_all
qed

lemma a2b_letter:
  assumes "n < 64"
  shows "a2b 0 left pads acc (b64_char n # cs) = a2b 1 n 0 acc cs"
    "a2b 1 left pads acc (b64_char n # cs) = a2b 2 (n mod 16) 0 (char_of (left * 4 + n div 16) # acc) cs"
    "a2b 2 left pads acc (b64_char n # cs) = a2b 3 (n mod 4) 0 (char_of (left * 16 + n div 4) # acc) cs"
    "a2b 3 left pads acc (b64_char n # cs) = a2b 0 0 0 (char_of (left * 64 + n) # acc) cs"
  using assms by simp_all

lemmas byte_bits = six_bits [OF nat_of_char_less_256 nat_of_char_less_256 nat_of_char_less_256]
lemmas byte_back = bytes_again [OF nat_of_char_less_256 nat_of_char_less_256 nat_of_char_less_256]

lemma b64_letters: "list_all (\<lambda>c. \<exists>n < 64. c = b64_char n) (b64 s)"
proof (induction s rule: b64.induct)
  case (2 a)
  show ?case using byte_bits(1,2) [of a] by (simp only: b64.simps Let_def list.pred_inject) blast
next
  case (3 a b)
  show ?case using byte_bits(1) [of a] byte_bits(3) [of a b] byte_bits(4) [of b] by (simp only: b64.simps Let_def list.pred_inject) blast
next
  case (4 a b c r)
  from 4 [OF refl refl refl] show ?case
    using byte_bits(1) [of a] byte_bits(3) [of a b] byte_bits(5) [of b c] byte_bits(6) [of c]
    by (simp only: b64.simps Let_def list.pred_inject append.simps) blast
qed simp

lemma a2b_b64: "a2b 0 0 0 acc (b64 s @ replicate ((4 - length (b64 s) mod 4) mod 4) (CHR ''='')) = Some (rev acc @ s)"
proof (induction s arbitrary: acc rule: b64.induct)
  case (2 a)
  have pad: "replicate ((4 - length (b64 [a]) mod 4) mod 4) (CHR ''='') = ''==''" by (simp add: Let_def numeral_2_eq_2)
  show ?case unfolding pad
    by (simp only: b64.simps Let_def append.simps a2b_letter [OF byte_bits(1)] a2b_letter [OF byte_bits(2)] byte_back char_of_char) simp
next
  case (3 a b)
  have pad: "replicate ((4 - length (b64 [a, b]) mod 4) mod 4) (CHR ''='') = ''=''" by (simp add: Let_def)
  show ?case unfolding pad
    by (simp only: b64.simps Let_def append.simps a2b_letter [OF byte_bits(1)] a2b_letter [OF byte_bits(3)] a2b_letter [OF byte_bits(4)]
      byte_back char_of_char) simp
next
  case (4 a b c r)
  have "length (b64 (a # b # c # r)) mod 4 = length (b64 r) mod 4" by (simp add: Let_def)
  then show ?case using 4 [OF refl refl refl, of "c # b # a # acc"]
    by (simp only: b64.simps Let_def append.simps a2b_letter [OF byte_bits(1)] a2b_letter [OF byte_bits(3)] a2b_letter [OF byte_bits(5)]
      a2b_letter [OF byte_bits(6)] byte_back char_of_char) simp
qed simp

lemma unb64_b64 [simp]: "unb64 (b64 s) = Some s"
  by (simp add: unb64_def a2b_b64)

lemma b64_plain: "CHR ''.'' \<notin> set (b64 s)" "CHR ''$'' \<notin> set (b64 s)" "list_all (\<lambda>c. (of_char c :: nat) < 128) (b64 s)"
proof -
  have letter: "\<exists>n < 64. c = b64_char n" if "c \<in> set (b64 s)" for c
    using b64_letters [of s] that by (simp add: list_all_iff)
  show "CHR ''.'' \<notin> set (b64 s)" "CHR ''$'' \<notin> set (b64 s)"
    using letter b64_char_props(3,4) by metis+
  show "list_all (\<lambda>c. (of_char c :: nat) < 128) (b64 s)"
    unfolding list_all_iff using letter b64_char_props(5) by metis
qed

lemma rsplit_dot_join:
  assumes "CHR ''.'' \<notin> set sig"
  shows "rsplit_dot (body @ ''.'' @ sig) = Some (body, sig)"
proof -
  have "takeWhile (\<lambda>c. c \<noteq> CHR ''.'') (rev sig @ CHR ''.'' # rev body) = rev sig"
    using assms by (subst takeWhile_append2) auto
  then show ?thesis by (simp add: rsplit_dot_def Let_def)
qed

lemma rsplit_dot_parts:
  assumes "rsplit_dot token = Some (body, sig)"
  shows "token = body @ ''.'' @ sig"
proof -
  let ?r = "rev token" and ?p = "\<lambda>c. c \<noteq> CHR ''.''"
  have dot: "CHR ''.'' \<in> set ?r" and parts: "body = rev (drop (Suc (length (takeWhile ?p ?r))) ?r)" "sig = rev (takeWhile ?p ?r)"
    using assms by (auto simp: rsplit_dot_def Let_def split: if_splits)
  have ne: "dropWhile ?p ?r \<noteq> []" using dot by auto
  then have "hd (dropWhile ?p ?r) = CHR ''.''" using hd_dropWhile by blast
  then have "dropWhile ?p ?r = CHR ''.'' # drop (Suc (length (takeWhile ?p ?r))) ?r"
    using ne by (metis drop_Suc drop_drop dropWhile_eq_drop list.collapse tl_drop)
  then have "?r = takeWhile ?p ?r @ CHR ''.'' # drop (Suc (length (takeWhile ?p ?r))) ?r"
    by (metis takeWhile_dropWhile_id)
  then have "rev ?r = body @ ''.'' @ sig" unfolding parts by (metis append_Cons append_Nil append_assoc rev.simps(2) rev_append rev_rev_ident)
  then show ?thesis by simp
qed

lemma session_read:
  assumes "loads (session_text uid (unix_seconds (now + minutes timeout)) version) =
      Some (JObj [(''sub'', JInt (int uid)), (''exp'', JInt (unix_seconds (now + minutes timeout))), (''ver'', JInt (int version))])"
    and "0 < uid"
  shows "read_session_claims mac loads t (Some (create_session_token mac timeout uid version now)) =
    Inr (if unix_seconds t < unix_seconds (now + minutes timeout) then Some (int uid, int version) else None)"
proof -
  have "rsplit_dot (create_session_token mac timeout uid version now) =
      Some (b64 (session_text uid (unix_seconds (now + minutes timeout)) version),
        b64 (mac (b64 (session_text uid (unix_seconds (now + minutes timeout)) version))))"
    unfolding create_session_token_def Let_def by (rule rsplit_dot_join [OF b64_plain(1)])
  then show ?thesis
    using assms by (simp add: read_session_claims_def b64_plain(3) session_claims_def jget_or_def jfield_def text_of_def)
qed

text \<open>
  C29. A session cookie says who is signed in, until it expires: the cookie made for an account and
  a session version is read back as exactly that account and version before the session's end,
  and as nobody from then on.
\<close>

theorem session_cookie_round_trip:
  assumes "loads (session_text uid (unix_seconds (now + minutes timeout)) version) =
      Some (JObj [(''sub'', JInt (int uid)), (''exp'', JInt (unix_seconds (now + minutes timeout))), (''ver'', JInt (int version))])"
    and "0 < uid"
  shows "read_session_claims mac loads t (Some (create_session_token mac timeout uid version now)) =
    Inr (if unix_seconds t < unix_seconds (now + minutes timeout) then Some (int uid, int version) else None)"
  using assms by (rule session_read)

text \<open>Nobody is let in by a cookie whose signature is not the keyed digest of its body.\<close>

lemma accepted_cookie_is_signed:
  assumes "read_session_claims mac loads now (Some token) = Inr (Some c)"
  shows "\<exists>body. token = body @ ''.'' @ b64 (mac body)"
proof (cases "rsplit_dot token")
  case None
  then show ?thesis using assms by (simp add: read_session_claims_def text_of_def)
next
  case (Some p)
  obtain body sig where p: "p = (body, sig)" by (cases p)
  then have "sig = b64 (mac body)"
    using assms Some by (simp add: read_session_claims_def text_of_def split: if_splits)
  then show ?thesis using rsplit_dot_parts Some p by blast
qed

text \<open>A cookie with a character beyond ASCII in its signature ends in an exception instead of \<open>None\<close>.\<close>

lemma foreign_cookie_raises:
  assumes "CHR ''.'' \<notin> set sig" "c \<in> set sig" "128 \<le> (of_char c :: nat)"
  shows "require_user mac loads now (Some (body @ ''.'' @ sig)) path roles d =
    Inl (Broken (TypeError ''comparing strings with non-ASCII characters is not supported''))"
proof -
  have "\<not> list_all (\<lambda>c. (of_char c :: nat) < 128) sig" using assms(2,3) by (auto simp: list_all_iff not_less)
  then show ?thesis
    by (simp add: require_user_def current_user_def read_session_claims_def text_of_def rsplit_dot_join [OF assms(1), simplified])
qed

text \<open>A password is recognised by the hash made of it.\<close>

lemma py_split_on_none: "d \<notin> set s \<Longrightarrow> py_split_on d s = [s]"
  by (induction s) auto

lemma py_split_on_part: "d \<notin> set s \<Longrightarrow> py_split_on d (s @ d # r) = s # py_split_on d r"
  by (induction s) auto

lemma password_hash_parts_of:
  "password_hash_parts (hash_password pbkdf2 salt password) =
     Some (PASSWORD_HASH_ITERATIONS, b64 salt, b64 (pbkdf2 (utf8 password) salt PASSWORD_HASH_ITERATIONS))"
proof -
  have n: "int_str PASSWORD_HASH_ITERATIONS = ''600000''"
    by (simp add: int_str_def PASSWORD_HASH_ITERATIONS_def nat_str.simps digit_char_def char_of_def bit_0)
  have i: "py_int ''600000'' = Some PASSWORD_HASH_ITERATIONS"
    by (simp add: py_int_def strip_sign.simps py_strip_by_def py_space_def is_digit_def parse_nat_def digit_val_def PASSWORD_HASH_ITERATIONS_def)
  have not_in: "CHR ''$'' \<notin> set ''pbkdf2_sha256''" "CHR ''$'' \<notin> set ''600000''" by simp_all
  have "hash_password pbkdf2 salt password = ''pbkdf2_sha256'' @ CHR ''$'' # ''600000'' @ CHR ''$'' # b64 salt @ CHR ''$'' #
      b64 (pbkdf2 (utf8 password) salt PASSWORD_HASH_ITERATIONS)"
    by (simp add: hash_password_def n)
  then have "py_split_on (CHR ''$'') (hash_password pbkdf2 salt password) =
      [''pbkdf2_sha256'', ''600000'', b64 salt, b64 (pbkdf2 (utf8 password) salt PASSWORD_HASH_ITERATIONS)]"
    by (simp only: py_split_on_part [OF not_in(1)] py_split_on_part [OF not_in(2)] py_split_on_part [OF b64_plain(2)]
      py_split_on_none [OF b64_plain(2)])
  then show ?thesis
    by (simp add: password_hash_parts_def i Let_def) (simp add: PASSWORD_HASH_ITERATIONS_def LEGACY_PASSWORD_HASH_ITERATIONS_def)
qed

lemma password_round_trip:
  assumes "16 \<le> length salt" "length (pbkdf2 (utf8 password) salt PASSWORD_HASH_ITERATIONS) = 32"
  shows "verify_password pbkdf2 password (hash_password pbkdf2 salt password) \<and>
    \<not> password_hash_needs_upgrade (hash_password pbkdf2 salt password)"
  using assms by (simp add: verify_password_def password_hash_needs_upgrade_def password_hash_parts_of)

end
