(* ===== verification/TallyAccess.thy ===== *)
theory TallyAccess
  imports TallyMasters Access Analytics
begin

text \<open>
  Which companies, ledgers and Tally users an account may see,
  \<open>app/services/tally_access.py\<close>.  No assignment of a kind means no restriction of
  that kind; \<open>None\<close> of \<open>allowed_ledger_names\<close> is that case.
\<close>

definition resource_key :: "string \<Rightarrow> string" where
  "resource_key v = py_lower (py_strip v)"

definition access_key :: "nat \<Rightarrow> string \<Rightarrow> string" where
  "access_key cid v = nat_str cid @ '':'' @ resource_key v"

definition is_super_admin :: "user \<Rightarrow> bool" where
  "is_super_admin u \<longleftrightarrow> has_role (TextArg (usr_role u)) (RoleArg SUPER_ADMIN)"

definition assignments_for :: "db \<Rightarrow> user \<Rightarrow> string \<Rightarrow> user_tally_access list" where
  "assignments_for d u typ = (if is_super_admin u then []
     else filter (\<lambda>r. uta_user_id r = usr_id u \<and> uta_resource_type r = typ) (tally_access d))"

definition scoped_companies :: "db \<Rightarrow> user \<Rightarrow> company list" where
  "scoped_companies d u =
    (let own = assignments_for d u ''company''
     in filter (\<lambda>c. own = [] \<or> cmp_id c \<in> uta_company_id ` set own) (sort_key cmp_name (companies d)))"

definition can_access_company :: "db \<Rightarrow> user \<Rightarrow> nat \<Rightarrow> bool" where
  "can_access_company d u cid =
    (let own = assignments_for d u ''company'' in own = [] \<or> cid \<in> uta_company_id ` set own)"

text \<open>\<open>company.tally_company_name\<close> is the name \<open>tally_name\<close> configured for the company.\<close>

definition can_access_tally_company :: "db \<Rightarrow> user \<Rightarrow> nat \<Rightarrow> string \<Rightarrow> string \<Rightarrow> bool" where
  "can_access_tally_company d u cid tally_name asked =
    (let own = assignments_for d u ''company''
     in own = [] \<or> (cid \<in> uta_company_id ` set own \<and> py_strip tally_name \<noteq> [] \<and> resource_key asked = resource_key tally_name))"

definition filter_tally_company_names :: "db \<Rightarrow> user \<Rightarrow> nat \<Rightarrow> string \<Rightarrow> string list \<Rightarrow> string list" where
  "filter_tally_company_names d u cid tally_name names =
    (let own = assignments_for d u ''company''
     in if own = [] then names
        else if cid \<notin> uta_company_id ` set own then []
        else if resource_key tally_name = [] then []
        else filter (\<lambda>n. resource_key n = resource_key tally_name) names)"

definition keys_for :: "user_tally_access list \<Rightarrow> nat \<Rightarrow> string set" where
  "keys_for rows cid = uta_resource_key ` set (filter (\<lambda>r. uta_company_id r = cid) rows)"

definition allowed_ledger_names :: "db \<Rightarrow> user \<Rightarrow> nat \<Rightarrow> string set option" where
  "allowed_ledger_names d u cid =
    (let own = assignments_for d u ''ledger'' in if own = [] then None else Some (keys_for own cid))"

definition filter_ledgers :: "db \<Rightarrow> user \<Rightarrow> nat \<Rightarrow> tally_ledger list \<Rightarrow> tally_ledger list" where
  "filter_ledgers d u cid ls =
    (case allowed_ledger_names d u cid of None \<Rightarrow> ls | Some ok \<Rightarrow> filter (\<lambda>l. resource_key (tld_name l) \<in> ok) ls)"

definition filter_sales_vouchers :: "db \<Rightarrow> user \<Rightarrow> nat \<Rightarrow> tally_voucher list \<Rightarrow> tally_voucher list" where
  "filter_sales_vouchers d u cid vs =
    (let visible = (case allowed_ledger_names d u cid of None \<Rightarrow> vs | Some ok \<Rightarrow> filter (\<lambda>v. resource_key (tvo_party v) \<in> ok) vs);
         own = assignments_for d u ''tally_user''
     in if own = [] then visible else filter (\<lambda>v. resource_key (tvo_user v) \<in> keys_for own cid) visible)"

section \<open>Replacing the assignments of an account\<close>

text \<open>\<open>raw.partition(":")\<close>, the number before it and the name after it, for a company that exists.\<close>

definition tally_user_value :: "db \<Rightarrow> string \<Rightarrow> (nat \<times> string) option" where
  "tally_user_value d raw =
    (case split_at '':'' raw of None \<Rightarrow> None
     | Some (token, name) \<Rightarrow>
         if py_strip name = [] then None
         else (case py_int token of None \<Rightarrow> None
           | Some n \<Rightarrow> if 0 \<le> n \<and> nat n \<in> cmp_id ` set (companies d) then Some (nat n, py_strip name) else None))"

text \<open>The first row of every identity.\<close>

fun first_by :: "('x \<Rightarrow> 'k) \<Rightarrow> 'k list \<Rightarrow> 'x list \<Rightarrow> 'x list" where
  "first_by key seen [] = []"
| "first_by key seen (x # xs) =
     (if key x \<in> set seen then first_by key seen xs else x # first_by key (key x # seen) xs)"

definition new_grants :: "db \<Rightarrow> user \<Rightarrow> nat list \<Rightarrow> nat list \<Rightarrow> string list \<Rightarrow> (nat \<times> string \<times> string \<times> string) list" where
  "new_grants d u company_ids ledger_ids values =
     map (\<lambda>c. (cmp_id c, ''company'', nat_str (cmp_id c), cmp_name c)) (filter (\<lambda>c. cmp_id c \<in> set company_ids) (companies d)) @
     map (\<lambda>l. (tlc_company_id l, ''ledger'', resource_key (tlc_name l), tlc_name l))
       (first_by (\<lambda>l. (tlc_company_id l, resource_key (tlc_name l))) []
         (filter (\<lambda>l. tlc_id l \<in> set ledger_ids) (ledger_caches d))) @
     map (\<lambda>v. (fst v, ''tally_user'', resource_key (snd v), snd v))
       (first_by (\<lambda>v. (fst v, resource_key (snd v))) [] (List.map_filter (tally_user_value d) values))"

definition add_grant :: "user \<Rightarrow> nat \<times> string \<times> string \<times> string \<Rightarrow> db \<Rightarrow> db" where
  "add_grant u g d = (case g of (cid, typ, key, label) \<Rightarrow> d\<lparr>tally_access := tally_access d @
     [\<lparr>uta_id = next_id uta_id (tally_access d), uta_user_id = usr_id u, uta_company_id = cid, uta_resource_type = typ,
       uta_resource_key = key, uta_resource_label = label\<rparr>]\<rparr>)"

definition replace_user_access :: "user \<Rightarrow> nat list \<Rightarrow> nat list \<Rightarrow> string list \<Rightarrow> db \<Rightarrow> exc + db" where
  "replace_user_access u company_ids ledger_ids values d =
    (if is_super_admin u then Inl (ValueError ''Super admins always have unrestricted Tally access.'')
     else Inr (fold (add_grant u) (new_grants d u company_ids ledger_ids values)
            (d\<lparr>tally_access := filter (\<lambda>r. uta_user_id r \<noteq> usr_id u) (tally_access d)\<rparr>)))"

definition user_access_snapshot :: "db \<Rightarrow> nat \<Rightarrow> (nat \<times> string \<times> string) list" where
  "user_access_snapshot d uid = map (\<lambda>r. (uta_company_id r, uta_resource_type r, uta_resource_label r))
     (sort_key (\<lambda>r. (uta_resource_type r, uta_company_id r, uta_resource_label r)) (filter (\<lambda>r. uta_user_id r = uid) (tally_access d)))"

section \<open>The page\<close>

record user_access_row =
  uar_summary :: string
  uar_company_ids :: "nat list"
  uar_ledger_keys :: "string list"
  uar_user_keys :: "string list"
  uar_user_values :: "string list"

definition counted :: "nat \<Rightarrow> string \<Rightarrow> string \<Rightarrow> string list" where
  "counted n one many = (if n = 0 then [] else [nat_str n @ '' '' @ (if n = 1 then one else many)])"

text \<open>The separator of the labels is a blank, U+00B7 and a blank.\<close>

definition access_summary :: "user \<Rightarrow> user_tally_access list \<Rightarrow> string" where
  "access_summary u rows =
    (let n = (\<lambda>typ. count_rows (\<lambda>r. uta_resource_type r = typ) rows);
         labels = counted (n ''company'') ''company'' ''companies'' @ counted (n ''ledger'') ''ledger'' ''ledgers'' @
           counted (n ''tally_user'') ''Tally user'' ''Tally users''
     in if is_super_admin u then ''All Tally data (super admin)''
        else if labels = [] then ''All Tally data'' else py_join [CHR 0x20, CHR 0xB7, CHR 0x20] labels)"

definition user_access_row_of :: "db \<Rightarrow> user \<Rightarrow> user_access_row" where
  "user_access_row_of d u =
    (let rows = sort_key (\<lambda>r. (uta_user_id r, uta_resource_type r, uta_resource_label r)) (filter (\<lambda>r. uta_user_id r = usr_id u) (tally_access d));
         of_type = (\<lambda>typ. filter (\<lambda>r. uta_resource_type r = typ) rows)
     in \<lparr>uar_summary = access_summary u rows, uar_company_ids = map uta_company_id (of_type ''company''),
          uar_ledger_keys = map (\<lambda>r. access_key (uta_company_id r) (uta_resource_key r)) (of_type ''ledger''),
          uar_user_keys = map (\<lambda>r. access_key (uta_company_id r) (uta_resource_key r)) (of_type ''tally_user''),
          uar_user_values = map (\<lambda>r. nat_str (uta_company_id r) @ '':'' @ uta_resource_label r) (of_type ''tally_user'')\<rparr>)"

record access_page =
  acp_users :: "(nat \<times> user_access_row) list"
  acp_ledgers :: "ledger_cache list"
  acp_tally_users :: "(nat \<times> string) list"

definition access_page_data :: "db \<Rightarrow> user list \<Rightarrow> access_page" where
  "access_page_data d us = \<lparr>acp_users = map (\<lambda>u. (usr_id u, user_access_row_of d u)) us,
     acp_ledgers = sort_key (\<lambda>l. (tlc_company_id l, tlc_name l)) (ledger_caches d),
     acp_tally_users = sort (remdups (List.map_filter (\<lambda>v. if tvc_tally_user v = [] then None else Some (tvc_company_id v, tvc_tally_user v))
       (voucher_caches d)))\<rparr>"

section \<open>What a replacement leaves\<close>

lemma add_grants_access:
  "\<exists>ids. length ids = length gs \<and> tally_access (fold (add_grant u) gs d) = tally_access d @
     map (\<lambda>(i, cid, typ, key, label). \<lparr>uta_id = i, uta_user_id = usr_id u, uta_company_id = cid, uta_resource_type = typ,
       uta_resource_key = key, uta_resource_label = label\<rparr>) (zip ids gs)"
proof (induction gs arbitrary: d)
  case (Cons g gs)
  obtain cid knd key lbl where g: "g = (cid, knd, key, lbl)" by (cases g) auto
  obtain ids where "length ids = length gs" "tally_access (fold (add_grant u) gs (add_grant u g d)) = tally_access (add_grant u g d) @
     map (\<lambda>(i, cid, typ, key, label). \<lparr>uta_id = i, uta_user_id = usr_id u, uta_company_id = cid, uta_resource_type = typ,
       uta_resource_key = key, uta_resource_label = label\<rparr>) (zip ids gs)" using Cons.IH by blast
  moreover have "tally_access (add_grant u g d) = tally_access d @ [\<lparr>uta_id = next_id uta_id (tally_access d),
      uta_user_id = usr_id u, uta_company_id = cid, uta_resource_type = knd, uta_resource_key = key, uta_resource_label = lbl\<rparr>]"
    by (simp add: g add_grant_def)
  ultimately show ?case
    by (intro exI [of _ "next_id uta_id (tally_access d) # ids"]) (simp add: g)
qed simp

text \<open>
  An empty list of assignments is no restriction: a form whose ledgers are gone from the cache
  -- and which names no company and no Tally user that exists -- opens every ledger to the account.
\<close>

lemma stale_selection_opens:
  assumes "replace_user_access u cs ls vs d = Inr d'" "new_grants d u cs ls vs = []"
  shows "allowed_ledger_names d' u cid = None \<and> can_access_company d' u cid"
  using assms by (auto simp: replace_user_access_def allowed_ledger_names_def can_access_company_def assignments_for_def Let_def
    filter_empty_conv split: if_splits)

end
