(* ===== verification/BatchPages.thy ===== *)
theory BatchPages
  imports Security TallyAccess Voucher SaleReturns Audits ReportFormat
begin

text \<open>
  What the batch pages show, \<open>app/routers/batches.py\<close>: who may do what with which kind
  of batch, the choices of a form, and the state a page or a scan answer carries.  The fields of
  a page are those the code computes; the fields that only the Excel export reads are left out.
\<close>

section \<open>Permissions\<close>

definition action_key_for_batch :: "batch_type \<Rightarrow> string" where
  "action_key_for_batch t = (case t of
       B_PURCHASE \<Rightarrow> ''batch_purchase'' | B_RECEIVE \<Rightarrow> ''batch_purchase'' | B_SALE \<Rightarrow> ''batch_sale'' | B_AUDIT \<Rightarrow> ''batch_audit''
     | B_SALES_RETURN \<Rightarrow> ''batch_sales_return'' | B_PURCHASE_RETURN \<Rightarrow> ''batch_purchase_return'' | B_ISSUE \<Rightarrow> ''batch_issue''
     | B_QR_ASSIGNMENT \<Rightarrow> ''barcode_assignment'')"

definition data_key_for_batch :: "batch_type \<Rightarrow> string" where
  "data_key_for_batch t = (case t of
       B_PURCHASE \<Rightarrow> ''purchase_data'' | B_RECEIVE \<Rightarrow> ''purchase_data'' | B_SALE \<Rightarrow> ''sales_data'' | B_AUDIT \<Rightarrow> ''audit_data''
     | B_SALES_RETURN \<Rightarrow> ''sales_data'' | B_PURCHASE_RETURN \<Rightarrow> ''purchase_data'' | B_ISSUE \<Rightarrow> ''issue_data''
     | B_QR_ASSIGNMENT \<Rightarrow> ''barcode_assignment'')"

definition ADMIN_ROLES :: role_arg where
  "ADMIN_ROLES = ItemsArg [RoleItem ADMIN, RoleItem SUPER_ADMIN]"

definition can_use_manual_scan :: "(string \<Rightarrow> json option) \<Rightarrow> db \<Rightarrow> user \<Rightarrow> bool" where
  "can_use_manual_scan loads d u \<longleftrightarrow> has_any_role (TextArg (usr_role u)) ADMIN_ROLES \<and>
     role_has_access loads d (TextArg (usr_role u)) ''manual_serial_entry'' (Some [''edit'', ''yes''])"

definition scan_source_allowed :: "(string \<Rightarrow> json option) \<Rightarrow> db \<Rightarrow> user \<Rightarrow> string \<Rightarrow> bool" where
  "scan_source_allowed loads d u src \<longleftrightarrow> can_use_manual_scan loads d u \<or> src = ''camera''"

record batch_permissions =
  bpm_edit :: bool
  bpm_fefo :: bool
  bpm_tally_xml :: bool
  bpm_excel_export :: bool
  bpm_excel_import :: bool
  bpm_retry_sync :: bool
  bpm_attempts :: bool
  bpm_batch_list :: bool

definition batch_permission_context :: "(string \<Rightarrow> json option) \<Rightarrow> string \<Rightarrow> db \<Rightarrow> user \<Rightarrow> batch \<Rightarrow> batch_permissions" where
  "batch_permission_context loads app_mode d u b =
    (let role = TextArg (usr_role u); may = role_has_access loads d role; local_tally = app_mode \<noteq> ''lite'';
         can_edit = may (action_key_for_batch (bat_type b)) None; can_fefo = can_edit \<and> may ''fefo_pick'' (Some [''edit'', ''yes''])
     in \<lparr>bpm_edit = can_edit, bpm_fefo = can_fefo,
         bpm_tally_xml = (local_tally \<and> may ''tally_xml'' (Some [''edit'', ''yes''])),
         bpm_excel_export = (local_tally \<and> has_any_role role ADMIN_ROLES \<and> may ''tally_excel_export'' (Some [''edit'', ''yes''])),
         bpm_excel_import = (local_tally \<and> can_fefo),
         bpm_retry_sync = (local_tally \<and> may ''tally_sync_retry'' (Some [''edit'', ''yes''])),
         bpm_attempts = (local_tally \<and> may ''tally_attempts'' None), bpm_batch_list = may ''batch_list'' None\<rparr>)"

definition batch_types :: "batch_type list" where
  "batch_types = [B_PURCHASE, B_RECEIVE, B_SALE, B_AUDIT, B_PURCHASE_RETURN, B_SALES_RETURN, B_ISSUE, B_QR_ASSIGNMENT]"

definition parse_batch_type :: "string \<Rightarrow> batch_type option" where
  "parse_batch_type v = find (\<lambda>t. batch_type_value t = v) batch_types"

section \<open>The choices of a form\<close>

definition DEFAULT_UNREGISTERED_SALE_STATE :: string where
  "DEFAULT_UNREGISTERED_SALE_STATE = ''Karnataka''"

definition sale_gst_treatment_for_state :: "string option \<Rightarrow> string" where
  "sale_gst_treatment_for_state state =
    (let s = py_lower (py_strip (text_of state))
     in if s \<noteq> [] \<and> s \<noteq> py_lower DEFAULT_UNREGISTERED_SALE_STATE then gst_treatment_value INTER_STATE
        else gst_treatment_value INTRA_STATE)"

definition normalize_sale_gst_treatment :: "string \<Rightarrow> string option \<Rightarrow> exc + string" where
  "normalize_sale_gst_treatment v state =
    (let treatment = py_upper (py_strip v)
     in if treatment = [] then Inr (sale_gst_treatment_for_state state)
        else if treatment \<notin> {gst_treatment_value INTRA_STATE, gst_treatment_value INTER_STATE} then
          Inl (ValueError ''Choose either CGST + SGST or IGST for this sale.'')
        else Inr treatment)"

definition INDIAN_STATE_OPTIONS :: "string list" where
  "INDIAN_STATE_OPTIONS = [''Andaman and Nicobar Islands'', ''Andhra Pradesh'', ''Arunachal Pradesh'', ''Assam'', ''Bihar'',
     ''Chandigarh'', ''Chhattisgarh'', ''Dadra and Nagar Haveli and Daman and Diu'', ''Delhi'', ''Goa'', ''Gujarat'', ''Haryana'',
     ''Himachal Pradesh'', ''Jammu and Kashmir'', ''Jharkhand'', ''Karnataka'', ''Kerala'', ''Ladakh'', ''Lakshadweep'',
     ''Madhya Pradesh'', ''Maharashtra'', ''Manipur'', ''Meghalaya'', ''Mizoram'', ''Nagaland'', ''Odisha'', ''Puducherry'', ''Punjab'',
     ''Rajasthan'', ''Sikkim'', ''Tamil Nadu'', ''Telangana'', ''Tripura'', ''Uttar Pradesh'', ''Uttarakhand'', ''West Bengal'']"

definition GST_REGISTRATION_OPTIONS :: "(string \<times> string) list" where
  "GST_REGISTRATION_OPTIONS = map (\<lambda>v. (v, if v = gst_registration_value GR_REGULAR then ''Registered''
     else if v = gst_registration_value GR_UNREGISTERED_CONSUMER then ''Unregistered Consumer'' else v)) gst_registration_types"

text \<open>The serials of a product that a batch of this type could take now.\<close>

definition takeable :: "db \<Rightarrow> batch_type \<Rightarrow> nat \<Rightarrow> serial list" where
  "takeable d t pid = filter (\<lambda>s. ser_product_id s = pid \<and> ser_active s \<and> ser_status s \<in> set (fefo_available_statuses t) \<and>
     \<not> in_draft d (ser_id s)) (serials d)"

definition sale_product_options_for_type :: "db \<Rightarrow> batch_type \<Rightarrow> (product \<times> nat) list" where
  "sale_product_options_for_type d t =
    (if fefo_available_statuses t = [] then []
     else map (\<lambda>p. (p, length (takeable d t (prd_id p)))) (sort_key prd_code (filter prd_active (products d))))"

definition fefo_product_options_for_type :: "db \<Rightarrow> batch_type \<Rightarrow> (product \<times> nat) list" where
  "fefo_product_options_for_type d t =
    (if fefo_available_statuses t = [] then []
     else filter (\<lambda>(p, n). 0 < n) (map (\<lambda>p. (p, length (takeable d t (prd_id p)))) (sort_key prd_code (filter prd_active (products d)))))"

definition fefo_product_options :: "db \<Rightarrow> batch \<Rightarrow> (product \<times> nat) list" where
  "fefo_product_options d b = fefo_product_options_for_type d (bat_type b)"

definition party_types :: "batch_type \<Rightarrow> batch_type list" where
  "party_types t =
    (if t \<in> {B_SALE, B_SALES_RETURN} then [B_SALE, B_SALES_RETURN]
     else if t \<in> {B_PURCHASE, B_RECEIVE, B_PURCHASE_RETURN} then [B_PURCHASE, B_RECEIVE, B_PURCHASE_RETURN]
     else [])"

definition cached_party_names :: "db \<Rightarrow> batch_type \<Rightarrow> nat \<Rightarrow> string list" where
  "cached_party_names d t cid =
    (let parent = (if t \<in> {B_SALE, B_SALES_RETURN} then ''sundry debtors'' else ''sundry creditors'')
     in filter (\<lambda>n. n \<noteq> []) (map (\<lambda>r. py_strip (tlc_name r))
          (filter (\<lambda>r. tlc_company_id r = cid \<and> resource_key (tlc_parent r) = parent) (ledger_caches d))))"

text \<open>The names of a set, sorted without regard to case.\<close>

definition party_ledger_options :: "db \<Rightarrow> batch_type \<Rightarrow> user option \<Rightarrow> string list" where
  "party_ledger_options d t u =
    (if party_types t = [] then []
     else
       let own = filter (\<lambda>n. n \<noteq> []) (map (\<lambda>b. py_strip (text_of (bat_party_name b)))
             (filter (\<lambda>b. bat_type b \<in> set (party_types t)) (batches d)));
           names = (case get_active_company d of None \<Rightarrow> set own
             | Some c \<Rightarrow>
                 let all = set (own @ cached_party_names d t (cmp_id c))
                 in (case Option.bind u (\<lambda>x. allowed_ledger_names d x (cmp_id c)) of None \<Rightarrow> all
                     | Some allowed \<Rightarrow> {n \<in> all. resource_key n \<in> allowed}))
       in sort_key py_lower (sorted_list_of_set names))"

definition party_ledger_is_allowed :: "db \<Rightarrow> user \<Rightarrow> string \<Rightarrow> bool" where
  "party_ledger_is_allowed d u party =
    (case get_active_company d of None \<Rightarrow> True
     | Some c \<Rightarrow> (case allowed_ledger_names d u (cmp_id c) of None \<Rightarrow> True | Some allowed \<Rightarrow> resource_key party \<in> allowed))"

record form_page =
  fpg_type :: batch_type
  fpg_party_name :: string
  fpg_party_state :: string
  fpg_registration :: string
  fpg_gst_name :: string
  fpg_gstin :: string
  fpg_treatment :: string
  fpg_party_options :: "string list"
  fpg_assignments :: "audit_assignment list"
  fpg_assignment_id :: string
  fpg_notes :: string
  fpg_error :: "string option"

definition batch_form_context :: "form_page \<Rightarrow> form_page" where
  "batch_form_context f =
    (let registration = (if fpg_registration f = [] then gst_registration_value GR_UNREGISTERED_CONSUMER else fpg_registration f);
         state = (if fpg_type f = B_SALE \<and> fpg_party_state f = [] \<and> registration = gst_registration_value GR_UNREGISTERED_CONSUMER
           then DEFAULT_UNREGISTERED_SALE_STATE else fpg_party_state f);
         treatment = (if fpg_type f \<noteq> B_SALE then []
           else if fpg_treatment f \<noteq> [] then fpg_treatment f else sale_gst_treatment_for_state (Some state))
     in f\<lparr>fpg_registration := registration, fpg_party_state := state, fpg_treatment := treatment\<rparr>)"

section \<open>Lists\<close>

definition batch_list_scopes :: "(string \<times> string \<times> batch_type list) list" where
  "batch_list_scopes = [(''all'', ''batch_list'', []), (''purchase'', ''purchase_data'', [B_PURCHASE, B_RECEIVE]), (''sales'', ''sales_data'', [B_SALE])]"

definition batch_list_rows :: "db \<Rightarrow> batch_type list \<Rightarrow> batch list" where
  "batch_list_rows d ts =
     take 80 (rev (sort_key bat_created_at (rev (filter (\<lambda>b. ts = [] \<or> bat_type b \<in> set ts) (batches d)))))"

definition open_audit_assignments :: "moment \<Rightarrow> db \<Rightarrow> user \<Rightarrow> audit_assignment list" where
  "open_audit_assignments now d u =
     sort_key (\<lambda>a. (asg_ends_at a, asg_id a))
       (filter (\<lambda>a. asg_auditor_id a = usr_id u \<and> asg_starts_at a \<le> now \<and> now \<le> asg_ends_at a) (assignments d))"

section \<open>The state a scan answers with\<close>

text \<open>\<open>f"{x:.2f}"\<close>\<close>

definition two_places :: "rat \<Rightarrow> string" where
  "two_places x =
    (let n = round_half_even (x * 100); k = nat \<bar>n\<bar>
     in (if n < 0 then ''-'' else []) @ nat_str (k div 100) @ ''.'' @ zero_pad 2 (k mod 100))"

definition money_json :: "rat \<Rightarrow> json" where
  "money_json x = JStr (two_places x)"

definition line_json :: "voucher_line \<Rightarrow> json" where
  "line_json l =
    (let p = vln_product l
     in JObj [(''product_id'', JInt (int (prd_id p))), (''product_code'', JStr (prd_code p)), (''product_name'', JStr (prd_name p)),
       (''tally_stock_item_name'', JStr (prd_tally_name p)), (''hsn'', JStr (prd_hsn p)), (''quantity'', JInt (int (vln_quantity l))),
       (''unit'', JStr (prd_unit p)), (''rate'', money_json (vln_rate l)), (''discount_rate'', money_json (vln_discount_rate l)),
       (''discount_amount'', money_json (vln_discount_amount l)), (''taxable_value'', money_json (vln_taxable_value l)),
       (''cgst_amount'', money_json (vln_cgst_amount l)), (''sgst_amount'', money_json (vln_sgst_amount l)),
       (''igst_amount'', money_json (vln_igst_amount l)), (''line_total'', money_json (vln_line_total l))])"

definition summary_payload :: "db \<Rightarrow> batch \<Rightarrow> json" where
  "summary_payload d b =
    (let v = calculate_voucher_summary d b
     in JObj [(''lines'', JList (map line_json (vsm_lines v))), (''taxable_value'', money_json (vsm_taxable_value v)),
       (''cgst_amount'', money_json (vsm_cgst_amount v)), (''sgst_amount'', money_json (vsm_sgst_amount v)),
       (''igst_amount'', money_json (vsm_igst_amount v)), (''round_off'', money_json (vsm_round_off v)),
       (''final_value'', money_json (vsm_final_value v))])"

definition item_json :: "db \<Rightarrow> batch \<Rightarrow> batch_item \<Rightarrow> serial \<Rightarrow> product \<Rightarrow> json" where
  "item_json d b i s p =
    (let shelf = (bat_type b \<in> {B_PURCHASE, B_RECEIVE, B_AUDIT} \<and> prd_shelf_interval p \<noteq> 0)
     in JObj [(''id'', JInt (int (itm_id i))), (''serial_number'', JStr (ser_number s)), (''product_name'', JStr (prd_name p)),
       (''product_batch_number'', JStr (if text_of (ser_batch_number s) = [] then ''-'' else text_of (ser_batch_number s))),
       (''expiry_date'', JStr (case ser_expiry_date s of None \<Rightarrow> ''-'' | Some n \<Rightarrow> report_date (DateValue n))),
       (''fefo_picked'', JBool (itm_fefo_picked i)),
       (''shelf_code'', JStr (case Option.bind (itm_shelf_location_id i) (get_location d) of None \<Rightarrow> [] | Some l \<Rightarrow> loc_code l)),
       (''shelf_verified_at'', JStr (case itm_shelf_verified_at i of None \<Rightarrow> [] | Some t \<Rightarrow> report_date (MomentValue t))),
       (''shelf_pending'', JBool (shelf \<and> itm_shelf_verified_at i = None)), (''shelf_required'', JBool shelf),
       (''status'', JStr (display_status s)),
       (''rate'', money_json (case itm_rate i of Some r \<Rightarrow> r | None \<Rightarrow> prd_default_rate p))])"

definition batch_items_payload :: "db \<Rightarrow> batch \<Rightarrow> json" where
  "batch_items_payload d b = JList (List.map_filter (\<lambda>i.
     Option.bind (item_serial d i) (\<lambda>s. map_option (item_json d b i s) (product_of d s))) (items_of d (bat_id b)))"

definition return_json :: "return_state \<Rightarrow> json" where
  "return_json r = JObj [(''controlled'', JBool (rst_controlled r)), (''pending_count'', JInt (int (rst_pending_count r))),
     (''return_shelf_required'', JBool (rst_shelf_required r)),
     (''pending_serials'', JList (map (\<lambda>(s, p). JObj [(''serial'', JStr s), (''product'', JStr p)]) (rst_pending_serials r)))]"

definition shelf_fields :: "shelf_state \<Rightarrow> (string \<times> json) list" where
  "shelf_fields s = [(''controlled'', JBool (controlled s)), (''pending_count'', JInt (int (pending_count s))),
     (''shelf_required'', JBool (shelf_required s)), (''next_required_in'', JInt (next_required_in s)), (''complete'', JBool (shelf_complete s))]"

definition batch_scan_state :: "db \<Rightarrow> nat \<Rightarrow> (string \<times> json) list" where
  "batch_scan_state d bid =
    (case get_batch d bid of None \<Rightarrow> []
     | Some b \<Rightarrow> [(''item_count'', JInt (int (length (items_of d bid)))), (''summary'', summary_payload d b),
         (''items'', batch_items_payload d b), (''sale_return'', return_json (sale_return_state d b))])"

section \<open>The page of a batch\<close>

record batch_page =
  bpg_batch :: batch
  bpg_products :: "(product \<times> nat) list"
  bpg_summary :: voucher_summary
  bpg_audit :: audit_summary
  bpg_shelf :: shelf_state
  bpg_return :: return_state
  bpg_manual_scan :: bool
  bpg_permissions :: batch_permissions
  bpg_error :: "string option"

definition batch_page_of :: "(string \<Rightarrow> json option) \<Rightarrow> string \<Rightarrow> db \<Rightarrow> user \<Rightarrow> batch \<Rightarrow> string option \<Rightarrow> batch_page" where
  "batch_page_of loads app_mode d u b err =
    \<lparr>bpg_batch = b, bpg_products = fefo_product_options d b, bpg_summary = calculate_voucher_summary d b,
     bpg_audit = summarize_audit_findings d b, bpg_shelf = shelf_verification_state d b, bpg_return = sale_return_state d b,
     bpg_manual_scan = can_use_manual_scan loads d u, bpg_permissions = batch_permission_context loads app_mode d u b,
     bpg_error = err\<rparr>"

end
