(* ===== verification/BatchRoutes.thy ===== *)
theory BatchRoutes
  imports BatchPages Tally Relocation Outbox
begin

text \<open>
  The requests of the batch pages, \<open>app/routers/batches.py\<close>: every handler as a function
  from the request and the database to the answer and the database.  A file is answered by its
  name; its rendering is not part of the model.  \<open>view\<close> is the database the handler
  loaded its batch from, \<open>env\<close> what other sessions commit while it runs.
\<close>

record request =
  rq_cookie :: "string option"
  rq_path :: string
  rq_accept :: string
  rq_app_mode :: string
  rq_now :: moment

record server =
  srv_mac :: "string \<Rightarrow> string"
  srv_loads :: "string \<Rightarrow> json option"
  srv_sha :: "string \<Rightarrow> string"
  srv_uuid5 :: "string \<Rightarrow> string"
  srv_settings :: settings
  srv_event_id :: string

datatype response =
    SeeOther string
  | Denied http_error
  | Status nat string
  | Json nat "(string \<times> json) list"
  | ListPage "batch list"
  | FormPage nat form_page
  | DetailPage nat batch_page
  | AttemptPage sync_attempt
  | Download string "string option"

definition request_app_mode :: "request \<Rightarrow> string" where
  "request_app_mode rq = py_lower (py_strip (rq_app_mode rq))"

definition with_permission ::
  "server \<Rightarrow> request \<Rightarrow> string \<Rightarrow> string list option \<Rightarrow> db \<Rightarrow> (user \<Rightarrow> response \<times> db) \<Rightarrow> response \<times> db"
where
  "with_permission srv rq key allowed d run =
    (case require_permission (srv_mac srv) (srv_loads srv) (rq_now rq) (rq_cookie rq) (rq_path rq) key allowed d of
       Inl e \<Rightarrow> (Denied e, d) | Inr u \<Rightarrow> run u)"

text \<open>The batch of the address, and the permission to work on its kind.\<close>

definition with_batch :: "db \<Rightarrow> nat \<Rightarrow> db \<Rightarrow> (batch \<Rightarrow> response \<times> db) \<Rightarrow> response \<times> db" where
  "with_batch view bid d run = (case get_batch view bid of None \<Rightarrow> (SeeOther ''/batches'', d) | Some b \<Rightarrow> run b)"

definition to_batch :: "nat \<Rightarrow> response" where
  "to_batch bid = SeeOther (''/batches/'' @ nat_str bid)"

definition local_tally_only :: "request \<Rightarrow> db \<Rightarrow> response \<times> db \<Rightarrow> response \<times> db" where
  "local_tally_only rq d answer =
    (if request_app_mode rq = ''lite'' then (Status 404 ''Tally is managed by Setuora Master.'', d) else answer)"

definition detail_page :: "server \<Rightarrow> request \<Rightarrow> db \<Rightarrow> user \<Rightarrow> batch \<Rightarrow> string option \<Rightarrow> batch_page" where
  "detail_page srv rq d u b err = batch_page_of (srv_loads srv) (request_app_mode rq) d u b err"

section \<open>Lists and forms\<close>

definition batch_list_response :: "server \<Rightarrow> request \<Rightarrow> string \<Rightarrow> db \<Rightarrow> response \<times> db" where
  "batch_list_response srv rq scope d =
    (case find (\<lambda>(s, permission, ts). s = scope) batch_list_scopes of
       None \<Rightarrow> (Status 500 ''KeyError'', d)
     | Some (s, permission, ts) \<Rightarrow> with_permission srv rq permission None d (\<lambda>u. (ListPage (batch_list_rows d ts), d)))"

record batch_post =
  pst_type :: string
  pst_party_name :: string
  pst_party_state :: string
  pst_registration :: string
  pst_gst_name :: string
  pst_gstin :: string
  pst_treatment :: string
  pst_reason_code :: string
  pst_assignment_id :: string
  pst_notes :: string

definition blank_form :: "batch_type \<Rightarrow> form_page" where
  "blank_form t = \<lparr>fpg_type = t, fpg_party_name = [], fpg_party_state = [], fpg_registration = [], fpg_gst_name = [], fpg_gstin = [],
     fpg_treatment = [], fpg_party_options = [], fpg_assignments = [], fpg_assignment_id = [], fpg_notes = [], fpg_error = None\<rparr>"

definition new_batch_route :: "server \<Rightarrow> request \<Rightarrow> string \<Rightarrow> string \<Rightarrow> db \<Rightarrow> response \<times> db" where
  "new_batch_route srv rq typ assignment_id d =
    (case parse_batch_type typ of None \<Rightarrow> (Status 400 ''Invalid batch type'', d)
     | Some t \<Rightarrow> with_permission srv rq (action_key_for_batch t) None d (\<lambda>u.
         (FormPage 200 (batch_form_context ((blank_form t)\<lparr>fpg_party_options := party_ledger_options d t (Some u),
            fpg_assignments := (if t = B_AUDIT then open_audit_assignments (rq_now rq) d u else []),
            fpg_assignment_id := assignment_id\<rparr>)), d)))"

text \<open>
  The tax choices of a sale: registration, state and treatment; on an error also what had been
  settled before it.
\<close>

definition sale_terms :: "batch_post \<Rightarrow> string \<Rightarrow> (exc \<times> string \<times> string) + (string \<times> string \<times> string)" where
  "sale_terms p state0 =
    (case normalize_gst_registration_type (Some (pst_registration p)) B_SALE of
       Inl e \<Rightarrow> Inl (e, [], state0)
     | Inr reg \<Rightarrow>
         let registration = text_of reg;
             state = (if registration = gst_registration_value GR_UNREGISTERED_CONSUMER \<and> state0 = []
               then DEFAULT_UNREGISTERED_SALE_STATE else state0);
             gstin = (if gst_registration_requires_gstin (Some registration) then normalize_gstin (Some (pst_gstin p)) else Inr None)
         in (case gstin of Inl e \<Rightarrow> Inl (e, registration, state)
             | Inr g \<Rightarrow> (case normalize_sale_gst_treatment (pst_treatment p) (Some state) of
                 Inl e \<Rightarrow> Inl (e, registration, state) | Inr treatment \<Rightarrow> Inr (registration, state, treatment))))"

definition failed_form ::
  "db \<Rightarrow> user \<Rightarrow> batch_type \<Rightarrow> batch_post \<Rightarrow> string \<Rightarrow> string \<Rightarrow> string \<Rightarrow> string \<Rightarrow> string \<Rightarrow> form_page"
where
  "failed_form d u t p party state registration treatment err =
    \<lparr>fpg_type = t, fpg_party_name = party, fpg_party_state = state,
     fpg_registration = (if registration \<noteq> [] then registration else pst_registration p), fpg_gst_name = pst_gst_name p,
     fpg_gstin = pst_gstin p, fpg_treatment = (if treatment \<noteq> [] then treatment else pst_treatment p),
     fpg_party_options = party_ledger_options d t (Some u), fpg_assignments = [], fpg_assignment_id = [],
     fpg_notes = pst_notes p, fpg_error = Some err\<rparr>"

definition party_required :: "batch_type \<Rightarrow> bool" where
  "party_required t \<longleftrightarrow> t \<in> {B_SALE, B_SALES_RETURN, B_PURCHASE, B_RECEIVE, B_PURCHASE_RETURN}"

definition party_label :: "batch_type \<Rightarrow> string" where
  "party_label t = (if t \<in> {B_SALE, B_SALES_RETURN} then ''Customer'' else ''Supplier'')"

text \<open>Everything after the audit assignment has been found.\<close>

definition open_batch ::
  "request \<Rightarrow> (nat \<Rightarrow> db \<Rightarrow> db) \<Rightarrow> user \<Rightarrow> batch_type \<Rightarrow> batch_post \<Rightarrow> string \<Rightarrow> nat option \<Rightarrow> db \<Rightarrow> response \<times> db"
where
  "open_batch rq env u t p party assignment d =
    (let state0 = (if t = B_SALE then py_strip (pst_party_state p) else []);
         terms = (if t = B_SALE then sale_terms p state0 else Inr ([], state0, []))
     in case terms of
          Inl (e, registration, state) \<Rightarrow>
            (FormPage 400 (batch_form_context (failed_form d u t p party state registration [] (exc_text e))), d)
        | Inr (registration, state, treatment) \<Rightarrow>
            let failed = failed_form d u t p party state registration treatment; sale = (\<lambda>v. if t = B_SALE then Some v else None)
            in if party_required t \<and> py_strip party = [] then
                 (FormPage 400 (batch_form_context (failed (party_label t @ '' is required.''))), d)
               else if party_required t \<and> \<not> party_ledger_is_allowed d u party then
                 (FormPage 403 (batch_form_context (failed ''This Tally ledger is not assigned to your account.'')), d)
               else (case create_batch env True t
                    \<lparr>frm_party_name = Some party, frm_notes = Some (pst_notes p), frm_reason_code = Some (pst_reason_code p),
                     frm_party_state = sale state, frm_registration = sale registration, frm_gst_name = sale (pst_gst_name p),
                     frm_gstin = sale (pst_gstin p), frm_treatment = sale treatment, frm_cgst = None, frm_sgst = None,
                     frm_igst = None, frm_assignment_id = assignment\<rparr> (usr_id u) (rq_now rq) d of
                   (Inr b, d') \<Rightarrow> (to_batch (bat_id b), d')
                 | (Inl (InventoryError m), d') \<Rightarrow>
                     (FormPage 400 (batch_form_context ((failed m)\<lparr>
                        fpg_assignments := (if t = B_AUDIT then open_audit_assignments (rq_now rq) d' u else []),
                        fpg_assignment_id := pst_assignment_id p\<rparr>)), d')
                 | (Inl e, d') \<Rightarrow> (Denied (Broken e), d')))"

definition create_batch_route :: "server \<Rightarrow> request \<Rightarrow> (nat \<Rightarrow> db \<Rightarrow> db) \<Rightarrow> batch_post \<Rightarrow> db \<Rightarrow> response \<times> db" where
  "create_batch_route srv rq env p d =
    (case parse_batch_type (pst_type p) of None \<Rightarrow> (Status 400 ''Invalid batch type'', d)
     | Some t \<Rightarrow> with_permission srv rq (action_key_for_batch t) None d (\<lambda>u.
         if t \<noteq> B_AUDIT then open_batch rq env u t p (pst_party_name p) None d
         else
           let asked = (case py_int (pst_assignment_id p) of None \<Rightarrow> 0 | Some n \<Rightarrow> n)
           in (case find (\<lambda>a. int (asg_id a) = asked \<and> asg_auditor_id a = usr_id u \<and>
                    asg_starts_at a \<le> rq_now rq \<and> rq_now rq \<le> asg_ends_at a) (assignments d) of
                None \<Rightarrow> (FormPage 400 (batch_form_context ((blank_form t)\<lparr>
                    fpg_assignments := open_audit_assignments (rq_now rq) d u, fpg_assignment_id := pst_assignment_id p,
                    fpg_notes := pst_notes p, fpg_error := Some ''Choose one of your active audit assignments.''\<rparr>)), d)
              | Some a \<Rightarrow>
                  (case find (\<lambda>b. bat_status b = BS_DRAFT) (assignment_batches d (asg_id a)) of
                     Some draft \<Rightarrow> (to_batch (bat_id draft), d)
                   | None \<Rightarrow> open_batch rq env u t p
                       (case get_product d (asg_product_id a) of None \<Rightarrow> [] | Some q \<Rightarrow> prd_name q) (Some (asg_id a)) d))))"

section \<open>The page of a batch, and scanning into it\<close>

definition batch_detail :: "server \<Rightarrow> request \<Rightarrow> nat \<Rightarrow> db \<Rightarrow> response \<times> db" where
  "batch_detail srv rq bid d = with_batch d bid d (\<lambda>b.
     if bat_type b = B_QR_ASSIGNMENT then (SeeOther (''/barcode-assignment/'' @ nat_str bid), d)
     else with_permission srv rq (data_key_for_batch (bat_type b)) None d (\<lambda>u. (DetailPage 200 (detail_page srv rq d u b None), d)))"

definition ok_json :: "(string \<times> json) list \<Rightarrow> (string \<times> json) list \<Rightarrow> response" where
  "ok_json own state = Json 200 ((''ok'', JBool True) # own @ state)"

definition error_json :: "nat \<Rightarrow> string \<Rightarrow> (string \<times> json) list \<Rightarrow> response" where
  "error_json code m state = Json code ([(''ok'', JBool False), (''error'', JStr m)] @ state)"

definition shelf_and_scan_state :: "db \<Rightarrow> batch \<Rightarrow> (string \<times> json) list" where
  "shelf_and_scan_state d b = shelf_fields (shelf_verification_state d b) @ batch_scan_state d (bat_id b)"

definition shelf_answer :: "string \<Rightarrow> location \<Rightarrow> nat \<Rightarrow> (string \<times> json) list \<Rightarrow> response" where
  "shelf_answer kind loc n state = ok_json [(''scan_type'', JStr kind), (''location_code'', JStr (loc_code loc)),
     (''location'', JStr (full_path loc)), (''verified_count'', JInt (int n))] state"

text \<open>A shelf code was scanned.\<close>

definition scan_shelf :: "batch \<Rightarrow> user \<Rightarrow> location \<Rightarrow> moment \<Rightarrow> db \<Rightarrow> response \<times> db" where
  "scan_shelf b u loc now d =
    (if bat_type b = B_SALE then
       (case verify_sale_return_on_shelf b loc (usr_id u) now d of
          Inr (d', n) \<Rightarrow> (shelf_answer ''sale_return_shelf'' loc n (batch_scan_state d' (bat_id b)), d')
        | Inl (InventoryError m) \<Rightarrow> (error_json 400 m (batch_scan_state d (bat_id b)), d)
        | Inl e \<Rightarrow> (Denied (Broken e), d))
     else
       (case verify_pending_items_on_shelf d b loc (usr_id u) now of
          Inr (d', n) \<Rightarrow> (shelf_answer ''shelf'' loc n (shelf_and_scan_state d' b), d')
        | Inl (ShelfVerificationError m) \<Rightarrow> (error_json 400 m (shelf_and_scan_state d b), d)
        | Inl e \<Rightarrow> (Denied (Broken e), d)))"

definition product_name_of :: "db \<Rightarrow> serial \<Rightarrow> string" where
  "product_name_of d s = (case product_of d s of None \<Rightarrow> [] | Some p \<Rightarrow> prd_name p)"

text \<open>A refused scan; what it logged stays.\<close>

definition refused_scan :: "batch \<Rightarrow> exc \<Rightarrow> db \<Rightarrow> response \<times> db" where
  "refused_scan b e d =
    (case e of InventoryError m \<Rightarrow> (error_json 400 m (shelf_and_scan_state d b), d)
     | ShelfVerificationError m \<Rightarrow> (error_json 400 m (shelf_and_scan_state d b), d)
     | _ \<Rightarrow> (Denied (Broken e), d))"

definition scan_product :: "(db \<Rightarrow> db) \<Rightarrow> batch \<Rightarrow> user \<Rightarrow> string \<Rightarrow> moment \<Rightarrow> db \<Rightarrow> response \<times> db" where
  "scan_product env b u raw now d =
    (case ensure_sale_scan_allowed d b of Some e \<Rightarrow> refused_scan b e d
     | None \<Rightarrow>
    (case ensure_product_scan_allowed d b of Some e \<Rightarrow> refused_scan b e d
     | None \<Rightarrow>
    (case add_serial_to_batch env b (usr_id u) raw now d of
       (Inl e, d') \<Rightarrow> refused_scan b e d'
     | (Inr i, d') \<Rightarrow>
         (case item_serial d' i of None \<Rightarrow> (Denied (Broken (AttributeError ''serial'')), d')
          | Some s \<Rightarrow> (ok_json [(''scan_type'', JStr ''product''), (''serial'', JStr (ser_number s)),
              (''product'', JStr (product_name_of d' s)), (''status'', JStr (display_status s))] (shelf_and_scan_state d' b), d')))))"

definition scan_return :: "batch \<Rightarrow> user \<Rightarrow> string \<Rightarrow> moment \<Rightarrow> db \<Rightarrow> response \<times> db" where
  "scan_return b u raw now d =
    (case scan_sale_return_product b (usr_id u) raw now d of
       (Inl e, d') \<Rightarrow> refused_scan b e d'
     | (Inr s, d') \<Rightarrow> (ok_json [(''scan_type'', JStr ''sale_return_product''), (''serial'', JStr (ser_number s)),
         (''product'', JStr (product_name_of d' s))] (batch_scan_state d' (bat_id b)), d'))"

definition scan_into_batch ::
  "server \<Rightarrow> request \<Rightarrow> (db \<Rightarrow> db) \<Rightarrow> nat \<Rightarrow> string \<Rightarrow> string \<Rightarrow> string \<Rightarrow> db \<Rightarrow> response \<times> db"
where
  "scan_into_batch srv rq env bid raw src scan_mode d =
    (case get_batch d bid of None \<Rightarrow> (error_json 404 ''Batch not found'' [], d)
     | Some b \<Rightarrow> with_permission srv rq (action_key_for_batch (bat_type b)) None d (\<lambda>u.
         if \<not> scan_source_allowed (srv_loads srv) d u src then (error_json 403 ''Use camera scan to add serials'' [], d)
         else (case find_location_by_code d raw True of
             Some loc \<Rightarrow> scan_shelf b u loc (rq_now rq) d
           | None \<Rightarrow>
               if bat_type b = B_SALE \<and> py_lower (py_strip scan_mode) = ''return'' then scan_return b u raw (rq_now rq) d
               else scan_product env b u raw (rq_now rq) d)))"

section \<open>Picking, removing and pricing\<close>

definition fefo_pick_into_batch :: "server \<Rightarrow> request \<Rightarrow> nat \<Rightarrow> nat \<Rightarrow> int \<Rightarrow> db \<Rightarrow> response \<times> db" where
  "fefo_pick_into_batch srv rq bid pid quantity d = with_batch d bid d (\<lambda>b.
     with_permission srv rq (action_key_for_batch (bat_type b)) None d (\<lambda>u.
     with_permission srv rq ''fefo_pick'' (Some [''edit'', ''yes'']) d (\<lambda>u2.
       case add_fefo_serials_to_batch d b (usr_id u) pid quantity (rq_now rq) of
         Inr d' \<Rightarrow> (to_batch bid, d')
       | Inl (InventoryError m) \<Rightarrow> (DetailPage 400 (detail_page srv rq d u b (Some m)), d)
       | Inl e \<Rightarrow> (Denied (Broken e), d))))"

definition delete_batch_item :: "server \<Rightarrow> request \<Rightarrow> nat \<Rightarrow> nat \<Rightarrow> db \<Rightarrow> response \<times> db" where
  "delete_batch_item srv rq bid iid d = with_batch d bid d (\<lambda>b.
     with_permission srv rq (action_key_for_batch (bat_type b)) None d (\<lambda>u.
       case remove_batch_item b iid d of
         Inr d' \<Rightarrow> (to_batch bid, d')
       | Inl (InventoryError m) \<Rightarrow> (to_batch bid, d)
       | Inl e \<Rightarrow> (Denied (Broken e), d)))"

fun contains_text :: "string \<Rightarrow> string \<Rightarrow> bool" where
  "contains_text part [] = (part = [])"
| "contains_text part (c # cs) = (starts_with part (c # cs) \<or> contains_text part cs)"

definition wants_json :: "request \<Rightarrow> bool" where
  "wants_json rq = contains_text ''application/json'' (rq_accept rq)"

text \<open>The answer to a change of rate.\<close>

definition rate_answer :: "request \<Rightarrow> nat \<Rightarrow> db \<Rightarrow> exc + db \<Rightarrow> response \<times> db" where
  "rate_answer rq bid d r =
    (case r of
       Inr d' \<Rightarrow> (if wants_json rq then Json 200 [(''ok'', JBool True)] else to_batch bid, d')
     | Inl (InventoryError m) \<Rightarrow> (if wants_json rq then error_json 400 m [] else to_batch bid, d)
     | Inl e \<Rightarrow> (Denied (Broken e), d))"

definition update_item_rate :: "server \<Rightarrow> request \<Rightarrow> nat \<Rightarrow> nat \<Rightarrow> rat \<Rightarrow> db \<Rightarrow> response \<times> db" where
  "update_item_rate srv rq bid iid rate d = with_batch d bid d (\<lambda>b.
     with_permission srv rq (action_key_for_batch (bat_type b)) None d (\<lambda>u.
       rate_answer rq bid d (update_batch_item_rate b iid rate d)))"

definition update_product_rate :: "server \<Rightarrow> request \<Rightarrow> nat \<Rightarrow> nat \<Rightarrow> rat \<Rightarrow> db \<Rightarrow> response \<times> db" where
  "update_product_rate srv rq bid pid rate d = with_batch d bid d (\<lambda>b.
     with_permission srv rq (action_key_for_batch (bat_type b)) None d (\<lambda>u.
       rate_answer rq bid d (update_product_rate_in_batch b pid rate d)))"

section \<open>Submitting\<close>

text \<open>
  The transaction of a submission: the checks and the stock on the batch as loaded
  (\<open>view\<close>), then in Lite the batch's status and its event for the Master.
\<close>

definition to_master :: "server \<Rightarrow> request \<Rightarrow> user \<Rightarrow> nat \<Rightarrow> db \<Rightarrow> exc + db" where
  "to_master srv rq u bid d =
    (let e = set_batch bid (\<lambda>r. r\<lparr>bat_status := BS_PENDING_SYNC\<rparr>) d
     in case get_batch e bid of None \<Rightarrow> Inl (AttributeError ''batch'')
        | Some b \<Rightarrow> map_sum id fst
            (enqueue_batch_submitted_event (srv_sha srv) (srv_settings srv) (srv_event_id srv) (rq_now rq) b (Some (usr_username u)) e))"

definition submission :: "server \<Rightarrow> request \<Rightarrow> user \<Rightarrow> batch \<Rightarrow> db \<Rightarrow> db \<Rightarrow> exc + db" where
  "submission srv rq u b view d =
    (case validate_sale_returns_complete d b of Some e \<Rightarrow> Inl e
     | None \<Rightarrow>
    (case validate_priced_batch view b of Some e \<Rightarrow> Inl e
     | None \<Rightarrow> bind_res (apply_batch_statuses view b (usr_id u) (rq_now rq) d) (\<lambda>d1.
         let d2 = (if bat_type b = B_AUDIT then fst (reconcile_audit_batch b (rq_now rq) d1) else d1)
         in if request_app_mode rq = ''lite'' then to_master srv rq u (bat_id b) d2 else Inr d2)))"

text \<open>\<open>except (InventoryError, ValueError)\<close>\<close>

fun value_error :: "exc \<Rightarrow> bool" where
  "value_error (AttributeError m) = False"
| "value_error (TypeError m) = False"
| "value_error (IntegrityError m) = False"
| "value_error (TallyDataError m) = False"
| "value_error (QueueFull m) = False"
| "value_error (HTTPException m) = False"
| "value_error e = True"

definition submit_batch :: "server \<Rightarrow> request \<Rightarrow> nat \<Rightarrow> db \<Rightarrow> db \<Rightarrow> response \<times> db" where
  "submit_batch srv rq bid view d = with_batch view bid d (\<lambda>b.
     with_permission srv rq (action_key_for_batch (bat_type b)) None d (\<lambda>u.
       if bat_status b \<noteq> BS_DRAFT then (to_batch bid, d)
       else (case submission srv rq u b view d of
           Inl e \<Rightarrow> if value_error e then
               (DetailPage 400 (detail_page srv rq d u (case get_batch d bid of None \<Rightarrow> b | Some row \<Rightarrow> row) (Some (exc_text e))), d)
             else (Denied (Broken e), d)
         | Inr d' \<Rightarrow>
             (to_batch bid,
              if request_app_mode rq = ''lite'' then d'
              else (case get_batch d' bid of None \<Rightarrow> d' | Some row \<Rightarrow> fst (queue_batch_for_sync row d'))))))"

definition retry_batch :: "server \<Rightarrow> request \<Rightarrow> nat \<Rightarrow> db \<Rightarrow> response \<times> db" where
  "retry_batch srv rq bid d = local_tally_only rq d (with_batch d bid d (\<lambda>b.
     with_permission srv rq ''tally_sync_retry'' (Some [''edit'', ''yes'']) d (\<lambda>u.
       (to_batch bid, if bat_status b \<in> {BS_PENDING_SYNC, BS_FAILED, BS_SUBMITTED} then fst (queue_batch_for_sync b d) else d))))"

section \<open>Files\<close>

definition audit_pdf :: "server \<Rightarrow> request \<Rightarrow> nat \<Rightarrow> db \<Rightarrow> response \<times> db" where
  "audit_pdf srv rq bid d = with_batch d bid d (\<lambda>b.
     with_permission srv rq (data_key_for_batch (bat_type b)) None d (\<lambda>u.
       (if bat_type b \<noteq> B_AUDIT then to_batch bid else Download (bat_number b @ ''-audit.pdf'') None, d)))"

definition sale_preinvoice :: "server \<Rightarrow> request \<Rightarrow> nat \<Rightarrow> db \<Rightarrow> response \<times> db" where
  "sale_preinvoice srv rq bid d = with_batch d bid d (\<lambda>b.
     with_permission srv rq ''sales_data'' None d (\<lambda>u.
       (if bat_type b \<noteq> B_SALE then to_batch bid
        else if items_of d bid = [] then Status 400 ''Add at least one item before generating a pre-invoice.''
        else Download (bat_number b @ ''-preinvoice.pdf'') None, d)))"

definition tally_xml_preview :: "server \<Rightarrow> request \<Rightarrow> nat \<Rightarrow> db \<Rightarrow> response \<times> db" where
  "tally_xml_preview srv rq bid d = local_tally_only rq d (with_batch d bid d (\<lambda>b.
     with_permission srv rq ''tally_xml'' (Some [''edit'', ''yes'']) d (\<lambda>u.
       (if bat_type b = B_AUDIT \<or> bat_type b \<notin> set tally_xml_supported then to_batch bid
        else (case build_voucher_xml (srv_uuid5 srv) (get_all_settings d) d b of
            Inr xml \<Rightarrow> Download (bat_number b @ ''-tally.xml'') (Some xml)
          | Inl (TallySyncError m temporary request reply) \<Rightarrow> Status 400 m
          | Inl (Escapes e) \<Rightarrow> Denied (Broken e)), d))))"

definition sync_attempt_detail :: "server \<Rightarrow> request \<Rightarrow> nat \<Rightarrow> nat \<Rightarrow> db \<Rightarrow> response \<times> db" where
  "sync_attempt_detail srv rq bid aid d = local_tally_only rq d
    (case (get_batch d bid, find (\<lambda>a. att_id a = aid) (sync_attempts d)) of
       (Some b, Some a) \<Rightarrow>
         if att_batch_id a \<noteq> bid then (SeeOther ''/batches'', d)
         else with_permission srv rq ''tally_attempts'' None d (\<lambda>u. (AttemptPage a, d))
     | _ \<Rightarrow> (SeeOther ''/batches'', d))"

section \<open>What a submission leaves\<close>

lemma apply_item_outbox: "apply_item view b u now i d = Inr d' \<Longrightarrow> outbox d' = outbox d"
  by (auto simp: apply_item_def Let_def split: option.splits if_splits prod.splits)
     (metis claim_serial_tables(4) set_item_frame(4) snd_conv)

lemma apply_statuses_outbox:
  assumes "apply_batch_statuses view b u now d = Inr d'"
  shows "outbox d' = outbox d"
proof -
  obtain e where e: "fold_res (apply_item view b u now) (items_of view (bat_id b)) d = Inr e"
      "d' = set_batch (bat_id b) (\<lambda>r. r\<lparr>bat_status := BS_SUBMITTED, bat_submitted_at := Some now\<rparr>) e"
    using apply_batch_statusesD [OF assms] by blast
  have "outbox e = outbox d" by (rule fold_res_frame [OF e(1)]) (rule apply_item_outbox)
  then show ?thesis by (simp add: e(2))
qed

lemma to_master_effect:
  assumes "to_master srv rq u bid d = Inr d'"
  shows "serials d' = serials d \<and> (\<exists>evt. outbox d' = outbox d @ [evt] \<and> evt_batch_id evt = Some bid \<and> evt_status evt = O_PENDING) \<and>
    (\<forall>r \<in> set (batches d'). bat_id r = bid \<longrightarrow> bat_status r = BS_PENDING_SYNC)"
proof -
  define e where "e = set_batch bid (\<lambda>r. r\<lparr>bat_status := BS_PENDING_SYNC\<rparr>) d"
  obtain b evt where b: "get_batch e bid = Some b"
      "enqueue_batch_submitted_event (srv_sha srv) (srv_settings srv) (srv_event_id srv) (rq_now rq) b (Some (usr_username u)) e = Inr (d', evt)"
    using assms by (auto simp: to_master_def Let_def e_def map_sum_def split: option.splits sum.splits)
  then obtain r where r: "enqueue_outbox_event (srv_sha srv) (srv_settings srv) (srv_event_id srv) (rq_now rq) r e = Inr (d', evt)"
      "erq_batch_id r = Some (bat_id b)"
    by (auto simp: enqueue_batch_submitted_event_def split: sum.splits)
  have "bat_id b = bid" using b(1) by (auto simp: get_batch_def dest: find_SomeD)
  then show ?thesis using enqueueD [OF r(1)] r(2) by (simp add: e_def) (simp add: set_batch_def)
qed

lemma submission_to_master:
  assumes "submission srv rq u b view d = Inr d'" "bat_type b \<noteq> B_AUDIT" "request_app_mode rq = ''lite''"
  obtains d1 where "apply_batch_statuses view b (usr_id u) (rq_now rq) d = Inr d1" "to_master srv rq u (bat_id b) d1 = Inr d'"
  using assms by (auto simp: submission_def Let_def split: option.splits)

text \<open>
  C24. In Lite a submission is all or nothing: either the request leaves the database as it was, or
  the batch was a draft and its requester allowed to work on its kind, every serial scanned into
  it has moved from the status its session saw to the target of the batch's type, no other serial
  has moved, the batch waits for the Master, and exactly one event for it, not yet sent, has joined
  the outbox.
\<close>

theorem submission_all_or_nothing:
  assumes "submit_batch srv rq bid view d = (answer, d')" "get_batch view bid = Some b" "bat_type b \<noteq> B_AUDIT"
    and "request_app_mode rq = ''lite''" "serials_ok d" "items_ok view"
  shows "d' = d \<or>
    (answer = to_batch bid \<and> bat_status b = BS_DRAFT \<and>
     (\<exists>u. require_permission (srv_mac srv) (srv_loads srv) (rq_now rq) (rq_cookie rq) (rq_path rq)
       (action_key_for_batch (bat_type b)) None d = Inr u) \<and>
     (\<forall>i \<in> set (items_of view bid). stock_status d (itm_serial_id i) = Some (item_source view i) \<and>
       stock_status d' (itm_serial_id i) = Some (target_status b (item_source view i) (bat_type b))) \<and>
     (\<forall>k. k \<notin> itm_serial_id ` set (items_of view bid) \<longrightarrow> stock_status d' k = stock_status d k) \<and>
     (\<forall>r \<in> set (batches d'). bat_id r = bid \<longrightarrow> bat_status r = BS_PENDING_SYNC) \<and>
     (\<exists>evt. outbox d' = outbox d @ [evt] \<and> evt_batch_id evt = Some bid \<and> evt_status evt = O_PENDING))"
proof (cases "d' = d")
  case False
  have bid: "bat_id b = bid" using assms(2) by (auto simp: get_batch_def dest: find_SomeD)
  obtain u where u: "require_permission (srv_mac srv) (srv_loads srv) (rq_now rq) (rq_cookie rq) (rq_path rq)
      (action_key_for_batch (bat_type b)) None d = Inr u"
    and draft: "bat_status b = BS_DRAFT" and s: "submission srv rq u b view d = Inr d'" and a: "answer = to_batch bid"
    using assms(1,2,4) False
    by (auto simp: submit_batch_def with_batch_def with_permission_def split: sum.splits if_splits)
  obtain d1 where d1: "apply_batch_statuses view b (usr_id u) (rq_now rq) d = Inr d1" "to_master srv rq u (bat_id b) d1 = Inr d'"
    using submission_to_master [OF s assms(3,4)] .
  note moved = submission_effect [OF d1(1) assms(5,6,3)] and sent = to_master_effect [OF d1(2), unfolded apply_statuses_outbox [OF d1(1)]]
  have same: "stock_status d' = stock_status d1" by (rule stock_status_cong) (use sent in blast)
  show ?thesis
    using u draft a moved sent unfolding same bid by (intro disjI2 conjI) (blast+)?
qed simp

end
