(* ===== verification/ReportScenarios.thy ===== *)
theory ReportScenarios
  imports Scenarios Movement TallyJobs BatchRoutes
begin

text \<open>
  The sample shop seen by its reports, its Tally cache, its job queue and its web pages: the
  witnesses of the properties of \<open>Movement\<close>, \<open>TallyCache\<close>, \<open>TallyJobs\<close>,
  \<open>Security\<close> and \<open>BatchRoutes\<close>.
\<close>

section \<open>The movement report\<close>

definition ex_filters :: movement_filters where
  "ex_filters = \<lparr>mvf_product_id = None, mvf_warehouse = [], mvf_category = [], mvf_brand = [], mvf_batch = [], mvf_level = [],
     mvf_expiry = [], mvf_movement = [], mvf_start = None, mvf_end = None\<rparr>"

theorem movement_counts_once_witness:
  "\<exists>rows sm. stock_movement_rows id default_movement ex_filters 10 ex_db = Inr (rows, sm) \<and> msm_stock sm = 3"
proof -
  have "\<not> isl (analysis_window default_movement ex_filters 10)" by code_simp
  then obtain a b n where "analysis_window default_movement ex_filters 10 = Inr (a, b, n)"
    using Inr_exists by (metis surj_pair)
  then have "\<not> isl (stock_movement_rows id default_movement ex_filters 10 ex_db)"
    by (simp add: stock_movement_rows_def Let_def)
  then obtain rows sm where r: "stock_movement_rows id default_movement ex_filters 10 ex_db = Inr (rows, sm)"
    using Inr_exists by (metis surj_pair)
  have k: "mvf_movement ex_filters = []" "mvf_expiry ex_filters = []" "length (counted_stock ex_db ex_filters 10) = 3" by code_simp+
  have "\<forall>ks. mset (id ks) = mset (ks :: movement_key list)" by simp
  from movement_counts_once [OF r this k(1,2)] k(3) r show ?thesis by auto
qed

section \<open>The copy of Tally's data\<close>

definition ex_ledger_node :: "string \<Rightarrow> string \<Rightarrow> xml" where
  "ex_ledger_node n p = Elem ''LEDGER'' [(''NAME'', n)] [] [xml_leaf ''PARENT'' p, xml_leaf ''CLOSINGBALANCE'' ''10.00'']"

definition ex_reply :: gateway_reply where
  "ex_reply = Reply ''<ENVELOPE/>''"

definition ex_document :: xml where
  "ex_document = xml_node ''ENVELOPE'' [ex_ledger_node ''Anand Traders'' ''Sundry Debtors'', ex_ledger_node ''Cash'' ''Cash-in-Hand'']"

definition ex_gateway :: settings_map where
  "ex_gateway k = (if k = ''tally_host'' then Some ''localhost'' else if k = ''tally_port'' then Some ''9000'' else None)"

definition ex_cached :: "nat \<Rightarrow> nat \<Rightarrow> string \<Rightarrow> ledger_cache" where
  "ex_cached i cid n = (new_ledger cid ''Setuora'' \<lparr>tld_name = n, tld_parent = ''Old'', tld_balance = ''0''\<rparr> 1)\<lparr>tlc_id := i\<rparr>"

definition ex_cache_db :: db where
  "ex_cache_db = ex_db\<lparr>ledger_caches := [ex_cached 1 1 ''CASH'', ex_cached 2 1 ''Gone'', ex_cached 3 2 ''Cash'']\<rparr>"

theorem cache_refresh_exact_witness:
  "\<exists>d'. replace_cached_ledgers 1 ''Setuora '' [\<lparr>tld_name = ''Anand Traders'', tld_parent = ''Sundry Debtors'', tld_balance = ''10.00''\<rparr>,
       \<lparr>tld_name = ''Cash'', tld_parent = ''Cash-in-Hand'', tld_balance = ''10.00''\<rparr>] 5 ex_cache_db = Inr d' \<and>
     size (mset (cached_ledgers d' 1 ''setuora'')) = 2 \<and> length (cached_ledgers d' 2 ''Setuora'') = 1"
proof -
  have doc: "response_errors ex_document = []" "first_text ex_document [''STATUS''] \<noteq> ''0''" "py_strip ''<ENVELOPE/>'' \<noteq> []"
    "py_strip (text_of (ex_gateway ''tally_host'')) \<noteq> []" "py_strip (text_of (ex_gateway ''tally_port'')) \<noteq> []"
    "py_strip ''Setuora '' \<noteq> []" by code_simp+
  then have "post_read_request (\<lambda>s. Some ex_document) ex_gateway ex_reply = Inr (sanitize_tally_xml ''<ENVELOPE/>'', ex_document)"
    by (simp add: post_read_request_def ex_reply_def)
  moreover have "sort_key (\<lambda>l. py_lower (tld_name l)) (map ledger_of_node (first_named [] (elements [''LEDGER''] ex_document))) =
      [\<lparr>tld_name = ''Anand Traders'', tld_parent = ''Sundry Debtors'', tld_balance = ''10.00''\<rparr>,
       \<lparr>tld_name = ''Cash'', tld_parent = ''Cash-in-Hand'', tld_balance = ''10.00''\<rparr>]" by code_simp
  ultimately have f: "fetch_tally_ledgers (\<lambda>s. Some ex_document) ex_gateway ''Setuora '' ex_reply =
      Inr [\<lparr>tld_name = ''Anand Traders'', tld_parent = ''Sundry Debtors'', tld_balance = ''10.00''\<rparr>,
       \<lparr>tld_name = ''Cash'', tld_parent = ''Cash-in-Hand'', tld_balance = ''10.00''\<rparr>]" using doc(6) by (simp add: fetch_tally_ledgers_def)
  have k: "distinct (map ledger_unique (ledger_caches ex_cache_db))" "length (cached_ledgers ex_cache_db 2 ''Setuora'') = 1"
    "py_casekey ''Setuora '' = py_casekey ''setuora''" by code_simp+
  have same: "cached_ledgers e 1 ''Setuora '' = cached_ledgers e 1 ''setuora''" for e
    by (simp only: cached_ledgers_def k(3))
  from cache_refresh_exact [OF f k(1), of 1 5] k(2) show ?thesis unfolding same
    by (elim exE conjE, intro exI conjI) (assumption, simp, simp)
qed

definition ex_voucher :: tally_voucher where
  "ex_voucher = \<lparr>tvo_date = ''2024-05-02'', tvo_number = ''7'', tvo_type = ''Sales'', tvo_party = ''Anand Traders'', tvo_amount = ''118.00'',
     tvo_narration = [], tvo_remote_id = ''guid-7'', tvo_user = ''asha''\<rparr>"

text \<open>The voucher was cached when it was still dated 28 April; then it was moved into May.\<close>

definition ex_voucher_db :: db where
  "ex_voucher_db = ex_db\<lparr>voucher_caches := [(new_voucher 1 ''Setuora'' (ex_voucher\<lparr>tvo_date := ''2024-04-28''\<rparr>) 1)\<lparr>tvc_id := 1\<rparr>]\<rparr>"

theorem redated_voucher_breaks_refresh_witness:
  "replace_cached_sales_book 1 ''Setuora'' 19844 19874 [ex_voucher] 5 ex_voucher_db =
     Inl (IntegrityError ''UNIQUE constraint failed: tally_sales_voucher_cache'')"
proof (rule redated_voucher_breaks_refresh)
  show "ex_voucher \<in> set [ex_voucher]" by simp
  let ?r = "(new_voucher 1 ''Setuora'' (ex_voucher\<lparr>tvo_date := ''2024-04-28''\<rparr>) 1)\<lparr>tvc_id := 1\<rparr>"
  show "?r \<in> set (voucher_caches ex_voucher_db)" by (simp add: ex_voucher_db_def)
  show "voucher_in 1 (py_casekey ''Setuora'') ?r" "tvc_remote_id ?r = voucher_identity ex_voucher"
    "\<not> voucher_between 19844 19874 ?r" "distinct (map voucher_unique (voucher_caches ex_voucher_db))" by code_simp+
qed

section \<open>The queue of requests\<close>

theorem job_queue_bounded_witness:
  "\<exists>j d'. queue_tally_data_job ex_sha LEDGERS_JOB 1 None ex_gateway ''Setuora'' None None 5 ex_db = Inr (j, d') \<and>
     count_rows job_active (data_jobs d') \<le> 20"
proof -
  have "\<not> isl (queue_tally_data_job ex_sha LEDGERS_JOB 1 None ex_gateway ''Setuora'' None None 5 ex_db)" by code_simp
  then obtain j d' where r: "queue_tally_data_job ex_sha LEDGERS_JOB 1 None ex_gateway ''Setuora'' None None 5 ex_db = Inr (j, d')"
    using Inr_exists by (metis surj_pair)
  have "data_jobs ex_db = []" by code_simp
  with job_queue_bounded [OF r_into_rtranclp, OF job_step.enqueued, OF r] r show ?thesis by blast
qed

section \<open>A signed-in request\<close>

definition ex_claims :: json where
  "ex_claims = JObj [(''sub'', JInt (int 1)), (''exp'', JInt (unix_seconds (0 + minutes 30))), (''ver'', JInt (int 0))]"

definition ex_session_loads :: "string \<Rightarrow> json option" where
  "ex_session_loads s = (if s = session_text 1 (unix_seconds (0 + minutes 30)) 0 then Some ex_claims else None)"

definition ex_cookie :: string where
  "ex_cookie = create_session_token id 30 1 0 0"

theorem session_cookie_round_trip_witness:
  "read_session_claims id ex_session_loads 7 (Some (create_session_token id 30 1 0 0)) = Inr (Some (1, 0))"
proof -
  have l: "ex_session_loads (session_text 1 (unix_seconds (0 + minutes 30)) 0) =
      Some (JObj [(''sub'', JInt (int 1)), (''exp'', JInt (unix_seconds (0 + minutes 30))), (''ver'', JInt (int 0))])"
    by (simp add: ex_session_loads_def ex_claims_def)
  have "unix_seconds 7 < unix_seconds (0 + minutes 30)" by code_simp
  with session_cookie_round_trip [where loads = ex_session_loads and uid = 1 and now = 0 and timeout = 30 and version = 0
    and mac = id and t = 7, OF l] show ?thesis by simp
qed

text \<open>A sale submitted in Lite by an administrator, with the baseline already queued.\<close>

definition ex_server :: server where
  "ex_server = \<lparr>srv_mac = id, srv_loads = ex_session_loads, srv_sha = ex_sha, srv_uuid5 = id, srv_settings = ex_settings,
     srv_event_id = ex_uuid 3\<rparr>"

definition ex_page_request :: request where
  "ex_page_request = \<lparr>rq_cookie = Some ex_cookie, rq_path = ''/batches/1/submit'', rq_accept = [], rq_app_mode = ''lite'', rq_now = 9\<rparr>"

lemma ex_signed_in:
  "require_permission (srv_mac ex_server) (srv_loads ex_server) (rq_now ex_page_request) (rq_cookie ex_page_request)
     (rq_path ex_page_request) (action_key_for_batch B_SALE) None ex_queued_db = Inr (ex_user 1 ''asha'' ''admin'')"
proof -
  have l: "ex_session_loads (session_text 1 (unix_seconds (0 + minutes 30)) 0) =
      Some (JObj [(''sub'', JInt (int 1)), (''exp'', JInt (unix_seconds (0 + minutes 30))), (''ver'', JInt (int 0))])"
    by (simp add: ex_session_loads_def ex_claims_def)
  have "unix_seconds 9 < unix_seconds (0 + minutes 30)" by code_simp
  with session_read [where loads = ex_session_loads and uid = 1 and now = 0 and timeout = 30 and version = 0 and mac = id and t = 9, OF l]
  have "read_session_claims id ex_session_loads 9 (Some ex_cookie) = Inr (Some (1, 0))" by (simp add: ex_cookie_def)
  moreover have "get_user ex_queued_db 1 = Some (ex_user 1 ''asha'' ''admin'')" by code_simp
  moreover have "normalize_role_values (TextArg ''admin'') \<noteq> []"
    "role_has_access ex_session_loads ex_queued_db (TextArg ''admin'') (action_key_for_batch B_SALE) None" by code_simp+
  ultimately show ?thesis
    by (simp add: require_permission_def require_user_def current_user_def ex_server_def ex_page_request_def ex_user_def)
qed

text \<open>The event of the sale, which is far below the Master's limit.\<close>

definition ex_sale_event :: "db \<Rightarrow> event_request" where
  "ex_sale_event d = (case get_batch d 1 of None \<Rightarrow> ex_request | Some b \<Rightarrow>
     \<lparr>erq_type = batch_type_value (bat_type b), erq_aggregate_type = ''BATCH'', erq_aggregate_id = ''FR-7:'' @ bat_number b,
      erq_payload = batch_event_payload d b (Some ''asha''),
      erq_occurred_at = (case bat_submitted_at b of None \<Rightarrow> 9 | Some t \<Rightarrow> t), erq_schema_version = 1,
      erq_batch_id = Some (bat_id b), erq_initial = False\<rparr>)"

definition ex_waiting :: "db \<Rightarrow> db" where
  "ex_waiting d = set_batch 1 (\<lambda>r. r\<lparr>bat_status := BS_PENDING_SYNC\<rparr>) d"

definition ex_size :: "event_request \<Rightarrow> db \<Rightarrow> nat" where
  "ex_size r d = utf8_size (frozen_event_json \<lparr>ehd_event_id = ex_uuid 3, ehd_sequence = Suc (outbox_sequence d),
     ehd_type = py_upper (py_strip (erq_type r)), ehd_aggregate_id = erq_aggregate_id r,
     ehd_occurred_at = erq_occurred_at r, ehd_schema_version = erq_schema_version r\<rparr> (erq_payload r))"

definition ex_sendable :: "db \<Rightarrow> bool" where
  "ex_sendable d \<longleftrightarrow> enqueue_guard ex_settings (ex_sale_event d) d = None \<and> map_option bat_type (get_batch d 1) = Some B_SALE \<and>
     list_length (map_of (rev (erq_payload (ex_sale_event d))) ''items'') \<le> 100 \<and> ex_size (ex_sale_event d) d \<le> 2000"

lemma ex_sendable_sent:
  assumes "ex_sendable (ex_waiting d)"
  shows "\<exists>d'. to_master ex_server ex_page_request (ex_user 1 ''asha'' ''admin'') 1 d = Inr d'"
proof -
  let ?e = "ex_waiting d"
  obtain b where b: "get_batch ?e 1 = Some b" "bat_type b = B_SALE"
    using assms by (auto simp: ex_sendable_def)
  have "2000 \<le> event_max_body_bytes" by (simp add: event_max_body_bytes_def)
  then obtain d' row where "enqueue_outbox_event ex_sha ex_settings (ex_uuid 3) 9 (ex_sale_event ?e) ?e = Inr (d', row)"
    using assms enqueue_accepts limits(2) order_trans unfolding ex_sendable_def ex_size_def by meson
  moreover have "configured_franchise_code ex_settings (Some True) = Inr ''FR-7''" by code_simp
  ultimately have "enqueue_batch_submitted_event ex_sha ex_settings (ex_uuid 3) 9 b (Some ''asha'') ?e = Inr (d', row)"
    using b by (simp add: enqueue_batch_submitted_event_def ex_sale_event_def del: One_nat_def)
  then show ?thesis
    using b(1) by (simp add: to_master_def Let_def ex_waiting_def ex_server_def ex_page_request_def ex_user_def del: One_nat_def)
qed

lemma ex_priced: "validate_priced_batch ex_queued_db ex_sale = None"
proof -
  have "group_batch_items ex_queued_db ex_sale =
      [\<lparr>grp_product = ex_product, grp_quantity = 1, grp_serials = [''SOAP-000001''], grp_rate = 100, grp_discount = 0\<rparr>]"
    "0 < money_float 100" by code_simp+
  then show ?thesis
    by (simp add: validate_priced_batch_def unpriced_names_def calculate_voucher_summary_def voucher_line_of_def Let_def)
qed

lemma ex_submission:
  "\<exists>d'. submission ex_server ex_page_request (ex_user 1 ''asha'' ''admin'') ex_sale ex_queued_db ex_queued_db = Inr d' \<and>
     length (outbox d') = 2"
proof -
  have "\<not> isl (apply_batch_statuses ex_queued_db ex_sale 1 9 ex_queued_db)" by code_simp
  then obtain d where d: "apply_batch_statuses ex_queued_db ex_sale 1 9 ex_queued_db = Inr d" using Inr_exists by blast
  have "case apply_batch_statuses ex_queued_db ex_sale 1 9 ex_queued_db of Inl e \<Rightarrow> False
      | Inr d \<Rightarrow> enqueue_guard ex_settings (ex_sale_event (ex_waiting d)) (ex_waiting d) = None \<and>
          map_option bat_type (get_batch (ex_waiting d) 1) = Some B_SALE" by code_simp
  moreover have "case apply_batch_statuses ex_queued_db ex_sale 1 9 ex_queued_db of Inl e \<Rightarrow> False
      | Inr d \<Rightarrow> list_length (map_of (rev (erq_payload (ex_sale_event (ex_waiting d)))) ''items'') \<le> 100" by code_simp
  moreover have "case apply_batch_statuses ex_queued_db ex_sale 1 9 ex_queued_db of Inl e \<Rightarrow> False
      | Inr d \<Rightarrow> ex_size (ex_sale_event (ex_waiting d)) (ex_waiting d) \<le> 2000" by code_simp
  ultimately have "ex_sendable (ex_waiting d)" unfolding d by (simp add: ex_sendable_def)
  then obtain d' where d': "to_master ex_server ex_page_request (ex_user 1 ''asha'' ''admin'') 1 d = Inr d'"
    using ex_sendable_sent by blast
  have "length (outbox ex_queued_db) = 1" by code_simp
  then have "length (outbox d') = 2" using to_master_effect [OF d'] apply_statuses_outbox [OF d] by auto
  moreover have "validate_sale_returns_complete ex_queued_db ex_sale = None" "request_app_mode ex_page_request = ''lite''"
    "bat_type ex_sale \<noteq> B_AUDIT" "bat_id ex_sale = 1" "usr_id (ex_user 1 ''asha'' ''admin'') = 1" "rq_now ex_page_request = 9" by code_simp+
  ultimately show ?thesis using d d' ex_priced by (simp add: submission_def del: One_nat_def)
qed

theorem submission_all_or_nothing_witness:
  "\<exists>d'. submit_batch ex_server ex_page_request 1 ex_queued_db ex_queued_db = (to_batch 1, d') \<and>
     stock_status d' 1 = Some S_SOLD \<and> length (outbox d') = 2"
proof -
  obtain d' where s: "submission ex_server ex_page_request (ex_user 1 ''asha'' ''admin'') ex_sale ex_queued_db ex_queued_db = Inr d'"
      "length (outbox d') = 2"
    using ex_submission by blast
  have b: "get_batch ex_queued_db 1 = Some ex_sale" "bat_type ex_sale = B_SALE" "bat_status ex_sale = BS_DRAFT"
    "request_app_mode ex_page_request = ''lite''" "serials_ok ex_queued_db" "items_ok ex_queued_db"
    by code_simp+
  have i: "length (outbox ex_queued_db) = 1" "items_of ex_queued_db 1 = [ex_item 1 1 1]" "itm_serial_id (ex_item 1 1 1) = 1"
    "item_source ex_queued_db (ex_item 1 1 1) = S_IN_STOCK" "target_status ex_sale S_IN_STOCK B_SALE = S_SOLD" by code_simp+
  have r: "submit_batch ex_server ex_page_request 1 ex_queued_db ex_queued_db = (to_batch 1, d')"
    by (simp add: submit_batch_def with_batch_def with_permission_def b ex_signed_in s del: One_nat_def)
  have "bat_type ex_sale \<noteq> B_AUDIT" "d' \<noteq> ex_queued_db" using b(2) s(2) i(1) by auto
  with submission_all_or_nothing [OF r b(1) this(1) b(4-6)] have "stock_status d' (itm_serial_id (ex_item 1 1 1)) =
      Some (target_status ex_sale (item_source ex_queued_db (ex_item 1 1 1)) (bat_type ex_sale))"
    unfolding i(2) by simp
  then show ?thesis using r s(2) unfolding i b(2) by blast
qed

end
