(* ===== verification/TallyFacts.thy ===== *)
theory TallyFacts
  imports Tally
begin

text \<open>
  What the Tally connection guarantees: the postings of a voucher balance, a request whose
  fate is unknown is repeated letter by letter, a delivered batch is never sent again, two
  sessions cannot claim one batch.
\<close>

section \<open>Exact sums of cents\<close>

definition cents :: "rat \<Rightarrow> bool" where
  "cents x \<longleftrightarrow> (\<exists>n. x = of_int n / 100)"

lemma cents_intros [intro]:
  "cents (money x)" "cents 0" "cents x \<Longrightarrow> cents y \<Longrightarrow> cents (x + y)" "cents x \<Longrightarrow> cents (- x)"
proof -
  show "cents (money x)" using money_cents by (simp add: cents_def)
  have "0 = of_int 0 / (100 :: rat)" by simp
  then show "cents 0" unfolding cents_def by blast
  show "cents (x + y)" if xy: "cents x" "cents y"
  proof -
    obtain m n where "x = of_int m / 100" "y = of_int n / 100" using xy by (auto simp: cents_def)
    then have "x + y = of_int (m + n) / 100" by (simp add: add_divide_distrib)
    then show ?thesis unfolding cents_def by blast
  qed
  show "cents (- x)" if "cents x"
  proof -
    obtain m where "x = of_int m / 100" using \<open>cents x\<close> by (auto simp: cents_def)
    then have "- x = of_int (- m) / 100" by simp
    then show ?thesis unfolding cents_def by blast
  qed
qed

lemma dec_add_exact:
  assumes "cents x" "cents y" "0 \<le> x" "0 \<le> y" "x + y < 10 ^ 26"
  shows "dec_add x y = x + y"
proof -
  have "cents (x + y)" using assms(1,2) by (rule cents_intros)
  then obtain n where "x + y = of_int n / 100" unfolding cents_def by blast
  moreover have "\<bar>x + y\<bar> < 10 ^ 26" using assms(3-5) by simp
  ultimately show ?thesis unfolding dec_add_def by (intro to_decimal_cents)
qed

lemma money_exact: "cents x \<Longrightarrow> money x = x"
  unfolding cents_def by (elim exE) (simp only: money_of_cents)

lemma cents_sum_list: "(\<And>x. x \<in> set xs \<Longrightarrow> cents x) \<Longrightarrow> cents (sum_list xs)"
  by (induction xs) auto

lemma foldl_dec_add:
  assumes "\<And>l. l \<in> set ls \<Longrightarrow> cents (f l) \<and> 0 \<le> f l" "cents a" "0 \<le> a" "a + sum_list (map f ls) < 10 ^ 26"
  shows "foldl (\<lambda>t l. dec_add t (f l)) a ls = a + sum_list (map f ls)"
  using assms
proof (induction ls arbitrary: a)
  case Nil
  then show ?case by simp
next
  case (Cons l ls)
  have "0 \<le> sum_list (map f ls)" by (rule sum_list_nonneg) (use Cons.prems(1) in auto)
  then have "dec_add a (f l) = a + f l"
    using Cons.prems by (intro dec_add_exact) auto
  moreover have "foldl (\<lambda>t l. dec_add t (f l)) (a + f l) ls = a + f l + sum_list (map f ls)"
    using Cons.prems by (intro Cons.IH) (auto simp: algebra_simps)
  ultimately show ?case by simp
qed

lemma dec_total_exact:
  assumes "\<And>l. l \<in> set ls \<Longrightarrow> cents (f l) \<and> 0 \<le> f l" "sum_list (map f ls) < 10 ^ 26"
  shows "dec_total f ls = sum_list (map f ls)"
  unfolding dec_total_def using foldl_dec_add [of ls f 0] assms by auto

section \<open>The totals of a voucher\<close>

definition line_tax_sum :: "voucher_line \<Rightarrow> rat" where
  "line_tax_sum l = vln_cgst_amount l + vln_sgst_amount l + vln_igst_amount l"

definition line_value :: "voucher_line \<Rightarrow> rat" where
  "line_value l = vln_taxable_value l + line_tax_sum l"

text \<open>No amount of a line is negative, and the voucher stays below \<open>10 ^ 26\<close>.\<close>

definition sound_lines :: "voucher_line list \<Rightarrow> bool" where
  "sound_lines ls \<longleftrightarrow> list_all (\<lambda>l. 0 \<le> vln_taxable_value l \<and> 0 \<le> vln_cgst_amount l \<and> 0 \<le> vln_sgst_amount l \<and>
     0 \<le> vln_igst_amount l) ls \<and> sum_list (map line_value ls) < 10 ^ 26"

definition cent_line :: "voucher_line \<Rightarrow> bool" where
  "cent_line l \<longleftrightarrow> cents (vln_taxable_value l) \<and> cents (vln_cgst_amount l) \<and> cents (vln_sgst_amount l) \<and> cents (vln_igst_amount l)"

lemma cent_lines: "l \<in> set (vsm_lines (calculate_voucher_summary d b)) \<Longrightarrow> cent_line l"
  by (auto simp: calculate_voucher_summary_def Let_def voucher_line_of_def line_tax_of_def cent_line_def
    sale_taxable_value_def)

lemma sum_list_le: "(\<And>l. l \<in> set ls \<Longrightarrow> f l \<le> g l) \<Longrightarrow> sum_list (map f ls) \<le> sum_list (map (g :: _ \<Rightarrow> rat) ls)"
  by (induction ls) (auto intro: add_mono)

lemma sound_part:
  assumes "sound_lines ls" "\<And>l. l \<in> set ls \<Longrightarrow> f l \<le> line_value l"
  shows "sum_list (map f ls) < 10 ^ 26"
  using sum_list_le [of ls f line_value] assms by (auto simp: sound_lines_def)

lemma sum_line_value:
  "sum_list (map line_value ls) = sum_list (map vln_taxable_value ls) +
     (sum_list (map vln_cgst_amount ls) + sum_list (map vln_sgst_amount ls) + sum_list (map vln_igst_amount ls))"
  by (induction ls) (simp_all add: line_value_def line_tax_sum_def)

lemma summary_exact:
  assumes "sound_lines (vsm_lines (calculate_voucher_summary d b))"
  defines "sm \<equiv> calculate_voucher_summary d b"
  shows "vsm_before_round_off sm = sum_list (map line_value (vsm_lines sm))"
    and "vsm_cgst_amount sm = sum_list (map vln_cgst_amount (vsm_lines sm))"
    and "vsm_sgst_amount sm = sum_list (map vln_sgst_amount (vsm_lines sm))"
    and "vsm_igst_amount sm = sum_list (map vln_igst_amount (vsm_lines sm))"
proof -
  define ls where "ls = vsm_lines (calculate_voucher_summary d b)"
  have s: "sound_lines ls" using assms by (simp add: ls_def)
  have nn: "0 \<le> vln_taxable_value l" "0 \<le> vln_cgst_amount l" "0 \<le> vln_sgst_amount l" "0 \<le> vln_igst_amount l"
    if "l \<in> set ls" for l using s that by (auto simp: sound_lines_def list_all_iff)
  have ce: "cents (vln_taxable_value l)" "cents (vln_cgst_amount l)" "cents (vln_sgst_amount l)" "cents (vln_igst_amount l)"
    if "l \<in> set ls" for l using cent_lines that unfolding ls_def by (simp_all add: cent_line_def)
  have le: "vln_taxable_value l \<le> line_value l" "vln_cgst_amount l \<le> line_value l" "vln_sgst_amount l \<le> line_value l"
    "vln_igst_amount l \<le> line_value l" if "l \<in> set ls" for l
    using nn [OF that] by (simp_all add: line_value_def line_tax_sum_def)
  let ?S = "\<lambda>f. sum_list (map f ls)"
  have t: "dec_total vln_taxable_value ls = ?S vln_taxable_value" "dec_total vln_cgst_amount ls = ?S vln_cgst_amount"
    "dec_total vln_sgst_amount ls = ?S vln_sgst_amount" "dec_total vln_igst_amount ls = ?S vln_igst_amount"
    by (intro dec_total_exact sound_part [OF s] conjI; (rule ce nn le; assumption))+
  have c: "cents (?S vln_taxable_value)" "cents (?S vln_cgst_amount)" "cents (?S vln_sgst_amount)" "cents (?S vln_igst_amount)"
    by (rule cents_sum_list; use ce in auto)+
  have p: "0 \<le> ?S vln_taxable_value" "0 \<le> ?S vln_cgst_amount" "0 \<le> ?S vln_sgst_amount" "0 \<le> ?S vln_igst_amount"
    by (rule sum_list_nonneg; use nn in auto)+
  have total: "?S line_value = ?S vln_taxable_value + (?S vln_cgst_amount + ?S vln_sgst_amount + ?S vln_igst_amount)"
    by (rule sum_line_value)
  have lim: "?S line_value < 10 ^ 26" using s by (simp add: sound_lines_def)
  have a1: "dec_add (?S vln_cgst_amount) (?S vln_sgst_amount) = ?S vln_cgst_amount + ?S vln_sgst_amount"
    by (rule dec_add_exact) (use c p lim total in auto)
  have a2: "dec_add (?S vln_cgst_amount + ?S vln_sgst_amount) (?S vln_igst_amount) =
      ?S vln_cgst_amount + ?S vln_sgst_amount + ?S vln_igst_amount"
    by (rule dec_add_exact) (use c p lim total in auto)
  let ?g = "?S vln_cgst_amount + ?S vln_sgst_amount + ?S vln_igst_amount"
  have g: "money ?g = ?g" by (rule money_exact) (use c in auto)
  have a3: "dec_add (?S vln_taxable_value) ?g = ?S vln_taxable_value + ?g"
    by (rule dec_add_exact) (use c p lim total in auto)
  have b: "money (?S vln_taxable_value + ?g) = ?S vln_taxable_value + ?g" by (rule money_exact) (use c in auto)
  have sm: "vsm_lines sm = ls" by (simp add: sm_def ls_def)
  have ls: "ls = map (voucher_line_of b) (group_batch_items d b)" by (simp add: ls_def calculate_voucher_summary_def Let_def)
  show "vsm_before_round_off sm = sum_list (map line_value (vsm_lines sm))"
    unfolding sm total by (simp add: sm_def calculate_voucher_summary_def Let_def ls [symmetric] t a1 a2 g a3 b)
  show "vsm_cgst_amount sm = sum_list (map vln_cgst_amount (vsm_lines sm))"
    "vsm_sgst_amount sm = sum_list (map vln_sgst_amount (vsm_lines sm))"
    "vsm_igst_amount sm = sum_list (map vln_igst_amount (vsm_lines sm))"
    unfolding sm by (simp_all add: sm_def calculate_voucher_summary_def Let_def ls [symmetric] t money_exact c)
qed

section \<open>The tax ledgers\<close>

definition totals_sum :: "tax_totals \<Rightarrow> rat" where
  "totals_sum t = ttl_cgst t + ttl_sgst t + ttl_igst t"

definition tax_sum :: "(string \<times> tax_totals) list \<Rightarrow> rat" where
  "tax_sum acc = sum_list (map (\<lambda>kt. totals_sum (snd kt)) acc)"

definition sound_totals :: "tax_totals \<Rightarrow> bool" where
  "sound_totals t \<longleftrightarrow> cents (ttl_cgst t) \<and> cents (ttl_sgst t) \<and> cents (ttl_igst t) \<and>
     0 \<le> ttl_cgst t \<and> 0 \<le> ttl_sgst t \<and> 0 \<le> ttl_igst t"

definition sound_acc :: "(string \<times> tax_totals) list \<Rightarrow> bool" where
  "sound_acc acc \<longleftrightarrow> distinct (map fst acc) \<and> list_all (\<lambda>kt. sound_totals (snd kt)) acc"

lemma tax_sum_replace:
  "distinct (map fst acc) \<Longrightarrow> map_of acc k = Some u \<Longrightarrow>
     tax_sum (map (\<lambda>(x, y). (x, if x = k then t else y)) acc) = tax_sum acc - totals_sum u + totals_sum t"
proof (induction acc)
  case Nil
  then show ?case by simp
next
  case (Cons p acc)
  obtain x y where p: "p = (x, y)" by (cases p)
  have "map (\<lambda>(x, y). (x, if x = k then t else y)) acc = acc" if "k \<notin> fst ` set acc"
    using that by (intro map_idI) (auto simp: image_iff)
  moreover have "tax_sum (kt # kts) = totals_sum (snd kt) + tax_sum kts" for kt kts by (simp add: tax_sum_def)
  ultimately show ?case using Cons p by (cases "x = k") (auto simp del: map_map)
qed

lemma tax_sum_dict_put:
  assumes "distinct (map fst acc)"
  shows "tax_sum (dict_put k t acc) = tax_sum acc -
    (case map_of acc k of None \<Rightarrow> 0 | Some u \<Rightarrow> totals_sum u) + totals_sum t"
proof (cases "map_of acc k")
  case None
  then have "k \<notin> fst ` set acc" by (simp add: map_of_eq_None_iff)
  with None show ?thesis by (simp add: dict_put_def tax_sum_def)
next
  case (Some u)
  then have "k \<in> fst ` set acc" by (metis map_of_eq_None_iff option.discI)
  with tax_sum_replace [OF assms Some] Some show ?thesis by (simp add: dict_put_def)
qed

lemma dict_put_values: "list_all (\<lambda>kv. P (snd kv)) kvs \<Longrightarrow> P v \<Longrightarrow> list_all (\<lambda>kv. P (snd kv)) (dict_put k v kvs)"
  by (auto simp: dict_put_def list_all_iff)

lemma elem_le_sum_list: "\<forall>x \<in> set xs. 0 \<le> x \<Longrightarrow> y \<in> set xs \<Longrightarrow> y \<le> sum_list (xs :: rat list)"
proof (induction xs)
  case Nil
  then show ?case by simp
next
  case (Cons x xs)
  moreover have "0 \<le> sum_list xs" by (rule sum_list_nonneg) (use Cons.prems(1) in auto)
  ultimately show ?case by fastforce
qed

lemma totals_le: "sound_acc acc \<Longrightarrow> map_of acc k = Some u \<Longrightarrow> sound_totals u \<and> totals_sum u \<le> tax_sum acc"
proof -
  assume a: "sound_acc acc" "map_of acc k = Some u"
  then have "(k, u) \<in> set acc" by (simp add: map_of_SomeD)
  then have u: "sound_totals u" using a(1) by (auto simp: sound_acc_def list_all_iff)
  have "totals_sum u \<in> set (map (\<lambda>kt. totals_sum (snd kt)) acc)" using \<open>(k, u) \<in> set acc\<close> by force
  moreover have "\<forall>x \<in> set (map (\<lambda>kt. totals_sum (snd kt)) acc). 0 \<le> x"
    using a(1) by (auto simp: sound_acc_def list_all_iff sound_totals_def totals_sum_def)
  ultimately have "totals_sum u \<le> tax_sum acc" unfolding tax_sum_def by (intro elem_le_sum_list)
  with u show ?thesis by simp
qed

definition sound_line :: "voucher_line \<Rightarrow> bool" where
  "sound_line l \<longleftrightarrow> cent_line l \<and> 0 \<le> vln_cgst_amount l \<and> 0 \<le> vln_sgst_amount l \<and> 0 \<le> vln_igst_amount l"

lemma add_tax_exact:
  assumes "sound_totals t" "sound_line l" "totals_sum t + line_tax_sum l < 10 ^ 26"
  shows "totals_sum (add_tax l t) = totals_sum t + line_tax_sum l" "sound_totals (add_tax l t)"
proof -
  note a = assms [unfolded sound_totals_def sound_line_def cent_line_def totals_sum_def line_tax_sum_def]
  have "dec_add (ttl_cgst t) (vln_cgst_amount l) = ttl_cgst t + vln_cgst_amount l"
    "dec_add (ttl_sgst t) (vln_sgst_amount l) = ttl_sgst t + vln_sgst_amount l"
    "dec_add (ttl_igst t) (vln_igst_amount l) = ttl_igst t + vln_igst_amount l"
    by (rule dec_add_exact; use a in auto)+
  then have t: "add_tax l t = \<lparr>ttl_cgst = ttl_cgst t + vln_cgst_amount l, ttl_sgst = ttl_sgst t + vln_sgst_amount l,
      ttl_igst = ttl_igst t + vln_igst_amount l\<rparr>" by (simp add: add_tax_def)
  show "totals_sum (add_tax l t) = totals_sum t + line_tax_sum l" by (simp add: t totals_sum_def line_tax_sum_def)
  show "sound_totals (add_tax l t)" using a by (auto simp: t sound_totals_def)
qed

lemma sound_no_tax: "sound_totals no_tax" "totals_sum no_tax = 0"
  by (auto simp: sound_totals_def no_tax_def totals_sum_def)

lemma add_line_tax_sum:
  assumes "add_line_tax l acc = Inr acc'" "sound_acc acc" "sound_line l" "tax_sum acc + line_tax_sum l < 10 ^ 26"
  shows "sound_acc acc' \<and> tax_sum acc' = tax_sum acc + line_tax_sum l"
proof -
  obtain key where acc': "acc' = dict_put key (add_tax l (case map_of acc key of Some t \<Rightarrow> t | None \<Rightarrow> no_tax)) acc"
    using assms(1) by (auto simp: add_line_tax_def split: sum.splits)
  define old where "old = (case map_of acc key of Some t \<Rightarrow> t | None \<Rightarrow> no_tax)"
  have "0 \<le> tax_sum acc" unfolding tax_sum_def
    by (rule sum_list_nonneg) (use assms(2) in \<open>auto simp: sound_acc_def list_all_iff sound_totals_def totals_sum_def\<close>)
  then have old: "sound_totals old \<and> totals_sum old \<le> tax_sum acc"
    using totals_le [OF assms(2)] sound_no_tax by (auto simp: old_def split: option.splits)
  note ex = add_tax_exact [of old l]
  have d: "distinct (map fst acc)" using assms(2) by (simp add: sound_acc_def)
  have lt: "totals_sum old + line_tax_sum l < 10 ^ 26" using old assms(4) by linarith
  have "tax_sum acc' = tax_sum acc - (case map_of acc key of None \<Rightarrow> 0 | Some u \<Rightarrow> totals_sum u) + totals_sum (add_tax l old)"
    unfolding acc' old_def [symmetric] by (rule tax_sum_dict_put [OF d])
  also have "(case map_of acc key of None \<Rightarrow> 0 | Some u \<Rightarrow> totals_sum u) = totals_sum old"
    by (simp add: old_def sound_no_tax(2) split: option.splits)
  finally have "tax_sum acc' = tax_sum acc + line_tax_sum l" using ex(1) old assms(3) lt by simp
  moreover have "sound_acc acc'"
    unfolding sound_acc_def acc' old_def [symmetric] using ex(2) old assms(2,3) lt d
    by (auto simp: sound_acc_def intro: dict_put_distinct dict_put_values)
  ultimately show ?thesis by simp
qed

lemma fold_line_tax_sum:
  assumes "fold_res add_line_tax ls acc = Inr acc'" "sound_acc acc" "\<forall>l \<in> set ls. sound_line l"
    "tax_sum acc + sum_list (map line_tax_sum ls) < 10 ^ 26"
  shows "sound_acc acc' \<and> tax_sum acc' = tax_sum acc + sum_list (map line_tax_sum ls)"
  using assms
proof (induction ls arbitrary: acc)
  case Nil
  then show ?case by simp
next
  case (Cons l ls)
  obtain a where a: "add_line_tax l acc = Inr a" "fold_res add_line_tax ls a = Inr acc'"
    using Cons.prems(1) by (auto split: sum.splits)
  have "0 \<le> sum_list (map line_tax_sum ls)"
    by (rule sum_list_nonneg) (use Cons.prems(3) in \<open>auto simp: sound_line_def line_tax_sum_def\<close>)
  then have "sound_acc a \<and> tax_sum a = tax_sum acc + line_tax_sum l"
    using Cons.prems by (intro add_line_tax_sum [OF a(1)]) auto
  with Cons.IH [OF a(2)] Cons.prems(3,4) show ?case by (simp add: algebra_simps)
qed

abbreviation credit_sign :: "bool \<Rightarrow> rat" where
  "credit_sign sale \<equiv> (if sale then 1 else - 1)"

lemma rate_postings_sum:
  assumes "rate_postings m sale (k, t) = Inr ps" "sound_totals t"
  shows "sum_list (map lgp_amount ps) = credit_sign sale * totals_sum t"
  using assms by (auto simp: rate_postings_def ledger_line_def totals_sum_def sound_totals_def split: option.splits if_splits)

lemma append_rates_sum:
  assumes "fold_res (append_rate m sale) totals acc = Inr ps" "list_all (\<lambda>kt. sound_totals (snd kt)) totals"
  shows "sum_list (map lgp_amount ps) = sum_list (map lgp_amount acc) + credit_sign sale * tax_sum totals"
  using assms
proof (induction totals arbitrary: acc)
  case Nil
  then show ?case by (simp add: tax_sum_def)
next
  case (Cons kt totals)
  obtain k t where kt: "kt = (k, t)" by (cases kt)
  have ap: "append_rate m sale (k, t) acc = (case rate_postings m sale (k, t) of Inl e \<Rightarrow> Inl e | Inr ps \<Rightarrow> Inr (acc @ ps))"
    by (simp add: append_rate_def)
  obtain qs where qs: "rate_postings m sale (k, t) = Inr qs" "fold_res (append_rate m sale) totals (acc @ qs) = Inr ps"
    using Cons.prems(1) by (auto simp: kt ap split: sum.splits)
  have "sum_list (map lgp_amount qs) = credit_sign sale * totals_sum t"
    using rate_postings_sum [OF qs(1)] Cons.prems(2) kt by simp
  with Cons.IH [OF qs(2)] Cons.prems(2) kt show ?case by (simp add: tax_sum_def algebra_simps)
qed

lemma sales_items_sum:
  assumes "fold_res (sales_item m sale) ls acc = Inr items"
  shows "sum_list (map itp_amount items) = sum_list (map itp_amount acc) + credit_sign sale * sum_list (map vln_taxable_value ls)"
  using assms
proof (induction ls arbitrary: acc)
  case Nil
  then show ?case by simp
next
  case (Cons l ls)
  obtain a where a: "sales_item m sale l acc = Inr a" "fold_res (sales_item m sale) ls a = Inr items"
    using Cons.prems by (auto split: sum.splits)
  obtain g where "a = acc @ [item_posting_of sale g l]"
    using a(1) by (auto simp: sales_item_def split: sum.splits option.splits)
  with a(2) have "fold_res (sales_item m sale) ls (acc @ [item_posting_of sale g l]) = Inr items" by simp
  from Cons.IH [OF this] show ?case by (simp add: item_posting_of_def algebra_simps)
qed

section \<open>The balance\<close>

definition posted_amounts :: "postings \<Rightarrow> rat list" where
  "posted_amounts p = lgp_amount (pst_party p) # map itp_amount (pst_items p) @ map lgp_amount (pst_taxes p) @
     map lgp_amount (pst_round p)"

lemma sound_lines_line: "sound_lines ls \<Longrightarrow> \<forall>l \<in> set ls. cent_line l \<Longrightarrow> l \<in> set ls \<Longrightarrow> sound_line l"
  by (auto simp: sound_lines_def list_all_iff sound_line_def)

lemma sales_taxes_sum:
  assumes "sales_tax_postings m sale ls = Inr ps" "sound_lines ls" "\<forall>l \<in> set ls. cent_line l"
  shows "sum_list (map lgp_amount ps) = credit_sign sale * sum_list (map line_tax_sum ls)"
proof -
  obtain totals where t: "fold_res add_line_tax ls [] = Inr totals" "fold_res (append_rate m sale) totals [] = Inr ps"
    using assms(1) by (auto simp: sales_tax_postings_def split: sum.splits)
  have "sum_list (map line_tax_sum ls) < 10 ^ 26"
    by (rule sound_part [OF assms(2)]) (use assms(2) in \<open>auto simp: sound_lines_def list_all_iff line_value_def\<close>)
  then have "sound_acc totals \<and> tax_sum totals = sum_list (map line_tax_sum ls)"
    using fold_line_tax_sum [OF t(1)] sound_lines_line [OF assms(2,3)] by (simp add: sound_acc_def tax_sum_def)
  with append_rates_sum [OF t(2)] show ?thesis by (simp add: sound_acc_def)
qed

lemma purchase_igst:
  assumes "bat_type b \<notin> {B_SALE, B_SALES_RETURN}" "l \<in> set (vsm_lines (calculate_voucher_summary d b))"
  shows "vln_igst_amount l = 0"
  using assms by (auto simp: calculate_voucher_summary_def Let_def voucher_line_of_def line_tax_of_def is_interstate_sale_def
    is_sales_side_def)

lemma purchase_taxes_sum:
  assumes "sound_lines (vsm_lines (calculate_voucher_summary d b))" "bat_type b \<notin> {B_SALE, B_SALES_RETURN}"
  shows "sum_list (map lgp_amount (purchase_tax_postings p (calculate_voucher_summary d b))) =
    - sum_list (map line_tax_sum (vsm_lines (calculate_voucher_summary d b)))"
proof -
  let ?ls = "vsm_lines (calculate_voucher_summary d b)"
  have nn: "0 \<le> vln_cgst_amount l" "0 \<le> vln_sgst_amount l" if "l \<in> set ?ls" for l
    using assms(1) that by (auto simp: sound_lines_def list_all_iff)
  have p: "0 \<le> sum_list (map vln_cgst_amount ?ls)" "0 \<le> sum_list (map vln_sgst_amount ?ls)"
    by (rule sum_list_nonneg; use nn in auto)+
  have "map line_tax_sum ?ls = map (\<lambda>l. vln_cgst_amount l + vln_sgst_amount l) ?ls"
    using purchase_igst [OF assms(2)] by (simp add: line_tax_sum_def)
  then have "sum_list (map line_tax_sum ?ls) = sum_list (map vln_cgst_amount ?ls) + sum_list (map vln_sgst_amount ?ls)"
    by (simp only: sum_list_addf)
  with p show ?thesis
    unfolding purchase_tax_postings_def summary_exact(2,3) [OF assms(1)] by (auto simp: ledger_line_def)
qed

lemma item_and_tax_sum:
  assumes "item_and_tax_postings st m (bat_type b) (calculate_voucher_summary d b) = Inr (items, taxes)"
    "sound_lines (vsm_lines (calculate_voucher_summary d b))"
  shows "sum_list (map itp_amount items) + sum_list (map lgp_amount taxes) =
    credit_sign (bat_type b = B_SALE) * sum_list (map line_value (vsm_lines (calculate_voucher_summary d b)))"
proof -
  let ?ls = "vsm_lines (calculate_voucher_summary d b)"
  have ce: "\<forall>l \<in> set ?ls. cent_line l" using cent_lines by blast
  have split: "sum_list (map line_value ?ls) = sum_list (map vln_taxable_value ?ls) + sum_list (map line_tax_sum ?ls)"
    unfolding line_value_def by (rule sum_list_addf)
  show ?thesis
  proof (cases "bat_type b \<in> {B_SALE, B_SALES_RETURN}")
    case True
    then have i: "fold_res (sales_item m (bat_type b = B_SALE)) ?ls [] = Inr items"
      and t: "sales_tax_postings m (bat_type b = B_SALE) ?ls = Inr taxes"
      using assms(1) by (auto simp: item_and_tax_postings_def Let_def split: option.splits sum.splits)
    show ?thesis
      using sales_items_sum [OF i] sales_taxes_sum [OF t assms(2) ce] split by (simp add: algebra_simps)
  next
    case False
    then obtain p where p: "items = map (item_posting_of False (pul_purchase p)) ?ls"
      "taxes = purchase_tax_postings p (calculate_voucher_summary d b)"
      using assms(1) by (auto simp: item_and_tax_postings_def Let_def split: sum.splits)
    have "sum_list (map itp_amount items) = - sum_list (map vln_taxable_value ?ls)"
      by (simp add: p(1) item_posting_of_def comp_def uminus_sum_list_map)
    with purchase_taxes_sum [OF assms(2) False, of p] p(2) split False show ?thesis by simp
  qed
qed

lemma posted_amounts_sum:
  assumes "voucher_postings st d b = Inr p" "sound_lines (vsm_lines (calculate_voucher_summary d b))"
  shows "sum_list (posted_amounts p) = 0"
proof -
  let ?sm = "calculate_voucher_summary d b"
  obtain m items taxes where it: "item_and_tax_postings st m (bat_type b) ?sm = Inr (items, taxes)"
    and p: "pst_items p = items" "pst_taxes p = taxes"
      "lgp_amount (pst_party p) = - credit_sign (bat_type b = B_SALE) * vsm_final_value ?sm"
      "map lgp_amount (pst_round p) = (if vsm_round_off ?sm = 0 then [] else [credit_sign (bat_type b = B_SALE) * vsm_round_off ?sm])"
    using assms(1) by (auto simp: voucher_postings_def Let_def split: sum.splits if_splits prod.splits)
  have "sum_list (posted_amounts p) = - credit_sign (bat_type b = B_SALE) * vsm_final_value ?sm +
      credit_sign (bat_type b = B_SALE) * vsm_before_round_off ?sm + credit_sign (bat_type b = B_SALE) * vsm_round_off ?sm"
    using item_and_tax_sum [OF it assms(2)] summary_exact(1) [OF assms(2)]
    by (cases "bat_type b = B_SALE") (simp_all add: posted_amounts_def p)
  also have "\<dots> = 0" using summary_balance [of d b] by (auto simp: algebra_simps)
  finally show ?thesis .
qed

section \<open>Properties\<close>

text \<open>
  C11. The amounts of a voucher sent to Tally, party, items, tax ledgers and round-off with
  their signs, add up to nothing, whatever the kind of voucher and the GST rates, as long as
  no line is negative and the total stays below ten to the 26th.
\<close>

theorem voucher_balances:
  assumes "voucher_postings st d b = Inr p" "sound_lines (vsm_lines (calculate_voucher_summary d b))"
  shows "sum_list (posted_amounts p) = 0"
  using assms by (rule posted_amounts_sum)

end
