(* ===== verification/TallySync.thy ===== *)
theory TallySync
  imports TallyFacts
begin

text \<open>
  The life of a batch in the Tally queue: only its own row changes, what is synchronised or
  closed stays so, and a claim is given to one session.
\<close>

section \<open>Only the batch's own row changes\<close>

definition touches_batch :: "nat \<Rightarrow> db \<Rightarrow> db \<Rightarrow> bool" where
  "touches_batch i d e \<longleftrightarrow>
     (\<exists>f. batches e = upd_rows (\<lambda>r. bat_id r = i) f (batches d) \<and> (\<forall>r. bat_id (f r) = bat_id r))"

lemma touches_batch_refl: "batches e = batches d \<Longrightarrow> touches_batch i d e"
  by (auto simp: touches_batch_def upd_rows_def intro: exI [of _ "\<lambda>x. x"])

lemma touches_batch_trans:
  assumes "touches_batch i d e" "touches_batch i e f"
  shows "touches_batch i d f"
proof -
  obtain g h where g: "batches e = upd_rows (\<lambda>r. bat_id r = i) g (batches d)" "\<forall>r. bat_id (g r) = bat_id r"
    and h: "batches f = upd_rows (\<lambda>r. bat_id r = i) h (batches e)" "\<forall>r. bat_id (h r) = bat_id r"
    using assms by (auto simp: touches_batch_def)
  have "batches f = upd_rows (\<lambda>r. bat_id r = i) (\<lambda>r. h (g r)) (batches d)"
    unfolding h(1) g(1) by (rule upd_rows_twice) (simp add: g(2))
  moreover have "\<forall>r. bat_id (h (g r)) = bat_id r" by (simp add: g(2) h(2))
  ultimately show ?thesis unfolding touches_batch_def by blast
qed

lemma touches_batch_cong: "batches e' = batches e \<Longrightarrow> touches_batch i d e \<Longrightarrow> touches_batch i d e'"
  by (simp add: touches_batch_def)

lemma touches_batch_set: "(\<And>r. bat_id (f r) = bat_id r) \<Longrightarrow> touches_batch i d (set_batch i f d)"
  by (auto simp: touches_batch_def set_batch_def)

lemma touches_batch_claim: "touches_batch (bat_id b) d (snd (claim_batch b xml now d))"
proof -
  let ?g = "\<lambda>r. if claimable b r then start_sync b xml now r else r"
  have "batches (snd (claim_batch b xml now d)) = upd_rows (\<lambda>r. bat_id r = bat_id b) ?g (batches d)"
    by (auto simp: claim_batch_def claimable_def upd_rows_def)
  moreover have "\<forall>r. bat_id (?g r) = bat_id r" by (simp add: start_sync_def)
  ultimately show ?thesis unfolding touches_batch_def by blast
qed

lemma batches_frame [simp]:
  "batches (add_attempt i s q p e t d) = batches d" "batches (set_attempt i f d) = batches d"
  "batches (update_batch_transaction_references b d) = batches d"
  by (simp_all add: add_attempt_def set_attempt_def update_batch_transaction_references_def)

lemma touches_store_progress:
  "(\<And>r. bat_id (f r) = bat_id r) \<Longrightarrow> touches_batch (bat_id b) d (store_progress b f d)"
  unfolding store_progress_def by (rule touches_batch_set) simp

lemma touches_park: "touches_batch (bat_id b) d (park b xml m now d)"
proof -
  have "touches_batch (bat_id b) d (store_progress b (\<lambda>r. r\<lparr>bat_status := BS_PENDING_SYNC, bat_last_error := Some m,
         bat_sync_request_xml := (if xml = None then bat_sync_request_xml r else xml), bat_last_retry_at := Some now\<rparr>) d)"
    by (rule touches_store_progress) simp
  then show ?thesis unfolding park_def by (rule touches_batch_trans) (simp add: touches_batch_refl)
qed

lemma touches_answer: "touches_batch (bat_id b) d (store_answer b aid xml w r d)"
proof (cases r)
  case (Inl f)
  have "touches_batch (bat_id b) d (set_batch (bat_id b) (\<lambda>r. r\<lparr>bat_status := s, bat_last_error := m, bat_last_retry_at := t,
      bat_sync_started_at := None\<rparr>) d)" for s m t by (rule touches_batch_set) simp
  from touches_batch_cong [OF _ this] Inl show ?thesis
    by (cases f) (simp_all add: store_answer_def Let_def touches_batch_refl)
next
  case (Inr x)
  have "touches_batch (bat_id b) d (set_batch (bat_id b) (\<lambda>r. r\<lparr>bat_status := BS_SYNCED, bat_tally_reference := m,
      bat_last_error := None, bat_synced_at := t, bat_sync_started_at := None\<rparr>) d)" for m t
    by (rule touches_batch_set) simp
  from touches_batch_cong [OF _ this] Inr show ?thesis by (cases x) (simp add: store_answer_def Let_def)
qed

lemma touches_send:
  assumes "syw_others w d = d"
  shows "touches_batch (bat_id b) d (sou_db (send_batch st b xml w d))"
proof -
  obtain n d1 where c: "claim_batch b xml (syw_now w) d = (n, d1)" by fastforce
  have t1: "touches_batch (bat_id b) d d1" using touches_batch_claim [of b d xml "syw_now w"] c by simp
  show ?thesis
  proof (cases "n = 1")
    case False
    with c assms show ?thesis by (simp add: send_batch_def touches_batch_refl)
  next
    case True
    let ?d2 = "add_attempt (bat_id b) BS_SYNCING (Some xml) None None (syw_now w) d1"
    have "touches_batch (bat_id b) d ?d2" by (rule touches_batch_trans [OF t1]) (simp add: touches_batch_refl)
    from touches_batch_trans [OF this touches_answer] True c assms show ?thesis
      by (simp add: send_batch_def Let_def)
  qed
qed

lemma count_retry_id [simp]: "bat_id (count_retry now b) = bat_id b"
  by (simp add: count_retry_def)

lemma touches_close: "touches_batch (bat_id b) d (close_batch b now d)"
  unfolding close_batch_def by (rule touches_store_progress) simp

lemma touches_unsupported: "touches_batch (bat_id b) d (park_unsupported b now d)"
proof -
  have "touches_batch (bat_id b) d (store_progress b (\<lambda>r. r\<lparr>bat_status := BS_PENDING_SYNC, bat_last_error := m\<rparr>) d)" for m
    by (rule touches_store_progress) simp
  from touches_batch_cong [OF _ this] show ?thesis by (simp add: park_unsupported_def Let_def)
qed

lemma touches_voucher:
  "syw_others w d = d \<Longrightarrow> touches_batch (bat_id b) d (sou_db (sync_voucher uuid5 st b w d))"
  by (auto simp: sync_voucher_def touches_park touches_send touches_batch_refl split: sum.split tally_failure.split)

lemma with_remote_id_fields [simp]:
  "bat_id (with_remote_id u st b) = bat_id b" "bat_status (with_remote_id u st b) = bat_status b"
  "bat_type (with_remote_id u st b) = bat_type b" "bat_sync_request_xml (with_remote_id u st b) = bat_sync_request_xml b"
  "bat_sync_started_at (with_remote_id u st b) = bat_sync_started_at b"
  by (simp_all add: with_remote_id_def)

lemma count_retry_fields [simp]:
  "bat_status (count_retry now b) = bat_status b" "bat_type (count_retry now b) = bat_type b"
  "bat_sync_request_xml (count_retry now b) = bat_sync_request_xml b"
  "bat_sync_started_at (count_retry now b) = bat_sync_started_at b"
  by (simp_all add: count_retry_def)

lemma touches_locked:
  assumes "syw_others w d = d"
  shows "touches_batch (bat_id b) d (sou_db (sync_batch_locked uuid5 b w d))"
proof -
  let ?b = "count_retry (syw_now w) b" and ?st = "get_all_settings d"
  show ?thesis
    using touches_close [of ?b d "syw_now w"] touches_unsupported [of ?b d "syw_now w"]
      touches_voucher [of w d "with_remote_id uuid5 ?st ?b" uuid5 ?st, OF assms]
    by (simp add: sync_batch_locked_def Let_def touches_batch_refl)
qed

lemma get_batch_in: "get_batch d i = Some r \<Longrightarrow> r \<in> set (batches d) \<and> bat_id r = i"
  unfolding get_batch_def by (rule find_SomeD)

lemma touches_sync:
  assumes "syw_others w d = d"
  shows "touches_batch (bat_id b) d (sou_db (sync_batch uuid5 b w d))"
proof (cases "get_batch d (bat_id b)")
  case None
  then show ?thesis by (simp add: sync_batch_def touches_batch_refl)
next
  case (Some row)
  then have "bat_id row = bat_id b" using get_batch_in by blast
  with Some touches_locked [OF assms, of b uuid5] touches_locked [OF assms, of row uuid5] show ?thesis
    by (simp add: sync_batch_def touches_batch_refl)
qed

lemma touches_queue: "touches_batch (bat_id b) d (fst (queue_batch_for_sync b d))"
proof -
  have "touches_batch (bat_id b) d (d\<lparr>batches := upd_rows (\<lambda>r. bat_id r = bat_id b \<and> p r) f (batches d)\<rparr>)"
    if "\<And>r. bat_id (f r) = bat_id r" for p f
  proof -
    have "upd_rows (\<lambda>r. bat_id r = bat_id b \<and> p r) f (batches d) =
        upd_rows (\<lambda>r. bat_id r = bat_id b) (\<lambda>r. if p r then f r else r) (batches d)"
      by (auto simp: upd_rows_def)
    then show ?thesis unfolding touches_batch_def using that by (intro exI [of _ "\<lambda>r. if p r then f r else r"]) simp
  qed
  then show ?thesis by (simp add: queue_batch_for_sync_def touches_batch_refl)
qed

section \<open>The queue as a machine\<close>

datatype tally_op = SyncBatch nat sync_world | QueueBatch nat

text \<open>
  One process holds the lock, so nothing comes between the reading of a batch and its claim;
  every operation works on the batch as it is stored.
\<close>

fun tally_step :: "(string \<Rightarrow> string) \<Rightarrow> tally_op \<Rightarrow> db \<Rightarrow> db" where
  "tally_step uuid5 (SyncBatch i w) d =
     (case get_batch d i of None \<Rightarrow> d | Some b \<Rightarrow> sou_db (sync_batch uuid5 b (w\<lparr>syw_others := \<lambda>e. e\<rparr>) d))"
| "tally_step uuid5 (QueueBatch i) d =
     (case get_batch d i of None \<Rightarrow> d | Some b \<Rightarrow> fst (queue_batch_for_sync b d))"

definition settled_batches :: "db \<Rightarrow> batch set" where
  "settled_batches d = {b \<in> set (batches d). bat_status b \<in> {BS_SYNCED, BS_CLOSED}}"

definition settled_le :: "db \<Rightarrow> db \<Rightarrow> bool" where
  "settled_le d e \<longleftrightarrow> settled_batches d \<subseteq> settled_batches e"

definition batch_keys :: "db \<Rightarrow> bool" where
  "batch_keys d \<longleftrightarrow> distinct (map bat_id (batches d))"

lemma touches_keys: "touches_batch i d e \<Longrightarrow> batch_keys e = batch_keys d"
  by (auto simp: touches_batch_def map_upd_rows batch_keys_def)

lemma get_batch_self: "batch_keys d \<Longrightarrow> b \<in> set (batches d) \<Longrightarrow> get_batch d (bat_id b) = Some b"
  unfolding get_batch_def batch_keys_def by (rule find_key_distinct)

lemma touches_settled:
  assumes "touches_batch i d e" "batch_keys d" "get_batch d i = Some b" "bat_status b \<notin> {BS_SYNCED, BS_CLOSED}"
  shows "settled_le d e"
proof -
  obtain f where f: "batches e = upd_rows (\<lambda>r. bat_id r = i) f (batches d)" using assms(1) by (auto simp: touches_batch_def)
  have "bat_id r \<noteq> i" if "r \<in> settled_batches d" for r
    using that assms(3,4) get_batch_self [OF assms(2), of r] by (auto simp: settled_batches_def)
  then show ?thesis by (fastforce simp: settled_le_def settled_batches_def f set_upd_rows)
qed

lemma tally_step_effect:
  assumes "batch_keys d"
  shows "batch_keys (tally_step uuid5 x d) \<and> settled_le d (tally_step uuid5 x d)"
proof (cases x)
  case (SyncBatch i w)
  show ?thesis
  proof (cases "get_batch d i")
    case None
    with SyncBatch assms show ?thesis by (simp add: settled_le_def)
  next
    case (Some b)
    then have i: "bat_id b = i" using get_batch_in by blast
    let ?w = "w\<lparr>syw_others := \<lambda>e. e\<rparr>"
    have t: "touches_batch i d (sou_db (sync_batch uuid5 b ?w d))"
      using touches_sync [of ?w d b uuid5] by (simp add: i)
    show ?thesis
    proof (cases "bat_status b \<in> {BS_SYNCED, BS_CLOSED}")
      case True
      then have "sync_batch uuid5 b ?w d = settled d" using Some i by (simp add: sync_batch_def)
      with SyncBatch Some assms show ?thesis by (simp add: settled_le_def)
    next
      case False
      with SyncBatch Some assms touches_keys [OF t] touches_settled [OF t assms Some] show ?thesis by simp
    qed
  qed
next
  case (QueueBatch i)
  show ?thesis
  proof (cases "get_batch d i")
    case None
    with QueueBatch assms show ?thesis by (simp add: settled_le_def)
  next
    case (Some b)
    then have i: "bat_id b = i" using get_batch_in by blast
    have t: "touches_batch i d (fst (queue_batch_for_sync b d))" using touches_queue [of b d] by (simp add: i)
    show ?thesis
    proof (cases "bat_status b \<in> {BS_SYNCED, BS_CLOSED}")
      case True
      with QueueBatch Some assms show ?thesis by (auto simp: settled_le_def queue_batch_for_sync_def)
    next
      case False
      with QueueBatch Some assms touches_keys [OF t] touches_settled [OF t assms Some] show ?thesis by simp
    qed
  qed
qed

interpretation tally_machine: monotone_machine "tally_step uuid5" batch_keys settled_le for uuid5
  by unfold_locales (use tally_step_effect in \<open>auto simp: settled_le_def\<close>)

section \<open>What was sent is stored\<close>

lemma get_batch_set:
  "(\<And>r. bat_id (f r) = bat_id r) \<Longrightarrow>
     get_batch (set_batch i f d) k = map_option (\<lambda>r. if bat_id r = i then f r else r) (get_batch d k)"
  unfolding get_batch_def set_batch_def by (simp add: find_upd_rows)

lemma get_batch_cong: "batches e = batches d \<Longrightarrow> get_batch e k = get_batch d k"
  by (simp add: get_batch_def)

lemma get_batch_claim:
  "get_batch (snd (claim_batch b xml now d)) k =
     map_option (\<lambda>r. if claimable b r then start_sync b xml now r else r) (get_batch d k)"
  unfolding get_batch_def claim_batch_def by (simp add: find_upd_rows start_sync_def)

lemma fst_claim_batch:
  "batch_keys d \<Longrightarrow> fst (claim_batch b xml now d) =
     (case get_batch d (bat_id b) of None \<Rightarrow> 0 | Some r \<Rightarrow> if claimable b r then 1 else 0)"
  using count_rows_key [of bat_id "batches d" "bat_id b" "\<lambda>r. bat_status r = bat_status b \<and>
      (bat_status b = BS_SYNCING \<longrightarrow> bat_sync_started_at r = bat_sync_started_at b)"]
  by (auto simp: claim_batch_def get_batch_def batch_keys_def claimable_def [abs_def] split: option.splits dest: find_SomeD)

lemma claimable_self [simp]: "claimable b b"
  by (simp add: claimable_def)

lemma claimable_like:
  "bat_id c = bat_id b \<Longrightarrow> bat_status c = bat_status b \<Longrightarrow> bat_sync_started_at c = bat_sync_started_at b \<Longrightarrow>
     claimable c r = claimable b r"
  by (simp add: claimable_def)

lemma set_attempt_batch [simp]: "get_batch (set_attempt i f d) k = get_batch d k"
  by (rule get_batch_cong) simp

lemma add_attempt_batch [simp]: "get_batch (add_attempt i s q p e t d) k = get_batch d k"
  by (rule get_batch_cong) simp

lemma references_batch [simp]: "get_batch (update_batch_transaction_references b d) k = get_batch d k"
  by (rule get_batch_cong) simp

text \<open>The row after the answer: the request stays, the state is decided by the answer.\<close>

lemma answered_row:
  assumes "get_batch d (bat_id b) = Some r"
  shows "\<exists>r'. get_batch (store_answer b aid xml w res d) (bat_id b) = Some r' \<and>
    bat_sync_request_xml r' = bat_sync_request_xml r \<and> bat_type r' = bat_type r \<and>
    (case res of Inr _ \<Rightarrow> bat_status r' = BS_SYNCED
     | Inl (TallySyncError m retryable q p) \<Rightarrow> bat_last_retry_at r' = Some (syw_now w) \<and>
         bat_status r' = (if retryable then BS_PENDING_SYNC else BS_FAILED)
     | Inl (Escapes e) \<Rightarrow> r' = r)"
proof -
  have "bat_id r = bat_id b" using assms get_batch_in by blast
  then show ?thesis
    using assms by (auto simp: store_answer_def Let_def get_batch_set split: sum.split tally_failure.split)
qed

lemma judge_escapes: "judge_answer xml a = Inl (Escapes e) \<longleftrightarrow> a = Interrupted e"
  by (auto simp: judge_answer_def Let_def split: tally_answer.split)

lemma post_escapes:
  "post_to_tally xml st a = Inl (Escapes e) \<longleftrightarrow>
     a = Interrupted e \<and> text_of (st ''tally_host'') \<noteq> [] \<and> text_of (st ''tally_port'') \<noteq> []"
  by (simp add: post_to_tally_def judge_escapes)

lemma request_not_empty: "request_for uuid5 st d b = Inr xml \<Longrightarrow> xml \<noteq> []"
  by (auto simp: request_for_def build_voucher_xml_def xml_node_def split: if_splits sum.splits)

text \<open>The row after a request was sent: the request is stored, and an interrupted batch keeps its claim.\<close>

lemma sent_row:
  assumes "claimable b row" "get_batch d (bat_id b) = Some row" "batch_keys d" "syw_others w d = d"
  shows "\<exists>r'. get_batch (sou_db (send_batch st b xml w d)) (bat_id b) = Some r' \<and> bat_sync_request_xml r' = Some xml \<and>
    bat_type r' = bat_type row \<and>
    (case sou_escaped (send_batch st b xml w d) of
       Some e \<Rightarrow> bat_status r' = BS_SYNCING \<and> bat_sync_started_at r' = Some (syw_now w)
     | None \<Rightarrow> bat_status r' \<in> {BS_SYNCED, BS_FAILED} \<or>
         bat_status r' = BS_PENDING_SYNC \<and> bat_last_retry_at r' = Some (syw_now w))"
proof -
  obtain n d1 where c: "claim_batch b xml (syw_now w) d = (n, d1)" by fastforce
  have n: "n = 1" using fst_claim_batch [OF assms(3), of b xml "syw_now w"] c assms(1,2) by simp
  have r1: "get_batch d1 (bat_id b) = Some (start_sync b xml (syw_now w) row)"
    using get_batch_claim [of b xml "syw_now w" d "bat_id b"] c assms(1,2) by simp
  let ?d2 = "add_attempt (bat_id b) BS_SYNCING (Some xml) None None (syw_now w) d1"
  have "get_batch ?d2 (bat_id b) = Some (start_sync b xml (syw_now w) row)" using r1 by simp
  define res where "res = post_to_tally xml st (syw_answer w)"
  from answered_row [OF \<open>get_batch ?d2 (bat_id b) = _\<close>, of "next_id att_id (sync_attempts d1)" xml w res]
  obtain r' where r': "get_batch (store_answer b (next_id att_id (sync_attempts d1)) xml w res ?d2) (bat_id b) = Some r'"
    "bat_sync_request_xml r' = Some xml" "bat_type r' = bat_type row"
    "case res of Inr _ \<Rightarrow> bat_status r' = BS_SYNCED
     | Inl (TallySyncError m retryable q p) \<Rightarrow> bat_last_retry_at r' = Some (syw_now w) \<and>
         bat_status r' = (if retryable then BS_PENDING_SYNC else BS_FAILED)
     | Inl (Escapes e) \<Rightarrow> r' = start_sync b xml (syw_now w) row"
    by (auto simp: start_sync_def)
  have out: "sou_db (send_batch st b xml w d) = store_answer b (next_id att_id (sync_attempts d1)) xml w res ?d2"
    "sou_escaped (send_batch st b xml w d) = (case res of Inl (Escapes e) \<Rightarrow> Some e | _ \<Rightarrow> None)"
    using c n assms(4) by (simp_all add: send_batch_def Let_def res_def)
  show ?thesis
  proof (cases res)
    case (Inl f)
    with r' out show ?thesis by (cases f) (auto simp: start_sync_def split: if_splits)
  next
    case (Inr x)
    with r' out show ?thesis by auto
  qed
qed

lemma post_of_voucher:
  assumes "sou_posted (sync_voucher uuid5 st b w d) = Some xml"
  shows "request_for uuid5 st d b = Inr xml \<and> sync_voucher uuid5 st b w d = send_batch st b xml w d \<and>
    fst (claim_batch b xml (syw_now w) (syw_others w d)) = 1"
proof -
  obtain y where y: "request_for uuid5 st d b = Inr y" and s: "sync_voucher uuid5 st b w d = send_batch st b y w d"
    using assms by (auto simp: sync_voucher_def split: sum.splits tally_failure.splits if_splits)
  have "y = xml \<and> fst (claim_batch b y (syw_now w) (syw_others w d)) = 1"
    using assms unfolding s by (auto simp: send_batch_def Let_def split: prod.splits if_splits)
  with y s show ?thesis by blast
qed

lemma post_of_locked:
  assumes "sou_posted (sync_batch_locked uuid5 b w d) = Some xml"
  shows "\<exists>c. bat_id c = bat_id b \<and> bat_status c = bat_status b \<and> bat_sync_started_at c = bat_sync_started_at b \<and>
    bat_sync_request_xml c = bat_sync_request_xml b \<and> bat_type c = bat_type b \<and>
    sync_batch_locked uuid5 b w d = sync_voucher uuid5 (get_all_settings d) c w d \<and> \<not> lease_running b (syw_now w)"
  using assms
  by (intro exI [of _ "with_remote_id uuid5 (get_all_settings d) (count_retry (syw_now w) b)"])
     (auto simp: sync_batch_locked_def Let_def split: if_splits)

lemma request_for_stored:
  "bat_status b \<noteq> BS_FAILED \<Longrightarrow> bat_sync_request_xml b = Some x \<Longrightarrow> x \<noteq> [] \<Longrightarrow> request_for uuid5 st d b = Inr x"
  by (simp add: request_for_def text_of_def)

lemma posted_is_stored:
  assumes "sou_posted (sync_batch uuid5 b w d) = Some xml" "batch_keys d" "syw_others w d = d"
    and "get_batch (sou_db (sync_batch uuid5 b w d)) (bat_id b) = Some r" "bat_type b = bat_type r"
  shows "xml \<noteq> [] \<and> bat_sync_request_xml r = Some xml \<and> bat_type r \<in> set tally_xml_supported \<and>
    bat_status r \<in> {BS_SYNCED, BS_FAILED, BS_PENDING_SYNC, BS_SYNCING} \<and>
    (\<forall>e. syw_answer w = Interrupted e \<longrightarrow> sou_escaped (sync_batch uuid5 b w d) = Some e \<and>
       bat_status r = BS_SYNCING \<and> bat_sync_started_at r = Some (syw_now w))"
proof -
  let ?st = "get_all_settings d"
  obtain row where row: "get_batch d (bat_id b) = Some row" and
    s: "sync_batch uuid5 b w d = sync_batch_locked uuid5 (if bat_status row = bat_status b then b else row) w d"
    using assms(1) by (auto simp: sync_batch_def split: option.splits if_splits)
  have "bat_id row = bat_id b" using row get_batch_in by blast
  then obtain c where c: "bat_id c = bat_id b" "bat_type c = bat_type (if bat_status row = bat_status b then b else row)"
    "sync_batch uuid5 b w d = sync_voucher uuid5 ?st c w d"
    using post_of_locked [of uuid5 "if bat_status row = bat_status b then b else row" w d xml] assms(1) s
    by (auto split: if_splits)
  note p = post_of_voucher [OF assms(1) [unfolded c(3)]]
  have o: "sync_batch uuid5 b w d = send_batch ?st c xml w d" using c(3) p by simp
  have n: "fst (claim_batch c xml (syw_now w) d) = 1" using p assms(3) by simp
  have g: "get_batch d (bat_id c) = Some row" using row c(1) by simp
  have claim: "claimable c row"
  proof (rule ccontr)
    assume "\<not> claimable c row"
    with n show False unfolding fst_claim_batch [OF assms(2)] g by simp
  qed
  from sent_row [OF this g assms(2,3), of ?st xml] have r: "bat_sync_request_xml r = Some xml" "bat_type r = bat_type row"
    "case sou_escaped (sync_batch uuid5 b w d) of
       Some e \<Rightarrow> bat_status r = BS_SYNCING \<and> bat_sync_started_at r = Some (syw_now w)
     | None \<Rightarrow> bat_status r \<in> {BS_SYNCED, BS_FAILED} \<or> bat_status r = BS_PENDING_SYNC \<and> bat_last_retry_at r = Some (syw_now w)"
    using assms(4) unfolding c(1) o by auto
  have "bat_type r \<in> set tally_xml_supported"
  proof -
    have t: "bat_type (if bat_status row = bat_status b then b else row) = bat_type r" using assms(5) r(2) by simp
    show ?thesis using assms(1) t unfolding s sync_batch_locked_def Let_def by (auto split: if_splits)
  qed
  moreover have "sou_escaped (sync_batch uuid5 b w d) = Some e" if "syw_answer w = Interrupted e" for e
  proof -
    have "text_of (?st ''tally_host'') \<noteq> [] \<and> text_of (?st ''tally_port'') \<noteq> []"
      using assms(1) unfolding o by (auto simp: send_batch_def Let_def split: prod.splits if_splits)
    with that n assms(3) show ?thesis
      unfolding o by (cases "claim_batch c xml (syw_now w) d") (simp add: send_batch_def Let_def post_to_tally_def judge_answer_def)
  qed
  moreover have "xml \<noteq> []" using p request_not_empty by blast
  ultimately show ?thesis using r(1,3) by (cases "sou_escaped (sync_batch uuid5 b w d)") auto
qed

text \<open>What an attempt on a batch with a stored request sends.\<close>

lemma stored_is_sent:
  assumes "get_batch d (bat_id b) = Some b" "bat_status b \<in> {BS_SUBMITTED, BS_PENDING_SYNC, BS_SYNCING}"
    and "bat_sync_request_xml b = Some x" "x \<noteq> []" "bat_type b \<in> set tally_xml_supported" "batch_keys d" "syw_others w d = d"
  shows "sou_posted (sync_batch uuid5 b w d) =
    (if lease_running b (syw_now w) \<or> \<not> is_tally_sync_enabled_for_batch d (bat_type b) \<or>
        text_of (get_all_settings d ''tally_host'') = [] \<or> text_of (get_all_settings d ''tally_port'') = []
     then None else Some x)"
proof -
  let ?st = "get_all_settings d" and ?c = "with_remote_id uuid5 (get_all_settings d) (count_retry (syw_now w) b)"
  have s: "sync_batch uuid5 b w d = (if lease_running b (syw_now w) then settled d else sync_voucher uuid5 ?st ?c w d)"
    using assms(1,2,5) by (auto simp: sync_batch_def sync_batch_locked_def Let_def tally_xml_supported_def)
  have "request_for uuid5 ?st d ?c = Inr x" by (rule request_for_stored) (use assms(2-4) in auto)
  moreover have "fst (claim_batch ?c x (syw_now w) d) = 1"
    using assms(1) fst_claim_batch [OF assms(6), of ?c x "syw_now w"] claimable_like [of ?c b b] by simp
  ultimately show ?thesis
    unfolding s using assms(7)
    by (cases "claim_batch ?c x (syw_now w) d") (auto simp: sync_voucher_def send_batch_def Let_def)
qed

section \<open>Leaving the queue\<close>

lemma parked_row:
  assumes "get_batch d (bat_id b) = Some r"
  shows "\<exists>r'. get_batch (park b xml m now d) (bat_id b) = Some r' \<and> bat_status r' = BS_PENDING_SYNC \<and>
    bat_last_retry_at r' = Some now"
proof -
  have "bat_id r = bat_id b" using assms get_batch_in by blast
  with assms show ?thesis by (simp add: park_def store_progress_def get_batch_set)
qed

definition waits :: "moment \<Rightarrow> batch \<Rightarrow> bool" where
  "waits now r \<longleftrightarrow> bat_status r \<in> {BS_SYNCED, BS_FAILED} \<or> (bat_status r = BS_PENDING_SYNC \<and> bat_last_retry_at r = Some now)"

lemma waits_not_due: "waits now r \<Longrightarrow> 0 < interval \<Longrightarrow> \<not> due now interval r"
  by (auto simp: waits_def due_def)

lemma voucher_waits:
  assumes "get_batch d (bat_id c) = Some b" "claimable c b" "batch_keys d" "syw_others w d = d"
    and "sou_escaped (sync_voucher uuid5 st c w d) = None"
  shows "\<exists>r. get_batch (sou_db (sync_voucher uuid5 st c w d)) (bat_id c) = Some r \<and> waits (syw_now w) r"
proof (cases "request_for uuid5 st d c")
  case (Inl f)
  with assms(5) obtain m a q p where "f = TallySyncError m a q p" by (cases f) (auto simp: sync_voucher_def)
  with Inl parked_row [OF assms(1), of None m "syw_now w"] show ?thesis by (auto simp: sync_voucher_def waits_def)
next
  case (Inr xml)
  show ?thesis
  proof (cases "is_tally_sync_enabled_for_batch d (bat_type c)")
    case True
    then have o: "sync_voucher uuid5 st c w d = send_batch st c xml w d" using Inr by (simp add: sync_voucher_def)
    with sent_row [OF assms(2,1,3,4), of st xml] assms(5) show ?thesis by (auto simp: waits_def)
  next
    case False
    with Inr parked_row [OF assms(1), of "Some xml" "''Tally sync is disabled in settings''" "syw_now w"] show ?thesis
      by (auto simp: sync_voucher_def waits_def)
  qed
qed

lemma due_sync:
  assumes "get_batch d (bat_id b) = Some b" "due (syw_now w) interval b" "bat_type b \<in> set tally_xml_supported"
  shows "\<exists>c. bat_id c = bat_id b \<and> bat_status c = bat_status b \<and> bat_sync_started_at c = bat_sync_started_at b \<and>
    sync_batch uuid5 b w d = sync_voucher uuid5 (get_all_settings d) c w d"
proof -
  have "\<not> lease_running b (syw_now w)" "bat_status b \<notin> {BS_SYNCED, BS_CLOSED}"
    using assms(2) by (auto simp: due_def lease_running_def split: option.splits)
  moreover have "bat_type b \<notin> {B_AUDIT, B_QR_ASSIGNMENT}" using assms(3) by (auto simp: tally_xml_supported_def)
  ultimately have "sync_batch uuid5 b w d =
      sync_voucher uuid5 (get_all_settings d) (with_remote_id uuid5 (get_all_settings d) (count_retry (syw_now w) b)) w d"
    using assms(1,3) by (simp add: sync_batch_def sync_batch_locked_def Let_def)
  then show ?thesis by (intro exI [of _ "with_remote_id uuid5 (get_all_settings d) (count_retry (syw_now w) b)"]) simp
qed

lemma due_batches_in: "b \<in> set (due_batches now limit d) \<Longrightarrow> b \<in> set (batches d)"
  unfolding due_batches_def by (drule in_set_takeD) simp

lemma missing_fails:
  "l \<in> set ls \<Longrightarrow> line_key l = Inl e \<Longrightarrow> \<exists>e'. fold_res (add_missing m) ls acc = Inl e'"
proof (induction ls arbitrary: acc)
  case Nil
  then show ?case by simp
next
  case (Cons k ls)
  show ?case
  proof (cases "line_key k")
    case (Inl x)
    then show ?thesis by (simp add: add_missing_def)
  next
    case (Inr key)
    with Cons.prems have "l \<in> set ls" by auto
    from Cons.IH [OF this Cons.prems(2)] show ?thesis by (auto split: sum.split)
  qed
qed

lemma rate_escapes:
  assumes "require_tally_settings st = Inr m" "bat_type b \<in> {B_SALE, B_SALES_RETURN}" "py_strip (text_of (bat_party_name b)) \<noteq> []"
    and "l \<in> set (vsm_lines (calculate_voucher_summary d b))" "100 < vln_gst_rate l"
  shows "\<exists>e. build_voucher_xml uuid5 st d b = Inl (Escapes e)"
proof -
  let ?ls = "vsm_lines (calculate_voucher_summary d b)"
  have "line_key l = Inl (rate_out_of_range (money_text (vln_gst_rate l)))"
    using assms(5) by (simp add: line_key_def gst_rate_key_def)
  from missing_fails [OF assms(4) this] obtain e where "fold_res (add_missing m) ?ls [] = Inl e" by blast
  then have "require_sales_gst_mappings m ?ls = Some (Escapes e)" by (simp add: require_sales_gst_mappings_def)
  with assms(1-3) show ?thesis
    by (auto simp: build_voucher_xml_def voucher_postings_def item_and_tax_postings_def Let_def tally_xml_supported_def)
qed

lemma lines_of_batch_cong:
  assumes "bat_id c = bat_id b" "bat_type c = bat_type b" "bat_gst_treatment c = bat_gst_treatment b"
    "bat_cgst_rate c = bat_cgst_rate b" "bat_sgst_rate c = bat_sgst_rate b" "bat_igst_rate c = bat_igst_rate b"
  shows "calculate_voucher_summary d c = calculate_voucher_summary d b"
proof -
  have "is_sales_side c = is_sales_side b" "is_interstate_sale c = is_interstate_sale b"
    using assms by (simp_all add: is_sales_side_def is_interstate_sale_def)
  moreover from this have "line_tax_of c r a = line_tax_of b r a" for r a
    unfolding line_tax_of_def assms by (simp only:)
  ultimately have "voucher_line_of c g = voucher_line_of b g" for g unfolding voucher_line_of_def by simp
  then have "voucher_line_of c = voucher_line_of b" by (rule ext)
  moreover have "group_batch_items d c = group_batch_items d b" using assms(1) by (simp add: group_batch_items_def)
  ultimately show ?thesis by (simp add: calculate_voucher_summary_def)
qed

section \<open>A batch that stops the queue\<close>

lemma rate_stops_sync:
  assumes "get_batch d (bat_id b) = Some b" "bat_status b = BS_SUBMITTED" "bat_sync_request_xml b = None"
    and "bat_type b \<in> {B_SALE, B_SALES_RETURN}"
    and "require_tally_settings (get_all_settings d) = Inr m" "py_strip (text_of (bat_party_name b)) \<noteq> []"
    and "l \<in> set (vsm_lines (calculate_voucher_summary d b))" "100 < vln_gst_rate l"
  shows "\<exists>e. sync_batch uuid5 b w d = \<lparr>sou_db = d, sou_posted = None, sou_escaped = Some e\<rparr>"
proof -
  let ?c = "with_remote_id uuid5 (get_all_settings d) (count_retry (syw_now w) b)"
  have c: "calculate_voucher_summary d ?c = calculate_voucher_summary d b"
    by (rule lines_of_batch_cong) (simp_all add: with_remote_id_def count_retry_def)
  have "bat_party_name ?c = bat_party_name b" by (simp add: with_remote_id_def count_retry_def)
  then obtain e where "build_voucher_xml uuid5 (get_all_settings d) d ?c = Inl (Escapes e)"
    using rate_escapes [of "get_all_settings d" m ?c l d uuid5] assms(4-8) c by auto
  then have "request_for uuid5 (get_all_settings d) d ?c = Inl (Escapes e)"
    using assms(3) by (simp add: request_for_def text_of_def)
  moreover have "bat_type b \<notin> {B_AUDIT, B_QR_ASSIGNMENT}" "bat_type b \<in> set tally_xml_supported"
    using assms(4) by (auto simp: tally_xml_supported_def)
  ultimately show ?thesis
    using assms(1,2) by (simp add: sync_batch_def sync_batch_locked_def Let_def lease_running_def sync_voucher_def)
qed

text \<open>A batch that is in the queue behind \<open>b\<close>, which was never tried, or not in the queue at all.\<close>

definition behind :: "batch \<Rightarrow> batch \<Rightarrow> bool" where
  "behind b c \<longleftrightarrow> bat_status c \<notin> {BS_SUBMITTED, BS_PENDING_SYNC, BS_SYNCING} \<or> bat_last_retry_at c \<noteq> None \<or>
     bat_created_at b < bat_created_at c"

text \<open>
  \<open>b\<close> is a submitted sale with an impossible rate, posting its type is on and everything else its
  voucher needs is there, and it is the oldest batch never tried.
\<close>

definition stuck :: "batch \<Rightarrow> db \<Rightarrow> bool" where
  "stuck b d \<longleftrightarrow> batch_keys d \<and> b \<in> set (batches d) \<and> bat_status b = BS_SUBMITTED \<and> bat_last_retry_at b = None \<and>
     bat_sync_request_xml b = None \<and> bat_type b \<in> {B_SALE, B_SALES_RETURN} \<and> py_strip (text_of (bat_party_name b)) \<noteq> [] \<and>
     is_tally_sync_enabled_for_batch d (bat_type b) \<and> \<not> isl (require_tally_settings (get_all_settings d)) \<and>
     list_ex (\<lambda>l. 100 < vln_gst_rate l) (vsm_lines (calculate_voucher_summary d b)) \<and>
     list_all (\<lambda>c. c = b \<or> behind b c) (batches d)"

text \<open>The worker's passes, with their time, answers and limit, and the database as other sessions leave it between them.\<close>

datatype queue_event = Pass moment "nat \<Rightarrow> sync_world" nat | Others db

fun passes :: "(string \<Rightarrow> string) \<Rightarrow> queue_event list \<Rightarrow> db \<Rightarrow> (db \<times> db \<times> exc option \<times> nat) list" where
  "passes uuid5 [] d = []"
| "passes uuid5 (Pass now ws limit # evs) d =
    (let r = retry_pending_batches uuid5 now ws limit d in (d, r) # passes uuid5 evs (fst r))"
| "passes uuid5 (Others e # evs) d = passes uuid5 evs e"

text \<open>
  Other sessions leave the settings and the voucher of \<open>b\<close> alone, and a batch that is new in the
  queue, or was changed in it, is behind \<open>b\<close>.
\<close>

definition joins_behind :: "batch \<Rightarrow> db \<Rightarrow> db \<Rightarrow> bool" where
  "joins_behind b d e \<longleftrightarrow> batch_keys e \<and> b \<in> set (batches e) \<and> settings_rows e = settings_rows d \<and>
     calculate_voucher_summary e b = calculate_voucher_summary d b \<and>
     list_all (\<lambda>c. c \<in> set (batches d) \<or> behind b c) (batches e)"

fun behind_it :: "batch \<Rightarrow> queue_event list \<Rightarrow> db \<Rightarrow> bool" where
  "behind_it b [] d = True"
| "behind_it b (Pass now ws limit # evs) d = (0 < limit \<and> behind_it b evs d)"
| "behind_it b (Others e # evs) d = (joins_behind b d e \<and> behind_it b evs e)"

lemma stuck_head:
  assumes "stuck b d" "0 < limit"
  shows "\<exists>bs. due_batches now limit d = b # bs"
proof -
  let ?p = "\<lambda>b. due now (retry_interval (get_all_settings d)) b \<and>
       bat_type b \<in> set tally_xml_supported \<and> bat_type b \<in> set (enabled_tally_sync_batch_types d)"
  let ?q = "filter ?p (batches d)"
  note st = assms(1) [unfolded stuck_def]
  have "?p b" using st by (auto simp: due_def tally_xml_supported_def is_tally_sync_enabled_for_batch_def)
  then have b: "b \<in> set ?q" using st by simp
  have low: "retry_rank b < retry_rank c" if "c \<in> set ?q" "c \<noteq> b" for c
  proof -
    have "behind b c" using st that by (auto simp: list_all_iff)
    moreover have "bat_status c \<in> {BS_SUBMITTED, BS_PENDING_SYNC, BS_SYNCING}" using that(1) by (auto simp: due_def)
    ultimately have "bat_last_retry_at c \<noteq> None \<or> bat_created_at b < bat_created_at c" unfolding behind_def by blast
    then show ?thesis using st by (cases "bat_last_retry_at c") (auto simp: retry_rank_def)
  qed
  obtain x xs where x: "sort_key retry_rank ?q = x # xs" using b by (cases "sort_key retry_rank ?q") (auto dest: arg_cong [of _ _ set])
  have "x \<in> set ?q" using arg_cong [OF x, of set] by auto
  moreover have "retry_rank x \<le> retry_rank b"
  proof -
    have "sorted (map retry_rank (x # xs))" using sorted_sort_key [of retry_rank ?q] x by simp
    moreover have "b \<in> set (x # xs)" using b unfolding x [symmetric] set_sort .
    ultimately show ?thesis by auto
  qed
  ultimately have "x = b" using low [of x] by fastforce
  then show ?thesis using x assms(2) unfolding due_batches_def by (cases limit) simp_all
qed

lemma stuck_pass:
  assumes "stuck b d" "0 < limit"
  shows "\<exists>e n. retry_pending_batches uuid5 now ws limit d = (d, Some e, n)"
proof -
  note st = assms(1) [unfolded stuck_def]
  obtain bs where bs: "due_batches now limit d = b # bs" using stuck_head [OF assms] by blast
  obtain m where m: "require_tally_settings (get_all_settings d) = Inr m"
    using st by (cases "require_tally_settings (get_all_settings d)") auto
  obtain l where l: "l \<in> set (vsm_lines (calculate_voucher_summary d b))" "100 < vln_gst_rate l"
    using st by (auto simp: list_ex_iff)
  have "get_batch d (bat_id b) = Some b" using st get_batch_self by blast
  then obtain e where "sync_batch uuid5 b (ws 0) d = \<lparr>sou_db = d, sou_posted = None, sou_escaped = Some e\<rparr>"
    using rate_stops_sync [OF _ _ _ _ m _ l] st by blast
  moreover have "enabled_tally_sync_batch_types d \<noteq> []" using st by (auto simp: is_tally_sync_enabled_for_batch_def)
  ultimately show ?thesis using bs by (simp add: retry_pending_batches_def)
qed

lemma settings_cong:
  assumes "settings_rows e = settings_rows d"
  shows "get_all_settings e = get_all_settings d" "enabled_tally_sync_batch_types e = enabled_tally_sync_batch_types d"
proof -
  have st: "stored_setting e = stored_setting d" using assms by (simp add: stored_setting_def fun_eq_iff)
  then show "get_all_settings e = get_all_settings d" by (simp add: get_all_settings_def fun_eq_iff)
  have "get_setting e = get_setting d" by (simp add: get_setting_def fun_eq_iff st)
  then have "tally_sync_option_enabled e k = tally_sync_option_enabled d k" for k
    by (simp only: tally_sync_option_enabled_def st)
  then show "enabled_tally_sync_batch_types e = enabled_tally_sync_batch_types d"
    by (simp only: enabled_tally_sync_batch_types_def)
qed

lemma stuck_others:
  assumes "stuck b d" "joins_behind b d e"
  shows "stuck b e"
proof -
  have "settings_rows e = settings_rows d" using assms(2) by (simp add: joins_behind_def)
  note settings_cong [OF this]
  then have "get_all_settings e = get_all_settings d"
    "is_tally_sync_enabled_for_batch e (bat_type b) = is_tally_sync_enabled_for_batch d (bat_type b)"
    by (simp_all add: is_tally_sync_enabled_for_batch_def)
  then show ?thesis using assms by (auto simp: stuck_def joins_behind_def list_all_iff)
qed

lemma passes_stuck:
  assumes "stuck b d" "behind_it b evs d"
  shows "list_all (\<lambda>(e, r). \<exists>x n. r = (e, Some x, n)) (passes uuid5 evs d)"
  using assms
proof (induction evs arbitrary: d)
  case Nil
  then show ?case by simp
next
  case (Cons ev evs)
  show ?case
  proof (cases ev)
    case (Pass now ws limit)
    obtain e n where "retry_pending_batches uuid5 now ws limit d = (d, Some e, n)"
      using stuck_pass [OF Cons.prems(1)] Cons.prems(2) Pass by fastforce
    with Cons Pass show ?thesis by simp
  next
    case (Others e)
    with Cons stuck_others show ?thesis by simp
  qed
qed

section \<open>Properties\<close>

text \<open>
  C12. A batch that is synchronised or closed stays as it is through any sequence of
  synchronisations, retries and queue requests: no voucher is posted for it again.
\<close>

theorem settled_batches_final:
  assumes "batch_keys d"
  shows "settled_batches d \<subseteq> settled_batches (run_ops (tally_step uuid5) ops d) \<and>
    (\<forall>b w. get_batch d (bat_id b) = Some b \<and> b \<in> settled_batches d \<longrightarrow> sou_posted (sync_batch uuid5 b w d) = None)"
  using tally_machine.run_le [OF assms]
  by (auto simp: settled_le_def settled_batches_def sync_batch_def split: option.splits)

text \<open>
  C13. When the fate of a posted voucher is unknown (the connection broke, the attempt ended in an
  exception or with the process, the answer was never stored), the next attempt sends exactly the
  same request, however settings, rates and items have changed meanwhile: an interrupted attempt
  leaves the batch claimed with its request, and once that claim has run out (a parked batch has
  none) an attempt sends the request again whenever posting is configured, and never another one.
\<close>

theorem unknown_fate_resends:
  assumes "sou_posted (sync_batch uuid5 b w d) = Some x" "batch_keys d" "syw_others w d = d"
    and "get_batch (sou_db (sync_batch uuid5 b w d)) (bat_id b) = Some c" "bat_type b = bat_type c"
    and "bat_status c \<notin> {BS_SYNCED, BS_FAILED}"
    and "get_batch e (bat_id b) = Some c" "batch_keys e" "syw_others w' e = e"
  shows "bat_sync_request_xml c = Some x \<and>
    (\<forall>z. syw_answer w = Interrupted z \<longrightarrow> bat_status c = BS_SYNCING \<and> bat_sync_started_at c = Some (syw_now w)) \<and>
    (lease_running c (syw_now w') \<longleftrightarrow> bat_status c = BS_SYNCING \<and>
       (\<exists>t. bat_sync_started_at c = Some t \<and> syw_now w' - minutes 10 < t)) \<and>
    sou_posted (sync_batch uuid5' c w' e) =
      (if lease_running c (syw_now w') \<or> \<not> is_tally_sync_enabled_for_batch e (bat_type c) \<or>
          text_of (get_all_settings e ''tally_host'') = [] \<or> text_of (get_all_settings e ''tally_port'') = []
       then None else Some x)"
proof -
  note p = posted_is_stored [OF assms(1-5)]
  have id: "bat_id c = bat_id b" using assms(7) get_batch_in by blast
  have "bat_status c \<in> {BS_SUBMITTED, BS_PENDING_SYNC, BS_SYNCING}" using p assms(6) by auto
  from stored_is_sent [of e c x, OF _ this] p assms(7-9) id
  have "sou_posted (sync_batch uuid5' c w' e) =
      (if lease_running c (syw_now w') \<or> \<not> is_tally_sync_enabled_for_batch e (bat_type c) \<or>
          text_of (get_all_settings e ''tally_host'') = [] \<or> text_of (get_all_settings e ''tally_port'') = []
       then None else Some x)" by simp
  moreover have "lease_running c (syw_now w') \<longleftrightarrow> bat_status c = BS_SYNCING \<and>
      (\<exists>t. bat_sync_started_at c = Some t \<and> syw_now w' - minutes 10 < t)"
    by (auto simp: lease_running_def sync_lease_def split: option.split)
  ultimately show ?thesis using p by simp
qed

text \<open>
  Of two sessions that loaded the same batch only one posts it: once the other session's
  claim is in, this session sends nothing and changes nothing.
\<close>

theorem one_session_posts:
  assumes "batch_keys d" "syw_others w d = snd (claim_batch b x t d)" "bat_sync_started_at b \<noteq> Some t"
    and "fst (claim_batch b x t d) = 1" "get_batch d (bat_id b) = Some b"
  shows "sou_posted (sync_batch uuid5 b w d) = None"
proof (rule ccontr)
  assume "sou_posted (sync_batch uuid5 b w d) \<noteq> None"
  then obtain xml where xml: "sou_posted (sync_batch uuid5 b w d) = Some xml" by blast
  then have s: "sync_batch uuid5 b w d = sync_batch_locked uuid5 b w d"
    using assms(5) by (auto simp: sync_batch_def split: if_splits)
  obtain c where c: "bat_id c = bat_id b" "bat_status c = bat_status b" "bat_sync_started_at c = bat_sync_started_at b"
    "sync_batch_locked uuid5 b w d = sync_voucher uuid5 (get_all_settings d) c w d"
    using post_of_locked [OF xml [unfolded s]] by blast
  let ?e = "snd (claim_batch b x t d)"
  have "batch_keys ?e" using touches_keys [OF touches_batch_claim] assms(1) by blast
  moreover have "get_batch ?e (bat_id b) = Some (start_sync b x t b)" by (simp add: get_batch_claim assms(5))
  moreover have "\<not> claimable c (start_sync b x t b)"
    using assms(3) c by (auto simp: claimable_def start_sync_def)
  ultimately have "fst (claim_batch c xml (syw_now w) ?e) = 0" using c(1) by (simp add: fst_claim_batch)
  with post_of_voucher [OF xml [unfolded s c(4)]] assms(2) show False by simp
qed

text \<open>
  A due batch leaves the queue with every attempt: afterwards it is synchronised, refused
  for good, or waits out the retry interval, so the others get their turn; unless the
  attempt ends in an exception the code does not expect.
\<close>

theorem attempt_leaves_queue:
  assumes "batch_keys d" "get_batch d (bat_id b) = Some b" "syw_others w d = d" "bat_type b \<in> set tally_xml_supported"
    and "due (syw_now w) interval b" "0 < interval" "sou_escaped (sync_batch uuid5 b w d) = None"
  shows "\<exists>r. get_batch (sou_db (sync_batch uuid5 b w d)) (bat_id b) = Some r \<and> \<not> due (syw_now w) interval r"
proof -
  obtain c where c: "bat_id c = bat_id b" "bat_status c = bat_status b" "bat_sync_started_at c = bat_sync_started_at b"
    "sync_batch uuid5 b w d = sync_voucher uuid5 (get_all_settings d) c w d"
    using due_sync [OF assms(2,5,4)] by blast
  have "claimable c b" using c by (simp add: claimable_def)
  moreover have "get_batch d (bat_id c) = Some b" using c(1) assms(2) by simp
  ultimately obtain r where "get_batch (sou_db (sync_batch uuid5 b w d)) (bat_id b) = Some r" "waits (syw_now w) r"
    using voucher_waits [of d c b w uuid5 "get_all_settings d"] assms(1,3,7) c(1,4) by auto
  with waits_not_due [OF _ assms(6)] show ?thesis by blast
qed

text \<open>
  C14. That exception exists: a sale with a line taxed above 100 percent (a product may be created
  with such a rate) stops the worker for good.  Once it is the oldest batch never tried, every
  pass, at any time and whatever Tally answers, selects it first, ends in the exception and commits
  nothing, through any sequence of passes and of changes by other sessions, as long as the settings
  and the voucher stay and every batch that joins the queue was created later; so no other batch is
  ever sent.
\<close>

theorem bad_rate_blocks_queue:
  assumes "stuck b d" "behind_it b evs d"
  shows "list_all (\<lambda>(e, r). \<exists>x n. r = (e, Some x, n)) (passes uuid5 evs d)"
  by (rule passes_stuck [OF assms])

end
