(* ===== verification/TallyScenarios.thy ===== *)
theory TallyScenarios
  imports Scenarios TallySync
begin

text \<open>
  The sample shop posting to Tally: a voucher with tax on which the balance is checked, a
  request whose fate is unknown, and a product with an impossible GST rate.
\<close>

section \<open>Tally\<close>

definition ex_tally_rows :: "setting_row list" where
  "ex_tally_rows = [ex_flag combined_flag ''true'', ex_flag purchase_flag ''true'', ex_flag sales_flag ''true'',
     ex_flag ''company_name'' ''North'', ex_flag ''round_off_ledger_name'' ''Round Off'',
     ex_flag ''sales_gst_ledger_mappings'' ''18|Sales 18|CGST|SGST|IGST'']"

definition ex_tally_sale :: batch where
  "ex_tally_sale = ex_sale\<lparr>bat_status := BS_SUBMITTED, bat_party_name := Some ''Asha Stores''\<rparr>"

definition ex_tally_db :: db where
  "ex_tally_db = ex_db\<lparr>settings_rows := ex_tally_rows, batches := [ex_tally_sale]\<rparr>"

definition ex_tally_settings :: settings_map where
  "ex_tally_settings = get_all_settings ex_tally_db"

lemma ex_tally_lines:
  "sound_lines (vsm_lines (calculate_voucher_summary ex_tally_db ex_tally_sale))" by code_simp

lemma ex_tally_postings:
  "\<exists>p. voucher_postings ex_tally_settings ex_tally_db ex_tally_sale = Inr p \<and> lgp_amount (pst_party p) = - 100 \<and> length (pst_taxes p) = 2"
proof -
  have "case voucher_postings ex_tally_settings ex_tally_db ex_tally_sale of Inl e \<Rightarrow> False
     | Inr p \<Rightarrow> lgp_amount (pst_party p) = - 100 \<and> length (pst_taxes p) = 2" by code_simp
  then show ?thesis by (auto split: sum.splits)
qed

theorem voucher_balances_witness:
  "\<exists>p. voucher_postings ex_tally_settings ex_tally_db ex_tally_sale = Inr p \<and> lgp_amount (pst_party p) = - 100 \<and>
     length (pst_taxes p) = 2 \<and> sum_list (posted_amounts p) = 0"
proof -
  obtain p where p: "voucher_postings ex_tally_settings ex_tally_db ex_tally_sale = Inr p"
    "lgp_amount (pst_party p) = - 100" "length (pst_taxes p) = 2"
    using ex_tally_postings by blast
  from voucher_balances [OF p(1) ex_tally_lines] p show ?thesis by blast
qed

definition ex_world :: "tally_answer \<Rightarrow> sync_world" where
  "ex_world a = \<lparr>syw_now = minutes 100, syw_finished = minutes 101, syw_answer = a, syw_others = \<lambda>d. d\<rparr>"

definition ex_frozen :: batch where
  "ex_frozen = ex_tally_sale\<lparr>bat_status := BS_PENDING_SYNC, bat_sync_request_xml := Some ''<ENVELOPE />''\<rparr>"

definition ex_frozen_db :: db where
  "ex_frozen_db = ex_tally_db\<lparr>batches := [ex_frozen, (ex_batch 2 ''SAL-19700101-0002'' B_SALE)\<lparr>bat_status := BS_SYNCED\<rparr>]\<rparr>"

definition ex_lost :: sync_outcome where
  "ex_lost = sync_batch (\<lambda>n. n) ex_frozen (ex_world Unreachable) ex_frozen_db"

lemma ex_frozen_keys: "batch_keys ex_frozen_db" "get_batch ex_frozen_db (bat_id ex_frozen) = Some ex_frozen"
  "syw_others (ex_world a) d = d"
  by (code_simp, code_simp, simp add: ex_world_def)

theorem settled_batches_final_witness:
  "\<exists>b. b \<in> settled_batches ex_frozen_db \<and>
     b \<in> settled_batches (run_ops (tally_step (\<lambda>n. n)) [SyncBatch 2 (ex_world Unreachable), QueueBatch 2] ex_frozen_db)"
proof -
  have "(ex_batch 2 ''SAL-19700101-0002'' B_SALE)\<lparr>bat_status := BS_SYNCED\<rparr> \<in> settled_batches ex_frozen_db"
    by (simp add: settled_batches_def ex_frozen_db_def)
  with settled_batches_final [OF ex_frozen_keys(1)] show ?thesis by blast
qed

text \<open>
  The process dies after the request has left: the batch stays claimed, nobody sends it while the
  claim runs, and afterwards the very same request is sent, although the prices have changed.
\<close>

definition ex_died :: sync_outcome where
  "ex_died = sync_batch (\<lambda>n. n) ex_frozen (ex_world (Interrupted (HTTPException ''IncompleteRead''))) ex_frozen_db"

definition ex_repriced :: db where
  "ex_repriced = (sou_db ex_died)\<lparr>products := [ex_product\<lparr>prd_gst_rate := 12\<rparr>]\<rparr>"

theorem unknown_fate_resends_witness:
  "\<exists>c. get_batch ex_repriced 1 = Some c \<and> bat_status c = BS_SYNCING \<and>
     sou_posted (sync_batch (\<lambda>n. n) c ((ex_world Unreachable)\<lparr>syw_now := minutes 105\<rparr>) ex_repriced) = None \<and>
     sou_posted (sync_batch (\<lambda>n. n) c ((ex_world Unreachable)\<lparr>syw_now := minutes 120\<rparr>) ex_repriced) = Some ''<ENVELOPE />''"
proof -
  let ?w = "ex_world (Interrupted (HTTPException ''IncompleteRead''))"
  have l: "sou_posted ex_died = Some ''<ENVELOPE />''" "batch_keys ex_repriced" "bat_id ex_frozen = 1"
    and "case get_batch (sou_db ex_died) 1 of None \<Rightarrow> False | Some c \<Rightarrow> bat_type c = bat_type ex_frozen \<and>
      bat_status c \<notin> {BS_SYNCED, BS_FAILED} \<and> is_tally_sync_enabled_for_batch ex_repriced (bat_type c)"
    and h: "text_of (get_all_settings ex_repriced ''tally_host'') \<noteq> []" "text_of (get_all_settings ex_repriced ''tally_port'') \<noteq> []"
    by (atomize (full)) code_simp
  then obtain c where c: "get_batch (sou_db ex_died) 1 = Some c" "bat_type c = bat_type ex_frozen"
    "bat_status c \<notin> {BS_SYNCED, BS_FAILED}" "is_tally_sync_enabled_for_batch ex_repriced (bat_type c)"
    by (auto split: option.splits)
  have e: "get_batch ex_repriced 1 = Some c" using c(1) by (simp add: ex_repriced_def get_batch_def)
  note r = unknown_fate_resends [of "\<lambda>n. n" ex_frozen ?w ex_frozen_db "''<ENVELOPE />''" c ex_repriced
      "(ex_world Unreachable)\<lparr>syw_now := t\<rparr>" "\<lambda>n. n" for t]
  from r [of "minutes 105"] r [of "minutes 120"] show ?thesis
    using l c e h ex_frozen_keys unfolding ex_died_def [symmetric]
    by (simp add: ex_world_def minutes_def)
qed

theorem one_session_posts_witness:
  "sou_posted (sync_batch (\<lambda>n. n) ex_frozen
     ((ex_world Unreachable)\<lparr>syw_others := \<lambda>d. snd (claim_batch ex_frozen ''<ENVELOPE />'' 7 d)\<rparr>) ex_frozen_db) = None"
proof (rule one_session_posts [where x = "''<ENVELOPE />''" and t = 7])
  show "batch_keys ex_frozen_db" "get_batch ex_frozen_db (bat_id ex_frozen) = Some ex_frozen" by (rule ex_frozen_keys)+
  show "bat_sync_started_at ex_frozen \<noteq> Some 7" "fst (claim_batch ex_frozen ''<ENVELOPE />'' 7 ex_frozen_db) = 1"
    by code_simp+
qed simp

theorem attempt_leaves_queue_witness:
  "\<exists>r. get_batch (sou_db ex_lost) (bat_id ex_frozen) = Some r \<and> \<not> due (minutes 100) (seconds 180) r"
proof -
  have "bat_type ex_frozen \<in> set tally_xml_supported" "due (syw_now (ex_world Unreachable)) (seconds 180) ex_frozen"
    "0 < seconds 180" "sou_escaped (sync_batch (\<lambda>n. n) ex_frozen (ex_world Unreachable) ex_frozen_db) = None"
    "syw_now (ex_world Unreachable) = minutes 100"
    by code_simp+
  with attempt_leaves_queue [OF ex_frozen_keys] show ?thesis unfolding ex_lost_def by metis
qed

definition ex_poison_db :: db where
  "ex_poison_db = ex_tally_db\<lparr>products := [ex_product\<lparr>prd_gst_rate := 105\<rparr>]\<rparr>"

text \<open>A pass, a newer sale that is submitted meanwhile, and two more passes.\<close>

definition ex_newer_db :: db where
  "ex_newer_db = ex_poison_db\<lparr>batches := [ex_tally_sale, ex_tally_sale\<lparr>bat_id := 2, bat_created_at := 50\<rparr>]\<rparr>"

definition ex_passes :: "queue_event list" where
  "ex_passes = [Pass 9 (\<lambda>k. ex_world Unreachable) 1, Others ex_newer_db, Pass (minutes 60) (\<lambda>k. ex_world Unreachable) 1,
     Pass (minutes 600) (\<lambda>k. ex_world (Interrupted (HTTPException []))) 10]"

theorem bad_rate_blocks_queue_witness:
  "length (passes (\<lambda>n. n) ex_passes ex_poison_db) = 3 \<and>
   list_all (\<lambda>(e, r). \<exists>x n. r = (e, Some x, n)) (passes (\<lambda>n. n) ex_passes ex_poison_db)"
proof -
  have "stuck ex_tally_sale ex_poison_db" "joins_behind ex_tally_sale ex_poison_db ex_newer_db" by (atomize (full)) code_simp
  then have "behind_it ex_tally_sale ex_passes ex_poison_db" by (simp add: ex_passes_def)
  from bad_rate_blocks_queue [OF \<open>stuck ex_tally_sale ex_poison_db\<close> this, of "\<lambda>n. n"] show ?thesis
    by (simp add: ex_passes_def Let_def)
qed

end
