(* ===== verification/Accounts.thy ===== *)
theory Accounts
  imports BatchRoutes TallyAccess
begin

text \<open>
  Signing in and the accounts: the handlers of \<open>app/routers/auth.py\<close>,
  \<open>app/routers/account.py\<close> and \<open>app/routers/users.py\<close>.  The hash function and the salt
  of a new hash are a \<open>hasher\<close>, the environment's limits an \<open>account_policy\<close>.  The hash
  compared for an unknown name only costs time and is left out.
\<close>

record account_policy =
  pol_max_attempts :: int
  pol_lockout_minutes :: int
  pol_session_minutes :: int
  pol_cookie_secure :: bool

record hasher =
  hsh_pbkdf2 :: "string \<Rightarrow> string \<Rightarrow> int \<Rightarrow> string"
  hsh_salt :: string

record cookie =
  cok_value :: string
  cok_max_age :: int
  cok_http_only :: bool
  cok_same_site :: string
  cok_secure :: bool

record users_view =
  usv_users :: "user list"
  usv_companies :: "company list"
  usv_access :: "access_page option"
  usv_error :: "string option"
  usv_success :: "string option"

datatype account_answer =
    Go string "cookie option"
  | LoginForm nat "string option" "string option"
  | PasswordForm nat user "string option"
  | UsersPage nat users_view
  | NotFound string
  | Refused http_error

definition session_cookie :: "server \<Rightarrow> account_policy \<Rightarrow> nat \<Rightarrow> nat \<Rightarrow> moment \<Rightarrow> cookie" where
  "session_cookie srv pol uid version now =
    \<lparr>cok_value = create_session_token (srv_mac srv) (pol_session_minutes pol) uid version now,
     cok_max_age = pol_session_minutes pol * 60, cok_http_only = True, cok_same_site = ''lax'', cok_secure = pol_cookie_secure pol\<rparr>"

definition asking_user :: "server \<Rightarrow> request \<Rightarrow> db \<Rightarrow> exc + user option" where
  "asking_user srv rq d = current_user (srv_mac srv) (srv_loads srv) (rq_now rq) (rq_cookie rq) d"

definition set_user :: "nat \<Rightarrow> (user \<Rightarrow> user) \<Rightarrow> db \<Rightarrow> db" where
  "set_user uid f d = d\<lparr>users := upd_rows (\<lambda>u. usr_id u = uid) f (users d)\<rparr>"

section \<open>Signing in\<close>

definition failed_login :: "string \<Rightarrow> moment \<Rightarrow> login_audit \<Rightarrow> bool" where
  "failed_login name since r \<longleftrightarrow> lga_username r = name \<and> \<not> lga_success r \<and> since \<le> lga_created_at r"

definition recent_failed_logins :: "db \<Rightarrow> string \<Rightarrow> int \<Rightarrow> moment \<Rightarrow> nat" where
  "recent_failed_logins d name window now = count_rows (failed_login name (now - minutes window)) (login_audits d)"

definition landing :: "server \<Rightarrow> db \<Rightarrow> user \<Rightarrow> string" where
  "landing srv d u =
    (if usr_must_change_password u then ''/account/password''
     else landing_path_for (get_role_access_config (srv_loads srv) d) (TextArg (usr_role u)))"

definition login_page :: "server \<Rightarrow> request \<Rightarrow> string \<Rightarrow> db \<Rightarrow> account_answer" where
  "login_page srv rq restored d =
    (case asking_user srv rq d of Inl e \<Rightarrow> Refused (Broken e)
     | Inr (Some u) \<Rightarrow> Go (landing srv d u) None
     | Inr None \<Rightarrow> LoginForm 200 None (if restored = [] then None
         else Some ''Backup import completed. Sign in with an account from the restored backup.''))"

text \<open>A name or a password of impossible size belongs to no account.\<close>

definition valid_shape :: "string \<Rightarrow> string \<Rightarrow> bool" where
  "valid_shape name password \<longleftrightarrow> name \<noteq> [] \<and> length name \<le> 80 \<and> length password \<le> MAX_PASSWORD_LENGTH"

definition add_login_audit :: "string \<Rightarrow> bool \<Rightarrow> string option \<Rightarrow> moment \<Rightarrow> db \<Rightarrow> db" where
  "add_login_audit name ok ip now d =
    d\<lparr>login_audits := login_audits d @ [\<lparr>lga_id = next_id lga_id (login_audits d), lga_username = name, lga_success = ok,
       lga_ip_address = ip, lga_message = Some (if ok then ''OK'' else ''Invalid username or password''), lga_created_at = now\<rparr>]\<rparr>"

definition credentials_ok :: "hasher \<Rightarrow> db \<Rightarrow> string \<Rightarrow> string \<Rightarrow> user option" where
  "credentials_ok h d name password =
    (case (if valid_shape name password then get_user_by_username d name else None) of
       Some u \<Rightarrow> if usr_active u \<and> usr_deleted_at u = None \<and> verify_password (hsh_pbkdf2 h) password (usr_password_hash u) then Some u else None
     | None \<Rightarrow> None)"

definition signed_in :: "hasher \<Rightarrow> string \<Rightarrow> moment \<Rightarrow> user \<Rightarrow> user" where
  "signed_in h password now u = u\<lparr>usr_last_login_at := Some now,
     usr_password_hash := (if password_hash_needs_upgrade (usr_password_hash u) then hash_password (hsh_pbkdf2 h) (hsh_salt h) password
                           else usr_password_hash u)\<rparr>"

definition login ::
  "server \<Rightarrow> account_policy \<Rightarrow> hasher \<Rightarrow> string option \<Rightarrow> moment \<Rightarrow> string \<Rightarrow> string \<Rightarrow> db \<Rightarrow> account_answer \<times> db"
where
  "login srv pol h ip now username password d =
    (let name = py_lower (py_strip username); audit_name = take 80 name
     in if pol_max_attempts pol \<le> int (recent_failed_logins d audit_name (pol_lockout_minutes pol) now) then
          (LoginForm 429 (Some (''Too many failed attempts. Try again in about '' @ int_str (pol_lockout_minutes pol) @ '' minutes.'')) None, d)
        else (case credentials_ok h d name password of
            None \<Rightarrow> (LoginForm 400 (Some ''Invalid username or password'') None, add_login_audit audit_name False ip now d)
          | Some u \<Rightarrow>
              (Go (landing srv d u) (Some (session_cookie srv pol (usr_id u) (usr_session_version u) now)),
               set_user (usr_id u) (signed_in h password now) (add_login_audit audit_name True ip now d))))"

definition logout :: "account_policy \<Rightarrow> account_answer" where
  "logout pol = Go ''/login'' (Some \<lparr>cok_value = [], cok_max_age = 0, cok_http_only = True, cok_same_site = ''lax'', cok_secure = pol_cookie_secure pol\<rparr>)"

section \<open>One's own password\<close>

definition change_password_page :: "server \<Rightarrow> request \<Rightarrow> db \<Rightarrow> account_answer" where
  "change_password_page srv rq d =
    (case asking_user srv rq d of Inl e \<Rightarrow> Refused (Broken e) | Inr None \<Rightarrow> Go ''/login'' None | Inr (Some u) \<Rightarrow> PasswordForm 200 u None)"

definition password_refusal :: "hasher \<Rightarrow> user \<Rightarrow> string \<Rightarrow> string \<Rightarrow> string \<Rightarrow> string option" where
  "password_refusal h u current new confirm =
    (if \<not> verify_password (hsh_pbkdf2 h) current (usr_password_hash u) then Some ''Current password is incorrect.''
     else case password_policy_error new of Some m \<Rightarrow> Some m
     | None \<Rightarrow>
         if new \<noteq> confirm then Some ''New password and confirmation do not match.''
         else if verify_password (hsh_pbkdf2 h) new (usr_password_hash u) then Some ''New password must be different from the current one.''
         else None)"

definition with_password :: "hasher \<Rightarrow> string \<Rightarrow> bool \<Rightarrow> user \<Rightarrow> user" where
  "with_password h new must u = u\<lparr>usr_password_hash := hash_password (hsh_pbkdf2 h) (hsh_salt h) new,
     usr_must_change_password := must, usr_session_version := Suc (usr_session_version u)\<rparr>"

definition change_password ::
  "server \<Rightarrow> hasher \<Rightarrow> request \<Rightarrow> string \<Rightarrow> string \<Rightarrow> string \<Rightarrow> db \<Rightarrow> account_answer \<times> db"
where
  "change_password srv h rq current new confirm d =
    (case asking_user srv rq d of
       Inl e \<Rightarrow> (Refused (Broken e), d)
     | Inr None \<Rightarrow> (Go ''/login'' None, d)
     | Inr (Some u) \<Rightarrow>
         (case password_refusal h u current new confirm of
            Some m \<Rightarrow> (PasswordForm 400 u (Some m), d)
          | None \<Rightarrow> (Go (landing_path_for (get_role_access_config (srv_loads srv) d) (TextArg (usr_role u))) None,
               set_user (usr_id u) (with_password h new False) d)))"

section \<open>Managing accounts\<close>

definition users_context :: "string \<Rightarrow> string option \<Rightarrow> string option \<Rightarrow> db \<Rightarrow> users_view" where
  "users_context mode err success d =
    (let us = sort_key usr_username (filter (\<lambda>u. usr_deleted_at u = None) (users d)); full = mode \<noteq> ''lite''
     in \<lparr>usv_users = us, usv_companies = (if full then list_companies d else []),
         usv_access = (if full then Some (access_page_data d us) else None), usv_error = err, usv_success = success\<rparr>)"

definition error_messages :: "(string \<times> string) list" where
  "error_messages = [
     (''user_delete_self'', ''You cannot delete your own account''),
     (''password_reset_self'', ''Use Change password in your account menu to update your own password.''),
     (''password_too_short'', ''Password must be at least '' @ nat_str MIN_PASSWORD_LENGTH @ '' characters.''),
     (''password_too_long'', ''Password must be at most '' @ nat_str MAX_PASSWORD_LENGTH @ '' characters.''),
     (''password_mismatch'', ''Password and confirmation do not match.''),
     (''username_invalid'', ''Username must contain 1 to 80 characters.''),
     (''user_not_found'', ''User account was not found.''),
     (''role_required'', ''Select at least one role.''),
     (''tally_access_super_admin'', ''Super admins always have access to all Tally data.'')]"

definition success_messages :: "(string \<times> string) list" where
  "success_messages = [(''password_reset'', ''Password reset successfully.''), (''tally_access_saved'', ''Tally access assignments saved.'')]"

definition message_of :: "(string \<times> string) list \<Rightarrow> string \<Rightarrow> string option" where
  "message_of table code = (let m = (case map_of table code of Some t \<Rightarrow> t | None \<Rightarrow> code) in if m = [] then None else Some m)"

definition allow :: "server \<Rightarrow> request \<Rightarrow> string \<Rightarrow> db \<Rightarrow> (user \<Rightarrow> account_answer \<times> db) \<Rightarrow> account_answer \<times> db" where
  "allow srv rq key d run =
    (case require_permission (srv_mac srv) (srv_loads srv) (rq_now rq) (rq_cookie rq) (rq_path rq) key None d of
       Inl e \<Rightarrow> (Refused e, d) | Inr u \<Rightarrow> run u)"

definition super_admin_only :: "server \<Rightarrow> request \<Rightarrow> db \<Rightarrow> (user \<Rightarrow> account_answer \<times> db) \<Rightarrow> account_answer \<times> db" where
  "super_admin_only srv rq d run =
    (case require_user (srv_mac srv) (srv_loads srv) (rq_now rq) (rq_cookie rq) (rq_path rq) (Some (RoleArg SUPER_ADMIN)) d of
       Inl e \<Rightarrow> (Refused e, d) | Inr u \<Rightarrow> run u)"

definition users_page :: "server \<Rightarrow> request \<Rightarrow> string \<Rightarrow> string \<Rightarrow> db \<Rightarrow> account_answer \<times> db" where
  "users_page srv rq err success d = allow srv rq ''users_manage'' d (\<lambda>u.
     (UsersPage 200 (users_context (rq_app_mode rq) (message_of error_messages err) (message_of success_messages success) d), d))"

definition password_error_code :: "string \<Rightarrow> string" where
  "password_error_code p = (if length p < MIN_PASSWORD_LENGTH then ''password_too_short'' else ''password_too_long'')"

definition users_error :: "string \<Rightarrow> account_answer" where
  "users_error code = Go (''/users?error='' @ code) None"

definition create_user ::
  "server \<Rightarrow> hasher \<Rightarrow> request \<Rightarrow> string \<Rightarrow> string \<Rightarrow> string list \<Rightarrow> db \<Rightarrow> account_answer \<times> db"
where
  "create_user srv h rq username password roles d = allow srv rq ''users_manage'' d (\<lambda>u.
     let name = py_lower (py_strip username); role = serialize_role_values (ItemsArg (map TextItem roles))
     in if name = [] \<or> 80 < length name then (users_error ''username_invalid'', d)
        else if password_policy_error password \<noteq> None then (users_error (password_error_code password), d)
        else if role = [] then (users_error ''role_required'', d)
        else if name \<in> usr_username ` set (users d) then
          (UsersPage 400 (users_context (rq_app_mode rq) (Some ''Username already exists'') None d), d)
        else (Go ''/users'' None, d\<lparr>users := users d @ [\<lparr>usr_id = next_id usr_id (users d), usr_username = name,
            usr_password_hash = hash_password (hsh_pbkdf2 h) (hsh_salt h) password, usr_role = role, usr_active = True,
            usr_must_change_password = True, usr_session_version = 0, usr_created_at = rq_now rq, usr_last_login_at = None,
            usr_deleted_at = None\<rparr>]\<rparr>))"

definition snapshot_json :: "(nat \<times> string \<times> string) list \<Rightarrow> json" where
  "snapshot_json rows = JObj [(''assignments'', JList (map (\<lambda>(cid, typ, label).
     JObj [(''company_id'', JInt (int cid)), (''resource_type'', JStr typ), (''resource'', JStr label)]) rows))]"

definition update_tally_access ::
  "server \<Rightarrow> request \<Rightarrow> nat \<Rightarrow> nat list \<Rightarrow> nat list \<Rightarrow> string list \<Rightarrow> db \<Rightarrow> account_answer \<times> db"
where
  "update_tally_access srv rq uid company_ids ledger_ids tally_users d = allow srv rq ''users_manage'' d (\<lambda>actor.
     if rq_app_mode rq = ''lite'' then (NotFound ''Tally access is managed on Setuora Master.'', d)
     else (case get_user d uid of
         None \<Rightarrow> (users_error ''user_not_found'', d)
       | Some u \<Rightarrow>
           if usr_deleted_at u \<noteq> None then (users_error ''user_not_found'', d)
           else (case replace_user_access u company_ids ledger_ids tally_users d of
               Inl e \<Rightarrow> (users_error ''tally_access_super_admin'', d)
             | Inr d' \<Rightarrow> (Go ''/users?success=tally_access_saved'' None,
                 record_change (Some actor) ''user_tally_access'' (nat_str uid) ''update''
                   (Some (snapshot_json (user_access_snapshot d uid))) (Some (snapshot_json (user_access_snapshot d' uid))) (rq_now rq) d'))))"

definition toggled :: "user \<Rightarrow> user" where
  "toggled u = u\<lparr>usr_active := \<not> usr_active u, usr_session_version := Suc (usr_session_version u)\<rparr>"

definition toggle_user :: "server \<Rightarrow> request \<Rightarrow> nat \<Rightarrow> db \<Rightarrow> account_answer \<times> db" where
  "toggle_user srv rq uid d = allow srv rq ''users_manage'' d (\<lambda>actor.
     (Go ''/users'' None,
      case get_user d uid of
        Some u \<Rightarrow> if usr_id u \<noteq> usr_id actor \<and> usr_deleted_at u = None then set_user uid toggled d else d
      | None \<Rightarrow> d))"

definition reset_user_password ::
  "server \<Rightarrow> hasher \<Rightarrow> request \<Rightarrow> nat \<Rightarrow> string \<Rightarrow> string \<Rightarrow> string option \<Rightarrow> db \<Rightarrow> account_answer \<times> db"
where
  "reset_user_password srv h rq uid new confirm force d = super_admin_only srv rq d (\<lambda>actor.
     case get_user d uid of
       None \<Rightarrow> (users_error ''user_not_found'', d)
     | Some u \<Rightarrow>
         if usr_deleted_at u \<noteq> None then (users_error ''user_not_found'', d)
         else if usr_id u = usr_id actor then (users_error ''password_reset_self'', d)
         else if password_policy_error new \<noteq> None then (users_error (password_error_code new), d)
         else if new \<noteq> confirm then (users_error ''password_mismatch'', d)
         else (Go ''/users?success=password_reset'' None, set_user uid (with_password h new (force = Some ''true'')) d))"

section \<open>Deleting an account\<close>

definition counted_references :: "db \<Rightarrow> nat \<Rightarrow> nat" where
  "counted_references d uid =
     count_rows (\<lambda>b. bat_user_id b = uid) (batches d) + count_rows (\<lambda>t. txn_user_id t = uid) (transactions d) +
     count_rows (\<lambda>l. log_user_id l = uid) (scan_logs d) + count_rows (\<lambda>s. ser_label_printed_by_id s = Some uid) (serials d) +
     count_rows (\<lambda>c. mcf_confirmed_by_id c = uid) (confirmations d) + count_rows (\<lambda>r. rel_user_id r = uid) (relocations d)"

text \<open>The other columns with a plain reference to \<open>users\<close>: the database refuses to delete the row they name.\<close>

definition uncounted_references :: "db \<Rightarrow> nat \<Rightarrow> bool" where
  "uncounted_references d uid \<longleftrightarrow>
     list_ex (\<lambda>a. asg_auditor_id a = uid \<or> asg_assigned_by_id a = uid) (assignments d) \<or>
     list_ex (\<lambda>i. itm_shelf_verified_by_id i = Some uid) (batch_items d) \<or> list_ex (\<lambda>t. trf_created_by_id t = Some uid) (transfers d)"

text \<open>\<open>ON DELETE SET NULL\<close> and \<open>ON DELETE CASCADE\<close>\<close>

definition unlink :: "nat \<Rightarrow> nat option \<Rightarrow> nat option" where
  "unlink uid r = (if r = Some uid then None else r)"

definition remove_user :: "nat \<Rightarrow> db \<Rightarrow> db" where
  "remove_user uid d = d\<lparr>users := filter (\<lambda>u. usr_id u \<noteq> uid) (users d),
     tally_access := filter (\<lambda>a. uta_user_id a \<noteq> uid) (tally_access d),
     data_jobs := map (\<lambda>j. j\<lparr>job_requested_by_id := unlink uid (job_requested_by_id j)\<rparr>) (data_jobs d),
     receipts := map (\<lambda>r. r\<lparr>rcp_created_by_id := unlink uid (rcp_created_by_id r)\<rparr>) (receipts d),
     changes := map (\<lambda>c. c\<lparr>chg_actor_id := unlink uid (chg_actor_id c)\<rparr>) (changes d)\<rparr>"

definition delete_user :: "server \<Rightarrow> request \<Rightarrow> nat \<Rightarrow> db \<Rightarrow> account_answer \<times> db" where
  "delete_user srv rq uid d = super_admin_only srv rq d (\<lambda>actor.
     case get_user d uid of
       None \<Rightarrow> (Go ''/users'' None, d)
     | Some u \<Rightarrow>
         if usr_id u = usr_id actor then (users_error ''user_delete_self'', d)
         else if counted_references d uid \<noteq> 0 then
           (Go ''/users'' None, set_user uid (\<lambda>u. u\<lparr>usr_active := False, usr_deleted_at := Some (rq_now rq)\<rparr>) d)
         else if uncounted_references d uid then (Refused (Broken (IntegrityError ''FOREIGN KEY constraint failed'')), d)
         else (Go ''/users'' None, remove_user uid d))"

section \<open>Guessing\<close>

lemma count_rows_mono: "(\<And>r. r \<in> set rows \<Longrightarrow> p r \<Longrightarrow> q r) \<Longrightarrow> count_rows p rows \<le> count_rows q rows"
  by (induction rows) (auto simp: count_rows_def)

lemma count_rows_snoc: "count_rows p (xs @ [x]) = count_rows p xs + (if p x then 1 else 0)"
  by (simp add: count_rows_def)

text \<open>
  The states a guesser can bring about: sign-in requests with any name and password, in the order
  of time, between any other requests; those leave the list of sign-ins alone.
\<close>

inductive guessing :: "account_policy \<Rightarrow> db \<Rightarrow> moment \<Rightarrow> bool" for pol where
  fresh: "login_audits d = [] \<Longrightarrow> guessing pol d t"
| attempt: "\<lbrakk>guessing pol d t; t \<le> now; login srv pol h ip now name password d = (answer, d')\<rbrakk> \<Longrightarrow> guessing pol d' now"
| elsewhere: "\<lbrakk>guessing pol d t; login_audits d' = login_audits d\<rbrakk> \<Longrightarrow> guessing pol d' t"

definition failures_within :: "db \<Rightarrow> string \<Rightarrow> moment \<Rightarrow> moment \<Rightarrow> nat" where
  "failures_within d name s e = count_rows (\<lambda>r. failed_login name s r \<and> lga_created_at r \<le> e) (login_audits d)"

definition throttled :: "account_policy \<Rightarrow> db \<Rightarrow> moment \<Rightarrow> bool" where
  "throttled pol d t \<longleftrightarrow> (\<forall>r \<in> set (login_audits d). lga_created_at r \<le> t) \<and>
     (\<forall>name s. int (failures_within d name s (s + minutes (pol_lockout_minutes pol))) \<le> pol_max_attempts pol)"

lemma login_audits_of:
  "login srv pol h ip now username password d = (answer, d') \<Longrightarrow>
   login_audits d' = login_audits d \<or>
   (\<exists>r. login_audits d' = login_audits d @ [r] \<and> lga_created_at r = now \<and>
     int (recent_failed_logins d (lga_username r) (pol_lockout_minutes pol) now) < pol_max_attempts pol)"
  by (auto simp: login_def Let_def add_login_audit_def set_user_def split: if_splits option.splits)

lemma throttled_attempt:
  assumes "throttled pol d t" "t \<le> now" "login srv pol h ip now username password d = (answer, d')"
  shows "throttled pol d' now"
  using login_audits_of [OF assms(3)]
proof (elim disjE exE conjE)
  assume "login_audits d' = login_audits d"
  then show ?thesis using assms(1,2) by (force simp: throttled_def failures_within_def)
next
  fix r assume r: "login_audits d' = login_audits d @ [r]" "lga_created_at r = now"
    "int (recent_failed_logins d (lga_username r) (pol_lockout_minutes pol) now) < pol_max_attempts pol"
  have times: "\<forall>q \<in> set (login_audits d'). lga_created_at q \<le> now" using assms(1,2) r(1,2) by (force simp: throttled_def)
  have "int (failures_within d' name s (s + minutes (pol_lockout_minutes pol))) \<le> pol_max_attempts pol" for name s
  proof (cases "failed_login name s r \<and> now \<le> s + minutes (pol_lockout_minutes pol)")
    case True
    have "failures_within d name s (s + minutes (pol_lockout_minutes pol)) \<le>
        recent_failed_logins d name (pol_lockout_minutes pol) now"
      unfolding failures_within_def recent_failed_logins_def using True by (intro count_rows_mono) (auto simp: failed_login_def)
    moreover have "lga_username r = name" using True by (simp add: failed_login_def)
    ultimately show ?thesis using r True by (simp add: failures_within_def count_rows_snoc)
  next
    case False
    then show ?thesis using assms(1) r(1,2) by (auto simp: throttled_def failures_within_def count_rows_snoc)
  qed
  then show ?thesis using times by (simp add: throttled_def)
qed

text \<open>
  C30. Guessing a password is slow: whatever sign-in requests arrive, for whatever names and in
  whatever mix with other work, no span of the lock-out length ever sees more failed attempts on
  one name than the policy allows.
\<close>

theorem guesses_bounded:
  assumes "guessing pol d t" "0 \<le> pol_max_attempts pol"
  shows "int (failures_within d name s (s + minutes (pol_lockout_minutes pol))) \<le> pol_max_attempts pol"
proof -
  have "throttled pol d t" using assms(1)
  proof (induction rule: guessing.induct)
    case (fresh d t)
    then show ?case using assms(2) by (simp add: throttled_def failures_within_def count_rows_def)
  next
    case (attempt d t now srv h ip name password answer d')
    then show ?case by (blast intro: throttled_attempt)
  next
    case (elsewhere d t d')
    then show ?case by (simp add: throttled_def failures_within_def)
  qed
  then show ?thesis by (simp add: throttled_def)
qed

section \<open>What ends a session\<close>

lemma claims_later:
  assumes "read_session_claims mac loads now cookie = Inr (Some c)"
  shows "read_session_claims mac loads t cookie \<in> {Inr None, Inr (Some c)}"
  using assms by (auto simp: read_session_claims_def session_claims_def split: option.splits if_splits json.splits)

text \<open>A cookie is dead once its account is gone, closed, or has moved to another version.\<close>

lemma cookie_dead:
  assumes "read_session_claims (srv_mac srv) (srv_loads srv) (rq_now old) (rq_cookie old) = Inr (Some (uid, version))"
    and "\<And>v. get_user d (nat uid) = Some v \<Longrightarrow>
      \<not> usr_active v \<or> usr_deleted_at v \<noteq> None \<or> int (usr_session_version v) \<noteq> version"
  shows "asking_user srv (old\<lparr>rq_now := t\<rparr>) d = Inr None"
proof -
  consider "read_session_claims (srv_mac srv) (srv_loads srv) t (rq_cookie old) = Inr None"
    | "read_session_claims (srv_mac srv) (srv_loads srv) t (rq_cookie old) = Inr (Some (uid, version))"
    using claims_later [OF assms(1), of t] by auto
  then show ?thesis
  proof cases
    case 2
    then show ?thesis using assms(2)
      by (cases "get_user d (nat uid)") (auto simp: asking_user_def current_user_def)
  qed (simp add: asking_user_def current_user_def)
qed

lemma get_set_user:
  assumes "\<And>u. usr_id (f u) = usr_id u"
  shows "get_user (set_user uid f d) i = map_option (\<lambda>u. if usr_id u = uid then f u else u) (get_user d i)"
  using assms by (simp add: get_user_def set_user_def table_simps)

lemma get_removed: "get_user (remove_user uid d) uid = None"
  by (simp add: get_user_def remove_user_def find_None_iff)

lemma account_effects:
  "snd (toggle_user srv rq uid d) \<in> {d, set_user uid toggled d}"
  "snd (reset_user_password srv h rq uid new confirm force d) \<in> {d, set_user uid (with_password h new (force = Some ''true'')) d}"
  "snd (delete_user srv rq uid d) \<in>
     {d, set_user uid (\<lambda>u. u\<lparr>usr_active := False, usr_deleted_at := Some (rq_now rq)\<rparr>) d, remove_user uid d}"
  "asking_user srv rq d = Inr (Some u) \<Longrightarrow>
     snd (change_password srv h rq current new confirm d) \<in> {d, set_user (usr_id u) (with_password h new False) d}"
  by (auto simp: toggle_user_def reset_user_password_def delete_user_def change_password_def allow_def super_admin_only_def
      split: sum.splits option.splits)

text \<open>
  C31. Whatever changes an account signs it out: when an administrator disables or re-enables an
  account, resets its password or deletes it, or when its owner changes the password, every cookie
  issued for the account before (its version is at most the account's), whether it was good just then
  or the account was disabled, is good for nobody afterwards, at any time; so enabling a disabled
  account does not revive its old sessions.
\<close>

theorem changes_end_sessions:
  assumes "read_session_claims (srv_mac srv) (srv_loads srv) (rq_now old) (rq_cookie old) = Inr (Some (uid, version))"
    and "get_user d (nat uid) = Some u" "version \<le> int (usr_session_version u)" "d' \<noteq> d"
    and "d' \<in> {snd (toggle_user srv rq (usr_id u) d), snd (reset_user_password srv h rq (usr_id u) new confirm force d),
           snd (delete_user srv rq (usr_id u) d)} \<or>
         asking_user srv rq d = Inr (Some u) \<and> d' = snd (change_password srv h rq current new confirm d)"
  shows "asking_user srv (old\<lparr>rq_now := t\<rparr>) d' = Inr None"
proof (rule cookie_dead [OF assms(1)])
  fix v assume v: "get_user d' (nat uid) = Some v"
  have id: "usr_id u = nat uid" using assms(2) by (auto simp: get_user_def dest: find_SomeD)
  have "d' \<in> {set_user (usr_id u) toggled d, set_user (usr_id u) (with_password h new (force = Some ''true'')) d,
      set_user (usr_id u) (\<lambda>u. u\<lparr>usr_active := False, usr_deleted_at := Some (rq_now rq)\<rparr>) d, remove_user (usr_id u) d,
      set_user (usr_id u) (with_password h new False) d}"
    using assms(4,5) account_effects(1) [of srv rq "usr_id u" d] account_effects(2) [of srv h rq "usr_id u" new confirm force d]
      account_effects(3) [of srv rq "usr_id u" d] account_effects(4) [of srv rq d u h current new confirm] by blast
  then show "\<not> usr_active v \<or> usr_deleted_at v \<noteq> None \<or> int (usr_session_version v) \<noteq> version"
    using v assms(2,3) id by (auto simp: get_set_user get_removed toggled_def with_password_def)
qed

lemma next_id_eqI:
  assumes "\<exists>r \<in> set rows. Suc (key r) = n" "\<forall>r \<in> set rows. key r < n"
  shows "next_id key rows = n"
proof -
  have "0 < n" using assms(1) by auto
  with assms(2) have "next_id key rows \<le> n" by (induction rows) (auto simp: next_id_def)
  then show ?thesis using assms(1) next_id_fresh [of _ rows key] by force
qed

text \<open>
  C32. A deleted account can come back as somebody else's: when the account deleted last held the
  highest number, the next account created takes that number, and a cookie of the old account that
  has not expired signs its holder in as the new one, without a password, once the new owner has
  set one (or at once, when the old owner never had).
\<close>

theorem deleted_account_returns:
  assumes "get_user d uid = Some gone" "delete_user srv rq1 uid d = (Go ''/users'' None, d1)" "get_user d1 uid = None"
    and "\<forall>v \<in> set (users d). usr_id v \<le> uid"
    and "\<exists>v \<in> set (users d1). Suc (usr_id v) = uid"
    and "create_user srv h rq2 name password roles d1 = (Go ''/users'' None, d2)"
    and "asking_user srv rq3 d2 = Inr (Some w)" "usr_id w = uid"
    and "change_password srv h rq3 password own own d2 = (Go path None, d3)"
    and "read_session_claims (srv_mac srv) (srv_loads srv) t (Some old) = Inr (Some (int uid, 1))"
  shows "\<exists>u. current_user (srv_mac srv) (srv_loads srv) t (Some old) d3 = Inr (Some u) \<and>
    usr_username u = py_lower (py_strip name) \<and> \<not> usr_must_change_password u"
proof -
  have d1: "users d1 = filter (\<lambda>u. usr_id u \<noteq> uid) (users d)"
    using assms(1-3) by (auto simp: delete_user_def super_admin_only_def get_set_user remove_user_def
        split: sum.splits option.splits if_splits)
  have "next_id usr_id (users d1) = uid" using assms(4,5) by (intro next_id_eqI) (auto simp: d1)
  then obtain w0 where w0: "users d2 = users d1 @ [w0]" "usr_id w0 = uid" "usr_session_version w0 = 0" "usr_active w0"
      "usr_deleted_at w0 = None" "usr_username w0 = py_lower (py_strip name)"
    using assms(6) by (auto simp: create_user_def allow_def Let_def users_error_def split: sum.splits if_splits)
  have row: "get_user d2 uid = Some w0"
    using assms(3) w0(1,2) by (simp add: get_user_def find_append)
  have "d3 = set_user uid (with_password h own False) d2"
    using assms(7-9) by (auto simp: change_password_def split: option.splits)
  then have "get_user d3 uid = Some (with_password h own False w0)"
    using row w0(2) by (simp add: get_set_user with_password_def)
  then show ?thesis using assms(10) w0 by (simp add: current_user_def with_password_def)
qed

end
