(* ===== verification/SftpSync.thy ===== *)
theory SftpSync
  imports Tally TallyMasters Security
begin

text \<open>
  The file exchange with the Master, \<open>app/services/sftp_tally_sync.py\<close>: one cycle imports
  the first waiting Master file into Tally and acknowledges it, or uploads the parties of Tally.
  A byte is a character.  What the SFTP server answers is an \<open>sftp_client\<close>, what Tally answers
  and the digest, the decoder and the clock are a \<open>sftp_world\<close>.
\<close>

text \<open>The result of a call to the server: done, an \<open>OSError\<close>, or any other exception, by the name of its class.\<close>

datatype io = Finished | Os string | Other string

record sftp_client =
  cli_names :: "string \<Rightarrow> string + string list"
  cli_size :: "string \<Rightarrow> string + nat"
  cli_content :: "string \<Rightarrow> string + string"
  cli_remove :: "string \<Rightarrow> io"
  cli_put :: "string \<Rightarrow> string \<Rightarrow> io"
  cli_rename :: "string \<Rightarrow> string \<Rightarrow> io"

record sftp_world =
  sfw_now :: moment
  sfw_finished :: moment
  sfw_sha :: "string \<Rightarrow> string"
  sfw_decode :: "string \<Rightarrow> string + string"
  sfw_parse :: "string \<Rightarrow> xml option"
  sfw_answer :: tally_answer
  sfw_export :: gateway_reply

record sftp_settings =
  sfs_enabled :: bool
  sfs_configuration_error :: "string option"
  sfs_franchise_code :: string
  sfs_max_xml_bytes :: nat

text \<open>\<open>SftpTallySyncError\<close>, or the exception that came from the client, from Tally or from the session.\<close>

datatype sftp_error = SyncPaused string | Raised string | Broke exc

definition REMOTE_INBOX :: string where "REMOTE_INBOX = ''/inbox''"
definition REMOTE_OUTBOX :: string where "REMOTE_OUTBOX = ''/outbox''"
definition REMOTE_ACK :: string where "REMOTE_ACK = ''/ack''"

section \<open>Remote files\<close>

definition remote_path :: "string \<Rightarrow> string \<Rightarrow> sftp_error + string" where
  "remote_path directory filename =
    (if filename = [] \<or> CHR ''/'' \<in> set filename \<or> filename \<in> {''.'', ''..''} then
       Inl (SyncPaused ''Master returned an unsafe SFTP filename.'')
     else Inr (directory @ ''/'' @ filename))"

definition xml_names :: "sftp_client \<Rightarrow> string \<Rightarrow> sftp_error + string list" where
  "xml_names c directory =
    (case cli_names c directory of Inl e \<Rightarrow> Inl (Raised e)
     | Inr all \<Rightarrow>
         let names = filter (\<lambda>n. ends_with ''.xml'' (py_lower n) \<and> \<not> starts_with ''.'' n) all
         in (case List.map_filter (\<lambda>n. case remote_path directory n of Inl e \<Rightarrow> Some e | Inr p \<Rightarrow> None) names of
               e # es \<Rightarrow> Inl e
             | [] \<Rightarrow> Inr (sort_key py_lower names)))"

definition size_refusal :: "string \<Rightarrow> nat \<Rightarrow> sftp_error" where
  "size_refusal what limit = SyncPaused (what @ '' exceeds the configured '' @ nat_str limit @ ''-byte limit.'')"

definition read_remote_xml :: "sftp_client \<Rightarrow> string \<Rightarrow> nat \<Rightarrow> sftp_error + string" where
  "read_remote_xml c path limit =
    (case cli_size c path of Inl e \<Rightarrow> Inl (Raised e)
     | Inr n \<Rightarrow>
         if limit < n then Inl (size_refusal ''Master XML'' limit)
         else (case cli_content c path of Inl e \<Rightarrow> Inl (Raised e)
           | Inr content \<Rightarrow>
               let payload = take (limit + 1) content
               in if limit < length payload then Inl (size_refusal ''Master XML'' limit)
                  else if payload = [] then Inl (SyncPaused ''Master published an empty XML file.'')
                  else Inr payload))"

text \<open>The name of the exception's class, if writing failed.  A leftover part file is removed first.\<close>

definition write_remote_atomic :: "sftp_client \<Rightarrow> string \<Rightarrow> string \<Rightarrow> string option" where
  "write_remote_atomic c destination payload =
    (let temporary = destination @ ''.part''
     in case cli_remove c temporary of Other e \<Rightarrow> Some e
        | _ \<Rightarrow>
       (case cli_put c temporary payload of Os e \<Rightarrow> Some e | Other e \<Rightarrow> Some e
        | Finished \<Rightarrow>
       (case cli_rename c temporary destination of Finished \<Rightarrow> None
        | Os e \<Rightarrow> (case cli_remove c temporary of Other f \<Rightarrow> Some f | _ \<Rightarrow> Some e)
        | Other e \<Rightarrow> (case cli_remove c temporary of Other f \<Rightarrow> Some f | _ \<Rightarrow> Some e))))"

definition validate_master_import_xml :: "(string \<Rightarrow> xml option) \<Rightarrow> string \<Rightarrow> sftp_error option" where
  "validate_master_import_xml parse payload =
    (case parse payload of None \<Rightarrow> Some (SyncPaused ''Master published unsafe or invalid XML.'')
     | Some doc \<Rightarrow>
         if local_tag doc \<noteq> ''ENVELOPE'' then Some (SyncPaused ''Master XML is not a Tally ENVELOPE.'')
         else let request = (case elements [''TALLYREQUEST''] doc of [] \<Rightarrow> [] | n # ns \<Rightarrow> py_lower (py_strip (elem_text n)))
              in if request \<noteq> ''import data'' then Some (SyncPaused ''Master XML is not a Tally Import Data request.'') else None)"

section \<open>The records\<close>

definition downloaded :: "string \<Rightarrow> sftp_exchange \<Rightarrow> bool" where
  "downloaded filename x \<longleftrightarrow> sfx_direction x = DOWNLOAD \<and> sfx_filename x = filename"

definition new_exchange :: "sftp_direction \<Rightarrow> string \<Rightarrow> string \<Rightarrow> nat \<Rightarrow> db \<Rightarrow> sftp_exchange" where
  "new_exchange dir filename digest attempts d =
    \<lparr>sfx_id = next_id sfx_id (exchanges d), sfx_direction = dir, sfx_filename = filename, sfx_sha256 = digest, sfx_status = X_PENDING,
     sfx_attempts = attempts, sfx_tally_reference = None, sfx_last_error = None, sfx_completed_at = None\<rparr>"

definition record_for_remote_file :: "string \<Rightarrow> string \<Rightarrow> db \<Rightarrow> sftp_error + sftp_exchange \<times> db" where
  "record_for_remote_file filename digest d =
    (case find (downloaded filename) (exchanges d) of
       Some x \<Rightarrow>
         if sfx_sha256 x \<noteq> digest then
           Inl (SyncPaused ''Master reused an outbound filename with different content. The exchange is paused for operator review.'')
         else Inr (x, d)
     | None \<Rightarrow> let x = new_exchange DOWNLOAD filename digest 0 d in Inr (x, d\<lparr>exchanges := exchanges d @ [x]\<rparr>))"

definition set_exchange :: "nat \<Rightarrow> (sftp_exchange \<Rightarrow> sftp_exchange) \<Rightarrow> db \<Rightarrow> db" where
  "set_exchange i f d = d\<lparr>exchanges := upd_rows (\<lambda>x. sfx_id x = i) f (exchanges d)\<rparr>"

definition latest_upload :: "db \<Rightarrow> sftp_exchange option" where
  "latest_upload d = (case sort_key sfx_id (filter (\<lambda>x. sfx_direction x = UPLOAD) (exchanges d)) of [] \<Rightarrow> None | xs \<Rightarrow> Some (last xs))"

text \<open>
  What a cycle did: its result, the database, the file it posted to Tally with whether the program
  read a reply of Tally that confirms the import, and the remote files it wrote.  Without such a
  reply the program does not know whether Tally imported the file.
\<close>

record cycle =
  cyc_result :: "sftp_error + string"
  cyc_db :: db
  cyc_posted :: "(string \<times> bool) option"
  cyc_written :: "(string \<times> string) list"

abbreviation stopped :: "sftp_error \<Rightarrow> db \<Rightarrow> cycle" where
  "stopped e d \<equiv> \<lparr>cyc_result = Inl e, cyc_db = d, cyc_posted = None, cyc_written = []\<rparr>"

section \<open>Importing a file of the Master\<close>

text \<open>\<open>PurePosixPath(name).stem\<close>\<close>

definition path_stem :: "string \<Rightarrow> string" where
  "path_stem name =
    (case rsplit_dot name of Some (base, suffix) \<Rightarrow> if base = [] \<or> suffix = [] then name else base | None \<Rightarrow> name)"

definition ack_path :: "string \<Rightarrow> string" where
  "ack_path filename = REMOTE_ACK @ ''/'' @ path_stem filename @ ''.ack''"

definition close_exchange :: "moment \<Rightarrow> sftp_exchange \<Rightarrow> sftp_exchange" where
  "close_exchange now x = x\<lparr>sfx_status := X_ACKNOWLEDGED, sfx_completed_at := Some now\<rparr>"

text \<open>The acknowledgement of an imported file; \<open>posted\<close> is what the cycle has done before.\<close>

definition acknowledge :: "sftp_client \<Rightarrow> sftp_world \<Rightarrow> string \<Rightarrow> nat \<Rightarrow> (string \<times> bool) option \<Rightarrow> db \<Rightarrow> cycle" where
  "acknowledge c w filename i posted d =
    (case write_remote_atomic c (ack_path filename) [] of
       Some e \<Rightarrow>
         let m = take 2000 (''Tally import succeeded, but acknowledgement upload failed: '' @ e)
         in \<lparr>cyc_result = Inl (SyncPaused m), cyc_db = set_exchange i (\<lambda>x. x\<lparr>sfx_last_error := Some m\<rparr>) d,
             cyc_posted = posted, cyc_written = []\<rparr>
     | None \<Rightarrow>
         let d1 = set_exchange i (\<lambda>x. (close_exchange (sfw_finished w) x)\<lparr>sfx_last_error := None\<rparr>) d;
             d2 = (case latest_upload d1 of None \<Rightarrow> d1 | Some u \<Rightarrow> set_exchange (sfx_id u) (close_exchange (sfw_finished w)) d1)
         in \<lparr>cyc_result = Inr ''imported_and_acknowledged'', cyc_db = d2, cyc_posted = posted,
             cyc_written = [(ack_path filename, [])]\<rparr>)"

definition import_failed :: "string \<Rightarrow> nat \<Rightarrow> (string \<times> bool) option \<Rightarrow> string \<Rightarrow> db \<Rightarrow> cycle" where
  "import_failed filename i posted m d =
    \<lparr>cyc_result = Inl (SyncPaused (''Master XML is waiting because Tally did not import it: '' @ take 500 m)),
     cyc_db = set_exchange i (\<lambda>x. x\<lparr>sfx_status := X_FAILED, sfx_last_error := Some (take 2000 m)\<rparr>) d,
     cyc_posted = posted, cyc_written = []\<rparr>"

text \<open>
  Posting the file; without a host or a port nothing leaves.  An attempt whose reply was lost, or was
  read but not stored because the process ended, counts as not confirmed, although Tally may have
  imported the file.
\<close>

definition post_file ::
  "sftp_client \<Rightarrow> sftp_world \<Rightarrow> settings_map \<Rightarrow> string \<Rightarrow> string \<Rightarrow> nat \<Rightarrow> db \<Rightarrow> cycle"
where
  "post_file c w st filename payload i d =
    (let d1 = set_exchange i (\<lambda>x. x\<lparr>sfx_attempts := Suc (sfx_attempts x), sfx_last_error := None\<rparr>) d
     in case sfw_decode w payload of
          Inl m \<Rightarrow> import_failed filename i None m d1
        | Inr xml \<Rightarrow>
            let sent = (if text_of (st ''tally_host'') = [] \<or> text_of (st ''tally_port'') = [] then None else Some (filename, False))
            in (case post_to_tally xml st (sfw_answer w) of
                  Inl (TallySyncError m temporary request reply) \<Rightarrow> import_failed filename i sent m d1
                | Inl (Escapes e) \<Rightarrow> \<lparr>cyc_result = Inl (Broke e), cyc_db = d1, cyc_posted = sent, cyc_written = []\<rparr>
                | Inr (body, reference) \<Rightarrow>
                    acknowledge c w filename i (Some (filename, True))
                      (set_exchange i (\<lambda>x. x\<lparr>sfx_status := X_IMPORTED, sfx_tally_reference := Some (take 255 reference),
                         sfx_last_error := None\<rparr>) d1)))"

text \<open>The rest of an import, from the file's record on.\<close>

definition continue_import ::
  "sftp_client \<Rightarrow> sftp_world \<Rightarrow> settings_map \<Rightarrow> string \<Rightarrow> string \<Rightarrow> sftp_exchange \<times> db \<Rightarrow> cycle"
where
  "continue_import c w st filename payload = (\<lambda>(x, d).
     if sfx_status x = X_ACKNOWLEDGED then
       \<lparr>cyc_result = Inr ''imported_and_acknowledged'', cyc_db = d, cyc_posted = None, cyc_written = []\<rparr>
     else if sfx_status x = X_IMPORTED then acknowledge c w filename (sfx_id x) None d
     else post_file c w st filename payload (sfx_id x) d)"

definition import_master_file :: "sftp_client \<Rightarrow> sftp_world \<Rightarrow> sftp_settings \<Rightarrow> settings_map \<Rightarrow> string \<Rightarrow> db \<Rightarrow> cycle" where
  "import_master_file c w cfg st filename d =
    (case remote_path REMOTE_OUTBOX filename of Inl e \<Rightarrow> stopped e d
     | Inr path \<Rightarrow>
    (case read_remote_xml c path (sfs_max_xml_bytes cfg) of Inl e \<Rightarrow> stopped e d
     | Inr payload \<Rightarrow>
    (case validate_master_import_xml (sfw_parse w) payload of Some e \<Rightarrow> stopped e d
     | None \<Rightarrow>
    (case record_for_remote_file filename (sfw_sha w payload) d of Inl e \<Rightarrow> stopped e d
     | Inr r \<Rightarrow> continue_import c w st filename payload r))))"

section \<open>Uploading the parties of Tally\<close>

definition upload_stamp :: "moment \<Rightarrow> string" where
  "upload_stamp t =
    (let secs = t mod microseconds_per_day div 1000000; two = (\<lambda>n. zero_pad 2 (nat n))
     in compact_date (day_of t) @ ''T'' @ two (secs div 3600) @ two (secs div 60 mod 60) @ two (secs mod 60) @ ''Z'')"

definition upload_name :: "sftp_settings \<Rightarrow> moment \<Rightarrow> string \<Rightarrow> string" where
  "upload_name cfg now digest =
    ''setuora-'' @ sfs_franchise_code cfg @ ''-debtors-creditors-'' @ upload_stamp now @ ''-'' @ take 8 digest @ ''.xml''"

definition send_export :: "sftp_client \<Rightarrow> sftp_world \<Rightarrow> sftp_settings \<Rightarrow> string \<Rightarrow> string \<Rightarrow> db \<Rightarrow> cycle" where
  "send_export c w cfg payload digest d =
    (let filename = upload_name cfg (sfw_now w) digest; x = new_exchange UPLOAD filename digest 1 d;
         d1 = d\<lparr>exchanges := exchanges d @ [x]\<rparr>;
         failed = (\<lambda>e. let m = take 2000 (''SFTP upload failed: '' @ e)
           in stopped (SyncPaused m) (set_exchange (sfx_id x) (\<lambda>x. x\<lparr>sfx_status := X_FAILED, sfx_last_error := Some m\<rparr>) d1))
     in if \<exists>y \<in> set (exchanges d). sfx_direction y = UPLOAD \<and> sfx_filename y = filename then
          stopped (Broke (IntegrityError ''UNIQUE constraint failed: tally_sftp_exchanges'')) d
        else (case remote_path REMOTE_INBOX filename of
           Inl e \<Rightarrow> failed ''SftpTallySyncError''
         | Inr path \<Rightarrow>
             (case write_remote_atomic c path payload of
                Some e \<Rightarrow> failed e
              | None \<Rightarrow> \<lparr>cyc_result = Inr ''uploaded'',
                  cyc_db = set_exchange (sfx_id x) (\<lambda>x. x\<lparr>sfx_status := X_UPLOADED, sfx_completed_at := Some (sfw_finished w)\<rparr>) d1,
                  cyc_posted = None, cyc_written = [(path, payload)]\<rparr>)))"

definition upload_tally_export :: "sftp_client \<Rightarrow> sftp_world \<Rightarrow> sftp_settings \<Rightarrow> settings_map \<Rightarrow> db \<Rightarrow> cycle" where
  "upload_tally_export c w cfg st d =
    (case export_tally_parties_xml (sfw_parse w) st (py_strip (text_of (st ''company_name''))) (sfw_export w) of
       Inl (TallyDataError m) \<Rightarrow> stopped (SyncPaused m) d
     | Inl e \<Rightarrow> stopped (Broke e) d
     | Inr body \<Rightarrow>
         let payload = utf8 body; digest = sfw_sha w payload
         in if sfs_max_xml_bytes cfg < length payload then stopped (size_refusal ''Tally export'' (sfs_max_xml_bytes cfg)) d
            else if map_option sfx_sha256 (latest_upload d) = Some digest then
              \<lparr>cyc_result = Inr ''idle_unchanged'', cyc_db = d, cyc_posted = None, cyc_written = []\<rparr>
            else send_export c w cfg payload digest d)"

section \<open>A cycle\<close>

definition run_sftp_tally_sync_cycle :: "sftp_client \<Rightarrow> sftp_world \<Rightarrow> sftp_settings \<Rightarrow> db \<Rightarrow> cycle" where
  "run_sftp_tally_sync_cycle c w cfg d =
    (let st = get_all_settings d
     in if \<not> sfs_enabled cfg then \<lparr>cyc_result = Inr ''disabled'', cyc_db = d, cyc_posted = None, cyc_written = []\<rparr>
        else case sfs_configuration_error cfg of Some m \<Rightarrow> stopped (SyncPaused m) d
        | None \<Rightarrow>
       (case xml_names c REMOTE_OUTBOX of Inl e \<Rightarrow> stopped e d
        | Inr (f # fs) \<Rightarrow> import_master_file c w cfg st f d
        | Inr [] \<Rightarrow>
       (case xml_names c REMOTE_INBOX of Inl e \<Rightarrow> stopped e d
        | Inr (f # fs) \<Rightarrow> \<lparr>cyc_result = Inr ''waiting_for_master'', cyc_db = d, cyc_posted = None, cyc_written = []\<rparr>
        | Inr [] \<Rightarrow> upload_tally_export c w cfg st d)))"

definition recent_sftp_exchanges :: "nat \<Rightarrow> db \<Rightarrow> sftp_exchange list" where
  "recent_sftp_exchanges limit d = take limit (rev (sort_key sfx_id (exchanges d)))"

section \<open>What a run of cycles does\<close>

fun sync_trace :: "(sftp_client \<times> sftp_world \<times> sftp_settings) list \<Rightarrow> db \<Rightarrow> cycle list" where
  "sync_trace [] d = []"
| "sync_trace ((c, w, cfg) # rest) d = (let y = run_sftp_tally_sync_cycle c w cfg d in y # sync_trace rest (cyc_db y))"

definition exchanges_ok :: "db \<Rightarrow> bool" where
  "exchanges_ok d \<longleftrightarrow> distinct (map sfx_id (exchanges d))"

definition imported :: "string \<Rightarrow> db \<Rightarrow> bool" where
  "imported f d \<longleftrightarrow> (case find (downloaded f) (exchanges d) of None \<Rightarrow> False | Some x \<Rightarrow> sfx_status x \<in> {X_IMPORTED, X_ACKNOWLEDGED})"

text \<open>What a cycle may do to the record of one file: nothing that forgets an import.\<close>

definition keeps_imports :: "db \<Rightarrow> db \<Rightarrow> bool" where
  "keeps_imports d d' \<longleftrightarrow> exchanges_ok d' \<and> (\<forall>f. imported f d \<longrightarrow> imported f d')"

lemma keeps_refl: "exchanges_ok d \<Longrightarrow> keeps_imports d d"
  by (simp add: keeps_imports_def)

lemma keeps_trans: "keeps_imports d e \<Longrightarrow> keeps_imports e f \<Longrightarrow> keeps_imports d f"
  by (simp add: keeps_imports_def)

lemma find_set_exchange:
  assumes "\<And>x. sfx_id (g x) = sfx_id x \<and> sfx_direction (g x) = sfx_direction x \<and> sfx_filename (g x) = sfx_filename x"
  shows "find (downloaded f) (exchanges (set_exchange i g d)) =
    map_option (\<lambda>x. if sfx_id x = i then g x else x) (find (downloaded f) (exchanges d))"
proof -
  have "find (downloaded f) (upd_rows (\<lambda>x. sfx_id x = i) g xs) = map_option (\<lambda>x. if sfx_id x = i then g x else x) (find (downloaded f) xs)" for xs
    using assms by (induction xs) (auto simp: upd_rows_def downloaded_def)
  then show ?thesis by (simp add: set_exchange_def)
qed

lemma keeps_set_exchange:
  assumes "exchanges_ok d"
    and "\<And>x. sfx_id (g x) = sfx_id x \<and> sfx_direction (g x) = sfx_direction x \<and> sfx_filename (g x) = sfx_filename x"
    and "\<And>x. x \<in> set (exchanges d) \<Longrightarrow> sfx_id x = i \<Longrightarrow> sfx_status x \<in> {X_IMPORTED, X_ACKNOWLEDGED} \<Longrightarrow>
      sfx_direction x = DOWNLOAD \<Longrightarrow> sfx_status (g x) \<in> {X_IMPORTED, X_ACKNOWLEDGED}"
  shows "keeps_imports d (set_exchange i g d)"
proof -
  have "map sfx_id (exchanges (set_exchange i g d)) = map sfx_id (exchanges d)"
    using assms(2) by (simp add: set_exchange_def upd_rows_def)
  moreover have "imported f (set_exchange i g d)" if imp: "imported f d" for f
  proof -
    obtain x where x: "find (downloaded f) (exchanges d) = Some x" "sfx_status x \<in> {X_IMPORTED, X_ACKNOWLEDGED}"
      using imp by (auto simp: imported_def split: option.splits)
    then have "x \<in> set (exchanges d)" "sfx_direction x = DOWNLOAD" by (auto simp: downloaded_def dest: find_SomeD)
    with x assms(3) [of x] show ?thesis by (auto simp: imported_def find_set_exchange [of g, OF assms(2)])
  qed
  ultimately show ?thesis using assms(1) by (simp add: keeps_imports_def exchanges_ok_def)
qed

lemma keeps_add:
  assumes "exchanges_ok d" "sfx_id x = next_id sfx_id (exchanges d)"
  shows "keeps_imports d (d\<lparr>exchanges := exchanges d @ [x]\<rparr>)"
  using assms by (auto simp: keeps_imports_def exchanges_ok_def imported_def find_append next_id_notin split: option.splits)

lemma record_keeps:
  assumes "exchanges_ok d" "record_for_remote_file f digest d = Inr (x, d1)"
  shows "keeps_imports d d1 \<and> find (downloaded f) (exchanges d1) = Some x"
  using assms keeps_add [OF assms(1), of "new_exchange DOWNLOAD f digest 0 d"] keeps_refl [OF assms(1)]
  by (auto simp: record_for_remote_file_def Let_def find_append new_exchange_def downloaded_def split: option.splits if_splits)

definition unimported :: "nat \<Rightarrow> db \<Rightarrow> bool" where
  "unimported i d \<longleftrightarrow> (\<forall>x \<in> set (exchanges d). sfx_id x = i \<longrightarrow> sfx_status x \<notin> {X_IMPORTED, X_ACKNOWLEDGED})"

lemma acknowledge_keeps:
  assumes "exchanges_ok d"
  shows "keeps_imports d (cyc_db (acknowledge c w f i p d)) \<and> cyc_posted (acknowledge c w f i p d) = p"
proof (cases "write_remote_atomic c (ack_path f) []")
  case None
  let ?d1 = "set_exchange i (\<lambda>x. (close_exchange (sfw_finished w) x)\<lparr>sfx_last_error := None\<rparr>) d"
  have k: "keeps_imports d ?d1" by (rule keeps_set_exchange [OF assms]) (simp_all add: close_exchange_def)
  have "keeps_imports ?d1 (set_exchange j (close_exchange (sfw_finished w)) ?d1)" for j
    using k by (intro keeps_set_exchange) (auto simp: keeps_imports_def close_exchange_def)
  with k None show ?thesis by (auto simp: acknowledge_def Let_def split: option.split intro: keeps_trans)
next
  case (Some e)
  then show ?thesis using assms by (auto simp: acknowledge_def Let_def intro!: keeps_set_exchange)
qed

lemma post_file_keeps:
  assumes "exchanges_ok d" "unimported i d" "find (downloaded f) (exchanges d) = Some x" "sfx_id x = i"
    and y_def: "y = post_file c w st f payload i d"
  shows "keeps_imports d (cyc_db y) \<and> cyc_posted y \<in> {None, Some (f, False), Some (f, True)} \<and>
    (cyc_posted y = Some (f, True) \<longrightarrow> imported f (cyc_db y))"
proof -
  let ?d1 = "set_exchange i (\<lambda>x. x\<lparr>sfx_attempts := Suc (sfx_attempts x), sfx_last_error := None\<rparr>) d"
  have k1: "keeps_imports d ?d1" by (rule keeps_set_exchange [OF assms(1)]) simp_all
  then have ok1: "exchanges_ok ?d1" by (simp add: keeps_imports_def)
  have un1: "unimported i ?d1" using assms(2) by (simp add: unimported_def set_exchange_def)
  have failed: "keeps_imports ?d1 (cyc_db (import_failed f i p m ?d1))" for p m
    unfolding import_failed_def cycle.simps by (rule keeps_set_exchange [OF ok1]) (use un1 in \<open>simp_all add: unimported_def\<close>)
  let ?d2 = "\<lambda>r. set_exchange i (\<lambda>x. x\<lparr>sfx_status := X_IMPORTED, sfx_tally_reference := Some (take 255 r), sfx_last_error := None\<rparr>) ?d1"
  have k2: "keeps_imports ?d1 (?d2 r)" for r by (rule keeps_set_exchange [OF ok1]) simp_all
  have ok2: "exchanges_ok (?d2 r)" for r using k2 by (simp add: keeps_imports_def)
  have imp: "imported f (?d2 r)" for r using assms(3,4) by (simp add: imported_def find_set_exchange)
  have ack: "keeps_imports (?d2 r) (cyc_db (acknowledge c w f i p (?d2 r)))" for r p
    using acknowledge_keeps [OF ok2] by blast
  then have "imported f (cyc_db (acknowledge c w f i p (?d2 r)))" for r p using imp by (simp add: keeps_imports_def)
  moreover have "keeps_imports d (cyc_db (acknowledge c w f i p (?d2 r)))" for r p
    using keeps_trans [OF k1 keeps_trans [OF k2 ack]] .
  moreover have "keeps_imports d (cyc_db (import_failed f i p m ?d1))" for p m using keeps_trans [OF k1 failed] .
  ultimately show ?thesis
  proof (cases "sfw_decode w payload")
    case (Inr xml)
    show ?thesis
    proof (cases "post_to_tally xml st (sfw_answer w)")
      case (Inl e)
      then show ?thesis using \<open>sfw_decode w payload = Inr xml\<close> \<open>\<And>p m. keeps_imports d (cyc_db (import_failed f i p m ?d1))\<close> k1
        by (cases e) (simp_all add: y_def post_file_def Let_def, simp_all add: import_failed_def)
    next
      case (Inr br)
      then show ?thesis using \<open>sfw_decode w payload = Inr xml\<close> acknowledge_keeps [OF ok2]
          \<open>\<And>r p. imported f (cyc_db (acknowledge c w f i p (?d2 r)))\<close> \<open>\<And>r p. keeps_imports d (cyc_db (acknowledge c w f i p (?d2 r)))\<close>
        by (cases br) (simp add: y_def post_file_def Let_def)
    qed
  qed (simp add: y_def post_file_def Let_def, simp add: import_failed_def)
qed

lemma continue_keeps:
  assumes ok: "exchanges_ok d" and x: "find (downloaded f) (exchanges d) = Some x" and y_def: "y = continue_import c w st f payload (x, d)"
  shows "keeps_imports d (cyc_db y) \<and> (imported f d \<longrightarrow> cyc_posted y = None) \<and>
    cyc_posted y \<in> {None, Some (f, False), Some (f, True)} \<and> (cyc_posted y = Some (f, True) \<longrightarrow> imported f (cyc_db y))"
proof (cases "sfx_status x \<in> {X_IMPORTED, X_ACKNOWLEDGED}")
  case True
  then show ?thesis using keeps_refl [OF ok] acknowledge_keeps [OF ok, of c w f "sfx_id x" None]
    by (auto simp: y_def continue_import_def)
next
  case False
  have "unimported (sfx_id x) d"
    unfolding unimported_def
  proof (intro ballI impI)
    fix z assume "z \<in> set (exchanges d)" "sfx_id z = sfx_id x"
    moreover have "x \<in> set (exchanges d)" using x by (auto dest: find_SomeD)
    ultimately have "z = x" using ok by (auto simp: exchanges_ok_def distinct_map dest: inj_onD)
    then show "sfx_status z \<notin> {X_IMPORTED, X_ACKNOWLEDGED}" using False by simp
  qed
  moreover have "\<not> imported f d" using x False by (simp add: imported_def)
  ultimately show ?thesis using post_file_keeps [OF ok _ x refl refl, of c w st payload] False by (auto simp: y_def continue_import_def)
qed

lemma import_keeps:
  assumes ok: "exchanges_ok d" and y_def: "y = import_master_file c w cfg st f d"
  shows "keeps_imports d (cyc_db y) \<and> (imported f d \<longrightarrow> cyc_posted y = None) \<and>
    cyc_posted y \<in> {None, Some (f, False), Some (f, True)} \<and> (cyc_posted y = Some (f, True) \<longrightarrow> imported f (cyc_db y))"
proof (cases "\<exists>e. y = stopped e d")
  case True
  then show ?thesis using keeps_refl [OF ok] by auto
next
  case False
  then obtain payload x d1 where r: "record_for_remote_file f (sfw_sha w payload) d = Inr (x, d1)" "y = continue_import c w st f payload (x, d1)"
    unfolding y_def import_master_file_def by (auto split: sum.splits option.splits)
  have k: "keeps_imports d d1" and x: "find (downloaded f) (exchanges d1) = Some x" using record_keeps [OF ok r(1)] by auto
  have "exchanges_ok d1" using k by (simp add: keeps_imports_def)
  note c = continue_keeps [OF this x r(2)]
  moreover have "imported f d \<longrightarrow> imported f d1" using k by (simp add: keeps_imports_def)
  ultimately show ?thesis using keeps_trans [OF k] by blast
qed

lemma upload_keeps:
  assumes "exchanges_ok d"
  shows "keeps_imports d (cyc_db (upload_tally_export c w cfg st d)) \<and> cyc_posted (upload_tally_export c w cfg st d) = None"
proof -
  let ?x = "\<lambda>name digest. new_exchange UPLOAD name digest 1 d"
  let ?d1 = "\<lambda>name digest. d\<lparr>exchanges := exchanges d @ [?x name digest]\<rparr>"
  have k1: "keeps_imports d (?d1 n g)" for n g by (rule keeps_add [OF assms]) (simp add: new_exchange_def)
  have new: "x \<in> set (exchanges (?d1 n g)) \<Longrightarrow> sfx_id x = sfx_id (?x n g) \<Longrightarrow> sfx_direction x \<noteq> DOWNLOAD" for x n g
    using next_id_fresh [of x "exchanges d" sfx_id] by (auto simp: new_exchange_def)
  have k2: "keeps_imports d (set_exchange (sfx_id (?x n g)) h (?d1 n g))"
    if "\<And>x. sfx_id (h x) = sfx_id x \<and> sfx_direction (h x) = sfx_direction x \<and> sfx_filename (h x) = sfx_filename x" for n g h
    by (rule keeps_trans [OF k1]) (rule keeps_set_exchange, use k1 that new in \<open>auto simp: keeps_imports_def\<close>)
  show ?thesis
    using keeps_refl [OF assms] k2
    by (simp add: upload_tally_export_def send_export_def Let_def split: sum.split exc.split option.split)
qed

lemma cycle_keeps:
  assumes "exchanges_ok d" and y_def: "y = run_sftp_tally_sync_cycle c w cfg d"
  shows "keeps_imports d (cyc_db y) \<and> (cyc_posted y = Some (f, b) \<longrightarrow> \<not> imported f d) \<and>
    (cyc_posted y = Some (f, True) \<longrightarrow> imported f (cyc_db y))"
proof -
  have "(cyc_db y = d \<and> cyc_posted y = None) \<or> (\<exists>g. y = import_master_file c w cfg (get_all_settings d) g d) \<or>
      y = upload_tally_export c w cfg (get_all_settings d) d"
    unfolding y_def run_sftp_tally_sync_cycle_def Let_def by (simp split: option.split sum.split list.split) blast
  then show ?thesis
  proof (elim disjE exE conjE)
    fix g assume "y = import_master_file c w cfg (get_all_settings d) g d"
    from import_keeps [OF assms(1) this] show ?thesis by auto
  next
    assume "y = upload_tally_export c w cfg (get_all_settings d) d"
    with upload_keeps [OF assms(1), of c w cfg "get_all_settings d"] show ?thesis by simp
  qed (simp add: keeps_refl [OF assms(1)])
qed

lemma trace_imports:
  assumes "exchanges_ok d" "i < length (sync_trace ws d)"
  shows "(cyc_posted (sync_trace ws d ! i) = Some (f, b) \<longrightarrow> \<not> imported f d) \<and>
    (\<forall>j < i. cyc_posted (sync_trace ws d ! j) = Some (f, True) \<longrightarrow> cyc_posted (sync_trace ws d ! i) \<noteq> Some (f, b))"
  using assms
proof (induction ws arbitrary: d i)
  case (Cons a ws)
  obtain c w cfg where a: "a = (c, w, cfg)" by (cases a) auto
  define y where "y = run_sftp_tally_sync_cycle c w cfg d"
  note k = cycle_keeps [OF Cons.prems(1) y_def, of f]
  have ok: "exchanges_ok (cyc_db y)" using k by (simp add: keeps_imports_def)
  show ?case
  proof (cases i)
    case 0
    then show ?thesis using k [of b] by (simp add: a Let_def y_def)
  next
    case (Suc n)
    have n: "n < length (sync_trace ws (cyc_db y))" using Cons.prems(2) Suc by (simp add: a Let_def y_def)
    note IH = Cons.IH [OF ok n]
    have "cyc_posted (sync_trace ws (cyc_db y) ! n) \<noteq> Some (f, b)" if "imported f (cyc_db y)" using IH that by blast
    then show ?thesis using IH k
      by (auto simp: a Let_def y_def Suc less_Suc_eq_0_disj keeps_imports_def)
  qed
qed simp

lemma insort_key_snoc: "f a \<le> f x \<Longrightarrow> insort_key f a (ys @ [x]) = insort_key f a ys @ [x]"
  by (induction ys) auto

lemma sort_key_snoc: "\<forall>y \<in> set xs. f y \<le> f x \<Longrightarrow> sort_key f (xs @ [x]) = sort_key f xs @ [x]"
  by (induction xs) (simp_all add: insort_key_snoc)

lemma cycle_uploads:
  assumes "xml_names c REMOTE_OUTBOX = Inr []" "xml_names c REMOTE_INBOX = Inr []"
    and "exchanges (cyc_db (run_sftp_tally_sync_cycle c w cfg d)) \<noteq> exchanges d"
  shows "sfs_enabled cfg \<and> sfs_configuration_error cfg = None \<and>
    run_sftp_tally_sync_cycle c w cfg d = upload_tally_export c w cfg (get_all_settings d) d"
proof (cases "sfs_enabled cfg \<and> sfs_configuration_error cfg = None")
  case True
  then show ?thesis using assms(1,2) by (simp add: run_sftp_tally_sync_cycle_def)
next
  case False
  then have "cyc_db (run_sftp_tally_sync_cycle c w cfg d) = d"
    by (cases "sfs_configuration_error cfg") (auto simp: run_sftp_tally_sync_cycle_def Let_def)
  then show ?thesis using assms(3) by simp
qed

lemma latest_added:
  assumes "sfx_id x = next_id sfx_id (exchanges d)" "sfx_direction x = UPLOAD" "exchanges d' = exchanges d @ [x]"
  shows "latest_upload d' = Some x"
proof -
  have max: "\<forall>y \<in> set (filter (\<lambda>x. sfx_direction x = UPLOAD) (exchanges d)). sfx_id y \<le> sfx_id x"
  proof
    fix y assume "y \<in> set (filter (\<lambda>x. sfx_direction x = UPLOAD) (exchanges d))"
    then have "y \<in> set (exchanges d)" by simp
    then show "sfx_id y \<le> sfx_id x" unfolding assms(1) by (rule less_imp_le [OF next_id_fresh])
  qed
  have rows: "filter (\<lambda>x. sfx_direction x = UPLOAD) (exchanges d') = filter (\<lambda>x. sfx_direction x = UPLOAD) (exchanges d) @ [x]"
    using assms(2,3) by simp
  obtain xs where "sort_key sfx_id (filter (\<lambda>x. sfx_direction x = UPLOAD) (exchanges d')) = xs @ [x]"
    unfolding rows sort_key_snoc [OF max] by blast
  then show ?thesis by (cases xs) (simp_all add: latest_upload_def)
qed

lemma mark_added:
  assumes "sfx_id x = next_id sfx_id (exchanges d)" "\<And>z. sfx_id (g z) = sfx_id z"
  shows "exchanges (set_exchange (sfx_id x) g (d\<lparr>exchanges := exchanges d @ [x]\<rparr>)) = exchanges d @ [g x]"
proof -
  have "upd_rows (\<lambda>z. sfx_id z = sfx_id x) g (exchanges d) = exchanges d"
    unfolding upd_rows_def by (rule map_idI) (use next_id_fresh [of _ "exchanges d" sfx_id] assms(1) in force)
  then show ?thesis by (simp add: set_exchange_def upd_rows_def)
qed

text \<open>What an upload that left a record and did not succeed has done.\<close>

lemma send_failure:
  assumes "y = send_export c w cfg payload digest d" "exchanges (cyc_db y) \<noteq> exchanges d" "cyc_result y = Inl e"
  shows "\<exists>x xs. latest_upload (cyc_db y) = Some x \<and> sfx_sha256 x = digest \<and> cyc_db y = d\<lparr>exchanges := xs\<rparr>"
proof -
  define x where "x = new_exchange UPLOAD (upload_name cfg (sfw_now w) digest) digest 1 d"
  have id: "sfx_id x = next_id sfx_id (exchanges d)" "sfx_direction x = UPLOAD" "sfx_sha256 x = digest"
    by (simp_all add: x_def new_exchange_def)
  obtain m where db: "cyc_db y =
      set_exchange (sfx_id x) (\<lambda>x. x\<lparr>sfx_status := X_FAILED, sfx_last_error := Some m\<rparr>) (d\<lparr>exchanges := exchanges d @ [x]\<rparr>)"
    using assms unfolding send_export_def Let_def x_def [symmetric] by (auto split: if_splits option.splits sum.splits)
  have rows: "exchanges (cyc_db y) = exchanges d @ [x\<lparr>sfx_status := X_FAILED, sfx_last_error := Some m\<rparr>]"
    unfolding db by (rule mark_added) (simp_all add: id)
  have "latest_upload (cyc_db y) = Some (x\<lparr>sfx_status := X_FAILED, sfx_last_error := Some m\<rparr>)"
    by (rule latest_added [OF _ _ rows]) (simp_all add: id)
  moreover have "\<exists>xs. cyc_db y = d\<lparr>exchanges := xs\<rparr>" by (simp add: db set_exchange_def) blast
  ultimately show ?thesis using id(3) by auto
qed

lemma upload_failure:
  assumes "y = upload_tally_export c w cfg st d" "exchanges (cyc_db y) \<noteq> exchanges d" "cyc_result y = Inl e"
  shows "\<exists>body x xs. export_tally_parties_xml (sfw_parse w) st (py_strip (text_of (st ''company_name''))) (sfw_export w) = Inr body \<and>
    \<not> sfs_max_xml_bytes cfg < length (utf8 body) \<and> latest_upload (cyc_db y) = Some x \<and> sfx_sha256 x = sfw_sha w (utf8 body) \<and>
    cyc_db y = d\<lparr>exchanges := xs\<rparr>"
proof (cases "export_tally_parties_xml (sfw_parse w) st (py_strip (text_of (st ''company_name''))) (sfw_export w)")
  case (Inl a)
  then have "cyc_db y = d" using assms(1) by (cases a) (simp_all add: upload_tally_export_def)
  then show ?thesis using assms(2) by simp
next
  case (Inr body)
  have "\<not> sfs_max_xml_bytes cfg < length (utf8 body) \<and> y = send_export c w cfg (utf8 body) (sfw_sha w (utf8 body)) d"
    using assms Inr by (auto simp: upload_tally_export_def Let_def split: if_splits)
  then show ?thesis using send_failure [OF _ assms(2,3)] Inr by blast
qed

text \<open>
  C33. A file of the Master whose import Tally has confirmed is never sent to Tally again: through any
  sequence of cycles, whatever the server and Tally answer in them, once the program has read Tally's
  reply that the file was imported no later cycle posts that file, even when its acknowledgement never
  got through.  (When that reply is lost the file is posted again, as the theorem after this one states.)
\<close>

theorem imported_once:
  assumes "exchanges_ok d" "j < i" "i < length (sync_trace ws d)" "cyc_posted (sync_trace ws d ! j) = Some (f, True)"
  shows "cyc_posted (sync_trace ws d ! i) \<noteq> Some (f, b)"
  using trace_imports [OF assms(1,3)] assms(2,4) by blast

text \<open>
  A file posted without a confirming reply is posted again by the next cycle that finds it in the
  outbox, although Tally may have imported it.
\<close>

lemma record_found:
  assumes "record_for_remote_file f digest d = Inr (x, d1)"
  shows "find (downloaded f) (exchanges d1) = Some x \<and> sfx_sha256 x = digest \<and> settings_rows d1 = settings_rows d"
  using assms
  by (auto simp: record_for_remote_file_def Let_def find_append new_exchange_def downloaded_def split: option.splits if_splits)

lemma unconfirmed_record:
  assumes "cyc_posted (post_file c w st f payload (sfx_id x) d) = Some (f, False)"
    and "find (downloaded f) (exchanges d) = Some x" "sfx_status x \<notin> {X_IMPORTED, X_ACKNOWLEDGED}"
  shows "settings_rows (cyc_db (post_file c w st f payload (sfx_id x) d)) = settings_rows d \<and>
    (\<exists>y. find (downloaded f) (exchanges (cyc_db (post_file c w st f payload (sfx_id x) d))) = Some y \<and>
       sfx_sha256 y = sfx_sha256 x \<and> sfx_status y \<notin> {X_IMPORTED, X_ACKNOWLEDGED}) \<and>
    text_of (st ''tally_host'') \<noteq> [] \<and> text_of (st ''tally_port'') \<noteq> [] \<and> (\<exists>xml. sfw_decode w payload = Inr xml)"
proof (cases "sfw_decode w payload")
  case (Inl m)
  then show ?thesis using assms(1) by (simp add: post_file_def import_failed_def)
next
  case (Inr xml)
  have "acknowledge c w f i (Some (f, True)) e = y \<Longrightarrow> cyc_posted y = Some (f, True)" for i e y
    by (auto simp: acknowledge_def Let_def split: option.split)
  with assms(1) Inr obtain e where e: "post_to_tally xml st (sfw_answer w) = Inl e"
    by (cases "post_to_tally xml st (sfw_answer w)") (auto simp: post_file_def Let_def)
  have s: "settings_rows (set_exchange i g d) = settings_rows d" for i g d by (simp add: set_exchange_def)
  show ?thesis
    using assms e Inr
    by (cases e) (auto simp: post_file_def Let_def import_failed_def find_set_exchange s split: if_splits)
qed

theorem unconfirmed_posted_again:
  assumes "y = import_master_file c w cfg (get_all_settings d) f d" "cyc_posted y = Some (f, False)"
    and "sfw_sha w' = sfw_sha w" "sfw_parse w' = sfw_parse w" "sfw_decode w' = sfw_decode w"
  shows "\<exists>confirmed. cyc_posted (import_master_file c w' cfg (get_all_settings (cyc_db y)) f (cyc_db y)) = Some (f, confirmed)"
proof -
  obtain path payload x d1 where r: "remote_path REMOTE_OUTBOX f = Inr path" "read_remote_xml c path (sfs_max_xml_bytes cfg) = Inr payload"
    "validate_master_import_xml (sfw_parse w) payload = None" "record_for_remote_file f (sfw_sha w payload) d = Inr (x, d1)"
    "y = continue_import c w (get_all_settings d) f payload (x, d1)"
    using assms(1,2) unfolding import_master_file_def by (auto split: sum.splits option.splits)
  note x = record_found [OF r(4)]
  have st: "sfx_status x \<notin> {X_IMPORTED, X_ACKNOWLEDGED}"
    using assms(2) r(5) by (auto simp: continue_import_def acknowledge_def Let_def split: if_splits option.splits)
  then have y: "y = post_file c w (get_all_settings d) f payload (sfx_id x) d1" using r(5) by (simp add: continue_import_def)
  obtain z xml where z: "find (downloaded f) (exchanges (cyc_db y)) = Some z" "sfx_sha256 z = sfw_sha w payload"
    "sfx_status z \<notin> {X_IMPORTED, X_ACKNOWLEDGED}" "settings_rows (cyc_db y) = settings_rows d"
    "text_of (get_all_settings d ''tally_host'') \<noteq> []" "text_of (get_all_settings d ''tally_port'') \<noteq> []" "sfw_decode w payload = Inr xml"
    using unconfirmed_record [of c w "get_all_settings d" f payload x d1] assms(2) x st unfolding y by auto
  have g: "get_all_settings (cyc_db y) = get_all_settings d"
    by (rule ext) (simp add: get_all_settings_def stored_setting_def z(4))
  have "cyc_posted (post_file c w' (get_all_settings d) f payload (sfx_id z) (cyc_db y)) \<in> {Some (f, False), Some (f, True)}"
    using z(5-7) assms(5)
    by (auto simp: post_file_def Let_def import_failed_def acknowledge_def split: sum.split tally_failure.split option.split)
  then show ?thesis using r(1-3) z(1-3) assms(3,4)
    by (auto simp: import_master_file_def record_for_remote_file_def continue_import_def g)
qed

text \<open>
  C34. A failed upload is never repeated: when writing the export to the server has failed, the next
  cycle takes the record of the failure for an upload of the same content and reports that nothing
  has changed -- and so does every later one, until Tally's list of parties changes.
\<close>

theorem failed_upload_not_repeated:
  assumes "xml_names c REMOTE_OUTBOX = Inr []" "xml_names c REMOTE_INBOX = Inr []"
    and "y = run_sftp_tally_sync_cycle c w cfg d" "exchanges (cyc_db y) \<noteq> exchanges d" "cyc_result y = Inl e"
    and "xml_names c' REMOTE_OUTBOX = Inr []" "xml_names c' REMOTE_INBOX = Inr []"
    and "sfw_sha w' = sfw_sha w" "sfw_parse w' = sfw_parse w" "sfw_export w' = sfw_export w"
  shows "run_sftp_tally_sync_cycle c' w' cfg (cyc_db y) =
    \<lparr>cyc_result = Inr ''idle_unchanged'', cyc_db = cyc_db y, cyc_posted = None, cyc_written = []\<rparr>"
proof -
  have settings: "get_all_settings (d\<lparr>exchanges := xs\<rparr>) = get_all_settings d" for xs
    by (rule ext) (simp add: get_all_settings_def stored_setting_def)
  have on: "sfs_enabled cfg" "sfs_configuration_error cfg = None" and y: "y = upload_tally_export c w cfg (get_all_settings d) d"
    using cycle_uploads [OF assms(1,2)] assms(3,4) by auto
  obtain body x xs where "export_tally_parties_xml (sfw_parse w) (get_all_settings d)
      (py_strip (text_of (get_all_settings d ''company_name''))) (sfw_export w) = Inr body"
      "\<not> sfs_max_xml_bytes cfg < length (utf8 body)" "latest_upload (cyc_db y) = Some x" "sfx_sha256 x = sfw_sha w (utf8 body)"
      "cyc_db y = d\<lparr>exchanges := xs\<rparr>"
    using upload_failure [OF y assms(4,5)] by blast
  then show ?thesis using assms(6-10) on settings [of xs]
    by (simp add: run_sftp_tally_sync_cycle_def upload_tally_export_def Let_def)
qed

end
