(* ===== verification/Assignment.thy ===== *)
theory Assignment
  imports DateTexts Labels Outbox Audits Voucher
begin

text \<open>
  Barcodes for stock that exists already, \<open>app/services/assignment.py\<close>: reading the rows
  of a spreadsheet, finding or creating the product of a row, and assigning new serials in
  one closed batch.  The rows are what \<open>openpyxl\<close> returns for the uploaded bytes, a
  parameter; \<open>None\<close> stands for its exception.
\<close>

definition max_assignment_quantity :: int where
  "max_assignment_quantity = 5000"

record assignment_line =
  asl_product :: product
  asl_quantity :: int
  asl_rate :: "rat option"
  asl_prefix :: "string option"
  asl_batch_number :: "string option"
  asl_mfg :: "day option"
  asl_expiry :: "day option"
  asl_warehouse :: "string option"
  asl_level :: string

record import_columns =
  col_code :: "nat option"
  col_name :: "nat option"
  col_qty :: nat
  col_rate :: "nat option"
  col_batch :: "nat option"
  col_mfg :: "nat option"
  col_expiry :: "nat option"
  col_warehouse :: "nat option"
  col_level :: "nat option"
  col_hsn :: "nat option"
  col_gst :: "nat option"
  col_cgst :: "nat option"
  col_sgst :: "nat option"
  col_igst :: "nat option"
  col_unit :: "nat option"

record raw_line =
  raw_row :: nat
  raw_code :: "string option"
  raw_name :: "string option"
  raw_quantity :: int
  raw_rate :: "rat option"
  raw_batch :: "string option"
  raw_mfg :: "day option"
  raw_expiry :: "day option"
  raw_warehouse :: "string option"
  raw_level :: string
  raw_hsn :: "string option"
  raw_gst :: "rat option"
  raw_cgst :: "rat option"
  raw_sgst :: "rat option"
  raw_igst :: "rat option"
  raw_unit :: "string option"

section \<open>Texts\<close>

text \<open>Runs of characters outside \<open>p\<close> become one \<open>sep\<close>: \<open>re.sub("[^...]+", sep, s)\<close>.\<close>

fun replace_runs :: "(char \<Rightarrow> bool) \<Rightarrow> string \<Rightarrow> bool \<Rightarrow> string \<Rightarrow> string" where
  "replace_runs p sep inside [] = []"
| "replace_runs p sep inside (c # cs) =
     (if p c then c # replace_runs p sep False cs
      else if inside then replace_runs p sep True cs
      else sep @ replace_runs p sep True cs)"

definition is_lower_letter :: "char \<Rightarrow> bool" where
  "is_lower_letter c \<longleftrightarrow> is_upper_letter (char_upper c) \<and> \<not> is_upper_letter c"

definition normalize_header :: "cell \<Rightarrow> string" where
  "normalize_header v = py_strip (replace_runs (\<lambda>c. is_lower_letter c \<or> is_digit c) '' '' False (py_lower (py_strip (cell_or_empty v))))"

definition normalize_lookup :: "string \<Rightarrow> string" where
  "normalize_lookup s = '' '' @ py_lower (py_join '' '' (py_split s)) @ '' ''"

definition contains :: "string \<Rightarrow> string \<Rightarrow> bool" where
  "contains needle s \<longleftrightarrow> list_ex (\<lambda>k. starts_with needle (drop k s)) [0..<Suc (length s)]"

text \<open>\<open>re.search("-?\d+(?:\.\d+)?", s)\<close>: the longest number at the first place that has one.\<close>

definition unsigned_at :: "string \<Rightarrow> string" where
  "unsigned_at s =
    (let ds = takeWhile is_digit s; r = drop (length ds) s; fs = takeWhile is_digit (drop 1 r)
     in if ds \<noteq> [] \<and> take 1 r = ''.'' \<and> fs \<noteq> [] then ds @ ''.'' @ fs else ds)"

fun find_number :: "string \<Rightarrow> string option" where
  "find_number [] = None"
| "find_number (c # cs) =
     (if c = CHR ''-'' \<and> unsigned_at cs \<noteq> [] then Some (c # unsigned_at cs)
      else if is_digit c then Some (unsigned_at (c # cs))
      else find_number cs)"

definition without_commas :: "string \<Rightarrow> string" where
  "without_commas s = filter (\<lambda>c. c \<noteq> CHR '','') s"

definition cell_decimal :: "cell \<Rightarrow> rat option" where
  "cell_decimal v =
    (case v of CNone \<Rightarrow> None
     | CText s \<Rightarrow> if s = [] then None else Option.bind (find_number (without_commas s)) parse_decimal
     | _ \<Rightarrow> parse_decimal (cell_str v))"

definition row_text :: "nat \<Rightarrow> string \<Rightarrow> exc" where
  "row_text row msg = InventoryError (''Row '' @ nat_str row @ '': '' @ msg)"

definition parse_quantity :: "cell \<Rightarrow> nat \<Rightarrow> exc + int" where
  "parse_quantity v row =
    (if v = CNone \<or> v = CText [] then Inl (row_text row ''quantity is required'')
     else (case (case v of CText s \<Rightarrow> Option.bind (find_number (without_commas s)) parse_decimal | _ \<Rightarrow> parse_decimal (cell_str v)) of
         None \<Rightarrow> Inl (row_text row ''quantity must be a whole number'')
       | Some x \<Rightarrow> if of_int (floor x) \<noteq> x then Inl (row_text row ''quantity must be a whole number'')
           else if floor x < 1 then Inl (row_text row ''quantity must be at least 1'')
           else Inr (floor x)))"

section \<open>Columns\<close>

definition find_column :: "string list \<Rightarrow> string list \<Rightarrow> nat option" where
  "find_column header names = find (\<lambda>k. header ! k \<in> set names) [0..<length header]"

definition columns_of :: "string list \<Rightarrow> import_columns option" where
  "columns_of h =
    (let code = find_column h [''product code'', ''code'', ''product''];
         name = find_column h [''product name'', ''item name'', ''stock item'', ''tally stock item'', ''description of goods'',
           ''description'', ''goods'']
     in case find_column h [''quantity'', ''qty'', ''billed quantity''] of None \<Rightarrow> None
       | Some qty \<Rightarrow> if code = None \<and> name = None then None
           else Some \<lparr>col_code = code, col_name = name, col_qty = qty,
             col_rate = find_column h [''rate'', ''unit rate'', ''price'', ''item rate''],
             col_batch = find_column h [''batch'', ''batch no'', ''batch number'', ''product batch''],
             col_mfg = find_column h [''mfg date'', ''manufacturing date'', ''manufacture date''],
             col_expiry = find_column h [''expiry date'', ''expiry'', ''exp date''],
             col_warehouse = find_column h [''warehouse'', ''wh'', ''location''],
             col_level = find_column h [''warehouse level'', ''franchise level'', ''location level''],
             col_hsn = find_column h [''hsn'', ''hsn sac'', ''hsn code''],
             col_gst = find_column h [''gst'', ''gst rate'', ''gst percentage'', ''gst percent''],
             col_cgst = find_column h [''cgst'', ''cgst rate'', ''cgst percentage'', ''cgst percent''],
             col_sgst = find_column h [''sgst'', ''sgst rate'', ''sgst utgst rate'', ''sgst percentage'', ''sgst percent''],
             col_igst = find_column h [''igst'', ''ignst'', ''igst rate'', ''ignst rate'', ''igst percentage'', ''igst percent''],
             col_unit = find_column h [''unit'', ''per'', ''uom'', ''item rate per'']\<rparr>)"

definition plain_columns :: import_columns where
  "plain_columns = \<lparr>col_code = Some 0, col_name = None, col_qty = 1, col_rate = None, col_batch = None, col_mfg = None,
     col_expiry = None, col_warehouse = None, col_level = None, col_hsn = None, col_gst = None, col_cgst = None,
     col_sgst = None, col_igst = None, col_unit = None\<rparr>"

text \<open>The first row that is a header, with its place.\<close>

fun find_assignment_header :: "nat \<Rightarrow> cell list list \<Rightarrow> (nat \<times> import_columns) option" where
  "find_assignment_header k [] = None"
| "find_assignment_header k (row # rows) =
     (case columns_of (map normalize_header row) of
        Some c \<Rightarrow> Some (k, c) | None \<Rightarrow> find_assignment_header (Suc k) rows)"

definition cell_at :: "cell list \<Rightarrow> nat option \<Rightarrow> cell" where
  "cell_at row k = (case k of None \<Rightarrow> CNone | Some n \<Rightarrow> if length row \<le> n then CNone else row ! n)"

definition cell_text :: "cell list \<Rightarrow> nat option \<Rightarrow> string" where
  "cell_text row k = py_strip (cell_or_empty (cell_at row k))"

definition is_blank_row :: "string \<Rightarrow> string \<Rightarrow> cell \<Rightarrow> bool" where
  "is_blank_row code name qty \<longleftrightarrow> code = [] \<and> name = [] \<and> (qty = CNone \<or> qty = CText [])"

definition is_summary_or_ledger_row :: "string \<Rightarrow> string \<Rightarrow> bool" where
  "is_summary_or_ledger_row code name =
    (let v = normalize_lookup (if name = [] then code else name)
     in py_strip v \<in> {''total'', ''round off'', ''amount chargeable in words''} \<or>
        list_ex (\<lambda>t. contains t v) ['' output cgst '', '' output sgst '', '' output igst ''])"

section \<open>Tax rates of the sheet\<close>

text \<open>\<open>\b(CGST|SGST|IGST|GST)\b\s*@\s*(rate)\s*%\<close> at the start of the text, in upper case.\<close>

definition word_char :: "char \<Rightarrow> bool" where
  "word_char c \<longleftrightarrow> is_upper_letter (char_upper c) \<or> is_digit c \<or> c = CHR ''_''"

definition tax_at :: "string \<Rightarrow> (string \<times> string) option" where
  "tax_at s =
    (case find (\<lambda>t. starts_with t s) [''CGST'', ''SGST'', ''IGST'', ''GST''] of None \<Rightarrow> None
     | Some t \<Rightarrow>
         let r = dropWhile py_space (drop (length t) s); u = dropWhile py_space (drop 1 r); n = unsigned_at u;
             w = dropWhile py_space (drop (length n) u)
         in if take 1 r = ''@'' \<and> n \<noteq> [] \<and> take 1 w = ''%'' then Some (py_lower t, n) else None)"

fun find_tax :: "bool \<Rightarrow> string \<Rightarrow> (string \<times> string) option" where
  "find_tax boundary [] = None"
| "find_tax boundary (c # cs) =
     (case (if boundary then tax_at (c # cs) else None) of Some x \<Rightarrow> Some x
      | None \<Rightarrow> find_tax (\<not> word_char c) cs)"

definition sheet_rate :: "cell \<Rightarrow> (string \<rightharpoonup> rat) \<Rightarrow> string \<rightharpoonup> rat" where
  "sheet_rate v rates =
    (case v of CText s \<Rightarrow> (case find_tax True (py_upper s) of None \<Rightarrow> rates
       | Some (tax, n) \<Rightarrow> (case parse_decimal n of None \<Rightarrow> rates | Some x \<Rightarrow> rates(tax \<mapsto> x)))
     | _ \<Rightarrow> rates)"

definition or_zero_dec :: "rat option \<Rightarrow> rat" where
  "or_zero_dec x = (case x of None \<Rightarrow> 0 | Some y \<Rightarrow> y)"

definition extract_sheet_tax_rates :: "cell list list \<Rightarrow> string \<rightharpoonup> rat" where
  "extract_sheet_tax_rates rows =
    (let rates = fold (fold sheet_rate) rows Map.empty
     in if rates ''gst'' \<noteq> None then rates
        else if rates ''igst'' \<noteq> None then rates(''gst'' := rates ''igst'')
        else if rates ''cgst'' \<noteq> None \<or> rates ''sgst'' \<noteq> None then
          rates(''gst'' \<mapsto> dec_add (or_zero_dec (rates ''cgst'')) (or_zero_dec (rates ''sgst'')))
        else rates)"

section \<open>Rows\<close>

text \<open>\<open>_parse_decimal(cell) or sheet_rates.get(tax)\<close>: zero gives way to the sheet.\<close>

definition rate_or :: "cell \<Rightarrow> rat option \<Rightarrow> rat option" where
  "rate_or v fallback = (case cell_decimal v of None \<Rightarrow> fallback | Some x \<Rightarrow> if x = 0 then fallback else Some x)"

definition text_or_none :: "string \<Rightarrow> string option" where
  "text_or_none s = (if s = [] then None else Some s)"

text \<open>One row after the header: nothing for a blank or summary row.\<close>

definition parse_assignment_row ::
  "import_columns \<Rightarrow> (string \<rightharpoonup> rat) \<Rightarrow> nat \<Rightarrow> cell list \<Rightarrow> exc + raw_line option"
where
  "parse_assignment_row c rates n row =
    (let code = cell_text row (col_code c); name = cell_text row (col_name c); qty = cell_at row (Some (col_qty c));
         level = (let t = cell_text row (col_level c) in if t = [] then warehouse_level_value COMPANY_WAREHOUSE else t)
     in if is_blank_row code name qty \<or> is_summary_or_ledger_row code name then Inr None
        else if code = [] \<and> name = [] then Inl (row_text n ''product name is required'')
        else bind_res (parse_quantity qty n) (\<lambda>quantity.
          case (parse_optional_date (cell_at row (col_mfg c)), parse_optional_date (cell_at row (col_expiry c))) of
            (Inr mfg, Inr expiry) \<Rightarrow>
              if mfg \<noteq> None \<and> expiry \<noteq> None \<and> the expiry \<le> the mfg then Inl (row_text n ''expiry date must be after mfg date'')
              else if warehouse_level_of level = None then Inl (row_text n ''warehouse level is not recognized'')
              else
                let cgst = rate_or (cell_at row (col_cgst c)) (rates ''cgst''); sgst = rate_or (cell_at row (col_sgst c)) (rates ''sgst'');
                    igst = rate_or (cell_at row (col_igst c)) (rates ''igst''); gst = rate_or (cell_at row (col_gst c)) (rates ''gst'');
                    gst2 = (if gst \<noteq> None then gst else if igst \<noteq> None then igst
                      else if cgst \<noteq> None \<or> sgst \<noteq> None then Some (dec_add (or_zero_dec cgst) (or_zero_dec sgst)) else None)
                in Inr (Some \<lparr>raw_row = n, raw_code = map_option normalize_serial (text_or_none code), raw_name = text_or_none name,
                     raw_quantity = quantity, raw_rate = cell_decimal (cell_at row (col_rate c)),
                     raw_batch = text_or_none (cell_text row (col_batch c)), raw_mfg = mfg, raw_expiry = expiry,
                     raw_warehouse = text_or_none (cell_text row (col_warehouse c)), raw_level = level,
                     raw_hsn = text_or_none (cell_text row (col_hsn c)), raw_gst = gst2, raw_cgst = cgst, raw_sgst = sgst,
                     raw_igst = igst, raw_unit = text_or_none (cell_text row (col_unit c))\<rparr>)
          | _ \<Rightarrow> Inl (row_text n ''use a valid date for mfg/expiry'')))"

fun parse_rows_from ::
  "import_columns \<Rightarrow> (string \<rightharpoonup> rat) \<Rightarrow> nat \<Rightarrow> cell list list \<Rightarrow> exc + raw_line list"
where
  "parse_rows_from c rates n [] = Inr []"
| "parse_rows_from c rates n (row # rows) =
     bind_res (parse_assignment_row c rates n row) (\<lambda>line.
       bind_res (parse_rows_from c rates (Suc n) rows) (\<lambda>lines.
         Inr (case line of None \<Rightarrow> lines | Some l \<Rightarrow> l # lines)))"

definition parse_assignment_rows :: "cell list list \<Rightarrow> exc + raw_line list" where
  "parse_assignment_rows rows =
    (let rates = extract_sheet_tax_rates rows
     in case find_assignment_header 0 rows of
          Some (k, c) \<Rightarrow> parse_rows_from c rates (k + 2) (drop (Suc k) rows)
        | None \<Rightarrow> parse_rows_from plain_columns rates 1 rows)"

section \<open>Products\<close>

definition product_snapshot :: "product \<Rightarrow> json" where
  "product_snapshot p = JObj [(''id'', JInt (int (prd_id p))), (''product_code'', JStr (prd_code p)), (''product_name'', JStr (prd_name p)),
     (''nickname'', jopt JStr (prd_nickname p)), (''category'', jopt JStr (prd_category p)), (''brand'', jopt JStr (prd_brand p)),
     (''hsn'', JStr (prd_hsn p)), (''gst_rate'', JFloat (prd_gst_rate p)), (''unit'', JStr (prd_unit p)),
     (''default_rate'', JFloat (prd_default_rate p)), (''sales_discount_rate'', JFloat (prd_sales_discount_rate p)),
     (''shelf_verification_interval'', JInt (prd_shelf_interval p)),
     (''purchase_qr_print_allowed'', JBool (prd_purchase_qr_print_allowed p)), (''tally_stock_item_name'', JStr (prd_tally_name p)),
     (''alternate_tally_stock_item_name'', jopt JStr (prd_alt_tally_name p)), (''active'', JBool (prd_active p))]"

definition find_active_product_by_name :: "db \<Rightarrow> string \<Rightarrow> product option" where
  "find_active_product_by_name d name =
    (let key = normalize_lookup name; other = (\<lambda>x. normalize_lookup (case x of None \<Rightarrow> [] | Some s \<Rightarrow> s))
     in find (\<lambda>p. prd_active p \<and> key \<in> {normalize_lookup (prd_name p), other (prd_nickname p), normalize_lookup (prd_tally_name p),
          other (prd_alt_tally_name p)}) (products d))"

definition code_base :: "string \<Rightarrow> string" where
  "code_base name =
    (let t = take 32 (filter (\<lambda>c. is_upper_letter c \<or> is_digit c) (py_upper name)) in if t = [] then ''TALLYITEM'' else t)"

text \<open>\<open>f"{base[: 80 - len(suffix)]}{suffix}"\<close>; a negative bound counts from the end.\<close>

definition suffixed :: "string \<Rightarrow> nat \<Rightarrow> string" where
  "suffixed base n =
    (let t = CHR ''-'' # nat_str n; k = length t
     in take (if k \<le> 80 then 80 - k else length base - (k - 80)) base @ t)"

text \<open>The \<open>while\<close> loop, which has no bound in the code.\<close>

partial_function (option) free_code :: "string list \<Rightarrow> string \<Rightarrow> nat \<Rightarrow> string \<Rightarrow> string option" where
  "free_code taken base n candidate =
    (if candidate \<in> set taken then free_code taken base (Suc n) (suffixed base n) else Some candidate)"

definition next_import_product_code :: "db \<Rightarrow> string \<Rightarrow> string option" where
  "next_import_product_code d name = free_code (map prd_code (products d)) (code_base name) 2 (code_base name)"

definition import_product :: "nat \<Rightarrow> string \<Rightarrow> string \<Rightarrow> raw_line \<Rightarrow> moment \<Rightarrow> product" where
  "import_product i code name l now = \<lparr>prd_id = i, prd_code = code, prd_name = name, prd_nickname = None, prd_category = None,
     prd_brand = None, prd_hsn = (case raw_hsn l of None \<Rightarrow> [] | Some h \<Rightarrow> h), prd_gst_rate = to_double (or_zero_dec (raw_gst l)),
     prd_unit = (case raw_unit l of None \<Rightarrow> ''Pcs'' | Some u \<Rightarrow> u), prd_default_rate = 0, prd_sales_discount_rate = 0,
     prd_shelf_interval = 1, prd_purchase_qr_print_allowed = False, prd_tally_name = name, prd_alt_tally_name = None,
     prd_active = True, prd_created_at = now\<rparr>"

text \<open>\<open>None\<close> of \<open>next_import_product_code\<close> is a loop that never ends; no result is given to it.\<close>

definition resolve_import_product :: "user option \<Rightarrow> bool \<Rightarrow> moment \<Rightarrow> raw_line \<Rightarrow> db \<Rightarrow> (exc + db \<times> product) option" where
  "resolve_import_product actor create now l d =
    (case raw_code l of
       Some code \<Rightarrow> Some (case find (\<lambda>p. prd_code p = code \<and> prd_active p) (products d) of
           None \<Rightarrow> Inl (row_text (raw_row l) (''product '' @ code @ '' was not found''))
         | Some p \<Rightarrow> Inr (d, p))
     | None \<Rightarrow>
         let name = py_strip (case raw_name l of None \<Rightarrow> [] | Some s \<Rightarrow> s)
         in (case find_active_product_by_name d name of Some p \<Rightarrow> Some (Inr (d, p))
           | None \<Rightarrow> if \<not> create then Some (Inl (row_text (raw_row l) (''product '' @ name @ '' was not found'')))
               else map_option (\<lambda>code. let p = import_product (next_id prd_id (products d)) code name l now
                 in Inr (record_change actor ''product'' (nat_str (prd_id p)) ''create'' None (Some (product_snapshot p)) now
                      (d\<lparr>products := products d @ [p]\<rparr>), p)) (next_import_product_code d name)))"

definition line_of :: "raw_line \<Rightarrow> product \<Rightarrow> assignment_line" where
  "line_of l p = \<lparr>asl_product = p, asl_quantity = raw_quantity l, asl_rate = raw_rate l, asl_prefix = None, asl_batch_number = raw_batch l,
     asl_mfg = raw_mfg l, asl_expiry = raw_expiry l, asl_warehouse = raw_warehouse l, asl_level = raw_level l\<rparr>"

fun resolve_lines :: "user option \<Rightarrow> bool \<Rightarrow> moment \<Rightarrow> raw_line list \<Rightarrow> db \<Rightarrow> (exc + db \<times> assignment_line list) option" where
  "resolve_lines actor create now [] d = Some (Inr (d, []))"
| "resolve_lines actor create now (l # ls) d =
     Option.bind (resolve_import_product actor create now l d) (\<lambda>r. case r of Inl e \<Rightarrow> Some (Inl e)
       | Inr (d1, p) \<Rightarrow> map_option (\<lambda>s. bind_res s (\<lambda>(d2, lines). Inr (d2, line_of l p # lines))) (resolve_lines actor create now ls d1))"

definition too_many :: exc where
  "too_many = InventoryError ''Assign 5000 barcodes or fewer at a time''"

definition parse_bulk_assignment_xlsx ::
  "cell list list option \<Rightarrow> user option \<Rightarrow> bool \<Rightarrow> moment \<Rightarrow> db \<Rightarrow> (exc + db \<times> assignment_line list) option"
where
  "parse_bulk_assignment_xlsx sheet actor create now d =
    (case sheet of None \<Rightarrow> Some (Inl (InventoryError ''Upload a readable Excel .xlsx file''))
     | Some rows \<Rightarrow>
         if rows = [] then Some (Inl (InventoryError ''Excel file is empty''))
         else (case parse_assignment_rows rows of Inl e \<Rightarrow> Some (Inl e)
           | Inr lines \<Rightarrow>
               if lines = [] then Some (Inl (InventoryError ''Excel file has no assignment rows''))
               else if max_assignment_quantity < (\<Sum>l\<leftarrow>lines. raw_quantity l) then Some (Inl too_many)
               else resolve_lines actor create now lines d))"

section \<open>Assigning\<close>

definition assignment_form :: "serial_status \<Rightarrow> assignment_line \<Rightarrow> label_form" where
  "assignment_form st l = \<lparr>lbl_prefix = Some (case asl_prefix l of None \<Rightarrow> prd_code (asl_product l)
       | Some p \<Rightarrow> if p = [] then prd_code (asl_product l) else p),
     lbl_initial_status = st, lbl_batch_number = asl_batch_number l, lbl_mfg_date = asl_mfg l, lbl_expiry_date = asl_expiry l,
     lbl_warehouse = asl_warehouse l, lbl_level = asl_level l\<rparr>"

definition assign_line :: "settings \<Rightarrow> serial_status \<Rightarrow> moment \<Rightarrow> assignment_line \<Rightarrow> db \<times> serial list \<Rightarrow> exc + db \<times> serial list" where
  "assign_line cfg st now l acc =
    (case generate_serials cfg (\<lambda>k e. e) False (asl_product l) (asl_quantity l) (assignment_form st l) now (fst acc) of
       (Inl e, d') \<Rightarrow> Inl e | (Inr rows, d') \<Rightarrow> Inr (d', snd acc @ rows))"

definition assignment_message :: "serial_status \<Rightarrow> string" where
  "assignment_message st = (if st = S_IN_STOCK then ''Barcode assigned to existing Tally stock''
     else ''Barcode generated for future stock movement'')"

definition enter_serial :: "nat \<Rightarrow> batch \<Rightarrow> string \<Rightarrow> string option \<Rightarrow> serial_status \<Rightarrow> moment \<Rightarrow> serial \<Rightarrow> db \<Rightarrow> db" where
  "enter_serial uid b source remark st now s d =
    (let d1 = d\<lparr>batch_items := batch_items d @ [new_item d (bat_id b) (ser_id s) False now]\<rparr>;
         d2 = add_scan_log (Some (ser_id s)) (ser_number s) uid ''QR_ASSIGNMENT'' (Some (bat_id b)) (serial_status_value st)
                (Some (assignment_message st)) None now d1
     in log_inventory_transaction uid \<lparr>nt_type = T_QR_ASSIGNMENT, nt_serial = Some s, nt_product = product_of d s, nt_batch = Some b,
          nt_from = None, nt_to = Some st, nt_reason = Some source, nt_tally = None, nt_reference = None,
          nt_notes = (case remark of None \<Rightarrow> Some (assignment_message st)
            | Some t \<Rightarrow> if t = [] then Some (assignment_message st) else Some t)\<rparr> now d2)"

definition close_assignment :: "batch \<Rightarrow> db \<Rightarrow> db" where
  "close_assignment b d = set_batch (bat_id b) (\<lambda>r. r\<lparr>bat_status := BS_CLOSED, bat_submitted_at := Some (bat_created_at b),
     bat_synced_at := Some (bat_created_at b)\<rparr>) d"

definition assign_barcodes_to_existing_stock ::
  "settings \<Rightarrow> nat \<Rightarrow> assignment_line list \<Rightarrow> string option \<Rightarrow> string \<Rightarrow> serial_status \<Rightarrow> moment \<Rightarrow> db \<Rightarrow> exc + db \<times> batch"
where
  "assign_barcodes_to_existing_stock cfg uid lines remark source st now d =
    (let total = (\<Sum>l\<leftarrow>lines. asl_quantity l)
     in if cfg_app_mode cfg = ''lite'' then Inl (InventoryError ''QR codes are generated in Setuora Master and synced to Lite'')
        else if total < 1 then Inl (InventoryError ''Quantity must be at least 1'')
        else if max_assignment_quantity < total then Inl too_many
        else (case create_batch (\<lambda>k e. e) False B_QR_ASSIGNMENT
            (empty_form\<lparr>frm_party_name := Some ''Existing Tally stock'', frm_notes := remark, frm_reason_code := Some source\<rparr>) uid now d of
          (Inl e, d1) \<Rightarrow> Inl e
        | (Inr b, d1) \<Rightarrow>
            bind_res (fold_res (assign_line cfg st now) lines (d1, [])) (\<lambda>(d2, created).
              let d3 = close_assignment b (fold (enter_serial uid b source remark st now) created d2)
              in (case get_batch d3 (bat_id b) of None \<Rightarrow> Inl (AttributeError ''batch'') | Some r \<Rightarrow> Inr (d3, r)))))"

section \<open>The code of an imported product\<close>

lemma code_base_chars: "list_all (\<lambda>c. c \<noteq> CHR ''-'') (code_base name)" "code_base name \<noteq> []" "length (code_base name) \<le> 32"
proof -
  have "\<not> is_upper_letter (CHR ''-'')" "\<not> is_digit (CHR ''-'')" by code_simp+
  then have "\<forall>c \<in> set (filter (\<lambda>c. is_upper_letter c \<or> is_digit c) s). c \<noteq> CHR ''-''" for s by auto
  then have "\<forall>c \<in> set (take 32 (filter (\<lambda>c. is_upper_letter c \<or> is_digit c) s)). c \<noteq> CHR ''-''" for s
    by (blast dest: in_set_takeD)
  moreover have "list_all (\<lambda>c. c \<noteq> CHR ''-'') ''TALLYITEM''" by code_simp
  ultimately show "list_all (\<lambda>c. c \<noteq> CHR ''-'') (code_base name)"
    by (simp only: code_base_def Let_def list_all_iff split: if_split) blast
qed (simp_all add: code_base_def Let_def)

lemma suffixed_tail: "dropWhile (\<lambda>c. c \<noteq> CHR ''-'') (suffixed (code_base name) n) = CHR ''-'' # nat_str n"
proof -
  have "\<forall>c \<in> set (take k (code_base name)). c \<noteq> CHR ''-''" for k
    using code_base_chars(1) by (auto simp: list_all_iff dest: in_set_takeD)
  then have "dropWhile (\<lambda>c. c \<noteq> CHR ''-'') (take k (code_base name) @ CHR ''-'' # nat_str n) = CHR ''-'' # nat_str n" for k
    by (subst dropWhile_append2) auto
  then show ?thesis by (simp add: suffixed_def Let_def)
qed

lemma suffixed_inj: "suffixed (code_base name) m = suffixed (code_base name) n \<Longrightarrow> m = n"
  using suffixed_tail [of name m] suffixed_tail [of name n] parse_nat_str by (metis list.inject)

lemma suffixed_length: "length (suffixed (code_base name) n) \<le> 33 + length (nat_str n)"
  using code_base_chars(3) [of name] by (auto simp: suffixed_def Let_def)

text \<open>
  The candidates from the suffix \<open>n\<close> on are pairwise different, so a list of \<open>k\<close> codes
  cannot hold the first \<open>k + 1\<close> of them.
\<close>

lemma free_code_found:
  assumes "suffixed (code_base name) ` {n..<n + k} \<inter> set taken \<noteq> suffixed (code_base name) ` {n..<n + k} \<or> c \<notin> set taken"
  shows "\<exists>r. free_code taken (code_base name) n c = Some r \<and> r \<notin> set taken \<and>
    (r = c \<or> (\<exists>m < n + k. r = suffixed (code_base name) m))"
  using assms
proof (induction k arbitrary: n c)
  case 0
  then show ?case by (subst free_code.simps) simp
next
  case (Suc k)
  show ?case
  proof (cases "c \<in> set taken")
    case False
    then show ?thesis by (subst free_code.simps) simp
  next
    case True
    have "{n..<n + Suc k} = insert n {Suc n..<Suc n + k}" by auto
    then have "suffixed (code_base name) ` {Suc n..<Suc n + k} \<inter> set taken \<noteq> suffixed (code_base name) ` {Suc n..<Suc n + k} \<or>
        suffixed (code_base name) n \<notin> set taken"
      using Suc.prems True by auto
    from Suc.IH [OF this] obtain r where "free_code taken (code_base name) (Suc n) (suffixed (code_base name) n) = Some r"
      "r \<notin> set taken" "r = suffixed (code_base name) n \<or> (\<exists>m < Suc n + k. r = suffixed (code_base name) m)" by blast
    moreover from this(3) have "\<exists>m < n + Suc k. r = suffixed (code_base name) m"
      by (elim disjE exE conjE) (rule exI [of _ n], simp, fastforce)
    moreover have "free_code taken (code_base name) n c = free_code taken (code_base name) (Suc n) (suffixed (code_base name) n)"
      using True by (subst free_code.simps) simp
    ultimately show ?thesis by metis
  qed
qed

text \<open>
  C26. The search for a free product code ends, whatever codes are taken: it returns a code no
  product has, made of the letters and digits of the name with at most one numeric suffix,
  and short -- its suffix never exceeds the number of products by more than two.
\<close>

theorem import_code_found:
  "\<exists>c. next_import_product_code d name = Some c \<and> c \<notin> prd_code ` set (products d) \<and> c \<noteq> [] \<and>
     length c \<le> 33 + length (nat_str (length (products d) + 2))"
proof -
  let ?taken = "map prd_code (products d)" and ?k = "length (products d) + 1"
  let ?s = "suffixed (code_base name)"
  have "card (?s ` {2..<2 + ?k}) = ?k" using suffixed_inj by (subst card_image) (auto intro: inj_onI)
  moreover have "card (set ?taken) \<le> length (products d)" by (metis card_length length_map)
  ultimately have "\<not> ?s ` {2..<2 + ?k} \<subseteq> set ?taken" by (metis add_le_same_cancel1 card_mono finite_set le_trans not_one_le_zero)
  then obtain c where c: "next_import_product_code d name = Some c" "c \<notin> set ?taken"
    "c = code_base name \<or> (\<exists>m < 2 + ?k. c = ?s m)"
    using free_code_found [of name 2 ?k ?taken "code_base name"] unfolding next_import_product_code_def by blast
  have "c \<noteq> [] \<and> length c \<le> 33 + length (nat_str (length (products d) + 2))"
  proof (cases "c = code_base name")
    case True
    then show ?thesis using code_base_chars(2,3) [of name] by simp
  next
    case False
    then obtain m where "m < 2 + ?k" and m2: "c = ?s m" using c(3) by blast
    then have m: "m \<le> length (products d) + 2" "c = ?s m" by simp_all
    have "length (nat_str m) \<le> length (nat_str (length (products d) + 2))" by (rule nat_str_length_mono) (rule m(1))
    then show ?thesis using suffixed_length [of name m] m(2) suffixed_tail [of name m] by auto
  qed
  then show ?thesis using c by auto
qed

end
