(* ===== verification/TallyExcel.thy ===== *)
theory TallyExcel
  imports BatchRoutes TallyFacts Assignment
begin

text \<open>
  The Excel side of the Tally connection, \<open>app/services/tally_excel.py\<close>, with the row helpers
  of \<open>app/services/exports.py\<close> and the two handlers of \<open>app/routers/batches.py\<close>: the
  rows of the accounting voucher and of the item summary, and the import of a sheet into a draft
  by first expiry.  Rows are lists of cell values; the workbook's looks are not part of the model,
  and what \<open>openpyxl\<close> reads from an upload is an argument.
\<close>

section \<open>Rows of a sheet\<close>

text \<open>A text a spreadsheet would take for a formula is made harmless by an apostrophe.\<close>

definition dangerous_prefixes :: "char list" where
  "dangerous_prefixes = [CHR ''='', CHR ''+'', CHR ''-'', CHR ''@'', CHR 0x09, CHR 0x0D]"

fun spreadsheet_safe :: "cell \<Rightarrow> cell" where
  "spreadsheet_safe CNone = CText []"
| "spreadsheet_safe (CText s) = CText (if s \<noteq> [] \<and> hd s \<in> set dangerous_prefixes then CHR 0x27 # s else s)"
| "spreadsheet_safe c = c"

definition safe_row :: "cell list \<Rightarrow> cell list" where
  "safe_row cs = map spreadsheet_safe cs"

definition select_export_columns :: "string list \<Rightarrow> cell list list \<Rightarrow> string list \<Rightarrow> string list \<times> cell list list" where
  "select_export_columns headers rows fs =
    (let requested = filter (\<lambda>f. f \<noteq> []) (map py_strip fs);
         indexes = filter (\<lambda>i. py_strip (headers ! i) \<in> set requested) [0..<length headers]
     in if requested = [] \<or> indexes = [] then (headers, rows)
        else (map (\<lambda>i. headers ! i) indexes, map (\<lambda>r. map (\<lambda>i. if i < length r then r ! i else CText []) indexes) rows))"

section \<open>The accounting voucher\<close>

definition MAX_TALLY_EXCEL_UPLOAD_BYTES :: nat where "MAX_TALLY_EXCEL_UPLOAD_BYTES = 5 * 1024 * 1024"

definition TALLY_EXCEL_IMPORT_BATCH_TYPES :: "batch_type list" where
  "TALLY_EXCEL_IMPORT_BATCH_TYPES = [B_SALE, B_ISSUE, B_PURCHASE_RETURN]"

definition TALLY_EXCEL_EXPORT_BATCH_TYPES :: "batch_type list" where
  "TALLY_EXCEL_EXPORT_BATCH_TYPES = [B_PURCHASE, B_RECEIVE, B_SALE, B_SALES_RETURN, B_PURCHASE_RETURN, B_ISSUE]"

definition TALLY_ACCOUNTING_VOUCHER_BATCH_TYPES :: "batch_type list" where
  "TALLY_ACCOUNTING_VOUCHER_BATCH_TYPES = [B_PURCHASE, B_RECEIVE, B_SALE, B_SALES_RETURN]"

definition TALLY_ACCOUNTING_VOUCHER_HEADERS :: "string list" where
  "TALLY_ACCOUNTING_VOUCHER_HEADERS = [''Voucher Date'', ''Voucher Type Name'', ''Voucher Number'', ''Buyer/Supplier - Address'',
     ''Buyer/Supplier - Pincode'', ''Ledger Name'', ''Ledger Amount'', ''Ledger Amount Dr/Cr'', ''Item Name'', ''Billed Quantity'',
     ''Item Rate'', ''Item Rate per'', ''Disc%'', ''Item Amount'', ''Change Mode '', ''Buyer/Supplier - GST Registration Type'',
     ''Buyer/Supplier - GSTIN/UIN'', ''Buyer/Supplier - Place of Supply'', ''HSN/SAC Details'', ''HSN/SAC'', ''GST Rate Details'',
     ''GST Taxability Type'', ''GST Nature of Transaction'', ''IGST Rate'', ''CGST Rate'', ''SGST/UTGST Rate'', ''Taxable Value'']"

definition TALLY_ACCOUNTING_REQUIRED_EXPORT_FIELDS :: "string list" where
  "TALLY_ACCOUNTING_REQUIRED_EXPORT_FIELDS = [''Voucher Date'', ''Voucher Type Name'', ''Voucher Number'', ''Ledger Name'',
     ''Ledger Amount'', ''Item Name'', ''Billed Quantity'', ''Item Rate'', ''Item Amount'', ''Change Mode'',
     ''Buyer/Supplier - Place of Supply'', ''HSN/SAC'', ''GST Nature of Transaction'', ''Taxable Value'']"

definition ordered_accounting_fields :: "string list \<Rightarrow> string list" where
  "ordered_accounting_fields fs = filter (\<lambda>h. h \<in> set fs) (map py_strip TALLY_ACCOUNTING_VOUCHER_HEADERS)"

definition registration_or_default :: "batch \<Rightarrow> bool \<Rightarrow> string" where
  "registration_or_default b sales_side =
    (let r = py_strip (text_of (bat_gst_registration b))
     in if sales_side \<and> r = [] then gst_registration_value GR_UNREGISTERED_CONSUMER else r)"

definition tally_accounting_default_deselected_fields :: "batch \<Rightarrow> string list" where
  "tally_accounting_default_deselected_fields b =
    (if \<not> is_sales_side b then []
     else
       let r = registration_or_default b True;
           consumer = (if r = gst_registration_value GR_UNREGISTERED_CONSUMER then
             [''Buyer/Supplier - Address'', ''Buyer/Supplier - Pincode'', ''Buyer/Supplier - GST Registration Type'',
              ''Buyer/Supplier - GSTIN/UIN'', ''HSN/SAC Details''] else []);
           taxes = (if py_upper (py_strip (text_of (bat_gst_treatment b))) = ''INTER_STATE'' then [''CGST Rate'', ''SGST/UTGST Rate'']
             else [''IGST Rate'']);
           composition = (if r = gst_registration_value GR_COMPOSITION then
             [''GST Rate Details'', ''GST Taxability Type'', ''IGST Rate'', ''CGST Rate'', ''SGST/UTGST Rate''] else [])
       in ordered_accounting_fields
            (filter (\<lambda>f. f \<notin> set TALLY_ACCOUNTING_REQUIRED_EXPORT_FIELDS) (consumer @ taxes @ composition)))"

text \<open>The ledgers of a sales line: those mapped to its GST rate, or the settings' with names made of the rates.\<close>

definition rate_ledger :: "settings_map \<Rightarrow> string \<Rightarrow> string \<Rightarrow> rat \<Rightarrow> exc + string" where
  "rate_ledger st k prefix rate =
    (if stripped st k \<noteq> [] then Inr (stripped st k)
     else map_sum id (\<lambda>key. prefix @ key @ ''%'') (gst_rate_key rate (money_text rate)))"

definition sheet_sales_ledgers :: "settings_map \<Rightarrow> gst_mappings \<Rightarrow> voucher_line \<Rightarrow> exc + gst_ledgers" where
  "sheet_sales_ledgers st m l =
    bind_res (line_key l) (\<lambda>key. case map_of m key of Some g \<Rightarrow> Inr g
      | None \<Rightarrow>
          bind_res (rate_ledger st ''cgst_ledger_name'' ''Output CGST @ '' (vln_cgst_rate l)) (\<lambda>c.
          bind_res (rate_ledger st ''sgst_ledger_name'' ''Output SGST @ '' (vln_sgst_rate l)) (\<lambda>s.
          bind_res (rate_ledger st ''igst_ledger_name'' ''Output IGST @ '' (if vln_igst_rate l \<noteq> 0 then vln_igst_rate l else vln_gst_rate l)) (\<lambda>i.
            Inr \<lparr>gl_sales = or_else (stripped st ''sales_ledger_name'') (''Sales @ '' @ key @ ''%''), gl_cgst = c, gl_sgst = s, gl_igst = i\<rparr>))))"

definition sheet_purchase_ledgers :: "settings_map \<Rightarrow> purchase_ledgers" where
  "sheet_purchase_ledgers st = \<lparr>pul_purchase = or_else (stripped st ''purchase_ledger_name'') ''Purchase'',
     pul_cgst = or_else (stripped st ''cgst_ledger_name'') ''Input CGST'',
     pul_sgst = or_else (stripped st ''sgst_ledger_name'') ''Input SGST''\<rparr>"

text \<open>A row before it is laid out: credits positive, debits negative.\<close>

record sheet_posting =
  shp_ledger :: string
  shp_amount :: rat
  shp_line :: "voucher_line option"

type_synonym tax_dict = "(string \<times> rat) list"

definition put_tax :: "string \<Rightarrow> rat \<Rightarrow> tax_dict \<Rightarrow> tax_dict" where
  "put_tax name x acc = dict_put name (dec_add (case map_of acc name of Some t \<Rightarrow> t | None \<Rightarrow> 0) x) acc"

definition put_line_taxes :: "gst_ledgers \<Rightarrow> rat \<Rightarrow> voucher_line \<Rightarrow> tax_dict \<Rightarrow> tax_dict" where
  "put_line_taxes g sign l acc =
    fold (\<lambda>(name, x) acc. if x = 0 then acc else put_tax name (dec_mul x sign) acc)
      [(gl_cgst g, vln_cgst_amount l), (gl_sgst g, vln_sgst_amount l), (gl_igst g, vln_igst_amount l)] acc"

definition sheet_sales_line ::
  "settings_map \<Rightarrow> gst_mappings \<Rightarrow> bool \<Rightarrow> voucher_line \<Rightarrow> sheet_posting list \<times> tax_dict \<Rightarrow> exc + sheet_posting list \<times> tax_dict"
where
  "sheet_sales_line st m sale l acc =
    bind_res (sheet_sales_ledgers st m l) (\<lambda>g.
      Inr (fst acc @ [\<lparr>shp_ledger = gl_sales g, shp_amount = (if sale then vln_taxable_value l else - vln_taxable_value l), shp_line = Some l\<rparr>],
           put_line_taxes g (if sale then 1 else - 1) l (snd acc)))"

definition sheet_purchase_lines :: "settings_map \<Rightarrow> voucher_summary \<Rightarrow> sheet_posting list \<times> tax_dict" where
  "sheet_purchase_lines st sm =
    (let p = sheet_purchase_ledgers st
     in (map (\<lambda>l. \<lparr>shp_ledger = pul_purchase p, shp_amount = - vln_taxable_value l, shp_line = Some l\<rparr>) (vsm_lines sm),
         fold (\<lambda>(name, x) acc. if x = 0 then acc else put_tax name (- x) acc)
           [(pul_cgst p, vsm_cgst_amount sm), (pul_sgst p, vsm_sgst_amount sm)] []))"

definition override :: "(string \<times> string) list \<Rightarrow> string \<Rightarrow> string" where
  "override os k = text_of (map_of os k)"

definition accounting_postings ::
  "settings_map \<Rightarrow> (string \<times> string) list \<Rightarrow> db \<Rightarrow> batch \<Rightarrow> tally_failure + sheet_posting list"
where
  "accounting_postings st os d b =
    (let sm = calculate_voucher_summary d b; sale = (bat_type b = B_SALE);
         party = or_else (py_strip (override os ''party_ledger'')) (py_strip (text_of (bat_party_name b)));
         final = vsm_final_value sm; off = vsm_round_off sm;
         plain = (\<lambda>name x. \<lparr>shp_ledger = name, shp_amount = x, shp_line = None\<rparr>)
     in case sales_mappings st of Inl e \<Rightarrow> Inl (refused (exc_text e))
        | Inr m \<Rightarrow>
       (case (if is_sales_side b then fold_res (sheet_sales_line st m sale) (vsm_lines sm) ([], []) else Inr (sheet_purchase_lines st sm)) of
          Inl e \<Rightarrow> Inl (Escapes e)
        | Inr (items, taxes) \<Rightarrow> Inr (
            [plain party (if sale then - final else final)] @ items @
            map (\<lambda>(name, x). plain name x) (filter (\<lambda>(name, x). x \<noteq> 0) taxes) @
            (if off = 0 then [] else [plain (or_else (stripped st ''round_off_ledger_name'') ''ROUND OFF'') (if sale then off else - off)]))))"

section \<open>The cells of a posting\<close>

text \<open>\<open>_number\<close> of a decimal: an integer where it is one.\<close>

definition number_cell :: "rat \<Rightarrow> cell" where
  "number_cell x = (let q = quantize_cents x in if \<lfloor>q\<rfloor> = \<lceil>q\<rceil> then CInt \<lfloor>q\<rfloor> else CFloat (to_double q))"

definition gst_nature :: "batch \<Rightarrow> string" where
  "gst_nature b =
    (if \<not> is_sales_side b then []
     else if py_upper (text_of (bat_gst_treatment b)) = ''INTER_STATE'' then ''Interstate Sales - Taxable'' else ''Local Sales - Taxable'')"

definition sheet_date :: "batch \<Rightarrow> day" where
  "sheet_date b = day_of (ist (case bat_submitted_at b of Some t \<Rightarrow> t | None \<Rightarrow> bat_created_at b))"

definition common_cells :: "settings_map \<Rightarrow> (string \<times> string) list \<Rightarrow> batch \<Rightarrow> (string \<times> cell) list" where
  "common_cells st os b = [
     (''Voucher Date'', CDate (sheet_date b)),
     (''Voucher Type Name'', CText (or_else (py_strip (override os ''voucher_type'')) (tally_voucher_type st (bat_type b)))),
     (''Voucher Number'', CInt (int (batch_voucher_number b (Some (override os ''voucher_number''))))),
     (''Buyer/Supplier - Address'', CText []),
     (''Buyer/Supplier - Pincode'', CText []),
     (''Change Mode '', CText (if is_sales_side b then ''Accounting Invoice'' else ''As Voucher'')),
     (''Buyer/Supplier - GST Registration Type'', CText (registration_or_default b (is_sales_side b))),
     (''Buyer/Supplier - GSTIN/UIN'', CText (py_strip (text_of (bat_gstin b)))),
     (''Buyer/Supplier - Place of Supply'', CText (py_strip (text_of (bat_party_state b))))]"

definition item_cells :: "batch \<Rightarrow> voucher_line \<Rightarrow> (string \<times> cell) list" where
  "item_cells b l =
    (let p = vln_product l in [
     (''Item Name'', CText (or_else (prd_tally_name p) (prd_name p))),
     (''Billed Quantity'', CInt (int (vln_quantity l))),
     (''Item Rate'', number_cell (vln_rate l)),
     (''Item Rate per'', CText (prd_unit p)),
     (''Disc%'', if vln_discount_rate l = 0 then CText [] else number_cell (vln_discount_rate l)),
     (''Item Amount'', number_cell (vln_taxable_value l)),
     (''HSN/SAC Details'', CText (if prd_hsn p = [] then [] else ''Specify Details Here'')),
     (''HSN/SAC'', CText (prd_hsn p)),
     (''GST Rate Details'', CText ''Specify Details Here''),
     (''GST Taxability Type'', CText ''Taxable''),
     (''GST Nature of Transaction'', CText (gst_nature b)),
     (''IGST Rate'', number_cell (vln_igst_rate l)),
     (''CGST Rate'', number_cell (vln_cgst_rate l)),
     (''SGST/UTGST Rate'', number_cell (vln_sgst_rate l)),
     (''Taxable Value'', number_cell (vln_taxable_value l))])"

definition posting_row :: "batch \<Rightarrow> (string \<times> cell) list \<Rightarrow> sheet_posting \<Rightarrow> (string \<times> cell) list" where
  "posting_row b common p =
     common @ [(''Ledger Name'', CText (shp_ledger p)), (''Ledger Amount'', number_cell \<bar>shp_amount p\<bar>),
       (''Ledger Amount Dr/Cr'', CText (if 0 \<le> shp_amount p then ''Cr'' else ''Dr''))] @
     (case shp_line p of None \<Rightarrow> [] | Some l \<Rightarrow> item_cells b l)"

definition laid_out :: "(string \<times> cell) list \<Rightarrow> cell list" where
  "laid_out row = map (\<lambda>h. case map_of row h of Some c \<Rightarrow> c | None \<Rightarrow> CText []) TALLY_ACCOUNTING_VOUCHER_HEADERS"

definition accounting_voucher_rows ::
  "settings_map \<Rightarrow> (string \<times> string) list \<Rightarrow> db \<Rightarrow> batch \<Rightarrow> tally_failure + cell list list"
where
  "accounting_voucher_rows st os d b =
     map_sum id (map (\<lambda>p. laid_out (posting_row b (common_cells st os b) p))) (accounting_postings st os d b)"

definition accounting_voucher_sheet ::
  "settings_map \<Rightarrow> string list \<Rightarrow> (string \<times> string) list \<Rightarrow> db \<Rightarrow> batch \<Rightarrow> tally_failure + cell list list"
where
  "accounting_voucher_sheet st fs os d b =
    (case accounting_voucher_rows st os d b of Inl e \<Rightarrow> Inl e
     | Inr rows \<Rightarrow> (case select_export_columns TALLY_ACCOUNTING_VOUCHER_HEADERS rows fs of
         (headers, chosen) \<Rightarrow> Inr (map safe_row (map CText headers # chosen))))"

section \<open>The item summary\<close>

definition TALLY_ITEM_SUMMARY_HEADERS :: "string list" where
  "TALLY_ITEM_SUMMARY_HEADERS = [''Sl'', ''Description of Goods'', ''Product Code'', ''Tally Stock Item'', ''HSN/SAC'', ''Quantity'',
     ''Unit'', ''Rate'', ''Discount %'', ''GST %'', ''CGST %'', ''SGST %'', ''IGST %'', ''Taxable Value'', ''CGST Amount'', ''SGST Amount'',
     ''IGST Amount'', ''Amount excl. GST'']"

definition float_cell :: "rat \<Rightarrow> cell" where
  "float_cell x = CFloat (to_double x)"

definition summary_row :: "nat \<times> voucher_line \<Rightarrow> cell list" where
  "summary_row il =
    (case il of (i, l) \<Rightarrow> let p = vln_product l in
     [CInt (int i), CText (or_else (prd_tally_name p) (prd_name p)), CText (prd_code p), CText (prd_tally_name p), CText (prd_hsn p),
      CInt (int (vln_quantity l)), CText (prd_unit p), float_cell (vln_rate l), float_cell (vln_discount_rate l), float_cell (vln_gst_rate l),
      float_cell (vln_cgst_rate l), float_cell (vln_sgst_rate l), float_cell (vln_igst_rate l), float_cell (vln_taxable_value l),
      float_cell (vln_cgst_amount l), float_cell (vln_sgst_amount l), float_cell (vln_igst_amount l), float_cell (vln_taxable_value l)])"

definition total_row :: "voucher_summary \<Rightarrow> cell list" where
  "total_row sm = [CText [], CText ''Total'', CText [], CText [], CText [], CInt (int (\<Sum>l\<leftarrow>vsm_lines sm. vln_quantity l))] @
     replicate 7 (CText []) @
     [float_cell (vsm_taxable_value sm), float_cell (vsm_cgst_amount sm), float_cell (vsm_sgst_amount sm), float_cell (vsm_igst_amount sm),
      float_cell (vsm_taxable_value sm)]"

definition item_summary_sheet :: "string list \<Rightarrow> (string \<times> string) list \<Rightarrow> db \<Rightarrow> batch \<Rightarrow> cell list list" where
  "item_summary_sheet fs os d b =
    (let sm = calculate_voucher_summary d b; rows = map safe_row (map summary_row (enumerate 1 (vsm_lines sm)) @ [total_row sm])
     in case select_export_columns TALLY_ITEM_SUMMARY_HEADERS rows fs of (headers, chosen) \<Rightarrow>
       [[CText ''Voucher Type'', CText (or_else (py_strip (override os ''voucher_type'')) (batch_type_value (bat_type b)))],
        [CText ''Voucher Number'', CInt (int (batch_voucher_number b (Some (override os ''voucher_number''))))],
        [CText ''Party Ledger'', CText (or_else (py_strip (override os ''party_ledger'')) (text_of (bat_party_name b)))],
        [CText ''Date'', CDate (sheet_date b)], [], map CText headers] @ chosen)"

definition batch_tally_xlsx ::
  "settings_map \<Rightarrow> string list \<Rightarrow> (string \<times> string) list \<Rightarrow> db \<Rightarrow> batch \<Rightarrow> tally_failure + cell list list"
where
  "batch_tally_xlsx st fs os d b =
    (if bat_type b \<in> set TALLY_ACCOUNTING_VOUCHER_BATCH_TYPES then accounting_voucher_sheet st fs os d b
     else Inr (item_summary_sheet fs os d b))"

section \<open>Importing a sheet\<close>

text \<open>The serials for every line, first expiry first; no serial twice.\<close>

fun pick_import_serials ::
  "db \<Rightarrow> serial_status list \<Rightarrow> nat list \<Rightarrow> assignment_line list \<Rightarrow> exc + (assignment_line \<times> serial list) list"
where
  "pick_import_serials d statuses taken [] = Inr []"
| "pick_import_serials d statuses taken (l # ls) =
    (let candidates = take (nat (asl_quantity l)) (filter (\<lambda>s. ser_id s \<notin> set taken)
           (fefo_candidate_serials d (prd_id (asl_product l)) (asl_quantity l + int (length taken)) statuses))
     in if int (length candidates) < asl_quantity l then
          Inl (InventoryError (''Only '' @ nat_str (length candidates) @ '' FEFO-ready serials are available for '' @ prd_code (asl_product l)))
        else bind_res (pick_import_serials d statuses (map ser_id candidates @ taken) ls) (\<lambda>rest. Inr ((l, candidates) # rest)))"

definition line_rate :: "assignment_line \<Rightarrow> exc + rat option" where
  "line_rate l =
    (case asl_rate l of None \<Rightarrow> Inr None
     | Some r \<Rightarrow> if r < 0 then Inl (InventoryError (''Rate cannot be negative for '' @ prd_code (asl_product l))) else Inr (Some (to_double r)))"

definition import_serial :: "nat \<Rightarrow> batch \<Rightarrow> rat option \<Rightarrow> moment \<Rightarrow> serial \<Rightarrow> db \<Rightarrow> db" where
  "import_serial uid b rate now s d =
     add_scan_log (Some (ser_id s)) (ser_number s) uid (batch_type_value (bat_type b)) (Some (bat_id b))
       ''EXCEL_IMPORTED'' (Some ''Imported from Tally Excel by FEFO'') None now
       (d\<lparr>batch_items := batch_items d @ [(new_item d (bat_id b) (ser_id s) True now)\<lparr>itm_rate := rate\<rparr>]\<rparr>)"

definition import_line :: "nat \<Rightarrow> batch \<Rightarrow> moment \<Rightarrow> assignment_line \<times> serial list \<Rightarrow> db \<Rightarrow> exc + db" where
  "import_line uid b now ls d = bind_res (line_rate (fst ls)) (\<lambda>rate. Inr (fold (import_serial uid b rate now) (snd ls) d))"

definition import_tally_excel_to_batch ::
  "cell list list option \<Rightarrow> user \<Rightarrow> batch \<Rightarrow> moment \<Rightarrow> db \<Rightarrow> (exc + db \<times> int) option"
where
  "import_tally_excel_to_batch sheet u b now d =
    (if bat_status b \<noteq> BS_DRAFT then Some (Inl (InventoryError ''Excel import is only available for draft batches''))
     else if bat_type b \<notin> set TALLY_EXCEL_IMPORT_BATCH_TYPES then
       Some (Inl (InventoryError ''Excel import is available for sale, issue, and purchase return batches''))
     else case (if bat_type b = B_SALE then ensure_sale_scan_allowed d b else None) of Some e \<Rightarrow> Some (Inl e)
     | None \<Rightarrow>
    (case parse_bulk_assignment_xlsx sheet (Some u) False now d of None \<Rightarrow> None
     | Some (Inl e) \<Rightarrow> Some (Inl e)
     | Some (Inr (d1, lines)) \<Rightarrow>
         let total = (\<Sum>l\<leftarrow>lines. asl_quantity l); statuses = fefo_available_statuses (bat_type b)
         in Some (if total < 1 then Inl (InventoryError ''Excel file has no importable quantity'')
            else if max_assignment_quantity < total then Inl (InventoryError ''Import 5000 items or fewer at a time'')
            else if statuses = [] then Inl (InventoryError ''No FEFO-ready stock status is configured for this batch'')
            else bind_res (pick_import_serials d1 statuses [] lines) (\<lambda>picked.
              bind_res (fold_res (import_line (usr_id u) b now) picked d1) (\<lambda>d2. Inr (d2, total))))))"

section \<open>The two requests\<close>

definition tally_excel_import_message :: "string option \<Rightarrow> string option" where
  "tally_excel_import_message imported =
    (if text_of imported = [] then None
     else map_option (\<lambda>n. ''Imported '' @ int_str n @ '' '' @ (if n = 1 then ''item'' else ''items'') @ '' from Excel.'') (py_int (text_of imported)))"

text \<open>The answer to an export is the sheet itself.\<close>

definition tally_excel_export ::
  "server \<Rightarrow> request \<Rightarrow> nat \<Rightarrow> string \<Rightarrow> (string \<times> string) list \<Rightarrow> db \<Rightarrow> response + cell list list"
where
  "tally_excel_export srv rq bid fs os d =
    (if request_app_mode rq = ''lite'' then Inl (Status 404 ''Tally is managed by Setuora Master.'')
     else case get_batch d bid of None \<Rightarrow> Inl (SeeOther ''/batches'')
     | Some b \<Rightarrow>
    (case require_user (srv_mac srv) (srv_loads srv) (rq_now rq) (rq_cookie rq) (rq_path rq) (Some ADMIN_ROLES) d of Inl e \<Rightarrow> Inl (Denied e)
     | Inr u \<Rightarrow>
    (case require_permission (srv_mac srv) (srv_loads srv) (rq_now rq) (rq_cookie rq) (rq_path rq) ''tally_excel_export''
        (Some [''edit'', ''yes'']) d of Inl e \<Rightarrow> Inl (Denied e)
     | Inr u2 \<Rightarrow>
         if bat_type b \<notin> set TALLY_EXCEL_EXPORT_BATCH_TYPES \<or> items_of d bid = [] then Inl (to_batch bid)
         else (case batch_tally_xlsx (get_all_settings d) (py_split_on (CHR ''|'') fs) os d b of
             Inr sheet \<Rightarrow> Inr sheet
           | Inl (TallySyncError m temporary sent reply) \<Rightarrow> Inl (Status 400 m)
           | Inl (Escapes e) \<Rightarrow> Inl (Denied (Broken e))))))"

definition tally_excel_import ::
  "server \<Rightarrow> request \<Rightarrow> nat \<Rightarrow> nat \<Rightarrow> cell list list option \<Rightarrow> db \<Rightarrow> (response \<times> db) option"
where
  "tally_excel_import srv rq bid nbytes sheet d =
    (if request_app_mode rq = ''lite'' then Some (Status 404 ''Tally is managed by Setuora Master.'', d)
     else case get_batch d bid of None \<Rightarrow> Some (SeeOther ''/batches'', d)
     | Some b \<Rightarrow>
    (case require_permission (srv_mac srv) (srv_loads srv) (rq_now rq) (rq_cookie rq) (rq_path rq) (action_key_for_batch (bat_type b)) None d of
       Inl e \<Rightarrow> Some (Denied e, d)
     | Inr u \<Rightarrow>
    (case require_permission (srv_mac srv) (srv_loads srv) (rq_now rq) (rq_cookie rq) (rq_path rq) ''fefo_pick'' (Some [''edit'', ''yes'']) d of
       Inl e \<Rightarrow> Some (Denied e, d)
     | Inr u2 \<Rightarrow>
         (case (if MAX_TALLY_EXCEL_UPLOAD_BYTES < nbytes then Some (Inl (InventoryError ''Upload an Excel file up to 5 MB''))
                else import_tally_excel_to_batch sheet u b (rq_now rq) d) of
            None \<Rightarrow> None
          | Some (Inr (d', n)) \<Rightarrow> Some (SeeOther (''/batches/'' @ nat_str bid @ ''?excel_imported='' @ int_str n), d')
          | Some (Inl (InventoryError m)) \<Rightarrow> Some (DetailPage 400 (detail_page srv rq d u b (Some m)), d)
          | Some (Inl e) \<Rightarrow> Some (Denied (Broken e), d)))))"

section \<open>The sheet carries the voucher\<close>

definition tax_total :: "tax_dict \<Rightarrow> rat" where
  "tax_total acc = sum_list (map snd acc)"

text \<open>\<open>sg\<close> is the sign of every tax of the sheet.\<close>

definition sound_taxes :: "rat \<Rightarrow> tax_dict \<Rightarrow> bool" where
  "sound_taxes sg acc \<longleftrightarrow> distinct (map fst acc) \<and> list_all (\<lambda>kv. cents (snd kv) \<and> 0 \<le> sg * snd kv) acc"

lemma tax_total_replace:
  "distinct (map fst acc) \<Longrightarrow> map_of acc k = Some u \<Longrightarrow>
     tax_total (map (\<lambda>(x, y). (x, if x = k then t else y)) acc) = tax_total acc - u + t"
proof (induction acc)
  case (Cons p acc)
  obtain x y where p: "p = (x, y)" by (cases p)
  have "map (\<lambda>(x, y). (x, if x = k then t else y)) acc = acc" if "k \<notin> fst ` set acc"
    using that by (intro map_idI) (auto simp: image_iff)
  then show ?case using Cons p by (cases "x = k") (auto simp: tax_total_def simp del: map_map)
qed (simp add: tax_total_def)

lemma tax_total_dict_put:
  assumes "distinct (map fst acc)"
  shows "tax_total (dict_put k t acc) = tax_total acc - (case map_of acc k of None \<Rightarrow> 0 | Some u \<Rightarrow> u) + t"
proof (cases "map_of acc k")
  case None
  then have "k \<notin> fst ` set acc" by (simp add: map_of_eq_None_iff)
  with None show ?thesis by (simp add: dict_put_def tax_total_def)
next
  case (Some u)
  then have "k \<in> fst ` set acc" by (metis map_of_eq_None_iff option.discI)
  with tax_total_replace [OF assms Some] Some show ?thesis by (simp add: dict_put_def)
qed

lemma signed_le_total:
  assumes "sound_taxes sg acc" "map_of acc k = Some u"
  shows "cents u \<and> 0 \<le> sg * u \<and> sg * u \<le> sg * tax_total acc"
proof -
  have "(k, u) \<in> set acc" using assms(2) by (rule map_of_SomeD)
  then have u: "cents u" "0 \<le> sg * u" using assms(1) by (auto simp: sound_taxes_def list_all_iff)
  have "sg * u \<in> set (map (\<lambda>kv. sg * snd kv) acc)" using \<open>(k, u) \<in> set acc\<close> by force
  moreover have "\<forall>x \<in> set (map (\<lambda>kv. sg * snd kv) acc). 0 \<le> x" using assms(1) by (auto simp: sound_taxes_def list_all_iff)
  ultimately have "sg * u \<le> sum_list (map (\<lambda>kv. sg * snd kv) acc)" by (rule elem_le_sum_list [rotated])
  then show ?thesis using u by (simp add: tax_total_def sum_list_const_mult comp_def)
qed

lemma put_tax_total:
  assumes "sound_taxes sg acc" "sg \<in> {1, - 1}" "cents x" "0 \<le> sg * x" "sg * (tax_total acc + x) < 10 ^ 26"
  shows "sound_taxes sg (put_tax name x acc) \<and> tax_total (put_tax name x acc) = tax_total acc + x"
proof -
  define old where "old = (case map_of acc name of Some t \<Rightarrow> t | None \<Rightarrow> 0)"
  have old: "cents old \<and> 0 \<le> sg * old \<and> sg * old \<le> sg * tax_total acc"
  proof (cases "map_of acc name")
    case None
    have "0 \<le> sum_list (map (\<lambda>kv. sg * snd kv) acc)"
      by (rule sum_list_nonneg) (use assms(1) in \<open>auto simp: sound_taxes_def list_all_iff\<close>)
    with None show ?thesis by (auto simp: old_def tax_total_def sum_list_const_mult comp_def)
  qed (use signed_le_total [OF assms(1)] in \<open>auto simp: old_def\<close>)
  have "\<bar>old + x\<bar> = sg * (old + x)" using old assms(2,4) by (auto simp: abs_if algebra_simps)
  then have lim: "\<bar>old + x\<bar> < 10 ^ 26" using old assms(5) by (simp add: algebra_simps)
  have c: "cents (old + x)" using old assms(3) by blast
  then obtain n where n: "old + x = of_int n / 100" unfolding cents_def by blast
  have put: "put_tax name x acc = dict_put name (old + x) acc"
    using to_decimal_cents [OF lim n] by (simp add: put_tax_def dec_add_def old_def)
  have "distinct (map fst acc)" using assms(1) by (simp add: sound_taxes_def)
  moreover have "list_all (\<lambda>kv. cents (snd kv) \<and> 0 \<le> sg * snd kv) (dict_put name (old + x) acc)"
    by (rule dict_put_values) (use assms(1,4) c old in \<open>auto simp: sound_taxes_def algebra_simps\<close>)
  ultimately show ?thesis unfolding put
    by (simp add: sound_taxes_def dict_put_distinct tax_total_dict_put) (simp add: old_def split: option.split)
qed

lemma put_signed_tax_total:
  assumes "sound_taxes sg acc" "sg \<in> {1, - 1}" "cents x" "0 \<le> x" "sg * tax_total acc + x < 10 ^ 26"
    and acc'_def: "acc' = (if x = 0 then acc else put_tax name (dec_mul x sg) acc)"
  shows "sound_taxes sg acc' \<and> tax_total acc' = tax_total acc + sg * x"
proof (cases "x = 0")
  case False
  have "0 \<le> sum_list (map (\<lambda>kv. sg * snd kv) acc)"
    by (rule sum_list_nonneg) (use assms(1) in \<open>auto simp: sound_taxes_def list_all_iff\<close>)
  then have pos: "0 \<le> sg * tax_total acc" by (simp add: tax_total_def sum_list_const_mult comp_def)
  obtain n where n: "x = of_int n / 100" using assms(3) unfolding cents_def by blast
  have "x * sg = of_int (if sg = 1 then n else - n) / 100" using assms(2) n by auto
  moreover have "\<bar>x * sg\<bar> < 10 ^ 26" using assms(2,4,5) pos by (auto simp: abs_if)
  ultimately have m: "dec_mul x sg = x * sg" unfolding dec_mul_def by (rule to_decimal_cents [rotated])
  have "cents (x * sg)" using assms(2,3) by auto
  then show ?thesis unfolding acc'_def using False put_tax_total [OF assms(1,2), of "x * sg" name] assms(2,4,5) m
    by (auto simp: algebra_simps)
qed (use assms in simp)

lemma put_line_taxes_total:
  assumes "sound_taxes sg acc" "sg \<in> {1, - 1}" "sound_line l" "sg * tax_total acc + line_tax_sum l < 10 ^ 26"
  shows "sound_taxes sg (put_line_taxes g sg l acc) \<and> tax_total (put_line_taxes g sg l acc) = tax_total acc + sg * line_tax_sum l"
proof -
  note l = assms(3) [unfolded sound_line_def cent_line_def]
  have sg: "sg * (sg * x) = x" for x using assms(2) by auto
  let ?put = "\<lambda>name x acc. if x = 0 then acc else put_tax name (dec_mul x sg) acc"
  let ?a1 = "?put (gl_cgst g) (vln_cgst_amount l) acc"
  let ?a2 = "?put (gl_sgst g) (vln_sgst_amount l) ?a1"
  have 1: "sound_taxes sg ?a1 \<and> tax_total ?a1 = tax_total acc + sg * vln_cgst_amount l"
    by (rule put_signed_tax_total [OF _ _ _ _ _ refl]) (use assms l in \<open>auto simp: line_tax_sum_def\<close>)
  have 2: "sound_taxes sg ?a2 \<and> tax_total ?a2 = tax_total ?a1 + sg * vln_sgst_amount l"
    by (rule put_signed_tax_total [OF _ _ _ _ _ refl]) (use assms l 1 in \<open>auto simp: line_tax_sum_def algebra_simps sg\<close>)
  have 3: "sound_taxes sg (?put (gl_igst g) (vln_igst_amount l) ?a2) \<and>
      tax_total (?put (gl_igst g) (vln_igst_amount l) ?a2) = tax_total ?a2 + sg * vln_igst_amount l"
    by (rule put_signed_tax_total [OF _ _ _ _ _ refl]) (use assms l 1 2 in \<open>auto simp: line_tax_sum_def algebra_simps sg\<close>)
  show ?thesis using 1 2 3 by (simp add: put_line_taxes_def line_tax_sum_def algebra_simps)
qed

text \<open>The rows of a sale: as in the voucher for Tally.\<close>

lemma sheet_sales_lines:
  assumes "fold_res (sales_item m sale) ls items = Inr items'" "sound_taxes (credit_sign sale) taxes"
    and "\<forall>l \<in> set ls. sound_line l" "credit_sign sale * tax_total taxes + sum_list (map line_tax_sum ls) < 10 ^ 26"
    and "map (\<lambda>x. (shp_ledger x, shp_amount x)) rows = map (\<lambda>i. (itp_ledger i, itp_amount i)) items" "\<forall>x \<in> set rows. shp_line x \<noteq> None"
  shows "\<exists>rows' taxes'. fold_res (sheet_sales_line st m sale) ls (rows, taxes) = Inr (rows', taxes') \<and>
    map (\<lambda>x. (shp_ledger x, shp_amount x)) rows' = map (\<lambda>i. (itp_ledger i, itp_amount i)) items' \<and>
    (\<forall>x \<in> set rows'. shp_line x \<noteq> None) \<and> tax_total taxes' = tax_total taxes + credit_sign sale * sum_list (map line_tax_sum ls)"
  using assms
proof (induction ls arbitrary: items rows taxes)
  case (Cons l ls)
  obtain a where a: "sales_item m sale l items = Inr a" "fold_res (sales_item m sale) ls a = Inr items'"
    using Cons.prems(1) by (auto split: sum.splits)
  obtain key g where g: "line_key l = Inr key" "map_of m key = Some g" and a': "a = items @ [item_posting_of sale (gl_sales g) l]"
    using a(1) by (auto simp: sales_item_def split: sum.splits option.splits)
  note rest = a(2) [unfolded a']
  have nn: "0 \<le> sum_list (map line_tax_sum ls)" "0 \<le> line_tax_sum l"
    using Cons.prems(3) by (auto intro!: sum_list_nonneg add_nonneg_nonneg simp: sound_line_def line_tax_sum_def)
  let ?sg = "credit_sign sale"
  have t: "sound_taxes ?sg (put_line_taxes g ?sg l taxes) \<and>
      tax_total (put_line_taxes g ?sg l taxes) = tax_total taxes + ?sg * line_tax_sum l"
    by (rule put_line_taxes_total) (use Cons.prems nn in auto)
  define row where "row = \<lparr>shp_ledger = gl_sales g, shp_amount = (if sale then vln_taxable_value l else - vln_taxable_value l), shp_line = Some l\<rparr>"
  have step: "sheet_sales_line st m sale l (rows, taxes) = Inr (rows @ [row], put_line_taxes g ?sg l taxes)"
    using g(1,2) by (simp add: sheet_sales_line_def sheet_sales_ledgers_def row_def)
  have sq: "?sg * (?sg * x) = x" for x :: rat by simp
  have "?sg * tax_total (put_line_taxes g ?sg l taxes) + sum_list (map line_tax_sum ls) < 10 ^ 26"
    using Cons.prems(4) t by (simp add: algebra_simps split: if_splits)
  then obtain rows' taxes' where "fold_res (sheet_sales_line st m sale) ls (rows @ [row], put_line_taxes g ?sg l taxes) = Inr (rows', taxes')"
      "map (\<lambda>x. (shp_ledger x, shp_amount x)) rows' = map (\<lambda>i. (itp_ledger i, itp_amount i)) items'"
      "\<forall>x \<in> set rows'. shp_line x \<noteq> None"
      "tax_total taxes' = tax_total (put_line_taxes g ?sg l taxes) + ?sg * sum_list (map line_tax_sum ls)"
    using Cons.IH [OF rest, of "put_line_taxes g ?sg l taxes" "rows @ [row]"] t Cons.prems(3,5,6)
    by (auto simp: row_def item_posting_of_def)
  then show ?case using step t by (simp add: algebra_simps)
qed simp

lemma sheet_purchase_total:
  assumes "sound_lines (vsm_lines (calculate_voucher_summary d b))" "bat_type b \<notin> {B_SALE, B_SALES_RETURN}"
  shows "tax_total (snd (sheet_purchase_lines st (calculate_voucher_summary d b))) =
    - sum_list (map line_tax_sum (vsm_lines (calculate_voucher_summary d b)))"
proof -
  let ?sm = "calculate_voucher_summary d b"
  let ?ls = "vsm_lines ?sm" and ?p = "sheet_purchase_ledgers st"
  have ce: "cents (vln_cgst_amount l)" "cents (vln_sgst_amount l)" if "l \<in> set ?ls" for l using cent_lines that by (simp_all add: cent_line_def)
  have nn: "0 \<le> vln_taxable_value l" "0 \<le> vln_cgst_amount l" "0 \<le> vln_sgst_amount l" if "l \<in> set ?ls" for l
    using assms(1) that by (auto simp: sound_lines_def list_all_iff)
  have sums: "vsm_cgst_amount ?sm = sum_list (map vln_cgst_amount ?ls)" "vsm_sgst_amount ?sm = sum_list (map vln_sgst_amount ?ls)"
    by (rule summary_exact [OF assms(1)])+
  have c: "cents (vsm_cgst_amount ?sm)" "cents (vsm_sgst_amount ?sm)" unfolding sums by (rule cents_sum_list; use ce in auto)+
  have p: "0 \<le> vsm_cgst_amount ?sm" "0 \<le> vsm_sgst_amount ?sm" unfolding sums by (rule sum_list_nonneg; use nn in auto)+
  have "map line_tax_sum ?ls = map (\<lambda>l. vln_cgst_amount l + vln_sgst_amount l) ?ls"
    using purchase_igst [OF assms(2)] by (simp add: line_tax_sum_def)
  then have tax: "sum_list (map line_tax_sum ?ls) = vsm_cgst_amount ?sm + vsm_sgst_amount ?sm"
    unfolding sums by (simp only: sum_list_addf)
  have lim: "sum_list (map line_tax_sum ?ls) < 10 ^ 26"
    by (rule sound_part [OF assms(1)]) (use nn in \<open>auto simp: line_value_def\<close>)
  let ?put = "\<lambda>name x acc. if x = 0 then acc else put_tax name (- x) acc"
  let ?a1 = "?put (pul_cgst ?p) (vsm_cgst_amount ?sm) []"
  have 1: "sound_taxes (- 1) ?a1 \<and> tax_total ?a1 = - vsm_cgst_amount ?sm"
    using put_tax_total [of "- 1" "[]" "- vsm_cgst_amount ?sm" "pul_cgst ?p"] c(1) p lim tax
    by (auto simp: sound_taxes_def tax_total_def)
  have "sound_taxes (- 1) (put_tax (pul_sgst ?p) (- vsm_sgst_amount ?sm) ?a1) \<and>
      tax_total (put_tax (pul_sgst ?p) (- vsm_sgst_amount ?sm) ?a1) = tax_total ?a1 + (- vsm_sgst_amount ?sm)"
  proof (rule put_tax_total)
    show "sound_taxes (- 1) ?a1" using 1 ..
    show "- 1 * (tax_total ?a1 + (- vsm_sgst_amount ?sm)) < 10 ^ 26" unfolding conjunct2 [OF 1] using lim tax by simp
  qed (use c(2) p in auto)
  then have "tax_total (?put (pul_sgst ?p) (vsm_sgst_amount ?sm) ?a1) = - vsm_cgst_amount ?sm - vsm_sgst_amount ?sm"
    using 1 by simp
  then show ?thesis by (simp add: sheet_purchase_lines_def Let_def tax)
qed

lemma line_values_split: "sum_list (map line_value ls) = sum_list (map vln_taxable_value ls) + sum_list (map line_tax_sum ls)"
  by (induction ls) (simp_all add: line_value_def line_tax_sum_def)

lemma filter_taxes_total: "sum_list (map snd (filter (\<lambda>(name, x). x \<noteq> (0::rat)) taxes)) = tax_total taxes"
  by (induction taxes) (auto simp: tax_total_def)

text \<open>
  C35. The Excel voucher says what the request to Tally says: whenever a voucher can be posted, the
  accounting sheet of the batch can be made, its party row and its item rows carry the same ledgers
  and the same signed amounts as the request, one row per item in the same order, and all its rows
  together, taxes and round-off included, balance to nothing.
\<close>

theorem sheet_agrees_with_voucher:
  assumes "voucher_postings st d b = Inr p" "sound_lines (vsm_lines (calculate_voucher_summary d b))"
  shows "\<exists>q. accounting_postings st [] d b = Inr q \<and>
    (shp_ledger (hd q), shp_amount (hd q)) = (lgp_name (pst_party p), lgp_amount (pst_party p)) \<and>
    map (\<lambda>x. (shp_ledger x, shp_amount x)) (filter (\<lambda>x. shp_line x \<noteq> None) q) = map (\<lambda>i. (itp_ledger i, itp_amount i)) (pst_items p) \<and>
    sum_list (map shp_amount q) = 0"
proof -
  let ?sm = "calculate_voucher_summary d b"
  let ?ls = "vsm_lines ?sm" and ?sale = "bat_type b = B_SALE"
  obtain m items taxes where m: "sales_mappings st = Inr m" and it: "item_and_tax_postings st m (bat_type b) ?sm = Inr (items, taxes)"
    and p: "pst_items p = items" "lgp_name (pst_party p) = py_strip (text_of (bat_party_name b))"
      "lgp_amount (pst_party p) = (if ?sale then - vsm_final_value ?sm else vsm_final_value ?sm)"
    using assms(1) by (auto simp: voucher_postings_def require_tally_settings_def Let_def split: sum.splits if_splits prod.splits)
  have "\<exists>rows txs. (if is_sales_side b then fold_res (sheet_sales_line st m ?sale) ?ls ([], []) else Inr (sheet_purchase_lines st ?sm)) =
      Inr (rows, txs) \<and> map (\<lambda>x. (shp_ledger x, shp_amount x)) rows = map (\<lambda>i. (itp_ledger i, itp_amount i)) items \<and>
      (\<forall>x \<in> set rows. shp_line x \<noteq> None) \<and> tax_total txs = credit_sign ?sale * sum_list (map line_tax_sum ?ls) \<and>
      sum_list (map itp_amount items) = credit_sign ?sale * sum_list (map vln_taxable_value ?ls)"
  proof (cases "is_sales_side b")
    case True
    then have i: "fold_res (sales_item m ?sale) ?ls [] = Inr items"
      using it by (auto simp: item_and_tax_postings_def is_sales_side_def Let_def split: option.splits sum.splits)
    have "sum_list (map line_tax_sum ?ls) < 10 ^ 26"
      by (rule sound_part [OF assms(2)]) (use assms(2) in \<open>auto simp: sound_lines_def list_all_iff line_value_def\<close>)
    with sheet_sales_lines [OF i, of "[]" "[]" st] sales_items_sum [OF i] sound_lines_line [OF assms(2)] cent_lines True show ?thesis
      by (auto simp: sound_taxes_def tax_total_def)
  next
    case False
    then obtain pl where pl: "purchase_ledgers_of st ?sm = Inr pl" "items = map (item_posting_of False (pul_purchase pl)) ?ls"
      using it by (auto simp: item_and_tax_postings_def is_sales_side_def Let_def split: sum.splits)
    then have "pul_purchase pl = pul_purchase (sheet_purchase_ledgers st)"
      by (auto simp: purchase_ledgers_of_def sheet_purchase_ledgers_def or_else_def Let_def split: if_splits)
    with False pl(2) sheet_purchase_total [OF assms(2), of st] show ?thesis
      by (auto simp: is_sales_side_def sheet_purchase_lines_def Let_def item_posting_of_def comp_def uminus_sum_list_map)
  qed
  then obtain rows txs where r: "(if is_sales_side b then fold_res (sheet_sales_line st m ?sale) ?ls ([], []) else Inr (sheet_purchase_lines st ?sm)) =
      Inr (rows, txs)" "map (\<lambda>x. (shp_ledger x, shp_amount x)) rows = map (\<lambda>i. (itp_ledger i, itp_amount i)) items"
      "\<forall>x \<in> set rows. shp_line x \<noteq> None" "tax_total txs = credit_sign ?sale * sum_list (map line_tax_sum ?ls)"
      "sum_list (map itp_amount items) = credit_sign ?sale * sum_list (map vln_taxable_value ?ls)" by blast
  define q where "q = [\<lparr>shp_ledger = py_strip (text_of (bat_party_name b)), shp_amount = (if ?sale then - vsm_final_value ?sm else vsm_final_value ?sm),
      shp_line = None\<rparr>] @ rows @ map (\<lambda>(name, x). \<lparr>shp_ledger = name, shp_amount = x, shp_line = None\<rparr>) (filter (\<lambda>(name, x). x \<noteq> 0) txs) @
      (if vsm_round_off ?sm = 0 then [] else [\<lparr>shp_ledger = or_else (stripped st ''round_off_ledger_name'') ''ROUND OFF'',
         shp_amount = (if ?sale then vsm_round_off ?sm else - vsm_round_off ?sm), shp_line = None\<rparr>])"
  have "override [] k = []" "py_strip [] = []" for k by (simp_all add: override_def text_of_def py_strip_by_def)
  then have "accounting_postings st [] d b = Inr q"
    by (simp add: accounting_postings_def Let_def m r(1) q_def or_else_def)
  moreover have "filter (\<lambda>x. shp_line x \<noteq> None) q = rows"
    using r(3) by (auto simp: q_def filter_empty_conv intro: filter_True)
  moreover have "sum_list (map shp_amount rows) = sum_list (map itp_amount items)"
    using arg_cong [OF r(2), of "\<lambda>xs. sum_list (map snd xs)"] by (simp add: comp_def)
  then have "sum_list (map shp_amount q) = 0"
    using r(4,5) filter_taxes_total [of txs] summary_exact(1) [OF assms(2)] summary_balance [of d b]
    by (auto simp: q_def line_values_split comp_def case_prod_beta)
  ultimately show ?thesis using r(2) p by (auto simp: q_def)
qed

section \<open>An import takes what expires first\<close>

definition import_candidates :: "db \<Rightarrow> serial_status list \<Rightarrow> nat list \<Rightarrow> assignment_line \<Rightarrow> serial list" where
  "import_candidates d statuses taken l = take (nat (asl_quantity l)) (filter (\<lambda>s. ser_id s \<notin> set taken)
     (fefo_candidate_serials d (prd_id (asl_product l)) (asl_quantity l + int (length taken)) statuses))"

lemma pick_import_Cons:
  "pick_import_serials d statuses taken (l # ls) = Inr picked \<longleftrightarrow>
     asl_quantity l \<le> int (length (import_candidates d statuses taken l)) \<and>
     (\<exists>rest. pick_import_serials d statuses (map ser_id (import_candidates d statuses taken l) @ taken) ls = Inr rest \<and>
        picked = (l, import_candidates d statuses taken l) # rest)"
  by (auto simp: import_candidates_def [symmetric] bind_res_def not_less Let_def split: sum.splits if_splits)

lemma import_candidates_eligible:
  "s \<in> set (import_candidates d statuses taken l) \<Longrightarrow>
     s \<in> set (serials d) \<and> fefo_eligible d (prd_id (asl_product l)) statuses s \<and> ser_id s \<notin> set taken"
  unfolding import_candidates_def using fefo_candidates_eligible by (auto dest!: in_set_takeD)

lemma import_candidates_distinct:
  assumes "serials_ok d"
  shows "distinct (map ser_id (import_candidates d statuses taken l))"
proof -
  let ?c = "fefo_candidate_serials d (prd_id (asl_product l)) (asl_quantity l + int (length taken)) statuses"
  have "distinct (map ser_id ?c)" by (rule fefo_candidates_distinct [OF assms])
  then show ?thesis unfolding import_candidates_def take_map [symmetric] by (intro distinct_take distinct_map_filter)
qed

lemma import_candidates_first:
  assumes "s \<in> set (import_candidates d statuses taken l)" "t \<in> set (serials d)"
    and "fefo_eligible d (prd_id (asl_product l)) statuses t" "ser_id t \<notin> set taken" "t \<notin> set (import_candidates d statuses taken l)"
  shows "fefo_order s \<le> fefo_order t"
proof -
  let ?q = "asl_quantity l + int (length taken)"
  let ?all = "sort_key fefo_order (filter (fefo_eligible d (prd_id (asl_product l)) statuses) (serials d))"
  let ?c = "fefo_candidate_serials d (prd_id (asl_product l)) ?q statuses"
  have "?q \<ge> 1" using assms(1) by (auto simp: import_candidates_def fefo_candidate_serials_def split: if_splits)
  then have c: "?c = take (nat ?q) ?all" by (simp add: fefo_candidate_serials_def)
  have s: "s \<in> set ?c" "s \<in> set (take (nat (asl_quantity l)) (filter (\<lambda>s. ser_id s \<notin> set taken) ?c))"
    using assms(1) by (auto simp: import_candidates_def dest: in_set_takeD)
  show ?thesis
  proof (cases "t \<in> set ?c")
    case True
    have "sorted (map fefo_order (filter (\<lambda>s. ser_id s \<notin> set taken) ?c))"
      by (rule sorted_filter [OF fefo_candidates_sorted])
    then show ?thesis using s(2) by (rule sorted_take_le) (use True assms(4,5) in \<open>auto simp: import_candidates_def\<close>)
  next
    case False
    have "sorted (map fefo_order ?all)" by simp
    then show ?thesis using s(1) unfolding c by (rule sorted_take_le) (use False assms(2,3) c in auto)
  qed
qed

lemma distinct_map_append:
  "distinct (map f xs) \<Longrightarrow> distinct (map f ys) \<Longrightarrow> (\<And>y. y \<in> set ys \<Longrightarrow> f y \<notin> f ` set xs) \<Longrightarrow> distinct (map f (xs @ ys))"
  by (auto simp: image_iff) metis

lemma picked_by_expiry:
  assumes "serials_ok d" "pick_import_serials d statuses taken ls = Inr picked" "\<forall>l \<in> set ls. 0 < asl_quantity l"
  shows "map fst picked = ls \<and> distinct (map ser_id (concat (map snd picked))) \<and>
    (\<forall>s \<in> set (concat (map snd picked)). ser_id s \<notin> set taken) \<and>
    (\<forall>(l, ss) \<in> set picked. int (length ss) = asl_quantity l \<and>
       (\<forall>s \<in> set ss. s \<in> set (serials d) \<and> fefo_eligible d (prd_id (asl_product l)) statuses s \<and>
         (\<forall>t \<in> set (serials d). fefo_eligible d (prd_id (asl_product l)) statuses t \<and> ser_id t \<notin> set taken \<and>
            t \<notin> set (concat (map snd picked)) \<longrightarrow> fefo_order s \<le> fefo_order t)))"
  using assms(2,3)
proof (induction ls arbitrary: taken picked)
  case (Cons l ls)
  let ?c = "import_candidates d statuses taken l"
  obtain rest where r: "pick_import_serials d statuses (map ser_id ?c @ taken) ls = Inr rest" "picked = (l, ?c) # rest"
    and n: "asl_quantity l \<le> int (length ?c)" using Cons.prems(1) by (auto simp only: pick_import_Cons)
  have "length ?c \<le> nat (asl_quantity l)" by (simp add: import_candidates_def)
  then have len: "int (length ?c) = asl_quantity l" using n Cons.prems(2) by auto
  have q: "\<forall>l \<in> set ls. 0 < asl_quantity l" using Cons.prems(2) by simp
  note IH = conjunct1 [OF Cons.IH [OF r(1) q]] conjunct2 [OF Cons.IH [OF r(1) q], THEN conjunct1]
    conjunct2 [OF Cons.IH [OF r(1) q], THEN conjunct2, THEN conjunct1, THEN bspec]
  note later = conjunct2 [OF Cons.IH [OF r(1) q], THEN conjunct2, THEN conjunct2, THEN bspec, unfolded prod.case]
  have same: "t \<in> set ?c" if "t \<in> set (serials d)" "ser_id t \<in> set (map ser_id ?c)" for t
    using that assms(1) import_candidates_eligible by (auto simp: serials_ok_def distinct_map dest: inj_onD)
  have A: "distinct (map ser_id (concat (map snd picked)))"
    unfolding r(2) list.map concat.simps snd_conv
  proof (rule distinct_map_append)
    show "ser_id s \<notin> ser_id ` set ?c" if "s \<in> set (concat (map snd rest))" for s
      using IH(3) [OF that] by simp
  qed (rule IH(2) import_candidates_distinct [OF assms(1)])+
  have B: "ser_id s \<notin> set taken" if "s \<in> set (concat (map snd picked))" for s
    using that IH(3) [of s] import_candidates_eligible [of s d statuses taken l]
    unfolding r(2) list.map concat.simps snd_conv set_append by blast
  have C: "int (length ss) = asl_quantity k \<and>
       (\<forall>s \<in> set ss. s \<in> set (serials d) \<and> fefo_eligible d (prd_id (asl_product k)) statuses s \<and>
         (\<forall>t \<in> set (serials d). fefo_eligible d (prd_id (asl_product k)) statuses t \<and> ser_id t \<notin> set taken \<and>
            t \<notin> set (concat (map snd picked)) \<longrightarrow> fefo_order s \<le> fefo_order t))" if "(k, ss) \<in> set picked" for k ss
  proof (cases "(k, ss) = (l, ?c)")
    case True
    then show ?thesis using len import_candidates_eligible [of _ d statuses taken l] import_candidates_first [of _ d statuses taken l]
      by (simp add: r(2))
  next
    case False
    with that have "(k, ss) \<in> set rest" by (auto simp: r(2))
    from later [OF this] have L: "int (length ss) = asl_quantity k"
        "\<And>s. s \<in> set ss \<Longrightarrow> s \<in> set (serials d) \<and> fefo_eligible d (prd_id (asl_product k)) statuses s"
        "\<And>s t. s \<in> set ss \<Longrightarrow> t \<in> set (serials d) \<Longrightarrow> fefo_eligible d (prd_id (asl_product k)) statuses t \<Longrightarrow>
           ser_id t \<notin> set (map ser_id ?c @ taken) \<Longrightarrow> t \<notin> set (concat (map snd rest)) \<Longrightarrow> fefo_order s \<le> fefo_order t"
      unfolding prod.case by blast+
    have "ser_id t \<notin> set (map ser_id ?c @ taken)" "t \<notin> set (concat (map snd rest))"
      if "t \<in> set (serials d)" "ser_id t \<notin> set taken" "t \<notin> set (concat (map snd picked))" for t
      using that same [of t] by (auto simp: r(2))
    then show ?thesis using L by blast
  qed
  have D: "map fst picked = l # ls" using IH(1) by (simp add: r(2))
  show ?case using A D by (intro conjI ballI) (assumption | rule B | unfold split_paired_all prod.case, rule C)+
qed simp

text \<open>
  An import takes what expires first: when the serials of a sheet are found, every line gets
  exactly its quantity, no serial is taken twice, every one is eligible for the batch and of the
  line's product, and no eligible serial of that product left behind expires before a taken one.
\<close>

theorem import_takes_first_expiry:
  assumes "serials_ok d" "pick_import_serials d statuses [] ls = Inr picked" "\<forall>l \<in> set ls. 0 < asl_quantity l"
  shows "map fst picked = ls \<and> distinct (map ser_id (concat (map snd picked))) \<and>
    (\<forall>(l, ss) \<in> set picked. int (length ss) = asl_quantity l \<and>
       (\<forall>s \<in> set ss. fefo_eligible d (prd_id (asl_product l)) statuses s \<and>
         (\<forall>t \<in> set (serials d). fefo_eligible d (prd_id (asl_product l)) statuses t \<and> t \<notin> set (concat (map snd picked)) \<longrightarrow>
            expiry_key s \<le> expiry_key t)))"
  using picked_by_expiry [OF assms] fefo_order_expiry by (fastforce simp del: set_concat)

end
