(* ===== verification/AccountScenarios.thy ===== *)
theory AccountScenarios
  imports TallyScenarios Accounts SftpSync TallyExcel
begin

text \<open>
  The sample shop signing in, exchanging files with the Master and working with Tally's
  spreadsheets: the witnesses of the properties of \<open>Accounts\<close>, \<open>SftpSync\<close> and
  \<open>TallyExcel\<close>.
\<close>

section \<open>Spreadsheets\<close>

theorem sheet_agrees_with_voucher_witness:
  "\<exists>q. accounting_postings ex_tally_settings [] ex_tally_db ex_tally_sale = Inr q \<and> sum_list (map shp_amount q) = 0 \<and>
     shp_amount (hd q) = - 100"
proof -
  obtain p where p: "voucher_postings ex_tally_settings ex_tally_db ex_tally_sale = Inr p" "lgp_amount (pst_party p) = - 100"
    using ex_tally_postings by blast
  from sheet_agrees_with_voucher [OF p(1) ex_tally_lines] p(2) show ?thesis by auto
qed

definition ex_import_line :: assignment_line where
  "ex_import_line = \<lparr>asl_product = ex_product, asl_quantity = 1, asl_rate = None, asl_prefix = None, asl_batch_number = None,
     asl_mfg = None, asl_expiry = None, asl_warehouse = None, asl_level = []\<rparr>"

definition ex_shelf_db :: db where
  "ex_shelf_db = ex_db\<lparr>batch_items := []\<rparr>"

theorem import_takes_first_expiry_witness:
  "\<exists>a b. pick_import_serials ex_shelf_db [S_IN_STOCK] [] [ex_import_line, ex_import_line] =
     Inr [(ex_import_line, [a]), (ex_import_line, [b])] \<and> ser_id a = 1 \<and> ser_id b = 2 \<and>
     (\<forall>t \<in> set (serials ex_shelf_db). fefo_eligible ex_shelf_db 1 [S_IN_STOCK] t \<and> t \<noteq> a \<and> t \<noteq> b \<longrightarrow> expiry_key b \<le> expiry_key t)"
proof -
  have "pick_import_serials ex_shelf_db [S_IN_STOCK] [] [ex_import_line, ex_import_line] =
      Inr [(ex_import_line, [ex_serial 1 ''SOAP-000001'' S_IN_STOCK (Some 20000)]),
        (ex_import_line, [ex_serial 2 ''SOAP-000002'' S_IN_STOCK (Some 20100)])]" by code_simp
  then obtain a b where r: "pick_import_serials ex_shelf_db [S_IN_STOCK] [] [ex_import_line, ex_import_line] =
      Inr [(ex_import_line, [a]), (ex_import_line, [b])]" "ser_id a = 1" "ser_id b = 2"
    by (auto simp: ex_serial_def)
  have k: "serials_ok ex_shelf_db" "prd_id (asl_product ex_import_line) = 1" by code_simp+
  have q: "\<forall>l \<in> set [ex_import_line, ex_import_line]. 0 < asl_quantity l" by (simp add: ex_import_line_def)
  from import_takes_first_expiry [OF k(1) r(1) q] k(2) r show ?thesis by auto
qed

section \<open>Signing in\<close>

definition ex_any_claims :: "nat \<Rightarrow> nat \<Rightarrow> json" where
  "ex_any_claims uid version = JObj [(''sub'', JInt (int uid)), (''exp'', JInt (unix_seconds (0 + minutes 30))), (''ver'', JInt (int version))]"

definition ex_body :: "nat \<Rightarrow> nat \<Rightarrow> string" where
  "ex_body uid version = session_text uid (unix_seconds (0 + minutes 30)) version"

definition ex_any_loads :: "string \<Rightarrow> json option" where
  "ex_any_loads s =
    (if s = ex_body 1 0 then Some (ex_any_claims 1 0) else if s = ex_body 2 0 then Some (ex_any_claims 2 0)
     else if s = ex_body 2 1 then Some (ex_any_claims 2 1) else None)"

definition ex_token :: "nat \<Rightarrow> nat \<Rightarrow> string" where
  "ex_token uid version = create_session_token id 30 uid version 0"

definition ex_site :: server where
  "ex_site = \<lparr>srv_mac = id, srv_loads = ex_any_loads, srv_sha = ex_sha, srv_uuid5 = id, srv_settings = ex_settings,
     srv_event_id = ex_uuid 3\<rparr>"

definition ex_from :: "nat \<Rightarrow> nat \<Rightarrow> string \<Rightarrow> request" where
  "ex_from uid version path = \<lparr>rq_cookie = Some (ex_token uid version), rq_path = path, rq_accept = [], rq_app_mode = ''legacy'', rq_now = 9\<rparr>"

definition ex_policy :: account_policy where
  "ex_policy = \<lparr>pol_max_attempts = 5, pol_lockout_minutes = 15, pol_session_minutes = 30, pol_cookie_secure = True\<rparr>"

definition ex_hasher :: hasher where
  "ex_hasher = \<lparr>hsh_pbkdf2 = \<lambda>p s n. take 32 (p @ replicate 32 (CHR ''x'')), hsh_salt = replicate 16 (CHR ''s'')\<rparr>"

lemma ex_bodies: "ex_body 2 v \<noteq> ex_body 1 w" "ex_body 2 1 \<noteq> ex_body 2 0"
  by (simp_all add: ex_body_def session_text_def nat_str.simps digit_char_def char_of_def bit_0)

lemma ex_claims_read:
  assumes "(uid, version) \<in> {(1, 0), (2, 0), (2, 1)}" "t < 10"
  shows "read_session_claims id ex_any_loads t (Some (ex_token uid version)) = Inr (Some (int uid, int version))"
proof -
  have l: "ex_any_loads (session_text uid (unix_seconds (0 + minutes 30)) version) =
      Some (JObj [(''sub'', JInt (int uid)), (''exp'', JInt (unix_seconds (0 + minutes 30))), (''ver'', JInt (int version))])"
    using assms(1) ex_bodies ex_bodies(1) [symmetric]
    unfolding ex_body_def [symmetric]
    by (elim insertE emptyE) (simp_all only: ex_any_loads_def ex_any_claims_def prod.inject if_True if_False simp_thms)
  have "unix_seconds t \<le> 0" using assms(2) by (simp add: unix_seconds_def)
  moreover have "0 < unix_seconds (0 + minutes 30)" by code_simp
  moreover have "0 < uid" using assms(1) by auto
  ultimately show ?thesis
    using session_read [where loads = ex_any_loads and uid = uid and now = 0 and timeout = 30 and version = version and mac = id and t = t, OF l]
    by (simp add: ex_token_def)
qed

lemma ex_current:
  assumes "(uid, version) \<in> {(1, 0), (2, 0), (2, 1)}" "t < 10" "get_user d uid = Some u"
    and "usr_active u" "usr_deleted_at u = None" "usr_session_version u = version"
  shows "current_user id ex_any_loads t (Some (ex_token uid version)) d = Inr (Some u)"
  using assms by (simp add: current_user_def ex_claims_read [OF assms(1,2)])

theorem guesses_bounded_witness:
  "\<exists>d'. login ex_site ex_policy ex_hasher None 60 ''asha'' ''wrong'' ex_db = (LoginForm 400 (Some ''Invalid username or password'') None, d') \<and>
     failures_within d' ''asha'' 0 (0 + minutes 15) = 1 \<and> int (failures_within d' ''asha'' 0 (0 + minutes 15)) \<le> 5"
proof -
  have "get_user_by_username ex_db ''asha'' = Some (ex_user 1 ''asha'' ''admin'')" "py_lower (py_strip ''asha'') = ''asha''" by code_simp+
  then have "credentials_ok ex_hasher ex_db ''asha'' ''wrong'' = None"
    by (simp add: credentials_ok_def ex_user_def verify_password_def password_hash_parts_def)
  moreover have l: "login_audits ex_db = []" by (simp add: ex_db_def empty_db_def)
  ultimately have r: "login ex_site ex_policy ex_hasher None 60 ''asha'' ''wrong'' ex_db =
      (LoginForm 400 (Some ''Invalid username or password'') None, add_login_audit ''asha'' False None 60 ex_db)"
    using \<open>py_lower (py_strip ''asha'') = ''asha''\<close>
    by (simp add: login_def Let_def recent_failed_logins_def count_rows_def ex_policy_def)
  have "guessing ex_policy (add_login_audit ''asha'' False None 60 ex_db) 60"
    by (rule guessing.attempt [OF guessing.fresh [OF l, where t = 0] _ r]) simp
  then have "int (failures_within (add_login_audit ''asha'' False None 60 ex_db) ''asha'' 0
      (0 + minutes (pol_lockout_minutes ex_policy))) \<le> pol_max_attempts ex_policy"
    by (rule guesses_bounded) (simp add: ex_policy_def)
  moreover have "failures_within (add_login_audit ''asha'' False None 60 ex_db) ''asha'' 0 (0 + minutes 15) = 1"
    by (simp add: failures_within_def add_login_audit_def l count_rows_def failed_login_def minutes_def)
  ultimately show ?thesis using r by (simp add: ex_policy_def)
qed

section \<open>Ended sessions\<close>

definition ex_staff :: db where
  "ex_staff = empty_db\<lparr>users := [ex_user 1 ''asha'' ''super_admin'', ex_user 2 ''ravi'' ''auditor'']\<rparr>"

lemma ex_staff_users: "get_user ex_staff 1 = Some (ex_user 1 ''asha'' ''super_admin'')" "get_user ex_staff 2 = Some (ex_user 2 ''ravi'' ''auditor'')"
  by code_simp+

lemma ex_boss_asks:
  assumes "get_user d 1 = Some (ex_user 1 ''asha'' ''super_admin'')"
  shows "require_user id ex_any_loads 9 (Some (ex_token 1 0)) path None d = Inr (ex_user 1 ''asha'' ''super_admin'')"
    and "require_user id ex_any_loads 9 (Some (ex_token 1 0)) path (Some (RoleArg SUPER_ADMIN)) d = Inr (ex_user 1 ''asha'' ''super_admin'')"
proof -
  have "normalize_role_values (TextArg ''super_admin'') \<noteq> []" "has_any_role (TextArg ''super_admin'') (RoleArg SUPER_ADMIN)" by code_simp+
  moreover have "current_user id ex_any_loads 9 (Some (ex_token 1 0)) d = Inr (Some (ex_user 1 ''asha'' ''super_admin''))"
    using ex_current [of 1 0 9 d] assms by (simp add: ex_user_def)
  ultimately show "require_user id ex_any_loads 9 (Some (ex_token 1 0)) path None d = Inr (ex_user 1 ''asha'' ''super_admin'')"
    "require_user id ex_any_loads 9 (Some (ex_token 1 0)) path (Some (RoleArg SUPER_ADMIN)) d = Inr (ex_user 1 ''asha'' ''super_admin'')"
    by (simp_all add: require_user_def ex_user_def)
qed

definition ex_suspended :: db where
  "ex_suspended = set_user 2 toggled ex_staff"

lemma ex_ravi: "get_user ex_suspended 2 = Some (toggled (ex_user 2 ''ravi'' ''auditor''))"
  "get_user ex_suspended 1 = Some (ex_user 1 ''asha'' ''super_admin'')"
  using ex_staff_users by (simp_all add: ex_suspended_def get_set_user toggled_def ex_user_def)

text \<open>An auditor is suspended and enabled again: the cookie from before stays dead.\<close>

theorem changes_end_sessions_witness:
  "asking_user ex_site (ex_from 2 0 ''/batches'') ex_staff = Inr (Some (ex_user 2 ''ravi'' ''auditor'')) \<and>
   snd (toggle_user ex_site (ex_from 1 0 ''/users/2/toggle'') 2 ex_suspended) = set_user 2 toggled ex_suspended \<and>
   map usr_active (users (set_user 2 toggled ex_suspended)) = [True, True] \<and>
   asking_user ex_site (ex_from 2 0 ''/batches'') (set_user 2 toggled ex_suspended) = Inr None"
proof -
  have old: "asking_user ex_site (ex_from 2 0 ''/batches'') ex_staff = Inr (Some (ex_user 2 ''ravi'' ''auditor''))"
    using ex_current [OF _ _ ex_staff_users(2), of 0 9] by (simp add: asking_user_def ex_site_def ex_from_def ex_user_def)
  have "role_has_access ex_any_loads ex_suspended (TextArg ''super_admin'') ''users_manage'' None" by code_simp
  then have t: "snd (toggle_user ex_site (ex_from 1 0 ''/users/2/toggle'') 2 ex_suspended) = set_user 2 toggled ex_suspended"
    using ex_boss_asks(1) [OF ex_ravi(2)] ex_ravi(1)
    by (simp add: toggle_user_def allow_def require_permission_def ex_site_def ex_from_def ex_user_def toggled_def)
  have a: "map usr_active (users (set_user 2 toggled ex_suspended)) = [True, True]" "map usr_active (users ex_suspended) = [True, False]"
    by (simp_all add: ex_suspended_def ex_staff_def set_user_def upd_rows_def toggled_def ex_user_def empty_db_def)
  then have "set_user 2 toggled ex_suspended \<noteq> ex_suspended" by (metis list.inject)
  moreover have "read_session_claims (srv_mac ex_site) (srv_loads ex_site) (rq_now (ex_from 2 0 ''/batches''))
      (rq_cookie (ex_from 2 0 ''/batches'')) = Inr (Some (2, 0))"
    using ex_claims_read [of 2 0 9] by (simp add: ex_site_def ex_from_def)
  ultimately have "asking_user ex_site ((ex_from 2 0 ''/batches'')\<lparr>rq_now := 9\<rparr>) (set_user 2 toggled ex_suspended) = Inr None"
    using t ex_ravi(1)
    by (intro changes_end_sessions [where uid = 2 and version = 0 and d = ex_suspended
        and u = "toggled (ex_user 2 ''ravi'' ''auditor'')" and rq = "ex_from 1 0 ''/users/2/toggle''" and h = ex_hasher])
      (simp_all add: toggled_def ex_user_def)
  with old t a show ?thesis by (simp add: ex_from_def)
qed

section \<open>An account that comes back\<close>

definition ex_old_staff :: db where
  "ex_old_staff = empty_db\<lparr>users := [ex_user 1 ''asha'' ''super_admin'', (ex_user 2 ''ravi'' ''auditor'')\<lparr>usr_session_version := 1\<rparr>]\<rparr>"

definition ex_new_password :: string where "ex_new_password = ''first-password''"
definition ex_own_password :: string where "ex_own_password = ''second-password''"

definition ex_mira :: user where
  "ex_mira = \<lparr>usr_id = 2, usr_username = ''mira'', usr_password_hash = hash_password (hsh_pbkdf2 ex_hasher) (hsh_salt ex_hasher) ex_new_password,
     usr_role = ''auditor'', usr_active = True, usr_must_change_password = True, usr_session_version = 0, usr_created_at = 9,
     usr_last_login_at = None, usr_deleted_at = None\<rparr>"

definition ex_left_staff :: db where
  "ex_left_staff = empty_db\<lparr>users := [ex_user 1 ''asha'' ''super_admin'']\<rparr>"

definition ex_new_staff :: db where
  "ex_new_staff = empty_db\<lparr>users := [ex_user 1 ''asha'' ''super_admin'', ex_mira]\<rparr>"

lemma ex_deleted: "delete_user ex_site (ex_from 1 0 ''/users/2/delete'') 2 ex_old_staff = (Go ''/users'' None, ex_left_staff)"
proof -
  have g: "get_user ex_old_staff 1 = Some (ex_user 1 ''asha'' ''super_admin'')"
    "get_user ex_old_staff 2 = Some ((ex_user 2 ''ravi'' ''auditor'')\<lparr>usr_session_version := 1\<rparr>)" by code_simp+
  have "counted_references ex_old_staff 2 = 0" "\<not> uncounted_references ex_old_staff 2" by code_simp+
  moreover have "remove_user 2 ex_old_staff = ex_left_staff" by code_simp
  ultimately show ?thesis using ex_boss_asks(2) [OF g(1)] g(2)
    by (simp add: delete_user_def super_admin_only_def ex_site_def ex_from_def ex_user_def)
qed

lemma ex_created: "create_user ex_site ex_hasher (ex_from 1 0 ''/users'') ''Mira'' ex_new_password [''auditor''] ex_left_staff = (Go ''/users'' None, ex_new_staff)"
proof -
  have g: "get_user ex_left_staff 1 = Some (ex_user 1 ''asha'' ''super_admin'')" by code_simp
  have a: "role_has_access ex_any_loads ex_left_staff (TextArg ''super_admin'') ''users_manage'' None" by code_simp
  have n: "py_lower (py_strip ''Mira'') = ''mira''" "serialize_role_values (ItemsArg (map TextItem [''auditor''])) = ''auditor''"
    "next_id usr_id (users ex_left_staff) = 2" by code_simp+
  have p: "password_policy_error ex_new_password = None"
    by (simp add: password_policy_error_def MIN_PASSWORD_LENGTH_def MAX_PASSWORD_LENGTH_def ex_new_password_def)
  have "''mira'' \<notin> usr_username ` set (users ex_left_staff)" by (simp add: ex_left_staff_def ex_user_def)
  moreover have "ex_left_staff\<lparr>users := users ex_left_staff @ [ex_mira]\<rparr> = ex_new_staff"
    by (simp add: ex_left_staff_def ex_new_staff_def)
  ultimately show ?thesis using ex_boss_asks(1) [OF g] a p n
    by (simp add: create_user_def allow_def require_permission_def ex_site_def ex_from_def ex_user_def Let_def ex_mira_def)
qed

lemma ex_hash_length: "length (hsh_pbkdf2 ex_hasher p s n) = 32" "16 \<le> length (hsh_salt ex_hasher)"
  by (simp_all add: ex_hasher_def)

lemma ex_changed:
  "\<exists>path d. change_password ex_site ex_hasher (ex_from 2 0 ''/account/password'') ex_new_password ex_own_password ex_own_password ex_new_staff =
     (Go path None, d)"
proof -
  have "get_user ex_new_staff 2 = Some ex_mira" by (simp add: get_user_def ex_new_staff_def ex_mira_def ex_user_def)
  then have ask: "asking_user ex_site (ex_from 2 0 ''/account/password'') ex_new_staff = Inr (Some ex_mira)"
    using ex_current [of 2 0 9 ex_new_staff ex_mira] by (simp add: asking_user_def ex_site_def ex_from_def ex_mira_def)
  have v: "verify_password (hsh_pbkdf2 ex_hasher) ex_new_password (usr_password_hash ex_mira)"
    using password_round_trip [OF ex_hash_length(2,1)] by (simp add: ex_mira_def)
  have other: "\<not> verify_password (hsh_pbkdf2 ex_hasher) ex_own_password (usr_password_hash ex_mira)"
  proof
    assume "verify_password (hsh_pbkdf2 ex_hasher) ex_own_password (usr_password_hash ex_mira)"
    moreover obtain digest where "password_hash_parts (usr_password_hash ex_mira) = Some (PASSWORD_HASH_ITERATIONS, b64 (hsh_salt ex_hasher), b64 digest)"
        "digest = hsh_pbkdf2 ex_hasher (utf8 ex_new_password) (hsh_salt ex_hasher) PASSWORD_HASH_ITERATIONS"
      using password_hash_parts_of by (simp add: ex_mira_def)
    ultimately have "hsh_pbkdf2 ex_hasher (utf8 ex_own_password) (hsh_salt ex_hasher) PASSWORD_HASH_ITERATIONS =
        hsh_pbkdf2 ex_hasher (utf8 ex_new_password) (hsh_salt ex_hasher) PASSWORD_HASH_ITERATIONS"
      by (simp add: verify_password_def)
    then have "hd (utf8 ex_own_password) = hd (utf8 ex_new_password)"
      by (simp add: ex_hasher_def ex_own_password_def ex_new_password_def utf8_def)
    then show False by (simp add: ex_own_password_def ex_new_password_def utf8_def Let_def)
  qed
  have p: "password_policy_error ex_own_password = None"
    by (simp add: password_policy_error_def MIN_PASSWORD_LENGTH_def MAX_PASSWORD_LENGTH_def ex_own_password_def)
  show ?thesis using v other p by (simp add: change_password_def ask password_refusal_def)
qed

theorem deleted_account_returns_witness:
  "\<exists>d3 u. current_user id ex_any_loads 9 (Some (ex_token 2 1)) d3 = Inr (Some u) \<and> usr_username u = ''mira''"
proof -
  obtain path d3 where c: "change_password ex_site ex_hasher (ex_from 2 0 ''/account/password'') ex_new_password ex_own_password
      ex_own_password ex_new_staff = (Go path None, d3)" using ex_changed by blast
  have ask: "asking_user ex_site (ex_from 2 0 ''/account/password'') ex_new_staff = Inr (Some ex_mira)"
    using ex_current [of 2 0 9 ex_new_staff ex_mira]
    by (simp add: asking_user_def ex_site_def ex_from_def get_user_def ex_new_staff_def ex_mira_def ex_user_def)
  have g: "get_user ex_old_staff 2 = Some ((ex_user 2 ''ravi'' ''auditor'')\<lparr>usr_session_version := 1\<rparr>)" "get_user ex_left_staff 2 = None"
    by code_simp+
  have ids: "\<forall>v \<in> set (users ex_old_staff). usr_id v \<le> 2" "\<exists>v \<in> set (users ex_left_staff). Suc (usr_id v) = 2" "usr_id ex_mira = 2"
    by (simp_all add: ex_old_staff_def ex_left_staff_def ex_user_def ex_mira_def)
  have old: "read_session_claims (srv_mac ex_site) (srv_loads ex_site) 9 (Some (ex_token 2 1)) = Inr (Some (int 2, 1))"
    using ex_claims_read [of 2 1 9] by (simp add: ex_site_def)
  have n: "py_lower (py_strip ''Mira'') = ''mira''" by code_simp
  from deleted_account_returns [OF g(1) ex_deleted g(2) ids(1,2) ex_created ask ids(3) c old] n
  show ?thesis by (auto simp: ex_site_def)
qed

end
