(* ===== verification/Urls.thy ===== *)
theory Urls
  imports PyJson
begin

text \<open>
  What the program uses of Python's \<open>urllib.parse\<close>: \<open>urlsplit\<close> with the
  host name, the port and the user information of its result.  Whether a bracketed address is
  one (\<open>ipaddress\<close>) is an argument.  Code points below 256 never change the delimiters
  under NFKC, so the check of the network location finds nothing there.
\<close>

text \<open>\<open>s.partition(c)\<close> and \<open>s.rpartition(c)\<close>; \<open>None\<close> when \<open>c\<close> does not occur.\<close>

definition cut :: "char \<Rightarrow> string \<Rightarrow> string \<times> string option" where
  "cut c s = (takeWhile (\<lambda>x. x \<noteq> c) s, case dropWhile (\<lambda>x. x \<noteq> c) s of [] \<Rightarrow> None | x # rest \<Rightarrow> Some rest)"

definition rcut :: "char \<Rightarrow> string \<Rightarrow> string option \<times> string" where
  "rcut c s = (case cut c (rev s) of (after, None) \<Rightarrow> (None, s) | (after, Some before) \<Rightarrow> (Some (rev before), rev after))"

record split_url =
  url_scheme :: string
  url_netloc :: string
  url_path :: string
  url_query :: string
  url_fragment :: string

definition scheme_char :: "char \<Rightarrow> bool" where
  "scheme_char c \<longleftrightarrow> (let n = of_char c :: nat in 97 \<le> n \<and> n \<le> 122 \<or> 65 \<le> n \<and> n \<le> 90 \<or> 48 \<le> n \<and> n \<le> 57) \<or> c \<in> set ''+-.''"

definition scheme_start :: "char \<Rightarrow> bool" where
  "scheme_start c \<longleftrightarrow> (let n = of_char c :: nat in 97 \<le> n \<and> n \<le> 122 \<or> 65 \<le> n \<and> n \<le> 90)"

definition url_cleaned :: "string \<Rightarrow> string" where
  "url_cleaned s = filter (\<lambda>c. c \<notin> {CHR 0x09, CHR 0x0A, CHR 0x0D}) (dropWhile (\<lambda>c. (of_char c :: nat) \<le> 32) s)"

definition split_scheme :: "string \<Rightarrow> string \<times> string" where
  "split_scheme s =
    (case cut (CHR '':'') s of
       (c # cs, Some rest) \<Rightarrow> if scheme_start c \<and> list_all scheme_char (c # cs) then (py_lower (c # cs), rest) else ([], s)
     | _ \<Rightarrow> ([], s))"

definition netloc_ok :: "(string \<Rightarrow> bool) \<Rightarrow> string \<Rightarrow> bool" where
  "netloc_ok bracketed n \<longleftrightarrow>
    (CHR ''['' \<in> set n \<longleftrightarrow> CHR '']'' \<in> set n) \<and> (CHR ''['' \<in> set n \<longrightarrow> bracketed n)"

text \<open>\<open>urlsplit(value)\<close>; \<open>None\<close> is the \<open>ValueError\<close>.\<close>

definition urlsplit :: "(string \<Rightarrow> bool) \<Rightarrow> string \<Rightarrow> split_url option" where
  "urlsplit bracketed value =
    (let (scheme, s) = split_scheme (url_cleaned value);
         (netloc, s1) = (if starts_with ''//'' s then (takeWhile (\<lambda>c. c \<notin> set ''/?#'') (drop 2 s), dropWhile (\<lambda>c. c \<notin> set ''/?#'') (drop 2 s))
                         else ([], s));
         (s2, fragment) = cut (CHR ''#'') s1; (path, query) = cut (CHR ''?'') s2
     in if netloc_ok bracketed netloc then
          Some \<lparr>url_scheme = scheme, url_netloc = netloc, url_path = path, url_query = text_of query, url_fragment = text_of fragment\<rparr>
        else None)"

text \<open>The host and the text of the port; the user name and the password.\<close>

definition host_info :: "split_url \<Rightarrow> string \<times> string option" where
  "host_info u =
    (let hostinfo = snd (rcut (CHR ''@'') (url_netloc u));
         (host, port) = (case cut (CHR ''['') hostinfo of
            (_, Some b) \<Rightarrow> (let (h, rest) = cut (CHR '']'') b in (h, snd (cut (CHR '':'') (text_of rest))))
          | (_, None) \<Rightarrow> cut (CHR '':'') hostinfo)
     in (host, if text_of port = [] then None else port))"

definition url_hostname :: "split_url \<Rightarrow> string option" where
  "url_hostname u =
    (let h = fst (host_info u); (name, zone) = cut (CHR ''%'') h
     in if h = [] then None else Some (py_lower name @ (case zone of None \<Rightarrow> [] | Some z \<Rightarrow> CHR ''%'' # z)))"

text \<open>\<open>None\<close> is the \<open>ValueError\<close>, \<open>Some None\<close> no port.\<close>

definition url_port :: "split_url \<Rightarrow> nat option option" where
  "url_port u =
    (case snd (host_info u) of None \<Rightarrow> Some None
     | Some t \<Rightarrow> if list_all is_digit t \<and> parse_nat t \<le> 65535 then Some (Some (parse_nat t)) else None)"

definition url_user_info :: "split_url \<Rightarrow> string option \<times> string option" where
  "url_user_info u =
    (case fst (rcut (CHR ''@'') (url_netloc u)) of None \<Rightarrow> (None, None)
     | Some info \<Rightarrow> (let (name, password) = cut (CHR '':'') info in (Some name, password)))"

section \<open>Reading back an origin\<close>

text \<open>The characters a name of a host is made of: none that ends or divides a network location.\<close>

definition host_char :: "char \<Rightarrow> bool" where
  "host_char c \<longleftrightarrow> 32 < (of_char c :: nat) \<and> c \<notin> set ''/?#@:[]%''"

definition plain_host :: "string \<Rightarrow> bool" where
  "plain_host h \<longleftrightarrow> h \<noteq> [] \<and> list_all host_char h"

definition port_text :: "nat option \<Rightarrow> string" where
  "port_text p = (case p of None \<Rightarrow> [] | Some n \<Rightarrow> CHR '':'' # nat_str n)"

lemma cut_none: "c \<notin> set s \<Longrightarrow> cut c s = (s, None)"
  by (induction s) (auto simp: cut_def)

lemma cut_at: "c \<notin> set s \<Longrightarrow> cut c (s @ c # r) = (s, Some r)"
  by (induction s) (auto simp: cut_def)

lemma rcut_none: "c \<notin> set s \<Longrightarrow> rcut c s = (None, s)"
  by (simp add: rcut_def cut_none)

lemma digit_host: "is_digit c \<Longrightarrow> host_char c"
  by (auto simp: is_digit_def host_char_def Let_def)

lemma host_port_chars:
  assumes "plain_host h"
  shows "list_all (\<lambda>c. host_char c \<or> c = CHR '':'') (h @ port_text p)"
proof -
  have "list_all host_char (nat_str n)" for n
    using nat_str_digits [of n] by (auto simp: list_all_iff intro: digit_host)
  then show ?thesis using assms by (auto simp: plain_host_def port_text_def list_all_iff split: option.split)
qed

lemma host_info_plain:
  assumes "plain_host h" "url_netloc u = h @ port_text p"
  shows "host_info u = (h, map_option nat_str p)"
proof -
  have h: "CHR '':'' \<notin> set h" using assms(1) by (auto simp: plain_host_def list_all_iff host_char_def)
  have n: "CHR ''@'' \<notin> set (h @ port_text p)" "CHR ''['' \<notin> set (h @ port_text p)"
    using host_port_chars [OF assms(1), of p] by (auto simp: list_all_iff host_char_def simp del: set_append)
  show ?thesis unfolding host_info_def assms(2) rcut_none [OF n(1)] snd_conv cut_none [OF n(2)] Let_def prod.case option.case
    using cut_none [OF h] cut_at [OF h] by (cases p) (simp_all add: port_text_def text_of_def)
qed

lemma plain_parts:
  assumes "plain_host h" "url_netloc u = h @ port_text p"
  shows "url_hostname u = Some (py_lower h)" "url_port u = (case p of None \<Rightarrow> Some None | Some n \<Rightarrow> if n \<le> 65535 then Some (Some n) else None)"
    "url_user_info u = (None, None)"
proof -
  note i = host_info_plain [OF assms]
  have "CHR ''%'' \<notin> set h" "CHR ''@'' \<notin> set (h @ port_text p)"
    using host_port_chars [OF assms(1), of p] assms(1)
    by (auto simp: list_all_iff host_char_def plain_host_def simp del: set_append)
  then show "url_hostname u = Some (py_lower h)" "url_user_info u = (None, None)"
    using assms(1) by (simp_all add: url_hostname_def i cut_none url_user_info_def assms(2) rcut_none plain_host_def)
  show "url_port u = (case p of None \<Rightarrow> Some None | Some n \<Rightarrow> if n \<le> 65535 then Some (Some n) else None)"
    using nat_str_digits by (simp add: url_port_def i split: option.split)
qed

lemma scheme_char_facts:
  assumes "scheme_char c"
  shows "32 < (of_char c :: nat)" "c \<noteq> CHR '':''"
proof -
  show "c \<noteq> CHR '':''"
  proof
    assume "c = CHR '':''"
    with assms show False by (simp add: scheme_char_def)
  qed
  show "32 < (of_char c :: nat)"
    using assms by (elim scheme_char_def [THEN iffD1, elim_format] disjE) (auto simp: Let_def)
qed

lemma scheme_start_char: "scheme_start c \<Longrightarrow> scheme_char c"
  by (auto simp: scheme_start_def scheme_char_def Let_def)

lemma url_clean:
  assumes "\<forall>x \<in> set s. 32 < (of_char x :: nat)"
  shows "url_cleaned s = s"
proof -
  have "c \<notin> {CHR 0x09, CHR 0x0A, CHR 0x0D}" if "c \<in> set s" for c using assms that by fastforce
  moreover have "dropWhile (\<lambda>c. (of_char c :: nat) \<le> 32) s = s"
    using assms by (intro dropWhile_eq_self) (cases s, auto)
  ultimately show ?thesis by (simp add: url_cleaned_def filter_id_conv)
qed

lemma urlsplit_origin:
  assumes "plain_host h" "scheme_start c" "list_all scheme_char cs"
  shows "urlsplit bracketed (c # cs @ ''://'' @ h @ port_text p) =
    Some \<lparr>url_scheme = py_lower (c # cs), url_netloc = h @ port_text p, url_path = [], url_query = [], url_fragment = []\<rparr>"
proof -
  have "32 < (of_char x :: nat) \<and> x \<notin> set ''/?#[]''" if "host_char x \<or> x = CHR '':''" for x
    using that by (elim disjE) (simp_all add: host_char_def)
  then have hp: "\<forall>x \<in> set (h @ port_text p). 32 < (of_char x :: nat) \<and> x \<notin> set ''/?#[]''"
    using host_port_chars [OF assms(1), of p] unfolding list_all_iff by blast
  have sc: "\<forall>x \<in> set (c # cs). 32 < (of_char x :: nat) \<and> x \<noteq> CHR '':''"
    using assms(2,3) scheme_char_facts scheme_start_char by (auto simp: list_all_iff)
  have hp1: "\<forall>x \<in> set (h @ port_text p). 32 < (of_char x :: nat)" "\<forall>x \<in> set (c # cs). 32 < (of_char x :: nat)"
    using hp sc by simp_all
  have "\<forall>x \<in> set (c # cs @ ''://'' @ h @ port_text p). 32 < (of_char x :: nat)"
    using hp1 by (simp add: ball_Un)
  then have "url_cleaned (c # cs @ ''://'' @ h @ port_text p) = c # cs @ ''://'' @ h @ port_text p"
    by (rule url_clean)
  moreover have "split_scheme (c # cs @ CHR '':'' # r) = (py_lower (c # cs), r)" for r
  proof -
    have "CHR '':'' \<notin> set (c # cs)" using sc by blast
    from cut_at [OF this, of r] have "cut (CHR '':'') (c # cs @ CHR '':'' # r) = (c # cs, Some r)" by simp
    moreover have "list_all scheme_char (c # cs)" using assms(2,3) scheme_start_char by simp
    ultimately show ?thesis using assms(2) by (simp only: split_scheme_def prod.case list.case option.case if_True simp_thms)
  qed
  moreover have "takeWhile (\<lambda>x. x \<notin> set ''/?#'') (h @ port_text p) = h @ port_text p"
    "dropWhile (\<lambda>x. x \<notin> set ''/?#'') (h @ port_text p) = []"
    using hp unfolding takeWhile_eq_all_conv dropWhile_eq_Nil_conv by simp_all
  moreover have "netloc_ok bracketed (h @ port_text p)"
    using hp unfolding netloc_ok_def by fastforce
  moreover obtain q where q: "q = h @ port_text p" by simp
  ultimately show ?thesis unfolding q [symmetric] by (simp add: urlsplit_def starts_with_def cut_def text_of_def del: takeWhile_eq_all_conv dropWhile_eq_Nil_conv)
qed

end
