(* ===== verification/Config.thy ===== *)
theory Config
  imports Urls Analytics Configuration Outbox
begin

text \<open>
  The settings of an installation, \<open>app/config.py\<close>: environment files and how they are
  written, what \<open>Settings\<close> reads from the environment, and what is wrong with a
  connection.  The process environment is a function; the two runtime files are their texts.  A
  text never holds U+FEFF, which is beyond the model's characters.
\<close>

section \<open>Environment files\<close>

text \<open>\<open>re.sub(r'\\(["\\])', r"\1", s)\<close>\<close>

fun unescape :: "string \<Rightarrow> string" where
  "unescape (a # b # r) = (if a = CHR 0x5C \<and> b \<in> {CHR 0x22, CHR 0x5C} then b # unescape r else a # unescape (b # r))"
| "unescape s = s"

definition quoted_by :: "char \<Rightarrow> string \<Rightarrow> bool" where
  "quoted_by q v \<longleftrightarrow> 2 \<le> length v \<and> hd v = q \<and> last v = q"

definition env_value :: "string \<Rightarrow> string" where
  "env_value raw =
    (let v = py_strip raw
     in if quoted_by (CHR 0x22) v then unescape (butlast (tl v))
        else if quoted_by (CHR 0x27) v then butlast (tl v) else v)"

definition env_key :: "string \<Rightarrow> string" where
  "env_key raw = (let k = py_strip raw in if starts_with ''export '' k then py_strip (drop 7 k) else k)"

definition env_line :: "string list option \<Rightarrow> string \<Rightarrow> (string \<times> string) option" where
  "env_line allowed raw =
    (let l = py_strip raw
     in if l = [] \<or> hd l = CHR ''#'' then None
        else case cut (CHR ''='') l of (k, None) \<Rightarrow> None
        | (k, Some v) \<Rightarrow>
            if env_key k = [] \<or> (case allowed of None \<Rightarrow> False | Some ks \<Rightarrow> env_key k \<notin> set ks) then None
            else Some (env_key k, env_value v))"

text \<open>The last line for a key wins; no file is an empty one.\<close>

definition read_env_file :: "string list option \<Rightarrow> string option \<Rightarrow> string \<Rightarrow> string option" where
  "read_env_file allowed file = map_of (rev (List.map_filter (env_line allowed) (split_lines [] (text_of file))))"

definition MASTER_CONNECTION_RUNTIME_ENV_KEYS :: "string list" where
  "MASTER_CONNECTION_RUNTIME_ENV_KEYS = [''FRANCHISE_CODE'', ''MASTER_SYNC_ENABLED'', ''MASTER_URL'', ''MASTER_API_KEY'',
     ''MASTER_SYNC_INTERVAL_SECONDS'', ''MASTER_REQUEST_TIMEOUT_SECONDS'', ''MASTER_TLS_VERIFY'']"

definition SFTP_CONNECTION_RUNTIME_ENV_KEYS :: "string list" where
  "SFTP_CONNECTION_RUNTIME_ENV_KEYS = [''FRANCHISE_CODE'', ''SFTP_SYNC_ENABLED'', ''SFTP_HOST'', ''SFTP_PORT'', ''SFTP_USERNAME'',
     ''SFTP_PASSWORD'', ''SFTP_HOST_KEY_SHA256'', ''SFTP_SYNC_INTERVAL_SECONDS'', ''SFTP_CONNECT_TIMEOUT_SECONDS'',
     ''SFTP_MAX_XML_BYTES'']"

definition settings_text :: "(string \<times> string) list \<Rightarrow> string" where
  "settings_text values = concat (map (\<lambda>(k, v). k @ ''='' @ v @ [CHR 0x0A]) (sort_key fst values))"

text \<open>
  \<open>save_master_connection_settings\<close> and \<open>save_sftp_connection_settings\<close>: the new
  text of the file, which replaces the old one at once.
\<close>

definition save_connection_settings :: "string \<Rightarrow> string list \<Rightarrow> (string \<times> string) list \<Rightarrow> exc + string" where
  "save_connection_settings what allowed values =
    (let unexpected = filter (\<lambda>k. k \<notin> set allowed) (map fst values)
     in if unexpected \<noteq> [] then Inl (ValueError (''Unsupported '' @ what @ '' setting(s): '' @ py_join '', '' (sort unexpected)))
        else if list_ex (\<lambda>(k, v). CHR 0x0A \<in> set v \<or> CHR 0x0D \<in> set v) values then
          Inl (ValueError (what @ '' settings cannot contain line breaks.''))
        else Inr (settings_text values))"

definition save_master_connection_settings :: "(string \<times> string) list \<Rightarrow> exc + string" where
  "save_master_connection_settings values = save_connection_settings ''Master'' MASTER_CONNECTION_RUNTIME_ENV_KEYS values"

definition save_sftp_connection_settings :: "(string \<times> string) list \<Rightarrow> exc + string" where
  "save_sftp_connection_settings values = save_connection_settings ''SFTP'' SFTP_CONNECTION_RUNTIME_ENV_KEYS values"

section \<open>What a connection must look like\<close>

definition FRANCHISE_CODE_PLACEHOLDERS :: "string list" where
  "FRANCHISE_CODE_PLACEHOLDERS = [[], ''CHANGE-ME'', ''CHANGEME'', ''DEFAULT'', ''FRANCHISE'', ''FRANCHISE-CODE'', ''LITE'', ''MASTER'',
     ''SETUORA'', ''YOUR-FRANCHISE'', ''YOUR-FRANCHISE-CODE'']"

definition token_char :: "char \<Rightarrow> bool" where
  "token_char c \<longleftrightarrow> is_upper_letter (char_upper c) \<or> is_digit c \<or> c = CHR ''_'' \<or> c = CHR ''-''"

definition franchise_code_shape :: "string \<Rightarrow> bool" where
  "franchise_code_shape s \<longleftrightarrow> s \<noteq> [] \<and> length s \<le> 20 \<and> (is_upper_letter (hd s) \<or> is_digit (hd s)) \<and> list_all code_char s"

definition master_api_key_shape :: "string \<Rightarrow> bool" where
  "master_api_key_shape s \<longleftrightarrow>
    (case py_split_on (CHR ''.'') s of
       [prefix, node, secret] \<Rightarrow> prefix = ''setuora-node'' \<and> node \<noteq> [] \<and> list_all token_char node \<and>
         32 \<le> length secret \<and> list_all token_char secret
     | _ \<Rightarrow> False)"

definition sftp_username_shape :: "string \<Rightarrow> bool" where
  "sftp_username_shape s \<longleftrightarrow> s \<noteq> [] \<and> length s \<le> 64 \<and> (is_upper_letter (char_upper (hd s)) \<or> is_digit (hd s)) \<and>
     list_all (\<lambda>c. token_char c \<or> c = CHR ''.'') s"

definition sftp_host_key_shape :: "string \<Rightarrow> bool" where
  "sftp_host_key_shape s \<longleftrightarrow> starts_with ''SHA256:'' s \<and> length s = 50 \<and>
     list_all (\<lambda>c. is_upper_letter (char_upper c) \<or> is_digit c \<or> c = CHR ''+'' \<or> c = CHR ''/'') (drop 7 s)"

text \<open>Labels of 1 to 63 characters, and at most 253 characters without a final dot.\<close>

definition dns_label :: "string \<Rightarrow> bool" where
  "dns_label l \<longleftrightarrow> l \<noteq> [] \<and> length l \<le> 63 \<and> hd l \<noteq> CHR ''-'' \<and> last l \<noteq> CHR ''-'' \<and>
     list_all (\<lambda>c. is_upper_letter (char_upper c) \<or> is_digit c \<or> c = CHR ''-'') l"

definition dns_name :: "string \<Rightarrow> bool" where
  "dns_name s \<longleftrightarrow>
    (let body = (if s \<noteq> [] \<and> last s = CHR ''.'' then butlast s else s)
     in length body \<le> 253 \<and> list_all dns_label (py_split_on (CHR ''.'') body))"

definition rstrip_char :: "char \<Rightarrow> string \<Rightarrow> string" where
  "rstrip_char c s = rev (dropWhile (\<lambda>x. x = c) (rev s))"

definition master_url_configuration_error :: "(string \<Rightarrow> bool) \<Rightarrow> string \<Rightarrow> string option" where
  "master_url_configuration_error bracketed value =
    (case urlsplit bracketed value of None \<Rightarrow> Some ''MASTER_URL must be an exact HTTPS origin.''
     | Some u \<Rightarrow>
    (case url_port u of None \<Rightarrow> Some ''MASTER_URL must be an exact HTTPS origin.''
     | Some port \<Rightarrow>
         let hostname = rstrip_char (CHR ''.'') (py_lower (text_of (url_hostname u))); (name, password) = url_user_info u
         in if url_scheme u \<noteq> ''https'' \<or> hostname = [] \<or> CHR ''*'' \<in> set hostname \<or> text_of name \<noteq> [] \<or> text_of password \<noteq> [] \<or>
               port \<noteq> None \<or> url_query u \<noteq> [] \<or> url_fragment u \<noteq> [] \<or> url_path u \<notin> {[], ''/''} then
              Some ''MASTER_URL must be an exact HTTPS origin without a path or port.''
            else if \<not> dns_name hostname then Some ''MASTER_URL contains an invalid DNS hostname.''
            else None))"

definition sftp_host_configuration_error :: "(string \<Rightarrow> bool) \<Rightarrow> string \<Rightarrow> string option" where
  "sftp_host_configuration_error is_address value =
    (let host = rstrip_char (CHR ''.'') (py_strip value)
     in if host = [] \<or> text_in ''://'' host \<or> CHR ''/'' \<in> set host \<or> CHR 0x5C \<in> set host \<or> CHR ''@'' \<in> set host then
          Some ''SFTP_HOST must be a DNS name or IP address without a URL scheme or path.''
        else if 253 < length host then Some ''SFTP_HOST must be 253 characters or fewer.''
        else if dns_name host \<or> is_address host then None
        else Some ''SFTP_HOST must be a valid DNS name or IP address.'')"

section \<open>The settings\<close>

definition flag_value :: "string \<Rightarrow> bool" where
  "flag_value v \<longleftrightarrow> py_lower (py_strip v) \<in> set [''1'', ''true'', ''yes'', ''on'']"

definition comma_separated :: "string \<Rightarrow> string list" where
  "comma_separated text = map (\<lambda>v. py_lower (py_strip v)) (filter (\<lambda>v. py_strip v \<noteq> []) (py_split_on (CHR '','') text))"

definition DEFAULT_SECRET_KEY :: string where "DEFAULT_SECRET_KEY = ''dev-change-me''"

definition PLACEHOLDER_SECRET_KEYS :: "string list" where
  "PLACEHOLDER_SECRET_KEYS = [DEFAULT_SECRET_KEY, ''change-this-before-production'', ''replace-with-a-long-random-secret'']"

text \<open>
  The key file: what reading it gives (\<open>None\<close> without a file, \<open>Inl\<close> for an
  \<open>OSError\<close>), the random text of a new key, and whether it could be written.
\<close>

record key_file =
  kyf_stored :: "string + string option"
  kyf_generated :: string
  kyf_writable :: bool

definition resolve_secret_key :: "(string \<Rightarrow> string option) \<Rightarrow> key_file \<Rightarrow> string" where
  "resolve_secret_key env f =
    (let given = py_strip (text_of (env ''APP_SECRET_KEY'')); fallback = (if given = [] then DEFAULT_SECRET_KEY else given);
         create = (if kyf_writable f then kyf_generated f else fallback)
     in if given \<noteq> [] \<and> given \<notin> set PLACEHOLDER_SECRET_KEYS \<and> 32 \<le> length given then given
        else (case kyf_stored f of Inl e \<Rightarrow> fallback
          | Inr (Some text) \<Rightarrow> if 32 \<le> length (py_strip text) then py_strip text else create
          | Inr None \<Rightarrow> create))"

text \<open>The environment of a process and the texts of its two runtime files.\<close>

record installation =
  ins_env :: "string \<Rightarrow> string option"
  ins_master_file :: "string option"
  ins_sftp_file :: "string option"
  ins_key_file :: key_file

record app_settings =
  aps_app_mode :: string
  aps_app_name :: string
  aps_secret_key :: string
  aps_database_url :: string
  aps_session_timeout_minutes :: int
  aps_bootstrap_admin_username :: string
  aps_bootstrap_admin_password :: string
  aps_cookie_secure :: bool
  aps_trusted_hosts :: "string list"
  aps_login_max_attempts :: int
  aps_login_lockout_minutes :: int
  aps_automatic_backups_enabled :: bool
  aps_backup_directory :: string
  aps_backup_offsite_directory :: string
  aps_backup_interval_minutes :: int
  aps_backup_retention_count :: int
  aps_backup_startup_delay_seconds :: int
  aps_container_deployment :: bool
  aps_franchise_code :: string
  aps_master_url :: string
  aps_master_api_key :: string
  aps_master_sync_enabled :: bool
  aps_master_sync_interval_seconds :: int
  aps_master_request_timeout_seconds :: int
  aps_master_tls_verify :: bool
  aps_sftp_sync_enabled :: bool
  aps_sftp_host :: string
  aps_sftp_port :: int
  aps_sftp_username :: string
  aps_sftp_password :: string
  aps_sftp_host_key_sha256 :: string
  aps_sftp_sync_interval_seconds :: int
  aps_sftp_connect_timeout_seconds :: int
  aps_sftp_max_xml_bytes :: int

text \<open>\<open>RuntimeError\<close>, or the \<open>ValueError\<close> of \<open>int\<close> with the text it was given.\<close>

datatype config_failure = UnsupportedMode string | NotANumber string

definition or_env :: "(string \<Rightarrow> string option) \<Rightarrow> (string \<Rightarrow> string option) \<Rightarrow> string \<Rightarrow> string \<Rightarrow> string" where
  "or_env runtime env name default_value =
    (case runtime name of Some v \<Rightarrow> v | None \<Rightarrow> (case env name of Some v \<Rightarrow> v | None \<Rightarrow> default_value))"

definition read_int :: "string \<Rightarrow> config_failure + int" where
  "read_int text = (case py_int text of None \<Rightarrow> Inl (NotANumber text) | Some n \<Rightarrow> Inr n)"

fun read_ints :: "string list \<Rightarrow> config_failure + int list" where
  "read_ints [] = Inr []"
| "read_ints (t # ts) = bind_res (read_int t) (\<lambda>n. bind_res (read_ints ts) (\<lambda>ns. Inr (n # ns)))"

definition read_settings :: "installation \<Rightarrow> config_failure + app_settings" where
  "read_settings i =
    (let env = ins_env i; os = or_env (\<lambda>k. None) env;
         master = or_env (read_env_file (Some MASTER_CONNECTION_RUNTIME_ENV_KEYS) (ins_master_file i)) env;
         sftp = or_env (read_env_file (Some SFTP_CONNECTION_RUNTIME_ENV_KEYS) (ins_sftp_file i)) env;
         mode = py_lower (py_strip (os ''SETUORA_APP_MODE'' ''lite''))
     in if mode \<notin> set [''lite'', ''legacy''] then Inl (UnsupportedMode ''Setuora-Lite only supports lite mode.'')
        else if mode = ''legacy'' \<and> \<not> flag_value (os ''SETUORA_ALLOW_LEGACY_TEST_MODE'' ''false'') then
          Inl (UnsupportedMode (''Legacy direct-Tally mode is test-only in Setuora-Lite. '' @
            ''Production must use SETUORA_APP_MODE=lite.''))
        else bind_res (read_ints [os ''SESSION_TIMEOUT_MINUTES'' ''480'', os ''LOGIN_MAX_ATTEMPTS'' ''8'',
            os ''LOGIN_LOCKOUT_MINUTES'' ''15'', os ''BACKUP_INTERVAL_MINUTES'' ''30'', os ''BACKUP_RETENTION_COUNT'' ''2'',
            os ''BACKUP_STARTUP_DELAY_SECONDS'' ''60'', master ''MASTER_SYNC_INTERVAL_SECONDS'' ''30'',
            master ''MASTER_REQUEST_TIMEOUT_SECONDS'' ''15'', sftp ''SFTP_PORT'' ''22'', sftp ''SFTP_SYNC_INTERVAL_SECONDS'' ''60'',
            sftp ''SFTP_CONNECT_TIMEOUT_SECONDS'' ''15'', sftp ''SFTP_MAX_XML_BYTES'' ''10485760'']) (\<lambda>n. Inr
          \<lparr>aps_app_mode = mode, aps_app_name = os ''APP_NAME'' (if mode = ''lite'' then ''Setuora Lite'' else ''Setuora''),
           aps_secret_key = resolve_secret_key env (ins_key_file i), aps_database_url = os ''DATABASE_URL'' ''sqlite:///./data/setuora.db'',
           aps_session_timeout_minutes = n ! 0, aps_bootstrap_admin_username = os ''BOOTSTRAP_ADMIN_USERNAME'' ''admin'',
           aps_bootstrap_admin_password = os ''BOOTSTRAP_ADMIN_PASSWORD'' [],
           aps_cookie_secure = flag_value (os ''SESSION_COOKIE_SECURE'' ''false''),
           aps_trusted_hosts = comma_separated (os ''TRUSTED_HOSTS'' ''localhost,127.0.0.1,testserver''),
           aps_login_max_attempts = n ! 1, aps_login_lockout_minutes = n ! 2,
           aps_automatic_backups_enabled = flag_value (os ''AUTOMATIC_BACKUPS_ENABLED'' ''true''),
           aps_backup_directory = os ''BACKUP_DIRECTORY'' ''./data/backups'',
           aps_backup_offsite_directory = py_strip (os ''BACKUP_OFFSITE_DIRECTORY'' []),
           aps_backup_interval_minutes = n ! 3, aps_backup_retention_count = n ! 4, aps_backup_startup_delay_seconds = n ! 5,
           aps_container_deployment = flag_value (os ''SETUORA_CONTAINER_DEPLOYMENT'' ''false''),
           aps_franchise_code = py_upper (py_strip (master ''FRANCHISE_CODE'' [])),
           aps_master_url = rstrip_char (CHR ''/'') (py_strip (master ''MASTER_URL'' [])),
           aps_master_api_key = py_strip (master ''MASTER_API_KEY'' []),
           aps_master_sync_enabled = flag_value (master ''MASTER_SYNC_ENABLED'' ''false''),
           aps_master_sync_interval_seconds = max 15 (n ! 6), aps_master_request_timeout_seconds = max 3 (n ! 7),
           aps_master_tls_verify = flag_value (master ''MASTER_TLS_VERIFY'' ''true''),
           aps_sftp_sync_enabled = flag_value (sftp ''SFTP_SYNC_ENABLED'' ''false''), aps_sftp_host = py_strip (sftp ''SFTP_HOST'' []),
           aps_sftp_port = n ! 8, aps_sftp_username = py_strip (sftp ''SFTP_USERNAME'' []), aps_sftp_password = sftp ''SFTP_PASSWORD'' [],
           aps_sftp_host_key_sha256 = py_strip (sftp ''SFTP_HOST_KEY_SHA256'' []),
           aps_sftp_sync_interval_seconds = max 15 (n ! 9), aps_sftp_connect_timeout_seconds = max 3 (n ! 10),
           aps_sftp_max_xml_bytes = max 1024 (n ! 11)\<rparr>))"

definition using_default_secret :: "app_settings \<Rightarrow> bool" where
  "using_default_secret s \<longleftrightarrow> aps_secret_key s \<in> set PLACEHOLDER_SECRET_KEYS \<or> length (py_strip (aps_secret_key s)) < 32"

definition franchise_code_error :: "string \<Rightarrow> bool" where
  "franchise_code_error code \<longleftrightarrow> code \<in> set FRANCHISE_CODE_PLACEHOLDERS \<or> 20 < length code \<or> \<not> franchise_code_shape code"

definition master_sync_configuration_error :: "(string \<Rightarrow> bool) \<Rightarrow> app_settings \<Rightarrow> string option" where
  "master_sync_configuration_error bracketed s =
    (if \<not> aps_master_sync_enabled s then None
     else if franchise_code_error (aps_franchise_code s) then
       Some ''FRANCHISE_CODE must be a permanent, unique code of at most 20 characters.''
     else case master_url_configuration_error bracketed (aps_master_url s) of Some m \<Rightarrow> Some m
     | None \<Rightarrow>
         if \<not> master_api_key_shape (aps_master_api_key s) then Some ''MASTER_API_KEY must use the setuora-node.<id>.<secret> format.''
         else if \<not> aps_master_tls_verify s then Some ''MASTER_TLS_VERIFY must remain true for Master synchronization.''
         else None)"

definition sftp_sync_configuration_error :: "(string \<Rightarrow> bool) \<Rightarrow> app_settings \<Rightarrow> string option" where
  "sftp_sync_configuration_error is_address s =
    (if \<not> aps_sftp_sync_enabled s then None
     else if franchise_code_error (aps_franchise_code s) then
       Some (''FRANCHISE_CODE must be the 1-20 character code enrolled on '' @
         ''Setuora Master (letters, numbers, underscore, or hyphen).'')
     else case sftp_host_configuration_error is_address (aps_sftp_host s) of Some m \<Rightarrow> Some m
     | None \<Rightarrow>
         if \<not> (1 \<le> aps_sftp_port s \<and> aps_sftp_port s \<le> 65535) then Some ''SFTP_PORT must be a number from 1 to 65535.''
         else if \<not> sftp_username_shape (aps_sftp_username s) then Some ''SFTP_USERNAME contains unsupported characters.''
         else if aps_sftp_password s = [] then Some ''SFTP_PASSWORD is required.''
         else if \<not> sftp_host_key_shape (aps_sftp_host_key_sha256 s) then
           Some ''SFTP_HOST_KEY_SHA256 must be the exact SHA256 fingerprint supplied by Master.''
         else None)"

text \<open>What the start of a process loads: \<open>.env\<close>, which never overrides, and the backup settings, which do.\<close>

definition BACKUP_RUNTIME_ENV_KEYS :: "string list" where
  "BACKUP_RUNTIME_ENV_KEYS = [''AUTOMATIC_BACKUPS_ENABLED'', ''BACKUP_DIRECTORY'', ''BACKUP_OFFSITE_DIRECTORY'',
     ''BACKUP_INTERVAL_MINUTES'', ''BACKUP_RETENTION_COUNT'']"

definition load_env_file :: "string list option \<Rightarrow> bool \<Rightarrow> string option \<Rightarrow> (string \<Rightarrow> string option) \<Rightarrow> string \<Rightarrow> string option" where
  "load_env_file allowed override file env =
    (\<lambda>k. case (if override then env k else read_env_file allowed file k, if override then read_env_file allowed file k else env k) of
       (weak, Some v) \<Rightarrow> Some v | (weak, None) \<Rightarrow> weak)"

definition startup_environment :: "string option \<Rightarrow> string option \<Rightarrow> (string \<Rightarrow> string option) \<Rightarrow> string \<Rightarrow> string option" where
  "startup_environment dotenv backup_settings env =
    load_env_file (Some BACKUP_RUNTIME_ENV_KEYS) True backup_settings (load_env_file None False dotenv env)"

section \<open>What was saved is read back\<close>

text \<open>A value the file gives back: one line, no blanks around it, not between two quotation marks of a kind.\<close>

definition storable :: "string \<Rightarrow> bool" where
  "storable v \<longleftrightarrow> list_all (\<lambda>c. \<not> line_break c) v \<and> py_strip v = v \<and> \<not> quoted_by (CHR 0x22) v \<and> \<not> quoted_by (CHR 0x27) v"

definition runtime_key :: "string \<Rightarrow> bool" where
  "runtime_key k \<longleftrightarrow> k \<noteq> [] \<and> list_all (\<lambda>c. is_upper_letter c \<or> is_digit c \<or> c = CHR ''_'') k"

lemma split_lines_line:
  assumes "list_all (\<lambda>c. \<not> line_break c) l"
  shows "split_lines acc (l @ CHR 0x0A # rest) = rev (rev l @ acc) # split_lines [] rest"
  using assms by (induction l arbitrary: acc) (simp_all add: line_break_def)

lemma py_strip_keep:
  assumes "s \<noteq> []" "\<not> py_space (hd s)" "\<not> py_space (last s)"
  shows "py_strip s = s"
proof -
  have "dropWhile py_space s = s" using assms by (cases s) simp_all
  moreover have "dropWhile py_space (rev s) = rev s" using assms by (cases s rule: rev_cases) simp_all
  ultimately show ?thesis by (simp add: py_strip_by_def)
qed

lemma env_line_saved:
  assumes "runtime_key k" "storable v" "k \<in> set allowed"
  shows "env_line (Some allowed) (k @ ''='' @ v) = Some (k, v)"
proof -
  note k = assms(1) [unfolded runtime_key_def] and v = assms(2) [unfolded storable_def]
  have plain: "\<not> py_space c \<and> c \<noteq> CHR ''='' \<and> c \<noteq> CHR ''#''" if "is_upper_letter c \<or> is_digit c \<or> c = CHR ''_''" for c
    using that by (auto simp: is_upper_letter_def is_digit_def py_space_def Let_def)
  have kc: "\<not> py_space c" "c \<noteq> CHR ''=''" "c \<noteq> CHR ''#''" if "c \<in> set k" for c
    using k that plain [of c] by (auto simp: list_all_iff)
  have "last (k @ ''='' @ v) \<in> {CHR ''='', last v} \<and> (v = [] \<longrightarrow> last (k @ ''='' @ v) = CHR ''='')" by (cases v) simp_all
  moreover have "\<not> py_space (CHR ''='')" by (simp add: py_space_def)
  moreover have "\<not> py_space (last v)" if "v \<noteq> []" using py_strip_by_last [of py_space v] v that by simp
  ultimately have "\<not> py_space (last (k @ ''='' @ v))" by (cases "v = []") auto
  moreover have "hd (k @ ''='' @ v) \<in> set k" using k by simp
  ultimately have strip: "py_strip (k @ ''='' @ v) = k @ ''='' @ v" using kc k by (intro py_strip_keep) auto
  have kk: "py_strip k = k" using k kc by (intro py_strip_keep) auto
  have "\<not> starts_with ''export '' k"
  proof
    assume "starts_with ''export '' k"
    then have "take (length ''export '') k = ''export ''" by (simp only: starts_with_def)
    moreover have "CHR '' '' \<in> set ''export ''" by simp
    ultimately have "CHR '' '' \<in> set k" by (metis in_set_takeD)
    from kc(1) [OF this] show False by (simp add: py_space_def)
  qed
  then have key: "env_key k = k" by (simp add: env_key_def kk)
  have "cut (CHR ''='') (k @ ''='' @ v) = (k, Some v)" using cut_at [of "CHR ''=''" k v] kc(2) by auto
  moreover have "env_value v = v" using v by (simp add: env_value_def)
  moreover have "hd (k @ ''='' @ v) \<noteq> CHR ''#''" using k kc(3) \<open>hd (k @ ''='' @ v) \<in> set k\<close> by metis
  ultimately show ?thesis using k assms(3) by (simp only: env_line_def strip Let_def) (simp add: key)
qed

lemma read_lines:
  assumes "\<forall>(k, v) \<in> set kvs. runtime_key k \<and> storable v \<and> k \<in> set allowed"
  shows "List.map_filter (env_line (Some allowed)) (split_lines [] (concat (map (\<lambda>(k, v). k @ ''='' @ v @ [CHR 0x0A]) kvs))) = kvs"
  using assms
proof (induction kvs)
  case (Cons kv kvs)
  obtain k v where kv: "kv = (k, v)" by (cases kv)
  then have kv': "runtime_key k" "storable v" "k \<in> set allowed" using Cons.prems by auto
  have "\<not> line_break c" if "is_upper_letter c \<or> is_digit c \<or> c = CHR ''_''" for c
    using that by (auto simp: is_upper_letter_def is_digit_def line_break_def Let_def)
  then have "list_all (\<lambda>c. \<not> line_break c) (k @ ''='' @ v)"
    using kv'(1,2) by (auto simp: runtime_key_def storable_def list_all_iff line_break_def)
  from split_lines_line [OF this, of "[]"] env_line_saved [OF kv'] Cons show ?case
    by (simp add: kv map_filter_simps)
qed (simp add: map_filter_simps)

lemma save_read:
  assumes "save_connection_settings what allowed kvs = Inr text" "distinct (map fst kvs)"
    and "\<forall>(k, v) \<in> set kvs. runtime_key k \<and> storable v"
  shows "read_env_file (Some allowed) (Some text) = map_of kvs"
proof -
  have a: "text = settings_text kvs" "\<forall>(k, v) \<in> set kvs. k \<in> set allowed"
    using assms(1) by (auto simp: save_connection_settings_def filter_empty_conv split: if_splits)
  have "List.map_filter (env_line (Some allowed)) (split_lines [] text) = sort_key fst kvs"
    unfolding a(1) settings_text_def by (rule read_lines) (use assms(3) a(2) in auto)
  moreover have "mset (map fst (rev (sort_key fst kvs))) = mset (map fst kvs)" by simp
  then have "distinct (map fst (rev (sort_key fst kvs)))" using assms(2) by (metis mset_eq_imp_distinct_iff)
  then have "map_of (rev (sort_key fst kvs)) = map_of kvs" using assms(2) by (subst map_of_inject_set) simp_all
  ultimately show ?thesis by (simp add: read_env_file_def text_of_def)
qed

text \<open>
  C36. What the Master form saves is what the next start reads: when the settings of the connection
  were accepted for saving and every value is one line without blanks or quotation marks around it,
  reading the written file gives exactly the saved values back.
\<close>

theorem saved_settings_read_back:
  assumes "save_master_connection_settings kvs = Inr text" "distinct (map fst kvs)" "\<forall>(k, v) \<in> set kvs. storable v"
  shows "read_env_file (Some MASTER_CONNECTION_RUNTIME_ENV_KEYS) (Some text) = map_of kvs"
proof -
  have keys: "list_all runtime_key MASTER_CONNECTION_RUNTIME_ENV_KEYS" by code_simp
  have "\<forall>(k, v) \<in> set kvs. k \<in> set MASTER_CONNECTION_RUNTIME_ENV_KEYS"
    using assms(1) by (auto simp: save_master_connection_settings_def save_connection_settings_def filter_empty_conv split: if_splits)
  then have "\<forall>(k, v) \<in> set kvs. runtime_key k \<and> storable v" using assms(3) keys by (fastforce simp: list_all_iff)
  with save_read [OF assms(1) [unfolded save_master_connection_settings_def] assms(2)] show ?thesis by blast
qed

text \<open>
  A password is not: whatever password is saved between two quotation marks -- the only check is
  that it has no line break -- is read back without them.
\<close>

theorem quoted_password_changes:
  assumes "list_all (\<lambda>c. \<not> line_break c \<and> c \<noteq> CHR 0x5C) p"
  shows "\<exists>text. save_sftp_connection_settings [(''SFTP_PASSWORD'', [CHR 0x22] @ p @ [CHR 0x22])] = Inr text \<and>
    read_env_file (Some SFTP_CONNECTION_RUNTIME_ENV_KEYS) (Some text) ''SFTP_PASSWORD'' = Some p \<and> p \<noteq> [CHR 0x22] @ p @ [CHR 0x22]"
proof -
  let ?v = "[CHR 0x22] @ p @ [CHR 0x22]" and ?k = "''SFTP_PASSWORD''"
  let ?l = "?k @ ''='' @ ?v"
  have "line_break (CHR 0x0A)" "line_break (CHR 0x0D)" by code_simp+
  then have "CHR 0x0A \<notin> set p" "CHR 0x0D \<notin> set p" using assms unfolding list_all_iff by blast+
  then have breaks: "CHR 0x0A \<notin> set ?v" "CHR 0x0D \<notin> set ?v" by simp_all
  have s: "save_sftp_connection_settings [(?k, ?v)] = Inr (settings_text [(?k, ?v)])"
    using breaks by (simp add: save_sftp_connection_settings_def save_connection_settings_def SFTP_CONNECTION_RUNTIME_ENV_KEYS_def)
  have "list_all (\<lambda>c. \<not> line_break c) p" using assms by (simp add: list_all_iff)
  moreover have "list_all (\<lambda>c. \<not> line_break c) (?k @ ''='' @ [CHR 0x22])" by code_simp
  ultimately have "list_all (\<lambda>c. \<not> line_break c) ?l" unfolding list_all_append list.pred_inject by blast
  from split_lines_line [OF this, of "[]" "[]"] have lines: "split_lines [] (settings_text [(?k, ?v)]) = [?l]"
    by (simp add: settings_text_def)
  have strip: "py_strip ?l = ?l" by (rule py_strip_keep) (simp_all add: py_space_def)
  have "unescape s = s" if "list_all (\<lambda>c. c \<noteq> CHR 0x5C) s" for s using that by (induction s rule: unescape.induct) auto
  then have "unescape p = p" using assms by (simp add: list_all_iff)
  moreover have "py_strip ?v = ?v" by (rule py_strip_keep) (simp_all add: py_space_def)
  ultimately have v: "env_value ?v = p" by (simp add: env_value_def quoted_by_def)
  have k: "env_key ?k = ?k" "?k \<in> set SFTP_CONNECTION_RUNTIME_ENV_KEYS" by code_simp+
  have "cut (CHR ''='') ?l = (?k, Some ?v)" using cut_at [of "CHR ''=''" ?k ?v] by simp
  then have "env_line (Some SFTP_CONNECTION_RUNTIME_ENV_KEYS) ?l = Some (?k, p)"
    using k v by (simp only: env_line_def strip Let_def) simp
  then show ?thesis using s lines by (simp add: read_env_file_def text_of_def map_filter_simps)
qed

end
