(* ===== verification/Connection.thy ===== *)
theory Connection
  imports Config Accounts Commands
begin

text \<open>
  The connection to the Master as its administrator sees it, \<open>app/routers/lite_sync.py\<close>:
  connecting with the setup details of the Master, changing the connection, synchronising now,
  the baseline, and repeating a failed event.  The lock around \<open>connect_to_master\<close> makes
  the requests a sequence.  What the Master answers is part of a \<open>connection_world\<close>.
\<close>

definition SYNC_ADMIN_ROLES :: role_arg where "SYNC_ADMIN_ROLES = ItemsArg [RoleItem SUPER_ADMIN, RoleItem ADMIN]"

definition MAX_SYNC_INTERVAL_SECONDS :: int where "MAX_SYNC_INTERVAL_SECONDS = 3600"
definition MAX_REQUEST_TIMEOUT_SECONDS :: int where "MAX_REQUEST_TIMEOUT_SECONDS = 120"
definition MAX_SFTP_INTERVAL_SECONDS :: int where "MAX_SFTP_INTERVAL_SECONDS = 3600"
definition MAX_SFTP_CONNECT_TIMEOUT_SECONDS :: int where "MAX_SFTP_CONNECT_TIMEOUT_SECONDS = 120"

definition CONNECTION_BUNDLE_FIELDS :: "string list" where
  "CONNECTION_BUNDLE_FIELDS = [''format'', ''version'', ''master_url'', ''franchise_code'', ''node_credential'']"

definition CONNECTION_NODE_KEY :: string where "CONNECTION_NODE_KEY = ''_master_connection_node_id''"
definition CONNECTION_ORIGIN_KEY :: string where "CONNECTION_ORIGIN_KEY = ''_master_connection_origin''"
definition CONNECTION_CHECK_KEY :: string where "CONNECTION_CHECK_KEY = ''_master_connection_checked_at''"
definition CONNECTION_RESULT_KEY :: string where "CONNECTION_RESULT_KEY = ''_master_connection_check_result''"

section \<open>Setup details\<close>

record setup_details =
  bdl_master_url :: string
  bdl_franchise_code :: string
  bdl_node_credential :: string

definition parse_connection_bundle :: "(string \<Rightarrow> json option) \<Rightarrow> string \<Rightarrow> exc + setup_details" where
  "parse_connection_bundle loads text =
    (if 8192 < length text then Inl (MasterSyncError ''Setup details are too long. Copy them again from Setuora Master.'')
     else case loads text of
       None \<Rightarrow> Inl (MasterSyncError ''Paste the complete setup details copied from Setuora Master.'')
     | Some v \<Rightarrow>
         (case (v, jfield ''format'' v, jfield ''version'' v, jfield ''master_url'' v, jfield ''franchise_code'' v, jfield ''node_credential'' v) of
            (JObj kvs, Some (JStr f), Some (JInt n), Some (JStr url), Some (JStr code), Some (JStr key)) \<Rightarrow>
              if set (map fst kvs) = set CONNECTION_BUNDLE_FIELDS \<and> f = ''setuora-lite-connection'' \<and> n = 1 then
                Inr \<lparr>bdl_master_url = url, bdl_franchise_code = code, bdl_node_credential = key\<rparr>
              else Inl (MasterSyncError ''These setup details are not supported. Copy fresh details from Setuora Master.'')
          | _ \<Rightarrow> Inl (MasterSyncError ''These setup details are not supported. Copy fresh details from Setuora Master.'')))"

definition saved_connection_value :: "db \<Rightarrow> string \<Rightarrow> string" where
  "saved_connection_value d k = text_of (stored_setting d k)"

text \<open>A row whose value does not change is not written.\<close>

definition store_connection_value :: "moment \<Rightarrow> string \<Rightarrow> string \<Rightarrow> db \<Rightarrow> db" where
  "store_connection_value now k v d = (if stored_setting d k = Some v then d else put_setting now (k, v) d)"

definition normalized_origin :: "string \<Rightarrow> string" where
  "normalized_origin v = py_lower (rstrip_char (CHR ''/'') (py_strip v))"

definition first_event :: "db \<Rightarrow> outbox_event option" where
  "first_event d = (case sort_key evt_id (outbox d) of [] \<Rightarrow> None | e # es \<Rightarrow> Some e)"

definition saved_origin :: "app_settings \<Rightarrow> db \<Rightarrow> string" where
  "saved_origin current d = or_else (saved_connection_value d CONNECTION_ORIGIN_KEY) (normalized_origin (aps_master_url current))"

definition validate_connection_identity ::
  "(string \<Rightarrow> bool) \<Rightarrow> app_settings \<Rightarrow> string \<Rightarrow> string \<Rightarrow> string \<Rightarrow> db \<Rightarrow> exc option"
where
  "validate_connection_identity bracketed current code origin credential d =
    (if code \<in> set FRANCHISE_CODE_PLACEHOLDERS \<or> \<not> franchise_code_shape code then
       Some (MasterSyncError ''Enter the permanent franchise code supplied by Master (1-20 letters, numbers, underscores or hyphens).'')
     else case master_url_configuration_error bracketed origin of
       Some m \<Rightarrow> Some (MasterSyncError (py_replace ''MASTER_URL'' ''Master URL'' m))
     | None \<Rightarrow>
         if 512 < length credential \<or> \<not> master_api_key_shape credential then
           Some (MasterSyncError ''Enter the complete node credential supplied by Setuora Master.'')
         else if first_event d \<noteq> None \<and> (code \<noteq> aps_franchise_code current \<or> \<not> initial_inventory_is_queued code d) then
           Some (MasterSyncError ''Franchise code is locked because this node already has outbox events.'')
         else if first_event d \<noteq> None \<and> origin \<noteq> saved_origin current d then
           Some (MasterSyncError (''This Lite installation is already linked to a different Master address. '' @
             ''Ask the administrator to migrate the connection.''))
         else if credential = aps_master_api_key current \<and> aps_master_api_key current \<noteq> [] \<and> origin \<noteq> saved_origin current d then
           Some (MasterSyncError (''A saved credential cannot be reused at a different Master address. '' @
             ''Copy new setup details from Master.''))
         else None)"

section \<open>Error texts\<close>

text \<open>\<open>setuora-node\.[A-Za-z0-9_-]+\.[A-Za-z0-9_-]+\<close> at the start of a text: what follows the match.\<close>

definition credential_match :: "string \<Rightarrow> string option" where
  "credential_match s =
    (if \<not> starts_with ''setuora-node.'' s then None
     else let r = drop 13 s; node = takeWhile token_char r; r1 = dropWhile token_char r
     in case r1 of
          c # r2 \<Rightarrow> if c = CHR ''.'' \<and> node \<noteq> [] \<and> takeWhile token_char r2 \<noteq> [] then Some (dropWhile token_char r2) else None
        | [] \<Rightarrow> None)"

fun redact_credentials :: "nat \<Rightarrow> string \<Rightarrow> string" where
  "redact_credentials n [] = []"
| "redact_credentials 0 (c # cs) = c # cs"
| "redact_credentials (Suc n) (c # cs) =
     (case credential_match (c # cs) of None \<Rightarrow> c # redact_credentials n cs
      | Some rest \<Rightarrow> ''[redacted]'' @ redact_credentials n rest)"

definition redacted_connection_error :: "exc \<Rightarrow> string list \<Rightarrow> string" where
  "redacted_connection_error e credentials =
    (let m = fold redact credentials (exc_text e) in take 1000 (redact_credentials (length m) m))"

section \<open>The world of a request\<close>

record connection_world =
  cnw_loads :: "string \<Rightarrow> json option"
  cnw_bracketed :: "string \<Rightarrow> bool"
  cnw_sha :: "string \<Rightarrow> string"
  cnw_event_ids :: "nat \<Rightarrow> string"
  cnw_identity :: http_result
  cnw_push :: "nat \<Rightarrow> delivery"
  cnw_push_again :: "nat \<Rightarrow> delivery"
  cnw_commands :: http_result
  cnw_poll :: poll_world
  cnw_writable :: "string option"

text \<open>The six settings the other services read.\<close>

definition service_settings :: "app_settings \<Rightarrow> settings" where
  "service_settings s = \<lparr>cfg_app_mode = aps_app_mode s, cfg_franchise_code = aps_franchise_code s,
     cfg_master_sync_enabled = aps_master_sync_enabled s, cfg_master_url = aps_master_url s,
     cfg_master_api_key = aps_master_api_key s, cfg_request_timeout = aps_master_request_timeout_seconds s\<rparr>"

definition iso_seconds :: "moment \<Rightarrow> string" where
  "iso_seconds t =
    (let secs = t mod microseconds_per_day div 1000000; two = (\<lambda>n. zero_pad 2 (nat n))
     in iso_date (day_of t) @ ''T'' @ two (secs div 3600) @ '':'' @ two (secs div 60 mod 60) @ '':'' @ two (secs mod 60) @ ''+00:00'')"

text \<open>
  \<open>UUID(text)\<close> written out canonically, for texts of hexadecimal digits with the decoration
  it allows; signs, blanks and underscores, which \<open>int\<close> would also read, are left out.
\<close>

definition hexadecimal :: "char \<Rightarrow> bool" where
  "hexadecimal c \<longleftrightarrow> is_digit c \<or> char_lower c \<in> set ''abcdef''"

definition canonical_uuid :: "string \<Rightarrow> string option" where
  "canonical_uuid s =
    (let bare = py_replace ''uuid:'' [] (py_replace ''urn:'' [] s);
         hex = py_lower (filter (\<lambda>c. c \<noteq> CHR ''-'') (py_strip_by (\<lambda>c. c \<in> set ''{}'') bare))
     in if length hex = 32 \<and> list_all hexadecimal hex then
          Some (take 8 hex @ ''-'' @ take 4 (drop 8 hex) @ ''-'' @ take 4 (drop 12 hex) @ ''-'' @ take 4 (drop 16 hex) @ ''-'' @ drop 20 hex)
        else None)"

fun public_id :: "json option \<Rightarrow> string option" where
  "public_id (Some (JStr s)) = canonical_uuid s"
| "public_id (Some (JInt n)) = canonical_uuid (int_str n)"
| "public_id _ = None"

section \<open>Synchronising\<close>

text \<open>The database, and the counts or the exception that ended it; a rolled back request keeps what the services committed.\<close>

definition sync_connection :: "connection_world \<Rightarrow> settings \<Rightarrow> moment \<Rightarrow> db \<Rightarrow> db \<times> (exc + nat \<times> nat \<times> bool)" where
  "sync_connection w cfg now d =
    (case push_pending_events (cnw_sha w) cfg (cnw_push w) 100 d of Inl e \<Rightarrow> (d, Inl e)
     | Inr (d1, sent) \<Rightarrow>
    (case poll_master_commands (cnw_sha w) cfg (cnw_commands w) (cnw_poll w) 100 d1 of
       (d2, n, Some e) \<Rightarrow> (d2, Inl e)
     | (d2, n, None) \<Rightarrow>
    (case (if n = 0 then Inr (d2, 0) else push_pending_events (cnw_sha w) cfg (cnw_push_again w) 100 d2) of
       Inl e \<Rightarrow> (d2, Inl e)
     | Inr (d3, again) \<Rightarrow>
         let pending = list_ex (\<lambda>e. evt_status e \<noteq> O_SENT) (outbox d3)
         in (store_connection_value now CONNECTION_RESULT_KEY (if pending then ''pending'' else ''connected'')
              (store_connection_value now CONNECTION_CHECK_KEY (iso_seconds now) d3),
             Inr (sent + again, n, pending)))))"

section \<open>The requests\<close>

datatype connection_answer =
    Declined http_error
  | FormError string
  | Notice string
  | Message string
  | Detail nat string

record connection_form =
  cof_setup_details :: string
  cof_franchise_code :: string
  cof_master_url :: string
  cof_master_api_key :: string
  cof_sync_enabled :: "string option"
  cof_sync_interval :: string
  cof_request_timeout :: string

definition proposed_connection ::
  "(string \<Rightarrow> json option) \<Rightarrow> connection_form \<Rightarrow> app_settings \<Rightarrow> exc + string \<times> string \<times> string"
where
  "proposed_connection loads f current =
    (if py_strip (cof_setup_details f) \<noteq> [] then
       bind_res (parse_connection_bundle loads (cof_setup_details f)) (\<lambda>b.
         Inr (py_upper (py_strip (bdl_franchise_code b)), normalized_origin (bdl_master_url b), py_strip (bdl_node_credential b)))
     else Inr (py_upper (or_else (py_strip (cof_franchise_code f)) (aps_franchise_code current)),
       normalized_origin (or_else (cof_master_url f) (aps_master_url current)),
       or_else (py_strip (cof_master_api_key f)) (aps_master_api_key current)))"

definition connection_values :: "string \<Rightarrow> string \<Rightarrow> string \<Rightarrow> int \<Rightarrow> int \<Rightarrow> bool \<Rightarrow> (string \<times> string) list" where
  "connection_values code origin credential interval timeout enabled =
     [(''FRANCHISE_CODE'', code), (''MASTER_API_KEY'', credential), (''MASTER_REQUEST_TIMEOUT_SECONDS'', int_str timeout),
      (''MASTER_SYNC_ENABLED'', if enabled then ''true'' else ''false''), (''MASTER_SYNC_INTERVAL_SECONDS'', int_str interval),
      (''MASTER_TLS_VERIFY'', ''true''), (''MASTER_URL'', origin)]"

text \<open>Writing the file; an \<open>OSError\<close> is carried as a \<open>ValueError\<close> with its text.\<close>

definition write_master_file :: "connection_world \<Rightarrow> (string \<times> string) list \<Rightarrow> installation \<Rightarrow> exc + installation" where
  "write_master_file w values i =
    bind_res (save_master_connection_settings values) (\<lambda>text.
      case cnw_writable w of Some e \<Rightarrow> Inl (ValueError e) | None \<Rightarrow> Inr (i\<lparr>ins_master_file := Some text\<rparr>))"

definition settings_or_exc :: "installation \<Rightarrow> exc + app_settings" where
  "settings_or_exc i =
    (case read_settings i of Inr s \<Rightarrow> Inr s
     | Inl (UnsupportedMode m) \<Rightarrow> Inl (ValueError m)
     | Inl (NotANumber t) \<Rightarrow> Inl (ValueError (''invalid literal for int() with base 10: '' @ t)))"

definition latest_sequence :: "db \<Rightarrow> nat" where
  "latest_sequence d = fold max (map evt_id (outbox d)) 0"

definition sent_sequence :: "db \<Rightarrow> nat" where
  "sent_sequence d = fold max (map evt_id (filter (\<lambda>e. evt_status e = O_SENT) (outbox d))) 0"

definition interval_and_timeout :: "connection_form \<Rightarrow> exc + int \<times> int" where
  "interval_and_timeout f =
    (case (Analytics.py_int (cof_sync_interval f), Analytics.py_int (cof_request_timeout f)) of
       (Some interval, Some timeout) \<Rightarrow>
         if \<not> (15 \<le> interval \<and> interval \<le> MAX_SYNC_INTERVAL_SECONDS) \<or> \<not> (3 \<le> timeout \<and> timeout \<le> MAX_REQUEST_TIMEOUT_SECONDS) then
           Inl (MasterSyncError (''Use a sync interval of 15-3600 seconds and a connection timeout of 3-120 seconds.''))
         else Inr (interval, timeout)
     | _ \<Rightarrow> Inl (MasterSyncError ''Sync interval and connection timeout must be whole numbers.''))"

text \<open>The node the Master answers with, when it may be linked.\<close>

definition confirmed_node :: "connection_world \<Rightarrow> string \<Rightarrow> string \<Rightarrow> db \<Rightarrow> exc + string" where
  "confirmed_node w code credential d =
    bind_res (verify_master_enrollment_identity credential code (int (sent_sequence d)) (int (latest_sequence d)) (cnw_identity w))
      (\<lambda>identity. case public_id (jfield ''public_id'' identity) of
         None \<Rightarrow> Inl (MasterSyncError ''Master returned incomplete franchise details. Ask its administrator to check the server version.'')
       | Some node \<Rightarrow>
           let saved = saved_connection_value d CONNECTION_NODE_KEY
           in if saved \<noteq> [] \<and> saved \<noteq> node then
                Inl (MasterSyncError (''These setup details belong to a different Master franchise record. '' @
                  ''Keep this installation linked to its original record.''))
              else Inr node)"

definition record_link :: "moment \<Rightarrow> string \<Rightarrow> string \<Rightarrow> db \<Rightarrow> db" where
  "record_link now node origin d =
    store_connection_value now CONNECTION_RESULT_KEY ''pending''
     (store_connection_value now CONNECTION_CHECK_KEY (iso_seconds now)
      (store_connection_value now CONNECTION_ORIGIN_KEY origin (store_connection_value now CONNECTION_NODE_KEY node d)))"

text \<open>
  The first half of \<open>connect_to_master\<close>, up to its commit: the installation and the database
  after it, and the exception.  The file stays written when the baseline cannot be queued.
\<close>

definition establish_connection ::
  "connection_world \<Rightarrow> connection_form \<Rightarrow> moment \<Rightarrow> string \<Rightarrow> app_settings \<Rightarrow> installation \<times> db \<Rightarrow> (installation \<times> db) \<times> exc option"
where
  "establish_connection w f now actor current = (\<lambda>(i, d).
    (case bind_res (proposed_connection (cnw_loads w) f current) (\<lambda>(code, origin, credential).
        case validate_connection_identity (cnw_bracketed w) current code origin credential d of Some e \<Rightarrow> Inl e
        | None \<Rightarrow> bind_res (interval_and_timeout f) (\<lambda>(interval, timeout).
            bind_res (confirmed_node w code credential d) (\<lambda>node.
              bind_res (write_master_file w (connection_values code origin credential interval timeout True) i) (\<lambda>i'.
                Inr (i', node, origin))))) of
       Inl e \<Rightarrow> ((i, d), Some e)
     | Inr (i', node, origin) \<Rightarrow>
         (case (if latest_sequence d \<noteq> 0 then Inr d
                else bind_res (settings_or_exc i') (\<lambda>s.
                  bind_res (enqueue_initial_inventory_snapshot (cnw_sha w) (service_settings s) (cnw_event_ids w) now (Some actor) d)
                    (\<lambda>(d', events, items). Inr d'))) of
            Inl e \<Rightarrow> ((i', d), Some e)
          | Inr d' \<Rightarrow> ((i', record_link now node origin d'), None))))"

definition credential_of :: "(string \<Rightarrow> json option) \<Rightarrow> connection_form \<Rightarrow> app_settings \<Rightarrow> string" where
  "credential_of loads f current =
    (case proposed_connection loads f current of Inl e \<Rightarrow> [] | Inr (code, origin, credential) \<Rightarrow> credential)"

definition sync_admin :: "server \<Rightarrow> request \<Rightarrow> db \<Rightarrow> http_error + user" where
  "sync_admin srv rq d = require_user (srv_mac srv) (srv_loads srv) (rq_now rq) (rq_cookie rq) (rq_path rq) (Some SYNC_ADMIN_ROLES) d"

definition connect_to_master ::
  "server \<Rightarrow> connection_world \<Rightarrow> request \<Rightarrow> connection_form \<Rightarrow> installation \<times> db \<Rightarrow> connection_answer \<times> installation \<times> db"
where
  "connect_to_master srv w rq f = (\<lambda>(i, d).
    (case sync_admin srv rq d of Inl e \<Rightarrow> (Declined e, i, d)
     | Inr u \<Rightarrow> (case settings_or_exc i of Inl e \<Rightarrow> (Declined (Broken e), i, d)
     | Inr current \<Rightarrow>
         let secrets = [credential_of (cnw_loads w) f current, aps_master_api_key current]
         in (case establish_connection w f (rq_now rq) (usr_username u) current (i, d) of
               ((i1, d1), Some e) \<Rightarrow> (FormError (redacted_connection_error e secrets), i1, d1)
             | ((i1, d1), None) \<Rightarrow>
                 (case settings_or_exc i1 of Inl e \<Rightarrow> (Declined (Broken e), i1, d1)
                  | Inr s \<Rightarrow>
                 (case sync_connection w (service_settings s) (rq_now rq) d1 of
                    (d2, Inl e) \<Rightarrow> (Notice (''Connection saved. Your updates are queued and will retry automatically. '' @
                      redacted_connection_error e secrets), i1, d2)
                  | (d2, Inr (sent, commands, pending)) \<Rightarrow>
                      ((if pending then Notice ''Connection saved. Inventory and updates are queued for Master; see delivery status below.''
                        else Message ''Connected to Master. Inventory is ready and new updates will sync automatically.''), i1, d2)))))))"

definition update_master_connection_settings ::
  "server \<Rightarrow> connection_world \<Rightarrow> request \<Rightarrow> connection_form \<Rightarrow> installation \<times> db \<Rightarrow> connection_answer \<times> installation \<times> db"
where
  "update_master_connection_settings srv w rq f = (\<lambda>(i, d).
    (case sync_admin srv rq d of Inl e \<Rightarrow> (Declined e, i, d)
     | Inr u \<Rightarrow> (case settings_or_exc i of Inl e \<Rightarrow> (Declined (Broken e), i, d)
     | Inr current \<Rightarrow>
         let code = py_upper (py_strip (cof_franchise_code f)); origin = normalized_origin (cof_master_url f);
             credential = or_else (py_strip (cof_master_api_key f)) (aps_master_api_key current);
             enabled = (cof_sync_enabled f = Some ''true''); secrets = [credential, aps_master_api_key current]
         in if code = [] \<or> franchise_code_error code then
              (FormError (''Franchise code must be a permanent 1-20 character code using letters, numbers, underscores, or hyphens.''), i, d)
            else if outbox d \<noteq> [] \<and> code \<noteq> aps_franchise_code current then
              (FormError ''Franchise code is locked because this node already has outbox events.'', i, d)
            else case master_url_configuration_error (cnw_bracketed w) origin of
              Some m \<Rightarrow> (FormError (py_replace ''MASTER_URL'' ''Master URL'' m), i, d)
            | None \<Rightarrow>
            if \<not> master_api_key_shape credential then
              (FormError ''Enter the node credential in setuora-node.<id>.<secret> format.'', i, d)
            else case validate_connection_identity (cnw_bracketed w) current code origin credential d of
              Some e \<Rightarrow> (FormError (redacted_connection_error e secrets), i, d)
            | None \<Rightarrow>
           (case (Analytics.py_int (cof_sync_interval f), Analytics.py_int (cof_request_timeout f)) of
              (Some interval, Some timeout) \<Rightarrow>
                if \<not> (15 \<le> interval \<and> interval \<le> MAX_SYNC_INTERVAL_SECONDS) then
                  (FormError (''Sync interval must be between 15 and '' @ int_str MAX_SYNC_INTERVAL_SECONDS @ '' seconds.''), i, d)
                else if \<not> (3 \<le> timeout \<and> timeout \<le> MAX_REQUEST_TIMEOUT_SECONDS) then
                  (FormError (''Request timeout must be between 3 and '' @ int_str MAX_REQUEST_TIMEOUT_SECONDS @ '' seconds.''), i, d)
                else (case write_master_file w (connection_values code origin credential interval timeout enabled) i of
                    Inl e \<Rightarrow> (FormError (''Could not save Master connection settings: '' @ redacted_connection_error e secrets), i, d)
                  | Inr i' \<Rightarrow> (Message (if enabled then ''Synchronization settings saved.''
                      else ''Synchronization paused. New operations will stay queued.''), i', d))
            | _ \<Rightarrow> (FormError ''Sync interval and request timeout must be whole numbers.'', i, d)))))"

definition sync_master_now ::
  "server \<Rightarrow> connection_world \<Rightarrow> request \<Rightarrow> installation \<times> db \<Rightarrow> connection_answer \<times> db"
where
  "sync_master_now srv w rq = (\<lambda>(i, d).
    (case sync_admin srv rq d of Inl e \<Rightarrow> (Declined e, d)
     | Inr u \<Rightarrow> (case settings_or_exc i of Inl e \<Rightarrow> (Declined (Broken e), d)
     | Inr s \<Rightarrow>
         if \<not> aps_master_sync_enabled s then (Detail 409 ''Master synchronization is disabled.'', d)
         else case master_sync_configuration_error (cnw_bracketed w) s of Some m \<Rightarrow> (Detail 409 m, d)
         | None \<Rightarrow>
        (case sync_connection w (service_settings s) (rq_now rq) d of
           (d1, Inl e) \<Rightarrow> (FormError (redacted_connection_error e [aps_master_api_key s]),
             store_connection_value (rq_now rq) CONNECTION_RESULT_KEY ''pending'' d1)
         | (d1, Inr (sent, commands, pending)) \<Rightarrow>
             ((if pending then Notice ''Some updates are still waiting for Master. See delivery status below.''
               else Message (''Up to date: '' @ nat_str sent @ '' update(s) sent, '' @ nat_str commands @ '' update(s) received from Master.'')), d1)))))"

definition initialize_inventory ::
  "server \<Rightarrow> connection_world \<Rightarrow> request \<Rightarrow> installation \<times> db \<Rightarrow> connection_answer \<times> db"
where
  "initialize_inventory srv w rq = (\<lambda>(i, d).
    (case sync_admin srv rq d of Inl e \<Rightarrow> (Declined e, d)
     | Inr u \<Rightarrow> (case settings_or_exc i of Inl e \<Rightarrow> (Declined (Broken e), d)
     | Inr s \<Rightarrow>
         (case bind_res (configured_franchise_code (service_settings s) (Some True)) (\<lambda>code.
             bind_res (master_credentials (service_settings s)) (\<lambda>(url, key).
               bind_res (verify_master_enrollment_identity key code 0 0 (cnw_identity w)) (\<lambda>identity.
                 enqueue_initial_inventory_snapshot (cnw_sha w) (service_settings s) (cnw_event_ids w) (rq_now rq) (Some (usr_username u)) d))) of
            Inl e \<Rightarrow> (FormError (exc_text e), d)
          | Inr (d', events, items) \<Rightarrow>
              (Message (''Node initialization queued: '' @ nat_str items @ '' active QR(s) in '' @ nat_str events @
                 '' baseline event(s). Sync and verify Master before resuming franchise operations.''), d')))))"

definition retry_failed_event :: "server \<Rightarrow> request \<Rightarrow> nat \<Rightarrow> db \<Rightarrow> connection_answer \<times> db" where
  "retry_failed_event srv rq eid d =
    (case sync_admin srv rq d of Inl e \<Rightarrow> (Declined e, d)
     | Inr u \<Rightarrow> (case find (\<lambda>e. evt_id e = eid) (outbox d) of None \<Rightarrow> (Detail 404 ''Outbox event not found.'', d)
     | Some e \<Rightarrow>
         if evt_status e \<noteq> O_FAILED then (Detail 409 ''Only failed events can be retried.'', d)
         else if srv_sha srv (evt_payload_json e) \<noteq> evt_payload_sha256 e then
           (Detail 409 ''The frozen event payload failed its integrity check.'', d)
         else
           let d1 = set_event eid (\<lambda>r. r\<lparr>evt_status := O_PENDING, evt_next_attempt_at := None, evt_sending_at := None,
                 evt_last_error := None\<rparr>) d;
               d2 = (case evt_batch_id e of None \<Rightarrow> d1
                 | Some b \<Rightarrow> set_batch b (\<lambda>r. r\<lparr>bat_status := BS_PENDING_SYNC, bat_last_error := None\<rparr>) d1)
           in (Message (''Event sequence '' @ nat_str eid @ '' queued for retry.''), d2)))"

section \<open>The page\<close>

record connection_page =
  cpg_settings :: app_settings
  cpg_franchise_code :: string
  cpg_credential_configured :: bool
  cpg_configuration_error :: "string option"
  cpg_counts :: "(outbox_status \<times> nat) list"
  cpg_command_count :: nat
  cpg_recent_events :: "outbox_event list"
  cpg_oldest_unsent :: "outbox_event option"
  cpg_initialized :: bool
  cpg_connection_state :: string
  cpg_last_check :: string

definition connection_state :: "string option \<Rightarrow> bool \<Rightarrow> bool \<Rightarrow> outbox_event option \<Rightarrow> string \<Rightarrow> string" where
  "connection_state problem initialized enabled oldest last_result =
    (if problem \<noteq> None then ''Needs attention''
     else if \<not> initialized then ''Not connected''
     else if \<not> enabled then ''Synchronization paused''
     else case oldest of
       Some e \<Rightarrow> if evt_status e = O_FAILED then ''Delivery needs attention'' else ''Waiting to sync''
     | None \<Rightarrow> if last_result = ''pending'' then ''Connection configured'' else ''Connected to Master'')"

definition master_connection_page ::
  "server \<Rightarrow> (string \<Rightarrow> bool) \<Rightarrow> request \<Rightarrow> installation \<times> db \<Rightarrow> http_error + connection_page"
where
  "master_connection_page srv bracketed rq = (\<lambda>(i, d).
    (case sync_admin srv rq d of Inl e \<Rightarrow> Inl e
     | Inr u \<Rightarrow> (case settings_or_exc i of Inl e \<Rightarrow> Inl (Broken e)
     | Inr s \<Rightarrow>
         let oldest = oldest_unsent_event d; problem = master_sync_configuration_error bracketed s;
             initialized = (aps_franchise_code s \<noteq> [] \<and> initial_inventory_is_queued (aps_franchise_code s) d);
             states = filter (\<lambda>st. list_ex (\<lambda>e. evt_status e = st) (outbox d)) [O_PENDING, O_SENDING, O_SENT, O_FAILED]
         in Inr \<lparr>cpg_settings = s, cpg_franchise_code = or_else (aps_franchise_code s) ''Not configured'',
              cpg_credential_configured = (aps_master_api_key s \<noteq> []), cpg_configuration_error = problem,
              cpg_counts = map (\<lambda>st. (st, count_rows (\<lambda>e. evt_status e = st) (outbox d))) states,
              cpg_command_count = length (inbox d), cpg_recent_events = take 25 (rev (sort_key evt_id (outbox d))),
              cpg_oldest_unsent = oldest, cpg_initialized = initialized,
              cpg_connection_state = connection_state problem initialized (aps_master_sync_enabled s) oldest
                (saved_connection_value d CONNECTION_RESULT_KEY),
              cpg_last_check = saved_connection_value d CONNECTION_CHECK_KEY\<rparr>)))"

section \<open>The exchange of files\<close>

text \<open>Two handlers no route leads to any more.\<close>

record sftp_form =
  sff_franchise_code :: string
  sff_host :: string
  sff_port :: string
  sff_username :: string
  sff_password :: string
  sff_host_key :: string
  sff_enabled :: "string option"
  sff_interval :: string
  sff_timeout :: string
  sff_tally_company :: string
  sff_tally_host :: string
  sff_tally_port :: string

definition sftp_form_error :: "(string \<Rightarrow> bool) \<Rightarrow> sftp_form \<Rightarrow> app_settings \<Rightarrow> string + int \<times> int \<times> int \<times> int" where
  "sftp_form_error is_address f current =
    (let code = py_upper (py_strip (sff_franchise_code f)); host = rstrip_char (CHR ''.'') (py_strip (sff_host f))
     in if franchise_code_error code then Inl ''Franchise code must be the 1-20 character code enrolled in Master.''
        else case sftp_host_configuration_error is_address host of
          Some m \<Rightarrow> Inl (py_replace ''SFTP_HOST'' ''SFTP host'' m)
        | None \<Rightarrow>
        if \<not> sftp_username_shape (py_strip (sff_username f)) then Inl ''SFTP username contains unsupported characters.''
        else if or_else (sff_password f) (aps_sftp_password current) = [] then Inl ''Enter the SFTP password issued by Master.''
        else if \<not> sftp_host_key_shape (py_strip (sff_host_key f)) then
          Inl ''Enter the exact SHA256 SFTP host-key fingerprint supplied by Master.''
        else case (Analytics.py_int (sff_port f), Analytics.py_int (sff_interval f), Analytics.py_int (sff_timeout f),
            Analytics.py_int (sff_tally_port f)) of
          (Some port, Some interval, Some timeout, Some tally_port) \<Rightarrow>
            if \<not> (1 \<le> port \<and> port \<le> 65535) \<or> \<not> (1 \<le> tally_port \<and> tally_port \<le> 65535) then
              Inl ''SFTP and Tally ports must be between 1 and 65535.''
            else if \<not> (15 \<le> interval \<and> interval \<le> MAX_SFTP_INTERVAL_SECONDS) then
              Inl ''Sync interval must be between 15 and 3600 seconds.''
            else if \<not> (3 \<le> timeout \<and> timeout \<le> MAX_SFTP_CONNECT_TIMEOUT_SECONDS) then
              Inl ''Connection timeout must be between 3 and 120 seconds.''
            else if py_strip (sff_tally_company f) = [] \<or> py_strip (sff_tally_host f) = [] then
              Inl ''Tally company and host are required.''
            else Inr (port, interval, timeout, tally_port)
        | _ \<Rightarrow> Inl ''Ports, interval, and timeout must be whole numbers.'')"

definition update_sftp_connection_settings ::
  "server \<Rightarrow> (string \<Rightarrow> bool) \<Rightarrow> string option \<Rightarrow> request \<Rightarrow> sftp_form \<Rightarrow> installation \<times> db \<Rightarrow> connection_answer \<times> installation \<times> db"
where
  "update_sftp_connection_settings srv is_address write_error rq f = (\<lambda>(i, d).
    (case sync_admin srv rq d of Inl e \<Rightarrow> (Declined e, i, d)
     | Inr u \<Rightarrow> (case settings_or_exc i of Inl e \<Rightarrow> (Declined (Broken e), i, d)
     | Inr current \<Rightarrow>
    (case sftp_form_error is_address f current of Inl m \<Rightarrow> (FormError m, i, d)
     | Inr (port, interval, timeout, tally_port) \<Rightarrow>
         let values = [(''FRANCHISE_CODE'', py_upper (py_strip (sff_franchise_code f))), (''SFTP_CONNECT_TIMEOUT_SECONDS'', int_str timeout),
               (''SFTP_HOST'', rstrip_char (CHR ''.'') (py_strip (sff_host f))), (''SFTP_HOST_KEY_SHA256'', py_strip (sff_host_key f)),
               (''SFTP_MAX_XML_BYTES'', int_str (aps_sftp_max_xml_bytes current)),
               (''SFTP_PASSWORD'', or_else (sff_password f) (aps_sftp_password current)), (''SFTP_PORT'', int_str port),
               (''SFTP_SYNC_ENABLED'', if sff_enabled f = Some ''true'' then ''true'' else ''false''),
               (''SFTP_SYNC_INTERVAL_SECONDS'', int_str interval), (''SFTP_USERNAME'', py_strip (sff_username f))]
         in (case bind_res (save_sftp_connection_settings values) (\<lambda>text.
               case write_error of Some e \<Rightarrow> Inl (ValueError e) | None \<Rightarrow> Inr (i\<lparr>ins_sftp_file := Some text\<rparr>)) of
               Inl e \<Rightarrow> (FormError (''Could not save SFTP settings: '' @ exc_text e), i, d)
             | Inr i' \<Rightarrow> (Message ''Tally and Master SFTP settings saved.'', i',
                 update_settings (rq_now rq) [(''company_name'', py_strip (sff_tally_company f)), (''tally_host'', py_strip (sff_tally_host f)),
                   (''tally_port'', int_str tally_port)] d))))))"

section \<open>Linked for good\<close>

lemma stored_connection [simp]:
  "saved_connection_value (store_connection_value now k v d) x = (if x = k then v else saved_connection_value d x)"
  by (simp add: saved_connection_value_def store_connection_value_def text_of_def stored_put)

lemma store_connection_outbox [simp]: "outbox (store_connection_value now k v d) = outbox d"
  by (simp add: store_connection_value_def put_setting_def)

lemma record_link_values [simp]:
  "saved_connection_value (record_link now node origin d) CONNECTION_NODE_KEY = node"
  "saved_connection_value (record_link now node origin d) CONNECTION_ORIGIN_KEY = origin"
  "outbox (record_link now node origin d) = outbox d"
  by (simp_all add: record_link_def CONNECTION_NODE_KEY_def CONNECTION_ORIGIN_KEY_def CONNECTION_CHECK_KEY_def CONNECTION_RESULT_KEY_def)

definition linked :: "string \<Rightarrow> string \<Rightarrow> db \<Rightarrow> bool" where
  "linked node origin d \<longleftrightarrow> outbox d \<noteq> [] \<and> node \<noteq> [] \<and> origin \<noteq> [] \<and>
     saved_connection_value d CONNECTION_NODE_KEY = node \<and> saved_connection_value d CONNECTION_ORIGIN_KEY = origin"

lemma snapshot_first: "enqueue_initial_inventory_snapshot sha cfg ids now actor d = Inr x \<Longrightarrow> outbox d = []"
  by (cases "outbox d = []") (simp_all add: enqueue_initial_inventory_snapshot_def)

lemma establish_success:
  assumes "establish_connection w f now actor current (i, d) = ((i', d'), None)"
  shows "\<exists>code origin credential node e. proposed_connection (cnw_loads w) f current = Inr (code, origin, credential) \<and>
    validate_connection_identity (cnw_bracketed w) current code origin credential d = None \<and>
    confirmed_node w code credential d = Inr node \<and> d' = record_link now node origin e \<and>
    (latest_sequence d \<noteq> 0 \<and> e = d \<or> outbox d = [] \<and> (\<exists>cfg n m. enqueue_initial_inventory_snapshot (cnw_sha w) cfg (cnw_event_ids w) now (Some actor) d = Inr (e, n, m)))"
  using assms by (auto simp: establish_connection_def bind_res_def dest: snapshot_first split: sum.splits prod.splits option.splits if_splits)

lemma establish_failure:
  assumes "establish_connection w f now actor current (i, d) = ((i', d'), Some e)"
  shows "d' = d"
  using assms by (auto simp: establish_connection_def split: sum.splits prod.splits)

lemma saved_node:
  assumes "confirmed_node w code credential d = Inr node" "saved_connection_value d CONNECTION_NODE_KEY \<noteq> []"
  shows "node = saved_connection_value d CONNECTION_NODE_KEY"
  using assms by (auto simp: confirmed_node_def bind_res_def Let_def split: sum.splits option.splits if_splits)

lemma first_event_none: "first_event d = None \<longleftrightarrow> outbox d = []"
proof -
  have "sort_key evt_id (outbox d) = [] \<longleftrightarrow> outbox d = []" by (metis length_0_conv length_sort)
  then show ?thesis by (cases "sort_key evt_id (outbox d)") (simp_all add: first_event_def)
qed

lemma same_origin:
  assumes "validate_connection_identity b current code origin credential d = None" "outbox d \<noteq> []"
    and "saved_connection_value d CONNECTION_ORIGIN_KEY \<noteq> []"
  shows "origin = saved_connection_value d CONNECTION_ORIGIN_KEY"
  using assms by (auto simp: validate_connection_identity_def saved_origin_def or_else_def first_event_none split: option.splits if_splits)

lemma establish_linked:
  assumes "linked node origin d" "establish_connection w f now actor current (i, d) = ((i', d'), r)"
  shows "linked node origin d'"
proof (cases r)
  case None
  obtain code origin' credential node' e where e: "validate_connection_identity (cnw_bracketed w) current code origin' credential d = None"
      "confirmed_node w code credential d = Inr node'" "d' = record_link now node' origin' e" "e = d"
    using establish_success [OF assms(2) [unfolded None]] assms(1) by (auto simp: linked_def)
  have "node' = node" "origin' = origin" using saved_node [OF e(2)] same_origin [OF e(1)] assms(1) by (simp_all add: linked_def)
  then show ?thesis using assms(1) e(3,4) by (simp add: linked_def)
next
  case (Some x)
  with assms establish_failure show ?thesis by blast
qed

text \<open>
  What may happen after a first connection: further connection requests with any setup details, any
  answer of the Master and any settings, and any other work that neither empties the outbox nor
  touches the two rows of the link (no other code writes them).
\<close>

inductive linking :: "string \<Rightarrow> string \<Rightarrow> db \<Rightarrow> bool" where
  first: "\<lbrakk>establish_connection w f now actor current (i, d) = ((i', d'), None); outbox d' \<noteq> [];
     node = saved_connection_value d' CONNECTION_NODE_KEY; origin = saved_connection_value d' CONNECTION_ORIGIN_KEY\<rbrakk> \<Longrightarrow> linking node origin d'"
| again: "\<lbrakk>linking node origin d; establish_connection w f now actor current (i, d) = ((i', d'), r)\<rbrakk> \<Longrightarrow> linking node origin d'"
| other_work: "\<lbrakk>linking node origin d; outbox d' \<noteq> [];
     saved_connection_value d' CONNECTION_NODE_KEY = saved_connection_value d CONNECTION_NODE_KEY;
     saved_connection_value d' CONNECTION_ORIGIN_KEY = saved_connection_value d CONNECTION_ORIGIN_KEY\<rbrakk> \<Longrightarrow> linking node origin d'"

lemma canonical_uuid_not_empty: "canonical_uuid s \<noteq> Some []"
  by (auto simp: canonical_uuid_def Let_def split: if_splits)

lemma public_id_not_empty: "public_id v \<noteq> Some []"
  by (cases v rule: public_id.cases) (simp_all add: canonical_uuid_not_empty)

lemma confirmed_not_empty: "confirmed_node w code credential d = Inr node \<Longrightarrow> node \<noteq> []"
  using public_id_not_empty by (auto simp: confirmed_node_def bind_res_def Let_def split: sum.splits option.splits if_splits)

lemma valid_origin_not_empty: "validate_connection_identity b current code [] credential d \<noteq> None"
proof -
  have "urlsplit b [] = Some \<lparr>url_scheme = [], url_netloc = [], url_path = [], url_query = [], url_fragment = []\<rparr>"
    by (simp add: urlsplit_def url_cleaned_def split_scheme_def cut_def starts_with_def netloc_ok_def text_of_def)
  then have "master_url_configuration_error b [] \<noteq> None"
    by (auto simp: master_url_configuration_error_def Let_def split: option.split prod.split)
  then show ?thesis by (auto simp: validate_connection_identity_def)
qed

text \<open>
  C37. An installation is linked for good: after the first connection that succeeded, whatever setup
  details are pasted later and whatever any server answers, the node and the address it is linked
  to stay those of the first connection.
\<close>

theorem link_is_permanent:
  assumes "linking node origin d"
  shows "linked node origin d"
  using assms
proof (induction rule: linking.induct)
  case (first w f now actor current i d i' d' node origin)
  then obtain code o' credential n e where v: "validate_connection_identity (cnw_bracketed w) current code o' credential d = None"
      "confirmed_node w code credential d = Inr n" "d' = record_link now n o' e"
    using establish_success by blast
  have "o' \<noteq> []" using v(1) valid_origin_not_empty by (cases o') auto
  moreover have "n \<noteq> []" using v(2) by (rule confirmed_not_empty)
  ultimately show ?case using first v(3) by (simp add: linked_def)
next
  case (again node origin d w f now actor current i i' d' r)
  then show ?case by (blast intro: establish_linked)
next
  case (other_work node origin d d')
  then show ?case by (simp add: linked_def)
qed

section \<open>A code that ends with a hyphen\<close>

definition baseline_of :: "string \<Rightarrow> db \<Rightarrow> bool" where
  "baseline_of code d \<longleftrightarrow> (\<forall>e \<in> set (outbox d). \<exists>s. evt_aggregate_id e = code @ '':INITIAL-INVENTORY:'' @ s)"

lemma part_baseline:
  assumes "enqueue_part sha cfg ids now code actor part d = Inr d'" "baseline_of code d"
  shows "baseline_of code d'"
proof -
  obtain k c row where e: "enqueue_outbox_event sha cfg (ids k) now
      (initial_request ''STOCK_SNAPSHOT'' actor now (initial_inventory_reference code k) c) d = Inr (d', row)"
    using assms(1) by (auto simp: enqueue_part_def split: sum.splits prod.splits)
  then show ?thesis using assms(2) enqueueD(1,8) [OF e]
    by (auto simp: baseline_of_def initial_request_def initial_inventory_reference_def)
qed

lemma parts_baseline:
  assumes "fold_res (enqueue_part sha cfg ids now code actor) parts d = Inr d'" "baseline_of code d"
  shows "baseline_of code d'"
  by (rule fold_res_invariant [where I = "baseline_of code", OF assms]) (rule part_baseline)

lemma snapshot_baseline:
  assumes "enqueue_initial_inventory_snapshot sha cfg ids now actor d = Inr (d', n, m)"
    and "configured_franchise_code cfg (Some True) = Inr code"
  shows "baseline_of code d'"
proof -
  have start: "baseline_of code d" using snapshot_first [OF assms(1)] by (simp add: baseline_of_def)
  show ?thesis
  proof (cases "baseline_serials d = []")
    case True
    then obtain row where e: "enqueue_outbox_event sha cfg (ids 1) now
        (initial_request ''HEARTBEAT'' actor now (code @ '':INITIAL-INVENTORY:EMPTY'') []) d = Inr (d', row)"
      using assms by (auto simp: enqueue_initial_inventory_snapshot_def Let_def split: if_splits sum.splits)
    then show ?thesis using start enqueueD(1,8) [OF e] by (auto simp: baseline_of_def initial_request_def)
  next
    case False
    then obtain parts where "fold_res (enqueue_part sha cfg ids now code actor) parts d = Inr d'"
      using assms by (auto simp: enqueue_initial_inventory_snapshot_def Let_def split: if_splits sum.splits)
    then show ?thesis using start by (rule parts_baseline)
  qed
qed

lemma dash_runs_code: "list_all code_char s \<Longrightarrow> dash_runs (\<lambda>c. \<not> code_char c) b s = s"
  by (induction s arbitrary: b) auto

text \<open>Codes of letters, digits and hyphens, as \<open>LIKE\<close> has no wild card in them.\<close>

definition plain_code :: "string \<Rightarrow> bool" where
  "plain_code c \<longleftrightarrow> c \<noteq> [] \<and> list_all (\<lambda>x. is_upper_letter x \<or> is_digit x \<or> x = CHR ''-'') c \<and> hd c \<noteq> CHR ''-'' \<and> last c \<noteq> CHR ''-''"

lemma upper_plain: "is_upper_letter x \<or> is_digit x \<or> x = CHR ''-'' \<Longrightarrow> char_upper x = x \<and> \<not> py_space x \<and> code_char x \<and> x \<notin> {CHR ''%'', CHR ''_''}"
  by (auto simp: is_upper_letter_def is_digit_def char_upper_def py_space_def code_char_def Let_def)

lemma normal_hyphen:
  assumes "plain_code c"
  shows "normalize_franchise_code (c @ ''-'') = c"
proof -
  note c = assms [unfolded plain_code_def]
  have x: "char_upper x = x \<and> \<not> py_space x \<and> code_char x" if "x \<in> set (c @ ''-'')" for x
    using upper_plain [of x] c that by (auto simp: list_all_iff)
  have "py_strip (c @ ''-'') = c @ ''-''" using x c by (intro py_strip_keep) auto
  moreover have "py_upper (c @ ''-'') = c @ ''-''" unfolding py_upper_def using x by (intro map_idI) blast
  moreover have "dash_runs (\<lambda>c. \<not> code_char c) False (c @ ''-'') = c @ ''-''" using x by (intro dash_runs_code) (auto simp: list_all_iff)
  moreover have "py_strip_by (\<lambda>c. c = CHR ''-'') (c @ ''-'') = c"
  proof -
    have "dropWhile (\<lambda>c. c = CHR ''-'') (c @ ''-'') = c @ ''-''" using c by (cases c) simp_all
    moreover have "dropWhile (\<lambda>c. c = CHR ''-'') (rev c) = rev c" using c by (cases c rule: rev_cases) simp_all
    ultimately show ?thesis by (simp add: py_strip_by_def)
  qed
  ultimately show ?thesis by (simp only: normalize_franchise_code_def)
qed

lemma like_common: "list_all (\<lambda>x. x \<notin> {CHR ''%'', CHR ''_''}) p \<Longrightarrow> sql_like (p @ q) (p @ s) = sql_like q s"
  by (induction p) auto

lemma hyphen_not_queued:
  assumes "plain_code c" "baseline_of c d"
  shows "\<not> initial_inventory_is_queued (c @ ''-'') d"
proof -
  have p: "list_all (\<lambda>x. x \<notin> {CHR ''%'', CHR ''_''}) c" using assms(1) upper_plain by (auto simp: plain_code_def list_all_iff)
  have "\<not> sql_like (initial_inventory_reference_prefix (c @ ''-'') @ ''%'') (c @ '':INITIAL-INVENTORY:'' @ s)" for s
    using like_common [OF p, of "''-:INITIAL-INVENTORY:%''" "'':INITIAL-INVENTORY:'' @ s"]
    by (simp add: initial_inventory_reference_prefix_def char_lower_def)
  then show ?thesis using assms(2) by (fastforce simp: initial_inventory_is_queued_def list_ex_iff baseline_of_def)
qed

lemma hyphen_code_accepted:
  assumes "plain_code c" "length c \<le> 19"
  shows "franchise_code_shape (c @ ''-'')" "c @ ''-'' \<notin> set FRANCHISE_CODE_PLACEHOLDERS"
proof -
  have "list_all (\<lambda>p. p = [] \<or> last p \<noteq> CHR ''-'') FRANCHISE_CODE_PLACEHOLDERS"
    by (simp add: FRANCHISE_CODE_PLACEHOLDERS_def)
  then show "c @ ''-'' \<notin> set FRANCHISE_CODE_PLACEHOLDERS" by (fastforce simp: list_all_iff)
  have "is_upper_letter (hd c) \<or> is_digit (hd c)"
    using assms(1) by (cases c) (auto simp: plain_code_def)
  moreover have "list_all code_char (c @ ''-'')"
    using assms(1) upper_plain by (auto simp: plain_code_def list_all_iff)
  ultimately show "franchise_code_shape (c @ ''-'')" using assms by (simp add: franchise_code_shape_def plain_code_def)
qed

text \<open>
  C40. A code that ends with a hyphen locks the installation out: the code is accepted, by the
  settings and, as long as nothing was queued, by the connection form; the baseline is queued under
  the code without the hyphen, and from then on every connection request with that code is refused,
  whatever address and credential it has, a good one with the message that the code is locked.
\<close>

theorem hyphen_code_locks:
  assumes "plain_code c" "length c \<le> 19" "cfg_franchise_code cfg = c @ ''-''"
    and "enqueue_initial_inventory_snapshot sha cfg ids now actor d = Inr (d', n, m)" "outbox d' \<noteq> []"
    and "master_url_configuration_error b origin = None" "length credential \<le> 512" "master_api_key_shape credential"
    and "credential \<noteq> aps_master_api_key current"
  shows "\<not> franchise_code_error (c @ ''-'') \<and>
    (\<forall>e. outbox e = [] \<longrightarrow> validate_connection_identity b current (c @ ''-'') origin credential e = None) \<and>
    (\<forall>any_origin any_credential. validate_connection_identity b current (c @ ''-'') any_origin any_credential d' \<noteq> None) \<and>
    validate_connection_identity b current (c @ ''-'') origin credential d' =
      Some (MasterSyncError ''Franchise code is locked because this node already has outbox events.'')"
proof -
  obtain code where code: "configured_franchise_code cfg (Some True) = Inr code"
    using assms(4) by (auto simp: enqueue_initial_inventory_snapshot_def split: if_splits sum.splits)
  then have "code = c" using normal_hyphen [OF assms(1)] by (auto simp: configured_franchise_code_def assms(3) Let_def split: if_splits)
  with snapshot_baseline [OF assms(4) code] have q: "\<not> initial_inventory_is_queued (c @ ''-'') d'"
    using hyphen_not_queued [OF assms(1)] by blast
  note a = hyphen_code_accepted [OF assms(1,2)]
  have "\<not> franchise_code_error (c @ ''-'')" using a assms(2) by (simp add: franchise_code_error_def)
  moreover have "validate_connection_identity b current (c @ ''-'') origin credential e = None" if "outbox e = []" for e
    using a that assms(6-9) by (simp add: validate_connection_identity_def first_event_none)
  moreover have "validate_connection_identity b current (c @ ''-'') x y d' \<noteq> None" for x y
    using q assms(5) by (auto simp: validate_connection_identity_def first_event_none split: option.split)
  moreover have "validate_connection_identity b current (c @ ''-'') origin credential d' =
      Some (MasterSyncError ''Franchise code is locked because this node already has outbox events.'')"
    using a q assms(5-8) by (simp add: validate_connection_identity_def first_event_none)
  ultimately show ?thesis by blast
qed

end
