(* ===== verification/ConnectionScenarios.thy ===== *)
theory ConnectionScenarios
  imports AccountScenarios Connection
begin

text \<open>
  Small installations that exchange files and connect to a Master: the witnesses of the
  properties of \<open>SftpSync\<close>, \<open>Config\<close> and \<open>Connection\<close>.
\<close>

section \<open>A file whose acknowledgement is lost\<close>

text \<open>A server with one file for Tally, on which nothing can be written.\<close>

definition ex_full_server :: sftp_client where
  "ex_full_server = \<lparr>cli_names = (\<lambda>p. Inr (if p = REMOTE_OUTBOX then [''a.xml''] else [])), cli_size = (\<lambda>p. Inr 1),
     cli_content = (\<lambda>p. Inr ''x''), cli_remove = (\<lambda>p. Os ''FileNotFoundError''), cli_put = (\<lambda>p c. Os ''OSError''),
     cli_rename = (\<lambda>p q. Finished)\<rparr>"

definition ex_import :: xml where
  "ex_import = xml_node ''ENVELOPE'' [xml_leaf ''TALLYREQUEST'' ''Import Data'']"

definition ex_parties :: xml where
  "ex_parties = xml_node ''ENVELOPE'' [xml_node ''LEDGER'' [xml_leaf ''PARENT'' ''Sundry Debtors'']]"

definition ex_exchange :: "xml \<Rightarrow> sftp_world" where
  "ex_exchange doc = \<lparr>sfw_now = 0, sfw_finished = 0, sfw_sha = id, sfw_decode = Inr, sfw_parse = (\<lambda>s. Some doc),
     sfw_answer = Document [] [(''CREATED'', Some ''1'')], sfw_export = Reply ''<ENVELOPE/>''\<rparr>"

definition ex_exchange_settings :: sftp_settings where
  "ex_exchange_settings = \<lparr>sfs_enabled = True, sfs_configuration_error = None, sfs_franchise_code = ''FR-7'', sfs_max_xml_bytes = 100\<rparr>"

definition ex_two_cycles :: "(sftp_client \<times> sftp_world \<times> sftp_settings) list" where
  "ex_two_cycles = [(ex_full_server, ex_exchange ex_import, ex_exchange_settings),
     (ex_full_server, ex_exchange ex_import, ex_exchange_settings)]"

lemma acknowledge_posted: "cyc_posted (acknowledge c w f i p d) = p"
  by (simp add: acknowledge_def Let_def split: option.split)

lemma ex_first_cycle: "cyc_posted (run_sftp_tally_sync_cycle ex_full_server (ex_exchange ex_import) ex_exchange_settings empty_db) = Some (''a.xml'', True)"
proof -
  have x: "xml_names ex_full_server REMOTE_OUTBOX = Inr [''a.xml'']" by code_simp
  have r: "remote_path REMOTE_OUTBOX ''a.xml'' = Inr ''/outbox/a.xml''" by code_simp
  have v: "validate_master_import_xml (\<lambda>s. Some ex_import) ''x'' = None" by code_simp
  have p: "read_remote_xml ex_full_server ''/outbox/a.xml'' 100 = Inr ''x''"
    by (simp add: read_remote_xml_def ex_full_server_def Let_def)
  have "text_of (get_all_settings empty_db ''tally_host'') \<noteq> []" "text_of (get_all_settings empty_db ''tally_port'') \<noteq> []" by code_simp+
  moreover have "\<not> isl (judge_answer ''x'' (Document [] [(''CREATED'', Some ''1'')]))" by code_simp
  ultimately obtain body reference where t: "post_to_tally ''x'' (get_all_settings empty_db) (Document [] [(''CREATED'', Some ''1'')]) = Inr (body, reference)"
    by (cases "judge_answer ''x'' (Document [] [(''CREATED'', Some ''1'')])") (auto simp: post_to_tally_def)
  have "exchanges empty_db = []" by code_simp
  then show ?thesis
    by (simp add: run_sftp_tally_sync_cycle_def ex_exchange_settings_def ex_exchange_def x import_master_file_def r p v
        record_for_remote_file_def Let_def continue_import_def new_exchange_def post_file_def t acknowledge_posted)
qed

theorem imported_once_witness:
  "cyc_posted (sync_trace ex_two_cycles empty_db ! 0) = Some (''a.xml'', True) \<and>
   cyc_posted (sync_trace ex_two_cycles empty_db ! 1) \<noteq> Some (''a.xml'', True)"
proof -
  have "cyc_posted (sync_trace ex_two_cycles empty_db ! 0) = Some (''a.xml'', True)"
    by (simp add: ex_two_cycles_def Let_def ex_first_cycle)
  moreover have "exchanges_ok empty_db" by code_simp
  moreover have "1 < length (sync_trace ex_two_cycles empty_db)" by (simp add: ex_two_cycles_def Let_def)
  ultimately show ?thesis using imported_once [of empty_db 0 1 ex_two_cycles "''a.xml''" True] by simp
qed

section \<open>An upload that fails\<close>

definition ex_named_db :: db where
  "ex_named_db = empty_db\<lparr>settings_rows := [\<lparr>stg_key = ''company_name'', stg_value = ''Setuora'', stg_updated_at = 0\<rparr>]\<rparr>"

definition ex_empty_server :: "(string \<Rightarrow> string \<Rightarrow> io) \<Rightarrow> sftp_client" where
  "ex_empty_server put = ex_full_server\<lparr>cli_names := (\<lambda>p. Inr []), cli_put := put\<rparr>"

definition ex_upload_settings :: sftp_settings where
  "ex_upload_settings = ex_exchange_settings\<lparr>sfs_max_xml_bytes := length (utf8 (sanitize_tally_xml ''<ENVELOPE/>''))\<rparr>"

definition ex_upload :: cycle where
  "ex_upload = run_sftp_tally_sync_cycle (ex_empty_server (\<lambda>p c. Os ''OSError'')) (ex_exchange ex_parties) ex_upload_settings ex_named_db"

lemma ex_no_names: "xml_names (ex_empty_server put) p = Inr []"
  by (simp add: xml_names_def ex_empty_server_def map_filter_simps sort_key_def)

lemma ex_send: "write_remote_atomic (ex_empty_server (\<lambda>p c. Os ''OSError'')) p payload = Some ''OSError''"
  by (simp add: write_remote_atomic_def ex_empty_server_def ex_full_server_def)

lemma ex_upload_fails: "isl (cyc_result ex_upload) \<and> exchanges (cyc_db ex_upload) \<noteq> exchanges ex_named_db"
proof -
  have st: "py_strip (text_of (get_all_settings ex_named_db ''company_name'')) = ''Setuora''"
    "py_strip (text_of (get_all_settings ex_named_db ''tally_host'')) \<noteq> []"
    "py_strip (text_of (get_all_settings ex_named_db ''tally_port'')) \<noteq> []" by code_simp+
  have doc: "response_errors ex_parties = []" "first_text ex_parties [''STATUS''] \<noteq> ''0''" "py_strip ''<ENVELOPE/>'' \<noteq> []" by code_simp+
  have "list_ex (\<lambda>n. py_lower (direct_text n [''PARENT'']) \<in> {''sundry debtors'', ''sundry creditors''}) (elements [''LEDGER''] ex_parties)"
    "\<not> isl (build_party_export_xml ''Setuora'')" by code_simp+
  then have e: "export_tally_parties_xml (\<lambda>s. Some ex_parties) (get_all_settings ex_named_db) ''Setuora'' (Reply ''<ENVELOPE/>'') = Inr (sanitize_tally_xml ''<ENVELOPE/>'')"
    using st doc by (cases "build_party_export_xml ''Setuora''") (simp_all add: export_tally_parties_xml_def post_read_request_def)
  have x: "exchanges ex_named_db = []" "latest_upload ex_named_db = None" by code_simp+
  show ?thesis
    by (simp add: ex_upload_def run_sftp_tally_sync_cycle_def ex_no_names ex_upload_settings_def ex_exchange_settings_def upload_tally_export_def ex_exchange_def st e x
        send_export_def Let_def ex_send set_exchange_def upd_rows_def split: sum.split)
qed

theorem failed_upload_not_repeated_witness:
  "isl (cyc_result ex_upload) \<and>
   cyc_written (run_sftp_tally_sync_cycle (ex_empty_server (\<lambda>p c. Finished)) (ex_exchange ex_parties) ex_upload_settings (cyc_db ex_upload)) = []"
proof -
  obtain e where e: "cyc_result ex_upload = Inl e" using ex_upload_fails by (cases "cyc_result ex_upload") auto
  from failed_upload_not_repeated [OF ex_no_names ex_no_names ex_upload_def _ e ex_no_names ex_no_names refl refl refl] ex_upload_fails
  show ?thesis by simp
qed

section \<open>The settings file\<close>

definition ex_saved :: "(string \<times> string) list" where
  "ex_saved = [(''MASTER_URL'', ''https://master''), (''FRANCHISE_CODE'', ''FR-7'')]"

theorem saved_settings_read_back_witness:
  "\<exists>text. save_master_connection_settings ex_saved = Inr text \<and>
     read_env_file (Some MASTER_CONNECTION_RUNTIME_ENV_KEYS) (Some text) ''FRANCHISE_CODE'' = Some ''FR-7''"
proof -
  have "\<not> isl (save_master_connection_settings ex_saved)" by code_simp
  then obtain written where s: "save_master_connection_settings ex_saved = Inr written"
    by (cases "save_master_connection_settings ex_saved") auto
  have "list_all (\<lambda>(k, v). storable v) ex_saved" by code_simp
  then have "\<forall>(k, v) \<in> set ex_saved. storable v" by (simp add: list_all_iff)
  moreover have "distinct (map fst ex_saved)" by (simp add: ex_saved_def)
  ultimately show ?thesis using saved_settings_read_back [OF s] s by (simp add: ex_saved_def)
qed

section \<open>An installation that is linked\<close>

text \<open>An installation whose baseline was queued before and whose settings name the Master.\<close>

definition ex_event :: outbox_event where
  "ex_event = \<lparr>evt_id = 1, evt_event_id = ex_uuid 1, evt_type = ''HEARTBEAT'', evt_schema_version = 1,
     evt_aggregate_type = ''INITIAL_INVENTORY'', evt_aggregate_id = ''FR-7:INITIAL-INVENTORY:EMPTY'', evt_batch_id = None,
     evt_payload_json = ''{}'', evt_payload_sha256 = ''2'', evt_status = O_PENDING, evt_attempts = 0, evt_next_attempt_at = None,
     evt_last_error = None, evt_created_at = 0, evt_sending_at = None, evt_sent_at = None\<rparr>"

definition ex_started_db :: db where
  "ex_started_db = empty_db\<lparr>outbox := [ex_event]\<rparr>"

definition ex_installation :: installation where
  "ex_installation = \<lparr>ins_env = (\<lambda>k. None), ins_master_file = Some (settings_text ex_saved), ins_sftp_file = None,
     ins_key_file = \<lparr>kyf_stored = Inr None, kyf_generated = replicate 32 (CHR ''k''), kyf_writable = True\<rparr>\<rparr>"

definition ex_active_settings :: app_settings where
  "ex_active_settings = \<lparr>aps_app_mode = ''lite'', aps_app_name = ''Setuora Lite'', aps_secret_key = replicate 32 (CHR ''k''),
     aps_database_url = ''sqlite:///./data/setuora.db'', aps_session_timeout_minutes = 480, aps_bootstrap_admin_username = ''admin'',
     aps_bootstrap_admin_password = [], aps_cookie_secure = False, aps_trusted_hosts = [''localhost''], aps_login_max_attempts = 8,
     aps_login_lockout_minutes = 15, aps_automatic_backups_enabled = True, aps_backup_directory = ''./data/backups'',
     aps_backup_offsite_directory = [], aps_backup_interval_minutes = 30, aps_backup_retention_count = 2,
     aps_backup_startup_delay_seconds = 60, aps_container_deployment = False, aps_franchise_code = ''FR-7'',
     aps_master_url = ''https://master'', aps_master_api_key = [], aps_master_sync_enabled = False,
     aps_master_sync_interval_seconds = 30, aps_master_request_timeout_seconds = 15, aps_master_tls_verify = True,
     aps_sftp_sync_enabled = False, aps_sftp_host = [], aps_sftp_port = 22, aps_sftp_username = [], aps_sftp_password = [],
     aps_sftp_host_key_sha256 = [], aps_sftp_sync_interval_seconds = 60, aps_sftp_connect_timeout_seconds = 15,
     aps_sftp_max_xml_bytes = 10485760\<rparr>"

definition ex_details :: connection_form where
  "ex_details = \<lparr>cof_setup_details = [], cof_franchise_code = ''fr-7'', cof_master_url = ''https://master/'',
     cof_master_api_key = ''setuora-node.n1.'' @ replicate 43 (CHR ''s''), cof_sync_enabled = Some ''true'', cof_sync_interval = ''30'',
     cof_request_timeout = ''15''\<rparr>"

definition ex_node :: string where
  "ex_node = ''00000000-0000-4000-8000-000000000000''"

definition ex_connection :: connection_world where
  "ex_connection = \<lparr>cnw_loads = (\<lambda>s. None), cnw_bracketed = (\<lambda>s. False), cnw_sha = ex_sha, cnw_event_ids = ex_uuid,
     cnw_identity = Answer 200 (JsonBody (JObj [(''data'', JObj [(''code'', JStr ''FR-7''), (''last_sequence'', JInt 0),
       (''next_sequence'', JInt 1), (''public_id'', JStr ex_node)])])),
     cnw_push = undefined, cnw_push_again = undefined, cnw_commands = OtherRaised ''unused'', cnw_poll = undefined, cnw_writable = None\<rparr>"

definition ex_link :: "(installation \<times> db) \<times> exc option" where
  "ex_link = establish_connection ex_connection ex_details 0 ''asha'' ex_active_settings (ex_installation, ex_started_db)"

lemma ex_proposed: "proposed_connection (\<lambda>s. None) ex_details s = Inr (''FR-7'', ''https://master'', cof_master_api_key ex_details)"
proof -
  have "py_strip (cof_setup_details ex_details) = []" "py_upper (py_strip (cof_franchise_code ex_details)) = ''FR-7''"
    "normalized_origin (cof_master_url ex_details) = ''https://master''"
    "py_strip (cof_master_api_key ex_details) = cof_master_api_key ex_details" "cof_master_api_key ex_details \<noteq> []"
    "py_strip (cof_franchise_code ex_details) \<noteq> []" "cof_master_url ex_details \<noteq> []" by code_simp+
  then show ?thesis by (simp add: proposed_connection_def or_else_def)
qed

lemma ex_origin: "master_url_configuration_error (\<lambda>s. False) ''https://master'' = None"
proof -
  have h: "plain_host ''master''" by (simp add: plain_host_def host_char_def)
  have "scheme_start (CHR ''h'')" "list_all scheme_char ''ttps''" by code_simp+
  from urlsplit_origin [OF h this, of "\<lambda>s. False" None]
  have u: "urlsplit (\<lambda>s. False) ''https://master'' =
      Some \<lparr>url_scheme = ''https'', url_netloc = ''master'', url_path = [], url_query = [], url_fragment = []\<rparr>"
    by (simp add: port_text_def py_lower_def char_lower_def)
  let ?u = "\<lparr>url_scheme = ''https'', url_netloc = ''master'', url_path = [], url_query = [], url_fragment = []\<rparr>"
  have p: "url_hostname ?u = Some (py_lower ''master'')" "url_port ?u = Some None"
    using plain_parts [OF h, of ?u None] by (simp_all add: port_text_def)
  have "py_split_on (CHR ''.'') ''master'' = [''master'']" by code_simp
  moreover have "dns_label ''master''" by (simp add: dns_label_def char_upper_def is_upper_letter_def is_digit_def)
  ultimately have d: "dns_name ''master''" by (simp add: dns_name_def)
  have l: "py_lower ''master'' = ''master''" "rstrip_char (CHR ''.'') ''master'' = ''master''" "url_user_info ?u = (None, None)" by code_simp+
  show ?thesis by (simp add: master_url_configuration_error_def u p l d text_of_def)
qed

lemma ex_valid:
  assumes "aps_franchise_code s = ''FR-7''" "aps_master_url s = ''https://master''" "aps_master_api_key s = []"
  shows "validate_connection_identity (\<lambda>s. False) s ''FR-7'' ''https://master'' (cof_master_api_key ex_details) ex_started_db = None"
proof -
  have "''FR-7'' \<notin> set FRANCHISE_CODE_PLACEHOLDERS" "franchise_code_shape ''FR-7''"
    "initial_inventory_is_queued ''FR-7'' ex_started_db"
    "normalized_origin ''https://master'' = ''https://master''" "saved_connection_value ex_started_db CONNECTION_ORIGIN_KEY = []"
    "master_api_key_shape (cof_master_api_key ex_details)" by code_simp+
  moreover have "length (cof_master_api_key ex_details) \<le> 512" by (simp add: ex_details_def)
  ultimately show ?thesis using assms by (simp add: validate_connection_identity_def saved_origin_def or_else_def ex_origin)
qed

lemma ex_confirmed: "confirmed_node ex_connection ''FR-7'' key ex_started_db = Inr ex_node"
proof -
  have "latest_sequence ex_started_db = 1" "sent_sequence ex_started_db = 0" "canonical_uuid ex_node = Some ex_node"
    "saved_connection_value ex_started_db CONNECTION_NODE_KEY = []" by code_simp+
  then show ?thesis
    by (simp add: confirmed_node_def ex_connection_def verify_master_enrollment_identity_def check_enrollment_def jfield_def)
qed

lemma ex_linked:
  "\<exists>i d. ex_link = ((i, d), None) \<and> outbox d \<noteq> [] \<and> saved_connection_value d CONNECTION_NODE_KEY = ex_node \<and>
     saved_connection_value d CONNECTION_ORIGIN_KEY = ''https://master''"
proof -
  let ?kvs = "connection_values ''FR-7'' ''https://master'' (cof_master_api_key ex_details) 30 15 True"
  have "\<not> isl (save_master_connection_settings ?kvs)" by code_simp
  then obtain written where s: "save_master_connection_settings ?kvs = Inr written" by (cases "save_master_connection_settings ?kvs") auto
  have "interval_and_timeout ex_details = Inr (30, 15)" "latest_sequence ex_started_db = 1" "outbox ex_started_db \<noteq> []" by code_simp+
  moreover have "validate_connection_identity (\<lambda>s. False) ex_active_settings ''FR-7'' ''https://master'' (cof_master_api_key ex_details) ex_started_db = None"
    by (rule ex_valid) (simp_all add: ex_active_settings_def)
  moreover have "cnw_loads ex_connection = (\<lambda>s. None)" "cnw_bracketed ex_connection = (\<lambda>s. False)" "cnw_writable ex_connection = None"
    by (simp_all add: ex_connection_def)
  ultimately show ?thesis
    using s by (simp add: ex_link_def establish_connection_def ex_proposed ex_confirmed write_master_file_def)
qed

theorem link_is_permanent_witness:
  "snd ex_link = None \<and> linked ex_node ''https://master'' (snd (fst ex_link))"
proof -
  obtain i d where l: "ex_link = ((i, d), None)" "outbox d \<noteq> []" "saved_connection_value d CONNECTION_NODE_KEY = ex_node"
      "saved_connection_value d CONNECTION_ORIGIN_KEY = ''https://master''" using ex_linked by blast
  have "linking ex_node ''https://master'' d"
    by (rule linking.first [OF l(1) [unfolded ex_link_def] l(2)]) (simp_all add: l)
  then show ?thesis using link_is_permanent [of ex_node "''https://master''" d] by (simp add: l(1))
qed

section \<open>A code that ends with a hyphen\<close>

theorem hyphen_code_locks_witness:
  "\<exists>d. enqueue_initial_inventory_snapshot ex_sha (ex_settings\<lparr>cfg_franchise_code := ''FR-7-''\<rparr>) ex_uuid 0 None empty_db = Inr (d, 1, 0) \<and>
     validate_connection_identity (\<lambda>s. False) ex_active_settings (''FR-7'' @ ''-'') ''https://master'' (cof_master_api_key ex_details) empty_db = None \<and>
     validate_connection_identity (\<lambda>s. False) ex_active_settings (''FR-7'' @ ''-'') ''https://master'' (cof_master_api_key ex_details) d =
       Some (MasterSyncError ''Franchise code is locked because this node already has outbox events.'')"
proof -
  let ?cfg = "ex_settings\<lparr>cfg_franchise_code := ''FR-7-''\<rparr>"
  have guards: "enqueue_guard ?cfg ex_request empty_db = None" "list_length (map_of (rev (erq_payload ex_request)) ''items'') \<le> event_max_items"
    "utf8_size (frozen_event_json \<lparr>ehd_event_id = ex_uuid 1, ehd_sequence = Suc (outbox_sequence empty_db),
      ehd_type = py_upper (py_strip (erq_type ex_request)), ehd_aggregate_id = erq_aggregate_id ex_request,
      ehd_occurred_at = erq_occurred_at ex_request, ehd_schema_version = erq_schema_version ex_request\<rparr>
      (erq_payload ex_request)) \<le> 1000"
    and k: "configured_franchise_code ?cfg (Some True) = Inr ''FR-7''" "outbox empty_db = []" "baseline_serials empty_db = []"
      "plain_code ''FR-7''" "length ''FR-7'' \<le> 19" "master_api_key_shape (cof_master_api_key ex_details)"
    by (atomize (full)) code_simp
  obtain d row where e: "enqueue_outbox_event ex_sha ?cfg (ex_uuid 1) 0 ex_request empty_db = Inr (d, row)"
    using enqueue_accepts [OF guards(1,2)] guards(3) limits(1) order_trans by blast
  have s: "enqueue_initial_inventory_snapshot ex_sha ?cfg ex_uuid 0 None empty_db = Inr (d, 1, 0)"
    using e k by (simp add: enqueue_initial_inventory_snapshot_def ex_request_def)
  moreover have "outbox d \<noteq> []" using enqueueD(1) [OF e] by simp
  moreover have "length (cof_master_api_key ex_details) \<le> 512" "cof_master_api_key ex_details \<noteq> aps_master_api_key ex_active_settings"
    by (simp_all add: ex_details_def ex_active_settings_def)
  moreover have "cfg_franchise_code ?cfg = ''FR-7'' @ ''-''" by simp
  ultimately show ?thesis
    using hyphen_code_locks [OF k(4,5) _ s _ ex_origin _ k(6), of ex_active_settings] k(2) by blast
qed

end
