(* ===== verification/Web.thy ===== *)
theory Web
  imports Urls Accounts
begin

text \<open>
  What stands between the network and the handlers, \<open>app/middleware.py\<close>: the comparison
  of the origin of a request with the address it was sent to, the headers every answer gets, and
  the session cookie that is renewed with every request of a user.  A header is looked up by its
  lower-case name.  The functions answer \<open>None\<close> where \<open>urlparse\<close> raises, which nothing catches.
\<close>

record web_request =
  wrq_method :: string
  wrq_scheme :: string
  wrq_path :: string
  wrq_header :: "string \<Rightarrow> string option"

record web_answer =
  wan_status :: nat
  wan_headers :: "(string \<times> string) list"
  wan_cookies :: "cookie list"

definition SAFE_METHODS :: "string list" where
  "SAFE_METHODS = [''GET'', ''HEAD'', ''OPTIONS'', ''TRACE'']"

definition BACKGROUND_REQUEST_HEADER :: string where
  "BACKGROUND_REQUEST_HEADER = ''x-setuora-background''"

definition SECURITY_HEADERS :: "(string \<times> string) list" where
  "SECURITY_HEADERS = [(''X-Content-Type-Options'', ''nosniff''), (''X-Frame-Options'', ''DENY''), (''Referrer-Policy'', ''same-origin''),
     (''Permissions-Policy'', ''camera=(self), geolocation=(), microphone=(), payment=(), usb=()''),
     (''Cross-Origin-Opener-Policy'', ''same-origin'')]"

section \<open>Where a request comes from\<close>

definition authority :: "(string \<Rightarrow> bool) \<Rightarrow> string option \<Rightarrow> (string \<times> nat option) option option" where
  "authority bracketed v =
    (let t = text_of v
     in if t = [] then Some None
        else case urlsplit bracketed (if contains_text ''//'' t then t else ''//'' @ t) of None \<Rightarrow> None
        | Some u \<Rightarrow> Some
            (case url_hostname u of None \<Rightarrow> None
             | Some h \<Rightarrow> (case url_port u of None \<Rightarrow> None | Some port \<Rightarrow> Some (py_lower h, port))))"

definition default_port :: "string \<Rightarrow> nat" where
  "default_port scheme = (if scheme = ''https'' then 443 else 80)"

definition origin :: "(string \<Rightarrow> bool) \<Rightarrow> string option \<Rightarrow> (string \<times> string \<times> nat) option option" where
  "origin bracketed v =
    (let t = text_of v
     in if t = [] then Some None
        else case urlsplit bracketed t of None \<Rightarrow> None
        | Some u \<Rightarrow> Some
            (if url_scheme u \<notin> {''http'', ''https''} then None
             else case url_hostname u of None \<Rightarrow> None
             | Some h \<Rightarrow> (case url_port u of None \<Rightarrow> None
                 | Some port \<Rightarrow> Some (py_lower (url_scheme u), py_lower h,
                     case port of Some n \<Rightarrow> if n = 0 then default_port (url_scheme u) else n | None \<Rightarrow> default_port (url_scheme u)))))"

definition before_comma :: "string \<Rightarrow> string" where
  "before_comma s = hd (py_split_on (CHR '','') s)"

definition expected_origin :: "(string \<Rightarrow> bool) \<Rightarrow> web_request \<Rightarrow> (string \<times> string \<times> nat) option option" where
  "expected_origin bracketed rq =
    (let host = or_else (text_of (wrq_header rq ''x-forwarded-host'')) (text_of (wrq_header rq ''host''));
         scheme = py_lower (before_comma (case wrq_header rq ''x-forwarded-proto'' of Some p \<Rightarrow> p | None \<Rightarrow> wrq_scheme rq))
     in case authority bracketed (if host = [] then None else Some (before_comma host)) of None \<Rightarrow> None
        | Some a \<Rightarrow> Some (case a of None \<Rightarrow> None
            | Some (h, port) \<Rightarrow>
                if scheme \<in> {''http'', ''https''}
                then Some (scheme, h, case port of Some n \<Rightarrow> n | None \<Rightarrow> default_port scheme) else None))"

datatype verdict = Passed | Foreign | Raising

definition csrf_check :: "(string \<Rightarrow> bool) \<Rightarrow> web_request \<Rightarrow> verdict" where
  "csrf_check bracketed rq =
    (if wrq_method rq \<in> set SAFE_METHODS then Passed
     else case origin bracketed (Some (or_else (text_of (wrq_header rq ''origin'')) (text_of (wrq_header rq ''referer'')))) of None \<Rightarrow> Raising
     | Some source \<Rightarrow>
    (case expected_origin bracketed rq of None \<Rightarrow> Raising
     | Some target \<Rightarrow> if source = None \<or> target = None \<or> source \<noteq> target then Foreign else Passed))"

section \<open>The answer\<close>

definition set_default :: "string \<times> string \<Rightarrow> (string \<times> string) list \<Rightarrow> (string \<times> string) list" where
  "set_default kv hs = (if py_lower (fst kv) \<in> py_lower ` fst ` set hs then hs else hs @ [kv])"

definition quote :: "string \<Rightarrow> string" where "quote s = [CHR 0x27] @ s @ [CHR 0x27]"

definition content_policy :: "string \<Rightarrow> string" where
  "content_policy nonce =
    (let own = quote ''self'' in py_join ''; '' [''default-src '' @ own, ''script-src '' @ own @ '' '' @ quote (''nonce-'' @ nonce),
       ''style-src '' @ own @ '' '' @ quote ''unsafe-inline'', ''img-src '' @ own @ '' data: blob:'', ''connect-src '' @ own,
       ''font-src '' @ own @ '' data:'', ''object-src '' @ quote ''none'', ''base-uri '' @ own, ''form-action '' @ own,
       ''frame-ancestors '' @ quote ''none''])"

definition security_headers :: "string \<Rightarrow> web_request \<Rightarrow> web_answer \<Rightarrow> web_answer" where
  "security_headers nonce rq a =
    (let secure = wrq_scheme rq = ''https'' \<or> py_lower (text_of (wrq_header rq ''x-forwarded-proto'')) = ''https'';
         added = SECURITY_HEADERS @ [(''Content-Security-Policy'', content_policy nonce)] @
           (if secure then [(''Strict-Transport-Security'', ''max-age=31536000; includeSubDomains'')] else []) @
           (if starts_with ''/static/'' (wrq_path rq) then [] else [(''Cache-Control'', ''no-store'')])
     in a\<lparr>wan_headers := fold set_default added (wan_headers a)\<rparr>)"

text \<open>What the handler left in the state of the request: the signed-in user and the version of its session.\<close>

definition session_activity ::
  "server \<Rightarrow> account_policy \<Rightarrow> moment \<Rightarrow> web_request \<Rightarrow> (nat \<times> nat) option \<Rightarrow> web_answer \<Rightarrow> web_answer"
where
  "session_activity srv pol now rq session a =
    (case session of None \<Rightarrow> a
     | Some (uid, version) \<Rightarrow>
         if uid = 0 \<or> py_lower (text_of (wrq_header rq BACKGROUND_REQUEST_HEADER)) = ''true'' then a
         else a\<lparr>wan_cookies := wan_cookies a @ [session_cookie srv pol uid version now]\<rparr>)"

text \<open>
  A request through all three layers: the handler gives the answer, the session of the state and
  the new database.  Without an answer the server reports an error.
\<close>

definition served ::
  "(string \<Rightarrow> bool) \<Rightarrow> server \<Rightarrow> account_policy \<Rightarrow> string \<Rightarrow> moment \<Rightarrow> web_request \<Rightarrow>
   (db \<Rightarrow> web_answer \<times> (nat \<times> nat) option \<times> db) \<Rightarrow> db \<Rightarrow> web_answer option \<times> db"
where
  "served bracketed srv pol nonce now rq handler d =
    (case csrf_check bracketed rq of
       Raising \<Rightarrow> (None, d)
     | Foreign \<Rightarrow> (Some (security_headers nonce rq \<lparr>wan_status = 403, wan_headers = [], wan_cookies = []\<rparr>), d)
     | Passed \<Rightarrow> (case handler d of (a, session, d') \<Rightarrow>
         (Some (security_headers nonce rq (session_activity srv pol now rq session a)), d')))"

section \<open>Only the own pages change anything\<close>

lemma urlsplit_authority:
  assumes "plain_host h"
  shows "urlsplit bracketed (''//'' @ h @ port_text p) =
    Some \<lparr>url_scheme = [], url_netloc = h @ port_text p, url_path = [], url_query = [], url_fragment = []\<rparr>"
proof -
  have "32 < (of_char x :: nat) \<and> x \<notin> set ''/?#[]''" if "host_char x \<or> x = CHR '':''" for x
    using that by (elim disjE) (simp_all add: host_char_def)
  then have hp: "\<forall>x \<in> set (h @ port_text p). 32 < (of_char x :: nat) \<and> x \<notin> set ''/?#[]''"
    using host_port_chars [OF assms(1), of p] unfolding list_all_iff by blast
  then have "\<forall>x \<in> set (''//'' @ h @ port_text p). 32 < (of_char x :: nat)" by (simp add: ball_Un)
  then have "url_cleaned (''//'' @ h @ port_text p) = ''//'' @ h @ port_text p" by (rule url_clean)
  moreover have "split_scheme (''//'' @ r) = ([], ''//'' @ r)" for r
  proof -
    have "\<not> scheme_start (CHR ''/'')" by code_simp
    then show ?thesis by (auto simp: split_scheme_def cut_def split: list.split option.split)
  qed
  moreover have "takeWhile (\<lambda>x. x \<notin> set ''/?#'') (h @ port_text p) = h @ port_text p"
    "dropWhile (\<lambda>x. x \<notin> set ''/?#'') (h @ port_text p) = []"
    using hp unfolding takeWhile_eq_all_conv dropWhile_eq_Nil_conv by simp_all
  moreover have "netloc_ok bracketed (h @ port_text p)"
    using hp unfolding netloc_ok_def by fastforce
  ultimately show ?thesis
    by (simp add: urlsplit_def starts_with_def cut_def text_of_def del: takeWhile_eq_all_conv dropWhile_eq_Nil_conv)
qed

lemma char_lower_idem: "char_lower (char_lower c) = char_lower c"
  by (cases c) (simp add: char_lower_def is_upper_letter_def Let_def)

lemma py_lower_idem: "py_lower (py_lower s) = py_lower s"
  by (simp add: py_lower_def char_lower_idem)

definition port_or_default :: "string \<Rightarrow> nat option \<Rightarrow> nat" where
  "port_or_default scheme p = (case p of Some n \<Rightarrow> n | None \<Rightarrow> default_port scheme)"

definition port_ok :: "nat option \<Rightarrow> bool" where
  "port_ok p \<longleftrightarrow> (case p of None \<Rightarrow> True | Some n \<Rightarrow> 0 < n \<and> n \<le> 65535)"

text \<open>What may follow the address in the address of a page.\<close>

definition page_text :: "string \<Rightarrow> bool" where
  "page_text r \<longleftrightarrow> (r = [] \<or> hd r \<in> set ''/?#'') \<and> list_all (\<lambda>c. 32 < (of_char c :: nat)) r"

lemma page_ends:
  assumes "plain_host h" "page_text r"
  shows "takeWhile (\<lambda>x. x \<notin> set ''/?#'') (h @ port_text p @ r) = h @ port_text p" "netloc_ok bracketed (h @ port_text p)"
proof -
  have "x \<notin> set ''/?#[]''" if "host_char x \<or> x = CHR '':''" for x
    using that by (elim disjE) (simp_all add: host_char_def)
  then have hp: "\<forall>x \<in> set (h @ port_text p). x \<notin> set ''/?#[]''"
    using host_port_chars [OF assms(1), of p] unfolding list_all_iff by blast
  then have "takeWhile (\<lambda>x. x \<notin> set ''/?#'') ((h @ port_text p) @ r) = (h @ port_text p) @ takeWhile (\<lambda>x. x \<notin> set ''/?#'') r"
    by (intro takeWhile_append2) auto
  moreover have "takeWhile (\<lambda>x. x \<notin> set ''/?#'') r = []" using assms(2) by (cases r) (auto simp: page_text_def)
  ultimately show "takeWhile (\<lambda>x. x \<notin> set ''/?#'') (h @ port_text p @ r) = h @ port_text p" by simp
  show "netloc_ok bracketed (h @ port_text p)" using hp unfolding netloc_ok_def by fastforce
qed

lemma urlsplit_page:
  assumes "plain_host h" "scheme_start c" "list_all scheme_char cs" "page_text r"
  shows "\<exists>u. urlsplit bracketed (c # cs @ ''://'' @ h @ port_text p @ r) = Some u \<and>
    url_scheme u = py_lower (c # cs) \<and> url_netloc u = h @ port_text p"
proof -
  have "32 < (of_char x :: nat)" if "host_char x \<or> x = CHR '':''" for x
    using that by (elim disjE) (simp_all add: host_char_def)
  then have hp: "\<forall>x \<in> set (h @ port_text p). 32 < (of_char x :: nat)"
    using host_port_chars [OF assms(1), of p] unfolding list_all_iff by blast
  have sc: "\<forall>x \<in> set (c # cs). 32 < (of_char x :: nat) \<and> x \<noteq> CHR '':''"
    using assms(2,3) scheme_char_facts scheme_start_char by (auto simp: list_all_iff)
  have parts: "\<forall>x \<in> set (c # cs). 32 < (of_char x :: nat)" "\<forall>x \<in> set h. 32 < (of_char x :: nat)"
    "\<forall>x \<in> set (port_text p). 32 < (of_char x :: nat)" "\<forall>x \<in> set r. 32 < (of_char x :: nat)"
    using hp sc assms(4) by (simp_all add: page_text_def list_all_iff)
  then have "\<forall>x \<in> set (c # cs @ ''://'' @ h @ port_text p @ r). 32 < (of_char x :: nat)" by (simp add: ball_Un)
  then have "url_cleaned (c # cs @ ''://'' @ h @ port_text p @ r) = c # cs @ ''://'' @ h @ port_text p @ r"
    by (rule url_clean)
  moreover have "split_scheme (c # cs @ CHR '':'' # t) = (py_lower (c # cs), t)" for t
  proof -
    have "CHR '':'' \<notin> set (c # cs)" using sc by blast
    from cut_at [OF this, of t] have "cut (CHR '':'') (c # cs @ CHR '':'' # t) = (c # cs, Some t)" by simp
    moreover have "list_all scheme_char (c # cs)" using assms(2,3) scheme_start_char by simp
    ultimately show ?thesis using assms(2) by (simp only: split_scheme_def prod.case list.case option.case if_True simp_thms)
  qed
  ultimately show ?thesis
    using page_ends(1) [OF assms(1,4), of p] page_ends(2) [OF assms(1,4), of bracketed p]
    by (simp add: urlsplit_def starts_with_def Let_def split: prod.split)
qed

lemma origin_of_page:
  assumes "plain_host h" "scheme \<in> {''http'', ''https''}" "port_ok p" "page_text r"
  shows "origin bracketed (Some (scheme @ ''://'' @ h @ port_text p @ r)) = Some (Some (scheme, py_lower h, port_or_default scheme p))"
proof -
  have s: "scheme_start (CHR ''h'')" "list_all scheme_char ''ttp''" "list_all scheme_char ''ttps''"
    "py_lower ''http'' = ''http''" "py_lower ''https'' = ''https''" by (atomize (full)) code_simp
  obtain u where u: "urlsplit bracketed (scheme @ ''://'' @ h @ port_text p @ r) = Some u"
    "url_scheme u = scheme" "url_netloc u = h @ port_text p"
    using assms(2) urlsplit_page [OF assms(1) s(1,2) assms(4), of bracketed p] urlsplit_page [OF assms(1) s(1,3) assms(4), of bracketed p]
      s(4,5) by auto
  have n: "scheme @ ''://'' @ h @ port_text p @ r \<noteq> []" by simp
  have low: "py_lower scheme = scheme" using assms(2) s(4,5) by auto
  show ?thesis using assms(2,3) plain_parts [OF assms(1) u(3)] n u low
    by (auto simp: origin_def Let_def text_of_def py_lower_idem port_or_default_def port_ok_def split: option.splits)
qed

lemma origin_of_null: "origin bracketed (Some []) = Some None" "origin bracketed (Some ''null'') = Some None"
proof -
  have "urlsplit bracketed ''null'' = Some \<lparr>url_scheme = [], url_netloc = [], url_path = ''null'', url_query = [], url_fragment = []\<rparr>"
    by (simp add: urlsplit_def url_cleaned_def split_scheme_def cut_def starts_with_def netloc_ok_def text_of_def)
  then show "origin bracketed (Some ''null'') = Some None" by (simp add: origin_def text_of_def)
qed (simp add: origin_def text_of_def)

lemma no_slashes: "\<forall>c \<in> set s. c \<noteq> CHR ''/'' \<Longrightarrow> \<not> contains_text ''//'' s"
  by (induction s) (auto simp: starts_with_def)

lemma before_comma_none: "CHR '','' \<notin> set s \<Longrightarrow> before_comma s = s"
  by (simp add: before_comma_def py_split_on_none)

lemma authority_of_plain:
  assumes "plain_host h" "port_ok p"
  shows "authority bracketed (Some (h @ port_text p)) = Some (Some (py_lower h, p))"
proof -
  let ?u = "\<lparr>url_scheme = [], url_netloc = h @ port_text p, url_path = [], url_query = [], url_fragment = []\<rparr>"
  have "\<forall>c \<in> set (h @ port_text p). c \<noteq> CHR ''/''"
    using host_port_chars [OF assms(1), of p] unfolding list_all_iff host_char_def by auto
  then have "\<not> contains_text ''//'' (h @ port_text p)" by (rule no_slashes)
  then show ?thesis using assms plain_parts [OF assms(1), of ?u p] urlsplit_authority [OF assms(1), of bracketed p]
    by (auto simp: authority_def Let_def text_of_def plain_host_def py_lower_idem port_ok_def split: option.splits)
qed

text \<open>What a request names as its source and as its target.\<close>

definition request_source :: "web_request \<Rightarrow> string" where
  "request_source rq = or_else (text_of (wrq_header rq ''origin'')) (text_of (wrq_header rq ''referer''))"

definition request_scheme :: "web_request \<Rightarrow> string" where
  "request_scheme rq = py_lower (before_comma (case wrq_header rq ''x-forwarded-proto'' of Some p \<Rightarrow> p | None \<Rightarrow> wrq_scheme rq))"

definition request_host :: "web_request \<Rightarrow> string" where
  "request_host rq = before_comma (or_else (text_of (wrq_header rq ''x-forwarded-host'')) (text_of (wrq_header rq ''host'')))"

lemma expected_of_plain:
  assumes "request_scheme rq \<in> {''http'', ''https''}" "request_host rq = g @ port_text q" "plain_host g" "port_ok q"
  shows "expected_origin bracketed rq = Some (Some (request_scheme rq, py_lower g, port_or_default (request_scheme rq) q))"
proof -
  have "g @ port_text q \<noteq> []" using assms(3) by (simp add: plain_host_def)
  moreover have "before_comma [] = []" by (simp add: before_comma_def)
  ultimately have "or_else (text_of (wrq_header rq ''x-forwarded-host'')) (text_of (wrq_header rq ''host'')) \<noteq> []"
    using assms(2) unfolding request_host_def by metis
  then show ?thesis
    using authority_of_plain [OF assms(3,4), of bracketed] assms(1,2)
    unfolding expected_origin_def Let_def request_host_def request_scheme_def
    by (auto simp: port_or_default_def split: option.split)
qed

text \<open>The check in one line: the source is an address, and it is the target's.\<close>

lemma csrf_check_passes:
  assumes "wrq_method rq \<notin> set SAFE_METHODS"
  shows "csrf_check bracketed rq = Passed \<longleftrightarrow>
    (\<exists>x. origin bracketed (Some (request_source rq)) = Some (Some x) \<and> expected_origin bracketed rq = Some (Some x))"
  using assms by (auto simp: csrf_check_def request_source_def split: option.split)

lemma served_effect:
  "snd (served b srv pol nonce now rq handler d) = (if csrf_check b rq = Passed then snd (snd (handler d)) else d)"
  by (cases "csrf_check b rq") (simp_all add: served_def split: prod.split)

text \<open>
  C38. A page of another site changes nothing.  A request that may change something reaches its
  handler only if its Origin (its Referer, when it has no Origin) is the http or https address of a
  server and that is the address the request was sent to, as Host or the forwarded headers say; a
  request without either header, or from an opaque origin, never does.  For an address of a plain
  host and the page behind it, that is: the same scheme, the same host up to case and the same port,
  where the scheme's own port may be left out.
\<close>

theorem only_own_pages:
  assumes "wrq_method rq \<notin> set SAFE_METHODS"
  shows "snd (served b srv pol nonce now rq handler d) =
      (if \<exists>x. origin b (Some (request_source rq)) = Some (Some x) \<and> expected_origin b rq = Some (Some x)
       then snd (snd (handler d)) else d) \<and>
    (request_source rq \<in> {[], ''null''} \<longrightarrow> snd (served b srv pol nonce now rq handler d) = d) \<and>
    (request_source rq = s @ ''://'' @ h @ port_text p @ page \<and> s \<in> {''http'', ''https''} \<and> plain_host h \<and> port_ok p \<and> page_text page \<and>
     request_scheme rq \<in> {''http'', ''https''} \<and> request_host rq = g @ port_text q \<and> plain_host g \<and> port_ok q \<longrightarrow>
     snd (served b srv pol nonce now rq handler d) =
       (if s = request_scheme rq \<and> py_lower h = py_lower g \<and> port_or_default s p = port_or_default s q
        then snd (snd (handler d)) else d))"
proof (intro conjI impI)
  show e: "snd (served b srv pol nonce now rq handler d) =
      (if \<exists>x. origin b (Some (request_source rq)) = Some (Some x) \<and> expected_origin b rq = Some (Some x)
       then snd (snd (handler d)) else d)"
    unfolding served_effect csrf_check_passes [OF assms] ..
  show "snd (served b srv pol nonce now rq handler d) = d" if "request_source rq \<in> {[], ''null''}"
    using that origin_of_null [of b] unfolding e by auto
  assume a: "request_source rq = s @ ''://'' @ h @ port_text p @ page \<and> s \<in> {''http'', ''https''} \<and> plain_host h \<and> port_ok p \<and> page_text page \<and>
     request_scheme rq \<in> {''http'', ''https''} \<and> request_host rq = g @ port_text q \<and> plain_host g \<and> port_ok q"
  have "request_source rq = s @ ''://'' @ h @ port_text p @ page" using a by blast
  then have o: "origin b (Some (request_source rq)) = Some (Some (s, py_lower h, port_or_default s p))"
    using origin_of_page [of h s p page b] a by simp
  have x: "expected_origin b rq = Some (Some (request_scheme rq, py_lower g, port_or_default (request_scheme rq) q))"
    using expected_of_plain [of rq g q b] a by blast
  show "snd (served b srv pol nonce now rq handler d) =
       (if s = request_scheme rq \<and> py_lower h = py_lower g \<and> port_or_default s p = port_or_default s q
        then snd (snd (handler d)) else d)"
    unfolding e o x by (cases "request_scheme rq = s") auto
qed

end
