(* ===== verification/Pages.thy ===== *)
theory Pages
  imports BatchRoutes
begin

text \<open>
  What the page handlers share: the answer to a request (a page is answered by its data, a
  redirection by its path and its query before encoding), the checks of the signed-in user, and the
  small conversions of form fields.
\<close>

datatype 'p answer =
    Redirect string "(string \<times> string) list"
  | Page nat 'p
  | Data nat "(string \<times> json) list"
  | Plain nat string
  | Attachment string string
  | Failed http_error

definition asked :: "http_error + user \<Rightarrow> db \<Rightarrow> (user \<Rightarrow> 'p answer \<times> db) \<Rightarrow> 'p answer \<times> db" where
  "asked who d run = (case who of Inl e \<Rightarrow> (Failed e, d) | Inr u \<Rightarrow> run u)"

definition permitted :: "server \<Rightarrow> request \<Rightarrow> string \<Rightarrow> string list option \<Rightarrow> db \<Rightarrow> http_error + user" where
  "permitted srv rq key allowed d =
     require_permission (srv_mac srv) (srv_loads srv) (rq_now rq) (rq_cookie rq) (rq_path rq) key allowed d"

definition with_role :: "server \<Rightarrow> request \<Rightarrow> role_arg option \<Rightarrow> db \<Rightarrow> http_error + user" where
  "with_role srv rq roles d = require_user (srv_mac srv) (srv_loads srv) (rq_now rq) (rq_cookie rq) (rq_path rq) roles d"

definition edit_or_yes :: "string list option" where "edit_or_yes = Some [''edit'', ''yes'']"

text \<open>\<open>value.strip() or None\<close>, and a filter \<open>column ILIKE '%value%'\<close>.\<close>

definition stripped_option :: "string \<Rightarrow> string option" where
  "stripped_option s = (let t = py_strip s in if t = [] then None else Some t)"

definition ilike :: "string \<Rightarrow> string option \<Rightarrow> bool" where
  "ilike q field = (case field of None \<Rightarrow> False | Some t \<Rightarrow> sql_like (''%'' @ py_strip q @ ''%'') t)"

text \<open>\<open>list(dict.fromkeys(int(v) for v in ids.split(",") if v.strip().isdigit()))\<close>; superscript digits, which only \<open>isdigit\<close> takes, are left out.\<close>

definition id_list :: "string \<Rightarrow> nat list" where
  "id_list ids = rev (remdups (rev (map (\<lambda>v. parse_nat (py_strip v))
     (filter (\<lambda>v. py_strip v \<noteq> [] \<and> list_all is_digit (py_strip v)) (py_split_on (CHR '','') ids)))))"

lemma asked_Inl [simp]: "asked (Inl e) d run = (Failed e, d)"
  and asked_Inr [simp]: "asked (Inr u) d run = run u"
  by (simp_all add: asked_def)

lemma asked_db: "snd (asked who d run) = (case who of Inl e \<Rightarrow> d | Inr u \<Rightarrow> snd (run u))"
  by (simp add: asked_def split: sum.split)

end
