(* ===== verification/SettingsRoutes.thy ===== *)
theory SettingsRoutes
  imports Pages Configuration Access TallyMasters
begin

text \<open>
  The settings pages, \<open>app/routers/settings.py\<close>: the global settings with their
  companies, and the matrix of roles.  A request that fails leaves the database as it was, which is
  the rollback of each handler.  The digits of a port or an interval are those of ASCII.
\<close>

definition settings_snapshot :: "settings_map \<Rightarrow> string list \<Rightarrow> json" where
  "settings_snapshot values keys = JObj (map (\<lambda>k. (k, JStr (text_of (values k)))) keys)"

definition company_snapshot :: "(string \<Rightarrow> json option) \<Rightarrow> company option \<Rightarrow> json" where
  "company_snapshot loads c = (case c of None \<Rightarrow> JNull
     | Some c \<Rightarrow> JObj [(''id'', JInt (int (cmp_id c))), (''name'', JStr (cmp_name c)), (''is_active'', JBool (cmp_is_active c)),
         (''config'', JObj (map (\<lambda>(k, v). (k, JStr v)) (company_config loads c)))])"

definition snapshot_option :: "(string \<Rightarrow> json option) \<Rightarrow> company option \<Rightarrow> json option" where
  "snapshot_option loads c = (case c of None \<Rightarrow> None | Some c \<Rightarrow> Some (company_snapshot loads (Some c)))"

definition whole_number :: "string \<Rightarrow> nat \<Rightarrow> nat \<Rightarrow> bool" where
  "whole_number t low high \<longleftrightarrow> t \<noteq> [] \<and> list_all is_digit t \<and> low \<le> parse_nat t \<and> parse_nat t \<le> high"

definition validate_settings :: "(string \<times> string) list \<Rightarrow> string option" where
  "validate_settings requested =
    (let field = (\<lambda>k. text_of (map_of requested k))
     in if field ''company_name'' = [] then Some ''Company name is required.''
        else if field ''tally_host'' = [] then Some ''Tally host is required.''
        else if \<not> whole_number (field ''tally_port'') 1 65535 then Some ''Tally port must be a whole number between 1 and 65535.''
        else if \<not> whole_number (field ''retry_interval_seconds'') 30 86400 then
          Some ''Retry interval must be a whole number of seconds between 30 and 86400.''
        else (case parse_sales_gst_ledger_mappings (map_of requested ''sales_gst_ledger_mappings'') of
            Inl e \<Rightarrow> Some (exc_text e) | Inr m \<Rightarrow> None))"

record settings_page =
  sgp_settings :: settings_map
  sgp_companies :: "company list"
  sgp_active :: "company option"
  sgp_error :: "string option"
  sgp_open :: bool

definition settings_user :: "server \<Rightarrow> request \<Rightarrow> db \<Rightarrow> http_error + user" where
  "settings_user srv rq d = permitted srv rq ''settings_edit'' None d"

definition render_settings ::
  "server \<Rightarrow> request \<Rightarrow> settings_map option \<Rightarrow> string option \<Rightarrow> nat \<Rightarrow> bool \<Rightarrow> db \<Rightarrow> settings_page answer"
where
  "render_settings srv rq values err status opened d =
    (case settings_user srv rq d of Inl e \<Rightarrow> Failed e
     | Inr u \<Rightarrow> Page status \<lparr>sgp_settings = (case values of Some m \<Rightarrow> m | None \<Rightarrow> get_all_settings d),
         sgp_companies = list_companies d, sgp_active = get_active_company d, sgp_error = err, sgp_open = opened\<rparr>)"

definition settings_page_answer :: "server \<Rightarrow> request \<Rightarrow> db \<Rightarrow> settings_page answer \<times> db" where
  "settings_page_answer srv rq d = asked (settings_user srv rq d) d (\<lambda>u. (render_settings srv rq None None 200 False d, d))"

section \<open>The matrix of roles\<close>

type_synonym matrix_page = "(string \<times> string \<times> (access_row_definition \<times> access_cell list) list) list"

definition access_overview :: "server \<Rightarrow> request \<Rightarrow> db \<Rightarrow> matrix_page answer \<times> db" where
  "access_overview srv rq d = asked (with_role srv rq (Some (RoleArg SUPER_ADMIN)) d) d (\<lambda>u.
     (Page 200 (role_access_sections (get_role_access_config (srv_loads srv) d)), d))"

definition save_access_overview :: "server \<Rightarrow> request \<Rightarrow> (string \<times> string) list \<Rightarrow> db \<Rightarrow> matrix_page answer \<times> db" where
  "save_access_overview srv rq items d = asked (with_role srv rq (Some (RoleArg SUPER_ADMIN)) d) d (\<lambda>u.
     let stored = (\<lambda>e. JObj [(''role_access_config'', JStr (text_of (get_all_settings e ''role_access_config'')))]);
         d1 = save_role_access_config (srv_loads srv) (rq_now rq) (config_from_form items) d
     in (Redirect ''/settings/access'' [],
         record_change (Some u) ''settings'' ''role_access_config'' ''update'' (Some (stored d)) (Some (stored d1)) (rq_now rq) d1))"

section \<open>The global settings\<close>

text \<open>A field the form does not have is the stored value.\<close>

record settings_form =
  sgf_company_name :: string
  sgf_purchase_enabled :: string
  sgf_sales_enabled :: string
  sgf_tally_host :: string
  sgf_tally_port :: string
  sgf_stock_location :: "string option"
  sgf_sales_voucher :: "string option"
  sgf_purchase_voucher :: "string option"
  sgf_sales_ledger :: "string option"
  sgf_purchase_ledger :: "string option"
  sgf_cgst :: "string option"
  sgf_sgst :: "string option"
  sgf_mappings :: string
  sgf_round_off :: string
  sgf_interval :: string

definition stripped_or :: "string option \<Rightarrow> string \<Rightarrow> string" where
  "stripped_or v current = (case v of None \<Rightarrow> current | Some t \<Rightarrow> py_strip t)"

definition true_or_false :: "string \<Rightarrow> string" where
  "true_or_false t = (if t = ''true'' then ''true'' else ''false'')"

text \<open>What both forms ask for, without the flags.\<close>

definition requested_values :: "settings_form \<Rightarrow> db \<Rightarrow> (string \<times> string) list" where
  "requested_values f d =
    (let current = (\<lambda>k. text_of (get_all_settings d k))
     in [(''company_name'', py_strip (sgf_company_name f)), (''tally_host'', py_strip (sgf_tally_host f)),
         (''tally_port'', py_strip (sgf_tally_port f)),
         (''tally_stock_location'', case sgf_stock_location f of None \<Rightarrow> current ''tally_stock_location''
            | Some t \<Rightarrow> or_else (py_strip t) ''Main Location''),
         (''sales_voucher_type'', stripped_or (sgf_sales_voucher f) (current ''sales_voucher_type'')),
         (''purchase_voucher_type'', stripped_or (sgf_purchase_voucher f) (current ''purchase_voucher_type'')),
         (''sales_ledger_name'', stripped_or (sgf_sales_ledger f) (current ''sales_ledger_name'')),
         (''purchase_ledger_name'', stripped_or (sgf_purchase_ledger f) (current ''purchase_ledger_name'')),
         (''cgst_ledger_name'', stripped_or (sgf_cgst f) (current ''cgst_ledger_name'')),
         (''sgst_ledger_name'', stripped_or (sgf_sgst f) (current ''sgst_ledger_name'')),
         (''sales_gst_ledger_mappings'', py_strip (sgf_mappings f)),
         (''round_off_ledger_name'', py_strip (sgf_round_off f)),
         (''retry_interval_seconds'', py_strip (sgf_interval f))])"

definition requested_with_flags :: "settings_form \<Rightarrow> db \<Rightarrow> (string \<times> string) list" where
  "requested_with_flags f d =
    (let p = true_or_false (sgf_purchase_enabled f); s = true_or_false (sgf_sales_enabled f); values = requested_values f d
     in take 1 values @ [(combined_flag, if ''true'' \<in> {p, s} then ''true'' else ''false''), (purchase_flag, p), (sales_flag, s)] @ drop 1 values)"

text \<open>What the form shows again after an error: the values as sent, the flags as stored.\<close>

definition shown_again :: "(string \<times> string) list \<Rightarrow> db \<Rightarrow> settings_map" where
  "shown_again requested d k =
    (if k \<in> {combined_flag, purchase_flag, sales_flag} then Some (case get_all_settings d k of Some v \<Rightarrow> v | None \<Rightarrow> ''false'')
     else case map_of requested k of Some v \<Rightarrow> Some v | None \<Rightarrow> get_all_settings d k)"

definition save_settings :: "server \<Rightarrow> request \<Rightarrow> settings_form \<Rightarrow> db \<Rightarrow> settings_page answer \<times> db" where
  "save_settings srv rq f d = asked (settings_user srv rq d) d (\<lambda>u.
     let requested = requested_with_flags f d; keys = map fst requested;
         on = (map_of requested combined_flag = Some ''true'');
         d1 = persist_settings_and_active_company (rq_now rq) requested d;
         refused = (\<lambda>m. (render_settings srv rq (Some (shown_again requested d)) (Some m) 400 True d, d));
         saved = (Redirect ''/settings'' [],
           record_change (Some u) ''settings'' ''global'' ''update'' (Some (settings_snapshot (get_all_settings d) keys))
             (Some (settings_snapshot (map_of requested) keys)) (rq_now rq) d1)
     in if rq_app_mode rq = ''lite'' \<and> on then
          (render_settings srv rq None (Some ''Configure Tally synchronization on Setuora Master, not on Lite.'') 400 True d, d)
        else case validate_settings requested of Some m \<Rightarrow> refused m
        | None \<Rightarrow>
            if \<not> on then saved
            else (case live_sync_readiness d1 of Inl e \<Rightarrow> (Failed (Broken e), d)
              | Inr (ready, n) \<Rightarrow>
                  if ready then saved
                  else refused (''Complete Tally Check before enabling sync. Missing: '' @ nat_str (rdy_missing n) @ '', unchecked: '' @
                    nat_str (rdy_unchecked n) @ ''.'')))"

definition autosave_settings :: "server \<Rightarrow> request \<Rightarrow> settings_form \<Rightarrow> db \<Rightarrow> settings_page answer \<times> db" where
  "autosave_settings srv rq f d = asked (settings_user srv rq d) d (\<lambda>u.
     let requested = requested_values f d; keys = map fst requested
     in case validate_settings requested of
          Some m \<Rightarrow> (Data 400 [(''ok'', JBool False), (''error'', JStr m)], d)
        | None \<Rightarrow> (Data 200 [(''ok'', JBool True)],
            record_change (Some u) ''settings'' ''global'' ''autosave'' (Some (settings_snapshot (get_all_settings d) keys))
              (Some (settings_snapshot (map_of requested) keys)) (rq_now rq)
              (persist_settings_and_active_company (rq_now rq) requested d)))"

section \<open>Companies\<close>

record company_form =
  cpf_name :: string
  cpf_company_name :: string
  cpf_tally_host :: string
  cpf_tally_port :: string
  cpf_stock_location :: string
  cpf_mappings :: string
  cpf_round_off :: string

definition company_form_config :: "company_form \<Rightarrow> db \<Rightarrow> (string \<times> string) list" where
  "company_form_config f d =
    [(''company_name'', cpf_company_name f), (''tally_host'', cpf_tally_host f), (''tally_port'', cpf_tally_port f),
     (''tally_stock_location'', or_else (py_strip (cpf_stock_location f)) ''Main Location'')] @
    map (\<lambda>k. (k, text_of (get_all_settings d k))) [''sales_voucher_type'', ''purchase_voucher_type'', ''sales_ledger_name'',
      ''purchase_ledger_name'', ''cgst_ledger_name'', ''sgst_ledger_name''] @
    [(''sales_gst_ledger_mappings'', cpf_mappings f), (''round_off_ledger_name'', cpf_round_off f)]"

text \<open>A \<open>ValueError\<close> is shown on the page; the change is undone.\<close>

definition settings_answer :: "server \<Rightarrow> request \<Rightarrow> exc + db \<Rightarrow> db \<Rightarrow> settings_page answer \<times> db" where
  "settings_answer srv rq result d =
    (case result of Inr d' \<Rightarrow> (Redirect ''/settings'' [], d')
     | Inl (ValueError m) \<Rightarrow> (render_settings srv rq None (Some m) 400 False d, d)
     | Inl e \<Rightarrow> (Failed (Broken e), d))"

definition create_company :: "server \<Rightarrow> request \<Rightarrow> company_form \<Rightarrow> db \<Rightarrow> settings_page answer \<times> db" where
  "create_company srv rq f d = asked (settings_user srv rq d) d (\<lambda>u. settings_answer srv rq
     (bind_res (add_company (cpf_name f) (company_form_config f d) (rq_now rq) d) (\<lambda>(d1, c).
        Inr (record_change (Some u) ''company'' (nat_str (cmp_id c)) ''create'' None (snapshot_option (srv_loads srv) (Some c)) (rq_now rq) d1))) d)"

definition activate :: "server \<Rightarrow> request \<Rightarrow> nat \<Rightarrow> db \<Rightarrow> settings_page answer \<times> db" where
  "activate srv rq cid d = asked (settings_user srv rq d) d (\<lambda>u. settings_answer srv rq
     (bind_res (activate_company (srv_loads srv) cid (rq_now rq) d) (\<lambda>d1.
        let shown = (\<lambda>c. Some (JObj [(''active_company'', company_snapshot (srv_loads srv) c)]))
        in Inr (record_change (Some u) ''company'' (nat_str cid) ''activate'' (shown (get_active_company d)) (shown (get_company d1 cid))
             (rq_now rq) d1))) d)"

definition remove_company :: "server \<Rightarrow> request \<Rightarrow> nat \<Rightarrow> db \<Rightarrow> settings_page answer \<times> db" where
  "remove_company srv rq cid d = asked (settings_user srv rq d) d (\<lambda>u. settings_answer srv rq
     (bind_res (delete_company cid d) (\<lambda>d1.
        Inr (record_change (Some u) ''company'' (nat_str cid) ''delete'' (snapshot_option (srv_loads srv) (get_company d cid)) None (rq_now rq) d1))) d)"

section \<open>Posting to Tally stays off\<close>

text \<open>The requests that change the settings.\<close>

datatype settings_change =
    SaveSettings settings_form
  | AutosaveSettings settings_form
  | SaveAccess "(string \<times> string) list"
  | CreateCompany company_form
  | ActivateCompany nat
  | RemoveCompany nat

fun settings_step :: "server \<Rightarrow> request \<times> settings_change \<Rightarrow> db \<Rightarrow> db" where
  "settings_step srv (rq, SaveSettings f) d = snd (save_settings srv rq f d)"
| "settings_step srv (rq, AutosaveSettings f) d = snd (autosave_settings srv rq f d)"
| "settings_step srv (rq, SaveAccess items) d = snd (save_access_overview srv rq items d)"
| "settings_step srv (rq, CreateCompany f) d = snd (create_company srv rq f d)"
| "settings_step srv (rq, ActivateCompany cid) d = snd (activate srv rq cid d)"
| "settings_step srv (rq, RemoveCompany cid) d = snd (remove_company srv rq cid d)"

definition sync_off :: "db \<Rightarrow> bool" where
  "sync_off d \<longleftrightarrow> \<not> option_on d combined_flag \<and> \<not> option_on d purchase_flag \<and> \<not> option_on d sales_flag"

definition flags_off :: "(string \<times> string) list \<Rightarrow> bool" where
  "flags_off kvs \<longleftrightarrow> distinct (map fst kvs) \<and>
     list_all (\<lambda>k. map_of kvs k = None \<or> map_of kvs k = Some ''false'') [combined_flag, purchase_flag, sales_flag]"

lemma sync_off_cong:
  "settings_rows d' = settings_rows d \<Longrightarrow> sync_off d' = sync_off d"
  by (simp add: sync_off_def option_on_def stored_setting_def)

lemma sync_off_disabled: "sync_off d \<Longrightarrow> \<not> is_tally_enabled d"
  by (auto simp: sync_off_def option_on_def is_tally_enabled_def enabled_tally_sync_batch_types_def tally_sync_option_enabled_def
    get_setting_def true_lower default_settings_def flags_distinct purchase_flag_def sales_flag_def combined_flag_def split: option.splits)

lemma record_change_settings [simp]: "sync_off (record_change u e i a b c now d) = sync_off d"
  by (rule sync_off_cong) (simp add: record_change_def)

lemma flag_default:
  assumes "sync_off d" "k \<in> {combined_flag, purchase_flag, sales_flag}"
  shows "py_lower (get_setting d k ''false'') \<noteq> ''true''"
proof -
  have "map_of default_settings combined_flag = Some ''false''" "map_of default_settings purchase_flag = Some ''false''"
    "map_of default_settings sales_flag = Some ''false''" by code_simp+
  then have "map_of default_settings k = Some ''false''" using assms(2) by blast
  moreover have "map_option py_lower (stored_setting d k) \<noteq> Some ''true''"
    using assms by (auto simp: sync_off_def option_on_def)
  ultimately show ?thesis by (cases "stored_setting d k") (simp_all add: get_setting_def true_lower)
qed

text \<open>Values without a flag that is on leave every flag off.\<close>

lemma update_off:
  assumes "flags_off kvs" "sync_off d"
  shows "sync_off (update_settings now kvs d)"
proof -
  have dist: "distinct (map fst kvs)" using assms(1) by (simp add: flags_off_def)
  note st = update_settings_stored [OF dist, of now d]
  have f: "\<And>k. k \<in> {combined_flag, purchase_flag, sales_flag} \<Longrightarrow> map_of kvs k = None \<or> map_of kvs k = Some ''false''"
    using assms(1) by (auto simp: flags_off_def)
  have low: "py_lower (flag_or d k (map_of kvs k)) \<noteq> ''true''" if "k \<in> {combined_flag, purchase_flag, sales_flag}" for k
    using f [OF that] flag_default [OF assms(2) that] by (cases "map_of kvs k") (simp_all add: true_lower)
  have old: "\<not> option_on d k" if "k \<in> {combined_flag, purchase_flag, sales_flag}" for k using that assms(2) by (auto simp: sync_off_def)
  have kept: "map_option py_lower (case map_of kvs k of None \<Rightarrow> stored_setting d k | Some v \<Rightarrow> Some v) \<noteq> Some ''true''"
    if "k \<in> {combined_flag, purchase_flag, sales_flag}" for k
    using f [OF that] old [OF that] by (auto simp: option_on_def true_lower)
  consider "map_of kvs purchase_flag = None" "map_of kvs sales_flag = None" "map_of kvs combined_flag = None"
    | v where "map_of kvs purchase_flag = None" "map_of kvs sales_flag = None" "map_of kvs combined_flag = Some v"
    | "map_of kvs purchase_flag \<noteq> None \<or> map_of kvs sales_flag \<noteq> None"
    by blast
  then show ?thesis
  proof cases
    case 1
    with assms(2) show ?thesis by (simp add: sync_off_def option_on_def st normalize_flags_cases(1))
  next
    case 2
    moreover have "v = ''false''" using f [of combined_flag] 2 by simp
    ultimately show ?thesis by (simp add: sync_off_def option_on_def st normalize_flags_cases(2) true_lower)
  next
    case 3
    have off: "combined d (map_of kvs purchase_flag) (map_of kvs sales_flag) = ''false''"
      using low [of purchase_flag] low [of sales_flag] by simp
    show ?thesis
      using kept [of purchase_flag] kept [of sales_flag]
      by (simp add: sync_off_def option_on_def st normalize_flags_cases(3) [OF 3] off true_lower cong: option.case_cong)
  qed
qed

lemma save_company_off [simp]: "sync_off (save_active_company_config values d) = sync_off d"
  by (rule sync_off_cong) (simp add: save_active_company_config_def split: option.split)

lemma companies_off [simp]: "sync_off (d\<lparr>companies := cs\<rparr>) = sync_off d"
  by (rule sync_off_cong) simp

lemma no_flag:
  "k \<in> {combined_flag, purchase_flag, sales_flag} \<Longrightarrow> k \<notin> set company_setting_keys"
  by (auto simp: company_setting_keys_def combined_flag_def purchase_flag_def sales_flag_def)

lemma company_keys_distinct: "distinct company_setting_keys"
  by (simp add: company_setting_keys_def)

lemma flags_offI:
  assumes "distinct (map fst kvs)" "\<And>k. k \<in> {combined_flag, purchase_flag, sales_flag} \<Longrightarrow> k \<notin> fst ` set kvs"
  shows "flags_off kvs"
  using assms by (auto simp: flags_off_def map_of_eq_None_iff)

lemma requested_keys:
  "map fst (requested_values f d) = [''company_name'', ''tally_host'', ''tally_port'', ''tally_stock_location'', ''sales_voucher_type'',
     ''purchase_voucher_type'', ''sales_ledger_name'', ''purchase_ledger_name'', ''cgst_ledger_name'', ''sgst_ledger_name'',
     ''sales_gst_ledger_mappings'', ''round_off_ledger_name'', ''retry_interval_seconds'']"
  by (simp add: requested_values_def Let_def)

lemma requested_distinct: "distinct (map fst (requested_values f d))"
  unfolding requested_keys by simp

lemma requested_no_flag:
  assumes "k \<in> {combined_flag, purchase_flag, sales_flag}"
  shows "k \<notin> fst ` set (requested_values f d)"
proof -
  have "combined_flag \<notin> set (map fst (requested_values f d))" "purchase_flag \<notin> set (map fst (requested_values f d))"
    "sales_flag \<notin> set (map fst (requested_values f d))"
    unfolding requested_keys by (simp_all add: combined_flag_def purchase_flag_def sales_flag_def)
  with assms show ?thesis unfolding list.set_map by (metis insertE singletonD)
qed

lemma flagged:
  assumes "distinct (map fst kvs)" "\<And>k. k \<in> {combined_flag, purchase_flag, sales_flag} \<Longrightarrow> k \<notin> fst ` set kvs"
  defines "r c p s \<equiv> take 1 kvs @ [(combined_flag, c), (purchase_flag, p), (sales_flag, s)] @ drop 1 kvs"
  shows "map_of (r c p s) combined_flag = Some c" "flags_off (r ''false'' ''false'' ''false'')"
proof -
  have n: "\<And>k. k \<in> {combined_flag, purchase_flag, sales_flag} \<Longrightarrow> map_of (take 1 kvs) k = None"
    using assms(2) by (auto simp: map_of_eq_None_iff dest: in_set_takeD)
  then show "map_of (r c p s) combined_flag = Some c" by (simp add: r_def map_add_def)
  have "distinct (map fst (r c p s))" using assms(1,2) by (cases kvs) (auto simp: r_def flags_distinct)
  with n show "flags_off (r ''false'' ''false'' ''false'')" unfolding flags_off_def
    by (simp add: r_def map_add_def flags_distinct)
qed

lemma requested_flags_off:
  assumes "map_of (requested_with_flags f d) combined_flag \<noteq> Some ''true''"
  shows "flags_off (requested_with_flags f d)"
proof -
  define p s where "p = true_or_false (sgf_purchase_enabled f)" and "s = true_or_false (sgf_sales_enabled f)"
  have no: "\<And>k. k \<in> {combined_flag, purchase_flag, sales_flag} \<Longrightarrow> k \<notin> fst ` set (requested_values f d)"
    by (rule requested_no_flag)
  note fl = flagged [OF requested_distinct no]
  have r: "requested_with_flags f d = take 1 (requested_values f d) @
      [(combined_flag, if ''true'' \<in> {p, s} then ''true'' else ''false''), (purchase_flag, p), (sales_flag, s)] @ drop 1 (requested_values f d)"
    by (simp add: requested_with_flags_def Let_def p_def s_def)
  have "map_of (requested_with_flags f d) combined_flag = Some (if ''true'' \<in> {p, s} then ''true'' else ''false'')"
    unfolding r by (rule fl(1))
  with assms have "''true'' \<notin> {p, s}" by auto
  then have "p = ''false''" "s = ''false''" by (auto simp: p_def s_def true_or_false_def split: if_splits)
  then show ?thesis unfolding r using fl(2) by simp
qed

lemma company_flags_off:
  assumes "map fst kvs = company_setting_keys"
  shows "flags_off kvs" "flags_off (dict_put combined_flag ''false'' kvs)"
proof -
  have k: "distinct (map fst kvs)" using assms company_keys_distinct by simp
  have n: "\<And>k. k \<in> {combined_flag, purchase_flag, sales_flag} \<Longrightarrow> k \<notin> fst ` set kvs"
    using no_flag assms by (metis list.set_map)
  show "flags_off kvs" by (rule flags_offI [OF k n])
  show "flags_off (dict_put combined_flag ''false'' kvs)"
    using n by (simp add: flags_off_def dict_put_distinct [OF k] flags_distinct map_of_eq_None_iff)
qed

lemma settings_step_off:
  assumes "rq_app_mode rq = ''lite''" "sync_off d"
  shows "sync_off (settings_step srv (rq, c) d)"
proof (cases c)
  case (SaveSettings f)
  have "sync_off (persist_settings_and_active_company (rq_now rq) (requested_with_flags f d) d)"
    if "map_of (requested_with_flags f d) combined_flag \<noteq> Some ''true''"
    using update_off [OF requested_flags_off [OF that] assms(2)] by (simp add: persist_settings_and_active_company_def)
  with SaveSettings assms show ?thesis
    by (auto simp: save_settings_def asked_db Let_def split: sum.split option.split)
next
  case (AutosaveSettings f)
  have "sync_off (persist_settings_and_active_company (rq_now rq) (requested_values f d) d)"
    using update_off [OF flags_offI [OF requested_distinct requested_no_flag] assms(2)]
    by (simp add: persist_settings_and_active_company_def)
  with AutosaveSettings assms show ?thesis
    by (auto simp: autosave_settings_def asked_db Let_def split: sum.split option.split)
next
  case (SaveAccess items)
  have "flags_off [(setting_key, v)]" for v
    by (rule flags_offI) (auto simp: setting_key_def combined_flag_def purchase_flag_def sales_flag_def)
  then have "sync_off (save_role_access_config l now s d)" for l now s
    unfolding save_role_access_config_def Let_def by (rule update_off) (rule assms(2))
  with SaveAccess assms(2) show ?thesis by (auto simp: save_access_overview_def asked_db Let_def split: sum.split)
next
  case (CreateCompany f)
  have "flags_off (clean_company_config config)" for config
    by (rule company_flags_off(1)) (simp add: clean_company_config_def comp_def Let_def)
  then have "sync_off d1" if "add_company name config now d = Inr (d1, x)" for name config now d1 x
    using that assms(2) by (auto simp: add_company_def Let_def intro!: update_off split: if_splits option.splits)
  with CreateCompany assms(2) show ?thesis
    by (auto simp: create_company_def asked_db settings_answer_def bind_res_def split: sum.split exc.split)
next
  case (ActivateCompany cid)
  have "sync_off d1" if "activate_company l cid now d = Inr d1" for l now d1
    using that assms(2) company_flags_off(2) [of "company_config l x" for x]
    by (auto simp: activate_company_def company_config_keys intro!: update_off split: option.splits)
  with ActivateCompany assms(2) show ?thesis
    by (auto simp: activate_def asked_db settings_answer_def bind_res_def Let_def split: sum.split exc.split)
next
  case (RemoveCompany cid)
  have "sync_off d1" if "delete_company cid d = Inr d1" for d1
    using that assms(2) by (auto simp: delete_company_def split: option.splits if_splits)
  with RemoveCompany assms(2) show ?thesis
    by (auto simp: remove_company_def asked_db settings_answer_def bind_res_def split: sum.split exc.split)
qed

text \<open>
  C39. In Lite mode no sequence of requests to the settings pages, whoever sends them and whatever
  they hold, makes this installation post to Tally by itself: when all three flags are off at the
  start, no kind of batch is enabled for posting afterwards.
\<close>

theorem lite_never_posts:
  assumes "\<forall>(rq, c) \<in> set steps. rq_app_mode rq = ''lite''" "sync_off d"
  shows "sync_off (fold (settings_step srv) steps d) \<and> enabled_tally_sync_batch_types (fold (settings_step srv) steps d) = []"
proof -
  have "sync_off (fold (settings_step srv) steps d)" using assms
  proof (induction steps arbitrary: d)
    case Nil
    then show ?case by simp
  next
    case (Cons step steps)
    obtain rq c where "step = (rq, c)" by (cases step)
    with Cons settings_step_off [of rq d srv c] show ?case by simp
  qed
  with sync_off_disabled show ?thesis by (simp add: is_tally_enabled_def)
qed

end
