(* ===== verification/RequestScenarios.thy ===== *)
theory RequestScenarios
  imports AccountScenarios Web SettingsRoutes
begin

text \<open>
  Concrete requests to which the properties of the middleware and of the settings pages apply: a
  form sent from the program's own page, the same form sent from a page elsewhere, and an
  afternoon of changes to the settings of a Lite installation.
\<close>

definition ex_headers :: "(string \<times> string) list \<Rightarrow> string \<Rightarrow> string option" where
  "ex_headers hs = map_of (hs @ [(''host'', ''Shop.local:8000'')])"

definition ex_post :: "(string \<times> string) list \<Rightarrow> web_request" where
  "ex_post hs = \<lparr>wrq_method = ''POST'', wrq_scheme = ''http'', wrq_path = ''/batches'', wrq_header = ex_headers hs\<rparr>"

definition ex_handler :: "db \<Rightarrow> web_answer \<times> (nat \<times> nat) option \<times> db" where
  "ex_handler d = (\<lparr>wan_status = 303, wan_headers = [(''Location'', ''/batches'')], wan_cookies = []\<rparr>, Some (1, 0), empty_db)"

definition ex_served :: "(string \<times> string) list \<Rightarrow> db" where
  "ex_served hs = snd (served (\<lambda>h. False) ex_site ex_policy ''n'' 9 (ex_post hs) ex_handler ex_db)"

lemma ex_hosts: "plain_host ''shop.local''" "plain_host ''Shop.local''" "plain_host ''shop.local.evil.example''"
  "py_lower ''shop.local'' = ''shop.local''" "py_lower ''Shop.local'' = ''shop.local''"
  "py_lower ''shop.local.evil.example'' = ''shop.local.evil.example''" "page_text ''/batches?type=SALE''" "page_text []"
  by (atomize (full)) code_simp

lemma ex_ports: "port_text (Some 8000) = '':8000''" "port_text None = []" "port_ok (Some 8000)" "port_ok None"
  by (simp_all add: port_text_def port_ok_def nat_str.simps digit_char_def char_of_def bit_0)

definition ex_own_referer :: "(string \<times> string) list" where
  "ex_own_referer = [(''referer'', ''http://shop.local:8000/batches?type=SALE'')]"

definition ex_evil_origin :: "(string \<times> string) list" where
  "ex_evil_origin = [(''origin'', ''http://shop.local.evil.example''), (''referer'', ''http://shop.local:8000/batches'')]"

lemma ex_unsafe: "wrq_method (ex_post hs) \<notin> set SAFE_METHODS"
  by (simp add: ex_post_def SAFE_METHODS_def)

lemma ex_requests:
  "request_source (ex_post []) = []" "request_source (ex_post [(''origin'', ''null'')]) = ''null''"
  "request_source (ex_post ex_own_referer) = ''http://shop.local:8000/batches?type=SALE''"
  "request_source (ex_post ex_evil_origin) = ''http://shop.local.evil.example''"
  "request_scheme (ex_post ex_own_referer) = ''http''" "request_scheme (ex_post ex_evil_origin) = ''http''"
  "request_host (ex_post ex_own_referer) = ''Shop.local:8000''" "request_host (ex_post ex_evil_origin) = ''Shop.local:8000''"
  by (atomize (full)) code_simp

text \<open>
  Without a source and from an opaque origin nothing happens; a page of the program itself, named by
  the Referer, has its way; an Origin elsewhere does not, whatever the Referer says.
\<close>

theorem only_own_pages_witness:
  "ex_served [] = ex_db \<and> ex_served [(''origin'', ''null'')] = ex_db \<and> ex_served ex_own_referer = empty_db \<and>
   ex_served ex_evil_origin = ex_db"
proof (intro conjI)
  note own = only_own_pages [OF ex_unsafe, where g = "''Shop.local''" and q = "Some 8000" and s = "''http''" and d = ex_db
    and b = "\<lambda>h. False" and srv = ex_site and pol = ex_policy and nonce = "''n''" and now = 9 and handler = ex_handler,
    folded ex_served_def]
  show "ex_served [] = ex_db"
    by (rule own [of "[]", THEN conjunct2, THEN conjunct1, THEN mp]) (simp add: ex_requests(1))
  show "ex_served [(''origin'', ''null'')] = ex_db"
    by (rule own [of "[(''origin'', ''null'')]", THEN conjunct2, THEN conjunct1, THEN mp]) (simp add: ex_requests(2))
  have o: "''http://shop.local:8000/batches?type=SALE'' = ''http'' @ ''://'' @ ''shop.local'' @ port_text (Some 8000) @ ''/batches?type=SALE''"
    "''http://shop.local.evil.example'' = ''http'' @ ''://'' @ ''shop.local.evil.example'' @ port_text None @ []"
    "''Shop.local:8000'' = ''Shop.local'' @ port_text (Some 8000)"
    by (simp_all add: ex_ports)
  have "ex_served ex_own_referer = (if ''http'' = request_scheme (ex_post ex_own_referer) \<and> py_lower ''shop.local'' = py_lower ''Shop.local'' \<and>
      port_or_default ''http'' (Some 8000) = port_or_default ''http'' (Some 8000) then snd (snd (ex_handler ex_db)) else ex_db)"
    by (rule own [of ex_own_referer "''shop.local''" "Some 8000" "''/batches?type=SALE''", THEN conjunct2, THEN conjunct2, THEN mp])
      (use ex_requests(3,5,7) ex_hosts ex_ports(3) o(1,3) in \<open>simp only: insert_iff simp_thms\<close>)
  then show "ex_served ex_own_referer = empty_db" by (simp add: ex_requests(5) ex_hosts(4,5) ex_handler_def)
  have "ex_served ex_evil_origin = (if ''http'' = request_scheme (ex_post ex_evil_origin) \<and> py_lower ''shop.local.evil.example'' = py_lower ''Shop.local'' \<and>
      port_or_default ''http'' None = port_or_default ''http'' (Some 8000) then snd (snd (ex_handler ex_db)) else ex_db)"
    by (rule own [of ex_evil_origin "''shop.local.evil.example''" None "[]", THEN conjunct2, THEN conjunct2, THEN mp])
      (use ex_requests(4,6,8) ex_hosts ex_ports(3,4) o(2,3) in \<open>simp only: insert_iff simp_thms\<close>)
  then show "ex_served ex_evil_origin = ex_db" by (simp add: ex_hosts(5,6))
qed

definition ex_lite :: "nat \<Rightarrow> request" where
  "ex_lite uid = (ex_from uid 0 ''/settings'')\<lparr>rq_app_mode := ''lite''\<rparr>"

definition ex_settings_form :: settings_form where
  "ex_settings_form = \<lparr>sgf_company_name = ''Asha Traders'', sgf_purchase_enabled = ''true'', sgf_sales_enabled = ''true'',
     sgf_tally_host = ''127.0.0.1'', sgf_tally_port = ''9000'', sgf_stock_location = None, sgf_sales_voucher = None,
     sgf_purchase_voucher = None, sgf_sales_ledger = None, sgf_purchase_ledger = None, sgf_cgst = None, sgf_sgst = None,
     sgf_mappings = '''', sgf_round_off = ''Round Off'', sgf_interval = ''300''\<rparr>"

definition ex_company_form :: company_form where
  "ex_company_form = \<lparr>cpf_name = ''Second'', cpf_company_name = ''Second Traders'', cpf_tally_host = ''127.0.0.1'', cpf_tally_port = ''9000'',
     cpf_stock_location = '''', cpf_mappings = '''', cpf_round_off = ''Round Off''\<rparr>"

definition ex_settings_steps :: "(request \<times> settings_change) list" where
  "ex_settings_steps = [(ex_lite 1, SaveSettings ex_settings_form), (ex_lite 1, CreateCompany ex_company_form), (ex_lite 1, ActivateCompany 1),
     (ex_lite 1, AutosaveSettings ex_settings_form), (ex_lite 2, SaveAccess [(''access__batch_sale__auditor'', ''edit'')]), (ex_lite 1, RemoveCompany 1)]"

theorem lite_never_posts_witness:
  "sync_off (fold (settings_step ex_site) ex_settings_steps ex_staff) \<and>
   enabled_tally_sync_batch_types (fold (settings_step ex_site) ex_settings_steps ex_staff) = []"
proof (rule lite_never_posts)
  show "\<forall>(rq, c) \<in> set ex_settings_steps. rq_app_mode rq = ''lite''" by (simp add: ex_settings_steps_def ex_lite_def)
  show "sync_off ex_staff" by code_simp
qed

end
