(* ===== verification/Director.thy ===== *)
theory Director
  imports ExpiryReport
begin

text \<open>
  The Director's reports: losses by factor (\<open>app/services/losses.py\<close>), audits, products and
  warehouses (\<open>app/services/director_reports.py\<close>), and the charts of the dashboard
  (\<open>app/services/charts.py\<close>).
\<close>

definition or_dash :: "string option \<Rightarrow> string" where
  "or_dash x = text_or x ''-''"

definition like_in :: "string \<Rightarrow> string option \<Rightarrow> bool" where
  "like_in q x = (case x of None \<Rightarrow> False | Some s \<Rightarrow> sql_like (''%'' @ py_strip q @ ''%'') s)"

section \<open>Losses\<close>

definition LOSS_FACTORS :: "(string \<times> string) list" where
  "LOSS_FACTORS = [(''TRANSPORTATION'', ''Transportation''), (''THEFT'', ''Theft''), (''OTHER'', ''Other Things'')]"

definition LOSS_REASON_ALIASES :: "string list" where
  "LOSS_REASON_ALIASES = [''DAMAGE'', ''DAMAGED'', ''EXPIRED'']"

record loss_filters =
  lsf_action :: string
  lsf_q :: string
  lsf_start :: "moment option"
  lsf_end :: "moment option"
  lsf_product_id :: "nat option"

record loss_factor_row =
  lss_code :: string
  lss_label :: string
  lss_quantity :: nat
  lss_value :: rat

record losses =
  lsm_rows :: "loss_factor_row list"
  lsm_total_quantity :: nat
  lsm_total_value :: rat

definition reason_in :: "string list \<Rightarrow> inventory_transaction \<Rightarrow> bool" where
  "reason_in codes t \<longleftrightarrow> (case txn_reason_code t of None \<Rightarrow> False | Some c \<Rightarrow> c \<in> set codes)"

definition is_loss :: "inventory_transaction \<Rightarrow> bool" where
  "is_loss t \<longleftrightarrow> txn_type t = T_ISSUE \<and> reason_in (map fst LOSS_FACTORS @ LOSS_REASON_ALIASES) t \<or>
     txn_status_to t = Some S_DAMAGED \<and> reason_in LOSS_REASON_ALIASES t"

definition loss_selected :: "db \<Rightarrow> loss_filters \<Rightarrow> inventory_transaction \<Rightarrow> bool" where
  "loss_selected d f t \<longleftrightarrow> is_loss t \<and>
     (lsf_action f = [] \<or> transaction_type_value (txn_type t) = lsf_action f) \<and>
     (lsf_q f = [] \<or> like_in (lsf_q f) (txn_serial_number t) \<or> like_in (lsf_q f) (txn_tally_reference t) \<or>
        like_in (lsf_q f) (txn_reference_number t) \<or>
        (case Option.bind (txn_product_id t) (get_product d) of None \<Rightarrow> False
         | Some p \<Rightarrow> like_in (lsf_q f) (Some (prd_code p)) \<or> like_in (lsf_q f) (Some (prd_name p)))) \<and>
     (case lsf_product_id f of None \<Rightarrow> True | Some p \<Rightarrow> txn_product_id t = Some p) \<and>
     (case lsf_start f of None \<Rightarrow> True | Some s \<Rightarrow> s \<le> txn_created_at t) \<and>
     (case lsf_end f of None \<Rightarrow> True | Some e \<Rightarrow> txn_created_at t < e)"

text \<open>The rows of the outer joins: a transaction with every item of its batch that is its serial.\<close>

definition loss_joined :: "db \<Rightarrow> inventory_transaction \<Rightarrow> (inventory_transaction \<times> batch_item option) list" where
  "loss_joined d t =
    (let its = filter (\<lambda>i. txn_batch_id t = Some (itm_batch_id i) \<and> txn_serial_id t = Some (itm_serial_id i)) (batch_items d)
     in if its = [] then [(t, None)] else map (\<lambda>i. (t, Some i)) its)"

definition loss_code :: "inventory_transaction \<Rightarrow> string" where
  "loss_code t = (let c = text_of (txn_reason_code t) in if c \<in> set LOSS_REASON_ALIASES then ''OTHER'' else c)"

definition loss_amounts :: "db \<Rightarrow> inventory_transaction \<times> batch_item option \<Rightarrow> nat \<times> rat" where
  "loss_amounts d = (\<lambda>(t, i).
     let q = (case i of None \<Rightarrow> 1 | Some x \<Rightarrow> if itm_quantity x = 0 then 1 else itm_quantity x);
         rate = (case Option.bind i itm_rate of Some r \<Rightarrow> r
           | None \<Rightarrow> (case Option.bind (txn_product_id t) (get_product d) of None \<Rightarrow> 0 | Some p \<Rightarrow> prd_default_rate p))
     in (q, fmul (int_rat q) rate))"

definition loss_row :: "db \<Rightarrow> (inventory_transaction \<times> batch_item option) list \<Rightarrow> string \<times> string \<Rightarrow> loss_factor_row" where
  "loss_row d joined = (\<lambda>(code, label).
     let own = map (loss_amounts d) (filter (\<lambda>j. loss_code (fst j) = code) joined)
     in \<lparr>lss_code = code, lss_label = label, lss_quantity = sum_list (map fst own),
         lss_value = round_to 2 (foldl (\<lambda>v a. fadd v (snd a)) 0 own)\<rparr>)"

definition loss_summary :: "db \<Rightarrow> loss_filters \<Rightarrow> losses" where
  "loss_summary d f =
    (let joined = concat (map (loss_joined d) (filter (loss_selected d f) (transactions d)));
         rows = map (loss_row d joined) LOSS_FACTORS
     in \<lparr>lsm_rows = rows, lsm_total_quantity = (\<Sum>r\<leftarrow>rows. lss_quantity r),
         lsm_total_value = round_to 2 (foldl (\<lambda>v r. fadd v (lss_value r)) 0 rows)\<rparr>)"

section \<open>Audits\<close>

definition audit_time :: "batch \<Rightarrow> moment" where
  "audit_time b = (case bat_submitted_at b of None \<Rightarrow> bat_created_at b | Some t \<Rightarrow> t)"

definition audits_latest_first :: "db \<Rightarrow> batch list" where
  "audits_latest_first d = rev (sort_key (\<lambda>b. (audit_time b, bat_id b)) (filter (\<lambda>b. bat_type b = B_AUDIT) (batches d)))"

definition audit_findings_of :: "db \<Rightarrow> batch \<Rightarrow> audit_finding list" where
  "audit_findings_of d b = filter (\<lambda>f. fnd_batch_id f = bat_id b) (findings d)"

record finding_counts =
  fct_verified :: nat
  fct_pending :: nat
  fct_missing :: nat
  fct_extra :: nat
  fct_total :: nat

definition no_findings :: finding_counts where
  "no_findings = \<lparr>fct_verified = 0, fct_pending = 0, fct_missing = 0, fct_extra = 0, fct_total = 0\<rparr>"

definition count_findings :: "audit_finding list \<Rightarrow> finding_counts" where
  "count_findings fs =
    (let n = (\<lambda>t. count_of t (counter (map fnd_type fs)))
     in \<lparr>fct_verified = n ''VERIFIED'', fct_pending = n ''PENDING'', fct_missing = n ''MISSING'', fct_extra = n ''EXTRA'',
         fct_total = (\<Sum>e\<leftarrow>counter (map fnd_type fs). snd e)\<rparr>)"

definition count_one :: "string \<Rightarrow> finding_counts \<Rightarrow> finding_counts" where
  "count_one t c =
    (let c1 = c\<lparr>fct_total := Suc (fct_total c)\<rparr>
     in if t = ''VERIFIED'' then c1\<lparr>fct_verified := Suc (fct_verified c1)\<rparr>
        else if t = ''PENDING'' then c1\<lparr>fct_pending := Suc (fct_pending c1)\<rparr>
        else if t = ''MISSING'' then c1\<lparr>fct_missing := Suc (fct_missing c1)\<rparr>
        else if t = ''EXTRA'' then c1\<lparr>fct_extra := Suc (fct_extra c1)\<rparr>
        else c1)"

record director_batch_row =
  drb_id :: nat
  drb_batch_number :: string
  drb_audited_by :: string
  drb_audit_at :: moment
  drb_products :: nat
  drb_counts :: finding_counts

definition audited_by :: "db \<Rightarrow> batch \<Rightarrow> string" where
  "audited_by d b = (case get_user d (bat_user_id b) of None \<Rightarrow> ''-'' | Some u \<Rightarrow> usr_username u)"

definition director_batch_row_of :: "db \<Rightarrow> batch \<Rightarrow> director_batch_row" where
  "director_batch_row_of d b =
    (let fs = audit_findings_of d b
     in \<lparr>drb_id = bat_id b, drb_batch_number = bat_number b, drb_audited_by = audited_by d b, drb_audit_at = audit_time b,
         drb_products = card (set (filter (\<lambda>c. c \<noteq> []) (map (\<lambda>f. text_of (fnd_product_code f)) fs))),
         drb_counts = count_findings fs\<rparr>)"

definition director_audit_batch_rows :: "db \<Rightarrow> nat \<Rightarrow> director_batch_row list" where
  "director_audit_batch_rows d limit = map (director_batch_row_of d) (take limit (audits_latest_first d))"

record director_product_row =
  dpr_product_code :: string
  dpr_product_name :: string
  dpr_audit_batches :: string
  dpr_audit_batch_count :: nat
  dpr_counts :: finding_counts

record director_finding_row =
  dfr_audit_at :: moment
  dfr_batch_number :: string
  dfr_audited_by :: string
  dfr_serial_number :: string
  dfr_product_code :: string
  dfr_product_name :: string
  dfr_type :: string
  dfr_expected_status :: string
  dfr_scanned_status :: string

record reconciliation =
  rcn_start_at :: "moment option"
  rcn_end_at :: "moment option"
  rcn_batch_rows :: "director_batch_row list"
  rcn_product_rows :: "director_product_row list"
  rcn_finding_rows :: "director_finding_row list"
  rcn_audit_batch_count :: nat
  rcn_counts :: finding_counts

definition finding_key :: "audit_finding \<Rightarrow> string \<times> string" where
  "finding_key f = (or_dash (fnd_product_code f), or_dash (fnd_product_name f))"

definition status_or_dash :: "serial_status option \<Rightarrow> string" where
  "status_or_dash s = (case s of None \<Rightarrow> ''-'' | Some x \<Rightarrow> serial_status_value x)"

definition finding_row :: "db \<Rightarrow> batch \<times> audit_finding \<Rightarrow> director_finding_row" where
  "finding_row d = (\<lambda>(b, f).
     \<lparr>dfr_audit_at = audit_time b, dfr_batch_number = bat_number b, dfr_audited_by = audited_by d b,
      dfr_serial_number = fnd_serial_number f, dfr_product_code = or_dash (fnd_product_code f),
      dfr_product_name = or_dash (fnd_product_name f), dfr_type = fnd_type f,
      dfr_expected_status = status_or_dash (fnd_expected_status f), dfr_scanned_status = status_or_dash (fnd_scanned_status f)\<rparr>)"

text \<open>The products of the findings, each with the numbers of its audits and its counts.\<close>

definition group_findings :: "(batch \<times> audit_finding) list \<Rightarrow> ((string \<times> string) \<times> string list \<times> finding_counts) list" where
  "group_findings bfs =
    group_all (\<lambda>(b, f). finding_key f) (\<lambda>bf. ([], no_findings))
      (\<lambda>(b, f) (ns, c). (List.insert (bat_number b) ns, count_one (fnd_type f) c)) bfs"

definition product_row_of :: "(string \<times> string) \<times> string list \<times> finding_counts \<Rightarrow> director_product_row" where
  "product_row_of = (\<lambda>((code, name), ns, c).
     \<lparr>dpr_product_code = code, dpr_product_name = name, dpr_audit_batches = py_join '', '' (sort ns),
      dpr_audit_batch_count = length ns, dpr_counts = c\<rparr>)"

definition worst_first :: "director_product_row \<Rightarrow> int \<times> int \<times> string" where
  "worst_first r = (- int (fct_missing (dpr_counts r)), - int (fct_extra (dpr_counts r)), dpr_product_name r)"

definition director_audit_reconciliation_report :: "db \<Rightarrow> moment option \<Rightarrow> moment option \<Rightarrow> nat option \<Rightarrow> reconciliation" where
  "director_audit_reconciliation_report d start_at end_at limit =
    (let inside = (\<lambda>b. (case start_at of None \<Rightarrow> True | Some s \<Rightarrow> s \<le> audit_time b) \<and>
           (case end_at of None \<Rightarrow> True | Some e \<Rightarrow> audit_time b < e));
         found = filter inside (audits_latest_first d);
         bs = (case limit of None \<Rightarrow> found | Some n \<Rightarrow> if n = 0 then found else take n found);
         bfs = concat (map (\<lambda>b. map (Pair b) (audit_findings_of d b)) bs)
     in \<lparr>rcn_start_at = start_at, rcn_end_at = end_at, rcn_batch_rows = map (director_batch_row_of d) bs,
         rcn_product_rows = sort_key worst_first (map product_row_of (group_findings bfs)),
         rcn_finding_rows = sort_key (\<lambda>r. (dfr_audit_at r, dfr_batch_number r, dfr_product_name r, dfr_serial_number r))
           (map (finding_row d) bfs),
         rcn_audit_batch_count = length bs, rcn_counts = count_findings (map snd bfs)\<rparr>)"

record audit_batch_report =
  abr_batch :: batch
  abr_audit_at :: moment
  abr_audited_by :: string
  abr_product_rows :: "director_product_row list"
  abr_finding_rows :: "director_finding_row list"
  abr_counts :: finding_counts

text \<open>The rows of one audit name no batch numbers.\<close>

definition director_audit_batch_report :: "db \<Rightarrow> nat \<Rightarrow> audit_batch_report option" where
  "director_audit_batch_report d bid =
    (case find (\<lambda>b. bat_id b = bid \<and> bat_type b = B_AUDIT) (batches d) of None \<Rightarrow> None
     | Some b \<Rightarrow>
         let fs = audit_findings_of d b;
             groups = group_all finding_key (\<lambda>f. no_findings) (\<lambda>f c. count_one (fnd_type f) c) fs;
             rows = map (\<lambda>((code, name), c). \<lparr>dpr_product_code = code, dpr_product_name = name, dpr_audit_batches = [],
               dpr_audit_batch_count = 0, dpr_counts = c\<rparr>) groups
         in Some \<lparr>abr_batch = b, abr_audit_at = audit_time b, abr_audited_by = audited_by d b,
              abr_product_rows = sort_key worst_first (filter (\<lambda>r. fct_pending (dpr_counts r) \<noteq> 0 \<or>
                fct_missing (dpr_counts r) \<noteq> 0 \<or> fct_extra (dpr_counts r) \<noteq> 0) rows),
              abr_finding_rows = sort_key (\<lambda>r. (dfr_type r, dfr_product_name r, dfr_serial_number r))
                (map (\<lambda>f. finding_row d (b, f)) (filter (\<lambda>f. fnd_type f \<in> {''PENDING'', ''MISSING'', ''EXTRA''}) fs)),
              abr_counts = count_findings fs\<rparr>)"

section \<open>Products\<close>

record product_stock_row =
  psr_product_code :: string
  psr_product_name :: string
  psr_stock :: nat
  psr_purchased :: nat
  psr_sold :: nat
  psr_last_audit_at :: "moment option"
  psr_last_audited_quantity :: nat
  psr_last_audit_missing :: nat
  psr_last_audit_extra :: nat
  psr_nearest_expiry :: "day option"

definition in_stock_serial :: "serial \<Rightarrow> bool" where
  "in_stock_serial s \<longleftrightarrow> ser_active s \<and> ser_status s \<in> set stock_statuses"

definition nearest_date :: "day option list \<Rightarrow> day option" where
  "nearest_date xs = (case List.map_filter id xs of [] \<Rightarrow> None | t # ts \<Rightarrow> Some (fold min ts t))"

definition listed_product :: "string \<Rightarrow> product \<Rightarrow> bool" where
  "listed_product q p \<longleftrightarrow> py_strip q = [] \<or>
     list_ex (like_in q) [Some (prd_code p), Some (prd_name p), prd_nickname p, Some (prd_tally_name p), prd_alt_tally_name p,
       Some (prd_hsn p), prd_brand p]"

text \<open>The latest audit that has findings of a product code: its time and its counts.\<close>

definition latest_audit_of :: "db \<Rightarrow> string \<Rightarrow> (moment \<times> finding_counts) option" where
  "latest_audit_of d code =
    (let own = (\<lambda>b. filter (\<lambda>f. fnd_product_code f = Some code) (audit_findings_of d b))
     in case filter (\<lambda>b. own b \<noteq> []) (audits_latest_first d) of [] \<Rightarrow> None
        | b # bs \<Rightarrow> Some (audit_time b, count_findings (own b)))"

definition product_stock_row_of :: "db \<Rightarrow> product \<Rightarrow> product_stock_row" where
  "product_stock_row_of d p =
    (let stock = filter (\<lambda>s. ser_product_id s = prd_id p \<and> in_stock_serial s) (serials d);
         moved = (\<lambda>ty. count_rows (\<lambda>t. txn_product_id t = Some (prd_id p) \<and> txn_type t = ty) (transactions d));
         audit = latest_audit_of d (prd_code p); counts = (case audit of None \<Rightarrow> no_findings | Some a \<Rightarrow> snd a)
     in \<lparr>psr_product_code = prd_code p, psr_product_name = prd_name p, psr_stock = length stock,
         psr_purchased = moved T_PURCHASE, psr_sold = moved T_SALE, psr_last_audit_at = map_option fst audit,
         psr_last_audited_quantity = fct_verified counts + fct_extra counts, psr_last_audit_missing = fct_missing counts,
         psr_last_audit_extra = fct_extra counts, psr_nearest_expiry = nearest_date (map ser_expiry_date stock)\<rparr>)"

definition director_product_stock_rows :: "db \<Rightarrow> string \<Rightarrow> nat option \<Rightarrow> product_stock_row list" where
  "director_product_stock_rows d q limit =
    (let rows = sort_key (\<lambda>r. (- int (psr_stock r), psr_product_name r))
           (map (product_stock_row_of d) (filter (\<lambda>p. prd_active p \<and> listed_product q p) (products d)))
     in case limit of None \<Rightarrow> rows | Some n \<Rightarrow> take n rows)"

definition director_product_filter_options :: "db \<Rightarrow> (string \<times> string) list" where
  "director_product_filter_options d = sort (map (\<lambda>p. (prd_code p, prd_name p)) (filter prd_active (products d)))"

section \<open>Warehouses\<close>

definition all_levels :: "warehouse_level list" where
  "all_levels = [COMPANY_WAREHOUSE, C_AND_F, MASTER_FRANCHISE, TALUK_FRANCHISE, HOME_FRANCHISE]"

text \<open>\<open>trim\<close> of SQLite removes blanks only.\<close>

definition named_warehouse :: "string option \<Rightarrow> string option" where
  "named_warehouse x =
    (case x of None \<Rightarrow> None
     | Some s \<Rightarrow> let v = py_strip_by (\<lambda>c. c = CHR '' '') s in if v = [] \<or> v \<in> set (map warehouse_level_value all_levels) then None else Some v)"

definition current_warehouse_name :: "db \<Rightarrow> serial \<Rightarrow> string" where
  "current_warehouse_name d s =
    (case named_warehouse (map_option loc_warehouse (Option.bind (ser_location_id s) (get_location d))) of Some w \<Rightarrow> w
     | None \<Rightarrow> (case named_warehouse (ser_warehouse s) of Some w \<Rightarrow> w | None \<Rightarrow> ''Unassigned''))"

definition current_warehouse_level :: "db \<Rightarrow> serial \<Rightarrow> warehouse_level" where
  "current_warehouse_level d s =
    (case Option.bind (ser_location_id s) (get_location d) of Some l \<Rightarrow> loc_level l | None \<Rightarrow> ser_level s)"

record warehouse_stock_row =
  wsr_level :: string
  wsr_stock :: nat
  wsr_warehouses :: nat
  wsr_products :: nat
  wsr_locations :: nat
  wsr_unlocated :: nat
  wsr_expiring_soon :: nat
  wsr_nearest_expiry :: "day option"

definition warehouse_stock_row_of :: "db \<Rightarrow> day \<Rightarrow> serial list \<Rightarrow> warehouse_level \<Rightarrow> warehouse_stock_row" where
  "warehouse_stock_row_of d today stock level =
    (let own = filter (\<lambda>s. current_warehouse_level d s = level) stock
     in \<lparr>wsr_level = warehouse_level_value level, wsr_stock = length own, wsr_warehouses = card (set (map (current_warehouse_name d) own)),
         wsr_products = card (set (map ser_product_id own)), wsr_locations = card (set (List.map_filter ser_location_id own)),
         wsr_unlocated = count_rows (\<lambda>s. ser_location_id s = None) own,
         wsr_expiring_soon = count_rows (\<lambda>s. case ser_expiry_date s of None \<Rightarrow> False | Some e \<Rightarrow> e \<le> today + 30) own,
         wsr_nearest_expiry = nearest_date (map ser_expiry_date own)\<rparr>)"

definition director_warehouse_stock_rows :: "db \<Rightarrow> day \<Rightarrow> string \<Rightarrow> nat \<Rightarrow> warehouse_stock_row list" where
  "director_warehouse_stock_rows d today q limit =
    (let stock = filter in_stock_serial (serials d);
         levels = filter (\<lambda>l. py_strip q = [] \<or> like_in q (Some (warehouse_level_value l))) all_levels;
         used = filter (\<lambda>l. list_ex (\<lambda>s. current_warehouse_level d s = l) stock) levels
     in take limit (sort_key (\<lambda>r. (- int (wsr_stock r), wsr_level r)) (map (warehouse_stock_row_of d today stock) used)))"

definition director_warehouse_filter_options :: "string list" where
  "director_warehouse_filter_options = map warehouse_level_value all_levels"

section \<open>The report\<close>

record product_totals =
  dpt_total_products :: nat
  dpt_total_stock :: nat
  dpt_products_with_stock :: nat

definition director_product_totals :: "db \<Rightarrow> product_totals" where
  "director_product_totals d =
    (let stock = filter in_stock_serial (serials d)
     in \<lparr>dpt_total_products = count_rows prd_active (products d), dpt_total_stock = length stock,
         dpt_products_with_stock = card (set (map ser_product_id stock))\<rparr>)"

record director_page =
  dir_audit_batches :: "director_batch_row list"
  dir_audit_batch_count :: nat
  dir_latest_audit :: "director_batch_row option"
  dir_latest_missing :: nat
  dir_latest_extra :: nat
  dir_expiry :: expiry_report
  dir_dead_stock :: "sleeping_row list"
  dir_product_rows :: "product_stock_row list"
  dir_warehouse_rows :: "warehouse_stock_row list"
  dir_products :: product_totals
  dir_reconciliation :: reconciliation

definition director_report :: "db \<Rightarrow> day \<Rightarrow> moment option \<Rightarrow> moment option \<Rightarrow> string \<Rightarrow> string \<Rightarrow> director_page" where
  "director_report d today start_at end_at product_q warehouse_q =
    (let audits = director_audit_batch_rows d 30; latest = (case audits of [] \<Rightarrow> None | r # rs \<Rightarrow> Some r);
         expiry = expiry_summary d today None
     in \<lparr>dir_audit_batches = audits, dir_audit_batch_count = count_rows (\<lambda>b. bat_type b = B_AUDIT) (batches d),
         dir_latest_audit = latest,
         dir_latest_missing = (case latest of None \<Rightarrow> 0 | Some r \<Rightarrow> fct_missing (drb_counts r)),
         dir_latest_extra = (case latest of None \<Rightarrow> 0 | Some r \<Rightarrow> fct_extra (drb_counts r)), dir_expiry = expiry,
         dir_dead_stock = filter (\<lambda>r. slp_status r = ''Dead Stock'') (exp_sleeping expiry),
         dir_product_rows = director_product_stock_rows d product_q None,
         dir_warehouse_rows = director_warehouse_stock_rows d today warehouse_q 20,
         dir_products = director_product_totals d,
         dir_reconciliation = director_audit_reconciliation_report d start_at end_at None\<rparr>)"

section \<open>Charts\<close>

definition PALETTE :: "string list" where
  "PALETTE = [''#cc785c'', ''#5db8a6'', ''#e8a55a'', ''#5db872'', ''#c64545'', ''#8e8b82'', ''#a9583e'']"

definition chart_label :: "string \<Rightarrow> string" where
  "chart_label v = readable_label (py_strip (if v = [] then ''UNKNOWN'' else v))"

definition compact_rows :: "(string \<times> nat) list \<Rightarrow> nat \<Rightarrow> (string \<times> nat) list" where
  "compact_rows rows limit =
    (if length rows \<le> limit then rows
     else take (limit - 1) rows @ [(''Other'', \<Sum>r\<leftarrow>drop (limit - 1) rows. snd r)])"

record chart_part =
  chp_label :: string
  chp_value :: nat
  chp_percent :: int
  chp_color :: string

text \<open>A donut: its total, the slices, and where each slice of the gradient starts and ends.\<close>

record donut =
  dnt_total :: nat
  dnt_slices :: "chart_part list"
  dnt_spans :: "(rat \<times> rat) list"

text \<open>The rows of a chart; sorting by value in reverse keeps the order of equal values.\<close>

definition largest_first :: "(string \<times> nat) list \<Rightarrow> (string \<times> nat) list" where
  "largest_first rows = sort_key (\<lambda>r. - int (snd r)) rows"

definition chart_parts :: "nat \<Rightarrow> (string \<times> nat) list \<Rightarrow> chart_part list" where
  "chart_parts whole rows =
    map (\<lambda>(k, label, v). \<lparr>chp_label = label, chp_value = v,
        chp_percent = (if whole = 0 then 0 else round_half_even (fmul (fdiv (int_rat v) (int_rat whole)) 100)),
        chp_color = PALETTE ! (k mod length PALETTE)\<rparr>) (enumerate 0 rows)"

fun spans_from :: "nat \<Rightarrow> rat \<Rightarrow> nat list \<Rightarrow> (rat \<times> rat) list" where
  "spans_from whole start [] = []"
| "spans_from whole start [v] = [(start, 100)]"
| "spans_from whole start (v # w # vs) =
     (let stop = fadd start (fmul (fdiv (int_rat v) (int_rat whole)) 100) in (start, stop) # spans_from whole stop (w # vs))"

definition donut_chart :: "(string \<times> nat) list \<Rightarrow> nat \<Rightarrow> donut" where
  "donut_chart rows limit =
    (let chart = compact_rows (largest_first (map (\<lambda>(l, v). (chart_label l, v)) (filter (\<lambda>r. 0 < snd r) rows))) limit;
         whole = (\<Sum>r\<leftarrow>chart. snd r)
     in if whole = 0 then \<lparr>dnt_total = 0, dnt_slices = [], dnt_spans = []\<rparr>
        else \<lparr>dnt_total = whole, dnt_slices = chart_parts whole chart, dnt_spans = spans_from whole 0 (map snd chart)\<rparr>)"

definition bar_chart :: "(string \<times> nat) list \<Rightarrow> nat \<Rightarrow> bool \<Rightarrow> nat \<times> chart_part list" where
  "bar_chart rows limit include_zero =
    (let all = map (\<lambda>(l, v). (chart_label l, v)) (filter (\<lambda>r. include_zero \<or> 0 < snd r) rows);
         chart = (if include_zero then all else compact_rows (largest_first all) limit);
         highest = fold max (map snd chart) 0
     in ((\<Sum>r\<leftarrow>chart. snd r), chart_parts highest chart))"

section \<open>The sums of the reports\<close>

lemma group_measure:
  fixes m :: "'v \<Rightarrow> nat"
  assumes "\<And>x. m (init x) = 0" "\<And>x w. m (step x w) = m w + g x"
  shows "(\<Sum>e\<leftarrow>group_all key init step xs. m (snd e)) = (\<Sum>x\<leftarrow>xs. g x)"
proof -
  have one: "(\<Sum>e\<leftarrow>dict_alter k v f kvs. m (snd e)) = (\<Sum>e\<leftarrow>kvs. m (snd e)) + n" if "m v = 0" "\<And>w. m (f w) = m w + n" for k v f n kvs
    using that by (induction k v f kvs rule: dict_alter.induct) simp_all
  have "(\<Sum>e\<leftarrow>fold (\<lambda>x. dict_alter (key x) (init x) (step x)) xs kvs. m (snd e)) = (\<Sum>x\<leftarrow>xs. g x) + (\<Sum>e\<leftarrow>kvs. m (snd e))" for kvs
    by (induction xs arbitrary: kvs) (simp_all add: one [OF assms])
  then show ?thesis by (simp add: group_all_def)
qed

definition finding_measures :: "((finding_counts \<Rightarrow> nat) \<times> (string \<Rightarrow> nat)) list" where
  "finding_measures = [(fct_verified, \<lambda>t. of_bool (t = ''VERIFIED'')), (fct_pending, \<lambda>t. of_bool (t = ''PENDING'')),
     (fct_missing, \<lambda>t. of_bool (t = ''MISSING'')), (fct_extra, \<lambda>t. of_bool (t = ''EXTRA'')), (fct_total, \<lambda>t. 1)]"

lemma count_one_fields:
  "fct_verified (count_one t c) = fct_verified c + of_bool (t = ''VERIFIED'')" "fct_pending (count_one t c) = fct_pending c + of_bool (t = ''PENDING'')"
  "fct_missing (count_one t c) = fct_missing c + of_bool (t = ''MISSING'')" "fct_extra (count_one t c) = fct_extra c + of_bool (t = ''EXTRA'')"
  "fct_total (count_one t c) = fct_total c + 1"
  by (simp_all add: count_one_def Let_def)

lemma measures:
  assumes "(m, g) \<in> set finding_measures"
  shows "m no_findings = 0" "m (count_one t c) = m c + g t" "m (count_findings fs) = (\<Sum>f\<leftarrow>fs. g (fnd_type f))"
proof -
  show "m no_findings = 0" "m (count_one t c) = m c + g t"
    using assms unfolding finding_measures_def list.set insert_iff prod.inject empty_iff
    by (elim disjE; simp add: no_findings_def count_one_fields)+
  have "length (filter (\<lambda>x. x = t) (map fnd_type fs)) = (\<Sum>f\<leftarrow>fs. of_bool (fnd_type f = t))" for t
    by (induction fs) simp_all
  moreover have "length fs = (\<Sum>f\<leftarrow>fs. 1)" by (induction fs) simp_all
  ultimately show "m (count_findings fs) = (\<Sum>f\<leftarrow>fs. g (fnd_type f))"
    using assms unfolding finding_measures_def list.set insert_iff prod.inject empty_iff
    by (elim disjE) (simp_all add: count_findings_def Let_def count_of_counter counter_sum)
qed

lemma sum_of_rows:
  assumes "(m, g) \<in> set finding_measures" "bfs = concat (map (\<lambda>b. map (Pair b) (audit_findings_of d b)) bs)"
  shows "(\<Sum>r\<leftarrow>map (director_batch_row_of d) bs. m (drb_counts r)) = m (count_findings (map snd bfs))"
    and "(\<Sum>r\<leftarrow>sort_key worst_first (map product_row_of (group_findings bfs)). m (dpr_counts r)) = m (count_findings (map snd bfs))"
proof -
  have total: "m (count_findings (map snd bfs)) = (\<Sum>x\<leftarrow>bfs. g (fnd_type (snd x)))"
    by (simp add: measures(3) [OF assms(1)] comp_def)
  show "(\<Sum>r\<leftarrow>map (director_batch_row_of d) bs. m (drb_counts r)) = m (count_findings (map snd bfs))"
    unfolding total assms(2)
    by (induction bs) (simp_all add: director_batch_row_of_def Let_def measures(3) [OF assms(1)] comp_def)
  have "(\<Sum>r\<leftarrow>map product_row_of (group_findings bfs). m (dpr_counts r)) = (\<Sum>e\<leftarrow>group_findings bfs. m (snd (snd e)))"
    by (simp add: comp_def product_row_of_def case_prod_beta)
  also have "\<dots> = (\<Sum>x\<leftarrow>bfs. g (fnd_type (snd x)))"
    unfolding group_findings_def
    using group_measure [of "\<lambda>v. m (snd v)" "\<lambda>bf. ([], no_findings)" "\<lambda>(b, f) (ns, c). (List.insert (bat_number b) ns, count_one (fnd_type f) c)"
        "\<lambda>x. g (fnd_type (snd x))" "\<lambda>(b, f). finding_key f" bfs]
    by (simp add: measures(1,2) [OF assms(1)] case_prod_beta)
  finally show "(\<Sum>r\<leftarrow>sort_key worst_first (map product_row_of (group_findings bfs)). m (dpr_counts r)) = m (count_findings (map snd bfs))"
    unfolding total by (simp only: sum_list_sort_key_nat)
qed

text \<open>
  The reconciliation report adds up: for every kind of finding and for their total, the number
  at the head of the report is the sum over its audits and the sum over its products, and its list
  of findings has as many rows as the total says.
\<close>

theorem reconciliation_adds_up:
  fixes d start_at end_at limit
  defines "r \<equiv> director_audit_reconciliation_report d start_at end_at limit"
  shows "list_all (\<lambda>m. m (rcn_counts r) = (\<Sum>b\<leftarrow>rcn_batch_rows r. m (drb_counts b)) \<and>
      m (rcn_counts r) = (\<Sum>p\<leftarrow>rcn_product_rows r. m (dpr_counts p)))
    [fct_verified, fct_pending, fct_missing, fct_extra, fct_total] \<and>
    length (rcn_finding_rows r) = fct_total (rcn_counts r)"
proof -
  obtain bs where bs: "rcn_batch_rows r = map (director_batch_row_of d) bs"
    "rcn_product_rows r = sort_key worst_first (map product_row_of (group_findings (concat (map (\<lambda>b. map (Pair b) (audit_findings_of d b)) bs))))"
    "rcn_counts r = count_findings (map snd (concat (map (\<lambda>b. map (Pair b) (audit_findings_of d b)) bs)))"
    "length (rcn_finding_rows r) = length (concat (map (\<lambda>b. map (Pair b) (audit_findings_of d b)) bs))"
    by (simp add: r_def director_audit_reconciliation_report_def Let_def)
  have "m (rcn_counts r) = (\<Sum>b\<leftarrow>rcn_batch_rows r. m (drb_counts b)) \<and>
      m (rcn_counts r) = (\<Sum>p\<leftarrow>rcn_product_rows r. m (dpr_counts p))" if "(m, g) \<in> set finding_measures" for m g
    unfolding bs(1-3) using sum_of_rows [OF that refl, of d bs] by simp
  then have "list_all (\<lambda>m. m (rcn_counts r) = (\<Sum>b\<leftarrow>rcn_batch_rows r. m (drb_counts b)) \<and>
      m (rcn_counts r) = (\<Sum>p\<leftarrow>rcn_product_rows r. m (dpr_counts p))) (map fst finding_measures)"
    by (auto simp: list_all_iff)
  moreover have "length (rcn_finding_rows r) = fct_total (rcn_counts r)"
    unfolding bs(3,4) by (simp add: count_findings_def Let_def counter_sum)
  ultimately show ?thesis by (simp add: finding_measures_def)
qed

lemma compact_total: "0 < limit \<Longrightarrow> (\<Sum>r\<leftarrow>compact_rows rows limit. snd r) = (\<Sum>r\<leftarrow>rows. snd r)"
proof -
  have "(\<Sum>r\<leftarrow>rows. snd r) = (\<Sum>r\<leftarrow>take (limit - 1) rows @ drop (limit - 1) rows. snd r)" by simp
  then show ?thesis by (simp add: compact_rows_def del: append_take_drop_id)
qed

text \<open>Nothing disappears from a donut: its total is the sum of all rows, whatever was merged into \<open>Other\<close>.\<close>

lemma donut_total: "0 < limit \<Longrightarrow> dnt_total (donut_chart rows limit) = (\<Sum>r\<leftarrow>rows. snd r)"
proof -
  assume l: "0 < limit"
  have "(\<Sum>r\<leftarrow>largest_first (map (\<lambda>(l, v). (chart_label l, v)) (filter (\<lambda>r. 0 < snd r) rows)). snd r) = (\<Sum>r\<leftarrow>rows. snd r)"
    unfolding largest_first_def sum_list_sort_key_nat by (induction rows) (simp_all add: case_prod_beta)
  moreover have "dnt_total (if w = 0 then \<lparr>dnt_total = 0, dnt_slices = [], dnt_spans = []\<rparr>
      else \<lparr>dnt_total = w, dnt_slices = p, dnt_spans = q\<rparr>) = w" for w p q by simp
  ultimately show ?thesis unfolding donut_chart_def Let_def using compact_total [OF l] by metis
qed

end
