(* ===== verification/Sheets.thy ===== *)
theory Sheets
  imports Director TallyExcel Relocation Xml
begin

text \<open>
  The downloads of \<open>app/services/exports.py\<close> and \<open>app/services/log_fields.py\<close>: the
  cells and the column widths of the sheets, and which label stands where on a page of labels.
  Fonts, colours, lengths and the pixels of a QR code are left out; the rows that a reference names
  exist, which the foreign keys of the database see to.
\<close>

section \<open>Who stands behind a transaction\<close>

definition INVOICE_BATCH_TYPES :: "batch_type list" where
  "INVOICE_BATCH_TYPES = [B_PURCHASE, B_RECEIVE, B_SALE]"

definition username_of :: "db \<Rightarrow> nat \<Rightarrow> string" where
  "username_of d uid = (case get_user d uid of None \<Rightarrow> [] | Some u \<Rightarrow> usr_username u)"

definition invoice_created_by :: "db \<Rightarrow> inventory_transaction \<Rightarrow> string" where
  "invoice_created_by d t =
    (case Option.bind (txn_batch_id t) (get_batch d) of None \<Rightarrow> []
     | Some b \<Rightarrow> if bat_type b \<in> set INVOICE_BATCH_TYPES then username_of d (bat_user_id b) else [])"

definition barcode_sold_by :: "db \<Rightarrow> inventory_transaction \<Rightarrow> string" where
  "barcode_sold_by d t = (if txn_type t = T_SALE then username_of d (txn_user_id t) else [])"

definition product_audited_by :: "db \<Rightarrow> inventory_transaction \<Rightarrow> string" where
  "product_audited_by d t = (if txn_type t = T_AUDIT then username_of d (txn_user_id t) else [])"

section \<open>Sheets\<close>

record sheet =
  sht_title :: string
  sht_rows :: "cell list list"
  sht_widths :: "nat list"

text \<open>The widest text of each column, within the limits; a cell a row does not have counts as empty.\<close>

definition column_widths :: "nat \<Rightarrow> cell list list \<Rightarrow> nat list" where
  "column_widths most rows =
    (let columns = fold max (map length rows) 0;
         width = (\<lambda>k. fold max (map (\<lambda>r. if k < length r then length (cell_or_empty (r ! k)) else 0) rows) 0)
     in map (\<lambda>k. min (max (width k + 2) 12) most) [0..<columns])"

definition exported :: "string \<Rightarrow> nat \<Rightarrow> string list \<Rightarrow> cell list list \<Rightarrow> string list \<Rightarrow> sheet" where
  "exported title most headers rows fs =
    (case select_export_columns headers (map safe_row rows) fs of (hs, chosen) \<Rightarrow>
       let all = map CText hs # chosen in \<lparr>sht_title = title, sht_rows = all, sht_widths = column_widths most all\<rparr>)"

definition status_text :: "serial_status option \<Rightarrow> string" where
  "status_text s = (case s of None \<Rightarrow> [] | Some x \<Rightarrow> serial_status_value x)"

definition day_value :: "day option \<Rightarrow> report_value" where
  "day_value x = (case x of None \<Rightarrow> NoValue | Some n \<Rightarrow> DateValue n)"

definition SCAN_EXPORT_HEADERS :: "string list" where
  "SCAN_EXPORT_HEADERS = [''Date'', ''User'', ''Action'', ''Serial'', ''Status'', ''Batch'', ''Message'', ''Tally Reference'']"

definition scan_cells :: "db \<Rightarrow> scan_log \<Rightarrow> cell list" where
  "scan_cells d s = map CText [report_date (MomentValue (log_created_at s)), username_of d (log_user_id s), log_action s,
     log_serial_number_raw s, log_status s,
     case Option.bind (log_batch_id s) (get_batch d) of None \<Rightarrow> [] | Some b \<Rightarrow> bat_number b,
     text_of (log_message s), text_of (log_tally_reference s)]"

definition scans_xlsx :: "db \<Rightarrow> scan_log list \<Rightarrow> string list \<Rightarrow> sheet" where
  "scans_xlsx d scans fs = exported ''Scans'' 40 SCAN_EXPORT_HEADERS (map (scan_cells d) scans) fs"

definition SERIAL_EXPORT_HEADERS :: "string list" where
  "SERIAL_EXPORT_HEADERS = [''Product Code'', ''Product Name'', ''Tally Stock Item'', ''Serial Number'', ''Product Batch'', ''Mfg Date'',
     ''Expiry Date'', ''Warehouse'', ''Warehouse Level'', ''Status'', ''Created At'']"

definition serial_cells :: "db \<Rightarrow> serial \<Rightarrow> cell list" where
  "serial_cells d s =
    (let p = (\<lambda>f. case product_of d s of None \<Rightarrow> [] | Some p \<Rightarrow> f p)
     in map CText [p prd_code, p prd_name, p prd_tally_name, ser_number s, text_of (ser_batch_number s), report_date (day_value (ser_mfg_date s)),
          report_date (day_value (ser_expiry_date s)), text_of (ser_warehouse s), warehouse_level_value (ser_level s), display_status s,
          report_date (MomentValue (ser_created_at s))])"

definition serials_xlsx :: "db \<Rightarrow> serial list \<Rightarrow> string list \<Rightarrow> sheet" where
  "serials_xlsx d ss fs = exported ''Barcodes'' 42 SERIAL_EXPORT_HEADERS (map (serial_cells d) ss) fs"

definition TRANSACTION_EXPORT_HEADERS :: "string list" where
  "TRANSACTION_EXPORT_HEADERS = [''Date'', ''User'', ''Type'', ''Serial'', ''Product Code'', ''Product Name'', ''Invoice Created By'',
     ''Barcode Sold By'', ''Product Audited By'', ''From Status'', ''To Status'', ''Reason'', ''Batch/Reference'', ''Tally Reference'', ''Notes'']"

definition transaction_cells :: "db \<Rightarrow> inventory_transaction \<Rightarrow> cell list" where
  "transaction_cells d t =
    (let p = (\<lambda>f. case Option.bind (txn_product_id t) (get_product d) of None \<Rightarrow> [] | Some p \<Rightarrow> f p)
     in map CText [report_date (MomentValue (txn_created_at t)), username_of d (txn_user_id t), transaction_type_value (txn_type t),
          text_of (txn_serial_number t), p prd_code, p prd_name, invoice_created_by d t, barcode_sold_by d t, product_audited_by d t,
          status_text (txn_status_from t), status_text (txn_status_to t), text_of (txn_reason_code t), text_of (txn_reference_number t),
          text_of (txn_tally_reference t), text_of (txn_notes t)])"

definition transactions_xlsx :: "db \<Rightarrow> inventory_transaction list \<Rightarrow> string list \<Rightarrow> sheet" where
  "transactions_xlsx d ts fs = exported ''Transactions'' 42 TRANSACTION_EXPORT_HEADERS (map (transaction_cells d) ts) fs"

definition MISSING_STOCK_EXPORT_HEADERS :: "string list" where
  "MISSING_STOCK_EXPORT_HEADERS = [''Audit Date'', ''Audited By'', ''Audit Batch'', ''Serial'', ''Product Code'', ''Product Name'',
     ''Product Batch'', ''Warehouse'', ''Storage Location'', ''Mfg Date'', ''Expiry Date'', ''Expected Status'']"

definition missing_cells :: "db \<Rightarrow> audit_finding \<Rightarrow> cell list" where
  "missing_cells d f =
    (let b = (\<lambda>g. case get_batch d (fnd_batch_id f) of None \<Rightarrow> [] | Some b \<Rightarrow> g b);
         s = (\<lambda>g. case Option.bind (fnd_serial_id f) (get_serial d) of None \<Rightarrow> [] | Some s \<Rightarrow> g s)
     in map CText [report_date (MomentValue (fnd_created_at f)), b (\<lambda>b. username_of d (bat_user_id b)), b bat_number, fnd_serial_number f,
          text_of (fnd_product_code f), text_of (fnd_product_name f), s (\<lambda>s. text_of (ser_batch_number s)), s (\<lambda>s. text_of (ser_warehouse s)),
          s (\<lambda>s. case Option.bind (ser_location_id s) (get_location d) of None \<Rightarrow> [] | Some l \<Rightarrow> full_path l),
          s (\<lambda>s. report_date (day_value (ser_mfg_date s))), s (\<lambda>s. report_date (day_value (ser_expiry_date s))),
          status_text (fnd_expected_status f)])"

definition missing_stock_xlsx :: "db \<Rightarrow> audit_finding list \<Rightarrow> string list \<Rightarrow> sheet" where
  "missing_stock_xlsx d rows fs = exported ''Missing Stock'' 42 MISSING_STOCK_EXPORT_HEADERS (map (missing_cells d) rows) fs"

section \<open>The reconciliation workbook\<close>

definition period_text :: "moment option \<Rightarrow> string" where
  "period_text t = (case t of None \<Rightarrow> ''All'' | Some m \<Rightarrow> or_else (report_date (MomentValue m)) ''All'')"

definition count_cell :: "nat \<Rightarrow> cell" where "count_cell n = CInt (int n)"

definition summary_rows :: "reconciliation \<Rightarrow> cell list list" where
  "summary_rows r =
    (let c = rcn_counts r
     in [[CText ''Period start'', CText (period_text (rcn_start_at r))], [CText ''Period end before'', CText (period_text (rcn_end_at r))],
         [CText ''Audit batches'', count_cell (rcn_audit_batch_count r)], [CText ''Verified'', count_cell (fct_verified c)],
         [CText ''Missing'', count_cell (fct_missing c)], [CText ''Extra'', count_cell (fct_extra c)],
         [CText ''Total findings'', count_cell (fct_total c)], [CText ''Pending'', count_cell (fct_pending c)]])"

definition count_cells :: "finding_counts \<Rightarrow> cell list" where
  "count_cells c = map count_cell [fct_verified c, fct_missing c, fct_extra c, fct_total c, fct_pending c]"

definition batch_sheet_rows :: "reconciliation \<Rightarrow> cell list list" where
  "batch_sheet_rows r =
     map CText [''Audit Date'', ''Audit Batch'', ''Audited By'', ''Products'', ''Verified'', ''Missing'', ''Extra'', ''Total'', ''Pending''] #
     map (\<lambda>b. safe_row ([CText (report_date (MomentValue (drb_audit_at b))), CText (drb_batch_number b), CText (drb_audited_by b),
       count_cell (drb_products b)] @ count_cells (drb_counts b))) (rcn_batch_rows r)"

definition product_sheet_rows :: "reconciliation \<Rightarrow> cell list list" where
  "product_sheet_rows r =
     map CText [''Product Code'', ''Product Name'', ''Audit Batches'', ''Verified'', ''Missing'', ''Extra'', ''Total'', ''Pending''] #
     map (\<lambda>p. safe_row ([CText (dpr_product_code p), CText (dpr_product_name p), CText (dpr_audit_batches p)] @ count_cells (dpr_counts p)))
       (rcn_product_rows r)"

definition finding_sheet_rows :: "reconciliation \<Rightarrow> cell list list" where
  "finding_sheet_rows r =
     map CText [''Audit Date'', ''Audit Batch'', ''Audited By'', ''Finding'', ''Serial'', ''Product Code'', ''Product Name'',
       ''Expected Status'', ''Scanned Status''] #
     map (\<lambda>f. safe_row (map CText [report_date (MomentValue (dfr_audit_at f)), dfr_batch_number f, dfr_audited_by f, dfr_type f,
       dfr_serial_number f, dfr_product_code f, dfr_product_name f, dfr_expected_status f, dfr_scanned_status f])) (rcn_finding_rows r)"

text \<open>A sheet keeps the requested columns; one without any is dropped.\<close>

definition kept_columns :: "string list \<Rightarrow> cell list list \<Rightarrow> cell list list option" where
  "kept_columns requested rows =
    (let indexes = filter (\<lambda>k. py_strip (cell_or_empty (hd rows ! k)) \<in> set requested) [0..<length (hd rows)]
     in if indexes = [] then None else Some (map (\<lambda>r. map ((!) r) (filter (\<lambda>k. k < length r) indexes)) rows))"

definition audit_reconciliation_xlsx :: "reconciliation \<Rightarrow> string list \<Rightarrow> sheet list" where
  "audit_reconciliation_xlsx r fs =
    (let requested = filter (\<lambda>f. f \<noteq> []) (map py_strip fs);
         detail = [(''Audit Batches'', batch_sheet_rows r), (''Product Reconciliation'', product_sheet_rows r), (''Serial Findings'', finding_sheet_rows r)];
         chosen = (if requested = [] then detail
           else List.map_filter (\<lambda>(title, rows). map_option (Pair title) (kept_columns requested rows)) detail)
     in map (\<lambda>(title, rows). \<lparr>sht_title = title, sht_rows = rows, sht_widths = column_widths 42 rows\<rparr>) ((''Summary'', summary_rows r) # chosen))"

section \<open>No cell is a formula\<close>

fun plain_cell :: "cell \<Rightarrow> bool" where
  "plain_cell (CText s) = (s = [] \<or> hd s \<notin> set dangerous_prefixes)"
| "plain_cell _ = True"

definition plain_sheet :: "sheet \<Rightarrow> bool" where
  "plain_sheet s \<longleftrightarrow> list_all (list_all plain_cell) (sht_rows s)"

lemma spreadsheet_safe_plain: "plain_cell (spreadsheet_safe c)"
  by (cases c) (auto simp: dangerous_prefixes_def)

lemma safe_row_plain: "list_all plain_cell (safe_row cs)"
  by (simp add: safe_row_def list_all_iff spreadsheet_safe_plain)

lemma select_plain:
  assumes "list_all (list_all plain_cell) rows" "select_export_columns headers rows fs = (hs, chosen)"
  shows "list_all (list_all plain_cell) chosen \<and> set hs \<subseteq> set headers"
  using assms
  by (auto simp: select_export_columns_def Let_def list_all_iff split: if_splits)

lemma exported_plain:
  assumes "list_all plain_cell (map CText headers)"
  shows "plain_sheet (exported title most headers rows fs)"
proof -
  obtain hs chosen where s: "select_export_columns headers (map safe_row rows) fs = (hs, chosen)" by (cases "select_export_columns headers (map safe_row rows) fs")
  have "list_all (list_all plain_cell) (map safe_row rows)" using safe_row_plain by (auto simp: list_all_iff)
  from select_plain [OF this s] assms show ?thesis
    by (auto simp: plain_sheet_def exported_def s Let_def list_all_iff)
qed

lemma kept_columns_plain:
  "kept_columns requested rows = Some kept \<Longrightarrow> list_all (list_all plain_cell) rows \<Longrightarrow> list_all (list_all plain_cell) kept"
  by (auto simp: kept_columns_def Let_def list_all_iff split: if_splits)

lemma reconciliation_rows_plain:
  "list_all (list_all plain_cell) (batch_sheet_rows r)" "list_all (list_all plain_cell) (product_sheet_rows r)"
  "list_all (list_all plain_cell) (finding_sheet_rows r)"
proof -
  have safe: "list_all (list_all plain_cell) (map (\<lambda>x. safe_row (f x)) xs)" for f :: "'b \<Rightarrow> cell list" and xs
    using safe_row_plain by (simp add: list_all_iff)
  show "list_all (list_all plain_cell) (batch_sheet_rows r)" "list_all (list_all plain_cell) (product_sheet_rows r)"
    "list_all (list_all plain_cell) (finding_sheet_rows r)"
    unfolding batch_sheet_rows_def product_sheet_rows_def finding_sheet_rows_def list.pred_inject(2)
    using safe by (simp_all add: dangerous_prefixes_def)
qed

lemma report_day_plain: "report_day n \<noteq> [] \<and> hd (report_day n) \<notin> set dangerous_prefixes"
proof -
  obtain y m k where c: "civil n = (y, m, k)" by (cases "civil n")
  have z: "zero_pad 2 (nat k) \<noteq> []" by (rule zero_pad_not_Nil)
  then have "is_digit (hd (zero_pad 2 (nat k)))" using zero_pad_digits [of 2 "nat k"] by (simp add: list_all_iff)
  moreover have "\<not> is_digit x" if "x \<in> set dangerous_prefixes" for x
    using that by (auto simp: dangerous_prefixes_def is_digit_def)
  ultimately show ?thesis using z by (auto simp: report_day_def c)
qed

lemma summary_plain: "list_all (list_all plain_cell) (summary_rows r)"
proof -
  have "plain_cell (CText (period_text t))" for t
  proof (cases t)
    case None
    then show ?thesis by (simp add: period_text_def dangerous_prefixes_def)
  next
    case (Some m)
    then show ?thesis using report_day_plain [of "day_of (ist m)"] by (simp add: period_text_def or_else_def)
  qed
  then show ?thesis by (simp add: summary_rows_def Let_def count_cell_def dangerous_prefixes_def)
qed

section \<open>Pages of labels\<close>

definition DEFAULT_LABEL_ROWS :: int where "DEFAULT_LABEL_ROWS = 11"
definition DEFAULT_LABEL_COLUMNS :: int where "DEFAULT_LABEL_COLUMNS = 4"
definition MIN_LABEL_ROWS :: int where "MIN_LABEL_ROWS = 1"
definition MAX_LABEL_ROWS :: int where "MAX_LABEL_ROWS = 11"
definition MIN_LABEL_COLUMNS :: int where "MIN_LABEL_COLUMNS = 1"
definition MAX_LABEL_COLUMNS :: int where "MAX_LABEL_COLUMNS = 4"

definition label_layout :: "int \<Rightarrow> int \<Rightarrow> int \<times> int" where
  "label_layout rows columns =
    (if MIN_LABEL_ROWS \<le> rows \<and> rows \<le> MAX_LABEL_ROWS then rows else DEFAULT_LABEL_ROWS,
     if MIN_LABEL_COLUMNS \<le> columns \<and> columns \<le> MAX_LABEL_COLUMNS then columns else DEFAULT_LABEL_COLUMNS)"

text \<open>A page is a table whose last places may stay empty.\<close>

type_synonym 'a label_page = "'a option list list"

definition page_table :: "nat \<Rightarrow> nat \<Rightarrow> 'a list \<Rightarrow> 'a label_page" where
  "page_table rows columns page =
     map (\<lambda>r. map (\<lambda>c. let k = r * columns + c in if k < length page then Some (page ! k) else None) [0..<columns]) [0..<rows]"

definition label_pages :: "nat \<Rightarrow> nat \<Rightarrow> 'a list \<Rightarrow> 'a label_page list" where
  "label_pages rows columns xs = map (page_table rows columns) (chunks_of (rows * columns) xs)"

text \<open>A label of a serial: what its QR code holds and the text beside it.\<close>

definition label_cell :: "serial \<Rightarrow> string \<times> string" where
  "label_cell s = (ser_number s, escape_text (ser_number s))"

definition barcode_labels_pdf :: "serial list \<Rightarrow> int \<Rightarrow> int \<Rightarrow> (string \<times> string) label_page list" where
  "barcode_labels_pdf ss rows columns =
    (case label_layout rows columns of (r, c) \<Rightarrow> label_pages (nat r) (nat c) (map label_cell ss))"

record location_label =
  lla_code :: string
  lla_title :: string
  lla_text :: string
  lla_details :: string

definition location_label_cell :: "location \<Rightarrow> location_label" where
  "location_label_cell l =
    (let bold = (\<lambda>s. ''<b>'' @ escape_text s @ ''</b>''); gap = '' &nbsp; ''
     in \<lparr>lla_code = loc_code l, lla_title = escape_text (loc_warehouse l), lla_text = escape_text (loc_code l),
         lla_details = py_join ''<br/>'' [''Zone: '' @ bold (loc_zone l) @ gap @ ''Section: '' @ bold (loc_section l),
           ''Rack: '' @ bold (loc_rack l) @ gap @ ''Shelf: '' @ bold (loc_shelf l), ''Bin: '' @ bold (loc_bin l)]\<rparr>)"

definition location_labels_pdf :: "location list \<Rightarrow> location_label label_page list" where
  "location_labels_pdf ls = label_pages 5 2 (map location_label_cell ls)"

definition audit_report_rows :: "db \<Rightarrow> batch \<Rightarrow> string list list" where
  "audit_report_rows d b =
     [''Finding'', ''Serial'', ''Product'', ''Expected'', ''Scanned''] #
     map (\<lambda>f. [fnd_type f, fnd_serial_number f, text_of (fnd_product_name f), status_text (fnd_expected_status f), status_text (fnd_scanned_status f)])
       (audit_findings_of d b)"

lemma page_table_flat:
  "concat (page_table rows columns page) =
     map (\<lambda>k. if k < length page then Some (page ! k) else None) [0..<rows * columns]"
proof (induction rows)
  case 0
  then show ?case by (simp add: page_table_def)
next
  case (Suc rows)
  have "[0..<Suc rows * columns] = [0..<rows * columns] @ map (\<lambda>c. c + rows * columns) [0..<columns]"
    using upt_add_eq_append [of 0 "rows * columns" columns] map_add_upt [of "rows * columns" columns] by (simp add: add.commute)
  with Suc show ?case by (simp add: page_table_def Let_def comp_def add.commute)
qed

lemma page_table_labels:
  assumes "length page \<le> rows * columns"
  shows "List.map_filter id (concat (page_table rows columns page)) = page"
proof -
  let ?n = "rows * columns"
  have "map (\<lambda>k. if k < length page then Some (page ! k) else None) [0..<?n] = map Some page @ replicate (?n - length page) None"
    using assms by (intro nth_equalityI) (auto simp: nth_append)
  then show ?thesis by (simp add: page_table_flat map_filter_def filter_replicate comp_def)
qed

lemma chunks_of_parts:
  "0 < n \<Longrightarrow> concat (chunks_of n xs) = xs \<and> list_all (\<lambda>c. length c \<le> n) (chunks_of n xs) \<and>
     length (chunks_of n xs) = (length xs + n - 1) div n"
proof (induction n xs rule: chunks_of.induct)
  case (1 n xs)
  show ?case
  proof (cases "xs = []")
    case True
    with 1 show ?thesis by (simp add: chunks_of.simps)
  next
    case False
    have "(length xs + n - 1) div n = Suc ((length (drop n xs) + n - 1) div n)"
    proof (cases "n \<le> length xs")
      case True
      then have "length xs + n - 1 = (length (drop n xs) + n - 1) + n" using 1(2) by simp
      then show ?thesis using 1(2) by (simp only: div_add_self2)
    next
      case less: False
      have "(n - 1) div n = 0" using 1(2) by simp
      moreover have "(length xs + n - 1) div n = 1"
      proof -
        have "0 < length xs" using \<open>xs \<noteq> []\<close> by simp
        then have "n * 1 \<le> length xs + n - 1" "length xs + n - 1 < n * Suc 1" using less 1(2)
          by (simp_all only: mult_1_right mult_Suc_right mult_0_right)
        then show ?thesis by (intro div_nat_eqI) simp_all
      qed
      ultimately show ?thesis using less by simp
    qed
    with 1 False show ?thesis by (simp add: chunks_of.simps [of n xs])
  qed
qed

text \<open>
  Every selected label is printed once, in the selected order, on as few pages as the layout
  allows, whatever layout was asked for.
\<close>

theorem labels_complete:
  "let r = nat (fst (label_layout rows columns)); c = nat (snd (label_layout rows columns)); pages = barcode_labels_pdf ss rows columns
   in concat (map (\<lambda>page. List.map_filter id (concat page)) pages) = map label_cell ss \<and>
      length pages = (length ss + r * c - 1) div (r * c) \<and> 1 \<le> r * c \<and> r * c \<le> 44 \<and>
      list_all (\<lambda>page. length page = r \<and> list_all (\<lambda>row. length row = c) page) pages"
proof -
  define r c where "r = nat (fst (label_layout rows columns))" and "c = nat (snd (label_layout rows columns))"
  note limits = label_layout_def DEFAULT_LABEL_ROWS_def DEFAULT_LABEL_COLUMNS_def MIN_LABEL_ROWS_def MAX_LABEL_ROWS_def
    MIN_LABEL_COLUMNS_def MAX_LABEL_COLUMNS_def
  have b: "1 \<le> r" "r \<le> 11" "1 \<le> c" "c \<le> 4" by (auto simp: r_def c_def limits)
  then have n: "0 < r * c" "r * c \<le> 44" using mult_le_mono [of r 11 c 4] by auto
  note ch = chunks_of_parts [OF n(1), of "map label_cell ss"]
  have p: "barcode_labels_pdf ss rows columns = label_pages r c (map label_cell ss)"
    by (simp add: barcode_labels_pdf_def r_def c_def split: prod.split)
  have "map (\<lambda>page. List.map_filter id (concat (page_table r c page))) (chunks_of (r * c) (map label_cell ss)) =
      chunks_of (r * c) (map label_cell ss)"
    using ch by (intro map_idI) (simp add: list_all_iff page_table_labels)
  with ch n have "concat (map (\<lambda>page. List.map_filter id (concat page)) (label_pages r c (map label_cell ss))) = map label_cell ss"
    "length (label_pages r c (map label_cell ss)) = (length ss + r * c - 1) div (r * c)"
    by (simp_all add: label_pages_def comp_def)
  moreover have "list_all (\<lambda>page. length page = r \<and> list_all (\<lambda>row. length row = c) page) (label_pages r c (map label_cell ss))"
    by (auto simp: label_pages_def page_table_def list_all_iff)
  ultimately show ?thesis using n unfolding p Let_def r_def [symmetric] c_def [symmetric] by simp
qed

text \<open>
  No cell of a download is taken for a formula: whatever was entered anywhere and whichever columns
  were asked for, the text of a cell never starts with a sign a spreadsheet would calculate.
\<close>

theorem exports_hold_no_formula:
  "plain_sheet (scans_xlsx d scans fs) \<and> plain_sheet (serials_xlsx d ss fs) \<and> plain_sheet (transactions_xlsx d ts fs) \<and>
   plain_sheet (missing_stock_xlsx d missing fs) \<and> list_all plain_sheet (audit_reconciliation_xlsx r fs)"
proof (intro conjI)
  show "plain_sheet (scans_xlsx d scans fs)" unfolding scans_xlsx_def
    by (rule exported_plain) (simp add: SCAN_EXPORT_HEADERS_def dangerous_prefixes_def)
  show "plain_sheet (serials_xlsx d ss fs)" unfolding serials_xlsx_def
    by (rule exported_plain) (simp add: SERIAL_EXPORT_HEADERS_def dangerous_prefixes_def)
  show "plain_sheet (transactions_xlsx d ts fs)" unfolding transactions_xlsx_def
    by (rule exported_plain) (simp add: TRANSACTION_EXPORT_HEADERS_def dangerous_prefixes_def)
  show "plain_sheet (missing_stock_xlsx d missing fs)" unfolding missing_stock_xlsx_def
    by (rule exported_plain) (simp add: MISSING_STOCK_EXPORT_HEADERS_def dangerous_prefixes_def)
  let ?keep = "\<lambda>(title, rows). map_option (Pair title) (kept_columns (filter (\<lambda>f. f \<noteq> []) (map py_strip fs)) rows)"
  let ?detail = "[(''Audit Batches'', batch_sheet_rows r), (''Product Reconciliation'', product_sheet_rows r), (''Serial Findings'', finding_sheet_rows r)]"
  have all: "list_all (\<lambda>(title, rows). list_all (list_all plain_cell) rows) ?detail"
    using reconciliation_rows_plain [of r] by simp
  have "list_all (\<lambda>(title, rows). list_all (list_all plain_cell) rows) (List.map_filter ?keep ts)"
    if "list_all (\<lambda>(title, rows). list_all (list_all plain_cell) rows) ts" for ts :: "(string \<times> cell list list) list"
    using that by (induction ts) (auto simp: map_filter_def dest: kept_columns_plain)
  from this [OF all] all summary_plain [of r] show "list_all plain_sheet (audit_reconciliation_xlsx r fs)"
    unfolding audit_reconciliation_xlsx_def Let_def list.pred_map list.pred_inject(2)
    by (auto simp: plain_sheet_def comp_def case_prod_beta')
qed

end
