(* ===== verification/WarehouseRoutes.thy ===== *)
theory WarehouseRoutes
  imports Pages Sheets Commands
begin

text \<open>
  The warehouse pages, \<open>app/routers/warehouse.py\<close>: moving stock, the history of moves, the map and
  the storage locations with their labels.  The body of a move is the value its JSON stands for, or
  nothing when it cannot be read.  A negative number names no row, like zero.
\<close>

definition RELOCATION_ROLES :: role_arg where
  "RELOCATION_ROLES = ItemsArg (map (TextItem \<circ> role_text) [SUPER_ADMIN, ADMIN, WAREHOUSE_MANAGER, AUDITOR])"

definition LOCATION_MANAGER_ROLES :: role_arg where
  "LOCATION_MANAGER_ROLES = ItemsArg (map (TextItem \<circ> role_text) [SUPER_ADMIN, ADMIN, WAREHOUSE_MANAGER])"

definition among_roles :: "role_arg \<Rightarrow> http_error + user \<Rightarrow> http_error + user" where
  "among_roles roles who =
    (case who of Inl e \<Rightarrow> Inl e
     | Inr u \<Rightarrow> if has_any_role (TextArg (usr_role u)) roles then Inr u else Inl (Forbidden ''Not allowed''))"

definition require_relocator :: "server \<Rightarrow> request \<Rightarrow> db \<Rightarrow> http_error + user" where
  "require_relocator srv rq d = among_roles RELOCATION_ROLES (permitted srv rq ''stock_relocation'' edit_or_yes d)"

definition require_location_manager :: "server \<Rightarrow> request \<Rightarrow> db \<Rightarrow> http_error + user" where
  "require_location_manager srv rq d = among_roles LOCATION_MANAGER_ROLES (permitted srv rq ''location_manage'' edit_or_yes d)"

text \<open>The device a move was made with, by the header of the browser.\<close>

definition device_used :: "string \<Rightarrow> string" where
  "device_used user_agent =
    (let agent = py_strip user_agent; has = (\<lambda>t. contains_text t (py_lower agent));
         kind = (if has ''android'' then ''Android device'' else if has ''iphone'' \<or> has ''ipad'' then ''iOS device''
           else if has ''windows'' then ''Windows device'' else if has ''macintosh'' then ''Mac device''
           else if has ''linux'' then ''Linux device'' else ''Browser device'')
     in if agent = [] then kind else take 240 (kind @ '' '' @ [CHR 0xB7] @ '' '' @ agent))"

datatype warehouse_page =
    MovePage "location list"
  | HistoryPage "stock_relocation list" string
  | MapPage "(location \<times> nat) list" nat nat nat
  | LocationsPage "location list" "location option" "string option"
  | CodePicture string string
  | LocationLabels "location_label label_page list"

definition active_locations :: "db \<Rightarrow> location list" where
  "active_locations d = sort_key map_order (filter loc_active (locations d))"

definition move_stock_page :: "server \<Rightarrow> request \<Rightarrow> db \<Rightarrow> warehouse_page answer \<times> db" where
  "move_stock_page srv rq d = asked (require_relocator srv rq d) d (\<lambda>u. (Page 200 (MovePage (active_locations d)), d))"

definition stock_row_json :: "stock_row \<Rightarrow> json" where
  "stock_row_json r = JObj [(''product_id'', JInt (int (stk_product_id r))), (''product_code'', JStr (stk_product_code r)),
     (''product_name'', JStr (stk_product_name r)), (''batch_number'', jopt JStr (stk_batch_number r)),
     (''expiry_date'', jopt JStr (stk_expiry_date r)), (''source_location_id'', jopt (JInt \<circ> int) (stk_source_location_id r)),
     (''legacy_warehouse'', jopt JStr (stk_legacy_warehouse r)), (''source_location'', JStr (stk_source_location r)),
     (''quantity'', JInt (int (stk_quantity r))), (''serial_id'', jopt (JInt \<circ> int) (stk_serial_id r)),
     (''serial_number'', jopt JStr (stk_serial_number r))]"

definition move_search :: "server \<Rightarrow> request \<Rightarrow> string \<Rightarrow> db \<Rightarrow> warehouse_page answer \<times> db" where
  "move_search srv rq q d = asked (require_relocator srv rq d) d (\<lambda>u.
     (Data 200 [(''ok'', JBool True), (''results'', JList (map stock_row_json (search_stock d q 80)))], d))"

definition location_lookup :: "server \<Rightarrow> request \<Rightarrow> string \<Rightarrow> db \<Rightarrow> warehouse_page answer \<times> db" where
  "location_lookup srv rq q d = asked (require_relocator srv rq d) d (\<lambda>u.
    (case find_location_by_code d q True of
       None \<Rightarrow> (Data 404 [(''ok'', JBool False), (''error'', JStr ''Location code is invalid or inactive'')], d)
     | Some l \<Rightarrow> (Data 200 [(''ok'', JBool True), (''location'', JObj [(''id'', JInt (int (loc_id l))), (''code'', JStr (loc_code l)),
         (''warehouse'', JStr (loc_warehouse l)), (''zone'', JStr (loc_zone l)), (''section'', JStr (loc_section l)),
         (''rack'', JStr (loc_rack l)), (''shelf'', JStr (loc_shelf l)), (''bin'', JStr (loc_bin l)), (''path'', JStr (full_path l))])], d)))"

section \<open>A move\<close>

text \<open>The items of the body: what is no object is passed over, a number that is none refuses the whole.\<close>

definition item_number :: "string \<Rightarrow> json \<Rightarrow> int option" where
  "item_number k raw = py_int (jget k raw)"

definition item_reference :: "string \<Rightarrow> json \<Rightarrow> nat option option" where
  "item_reference k raw = (if jget k raw = JNull then Some None else map_option (Some \<circ> nat) (py_int (jget k raw)))"

definition item_text :: "string \<Rightarrow> json \<Rightarrow> string option" where
  "item_text k raw = (if jtrue (jget k raw) then Some (py_strip (py_str (jget k raw))) else None)"

definition move_item_of :: "json \<Rightarrow> move_item option" where
  "move_item_of raw =
    (case (item_number ''product_id'' raw, item_number ''quantity'' raw, item_reference ''source_location_id'' raw, item_reference ''serial_id'' raw) of
       (Some p, Some q, Some source, Some s) \<Rightarrow> Some \<lparr>mvi_product_id = nat p, mvi_quantity = q, mvi_batch_number = item_text ''batch_number'' raw,
         mvi_source = source, mvi_legacy = item_text ''legacy_warehouse'' raw, mvi_serial_id = s\<rparr>
     | _ \<Rightarrow> None)"

fun move_items_of :: "json list \<Rightarrow> move_item list option" where
  "move_items_of [] = Some []"
| "move_items_of (raw # rest) =
     (if \<not> is_obj raw then move_items_of rest
      else case move_item_of raw of None \<Rightarrow> None | Some m \<Rightarrow> map_option ((#) m) (move_items_of rest))"

definition raw_items :: "json \<Rightarrow> json list" where
  "raw_items body = (case body of JObj kvs \<Rightarrow> (case jget ''items'' body of JList xs \<Rightarrow> xs | _ \<Rightarrow> []) | _ \<Rightarrow> [])"

definition destination_of :: "json \<Rightarrow> int option" where
  "destination_of body = (if is_obj body then py_int (jget ''destination_id'' body) else None)"

definition confirm_relocation ::
  "server \<Rightarrow> move_world \<Rightarrow> request \<Rightarrow> string \<Rightarrow> json option \<Rightarrow> db \<Rightarrow> warehouse_page answer \<times> db"
where
  "confirm_relocation srv w rq user_agent sent d = asked (require_relocator srv rq d) d (\<lambda>u.
     let body = (case sent of None \<Rightarrow> JObj [] | Some v \<Rightarrow> v);
         refused = (\<lambda>status m. (Data status [(''ok'', JBool False), (''error'', JStr m)], d))
     in case move_items_of (raw_items body) of None \<Rightarrow> refused 400 ''Invalid move item''
     | Some items \<Rightarrow>
    (case destination_of body of None \<Rightarrow> refused 400 ''Select a destination location''
     | Some destination \<Rightarrow>
    (case relocate_stock (srv_sha srv) (srv_settings srv)
        \<lparr>mvr_user = u, mvr_destination_id = nat destination, mvr_items = items, mvr_reason = Some (py_str (jget_or ''reason'' body (JStr []))),
         mvr_device = device_used user_agent\<rparr> w d of
       Inl (RelocationError m) \<Rightarrow> refused 409 m
     | Inl e \<Rightarrow> (Failed (Broken e), d)
     | Inr (d', rows) \<Rightarrow> (Data 200 [(''ok'', JBool True),
         (''message'', JStr (''Moved '' @ nat_str (\<Sum>r\<leftarrow>rows. rel_quantity r) @ '' unit(s) successfully'')),
         (''references'', JList (map (JStr \<circ> rel_reference) rows))], d'))))"

section \<open>History, map and locations\<close>

definition history_search :: "db \<Rightarrow> string \<Rightarrow> stock_relocation \<Rightarrow> bool" where
  "history_search d q r \<longleftrightarrow>
    (case get_product d (rel_product_id r) of None \<Rightarrow> False
     | Some p \<Rightarrow> py_strip q = [] \<or> list_ex (ilike q) [Some (rel_reference r), Some (prd_code p), Some (prd_name p), rel_batch_number r])"

definition relocation_history :: "server \<Rightarrow> request \<Rightarrow> string \<Rightarrow> db \<Rightarrow> warehouse_page answer \<times> db" where
  "relocation_history srv rq q d = asked (permitted srv rq ''warehouse_data'' None d) d (\<lambda>u.
     (Page 200 (HistoryPage (take 300 (rev (sort_key rel_created_at (filter (history_search d q) (relocations d))))) q), d))"

definition warehouse_map :: "server \<Rightarrow> request \<Rightarrow> db \<Rightarrow> warehouse_page answer \<times> db" where
  "warehouse_map srv rq d = asked (permitted srv rq ''warehouse_data'' None d) d (\<lambda>u.
     let rows = warehouse_map_rows d
     in (Page 200 (MapPage rows (length rows) (length (filter (loc_active \<circ> fst) rows)) (\<Sum>r\<leftarrow>rows. snd r)), d))"

definition locations_page :: "server \<Rightarrow> request \<Rightarrow> string \<Rightarrow> nat option \<Rightarrow> db \<Rightarrow> warehouse_page answer \<times> db" where
  "locations_page srv rq err created d = asked (require_location_manager srv rq d) d (\<lambda>u.
     let rows = sort_key map_order (locations d)
     in (Page 200 (LocationsPage rows (find (\<lambda>l. Some (loc_id l) = created) rows) (if err = [] then None else Some err)), d))"

definition add_location :: "server \<Rightarrow> request \<Rightarrow> location_form \<Rightarrow> db \<Rightarrow> warehouse_page answer \<times> db" where
  "add_location srv rq f d = asked (require_location_manager srv rq d) d (\<lambda>u.
    (case create_location f (rq_now rq) d of
       Inl (RelocationError m) \<Rightarrow> (Redirect ''/warehouse/locations'' [(''error'', m)], d)
     | Inl e \<Rightarrow> (Failed (Broken e), d)
     | Inr (d', l) \<Rightarrow> (Redirect ''/warehouse/locations'' [(''created'', nat_str (loc_id l))], d')))"

definition toggle_location :: "server \<Rightarrow> request \<Rightarrow> nat \<Rightarrow> db \<Rightarrow> warehouse_page answer \<times> db" where
  "toggle_location srv rq lid d = asked (require_location_manager srv rq d) d (\<lambda>u.
     (Redirect ''/warehouse/locations'' [],
      d\<lparr>locations := upd_rows (\<lambda>l. loc_id l = lid) (\<lambda>l. l\<lparr>loc_active := \<not> loc_active l\<rparr>) (locations d)\<rparr>))"

definition location_qr :: "server \<Rightarrow> request \<Rightarrow> nat \<Rightarrow> db \<Rightarrow> warehouse_page answer \<times> db" where
  "location_qr srv rq lid d = asked (permitted srv rq ''warehouse_data'' None d) d (\<lambda>u.
    (case get_location d lid of None \<Rightarrow> (Plain 404 ''Not Found'', d)
     | Some l \<Rightarrow> (Page 200 (CodePicture (loc_code l) (loc_code l @ ''-qr.png'')), d)))"

definition location_labels :: "server \<Rightarrow> request \<Rightarrow> string \<Rightarrow> db \<Rightarrow> warehouse_page answer \<times> db" where
  "location_labels srv rq ids d = asked (permitted srv rq ''warehouse_data'' None d) d (\<lambda>u.
     let chosen = id_list ids;
         rows = filter (\<lambda>l. if chosen = [] then loc_active l else loc_id l \<in> set chosen) (locations d)
     in (Page 200 (LocationLabels (location_labels_pdf (sort_key map_order rows))), d))"

section \<open>A refused move\<close>

text \<open>Whatever the body holds, a move that is not answered with success leaves the database as it was.\<close>

lemma refused_move_changes_nothing:
  assumes "confirm_relocation srv w rq agent sent d = (a, d')" "\<And>kvs. a \<noteq> Data 200 kvs"
  shows "d' = d"
  using assms
  by (auto simp: confirm_relocation_def asked_def Let_def split: sum.splits option.splits exc.splits)

end
