(* ===== verification/ProductRoutes.thy ===== *)
theory ProductRoutes
  imports Pages Movement Assignment
begin

text \<open>
  The product master, \<open>app/routers/products.py\<close> and \<open>app/services/product_permissions.py\<close>:
  the list with its stock figures, creating, changing and deleting a product, and the labels of a
  product in the stand-alone mode.  Rates are finite numbers, letters those of ASCII; the order in which a set of keys is
  walked is a parameter, as in \<open>Movement\<close>.
\<close>

section \<open>Who may print labels\<close>

definition PRODUCT_QR_MANAGER_ROLES :: role_arg where "PRODUCT_QR_MANAGER_ROLES = ItemsArg [RoleItem ADMIN, RoleItem SUPER_ADMIN]"

definition user_can_manage_purchase_qr_permission :: "user \<Rightarrow> bool" where
  "user_can_manage_purchase_qr_permission u = has_any_role (TextArg (usr_role u)) PRODUCT_QR_MANAGER_ROLES"

definition user_can_generate_product_qr :: "user \<Rightarrow> product \<Rightarrow> bool" where
  "user_can_generate_product_qr u p \<longleftrightarrow> user_can_manage_purchase_qr_permission u \<or> prd_purchase_qr_print_allowed p"

definition require_product_qr_generation :: "user \<Rightarrow> product \<Rightarrow> http_error option" where
  "require_product_qr_generation u p =
    (if user_can_generate_product_qr u p then None else Some (Forbidden ''Purchase QR printing is not enabled for this product''))"

definition user_can_open_product_generate :: "server \<Rightarrow> user \<Rightarrow> db \<Rightarrow> bool" where
  "user_can_open_product_generate srv u d =
    (let may = (\<lambda>key. role_has_access (srv_loads srv) d (TextArg (usr_role u)) key (Some [''edit'']))
     in may ''product_create'' \<or> may ''barcode_assignment'')"

section \<open>The page\<close>

record product_page =
  prp_products :: "product list"
  prp_metrics :: "(nat \<times> product_metric) list"
  prp_sales :: "(nat \<times> inventory_transaction list) list"
  prp_analysis_days :: int
  prp_q :: string
  prp_error :: "string option"
  prp_master_qr_only :: bool

type_synonym key_walk = "movement_key list \<Rightarrow> movement_key list"

definition product_page_context ::
  "key_walk \<Rightarrow> request \<Rightarrow> product list \<Rightarrow> string \<Rightarrow> string option \<Rightarrow> db \<Rightarrow> exc + product_page"
where
  "product_page_context walk rq rows q err d =
     bind_res (product_inventory_metrics walk (movement_config_of d) (day_of (rq_now rq)) rows d) (\<lambda>(metrics, days).
       let sales = product_sales_transactions d (set (map prd_id rows)) days (day_of (rq_now rq))
       in Inr \<lparr>prp_products = rows, prp_metrics = metrics,
            prp_sales = map (\<lambda>p. (prd_id p, filter (\<lambda>t. txn_product_id t = Some (prd_id p)) sales)) rows,
            prp_analysis_days = days, prp_q = q, prp_error = err, prp_master_qr_only = (request_app_mode rq = ''lite'')\<rparr>)"

definition product_answer ::
  "key_walk \<Rightarrow> request \<Rightarrow> nat \<Rightarrow> product list \<Rightarrow> string \<Rightarrow> string option \<Rightarrow> db \<Rightarrow> product_page answer"
where
  "product_answer walk rq status rows q err d =
    (case product_page_context walk rq rows q err d of Inl e \<Rightarrow> Failed (Broken e) | Inr page \<Rightarrow> Page status page)"

definition product_errors :: "(string \<times> string) list" where
  "product_errors = [(''serial_generation_failed'', ''Barcode generation failed''), (''default_rate_invalid'', ''Default rate cannot be negative''),
     (''sales_discount_invalid'', ''Sales discount must be between 0 and 100%''),
     (''shelf_interval_invalid'', ''Shelf verification interval must be between 1 and 1000 scans''),
     (''hsn_invalid'', ''HSN cannot be blank''), (''gst_rate_invalid'', ''GST rate must be between 0 and 100%''),
     (''product_delete_blocked'', ''Product has serials or transaction history and cannot be deleted'')]"

definition product_search :: "string \<Rightarrow> product \<Rightarrow> bool" where
  "product_search q p \<longleftrightarrow> q = [] \<or> list_ex (ilike q) [Some (prd_code p), Some (prd_name p), prd_nickname p, Some (prd_tally_name p),
     prd_alt_tally_name p, Some (prd_hsn p), prd_brand p]"

definition by_code :: "product list \<Rightarrow> product list" where "by_code = sort_key prd_code"

definition products_page :: "server \<Rightarrow> key_walk \<Rightarrow> request \<Rightarrow> string \<Rightarrow> string \<Rightarrow> db \<Rightarrow> product_page answer \<times> db" where
  "products_page srv walk rq q err d = asked (permitted srv rq ''product_master'' None d) d (\<lambda>u.
     let message = (case map_of product_errors err of Some m \<Rightarrow> m | None \<Rightarrow> err)
     in (product_answer walk rq 200 (filter (product_search q) (by_code (products d))) q (if message = [] then None else Some message) d, d))"

text \<open>The name of the sales report; its pages are left out.\<close>

definition report_name :: "product \<Rightarrow> string" where
  "report_name p =
    (let safe = filter (\<lambda>c. is_upper_letter (char_upper c) \<or> is_digit c \<or> c \<in> {CHR ''-'', CHR ''_''}) (prd_code p)
     in (if safe = [] then ''product-'' @ nat_str (prd_id p) else safe) @ ''-sales-report.pdf'')"

definition product_sales_pdf :: "server \<Rightarrow> key_walk \<Rightarrow> request \<Rightarrow> nat \<Rightarrow> db \<Rightarrow> product_page answer \<times> db" where
  "product_sales_pdf srv walk rq pid d = asked (permitted srv rq ''product_master'' None d) d (\<lambda>u.
    (case get_product d pid of None \<Rightarrow> (Redirect ''/products'' [], d)
     | Some p \<Rightarrow> (case product_page_context walk rq [p] [] None d of
         Inl e \<Rightarrow> (Failed (Broken e), d) | Inr page \<Rightarrow> (Attachment ''application/pdf'' (report_name p), d))))"

section \<open>Creating and changing a product\<close>

record product_form =
  pfm_code :: string
  pfm_name :: string
  pfm_nickname :: string
  pfm_category :: string
  pfm_brand :: string
  pfm_hsn :: string
  pfm_gst_rate :: rat
  pfm_unit :: string
  pfm_default_rate :: rat
  pfm_discount :: rat
  pfm_interval :: int
  pfm_qr_allowed :: bool
  pfm_tally_name :: string
  pfm_alt_tally_name :: string

definition discount_error :: string where "discount_error = ''Sales discount must be between 0 and 100%''"
definition interval_error :: string where "interval_error = ''Shelf verification interval must be between 1 and 1000 scans''"

definition product_of_form :: "user \<Rightarrow> product_form \<Rightarrow> moment \<Rightarrow> db \<Rightarrow> product" where
  "product_of_form u f now d =
    \<lparr>prd_id = next_id prd_id (products d), prd_code = py_upper (py_strip (pfm_code f)), prd_name = py_strip (pfm_name f),
     prd_nickname = stripped_option (pfm_nickname f), prd_category = stripped_option (pfm_category f), prd_brand = stripped_option (pfm_brand f),
     prd_hsn = py_strip (pfm_hsn f), prd_gst_rate = pfm_gst_rate f, prd_unit = or_else (py_strip (pfm_unit f)) ''Pcs'',
     prd_default_rate = pfm_default_rate f, prd_sales_discount_rate = pfm_discount f, prd_shelf_interval = pfm_interval f,
     prd_purchase_qr_print_allowed = (user_can_manage_purchase_qr_permission u \<and> pfm_qr_allowed f),
     prd_tally_name = or_else (py_strip (pfm_tally_name f)) (py_strip (pfm_name f)),
     prd_alt_tally_name = stripped_option (pfm_alt_tally_name f), prd_active = True, prd_created_at = now\<rparr>"

definition create_product :: "server \<Rightarrow> key_walk \<Rightarrow> request \<Rightarrow> product_form \<Rightarrow> db \<Rightarrow> product_page answer \<times> db" where
  "create_product srv walk rq f d = asked (permitted srv rq ''product_create'' None d) d (\<lambda>u.
     let again = (\<lambda>m. (product_answer walk rq 400 (by_code (products d)) [] (Some m) d, d)); p = product_of_form u f (rq_now rq) d
     in if pfm_discount f < 0 \<or> 100 < pfm_discount f then again discount_error
        else if pfm_interval f < 1 \<or> 1000 < pfm_interval f then again interval_error
        else if prd_code p \<in> prd_code ` set (products d) then again ''Product code already exists''
        else (Redirect ''/products'' [],
          record_change (Some u) ''product'' (nat_str (prd_id p)) ''create'' None (Some (product_snapshot p)) (rq_now rq)
            (d\<lparr>products := products d @ [p]\<rparr>)))"

text \<open>A field the form does not have is left as it is.\<close>

record pricing_form =
  pcf_default_rate :: rat
  pcf_discount :: rat
  pcf_interval :: "int option"
  pcf_qr_allowed :: bool
  pcf_nickname :: "string option"
  pcf_category :: "string option"
  pcf_brand :: "string option"
  pcf_hsn :: "string option"
  pcf_gst_rate :: "rat option"
  pcf_tally_name :: "string option"
  pcf_alt_tally_name :: "string option"

text \<open>What is wrong with the form: the text of the answer and the code of the redirection.\<close>

definition pricing_error :: "pricing_form \<Rightarrow> (string \<times> string) option" where
  "pricing_error f =
    (if pcf_default_rate f < 0 then Some (''Default rate cannot be negative'', ''default_rate_invalid'')
     else if pcf_discount f < 0 \<or> 100 < pcf_discount f then Some (discount_error, ''sales_discount_invalid'')
     else if (case pcf_interval f of None \<Rightarrow> False | Some n \<Rightarrow> n < 1 \<or> 1000 < n) then Some (interval_error, ''shelf_interval_invalid'')
     else if (case pcf_hsn f of None \<Rightarrow> False | Some h \<Rightarrow> py_strip h = []) then Some (''HSN cannot be blank'', ''hsn_invalid'')
     else if (case pcf_gst_rate f of None \<Rightarrow> False | Some r \<Rightarrow> r < 0 \<or> 100 < r) then Some (''GST rate must be between 0 and 100%'', ''gst_rate_invalid'')
     else None)"

definition priced :: "user \<Rightarrow> pricing_form \<Rightarrow> product \<Rightarrow> product" where
  "priced u f p = p\<lparr>prd_default_rate := pcf_default_rate f, prd_sales_discount_rate := pcf_discount f,
     prd_shelf_interval := (case pcf_interval f of Some n \<Rightarrow> n | None \<Rightarrow> if prd_shelf_interval p < 1 then 1 else prd_shelf_interval p),
     prd_purchase_qr_print_allowed := (if user_can_manage_purchase_qr_permission u then pcf_qr_allowed f else prd_purchase_qr_print_allowed p),
     prd_nickname := (case pcf_nickname f of Some s \<Rightarrow> stripped_option s | None \<Rightarrow> prd_nickname p),
     prd_category := (case pcf_category f of Some s \<Rightarrow> stripped_option s | None \<Rightarrow> prd_category p),
     prd_brand := (case pcf_brand f of Some s \<Rightarrow> stripped_option s | None \<Rightarrow> prd_brand p),
     prd_hsn := (case pcf_hsn f of Some s \<Rightarrow> py_strip s | None \<Rightarrow> prd_hsn p),
     prd_gst_rate := (case pcf_gst_rate f of Some r \<Rightarrow> r | None \<Rightarrow> prd_gst_rate p),
     prd_tally_name := (case pcf_tally_name f of Some s \<Rightarrow> or_else (py_strip s) (prd_name p) | None \<Rightarrow> prd_tally_name p),
     prd_alt_tally_name := (case pcf_alt_tally_name f of Some s \<Rightarrow> stripped_option s | None \<Rightarrow> prd_alt_tally_name p)\<rparr>"

definition pricing_json :: "product \<Rightarrow> json" where
  "pricing_json p = JObj [(''id'', JInt (int (prd_id p))), (''nickname'', JStr (text_of (prd_nickname p))),
     (''category'', JStr (text_of (prd_category p))), (''brand'', JStr (text_of (prd_brand p))), (''hsn'', JStr (prd_hsn p)),
     (''gst_rate'', JFloat (prd_gst_rate p)), (''default_rate'', JFloat (prd_default_rate p)),
     (''sales_discount_rate'', JFloat (prd_sales_discount_rate p)), (''shelf_verification_interval'', JInt (prd_shelf_interval p)),
     (''purchase_qr_print_allowed'', JBool (prd_purchase_qr_print_allowed p)), (''tally_stock_item_name'', JStr (prd_tally_name p)),
     (''alternate_tally_stock_item_name'', JStr (text_of (prd_alt_tally_name p)))]"

definition refused_json :: "nat \<Rightarrow> string \<Rightarrow> 'p answer" where
  "refused_json status m = Data status [(''ok'', JBool False), (''error'', JStr m)]"

definition update_product_pricing :: "server \<Rightarrow> request \<Rightarrow> nat \<Rightarrow> pricing_form \<Rightarrow> db \<Rightarrow> product_page answer \<times> db" where
  "update_product_pricing srv rq pid f d = asked (permitted srv rq ''product_create'' None d) d (\<lambda>u.
    (case get_product d pid of
       None \<Rightarrow> (if wants_json rq then refused_json 404 ''Product not found'' else Redirect ''/products'' [], d)
     | Some p \<Rightarrow>
    (case pricing_error f of
       Some (m, code) \<Rightarrow> (if wants_json rq then refused_json 400 m else Redirect ''/products'' [(''error'', code)], d)
     | None \<Rightarrow>
         let p' = priced u f p
         in (if wants_json rq then Data 200 [(''ok'', JBool True), (''product'', pricing_json p')] else Redirect ''/products'' [],
             record_change (Some u) ''product'' (nat_str pid) ''update'' (Some (product_snapshot p)) (Some (product_snapshot p')) (rq_now rq)
               (d\<lparr>products := upd_rows (\<lambda>x. prd_id x = pid) (priced u f) (products d)\<rparr>)))))"

definition product_name_legacy_redirect :: "server \<Rightarrow> request \<Rightarrow> db \<Rightarrow> product_page answer \<times> db" where
  "product_name_legacy_redirect srv rq d = asked (permitted srv rq ''product_master'' None d) d (\<lambda>u. (Redirect ''/products'' [], d))"

text \<open>Rows of other tables that name a product, which the count before a deletion leaves out.\<close>

definition planned_or_moved :: "db \<Rightarrow> nat \<Rightarrow> bool" where
  "planned_or_moved d pid \<longleftrightarrow> list_ex (\<lambda>a. asg_product_id a = pid) (assignments d) \<or> list_ex (\<lambda>r. rel_product_id r = pid) (relocations d)"

definition delete_product :: "server \<Rightarrow> request \<Rightarrow> nat \<Rightarrow> db \<Rightarrow> product_page answer \<times> db" where
  "delete_product srv rq pid d = asked (with_role srv rq (Some (RoleArg SUPER_ADMIN)) d) d (\<lambda>u.
    (case get_product d pid of None \<Rightarrow> (Redirect ''/products'' [], d)
     | Some p \<Rightarrow>
         if list_ex (\<lambda>s. ser_product_id s = pid) (serials d) \<or> list_ex (\<lambda>t. txn_product_id t = Some pid) (transactions d) then
           (Redirect ''/products'' [(''error'', ''product_delete_blocked'')], d)
         else if planned_or_moved d pid then (Failed (Broken (IntegrityError ''FOREIGN KEY constraint failed'')), d)
         else (Redirect ''/products'' [],
           (record_change (Some u) ''product'' (nat_str pid) ''delete'' (Some (product_snapshot p)) None (rq_now rq) d)
             \<lparr>products := filter (\<lambda>x. prd_id x \<noteq> pid) (products d)\<rparr>)))"

section \<open>Labels of a product\<close>

record generation_form =
  gnf_quantity :: int
  gnf_prefix :: string
  gnf_status :: string
  gnf_batch_number :: string
  gnf_mfg :: string
  gnf_expiry :: string
  gnf_warehouse :: string
  gnf_level :: string

definition status_of_text :: "string \<Rightarrow> serial_status option" where
  "status_of_text t = find (\<lambda>s. serial_status_value s = t)
     [S_GENERATED, S_PURCHASED, S_RECEIVED, S_IN_STOCK, S_SOLD, S_RETURNED, S_PURCHASE_RETURN, S_ISSUED, S_AUDITED, S_DAMAGED, S_MISSING, S_INVALID,
      S_REPLACED, S_IN_TRANSIT]"

text \<open>The line of the form; what is wrong with it is an \<open>InventoryError\<close> or a \<open>ValueError\<close>.\<close>

definition generation_line :: "product \<Rightarrow> string option \<Rightarrow> generation_form \<Rightarrow> exc + assignment_line" where
  "generation_line p prefix f =
    (case (parse_optional_date (CText (gnf_mfg f)), parse_optional_date (CText (gnf_expiry f))) of
       (Inr mfg, Inr expiry) \<Rightarrow>
         if (case (mfg, expiry) of (Some a, Some b) \<Rightarrow> b \<le> a | _ \<Rightarrow> False) then Inl (InventoryError ''Expiry date must be after mfg date'')
         else Inr \<lparr>asl_product = p, asl_quantity = gnf_quantity f, asl_rate = None, asl_prefix = prefix,
           asl_batch_number = stripped_option (gnf_batch_number f), asl_mfg = mfg, asl_expiry = expiry,
           asl_warehouse = stripped_option (gnf_warehouse f), asl_level = gnf_level f\<rparr>
     | _ \<Rightarrow> Inl (ValueError ''Invalid date''))"

definition generate_product_serials ::
  "server \<Rightarrow> request \<Rightarrow> nat \<Rightarrow> generation_form \<Rightarrow> db \<Rightarrow> product_page answer \<times> db"
where
  "generate_product_serials srv rq pid f d = asked (with_role srv rq None d) d (\<lambda>u.
     if request_app_mode rq = ''lite'' then (Plain 403 ''QR codes are generated in Setuora Master'', d)
     else if \<not> user_can_open_product_generate srv u d then (Failed (Forbidden ''Not allowed''), d)
     else case get_product d pid of None \<Rightarrow> (Redirect ''/products'' [], d)
     | Some p \<Rightarrow>
    (case require_product_qr_generation u p of Some e \<Rightarrow> (Failed e, d)
     | None \<Rightarrow>
         let prefix = (if gnf_prefix f = [] then None else Some (gnf_prefix f))
         in (case (case status_of_text (gnf_status f) of None \<Rightarrow> Inl (ValueError ''Invalid status'')
               | Some st \<Rightarrow> bind_res (generation_line p prefix f) (\<lambda>l.
                   assign_barcodes_to_existing_stock (srv_settings srv) (usr_id u) [l] None
                     (if st = S_IN_STOCK then ''MANUAL'' else ''GENERATED'') st (rq_now rq) d)) of
               Inr (d', b) \<Rightarrow> (Redirect (''/barcode-assignment/'' @ nat_str (bat_id b)) [], d')
             | Inl (InventoryError m) \<Rightarrow> (Redirect ''/products'' [(''error'', ''serial_generation_failed'')], d)
             | Inl (ValueError m) \<Rightarrow> (Redirect ''/products'' [(''error'', ''serial_generation_failed'')], d)
             | Inl e \<Rightarrow> (Failed (Broken e), d))))"

section \<open>What stays true of the products\<close>

text \<open>Distinct codes, and the bounds the forms promise.\<close>

definition products_sound :: "db \<Rightarrow> bool" where
  "products_sound d \<longleftrightarrow> distinct (map prd_id (products d)) \<and> distinct (map prd_code (products d)) \<and>
     (\<forall>p \<in> set (products d). 0 \<le> prd_sales_discount_rate p \<and> prd_sales_discount_rate p \<le> 100 \<and> 1 \<le> prd_shelf_interval p)"

lemma record_change_products [simp]:
  "products (record_change u e i a b c now d) = products d"
  by (simp add: record_change_def)

lemma create_product_sound:
  assumes "products_sound d"
  shows "products_sound (snd (create_product srv walk rq f d))"
proof -
  let ?p = "\<lambda>u. product_of_form u f (rq_now rq) d"
  have "prd_id (?p u) \<notin> prd_id ` set (products d)" for u by (simp add: product_of_form_def next_id_notin)
  then show ?thesis using assms
    by (auto simp: create_product_def asked_db Let_def products_sound_def product_of_form_def split: sum.split)
qed

lemma update_product_sound:
  assumes "products_sound d"
  shows "products_sound (snd (update_product_pricing srv rq pid f d))"
proof (cases "pricing_error f")
  case None
  then have b: "0 \<le> pcf_discount f" "pcf_discount f \<le> 100" "case pcf_interval f of None \<Rightarrow> True | Some n \<Rightarrow> 1 \<le> n"
    by (auto simp: pricing_error_def split: if_splits option.splits)
  have f: "prd_id (priced u f p) = prd_id p" "prd_code (priced u f p) = prd_code p" "prd_sales_discount_rate (priced u f p) = pcf_discount f"
    "1 \<le> prd_shelf_interval (priced u f p)" for u p using b(3) by (auto simp: priced_def split: option.splits)
  have "products_sound (d\<lparr>products := upd_rows (\<lambda>x. prd_id x = pid) (priced u f) (products d)\<rparr>)" for u
    using assms b f by (auto simp: products_sound_def ball_upd_rows map_upd_rows)
  then show ?thesis using assms None
    by (auto simp: update_product_pricing_def asked_db Let_def products_sound_def split: sum.split option.split)
qed (use assms in \<open>auto simp: update_product_pricing_def asked_db split: sum.split option.split\<close>)

text \<open>
  A product that an audit was planned for, or whose stock was moved, cannot be deleted, even when
  it has neither serials nor transactions: the request ends in a server error.
\<close>

theorem planned_product_breaks_deletion:
  assumes "with_role srv rq (Some (RoleArg SUPER_ADMIN)) d = Inr u" "get_product d pid = Some p" "planned_or_moved d pid"
    and "\<forall>s \<in> set (serials d). ser_product_id s \<noteq> pid" "\<forall>t \<in> set (transactions d). txn_product_id t \<noteq> Some pid"
  shows "delete_product srv rq pid d = (Failed (Broken (IntegrityError ''FOREIGN KEY constraint failed'')), d)"
  using assms by (simp add: delete_product_def list_ex_iff)

end
