(* ===== verification/LabelRoutes.thy ===== *)
theory LabelRoutes
  imports Pages Sheets Replacement ProductRoutes
begin

text \<open>
  Serials, their labels and their assignment: \<open>app/services/label_printing.py\<close>,
  \<open>app/routers/serials.py\<close>, \<open>app/routers/barcode_assignment.py\<close> and
  \<open>app/routers/replacements.py\<close>.  Downloads are answered by their cells and label pages.
\<close>

section \<open>A label is printed once\<close>

definition printed_message :: "serial list \<Rightarrow> string" where
  "printed_message ss =
    (let already = map ser_number (filter (\<lambda>s. ser_label_printed_at s \<noteq> None) ss)
     in ''Print option already used for '' @ py_join '', '' (take 5 (sort already)) @ (if 5 < length already then ''...'' else []))"

definition of_ids :: "int list \<Rightarrow> serial list \<Rightarrow> serial list" where
  "of_ids ids ss = filter (\<lambda>s. int (ser_id s) \<in> set ids) ss"

definition unprinted :: "int list \<Rightarrow> serial \<Rightarrow> bool" where
  "unprinted ids s \<longleftrightarrow> int (ser_id s) \<in> set ids \<and> ser_label_printed_at s = None"

definition printed :: "nat \<Rightarrow> moment \<Rightarrow> serial \<Rightarrow> serial" where
  "printed uid now s = s\<lparr>ser_label_printed_at := Some now, ser_label_printed_by_id := Some uid\<rparr>"

text \<open>\<open>others\<close> is what other sessions commit between the reading of the serials and the update.\<close>

definition mark_serial_labels_printed_once ::
  "(db \<Rightarrow> db) \<Rightarrow> nat \<Rightarrow> int list \<Rightarrow> moment \<Rightarrow> db \<Rightarrow> (string + serial list) \<times> db"
where
  "mark_serial_labels_printed_once others uid serial_ids now d =
    (let ids = remdups serial_ids; ss = of_ids ids (serials d)
     in if ids = [] then (Inl ''No labels selected'', d)
        else if length ss \<noteq> length ids then (Inl ''Some labels were not found'', d)
        else if list_ex (\<lambda>s. ser_label_printed_at s \<noteq> None) ss then (Inl (printed_message ss), d)
        else
          let d1 = others d; n = count_rows (unprinted ids) (serials d1);
              d2 = d1\<lparr>serials := upd_rows (unprinted ids) (printed uid now) (serials d1)\<rparr>
          in if n \<noteq> length ids then (Inl (py_strip (printed_message (of_ids ids (serials d1)))), d1)
             else (Inr (of_ids ids (serials d2)), d2))"

section \<open>Serials\<close>

datatype label_answer =
    SerialsPage "serial list" string string
  | SerialPicture string
  | LabelsPage "serial list" "serial list" bool bool string int int
  | LabelPages "(string \<times> string) label_page list" string
  | SheetFile sheet string
  | SerialPage serial "inventory_transaction list" "scan_log list" "serial option" "stock_relocation list"
  | AssignmentPage "product list" "batch list" bool "serial list" "string option"
  | AssignmentDetail batch int int
  | ReplacementPage "scan_log list" "string option" "serial option" bool "(serial \<times> serial) list"

definition newest_first :: "('a \<Rightarrow> moment) \<Rightarrow> 'a list \<Rightarrow> 'a list" where
  "newest_first created rows = rev (sort_key created rows)"

definition serial_search :: "db \<Rightarrow> string \<Rightarrow> string \<Rightarrow> serial \<Rightarrow> bool" where
  "serial_search d q status s \<longleftrightarrow>
    (case product_of d s of None \<Rightarrow> False
     | Some p \<Rightarrow> (q = [] \<or> list_ex (ilike q) [Some (ser_number s), Some (prd_code p), Some (prd_name p)]) \<and>
         (status = [] \<or> serial_status_value (ser_status s) = status))"

definition serials_page :: "server \<Rightarrow> request \<Rightarrow> string \<Rightarrow> string \<Rightarrow> db \<Rightarrow> label_answer answer \<times> db" where
  "serials_page srv rq q status d = asked (permitted srv rq ''serial_data'' None d) d (\<lambda>u.
     (Page 200 (SerialsPage (take 250 (newest_first ser_created_at (filter (serial_search d q status) (serials d)))) q status), d))"

definition serial_barcode :: "server \<Rightarrow> request \<Rightarrow> nat \<Rightarrow> db \<Rightarrow> label_answer answer \<times> db" where
  "serial_barcode srv rq i d = asked (permitted srv rq ''serial_data'' None d) d (\<lambda>u.
    (case get_serial d i of None \<Rightarrow> (Plain 404 ''Not Found'', d) | Some s \<Rightarrow> (Page 200 (SerialPicture (ser_number s)), d)))"

definition label_rows :: "string \<Rightarrow> db \<Rightarrow> serial list" where
  "label_rows ids d = sort_key ser_number (filter (\<lambda>s. ser_id s \<in> set (id_list ids)) (serials d))"

definition labels :: "server \<Rightarrow> request \<Rightarrow> string \<Rightarrow> db \<Rightarrow> label_answer answer \<times> db" where
  "labels srv rq ids d = asked (permitted srv rq ''label_files'' None d) d (\<lambda>u.
     let rows = label_rows ids d; already = filter (\<lambda>s. ser_label_printed_at s \<noteq> None) rows;
         manage = role_has_access (srv_loads srv) d (TextArg (usr_role u)) ''label_files'' (Some [''edit''])
     in (Page 200 (LabelsPage rows already manage (rows \<noteq> [] \<and> manage \<and> already = [])
          (py_join '','' (map (nat_str \<circ> ser_id) rows)) DEFAULT_LABEL_ROWS DEFAULT_LABEL_COLUMNS), d))"

text \<open>The numbers of the body: a text counts when it is made of digits, a truth value never.\<close>

definition label_id_of :: "json \<Rightarrow> int option" where
  "label_id_of v = (case v of JInt n \<Rightarrow> Some n
     | JStr s \<Rightarrow> if s \<noteq> [] \<and> list_all is_digit s then Some (int (parse_nat s)) else None
     | _ \<Rightarrow> None)"

definition mark_labels_printed ::
  "server \<Rightarrow> (db \<Rightarrow> db) \<Rightarrow> request \<Rightarrow> json option \<Rightarrow> db \<Rightarrow> label_answer answer \<times> db"
where
  "mark_labels_printed srv others rq sent d = asked (permitted srv rq ''label_files'' (Some [''edit'']) d) d (\<lambda>u.
     let body = (case sent of None \<Rightarrow> JObj [] | Some v \<Rightarrow> v)
     in if \<not> is_obj body then (Failed (Broken (AttributeError ''get'')), d)
        else let ids = (case jget ''ids'' body of JList xs \<Rightarrow> List.map_filter label_id_of xs | _ \<Rightarrow> [])
        in (case mark_serial_labels_printed_once others (usr_id u) ids (rq_now rq) d of
            (Inl m, d') \<Rightarrow> (Data 409 [(''ok'', JBool False), (''error'', JStr m)], d')
          | (Inr rows, d') \<Rightarrow> (Data 200 [(''ok'', JBool True)], d')))"

definition labels_pdf :: "server \<Rightarrow> request \<Rightarrow> string \<Rightarrow> int \<Rightarrow> int \<Rightarrow> db \<Rightarrow> label_answer answer \<times> db" where
  "labels_pdf srv rq ids rows columns d = asked (permitted srv rq ''label_files'' (Some [''edit'']) d) d (\<lambda>u.
     (Page 200 (LabelPages (barcode_labels_pdf (label_rows ids d) rows columns) ''setuora-qr-labels.pdf''), d))"

definition labels_xlsx :: "server \<Rightarrow> request \<Rightarrow> string \<Rightarrow> string \<Rightarrow> db \<Rightarrow> label_answer answer \<times> db" where
  "labels_xlsx srv rq ids fs d = asked (permitted srv rq ''label_files'' None d) d (\<lambda>u.
     (Page 200 (SheetFile (serials_xlsx d (label_rows ids d) (py_split_on (CHR ''|'') fs)) ''setuora-barcodes.xlsx''), d))"

definition serial_detail :: "server \<Rightarrow> request \<Rightarrow> nat \<Rightarrow> db \<Rightarrow> label_answer answer \<times> db" where
  "serial_detail srv rq i d = asked (permitted srv rq ''serial_data'' None d) d (\<lambda>u.
    (case get_serial d i of None \<Rightarrow> (Plain 404 ''Not Found'', d)
     | Some s \<Rightarrow> (Page 200 (SerialPage s (sort_key txn_created_at (filter (\<lambda>t. txn_serial_id t = Some i) (transactions d)))
         (take 80 (newest_first log_created_at (filter (\<lambda>l. log_serial_id l = Some i) (scan_logs d))))
         (Option.bind (ser_replaced_by_id s) (get_serial d))
         (newest_first rel_created_at (filter (\<lambda>r. list_ex (\<lambda>l. rls_relocation_id l = rel_id r \<and> rls_serial_id l = i)
            (relocation_serials d)) (relocations d)))), d)))"

section \<open>Assigning labels\<close>

definition MAX_BULK_ASSIGNMENT_UPLOAD_BYTES :: nat where "MAX_BULK_ASSIGNMENT_UPLOAD_BYTES = 5 * 1024 * 1024"

definition assignment_batch :: "db \<Rightarrow> nat \<Rightarrow> batch option" where
  "assignment_batch d bid = (case get_batch d bid of None \<Rightarrow> None | Some b \<Rightarrow> if bat_type b = B_QR_ASSIGNMENT then Some b else None)"

definition item_serials :: "db \<Rightarrow> batch \<Rightarrow> serial list" where
  "item_serials d b = List.map_filter (\<lambda>i. get_serial d (itm_serial_id i)) (items_of d (bat_id b))"

definition assignment_batch_allowed :: "user \<Rightarrow> db \<Rightarrow> batch \<Rightarrow> bool" where
  "assignment_batch_allowed u d b \<longleftrightarrow>
     list_all (\<lambda>s. case product_of d s of None \<Rightarrow> True | Some p \<Rightarrow> user_can_generate_product_qr u p) (item_serials d b)"

definition recent_assignment_batches :: "user \<Rightarrow> db \<Rightarrow> batch list" where
  "recent_assignment_batches u d = take 20 (filter (assignment_batch_allowed u d)
     (take 50 (newest_first bat_created_at (filter (\<lambda>b. bat_type b = B_QR_ASSIGNMENT) (batches d)))))"

definition assignment_products :: "user \<Rightarrow> db \<Rightarrow> product list" where
  "assignment_products u d = filter (user_can_generate_product_qr u) (by_code (filter prd_active (products d)))"

definition assignment_page :: "server \<Rightarrow> request \<Rightarrow> db \<Rightarrow> label_answer answer \<times> db" where
  "assignment_page srv rq d = asked (permitted srv rq ''barcode_assignment'' None d) d (\<lambda>u.
     let lite = (request_app_mode rq = ''lite'')
     in (Page 200 (AssignmentPage (assignment_products u d) (recent_assignment_batches u d) lite
          (if lite then take 100 (rev (sort_key (\<lambda>s. (ser_created_at s, ser_id s)) (serials d))) else []) None), d))"

definition assignment_error :: "user \<Rightarrow> string \<Rightarrow> db \<Rightarrow> label_answer answer \<times> db" where
  "assignment_error u m d = (Page 400 (AssignmentPage (assignment_products u d) (recent_assignment_batches u d) False [] (Some m)), d)"

text \<open>The form is the one of the product page with a remark; \<open>date_error\<close> is what \<open>fromisoformat\<close> says of a text.\<close>

definition checked_assignment :: "(string \<Rightarrow> string) \<Rightarrow> product \<Rightarrow> generation_form \<Rightarrow> exc + serial_status \<times> assignment_line" where
  "checked_assignment date_error p f =
    (case status_of_text (gnf_status f) of
       None \<Rightarrow> Inl (ValueError (py_repr (JStr (gnf_status f)) @ '' is not a valid SerialStatus''))
     | Some st \<Rightarrow>
         if st \<notin> {S_GENERATED, S_IN_STOCK} then Inl (InventoryError ''Choose either purchase/future stock or existing stock'')
         else case parse_optional_date (CText (gnf_mfg f)) of Inl bad \<Rightarrow> Inl (ValueError (date_error (gnf_mfg f)))
         | Inr mfg \<Rightarrow>
        (case parse_optional_date (CText (gnf_expiry f)) of Inl bad \<Rightarrow> Inl (ValueError (date_error (gnf_expiry f)))
         | Inr expiry \<Rightarrow>
             bind_res (generation_line p (stripped_option (gnf_prefix f)) f) (\<lambda>l. Inr (st, l))))"

definition generate_assignment ::
  "server \<Rightarrow> (string \<Rightarrow> string) \<Rightarrow> request \<Rightarrow> nat \<Rightarrow> generation_form \<Rightarrow> string \<Rightarrow> db \<Rightarrow> label_answer answer \<times> db"
where
  "generate_assignment srv date_error rq pid f remark d = asked (permitted srv rq ''barcode_assignment'' None d) d (\<lambda>u.
     if request_app_mode rq = ''lite'' then (Plain 403 ''QR codes are generated in Setuora Master'', d)
     else case get_product d pid of None \<Rightarrow> assignment_error u ''Product not found'' d
     | Some p \<Rightarrow>
         if \<not> user_can_generate_product_qr u p then assignment_error u ''Purchase QR printing is not enabled for this product'' d
         else (case bind_res (checked_assignment date_error p f) (\<lambda>(st, l).
             assign_barcodes_to_existing_stock (srv_settings srv) (usr_id u) [l] (Some remark)
               (if st = S_GENERATED then ''GENERATED'' else ''MANUAL'') st (rq_now rq) d) of
           Inr (d', b) \<Rightarrow> (Redirect (''/barcode-assignment/'' @ nat_str (bat_id b)) [], d')
         | Inl (InventoryError m) \<Rightarrow> assignment_error u m d
         | Inl (ValueError m) \<Rightarrow> assignment_error u m d
         | Inl e \<Rightarrow> (Failed (Broken e), d)))"

text \<open>The products of an import that the user may not print labels of.\<close>

definition blocked_message :: "user \<Rightarrow> assignment_line list \<Rightarrow> string option" where
  "blocked_message u lines =
    (let blocked = remdups (map (prd_code \<circ> asl_product) (filter (\<lambda>l. \<not> user_can_generate_product_qr u (asl_product l)) lines))
     in if blocked = [] then None
        else Some (''Purchase QR printing is not enabled for '' @ py_join '', '' (take 5 (sort blocked)) @
          (if 5 < length blocked then ''...'' else [])))"

text \<open>
  An upload is its size and the cells openpyxl reads from it; nothing is the answer of a search for a
  product code that does not end, which \<open>Assignment.import_code_found\<close> excludes.
\<close>

definition bulk_assignment ::
  "server \<Rightarrow> request \<Rightarrow> nat \<Rightarrow> cell list list option \<Rightarrow> string \<Rightarrow> db \<Rightarrow> (label_answer answer \<times> db) option"
where
  "bulk_assignment srv rq bytes cells remark d =
    (case permitted srv rq ''barcode_assignment'' None d of Inl e \<Rightarrow> Some (Failed e, d)
     | Inr u \<Rightarrow>
         if request_app_mode rq = ''lite'' then Some (Plain 403 ''QR codes are generated in Setuora Master'', d)
         else if MAX_BULK_ASSIGNMENT_UPLOAD_BYTES < bytes then Some (assignment_error u ''Upload an Excel file up to 5 MB'' d)
         else map_option (\<lambda>parsed.
           (case bind_res parsed (\<lambda>(d1, lines).
               case blocked_message u lines of Some m \<Rightarrow> Inl (InventoryError m)
               | None \<Rightarrow> assign_barcodes_to_existing_stock (srv_settings srv) (usr_id u) lines (Some remark) ''BULK_EXCEL'' S_IN_STOCK (rq_now rq) d1) of
             Inr (d', b) \<Rightarrow> (Redirect (''/barcode-assignment/'' @ nat_str (bat_id b)) [], d')
           | Inl (InventoryError m) \<Rightarrow> assignment_error u m d
           | Inl e \<Rightarrow> (Failed (Broken e), d)))
           (parse_bulk_assignment_xlsx cells (Some u) (user_can_manage_purchase_qr_permission u) (rq_now rq) d))"

text \<open>The batch of an address, for a user who may print the labels of all its products.\<close>

definition with_assignment ::
  "server \<Rightarrow> request \<Rightarrow> nat \<Rightarrow> db \<Rightarrow> (batch \<Rightarrow> label_answer) \<Rightarrow> label_answer answer \<times> db"
where
  "with_assignment srv rq bid d show_batch = asked (permitted srv rq ''barcode_assignment'' None d) d (\<lambda>u.
    (case assignment_batch d bid of None \<Rightarrow> (Redirect ''/barcode-assignment'' [], d)
     | Some b \<Rightarrow> if assignment_batch_allowed u d b then (Page 200 (show_batch b), d) else (Failed (Forbidden ''Not allowed''), d)))"

definition assignment_detail :: "server \<Rightarrow> request \<Rightarrow> nat \<Rightarrow> db \<Rightarrow> label_answer answer \<times> db" where
  "assignment_detail srv rq bid d = with_assignment srv rq bid d (\<lambda>b. AssignmentDetail b DEFAULT_LABEL_ROWS DEFAULT_LABEL_COLUMNS)"

definition assignment_labels_pdf :: "server \<Rightarrow> request \<Rightarrow> nat \<Rightarrow> int \<Rightarrow> int \<Rightarrow> db \<Rightarrow> label_answer answer \<times> db" where
  "assignment_labels_pdf srv rq bid rows columns d = with_assignment srv rq bid d (\<lambda>b.
     LabelPages (barcode_labels_pdf (item_serials d b) rows columns) (bat_number b @ ''-qr-labels.pdf''))"

definition assignment_serials_xlsx :: "server \<Rightarrow> request \<Rightarrow> nat \<Rightarrow> string \<Rightarrow> db \<Rightarrow> label_answer answer \<times> db" where
  "assignment_serials_xlsx srv rq bid fs d = with_assignment srv rq bid d (\<lambda>b.
     SheetFile (serials_xlsx d (item_serials d b) (py_split_on (CHR ''|'') fs)) (bat_number b @ ''-barcodes.xlsx''))"

section \<open>Replacements\<close>

definition replacement_logs :: "db \<Rightarrow> scan_log list" where
  "replacement_logs d = take 40 (newest_first log_created_at (filter (\<lambda>l. log_action l = ''QR_REPLACEMENT'') (scan_logs d)))"

definition master_replacements :: "db \<Rightarrow> (serial \<times> serial) list" where
  "master_replacements d = take 40 (newest_first (ser_created_at \<circ> snd)
     (List.map_filter (\<lambda>old. map_option (Pair old) (Option.bind (ser_replaced_by_id old) (get_serial d))) (serials d)))"

definition replacement_page :: "server \<Rightarrow> request \<Rightarrow> db \<Rightarrow> label_answer answer \<times> db" where
  "replacement_page srv rq d = asked (permitted srv rq ''barcode_replacement'' None d) d (\<lambda>u.
     let lite = (request_app_mode rq = ''lite'')
     in (Page 200 (ReplacementPage (replacement_logs d) None None lite (if lite then master_replacements d else [])), d))"

definition replace_qr :: "server \<Rightarrow> request \<Rightarrow> string \<Rightarrow> string \<Rightarrow> string \<Rightarrow> db \<Rightarrow> label_answer answer \<times> db" where
  "replace_qr srv rq old_number new_number reason d = asked (permitted srv rq ''barcode_replacement'' None d) d (\<lambda>u.
     if request_app_mode rq = ''lite'' then (Plain 403 ''QR replacements are created in Setuora Master'', d)
     else (case replace_barcode_serial (srv_settings srv) (\<lambda>k e. e) (usr_id u) old_number
         (if new_number = [] then None else Some new_number) (Some reason) (rq_now rq) d of
       Inl (InventoryError m) \<Rightarrow> (Page 400 (ReplacementPage (replacement_logs d) (Some m) None False []), d)
     | Inl e \<Rightarrow> (Failed (Broken e), d)
     | Inr (d', new) \<Rightarrow> (Page 200 (ReplacementPage (replacement_logs d') None (Some new) False []), d')))"

section \<open>No label is printed twice\<close>

text \<open>A label named by a successful request is printed afterwards.\<close>

lemma marked_printed:
  assumes "mark_serial_labels_printed_once others uid ids now d = (Inr rows, d')" "s \<in> set (serials d')" "int (ser_id s) \<in> set ids"
  shows "ser_label_printed_at s \<noteq> None"
  using assms by (auto simp: mark_serial_labels_printed_once_def Let_def upd_rows_def unprinted_def printed_def split: if_splits)

lemma rows_in:
  assumes "distinct (map ser_id ss)" "\<And>s. s \<in> set ss \<Longrightarrow> P s \<Longrightarrow> int (ser_id s) \<in> A" "finite A"
  shows "length (filter P ss) \<le> card A"
proof -
  have "distinct (map (int \<circ> ser_id) (filter P ss))"
    using assms(1) distinct_map_filter [of "int \<circ> ser_id" ss P] by (auto simp: distinct_map comp_def inj_on_def)
  then have "length (filter P ss) = card (set (map (int \<circ> ser_id) (filter P ss)))" by (metis distinct_card length_map)
  also have "\<dots> \<le> card A" using assms(2,3) by (intro card_mono) auto
  finally show ?thesis .
qed

text \<open>
  The label of a serial is printed once: after a request that printed it, every other request
  that names it is refused, whether it comes later or had read the serials before and writes last.
\<close>

theorem label_printed_once:
  assumes "mark_serial_labels_printed_once others uid ids now d0 = (Inr rows, d')" "i \<in> set ids" "i \<in> set ids'"
    and "distinct (map ser_id (serials d'))"
  shows "(\<exists>m. mark_serial_labels_printed_once others' uid' ids' now' d' = (Inl m, d')) \<and>
    (\<exists>m. fst (mark_serial_labels_printed_once (\<lambda>e. d') uid' ids' now' d) = Inl m)"
proof
  let ?ids = "remdups ids'"
  have ne: "?ids \<noteq> []" using assms(3) by auto
  have pr: "\<And>s. s \<in> set (serials d') \<Longrightarrow> int (ser_id s) = i \<Longrightarrow> ser_label_printed_at s \<noteq> None"
    using marked_printed [OF assms(1)] assms(2) by blast
  have less: "length (filter P (serials d')) < length ?ids"
    if "\<And>s. s \<in> set (serials d') \<Longrightarrow> P s \<Longrightarrow> int (ser_id s) \<in> set ids' - {i}" for P
  proof -
    have "length (filter P (serials d')) \<le> card (set ids' - {i})" by (rule rows_in [OF assms(4) that]) simp_all
    also have "\<dots> < card (set ids')" using assms(3) by (intro psubset_card_mono) auto
    also have "\<dots> = length ?ids" by (simp add: length_remdups_card_conv)
    finally show ?thesis .
  qed
  have seen: "list_ex (\<lambda>s. ser_label_printed_at s \<noteq> None) (of_ids ?ids (serials d'))" if "length (of_ids ?ids (serials d')) = length ?ids"
  proof (rule ccontr)
    assume "\<not> ?thesis"
    then have "\<And>s. s \<in> set (serials d') \<Longrightarrow> int (ser_id s) \<in> set ids' \<Longrightarrow> ser_label_printed_at s = None"
      by (auto simp: of_ids_def list_ex_iff)
    then have "\<And>s. s \<in> set (serials d') \<Longrightarrow> int (ser_id s) \<in> set ids' \<Longrightarrow> int (ser_id s) \<in> set ids' - {i}"
      using pr by blast
    from less [OF this] have "length (filter (\<lambda>s. int (ser_id s) \<in> set ids') (serials d')) < length ?ids" .
    with that show False by (simp add: of_ids_def)
  qed
  then show "\<exists>m. mark_serial_labels_printed_once others' uid' ids' now' d' = (Inl m, d')"
    using ne by (auto simp: mark_serial_labels_printed_once_def Let_def)
  have "count_rows (unprinted ?ids) (serials d') < length ?ids"
    unfolding count_rows_def unprinted_def set_remdups by (rule less) (use pr in blast)
  then show "\<exists>m. fst (mark_serial_labels_printed_once (\<lambda>e. d') uid' ids' now' d) = Inl m"
    using ne by (auto simp: mark_serial_labels_printed_once_def Let_def)
qed

end
