(* ===== verification/TransferRoutes.thy ===== *)
theory TransferRoutes
  imports Pages Transfers Receipts
begin

text \<open>
  The pages of transfers and receipts, \<open>app/routers/transfers.py\<close> and \<open>app/routers/receipts.py\<close>.
  \<open>fetched\<close> tells whether the page asked with the header of a script; the new identifiers are
  parameters.  A request that fails leaves the database as it was.
\<close>

section \<open>Transfers\<close>

definition TRANSFER_ROLES :: role_arg where
  "TRANSFER_ROLES = ItemsArg (map RoleItem [SUPER_ADMIN, ADMIN, WAREHOUSE_MANAGER])"

definition require_transfer_user :: "server \<Rightarrow> request \<Rightarrow> db \<Rightarrow> http_error + user" where
  "require_transfer_user srv rq d = with_role srv rq (Some TRANSFER_ROLES) d"

datatype transfer_page =
    TransferList "local_transfer list" "string option"
  | NewTransfer string string "string option"
  | TransferDetail local_transfer "transfer_item list" bool bool bool nat nat "string option" "string option"

definition wants_json_or_fetch :: "request \<Rightarrow> bool \<Rightarrow> bool" where
  "wants_json_or_fetch rq fetched \<longleftrightarrow> wants_json rq \<or> fetched"

definition transfer_address :: "nat \<Rightarrow> string" where
  "transfer_address tid = ''/transfers/'' @ nat_str tid"

definition transfer_error :: "request \<Rightarrow> bool \<Rightarrow> nat \<Rightarrow> string \<Rightarrow> transfer_page answer" where
  "transfer_error rq fetched tid m =
    (if wants_json_or_fetch rq fetched then Data 400 [(''ok'', JBool False), (''error'', JStr m)]
     else Redirect (transfer_address tid) [(''error'', m)])"

definition transfer_list :: "server \<Rightarrow> request \<Rightarrow> string option \<Rightarrow> db \<Rightarrow> transfer_page answer \<times> db" where
  "transfer_list srv rq message d = asked (require_transfer_user srv rq d) d (\<lambda>u.
     (Page 200 (TransferList (take 250 (rev (sort_key trf_created_at (transfers d)))) message), d))"

definition new_transfer_page :: "server \<Rightarrow> request \<Rightarrow> db \<Rightarrow> transfer_page answer \<times> db" where
  "new_transfer_page srv rq d = asked (require_transfer_user srv rq d) d (\<lambda>u. (Page 200 (NewTransfer [] [] None), d))"

definition create_transfer :: "server \<Rightarrow> string \<Rightarrow> request \<Rightarrow> string \<Rightarrow> string \<Rightarrow> db \<Rightarrow> transfer_page answer \<times> db" where
  "create_transfer srv uuid rq peer remark d = asked (require_transfer_user srv rq d) d (\<lambda>u.
    (case create_outbound_transfer (srv_settings srv) uuid (usr_id u) peer (Some remark) (rq_now rq) d of
       Inl (TransferError m) \<Rightarrow> (Page 400 (NewTransfer peer remark (Some m)), d)
     | Inl e \<Rightarrow> (Failed (Broken e), d)
     | Inr (d', t) \<Rightarrow> (Redirect (transfer_address (trf_id t)) [], d')))"

definition transfer_detail ::
  "server \<Rightarrow> request \<Rightarrow> nat \<Rightarrow> string option \<Rightarrow> string option \<Rightarrow> db \<Rightarrow> transfer_page answer \<times> db"
where
  "transfer_detail srv rq tid err message d = asked (require_transfer_user srv rq d) d (\<lambda>u.
    (case get_transfer d tid of None \<Rightarrow> (Plain 404 ''Transfer not found.'', d)
     | Some t \<Rightarrow>
         let its = items_of_transfer d tid
         in (Page 200 (TransferDetail t its (trf_direction t = OUTBOUND) (trf_status t = TS_DRAFT) (trf_status t \<in> set receivable)
              (length (filter tri_scanned its)) (length (filter tri_received its)) err message), d)))"

text \<open>A change of one transfer: a \<open>TransferError\<close> is shown, any other error is the server's.\<close>

definition with_transfer ::
  "server \<Rightarrow> request \<Rightarrow> bool \<Rightarrow> nat \<Rightarrow> db \<Rightarrow> (user \<Rightarrow> exc + transfer_page answer \<times> db) \<Rightarrow> transfer_page answer \<times> db"
where
  "with_transfer srv rq fetched tid d change = asked (require_transfer_user srv rq d) d (\<lambda>u.
     if get_transfer d tid = None then (Plain 404 ''Transfer not found.'', d)
     else (case change u of
       Inl (TransferError m) \<Rightarrow> (transfer_error rq fetched tid m, d)
     | Inl e \<Rightarrow> (Failed (Broken e), d)
     | Inr answer \<Rightarrow> answer))"

definition item_answer :: "request \<Rightarrow> bool \<Rightarrow> nat \<Rightarrow> transfer_item \<Rightarrow> nat \<Rightarrow> transfer_page answer" where
  "item_answer rq fetched tid i n =
    (if wants_json_or_fetch rq fetched then Data 200 [(''ok'', JBool True), (''serial'', JStr (tri_manifest_number i)),
       (''product'', JStr (tri_product_name i)), (''item_count'', JInt (int n))]
     else Redirect (transfer_address tid) [])"

definition add_transfer_item :: "server \<Rightarrow> request \<Rightarrow> bool \<Rightarrow> nat \<Rightarrow> string \<Rightarrow> db \<Rightarrow> transfer_page answer \<times> db" where
  "add_transfer_item srv rq fetched tid number d = with_transfer srv rq fetched tid d (\<lambda>u.
     bind_res (add_outbound_serial (IdRef tid) number (rq_now rq) d) (\<lambda>(d', i).
       Inr (item_answer rq fetched tid i (length (items_of_transfer d' tid)), d')))"

definition delete_transfer_item :: "server \<Rightarrow> request \<Rightarrow> bool \<Rightarrow> nat \<Rightarrow> nat \<Rightarrow> db \<Rightarrow> transfer_page answer \<times> db" where
  "delete_transfer_item srv rq fetched tid iid d = with_transfer srv rq fetched tid d (\<lambda>u.
     bind_res (remove_outbound_serial (IdRef tid) iid d) (\<lambda>d'. Inr (Redirect (transfer_address tid) [], d')))"

definition dispatch_transfer :: "server \<Rightarrow> request \<Rightarrow> bool \<Rightarrow> nat \<Rightarrow> db \<Rightarrow> transfer_page answer \<times> db" where
  "dispatch_transfer srv rq fetched tid d = with_transfer srv rq fetched tid d (\<lambda>u.
     bind_res (dispatch_outbound_transfer (srv_sha srv) (srv_settings srv) (srv_event_id srv) (IdRef tid) u (rq_now rq) d) (\<lambda>d'.
       Inr (Redirect (transfer_address tid) [(''message'', ''Transfer dispatched and queued for Setuora Master.'')], d')))"

definition scan_transfer_receipt :: "server \<Rightarrow> request \<Rightarrow> bool \<Rightarrow> nat \<Rightarrow> string \<Rightarrow> db \<Rightarrow> transfer_page answer \<times> db" where
  "scan_transfer_receipt srv rq fetched tid number d = with_transfer srv rq fetched tid d (\<lambda>u.
     bind_res (scan_inbound_transfer_item (IdRef tid) number (rq_now rq) d) (\<lambda>d'.
       let its = items_of_transfer d' tid
       in (case find (\<lambda>i. tri_manifest_number i = normalize_serial number) its of
            None \<Rightarrow> Inl (AttributeError ''item'')
          | Some i \<Rightarrow> Inr (item_answer rq fetched tid i (length (filter tri_scanned its)), d'))))"

definition receive_transfer :: "server \<Rightarrow> request \<Rightarrow> bool \<Rightarrow> nat \<Rightarrow> db \<Rightarrow> transfer_page answer \<times> db" where
  "receive_transfer srv rq fetched tid d = with_transfer srv rq fetched tid d (\<lambda>u.
     bind_res (finalize_inbound_receipt (srv_sha srv) (srv_settings srv) (srv_event_id srv) (IdRef tid) u (rq_now rq) d) (\<lambda>d'.
       Inr (Redirect (transfer_address tid) [(''message'', ''Scanned stock received and the receipt queued for Master.'')], d')))"

section \<open>Receipts\<close>

definition RECEIPT_ROLES :: role_arg where
  "RECEIPT_ROLES = ItemsArg (map RoleItem [SUPER_ADMIN, ADMIN, SALES])"

definition require_receipt_user :: "server \<Rightarrow> request \<Rightarrow> db \<Rightarrow> http_error + user" where
  "require_receipt_user srv rq d = with_role srv rq (Some RECEIPT_ROLES) d"

datatype receipt_page =
    ReceiptList "receipt list" string "string option" "string option"
  | ProofImage "nat list" string string

text \<open>\<open>today\<close> is the day of the server's own clock.\<close>

definition receipt_list ::
  "server \<Rightarrow> request \<Rightarrow> day \<Rightarrow> string option \<Rightarrow> string option \<Rightarrow> db \<Rightarrow> receipt_page answer \<times> db"
where
  "receipt_list srv rq today message err d = asked (require_receipt_user srv rq d) d (\<lambda>u.
     (Page 200 (ReceiptList (take 250 (rev (sort_key rcp_created_at (receipts d)))) (iso_date today) message err), d))"

text \<open>The image is read up to one byte more than is allowed.\<close>

definition submit_receipt ::
  "server \<Rightarrow> string \<Rightarrow> request \<Rightarrow> day \<Rightarrow> nat list \<Rightarrow> string option \<Rightarrow> string \<Rightarrow> db \<Rightarrow> receipt_page answer \<times> db"
where
  "submit_receipt srv uuid rq date proof content_type utr d = asked (require_receipt_user srv rq d) d (\<lambda>u.
    (case create_receipt (srv_sha srv) (srv_settings srv) (srv_event_id srv) uuid u date (take (max_proof_image_bytes + 1) proof)
        content_type utr (rq_now rq) d of
       Inl (ReceiptError m) \<Rightarrow> (Redirect ''/receipts'' [(''error'', m)], d)
     | Inl e \<Rightarrow> (Failed (Broken e), d)
     | Inr (d', r) \<Rightarrow> (Redirect ''/receipts'' [(''message'', ''Receipt queued for Master review.'')], d')))"

definition receipt_proof :: "server \<Rightarrow> request \<Rightarrow> nat \<Rightarrow> db \<Rightarrow> receipt_page answer \<times> db" where
  "receipt_proof srv rq rid d = asked (require_receipt_user srv rq d) d (\<lambda>u.
    (case find (\<lambda>r. rcp_id r = rid) (receipts d) of None \<Rightarrow> (Plain 404 ''Receipt not found.'', d)
     | Some r \<Rightarrow> (Page 200 (ProofImage (rcp_proof_image r) (rcp_content_type r) (''receipt-'' @ rcp_uuid r @ ''.img'')), d)))"

section \<open>Requests leave transfers and receipts consistent\<close>

text \<open>A request to a transfer that is shown as an error, or that the server breaks on, changes nothing.\<close>

lemma failed_transfer_request:
  assumes "\<And>u e. change u \<noteq> Inr (a, e)"
    and "with_transfer srv rq fetched tid d change = (a, d')"
  shows "d' = d"
  using assms by (auto simp: with_transfer_def asked_def split: sum.splits if_splits exc.splits)

end
