(* ===== verification/OfficeRoutes.thy ===== *)
theory OfficeRoutes
  imports Pages Receipts Director Labels
begin

text \<open>
  The pages of planned audits, the dashboard and the expiry page:
  \<open>app/routers/audit_assignments.py\<close>, \<open>app/routers/dashboard.py\<close>,
  \<open>app/routers/expiry.py\<close>.  Templates are answered by their data.
\<close>

section \<open>Planned audits\<close>

text \<open>
  \<open>_parse_local_datetime\<close>: a text without an offset is read as Indian time.  The forms of
  \<open>fromisoformat\<close> are those of \<open>Receipts.parse_iso_moment\<close>.
\<close>

definition has_offset :: "string \<Rightarrow> bool" where
  "has_offset s \<longleftrightarrow> list_ex zone_mark (drop 11 s)"

definition parse_local_datetime :: "string \<Rightarrow> string \<Rightarrow> exc + moment" where
  "parse_local_datetime v label =
    (let s = py_strip v
     in case parse_iso_moment s of
          None \<Rightarrow> Inl (InventoryError (''Choose a valid audit '' @ label @ '' date and time''))
        | Some t \<Rightarrow> Inr (if has_offset s then t else t - minutes 330))"

definition can_manage :: "server \<Rightarrow> user \<Rightarrow> db \<Rightarrow> bool" where
  "can_manage srv u d = role_has_access (srv_loads srv) d (TextArg (usr_role u)) ''audit_assignment_manage'' (Some [''edit''])"

record assignment_row =
  asr_assignment :: audit_assignment
  asr_progress :: progress
  asr_starts_local :: moment
  asr_ends_local :: moment
  asr_latest_batch :: batch

record assignments_page =
  asp_rows :: "assignment_row list"
  asp_auditors :: "user list"
  asp_products :: "product list"
  asp_can_manage :: bool
  asp_error :: "string option"
  asp_form :: "(string \<times> string) list"

text \<open>An assignment without a batch makes \<open>max\<close> raise.\<close>

definition assignment_row_of :: "moment \<Rightarrow> db \<Rightarrow> audit_assignment \<Rightarrow> exc + assignment_row" where
  "assignment_row_of now d a =
    (case latest_batch (assignment_batches d (asg_id a)) of
       None \<Rightarrow> Inl (ValueError ''max() arg is an empty sequence'')
     | Some b \<Rightarrow> Inr \<lparr>asr_assignment = a, asr_progress = assignment_progress d a now, asr_starts_local = ist (asg_starts_at a),
         asr_ends_local = ist (asg_ends_at a), asr_latest_batch = b\<rparr>)"

fun rows_of :: "moment \<Rightarrow> db \<Rightarrow> audit_assignment list \<Rightarrow> exc + assignment_row list" where
  "rows_of now d [] = Inr []"
| "rows_of now d (a # as) = bind_res (assignment_row_of now d a) (\<lambda>r. bind_res (rows_of now d as) (\<lambda>rs. Inr (r # rs)))"

definition assignments_context ::
  "server \<Rightarrow> request \<Rightarrow> user \<Rightarrow> string option \<Rightarrow> (string \<times> string) list \<Rightarrow> db \<Rightarrow> exc + assignments_page"
where
  "assignments_context srv rq u err form d =
    (let manage = can_manage srv u d;
         own = filter (\<lambda>a. manage \<or> asg_auditor_id a = usr_id u) (assignments d)
     in bind_res (rows_of (rq_now rq) d (rev (sort_key (\<lambda>a. (asg_ends_at a, asg_id a)) own))) (\<lambda>rows.
          Inr \<lparr>asp_rows = rows,
            asp_auditors = filter (\<lambda>c. has_role (TextArg (usr_role c)) (RoleArg AUDITOR))
              (sort_key usr_username (filter (\<lambda>c. usr_active c \<and> usr_deleted_at c = None) (users d))),
            asp_products = sort_key prd_name (filter prd_active (products d)), asp_can_manage = manage, asp_error = err, asp_form = form\<rparr>))"

definition assignments_answer ::
  "server \<Rightarrow> request \<Rightarrow> nat \<Rightarrow> user \<Rightarrow> string option \<Rightarrow> (string \<times> string) list \<Rightarrow> db \<Rightarrow> assignments_page answer"
where
  "assignments_answer srv rq status u err form d =
    (case assignments_context srv rq u err form d of Inl e \<Rightarrow> Failed (Broken e) | Inr page \<Rightarrow> Page status page)"

definition audit_assignments :: "server \<Rightarrow> request \<Rightarrow> db \<Rightarrow> assignments_page answer \<times> db" where
  "audit_assignments srv rq d = asked (permitted srv rq ''audit_assignment_manage'' None d) d (\<lambda>u.
     (assignments_answer srv rq 200 u None [] d, d))"

definition manager :: "server \<Rightarrow> request \<Rightarrow> db \<Rightarrow> http_error + user" where
  "manager srv rq d = permitted srv rq ''audit_assignment_manage'' (Some [''edit'']) d"

text \<open>The answer to a change: an \<open>InventoryError\<close> shows the page again with the form.\<close>

definition planned ::
  "server \<Rightarrow> request \<Rightarrow> user \<Rightarrow> (string \<times> string) list \<Rightarrow> exc + db \<times> audit_assignment \<Rightarrow> db \<Rightarrow> assignments_page answer \<times> db"
where
  "planned srv rq u form result d =
    (case result of Inr (d', a) \<Rightarrow> (Redirect ''/audit-assignments'' [], d')
     | Inl (InventoryError m) \<Rightarrow> (assignments_answer srv rq 400 u (Some m) form d, d)
     | Inl e \<Rightarrow> (Failed (Broken e), d))"

definition assign_audit ::
  "server \<Rightarrow> request \<Rightarrow> nat \<Rightarrow> nat \<Rightarrow> string \<Rightarrow> string \<Rightarrow> string \<Rightarrow> db \<Rightarrow> assignments_page answer \<times> db"
where
  "assign_audit srv rq pid aid starts ends remark d = asked (manager srv rq d) d (\<lambda>u.
     planned srv rq u [(''product_id'', nat_str pid), (''auditor_id'', nat_str aid), (''starts_at'', starts), (''ends_at'', ends), (''notes'', remark)]
       (case get_product d pid of None \<Rightarrow> Inl (InventoryError ''Choose an active product'')
        | Some p \<Rightarrow>
            if \<not> prd_active p then Inl (InventoryError ''Choose an active product'')
            else case get_user d aid of None \<Rightarrow> Inl (InventoryError ''Choose an auditor'')
            | Some auditor \<Rightarrow>
                bind_res (parse_local_datetime starts ''start'') (\<lambda>s. bind_res (parse_local_datetime ends ''end'') (\<lambda>e.
                  create_audit_assignment p auditor u s e (Some remark) (rq_now rq) d))) d)"

definition extend_audit_deadline :: "server \<Rightarrow> request \<Rightarrow> nat \<Rightarrow> string \<Rightarrow> db \<Rightarrow> assignments_page answer \<times> db" where
  "extend_audit_deadline srv rq aid ends d = asked (manager srv rq d) d (\<lambda>u.
     planned srv rq u [(''extend_assignment_id'', nat_str aid), (''extend_ends_at'', ends)]
       (case get_assignment d aid of None \<Rightarrow> Inl (InventoryError ''Choose an audit assignment'')
        | Some a \<Rightarrow> bind_res (parse_local_datetime ends ''end'') (\<lambda>e. extend_audit_assignment_deadline a u e (rq_now rq) d)) d)"

section \<open>Dashboard\<close>

definition recent_batches :: "db \<Rightarrow> batch list" where
  "recent_batches d = take 8 (rev (sort_key bat_created_at (batches d)))"

definition recent_scans :: "db \<Rightarrow> scan_log list" where
  "recent_scans d = take 8 (rev (sort_key log_created_at (scan_logs d)))"

definition short_day :: "day \<Rightarrow> string" where
  "short_day n = (case civil n of (y, m, k) \<Rightarrow> zero_pad 2 (nat k) @ '' '' @ month_abbreviations ! (nat m - 1))"

text \<open>The scans of today and of the six days before, in UTC.\<close>

definition scan_activity_chart :: "moment \<Rightarrow> db \<Rightarrow> nat \<times> chart_part list" where
  "scan_activity_chart now d =
    (let today = day_of now; days = map (\<lambda>k. today - 6 + int k) [0..<7];
         recent = filter (\<lambda>t. (today - 6) * microseconds_per_day \<le> t) (map log_created_at (scan_logs d))
     in bar_chart (map (\<lambda>n. (short_day n, length (filter (\<lambda>t. day_of t = n) recent))) days) 8 True)"

text \<open>The groups of the status summary, in the order of the stored status.\<close>

definition status_items :: "db \<Rightarrow> (string \<times> nat) list" where
  "status_items d = map (\<lambda>l. (l, status_summary d l))
     (remdups_adj (map status_label (sort_key serial_status_value (remdups (map ser_status (serials d))))))"

definition stock_chart :: "db \<Rightarrow> donut" where "stock_chart d = donut_chart (status_items d) 6"

record admin_stock =
  ads_q :: string
  ads_rows :: "product_stock_row list"
  ads_options :: "(string \<times> string) list"
  ads_live_url :: "string \<times> (string \<times> string) list"

definition is_admin :: "user \<Rightarrow> bool" where
  "is_admin u = has_any_role (TextArg (usr_role u)) (ItemsArg [RoleItem SUPER_ADMIN, RoleItem ADMIN])"

definition admin_stock_context :: "user \<Rightarrow> string \<Rightarrow> db \<Rightarrow> admin_stock" where
  "admin_stock_context u product_q d =
    (if \<not> is_admin u then \<lparr>ads_q = [], ads_rows = [], ads_options = [], ads_live_url = (''/dashboard/data'', [])\<rparr>
     else let q = py_strip product_q
     in \<lparr>ads_q = q, ads_rows = director_product_stock_rows d q None, ads_options = director_product_filter_options d,
         ads_live_url = (''/dashboard/data'', if q = [] then [] else [(''product_q'', q)])\<rparr>)"

record dashboard_page =
  dbp_counts :: Labels.dashboard
  dbp_stock :: admin_stock
  dbp_stock_chart :: donut
  dbp_scan_chart :: "nat \<times> chart_part list"
  dbp_expiry :: expiry_report
  dbp_batches :: "batch list"
  dbp_scans :: "scan_log list"
  dbp_alerts :: "(batch \<times> shelf_state) list"

text \<open>The page and the data it is refreshed with show the same; only the frame differs.\<close>

definition dashboard_context :: "request \<Rightarrow> user \<Rightarrow> string \<Rightarrow> db \<Rightarrow> dashboard_page" where
  "dashboard_context rq u product_q d =
    \<lparr>dbp_counts = dashboard_counts (rq_now rq) d, dbp_stock = admin_stock_context u product_q d, dbp_stock_chart = stock_chart d,
     dbp_scan_chart = scan_activity_chart (rq_now rq) d, dbp_expiry = expiry_summary d (day_of (rq_now rq)) None,
     dbp_batches = recent_batches d, dbp_scans = recent_scans d,
     dbp_alerts = (if is_admin u then pending_shelf_batches d (Some 8) else [])\<rparr>"

definition dashboard_answer :: "server \<Rightarrow> request \<Rightarrow> string \<Rightarrow> db \<Rightarrow> dashboard_page answer \<times> db" where
  "dashboard_answer srv rq product_q d = asked (permitted srv rq ''dashboard_data'' None d) d (\<lambda>u.
     (Page 200 (dashboard_context rq u product_q d), d))"

definition dashboard_data :: "server \<Rightarrow> request \<Rightarrow> string \<Rightarrow> db \<Rightarrow> dashboard_page answer \<times> db" where
  "dashboard_data srv rq product_q d = asked (permitted srv rq ''dashboard_data'' None d) d (\<lambda>u.
     (Page 200 (dashboard_context rq u product_q d), d))"

definition expiry_dashboard :: "server \<Rightarrow> request \<Rightarrow> db \<Rightarrow> expiry_report answer \<times> db" where
  "expiry_dashboard srv rq d = asked (permitted srv rq ''expiry_analytics'' None d) d (\<lambda>u.
     (Page 200 (expiry_summary d (day_of (rq_now rq)) None), d))"



end
