(* ===== verification/Spec2Isabelle.thy ===== *)
theory Spec2Isabelle
  imports TransferScenarios WarehouseScenarios ReportScenarios ConnectionScenarios RequestScenarios WarehouseRoutes LabelRoutes TransferRoutes
    OfficeRoutes
begin

text \<open>
  A model of Setuora Lite, the inventory program one franchise runs beside its accounting program
  Tally and the Master of the network.  The code is the Python package \<open>app\<close>; file names below
  are relative to it.

  The program.  A web server (FastAPI) answers requests of signed-in users; every request opens one
  SQLAlchemy session on one SQLite file, calls a handler of \<open>routers/\<close>, which calls the
  operations of \<open>services/\<close>, and ends in a commit or a rollback.  Physical units are rows of
  \<open>serials\<close>, each with a status.  A batch collects scanned serials (a purchase, a sale, a return,
  an audit, an assignment) and its submission moves all of them from one status to the next.  A change
  of stock is queued in \<open>outbox_events\<close> for the Master in the same transaction; a worker delivers
  the events in strict order and applies the commands the Master has waiting (\<open>inbox_commands\<close>).
  Other workers post submitted batches to Tally as XML vouchers, run the read requests to Tally
  that pages have queued, and exchange files with the Master over SFTP.

  How it is modelled.  A class of \<open>models.py\<close> is a record with one field per column, the database
  the record \<open>db\<close> of its tables (lists of rows).  An operation is a function from the database,
  and the session's user and time where it reads them, to an exception or the new database; an
  exception of the code is a constructor of \<open>exc\<close>, and the rollback the operation or its caller
  makes is the unchanged database.  A handler is a function from a request to an \<open>answer\<close> and the
  database, where a template is answered by the data it is given.  What other sessions
  commit while an operation is between its reads and its conditional update is an argument
  (\<open>env\<close>, \<open>others\<close>, a \<open>view\<close> loaded earlier).  Hashes, keyed digests, password hashing,
  \<open>json.loads\<close>, the XML parser, openpyxl's reader, the HTTP opener, the SFTP server, random
  identifiers and the clock are arguments as well; what a theorem needs of them is among its hypotheses.

  Library.  \<open>Prelude\<close> holds Python's text functions, rows, loops that stop at the first exception,
  and the locales \<open>machine\<close> and \<open>monotone_machine\<close> (invariants of operations run in any
  sequence).  \<open>Models\<close>, \<open>Store\<close>: \<open>models.py\<close>, lookups, and the compare-and-swap on a
  serial's status with its contract \<open>status_store\<close>, \<open>claim_loop\<close>, \<open>one_way_loop\<close> (the last
  in \<open>TransferFacts\<close>).  \<open>Numbers\<close>: \<open>float\<close> and \<open>Decimal\<close> as rationals with the
  rounding of each result.  \<open>Calendar\<close>, \<open>CalendarFacts\<close>, \<open>DateTexts\<close>: \<open>datetime\<close>.
  \<open>Json\<close>, \<open>PyJson\<close>: \<open>json.dumps\<close> and what Python makes of decoded values.  \<open>Xml\<close>,
  \<open>Urls\<close>: \<open>xml.etree\<close> and \<open>urllib.parse\<close>.  \<open>Analytics\<close>: dictionaries filled by
  grouping.

  Stock.  \<open>Inventory\<close> (\<open>services/inventory.py\<close>), \<open>Expiry\<close> (picking of
  \<open>services/expiry.py\<close>), \<open>ShelfVerification\<close>, \<open>SaleReturns\<close>, \<open>Labels\<close>, \<open>Relocation\<close>,
  \<open>Replacement\<close>, \<open>Assignment\<close>, \<open>Audits\<close>, \<open>Voucher\<close> (the services of the same names;
  \<open>Labels\<close> is \<open>generate_serials\<close> and the dashboard's counts).  Shown: exactly when a submission
  succeeds and which serials it moves; that two sessions that loaded the same stock cannot both
  move a serial; freshness of generated numbers under interleaving; that a relocation moves
  exactly the requested units or none; that a replacement leaves one usable number for the unit; that a
  reconciliation stores one finding about every serial, of the right class; FEFO order of what is picked.

  Master.  \<open>Outbox\<close> and \<open>Delivery\<close> (the two halves of \<open>services/master_sync.py\<close>'s sending
  side), \<open>Commands\<close>, \<open>CommandFacts\<close> (its receiving side), \<open>Transfers\<close>, \<open>TransferFacts\<close>,
  \<open>Reservations\<close> (\<open>services/transfer.py\<close>), \<open>MasterQr\<close>, \<open>Receipts\<close>, \<open>SftpSync\<close>
  (\<open>services/sftp_tally_sync.py\<close>), \<open>Connection\<close> (\<open>routers/lite_sync.py\<close>), \<open>Config\<close>
  (\<open>config.py\<close>).  Shown: the baseline partition loses nothing and keeps the Master's limits; queued
  events are never rewritten, reordered or dropped, and are pushed in sequence; a command is applied once,
  and one that fails leaves nothing but its inbox row; dispatch and receipt move exactly the
  listed serials and no serial is promised to two open transfers; an item of a dispatch
  event recreates its serial and product; a file of the Master whose import Tally confirmed is not posted again; the
  link to a node is permanent; settings files are read back as saved.

  Tally.  \<open>Configuration\<close> (\<open>services/settings.py\<close>), \<open>Tally\<close>, \<open>TallyFacts\<close>,
  \<open>TallySync\<close> (\<open>services/tally.py\<close> and the batch queue of \<open>services/sync_worker.py\<close>),
  \<open>TallyMasters\<close>, \<open>TallyCache\<close>, \<open>TallyJobs\<close>, \<open>TallyAccess\<close>, \<open>TallyExcel\<close>
  (the services of the same names).  Shown: a voucher's postings sum to zero and agree with the exported
  sheet; a synchronised batch is never posted again; a request whose fate is unknown, because the answer
  was lost, an exception escaped or the process ended after the claim was committed, is repeated letter by
  letter; a refreshed cache is what Tally sent; the job queue is bounded and without repetitions; at
  most one company is active.

  Users and pages.  \<open>Security\<close> (\<open>security.py\<close>, \<open>auth.py\<close>), \<open>Access\<close>
  (\<open>services/access_control.py\<close>), \<open>Web\<close> (\<open>middleware.py\<close>), \<open>Accounts\<close>
  (\<open>routers/auth.py\<close>, \<open>account.py\<close>, \<open>users.py\<close>), \<open>BatchPages\<close> and \<open>BatchRoutes\<close>
  (\<open>routers/batches.py\<close>), \<open>Pages\<close> (what the other handlers share), \<open>SettingsRoutes\<close>,
  \<open>ProductRoutes\<close>, \<open>WarehouseRoutes\<close>, \<open>TransferRoutes\<close> (with \<open>routers/receipts.py\<close>),
  \<open>LabelRoutes\<close> (\<open>routers/serials.py\<close>, \<open>barcode_assignment.py\<close>, \<open>replacements.py\<close>,
  \<open>services/label_printing.py\<close>), \<open>OfficeRoutes\<close> (\<open>routers/audit_assignments.py\<close>,
  \<open>dashboard.py\<close>, \<open>expiry.py\<close>).  Shown: a session cookie round trip and its expiry; the bound
  on failed sign-ins; which changes end every session of an account; the locks of the permission
  matrix; that only the program's own pages reach a changing handler; that a submission is all
  or nothing with its event; that the settings pages of a Lite installation never switch posting on; that a
  label is printed once.

  Reports.  \<open>ReportFormat\<close>, \<open>ExpiryReport\<close>, \<open>Movement\<close>, \<open>Director\<close> (with
  \<open>services/losses.py\<close> and \<open>charts.py\<close>), \<open>Sheets\<close> (\<open>services/exports.py\<close>,
  \<open>log_fields.py\<close>).  Shown: every unit and every sale of the window is counted once; totals add up
  through every grouping; no exported cell starts a spreadsheet formula; every label is on exactly
  one page.

  Scenarios.  \<open>Examples\<close>, \<open>Scenarios\<close>, \<open>TransferScenarios\<close>, \<open>WarehouseScenarios\<close>,
  \<open>ReportScenarios\<close>, \<open>TallyScenarios\<close>, \<open>AccountScenarios\<close>, \<open>ConnectionScenarios\<close>
  and \<open>RequestScenarios\<close> run the properties on a small shop: each \<open>..._witness\<close> applies one
  property where its hypotheses hold.

  Bounds.  There is no fuel: loops of the code are structural recursion, folds over rows, or recursion
  with a proved measure.  The search for a free product code is a \<open>partial_function\<close>, and
  \<open>import_code_found\<close> proves that it returns.  Python's integers are \<open>int\<close>; moments are
  microseconds as integers.  Characters are code points below 256, with case and white space of ASCII.
  Floats are finite rationals.

  Where the code does something else than it means to, a theorem may say so:
  \<open>bad_rate_blocks_queue\<close>, \<open>deleted_account_returns\<close>, \<open>failed_upload_not_repeated\<close>,
  \<open>hyphen_code_locks\<close>, \<open>redated_voucher_breaks_refresh\<close>,
  \<open>planned_product_breaks_deletion\<close>.

  Not modelled.  Rendering: PDF layout, QR pixels, workbook styles, \<open>services/preinvoice.py\<close>, the
  templates and static files.  \<open>services/backup.py\<close>, \<open>backup_worker.py\<close>,
  \<open>database_reset.py\<close>, \<open>schema.py\<close>, \<open>bootstrap.py\<close>, \<open>database.py\<close> and
  \<open>routers/maintenance.py\<close>: file copies, pragmas and schema changes of the deployed
  database.  The remaining pages \<open>routers/reports.py\<close>, \<open>tally_check.py\<close> and
  \<open>stock_movement.py\<close>, which only combine modelled services, and \<open>routers/role_access.py\<close>, which
  is not mounted.  The wiring of \<open>main.py\<close>, the asyncio loops of the workers, the transport of HTTP and
  SFTP, the deployment scripts.  Also outside the model: infinite floats and floats that are not numbers, the
  driver's text of an \<open>IntegrityError\<close>, characters beyond Latin-1 and digits beyond ASCII, and
  concurrency other than serialised transactions and the interleavings the arguments above state.
\<close>

end
